(* ===== verification/Ndm_Prelude.thy ===== *)
theory Ndm_Prelude
  imports Main "HOL-Library.Word"
begin

text \<open>
  Shared vocabulary of the development: the machine types of the library, the
  results of a C function (a value, an \<open>errno\<close>, undefined behaviour), blocks of
  memory as byte lists whose accesses are checked against the end of the block,
  the system allocator as an oracle, and generic facts on lists and words.
\<close>

unbundle bit_operations_syntax

type_synonym u8 = "8 word"
type_synonym u16 = "16 word"
type_synonym u32 = "32 word"
type_synonym u64 = "64 word"

named_theorems mem_simps \<open>blocks of memory: reads, writes, moves\<close>
named_theorems layout_simps \<open>sizes of encoded fields and records\<close>
named_theorems heap_simps \<open>the allocator oracle\<close>

section \<open>Results of a C function\<close>

datatype errno =
    EINVAL | ENOMEM | EILSEQ | EMSGSIZE | EBADMSG | E2BIG | EEXIST | ENOENT | ERANGE
  | ETIMEDOUT | ECONNRESET | EIO | EINTR | EAGAIN | ENOBUFS | EBADF

text \<open>
  \<open>Ok\<close> is a return with a value, \<open>Error\<close> a return of the failure value with
  \<open>errno\<close> set, \<open>Undefined\<close> an access outside a block or a signed overflow: C
  gives such a run no meaning. A call that never returns is the \<open>None\<close> of an
  \<open>option\<close> around the result, where a loop of the source may not end.
\<close>

datatype 'a result = Ok 'a | Error errno | Undefined

fun bind_result :: "'a result \<Rightarrow> ('a \<Rightarrow> 'b result) \<Rightarrow> 'b result" where
  "bind_result (Ok x) f = f x"
| "bind_result (Error e) f = Error e"
| "bind_result Undefined f = Undefined"

definition need :: "'a option \<Rightarrow> ('a \<Rightarrow> 'b result) \<Rightarrow> 'b result" where
  "need x f = (case x of None \<Rightarrow> Undefined | Some y \<Rightarrow> f y)"

lemma need_simps [simp]: "need None f = Undefined" "need (Some y) f = f y"
  by (simp_all add: need_def)

lemma bind_result_Ok: "bind_result r f = Ok y \<longleftrightarrow> (\<exists>x. r = Ok x \<and> f x = Ok y)"
  by (cases r) auto

section \<open>Blocks of memory\<close>

text \<open>
  A block is the list of its bytes; an access names an offset into the block and
  is \<open>None\<close> when it leaves it.
\<close>

definition mem_read :: "u8 list \<Rightarrow> nat \<Rightarrow> nat \<Rightarrow> u8 list option" where
  "mem_read blk off n = (if off + n \<le> length blk then Some (take n (drop off blk)) else None)"

definition mem_write :: "u8 list \<Rightarrow> nat \<Rightarrow> u8 list \<Rightarrow> u8 list option" where
  "mem_write blk off bs =
     (if off + length bs \<le> length blk
      then Some (take off blk @ bs @ drop (off + length bs) blk) else None)"

definition mem_move :: "u8 list \<Rightarrow> nat \<Rightarrow> nat \<Rightarrow> nat \<Rightarrow> u8 list option" where
  "mem_move blk dst src n =
     (case mem_read blk src n of None \<Rightarrow> None | Some bs \<Rightarrow> mem_write blk dst bs)"

lemma mem_read_at [mem_simps]:
  "off = length xs \<Longrightarrow> n = length ys \<Longrightarrow> mem_read (xs @ ys @ zs) off n = Some ys"
  by (simp add: mem_read_def)

lemma mem_write_at [mem_simps]:
  "off = length xs \<Longrightarrow> length ys = length bs \<Longrightarrow>
   mem_write (xs @ ys @ zs) off bs = Some (xs @ bs @ zs)"
  by (simp add: mem_write_def)

lemma mem_write_length: "mem_write blk off bs = Some blk' \<Longrightarrow> length blk' = length blk"
  by (auto simp: mem_write_def split: if_splits)

lemma mem_read_length: "mem_read blk off n = Some bs \<Longrightarrow> length bs = n"
  by (auto simp: mem_read_def split: if_splits)

lemma mem_move_length: "mem_move blk d s n = Some blk' \<Longrightarrow> length blk' = length blk"
  by (auto simp: mem_move_def split: option.splits dest: mem_write_length)

section \<open>The system allocator\<close>

text \<open>
  \<open>malloc\<close> and \<open>realloc\<close> may fail at any call: \<open>answers k\<close> says whether the
  \<open>k\<close>-th request from now succeeds, and \<open>garbage\<close> gives the bytes a new block
  holds before it is written.
\<close>

record heap =
  answers :: "nat \<Rightarrow> bool"
  garbage :: "nat \<Rightarrow> u8"

definition can_alloc :: "heap \<Rightarrow> bool" where
  "can_alloc h = answers h 0"

definition heap_next :: "heap \<Rightarrow> heap" where
  "heap_next h = h\<lparr>answers := \<lambda>k. answers h (Suc k)\<rparr>"

definition no_failure :: "heap \<Rightarrow> bool" where
  "no_failure h \<longleftrightarrow> answers h = (\<lambda>_. True)"

lemma no_failure_can_alloc [heap_simps]: "no_failure h \<Longrightarrow> can_alloc h"
  by (simp add: no_failure_def can_alloc_def)

lemma no_failure_next [heap_simps]: "no_failure h \<Longrightarrow> no_failure (heap_next h)"
  by (simp add: no_failure_def heap_next_def)

text \<open>The contents after \<open>realloc\<close> to \<open>n\<close> bytes: the old bytes, then garbage.\<close>

definition resize_block :: "heap \<Rightarrow> u8 list \<Rightarrow> nat \<Rightarrow> u8 list" where
  "resize_block h blk n = take n blk @ map (garbage h) [length blk..<n]"

lemma resize_block_length [simp]: "length (resize_block h blk n) = n"
  by (simp add: resize_block_def)

lemma resize_block_shrink: "n \<le> length blk \<Longrightarrow> resize_block h blk n = take n blk"
  by (simp add: resize_block_def)

lemma resize_block_grow:
  "length blk \<le> n \<Longrightarrow> resize_block h blk n = blk @ map (garbage h) [length blk..<n]"
  by (simp add: resize_block_def)

section \<open>Words\<close>

lemma unat_of_nat_small [simp]:
  "n < 2 ^ LENGTH('a) \<Longrightarrow> unat (of_nat n :: 'a::len word) = n"
  by (simp add: unat_of_nat take_bit_nat_eq_self)

lemma of_nat_inject_small:
  "m < 2 ^ LENGTH('a) \<Longrightarrow> n < 2 ^ LENGTH('a) \<Longrightarrow>
   (of_nat m :: 'a::len word) = of_nat n \<longleftrightarrow> m = n"
  by (metis unat_of_nat_small)

lemma all_u8: "(\<forall>b::u8. P b) \<longleftrightarrow> (\<forall>n<256. P (of_nat n))"
proof
  assume *: "\<forall>n<256. P (of_nat n)"
  show "\<forall>b::u8. P b"
  proof
    fix b :: u8
    have "unat b < 256" using unsigned_less [of b] by simp
    with * have "P (of_nat (unat b))" by blast
    then show "P b" by simp
  qed
qed simp

lemma xor_left_cancel [simp]: "a XOR b = a XOR c \<longleftrightarrow> b = (c :: 'a::len word)"
  by (auto simp: bit_eq_iff bit_simps)

lemma xor_right_cancel [simp]: "b XOR a = c XOR a \<longleftrightarrow> b = (c :: 'a::len word)"
  by (auto simp: bit_eq_iff bit_simps)

lemma unat_ucast_up:
  "LENGTH('a::len) \<le> LENGTH('b::len) \<Longrightarrow> unat (ucast (x :: 'a word) :: 'b word) = unat x"
  by (simp add: unsigned_ucast_eq take_bit_nat_eq_self less_le_trans [OF unsigned_less])

end
