(* ===== verification/Endian.thy ===== *)
theory Endian
  imports Ndm_Prelude
begin

text \<open>
  Byte order conversions of \<^verbatim>\<open>include/ndm/endian.h\<close>. The host is a parameter:
  \<open>mem_bytes\<close> is the memory of an integer object in address order, and the
  conversions read it byte by byte exactly where the code does.
\<close>

datatype host = LittleEndian | BigEndian

definition mem_bytes :: "host \<Rightarrow> nat \<Rightarrow> 'a::len word \<Rightarrow> u8 list" where
  "mem_bytes h n x =
     (let bs = map (\<lambda>i. ucast (drop_bit (8 * i) x)) [0..<n]
      in case h of LittleEndian \<Rightarrow> bs | BigEndian \<Rightarrow> rev bs)"

text \<open>The integer that a load from memory of \<open>bs\<close> gives.\<close>

definition bytes_value :: "u8 list \<Rightarrow> 'a::len word" where
  "bytes_value bs = foldr (\<lambda>b acc. push_bit 8 acc OR ucast b) bs 0"

definition mem_value :: "host \<Rightarrow> u8 list \<Rightarrow> 'a::len word" where
  "mem_value h bs = bytes_value (case h of LittleEndian \<Rightarrow> bs | BigEndian \<Rightarrow> rev bs)"

definition ndm_endian_is_le :: "host \<Rightarrow> bool" where
  "ndm_endian_is_le h = (let TEST = (0xff00 :: u16) in mem_bytes h 2 TEST ! 0 = 0)"

definition ndm_endian_letoh16 :: "host \<Rightarrow> u16 \<Rightarrow> u16" where
  "ndm_endian_letoh16 h x =
     (if ndm_endian_is_le h then x
      else let p = mem_bytes h 2 x in push_bit 0 (ucast (p ! 0)) OR push_bit 8 (ucast (p ! 1)))"

definition ndm_endian_htole16 :: "host \<Rightarrow> u16 \<Rightarrow> u16" where
  "ndm_endian_htole16 h x = ndm_endian_letoh16 h x"

definition ndm_endian_letoh32 :: "host \<Rightarrow> u32 \<Rightarrow> u32" where
  "ndm_endian_letoh32 h x =
     (if ndm_endian_is_le h then x
      else let p = mem_bytes h 4 x in
        push_bit 0 (ucast (p ! 0)) OR push_bit 8 (ucast (p ! 1)) OR
        push_bit 16 (ucast (p ! 2)) OR push_bit 24 (ucast (p ! 3)))"

definition ndm_endian_htole32 :: "host \<Rightarrow> u32 \<Rightarrow> u32" where
  "ndm_endian_htole32 h x = ndm_endian_letoh32 h x"

definition ndm_endian_letoh64 :: "host \<Rightarrow> u64 \<Rightarrow> u64" where
  "ndm_endian_letoh64 h x =
     (if ndm_endian_is_le h then x
      else let p = mem_bytes h 8 x in
        push_bit 0 (ucast (p ! 0)) OR push_bit 8 (ucast (p ! 1)) OR
        push_bit 16 (ucast (p ! 2)) OR push_bit 24 (ucast (p ! 3)) OR
        push_bit 32 (ucast (p ! 4)) OR push_bit 40 (ucast (p ! 5)) OR
        push_bit 48 (ucast (p ! 6)) OR push_bit 56 (ucast (p ! 7)))"

definition ndm_endian_htole64 :: "host \<Rightarrow> u64 \<Rightarrow> u64" where
  "ndm_endian_htole64 h x = ndm_endian_letoh64 h x"

definition ndm_endian_betoh16 :: "host \<Rightarrow> u16 \<Rightarrow> u16" where
  "ndm_endian_betoh16 h x =
     (if \<not> ndm_endian_is_le h then x
      else let p = mem_bytes h 2 x in push_bit 0 (ucast (p ! 1)) OR push_bit 8 (ucast (p ! 0)))"

definition ndm_endian_htobe16 :: "host \<Rightarrow> u16 \<Rightarrow> u16" where
  "ndm_endian_htobe16 h x = ndm_endian_betoh16 h x"

definition ndm_endian_betoh32 :: "host \<Rightarrow> u32 \<Rightarrow> u32" where
  "ndm_endian_betoh32 h x =
     (if \<not> ndm_endian_is_le h then x
      else let p = mem_bytes h 4 x in
        push_bit 0 (ucast (p ! 3)) OR push_bit 8 (ucast (p ! 2)) OR
        push_bit 16 (ucast (p ! 1)) OR push_bit 24 (ucast (p ! 0)))"

definition ndm_endian_htobe32 :: "host \<Rightarrow> u32 \<Rightarrow> u32" where
  "ndm_endian_htobe32 h x = ndm_endian_betoh32 h x"

definition ndm_endian_betoh64 :: "host \<Rightarrow> u64 \<Rightarrow> u64" where
  "ndm_endian_betoh64 h x =
     (if \<not> ndm_endian_is_le h then x
      else let p = mem_bytes h 8 x in
        push_bit 0 (ucast (p ! 7)) OR push_bit 8 (ucast (p ! 6)) OR
        push_bit 16 (ucast (p ! 5)) OR push_bit 24 (ucast (p ! 4)) OR
        push_bit 32 (ucast (p ! 3)) OR push_bit 40 (ucast (p ! 2)) OR
        push_bit 48 (ucast (p ! 1)) OR push_bit 56 (ucast (p ! 0)))"

definition ndm_endian_htobe64 :: "host \<Rightarrow> u64 \<Rightarrow> u64" where
  "ndm_endian_htobe64 h x = ndm_endian_betoh64 h x"

lemmas endian_defs =
  ndm_endian_letoh16_def ndm_endian_letoh32_def ndm_endian_letoh64_def
  ndm_endian_htole16_def ndm_endian_htole32_def ndm_endian_htole64_def
  ndm_endian_betoh16_def ndm_endian_betoh32_def ndm_endian_betoh64_def
  ndm_endian_htobe16_def ndm_endian_htobe32_def ndm_endian_htobe64_def


section \<open>The wire order\<close>

text \<open>
  Network order is the memory order of a big-endian host: \<open>be_bytes\<close> and
  \<open>be_value\<close> name it, and the conversions are its reading and writing on a host of
  either kind.
\<close>

definition be_bytes :: "nat \<Rightarrow> 'a::len word \<Rightarrow> u8 list" where
  "be_bytes n x = mem_bytes BigEndian n x"

definition be_value :: "u8 list \<Rightarrow> 'a::len word" where
  "be_value bs = mem_value BigEndian bs"

lemma length_mem_bytes [simp]: "length (mem_bytes h n x) = n"
  by (cases h) (simp_all add: mem_bytes_def Let_def)

lemma length_be_bytes [simp]: "length (be_bytes n x) = n"
  by (simp add: be_bytes_def)

lemma upt_bytes: "[0..<2] = [0, 1::nat]" "[0..<4] = [0, 1, 2, 3::nat]"
  "[0..<8] = [0, 1, 2, 3, 4, 5, 6, 7::nat]"
  by (simp_all add: upt_rec)

lemma is_le_iff [simp]: "ndm_endian_is_le h \<longleftrightarrow> h = LittleEndian"
  by (cases h) (simp_all add: ndm_endian_is_le_def mem_bytes_def upt_bytes Let_def)

lemma bytes_value_Cons: "bytes_value (b # bs) = push_bit 8 (bytes_value bs) OR ucast b"
  by (simp add: bytes_value_def)

text \<open>Bit \<open>n\<close> of an integer is bit \<open>n mod 8\<close> of its byte \<open>n div 8\<close>.\<close>

lemma bit_bytes_value:
  "bit (bytes_value bs :: 'a::len word) n \<longleftrightarrow>
     n < LENGTH('a) \<and> n div 8 < length bs \<and> bit (bs ! (n div 8)) (n mod 8)"
proof (induction bs arbitrary: n)
  case Nil
  show ?case by (simp add: bytes_value_def)
next
  case (Cons b bs)
  show ?case
  proof (cases "n < 8")
    case True
    then show ?thesis by (simp add: bytes_value_Cons bit_simps)
  next
    case False
    then obtain m where n: "n = m + 8" by (metis le_add_diff_inverse2 linorder_not_less)
    have "\<not> bit b n" using n by (auto dest: bit_imp_le_length)
    moreover have "n div 8 = Suc (m div 8)" "n mod 8 = m mod 8" using n by simp_all
    ultimately show ?thesis using n by (auto simp: bytes_value_Cons bit_simps Cons.IH)
  qed
qed

lemma bytes_value_of_bytes:
  fixes x :: "'a::len word"
  assumes "LENGTH('a) \<le> 8 * n"
  shows "bytes_value (map (\<lambda>i. ucast (drop_bit (8 * i) x)) [0..<n]) = x"
proof (rule bit_word_eqI)
  fix m assume m: "m < LENGTH('a)"
  with assms have "m div 8 < n" by auto
  with m show "bit (bytes_value (map (\<lambda>i. ucast (drop_bit (8 * i) x) :: u8) [0..<n]) :: 'a word) m
    \<longleftrightarrow> bit x m"
    by (simp add: bit_bytes_value bit_simps mult_div_mod_eq)
qed

lemma bytes_of_bytes_value:
  assumes "8 * length bs \<le> LENGTH('a::len)"
  shows "map (\<lambda>i. ucast (drop_bit (8 * i) (bytes_value bs :: 'a word)) :: u8) [0..<length bs] = bs"
proof (rule nth_equalityI)
  fix i assume "i < length (map (\<lambda>i. ucast (drop_bit (8 * i) (bytes_value bs :: 'a word)) :: u8)
    [0..<length bs])"
  then have i: "i < length bs" by simp
  show "map (\<lambda>i. ucast (drop_bit (8 * i) (bytes_value bs :: 'a word)) :: u8) [0..<length bs] ! i = bs ! i"
  proof (rule bit_word_eqI)
    fix m assume "m < LENGTH(8)"
    then have m: "m < 8" by simp
    with i assms have "8 * i + m < LENGTH('a)" by linarith
    with m i show "bit (map (\<lambda>i. ucast (drop_bit (8 * i) (bytes_value bs :: 'a word)) :: u8)
        [0..<length bs] ! i) m \<longleftrightarrow> bit (bs ! i) m"
      by (simp add: bit_simps bit_bytes_value)
  qed
qed simp

lemma mem_value_mem_bytes:
  "LENGTH('a) \<le> 8 * n \<Longrightarrow> mem_value h (mem_bytes h n x) = (x :: 'a::len word)"
  by (cases h) (simp_all add: mem_value_def mem_bytes_def Let_def bytes_value_of_bytes)

lemma mem_bytes_mem_value:
  assumes "8 * length bs \<le> LENGTH('a::len)" and "n = length bs"
  shows "mem_bytes h n (mem_value h bs :: 'a word) = bs"
  using assms bytes_of_bytes_value [where 'a='a, of bs] bytes_of_bytes_value [where 'a='a, of "rev bs"]
  by (cases h) (simp_all add: mem_value_def mem_bytes_def Let_def)

lemma be_value_be_bytes [simp]:
  "LENGTH('a) \<le> 8 * n \<Longrightarrow> be_value (be_bytes n x) = (x :: 'a::len word)"
  by (simp add: be_value_def be_bytes_def mem_value_mem_bytes)

lemma be_bytes_be_value:
  "8 * length bs \<le> LENGTH('a::len) \<Longrightarrow> n = length bs \<Longrightarrow> be_bytes n (be_value bs :: 'a word) = bs"
  by (simp add: be_value_def be_bytes_def mem_bytes_mem_value)

lemma list_nth_2: "length xs = 2 \<Longrightarrow> xs = [xs ! 0, xs ! 1]"
  by (auto simp: length_Suc_conv numeral_eq_Suc)

lemma list_nth_4: "length xs = 4 \<Longrightarrow> xs = [xs ! 0, xs ! 1, xs ! 2, xs ! 3]"
  by (auto simp: length_Suc_conv numeral_eq_Suc)

lemma list_nth_8:
  "length xs = 8 \<Longrightarrow>
   xs = [xs ! 0, xs ! 1, xs ! 2, xs ! 3, xs ! 4, xs ! 5, xs ! 6, xs ! 7]"
  by (auto simp: length_Suc_conv numeral_eq_Suc)

text \<open>The shifts and ors of the code read the bytes as \<open>bytes_value\<close> does.\<close>

lemma or_shifts_2:
  "length p = 2 \<Longrightarrow> push_bit 0 (ucast (p ! 0)) OR push_bit 8 (ucast (p ! 1)) = bytes_value p"
  by (subst (3) list_nth_2) (simp_all add: bytes_value_def push_bit_or or.commute or.left_commute)

lemma or_shifts_4:
  "length p = 4 \<Longrightarrow>
   push_bit 0 (ucast (p ! 0)) OR push_bit 8 (ucast (p ! 1)) OR
   push_bit 16 (ucast (p ! 2)) OR push_bit 24 (ucast (p ! 3)) = bytes_value p"
  by (subst (5) list_nth_4)
    (simp_all add: bytes_value_def push_bit_or or.commute or.left_commute)

lemma or_shifts_8:
  "length p = 8 \<Longrightarrow>
   push_bit 0 (ucast (p ! 0)) OR push_bit 8 (ucast (p ! 1)) OR
   push_bit 16 (ucast (p ! 2)) OR push_bit 24 (ucast (p ! 3)) OR
   push_bit 32 (ucast (p ! 4)) OR push_bit 40 (ucast (p ! 5)) OR
   push_bit 48 (ucast (p ! 6)) OR push_bit 56 (ucast (p ! 7)) = bytes_value p"
  by (subst (9) list_nth_8)
    (simp_all add: bytes_value_def push_bit_or or.commute or.left_commute)


lemma mem_value_LE: "mem_value LittleEndian bs = bytes_value bs"
  by (simp add: mem_value_def)

lemma le_mem [simp]:
  "bytes_value (mem_bytes LittleEndian 2 x) = (x :: u16)"
  "bytes_value (mem_bytes LittleEndian 4 y) = (y :: u32)"
  "bytes_value (mem_bytes LittleEndian 8 z) = (z :: u64)"
  by (simp_all add: mem_value_mem_bytes flip: mem_value_LE)

lemma letoh_value:
  "ndm_endian_letoh16 h x = mem_value LittleEndian (mem_bytes h 2 x)"
  "ndm_endian_letoh32 h y = mem_value LittleEndian (mem_bytes h 4 y)"
  "ndm_endian_letoh64 h z = mem_value LittleEndian (mem_bytes h 8 z)"
proof -
  show "ndm_endian_letoh16 h x = mem_value LittleEndian (mem_bytes h 2 x)"
    by (cases h) (simp_all only: ndm_endian_letoh16_def Let_def or_shifts_2 length_mem_bytes
      is_le_iff le_mem mem_value_LE host.distinct if_True if_False simp_thms)
  show "ndm_endian_letoh32 h y = mem_value LittleEndian (mem_bytes h 4 y)"
    by (cases h) (simp_all only: ndm_endian_letoh32_def Let_def or_shifts_4 length_mem_bytes
      is_le_iff le_mem mem_value_LE host.distinct if_True if_False simp_thms)
  show "ndm_endian_letoh64 h z = mem_value LittleEndian (mem_bytes h 8 z)"
    by (cases h) (simp_all only: ndm_endian_letoh64_def Let_def or_shifts_8 length_mem_bytes
      is_le_iff le_mem mem_value_LE host.distinct if_True if_False simp_thms)
qed

lemma betoh_value:
  "ndm_endian_betoh16 h x = be_value (mem_bytes h 2 x)"
  "ndm_endian_betoh32 h y = be_value (mem_bytes h 4 y)"
  "ndm_endian_betoh64 h z = be_value (mem_bytes h 8 z)"
proof -
  show "ndm_endian_betoh16 h x = be_value (mem_bytes h 2 x)"
    using or_shifts_2 [of "rev (mem_bytes h 2 x)"]
    by (cases h) (simp_all add: ndm_endian_betoh16_def Let_def be_value_def mem_value_def rev_nth
      be_value_be_bytes [of 2 x, unfolded be_value_def be_bytes_def mem_value_def, simplified])
  show "ndm_endian_betoh32 h y = be_value (mem_bytes h 4 y)"
    using or_shifts_4 [of "rev (mem_bytes h 4 y)"]
    by (cases h) (simp_all add: ndm_endian_betoh32_def Let_def be_value_def mem_value_def rev_nth
      be_value_be_bytes [of 4 y, unfolded be_value_def be_bytes_def mem_value_def, simplified])
  show "ndm_endian_betoh64 h z = be_value (mem_bytes h 8 z)"
    using or_shifts_8 [of "rev (mem_bytes h 8 z)"]
    by (cases h) (simp_all add: ndm_endian_betoh64_def Let_def be_value_def mem_value_def rev_nth
      be_value_be_bytes [of 8 z, unfolded be_value_def be_bytes_def mem_value_def, simplified])
qed

text \<open>
  Re-reading the memory of a host integer in a byte order \<open>ord\<close>: stored again, it is
  the memory of the same integer on a host of that order.
\<close>

lemma order_store:
  fixes x :: "'a::len word"
  assumes "LENGTH('a) = 8 * n"
  shows "mem_bytes h n (mem_value ord (mem_bytes h n x) :: 'a word) = mem_bytes ord n x"
proof -
  have flip: "mem_bytes BigEndian n y = rev (mem_bytes LittleEndian n y)" for y :: "'a word"
    by (simp add: mem_bytes_def Let_def)
  have swap: "mem_value BigEndian bs = mem_value LittleEndian (rev bs)" for bs
    by (simp add: mem_value_def)
  show ?thesis using assms
    by (cases h; cases ord) (simp_all add: flip swap mem_value_mem_bytes mem_bytes_mem_value)
qed

lemma order_load:
  assumes "LENGTH('a) = 8 * n" and "length bs = n"
  shows "mem_value ord (mem_bytes h n (mem_value h bs :: 'a::len word)) = (mem_value ord bs :: 'a word)"
  using assms by (simp add: mem_bytes_mem_value)

section \<open>The contract of a pair of conversions\<close>

text \<open>
  A field of \<open>n\<close> bytes in a fixed byte order: \<open>hto\<close> makes the host value whose memory
  is the field, \<open>toh\<close> reads a loaded field back. Clients need only these two laws,
  for a host of either kind.
\<close>

locale byte_order =
  fixes n :: nat
    and toh hto :: "host \<Rightarrow> 'a::len word \<Rightarrow> 'a word"
    and wire :: "'a word \<Rightarrow> u8 list"
    and unwire :: "u8 list \<Rightarrow> 'a word"
  assumes width: "LENGTH('a) = 8 * n"
    and store: "mem_bytes h n (hto h x) = wire x"
    and load: "length bs = n \<Longrightarrow> toh h (mem_value h bs) = unwire bs"
    and unwire_wire: "unwire (wire x) = x"
begin

lemma length_wire: "length (wire x) = n"
  using store [of LittleEndian x] by (metis length_mem_bytes)

lemma toh_hto: "toh h (hto h x) = x"
proof -
  have "toh h (mem_value h (mem_bytes h n (hto h x))) = unwire (wire x)"
    using load [of "wire x" h] by (simp add: store length_wire)
  moreover have "mem_value h (mem_bytes h n (hto h x)) = hto h x"
    by (simp add: mem_value_mem_bytes width)
  ultimately show ?thesis by (simp add: unwire_wire)
qed

lemma hto_inj: "hto h x = hto h y \<longleftrightarrow> x = y"
  by (metis toh_hto)

lemma host_independent: "mem_bytes h n (hto h x) = mem_bytes h' n (hto h' x)"
  by (simp add: store)

lemma load_wire: "toh h (mem_value h (wire x)) = x"
  by (simp add: load length_wire unwire_wire)

text \<open>Comparing a stored field with a converted key compares the values.\<close>

lemma field_eq_key:
  assumes "length bs = n"
  shows "mem_value h bs = hto h k \<longleftrightarrow> unwire bs = k"
proof
  assume "mem_value h bs = hto h k"
  then show "unwire bs = k" using load [OF assms, of h] by (simp add: toh_hto)
next
  assume "unwire bs = k"
  moreover have "wire (unwire bs) = mem_bytes h n (hto h (unwire bs))" by (simp add: store)
  moreover have "inj (toh h)"
  proof -
    have "surj (toh h)" by (metis surjI toh_hto)
    then show ?thesis by (simp add: finite_UNIV_surj_inj)
  qed
  ultimately show "mem_value h bs = hto h k"
    using load [OF assms, of h] by (metis injD toh_hto)
qed

end

interpretation be16: byte_order 2 ndm_endian_betoh16 ndm_endian_htobe16 "be_bytes 2" be_value
  by unfold_locales
    (simp_all add: ndm_endian_htobe16_def betoh_value be_value_def be_bytes_def order_store order_load
      mem_value_mem_bytes)

interpretation be32: byte_order 4 ndm_endian_betoh32 ndm_endian_htobe32 "be_bytes 4" be_value
  by unfold_locales
    (simp_all add: ndm_endian_htobe32_def betoh_value be_value_def be_bytes_def order_store order_load
      mem_value_mem_bytes)

interpretation be64: byte_order 8 ndm_endian_betoh64 ndm_endian_htobe64 "be_bytes 8" be_value
  by unfold_locales
    (simp_all add: ndm_endian_htobe64_def betoh_value be_value_def be_bytes_def order_store order_load
      mem_value_mem_bytes)

interpretation le16: byte_order 2 ndm_endian_letoh16 ndm_endian_htole16
  "mem_bytes LittleEndian 2" "mem_value LittleEndian"
  by unfold_locales
    (simp_all add: ndm_endian_htole16_def letoh_value order_store order_load mem_value_mem_bytes)

interpretation le32: byte_order 4 ndm_endian_letoh32 ndm_endian_htole32
  "mem_bytes LittleEndian 4" "mem_value LittleEndian"
  by unfold_locales
    (simp_all add: ndm_endian_htole32_def letoh_value order_store order_load mem_value_mem_bytes)

interpretation le64: byte_order 8 ndm_endian_letoh64 ndm_endian_htole64
  "mem_bytes LittleEndian 8" "mem_value LittleEndian"
  by unfold_locales
    (simp_all add: ndm_endian_htole64_def letoh_value order_store order_load mem_value_mem_bytes)

section \<open>The wire format\<close>

lemma wire_rev: "rev (be_bytes n x) = mem_bytes LittleEndian n x"
  by (simp add: be_bytes_def mem_bytes_def Let_def)

text \<open>
  C29: on a host of either byte order, storing a converted integer lays
  down its big-endian (or little-endian) bytes, and converting what is loaded from such
  bytes gives the integer back, at every width.
\<close>
theorem endian_wire_format:
  "mem_bytes h 2 (ndm_endian_htobe16 h x) = be_bytes 2 x \<and> ndm_endian_betoh16 h (mem_value h (be_bytes 2 x)) = x \<and>
   mem_bytes h 4 (ndm_endian_htobe32 h y) = be_bytes 4 y \<and> ndm_endian_betoh32 h (mem_value h (be_bytes 4 y)) = y \<and>
   mem_bytes h 8 (ndm_endian_htobe64 h z) = be_bytes 8 z \<and> ndm_endian_betoh64 h (mem_value h (be_bytes 8 z)) = z \<and>
   mem_bytes h 2 (ndm_endian_htole16 h x) = rev (be_bytes 2 x) \<and>
   ndm_endian_letoh16 h (mem_value h (rev (be_bytes 2 x))) = x \<and>
   mem_bytes h 4 (ndm_endian_htole32 h y) = rev (be_bytes 4 y) \<and>
   ndm_endian_letoh32 h (mem_value h (rev (be_bytes 4 y))) = y \<and>
   mem_bytes h 8 (ndm_endian_htole64 h z) = rev (be_bytes 8 z) \<and>
   ndm_endian_letoh64 h (mem_value h (rev (be_bytes 8 z))) = z"
  by (simp add: be16.store be32.store be64.store le16.store le32.store le64.store
    be16.load_wire be32.load_wire be64.load_wire le16.load_wire le32.load_wire le64.load_wire
    wire_rev)

end
