(* ===== verification/Crc32.thy ===== *)
theory Crc32
  imports Ndm_Prelude
begin

text \<open>
  The CRC-32 of \<^verbatim>\<open>src/crc32.c\<close> and \<^verbatim>\<open>include/ndm/crc32.h\<close>: the table of the code,
  entry for entry, its table driven update, and a bit-serial reference that the
  update is proved equal to. The contract its clients need is the locale
  \<open>byte_digest\<close>.
\<close>

record ndm_crc32_t =
  crc_digest :: u32

definition CRC32_TABLE :: "u32 list" where
  "CRC32_TABLE =
  [0x00000000, 0x77073096, 0xee0e612c, 0x990951ba, 0x076dc419, 0x706af48f,
   0xe963a535, 0x9e6495a3, 0x0edb8832, 0x79dcb8a4, 0xe0d5e91e, 0x97d2d988,
   0x09b64c2b, 0x7eb17cbd, 0xe7b82d07, 0x90bf1d91, 0x1db71064, 0x6ab020f2,
   0xf3b97148, 0x84be41de, 0x1adad47d, 0x6ddde4eb, 0xf4d4b551, 0x83d385c7,
   0x136c9856, 0x646ba8c0, 0xfd62f97a, 0x8a65c9ec, 0x14015c4f, 0x63066cd9,
   0xfa0f3d63, 0x8d080df5, 0x3b6e20c8, 0x4c69105e, 0xd56041e4, 0xa2677172,
   0x3c03e4d1, 0x4b04d447, 0xd20d85fd, 0xa50ab56b, 0x35b5a8fa, 0x42b2986c,
   0xdbbbc9d6, 0xacbcf940, 0x32d86ce3, 0x45df5c75, 0xdcd60dcf, 0xabd13d59,
   0x26d930ac, 0x51de003a, 0xc8d75180, 0xbfd06116, 0x21b4f4b5, 0x56b3c423,
   0xcfba9599, 0xb8bda50f, 0x2802b89e, 0x5f058808, 0xc60cd9b2, 0xb10be924,
   0x2f6f7c87, 0x58684c11, 0xc1611dab, 0xb6662d3d, 0x76dc4190, 0x01db7106,
   0x98d220bc, 0xefd5102a, 0x71b18589, 0x06b6b51f, 0x9fbfe4a5, 0xe8b8d433,
   0x7807c9a2, 0x0f00f934, 0x9609a88e, 0xe10e9818, 0x7f6a0dbb, 0x086d3d2d,
   0x91646c97, 0xe6635c01, 0x6b6b51f4, 0x1c6c6162, 0x856530d8, 0xf262004e,
   0x6c0695ed, 0x1b01a57b, 0x8208f4c1, 0xf50fc457, 0x65b0d9c6, 0x12b7e950,
   0x8bbeb8ea, 0xfcb9887c, 0x62dd1ddf, 0x15da2d49, 0x8cd37cf3, 0xfbd44c65,
   0x4db26158, 0x3ab551ce, 0xa3bc0074, 0xd4bb30e2, 0x4adfa541, 0x3dd895d7,
   0xa4d1c46d, 0xd3d6f4fb, 0x4369e96a, 0x346ed9fc, 0xad678846, 0xda60b8d0,
   0x44042d73, 0x33031de5, 0xaa0a4c5f, 0xdd0d7cc9, 0x5005713c, 0x270241aa,
   0xbe0b1010, 0xc90c2086, 0x5768b525, 0x206f85b3, 0xb966d409, 0xce61e49f,
   0x5edef90e, 0x29d9c998, 0xb0d09822, 0xc7d7a8b4, 0x59b33d17, 0x2eb40d81,
   0xb7bd5c3b, 0xc0ba6cad, 0xedb88320, 0x9abfb3b6, 0x03b6e20c, 0x74b1d29a,
   0xead54739, 0x9dd277af, 0x04db2615, 0x73dc1683, 0xe3630b12, 0x94643b84,
   0x0d6d6a3e, 0x7a6a5aa8, 0xe40ecf0b, 0x9309ff9d, 0x0a00ae27, 0x7d079eb1,
   0xf00f9344, 0x8708a3d2, 0x1e01f268, 0x6906c2fe, 0xf762575d, 0x806567cb,
   0x196c3671, 0x6e6b06e7, 0xfed41b76, 0x89d32be0, 0x10da7a5a, 0x67dd4acc,
   0xf9b9df6f, 0x8ebeeff9, 0x17b7be43, 0x60b08ed5, 0xd6d6a3e8, 0xa1d1937e,
   0x38d8c2c4, 0x4fdff252, 0xd1bb67f1, 0xa6bc5767, 0x3fb506dd, 0x48b2364b,
   0xd80d2bda, 0xaf0a1b4c, 0x36034af6, 0x41047a60, 0xdf60efc3, 0xa867df55,
   0x316e8eef, 0x4669be79, 0xcb61b38c, 0xbc66831a, 0x256fd2a0, 0x5268e236,
   0xcc0c7795, 0xbb0b4703, 0x220216b9, 0x5505262f, 0xc5ba3bbe, 0xb2bd0b28,
   0x2bb45a92, 0x5cb36a04, 0xc2d7ffa7, 0xb5d0cf31, 0x2cd99e8b, 0x5bdeae1d,
   0x9b64c2b0, 0xec63f226, 0x756aa39c, 0x026d930a, 0x9c0906a9, 0xeb0e363f,
   0x72076785, 0x05005713, 0x95bf4a82, 0xe2b87a14, 0x7bb12bae, 0x0cb61b38,
   0x92d28e9b, 0xe5d5be0d, 0x7cdcefb7, 0x0bdbdf21, 0x86d3d2d4, 0xf1d4e242,
   0x68ddb3f8, 0x1fda836e, 0x81be16cd, 0xf6b9265b, 0x6fb077e1, 0x18b74777,
   0x88085ae6, 0xff0f6a70, 0x66063bca, 0x11010b5c, 0x8f659eff, 0xf862ae69,
   0x616bffd3, 0x166ccf45, 0xa00ae278, 0xd70dd2ee, 0x4e048354, 0x3903b3c2,
   0xa7672661, 0xd06016f7, 0x4969474d, 0x3e6e77db, 0xaed16a4a, 0xd9d65adc,
   0x40df0b66, 0x37d83bf0, 0xa9bcae53, 0xdebb9ec5, 0x47b2cf7f, 0x30b5ffe9,
   0xbdbdf21c, 0xcabac28a, 0x53b39330, 0x24b4a3a6, 0xbad03605, 0xcdd70693,
   0x54de5729, 0x23d967bf, 0xb3667a2e, 0xc4614ab8, 0x5d681b02, 0x2a6f2b94,
   0xb40bbe37, 0xc30c8ea1, 0x5a05df1b, 0x2d02ef8d]"

definition ndm_crc32_init :: "ndm_crc32_t" where
  "ndm_crc32_init = \<lparr>crc_digest = 0xffffffff\<rparr>"

text \<open>The body of the loop, and the loop over the buffer.\<close>

definition crc32_step :: "u32 \<Rightarrow> u8 \<Rightarrow> u32" where
  "crc32_step digest p =
     (drop_bit 8 digest) XOR (CRC32_TABLE ! unat ((digest XOR ucast p) AND 0xff))"

fun crc32_loop :: "u32 \<Rightarrow> u8 list \<Rightarrow> u32" where
  "crc32_loop digest [] = digest"
| "crc32_loop digest (p # ps) = crc32_loop (crc32_step digest p) ps"

definition ndm_crc32_update :: "ndm_crc32_t \<Rightarrow> u8 list \<Rightarrow> ndm_crc32_t" where
  "ndm_crc32_update crc buffer = crc\<lparr>crc_digest := crc32_loop (crc_digest crc) buffer\<rparr>"

definition ndm_crc32_digest :: "ndm_crc32_t \<Rightarrow> u32" where
  "ndm_crc32_digest crc = crc_digest crc XOR 0xffffffff"

section \<open>The contract of an incremental digest\<close>

locale byte_digest =
  fixes init :: 's
    and update :: "'s \<Rightarrow> u8 list \<Rightarrow> 's"
    and digest :: "'s \<Rightarrow> 'd"
  assumes update_Nil: "update s [] = s"
    and update_append: "update s (xs @ ys) = update (update s xs) ys"
    and update_cancel: "length xs = length ys \<Longrightarrow> update s xs = update t ys \<Longrightarrow> xs = ys \<Longrightarrow> s = t"
    and update_byte: "update s [b] = update s [c] \<Longrightarrow> b = c"
    and digest_inj: "digest s = digest t \<Longrightarrow> s = t"
begin

lemma update_concat: "update s (concat xss) = foldl update s xss"
  by (induction xss arbitrary: s) (simp_all add: update_Nil update_append)

text \<open>Feeding a message in two calls or in one gives the same digest.\<close>

lemma digest_split: "digest (update (update init xs) ys) = digest (update init (xs @ ys))"
  by (simp add: update_append)

text \<open>A message with one byte changed has another digest.\<close>

lemma single_byte_change:
  assumes "b \<noteq> c"
  shows "digest (update init (xs @ [b] @ ys)) \<noteq> digest (update init (xs @ [c] @ ys))"
proof
  let ?s = "update init xs"
  assume "digest (update init (xs @ [b] @ ys)) = digest (update init (xs @ [c] @ ys))"
  then have "update (update ?s [b]) ys = update (update ?s [c]) ys"
    by (metis digest_inj update_append)
  then have "update ?s [b] = update ?s [c]"
    by (rule update_cancel [rotated]) simp_all
  then show False using assms update_byte by blast
qed

end

section \<open>The bit-serial reference\<close>

text \<open>
  One step of the reflected shift register with polynomial \<open>0xedb88320\<close>, and a byte
  as eight steps.
\<close>

definition lfsr_step :: "u32 \<Rightarrow> u32" where
  "lfsr_step c = (if bit c 0 then drop_bit 1 c XOR 0xedb88320 else drop_bit 1 c)"

definition lfsr_byte :: "u32 \<Rightarrow> u8 \<Rightarrow> u32" where
  "lfsr_byte c p = (lfsr_step ^^ 8) (c XOR ucast p)"

definition crc32_reference :: "u8 list \<Rightarrow> u32" where
  "crc32_reference bs = foldl lfsr_byte 0xffffffff bs XOR 0xffffffff"

lemma lfsr_step_xor: "lfsr_step (a XOR b) = lfsr_step a XOR lfsr_step b"
  by (rule bit_word_eqI) (auto simp: lfsr_step_def bit_simps)

lemma lfsr_pow_xor: "(lfsr_step ^^ n) (a XOR b) = (lfsr_step ^^ n) a XOR (lfsr_step ^^ n) b"
  by (induction n) (simp_all add: lfsr_step_xor)

lemma lfsr_step_top: "bit (lfsr_step c) 31 \<longleftrightarrow> bit c 0"
proof -
  have "\<not> bit c 32" by (simp add: bit_word.rep_eq)
  then show ?thesis by (simp add: lfsr_step_def bit_simps)
qed

lemma lfsr_step_low: "drop_bit 1 c = lfsr_step c XOR (if bit c 0 then 0xedb88320 else 0)"
  by (simp add: lfsr_step_def xor.assoc)

lemma lfsr_step_inj:
  assumes "lfsr_step a = lfsr_step b"
  shows "a = b"
proof (rule bit_word_eqI)
  fix n assume n: "n < LENGTH(32)"
  have zero: "bit a 0 = bit b 0"
    using lfsr_step_top [of a] lfsr_step_top [of b] assms by simp
  then have "drop_bit 1 a = drop_bit 1 b"
    using lfsr_step_low [of a] lfsr_step_low [of b] assms by simp
  then have "bit (drop_bit 1 a) (n - 1) = bit (drop_bit 1 b) (n - 1)" by simp
  with zero show "bit a n = bit b n"
    by (cases n) (simp_all add: bit_drop_bit_eq)
qed

lemma lfsr_8: "(lfsr_step ^^ 8) c = lfsr_step (lfsr_step (lfsr_step (lfsr_step
  (lfsr_step (lfsr_step (lfsr_step (lfsr_step c)))))))"
  by (simp add: numeral_eq_Suc)

text \<open>
  The table doubles with every bit of its index, because the register is linear:
  entry \<open>2 ^ k + j\<close> is entry \<open>2 ^ k\<close> xor entry \<open>j\<close>.
\<close>

fun double_table :: "u32 list \<Rightarrow> u32 list \<Rightarrow> u32 list" where
  "double_table [] T = T"
| "double_table (v # vs) T = double_table vs (T @ map ((XOR) v) T)"

lemma lfsr_basis:
  "map (\<lambda>k. (lfsr_step ^^ 8) (2 ^ k)) [0, 1, 2, 3, 4, 5, 6, 7] =
   [0x77073096, 0xee0e612c, 0x076dc419, 0x0edb8832, 0x1db71064, 0x3b6e20c8, 0x76dc4190, 0xedb88320]"
  by (simp add: lfsr_8 lfsr_step_def)

lemma crc32_table_doubles:
  "CRC32_TABLE = double_table [0x77073096, 0xee0e612c, 0x076dc419, 0x0edb8832, 0x1db71064,
     0x3b6e20c8, 0x76dc4190, 0xedb88320] [0]"
  by (simp add: CRC32_TABLE_def)

lemma add_power_xor:
  assumes "i < 2 ^ k"
  shows "of_nat (i + 2 ^ k) = (2 ^ k XOR of_nat i :: 'a::len word)"
proof -
  have "\<not> bit i k" using assms by (simp add: bit_nat_def)
  then have "(2 ^ k :: 'a word) AND of_nat i = 0"
    by (auto intro!: bit_word_eqI simp: bit_simps)
  then show ?thesis
    using disjunctive_add_eq_or [of "2 ^ k :: 'a word" "of_nat i"]
      disjunctive_xor_eq_or [of "2 ^ k :: 'a word" "of_nat i"]
    by (simp add: add.commute)
qed

lemma double_table_entries:
  fixes L :: "u32 \<Rightarrow> u32"
  assumes lin: "\<And>x y. L (x XOR y) = L x XOR L y"
    and "k \<le> m" and "T = map (\<lambda>i. L (of_nat i)) [0..<2 ^ k]"
  shows "double_table (map (\<lambda>j. L (2 ^ j)) [k..<m]) T = map (\<lambda>i. L (of_nat i)) [0..<2 ^ m]"
  using assms(2,3)
proof (induction "m - k" arbitrary: k T)
  case 0
  then show ?case by simp
next
  case (Suc d)
  have "[0..<2 ^ k + 2 ^ k] = [0..<2 ^ k] @ map (\<lambda>i. i + 2 ^ k) [0..<(2::nat) ^ k]"
    by (simp only: map_add_upt upt_add_eq_append [of 0, simplified])
  then have "map (\<lambda>i. L (of_nat i)) [0..<2 ^ Suc k] = T @ map ((XOR) (L (2 ^ k))) T"
    using add_power_xor [of _ k, where 'a=32] by (simp add: Suc.prems lin mult_2)
  then have "double_table (map (\<lambda>j. L (2 ^ j)) [Suc k..<m]) (T @ map ((XOR) (L (2 ^ k))) T)
      = map (\<lambda>i. L (of_nat i)) [0..<2 ^ m]"
    using Suc by (intro Suc.hyps(1)) auto
  moreover have "[k..<m] = k # [Suc k..<m]" using Suc.hyps(2) by (simp add: upt_conv_Cons)
  ultimately show ?case by simp
qed

lemma upt_0_8: "[0..<8] = [0, 1, 2, 3, 4, 5, 6, 7::nat]"
  by (simp add: upt_rec)

lemma power_numeral_reduce_256: "(2::nat) ^ 8 = 256"
  by simp

lemma lfsr_pow_0: "(lfsr_step ^^ n) 0 = 0"
  by (induction n) (simp_all add: lfsr_step_def)

lemma CRC32_TABLE_entries: "CRC32_TABLE = map (\<lambda>i. (lfsr_step ^^ 8) (of_nat i)) [0..<256]"
proof -
  let ?L = "lfsr_step ^^ 8"
  have "double_table (map (\<lambda>j. ?L (2 ^ j)) [0..<8]) [0] = map (\<lambda>i. ?L (of_nat i)) [0..<2 ^ 8]"
    by (rule double_table_entries) (simp_all add: lfsr_pow_xor lfsr_pow_0 del: funpow.simps)
  then have "double_table (map (\<lambda>j. ?L (2 ^ j)) [0..<8]) [0] = map (\<lambda>i. ?L (of_nat i)) [0..<256]"
    by (simp only: power_numeral_reduce_256)
  then show ?thesis
    by (simp only: upt_0_8 lfsr_basis crc32_table_doubles)
qed

lemma CRC32_TABLE_nth: "i < 256 \<Longrightarrow> CRC32_TABLE ! i = (lfsr_step ^^ 8) (of_nat i)"
  by (simp add: CRC32_TABLE_entries del: funpow.simps)

lemma length_CRC32_TABLE: "length CRC32_TABLE = 256"
  by (simp add: CRC32_TABLE_entries)

text \<open>Shifting a register whose low bits are zero meets no feedback.\<close>

lemma lfsr_pow_drop: "\<forall>i<n. \<not> bit c i \<Longrightarrow> (lfsr_step ^^ n) c = drop_bit n c"
proof (induction n arbitrary: c)
  case 0
  show ?case by simp
next
  case (Suc n)
  then have "lfsr_step c = drop_bit 1 c" by (simp add: lfsr_step_def)
  moreover have "(lfsr_step ^^ n) (drop_bit 1 c) = drop_bit n (drop_bit 1 c)"
    using Suc.prems by (intro Suc.IH) (simp add: bit_drop_bit_eq)
  ultimately show ?case by (simp add: funpow_swap1)
qed

lemma crc32_step_lfsr: "crc32_step c p = lfsr_byte c p"
proof -
  let ?i = "(c XOR ucast p) AND 0xff"
  have mask: "(0xff :: u32) = mask 8" by (simp add: mask_eq_exp_minus_1)
  have "\<not> bit p n" if "8 \<le> n" for n using that by (auto dest: bit_imp_le_length)
  then have split: "c XOR ucast p = push_bit 8 (drop_bit 8 c) XOR ?i"
    unfolding mask by (intro bit_word_eqI) (auto simp: bit_simps)
  have "?i \<le> 0xff" by (rule word_and_le1)
  then have small: "unat ?i < 256" by (simp add: word_le_nat_alt)
  have "lfsr_byte c p = (lfsr_step ^^ 8) (push_bit 8 (drop_bit 8 c)) XOR (lfsr_step ^^ 8) ?i"
    unfolding lfsr_byte_def by (subst split) (rule lfsr_pow_xor)
  moreover have "bit c (8 + n) \<Longrightarrow> n < 24" for n by (drule bit_imp_le_length) simp
  then have "(lfsr_step ^^ 8) (push_bit 8 (drop_bit 8 c)) = drop_bit 8 c"
    by (subst lfsr_pow_drop) (auto intro!: bit_word_eqI simp: bit_simps)
  moreover have "(lfsr_step ^^ 8) ?i = CRC32_TABLE ! unat ?i"
    using small by (simp add: CRC32_TABLE_nth del: funpow.simps)
  ultimately show ?thesis by (simp add: crc32_step_def)
qed

lemma crc32_loop_foldl: "crc32_loop c bs = foldl lfsr_byte c bs"
  by (induction bs arbitrary: c) (simp_all add: crc32_step_lfsr)

lemma lfsr_pow_inj: "(lfsr_step ^^ n) a = (lfsr_step ^^ n) b \<Longrightarrow> a = b"
  by (induction n) (auto dest: lfsr_step_inj)

lemma crc32_step_cancel: "crc32_step a p = crc32_step b p \<Longrightarrow> a = b"
proof -
  assume "crc32_step a p = crc32_step b p"
  then have "a XOR ucast p = b XOR ucast p"
    unfolding crc32_step_lfsr lfsr_byte_def by (rule lfsr_pow_inj)
  then show ?thesis by simp
qed

lemma crc32_step_byte: "crc32_step c p = crc32_step c q \<Longrightarrow> p = q"
proof -
  assume "crc32_step c p = crc32_step c q"
  then have "c XOR ucast p = c XOR ucast q"
    unfolding crc32_step_lfsr lfsr_byte_def by (rule lfsr_pow_inj)
  then have "(ucast p :: u32) = ucast q" by simp
  then have eq: "bit (ucast p :: u32) n = bit (ucast q :: u32) n" for n by (rule arg_cong)
  show ?thesis
  proof (rule bit_word_eqI)
    fix n assume "n < LENGTH(8)"
    then show "bit p n = bit q n" using eq [of n] by (simp add: bit_simps)
  qed
qed

lemma crc32_loop_append: "crc32_loop c (xs @ ys) = crc32_loop (crc32_loop c xs) ys"
  by (induction xs arbitrary: c) simp_all

lemma crc32_loop_cancel: "crc32_loop a bs = crc32_loop b bs \<Longrightarrow> a = b"
  by (induction bs arbitrary: a b) (auto dest: crc32_step_cancel)

interpretation crc: byte_digest ndm_crc32_init ndm_crc32_update ndm_crc32_digest
proof unfold_locales
  show "ndm_crc32_update s xs = ndm_crc32_update t ys \<Longrightarrow> xs = ys \<Longrightarrow> s = t"
    if "length xs = length ys" for s t :: ndm_crc32_t and xs ys
    by (cases s; cases t) (auto simp: ndm_crc32_update_def dest: crc32_loop_cancel)
  show "s = t" if "ndm_crc32_digest s = ndm_crc32_digest t" for s t :: ndm_crc32_t
  proof -
    from that have "crc_digest s = crc_digest t"
      by (simp only: ndm_crc32_digest_def xor_right_cancel)
    then show ?thesis by simp
  qed
  show "b = c" if "ndm_crc32_update s [b] = ndm_crc32_update s [c]" for s b c
  proof (rule crc32_step_byte)
    show "crc32_step (crc_digest s) b = crc32_step (crc_digest s) c"
      using arg_cong [OF that, of crc_digest] by (simp add: ndm_crc32_update_def)
  qed
qed (simp_all add: ndm_crc32_update_def crc32_loop_append)

section \<open>The digest\<close>

text \<open>
  C28: the table driven routine computes the reflected CRC-32 of
  polynomial \<open>0xedb88320\<close>, bit by bit, and data fed in two pieces gives the digest of
  the whole.
\<close>
theorem crc32_matches_reference:
  "ndm_crc32_digest (ndm_crc32_update (ndm_crc32_update ndm_crc32_init xs) ys) = crc32_reference (xs @ ys)"
  by (simp add: ndm_crc32_digest_def ndm_crc32_update_def ndm_crc32_init_def crc32_reference_def
    crc32_loop_foldl)

end
