(* ===== verification/Int_Macros.thy ===== *)
theory Int_Macros
  imports Ndm_Prelude
begin

text \<open>
  The integer macros of \<^verbatim>\<open>include/ndm/int.h\<close> that size buffers and align lengths, on
  words of any width (the width of the macro's operand after the usual conversions).
\<close>

definition NDM_INT_IS_POWER_OF2 :: "'a::len word \<Rightarrow> bool" where
  "NDM_INT_IS_POWER_OF2 n \<longleftrightarrow> n \<noteq> 0 \<and> n AND (n - 1) = 0"

definition NDM_INT_ALIGN :: "'a::len word \<Rightarrow> 'a word \<Rightarrow> 'a word" where
  "NDM_INT_ALIGN n align =
     (if NDM_INT_IS_POWER_OF2 align
      then (n + align - 1) AND NOT (align - 1)
      else (n - n mod align) + (if n mod align = 0 then 0 else align))"

text \<open>The sizes, for an integer type of \<open>s\<close> bytes (\<open>CHAR_BIT\<close> is 8).\<close>

definition NDM_INT_MAX_STRLEN :: "nat \<Rightarrow> nat" where
  "NDM_INT_MAX_STRLEN s = (s * 8 * 151) div 500 + 1 + 1"

definition NDM_INT_MAX_BUFSIZE :: "nat \<Rightarrow> nat" where
  "NDM_INT_MAX_BUFSIZE s = NDM_INT_MAX_STRLEN s + 1"

definition NDM_INT_BUFSIZE :: nat where
  "NDM_INT_BUFSIZE = max (NDM_INT_MAX_BUFSIZE 8) (NDM_INT_MAX_BUFSIZE 8)"

lemma and_not_mask_nat:
  fixes x :: "'a::len word"
  shows "unat (x AND NOT (mask k)) = unat x - unat x mod 2 ^ k"
proof -
  have "x AND NOT (mask k) = push_bit k (drop_bit k x)"
    by (rule bit_word_eqI) (auto simp: bit_simps)
  moreover have "unat (push_bit k (drop_bit k x)) = take_bit LENGTH('a) (unat x div 2 ^ k * 2 ^ k)"
    by (simp add: unsigned_push_bit_eq unsigned_drop_bit_eq push_bit_eq_mult [where 'a=nat]
      drop_bit_eq_div [where 'a=nat] take_bit_nat_eq_self)
  moreover have "unat x div 2 ^ k * 2 ^ k < 2 ^ LENGTH('a)"
    by (rule le_less_trans [OF div_times_less_eq_dividend unsigned_less])
  ultimately show ?thesis
    by (simp add: take_bit_nat_eq_self minus_mod_eq_div_mult)
qed

text \<open>
  Aligning to a power of two: the next multiple, as long as the sum does not leave the
  width of the operand. Past that it wraps to a small value, see
  \<open>NDM_INT_ALIGN_wraps\<close>.
\<close>

lemma NDM_INT_ALIGN_power:
  fixes n :: "'a::len word"
  assumes "k < LENGTH('a)" and "unat n + 2 ^ k - 1 < 2 ^ LENGTH('a)"
  shows "unat (NDM_INT_ALIGN n (2 ^ k)) = (unat n + 2 ^ k - 1) div 2 ^ k * 2 ^ k"
proof -
  have mask: "(2 ^ k :: 'a word) - 1 = mask k" by (simp add: mask_eq_exp_minus_1)
  have "(2 ^ k :: 'a word) AND mask k = 0"
    by (rule bit_word_eqI) (auto simp: bit_simps)
  then have pow: "NDM_INT_IS_POWER_OF2 (2 ^ k :: 'a word)"
    using assms(1) by (simp add: NDM_INT_IS_POWER_OF2_def mask)
  have "1 \<le> unat n + 2 ^ k" by (metis one_le_numeral one_le_power trans_le_add2)
  then have "n + 2 ^ k - 1 = of_nat (unat n + 2 ^ k - 1)"
    by (simp only: of_nat_diff of_nat_add of_nat_power of_nat_numeral of_nat_1 of_nat_unat ucast_id)
  then have sum: "unat (n + 2 ^ k - 1) = unat n + 2 ^ k - 1"
    using assms(2) by (simp only: unat_of_nat_small)
  show ?thesis
    by (simp add: NDM_INT_ALIGN_def pow mask and_not_mask_nat sum minus_mod_eq_div_mult)
qed

lemma NDM_INT_ALIGN_8:
  fixes n :: "'a::len word"
  assumes "3 < LENGTH('a)" and "unat n + 7 < 2 ^ LENGTH('a)"
  shows "unat (NDM_INT_ALIGN n 8) = (unat n + 7) div 8 * 8"
  using NDM_INT_ALIGN_power [of 3 n] assms by simp

lemma NDM_INT_ALIGN_wraps: "NDM_INT_ALIGN (0xfffffff9 :: u32) 8 = 0"
  by (simp add: NDM_INT_ALIGN_def NDM_INT_IS_POWER_OF2_def)

text \<open>The buffers are long enough for every decimal number of their type.\<close>

lemma NDM_INT_STRLEN_values:
  "map NDM_INT_MAX_STRLEN [1, 2, 4, 8] = [4, 6, 11, 21]" "NDM_INT_BUFSIZE = 22"
  by (simp_all add: NDM_INT_MAX_STRLEN_def NDM_INT_BUFSIZE_def NDM_INT_MAX_BUFSIZE_def)

end
