(* ===== verification/Tlv_Table.thy ===== *)
theory Tlv_Table
  imports Endian Crc32 Int_Macros
begin

text \<open>
  The TLV table of \<^verbatim>\<open>src/tlv_table.c\<close>: one block of memory that holds a header (magic,
  CRC-32, size of the entries) and the entries (tag, length, value padded to eight
  bytes), all integers big-endian. A pointer into the block is its offset, every
  access is checked against the block, and every read of a field goes through the host's
  load and \<open>ndm_endian_betoh32\<close>, as in the code. The walks over the entries are
  partial: on an image that is not well formed they need not end.
\<close>

record ndm_tlv_table_t =
  img_len_max :: u64
  hdr :: "u8 list"

definition NDM_TLV_TABLE_ALIGNMENT :: u32 where
  "NDM_TLV_TABLE_ALIGNMENT = 8"

text \<open>\<open>sizeof\<close> of the two packed structs, and the offsets of their fields.\<close>

definition sizeof_tlv :: nat where "sizeof_tlv = 8"
definition sizeof_hdr :: nat where "sizeof_hdr = 16"
definition offs_tag :: nat where "offs_tag = 0"
definition offs_len :: nat where "offs_len = 4"
definition offs_val :: nat where "offs_val = 8"
definition offs_magic :: nat where "offs_magic = 0"
definition offs_crc32 :: nat where "offs_crc32 = 8"
definition offs_size :: nat where "offs_size = 12"
definition offs_tlv :: nat where "offs_tlv = 16"

lemmas tlv_layout = sizeof_tlv_def sizeof_hdr_def offs_tag_def offs_len_def offs_val_def
  offs_magic_def offs_crc32_def offs_size_def offs_tlv_def

definition load32 :: "host \<Rightarrow> u8 list \<Rightarrow> nat \<Rightarrow> u32 option" where
  "load32 h blk off = map_option (mem_value h) (mem_read blk off 4)"

definition load64 :: "host \<Rightarrow> u8 list \<Rightarrow> nat \<Rightarrow> u64 option" where
  "load64 h blk off = map_option (mem_value h) (mem_read blk off 8)"

definition store32 :: "host \<Rightarrow> u8 list \<Rightarrow> nat \<Rightarrow> u32 \<Rightarrow> u8 list option" where
  "store32 h blk off v = mem_write blk off (mem_bytes h 4 v)"

text \<open>Signed 32-bit addition: leaving the range is undefined.\<close>

definition add_s32 :: "int \<Rightarrow> int \<Rightarrow> int option" where
  "add_s32 a b = (if - (2 ^ 31) \<le> a + b \<and> a + b < 2 ^ 31 then Some (a + b) else None)"

section \<open>Sizes and positions\<close>

definition ndm_tlv_size0 :: "u32 \<Rightarrow> u32" where
  "ndm_tlv_size0 len =
     ucast (of_nat sizeof_tlv + ucast (NDM_INT_ALIGN len NDM_TLV_TABLE_ALIGNMENT) :: u64)"

definition ndm_tlv_size :: "host \<Rightarrow> u8 list \<Rightarrow> nat \<Rightarrow> u32 option" where
  "ndm_tlv_size h blk tlv =
     map_option (\<lambda>len. ndm_tlv_size0 (ndm_endian_betoh32 h len)) (load32 h blk (tlv + offs_len))"

definition ndm_tlv_next :: "host \<Rightarrow> u8 list \<Rightarrow> nat \<Rightarrow> nat option" where
  "ndm_tlv_next h blk tlv = map_option (\<lambda>size. tlv + unat size) (ndm_tlv_size h blk tlv)"

definition ndm_tlv_offs :: "nat \<Rightarrow> nat \<Rightarrow> int" where
  "ndm_tlv_offs tlv_end beg = int tlv_end - int beg"

text \<open>A copy of the entry, \<open>None\<close> when there is no memory for it.\<close>

definition ndm_tlv_dup :: "host \<Rightarrow> heap \<Rightarrow> u8 list \<Rightarrow> nat \<Rightarrow> u8 list option result" where
  "ndm_tlv_dup h heap blk tlv =
     need (ndm_tlv_size h blk tlv) (\<lambda>size.
       if \<not> can_alloc heap then Ok None
       else need (mem_read blk tlv (unat size)) (\<lambda>dup. Ok (Some dup)))"

definition ndm_tlv_hdr_size :: "host \<Rightarrow> u8 list \<Rightarrow> u32 option" where
  "ndm_tlv_hdr_size h blk =
     map_option (\<lambda>size. ucast (of_nat sizeof_hdr + ucast (ndm_endian_betoh32 h size) :: u64))
       (load32 h blk offs_size)"

definition ndm_tlv_hdr_beg :: nat where
  "ndm_tlv_hdr_beg = offs_tlv"

definition ndm_tlv_hdr_end :: "host \<Rightarrow> u8 list \<Rightarrow> nat option" where
  "ndm_tlv_hdr_end h blk = map_option unat (ndm_tlv_hdr_size h blk)"

text \<open>
  The walk that looks for a tag: \<open>None\<close> is a walk that never ends (an entry of size
  0), \<open>Some Undefined\<close> one that reads outside the block.
\<close>

partial_function (option) ndm_tlv_find_from ::
  "host \<Rightarrow> u8 list \<Rightarrow> nat \<Rightarrow> u32 \<Rightarrow> nat \<Rightarrow> nat result option" where
  "ndm_tlv_find_from h blk tlv_end be_tag tlv =
     (if tlv = tlv_end then Some (Ok tlv)
      else (case load32 h blk (tlv + offs_tag) of
        None \<Rightarrow> Some Undefined
      | Some t \<Rightarrow>
          if t = be_tag then Some (Ok tlv)
          else (case ndm_tlv_next h blk tlv of
            None \<Rightarrow> Some Undefined
          | Some tlv' \<Rightarrow> ndm_tlv_find_from h blk tlv_end be_tag tlv')))"

definition ndm_tlv_hdr_find :: "host \<Rightarrow> u8 list \<Rightarrow> u32 \<Rightarrow> nat result option" where
  "ndm_tlv_hdr_find h blk tag =
     (case ndm_tlv_hdr_end h blk of
        None \<Rightarrow> Some Undefined
      | Some tlv_end \<Rightarrow>
          ndm_tlv_find_from h blk tlv_end (ndm_endian_htobe32 h tag) ndm_tlv_hdr_beg)"

text \<open>The header after a change of the entries by \<open>size_diff\<close> bytes.\<close>

definition ndm_tlv_hdr_update :: "host \<Rightarrow> u8 list \<Rightarrow> int \<Rightarrow> u8 list result" where
  "ndm_tlv_hdr_update h blk size_diff =
     need (load32 h blk offs_size) (\<lambda>size.
     need (add_s32 (sint (ndm_endian_betoh32 h size)) size_diff) (\<lambda>new_size.
     need (store32 h blk offs_size (ndm_endian_htobe32 h (of_int new_size))) (\<lambda>blk.
     need (store32 h blk offs_crc32 0) (\<lambda>blk.
     need (ndm_tlv_hdr_size h blk) (\<lambda>len.
     need (mem_read blk 0 (unat len)) (\<lambda>img.
     need (store32 h blk offs_crc32
             (ndm_endian_htobe32 h (ndm_crc32_digest (ndm_crc32_update ndm_crc32_init img)))) Ok))))))"

section \<open>Creating a table\<close>

definition ndm_tlv_table_create ::
  "host \<Rightarrow> heap \<Rightarrow> bool \<Rightarrow> u64 \<Rightarrow> u8 list \<Rightarrow> ndm_tlv_table_t result" where
  "ndm_tlv_table_create h heap dst_null len_max img =
     (if dst_null \<or> length img < sizeof_hdr \<or> length img > 2 ^ 32 - 1 \<or>
         length img mod unat NDM_TLV_TABLE_ALIGNMENT \<noteq> 0 \<or>
         unat len_max < sizeof_hdr \<or> unat len_max > 2 ^ 32 - 1 \<or>
         unat len_max mod unat NDM_TLV_TABLE_ALIGNMENT \<noteq> 0
      then Error EINVAL
      else if \<not> can_alloc heap \<or> \<not> can_alloc (heap_next heap) then Error ENOMEM
      else bind_result (ndm_tlv_hdr_update h img 0) (\<lambda>blk.
             Ok \<lparr>img_len_max = len_max, hdr = blk\<rparr>))"

definition ndm_tlv_table_new ::
  "host \<Rightarrow> heap \<Rightarrow> bool \<Rightarrow> u64 \<Rightarrow> u64 \<Rightarrow> ndm_tlv_table_t result" where
  "ndm_tlv_table_new h heap dst_null magic len_max =
     ndm_tlv_table_create h heap dst_null len_max
       (mem_bytes h 8 (ndm_endian_htobe64 h magic) @
        mem_bytes h 4 (ndm_endian_htobe32 h 0) @ mem_bytes h 4 (ndm_endian_htobe32 h 0))"

text \<open>The two checks of the entries of an image: their bounds, then their tags.\<close>

partial_function (option) ndm_tlv_check_bounds ::
  "host \<Rightarrow> u8 list \<Rightarrow> nat \<Rightarrow> nat \<Rightarrow> unit result option" where
  "ndm_tlv_check_bounds h img tlv_end tlv =
     (if tlv = tlv_end then Some (Ok ())
      else if 0 \<le> ndm_tlv_offs tlv_end tlv \<and> ndm_tlv_offs tlv_end tlv < int sizeof_tlv
      then Some (Error EBADMSG)
      else (case ndm_tlv_next h img tlv of
        None \<Rightarrow> Some Undefined
      | Some next \<Rightarrow>
          if next > tlv_end then Some (Error E2BIG)
          else ndm_tlv_check_bounds h img tlv_end next))"

partial_function (option) ndm_tlv_check_tag ::
  "host \<Rightarrow> u8 list \<Rightarrow> nat \<Rightarrow> u32 \<Rightarrow> nat \<Rightarrow> unit result option" where
  "ndm_tlv_check_tag h img tlv_end tag next =
     (if next = tlv_end then Some (Ok ())
      else (case load32 h img (next + offs_tag) of
        None \<Rightarrow> Some Undefined
      | Some t \<Rightarrow>
          if tag = t then Some (Error EEXIST)
          else (case ndm_tlv_next h img next of
            None \<Rightarrow> Some Undefined
          | Some next' \<Rightarrow> ndm_tlv_check_tag h img tlv_end tag next')))"

partial_function (option) ndm_tlv_check_tags ::
  "host \<Rightarrow> u8 list \<Rightarrow> nat \<Rightarrow> nat \<Rightarrow> unit result option" where
  "ndm_tlv_check_tags h img tlv_end tlv =
     (if tlv = tlv_end then Some (Ok ())
      else (case (load32 h img (tlv + offs_tag), ndm_tlv_next h img tlv) of
        (Some tag, Some next) \<Rightarrow>
          (case ndm_tlv_check_tag h img tlv_end tag next of
            None \<Rightarrow> None
          | Some (Ok _) \<Rightarrow> ndm_tlv_check_tags h img tlv_end next
          | Some r \<Rightarrow> Some r)
      | _ \<Rightarrow> Some Undefined))"

definition then_check :: "unit result option \<Rightarrow> 'a result option \<Rightarrow> 'a result option" where
  "then_check r k =
     (case r of None \<Rightarrow> None | Some (Ok _) \<Rightarrow> k | Some (Error e) \<Rightarrow> Some (Error e)
      | Some Undefined \<Rightarrow> Some Undefined)"

text \<open>
  \<open>addr\<close> is the address of the image (0 is \<open>NULL\<close>) and \<open>img\<close> the \<open>img_len\<close> bytes
  the caller passes there.
\<close>

definition ndm_tlv_table_parse_img ::
  "host \<Rightarrow> heap \<Rightarrow> bool \<Rightarrow> u64 \<Rightarrow> u64 \<Rightarrow> u64 \<Rightarrow> u8 list \<Rightarrow> ndm_tlv_table_t result option" where
  "ndm_tlv_table_parse_img h heap dst_null magic len_max addr img =
     (if addr = 0 \<or> addr mod 8 \<noteq> 0 then Some (Error EINVAL)
      else if length img < sizeof_hdr then Some (Error EILSEQ)
      else (case (load32 h img offs_size, ndm_tlv_hdr_size h img, load64 h img offs_magic,
                  load32 h img offs_crc32) of
        (Some be_size, Some hdr_size, Some be_magic, Some be_crc32) \<Rightarrow>
          let size = ndm_endian_betoh32 h be_size in
          if ucast hdr_size > len_max then Some (Error EMSGSIZE)
          else if ndm_endian_betoh64 h be_magic \<noteq> magic \<or> unat hdr_size > length img \<or>
                  size mod NDM_TLV_TABLE_ALIGNMENT \<noteq> 0
          then Some (Error EILSEQ)
          else (case (store32 h (take sizeof_hdr img) offs_crc32 0,
                      mem_read img offs_tlv (unat size)) of
            (Some hdr_copy, Some body) \<Rightarrow>
              let crc32 = ndm_crc32_update (ndm_crc32_update ndm_crc32_init hdr_copy) body in
              if ndm_endian_betoh32 h be_crc32 \<noteq> ndm_crc32_digest crc32 then Some (Error EILSEQ)
              else
                let tlv = ndm_tlv_hdr_beg; tlv_end = unat hdr_size in
                then_check (ndm_tlv_check_bounds h img tlv_end tlv)
                  (then_check (ndm_tlv_check_tags h img tlv_end tlv)
                    (Some (ndm_tlv_table_create h heap dst_null len_max (take (unat hdr_size) img))))
          | _ \<Rightarrow> Some Undefined)
      | _ \<Rightarrow> Some Undefined))"

definition ndm_tlv_table_free :: "ndm_tlv_table_t option \<Rightarrow> ndm_tlv_table_t option" where
  "ndm_tlv_table_free t = None"

definition ndm_tlv_table_img_ptr :: "ndm_tlv_table_t \<Rightarrow> u8 list" where
  "ndm_tlv_table_img_ptr t = hdr t"

definition ndm_tlv_table_img_len :: "host \<Rightarrow> ndm_tlv_table_t \<Rightarrow> u64 result" where
  "ndm_tlv_table_img_len h t = need (ndm_tlv_hdr_size h (hdr t)) (\<lambda>size. Ok (ucast size))"

section \<open>Changing a table\<close>

text \<open>
  A change ends in a table and an error code, \<open>None\<close> for the return value 0: on failure
  the table is still there, and the theorems say in what state.
\<close>

type_synonym tlv_outcome = "(ndm_tlv_table_t \<times> errno option) result"

text \<open>The offset \<open>off + d\<close> for a signed \<open>d\<close>, \<open>None\<close> before the block.\<close>

definition offset_add :: "nat \<Rightarrow> int \<Rightarrow> nat option" where
  "offset_add off d = (if int off + d < 0 then None else Some (nat (int off + d)))"

text \<open>The new value with its length, its padding and the header.\<close>

definition ndm_tlv_set_value ::
  "host \<Rightarrow> ndm_tlv_table_t \<Rightarrow> u8 list \<Rightarrow> nat \<Rightarrow> u8 list \<Rightarrow> int \<Rightarrow> tlv_outcome" where
  "ndm_tlv_set_value h t blk tlv val size_diff =
     (let len = length val; tail = len mod unat NDM_TLV_TABLE_ALIGNMENT in
      need (store32 h blk (tlv + offs_len) (ndm_endian_htobe32 h (of_nat len))) (\<lambda>blk.
      need (mem_write blk (tlv + offs_val) val) (\<lambda>blk.
      need (if tail \<noteq> 0
            then mem_write blk (tlv + offs_val + len)
                   (replicate (unat NDM_TLV_TABLE_ALIGNMENT - tail) 0)
            else Some blk) (\<lambda>blk.
      bind_result (ndm_tlv_hdr_update h blk size_diff) (\<lambda>blk.
      Ok (t\<lparr>hdr := blk\<rparr>, None))))))"

text \<open>The entry shrinks: the tail moves left, then the block is cut.\<close>

definition ndm_tlv_set_shrink ::
  "host \<Rightarrow> heap \<Rightarrow> ndm_tlv_table_t \<Rightarrow> nat \<Rightarrow> nat \<Rightarrow> u8 list \<Rightarrow> int \<Rightarrow> u64 \<Rightarrow> tlv_outcome" where
  "ndm_tlv_set_shrink h heap t tlv_end tlv val size_diff img_len =
     bind_result (ndm_tlv_dup h heap (hdr t) tlv) (\<lambda>tlv_dup.
     need (ndm_tlv_next h (hdr t) tlv) (\<lambda>next.
     let tail_size = ndm_tlv_offs tlv_end next in
     case tlv_dup of
       None \<Rightarrow> Ok (t, Some ENOMEM)
     | Some dup \<Rightarrow>
         if tail_size < 0 then Undefined
         else need (offset_add next size_diff) (\<lambda>dst.
              need (mem_move (hdr t) dst next (nat tail_size)) (\<lambda>blk.
              if \<not> can_alloc (heap_next heap)
              then need (mem_move blk next dst (nat tail_size)) (\<lambda>blk.
                   need (ndm_tlv_size h dup 0) (\<lambda>dup_size.
                   need (mem_read dup 0 (unat dup_size)) (\<lambda>old.
                   need (mem_write blk tlv old) (\<lambda>blk.
                   Ok (t\<lparr>hdr := blk\<rparr>, Some ENOMEM)))))
              else ndm_tlv_set_value h t (resize_block heap blk (unat img_len)) tlv val size_diff))))"

text \<open>The entry is new or grows: the block is extended, then the tail moves right.\<close>

definition ndm_tlv_set_grow ::
  "host \<Rightarrow> heap \<Rightarrow> ndm_tlv_table_t \<Rightarrow> nat \<Rightarrow> nat \<Rightarrow> u32 \<Rightarrow> u8 list \<Rightarrow> int \<Rightarrow> u64 \<Rightarrow> tlv_outcome" where
  "ndm_tlv_set_grow h heap t tlv_end tlv tag val size_diff img_len =
     need (if tlv = tlv_end then Some tlv else ndm_tlv_next h (hdr t) tlv) (\<lambda>next.
     let tail_size = ndm_tlv_offs tlv_end next in
     if \<not> can_alloc heap then Ok (t, Some ENOMEM)
     else
       let blk = resize_block heap (hdr t) (unat img_len) in
       need (if tail_size > 0
             then (case offset_add next size_diff of
                     None \<Rightarrow> None
                   | Some dst \<Rightarrow> mem_move blk dst next (nat tail_size))
             else store32 h blk (tlv + offs_tag) (ndm_endian_htobe32 h tag)) (\<lambda>blk.
       ndm_tlv_set_value h t blk tlv val size_diff))"

definition ndm_tlv_table_set ::
  "host \<Rightarrow> heap \<Rightarrow> ndm_tlv_table_t \<Rightarrow> u32 \<Rightarrow> u8 list \<Rightarrow> tlv_outcome option" where
  "ndm_tlv_table_set h heap t tag val =
     (case ndm_tlv_hdr_find h (hdr t) tag of
        None \<Rightarrow> None
      | Some found \<Rightarrow> Some (
          bind_result found (\<lambda>tlv.
          need (ndm_tlv_hdr_end h (hdr t)) (\<lambda>tlv_end.
          let len = length val;
              size_diff = sint (ndm_tlv_size0 (of_nat len)) in
          if len > 2 ^ 31 - 1 then Ok (t, Some EINVAL)
          else need (if tlv \<noteq> tlv_end
                     then (case ndm_tlv_size h (hdr t) tlv of
                             None \<Rightarrow> None
                           | Some sz \<Rightarrow> add_s32 size_diff (- sint sz))
                     else Some size_diff) (\<lambda>size_diff.
               need (ndm_tlv_hdr_size h (hdr t)) (\<lambda>hdr_size.
               let img_len = (ucast hdr_size + of_int size_diff :: u64) in
               if img_len > img_len_max t then Ok (t, Some EMSGSIZE)
               else if size_diff < 0
               then ndm_tlv_set_shrink h heap t tlv_end tlv val size_diff img_len
               else if size_diff > 0
               then ndm_tlv_set_grow h heap t tlv_end tlv tag val size_diff img_len
               else ndm_tlv_set_value h t (hdr t) tlv val size_diff))))))"

definition ndm_tlv_table_del ::
  "host \<Rightarrow> heap \<Rightarrow> ndm_tlv_table_t \<Rightarrow> u32 \<Rightarrow> tlv_outcome option" where
  "ndm_tlv_table_del h heap t tag =
     (case ndm_tlv_hdr_find h (hdr t) tag of
        None \<Rightarrow> None
      | Some found \<Rightarrow> Some (
          bind_result found (\<lambda>tlv.
          need (ndm_tlv_hdr_end h (hdr t)) (\<lambda>tlv_end.
          if tlv = tlv_end then Ok (t, Some ENOENT)
          else bind_result (ndm_tlv_dup h heap (hdr t) tlv) (\<lambda>tlv_dup.
          case tlv_dup of
            None \<Rightarrow> Ok (t, Some ENOMEM)
          | Some dup \<Rightarrow>
              need (ndm_tlv_size h (hdr t) tlv) (\<lambda>size.
              need (ndm_tlv_next h (hdr t) tlv) (\<lambda>next.
              let offs = ndm_tlv_offs tlv_end next in
              if offs < 0 then Undefined
              else need (mem_move (hdr t) tlv next (nat offs)) (\<lambda>blk.
              need (ndm_tlv_hdr_size h blk) (\<lambda>hdr_size.
              if \<not> can_alloc (heap_next heap)
              then need (mem_move blk next tlv (nat offs)) (\<lambda>blk.
                   need (mem_read dup 0 (unat size)) (\<lambda>old.
                   need (mem_write blk tlv old) (\<lambda>blk.
                   Ok (t\<lparr>hdr := blk\<rparr>, Some ENOMEM))))
              else bind_result
                     (ndm_tlv_hdr_update h
                       (resize_block heap blk (unat (ucast hdr_size - ucast size :: u64)))
                       (- sint size))
                     (\<lambda>blk. Ok (t\<lparr>hdr := blk\<rparr>, None)))))))))))"

section \<open>Reading a table\<close>

text \<open>
  \<open>get\<close> gives a pointer to the value and its length: the offset of the value in the
  block and the length the caller may read there, \<open>None\<close> for \<open>NULL\<close> with length 0.
\<close>

definition ndm_tlv_table_get ::
  "host \<Rightarrow> ndm_tlv_table_t \<Rightarrow> u32 \<Rightarrow> (nat option \<times> u64) result option" where
  "ndm_tlv_table_get h t tag =
     (case ndm_tlv_hdr_find h (hdr t) tag of
        None \<Rightarrow> None
      | Some found \<Rightarrow> Some (
          bind_result found (\<lambda>tlv.
          need (ndm_tlv_hdr_end h (hdr t)) (\<lambda>tlv_end.
          if tlv = tlv_end then Ok (None, 0)
          else need (load32 h (hdr t) (tlv + offs_len)) (\<lambda>len.
               Ok (Some (tlv + offs_val), ucast (ndm_endian_betoh32 h len)))))))"

definition ndm_tlv_table_img_offs_val ::
  "host \<Rightarrow> ndm_tlv_table_t \<Rightarrow> u32 \<Rightarrow> (nat \<times> u64) result option" where
  "ndm_tlv_table_img_offs_val h t tag =
     (case ndm_tlv_hdr_find h (hdr t) tag of
        None \<Rightarrow> None
      | Some found \<Rightarrow> Some (
          bind_result found (\<lambda>tlv.
          need (ndm_tlv_hdr_end h (hdr t)) (\<lambda>tlv_end.
          if tlv = tlv_end then Ok (0, 0)
          else need (load32 h (hdr t) (tlv + offs_len)) (\<lambda>len.
               Ok (tlv + offs_val, ucast (ndm_endian_betoh32 h len)))))))"

definition ndm_tlv_table_img_offs_crc :: "ndm_tlv_table_t \<Rightarrow> nat \<times> nat" where
  "ndm_tlv_table_img_offs_crc t = (offs_crc32, 4)"

end
