(* ===== verification/Tlv_Entries.thy ===== *)
theory Tlv_Entries
  imports Tlv_Table
begin

text \<open>
  What a TLV image means: a magic and a list of entries, each a tag, a value and the
  padding after it. \<open>tlv_image\<close> is the image of such a list; the lemmas say what the
  code's reads and walks return on it.
\<close>

type_synonym entry = "u32 \<times> u8 list \<times> u8 list"

abbreviation entry_tag :: "entry \<Rightarrow> u32" where "entry_tag \<equiv> fst"
abbreviation entry_val :: "entry \<Rightarrow> u8 list" where "entry_val e \<equiv> fst (snd e)"
abbreviation entry_pad :: "entry \<Rightarrow> u8 list" where "entry_pad e \<equiv> snd (snd e)"

definition pad_len :: "nat \<Rightarrow> nat" where
  "pad_len n = (8 - n mod 8) mod 8"

definition entry_ok :: "entry \<Rightarrow> bool" where
  "entry_ok e \<longleftrightarrow> length (entry_pad e) = pad_len (length (entry_val e)) \<and>
     length (entry_val e) \<le> 2 ^ 32 - 16"

definition entry_bytes :: "entry \<Rightarrow> u8 list" where
  "entry_bytes e = be_bytes 4 (entry_tag e) @ be_bytes 4 (of_nat (length (entry_val e)) :: u32) @
     entry_val e @ entry_pad e"

definition entries_bytes :: "entry list \<Rightarrow> u8 list" where
  "entries_bytes es = concat (map entry_bytes es)"

definition image_crc :: "u64 \<Rightarrow> u8 list \<Rightarrow> u32" where
  "image_crc magic body = ndm_crc32_digest (ndm_crc32_update ndm_crc32_init
     (be_bytes 8 magic @ be_bytes 4 (0 :: u32) @ be_bytes 4 (of_nat (length body) :: u32) @ body))"

definition image_bytes :: "u64 \<Rightarrow> u32 \<Rightarrow> u8 list \<Rightarrow> u8 list" where
  "image_bytes magic crc body =
     be_bytes 8 magic @ be_bytes 4 crc @ be_bytes 4 (of_nat (length body) :: u32) @ body"

definition tlv_image :: "u64 \<Rightarrow> entry list \<Rightarrow> u8 list" where
  "tlv_image magic es = image_bytes magic (image_crc magic (entries_bytes es)) (entries_bytes es)"

text \<open>
  The table \<open>t\<close> holds the entries \<open>es\<close>: its block is their image, their tags are
  distinct, and the image is within the table's limit. Limits below 2 GiB keep the
  signed sizes of the code in range.
\<close>

definition tlv_holds :: "ndm_tlv_table_t \<Rightarrow> u64 \<Rightarrow> entry list \<Rightarrow> bool" where
  "tlv_holds t magic es \<longleftrightarrow>
     hdr t = tlv_image magic es \<and> list_all entry_ok es \<and> distinct (map entry_tag es) \<and>
     16 + length (entries_bytes es) \<le> unat (img_len_max t) \<and>
     unat (img_len_max t) < 2 ^ 31 \<and> unat (img_len_max t) mod 8 = 0"

section \<open>Sizes\<close>

lemma pad_len_aligns: "n + pad_len n = (n + 7) div 8 * 8"
proof -
  define q r where "q = n div 8" and "r = n mod 8"
  then have n: "n = 8 * q + r" and r: "r < 8" by simp_all
  have p: "pad_len n = (8 - r) mod 8" by (simp add: pad_len_def r_def)
  from r have "r = 0 \<or> r = 1 \<or> r = 2 \<or> r = 3 \<or> r = 4 \<or> r = 5 \<or> r = 6 \<or> r = 7" by linarith
  then show ?thesis unfolding p by (elim disjE) (simp_all add: n)
qed

lemma pad_len_less: "pad_len n < 8"
  by (simp add: pad_len_def)

lemma entry_bytes_length [layout_simps]:
  "length (entry_bytes e) = 8 + length (entry_val e) + length (entry_pad e)"
  by (simp add: entry_bytes_def)

lemma entries_bytes_simps [simp]:
  "entries_bytes [] = []"
  "entries_bytes (e # es) = entry_bytes e @ entries_bytes es"
  "entries_bytes (es @ es') = entries_bytes es @ entries_bytes es'"
  by (simp_all add: entries_bytes_def)

lemma entry_bytes_ge_8: "8 \<le> length (entry_bytes e)"
  by (simp add: layout_simps)

lemma entry_bytes_not_Nil [simp]: "entry_bytes e \<noteq> []"
  using entry_bytes_ge_8 [of e] by auto

lemma entry_bytes_aligned: "entry_ok e \<Longrightarrow> length (entry_bytes e) mod 8 = 0"
  using pad_len_aligns [of "length (entry_val e)"]
  by (simp add: layout_simps entry_ok_def add.assoc)

lemma entries_bytes_aligned: "list_all entry_ok es \<Longrightarrow> length (entries_bytes es) mod 8 = 0"
proof (induction es)
  case (Cons e es)
  then show ?case using entry_bytes_aligned [of e] by (auto simp: mod_add_eq mod_eq_0_iff_dvd)
qed simp

lemma NDM_ALIGN_unat [simp]: "unat NDM_TLV_TABLE_ALIGNMENT = 8"
  by (simp add: NDM_TLV_TABLE_ALIGNMENT_def)

lemma image_bytes_length [layout_simps]: "length (image_bytes magic crc body) = 16 + length body"
  by (simp add: image_bytes_def)

lemma tlv_image_length [layout_simps]: "length (tlv_image magic es) = 16 + length (entries_bytes es)"
  by (simp add: tlv_image_def layout_simps)

lemma unat_ndm_tlv_size0:
  assumes "n \<le> 2 ^ 32 - 16"
  shows "unat (ndm_tlv_size0 (of_nat n)) = 8 + n + pad_len n"
proof -
  have n: "unat (of_nat n :: u32) = n" using assms by simp
  let ?a = "NDM_INT_ALIGN (of_nat n) 8 :: u32"
  have a: "unat ?a = (n + 7) div 8 * 8"
    using NDM_INT_ALIGN_8 [of "of_nat n :: u32"] assms by (simp add: n)
  have le: "(n + 7) div 8 * 8 \<le> 2 ^ 32 - 16" using assms by simp
  have "unat (of_nat sizeof_tlv + ucast ?a :: u64) = 8 + (n + 7) div 8 * 8"
    using le by (simp add: sizeof_tlv_def unat_word_ariths unat_ucast_up a)
  then have "unat (ndm_tlv_size0 (of_nat n)) = take_bit 32 (8 + (n + 7) div 8 * 8)"
    by (simp add: ndm_tlv_size0_def NDM_TLV_TABLE_ALIGNMENT_def unsigned_ucast_eq)
  then show ?thesis
    using le pad_len_aligns [of n] by (simp add: take_bit_nat_eq_self)
qed

section \<open>Reading fields\<close>

lemma load32_at:
  "length xs = off \<Longrightarrow> load32 h (xs @ be_bytes 4 (v :: u32) @ zs) off = Some (mem_value h (be_bytes 4 v))"
  by (simp add: load32_def mem_simps)

lemma betoh32_be_bytes [simp]: "ndm_endian_betoh32 h (mem_value h (be_bytes 4 v)) = v"
  by (rule be32.load_wire)

lemma betoh64_be_bytes [simp]: "ndm_endian_betoh64 h (mem_value h (be_bytes 8 v)) = v"
  by (rule be64.load_wire)

lemma htobe32_eq_field [simp]: "mem_value h (be_bytes 4 t) = ndm_endian_htobe32 h tag \<longleftrightarrow> t = tag"
  by (simp add: be32.field_eq_key)

lemma field_eq_field [simp]:
  "(mem_value h (be_bytes 4 t) :: u32) = mem_value h (be_bytes 4 t') \<longleftrightarrow> t = (t' :: u32)"
  by (metis be32.load_wire)

text \<open>The entry \<open>e\<close> at the offset \<open>length pre\<close> of a block.\<close>

lemma load_tag_at:
  "tlv = length pre \<Longrightarrow>
   load32 h (pre @ entry_bytes e @ post) (tlv + offs_tag) = Some (mem_value h (be_bytes 4 (entry_tag e)))"
  using load32_at [of pre tlv h "entry_tag e"] by (simp add: entry_bytes_def offs_tag_def)

lemma load_len_at:
  "tlv = length pre \<Longrightarrow>
   load32 h (pre @ entry_bytes e @ post) (tlv + offs_len) =
     Some (mem_value h (be_bytes 4 (of_nat (length (entry_val e)) :: u32)))"
  using load32_at [of "pre @ be_bytes 4 (entry_tag e)" "tlv + 4" h]
  by (simp add: entry_bytes_def offs_len_def)

lemma ndm_tlv_size_at:
  assumes "entry_ok e" and "tlv = length pre"
  shows "\<exists>sz. ndm_tlv_size h (pre @ entry_bytes e @ post) tlv = Some sz \<and> unat sz = length (entry_bytes e)"
  using assms unat_ndm_tlv_size0 [of "length (entry_val e)"]
  by (auto simp: ndm_tlv_size_def load_len_at entry_ok_def layout_simps)

lemma ndm_tlv_next_at:
  assumes "entry_ok e" and "tlv = length pre"
  shows "ndm_tlv_next h (pre @ entry_bytes e @ post) tlv = Some (tlv + length (entry_bytes e))"
  using ndm_tlv_size_at [OF assms] by (auto simp: ndm_tlv_next_def)

text \<open>The header of an image.\<close>

lemma load_size_image:
  "load32 h (image_bytes magic crc body) offs_size =
     Some (mem_value h (be_bytes 4 (of_nat (length body) :: u32)))"
  using load32_at [of "be_bytes 8 magic @ be_bytes 4 crc" 12 h]
  by (simp add: image_bytes_def offs_size_def)

lemma load_crc_image:
  "load32 h (image_bytes magic crc body) offs_crc32 = Some (mem_value h (be_bytes 4 crc))"
  using load32_at [of "be_bytes 8 magic" 8 h] by (simp add: image_bytes_def offs_crc32_def)

lemma load_magic_image:
  "load64 h (image_bytes magic crc body) offs_magic = Some (mem_value h (be_bytes 8 magic))"
  using mem_read_at [of 0 "[]" 8 "be_bytes 8 magic"]
  by (simp add: load64_def image_bytes_def offs_magic_def)

lemma hdr_size_image:
  assumes "length body \<le> 2 ^ 32 - 17"
  shows "\<exists>sz. ndm_tlv_hdr_size h (image_bytes magic crc body) = Some sz \<and> unat sz = 16 + length body"
proof -
  have "unat (of_nat (length body) :: u32) = length body" using assms by simp
  then have "unat (of_nat sizeof_hdr + ucast (of_nat (length body) :: u32) :: u64) = 16 + length body"
    using assms by (simp add: sizeof_hdr_def unat_word_ariths unat_ucast_up)
  then have "unat (ucast (of_nat sizeof_hdr + ucast (of_nat (length body) :: u32) :: u64) :: u32) =
      16 + length body"
    using assms by (simp add: unsigned_ucast_eq take_bit_nat_eq_self)
  then show ?thesis by (simp add: ndm_tlv_hdr_size_def load_size_image)
qed

lemma hdr_end_image:
  assumes "length body \<le> 2 ^ 32 - 17"
  shows "ndm_tlv_hdr_end h (image_bytes magic crc body) = Some (16 + length body)"
  using hdr_size_image [OF assms] by (auto simp: ndm_tlv_hdr_end_def)

section \<open>The walk that finds a tag\<close>

lemma find_from_entries:
  assumes "list_all entry_ok es" and "tlv = length pre"
    and "tlv_end = length pre + length (entries_bytes es)"
  shows "ndm_tlv_find_from h (pre @ entries_bytes es @ post) tlv_end (ndm_endian_htobe32 h tag) tlv =
    Some (Ok (tlv + length (entries_bytes (takeWhile (\<lambda>e. entry_tag e \<noteq> tag) es))))"
  using assms
proof (induction es arbitrary: pre tlv)
  case Nil
  then show ?case by (simp add: ndm_tlv_find_from.simps)
next
  case (Cons e es)
  let ?blk = "pre @ entries_bytes (e # es) @ post"
  have blk: "?blk = pre @ entry_bytes e @ entries_bytes es @ post" by simp
  have step: "ndm_tlv_next h ?blk tlv = Some (tlv + length (entry_bytes e))"
    unfolding blk using Cons.prems by (intro ndm_tlv_next_at) simp_all
  have tag: "load32 h ?blk (tlv + offs_tag) = Some (mem_value h (be_bytes 4 (entry_tag e)))"
    unfolding blk using Cons.prems by (intro load_tag_at) simp
  have rest: "ndm_tlv_find_from h ?blk tlv_end (ndm_endian_htobe32 h tag) (tlv + length (entry_bytes e))
    = Some (Ok (tlv + length (entry_bytes e) +
        length (entries_bytes (takeWhile (\<lambda>e. entry_tag e \<noteq> tag) es))))"
    using Cons.IH [of "tlv + length (entry_bytes e)" "pre @ entry_bytes e"] Cons.prems by simp
  have "tlv \<noteq> tlv_end" using Cons.prems entry_bytes_ge_8 [of e] by simp
  then show ?case
    using rest by (subst ndm_tlv_find_from.simps) (simp add: step tag add.assoc del: entries_bytes_simps(2), simp)
qed

lemma hdr_find_image:
  assumes "list_all entry_ok es" and "length (entries_bytes es) \<le> 2 ^ 32 - 17"
  shows "ndm_tlv_hdr_find h (image_bytes magic crc (entries_bytes es)) tag =
    Some (Ok (16 + length (entries_bytes (takeWhile (\<lambda>e. entry_tag e \<noteq> tag) es))))"
  using find_from_entries [OF assms(1), of 16
      "be_bytes 8 magic @ be_bytes 4 crc @ be_bytes 4 (of_nat (length (entries_bytes es)) :: u32)" _ h "[]" tag]
  unfolding ndm_tlv_hdr_find_def hdr_end_image [OF assms(2)]
  by (simp add: ndm_tlv_hdr_beg_def offs_tlv_def image_bytes_def)

end
