(* ===== verification/Tlv_Refine.thy ===== *)
theory Tlv_Refine
  imports Tlv_Entries
begin

text \<open>
  The operations of the TLV table against their meaning on lists of entries: what
  \<open>set\<close>, \<open>del\<close> and \<open>get\<close> do, what a failure leaves behind, and that
  \<open>parse_img\<close> accepts the image of every table the operations build.
\<close>

section \<open>Blocks under moves\<close>

lemma mem_move_left:
  assumes "length X = dst" and "length X + length Y = src"
  shows "mem_move (X @ Y @ C) dst src (length C) = Some (X @ C @ drop (length C) (Y @ C))"
  using assms by (auto simp: mem_move_def mem_read_def mem_write_def)

lemma mem_move_right:
  assumes "length X = src" and "length X + length G = dst" and "n = length C"
  shows "mem_move (X @ C @ G) dst src n = Some (X @ take (length G) (C @ G) @ C)"
  using assms by (auto simp: mem_move_def mem_read_def mem_write_def)

section \<open>The header after a change\<close>

definition raw_image :: "u64 \<Rightarrow> u32 \<Rightarrow> nat \<Rightarrow> u8 list \<Rightarrow> u8 list" where
  "raw_image magic crc n body =
     be_bytes 8 magic @ be_bytes 4 crc @ be_bytes 4 (of_nat n :: u32) @ body"

lemma image_bytes_raw: "image_bytes magic crc body = raw_image magic crc (length body) body"
  by (simp add: image_bytes_def raw_image_def)

lemma raw_image_length [layout_simps]: "length (raw_image magic crc n body) = 16 + length body"
  by (simp add: raw_image_def)

lemma load_size_raw:
  "load32 h (raw_image magic crc n body) offs_size = Some (mem_value h (be_bytes 4 (of_nat n :: u32)))"
  using load32_at [of "be_bytes 8 magic @ be_bytes 4 crc" 12 h]
  by (simp add: raw_image_def offs_size_def)

lemma store_size_raw:
  "store32 h (raw_image magic crc n body) offs_size (ndm_endian_htobe32 h (of_nat n')) =
     Some (raw_image magic crc n' body)"
  using mem_write_at [of 12 "be_bytes 8 magic @ be_bytes 4 crc" "be_bytes 4 (of_nat n :: u32)"
      "be_bytes 4 (of_nat n' :: u32)" body]
  by (simp add: raw_image_def offs_size_def store32_def be32.store)

lemma store_crc_raw:
  "store32 h (raw_image magic crc n body) offs_crc32 (ndm_endian_htobe32 h crc') =
     Some (raw_image magic crc' n body)"
  using mem_write_at [of 8 "be_bytes 8 magic" "be_bytes 4 crc" "be_bytes 4 crc'"]
  by (simp add: raw_image_def offs_crc32_def store32_def be32.store)

lemma htobe32_0: "ndm_endian_htobe32 h 0 = 0"
proof -
  have "be_bytes 4 (0 :: u32) = replicate 4 0" and "mem_bytes h 4 (0 :: u32) = replicate 4 0"
    by (cases h; simp add: be_bytes_def mem_bytes_def upt_bytes numeral_eq_Suc)+
  then have "mem_bytes h 4 (ndm_endian_htobe32 h 0) = mem_bytes h 4 (0 :: u32)"
    by (simp add: be32.store)
  then show ?thesis
    using mem_value_mem_bytes [of 4 h "ndm_endian_htobe32 h 0"] mem_value_mem_bytes [of 4 h "0 :: u32"]
    by simp
qed

lemma sint_of_nat_small: "n < 2 ^ 31 \<Longrightarrow> sint (of_nat n :: u32) = int n"
  by (simp add: signed_of_nat signed_take_bit_int_eq_self)

lemma hdr_update_raw:
  assumes n: "n < 2 ^ 31" and d: "int n + size_diff = int (length body)"
    and len: "length body < 2 ^ 31"
  shows "ndm_tlv_hdr_update h (raw_image magic crc n body) size_diff =
    Ok (image_bytes magic (image_crc magic body) body)"
proof -
  let ?m = "length body"
  have s: "sint (of_nat n :: u32) = int n" by (rule sint_of_nat_small [OF n])
  have add: "add_s32 (int n) size_diff = Some (int ?m)"
    using d len by (simp add: add_s32_def)
  have sz: "of_int (int ?m) = (of_nat ?m :: u32)" by simp
  have zero: "store32 h (raw_image magic crc ?m body) offs_crc32 0 = Some (raw_image magic 0 ?m body)"
    using store_crc_raw [of h magic crc ?m body 0] by (simp add: htobe32_0)
  obtain k where k: "ndm_tlv_hdr_size h (raw_image magic 0 ?m body) = Some k"
    and uk: "unat k = length (raw_image magic 0 ?m body)"
    using hdr_size_image [of body h magic 0] len by (auto simp: image_bytes_raw layout_simps)
  have img: "mem_read (raw_image magic 0 ?m body) 0 (unat k) = Some (raw_image magic 0 ?m body)"
    unfolding uk by (simp add: mem_read_def)
  show ?thesis
    by (simp add: ndm_tlv_hdr_update_def load_size_raw s add sz store_size_raw zero k img
      store_crc_raw image_bytes_raw image_crc_def) (simp add: raw_image_def)
qed

section \<open>Setting a value\<close>

text \<open>
  The entry that \<open>set\<close> writes, the entries after it, and the slot of an entry in a
  block: tag, four bytes for the length, and room for the value and its padding.
\<close>

definition new_entry :: "u32 \<Rightarrow> u8 list \<Rightarrow> entry" where
  "new_entry tag val = (tag, val, replicate (pad_len (length val)) 0)"

fun put_entry :: "u32 \<Rightarrow> u8 list \<Rightarrow> entry list \<Rightarrow> entry list" where
  "put_entry tag val [] = [new_entry tag val]"
| "put_entry tag val (e # es) =
     (if entry_tag e = tag then new_entry tag val # es else e # put_entry tag val es)"

lemma new_entry_ok: "length val \<le> 2 ^ 32 - 16 \<Longrightarrow> entry_ok (new_entry tag val)"
  by (simp add: entry_ok_def new_entry_def)

lemma new_entry_length [layout_simps]:
  "length (entry_bytes (new_entry tag val)) = 8 + length val + pad_len (length val)"
  by (simp add: new_entry_def layout_simps)

lemma set_value_slot:
  assumes L: "length L = 4" and W: "length W = length val + pad_len (length val)"
    and n: "n < 2 ^ 31"
    and body: "body' = A @ entry_bytes (new_entry tag val) @ C"
    and d: "int n + size_diff = int (length body')" and len: "length body' < 2 ^ 31"
    and tlv: "tlv = 16 + length A"
  shows "ndm_tlv_set_value h t (raw_image magic crc n (A @ be_bytes 4 tag @ L @ W @ C)) tlv val size_diff =
    Ok (t\<lparr>hdr := image_bytes magic (image_crc magic body') body'\<rparr>, None)"
proof -
  let ?l = "length val" and ?H = "be_bytes 8 magic @ be_bytes 4 crc @ be_bytes 4 (of_nat n :: u32)"
  let ?len = "be_bytes 4 (of_nat ?l :: u32)"
  obtain V P where VP: "W = V @ P" "length V = ?l" "length P = pad_len ?l"
    using W by (metis add_diff_cancel_left' append_take_drop_id diff_le_self length_drop length_take
        min.absorb2 le_add1)
  have blk: "raw_image magic crc n (A @ be_bytes 4 tag @ L @ W @ C) =
      (?H @ A @ be_bytes 4 tag) @ L @ V @ P @ C" by (simp add: raw_image_def VP)
  have w1: "store32 h (raw_image magic crc n (A @ be_bytes 4 tag @ L @ W @ C)) (tlv + offs_len)
      (ndm_endian_htobe32 h (of_nat ?l)) = Some ((?H @ A @ be_bytes 4 tag) @ ?len @ V @ P @ C)"
    unfolding store32_def blk be32.store
    by (rule mem_write_at) (simp_all add: tlv L offs_len_def)
  have w2: "mem_write ((?H @ A @ be_bytes 4 tag) @ ?len @ V @ P @ C) (tlv + offs_val) val =
      Some ((?H @ A @ be_bytes 4 tag @ ?len) @ val @ P @ C)"
    using mem_write_at [of "tlv + offs_val" "?H @ A @ be_bytes 4 tag @ ?len" V val "P @ C"]
    by (simp add: tlv VP offs_val_def)
  have w3: "(if ?l mod 8 \<noteq> 0
      then mem_write ((?H @ A @ be_bytes 4 tag @ ?len) @ val @ P @ C) (tlv + offs_val + ?l)
             (replicate (8 - ?l mod 8) 0)
      else Some ((?H @ A @ be_bytes 4 tag @ ?len) @ val @ P @ C)) =
    Some (raw_image magic crc n body')"
  proof (cases "?l mod 8 = 0")
    case True
    then show ?thesis
      using VP by (simp add: body raw_image_def entry_bytes_def new_entry_def pad_len_def)
  next
    case False
    then have p: "pad_len ?l = 8 - ?l mod 8" by (simp add: pad_len_def)
    have "mem_write ((?H @ A @ be_bytes 4 tag @ ?len @ val) @ P @ C) (tlv + offs_val + ?l)
             (replicate (8 - ?l mod 8) 0) =
       Some ((?H @ A @ be_bytes 4 tag @ ?len @ val) @ replicate (8 - ?l mod 8) 0 @ C)"
      by (rule mem_write_at) (simp_all add: tlv VP p offs_val_def)
    with False p show ?thesis
      by (simp add: body raw_image_def entry_bytes_def new_entry_def)
  qed
  show ?thesis
    unfolding ndm_tlv_set_value_def Let_def w1 w2 NDM_ALIGN_unat need_simps
    by (simp only: w3 need_simps hdr_update_raw [OF n d len] bind_result.simps)
qed

lemma take_entry_slot:
  assumes "8 \<le> k" and "k \<le> length (entry_bytes e)"
  shows "\<exists>L W. take k (entry_bytes e) = be_bytes 4 (entry_tag e) @ L @ W \<and> length L = 4 \<and> length W = k - 8"
  using assms by (intro exI [of _ "be_bytes 4 (of_nat (length (entry_val e)) :: u32)"]
      exI [of _ "take (k - 8) (entry_val e @ entry_pad e)"])
    (simp add: entry_bytes_def)

lemma dup_at:
  assumes "entry_ok e" and "tlv = length pre"
  shows "ndm_tlv_dup h heap (pre @ entry_bytes e @ post) tlv =
    Ok (if can_alloc heap then Some (entry_bytes e) else None)"
  using ndm_tlv_size_at [OF assms, of h post] mem_read_at [of tlv pre _ "entry_bytes e" post] assms(2)
  by (auto simp: ndm_tlv_dup_def)

lemma dup_size:
  assumes "entry_ok e"
  shows "\<exists>sz. ndm_tlv_size h (entry_bytes e) 0 = Some sz \<and> unat sz = length (entry_bytes e)"
  using ndm_tlv_size_at [OF assms, of 0 "[]" h "[]"] by simp

lemma set_shrink_entry:
  assumes e: "entry_ok e" "entry_tag e = tag"
    and hdr: "hdr t = raw_image magic crc n (A @ entry_bytes e @ C)"
    and tlv: "tlv = 16 + length A" and tend: "tlv_end = tlv + length (entry_bytes e) + length C"
    and body: "body' = A @ entry_bytes (new_entry tag val) @ C"
    and n: "n < 2 ^ 31" and d: "int n + size_diff = int (length body')" and len: "length body' < 2 ^ 31"
    and diff: "size_diff = int (length (entry_bytes (new_entry tag val))) - int (length (entry_bytes e))"
    and neg: "size_diff < 0" and img: "unat img_len = 16 + length body'"
  shows "ndm_tlv_set_shrink h heap t tlv_end tlv val size_diff img_len =
    Ok (if can_alloc heap \<and> can_alloc (heap_next heap)
        then (t\<lparr>hdr := image_bytes magic (image_crc magic body') body'\<rparr>, None) else (t, Some ENOMEM))"
proof -
  let ?H = "be_bytes 8 magic @ be_bytes 4 crc @ be_bytes 4 (of_nat n :: u32)"
  let ?k = "length (entry_bytes (new_entry tag val))"
  let ?X = "?H @ A @ take ?k (entry_bytes e)" and ?Y = "drop ?k (entry_bytes e)"
  let ?D = "drop (length C) (?Y @ C)" and ?next = "tlv + length (entry_bytes e)"
  have k: "?k < length (entry_bytes e)" using neg diff by simp
  have blk: "hdr t = (?H @ A) @ entry_bytes e @ C" by (simp add: hdr raw_image_def)
  have blkX: "hdr t = ?X @ ?Y @ C" by (simp add: blk)
  have next_at: "ndm_tlv_next h (hdr t) tlv = Some ?next"
    unfolding blk by (rule ndm_tlv_next_at [OF e(1)]) (simp add: tlv)
  have dup: "ndm_tlv_dup h heap (hdr t) tlv = Ok (if can_alloc heap then Some (entry_bytes e) else None)"
    unfolding blk by (rule dup_at [OF e(1)]) (simp add: tlv)
  have tail: "ndm_tlv_offs tlv_end ?next = int (length C)" by (simp add: ndm_tlv_offs_def tend)
  have dst: "offset_add ?next size_diff = Some (tlv + ?k)"
    using k by (simp add: offset_add_def diff)
  have lenX: "length ?X = tlv + ?k" using k by (simp add: tlv)
  have move: "mem_move (hdr t) (tlv + ?k) ?next (length C) = Some (?X @ C @ ?D)"
    unfolding blkX by (rule mem_move_left) (use lenX k in simp_all)
  have lenD: "length ?D = length ?Y" by simp
  have mback: "mem_move (?X @ C @ ?D) ?next (tlv + ?k) (length C) =
      Some (?X @ take (length ?D) (C @ ?D) @ C)"
    by (rule mem_move_right) (use lenX lenD k in simp_all)
  have restore: "mem_write (?X @ take (length ?D) (C @ ?D) @ C) tlv (entry_bytes e) = Some (hdr t)"
    using mem_write_at [of tlv "?H @ A" "take ?k (entry_bytes e) @ take (length ?D) (C @ ?D)"
        "entry_bytes e" C] k by (simp add: blk tlv)
  obtain sz where sz: "ndm_tlv_size h (entry_bytes e) 0 = Some sz" "unat sz = length (entry_bytes e)"
    using dup_size [OF e(1)] by blast
  have old: "mem_read (entry_bytes e) 0 (unat sz) = Some (entry_bytes e)"
    by (simp add: mem_read_def sz)
  obtain L W where LW: "take ?k (entry_bytes e) = be_bytes 4 tag @ L @ W" "length L = 4" "length W = ?k - 8"
    using take_entry_slot [of ?k e] k e entry_bytes_ge_8 by (metis less_imp_le)
  have cut: "resize_block heap (?X @ C @ ?D) (unat img_len) =
      raw_image magic crc n (A @ be_bytes 4 tag @ L @ W @ C)"
  proof -
    have "unat img_len = length (?X @ C)" using lenX by (simp add: img body tlv)
    then show ?thesis by (simp add: resize_block_def raw_image_def LW)
  qed
  have set_val: "ndm_tlv_set_value h t (raw_image magic crc n (A @ be_bytes 4 tag @ L @ W @ C)) tlv val size_diff =
      Ok (t\<lparr>hdr := image_bytes magic (image_crc magic body') body'\<rparr>, None)"
    by (rule set_value_slot [OF LW(2) _ n body d len tlv]) (simp add: LW(3) new_entry_length)
  show ?thesis
    using move mback restore cut
    by (simp add: ndm_tlv_set_shrink_def dup next_at tail dst sz(1) old set_val)
qed

lemma set_grow_entry:
  assumes e: "entry_ok e" "entry_tag e = tag"
    and hdr: "hdr t = raw_image magic crc n (A @ entry_bytes e @ C)"
    and tlv: "tlv = 16 + length A" and tend: "tlv_end = tlv + length (entry_bytes e) + length C"
    and body: "body' = A @ entry_bytes (new_entry tag val) @ C"
    and n: "n < 2 ^ 31" and d: "int n + size_diff = int (length body')" and len: "length body' < 2 ^ 31"
    and diff: "size_diff = int (length (entry_bytes (new_entry tag val))) - int (length (entry_bytes e))"
    and pos: "size_diff > 0" and img: "unat img_len = 16 + length body'"
  shows "ndm_tlv_set_grow h heap t tlv_end tlv tag val size_diff img_len =
    Ok (if can_alloc heap
        then (t\<lparr>hdr := image_bytes magic (image_crc magic body') body'\<rparr>, None) else (t, Some ENOMEM))"
proof -
  let ?H = "be_bytes 8 magic @ be_bytes 4 crc @ be_bytes 4 (of_nat n :: u32)"
  let ?k = "length (entry_bytes (new_entry tag val))"
  let ?X = "?H @ A @ entry_bytes e" and ?next = "tlv + length (entry_bytes e)"
  define G where "G = map (garbage heap) [length (hdr t)..<unat img_len]"
  have blk: "hdr t = (?H @ A) @ entry_bytes e @ C" by (simp add: hdr raw_image_def)
  have lenG: "int (length G) = size_diff"
    using diff pos by (simp add: G_def img body blk)
  have grown: "resize_block heap (hdr t) (unat img_len) = ?X @ C @ G"
    using diff pos by (subst resize_block_grow) (simp_all add: img body blk G_def)
  have next_at: "ndm_tlv_next h (hdr t) tlv = Some ?next"
    unfolding blk by (rule ndm_tlv_next_at [OF e(1)]) (simp add: tlv)
  have ne: "tlv \<noteq> tlv_end" using entry_bytes_ge_8 [of e] by (simp add: tend)
  have tail: "ndm_tlv_offs tlv_end ?next = int (length C)" by (simp add: ndm_tlv_offs_def tend)
  have dst: "offset_add ?next size_diff = Some (?next + length G)"
    by (simp add: offset_add_def flip: lenG)
  have move: "mem_move (?X @ C @ G) (?next + length G) ?next (length C) =
      Some (?X @ take (length G) (C @ G) @ C)"
    by (rule mem_move_right) (simp_all add: tlv)
  have tag_store: "store32 h (?X @ C @ G) (tlv + offs_tag) (ndm_endian_htobe32 h tag) = Some (?X @ C @ G)"
    using mem_write_at [of tlv "?H @ A" "be_bytes 4 tag" "be_bytes 4 tag"
        "be_bytes 4 (of_nat (length (entry_val e)) :: u32) @ entry_val e @ entry_pad e @ C @ G"] e(2)
    by (simp add: store32_def be32.store offs_tag_def tlv entry_bytes_def)
  have slot: "?X @ take (length G) (C @ G) @ C = raw_image magic crc n (A @ be_bytes 4 tag @
      be_bytes 4 (of_nat (length (entry_val e)) :: u32) @
      (entry_val e @ entry_pad e @ take (length G) (C @ G)) @ C)"
    using e(2) by (simp add: raw_image_def entry_bytes_def)
  have set_val: "ndm_tlv_set_value h t (?X @ take (length G) (C @ G) @ C) tlv val size_diff =
      Ok (t\<lparr>hdr := image_bytes magic (image_crc magic body') body'\<rparr>, None)"
    unfolding slot
  proof (rule set_value_slot [OF _ _ n body d len tlv])
    show "length (entry_val e @ entry_pad e @ take (length G) (C @ G)) = length val + pad_len (length val)"
      using lenG diff new_entry_length [of tag val] by (simp add: entry_bytes_length [of e])
  qed simp
  have tail_cases: "(if 0 < int (length C)
      then (case offset_add ?next size_diff of None \<Rightarrow> None
            | Some dst \<Rightarrow> mem_move (?X @ C @ G) dst ?next (nat (int (length C))))
      else store32 h (?X @ C @ G) (tlv + offs_tag) (ndm_endian_htobe32 h tag)) =
    Some (?X @ take (length G) (C @ G) @ C)"
    using move tag_store by (cases "C = []") (simp_all add: dst)
  show ?thesis
    unfolding ndm_tlv_set_grow_def if_not_P [OF ne] next_at need_simps Let_def tail grown tail_cases set_val
    by (cases "can_alloc heap") simp_all
qed

lemma set_new_entry:
  assumes hdr: "hdr t = raw_image magic crc n A"
    and tlv: "tlv = 16 + length A"
    and body: "body' = A @ entry_bytes (new_entry tag val)"
    and n: "n < 2 ^ 31" and d: "int n + size_diff = int (length body')" and len: "length body' < 2 ^ 31"
    and diff: "size_diff = int (length (entry_bytes (new_entry tag val)))"
    and img: "unat img_len = 16 + length body'"
  shows "ndm_tlv_set_grow h heap t tlv tlv tag val size_diff img_len =
    Ok (if can_alloc heap
        then (t\<lparr>hdr := image_bytes magic (image_crc magic body') body'\<rparr>, None) else (t, Some ENOMEM))"
proof -
  let ?H = "be_bytes 8 magic @ be_bytes 4 crc @ be_bytes 4 (of_nat n :: u32)"
  define G where "G = map (garbage heap) [length (hdr t)..<unat img_len]"
  have blk: "hdr t = ?H @ A" by (simp add: hdr raw_image_def)
  have lenG: "length G = 8 + length val + pad_len (length val)"
    by (simp add: G_def img body blk new_entry_length)
  have grown: "resize_block heap (hdr t) (unat img_len) = (?H @ A) @ G"
    by (subst resize_block_grow) (simp_all add: img body blk G_def)
  have tag_store: "store32 h ((?H @ A) @ G) (tlv + offs_tag) (ndm_endian_htobe32 h tag) =
      Some ((?H @ A) @ be_bytes 4 tag @ drop 4 G)"
    using mem_write_at [of tlv "?H @ A" "take 4 G" "be_bytes 4 tag" "drop 4 G"] lenG
    by (simp add: store32_def be32.store offs_tag_def tlv)
  have slot: "(?H @ A) @ be_bytes 4 tag @ drop 4 G =
      raw_image magic crc n (A @ be_bytes 4 tag @ take 4 (drop 4 G) @ drop 8 G @ [])"
    using append_take_drop_id [of 4 "drop 4 G"] by (simp add: raw_image_def)
  have set_val: "ndm_tlv_set_value h t ((?H @ A) @ be_bytes 4 tag @ drop 4 G) tlv val size_diff =
      Ok (t\<lparr>hdr := image_bytes magic (image_crc magic body') body'\<rparr>, None)"
    unfolding slot
    by (rule set_value_slot [where C = "[]" and A = A, OF _ _ n _ d len tlv]) (simp_all add: lenG body)
  show ?thesis
    using tag_store set_val
    by (simp add: ndm_tlv_set_grow_def ndm_tlv_offs_def grown Let_def)
qed

end
