(* ===== verification/Tlv_Set.thy ===== *)
theory Tlv_Set
  imports Tlv_Refine
begin

text \<open>
  The operations that change a TLV table, against their meaning on lists of entries.
\<close>

section \<open>Finding and replacing entries\<close>

lemma split_at_tag:
  assumes "tag \<in> entry_tag ` set es"
  obtains A e C where "es = A @ e # C" "entry_tag e = tag" "tag \<notin> entry_tag ` set A"
    "takeWhile (\<lambda>e. entry_tag e \<noteq> tag) es = A" "put_entry tag val es = A @ new_entry tag val # C"
proof -
  have "\<exists>A e C. es = A @ e # C \<and> entry_tag e = tag \<and> tag \<notin> entry_tag ` set A \<and>
    takeWhile (\<lambda>e. entry_tag e \<noteq> tag) es = A \<and> put_entry tag val es = A @ new_entry tag val # C"
    using assms
  proof (induction es)
    case (Cons e es)
    show ?case
    proof (cases "entry_tag e = tag")
      case True
      then show ?thesis by (intro exI [of _ "[]"] exI [of _ e] exI [of _ es]) simp
    next
      case False
      with Cons obtain A e' C where "es = A @ e' # C" "entry_tag e' = tag" "tag \<notin> entry_tag ` set A"
        "takeWhile (\<lambda>e. entry_tag e \<noteq> tag) es = A" "put_entry tag val es = A @ new_entry tag val # C"
        by auto
      with False show ?thesis by (intro exI [of _ "e # A"] exI [of _ e'] exI [of _ C]) simp
    qed
  qed simp
  then show ?thesis using that by blast
qed

lemma no_tag:
  assumes "tag \<notin> entry_tag ` set es"
  shows "takeWhile (\<lambda>e. entry_tag e \<noteq> tag) es = es" "put_entry tag val es = es @ [new_entry tag val]"
  using assms by (induction es) auto

lemma put_entry_tags:
  "entry_tag ` set (put_entry tag val es) = insert tag (entry_tag ` set es)"
  by (induction es) (auto simp: new_entry_def)

lemma put_entry_distinct:
  "distinct (map entry_tag es) \<Longrightarrow> distinct (map entry_tag (put_entry tag val es))"
proof (induction es)
  case (Cons e es)
  then show ?case
    using put_entry_tags [of tag val es] by (auto simp: new_entry_def image_iff)
qed (simp add: new_entry_def)

lemma put_entry_ok:
  "list_all entry_ok es \<Longrightarrow> length val \<le> 2 ^ 32 - 16 \<Longrightarrow> list_all entry_ok (put_entry tag val es)"
  by (induction es) (auto simp: new_entry_ok)

section \<open>The outcome of \<open>set\<close>\<close>

text \<open>
  What \<open>set\<close> must do: refuse what does not fit, need two allocations to shrink the
  table and one to extend it, and on failure leave the table as it was.
\<close>

definition set_outcome :: "heap \<Rightarrow> ndm_tlv_table_t \<Rightarrow> u64 \<Rightarrow> entry list \<Rightarrow> entry list \<Rightarrow> tlv_outcome" where
  "set_outcome heap t magic es es' =
     (let l = length (entries_bytes es); l' = length (entries_bytes es') in
      Ok (if unat (img_len_max t) < 16 + l' then (t, Some EMSGSIZE)
          else if l' < l \<and> \<not> (can_alloc heap \<and> can_alloc (heap_next heap)) \<or> l < l' \<and> \<not> can_alloc heap
          then (t, Some ENOMEM)
          else (t\<lparr>hdr := tlv_image magic es'\<rparr>, None)))"

lemma sint_unat_small: "unat (w :: u32) < 2 ^ 31 \<Longrightarrow> sint w = int (unat w)"
  by (metis of_nat_unat ucast_id sint_of_nat_small)

lemma sint_size0:
  assumes "n \<le> 2 ^ 31 - 17"
  shows "sint (ndm_tlv_size0 (of_nat n)) = int (8 + n + pad_len n)"
proof -
  have u: "unat (ndm_tlv_size0 (of_nat n)) = 8 + n + pad_len n"
    using assms by (intro unat_ndm_tlv_size0) simp
  have "8 + n + pad_len n < 2 ^ 31"
    using assms pad_len_less [of n] by simp
  with u show ?thesis by (simp add: sint_unat_small)
qed

lemma img_len_fits:
  assumes sz: "unat (sz :: u32) = 16 + l" and l: "l < 2 ^ 31" and d: "int l + d = int l'"
    and l': "l' < 2 ^ 33"
  shows "unat (ucast sz + of_int d :: u64) = 16 + l'"
proof -
  have "unat (ucast sz :: u64) = 16 + l" using sz by (simp add: unat_ucast_up)
  then have "(ucast sz :: u64) = of_nat (16 + l)" by (metis of_nat_unat ucast_id)
  also have "of_nat (16 + l) + of_int d = (of_int (16 + int l + d) :: u64)" by simp
  also have "16 + int l + d = int (16 + l')" using d by simp
  finally have "(ucast sz + of_int d :: u64) = of_nat (16 + l')" by (simp only: of_int_of_nat_eq)
  moreover have "unat (of_nat (16 + l') :: u64) = 16 + l'"
    by (rule unat_of_nat_small) (use l' in simp)
  ultimately show ?thesis by metis
qed

lemma set_replace:
  assumes held: "tlv_holds t magic es" and tag: "tag \<in> entry_tag ` set es"
    and len: "length val \<le> 2 ^ 31 - 17"
  shows "ndm_tlv_table_set h heap t tag val = Some (set_outcome heap t magic es (put_entry tag val es))"
proof -
  obtain A e C where es: "es = A @ e # C" "entry_tag e = tag" "tag \<notin> entry_tag ` set A"
    "takeWhile (\<lambda>e. entry_tag e \<noteq> tag) es = A" "put_entry tag val es = A @ new_entry tag val # C"
    using split_at_tag [OF tag] by blast
  let ?body = "entries_bytes es" and ?body' = "entries_bytes (put_entry tag val es)"
  let ?crc = "image_crc magic ?body" and ?tlv = "16 + length (entries_bytes A)"
  let ?d = "int (8 + length val + pad_len (length val)) - int (length (entry_bytes e))"
  have ok: "entry_ok e" "list_all entry_ok es" using held es(1) by (auto simp: tlv_holds_def)
  have small: "length ?body < 2 ^ 31 - 16" using held by (auto simp: tlv_holds_def)
  have img: "hdr t = raw_image magic ?crc (length ?body) (entries_bytes A @ entry_bytes e @ entries_bytes C)"
    using held by (simp add: tlv_holds_def tlv_image_def image_bytes_raw es(1))
  have img': "hdr t = image_bytes magic ?crc ?body" using held by (simp add: tlv_holds_def tlv_image_def)
  have find: "ndm_tlv_hdr_find h (hdr t) tag = Some (Ok ?tlv)"
    unfolding img' using small by (subst hdr_find_image [OF ok(2)]) (simp_all add: es(4))
  have hend: "ndm_tlv_hdr_end h (hdr t) = Some (16 + length ?body)"
    unfolding img' using small by (intro hdr_end_image) simp
  obtain hs where hs: "ndm_tlv_hdr_size h (hdr t) = Some hs" "unat hs = 16 + length ?body"
    unfolding img' using hdr_size_image [of ?body h magic ?crc] small by auto
  have esz: "\<exists>sz. ndm_tlv_size h (hdr t) ?tlv = Some sz \<and> unat sz = length (entry_bytes e)"
    unfolding img raw_image_def
    using ndm_tlv_size_at [OF ok(1), of ?tlv "be_bytes 8 magic @ be_bytes 4 ?crc @
        be_bytes 4 (of_nat (length ?body) :: u32) @ entries_bytes A" h] by simp
  then obtain sz where sz: "ndm_tlv_size h (hdr t) ?tlv = Some sz" "unat sz = length (entry_bytes e)"
    by blast
  have ssz: "sint sz = int (length (entry_bytes e))"
  proof -
    have "length (entry_bytes e) < 2 ^ 31" using small es(1) by simp
    then show ?thesis by (simp add: sint_unat_small sz(2))
  qed
  have "length val + pad_len (length val) < 2 ^ 31 - 9" using len pad_len_less [of "length val"] by simp
  then have add: "add_s32 (int (8 + length val + pad_len (length val))) (- sint sz) = Some ?d"
    using small es(1) by (simp add: add_s32_def ssz)
  have d: "int (length ?body) + ?d = int (length ?body')"
    by (simp add: es(5)) (simp add: es(1) new_entry_length)
  have l': "length ?body' < 2 ^ 33"
    using small \<open>length val + _ < _\<close> by (simp add: es(5)) (simp add: es(1) new_entry_length)
  have il: "unat (ucast hs + of_int ?d :: u64) = 16 + length ?body'"
    by (rule img_len_fits [OF hs(2) _ d l']) (use small in simp)
  have n: "length ?body < 2 ^ 31" using small by simp
  have body': "?body' = entries_bytes A @ entry_bytes (new_entry tag val) @ entries_bytes C"
    by (simp add: es(5))
  have tend: "16 + length ?body = ?tlv + length (entry_bytes e) + length (entries_bytes C)"
    by (simp add: es(1))
  have ne: "?tlv \<noteq> 16 + length ?body" using entry_bytes_ge_8 [of e] by (simp add: es(1))
  have dd: "?d = int (length (entry_bytes (new_entry tag val))) - int (length (entry_bytes e))"
    by (simp add: new_entry_length)
  note s31 = sint_size0 [OF len]
  have big: "\<not> length val > 2 ^ 31 - 1" using len by simp
  show ?thesis
  proof (cases "unat (img_len_max t) < 16 + length ?body'")
    case True
    then have "(ucast hs + of_int ?d :: u64) > img_len_max t" by (simp only: word_less_nat_alt il)
    with True show ?thesis
      unfolding ndm_tlv_table_set_def find hend s31 Let_def
      by (simp only: option.case bind_result.simps need_simps big if_False if_True ne not_False_eq_True
          sz(1) add hs(1) set_outcome_def Let_def)
  next
    case False
    then have fits: "\<not> (ucast hs + of_int ?d :: u64) > img_len_max t" unfolding word_less_nat_alt il .
    have len': "length ?body' < 2 ^ 31" using False held by (auto simp: tlv_holds_def)
    have shrink: "?d < 0 \<Longrightarrow> ndm_tlv_set_shrink h heap t (16 + length ?body) ?tlv val ?d (ucast hs + of_int ?d) =
        Ok (if can_alloc heap \<and> can_alloc (heap_next heap)
          then (t\<lparr>hdr := image_bytes magic (image_crc magic ?body') ?body'\<rparr>, None) else (t, Some ENOMEM))"
      by (rule set_shrink_entry [OF ok(1) es(2) img refl tend body' n d len' dd _ il])
    have grow: "?d > 0 \<Longrightarrow> ndm_tlv_set_grow h heap t (16 + length ?body) ?tlv tag val ?d (ucast hs + of_int ?d) =
        Ok (if can_alloc heap
          then (t\<lparr>hdr := image_bytes magic (image_crc magic ?body') ?body'\<rparr>, None) else (t, Some ENOMEM))"
      by (rule set_grow_entry [OF ok(1) es(2) img refl tend body' n d len' dd _ il])
    have same: "?d = 0 \<Longrightarrow> ndm_tlv_set_value h t (hdr t) ?tlv val ?d =
        Ok (t\<lparr>hdr := image_bytes magic (image_crc magic ?body') ?body'\<rparr>, None)"
    proof -
      assume z: "?d = 0"
      obtain L W where LW: "entry_bytes e = be_bytes 4 tag @ L @ W" "length L = 4"
        "length W = length (entry_bytes e) - 8"
        using take_entry_slot [of "length (entry_bytes e)" e] entry_bytes_ge_8 [of e] es(2) by auto
      have W: "length W = length val + pad_len (length val)" using z LW(3) by simp
      have slot: "hdr t = raw_image magic ?crc (length ?body)
          (entries_bytes A @ be_bytes 4 tag @ L @ W @ entries_bytes C)"
        using img LW(1) by simp
      show ?thesis
        unfolding slot by (rule set_value_slot [OF LW(2) W n body' d len' refl])
    qed
    have lt: "length ?body' < length ?body \<longleftrightarrow> ?d < 0" "length ?body < length ?body' \<longleftrightarrow> ?d > 0"
      using d by linarith+
    show ?thesis
      unfolding ndm_tlv_table_set_def find hend s31 Let_def
      using False shrink grow same
      by (simp only: option.case bind_result.simps need_simps big if_False if_True ne not_False_eq_True simp_thms
          sz(1) add hs(1) fits set_outcome_def Let_def lt tlv_image_def)
        (cases "?d < 0"; cases "?d > 0"; simp del: entries_bytes_simps of_nat_add)
  qed
qed

lemma set_append:
  assumes held: "tlv_holds t magic es" and tag: "tag \<notin> entry_tag ` set es"
    and len: "length val \<le> 2 ^ 31 - 17"
  shows "ndm_tlv_table_set h heap t tag val = Some (set_outcome heap t magic es (put_entry tag val es))"
proof -
  let ?body = "entries_bytes es" and ?body' = "entries_bytes (put_entry tag val es)"
  let ?crc = "image_crc magic ?body" and ?tlv = "16 + length (entries_bytes es)"
  let ?d = "int (8 + length val + pad_len (length val))"
  have ok: "list_all entry_ok es" using held by (auto simp: tlv_holds_def)
  have small: "length ?body < 2 ^ 31 - 16" using held by (auto simp: tlv_holds_def)
  have img': "hdr t = image_bytes magic ?crc ?body" using held by (simp add: tlv_holds_def tlv_image_def)
  have img: "hdr t = raw_image magic ?crc (length ?body) ?body" unfolding img' by (rule image_bytes_raw)
  have find: "ndm_tlv_hdr_find h (hdr t) tag = Some (Ok ?tlv)"
    unfolding img' using small by (subst hdr_find_image [OF ok]) (simp_all add: no_tag(1) [OF tag])
  have hend: "ndm_tlv_hdr_end h (hdr t) = Some ?tlv"
    unfolding img' using small by (intro hdr_end_image) simp
  obtain hs where hs: "ndm_tlv_hdr_size h (hdr t) = Some hs" "unat hs = ?tlv"
    unfolding img' using hdr_size_image [of ?body h magic ?crc] small by auto
  have body': "?body' = ?body @ entry_bytes (new_entry tag val)"
    by (simp add: no_tag(2) [OF tag])
  have d: "int (length ?body) + ?d = int (length ?body')" by (simp add: body' new_entry_length)
  have "length val + pad_len (length val) < 2 ^ 31 - 9" using len pad_len_less [of "length val"] by simp
  then have l': "length ?body' < 2 ^ 33"
    using small by (simp add: body' new_entry_length)
  have il: "unat (ucast hs + of_int ?d :: u64) = 16 + length ?body'"
    by (rule img_len_fits [OF hs(2) _ d l']) (use small in simp)
  have n: "length ?body < 2 ^ 31" using small by simp
  have dd: "?d = int (length (entry_bytes (new_entry tag val)))" by (simp add: new_entry_length)
  note s31 = sint_size0 [OF len]
  have big: "\<not> length val > 2 ^ 31 - 1" using len by simp
  have pos: "\<not> ?d < 0" "0 < ?d" by simp_all
  have lt: "\<not> length ?body' < length ?body" "length ?body < length ?body'" using d by linarith+
  show ?thesis
  proof (cases "unat (img_len_max t) < 16 + length ?body'")
    case True
    then have "(ucast hs + of_int ?d :: u64) > img_len_max t" by (simp only: word_less_nat_alt il)
    with True show ?thesis
      unfolding ndm_tlv_table_set_def find hend s31 Let_def
      by (simp only: option.case bind_result.simps need_simps big if_False if_True simp_thms
          not_False_eq_True hs(1) set_outcome_def Let_def)
  next
    case False
    then have fits: "\<not> (ucast hs + of_int ?d :: u64) > img_len_max t" unfolding word_less_nat_alt il .
    have len': "length ?body' < 2 ^ 31" using False held by (auto simp: tlv_holds_def)
    have grow: "ndm_tlv_set_grow h heap t ?tlv ?tlv tag val ?d (ucast hs + of_int ?d) =
        Ok (if can_alloc heap
          then (t\<lparr>hdr := image_bytes magic (image_crc magic ?body') ?body'\<rparr>, None) else (t, Some ENOMEM))"
      by (rule set_new_entry [OF img refl body' n d len' dd il])
    show ?thesis
      unfolding ndm_tlv_table_set_def find hend s31 Let_def
      using False grow lt
      by (simp only: option.case bind_result.simps need_simps big if_False if_True simp_thms pos
          not_False_eq_True hs(1) fits set_outcome_def Let_def tlv_image_def)
        (cases "can_alloc heap"; simp)
  qed
qed

lemma set_meaning:
  assumes "tlv_holds t magic es" and "length val \<le> 2 ^ 31 - 17"
  shows "ndm_tlv_table_set h heap t tag val = Some (set_outcome heap t magic es (put_entry tag val es))"
  using set_replace [OF assms(1) _ assms(2)] set_append [OF assms(1) _ assms(2)] by metis

lemma set_outcome_holds:
  assumes "tlv_holds t magic es" and "list_all entry_ok es'" and "distinct (map entry_tag es')"
    and "set_outcome heap t magic es es' = Ok (t', None)"
  shows "tlv_holds t' magic es'" "img_len_max t' = img_len_max t"
  using assms by (auto simp: set_outcome_def tlv_holds_def Let_def split: if_splits)

lemma set_outcome_failed:
  "set_outcome heap t magic es es' = Ok (t', Some err) \<Longrightarrow> t' = t \<and> (err = EMSGSIZE \<or> err = ENOMEM)"
  by (auto simp: set_outcome_def Let_def split: if_splits)

lemma set_too_long:
  assumes held: "tlv_holds t magic es" and len: "2 ^ 31 \<le> length val"
  shows "ndm_tlv_table_set h heap t tag val = Some (Ok (t, Some EINVAL))"
proof -
  have small: "length (entries_bytes es) < 2 ^ 31 - 16" and ok: "list_all entry_ok es"
    using held by (auto simp: tlv_holds_def)
  obtain off where "ndm_tlv_hdr_find h (hdr t) tag = Some (Ok off)"
    "ndm_tlv_hdr_end h (hdr t) = Some (16 + length (entries_bytes es))"
    using hdr_find_image [OF ok, of h magic _ tag] hdr_end_image [of "entries_bytes es" h magic] small held
    by (auto simp: tlv_holds_def tlv_image_def)
  then show ?thesis using len by (simp add: ndm_tlv_table_set_def)
qed

section \<open>Removing an entry\<close>

definition remove_entry :: "u32 \<Rightarrow> entry list \<Rightarrow> entry list" where
  "remove_entry tag es = filter (\<lambda>e. entry_tag e \<noteq> tag) es"

lemma remove_split:
  assumes "es = A @ e # C" and "entry_tag e = tag" and "distinct (map entry_tag es)"
  shows "remove_entry tag es = A @ C"
proof -
  have "tag \<notin> entry_tag ` set A" "tag \<notin> entry_tag ` set C"
    using assms(3) by (simp_all add: assms(1) assms(2) [symmetric])
  then have "filter (\<lambda>e. entry_tag e \<noteq> tag) A = A" "filter (\<lambda>e. entry_tag e \<noteq> tag) C = C"
    unfolding filter_id_conv by (metis imageI)+
  then show ?thesis by (simp add: remove_entry_def assms(1,2))
qed

lemma del_meaning:
  assumes held: "tlv_holds t magic es" and tag: "tag \<in> entry_tag ` set es"
  shows "ndm_tlv_table_del h heap t tag =
    Some (Ok (if can_alloc heap \<and> can_alloc (heap_next heap)
              then (t\<lparr>hdr := tlv_image magic (remove_entry tag es)\<rparr>, None)
              else (t, Some ENOMEM)))"
proof -
  obtain A e C where es: "es = A @ e # C" "entry_tag e = tag" "tag \<notin> entry_tag ` set A"
    "takeWhile (\<lambda>e. entry_tag e \<noteq> tag) es = A"
    by (rule split_at_tag [OF tag, where val = "[]"]) (rule that)
  let ?body = "entries_bytes es" and ?crc = "image_crc magic (entries_bytes es)"
  let ?H = "be_bytes 8 magic @ be_bytes 4 ?crc @ be_bytes 4 (of_nat (length ?body) :: u32)"
  let ?X = "?H @ entries_bytes A" and ?Y = "entry_bytes e" and ?Z = "entries_bytes C"
  let ?tlv = "16 + length (entries_bytes A)" and ?next = "16 + length (entries_bytes A) + length (entry_bytes e)"
  let ?body' = "entries_bytes (remove_entry tag es)" and ?D = "drop (length ?Z) (?Y @ ?Z)"
  have ok: "entry_ok e" "list_all entry_ok es" using held es(1) by (auto simp: tlv_holds_def)
  have small: "length ?body < 2 ^ 31 - 16" using held by (auto simp: tlv_holds_def)
  have rem: "remove_entry tag es = A @ C"
    using remove_split [OF es(1,2)] held by (simp add: tlv_holds_def)
  have img': "hdr t = image_bytes magic ?crc ?body" using held by (simp add: tlv_holds_def tlv_image_def)
  have img: "hdr t = ?X @ ?Y @ ?Z" by (simp add: img' image_bytes_def es(1))
  have find: "ndm_tlv_hdr_find h (hdr t) tag = Some (Ok ?tlv)"
    unfolding img' using small by (subst hdr_find_image [OF ok(2)]) (simp_all add: es(4))
  have hend: "ndm_tlv_hdr_end h (hdr t) = Some (?next + length ?Z)"
    unfolding img' using small hdr_end_image [of ?body h magic ?crc] by (simp add: es(1))
  have ne: "?tlv \<noteq> ?next + length ?Z" using entry_bytes_ge_8 [of e] by simp
  have lenX: "length ?X = ?tlv" by simp
  have dup: "ndm_tlv_dup h heap (hdr t) ?tlv = Ok (if can_alloc heap then Some ?Y else None)"
    unfolding img by (rule dup_at [OF ok(1) lenX [symmetric]])
  obtain sz where sz: "ndm_tlv_size h (hdr t) ?tlv = Some sz" "unat sz = length ?Y"
    unfolding img using ndm_tlv_size_at [OF ok(1) lenX [symmetric]] by blast
  have nxt: "ndm_tlv_next h (hdr t) ?tlv = Some ?next"
    unfolding img by (rule ndm_tlv_next_at [OF ok(1) lenX [symmetric]])
  have offs: "ndm_tlv_offs (?next + length ?Z) ?next = int (length ?Z)" by (simp add: ndm_tlv_offs_def)
  have move: "mem_move (hdr t) ?tlv ?next (length ?Z) = Some (?X @ ?Z @ ?D)"
    unfolding img by (rule mem_move_left) simp_all
  have lenD: "length ?D = length ?Y" by simp
  have mback: "mem_move (?X @ ?Z @ ?D) ?next ?tlv (length ?Z) = Some (?X @ take (length ?D) (?Z @ ?D) @ ?Z)"
    by (rule mem_move_right) simp_all
  have restore: "mem_write (?X @ take (length ?D) (?Z @ ?D) @ ?Z) ?tlv ?Y = Some (hdr t)"
    unfolding img by (rule mem_write_at) simp_all
  have old: "mem_read ?Y 0 (unat sz) = Some ?Y" by (simp add: mem_read_def sz(2))
  have blk: "?X @ ?Z @ ?D = raw_image magic ?crc (length ?body) (entries_bytes A @ ?Z @ ?D)"
    by (simp add: raw_image_def)
  have hs: "\<exists>hs. ndm_tlv_hdr_size h (?X @ ?Z @ ?D) = Some hs \<and> unat hs = 16 + length ?body"
  proof -
    have "ndm_tlv_hdr_size h (?X @ ?Z @ ?D) = ndm_tlv_hdr_size h (hdr t)"
      unfolding blk img' image_bytes_raw by (simp add: ndm_tlv_hdr_size_def load_size_raw)
    then show ?thesis using hdr_size_image [of ?body h magic ?crc] small by (simp add: img')
  qed
  then obtain hs where hs: "ndm_tlv_hdr_size h (?X @ ?Z @ ?D) = Some hs" "unat hs = 16 + length ?body"
    by blast
  have newlen: "unat (ucast hs - ucast sz :: u64) = length (?X @ ?Z)"
  proof -
    have "unat (ucast hs :: u64) = 16 + length ?body" "unat (ucast sz :: u64) = length ?Y"
      using hs(2) sz(2) by (simp_all add: unat_ucast_up)
    then show ?thesis by (subst unat_sub) (simp_all add: word_le_nat_alt es(1))
  qed
  have cut: "resize_block heap (?X @ ?Z @ ?D) (unat (ucast hs - ucast sz :: u64)) =
      raw_image magic ?crc (length ?body) ?body'"
    unfolding newlen by (subst resize_block_shrink) (simp_all add: raw_image_def rem)
  have ssz: "sint sz = int (length ?Y)"
    using small es(1) by (simp add: sint_unat_small sz(2))
  have upd: "ndm_tlv_hdr_update h (raw_image magic ?crc (length ?body) ?body') (- sint sz) =
      Ok (image_bytes magic (image_crc magic ?body') ?body')"
    by (rule hdr_update_raw) (use small in \<open>simp_all add: ssz rem\<close>, simp_all add: es(1))
  show ?thesis
    unfolding ndm_tlv_table_del_def find hend option.case bind_result.simps need_simps if_not_P [OF ne] dup
    using move mback restore
    by (cases "can_alloc heap"; cases "can_alloc (heap_next heap)")
      (simp_all only: if_True if_False simp_thms option.case sz(1) nxt need_simps Let_def offs nat_int
        hs(1) old cut upd bind_result.simps tlv_image_def, simp_all)
qed

lemma del_missing:
  assumes held: "tlv_holds t magic es" and tag: "tag \<notin> entry_tag ` set es"
  shows "ndm_tlv_table_del h heap t tag = Some (Ok (t, Some ENOENT))"
proof -
  have "list_all entry_ok es" "length (entries_bytes es) < 2 ^ 31 - 16"
    and "hdr t = image_bytes magic (image_crc magic (entries_bytes es)) (entries_bytes es)"
    using held by (auto simp: tlv_holds_def tlv_image_def)
  then show ?thesis
    by (simp add: ndm_tlv_table_del_def hdr_find_image hdr_end_image no_tag(1) [OF tag])
qed

section \<open>Reading an entry\<close>

definition entry_map :: "entry list \<Rightarrow> u32 \<rightharpoonup> u8 list" where
  "entry_map es = map_of (map (\<lambda>e. (entry_tag e, entry_val e)) es)"

lemma get_meaning:
  assumes held: "tlv_holds t magic es"
  shows "\<exists>off len. ndm_tlv_table_get h t tag = Some (Ok (off, len)) \<and>
    (case entry_map es tag of
       None \<Rightarrow> off = None \<and> len = 0
     | Some v \<Rightarrow> unat len = length v \<and> (\<exists>p. off = Some p \<and> mem_read (hdr t) p (length v) = Some v))"
proof -
  have ok: "list_all entry_ok es" and small: "length (entries_bytes es) < 2 ^ 31 - 16"
    and img: "hdr t = image_bytes magic (image_crc magic (entries_bytes es)) (entries_bytes es)"
    using held by (auto simp: tlv_holds_def tlv_image_def)
  have find: "ndm_tlv_hdr_find h (hdr t) tag =
      Some (Ok (16 + length (entries_bytes (takeWhile (\<lambda>e. entry_tag e \<noteq> tag) es))))"
    and hend: "ndm_tlv_hdr_end h (hdr t) = Some (16 + length (entries_bytes es))"
    using small by (simp_all add: img hdr_find_image [OF ok] hdr_end_image)
  show ?thesis
  proof (cases "tag \<in> entry_tag ` set es")
    case False
    then have "entry_map es tag = None" by (auto simp: entry_map_def map_of_eq_None_iff image_iff)
    with False show ?thesis by (simp add: ndm_tlv_table_get_def find hend no_tag(1))
  next
    case True
    obtain A e C where es: "es = A @ e # C" "entry_tag e = tag" "tag \<notin> entry_tag ` set A"
      "takeWhile (\<lambda>e. entry_tag e \<noteq> tag) es = A"
      by (rule split_at_tag [OF True, where val = "[]"]) (rule that)
    have look: "entry_map es tag = Some (entry_val e)"
      using es(2,3) by (auto simp: entry_map_def es(1) map_add_def map_of_eq_None_iff image_iff
          split: option.splits dest!: map_of_SomeD)
    let ?tlv = "16 + length (entries_bytes A)" and ?len = "of_nat (length (entry_val e)) :: u32"
    let ?X = "be_bytes 8 magic @ be_bytes 4 (image_crc magic (entries_bytes es)) @
        be_bytes 4 (of_nat (length (entries_bytes es)) :: u32) @ entries_bytes A"
    have blk: "hdr t = ?X @ entry_bytes e @ entries_bytes C" by (simp add: img image_bytes_def es(1))
    have lenX: "?tlv = length ?X" by simp
    have ld: "load32 h (hdr t) (?tlv + offs_len) = Some (mem_value h (be_bytes 4 ?len))"
      unfolding blk by (rule load_len_at [OF lenX])
    have "unat ?len = length (entry_val e)" using small by (simp add: es(1) entry_bytes_length)
    then have ul: "unat (ucast ?len :: u64) = length (entry_val e)" by (simp add: unat_ucast_up)
    have rd: "mem_read (hdr t) (?tlv + offs_val) (length (entry_val e)) = Some (entry_val e)"
      using mem_read_at [of "?tlv + offs_val" "?X @ be_bytes 4 tag @ be_bytes 4 ?len"
          "length (entry_val e)" "entry_val e" "entry_pad e @ entries_bytes C"]
      by (simp add: blk entry_bytes_def es(2) offs_val_def)
    have "ndm_tlv_table_get h t tag = Some (Ok (Some (?tlv + offs_val), ucast ?len))"
      using entry_bytes_ge_8 [of e] ld by (simp add: ndm_tlv_table_get_def find hend es(4)) (simp add: es(1))
    then show ?thesis using ul rd by (simp add: look)
  qed
qed

end
