(* ===== verification/Kv_Store.thy ===== *)
theory Kv_Store
  imports Main
begin

text \<open>
  Histories of calls on a keyed store, shared by the TLV table and the string map, and the
  contract that the table meets: an update may be refused, a refused update changes nothing,
  and a lookup gives the last value stored. Each call comes with an environment (the
  allocator's answers).
\<close>

datatype ('e, 'k, 'v) kv_op = KvSet 'e 'k 'v | KvDel 'e 'k

text \<open>
  A history of calls on a store, and the finite map it should leave: \<open>kv_spec\<close> counts
  the calls that the store reported as done.
\<close>

fun kv_step :: "('e \<Rightarrow> 's \<Rightarrow> 'k \<Rightarrow> 'v \<Rightarrow> 's \<times> bool) \<Rightarrow> ('e \<Rightarrow> 's \<Rightarrow> 'k \<Rightarrow> 's \<times> bool) \<Rightarrow>
    's \<Rightarrow> ('e, 'k, 'v) kv_op \<Rightarrow> 's \<times> bool" where
  "kv_step put del s (KvSet e k v) = put e s k v"
| "kv_step put del s (KvDel e k) = del e s k"

fun kv_effect :: "('e, 'k, 'v) kv_op \<Rightarrow> ('k \<rightharpoonup> 'v) \<Rightarrow> ('k \<rightharpoonup> 'v)" where
  "kv_effect (KvSet e k v) m = m(k \<mapsto> v)"
| "kv_effect (KvDel e k) m = m(k := None)"

fun kv_run :: "('e \<Rightarrow> 's \<Rightarrow> 'k \<Rightarrow> 'v \<Rightarrow> 's \<times> bool) \<Rightarrow> ('e \<Rightarrow> 's \<Rightarrow> 'k \<Rightarrow> 's \<times> bool) \<Rightarrow>
    's \<Rightarrow> ('k \<rightharpoonup> 'v) \<Rightarrow> ('e, 'k, 'v) kv_op list \<Rightarrow> 's \<times> ('k \<rightharpoonup> 'v)" where
  "kv_run put del s m [] = (s, m)"
| "kv_run put del s m (op # ops) =
     (let r = kv_step put del s op in
      kv_run put del (fst r) (if snd r then kv_effect op m else m) ops)"

fun kv_accepts :: "('k \<Rightarrow> 'v \<Rightarrow> bool) \<Rightarrow> ('e, 'k, 'v) kv_op \<Rightarrow> bool" where
  "kv_accepts good (KvSet e k v) = good k v"
| "kv_accepts good (KvDel e k) = True"

locale kv_store =
  fixes holds :: "'s \<Rightarrow> ('k \<rightharpoonup> 'v) \<Rightarrow> bool"
    and lookup :: "'s \<Rightarrow> 'k \<Rightarrow> 'v option"
    and put :: "'e \<Rightarrow> 's \<Rightarrow> 'k \<Rightarrow> 'v \<Rightarrow> 's \<times> bool"
    and del :: "'e \<Rightarrow> 's \<Rightarrow> 'k \<Rightarrow> 's \<times> bool"
    and good :: "'k \<Rightarrow> 'v \<Rightarrow> bool"
  assumes lookup_holds: "holds s m \<Longrightarrow> lookup s k = m k"
    and put_done: "holds s m \<Longrightarrow> good k v \<Longrightarrow> put e s k v = (s', True) \<Longrightarrow> holds s' (m(k \<mapsto> v))"
    and put_refused: "holds s m \<Longrightarrow> good k v \<Longrightarrow> put e s k v = (s', False) \<Longrightarrow> s' = s"
    and del_done: "holds s m \<Longrightarrow> del e s k = (s', True) \<Longrightarrow> holds s' (m(k := None))"
    and del_refused: "holds s m \<Longrightarrow> del e s k = (s', False) \<Longrightarrow> s' = s"
begin

lemma step_holds:
  assumes "holds s m" and "kv_accepts good op"
  shows "holds (fst (kv_step put del s op)) (if snd (kv_step put del s op) then kv_effect op m else m)"
proof (cases op)
  case (KvSet e k v)
  then show ?thesis
    using assms put_done [of s m k v e] put_refused [of s m k v e] by (cases "put e s k v") auto
next
  case (KvDel e k)
  then show ?thesis
    using assms del_done [of s m e k] del_refused [of s m e k] by (cases "del e s k") auto
qed

lemma run_holds:
  "holds s m \<Longrightarrow> list_all (kv_accepts good) ops \<Longrightarrow> kv_run put del s m ops = (s', m') \<Longrightarrow> holds s' m'"
proof (induction ops arbitrary: s m)
  case (Cons op ops)
  then show ?case using step_holds [of s m op] by (auto simp: Let_def)
qed simp

text \<open>Every lookup after a history of calls agrees with the map the history describes.\<close>

lemma run_lookup:
  "holds s m \<Longrightarrow> list_all (kv_accepts good) ops \<Longrightarrow>
   lookup (fst (kv_run put del s m ops)) k = snd (kv_run put del s m ops) k"
  using run_holds [of s m ops] lookup_holds by (metis prod.collapse)

lemma put_lookup:
  "holds s m \<Longrightarrow> good k v \<Longrightarrow> put e s k v = (s', True) \<Longrightarrow>
   lookup s' k' = (if k' = k then Some v else lookup s k')"
  using put_done [of s m k v e s'] lookup_holds [of s m k'] lookup_holds [of s' _ k'] by fastforce

end

end
