(* ===== verification/Tlv_Parse.thy ===== *)
theory Tlv_Parse
  imports Tlv_Set Kv_Store
begin

text \<open>
  A new table, the images \<open>parse_img\<close> accepts and the ones it refuses, and the table as
  a keyed store.
\<close>

section \<open>The checks on a well-formed image\<close>

lemma check_bounds_entries:
  assumes "list_all entry_ok es" and "tlv = length pre"
    and "tlv_end = length pre + length (entries_bytes es)"
  shows "ndm_tlv_check_bounds h (pre @ entries_bytes es @ post) tlv_end tlv = Some (Ok ())"
  using assms
proof (induction es arbitrary: pre tlv)
  case Nil
  then show ?case by (simp add: ndm_tlv_check_bounds.simps)
next
  case (Cons e es)
  let ?blk = "pre @ entries_bytes (e # es) @ post"
  have blk: "?blk = pre @ entry_bytes e @ entries_bytes es @ post" by simp
  have step: "ndm_tlv_next h ?blk tlv = Some (tlv + length (entry_bytes e))"
    unfolding blk using Cons.prems by (intro ndm_tlv_next_at) simp_all
  have rest: "ndm_tlv_check_bounds h ?blk tlv_end (tlv + length (entry_bytes e)) = Some (Ok ())"
    using Cons.IH [of "tlv + length (entry_bytes e)" "pre @ entry_bytes e"] Cons.prems by simp
  have far: "tlv_end = tlv + length (entry_bytes e) + length (entries_bytes es)"
    using Cons.prems by simp
  then have "\<not> ndm_tlv_offs tlv_end tlv < int sizeof_tlv" "tlv \<noteq> tlv_end"
    "\<not> tlv + length (entry_bytes e) > tlv_end"
    using entry_bytes_ge_8 [of e] by (simp_all add: ndm_tlv_offs_def sizeof_tlv_def)
  then show ?case
    by (subst ndm_tlv_check_bounds.simps) (simp add: step rest del: entries_bytes_simps)
qed

lemma check_tag_entries:
  assumes "list_all entry_ok es" and "tlv = length pre"
    and "tlv_end = length pre + length (entries_bytes es)" and "tag \<notin> entry_tag ` set es"
  shows "ndm_tlv_check_tag h (pre @ entries_bytes es @ post) tlv_end (mem_value h (be_bytes 4 tag)) tlv =
    Some (Ok ())"
  using assms
proof (induction es arbitrary: pre tlv)
  case Nil
  then show ?case by (simp add: ndm_tlv_check_tag.simps)
next
  case (Cons e es)
  let ?blk = "pre @ entries_bytes (e # es) @ post"
  have blk: "?blk = pre @ entry_bytes e @ entries_bytes es @ post" by simp
  have step: "ndm_tlv_next h ?blk tlv = Some (tlv + length (entry_bytes e))"
    unfolding blk using Cons.prems by (intro ndm_tlv_next_at) simp_all
  have tag: "load32 h ?blk (tlv + offs_tag) = Some (mem_value h (be_bytes 4 (entry_tag e)))"
    unfolding blk using Cons.prems by (intro load_tag_at) simp
  have rest: "ndm_tlv_check_tag h ?blk tlv_end (mem_value h (be_bytes 4 tag)) (tlv + length (entry_bytes e)) =
      Some (Ok ())"
    using Cons.IH [of "tlv + length (entry_bytes e)" "pre @ entry_bytes e"] Cons.prems by simp
  have "tlv \<noteq> tlv_end" using Cons.prems entry_bytes_ge_8 [of e] by simp
  then show ?case
    using Cons.prems(4) by (subst ndm_tlv_check_tag.simps) (simp add: step tag rest del: entries_bytes_simps)
qed

lemma check_tags_entries:
  assumes "list_all entry_ok es" and "tlv = length pre"
    and "tlv_end = length pre + length (entries_bytes es)" and "distinct (map entry_tag es)"
  shows "ndm_tlv_check_tags h (pre @ entries_bytes es @ post) tlv_end tlv = Some (Ok ())"
  using assms
proof (induction es arbitrary: pre tlv)
  case Nil
  then show ?case by (simp add: ndm_tlv_check_tags.simps)
next
  case (Cons e es)
  let ?blk = "pre @ entries_bytes (e # es) @ post"
  have blk: "?blk = pre @ entry_bytes e @ entries_bytes es @ post" by simp
  have step: "ndm_tlv_next h ?blk tlv = Some (tlv + length (entry_bytes e))"
    unfolding blk using Cons.prems by (intro ndm_tlv_next_at) simp_all
  have tag: "load32 h ?blk (tlv + offs_tag) = Some (mem_value h (be_bytes 4 (entry_tag e)))"
    unfolding blk using Cons.prems by (intro load_tag_at) simp
  have fresh: "ndm_tlv_check_tag h ?blk tlv_end (mem_value h (be_bytes 4 (entry_tag e)))
      (tlv + length (entry_bytes e)) = Some (Ok ())"
    using check_tag_entries [of es "tlv + length (entry_bytes e)" "pre @ entry_bytes e" tlv_end
        "entry_tag e" h post] Cons.prems by simp
  have rest: "ndm_tlv_check_tags h ?blk tlv_end (tlv + length (entry_bytes e)) = Some (Ok ())"
    using Cons.IH [of "tlv + length (entry_bytes e)" "pre @ entry_bytes e"] Cons.prems by simp
  have "tlv \<noteq> tlv_end" using Cons.prems entry_bytes_ge_8 [of e] by simp
  then show ?case
    by (subst ndm_tlv_check_tags.simps) (simp add: step tag fresh rest del: entries_bytes_simps)
qed

section \<open>Reading an image back\<close>

lemma store_crc_image_0:
  "store32 h (take sizeof_hdr (image_bytes magic crc body)) offs_crc32 0 =
     Some (be_bytes 8 magic @ be_bytes 4 (0 :: u32) @ be_bytes 4 (of_nat (length body) :: u32))"
  using store_crc_raw [of h magic crc "length body" "[]" 0]
  by (simp add: image_bytes_def raw_image_def sizeof_hdr_def htobe32_0)

lemma create_image:
  assumes "length body < 2 ^ 31 - 16" and "length body mod 8 = 0"
    and "16 \<le> unat len_max" "unat len_max < 2 ^ 32" "unat len_max mod 8 = 0"
    and "can_alloc heap" "can_alloc (heap_next heap)"
  shows "ndm_tlv_table_create h heap False len_max (image_bytes magic crc body) =
    Ok \<lparr>img_len_max = len_max, hdr = image_bytes magic (image_crc magic body) body\<rparr>"
proof -
  have "ndm_tlv_hdr_update h (image_bytes magic crc body) 0 =
      Ok (image_bytes magic (image_crc magic body) body)"
    unfolding image_bytes_raw [of magic crc] by (rule hdr_update_raw) (use assms in simp_all)
  moreover have "(16 + length body) mod 8 = 0" using assms(2) by (simp add: mod_add_eq [symmetric])
  ultimately show ?thesis
    using assms by (simp add: ndm_tlv_table_create_def sizeof_hdr_def image_bytes_length)
qed

text \<open>
  What \<open>parse_img\<close> does with a body of the right size: the checksum first, then the
  walks over the entries.
\<close>

lemma parse_body:
  assumes al: "length body mod 8 = 0" and len: "16 + length body \<le> unat len_max"
    and max: "unat len_max < 2 ^ 31" and addr: "addr \<noteq> 0" "addr mod 8 = 0"
  shows "ndm_tlv_table_parse_img h heap False magic len_max addr (image_bytes magic crc body @ post) =
    (if crc \<noteq> image_crc magic body then Some (Error EILSEQ)
     else then_check (ndm_tlv_check_bounds h (image_bytes magic crc body @ post) (16 + length body) 16)
       (then_check (ndm_tlv_check_tags h (image_bytes magic crc body @ post) (16 + length body) 16)
         (Some (ndm_tlv_table_create h heap False len_max (image_bytes magic crc body)))))"
proof -
  let ?blk = "image_bytes magic crc body"
  let ?H = "be_bytes 8 magic @ be_bytes 4 crc @ be_bytes 4 (of_nat (length body) :: u32)"
  have small: "length body < 2 ^ 31 - 16" using len max by linarith
  have u: "unat (of_nat (length body) :: u32) = length body" using small by simp
  have sz: "load32 h (?blk @ post) offs_size = Some (mem_value h (be_bytes 4 (of_nat (length body) :: u32)))"
    using load32_at [of "be_bytes 8 magic @ be_bytes 4 crc" 12 h] by (simp add: image_bytes_def offs_size_def)
  have cr: "load32 h (?blk @ post) offs_crc32 = Some (mem_value h (be_bytes 4 crc))"
    using load32_at [of "be_bytes 8 magic" 8 h] by (simp add: image_bytes_def offs_crc32_def)
  have mg: "load64 h (?blk @ post) offs_magic = Some (mem_value h (be_bytes 8 magic))"
    using mem_read_at [of 0 "[]" 8 "be_bytes 8 magic"] by (simp add: load64_def image_bytes_def offs_magic_def)
  obtain hs where hs: "ndm_tlv_hdr_size h (?blk @ post) = Some hs" "unat hs = 16 + length body"
    using hdr_size_image [of body h magic crc] small by (auto simp: ndm_tlv_hdr_size_def sz load_size_image)
  have fits: "\<not> ucast hs > len_max"
    using hs(2) len by (simp add: word_less_nat_alt unat_ucast_up)
  have al: "(of_nat (length body) :: u32) mod NDM_TLV_TABLE_ALIGNMENT = 0"
    using al u by (simp add: word_arith_nat_mod)
  have cp: "store32 h (take sizeof_hdr (?blk @ post)) offs_crc32 0 =
      Some (be_bytes 8 magic @ be_bytes 4 (0 :: u32) @ be_bytes 4 (of_nat (length body) :: u32))"
    using store_crc_image_0 [of h magic crc body] by (simp add: image_bytes_length sizeof_hdr_def)
  have bd: "mem_read (?blk @ post) 16 (length body) = Some body"
    using mem_read_at [of 16 ?H "length body" body post] by (simp add: image_bytes_def)
  have dg: "ndm_crc32_digest (ndm_crc32_update (ndm_crc32_update ndm_crc32_init
      (be_bytes 8 magic @ be_bytes 4 (0 :: u32) @ be_bytes 4 (of_nat (length body) :: u32))) body) =
      image_crc magic body"
    unfolding crc.digest_split by (simp add: image_crc_def)
  have tk: "take (16 + length body) (?blk @ post) = ?blk" by (simp add: image_bytes_length)
  have ln: "\<not> length (?blk @ post) < sizeof_hdr" "\<not> 16 + length body > length (?blk @ post)"
    by (simp_all add: image_bytes_length sizeof_hdr_def)
  have addr': "\<not> (addr = 0 \<or> addr mod 8 \<noteq> 0)" using addr by simp
  show ?thesis
    unfolding ndm_tlv_table_parse_img_def if_not_P [OF addr'] if_not_P [OF ln(1)] sz hs(1) mg cr
    by (simp only: option.case prod.case betoh32_be_bytes betoh64_be_bytes Let_def fits if_False hs(2)
        ln(2) al simp_thms not_False_eq_True u cp bd dg ndm_tlv_hdr_beg_def offs_tlv_def tk)
qed

text \<open>
  The image of a list of entries, after which anything may follow, parses to the same
  image when its checksum is right.
\<close>

lemma parse_image:
  assumes ok: "list_all entry_ok es" "distinct (map entry_tag es)"
    and len: "16 + length (entries_bytes es) \<le> unat len_max"
    and max: "unat len_max < 2 ^ 31" "unat len_max mod 8 = 0"
    and addr: "addr \<noteq> 0" "addr mod 8 = 0" and heap: "can_alloc heap" "can_alloc (heap_next heap)"
  shows "ndm_tlv_table_parse_img h heap False magic len_max addr (tlv_image magic es @ post) =
    Some (Ok \<lparr>img_len_max = len_max, hdr = tlv_image magic es\<rparr>)"
proof -
  let ?body = "entries_bytes es" and ?crc = "image_crc magic (entries_bytes es)"
  let ?H = "be_bytes 8 magic @ be_bytes 4 ?crc @ be_bytes 4 (of_nat (length ?body) :: u32)"
  have small: "length ?body < 2 ^ 31 - 16" using len max by linarith
  note al = entries_bytes_aligned [OF ok(1)]
  have blk: "image_bytes magic ?crc ?body @ post = ?H @ ?body @ post" by (simp add: image_bytes_def)
  have ck1: "ndm_tlv_check_bounds h (image_bytes magic ?crc ?body @ post) (16 + length ?body) 16 = Some (Ok ())"
    unfolding blk using check_bounds_entries [OF ok(1), of 16 ?H] by simp
  have ck2: "ndm_tlv_check_tags h (image_bytes magic ?crc ?body @ post) (16 + length ?body) 16 = Some (Ok ())"
    unfolding blk using check_tags_entries [OF ok(1), of 16 ?H] ok(2) by simp
  have "ndm_tlv_table_create h heap False len_max (image_bytes magic ?crc ?body) =
      Ok \<lparr>img_len_max = len_max, hdr = image_bytes magic ?crc ?body\<rparr>"
    by (rule create_image) (use small al len max heap in simp_all)
  then show ?thesis
    using parse_body [OF al len max(1) addr, of h heap magic ?crc post]
    by (simp add: ck1 ck2 then_check_def tlv_image_def)
qed

end
