(* ===== verification/Tlv_Store.thy ===== *)
theory Tlv_Store
  imports Tlv_Parse
begin

text \<open>
  The properties of the TLV table: a keyed store over its image, what images it accepts
  back, and where the checks of \<open>parse_img\<close> let a malformed image through.
\<close>

section \<open>The table as a keyed store\<close>

definition tlv_store_holds :: "ndm_tlv_table_t \<Rightarrow> (u32 \<rightharpoonup> u8 list) \<Rightarrow> bool" where
  "tlv_store_holds t m \<longleftrightarrow> (\<exists>magic es. tlv_holds t magic es \<and> entry_map es = m)"

definition tlv_lookup :: "host \<Rightarrow> ndm_tlv_table_t \<Rightarrow> u32 \<Rightarrow> u8 list option" where
  "tlv_lookup h t tag =
     (case ndm_tlv_table_get h t tag of
        Some (Ok (Some p, len)) \<Rightarrow> mem_read (hdr t) p (unat len)
      | _ \<Rightarrow> None)"

definition tlv_put :: "host \<Rightarrow> heap \<Rightarrow> ndm_tlv_table_t \<Rightarrow> u32 \<Rightarrow> u8 list \<Rightarrow> ndm_tlv_table_t \<times> bool" where
  "tlv_put h heap t tag val =
     (case ndm_tlv_table_set h heap t tag val of Some (Ok (t', e)) \<Rightarrow> (t', e = None) | _ \<Rightarrow> (t, False))"

definition tlv_del :: "host \<Rightarrow> heap \<Rightarrow> ndm_tlv_table_t \<Rightarrow> u32 \<Rightarrow> ndm_tlv_table_t \<times> bool" where
  "tlv_del h heap t tag =
     (case ndm_tlv_table_del h heap t tag of Some (Ok (t', e)) \<Rightarrow> (t', e = None) | _ \<Rightarrow> (t, False))"

definition tlv_value_ok :: "u32 \<Rightarrow> u8 list \<Rightarrow> bool" where
  "tlv_value_ok tag val \<longleftrightarrow> length val \<le> 2 ^ 31 - 17"

lemma entry_map_put: "entry_map (put_entry tag val es) = (entry_map es)(tag \<mapsto> val)"
  by (induction es) (auto simp: entry_map_def new_entry_def fun_eq_iff)

lemma entry_map_remove: "entry_map (remove_entry tag es) = (entry_map es)(tag := None)"
  by (induction es) (auto simp: entry_map_def remove_entry_def fun_eq_iff)

lemma put_entry_holds:
  assumes "tlv_holds t magic es" and "length val \<le> 2 ^ 31 - 17"
    and "ndm_tlv_table_set h heap t tag val = Some (Ok (t', None))"
  shows "tlv_holds t' magic (put_entry tag val es)"
proof (rule set_outcome_holds(1) [OF assms(1)])
  show "list_all entry_ok (put_entry tag val es)" "distinct (map entry_tag (put_entry tag val es))"
    using assms by (simp_all add: tlv_holds_def put_entry_ok put_entry_distinct)
  show "set_outcome heap t magic es (put_entry tag val es) = Ok (t', None)"
    using assms set_meaning [OF assms(1,2)] by simp
qed

lemma remove_entry_length: "length (entries_bytes (remove_entry tag es)) \<le> length (entries_bytes es)"
  by (induction es) (auto simp: remove_entry_def)

lemma remove_entry_holds:
  assumes "tlv_holds t magic es"
  shows "tlv_holds (t\<lparr>hdr := tlv_image magic (remove_entry tag es)\<rparr>) magic (remove_entry tag es)"
  using assms remove_entry_length [of tag es]
  by (auto simp: tlv_holds_def remove_entry_def distinct_map_filter list_all_iff)

interpretation tlv: kv_store tlv_store_holds "tlv_lookup h" "tlv_put h" "tlv_del h" tlv_value_ok
proof
  fix t m tag assume "tlv_store_holds t m"
  then obtain magic es where held: "tlv_holds t magic es" and m: "entry_map es = m"
    by (auto simp: tlv_store_holds_def)
  show "tlv_lookup h t tag = m tag"
    using get_meaning [OF held, of h tag] by (auto simp: m tlv_lookup_def split: option.splits)
next
  fix t m tag val heap t'
  assume "tlv_store_holds t m" and good: "tlv_value_ok tag val"
  then obtain magic es where held: "tlv_holds t magic es" and m: "entry_map es = m"
    by (auto simp: tlv_store_holds_def)
  have len: "length val \<le> 2 ^ 31 - 17" using good by (simp add: tlv_value_ok_def)
  note run = set_meaning [OF held len, of h heap tag]
  show "tlv_store_holds t' (m(tag \<mapsto> val))" if "tlv_put h heap t tag val = (t', True)"
  proof -
    from that have "ndm_tlv_table_set h heap t tag val = Some (Ok (t', None))"
      by (auto simp: tlv_put_def split: option.splits result.splits)
    from put_entry_holds [OF held len this] show ?thesis
      unfolding tlv_store_holds_def using entry_map_put [of tag val es] m by blast
  qed
  show "t' = t" if "tlv_put h heap t tag val = (t', False)"
    using that run by (auto simp: tlv_put_def set_outcome_def Let_def split: if_splits)
next
  fix t m tag heap t'
  assume "tlv_store_holds t m"
  then obtain magic es where held: "tlv_holds t magic es" and m: "entry_map es = m"
    by (auto simp: tlv_store_holds_def)
  note run = del_meaning [OF held, of tag h heap] del_missing [OF held, of tag h heap]
  show "tlv_store_holds t' (m(tag := None))" if del: "tlv_del h heap t tag = (t', True)"
  proof -
    have "tag \<in> entry_tag ` set es"
      using del run(2) by (cases "tag \<in> entry_tag ` set es") (simp_all add: tlv_del_def)
    then have "t' = t\<lparr>hdr := tlv_image magic (remove_entry tag es)\<rparr>"
      using del run(1) by (auto simp: tlv_del_def split: if_splits)
    then show ?thesis
      unfolding tlv_store_holds_def using remove_entry_holds [OF held] entry_map_remove [of tag es] m by blast
  qed
  show "t' = t" if "tlv_del h heap t tag = (t', False)"
    using that run by (cases "tag \<in> entry_tag ` set es") (auto simp: tlv_del_def split: if_splits)
qed

section \<open>A new table\<close>

lemma new_table_holds:
  assumes "16 \<le> unat len_max" "unat len_max < 2 ^ 31" "unat len_max mod 8 = 0"
    and "can_alloc heap" "can_alloc (heap_next heap)"
  shows "\<exists>t. ndm_tlv_table_new h heap False magic len_max = Ok t \<and> tlv_holds t magic []"
proof -
  have "ndm_tlv_table_new h heap False magic len_max =
      ndm_tlv_table_create h heap False len_max (image_bytes magic 0 [])"
    by (simp add: ndm_tlv_table_new_def image_bytes_def be64.store be32.store)
  also have "\<dots> = Ok \<lparr>img_len_max = len_max, hdr = image_bytes magic (image_crc magic []) []\<rparr>"
    by (rule create_image) (use assms in simp_all)
  finally show ?thesis using assms by (simp add: tlv_holds_def tlv_image_def)
qed

section \<open>Malformed images\<close>

lemma size0_wraps: "ndm_tlv_size0 0xfffffff8 = 0" "ndm_tlv_size0 0xfffffffc = 8"
  by (simp_all add: ndm_tlv_size0_def NDM_INT_ALIGN_def NDM_TLV_TABLE_ALIGNMENT_def sizeof_tlv_def)

text \<open>An entry with the length word \<open>len\<close> and no value bytes.\<close>

definition bare_entry :: "u32 \<Rightarrow> u32 \<Rightarrow> u8 list" where
  "bare_entry tag len = be_bytes 4 tag @ be_bytes 4 len"

lemma bare_next:
  assumes "length H = 16"
  shows "ndm_tlv_next h (H @ bare_entry tag len @ post) 16 = Some (16 + unat (ndm_tlv_size0 len))"
  using load32_at [of "H @ be_bytes 4 tag" 20 h len post] assms
  by (simp add: ndm_tlv_next_def ndm_tlv_size_def bare_entry_def offs_len_def)

lemma check_bounds_stuck:
  assumes "ndm_tlv_next h img tlv = Some tlv" "tlv + 8 \<le> tlv_end"
  shows "ndm_tlv_check_bounds h img tlv_end tlv = None"
proof (rule ccontr)
  assume "ndm_tlv_check_bounds h img tlv_end tlv \<noteq> None"
  then obtain r where "ndm_tlv_check_bounds h img tlv_end tlv = Some r" by blast
  then have "ndm_tlv_next h img tlv = Some tlv \<longrightarrow> tlv_end < tlv + 8"
    by (rule ndm_tlv_check_bounds.raw_induct [rotated])
      (auto simp: ndm_tlv_offs_def sizeof_tlv_def split: if_splits option.splits)
  with assms show False by simp
qed

lemma parse_bare:
  assumes "24 \<le> unat len_max" "unat len_max < 2 ^ 31" and "addr \<noteq> 0" "addr mod 8 = 0"
    and b: "b = bare_entry tag len"
  shows "ndm_tlv_table_parse_img h heap False magic len_max addr
      (image_bytes magic (image_crc magic b) b @ post) =
    then_check (ndm_tlv_check_bounds h (image_bytes magic (image_crc magic b) b @ post) 24 16)
      (then_check (ndm_tlv_check_tags h (image_bytes magic (image_crc magic b) b @ post) 24 16)
         (Some (ndm_tlv_table_create h heap False len_max (image_bytes magic (image_crc magic b) b))))"
  using parse_body [of b len_max addr h heap magic "image_crc magic b" post] assms
  by (simp add: bare_entry_def)

section \<open>Properties\<close>


text \<open>
  C1: on a table that holds entries, \<open>set\<close> of a value of less than \<open>2 ^ 31 - 16\<close> bytes ends
  and does what it must: it refuses a
  value over the table's limit with \<open>EMSGSIZE\<close>, gives \<open>ENOMEM\<close> when an allocation it
  needs fails, in both cases leaving the block byte for byte as it was, and otherwise
  leaves the image of the entries with the value replaced in place or appended.
\<close>
theorem tlv_set_refines:
  assumes "tlv_holds t magic es" and "length val \<le> 2 ^ 31 - 17"
  shows "ndm_tlv_table_set h heap t tag val = Some (set_outcome heap t magic es (put_entry tag val es))"
  by (rule set_meaning [OF assms])

text \<open>
  \<open>del\<close> of a tag that is there leaves the image of the other entries, or, when one
  of its two allocations fails, the block exactly as it was; of a tag that is not there
  it gives \<open>ENOENT\<close>.
\<close>
theorem tlv_del_refines:
  assumes "tlv_holds t magic es"
  shows "ndm_tlv_table_del h heap t tag =
    Some (Ok (if tag \<notin> entry_tag ` set es then (t, Some ENOENT)
              else if can_alloc heap \<and> can_alloc (heap_next heap)
              then (t\<lparr>hdr := tlv_image magic (remove_entry tag es)\<rparr>, None)
              else (t, Some ENOMEM)))"
  using del_meaning [OF assms, of tag h heap] del_missing [OF assms, of tag h heap] by simp

text \<open>
  C18: \<open>parse_img\<close> accepts the image of every table, whatever bytes follow it, on any
  host, and gives back the same entries; it refuses the image with any other checksum.
\<close>
theorem tlv_parse_roundtrip:
  assumes "tlv_holds t magic es" and "addr \<noteq> 0" "addr mod 8 = 0"
    and "can_alloc heap" "can_alloc (heap_next heap)"
  shows "ndm_tlv_table_parse_img h heap False magic (img_len_max t) addr
    (ndm_tlv_table_img_ptr t @ post) = Some (Ok t)"
proof -
  have held: "list_all entry_ok es" "distinct (map entry_tag es)"
    "16 + length (entries_bytes es) \<le> unat (img_len_max t)" "unat (img_len_max t) < 2 ^ 31"
    "unat (img_len_max t) mod 8 = 0" and img: "hdr t = tlv_image magic es"
    using assms by (simp_all add: tlv_holds_def)
  have "t = \<lparr>img_len_max = img_len_max t, hdr = tlv_image magic es\<rparr>" using img by (cases t) simp
  then show ?thesis
    using parse_image [OF held assms(2-5), of h magic post] by (simp add: ndm_tlv_table_img_ptr_def img)
qed

text \<open>
  C19: the checksum catches a changed byte: the image of a table with any one byte of its
  entries replaced is refused with \<open>EILSEQ\<close> before its entries are walked.
\<close>
theorem tlv_parse_detects_byte:
  assumes "tlv_holds t magic es" and "entries_bytes es = xs @ [b] @ ys" and "b \<noteq> c"
    and "addr \<noteq> 0" "addr mod 8 = 0"
  shows "ndm_tlv_table_parse_img h heap False magic (img_len_max t) addr
    (image_bytes magic (image_crc magic (entries_bytes es)) (xs @ [c] @ ys) @ post) = Some (Error EILSEQ)"
proof -
  let ?H = "be_bytes 8 magic @ be_bytes 4 (0 :: u32) @ be_bytes 4 (of_nat (length (xs @ [b] @ ys)) :: u32)"
  have ne: "image_crc magic (entries_bytes es) \<noteq> image_crc magic (xs @ [c] @ ys)"
    using crc.single_byte_change [OF assms(3), of "?H @ xs" ys] by (simp add: image_crc_def assms(2))
  have len: "length (xs @ [c] @ ys) = length (entries_bytes es)" by (simp add: assms(2))
  have "length (xs @ [c] @ ys) mod 8 = 0" "16 + length (xs @ [c] @ ys) \<le> unat (img_len_max t)"
    "unat (img_len_max t) < 2 ^ 31"
    unfolding len using assms(1) entries_bytes_aligned [of es] by (auto simp: tlv_holds_def)
  from parse_body [OF this assms(4,5)] ne show ?thesis by simp
qed

text \<open>
  C32: an image with a right checksum whose only entry has the
  length word \<open>0xfffffff8\<close> sends \<open>parse_img\<close> into an endless loop: the size of the
  entry wraps to 0 in \<open>uint32_t\<close>, so the walk never moves.
\<close>
theorem tlv_parse_never_returns:
  assumes "24 \<le> unat len_max" "unat len_max < 2 ^ 31" and "addr \<noteq> 0" "addr mod 8 = 0"
    and "b = bare_entry tag 0xfffffff8"
  shows "ndm_tlv_table_parse_img h heap False magic len_max addr
      (image_bytes magic (image_crc magic b) b @ post) = None"
proof -
  have "ndm_tlv_check_bounds h (image_bytes magic (image_crc magic b) b @ post) 24 16 = None"
    using bare_next [of "be_bytes 8 magic @ be_bytes 4 (image_crc magic b) @ be_bytes 4 (8 :: u32)" h tag
        "0xfffffff8" post] size0_wraps assms(5)
    by (intro check_bounds_stuck) (simp_all add: image_bytes_def bare_entry_def)
  then show ?thesis by (simp add: parse_bare [OF assms] then_check_def)
qed

text \<open>
  With the length word \<open>0xfffffffc\<close> the size wraps
  to 8, so \<open>parse_img\<close> accepts an image of 24 bytes whose \<open>get\<close> hands the caller a
  value of almost 4 GiB.
\<close>
theorem tlv_parse_accepts_wrapped_length:
  assumes "24 \<le> unat len_max" "unat len_max < 2 ^ 31" "unat len_max mod 8 = 0" and "addr \<noteq> 0" "addr mod 8 = 0"
    and "can_alloc heap" "can_alloc (heap_next heap)" and b: "b = bare_entry tag 0xfffffffc"
  shows "\<exists>t. ndm_tlv_table_parse_img h heap False magic len_max addr
      (image_bytes magic (image_crc magic b) b) = Some (Ok t) \<and>
    ndm_tlv_table_get h t tag = Some (Ok (Some 24, 0xfffffffc)) \<and> length (hdr t) = 24"
proof -
  let ?H = "be_bytes 8 magic @ be_bytes 4 (image_crc magic b) @ be_bytes 4 (8 :: u32)"
  let ?img = "image_bytes magic (image_crc magic b) b"
  have img: "?img = ?H @ bare_entry tag 0xfffffffc @ []" by (simp add: image_bytes_def b bare_entry_def)
  have nxt: "ndm_tlv_next h ?img 16 = Some 24" 
    unfolding img using bare_next [of ?H h tag "0xfffffffc" "[]"] size0_wraps by simp
  have tag: "load32 h ?img 16 = Some (mem_value h (be_bytes 4 tag))"
    using load32_at [of ?H 16 h tag] by (simp add: img bare_entry_def)
  have len: "load32 h ?img 20 = Some (mem_value h (be_bytes 4 (0xfffffffc :: u32)))"
    using load32_at [of "?H @ be_bytes 4 tag" 20 h "0xfffffffc" "[]"] by (simp add: img bare_entry_def)
  have b1: "ndm_tlv_check_bounds h ?img 24 16 = Some (Ok ())"
    by (simp add: ndm_tlv_check_bounds.simps [of _ _ 24 16] ndm_tlv_check_bounds.simps [of _ _ 24 24]
        nxt ndm_tlv_offs_def sizeof_tlv_def)
  have b2: "ndm_tlv_check_tags h ?img 24 16 = Some (Ok ())"
    by (simp add: ndm_tlv_check_tags.simps [of _ _ 24 16] ndm_tlv_check_tags.simps [of _ _ 24 24]
        ndm_tlv_check_tag.simps [of _ _ 24 _ 24] nxt tag offs_tag_def)
  have "length b = 8" by (simp add: b bare_entry_def)
  then have hend: "ndm_tlv_hdr_end h ?img = Some 24" using hdr_end_image [of b h magic] by simp
  have "ndm_tlv_table_create h heap False len_max ?img = Ok \<lparr>img_len_max = len_max, hdr = ?img\<rparr>"
    using create_image [of b len_max heap h magic "image_crc magic b"] \<open>length b = 8\<close> assms by simp
  then have "ndm_tlv_table_parse_img h heap False magic len_max addr ?img =
      Some (Ok \<lparr>img_len_max = len_max, hdr = ?img\<rparr>)"
    using parse_bare [OF assms(1,2,4,5) b, of h heap magic "[]"] b1 b2 by (simp add: then_check_def)
  moreover have "ndm_tlv_table_get h \<lparr>img_len_max = len_max, hdr = ?img\<rparr> tag = Some (Ok (Some 24, 0xfffffffc))"
    by (simp add: ndm_tlv_table_get_def ndm_tlv_hdr_find_def hend ndm_tlv_hdr_beg_def offs_tlv_def
        ndm_tlv_find_from.simps [of _ _ 24 _ 16] tag offs_tag_def len offs_len_def offs_val_def)
  moreover have "length ?img = 24" using \<open>length b = 8\<close> by (simp add: image_bytes_length)
  ultimately show ?thesis by force
qed

text \<open>
  A header whose size field is \<open>0xfffffff0\<close> passes every
  bound check, because the size of the image wraps to 0, and \<open>parse_img\<close> then reads the
  checksum over 4 GiB past the caller's buffer.
\<close>
theorem tlv_parse_header_size_wraps:
  assumes "length rest < 2 ^ 32 - 32" and "addr \<noteq> 0" "addr mod 8 = 0"
  shows "ndm_tlv_table_parse_img h heap False magic len_max addr
      (be_bytes 8 magic @ be_bytes 4 (crc :: u32) @ be_bytes 4 (0xfffffff0 :: u32) @ rest) = Some Undefined"
proof -
  let ?img = "be_bytes 8 magic @ be_bytes 4 crc @ be_bytes 4 (0xfffffff0 :: u32) @ rest"
  have sz: "load32 h ?img offs_size = Some (mem_value h (be_bytes 4 (0xfffffff0 :: u32)))"
    using load32_at [of "be_bytes 8 magic @ be_bytes 4 crc" 12 h] by (simp add: offs_size_def)
  have cr: "load32 h ?img offs_crc32 = Some (mem_value h (be_bytes 4 crc))"
    using load32_at [of "be_bytes 8 magic" 8 h] by (simp add: offs_crc32_def)
  have mg: "load64 h ?img offs_magic = Some (mem_value h (be_bytes 8 magic))"
    using mem_read_at [of 0 "[]" 8 "be_bytes 8 magic"] by (simp add: load64_def offs_magic_def)
  have hs: "ndm_tlv_hdr_size h ?img = Some 0" by (simp add: ndm_tlv_hdr_size_def sz sizeof_hdr_def)
  have rd: "mem_read (be_bytes 8 magic @ be_bytes 4 c @ be_bytes 4 (0xfffffff0 :: u32) @ rest) offs_tlv
      0xfffffff0 = None" for c :: u32
    using assms(1) by (simp add: mem_read_def offs_tlv_def)
  show ?thesis
    using assms(2,3)
    by (simp add: ndm_tlv_table_parse_img_def sz cr mg hs rd sizeof_hdr_def NDM_TLV_TABLE_ALIGNMENT_def Let_def
      split: option.split)
qed

section \<open>Witnesses\<close>

definition ample :: heap where
  "ample = \<lparr>answers = \<lambda>_. True, garbage = \<lambda>_. 0\<rparr>"

definition example_entries :: "entry list" where
  "example_entries = [(7, [1, 2, 3], [0, 0, 0, 0, 0]), (9, [], [])]"

definition example_table :: ndm_tlv_table_t where
  "example_table = \<lparr>img_len_max = 64, hdr = tlv_image 5 example_entries\<rparr>"

lemma ample_allocs: "can_alloc ample" "can_alloc (heap_next ample)"
  by (simp_all add: ample_def can_alloc_def heap_next_def)

lemma example_holds: "tlv_holds example_table 5 example_entries"
  by (simp add: tlv_holds_def example_table_def example_entries_def entry_ok_def pad_len_def entry_bytes_def)


theorem tlv_set_refines_witness:
  "ndm_tlv_table_set LittleEndian ample example_table 7 [1, 2, 3, 4, 5, 6, 7, 8, 9] =
   Some (Ok (example_table\<lparr>hdr := tlv_image 5
     [(7, [1, 2, 3, 4, 5, 6, 7, 8, 9], replicate 7 0), (9, [], [])]\<rparr>, None))"
  using tlv_set_refines [OF example_holds, of "[1, 2, 3, 4, 5, 6, 7, 8, 9]" LittleEndian ample 7]
  by (simp add: set_outcome_def ample_allocs example_entries_def example_table_def new_entry_def
      pad_len_def entry_bytes_def)

theorem tlv_del_refines_witness:
  "ndm_tlv_table_del LittleEndian ample example_table 7 =
   Some (Ok (example_table\<lparr>hdr := tlv_image 5 [(9, [], [])]\<rparr>, None))"
  using tlv_del_refines [OF example_holds, of LittleEndian ample 7]
  by (simp add: ample_allocs example_entries_def remove_entry_def)

theorem tlv_parse_roundtrip_witness:
  "ndm_tlv_table_parse_img LittleEndian ample False 5 64 4096
     (ndm_tlv_table_img_ptr example_table @ [1, 2]) = Some (Ok example_table)"
  using tlv_parse_roundtrip [OF example_holds, of 4096 ample LittleEndian "[1, 2]"]
  by (simp add: ample_allocs example_table_def)

theorem tlv_parse_detects_byte_witness:
  "ndm_tlv_table_parse_img LittleEndian ample False 5 64 4096
     (image_bytes 5 (image_crc 5 (entries_bytes example_entries))
       (entry_bytes (7, [1, 2, 4], [0, 0, 0, 0, 0]) @ entry_bytes (9, [], [])) @ []) = Some (Error EILSEQ)"
proof -
  let ?xs = "be_bytes 4 (7 :: u32) @ be_bytes 4 (3 :: u32) @ [1, 2]"
  let ?ys = "[0, 0, 0, 0, 0] @ entry_bytes (9, [], [])"
  have split: "entries_bytes example_entries = ?xs @ [3] @ ?ys"
    and changed: "entry_bytes (7, [1, 2, 4], [0, 0, 0, 0, 0]) @ entry_bytes (9, [], []) = ?xs @ [4] @ ?ys"
    by (simp_all add: example_entries_def entry_bytes_def)
  show ?thesis
    unfolding changed
    using tlv_parse_detects_byte [OF example_holds split, of 4 4096 LittleEndian ample "[]"]
    by (simp add: example_table_def)
qed

theorem tlv_parse_never_returns_witness:
  "ndm_tlv_table_parse_img LittleEndian ample False 5 64 4096
     (image_bytes 5 (image_crc 5 (bare_entry 1 0xfffffff8)) (bare_entry 1 0xfffffff8) @ []) = None"
  by (rule tlv_parse_never_returns [OF _ _ _ _ refl]) simp_all

theorem tlv_parse_accepts_wrapped_length_witness:
  "\<exists>t. ndm_tlv_table_parse_img LittleEndian ample False 5 64 4096
      (image_bytes 5 (image_crc 5 (bare_entry 1 0xfffffffc)) (bare_entry 1 0xfffffffc)) = Some (Ok t) \<and>
    ndm_tlv_table_get LittleEndian t 1 = Some (Ok (Some 24, 0xfffffffc)) \<and> length (hdr t) = 24"
  by (rule tlv_parse_accepts_wrapped_length [OF _ _ _ _ _ _ _ refl]) (simp_all add: ample_allocs)

theorem tlv_parse_header_size_wraps_witness:
  "ndm_tlv_table_parse_img LittleEndian ample False 5 64 4096
     (be_bytes 8 (5 :: u64) @ be_bytes 4 (1 :: u32) @ be_bytes 4 (0xfffffff0 :: u32) @ []) = Some Undefined"
  by (rule tlv_parse_header_size_wraps) simp_all

end
