(* ===== verification/Pool.thy ===== *)
theory Pool
  imports Int_Macros
begin

text \<open>
  The memory pool of \<^verbatim>\<open>src/pool.c\<close>: one static block given by the caller, then a chain
  of dynamic blocks from \<open>malloc\<close>, each with room for the \<open>previous\<close> pointer at its
  start; a request is cut from the end of the block in use, a failed \<open>malloc\<close> makes the
  pool invalid for good. A pointer is a block and an offset into it (two blocks never
  overlap); the bytes of every block are kept, and \<open>size_t\<close> is a 64-bit word.
\<close>

type_synonym cstring = "u8 list" \<comment> \<open>the bytes of a C string, without its terminator\<close>

datatype pool_block = StaticBlock | DynamicBlock nat

type_synonym pool_ptr = "pool_block \<times> nat"

record ndm_pool_t =
  static_block :: "u8 list"
  static_block_size :: u64
  dynamic_block :: "u8 list list"
  dynamic_block_size :: u64
  available :: u64
  total_allocated :: u64
  total_dynamic_size :: u64
  is_valid :: bool
  pool_sys :: heap

definition NDM_POOL_ALIGN :: "u64 \<Rightarrow> u64" where
  "NDM_POOL_ALIGN s = (s + 8 - 1) AND NOT (8 - 1)"

definition ndm_pool_init :: "heap \<Rightarrow> u8 list \<Rightarrow> u64 \<Rightarrow> u64 \<Rightarrow> ndm_pool_t" where
  "ndm_pool_init sys block block_size dyn_size =
     \<lparr>static_block = block, static_block_size = block_size, dynamic_block = [],
      dynamic_block_size = dyn_size, available = block_size, total_allocated = 0,
      total_dynamic_size = 0, is_valid = True, pool_sys = sys\<rparr>"

definition ndm_pool_is_valid :: "ndm_pool_t \<Rightarrow> bool" where
  "ndm_pool_is_valid pool = is_valid pool"

definition ndm_pool_allocated :: "ndm_pool_t \<Rightarrow> u64" where
  "ndm_pool_allocated pool = total_allocated pool"

definition ndm_pool_total_dynamic_size :: "ndm_pool_t \<Rightarrow> u64" where
  "ndm_pool_total_dynamic_size pool = total_dynamic_size pool"

text \<open>The block in use and its nominal end.\<close>

definition current_block :: "ndm_pool_t \<Rightarrow> pool_block" where
  "current_block pool =
     (if dynamic_block pool = [] then StaticBlock else DynamicBlock (length (dynamic_block pool) - 1))"

definition block_end :: "ndm_pool_t \<Rightarrow> nat" where
  "block_end pool =
     unat (if dynamic_block pool = [] then static_block_size pool else dynamic_block_size pool)"

text \<open>\<open>NULL\<close> (\<open>None\<close>) comes with \<open>errno\<close> set to \<open>ENOMEM\<close>.\<close>

definition ndm_pool_malloc :: "ndm_pool_t \<Rightarrow> u64 \<Rightarrow> pool_ptr option \<times> ndm_pool_t" where
  "ndm_pool_malloc pool nbytes =
     (let aligned_size = NDM_POOL_ALIGN nbytes in
      if \<not> ndm_pool_is_valid pool then (None, pool)
      else if available pool \<ge> aligned_size
      then (Some (current_block pool, block_end pool - unat (available pool)),
            pool\<lparr>available := available pool - aligned_size,
                 total_allocated := total_allocated pool + nbytes\<rparr>)
      else
        let need = NDM_POOL_ALIGN 8 + aligned_size;
            alloc_size = (if need < dynamic_block_size pool then dynamic_block_size pool else need);
            sys = pool_sys pool in
        if \<not> can_alloc sys
        then (None, pool\<lparr>is_valid := False, pool_sys := heap_next sys\<rparr>)
        else (Some (DynamicBlock (length (dynamic_block pool)), 8),
              pool\<lparr>dynamic_block := map (garbage sys) [0..<unat alloc_size] # dynamic_block pool,
                   available := alloc_size - need,
                   total_allocated := total_allocated pool + nbytes,
                   total_dynamic_size := total_dynamic_size pool + alloc_size,
                   pool_sys := heap_next sys\<rparr>))"

text \<open>Reads and writes through a pointer of the pool.\<close>

definition block_bytes :: "ndm_pool_t \<Rightarrow> pool_block \<Rightarrow> u8 list" where
  "block_bytes pool b =
     (case b of StaticBlock \<Rightarrow> static_block pool
      | DynamicBlock k \<Rightarrow> if k < length (dynamic_block pool) then rev (dynamic_block pool) ! k else [])"

definition pool_read :: "ndm_pool_t \<Rightarrow> pool_ptr \<Rightarrow> nat \<Rightarrow> u8 list option" where
  "pool_read pool p n = mem_read (block_bytes pool (fst p)) (snd p) n"

definition pool_write :: "ndm_pool_t \<Rightarrow> pool_ptr \<Rightarrow> u8 list \<Rightarrow> ndm_pool_t option" where
  "pool_write pool p bs =
     map_option (\<lambda>blk.
       case fst p of
         StaticBlock \<Rightarrow> pool\<lparr>static_block := blk\<rparr>
       | DynamicBlock k \<Rightarrow>
           pool\<lparr>dynamic_block := rev ((rev (dynamic_block pool))[k := blk])\<rparr>)
       (mem_write (block_bytes pool (fst p)) (snd p) bs)"

definition ndm_pool_calloc :: "ndm_pool_t \<Rightarrow> u64 \<Rightarrow> u64 \<Rightarrow> (pool_ptr option \<times> ndm_pool_t) result" where
  "ndm_pool_calloc pool nmemb nbytes =
     (let s = nmemb * nbytes in
      case ndm_pool_malloc pool s of
        (None, pool) \<Rightarrow> Ok (None, pool)
      | (Some p, pool) \<Rightarrow>
          need (pool_write pool p (replicate (unat s) 0)) (\<lambda>pool. Ok (Some p, pool)))"

definition ndm_pool_strdup :: "ndm_pool_t \<Rightarrow> cstring \<Rightarrow> (pool_ptr option \<times> ndm_pool_t) result" where
  "ndm_pool_strdup pool s =
     (case ndm_pool_malloc pool (of_nat (length s + 1)) of
        (None, pool) \<Rightarrow> Ok (None, pool)
      | (Some p, pool) \<Rightarrow> need (pool_write pool p (s @ [0])) (\<lambda>pool. Ok (Some p, pool)))"

text \<open>
  The scan of \<open>ndm_pool_strndup\<close> over the memory at \<open>s\<close>: \<open>None\<close> when it runs past
  the bytes that are there.
\<close>

fun strndup_scan :: "u8 list \<Rightarrow> nat \<Rightarrow> nat option" where
  "strndup_scan s 0 = Some 0"
| "strndup_scan [] (Suc n) = None"
| "strndup_scan (c # s) (Suc n) = (if c = 0 then Some 0 else map_option Suc (strndup_scan s n))"

definition ndm_pool_strndup ::
  "ndm_pool_t \<Rightarrow> u8 list \<Rightarrow> u64 \<Rightarrow> (pool_ptr option \<times> ndm_pool_t) result" where
  "ndm_pool_strndup pool s nbytes =
     need (strndup_scan s (unat nbytes)) (\<lambda>n.
     case ndm_pool_malloc pool (of_nat n + 1) of
       (None, pool) \<Rightarrow> Ok (None, pool)
     | (Some c, pool) \<Rightarrow> need (pool_write pool c (take n s @ [0])) (\<lambda>pool. Ok (Some c, pool)))"

text \<open>The blocks of the chain are released one by one, then the pool starts again.\<close>

fun pool_free_chain :: "u8 list list \<Rightarrow> u8 list list" where
  "pool_free_chain [] = []"
| "pool_free_chain (b # previous) = pool_free_chain previous"

definition ndm_pool_clear :: "ndm_pool_t \<Rightarrow> ndm_pool_t" where
  "ndm_pool_clear pool =
     (let pool = pool\<lparr>dynamic_block := pool_free_chain (dynamic_block pool)\<rparr> in
      ndm_pool_init (pool_sys pool) (static_block pool) (static_block_size pool)
        (dynamic_block_size pool))"

section \<open>The invariant\<close>

text \<open>Sizes up to half the address space: past that the alignment wraps.\<close>

definition small_size :: "u64 \<Rightarrow> bool" where
  "small_size n \<longleftrightarrow> unat n < 2 ^ 63"

definition pool_ok :: "ndm_pool_t \<Rightarrow> bool" where
  "pool_ok pool \<longleftrightarrow>
     length (static_block pool) = unat (static_block_size pool) \<and>
     small_size (static_block_size pool) \<and> small_size (dynamic_block_size pool) \<and>
     unat (available pool) \<le> block_end pool \<and>
     block_end pool \<le> length (block_bytes pool (current_block pool)) \<and>
     (available pool \<noteq> 0 \<longrightarrow> (block_end pool - unat (available pool)) mod 8 = 0)"

text \<open>The space handed out in the block in use ends at the mark.\<close>

definition pool_mark :: "ndm_pool_t \<Rightarrow> nat" where
  "pool_mark pool = block_end pool - unat (available pool)"

type_synonym area = "pool_ptr \<times> nat"

definition disjoint_areas :: "area \<Rightarrow> area \<Rightarrow> bool" where
  "disjoint_areas a b \<longleftrightarrow>
     fst (fst a) \<noteq> fst (fst b) \<or> snd a = 0 \<or> snd b = 0 \<or> snd (fst a) + snd a \<le> snd (fst b) \<or> snd (fst b) + snd b \<le> snd (fst a)"

definition area_used :: "ndm_pool_t \<Rightarrow> area \<Rightarrow> bool" where
  "area_used pool a \<longleftrightarrow>
     snd (fst a) + snd a \<le> length (block_bytes pool (fst (fst a))) \<and>
     (fst (fst a) = current_block pool \<longrightarrow> available pool = 0 \<or> snd (fst a) + snd a \<le> pool_mark pool) \<and>
     (case fst (fst a) of StaticBlock \<Rightarrow> True | DynamicBlock k \<Rightarrow> k < length (dynamic_block pool))"

lemma NDM_POOL_ALIGN_small:
  assumes "small_size n"
  shows "unat (NDM_POOL_ALIGN n) = (unat n + 7) div 8 * 8"
proof -
  have "NDM_POOL_ALIGN n = (n + 7) AND NOT (mask 3)"
    by (simp add: NDM_POOL_ALIGN_def mask_eq_exp_minus_1 add.commute)
  moreover have "unat (n + 7) = unat n + 7"
    using assms by (simp add: small_size_def unat_word_ariths)
  ultimately show ?thesis by (simp add: and_not_mask_nat minus_mod_eq_div_mult)
qed

lemma NDM_POOL_ALIGN_bounds:
  assumes "small_size n"
  shows "unat n \<le> unat (NDM_POOL_ALIGN n)" "unat (NDM_POOL_ALIGN n) mod 8 = 0"
    "unat (NDM_POOL_ALIGN n) < 2 ^ 63 + 8"
  using assms by (simp_all add: NDM_POOL_ALIGN_small small_size_def)

lemma NDM_POOL_ALIGN_8: "NDM_POOL_ALIGN 8 = 8"
  by (simp add: NDM_POOL_ALIGN_def)

lemma pool_init_ok:
  "length block = unat bsize \<Longrightarrow> small_size bsize \<Longrightarrow> small_size dsize \<Longrightarrow>
   pool_ok (ndm_pool_init sys block bsize dsize)"
  by (simp add: pool_ok_def ndm_pool_init_def block_end_def current_block_def block_bytes_def)

lemma malloc_invalid: "\<not> is_valid pool \<Longrightarrow> ndm_pool_malloc pool nbytes = (None, pool)"
  by (simp add: ndm_pool_malloc_def ndm_pool_is_valid_def Let_def)

lemma malloc_static:
  assumes ok: "pool_ok pool" "small_size nbytes" and v: "is_valid pool"
    and fits: "available pool \<ge> NDM_POOL_ALIGN nbytes"
    and m: "ndm_pool_malloc pool nbytes = (r, pool')"
  shows "r = Some (current_block pool, pool_mark pool)" "pool_ok pool'"
    "pool_mark pool' = pool_mark pool + unat (NDM_POOL_ALIGN nbytes)"
    "current_block pool' = current_block pool" "block_bytes pool' = block_bytes pool"
    "block_end pool' = block_end pool" "dynamic_block pool' = dynamic_block pool"
proof -
  let ?a = "NDM_POOL_ALIGN nbytes"
  have p': "pool' = pool\<lparr>available := available pool - ?a, total_allocated := total_allocated pool + nbytes\<rparr>"
    and r: "r = Some (current_block pool, block_end pool - unat (available pool))"
    using m v fits by (auto simp: ndm_pool_malloc_def ndm_pool_is_valid_def Let_def)
  show "r = Some (current_block pool, pool_mark pool)" by (simp add: r pool_mark_def)
  show same: "current_block pool' = current_block pool" "block_bytes pool' = block_bytes pool"
    "block_end pool' = block_end pool" "dynamic_block pool' = dynamic_block pool"
    by (simp_all add: p' current_block_def block_bytes_def block_end_def fun_eq_iff split: pool_block.split)
  have av: "unat (available pool') = unat (available pool) - unat ?a" "unat ?a \<le> unat (available pool)"
    using fits by (simp_all add: p' unat_sub word_le_nat_alt)
  have le: "unat (available pool) \<le> block_end pool" using ok by (simp add: pool_ok_def)
  show "pool_mark pool' = pool_mark pool + unat ?a"
    using av le by (simp add: pool_mark_def same)
  have al: "(block_end pool - unat (available pool')) mod 8 = 0" if "available pool' \<noteq> 0"
  proof -
    have "available pool \<noteq> 0" using that av by (auto simp: unat_gt_0 [symmetric] unat_eq_zero)
    then have "(block_end pool - unat (available pool)) mod 8 = 0" using ok by (simp add: pool_ok_def)
    moreover have "block_end pool - unat (available pool') = block_end pool - unat (available pool) + unat ?a"
      using av le by simp
    ultimately show ?thesis
      using NDM_POOL_ALIGN_bounds(2) [OF ok(2)] by (metis add_0 mod_add_eq mod_0)
  qed
  have "static_block pool' = static_block pool" "static_block_size pool' = static_block_size pool"
    "dynamic_block_size pool' = dynamic_block_size pool" by (simp_all add: p')
  then show "pool_ok pool'"
    using ok(1) al av le by (simp add: pool_ok_def same)
qed

lemma malloc_dynamic:
  assumes ok: "pool_ok pool" "small_size nbytes" and v: "is_valid pool" "can_alloc (pool_sys pool)"
    and full: "\<not> available pool \<ge> NDM_POOL_ALIGN nbytes"
    and m: "ndm_pool_malloc pool nbytes = (r, pool')"
  shows "r = Some (current_block pool', 8)" "pool_ok pool'"
    "current_block pool' = DynamicBlock (length (dynamic_block pool))"
    "8 + unat nbytes \<le> length (block_bytes pool' (current_block pool'))"
    "available pool' = 0 \<or> 8 + unat nbytes \<le> pool_mark pool'"
    "length (dynamic_block pool') = Suc (length (dynamic_block pool))"
    "b \<noteq> current_block pool' \<Longrightarrow> block_bytes pool' b = block_bytes pool b"
proof -
  let ?a = "NDM_POOL_ALIGN nbytes" and ?d = "dynamic_block_size pool"
  let ?need = "8 + ?a"
  define alloc where "alloc = (if ?need < ?d then ?d else ?need)"
  define blk where "blk = map (garbage (pool_sys pool)) [0..<unat alloc]"
  have p': "pool' = pool\<lparr>dynamic_block := blk # dynamic_block pool, available := alloc - ?need,
      total_allocated := total_allocated pool + nbytes,
      total_dynamic_size := total_dynamic_size pool + alloc, pool_sys := heap_next (pool_sys pool)\<rparr>"
    and r: "r = Some (DynamicBlock (length (dynamic_block pool)), 8)"
    using m v full by (auto simp: ndm_pool_malloc_def ndm_pool_is_valid_def Let_def NDM_POOL_ALIGN_8
        alloc_def blk_def)
  note a = NDM_POOL_ALIGN_bounds [OF ok(2)]
  have need: "unat ?need = 8 + unat ?a" using a(3) by (simp add: unat_word_ariths)
  have d: "unat ?d < 2 ^ 63" using ok(1) by (simp add: pool_ok_def small_size_def)
  have cur: "current_block pool' = DynamicBlock (length (dynamic_block pool))"
    by (simp add: p' current_block_def)
  have bytes: "block_bytes pool' (current_block pool') = blk"
    unfolding cur by (simp add: block_bytes_def p' nth_append)
  have len: "length blk = unat alloc" by (simp add: blk_def)
  have big: "unat alloc = max (unat ?d) (8 + unat ?a)"
    by (auto simp: alloc_def word_less_nat_alt need)
  have av: "unat (available pool') = unat alloc - unat ?need"
    using big need by (simp add: p' unat_sub word_le_nat_alt)
  have bend: "block_end pool' = unat ?d" by (simp add: block_end_def p')
  have av0: "available pool' = 0 \<or> unat alloc = unat ?d \<and> 8 + unat ?a < unat ?d"
    using big av need by (cases "8 + unat ?a < unat ?d") (auto simp: unat_eq_zero [symmetric])
  show "r = Some (current_block pool', 8)" by (simp add: r cur)
  show "current_block pool' = DynamicBlock (length (dynamic_block pool))" by (rule cur)
  show "8 + unat nbytes \<le> length (block_bytes pool' (current_block pool'))"
    using a(1) big by (simp add: bytes len)
  show "available pool' = 0 \<or> 8 + unat nbytes \<le> pool_mark pool'"
    using av0 a(1) av need by (auto simp: pool_mark_def bend)
  show "length (dynamic_block pool') = Suc (length (dynamic_block pool))" by (simp add: p')
  show "block_bytes pool' b = block_bytes pool b" if "b \<noteq> current_block pool'"
    using that unfolding cur by (auto simp: block_bytes_def p' nth_append split: pool_block.split)
  have "unat (available pool') \<le> block_end pool'" using av av0 bend big by auto
  moreover have "(block_end pool' - unat (available pool')) mod 8 = 0" if "available pool' \<noteq> 0"
    using that av0 av need a(2) by (simp add: bend mod_add_eq [symmetric])
  moreover have "static_block pool' = static_block pool" "static_block_size pool' = static_block_size pool"
    "dynamic_block_size pool' = dynamic_block_size pool" by (simp_all add: p')
  ultimately show "pool_ok pool'"
    using ok(1) by (simp add: pool_ok_def bytes len bend big)
qed

lemma malloc_refused:
  assumes "is_valid pool" "\<not> can_alloc (pool_sys pool)" "\<not> available pool \<ge> NDM_POOL_ALIGN nbytes"
  shows "ndm_pool_malloc pool nbytes = (None, pool\<lparr>is_valid := False, pool_sys := heap_next (pool_sys pool)\<rparr>)"
  using assms by (simp add: ndm_pool_malloc_def ndm_pool_is_valid_def Let_def)

section \<open>What a request is given\<close>

text \<open>
  A successful request keeps the invariant and every area handed out before, and its own
  area lies in a block, starts on an eight-byte boundary and meets no earlier area.
\<close>

lemma malloc_area:
  assumes ok: "pool_ok pool" "small_size nbytes" and m: "ndm_pool_malloc pool nbytes = (Some p, pool')"
  shows "pool_ok pool'" "area_used pool' (p, unat nbytes)"
    "nbytes \<noteq> 0 \<Longrightarrow> snd p mod 8 = 0"
    "area_used pool a \<Longrightarrow> area_used pool' a"
    "area_used pool a \<Longrightarrow> disjoint_areas a (p, unat nbytes)"
proof -
  have v: "is_valid pool" using m malloc_invalid by fastforce
  note al = NDM_POOL_ALIGN_bounds [OF ok(2)]
  have "pool_ok pool' \<and> area_used pool' (p, unat nbytes) \<and> (nbytes \<noteq> 0 \<longrightarrow> snd p mod 8 = 0) \<and>
    (\<forall>a. area_used pool a \<longrightarrow> area_used pool' a \<and> disjoint_areas a (p, unat nbytes))"
  proof (cases "available pool \<ge> NDM_POOL_ALIGN nbytes")
    case True
    note st = malloc_static [OF ok v True m]
    have p: "p = (current_block pool, pool_mark pool)" using st(1) by simp
    have le: "unat (available pool) \<le> block_end pool"
      "block_end pool \<le> length (block_bytes pool (current_block pool))" using ok(1) by (auto simp: pool_ok_def)
    have fits: "unat (NDM_POOL_ALIGN nbytes) \<le> unat (available pool)" using True by (simp add: word_le_nat_alt)
    have cur: "\<And>k. current_block pool = DynamicBlock k \<Longrightarrow> k < length (dynamic_block pool)"
      by (auto simp: current_block_def split: if_splits)
    have "available pool' = 0 \<longrightarrow> True" by simp
    have new: "area_used pool' (p, unat nbytes)"
      using le fits al(1) st(3) cur by (auto simp: area_used_def p st(4-7) pool_mark_def split: pool_block.split)
    have zero: "nbytes = 0" if "available pool = 0"
      using that fits al(1) by (simp add: unat_eq_zero)
    have aligned: "nbytes \<noteq> 0 \<longrightarrow> snd p mod 8 = 0"
      using zero ok(1) by (auto simp: p pool_mark_def pool_ok_def)
    have keep: "area_used pool' a \<and> disjoint_areas a (p, unat nbytes)" if "area_used pool a" for a
    proof
      have z': "available pool = 0 \<Longrightarrow> available pool' = 0"
      proof -
        assume z: "available pool = 0"
        then have "unat (NDM_POOL_ALIGN nbytes) = 0" using fits by simp
        then show "available pool' = 0"
          using m v True z by (auto simp: ndm_pool_malloc_def ndm_pool_is_valid_def Let_def unat_eq_zero)
      qed
      show "area_used pool' a"
        using that st(3) z' by (auto simp: area_used_def st(4-7) split: pool_block.splits)
      show "disjoint_areas a (p, unat nbytes)"
        using that zero by (auto simp: area_used_def disjoint_areas_def p)
    qed
    show ?thesis using st(2) new aligned keep by blast
  next
    case False
    have c: "can_alloc (pool_sys pool)"
      using m malloc_refused [OF v _ False] by (cases "can_alloc (pool_sys pool)") auto
    note dy = malloc_dynamic [OF ok v c False m]
    have p: "p = (DynamicBlock (length (dynamic_block pool)), 8)" using dy(1,3) by simp
    have new: "area_used pool' (p, unat nbytes)"
      using dy(3-6) by (auto simp: area_used_def p)
    have keep: "area_used pool' a \<and> disjoint_areas a (p, unat nbytes)" if "area_used pool a" for a
    proof
      have ne: "fst (fst a) \<noteq> DynamicBlock (length (dynamic_block pool))"
        using that by (auto simp: area_used_def)
      show "area_used pool' a"
        using that ne dy(7) [of "fst (fst a)"] dy(3,6) by (auto simp: area_used_def split: pool_block.splits)
      show "disjoint_areas a (p, unat nbytes)" using ne by (auto simp: disjoint_areas_def p)
    qed
    show ?thesis using dy(2) new keep by (auto simp: p)
  qed
  then show "pool_ok pool'" "area_used pool' (p, unat nbytes)"
    "nbytes \<noteq> 0 \<Longrightarrow> snd p mod 8 = 0"
    "area_used pool a \<Longrightarrow> area_used pool' a"
    "area_used pool a \<Longrightarrow> disjoint_areas a (p, unat nbytes)"
    by blast+
qed

lemma malloc_failed:
  assumes "ndm_pool_malloc pool nbytes = (None, pool')"
  shows "\<not> is_valid pool'" "is_valid pool \<Longrightarrow> \<not> can_alloc (pool_sys pool)"
    "dynamic_block pool' = dynamic_block pool" "static_block pool' = static_block pool"
  using assms by (auto simp: ndm_pool_malloc_def ndm_pool_is_valid_def Let_def split: if_splits)

lemma malloc_valid:
  assumes "is_valid pool" "no_failure (pool_sys pool)"
  shows "\<exists>p pool'. ndm_pool_malloc pool nbytes = (Some p, pool') \<and> is_valid pool' \<and> no_failure (pool_sys pool')"
  using assms by (auto simp: ndm_pool_malloc_def ndm_pool_is_valid_def Let_def heap_simps)

section \<open>Sequences of requests\<close>

text \<open>
  The contract of an allocator that remembers a failure: a failed request makes it
  invalid, an invalid one refuses everything and stays as it is.
\<close>

fun requests :: "('p \<Rightarrow> 'n \<Rightarrow> 'a option \<times> 'p) \<Rightarrow> 'p \<Rightarrow> 'n list \<Rightarrow> 'a option list \<times> 'p" where
  "requests alloc p [] = ([], p)"
| "requests alloc p (n # ns) =
     (let r = alloc p n; rest = requests alloc (snd r) ns in (fst r # fst rest, snd rest))"

locale sticky_allocator =
  fixes alloc :: "'p \<Rightarrow> 'n \<Rightarrow> 'a option \<times> 'p"
    and valid :: "'p \<Rightarrow> bool"
  assumes refused_invalid: "alloc p n = (None, p') \<Longrightarrow> \<not> valid p'"
    and given_valid: "alloc p n = (Some a, p') \<Longrightarrow> valid p \<and> valid p'"
begin

lemma requests_valid:
  assumes "valid p"
  shows "valid (snd (requests alloc p ns)) \<longleftrightarrow> None \<notin> set (fst (requests alloc p ns))"
  using assms
proof (induction ns arbitrary: p)
  case (Cons n ns)
  show ?case
  proof (cases "fst (alloc p n)")
    case None
    then have inv: "\<not> valid (snd (alloc p n))" using refused_invalid [of p n] by (metis prod.collapse)
    have stuck: "\<not> valid q \<Longrightarrow> \<not> valid (snd (requests alloc q ms))" for q ms
    proof (induction ms arbitrary: q)
      case (Cons m ms)
      then have "\<not> valid (snd (alloc q m))"
        using refused_invalid [of q m] given_valid [of q m] by (metis not_None_eq prod.collapse)
      with Cons show ?case by (simp add: Let_def)
    qed simp
    show ?thesis using stuck [OF inv] None by (simp add: Let_def)
  next
    case (Some a)
    then have "valid (snd (alloc p n))" using given_valid [of p n] by (metis prod.collapse)
    with Cons.IH show ?thesis using Some by (simp add: Let_def)
  qed
qed simp

end

interpretation pool: sticky_allocator ndm_pool_malloc is_valid
proof
  fix p p' :: ndm_pool_t and n a
  show "\<not> is_valid p'" if "ndm_pool_malloc p n = (None, p')" by (rule malloc_failed(1) [OF that])
  show "is_valid p \<and> is_valid p'" if "ndm_pool_malloc p n = (Some a, p')"
    using that by (auto simp: ndm_pool_malloc_def ndm_pool_is_valid_def Let_def split: if_splits)
qed

text \<open>The areas that a sequence of requests is given, with the sizes asked for.\<close>

definition areas :: "u64 list \<Rightarrow> pool_ptr option list \<Rightarrow> area list" where
  "areas ns rs = concat (map2 (\<lambda>n r. case r of None \<Rightarrow> [] | Some p \<Rightarrow> [(p, unat n)]) ns rs)"

lemma areas_Cons: "areas (n # ns) (r # rs) =
    (case r of None \<Rightarrow> areas ns rs | Some p \<Rightarrow> (p, unat n) # areas ns rs)"
  by (simp add: areas_def split: option.split)

lemma malloc_None_keeps:
  assumes "pool_ok pool" and m: "ndm_pool_malloc pool n = (None, pool')"
  shows "pool_ok pool'" "area_used pool' = area_used pool"
proof -
  have "pool' = pool \<or> pool' = pool\<lparr>is_valid := False, pool_sys := heap_next (pool_sys pool)\<rparr>"
    using m by (auto simp: ndm_pool_malloc_def ndm_pool_is_valid_def Let_def split: if_splits)
  then show "pool_ok pool'" "area_used pool' = area_used pool"
    using assms(1) by (auto simp: pool_ok_def area_used_def fun_eq_iff block_bytes_def block_end_def
      current_block_def pool_mark_def split: pool_block.splits)
qed

lemma requests_areas:
  assumes "pool_ok pool" and "list_all small_size ns" and "requests ndm_pool_malloc pool ns = (rs, pool')"
  shows "pool_ok pool' \<and> (\<forall>a. area_used pool a \<longrightarrow> area_used pool' a) \<and>
    list_all (area_used pool') (areas ns rs) \<and> sorted_wrt disjoint_areas (areas ns rs) \<and>
    list_all (\<lambda>a. snd a = 0 \<or> snd (fst a) mod 8 = 0) (areas ns rs) \<and>
    (\<forall>a b. area_used pool a \<longrightarrow> b \<in> set (areas ns rs) \<longrightarrow> disjoint_areas a b)"
  using assms
proof (induction ns arbitrary: pool rs)
  case Nil
  then show ?case by (simp add: areas_def)
next
  case (Cons n ns)
  obtain r pool1 where m: "ndm_pool_malloc pool n = (r, pool1)" by fastforce
  obtain rs' where rs: "rs = r # rs'" and rest: "requests ndm_pool_malloc pool1 ns = (rs', pool')"
    using Cons.prems(3) by (cases "requests ndm_pool_malloc pool1 ns") (auto simp: m Let_def)
  show ?case
  proof (cases r)
    case None
    then show ?thesis
      using Cons.IH [OF _ _ rest] Cons.prems malloc_None_keeps [of pool n pool1] m
      by (simp add: rs areas_Cons)
  next
    case (Some p)
    have small: "small_size n" using Cons.prems(2) by simp
    note step = malloc_area [OF Cons.prems(1) small m [unfolded Some]]
    have sm: "list_all small_size ns" using Cons.prems(2) by simp
    have ih: "pool_ok pool'" "\<forall>a. area_used pool1 a \<longrightarrow> area_used pool' a"
      "list_all (area_used pool') (areas ns rs')" "sorted_wrt disjoint_areas (areas ns rs')"
      "list_all (\<lambda>a. snd a = 0 \<or> snd (fst a) mod 8 = 0) (areas ns rs')"
      "\<forall>a b. area_used pool1 a \<longrightarrow> b \<in> set (areas ns rs') \<longrightarrow> disjoint_areas a b"
      using Cons.IH [OF step(1) sm rest] by blast+
    have split: "areas (n # ns) rs = (p, unat n) # areas ns rs'" by (simp add: rs areas_Cons Some)
    have "unat n = 0 \<or> snd p mod 8 = 0" using step(3) by (cases "n = 0") auto
    then show ?thesis
      unfolding split using ih step(2,4,5) by (auto simp del: split_paired_All)
  qed
qed

section \<open>Contents\<close>

lemma pool_write_area:
  assumes "area_used pool (p, length bs)"
  shows "\<exists>pool'. pool_write pool p bs = Some pool' \<and> pool_read pool' p (length bs) = Some bs \<and>
    (pool_ok pool \<longrightarrow> pool_ok pool') \<and> is_valid pool' = is_valid pool \<and> area_used pool' = area_used pool"
proof -
  obtain b off where p: "p = (b, off)" by fastforce
  have fits: "off + length bs \<le> length (block_bytes pool b)" using assms by (simp add: area_used_def p)
  then obtain blk where w: "mem_write (block_bytes pool b) off bs = Some blk"
    by (simp add: mem_write_def)
  have len: "length blk = length (block_bytes pool b)" by (rule mem_write_length [OF w])
  have rd: "mem_read blk off (length bs) = Some bs"
    using w fits by (auto simp: mem_write_def mem_read_def split: if_splits)
  obtain pool' where w': "pool_write pool p bs = Some pool'"
    and same: "static_block_size pool' = static_block_size pool" "dynamic_block_size pool' = dynamic_block_size pool"
      "available pool' = available pool" "length (dynamic_block pool') = length (dynamic_block pool)"
      "is_valid pool' = is_valid pool"
    and bytes: "block_bytes pool' = (block_bytes pool)(b := blk)"
    and st: "static_block pool' = block_bytes pool' StaticBlock" "static_block pool = block_bytes pool StaticBlock"
  proof (cases b)
    case StaticBlock
    then show ?thesis
      by (intro that [of "pool\<lparr>static_block := blk\<rparr>"])
        (use w in \<open>auto simp: pool_write_def p fun_eq_iff block_bytes_def split: pool_block.split\<close>)
  next
    case (DynamicBlock k)
    then have "k < length (dynamic_block pool)" using assms by (simp add: area_used_def p)
    with DynamicBlock show ?thesis
      by (intro that [of "pool\<lparr>dynamic_block := rev ((rev (dynamic_block pool))[k := blk])\<rparr>"])
        (use w in \<open>auto simp: pool_write_def p fun_eq_iff block_bytes_def split: pool_block.split\<close>)
  qed
  have "length (block_bytes pool' c) = length (block_bytes pool c)" for c by (simp add: bytes len)
  moreover have "dynamic_block pool' = [] \<longleftrightarrow> dynamic_block pool = []"
    using same(4) by (metis length_0_conv)
  then have "current_block pool' = current_block pool" "block_end pool' = block_end pool"
    by (simp_all add: current_block_def block_end_def same)
  ultimately have "pool_ok pool \<longrightarrow> pool_ok pool'" "area_used pool' = area_used pool"
    by (auto simp: pool_ok_def area_used_def fun_eq_iff same pool_mark_def st split: pool_block.splits)
  moreover have "pool_read pool' p (length bs) = Some bs"
    by (simp add: pool_read_def p bytes rd)
  ultimately show ?thesis using w' same(5) by blast
qed

lemma strdup_result:
  assumes "pool_ok pool" and "length s + 1 < 2 ^ 63"
  shows "\<exists>r pool'. ndm_pool_strdup pool s = Ok (r, pool') \<and> pool_ok pool' \<and>
    (r = None \<longleftrightarrow> \<not> is_valid pool') \<and>
    (\<forall>p. r = Some p \<longrightarrow> pool_read pool' p (length s + 1) = Some (s @ [0]))"
proof (cases "ndm_pool_malloc pool (of_nat (length s + 1))")
  case (Pair r pool1)
  show ?thesis
  proof (cases r)
    case None
    with Pair have "ndm_pool_malloc pool (of_nat (length s + 1)) = (None, pool1)" by simp
    from malloc_None_keeps(1) [OF assms(1) this] malloc_failed(1) [OF this] this show ?thesis
      by (simp add: ndm_pool_strdup_def)
  next
    case (Some p)
    with Pair have m: "ndm_pool_malloc pool (of_nat (length s + 1)) = (Some p, pool1)" by simp
    have u: "unat (of_nat (length s + 1) :: u64) = length (s @ [0])"
      by (subst unat_of_nat_small) (use assms(2) in simp_all)
    then have sm: "small_size (of_nat (length s + 1))" using assms(2) by (simp add: small_size_def)
    then have "area_used pool1 (p, unat (of_nat (length s + 1) :: u64))"
      using malloc_area(2) [OF assms(1) sm m] by simp
    then have used: "area_used pool1 (p, length (s @ [0]))" unfolding u .
    obtain pool' where w: "pool_write pool1 p (s @ [0]) = Some pool'"
      "pool_read pool' p (length (s @ [0])) = Some (s @ [0])" "pool_ok pool'" "is_valid pool' = is_valid pool1"
      using pool_write_area [OF used] malloc_area(1) [OF assms(1) sm m] by auto
    have "is_valid pool1" using pool.given_valid [OF m] by simp
    with w m show ?thesis by (auto simp: ndm_pool_strdup_def)
  qed
qed

lemma strndup_scan_len:
  "n \<le> length s \<or> 0 \<in> set s \<Longrightarrow> strndup_scan s n = Some (length (takeWhile (\<lambda>c. c \<noteq> 0) (take n s)))"
  by (induction s n rule: strndup_scan.induct) auto

text \<open>Requests and writes to other areas leave what an area holds.\<close>

lemma malloc_keeps_read:
  assumes ok: "pool_ok pool" "small_size nbytes" and m: "ndm_pool_malloc pool nbytes = (r, pool')"
    and used: "area_used pool (q, n)"
  shows "block_bytes pool' (fst q) = block_bytes pool (fst q)"
proof (cases "is_valid pool")
  case False
  then show ?thesis using m malloc_invalid [of pool nbytes] by simp
next
  case v: True
  show ?thesis
  proof (cases "available pool \<ge> NDM_POOL_ALIGN nbytes")
    case True
    show ?thesis using malloc_static(5) [OF ok v True m] by simp
  next
    case full: False
    show ?thesis
    proof (cases "can_alloc (pool_sys pool)")
      case True
      note dy = malloc_dynamic [OF ok v True full m]
      have "fst q \<noteq> current_block pool'"
        using used dy(3) by (auto simp: area_used_def split: pool_block.splits)
      then show ?thesis by (rule dy(7))
    next
      case False
      then show ?thesis
        using m malloc_refused [OF v False full] by (auto simp: block_bytes_def split: pool_block.splits)
    qed
  qed
qed

lemma mem_write_keeps_read:
  assumes "mem_write blk off bs = Some blk'" and "off + length bs \<le> o' \<or> o' + n \<le> off \<or> n = 0"
  shows "mem_read blk' o' n = mem_read blk o' n"
proof -
  have blk': "blk' = take off blk @ bs @ drop (off + length bs) blk" "off + length bs \<le> length blk"
    using assms(1) by (auto simp: mem_write_def split: if_splits)
  then have len: "length blk' = length blk" by simp
  have "take n (drop o' blk') = take n (drop o' blk)"
    using assms(2) blk'(2) by (elim disjE) (auto simp: blk'(1) take_drop min_def)
  with len show ?thesis by (simp add: mem_read_def)
qed

lemma pool_write_keeps_read:
  assumes w: "pool_write pool p bs = Some pool'" and used: "area_used pool (p, length bs)"
    and d: "disjoint_areas (q, n) (p, length bs)" and bs: "bs \<noteq> []"
  shows "pool_read pool' q n = pool_read pool q n"
proof -
  obtain blk where blk: "mem_write (block_bytes pool (fst p)) (snd p) bs = Some blk"
    using w by (auto simp: pool_write_def)
  have bytes: "block_bytes pool' = (block_bytes pool)(fst p := blk)"
    using w used blk by (cases "fst p") (auto simp: pool_write_def fun_eq_iff block_bytes_def area_used_def
        split: pool_block.split)
  show ?thesis
  proof (cases "fst q = fst p")
    case True
    then have "snd p + length bs \<le> snd q \<or> snd q + n \<le> snd p \<or> n = 0"
      using d bs by (auto simp: disjoint_areas_def)
    from mem_write_keeps_read [OF blk this] True show ?thesis by (simp add: pool_read_def bytes)
  qed (simp add: pool_read_def bytes)
qed

text \<open>A copy leaves every string the pool already holds.\<close>

lemma strdup_keeps_read:
  assumes ok: "pool_ok pool" and len: "length s + 1 < 2 ^ 63"
    and dup: "ndm_pool_strdup pool s = Ok (r, pool')" and used: "area_used pool (q, n)"
  shows "pool_read pool' q n = pool_read pool q n" "area_used pool' (q, n)"
    "r = Some p \<Longrightarrow> area_used pool' (p, length s + 1)"
proof -
  have u: "unat (of_nat (length s + 1) :: u64) = length s + 1"
    by (rule unat_of_nat_small) (use len in simp)
  then have sm: "small_size (of_nat (length s + 1))" using len by (simp add: small_size_def)
  obtain r1 pool1 where m: "ndm_pool_malloc pool (of_nat (length s + 1)) = (r1, pool1)" by fastforce
  note keep = malloc_keeps_read [OF ok sm m used]
  have "pool_read pool' q n = pool_read pool q n \<and> area_used pool' (q, n) \<and>
    (r = Some p \<longrightarrow> area_used pool' (p, length s + 1))"
  proof (cases r1)
    case None
    note nk = malloc_None_keeps [OF ok m [unfolded None]]
    have "r = None" "pool' = pool1" using dup m None by (simp_all add: ndm_pool_strdup_def)
    then show ?thesis using keep nk(2) used by (simp add: pool_read_def)
  next
    case (Some p1)
    note ma = malloc_area [OF ok sm m [unfolded Some]]
    have used1: "area_used pool1 (p1, length (s @ [0]))" using ma(2) unfolding u by simp
    obtain pool2 where w: "pool_write pool1 p1 (s @ [0]) = Some pool2" "area_used pool2 = area_used pool1"
      using pool_write_area [OF used1] by blast
    have r: "r = Some p1" "pool' = pool2" using dup m Some w(1) by (simp_all add: ndm_pool_strdup_def)
    have d: "disjoint_areas (q, n) (p1, length (s @ [0]))" using ma(5) [OF used] unfolding u by simp
    have "pool_read pool2 q n = pool_read pool1 q n"
      by (rule pool_write_keeps_read [OF w(1) used1 d]) simp
    then show ?thesis
      using keep w(2) ma(4) [OF used] used1 r by (auto simp: pool_read_def)
  qed
  then show "pool_read pool' q n = pool_read pool q n" "area_used pool' (q, n)"
    "r = Some p \<Longrightarrow> area_used pool' (p, length s + 1)" by blast+
qed

section \<open>Properties\<close>

text \<open>
  C20: whatever sizes below \<open>2 ^ 63\<close> a program asks a fresh pool for, and whichever
  calls of \<open>malloc\<close> fail, the areas it gets lie inside their blocks, start at an offset in the
  block that is a multiple of eight, and never share a byte.
\<close>
theorem pool_requests_disjoint:
  assumes "length block = unat bsize" "small_size bsize" "small_size dsize" "list_all small_size ns"
    and "requests ndm_pool_malloc (ndm_pool_init sys block bsize dsize) ns = (rs, pool)"
  shows "sorted_wrt disjoint_areas (areas ns rs) \<and>
    list_all (\<lambda>a. snd (fst a) + snd a \<le> length (block_bytes pool (fst (fst a))) \<and>
                  (snd a = 0 \<or> snd (fst a) mod 8 = 0)) (areas ns rs)"
  using requests_areas [OF pool_init_ok [OF assms(1-3)] assms(4,5)]
  by (auto simp: list_all_iff area_used_def)

theorem pool_requests_disjoint_witness:
  "sorted_wrt disjoint_areas (areas [3, 8, 100] (fst (requests ndm_pool_malloc
     (ndm_pool_init \<lparr>answers = \<lambda>_. True, garbage = \<lambda>_. 0\<rparr> (replicate 16 0) 16 32) [3, 8, 100]))) \<and>
   list_all (\<lambda>a. snd (fst a) + snd a \<le> length (block_bytes (snd (requests ndm_pool_malloc
     (ndm_pool_init \<lparr>answers = \<lambda>_. True, garbage = \<lambda>_. 0\<rparr> (replicate 16 0) 16 32) [3, 8, 100]))
       (fst (fst a))) \<and> (snd a = 0 \<or> snd (fst a) mod 8 = 0))
     (areas [3, 8, 100] (fst (requests ndm_pool_malloc
     (ndm_pool_init \<lparr>answers = \<lambda>_. True, garbage = \<lambda>_. 0\<rparr> (replicate 16 0) 16 32) [3, 8, 100])))"
  by (rule pool_requests_disjoint [OF _ _ _ _ prod.collapse [symmetric]])
    (simp_all add: small_size_def)

text \<open>
  A pool is valid after a sequence of requests exactly when none of
  them returned \<open>NULL\<close>, so a client may check \<open>ndm_pool_is_valid\<close> once at the end.
\<close>
theorem pool_failure_sticky:
  assumes "ndm_pool_is_valid pool"
  shows "ndm_pool_is_valid (snd (requests ndm_pool_malloc pool ns)) \<longleftrightarrow>
    None \<notin> set (fst (requests ndm_pool_malloc pool ns))"
  using pool.requests_valid [of pool ns] assms by (simp add: ndm_pool_is_valid_def)

theorem pool_failure_sticky_witness:
  "ndm_pool_is_valid (snd (requests ndm_pool_malloc
      (ndm_pool_init \<lparr>answers = \<lambda>k. k = 0, garbage = \<lambda>_. 0\<rparr> [] 0 8) [8, 8])) \<longleftrightarrow>
    None \<notin> set (fst (requests ndm_pool_malloc
      (ndm_pool_init \<lparr>answers = \<lambda>k. k = 0, garbage = \<lambda>_. 0\<rparr> [] 0 8) [8, 8]))"
  by (rule pool_failure_sticky) (simp add: ndm_pool_is_valid_def ndm_pool_init_def)

text \<open>
  \<open>ndm_pool_strdup\<close> never writes outside its area; it returns
  \<open>NULL\<close> exactly when the pool has become invalid, else a pointer at which the string
  and its terminator can be read.
\<close>
theorem pool_strdup_copy:
  assumes "pool_ok pool" and "length s + 1 < 2 ^ 63"
  shows "\<exists>r pool'. ndm_pool_strdup pool s = Ok (r, pool') \<and> pool_ok pool' \<and>
    (r = None \<longleftrightarrow> \<not> is_valid pool') \<and>
    (\<forall>p. r = Some p \<longrightarrow> pool_read pool' p (length s + 1) = Some (s @ [0]))"
  by (rule strdup_result [OF assms])

theorem pool_strdup_copy_witness:
  "\<exists>r pool'. ndm_pool_strdup (ndm_pool_init \<lparr>answers = \<lambda>_. True, garbage = \<lambda>_. 0\<rparr> [] 0 64) [65, 66] = Ok (r, pool') \<and>
    pool_ok pool' \<and> (r = None \<longleftrightarrow> \<not> is_valid pool') \<and>
    (\<forall>p. r = Some p \<longrightarrow> pool_read pool' p (length [65, 66 :: u8] + 1) = Some ([65, 66] @ [0]))"
  by (rule pool_strdup_copy) (simp_all add: pool_init_ok small_size_def)

text \<open>
  A request of almost the whole address space is aligned to 0: a valid pool gives a
  pointer without space behind it.
\<close>

theorem pool_malloc_wraps:
  assumes "is_valid pool"
  shows "\<exists>p pool'. ndm_pool_malloc pool (- 1) = (Some p, pool') \<and> available pool' = available pool \<and>
    dynamic_block pool' = dynamic_block pool"
  using assms by (simp add: ndm_pool_malloc_def ndm_pool_is_valid_def Let_def NDM_POOL_ALIGN_def)

end
