(* ===== verification/Int_Parse.thy ===== *)
theory Int_Parse
  imports Int_Macros Pool
begin

text \<open>
  The integer parsers of \<^verbatim>\<open>src/int.c\<close>, over the decimal conversions of the C library
  they call: \<open>strtol\<close> and its family in base 10, and \<open>printf\<close>'s \<open>%lli\<close> and
  \<open>%llu\<close>, with \<open>long\<close> and \<open>long long\<close> of 64 bits.
\<close>

section \<open>Decimal conversions of the C library\<close>

definition is_digit :: "u8 \<Rightarrow> bool" where
  "is_digit c \<longleftrightarrow> 48 \<le> c \<and> c \<le> 57"

definition is_space :: "u8 \<Rightarrow> bool" where
  "is_space c \<longleftrightarrow> c = 32 \<or> 9 \<le> c \<and> c \<le> 13"

definition digit_value :: "u8 \<Rightarrow> nat" where
  "digit_value c = unat c - 48"

definition digits_value :: "u8 list \<Rightarrow> nat" where
  "digits_value ds = foldl (\<lambda>n c. n * 10 + digit_value c) 0 ds"

text \<open>
  The common scan: white space, a sign, digits. The result is the sign, the digits and
  the number of characters consumed, \<open>0\<close> without a digit.
\<close>

definition strto_scan :: "u8 list \<Rightarrow> bool \<times> u8 list \<times> nat" where
  "strto_scan s =
     (let ws = takeWhile is_space s; s1 = dropWhile is_space s;
          sign = (s1 \<noteq> [] \<and> (hd s1 = 45 \<or> hd s1 = 43)); neg = (s1 \<noteq> [] \<and> hd s1 = 45);
          ds = takeWhile is_digit (if sign then tl s1 else s1) in
      (neg, ds, if ds = [] then 0 else length ws + of_bool sign + length ds))"

text \<open>The value, the end position and whether \<open>errno\<close> is \<open>ERANGE\<close>.\<close>

definition strtoll :: "u8 list \<Rightarrow> int \<times> nat \<times> bool" where
  "strtoll s =
     (case strto_scan s of (neg, ds, e) \<Rightarrow>
        let v = (if neg then - int (digits_value ds) else int (digits_value ds)) in
        if v < - (2 ^ 63) then (- (2 ^ 63), e, True)
        else if v \<ge> 2 ^ 63 then (2 ^ 63 - 1, e, True)
        else (v, e, False))"

definition strtoull :: "u8 list \<Rightarrow> u64 \<times> nat \<times> bool" where
  "strtoull s =
     (case strto_scan s of (neg, ds, e) \<Rightarrow>
        if digits_value ds \<ge> 2 ^ 64 then (- 1, e, True)
        else (if neg then - of_nat (digits_value ds) else of_nat (digits_value ds), e, False))"

fun print_nat :: "nat \<Rightarrow> u8 list" where
  "print_nat n = (if n < 10 then [48 + of_nat n] else print_nat (n div 10) @ [48 + of_nat (n mod 10)])"

declare print_nat.simps [simp del]

definition print_int :: "int \<Rightarrow> u8 list" where
  "print_int i = (if i < 0 then 45 # print_nat (nat (- i)) else print_nat (nat i))"

section \<open>Digits\<close>

lemma digit_char: "n < 10 \<Longrightarrow> unat (48 + of_nat n :: u8) = 48 + n"
  by (simp add: unat_word_ariths)

lemma digit_char_is_digit: "n < 10 \<Longrightarrow> is_digit (48 + of_nat n)"
  by (simp add: is_digit_def word_le_nat_alt digit_char)

lemma digit_char_value: "n < 10 \<Longrightarrow> digit_value (48 + of_nat n) = n"
  by (simp add: digit_value_def digit_char)

lemma digits_value_snoc: "digits_value (ds @ [d]) = digits_value ds * 10 + digit_value d"
  by (simp add: digits_value_def)

lemma digits_value_Nil: "digits_value [] = 0"
  by (simp add: digits_value_def)

lemma print_nat_digits: "list_all is_digit (print_nat n) \<and> print_nat n \<noteq> [] \<and> digits_value (print_nat n) = n"
proof (induction n rule: print_nat.induct)
  case (1 n)
  show ?case
  proof (cases "n < 10")
    case True
    then show ?thesis
      using digits_value_snoc [of "[]" "48 + of_nat n"]
      by (subst (1 2 3) print_nat.simps) (simp add: digit_char_is_digit digit_char_value digits_value_Nil)
  next
    case False
    then show ?thesis
      using 1 by (subst (1 2 3) print_nat.simps)
        (simp add: digits_value_snoc digit_char_is_digit [of "n mod 10"] digit_char_value [of "n mod 10"])
  qed
qed

lemma print_nat_leading: "n \<noteq> 0 \<Longrightarrow> hd (print_nat n) \<noteq> 48"
proof (induction n rule: print_nat.induct)
  case (1 n)
  show ?case
  proof (cases "n < 10")
    case True
    have "unat (48 + of_nat n :: u8) \<noteq> unat (48 :: u8)" using 1(2) True by (simp add: digit_char)
    with True show ?thesis by (subst print_nat.simps) auto
  next
    case False
    then have "n div 10 \<noteq> 0" by simp
    with 1(1) False print_nat_digits [of "n div 10"] show ?thesis by (subst print_nat.simps) simp
  qed
qed

lemma print_nat_0: "print_nat 0 = [48]"
  by (simp add: print_nat.simps)

lemma print_nat_length: "n < 10 ^ k \<Longrightarrow> 0 < k \<Longrightarrow> length (print_nat n) \<le> k"
proof (induction n arbitrary: k rule: print_nat.induct)
  case (1 n)
  show ?case
  proof (cases "n < 10")
    case True
    with 1(3) show ?thesis by (subst print_nat.simps) simp
  next
    case False
    then obtain k' where k: "k = Suc k'" "0 < k'"
      using 1(2,3) by (cases k; cases "k - 1") auto
    have "n div 10 < 10 ^ k'" using 1(2) k(1) by (simp add: less_mult_imp_div_less mult.commute)
    with 1(1) [OF False this k(2)] False show ?thesis by (subst print_nat.simps) (simp add: k)
  qed
qed

text \<open>The longest prints fit the buffers of \<open>NDM_INT_BUFSIZE\<close> bytes.\<close>

lemma print_int_length:
  assumes "- (2 ^ 63) \<le> i" "i < 2 ^ 64"
  shows "0 < length (print_int i)" "length (print_int i) < NDM_INT_BUFSIZE"
proof -
  have "nat i < 10 ^ 20" "nat (- i) < 10 ^ 20" using assms by simp_all
  then have "length (print_nat (nat i)) \<le> 20" "length (print_nat (nat (- i))) \<le> 20"
    by (simp_all add: print_nat_length)
  then show "length (print_int i) < NDM_INT_BUFSIZE"
    by (simp add: print_int_def NDM_INT_STRLEN_values)
  show "0 < length (print_int i)"
    using print_nat_digits by (simp add: print_int_def)
qed

lemma not_space_digit: "is_digit c \<Longrightarrow> \<not> is_space c \<and> c \<noteq> 45 \<and> c \<noteq> 43"
  by (auto simp: is_digit_def is_space_def word_le_nat_alt)

lemma scan_digits:
  assumes "list_all is_digit ds" "ds \<noteq> []" and r: "r = [] \<or> \<not> is_digit (hd r)"
  shows "strto_scan (ds @ r) = (False, ds, length ds)" "strto_scan (45 # ds @ r) = (True, ds, Suc (length ds))"
proof -
  obtain d ds' where ds: "ds = d # ds'" "is_digit d" using assms by (cases ds) auto
  have tw: "takeWhile is_digit (ds @ r) = ds"
    using assms by (cases r) (simp_all add: takeWhile_append list_all_iff)
  have "\<not> is_space d" "d \<noteq> 45" "d \<noteq> 43" using not_space_digit [OF ds(2)] by auto
  then show "strto_scan (ds @ r) = (False, ds, length ds)"
    using tw assms(2) by (simp add: strto_scan_def ds(1) Let_def)
  have "\<not> is_space (45 :: u8)" by (simp add: is_space_def)
  then show "strto_scan (45 # ds @ r) = (True, ds, Suc (length ds))"
    using tw assms(2) by (simp add: strto_scan_def Let_def)
qed

lemma strtoll_print:
  assumes "- (2 ^ 63) \<le> i" "i < 2 ^ 63" and r: "r = [] \<or> \<not> is_digit (hd r)"
  shows "strtoll (print_int i @ r) = (i, length (print_int i), False)"
  using assms scan_digits [OF _ _ r, of "print_nat (nat i)"] scan_digits [OF _ _ r, of "print_nat (nat (- i))"]
    print_nat_digits [of "nat i"] print_nat_digits [of "nat (- i)"]
  by (auto simp: strtoll_def print_int_def Let_def)

lemma strtoull_print:
  assumes "n < 2 ^ 64" and r: "r = [] \<or> \<not> is_digit (hd r)"
  shows "strtoull (print_nat n @ r) = (of_nat n, length (print_nat n), False)"
  using assms scan_digits [OF _ _ r, of "print_nat n"] print_nat_digits [of n]
  by (simp add: strtoull_def)

section \<open>The parsers\<close>

text \<open>
  A parser stores a value (\<open>Some\<close>) and leaves \<open>errno\<close> as \<open>None\<close> for 0.
\<close>

type_synonym 'a parsed = "'a option \<times> errno option"

definition first_char :: "cstring \<Rightarrow> u8" where
  "first_char str = (case str of [] \<Rightarrow> 0 | c # _ \<Rightarrow> c)"

definition ndm_int_parse_long :: "cstring \<Rightarrow> int parsed" where
  "ndm_int_parse_long str =
     (if \<not> is_digit (first_char str) \<and> first_char str \<noteq> 45 then (None, Some EINVAL)
      else (case strtoll str of (v, e, erange) \<Rightarrow>
        if \<not> erange \<and> e = length str then (Some v, None)
        else (None, if erange then Some ERANGE else None)))"

definition ndm_int_parse_ulong :: "cstring \<Rightarrow> u64 parsed" where
  "ndm_int_parse_ulong str =
     (if \<not> is_digit (first_char str) then (None, Some EINVAL)
      else (case strtoull str of (v, e, erange) \<Rightarrow>
        if \<not> erange \<and> e = length str then (Some v, None)
        else (None, if erange then Some ERANGE else None)))"

definition ndm_int_parse_llong :: "cstring \<Rightarrow> int parsed" where
  "ndm_int_parse_llong str =
     (if \<not> is_digit (first_char str) \<and> first_char str \<noteq> 45 then (None, Some EINVAL)
      else (case strtoll str of (v, e, erange) \<Rightarrow>
        if \<not> erange \<and> e = length str then (Some v, None)
        else (None, if erange then Some ERANGE else None)))"

definition ndm_int_parse_ullong :: "cstring \<Rightarrow> u64 parsed" where
  "ndm_int_parse_ullong str =
     (if \<not> is_digit (first_char str) then (None, Some EINVAL)
      else (case strtoull str of (v, e, erange) \<Rightarrow>
        if \<not> erange \<and> e = length str then (Some v, None)
        else (None, if erange then Some ERANGE else None)))"

text \<open>The two functions of the macro \<open>NDM_INT_PARSE_\<close>.\<close>

definition NDM_INT_PARSE_signed :: "int \<Rightarrow> int \<Rightarrow> cstring \<Rightarrow> int parsed" where
  "NDM_INT_PARSE_signed lo hi str =
     (case fst (ndm_int_parse_long str) of
        Some l \<Rightarrow> if lo \<le> l \<and> l \<le> hi then (Some l, None) else (None, Some EINVAL)
      | None \<Rightarrow> (None, Some EINVAL))"

definition NDM_INT_PARSE_unsigned :: "u64 \<Rightarrow> cstring \<Rightarrow> u64 parsed" where
  "NDM_INT_PARSE_unsigned umax str =
     (case fst (ndm_int_parse_ulong str) of
        Some l \<Rightarrow> if l \<le> umax then (Some l, None) else (None, Some EINVAL)
      | None \<Rightarrow> (None, Some EINVAL))"

definition ndm_int_parse_char where "ndm_int_parse_char = NDM_INT_PARSE_signed (- (2 ^ 7)) (2 ^ 7 - 1)"
definition ndm_int_parse_uchar where "ndm_int_parse_uchar = NDM_INT_PARSE_unsigned 0xff"
definition ndm_int_parse_short where "ndm_int_parse_short = NDM_INT_PARSE_signed (- (2 ^ 15)) (2 ^ 15 - 1)"
definition ndm_int_parse_ushort where "ndm_int_parse_ushort = NDM_INT_PARSE_unsigned 0xffff"
definition ndm_int_parse_int where "ndm_int_parse_int = NDM_INT_PARSE_signed (- (2 ^ 31)) (2 ^ 31 - 1)"
definition ndm_int_parse_uint where "ndm_int_parse_uint = NDM_INT_PARSE_unsigned 0xffffffff"

section \<open>What the parsers accept\<close>

lemma scan_ulong:
  assumes "is_digit (first_char str)"
  shows "strto_scan str = (False, takeWhile is_digit str, length (takeWhile is_digit str))"
proof -
  obtain c s where str: "str = c # s" "is_digit c"
    using assms by (cases str) (auto simp: first_char_def is_digit_def)
  then show ?thesis using not_space_digit [OF str(2)] by (simp add: strto_scan_def Let_def)
qed

lemma takeWhile_all: "length (takeWhile P xs) = length xs \<longleftrightarrow> list_all P xs"
  by (induction xs) auto

lemma takeWhile_list_all: "list_all P xs \<Longrightarrow> takeWhile P xs = xs"
  by (induction xs) auto

lemma parse_ulong_iff:
  "ndm_int_parse_ulong str = (Some v, None) \<longleftrightarrow>
    str \<noteq> [] \<and> list_all is_digit str \<and> digits_value str < 2 ^ 64 \<and> v = of_nat (digits_value str)"
proof (cases "is_digit (first_char str)")
  case True
  then have ne: "str \<noteq> []" by (auto simp: first_char_def is_digit_def)
  show ?thesis
  proof (cases "list_all is_digit str")
    case all: True
    then show ?thesis
      using True ne scan_ulong [OF True] takeWhile_list_all [OF all]
      by (auto simp: ndm_int_parse_ulong_def strtoull_def)
  next
    case False
    then have "length (takeWhile is_digit str) \<noteq> length str" by (simp add: takeWhile_all)
    then show ?thesis
      using True False scan_ulong [OF True] by (auto simp: ndm_int_parse_ulong_def strtoull_def)
  qed
next
  case False
  then show ?thesis by (cases str) (auto simp: ndm_int_parse_ulong_def first_char_def)
qed

lemma parse_ulong_result: "fst (ndm_int_parse_ulong str) = Some v \<longleftrightarrow> ndm_int_parse_ulong str = (Some v, None)"
  by (auto simp: ndm_int_parse_ulong_def split: if_splits prod.splits)

text \<open>
  C30: the unsigned parsers accept a string exactly when it is not
  empty, has digits only, and its value is at most the type's maximum; they store that
  value, and set \<open>EINVAL\<close> otherwise.
\<close>
theorem int_parse_unsigned_exact:
  "NDM_INT_PARSE_unsigned umax str =
    (if str \<noteq> [] \<and> list_all is_digit str \<and> digits_value str \<le> unat umax
     then (Some (of_nat (digits_value str)), None) else (None, Some EINVAL))"
proof -
  have lt: "digits_value str \<le> unat umax \<Longrightarrow> digits_value str < 2 ^ 64"
    using unsigned_less [of umax, where 'a = nat] by (simp add: le_less_trans)
  show ?thesis
  proof (cases "str \<noteq> [] \<and> list_all is_digit str \<and> digits_value str < 2 ^ 64")
    case True
    then have "fst (ndm_int_parse_ulong str) = Some (of_nat (digits_value str))"
      using parse_ulong_iff [of str "of_nat (digits_value str)"] by simp
    moreover have "(of_nat (digits_value str) :: u64) \<le> umax \<longleftrightarrow> digits_value str \<le> unat umax"
      using True by (simp add: word_le_nat_alt)
    ultimately show ?thesis using True by (simp add: NDM_INT_PARSE_unsigned_def)
  next
    case False
    then have "fst (ndm_int_parse_ulong str) = None"
      using parse_ulong_iff [of str] parse_ulong_result [of str] by (cases "fst (ndm_int_parse_ulong str)") auto
    then show ?thesis using False lt by (auto simp: NDM_INT_PARSE_unsigned_def)
  qed
qed

text \<open>
  C31: every value of a signed type is parsed back from what \<open>%li\<close>
  prints, and a value outside the type is refused with \<open>EINVAL\<close>.
\<close>
theorem int_parse_roundtrip:
  assumes "- (2 ^ 63) \<le> i" "i < 2 ^ 63"
  shows "NDM_INT_PARSE_signed lo hi (print_int i) =
    (if lo \<le> i \<and> i \<le> hi then (Some i, None) else (None, Some EINVAL))"
proof -
  have "is_digit (first_char (print_int i)) \<or> first_char (print_int i) = 45"
    using print_nat_digits [of "nat i"] by (auto simp: print_int_def first_char_def split: list.split)
  then have "ndm_int_parse_long (print_int i) = (Some i, None)"
    using strtoll_print [OF assms, of "[]"] by (auto simp: ndm_int_parse_long_def)
  then show ?thesis by (simp add: NDM_INT_PARSE_signed_def)
qed

theorem int_parse_roundtrip_witness:
  "ndm_int_parse_char (print_int (- 128)) = (Some (- 128), None)"
  using int_parse_roundtrip [of "- 128" "- (2 ^ 7)" "2 ^ 7 - 1"] by (simp add: ndm_int_parse_char_def)

text \<open>
  On trailing characters the 64-bit parsers fail with \<open>errno\<close> 0, where the narrower
  ones set \<open>EINVAL\<close>.
\<close>

theorem parse_long_leaves_errno_0:
  "ndm_int_parse_long [49, 120] = (None, None)" "ndm_int_parse_int [49, 120] = (None, Some EINVAL)"
  by (simp_all add: ndm_int_parse_long_def ndm_int_parse_int_def NDM_INT_PARSE_signed_def first_char_def
      strtoll_def strto_scan_def is_digit_def is_space_def digits_value_def digit_value_def)

end
