(* ===== verification/Json_Value.thy ===== *)
theory Json_Value
  imports Pool
begin

text \<open>
  The values of \<^verbatim>\<open>src/json.c\<close>: type and number flags in one word, the data union, the
  accessors, the allocation of each kind of value from a pool, and the arrays and objects
  they are pushed to. The list links and parent pointers of the code are the nesting of
  the values here: an array or object is the list of its children in order, and a
  pointer to a child is that list and an index. \<open>long\<close> and \<open>long long\<close> have 64
  bits, \<open>char\<close> is signed; a double is its 64-bit pattern.
\<close>

text \<open>A \<open>char *\<close> of a value: into the text that was parsed in place, or into a pool.\<close>

datatype str_ref = InText nat | InPool pool_ptr

datatype ndm_json_value_t = Value (flags: u32) (member_name: "str_ref option") (data: json_data)
and json_data =
    NoData
  | DataBoolean bool
  | DataString str_ref
  | DataWord u64
  | DataArray "ndm_json_value_t list"
  | DataObject "ndm_json_value_t list"

type_synonym json_array = "ndm_json_value_t list"
type_synonym json_object = "ndm_json_value_t list"

definition NDM_JSON_TYPE_NULL :: u32 where "NDM_JSON_TYPE_NULL = 0x0000"
definition NDM_JSON_TYPE_BOOLEAN :: u32 where "NDM_JSON_TYPE_BOOLEAN = 0x0001"
definition NDM_JSON_TYPE_STRING :: u32 where "NDM_JSON_TYPE_STRING = 0x0002"
definition NDM_JSON_TYPE_NUMBER :: u32 where "NDM_JSON_TYPE_NUMBER = 0x0003"
definition NDM_JSON_TYPE_ARRAY :: u32 where "NDM_JSON_TYPE_ARRAY = 0x0004"
definition NDM_JSON_TYPE_OBJECT :: u32 where "NDM_JSON_TYPE_OBJECT = 0x0005"
definition NDM_JSON_TYPE_MASK :: u32 where "NDM_JSON_TYPE_MASK = 0x0007"
definition NDM_JSON_NUMBER_IS_CHAR :: u32 where "NDM_JSON_NUMBER_IS_CHAR = 0x0008"
definition NDM_JSON_NUMBER_IS_UCHAR :: u32 where "NDM_JSON_NUMBER_IS_UCHAR = 0x0010"
definition NDM_JSON_NUMBER_IS_SHORT :: u32 where "NDM_JSON_NUMBER_IS_SHORT = 0x0020"
definition NDM_JSON_NUMBER_IS_USHORT :: u32 where "NDM_JSON_NUMBER_IS_USHORT = 0x0040"
definition NDM_JSON_NUMBER_IS_INT :: u32 where "NDM_JSON_NUMBER_IS_INT = 0x0080"
definition NDM_JSON_NUMBER_IS_UINT :: u32 where "NDM_JSON_NUMBER_IS_UINT = 0x0100"
definition NDM_JSON_NUMBER_IS_LONG :: u32 where "NDM_JSON_NUMBER_IS_LONG = 0x0200"
definition NDM_JSON_NUMBER_IS_ULONG :: u32 where "NDM_JSON_NUMBER_IS_ULONG = 0x0400"
definition NDM_JSON_NUMBER_IS_LLONG :: u32 where "NDM_JSON_NUMBER_IS_LLONG = 0x0800"
definition NDM_JSON_NUMBER_IS_ULLONG :: u32 where "NDM_JSON_NUMBER_IS_ULLONG = 0x1000"
definition NDM_JSON_NUMBER_IS_DOUBLE :: u32 where "NDM_JSON_NUMBER_IS_DOUBLE = 0x2000"

definition NDM_JSON_TYPE :: "u32 \<Rightarrow> u32" where
  "NDM_JSON_TYPE f = f AND NDM_JSON_TYPE_MASK"

lemmas json_flag_defs =
  NDM_JSON_TYPE_NULL_def NDM_JSON_TYPE_BOOLEAN_def NDM_JSON_TYPE_STRING_def
  NDM_JSON_TYPE_NUMBER_def NDM_JSON_TYPE_ARRAY_def NDM_JSON_TYPE_OBJECT_def
  NDM_JSON_TYPE_MASK_def NDM_JSON_NUMBER_IS_CHAR_def NDM_JSON_NUMBER_IS_UCHAR_def
  NDM_JSON_NUMBER_IS_SHORT_def NDM_JSON_NUMBER_IS_USHORT_def NDM_JSON_NUMBER_IS_INT_def
  NDM_JSON_NUMBER_IS_UINT_def NDM_JSON_NUMBER_IS_LONG_def NDM_JSON_NUMBER_IS_ULONG_def
  NDM_JSON_NUMBER_IS_LLONG_def NDM_JSON_NUMBER_IS_ULLONG_def NDM_JSON_NUMBER_IS_DOUBLE_def
  NDM_JSON_TYPE_def

section \<open>Type predicates\<close>

definition ndm_json_value_is_null :: "ndm_json_value_t \<Rightarrow> bool" where
  "ndm_json_value_is_null v \<longleftrightarrow> NDM_JSON_TYPE (flags v) = NDM_JSON_TYPE_NULL"

definition ndm_json_value_is_boolean :: "ndm_json_value_t \<Rightarrow> bool" where
  "ndm_json_value_is_boolean v \<longleftrightarrow> NDM_JSON_TYPE (flags v) = NDM_JSON_TYPE_BOOLEAN"

definition ndm_json_value_is_string :: "ndm_json_value_t \<Rightarrow> bool" where
  "ndm_json_value_is_string v \<longleftrightarrow> NDM_JSON_TYPE (flags v) = NDM_JSON_TYPE_STRING"

definition ndm_json_value_is_number :: "ndm_json_value_t \<Rightarrow> bool" where
  "ndm_json_value_is_number v \<longleftrightarrow> NDM_JSON_TYPE (flags v) = NDM_JSON_TYPE_NUMBER"

definition ndm_json_value_is_array :: "ndm_json_value_t \<Rightarrow> bool" where
  "ndm_json_value_is_array v \<longleftrightarrow> NDM_JSON_TYPE (flags v) = NDM_JSON_TYPE_ARRAY"

definition ndm_json_value_is_object :: "ndm_json_value_t \<Rightarrow> bool" where
  "ndm_json_value_is_object v \<longleftrightarrow> NDM_JSON_TYPE (flags v) = NDM_JSON_TYPE_OBJECT"

definition ndm_json_value_is_char :: "ndm_json_value_t \<Rightarrow> bool" where
  "ndm_json_value_is_char v \<longleftrightarrow> ndm_json_value_is_number v \<and> flags v AND NDM_JSON_NUMBER_IS_CHAR \<noteq> 0"

definition ndm_json_value_is_uchar :: "ndm_json_value_t \<Rightarrow> bool" where
  "ndm_json_value_is_uchar v \<longleftrightarrow> ndm_json_value_is_number v \<and> flags v AND NDM_JSON_NUMBER_IS_UCHAR \<noteq> 0"

definition ndm_json_value_is_short :: "ndm_json_value_t \<Rightarrow> bool" where
  "ndm_json_value_is_short v \<longleftrightarrow> ndm_json_value_is_number v \<and> flags v AND NDM_JSON_NUMBER_IS_SHORT \<noteq> 0"

definition ndm_json_value_is_ushort :: "ndm_json_value_t \<Rightarrow> bool" where
  "ndm_json_value_is_ushort v \<longleftrightarrow> ndm_json_value_is_number v \<and> flags v AND NDM_JSON_NUMBER_IS_USHORT \<noteq> 0"

definition ndm_json_value_is_int :: "ndm_json_value_t \<Rightarrow> bool" where
  "ndm_json_value_is_int v \<longleftrightarrow> ndm_json_value_is_number v \<and> flags v AND NDM_JSON_NUMBER_IS_INT \<noteq> 0"

definition ndm_json_value_is_uint :: "ndm_json_value_t \<Rightarrow> bool" where
  "ndm_json_value_is_uint v \<longleftrightarrow> ndm_json_value_is_number v \<and> flags v AND NDM_JSON_NUMBER_IS_UINT \<noteq> 0"

definition ndm_json_value_is_long :: "ndm_json_value_t \<Rightarrow> bool" where
  "ndm_json_value_is_long v \<longleftrightarrow> ndm_json_value_is_number v \<and> flags v AND NDM_JSON_NUMBER_IS_LONG \<noteq> 0"

definition ndm_json_value_is_ulong :: "ndm_json_value_t \<Rightarrow> bool" where
  "ndm_json_value_is_ulong v \<longleftrightarrow> ndm_json_value_is_number v \<and> flags v AND NDM_JSON_NUMBER_IS_ULONG \<noteq> 0"

definition ndm_json_value_is_llong :: "ndm_json_value_t \<Rightarrow> bool" where
  "ndm_json_value_is_llong v \<longleftrightarrow> ndm_json_value_is_number v \<and> flags v AND NDM_JSON_NUMBER_IS_LLONG \<noteq> 0"

definition ndm_json_value_is_ullong :: "ndm_json_value_t \<Rightarrow> bool" where
  "ndm_json_value_is_ullong v \<longleftrightarrow> ndm_json_value_is_number v \<and> flags v AND NDM_JSON_NUMBER_IS_ULLONG \<noteq> 0"

definition ndm_json_value_is_double :: "ndm_json_value_t \<Rightarrow> bool" where
  "ndm_json_value_is_double v \<longleftrightarrow> ndm_json_value_is_number v \<and> flags v AND NDM_JSON_NUMBER_IS_DOUBLE \<noteq> 0"

section \<open>Reading a value\<close>

text \<open>
  The members of the union: a read of a member that was not written has no value
  (\<open>None\<close>), the integer members and the double share their 64 bits.
\<close>

definition data_word :: "ndm_json_value_t \<Rightarrow> u64 option" where
  "data_word v = (case data v of DataWord w \<Rightarrow> Some w | _ \<Rightarrow> None)"

definition ndm_json_value_boolean :: "ndm_json_value_t \<Rightarrow> bool option" where
  "ndm_json_value_boolean v = (case data v of DataBoolean b \<Rightarrow> Some b | _ \<Rightarrow> None)"

definition ndm_json_value_is_false :: "ndm_json_value_t \<Rightarrow> bool" where
  "ndm_json_value_is_false v \<longleftrightarrow> ndm_json_value_is_boolean v \<and> ndm_json_value_boolean v = Some False"

definition ndm_json_value_is_true :: "ndm_json_value_t \<Rightarrow> bool" where
  "ndm_json_value_is_true v \<longleftrightarrow> ndm_json_value_is_boolean v \<and> ndm_json_value_boolean v = Some True"

definition ndm_json_value_string :: "ndm_json_value_t \<Rightarrow> str_ref option" where
  "ndm_json_value_string v = (case data v of DataString s \<Rightarrow> Some s | _ \<Rightarrow> None)"

definition ndm_json_value_char :: "ndm_json_value_t \<Rightarrow> u8 option" where
  "ndm_json_value_char v = map_option ucast (data_word v)"

definition ndm_json_value_uchar :: "ndm_json_value_t \<Rightarrow> u8 option" where
  "ndm_json_value_uchar v = map_option ucast (data_word v)"

definition ndm_json_value_short :: "ndm_json_value_t \<Rightarrow> u16 option" where
  "ndm_json_value_short v = map_option ucast (data_word v)"

definition ndm_json_value_ushort :: "ndm_json_value_t \<Rightarrow> u16 option" where
  "ndm_json_value_ushort v = map_option ucast (data_word v)"

definition ndm_json_value_int :: "ndm_json_value_t \<Rightarrow> u32 option" where
  "ndm_json_value_int v = map_option ucast (data_word v)"

definition ndm_json_value_uint :: "ndm_json_value_t \<Rightarrow> u32 option" where
  "ndm_json_value_uint v = map_option ucast (data_word v)"

definition ndm_json_value_long :: "ndm_json_value_t \<Rightarrow> u64 option" where
  "ndm_json_value_long v = map_option ucast (data_word v)"

definition ndm_json_value_ulong :: "ndm_json_value_t \<Rightarrow> u64 option" where
  "ndm_json_value_ulong v = map_option ucast (data_word v)"

definition ndm_json_value_llong :: "ndm_json_value_t \<Rightarrow> u64 option" where
  "ndm_json_value_llong v = map_option ucast (data_word v)"

definition ndm_json_value_ullong :: "ndm_json_value_t \<Rightarrow> u64 option" where
  "ndm_json_value_ullong v = map_option ucast (data_word v)"

definition ndm_json_value_double :: "ndm_json_value_t \<Rightarrow> u64 option" where
  "ndm_json_value_double v = data_word v"

text \<open>\<open>None\<close> is \<open>NULL\<close>: the value is of another type.\<close>

definition ndm_json_value_array :: "ndm_json_value_t \<Rightarrow> json_array option" where
  "ndm_json_value_array v =
     (if ndm_json_value_is_array v then (case data v of DataArray vs \<Rightarrow> Some vs | _ \<Rightarrow> None) else None)"

definition ndm_json_value_object :: "ndm_json_value_t \<Rightarrow> json_object option" where
  "ndm_json_value_object v =
     (if ndm_json_value_is_object v then (case data v of DataObject vs \<Rightarrow> Some vs | _ \<Rightarrow> None) else None)"

section \<open>Allocating a value\<close>

text \<open>\<open>sizeof (struct ndm_json_value_t)\<close>, with pointers of eight bytes.\<close>

definition sizeof_json_value :: u64 where "sizeof_json_value = 64"

definition ndm_json_value_alloc :: "u32 \<Rightarrow> ndm_pool_t \<Rightarrow> ndm_json_value_t option \<times> ndm_pool_t" where
  "ndm_json_value_alloc type pool =
     (case ndm_pool_malloc pool sizeof_json_value of
        (None, pool) \<Rightarrow> (None, pool)
      | (Some _, pool) \<Rightarrow> (Some (Value (NDM_JSON_TYPE type) None NoData), pool))"

definition with_data :: "json_data \<Rightarrow> ndm_json_value_t \<Rightarrow> ndm_json_value_t" where
  "with_data d v = Value (flags v) (member_name v) d"

definition add_flags :: "u32 \<Rightarrow> ndm_json_value_t \<Rightarrow> ndm_json_value_t" where
  "add_flags f v = Value (flags v OR f) (member_name v) (data v)"

definition with_name :: "str_ref \<Rightarrow> ndm_json_value_t \<Rightarrow> ndm_json_value_t" where
  "with_name n v = Value (flags v) (Some n) (data v)"

definition ndm_json_value_alloc_null :: "ndm_pool_t \<Rightarrow> ndm_json_value_t option \<times> ndm_pool_t" where
  "ndm_json_value_alloc_null pool = ndm_json_value_alloc NDM_JSON_TYPE_NULL pool"

definition ndm_json_value_alloc_boolean :: "bool \<Rightarrow> ndm_pool_t \<Rightarrow> ndm_json_value_t option \<times> ndm_pool_t" where
  "ndm_json_value_alloc_boolean b pool =
     map_prod (map_option (with_data (DataBoolean b))) id (ndm_json_value_alloc NDM_JSON_TYPE_BOOLEAN pool)"

definition ndm_json_value_alloc_string ::
  "cstring \<Rightarrow> ndm_pool_t \<Rightarrow> (ndm_json_value_t option \<times> ndm_pool_t) result" where
  "ndm_json_value_alloc_string s pool =
     (case ndm_json_value_alloc NDM_JSON_TYPE_STRING pool of
        (None, pool) \<Rightarrow> Ok (None, pool)
      | (Some v, pool) \<Rightarrow>
          bind_result (ndm_pool_strdup pool s) (\<lambda>(p, pool).
          Ok (map_option (\<lambda>p. with_data (DataString (InPool p)) v) p, pool)))"

text \<open>The flags of a signed integer, \<open>llong_\<close> being the data word.\<close>

definition ndm_json_value_append_llong_flags :: "u64 \<Rightarrow> ndm_json_value_t \<Rightarrow> ndm_json_value_t" where
  "ndm_json_value_append_llong_flags llong v =
     (let i = sint llong;
          v = add_flags NDM_JSON_NUMBER_IS_LONG (add_flags NDM_JSON_NUMBER_IS_LLONG v) in
      if - (2 ^ 31) \<le> i \<and> i \<le> 2 ^ 31 - 1 then
        let v = add_flags NDM_JSON_NUMBER_IS_INT v in
        if - (2 ^ 15) \<le> i \<and> i \<le> 2 ^ 15 - 1 then
          let v = add_flags NDM_JSON_NUMBER_IS_SHORT v in
          if - (2 ^ 7) \<le> i \<and> i \<le> 2 ^ 7 - 1 then add_flags NDM_JSON_NUMBER_IS_CHAR v
          else v
        else v
      else v)"

definition ndm_json_value_append_ullong_flags :: "u64 \<Rightarrow> ndm_json_value_t \<Rightarrow> ndm_json_value_t" where
  "ndm_json_value_append_ullong_flags ullong v =
     (let v = add_flags NDM_JSON_NUMBER_IS_ULONG (add_flags NDM_JSON_NUMBER_IS_ULLONG v) in
      if ullong \<le> 0xffffffff then
        let v = add_flags NDM_JSON_NUMBER_IS_UINT v in
        if ullong \<le> 0xffff then
          let v = add_flags NDM_JSON_NUMBER_IS_USHORT v in
          if ullong \<le> 0xff then add_flags NDM_JSON_NUMBER_IS_UCHAR v
          else v
        else v
      else v)"

definition llong_value :: "u64 \<Rightarrow> ndm_json_value_t \<Rightarrow> ndm_json_value_t" where
  "llong_value llong v =
     (let v = ndm_json_value_append_llong_flags llong (with_data (DataWord llong) v) in
      if sint llong \<ge> 0 then ndm_json_value_append_ullong_flags llong v else v)"

definition ullong_value :: "u64 \<Rightarrow> ndm_json_value_t \<Rightarrow> ndm_json_value_t" where
  "ullong_value ullong v =
     (let v = ndm_json_value_append_ullong_flags ullong (with_data (DataWord ullong) v) in
      if ullong \<le> 2 ^ 63 - 1 then ndm_json_value_append_llong_flags ullong v else v)"

definition ndm_json_value_alloc_llong :: "u64 \<Rightarrow> ndm_pool_t \<Rightarrow> ndm_json_value_t option \<times> ndm_pool_t" where
  "ndm_json_value_alloc_llong llong pool =
     map_prod (map_option (llong_value llong)) id (ndm_json_value_alloc NDM_JSON_TYPE_NUMBER pool)"

definition ndm_json_value_alloc_ullong :: "u64 \<Rightarrow> ndm_pool_t \<Rightarrow> ndm_json_value_t option \<times> ndm_pool_t" where
  "ndm_json_value_alloc_ullong ullong pool =
     map_prod (map_option (ullong_value ullong)) id (ndm_json_value_alloc NDM_JSON_TYPE_NUMBER pool)"

definition ndm_json_value_alloc_double :: "u64 \<Rightarrow> ndm_pool_t \<Rightarrow> ndm_json_value_t option \<times> ndm_pool_t" where
  "ndm_json_value_alloc_double d pool =
     map_prod (map_option (\<lambda>v. add_flags NDM_JSON_NUMBER_IS_DOUBLE (with_data (DataWord d) v))) id
       (ndm_json_value_alloc NDM_JSON_TYPE_NUMBER pool)"

definition ndm_json_value_alloc_array :: "ndm_pool_t \<Rightarrow> ndm_json_value_t option \<times> ndm_pool_t" where
  "ndm_json_value_alloc_array pool =
     map_prod (map_option (with_data (DataArray []))) id (ndm_json_value_alloc NDM_JSON_TYPE_ARRAY pool)"

definition ndm_json_value_alloc_object :: "ndm_pool_t \<Rightarrow> ndm_json_value_t option \<times> ndm_pool_t" where
  "ndm_json_value_alloc_object pool =
     map_prod (map_option (with_data (DataObject []))) id (ndm_json_value_alloc NDM_JSON_TYPE_OBJECT pool)"

section \<open>Arrays\<close>

definition ndm_json_array_new :: "ndm_pool_t \<Rightarrow> json_array option \<times> ndm_pool_t" where
  "ndm_json_array_new pool =
     map_prod (\<lambda>v. Option.bind v ndm_json_value_array) id (ndm_json_value_alloc_array pool)"

definition ndm_json_array_is_empty :: "json_array \<Rightarrow> bool" where
  "ndm_json_array_is_empty array \<longleftrightarrow> array = []"

text \<open>The walk over the list that counts it.\<close>

fun json_count :: "json_array \<Rightarrow> u64 \<Rightarrow> u64" where
  "json_count [] n = n"
| "json_count (e # es) n = json_count es (n + 1)"

definition ndm_json_array_size :: "json_array \<Rightarrow> u64" where
  "ndm_json_array_size array = json_count array 0"

text \<open>A pointer to an element: the array and the element's position.\<close>

definition ndm_json_array_element_first :: "json_array \<Rightarrow> nat option" where
  "ndm_json_array_element_first array = (if ndm_json_array_is_empty array then None else Some 0)"

definition ndm_json_array_element_last :: "json_array \<Rightarrow> nat option" where
  "ndm_json_array_element_last array =
     (if ndm_json_array_is_empty array then None else Some (length array - 1))"

definition ndm_json_array_element_next :: "json_array \<Rightarrow> nat \<Rightarrow> nat option" where
  "ndm_json_array_element_next array i = (if i + 1 = length array then None else Some (i + 1))"

definition ndm_json_array_element_prev :: "json_array \<Rightarrow> nat \<Rightarrow> nat option" where
  "ndm_json_array_element_prev array i = (if i = 0 then None else Some (i - 1))"

definition ndm_json_array_element_value :: "json_array \<Rightarrow> nat \<Rightarrow> ndm_json_value_t option" where
  "ndm_json_array_element_value array i = (if i < length array then Some (array ! i) else None)"

text \<open>\<open>None\<close> for the \<open>NULL\<close> returned, else the array after the insertion at its end.\<close>

definition ndm_json_array_push :: "json_array option \<Rightarrow> ndm_json_value_t option \<Rightarrow> json_array option" where
  "ndm_json_array_push array val =
     (case (array, val) of (Some vs, Some v) \<Rightarrow> Some (vs @ [v]) | _ \<Rightarrow> None)"

definition push_new ::
  "json_array option \<Rightarrow> ndm_json_value_t option \<times> ndm_pool_t \<Rightarrow> json_array option \<times> ndm_pool_t" where
  "push_new array r = (ndm_json_array_push array (fst r), snd r)"

definition ndm_json_array_push_null :: "ndm_pool_t \<Rightarrow> json_array option \<Rightarrow> json_array option \<times> ndm_pool_t" where
  "ndm_json_array_push_null pool array =
     push_new array (case array of None \<Rightarrow> (None, pool) | Some _ \<Rightarrow> ndm_json_value_alloc_null pool)"

definition ndm_json_array_push_boolean :: "ndm_pool_t \<Rightarrow> json_array option \<Rightarrow> bool \<Rightarrow> json_array option \<times> ndm_pool_t" where
  "ndm_json_array_push_boolean pool array val =
     push_new array (case array of None \<Rightarrow> (None, pool) | Some _ \<Rightarrow> ndm_json_value_alloc_boolean val pool)"

definition ndm_json_array_push_string ::
  "ndm_pool_t \<Rightarrow> json_array option \<Rightarrow> cstring \<Rightarrow> (json_array option \<times> ndm_pool_t) result" where
  "ndm_json_array_push_string pool array val =
     bind_result (case array of None \<Rightarrow> Ok (None, pool) | Some _ \<Rightarrow> ndm_json_value_alloc_string val pool)
       (\<lambda>r. Ok (push_new array r))"

definition ndm_json_array_push_char :: "ndm_pool_t \<Rightarrow> json_array option \<Rightarrow> u8 \<Rightarrow> json_array option \<times> ndm_pool_t" where
  "ndm_json_array_push_char pool array val =
     push_new array (case array of None \<Rightarrow> (None, pool) | Some _ \<Rightarrow> ndm_json_value_alloc_llong (scast val) pool)"

definition ndm_json_array_push_uchar :: "ndm_pool_t \<Rightarrow> json_array option \<Rightarrow> u8 \<Rightarrow> json_array option \<times> ndm_pool_t" where
  "ndm_json_array_push_uchar pool array val =
     push_new array (case array of None \<Rightarrow> (None, pool) | Some _ \<Rightarrow> ndm_json_value_alloc_ullong (ucast val) pool)"

definition ndm_json_array_push_short :: "ndm_pool_t \<Rightarrow> json_array option \<Rightarrow> u16 \<Rightarrow> json_array option \<times> ndm_pool_t" where
  "ndm_json_array_push_short pool array val =
     push_new array (case array of None \<Rightarrow> (None, pool) | Some _ \<Rightarrow> ndm_json_value_alloc_llong (scast val) pool)"

definition ndm_json_array_push_ushort :: "ndm_pool_t \<Rightarrow> json_array option \<Rightarrow> u16 \<Rightarrow> json_array option \<times> ndm_pool_t" where
  "ndm_json_array_push_ushort pool array val =
     push_new array (case array of None \<Rightarrow> (None, pool) | Some _ \<Rightarrow> ndm_json_value_alloc_ullong (ucast val) pool)"

definition ndm_json_array_push_int :: "ndm_pool_t \<Rightarrow> json_array option \<Rightarrow> u32 \<Rightarrow> json_array option \<times> ndm_pool_t" where
  "ndm_json_array_push_int pool array val =
     push_new array (case array of None \<Rightarrow> (None, pool) | Some _ \<Rightarrow> ndm_json_value_alloc_llong (scast val) pool)"

definition ndm_json_array_push_uint :: "ndm_pool_t \<Rightarrow> json_array option \<Rightarrow> u32 \<Rightarrow> json_array option \<times> ndm_pool_t" where
  "ndm_json_array_push_uint pool array val =
     push_new array (case array of None \<Rightarrow> (None, pool) | Some _ \<Rightarrow> ndm_json_value_alloc_ullong (ucast val) pool)"

definition ndm_json_array_push_long :: "ndm_pool_t \<Rightarrow> json_array option \<Rightarrow> u64 \<Rightarrow> json_array option \<times> ndm_pool_t" where
  "ndm_json_array_push_long pool array val =
     push_new array (case array of None \<Rightarrow> (None, pool) | Some _ \<Rightarrow> ndm_json_value_alloc_llong val pool)"

definition ndm_json_array_push_ulong :: "ndm_pool_t \<Rightarrow> json_array option \<Rightarrow> u64 \<Rightarrow> json_array option \<times> ndm_pool_t" where
  "ndm_json_array_push_ulong pool array val =
     push_new array (case array of None \<Rightarrow> (None, pool) | Some _ \<Rightarrow> ndm_json_value_alloc_ullong val pool)"

definition ndm_json_array_push_llong :: "ndm_pool_t \<Rightarrow> json_array option \<Rightarrow> u64 \<Rightarrow> json_array option \<times> ndm_pool_t" where
  "ndm_json_array_push_llong pool array val =
     push_new array (case array of None \<Rightarrow> (None, pool) | Some _ \<Rightarrow> ndm_json_value_alloc_llong val pool)"

definition ndm_json_array_push_ullong :: "ndm_pool_t \<Rightarrow> json_array option \<Rightarrow> u64 \<Rightarrow> json_array option \<times> ndm_pool_t" where
  "ndm_json_array_push_ullong pool array val =
     push_new array (case array of None \<Rightarrow> (None, pool) | Some _ \<Rightarrow> ndm_json_value_alloc_ullong val pool)"

definition ndm_json_array_push_double :: "ndm_pool_t \<Rightarrow> json_array option \<Rightarrow> u64 \<Rightarrow> json_array option \<times> ndm_pool_t" where
  "ndm_json_array_push_double pool array val =
     push_new array (case array of None \<Rightarrow> (None, pool) | Some _ \<Rightarrow> ndm_json_value_alloc_double val pool)"

definition ndm_json_array_push_array :: "ndm_pool_t \<Rightarrow> json_array option \<Rightarrow> json_array option \<times> ndm_pool_t" where
  "ndm_json_array_push_array pool array =
     push_new array (case array of None \<Rightarrow> (None, pool) | Some _ \<Rightarrow> ndm_json_value_alloc_array pool)"

definition ndm_json_array_push_object :: "ndm_pool_t \<Rightarrow> json_array option \<Rightarrow> json_array option \<times> ndm_pool_t" where
  "ndm_json_array_push_object pool array =
     push_new array (case array of None \<Rightarrow> (None, pool) | Some _ \<Rightarrow> ndm_json_value_alloc_object pool)"

section \<open>Objects\<close>

definition ndm_json_object_new :: "ndm_pool_t \<Rightarrow> json_object option \<times> ndm_pool_t" where
  "ndm_json_object_new pool =
     map_prod (\<lambda>v. Option.bind v ndm_json_value_object) id (ndm_json_value_alloc_object pool)"

definition ndm_json_object_is_empty :: "json_object \<Rightarrow> bool" where
  "ndm_json_object_is_empty object \<longleftrightarrow> object = []"

text \<open>The C string at a reference: \<open>None\<close> when no terminator is found in its block.\<close>

definition cstr_at :: "u8 list \<Rightarrow> nat \<Rightarrow> cstring option" where
  "cstr_at blk off = (if 0 \<in> set (drop off blk) then Some (takeWhile (\<lambda>c. c \<noteq> 0) (drop off blk)) else None)"

definition ref_string :: "u8 list \<Rightarrow> ndm_pool_t \<Rightarrow> str_ref \<Rightarrow> cstring option" where
  "ref_string json pool r =
     (case r of InText off \<Rightarrow> cstr_at json off | InPool p \<Rightarrow> cstr_at (block_bytes pool (fst p)) (snd p))"

definition name_string :: "u8 list \<Rightarrow> ndm_pool_t \<Rightarrow> ndm_json_value_t \<Rightarrow> cstring option" where
  "name_string json pool v = Option.bind (member_name v) (ref_string json pool)"

text \<open>The search of \<open>get\<close>: the first member of the name, \<open>Ok None\<close> for \<open>NULL\<close>.\<close>

fun ndm_json_object_get ::
  "u8 list \<Rightarrow> ndm_pool_t \<Rightarrow> json_object \<Rightarrow> cstring \<Rightarrow> ndm_json_value_t option result" where
  "ndm_json_object_get json pool [] name = Ok None"
| "ndm_json_object_get json pool (e # es) name =
     need (name_string json pool e) (\<lambda>n.
       if n = name then Ok (Some e) else ndm_json_object_get json pool es name)"

definition ndm_json_object_member_first :: "json_object \<Rightarrow> nat option" where
  "ndm_json_object_member_first object = (if ndm_json_object_is_empty object then None else Some 0)"

definition ndm_json_object_member_last :: "json_object \<Rightarrow> nat option" where
  "ndm_json_object_member_last object =
     (if ndm_json_object_is_empty object then None else Some (length object - 1))"

definition ndm_json_object_member_next :: "json_object \<Rightarrow> nat \<Rightarrow> nat option" where
  "ndm_json_object_member_next object i = (if i + 1 = length object then None else Some (i + 1))"

definition ndm_json_object_member_prev :: "json_object \<Rightarrow> nat \<Rightarrow> nat option" where
  "ndm_json_object_member_prev object i = (if i = 0 then None else Some (i - 1))"

definition ndm_json_object_member_name :: "json_object \<Rightarrow> nat \<Rightarrow> str_ref option" where
  "ndm_json_object_member_name object i = (if i < length object then member_name (object ! i) else None)"

definition ndm_json_object_member_value :: "json_object \<Rightarrow> nat \<Rightarrow> ndm_json_value_t option" where
  "ndm_json_object_member_value object i = (if i < length object then Some (object ! i) else None)"

definition ndm_json_object_set ::
  "json_object option \<Rightarrow> cstring \<Rightarrow> ndm_json_value_t option \<Rightarrow> ndm_pool_t \<Rightarrow>
   (json_object option \<times> ndm_pool_t) result" where
  "ndm_json_object_set object name val pool =
     (case (object, val) of
        (Some vs, Some v) \<Rightarrow>
          bind_result (ndm_pool_strdup pool name) (\<lambda>(p, pool).
          case p of
            None \<Rightarrow> Ok (None, pool)
          | Some p \<Rightarrow> Ok (Some (vs @ [with_name (InPool p) v]), pool))
      | _ \<Rightarrow> Ok (None, pool))"

definition set_new ::
  "json_object option \<Rightarrow> cstring \<Rightarrow> ndm_json_value_t option \<times> ndm_pool_t \<Rightarrow>
   (json_object option \<times> ndm_pool_t) result" where
  "set_new object name r = ndm_json_object_set object name (fst r) (snd r)"

definition ndm_json_object_set_null ::
  "ndm_pool_t \<Rightarrow> json_object option \<Rightarrow> cstring \<Rightarrow> (json_object option \<times> ndm_pool_t) result" where
  "ndm_json_object_set_null pool object name =
     set_new object name (case object of None \<Rightarrow> (None, pool) | Some _ \<Rightarrow> ndm_json_value_alloc_null pool)"

definition ndm_json_object_set_boolean ::
  "ndm_pool_t \<Rightarrow> json_object option \<Rightarrow> cstring \<Rightarrow> bool \<Rightarrow> (json_object option \<times> ndm_pool_t) result" where
  "ndm_json_object_set_boolean pool object name val =
     set_new object name (case object of None \<Rightarrow> (None, pool) | Some _ \<Rightarrow> ndm_json_value_alloc_boolean val pool)"

definition ndm_json_object_set_string ::
  "ndm_pool_t \<Rightarrow> json_object option \<Rightarrow> cstring \<Rightarrow> cstring \<Rightarrow> (json_object option \<times> ndm_pool_t) result" where
  "ndm_json_object_set_string pool object name val =
     bind_result (case object of None \<Rightarrow> Ok (None, pool) | Some _ \<Rightarrow> ndm_json_value_alloc_string val pool)
       (\<lambda>r. set_new object name r)"

definition ndm_json_object_set_char ::
  "ndm_pool_t \<Rightarrow> json_object option \<Rightarrow> cstring \<Rightarrow> u8 \<Rightarrow> (json_object option \<times> ndm_pool_t) result" where
  "ndm_json_object_set_char pool object name val =
     set_new object name (case object of None \<Rightarrow> (None, pool) | Some _ \<Rightarrow> ndm_json_value_alloc_llong (scast val) pool)"

definition ndm_json_object_set_uchar ::
  "ndm_pool_t \<Rightarrow> json_object option \<Rightarrow> cstring \<Rightarrow> u8 \<Rightarrow> (json_object option \<times> ndm_pool_t) result" where
  "ndm_json_object_set_uchar pool object name val =
     set_new object name (case object of None \<Rightarrow> (None, pool) | Some _ \<Rightarrow> ndm_json_value_alloc_ullong (ucast val) pool)"

definition ndm_json_object_set_short ::
  "ndm_pool_t \<Rightarrow> json_object option \<Rightarrow> cstring \<Rightarrow> u16 \<Rightarrow> (json_object option \<times> ndm_pool_t) result" where
  "ndm_json_object_set_short pool object name val =
     set_new object name (case object of None \<Rightarrow> (None, pool) | Some _ \<Rightarrow> ndm_json_value_alloc_llong (scast val) pool)"

definition ndm_json_object_set_ushort ::
  "ndm_pool_t \<Rightarrow> json_object option \<Rightarrow> cstring \<Rightarrow> u16 \<Rightarrow> (json_object option \<times> ndm_pool_t) result" where
  "ndm_json_object_set_ushort pool object name val =
     set_new object name (case object of None \<Rightarrow> (None, pool) | Some _ \<Rightarrow> ndm_json_value_alloc_ullong (ucast val) pool)"

definition ndm_json_object_set_int ::
  "ndm_pool_t \<Rightarrow> json_object option \<Rightarrow> cstring \<Rightarrow> u32 \<Rightarrow> (json_object option \<times> ndm_pool_t) result" where
  "ndm_json_object_set_int pool object name val =
     set_new object name (case object of None \<Rightarrow> (None, pool) | Some _ \<Rightarrow> ndm_json_value_alloc_llong (scast val) pool)"

definition ndm_json_object_set_uint ::
  "ndm_pool_t \<Rightarrow> json_object option \<Rightarrow> cstring \<Rightarrow> u32 \<Rightarrow> (json_object option \<times> ndm_pool_t) result" where
  "ndm_json_object_set_uint pool object name val =
     set_new object name (case object of None \<Rightarrow> (None, pool) | Some _ \<Rightarrow> ndm_json_value_alloc_ullong (ucast val) pool)"

definition ndm_json_object_set_long ::
  "ndm_pool_t \<Rightarrow> json_object option \<Rightarrow> cstring \<Rightarrow> u64 \<Rightarrow> (json_object option \<times> ndm_pool_t) result" where
  "ndm_json_object_set_long pool object name val =
     set_new object name (case object of None \<Rightarrow> (None, pool) | Some _ \<Rightarrow> ndm_json_value_alloc_llong val pool)"

definition ndm_json_object_set_ulong ::
  "ndm_pool_t \<Rightarrow> json_object option \<Rightarrow> cstring \<Rightarrow> u64 \<Rightarrow> (json_object option \<times> ndm_pool_t) result" where
  "ndm_json_object_set_ulong pool object name val =
     set_new object name (case object of None \<Rightarrow> (None, pool) | Some _ \<Rightarrow> ndm_json_value_alloc_ullong val pool)"

definition ndm_json_object_set_llong ::
  "ndm_pool_t \<Rightarrow> json_object option \<Rightarrow> cstring \<Rightarrow> u64 \<Rightarrow> (json_object option \<times> ndm_pool_t) result" where
  "ndm_json_object_set_llong pool object name val =
     set_new object name (case object of None \<Rightarrow> (None, pool) | Some _ \<Rightarrow> ndm_json_value_alloc_llong val pool)"

definition ndm_json_object_set_ullong ::
  "ndm_pool_t \<Rightarrow> json_object option \<Rightarrow> cstring \<Rightarrow> u64 \<Rightarrow> (json_object option \<times> ndm_pool_t) result" where
  "ndm_json_object_set_ullong pool object name val =
     set_new object name (case object of None \<Rightarrow> (None, pool) | Some _ \<Rightarrow> ndm_json_value_alloc_ullong val pool)"

definition ndm_json_object_set_double ::
  "ndm_pool_t \<Rightarrow> json_object option \<Rightarrow> cstring \<Rightarrow> u64 \<Rightarrow> (json_object option \<times> ndm_pool_t) result" where
  "ndm_json_object_set_double pool object name val =
     set_new object name (case object of None \<Rightarrow> (None, pool) | Some _ \<Rightarrow> ndm_json_value_alloc_double val pool)"

definition ndm_json_object_set_array ::
  "ndm_pool_t \<Rightarrow> json_object option \<Rightarrow> cstring \<Rightarrow> (json_object option \<times> ndm_pool_t) result" where
  "ndm_json_object_set_array pool object name =
     set_new object name (case object of None \<Rightarrow> (None, pool) | Some _ \<Rightarrow> ndm_json_value_alloc_array pool)"

definition ndm_json_object_set_object ::
  "ndm_pool_t \<Rightarrow> json_object option \<Rightarrow> cstring \<Rightarrow> (json_object option \<times> ndm_pool_t) result" where
  "ndm_json_object_set_object pool object name =
     set_new object name (case object of None \<Rightarrow> (None, pool) | Some _ \<Rightarrow> ndm_json_value_alloc_object pool)"

section \<open>Lemmas\<close>

lemmas json_type_defs = ndm_json_value_is_null_def ndm_json_value_is_boolean_def
  ndm_json_value_is_string_def ndm_json_value_is_number_def ndm_json_value_is_array_def
  ndm_json_value_is_object_def

lemmas json_number_defs = ndm_json_value_is_char_def ndm_json_value_is_uchar_def
  ndm_json_value_is_short_def ndm_json_value_is_ushort_def ndm_json_value_is_int_def
  ndm_json_value_is_uint_def ndm_json_value_is_long_def ndm_json_value_is_ulong_def
  ndm_json_value_is_llong_def ndm_json_value_is_ullong_def ndm_json_value_is_double_def

text \<open>The flags of an integer, as one word.\<close>

definition signed_flags :: "int \<Rightarrow> u32" where
  "signed_flags i =
     (if - (2 ^ 7) \<le> i \<and> i < 2 ^ 7 then 0xaa8 else if - (2 ^ 15) \<le> i \<and> i < 2 ^ 15 then 0xaa0
      else if - (2 ^ 31) \<le> i \<and> i < 2 ^ 31 then 0xa80 else 0xa00)"

definition unsigned_flags :: "int \<Rightarrow> u32" where
  "unsigned_flags n =
     (if n < 2 ^ 8 then 0x1550 else if n < 2 ^ 16 then 0x1540 else if n < 2 ^ 32 then 0x1500 else 0x1400)"

lemma append_llong: "ndm_json_value_append_llong_flags w v = add_flags (signed_flags (sint w)) v"
  by (auto simp: ndm_json_value_append_llong_flags_def Let_def signed_flags_def add_flags_def json_flag_defs
      or.assoc)

lemma append_ullong: "ndm_json_value_append_ullong_flags w v = add_flags (unsigned_flags (uint w)) v"
  by (auto simp: ndm_json_value_append_ullong_flags_def Let_def unsigned_flags_def add_flags_def json_flag_defs
      or.assoc word_le_def)

text \<open>The blank number \<open>alloc\<close> starts from.\<close>

definition number_value :: "u32 \<Rightarrow> u64 \<Rightarrow> ndm_json_value_t" where
  "number_value f w = Value (3 OR f) None (DataWord w)"

lemma llong_value_flags:
  "llong_value w (Value 3 None NoData) =
     number_value (if 0 \<le> sint w then signed_flags (sint w) OR unsigned_flags (uint w) else signed_flags (sint w)) w"
  by (simp add: llong_value_def append_llong append_ullong number_value_def add_flags_def with_data_def or.assoc)

lemma sint_unat: "uint (w :: u64) < 2 ^ 63 \<Longrightarrow> sint w = uint w"
  using sint_uint [of w] uint_lt2p [of w] uint_ge_0 [of w] by (simp add: signed_take_bit_int_eq_self)

lemma sint_nonneg: "0 \<le> sint (w :: u64) \<longleftrightarrow> uint w < 2 ^ 63"
proof
  assume "0 \<le> sint w"
  moreover have "sint w < 2 ^ 63" using sint_lt [of w] by simp
  moreover have "uint w = take_bit 64 (sint w)" using uint_sint [of w] by simp
  ultimately show "uint w < 2 ^ 63" using take_bit_int_less_eq_self_iff [of 64 "sint w"] by linarith
next
  assume "uint w < 2 ^ 63"
  from sint_unat [OF this] show "0 \<le> sint w" by simp
qed

lemma ullong_value_flags:
  "ullong_value w (Value 3 None NoData) =
     number_value (if 0 \<le> sint w then signed_flags (sint w) OR unsigned_flags (uint w) else unsigned_flags (uint w)) w"
proof -
  have "w \<le> 2 ^ 63 - 1 \<longleftrightarrow> 0 \<le> sint w" by (auto simp: sint_nonneg word_le_def)
  then show ?thesis
    by (simp add: ullong_value_def append_llong append_ullong number_value_def add_flags_def with_data_def
        or.assoc or.commute or.left_commute)
qed

lemma signed_bits:
  "signed_flags i AND 0x8 \<noteq> 0 \<longleftrightarrow> - (2 ^ 7) \<le> i \<and> i < 2 ^ 7"
  "signed_flags i AND 0x20 \<noteq> 0 \<longleftrightarrow> - (2 ^ 15) \<le> i \<and> i < 2 ^ 15"
  "signed_flags i AND 0x80 \<noteq> 0 \<longleftrightarrow> - (2 ^ 31) \<le> i \<and> i < 2 ^ 31"
  "signed_flags i AND 0x200 \<noteq> 0" "signed_flags i AND 0x800 \<noteq> 0"
  "signed_flags i AND 0x10 = 0" "signed_flags i AND 0x40 = 0" "signed_flags i AND 0x100 = 0"
  "signed_flags i AND 0x400 = 0" "signed_flags i AND 0x1000 = 0" "signed_flags i AND 0x2000 = 0"
  by (auto simp: signed_flags_def)

lemma unsigned_bits:
  "unsigned_flags n AND 0x10 \<noteq> 0 \<longleftrightarrow> n < 2 ^ 8"
  "unsigned_flags n AND 0x40 \<noteq> 0 \<longleftrightarrow> n < 2 ^ 16"
  "unsigned_flags n AND 0x100 \<noteq> 0 \<longleftrightarrow> n < 2 ^ 32"
  "unsigned_flags n AND 0x400 \<noteq> 0" "unsigned_flags n AND 0x1000 \<noteq> 0"
  "unsigned_flags n AND 0x8 = 0" "unsigned_flags n AND 0x20 = 0" "unsigned_flags n AND 0x80 = 0"
  "unsigned_flags n AND 0x200 = 0" "unsigned_flags n AND 0x800 = 0" "unsigned_flags n AND 0x2000 = 0"
  by (auto simp: unsigned_flags_def)

lemma or_and_nonzero: "(a OR b) AND m \<noteq> 0 \<longleftrightarrow> a AND m \<noteq> 0 \<or> b AND m \<noteq> (0 :: u32)"
  by (auto simp: bit_eq_iff bit_simps)

text \<open>An integer value, from \<open>alloc_llong\<close> or from \<open>alloc_ullong\<close>, and its integer.\<close>

definition integer_value :: "u64 \<Rightarrow> bool \<Rightarrow> ndm_json_value_t" where
  "integer_value w neg = number_value
     ((if neg \<or> 0 \<le> sint w then signed_flags (sint w) else 0) OR
      (if \<not> neg \<or> 0 \<le> sint w then unsigned_flags (uint w) else 0)) w"

lemma alloc_llong_value:
  "ndm_json_value_alloc_llong w pool = (Some v, pool') \<Longrightarrow> v = integer_value w True"
  by (auto simp: ndm_json_value_alloc_llong_def ndm_json_value_alloc_def llong_value_flags integer_value_def
      NDM_JSON_TYPE_def NDM_JSON_TYPE_NUMBER_def NDM_JSON_TYPE_MASK_def split: option.splits prod.splits)

lemma alloc_ullong_value:
  "ndm_json_value_alloc_ullong w pool = (Some v, pool') \<Longrightarrow> v = integer_value w False"
  by (auto simp: ndm_json_value_alloc_ullong_def ndm_json_value_alloc_def ullong_value_flags integer_value_def
      NDM_JSON_TYPE_def NDM_JSON_TYPE_NUMBER_def NDM_JSON_TYPE_MASK_def split: option.splits prod.splits)

definition int_of_word :: "u64 \<Rightarrow> bool \<Rightarrow> int" where
  "int_of_word w neg = (if neg then sint w else uint w)"

lemma integer_value_flags:
  fixes w neg
  defines "v \<equiv> integer_value w neg" and "i \<equiv> int_of_word w neg"
  shows "ndm_json_value_is_number v" "\<not> ndm_json_value_is_double v"
    "ndm_json_value_is_char v \<longleftrightarrow> - (2 ^ 7) \<le> i \<and> i < 2 ^ 7"
    "ndm_json_value_is_uchar v \<longleftrightarrow> 0 \<le> i \<and> i < 2 ^ 8"
    "ndm_json_value_is_short v \<longleftrightarrow> - (2 ^ 15) \<le> i \<and> i < 2 ^ 15"
    "ndm_json_value_is_ushort v \<longleftrightarrow> 0 \<le> i \<and> i < 2 ^ 16"
    "ndm_json_value_is_int v \<longleftrightarrow> - (2 ^ 31) \<le> i \<and> i < 2 ^ 31"
    "ndm_json_value_is_uint v \<longleftrightarrow> 0 \<le> i \<and> i < 2 ^ 32"
    "ndm_json_value_is_long v \<longleftrightarrow> i < 2 ^ 63"
    "ndm_json_value_is_ulong v \<longleftrightarrow> 0 \<le> i"
    "ndm_json_value_is_llong v \<longleftrightarrow> i < 2 ^ 63"
    "ndm_json_value_is_ullong v \<longleftrightarrow> 0 \<le> i"
proof -
  have ty: "NDM_JSON_TYPE (flags v) = 3"
    by (auto simp: v_def integer_value_def number_value_def signed_flags_def unsigned_flags_def json_flag_defs)
  then show num: "ndm_json_value_is_number v" by (simp add: ndm_json_value_is_number_def NDM_JSON_TYPE_NUMBER_def)
  have lt: "sint w < 2 ^ 63" "- (2 ^ 63) \<le> sint w" using sint_lt [of w] sint_ge [of w] by simp_all
  note eq = sint_unat [of w] sint_nonneg [of w]
  note bits = or_and_nonzero signed_bits unsigned_bits
  have f: "flags v = 3 OR (if neg \<or> 0 \<le> sint w then signed_flags (sint w) else 0) OR
      (if \<not> neg \<or> 0 \<le> sint w then unsigned_flags (uint w) else 0)"
    by (simp add: v_def integer_value_def number_value_def)
  have "uint w < 2 ^ 63 \<and> sint w = uint w \<and> i = uint w \<or> neg \<and> sint w < 0 \<and> i = sint w \<or>
      \<not> neg \<and> 2 ^ 63 \<le> uint w \<and> i = uint w \<and> sint w < 0"
    using eq unfolding i_def int_of_word_def by (cases "uint w < 2 ^ 63"; cases neg; simp)
  then consider (pos) "uint w < 2 ^ 63" "sint w = uint w" "i = uint w"
    | (neg) "neg" "sint w < 0" "i = sint w" | (big) "\<not> neg" "2 ^ 63 \<le> uint w" "i = uint w" "sint w < 0"
    by blast
  note cases = this
  show "\<not> ndm_json_value_is_double v"
    using f by (simp add: ndm_json_value_is_double_def num json_flag_defs bits)
  show "ndm_json_value_is_char v \<longleftrightarrow> - (2 ^ 7) \<le> i \<and> i < 2 ^ 7"
    using cases f by cases (auto simp: ndm_json_value_is_char_def num json_flag_defs bits)
  show "ndm_json_value_is_uchar v \<longleftrightarrow> 0 \<le> i \<and> i < 2 ^ 8"
    using cases f by cases (auto simp: ndm_json_value_is_uchar_def num json_flag_defs bits)
  show "ndm_json_value_is_short v \<longleftrightarrow> - (2 ^ 15) \<le> i \<and> i < 2 ^ 15"
    using cases f by cases (auto simp: ndm_json_value_is_short_def num json_flag_defs bits)
  show "ndm_json_value_is_ushort v \<longleftrightarrow> 0 \<le> i \<and> i < 2 ^ 16"
    using cases f by cases (auto simp: ndm_json_value_is_ushort_def num json_flag_defs bits)
  show "ndm_json_value_is_int v \<longleftrightarrow> - (2 ^ 31) \<le> i \<and> i < 2 ^ 31"
    using cases f by cases (auto simp: ndm_json_value_is_int_def num json_flag_defs bits)
  show "ndm_json_value_is_uint v \<longleftrightarrow> 0 \<le> i \<and> i < 2 ^ 32"
    using cases f by cases (auto simp: ndm_json_value_is_uint_def num json_flag_defs bits)
  show "ndm_json_value_is_long v \<longleftrightarrow> i < 2 ^ 63"
    using cases f by cases (auto simp: ndm_json_value_is_long_def num json_flag_defs bits)
  show "ndm_json_value_is_ulong v \<longleftrightarrow> 0 \<le> i"
    using cases f by cases (auto simp: ndm_json_value_is_ulong_def num json_flag_defs bits)
  show "ndm_json_value_is_llong v \<longleftrightarrow> i < 2 ^ 63"
    using cases f by cases (auto simp: ndm_json_value_is_llong_def num json_flag_defs bits)
  show "ndm_json_value_is_ullong v \<longleftrightarrow> 0 \<le> i"
    using cases f by cases (auto simp: ndm_json_value_is_ullong_def num json_flag_defs bits)
qed

lemma integer_value_word: "data_word (integer_value w neg) = Some w"
  by (simp add: data_word_def integer_value_def number_value_def)

lemma sint_narrow:
  "- (2 ^ 7) \<le> sint (w :: u64) \<Longrightarrow> sint w < 2 ^ 7 \<Longrightarrow> sint (ucast w :: u8) = sint w"
  "- (2 ^ 15) \<le> sint w \<Longrightarrow> sint w < 2 ^ 15 \<Longrightarrow> sint (ucast w :: u16) = sint w"
  "- (2 ^ 31) \<le> sint w \<Longrightarrow> sint w < 2 ^ 31 \<Longrightarrow> sint (ucast w :: u32) = sint w"
  by (simp_all add: signed_ucast_eq uint_sint signed_take_bit_take_bit signed_take_bit_int_eq_self)

lemma uint_narrow:
  "uint (w :: u64) < 2 ^ 8 \<Longrightarrow> uint (ucast w :: u8) = uint w"
  "uint w < 2 ^ 16 \<Longrightarrow> uint (ucast w :: u16) = uint w"
  "uint w < 2 ^ 32 \<Longrightarrow> uint (ucast w :: u32) = uint w"
  by (simp_all add: unsigned_ucast_eq take_bit_int_eq_self)

lemma integer_value_reads:
  fixes w neg
  defines "v \<equiv> integer_value w neg" and "i \<equiv> int_of_word w neg"
  shows "- (2 ^ 7) \<le> i \<and> i < 2 ^ 7 \<longrightarrow> map_option sint (ndm_json_value_char v) = Some i"
    "0 \<le> i \<and> i < 2 ^ 8 \<longrightarrow> map_option uint (ndm_json_value_uchar v) = Some i"
    "- (2 ^ 15) \<le> i \<and> i < 2 ^ 15 \<longrightarrow> map_option sint (ndm_json_value_short v) = Some i"
    "0 \<le> i \<and> i < 2 ^ 16 \<longrightarrow> map_option uint (ndm_json_value_ushort v) = Some i"
    "- (2 ^ 31) \<le> i \<and> i < 2 ^ 31 \<longrightarrow> map_option sint (ndm_json_value_int v) = Some i"
    "0 \<le> i \<and> i < 2 ^ 32 \<longrightarrow> map_option uint (ndm_json_value_uint v) = Some i"
    "i < 2 ^ 63 \<longrightarrow> map_option sint (ndm_json_value_long v) = Some i"
    "0 \<le> i \<longrightarrow> map_option uint (ndm_json_value_ulong v) = Some i"
    "i < 2 ^ 63 \<longrightarrow> map_option sint (ndm_json_value_llong v) = Some i"
    "0 \<le> i \<longrightarrow> map_option uint (ndm_json_value_ullong v) = Some i"
proof -
  have w: "data_word v = Some w" by (simp add: v_def integer_value_word)
  have s: "i < 2 ^ 63 \<longrightarrow> sint w = i" and u: "0 \<le> i \<longrightarrow> uint w = i"
    using sint_unat [of w] sint_nonneg [of w] by (auto simp: i_def int_of_word_def)
  show "- (2 ^ 7) \<le> i \<and> i < 2 ^ 7 \<longrightarrow> map_option sint (ndm_json_value_char v) = Some i"
    using s sint_narrow(1) [of w] by (auto simp: ndm_json_value_char_def w)
  show "0 \<le> i \<and> i < 2 ^ 8 \<longrightarrow> map_option uint (ndm_json_value_uchar v) = Some i"
    using u uint_narrow(1) [of w] by (auto simp: ndm_json_value_uchar_def w)
  show "- (2 ^ 15) \<le> i \<and> i < 2 ^ 15 \<longrightarrow> map_option sint (ndm_json_value_short v) = Some i"
    using s sint_narrow(2) [of w] by (auto simp: ndm_json_value_short_def w)
  show "0 \<le> i \<and> i < 2 ^ 16 \<longrightarrow> map_option uint (ndm_json_value_ushort v) = Some i"
    using u uint_narrow(2) [of w] by (auto simp: ndm_json_value_ushort_def w)
  show "- (2 ^ 31) \<le> i \<and> i < 2 ^ 31 \<longrightarrow> map_option sint (ndm_json_value_int v) = Some i"
    using s sint_narrow(3) [of w] by (auto simp: ndm_json_value_int_def w)
  show "0 \<le> i \<and> i < 2 ^ 32 \<longrightarrow> map_option uint (ndm_json_value_uint v) = Some i"
    using u uint_narrow(3) [of w] by (auto simp: ndm_json_value_uint_def w)
  show "i < 2 ^ 63 \<longrightarrow> map_option sint (ndm_json_value_long v) = Some i"
    using s by (auto simp: ndm_json_value_long_def w)
  show "0 \<le> i \<longrightarrow> map_option uint (ndm_json_value_ulong v) = Some i"
    using u by (auto simp: ndm_json_value_ulong_def w)
  show "i < 2 ^ 63 \<longrightarrow> map_option sint (ndm_json_value_llong v) = Some i"
    using s by (auto simp: ndm_json_value_llong_def w)
  show "0 \<le> i \<longrightarrow> map_option uint (ndm_json_value_ullong v) = Some i"
    using u by (auto simp: ndm_json_value_ullong_def w)
qed

section \<open>Members of an object\<close>

text \<open>The member \<open>v\<close> is named \<open>n\<close> by a string that the pool holds.\<close>

definition named :: "ndm_pool_t \<Rightarrow> ndm_json_value_t \<Rightarrow> cstring \<Rightarrow> bool" where
  "named pool v n \<longleftrightarrow>
     0 \<notin> set n \<and> (\<exists>q. member_name v = Some (InPool q) \<and> area_used pool (q, length n + 1) \<and>
       pool_read pool q (length n + 1) = Some (n @ [0]))"

lemma cstr_at_read:
  assumes "mem_read blk off (length n + 1) = Some (n @ [0])" and "0 \<notin> set n"
  shows "cstr_at blk off = Some n"
proof -
  have "take (length n + 1) (drop off blk) = n @ [0]"
    using assms(1) by (auto simp: mem_read_def split: if_splits)
  then obtain r where r: "drop off blk = n @ 0 # r"
    by (metis append_take_drop_id append.assoc append_Cons append_Nil)
  then show ?thesis using assms(2) by (auto simp: cstr_at_def takeWhile_append2 takeWhile_tail)
qed

lemma named_string: "named pool v n \<Longrightarrow> name_string json pool v = Some n"
  by (auto simp: named_def name_string_def ref_string_def pool_read_def intro!: cstr_at_read)

lemma get_named:
  "list_all2 (named pool) vs ns \<Longrightarrow> ndm_json_object_get json pool vs name = Ok (map_of (zip ns vs) name)"
  by (induction vs ns rule: list_all2_induct) (simp_all add: named_string)

lemma set_named:
  assumes ok: "pool_ok pool" and len: "length name + 1 < 2 ^ 63" and nz: "0 \<notin> set name"
    and vs: "list_all2 (named pool) vs ns"
    and set: "ndm_json_object_set (Some vs) name (Some v) pool = Ok (Some vs', pool')"
  shows "\<exists>v'. vs' = vs @ [v'] \<and> flags v' = flags v \<and> data v' = data v \<and>
    list_all2 (named pool') (vs @ [v']) (ns @ [name])"
proof -
  obtain r pool1 where dup: "ndm_pool_strdup pool name = Ok (r, pool1)" "pool_ok pool1"
      "\<forall>p. r = Some p \<longrightarrow> pool_read pool1 p (length name + 1) = Some (name @ [0])"
    using strdup_result [OF ok len] by blast
  obtain p where p: "r = Some p" "vs' = vs @ [with_name (InPool p) v]" "pool' = pool1"
    using set dup(1) by (auto simp: ndm_json_object_set_def split: option.splits)
  let ?v' = "with_name (InPool p) v"
  note keep = strdup_keeps_read [OF ok len dup(1)]
  have "named pool' u n" if "named pool u n" for u n
    using that keep(1,2) by (fastforce simp: named_def p(3))
  then have "list_all2 (named pool') vs ns" using vs by (metis list_all2_mono)
  moreover have "named pool' ?v' name"
  proof -
    obtain q m where "area_used pool (q, m)"
      using that [of "(StaticBlock, 0)" 0] by (simp add: area_used_def)
    then show ?thesis using keep(3) p dup(3) nz by (auto simp: named_def with_name_def)
  qed
  ultimately show ?thesis
    by (intro exI [of _ ?v']) (auto simp: p(2) with_name_def list_all2_appendI)
qed

section \<open>Properties\<close>

text \<open>
  C21: an integer stored in a value is no double and carries exactly the flags of the ten
  C integer types (\<open>char\<close> to \<open>unsigned long long\<close>, the long ones of 64 bits) that hold it,
  and reading it as any such type gives that integer; a signed value of 64 bits and an unsigned one
  behave alike.
\<close>
theorem json_integer_exact:
  assumes "ndm_json_value_alloc_llong w pool = (Some v, pool') \<and> i = sint w \<or>
    ndm_json_value_alloc_ullong w pool = (Some v, pool') \<and> i = uint w"
  shows "(if - (2 ^ 7) \<le> i \<and> i < 2 ^ 7 then ndm_json_value_is_char v \<and> map_option sint (ndm_json_value_char v) = Some i
          else \<not> ndm_json_value_is_char v) \<and>
    (if 0 \<le> i \<and> i < 2 ^ 8 then ndm_json_value_is_uchar v \<and> map_option uint (ndm_json_value_uchar v) = Some i
     else \<not> ndm_json_value_is_uchar v) \<and>
    (if - (2 ^ 15) \<le> i \<and> i < 2 ^ 15 then ndm_json_value_is_short v \<and> map_option sint (ndm_json_value_short v) = Some i
     else \<not> ndm_json_value_is_short v) \<and>
    (if 0 \<le> i \<and> i < 2 ^ 16 then ndm_json_value_is_ushort v \<and> map_option uint (ndm_json_value_ushort v) = Some i
     else \<not> ndm_json_value_is_ushort v) \<and>
    (if - (2 ^ 31) \<le> i \<and> i < 2 ^ 31 then ndm_json_value_is_int v \<and> map_option sint (ndm_json_value_int v) = Some i
     else \<not> ndm_json_value_is_int v) \<and>
    (if 0 \<le> i \<and> i < 2 ^ 32 then ndm_json_value_is_uint v \<and> map_option uint (ndm_json_value_uint v) = Some i
     else \<not> ndm_json_value_is_uint v) \<and>
    (if i < 2 ^ 63 then ndm_json_value_is_long v \<and> map_option sint (ndm_json_value_long v) = Some i
     else \<not> ndm_json_value_is_long v) \<and>
    (if 0 \<le> i then ndm_json_value_is_ulong v \<and> map_option uint (ndm_json_value_ulong v) = Some i
     else \<not> ndm_json_value_is_ulong v) \<and>
    \<not> ndm_json_value_is_double v \<and>
    (if i < 2 ^ 63 then ndm_json_value_is_llong v \<and> map_option sint (ndm_json_value_llong v) = Some i
     else \<not> ndm_json_value_is_llong v) \<and>
    (if 0 \<le> i then ndm_json_value_is_ullong v \<and> map_option uint (ndm_json_value_ullong v) = Some i
     else \<not> ndm_json_value_is_ullong v)"
proof -
  obtain neg where v: "v = integer_value w neg" and i: "i = int_of_word w neg"
    using assms alloc_llong_value [of w pool v pool'] alloc_ullong_value [of w pool v pool']
    by (metis (full_types) int_of_word_def)
  show ?thesis
    unfolding v i using integer_value_flags [of w neg] integer_value_reads [of w neg] by presburger
qed

theorem json_integer_exact_witness:
  "\<exists>v pool'. ndm_json_value_alloc_llong (- 1) (ndm_pool_init \<lparr>answers = \<lambda>_. True, garbage = \<lambda>_. 0\<rparr> [] 0 64) =
      (Some v, pool') \<and> map_option sint (ndm_json_value_char v) = Some (- 1) \<and> \<not> ndm_json_value_is_uchar v"
proof -
  let ?pool = "ndm_pool_init \<lparr>answers = \<lambda>_. True, garbage = \<lambda>_. 0\<rparr> [] 0 64"
  obtain v pool' where a: "ndm_json_value_alloc_llong (- 1) ?pool = (Some v, pool')"
    by (simp add: ndm_json_value_alloc_llong_def ndm_json_value_alloc_def ndm_pool_malloc_def ndm_pool_init_def
        ndm_pool_is_valid_def NDM_POOL_ALIGN_def can_alloc_def sizeof_json_value_def)
  then show ?thesis using json_integer_exact [of "- 1" ?pool v pool' "- 1"] by auto
qed

text \<open>
  After a member is added to an object, \<open>get\<close> of any name finds
  the first member of that name: the new one when the name is new, the old one when the
  name was there before (\<open>set\<close> adds, it does not replace).
\<close>
theorem json_object_set_get:
  assumes "pool_ok pool" "length name + 1 < 2 ^ 63" "0 \<notin> set name" "list_all2 (named pool) vs ns"
    and "ndm_json_object_set (Some vs) name (Some v) pool = Ok (Some vs', pool')"
  shows "\<exists>v'. vs' = vs @ [v'] \<and> flags v' = flags v \<and> data v' = data v \<and>
    (\<forall>json key. ndm_json_object_get json pool' vs' key =
       Ok (if key \<in> set ns then map_of (zip ns vs) key else if key = name then Some v' else None))"
proof -
  obtain v' where v': "vs' = vs @ [v']" "flags v' = flags v" "data v' = data v"
      "list_all2 (named pool') (vs @ [v']) (ns @ [name])"
    using set_named [OF assms] by blast
  have len: "length ns = length vs" using assms(4) by (simp add: list_all2_lengthD)
  have "map_of (zip (ns @ [name]) (vs @ [v'])) key =
      (if key \<in> set ns then map_of (zip ns vs) key else if key = name then Some v' else None)" for key
    using len by (auto simp: zip_append map_add_def map_of_zip_is_None split: option.split)
      (metis map_of_zip_is_None option.distinct(1))+
  then show ?thesis using v' get_named [OF v'(4)] by auto
qed

theorem json_object_set_get_witness:
  "\<exists>vs' pool'. ndm_json_object_set (Some []) [97] (Some (Value 0 None NoData))
      (ndm_pool_init \<lparr>answers = \<lambda>_. True, garbage = \<lambda>_. 0\<rparr> (replicate 8 1) 8 64) = Ok (Some vs', pool') \<and>
    ndm_json_object_get [] pool' vs' [98] = Ok None"
proof -
  let ?pool = "ndm_pool_init \<lparr>answers = \<lambda>_. True, garbage = \<lambda>_. 0\<rparr> (replicate 8 1) 8 64"
  have ok: "pool_ok ?pool" by (rule pool_init_ok) (simp_all add: small_size_def)
  obtain vs' pool' where s: "ndm_json_object_set (Some []) [97] (Some (Value 0 None NoData)) ?pool =
      Ok (Some vs', pool')"
    by (simp add: ndm_json_object_set_def ndm_pool_strdup_def ndm_pool_malloc_def ndm_pool_init_def
        ndm_pool_is_valid_def NDM_POOL_ALIGN_def pool_write_def block_bytes_def current_block_def
        block_end_def mem_write_def Let_def)
  show ?thesis using json_object_set_get [OF ok _ _ _ s, of "[]"] s by auto
qed

end
