(* ===== verification/Text_Scan.thy ===== *)
theory Text_Scan
  imports Ndm_Prelude
begin

text \<open>
  What the in situ parsers share: a text is a block of memory with a zero byte in it; they
  scan it from left to right and write behind the position they read at. The lemmas say
  that a scan stops at the terminator and that such a write leaves the rest of the text.
\<close>

definition peek :: "u8 list \<Rightarrow> nat \<Rightarrow> u8 option" where
  "peek buf pos = (if pos < length buf then Some (buf ! pos) else None)"

text \<open>A scan over the characters of a class, to the first other one.\<close>

function skip_while :: "(u8 \<Rightarrow> bool) \<Rightarrow> u8 list \<Rightarrow> nat \<Rightarrow> nat option" where
  "skip_while P buf pos =
     (if pos < length buf then (if P (buf ! pos) then skip_while P buf (pos + 1) else Some pos)
      else None)"
  by auto
termination by (relation "measure (\<lambda>(P, buf, pos). length buf - pos)") auto

declare skip_while.simps [simp del]

text \<open>\<open>z\<close> is a terminator at or after the position.\<close>

definition terminated :: "u8 list \<Rightarrow> nat \<Rightarrow> nat \<Rightarrow> bool" where
  "terminated buf pos z \<longleftrightarrow> pos \<le> z \<and> z < length buf \<and> buf ! z = 0"

lemma peek_terminated: "terminated buf pos z \<Longrightarrow> peek buf pos = Some (buf ! pos)"
  by (simp add: terminated_def peek_def)

lemma terminated_next:
  "terminated buf pos z \<Longrightarrow> buf ! pos \<noteq> 0 \<Longrightarrow> terminated buf (Suc pos) z"
  by (cases "pos = z") (auto simp: terminated_def)

lemma peek_Some: "peek buf pos = Some c \<longleftrightarrow> pos < length buf \<and> c = buf ! pos"
  by (auto simp: peek_def)

lemma skip_while_terminated:
  assumes "\<not> P 0" and "terminated buf pos z"
  shows "\<exists>s. skip_while P buf pos = Some s \<and> pos \<le> s \<and> terminated buf s z \<and> \<not> P (buf ! s)"
  using assms
proof (induction P buf pos rule: skip_while.induct)
  case (1 P buf pos)
  then have lt: "pos < length buf" by (simp add: terminated_def)
  show ?case
  proof (cases "P (buf ! pos)")
    case True
    then have "buf ! pos \<noteq> 0" using 1(2) by metis
    then have "terminated buf (pos + 1) z" using terminated_next [OF 1(3)] by simp
    from 1(1) [OF lt True 1(2) this] show ?thesis
      using True lt by (subst skip_while.simps) auto
  next
    case False
    then show ?thesis using 1(3) lt by (subst skip_while.simps) auto
  qed
qed

text \<open>Scans of a text that is known.\<close>

lemma peek_at: "rest \<noteq> [] \<Longrightarrow> pos = length pre \<Longrightarrow> peek (pre @ rest) pos = Some (hd rest)"
  by (simp add: peek_def nth_append hd_conv_nth)

lemma peek_Cons: "pos = length pre \<Longrightarrow> peek (pre @ c # rest) pos = Some c"
  by (simp add: peek_def nth_append)

lemma skip_while_at:
  assumes "list_all P w" and "rest \<noteq> []" "\<not> P (hd rest)" and "pos = length pre"
  shows "skip_while P (pre @ w @ rest) pos = Some (pos + length w)"
  using assms(1,4)
proof (induction w arbitrary: pre pos)
  case Nil
  have "pos < length (pre @ rest)" "(pre @ rest) ! pos = hd rest"
    using assms(2) Nil by (simp_all add: nth_append hd_conv_nth)
  then show ?case using assms(3) by (subst skip_while.simps) simp
next
  case (Cons c w)
  have "skip_while P ((pre @ [c]) @ w @ rest) (Suc pos) = Some (Suc pos + length w)"
    using Cons by (intro Cons.IH) simp_all
  moreover have "pos < length (pre @ (c # w) @ rest)" "(pre @ (c # w) @ rest) ! pos = c"
    using Cons.prems by (simp_all add: nth_append)
  ultimately show ?case using Cons.prems by (subst skip_while.simps) simp
qed

text \<open>The comparison of the characters from \<open>pos\<close> on, left to right.\<close>

fun matches :: "u8 list \<Rightarrow> nat \<Rightarrow> u8 list \<Rightarrow> bool option" where
  "matches buf pos [] = Some True"
| "matches buf pos (c # cs) =
     (case peek buf pos of
        None \<Rightarrow> None
      | Some d \<Rightarrow> if d = c then matches buf (pos + 1) cs else Some False)"

lemma matches_terminated:
  assumes "terminated buf pos z" and "0 \<notin> set w"
  shows "\<exists>b. matches buf pos w = Some b \<and> (b \<longrightarrow> terminated buf (pos + length w) z)"
  using assms
proof (induction w arbitrary: pos)
  case (Cons c w)
  then show ?case
    using terminated_next [of buf pos z] Cons.IH [of "Suc pos"]
    by (cases "buf ! pos = c") (auto simp: peek_terminated)
qed (auto intro: exI [of _ True])

lemma matches_at: "pos = length pre \<Longrightarrow> matches (pre @ w @ rest) pos w = Some True"
proof (induction w arbitrary: pre pos)
  case (Cons c w)
  from Cons.IH [of "Suc pos" "pre @ [c]"] show ?case
    using Cons.prems peek_Cons [of pos pre c "w @ rest"] by simp
qed simp

text \<open>A write behind the read position leaves the text from there on, and its length.\<close>

lemma mem_write_before:
  assumes "out + length bs \<le> pos" and "pos \<le> length buf"
  shows "\<exists>buf'. mem_write buf out bs = Some buf' \<and> length buf' = length buf \<and>
    take out buf' = take out buf \<and> drop pos buf' = drop pos buf"
proof (cases bs)
  case Nil
  then show ?thesis using assms by (simp add: mem_write_def)
next
  case (Cons b bs')
  then have "out < length buf" "length bs \<noteq> 0" using assms by auto
  then show ?thesis using assms by (simp add: mem_write_def)
qed

lemma terminated_drop:
  assumes "drop pos buf' = drop pos buf" "length buf' = length buf"
  shows "terminated buf' pos z = terminated buf pos z"
proof -
  have "buf' ! z = buf ! z" if "pos \<le> z" "z < length buf"
    using that nth_drop [of pos buf' "z - pos"] nth_drop [of pos buf "z - pos"] assms by simp
  then show ?thesis using assms(2) by (auto simp: terminated_def)
qed

lemma take_drop_trans:
  assumes "take a x = take a (y :: 'a list)" "a \<le> a'" "take a' y = take a' w"
  shows "take a x = take a w"
  using assms by (metis min.absorb1 take_take)

lemma drop_trans:
  assumes "drop a x = drop a (y :: 'a list)" "a \<le> a'"
  shows "drop a' x = drop a' y"
  using assms by (metis drop_drop le_add_diff_inverse2)

end
