(* ===== verification/Json_Parse.thy ===== *)
theory Json_Parse
  imports Int_Parse Json_Value Text_Scan
begin

text \<open>
  The in situ parser of \<^verbatim>\<open>src/json.c\<close>. The text is a block of memory that the parser
  both reads and rewrites: a string is decoded over its own characters and terminated
  there, and the value keeps a pointer to it. Every read and write is checked against
  the block. The recursion over values, elements and members takes fuel; the theorems
  say how much is enough. \<open>strtod\<close> of the C library is a parameter: from a C string to
  the double's bits, the length consumed and whether \<open>errno\<close> is set.
\<close>

datatype parse_error =
    NDM_JSON_PARSE_ERROR_OK
  | NDM_JSON_PARSE_ERROR_ARRAY
  | NDM_JSON_PARSE_ERROR_OBJECT
  | NDM_JSON_PARSE_ERROR_OOM
  | NDM_JSON_PARSE_ERROR_NULL_EXPECTED
  | NDM_JSON_PARSE_ERROR_FALSE_EXPECTED
  | NDM_JSON_PARSE_ERROR_TRUE_EXPECTED
  | NDM_JSON_PARSE_ERROR_INVALID_HEX
  | NDM_JSON_PARSE_ERROR_CORRUPTED_SURROGATE_PAIR
  | NDM_JSON_PARSE_ERROR_INVALID_SURROGATE_PAIR
  | NDM_JSON_PARSE_ERROR_INVALID_ESCAPE_CHAR
  | NDM_JSON_PARSE_ERROR_UNTERMINATED_STRING
  | NDM_JSON_PARSE_ERROR_UNESCAPED_CHAR
  | NDM_JSON_PARSE_ERROR_NUMBER_LEADING_ZERO
  | NDM_JSON_PARSE_ERROR_NUMBER_EXPECTED
  | NDM_JSON_PARSE_ERROR_NUMBER_FRAC_EXPECTED
  | NDM_JSON_PARSE_ERROR_NUMBER_EXP_EXPECTED
  | NDM_JSON_PARSE_ERROR_NUMBER_RANGE
  | NDM_JSON_PARSE_ERROR_CORRUPTED_ARRAY
  | NDM_JSON_PARSE_ERROR_STRING_EXPECTED
  | NDM_JSON_PARSE_ERROR_COLON_EXPECTED
  | NDM_JSON_PARSE_ERROR_CORRUPTED_OBJECT
  | NDM_JSON_PARSE_ERROR_EMPTY_DOCUMENT
  | NDM_JSON_PARSE_ERROR_TRAILING_SYMBOLS
  | NDM_JSON_PARSE_ERROR_UNKNOWN_TYPE

text \<open>A run of the parser: a result, an access outside the text, or no fuel left.\<close>

datatype 'a run = Run 'a | Outside | NoFuel

fun bind_run :: "'a run \<Rightarrow> ('a \<Rightarrow> 'b run) \<Rightarrow> 'b run" where
  "bind_run (Run x) f = f x"
| "bind_run Outside f = Outside"
| "bind_run NoFuel f = NoFuel"

definition run_of :: "'a option \<Rightarrow> ('a \<Rightarrow> 'b run) \<Rightarrow> 'b run" where
  "run_of x f = (case x of None \<Rightarrow> Outside | Some y \<Rightarrow> f y)"

lemma run_of_simps [simp]: "run_of None f = Outside" "run_of (Some y) f = f y"
  by (simp_all add: run_of_def)

record json_ctx =
  ctx_pool :: ndm_pool_t
  ctx_text :: "u8 list"
  ctx_json :: nat

definition is_json_space :: "u8 \<Rightarrow> bool" where
  "is_json_space c \<longleftrightarrow> c = 32 \<or> c = 10 \<or> c = 13 \<or> c = 9"

definition ndm_json_parse_whitespaces :: "json_ctx \<Rightarrow> json_ctx option" where
  "ndm_json_parse_whitespaces ctx =
     map_option (\<lambda>s. ctx\<lparr>ctx_json := s\<rparr>) (skip_while is_json_space (ctx_text ctx) (ctx_json ctx))"

section \<open>Strings\<close>

text \<open>The table of hexadecimal digits, 255 for every other character.\<close>

definition HEX_DIGITS :: "u8 \<Rightarrow> u8" where
  "HEX_DIGITS c =
     (if 48 \<le> c \<and> c \<le> 57 then c - 48 else if 65 \<le> c \<and> c \<le> 70 then c - 55
      else if 97 \<le> c \<and> c \<le> 102 then c - 87 else 255)"

text \<open>The loop over \<open>n\<close> digits.\<close>

fun hex4_loop :: "nat \<Rightarrow> u8 list \<Rightarrow> nat \<Rightarrow> u32 \<Rightarrow> (parse_error \<times> u32 \<times> nat) option" where
  "hex4_loop 0 buf pos codepoint = Some (NDM_JSON_PARSE_ERROR_OK, codepoint, pos)"
| "hex4_loop (Suc n) buf pos codepoint =
     (case peek buf pos of
        None \<Rightarrow> None
      | Some c \<Rightarrow>
          let d = HEX_DIGITS c in
          if d > 0x0f then Some (NDM_JSON_PARSE_ERROR_INVALID_HEX, codepoint, pos + 1)
          else hex4_loop n buf (pos + 1) (push_bit 4 codepoint + ucast d))"

definition ndm_json_parse_hex4 :: "u8 list \<Rightarrow> nat \<Rightarrow> (parse_error \<times> u32 \<times> nat) option" where
  "ndm_json_parse_hex4 buf pos = hex4_loop 4 buf pos 0"

text \<open>The table of escapes, 0 for every other character.\<close>

definition PARSE_ESCAPE :: "u8 \<Rightarrow> u8" where
  "PARSE_ESCAPE e =
     (if e = 34 then 34 else if e = 47 then 47 else if e = 92 then 92 else if e = 98 then 8
      else if e = 102 then 12 else if e = 110 then 10 else if e = 114 then 13 else if e = 116 then 9
      else 0)"

text \<open>What follows the escape character \<open>u\<close>: one code unit, or a pair of surrogates.\<close>

definition parse_codepoint :: "u8 list \<Rightarrow> nat \<Rightarrow> (parse_error \<times> u32 \<times> nat) option" where
  "parse_codepoint buf pos =
     (case ndm_json_parse_hex4 buf pos of
        None \<Rightarrow> None
      | Some (code, codepoint, pos) \<Rightarrow>
          if code \<noteq> NDM_JSON_PARSE_ERROR_OK then Some (code, codepoint, pos)
          else if 0xd800 \<le> codepoint \<and> codepoint \<le> 0xdbff then
            (case peek buf pos of
               None \<Rightarrow> None
             | Some c \<Rightarrow>
                 if c \<noteq> 92 then Some (NDM_JSON_PARSE_ERROR_CORRUPTED_SURROGATE_PAIR, codepoint, pos + 1)
                 else (case peek buf (pos + 1) of
                   None \<Rightarrow> None
                 | Some c \<Rightarrow>
                     if c \<noteq> 117 then Some (NDM_JSON_PARSE_ERROR_CORRUPTED_SURROGATE_PAIR, codepoint, pos + 2)
                     else (case ndm_json_parse_hex4 buf (pos + 2) of
                       None \<Rightarrow> None
                     | Some (code, codepoint2, pos) \<Rightarrow>
                         if code \<noteq> NDM_JSON_PARSE_ERROR_OK then Some (code, codepoint, pos)
                         else if codepoint2 < 0xdc00 \<or> codepoint2 > 0xdfff
                         then Some (NDM_JSON_PARSE_ERROR_INVALID_SURROGATE_PAIR, codepoint, pos)
                         else Some (NDM_JSON_PARSE_ERROR_OK,
                           (push_bit 10 (codepoint - 0xd800) OR (codepoint2 - 0xdc00)) + 0x10000, pos))))
          else Some (NDM_JSON_PARSE_ERROR_OK, codepoint, pos))"

text \<open>The bytes stored for a code point.\<close>

definition utf8_bytes :: "u32 \<Rightarrow> u8 list" where
  "utf8_bytes codepoint =
     (if codepoint < 0x80 then [ucast codepoint]
      else if codepoint < 0x800 then
        [ucast (0xc0 OR (drop_bit 6 codepoint AND 0xff)), ucast (0x80 OR (codepoint AND 0x3f))]
      else if codepoint < 0x10000 then
        [ucast (0xe0 OR (drop_bit 12 codepoint AND 0xff)),
         ucast (0x80 OR (drop_bit 6 codepoint AND 0x3f)), ucast (0x80 OR (codepoint AND 0x3f))]
      else if codepoint < 0x110000 then
        [ucast (0xf0 OR (drop_bit 18 codepoint AND 0xff)),
         ucast (0x80 OR (drop_bit 12 codepoint AND 0x3f)),
         ucast (0x80 OR (drop_bit 6 codepoint AND 0x3f)), ucast (0x80 OR (codepoint AND 0x3f))]
      else [63])"

lemma hex4_loop_pos: "hex4_loop n buf pos cp = Some (code, cp', pos') \<Longrightarrow> pos \<le> pos'"
  by (induction n arbitrary: pos cp) (fastforce simp: Let_def split: option.splits if_splits)+

lemma parse_codepoint_pos: "parse_codepoint buf pos = Some (code, cp, pos') \<Longrightarrow> pos \<le> pos'"
  by (auto simp: parse_codepoint_def ndm_json_parse_hex4_def dest!: hex4_loop_pos
      split: option.splits if_splits)

text \<open>
  The loop of the string parser after the opening quote: \<open>pos\<close> is the read position,
  \<open>out\<close> the write position in the same text.
\<close>

function string_loop :: "u8 list \<Rightarrow> nat \<Rightarrow> nat \<Rightarrow> (parse_error \<times> u8 list \<times> nat) option" where
  "string_loop buf pos out =
     (case peek buf pos of
        None \<Rightarrow> None
      | Some c \<Rightarrow>
          if c = 92 then
            (case peek buf (pos + 1) of
               None \<Rightarrow> None
             | Some e \<Rightarrow>
                 let escaped = PARSE_ESCAPE e in
                 if escaped \<noteq> 0 then
                   (case mem_write buf out [escaped] of
                      None \<Rightarrow> None
                    | Some buf \<Rightarrow> string_loop buf (pos + 2) (out + 1))
                 else if e = 117 then
                   (case parse_codepoint buf (pos + 2) of
                      None \<Rightarrow> None
                    | Some (code, codepoint, pos') \<Rightarrow>
                        if code \<noteq> NDM_JSON_PARSE_ERROR_OK then Some (code, buf, pos')
                        else (case mem_write buf out (utf8_bytes codepoint) of
                          None \<Rightarrow> None
                        | Some buf \<Rightarrow> string_loop buf pos' (out + length (utf8_bytes codepoint))))
                 else Some (NDM_JSON_PARSE_ERROR_INVALID_ESCAPE_CHAR, buf, pos + 2))
          else if c = 34 then
            (case mem_write buf out [0] of
               None \<Rightarrow> None
             | Some buf \<Rightarrow> Some (NDM_JSON_PARSE_ERROR_OK, buf, pos + 1))
          else if c = 0 then Some (NDM_JSON_PARSE_ERROR_UNTERMINATED_STRING, buf, pos + 1)
          else if c < 0x20 then Some (NDM_JSON_PARSE_ERROR_UNESCAPED_CHAR, buf, pos + 1)
          else (case mem_write buf out [c] of
            None \<Rightarrow> None
          | Some buf \<Rightarrow> string_loop buf (pos + 1) (out + 1)))"
  by pat_completeness auto
termination
  by (relation "measure (\<lambda>(buf, pos, out). length buf - pos)")
    (auto simp: peek_def dest!: mem_write_length parse_codepoint_pos split: if_splits)

declare string_loop.simps [simp del]

text \<open>
  The text is at an opening quote; the string starts after it, and the pointer to it is
  given on success.
\<close>

definition ndm_json_parse_string :: "json_ctx \<Rightarrow> (parse_error \<times> json_ctx \<times> str_ref option) option" where
  "ndm_json_parse_string ctx =
     (let start = ctx_json ctx + 1 in
      map_option (\<lambda>(code, buf, pos).
        (code, ctx\<lparr>ctx_text := buf, ctx_json := pos\<rparr>,
         if code = NDM_JSON_PARSE_ERROR_OK then Some (InText start) else None))
      (string_loop (ctx_text ctx) start start))"

section \<open>Numbers\<close>

type_synonym strtod = "cstring \<Rightarrow> u64 \<times> nat \<times> bool"

type_synonym parsed_value = "parse_error \<times> json_ctx \<times> ndm_json_value_t option"

definition fails :: "parse_error \<Rightarrow> json_ctx \<Rightarrow> parsed_value run" where
  "fails code ctx = Run (code, ctx, None)"

text \<open>The value of an allocation, or \<open>OOM\<close> with the position \<open>fail_pos\<close>.\<close>

definition allocated ::
  "json_ctx \<Rightarrow> nat \<Rightarrow> nat \<Rightarrow> ndm_json_value_t option \<times> ndm_pool_t \<Rightarrow> parsed_value run" where
  "allocated ctx pos fail_pos r =
     (case r of
        (None, pool) \<Rightarrow> fails NDM_JSON_PARSE_ERROR_OOM (ctx\<lparr>ctx_pool := pool, ctx_json := fail_pos\<rparr>)
      | (Some v, pool) \<Rightarrow>
          Run (NDM_JSON_PARSE_ERROR_OK, ctx\<lparr>ctx_pool := pool, ctx_json := pos\<rparr>, Some v))"

text \<open>The C string that \<open>strtoll\<close> and \<open>strtod\<close> see at a position.\<close>

definition cstring_from :: "u8 list \<Rightarrow> nat \<Rightarrow> cstring" where
  "cstring_from buf pos = takeWhile (\<lambda>c. c \<noteq> 0) (drop pos buf)"

text \<open>
  The optional fraction and exponent: whether there is one, the position after it, and
  an error when it lacks digits.
\<close>

definition scan_fraction :: "u8 list \<Rightarrow> nat \<Rightarrow> (bool \<times> nat \<times> parse_error) option" where
  "scan_fraction buf s =
     (case peek buf s of
        None \<Rightarrow> None
      | Some c \<Rightarrow>
          if c = 46 then
            map_option (\<lambda>s'. (True, s',
              if s + 1 = s' then NDM_JSON_PARSE_ERROR_NUMBER_FRAC_EXPECTED else NDM_JSON_PARSE_ERROR_OK))
              (skip_while is_digit buf (s + 1))
          else Some (False, s, NDM_JSON_PARSE_ERROR_OK))"

definition scan_exponent :: "u8 list \<Rightarrow> nat \<Rightarrow> (bool \<times> nat \<times> parse_error) option" where
  "scan_exponent buf s =
     (case peek buf s of
        None \<Rightarrow> None
      | Some c \<Rightarrow>
          if c = 101 \<or> c = 69 then
            (case peek buf (s + 1) of
               None \<Rightarrow> None
             | Some c \<Rightarrow>
                 let exp_start = (if c = 43 \<or> c = 45 then s + 2 else s + 1) in
                 map_option (\<lambda>s'. (True, s',
                   if exp_start = s' then NDM_JSON_PARSE_ERROR_NUMBER_EXP_EXPECTED
                   else NDM_JSON_PARSE_ERROR_OK))
                   (skip_while is_digit buf exp_start))
          else Some (False, s, NDM_JSON_PARSE_ERROR_OK))"

text \<open>The conversion of a number that was scanned from \<open>start\<close> to \<open>s\<close>.\<close>

definition store_double :: "strtod \<Rightarrow> json_ctx \<Rightarrow> nat \<Rightarrow> nat \<Rightarrow> parsed_value run" where
  "store_double strtod ctx start s =
     (case strtod (cstring_from (ctx_text ctx) start) of (d, e, err) \<Rightarrow>
        if err \<or> start + e \<noteq> s
        then fails NDM_JSON_PARSE_ERROR_NUMBER_RANGE (ctx\<lparr>ctx_json := start\<rparr>)
        else allocated ctx s start (ndm_json_value_alloc_double d (ctx_pool ctx)))"

definition store_number :: "strtod \<Rightarrow> json_ctx \<Rightarrow> nat \<Rightarrow> nat \<Rightarrow> bool \<Rightarrow> bool \<Rightarrow> parsed_value run" where
  "store_number strtod ctx start s negative use_double =
     (if use_double then store_double strtod ctx start s
      else if negative then
        (case strtoll (cstring_from (ctx_text ctx) start) of (ll, e, err) \<Rightarrow>
           if err \<or> start + e \<noteq> s then store_double strtod ctx start s
           else allocated ctx s start (ndm_json_value_alloc_llong (of_int ll) (ctx_pool ctx)))
      else
        (case strtoull (cstring_from (ctx_text ctx) start) of (ull, e, err) \<Rightarrow>
           if err \<or> start + e \<noteq> s then store_double strtod ctx start s
           else allocated ctx s start (ndm_json_value_alloc_ullong ull (ctx_pool ctx))))"

definition parse_number :: "strtod \<Rightarrow> json_ctx \<Rightarrow> parsed_value run" where
  "parse_number strtod ctx =
     (let start = ctx_json ctx; buf = ctx_text ctx in
      run_of (peek buf start) (\<lambda>c.
      let negative = (c = 45); s = (if negative then start + 1 else start) in
      run_of (peek buf s) (\<lambda>c.
      run_of (if c = 48 then map_option is_digit (peek buf (s + 1)) else Some False) (\<lambda>leading_zero.
      if leading_zero then fails NDM_JSON_PARSE_ERROR_NUMBER_LEADING_ZERO ctx
      else run_of (skip_while is_digit buf s) (\<lambda>s'.
        if s = s' then fails NDM_JSON_PARSE_ERROR_NUMBER_EXPECTED (ctx\<lparr>ctx_json := s'\<rparr>)
        else run_of (scan_fraction buf s') (\<lambda>(frac, s', code).
          if code \<noteq> NDM_JSON_PARSE_ERROR_OK then fails code (ctx\<lparr>ctx_json := s'\<rparr>)
          else run_of (scan_exponent buf s') (\<lambda>(ex, s', code).
            if code \<noteq> NDM_JSON_PARSE_ERROR_OK then fails code (ctx\<lparr>ctx_json := s'\<rparr>)
            else store_number strtod ctx start s' negative (frac \<or> ex))))))))"

section \<open>Values, arrays, objects\<close>

definition parse_word ::
  "json_ctx \<Rightarrow> u8 list \<Rightarrow> parse_error \<Rightarrow> (ndm_pool_t \<Rightarrow> ndm_json_value_t option \<times> ndm_pool_t) \<Rightarrow>
   parsed_value run" where
  "parse_word ctx rest expected alloc =
     run_of (matches (ctx_text ctx) (ctx_json ctx + 1) rest) (\<lambda>found.
       if found then
         let s = ctx_json ctx + 1 + length rest in allocated ctx s s (alloc (ctx_pool ctx))
       else fails expected ctx)"

definition skip_char :: "json_ctx \<Rightarrow> json_ctx" where
  "skip_char ctx = ctx\<lparr>ctx_json := ctx_json ctx + 1\<rparr>"

definition parse_string_value :: "json_ctx \<Rightarrow> parsed_value run" where
  "parse_string_value ctx =
     run_of (ndm_json_parse_string ctx) (\<lambda>(code, ctx, str).
       case str of
         None \<Rightarrow> fails code ctx
       | Some str \<Rightarrow>
           allocated ctx (ctx_json ctx) (ctx_json ctx)
             (map_prod (map_option (with_data (DataString str))) id
               (ndm_json_value_alloc NDM_JSON_TYPE_STRING (ctx_pool ctx))))"

text \<open>
  After an element or a member: the closing bracket ends the list (\<open>True\<close>), a comma
  continues it (\<open>False\<close>), anything else is \<open>corrupted\<close>.
\<close>

definition after_item :: "u8 \<Rightarrow> parse_error \<Rightarrow> json_ctx \<Rightarrow> (parse_error \<times> json_ctx \<times> bool) run" where
  "after_item close corrupted ctx =
     run_of (ndm_json_parse_whitespaces ctx) (\<lambda>ctx.
     run_of (peek (ctx_text ctx) (ctx_json ctx)) (\<lambda>c.
       if c = 44 then
         run_of (ndm_json_parse_whitespaces (skip_char ctx)) (\<lambda>ctx.
           Run (NDM_JSON_PARSE_ERROR_OK, ctx, False))
       else if c = close then Run (NDM_JSON_PARSE_ERROR_OK, skip_char ctx, True)
       else Run (corrupted, ctx, True)))"

text \<open>An item that failed on the closing bracket itself is a corrupted list.\<close>

definition item_error :: "u8 \<Rightarrow> parse_error \<Rightarrow> parse_error \<Rightarrow> json_ctx \<Rightarrow> parsed_value run" where
  "item_error close corrupted code ctx =
     (if code = NDM_JSON_PARSE_ERROR_UNKNOWN_TYPE
      then run_of (peek (ctx_text ctx) (ctx_json ctx)) (\<lambda>c.
        if c = close then fails corrupted ctx else fails code ctx)
      else fails code ctx)"

function (sequential) ndm_json_parse_value :: "strtod \<Rightarrow> nat \<Rightarrow> json_ctx \<Rightarrow> parsed_value run"
and ndm_json_parse_array :: "strtod \<Rightarrow> nat \<Rightarrow> json_ctx \<Rightarrow> ndm_json_value_t \<Rightarrow> parsed_value run"
and parse_elements :: "strtod \<Rightarrow> nat \<Rightarrow> json_ctx \<Rightarrow> ndm_json_value_t \<Rightarrow> json_array \<Rightarrow> parsed_value run"
and ndm_json_parse_object :: "strtod \<Rightarrow> nat \<Rightarrow> json_ctx \<Rightarrow> ndm_json_value_t \<Rightarrow> parsed_value run"
and parse_members :: "strtod \<Rightarrow> nat \<Rightarrow> json_ctx \<Rightarrow> ndm_json_value_t \<Rightarrow> json_object \<Rightarrow> parsed_value run"
where
  "ndm_json_parse_value strtod 0 ctx = NoFuel"
| "ndm_json_parse_value strtod (Suc n) ctx =
     run_of (peek (ctx_text ctx) (ctx_json ctx)) (\<lambda>c.
       if c = 110 then
         parse_word ctx [117, 108, 108] NDM_JSON_PARSE_ERROR_NULL_EXPECTED ndm_json_value_alloc_null
       else if c = 116 then
         parse_word ctx [114, 117, 101] NDM_JSON_PARSE_ERROR_TRUE_EXPECTED (ndm_json_value_alloc_boolean True)
       else if c = 102 then
         parse_word ctx [97, 108, 115, 101] NDM_JSON_PARSE_ERROR_FALSE_EXPECTED
           (ndm_json_value_alloc_boolean False)
       else if c = 91 then
         bind_run (allocated ctx (ctx_json ctx) (ctx_json ctx) (ndm_json_value_alloc_array (ctx_pool ctx)))
           (\<lambda>(code, ctx, v).
             case v of None \<Rightarrow> fails code ctx | Some v \<Rightarrow> ndm_json_parse_array strtod n ctx v)
       else if c = 123 then
         bind_run (allocated ctx (ctx_json ctx) (ctx_json ctx) (ndm_json_value_alloc_object (ctx_pool ctx)))
           (\<lambda>(code, ctx, v).
             case v of None \<Rightarrow> fails code ctx | Some v \<Rightarrow> ndm_json_parse_object strtod n ctx v)
       else if c = 34 then parse_string_value ctx
       else if c \<noteq> 45 \<and> \<not> is_digit c then fails NDM_JSON_PARSE_ERROR_UNKNOWN_TYPE ctx
       else parse_number strtod ctx)"
| "ndm_json_parse_array strtod n ctx v =
     run_of (ndm_json_parse_whitespaces (skip_char ctx)) (\<lambda>ctx.
     run_of (peek (ctx_text ctx) (ctx_json ctx)) (\<lambda>c.
       if c = 93 then Run (NDM_JSON_PARSE_ERROR_OK, skip_char ctx, Some v)
       else parse_elements strtod n ctx v []))"
| "parse_elements strtod 0 ctx v es = NoFuel"
| "parse_elements strtod (Suc n) ctx v es =
     bind_run (ndm_json_parse_value strtod n ctx) (\<lambda>(code, ctx, e).
       case ndm_json_array_push (Some es) e of
         None \<Rightarrow> item_error 93 NDM_JSON_PARSE_ERROR_CORRUPTED_ARRAY code ctx
       | Some es \<Rightarrow>
           bind_run (after_item 93 NDM_JSON_PARSE_ERROR_CORRUPTED_ARRAY ctx) (\<lambda>(code, ctx, done).
             if code \<noteq> NDM_JSON_PARSE_ERROR_OK then fails code ctx
             else if done then Run (code, ctx, Some (with_data (DataArray es) v))
             else parse_elements strtod n ctx v es))"
| "ndm_json_parse_object strtod n ctx v =
     run_of (ndm_json_parse_whitespaces (skip_char ctx)) (\<lambda>ctx.
     run_of (peek (ctx_text ctx) (ctx_json ctx)) (\<lambda>c.
       if c = 125 then Run (NDM_JSON_PARSE_ERROR_OK, skip_char ctx, Some v)
       else parse_members strtod n ctx v []))"
| "parse_members strtod 0 ctx v ms = NoFuel"
| "parse_members strtod (Suc n) ctx v ms =
     run_of (peek (ctx_text ctx) (ctx_json ctx)) (\<lambda>c.
       if c \<noteq> 34 then fails NDM_JSON_PARSE_ERROR_STRING_EXPECTED ctx
       else run_of (ndm_json_parse_string ctx) (\<lambda>(code, ctx, name).
         case name of
           None \<Rightarrow> fails code ctx
         | Some name \<Rightarrow>
             run_of (ndm_json_parse_whitespaces ctx) (\<lambda>ctx.
             run_of (peek (ctx_text ctx) (ctx_json ctx)) (\<lambda>c.
               if c \<noteq> 58 then fails NDM_JSON_PARSE_ERROR_COLON_EXPECTED ctx
               else run_of (ndm_json_parse_whitespaces (skip_char ctx)) (\<lambda>ctx.
                 bind_run (ndm_json_parse_value strtod n ctx) (\<lambda>(code, ctx, e).
                   case e of
                     None \<Rightarrow> item_error 125 NDM_JSON_PARSE_ERROR_CORRUPTED_OBJECT code ctx
                   | Some e \<Rightarrow>
                       bind_run (after_item 125 NDM_JSON_PARSE_ERROR_CORRUPTED_OBJECT ctx)
                         (\<lambda>(code, ctx, done).
                           if code \<noteq> NDM_JSON_PARSE_ERROR_OK then fails code ctx
                           else
                             let ms = ms @ [with_name name e] in
                             if done then Run (code, ctx, Some (with_data (DataObject ms) v))
                             else parse_members strtod n ctx v ms)))))))"

  by pat_completeness auto
termination
  by (relation "measure (\<lambda>x. case x of
      Inl (Inl (_, n, _)) \<Rightarrow> 2 * n | Inl (Inr (_, n, _)) \<Rightarrow> 2 * n + 1
    | Inr (Inl (_, n, _)) \<Rightarrow> 2 * n | Inr (Inr (Inl (_, n, _))) \<Rightarrow> 2 * n + 1
    | Inr (Inr (Inr (_, n, _))) \<Rightarrow> 2 * n)") auto

declare ndm_json_parse_value.simps [simp del] ndm_json_parse_array.simps [simp del]
  parse_elements.simps [simp del] ndm_json_parse_object.simps [simp del] parse_members.simps [simp del]

definition ndm_json_parse ::
  "strtod \<Rightarrow> nat \<Rightarrow> u8 \<Rightarrow> parse_error \<Rightarrow> ndm_pool_t \<Rightarrow> u8 list \<Rightarrow> parsed_value run" where
  "ndm_json_parse strtod fuel start_char fail_code pool buf =
     run_of (ndm_json_parse_whitespaces \<lparr>ctx_pool = pool, ctx_text = buf, ctx_json = 0\<rparr>) (\<lambda>ctx.
     run_of (peek (ctx_text ctx) (ctx_json ctx)) (\<lambda>c.
       if c \<noteq> start_char
       then fails (if c = 0 then NDM_JSON_PARSE_ERROR_EMPTY_DOCUMENT else fail_code) ctx
       else bind_run (ndm_json_parse_value strtod fuel ctx) (\<lambda>(code, ctx, v).
         if code \<noteq> NDM_JSON_PARSE_ERROR_OK then Run (code, ctx, v)
         else run_of (ndm_json_parse_whitespaces ctx) (\<lambda>ctx.
              run_of (peek (ctx_text ctx) (ctx_json ctx)) (\<lambda>c.
                if c \<noteq> 0 then Run (NDM_JSON_PARSE_ERROR_TRAILING_SYMBOLS, ctx, v)
                else Run (code, ctx, v))))))"

definition ndm_json_array_parse ::
  "strtod \<Rightarrow> nat \<Rightarrow> ndm_pool_t \<Rightarrow> u8 list \<Rightarrow> (parse_error \<times> json_ctx \<times> json_array option) run" where
  "ndm_json_array_parse strtod fuel pool buf =
     bind_run (ndm_json_parse strtod fuel 91 NDM_JSON_PARSE_ERROR_ARRAY pool buf) (\<lambda>(code, ctx, v).
       Run (code, ctx,
         if code = NDM_JSON_PARSE_ERROR_OK then Option.bind v ndm_json_value_array else None))"

definition ndm_json_object_parse ::
  "strtod \<Rightarrow> nat \<Rightarrow> ndm_pool_t \<Rightarrow> u8 list \<Rightarrow> (parse_error \<times> json_ctx \<times> json_object option) run" where
  "ndm_json_object_parse strtod fuel pool buf =
     bind_run (ndm_json_parse strtod fuel 123 NDM_JSON_PARSE_ERROR_OBJECT pool buf) (\<lambda>(code, ctx, v).
       Run (code, ctx,
         if code = NDM_JSON_PARSE_ERROR_OK then Option.bind v ndm_json_value_object else None))"

end
