(* ===== verification/Json_Safe.thy ===== *)
theory Json_Safe
  imports Json_Parse
begin

text \<open>
  The parser never leaves the text: on any text with a terminator, with enough fuel, a
  run ends with a result, reads and writes only before the terminator, and rewrites only
  what it has read.
\<close>

section \<open>Strings\<close>

lemma HEX_DIGITS_0: "HEX_DIGITS 0 = 255"
  by (simp add: HEX_DIGITS_def)

lemma hex4_loop_terminated:
  assumes "terminated buf pos z"
  shows "\<exists>code cp' pos'. hex4_loop n buf pos cp = Some (code, cp', pos') \<and> pos \<le> pos' \<and> pos' \<le> Suc z \<and>
    code \<in> {NDM_JSON_PARSE_ERROR_OK, NDM_JSON_PARSE_ERROR_INVALID_HEX} \<and>
    (code = NDM_JSON_PARSE_ERROR_OK \<longrightarrow> pos' = pos + n \<and> terminated buf pos' z)"
  using assms
proof (induction n arbitrary: pos cp)
  case (Suc n)
  note pk = peek_terminated [OF Suc.prems]
  show ?case
  proof (cases "HEX_DIGITS (buf ! pos) > 0x0f")
    case False
    then have "buf ! pos \<noteq> 0" using HEX_DIGITS_0 by auto
    from Suc.IH [OF terminated_next [OF Suc.prems this]] show ?thesis
      using False by (fastforce simp: pk Let_def)
  qed (use Suc.prems in \<open>simp add: pk Let_def terminated_def\<close>)
qed (simp add: terminated_def)

lemma parse_codepoint_terminated:
  assumes "terminated buf pos z"
  shows "\<exists>code cp pos'. parse_codepoint buf pos = Some (code, cp, pos') \<and> pos \<le> pos' \<and> pos' \<le> Suc z \<and>
    code \<noteq> NDM_JSON_PARSE_ERROR_UNKNOWN_TYPE \<and>
    (code = NDM_JSON_PARSE_ERROR_OK \<longrightarrow> pos + 4 \<le> pos' \<and> terminated buf pos' z)"
proof -
  obtain code cp p1 where h: "hex4_loop 4 buf pos 0 = Some (code, cp, p1)" "pos \<le> p1" "p1 \<le> Suc z"
      "code \<in> {NDM_JSON_PARSE_ERROR_OK, NDM_JSON_PARSE_ERROR_INVALID_HEX}"
      "code = NDM_JSON_PARSE_ERROR_OK \<longrightarrow> p1 = pos + 4 \<and> terminated buf p1 z"
    using hex4_loop_terminated [OF assms, of 4 0] by blast
  show ?thesis
  proof (cases "code = NDM_JSON_PARSE_ERROR_OK \<and> 0xd800 \<le> cp \<and> cp \<le> 0xdbff")
    case False
    then show ?thesis using h by (auto simp: parse_codepoint_def ndm_json_parse_hex4_def)
  next
    case True
    then have t1: "terminated buf p1 z" "p1 = pos + 4" using h(5) by auto
    show ?thesis
    proof (cases "buf ! p1 = 92")
      case False
      then show ?thesis using True h t1 t1(1) [unfolded terminated_def]
        by (auto simp: parse_codepoint_def ndm_json_parse_hex4_def peek_terminated)
    next
      case bs: True
      then have t2: "terminated buf (Suc p1) z" using terminated_next [OF t1(1)] by simp
      show ?thesis
      proof (cases "buf ! Suc p1 = 117")
        case False
        then show ?thesis
          using True h t1 t2 bs t2 [unfolded terminated_def]
          by (auto simp: parse_codepoint_def ndm_json_parse_hex4_def peek_terminated)
      next
        case u: True
        then have t3: "terminated buf (Suc (Suc p1)) z" using terminated_next [OF t2] by simp
        obtain code2 cp2 p2 where h2: "hex4_loop 4 buf (Suc (Suc p1)) 0 = Some (code2, cp2, p2)"
            "Suc (Suc p1) \<le> p2" "p2 \<le> Suc z" "code2 \<in> {NDM_JSON_PARSE_ERROR_OK, NDM_JSON_PARSE_ERROR_INVALID_HEX}"
            "code2 = NDM_JSON_PARSE_ERROR_OK \<longrightarrow> p2 = Suc (Suc p1) + 4 \<and> terminated buf p2 z"
          using hex4_loop_terminated [OF t3, of 4 0] by blast
        show ?thesis
          using True h t1 t2 bs u h2
          by (auto simp: parse_codepoint_def ndm_json_parse_hex4_def peek_terminated)
      qed
    qed
  qed
qed

lemma utf8_bytes_length: "1 \<le> length (utf8_bytes cp)" "length (utf8_bytes cp) \<le> 4"
  by (auto simp: utf8_bytes_def)

lemma string_loop_terminated:
  assumes "terminated buf pos z" and "out \<le> pos"
  shows "\<exists>code buf' pos'. string_loop buf pos out = Some (code, buf', pos') \<and> pos < pos' \<and> pos' \<le> Suc z \<and>
    length buf' = length buf \<and> take out buf' = take out buf \<and> drop pos' buf' = drop pos' buf \<and>
    code \<noteq> NDM_JSON_PARSE_ERROR_UNKNOWN_TYPE \<and>
    (code = NDM_JSON_PARSE_ERROR_OK \<longrightarrow> terminated buf' pos' z)"
  using assms
proof (induction "length buf - pos" arbitrary: buf pos out rule: less_induct)
  case less
  note pk = peek_terminated [OF less.prems(1)]
  have lt: "pos < length buf" "pos \<le> z" using less.prems(1) by (simp_all add: terminated_def)
  have step: ?case
    if next_pos: "pos < pos1" "terminated buf pos1 z" and room: "out + length bs \<le> pos1" "bs \<noteq> []"
      and loop: "string_loop buf pos out = (case mem_write buf out bs of None \<Rightarrow> None
        | Some buf1 \<Rightarrow> string_loop buf1 pos1 (out + length bs))" for pos1 bs
  proof -
    have "pos1 \<le> length buf" using next_pos(2) by (simp add: terminated_def)
    from mem_write_before [OF room(1) this] obtain buf1 where w: "mem_write buf out bs = Some buf1"
        "length buf1 = length buf" "take out buf1 = take out buf" "drop pos1 buf1 = drop pos1 buf" by blast
    have t1: "terminated buf1 pos1 z" using next_pos(2) terminated_drop [OF w(4,2)] by simp
    have dec: "length buf1 - pos1 < length buf - pos" using next_pos lt by (simp add: w(2))
    obtain code buf' pos' where r: "string_loop buf1 pos1 (out + length bs) = Some (code, buf', pos')"
        "pos1 < pos'" "pos' \<le> Suc z" "length buf' = length buf1" "take (out + length bs) buf' = take (out + length bs) buf1"
        "drop pos' buf' = drop pos' buf1" "code \<noteq> NDM_JSON_PARSE_ERROR_UNKNOWN_TYPE"
        "code = NDM_JSON_PARSE_ERROR_OK \<longrightarrow> terminated buf' pos' z"
      using less.hyps [OF dec t1 room(1)] by blast
    have "take out buf' = take out buf"
      using r(5) w(3) by (metis le_add1 min.absorb1 take_take)
    moreover have "drop pos' buf' = drop pos' buf"
      using r(6) drop_trans [OF w(4), of pos'] r(2) by simp
    ultimately show ?thesis using loop w r next_pos(1) by auto
  qed
  show ?case
  proof (cases "buf ! pos = 92")
    case True
    then have t1: "terminated buf (Suc pos) z" using terminated_next [OF less.prems(1)] by simp
    let ?e = "buf ! Suc pos"
    note pk1 = peek_terminated [OF t1]
    show ?thesis
    proof (cases "PARSE_ESCAPE ?e = 0")
      case False
      then have "?e \<noteq> 0" by (auto simp: PARSE_ESCAPE_def)
      then have t2: "terminated buf (Suc (Suc pos)) z" using terminated_next [OF t1] by simp
      show ?thesis
        by (rule step [OF _ t2, of "[PARSE_ESCAPE ?e]"])
          (use less.prems(2) True False pk pk1 in
            \<open>simp_all add: string_loop.simps [of buf pos out] Let_def split: option.split\<close>)
    next
      case esc: True
      show ?thesis
      proof (cases "?e = 117")
        case False
        with True esc show ?thesis
          using pk pk1 t1 [unfolded terminated_def] by (simp add: string_loop.simps [of buf pos out] Let_def)
      next
        case u: True
        then have t2: "terminated buf (Suc (Suc pos)) z" using terminated_next [OF t1] by simp
        obtain code cp p2 where cp: "parse_codepoint buf (Suc (Suc pos)) = Some (code, cp, p2)"
            "Suc (Suc pos) \<le> p2" "p2 \<le> Suc z" "code \<noteq> NDM_JSON_PARSE_ERROR_UNKNOWN_TYPE"
            "code = NDM_JSON_PARSE_ERROR_OK \<longrightarrow> Suc (Suc pos) + 4 \<le> p2 \<and> terminated buf p2 z"
          using parse_codepoint_terminated [OF t2] by blast
        show ?thesis
        proof (cases "code = NDM_JSON_PARSE_ERROR_OK")
          case False
          with True esc u show ?thesis
            using pk pk1 cp by (simp add: string_loop.simps [of buf pos out] Let_def)
        next
          case ok: True
          show ?thesis
            by (rule step [of p2 "utf8_bytes cp"])
              (use less.prems(2) True esc u pk pk1 cp ok utf8_bytes_length [of cp] in
                \<open>auto simp: string_loop.simps [of buf pos out] Let_def split: option.split\<close>)
        qed
      qed
    qed
  next
    case nbs: False
    show ?thesis
    proof (cases "buf ! pos = 34")
      case True
      then have t1: "terminated buf (Suc pos) z" using terminated_next [OF less.prems(1)] by simp
      then have "Suc pos \<le> length buf" by (simp add: terminated_def)
      from mem_write_before [of out "[0]" "Suc pos", OF _ this] less.prems(2)
      obtain buf' where "mem_write buf out [0] = Some buf'" "length buf' = length buf"
          "take out buf' = take out buf" "drop (Suc pos) buf' = drop (Suc pos) buf" by auto
      with t1 show ?thesis
        using True pk lt terminated_drop [of "Suc pos" buf' buf z]
        by (simp add: string_loop.simps [of buf pos out])
    next
      case nq: False
      show ?thesis
      proof (cases "buf ! pos < 0x20")
        case True
        with nbs nq show ?thesis
          using pk lt by (simp add: string_loop.simps [of buf pos out])
      next
        case False
        then have nz: "buf ! pos \<noteq> 0" by auto
        show ?thesis
          by (rule step [OF _ terminated_next [OF less.prems(1) nz], of "[buf ! pos]"])
            (use less.prems(2) nbs nq False nz pk in
              \<open>simp_all add: string_loop.simps [of buf pos out] split: option.split\<close>)
      qed
    qed
  qed
qed

section \<open>Runs of the parser\<close>

text \<open>A run that only rewrites what lies between the two positions.\<close>

definition moves :: "json_ctx \<Rightarrow> json_ctx \<Rightarrow> bool" where
  "moves ctx ctx' \<longleftrightarrow> ctx_json ctx \<le> ctx_json ctx' \<and> length (ctx_text ctx') = length (ctx_text ctx) \<and>
     take (ctx_json ctx) (ctx_text ctx') = take (ctx_json ctx) (ctx_text ctx) \<and>
     drop (ctx_json ctx') (ctx_text ctx') = drop (ctx_json ctx') (ctx_text ctx)"

definition ctx_ok :: "json_ctx \<Rightarrow> nat \<Rightarrow> bool" where
  "ctx_ok ctx z \<longleftrightarrow> terminated (ctx_text ctx) (ctx_json ctx) z"

lemma moves_trans: "moves a b \<Longrightarrow> moves b c \<Longrightarrow> moves a c"
  unfolding moves_def
  by (metis (no_types, lifting) drop_trans le_trans take_drop_trans)

lemma moves_same_text: "ctx_text b = ctx_text a \<Longrightarrow> ctx_json a \<le> ctx_json b \<Longrightarrow> moves a b"
  by (simp add: moves_def)

lemma moves_refl: "moves a a"
  by (simp add: moves_def)

lemma ctx_ok_peek: "ctx_ok ctx z \<Longrightarrow> peek (ctx_text ctx) (ctx_json ctx) = Some (ctx_text ctx ! ctx_json ctx)"
  by (simp add: ctx_ok_def peek_terminated)

lemma ctx_ok_skip:
  "ctx_ok ctx z \<Longrightarrow> ctx_text ctx ! ctx_json ctx \<noteq> 0 \<Longrightarrow> ctx_ok (skip_char ctx) z"
  by (simp add: ctx_ok_def skip_char_def terminated_next)

lemma moves_skip: "moves ctx (skip_char ctx)" "ctx_json (skip_char ctx) = Suc (ctx_json ctx)"
  by (simp_all add: moves_def skip_char_def)

lemma ctx_ok_pos: "ctx_ok ctx z \<Longrightarrow> ctx_json ctx \<le> z"
  by (simp add: ctx_ok_def terminated_def)

lemma whitespaces_ok:
  assumes "ctx_ok ctx z"
  shows "\<exists>ctx'. ndm_json_parse_whitespaces ctx = Some ctx' \<and> ctx_ok ctx' z \<and> moves ctx ctx' \<and>
    ctx_text ctx' = ctx_text ctx \<and> ctx_pool ctx' = ctx_pool ctx"
  using skip_while_terminated [of is_json_space "ctx_text ctx" "ctx_json ctx" z] assms
  by (auto simp: ndm_json_parse_whitespaces_def ctx_ok_def moves_def is_json_space_def)

text \<open>
  A good run: it ends with a result; a value comes with success and progress, its
  absence with an error.
\<close>

definition good_run :: "json_ctx \<Rightarrow> nat \<Rightarrow> parsed_value run \<Rightarrow> bool" where
  "good_run ctx z r \<longleftrightarrow> (\<exists>code ctx' v. r = Run (code, ctx', v) \<and> moves ctx ctx' \<and> ctx_json ctx' \<le> Suc z \<and>
     (code = NDM_JSON_PARSE_ERROR_OK \<longleftrightarrow> v \<noteq> None) \<and>
     (v \<noteq> None \<longrightarrow> ctx_json ctx < ctx_json ctx' \<and> ctx_ok ctx' z) \<and>
     (code = NDM_JSON_PARSE_ERROR_UNKNOWN_TYPE \<longrightarrow> ctx_ok ctx' z))"

lemma good_fails:
  "code \<noteq> NDM_JSON_PARSE_ERROR_OK \<Longrightarrow> moves ctx ctx' \<Longrightarrow> ctx_json ctx' \<le> Suc z \<Longrightarrow>
   code \<noteq> NDM_JSON_PARSE_ERROR_UNKNOWN_TYPE \<or> ctx_ok ctx' z \<Longrightarrow> good_run ctx z (fails code ctx')"
  by (auto simp: good_run_def fails_def)

lemma good_run_later:
  assumes "moves ctx ctx1" and "good_run ctx1 z r"
  shows "good_run ctx z r"
  using assms moves_trans [of ctx ctx1] by (fastforce simp: good_run_def moves_def [of ctx ctx1])

lemma good_allocated:
  assumes "terminated (ctx_text ctx) pos z" "ctx_json ctx < pos" "ctx_json ctx \<le> fail_pos" "fail_pos \<le> z"
  shows "good_run ctx z (allocated ctx pos fail_pos r)"
  using assms
  by (cases r; cases "fst r")
    (auto simp: allocated_def fails_def good_run_def moves_def ctx_ok_def terminated_def)

lemma ctx_ok_text:
  "ctx_text b = ctx_text a \<Longrightarrow> ctx_ok a z \<Longrightarrow> ctx_json a \<le> ctx_json b \<Longrightarrow> ctx_json b \<le> z \<Longrightarrow> ctx_ok b z"
  by (auto simp: ctx_ok_def terminated_def)

lemma good_word:
  assumes "ctx_ok ctx z" "ctx_text ctx ! ctx_json ctx \<noteq> 0" "0 \<notin> set w"
    and "expected \<noteq> NDM_JSON_PARSE_ERROR_OK" "expected \<noteq> NDM_JSON_PARSE_ERROR_UNKNOWN_TYPE"
  shows "good_run ctx z (parse_word ctx w expected alloc)"
proof -
  have "terminated (ctx_text ctx) (ctx_json ctx + 1) z"
    using assms(1,2) terminated_next by (simp add: ctx_ok_def)
  from matches_terminated [OF this assms(3)] obtain b where b:
      "matches (ctx_text ctx) (ctx_json ctx + 1) w = Some b"
      "b \<longrightarrow> terminated (ctx_text ctx) (ctx_json ctx + 1 + length w) z" by blast
  show ?thesis
  proof (cases b)
    case True
    then show ?thesis
      using b by (auto simp: parse_word_def Let_def terminated_def intro!: good_allocated)
  next
    case False
    then show ?thesis
      using b assms(4,5) ctx_ok_pos [OF assms(1)] by (auto simp: parse_word_def intro!: good_fails moves_refl)
  qed
qed

lemma parse_string_ok:
  assumes "ctx_ok ctx z" "ctx_text ctx ! ctx_json ctx \<noteq> 0"
  shows "\<exists>code ctx' str. ndm_json_parse_string ctx = Some (code, ctx', str) \<and>
    moves ctx ctx' \<and> Suc (ctx_json ctx) < ctx_json ctx' \<and> code \<noteq> NDM_JSON_PARSE_ERROR_UNKNOWN_TYPE \<and>
    (code = NDM_JSON_PARSE_ERROR_OK \<longleftrightarrow> str \<noteq> None) \<and> (str \<noteq> None \<longrightarrow> ctx_ok ctx' z) \<and>
    ctx_json ctx' \<le> Suc z \<and> ctx_pool ctx' = ctx_pool ctx"
proof -
  have t1: "terminated (ctx_text ctx) (Suc (ctx_json ctx)) z"
    using assms terminated_next by (simp add: ctx_ok_def)
  obtain code buf' pos' where r: "string_loop (ctx_text ctx) (Suc (ctx_json ctx)) (Suc (ctx_json ctx)) =
      Some (code, buf', pos')" "Suc (ctx_json ctx) < pos'" "pos' \<le> Suc z" "length buf' = length (ctx_text ctx)"
      "take (Suc (ctx_json ctx)) buf' = take (Suc (ctx_json ctx)) (ctx_text ctx)"
      "drop pos' buf' = drop pos' (ctx_text ctx)" "code \<noteq> NDM_JSON_PARSE_ERROR_UNKNOWN_TYPE"
      "code = NDM_JSON_PARSE_ERROR_OK \<longrightarrow> terminated buf' pos' z"
    using string_loop_terminated [OF t1 order_refl] by blast
  have "take (ctx_json ctx) buf' = take (ctx_json ctx) (ctx_text ctx)"
    by (rule take_drop_trans [OF _ _ r(5)]) auto
  then have "moves ctx (ctx\<lparr>ctx_text := buf', ctx_json := pos'\<rparr>)"
    using r by (simp add: moves_def)
  then show ?thesis
    using r by (auto simp: ndm_json_parse_string_def Let_def ctx_ok_def)
qed

lemma good_string_value:
  assumes "ctx_ok ctx z" "ctx_text ctx ! ctx_json ctx \<noteq> 0"
  shows "good_run ctx z (parse_string_value ctx)"
proof -
  obtain code ctx' str where r: "ndm_json_parse_string ctx = Some (code, ctx', str)"
    "moves ctx ctx'" "Suc (ctx_json ctx) < ctx_json ctx'" "code \<noteq> NDM_JSON_PARSE_ERROR_UNKNOWN_TYPE"
    "code = NDM_JSON_PARSE_ERROR_OK \<longleftrightarrow> str \<noteq> None" "str \<noteq> None \<longrightarrow> ctx_ok ctx' z"
    "ctx_json ctx' \<le> Suc z"
    using parse_string_ok [OF assms] by blast
  show ?thesis
  proof (cases str)
    case None
    then show ?thesis using r by (auto simp: parse_string_value_def intro: good_fails)
  next
    case (Some s)
    let ?r = "map_prod (map_option (with_data (DataString s))) id
        (ndm_json_value_alloc NDM_JSON_TYPE_STRING (ctx_pool ctx'))"
    obtain v pool where vp: "?r = (v, pool)" by fastforce
    have t: "terminated (ctx_text ctx') (ctx_json ctx') z" using r(6) Some by (simp add: ctx_ok_def)
    show ?thesis
      using r(2,3,7) t moves_trans [OF r(2) moves_same_text]
      by (cases v) (auto simp: parse_string_value_def r(1) Some vp allocated_def fails_def good_run_def ctx_ok_def)
  qed
qed

section \<open>Numbers\<close>

lemma not_digit_0: "\<not> is_digit 0" "\<not> is_json_space 0"
  by (simp_all add: is_digit_def is_json_space_def)

lemma good_store:
  assumes "terminated (ctx_text ctx) s z" "ctx_json ctx < s"
  shows "good_run ctx z (store_number strtod ctx (ctx_json ctx) s negative use_double)"
proof -
  have alloc: "good_run ctx z (allocated ctx s (ctx_json ctx) r)" for r
    by (rule good_allocated [OF assms]) (use assms in \<open>simp_all add: terminated_def\<close>)
  have range_error: "good_run ctx z (fails NDM_JSON_PARSE_ERROR_NUMBER_RANGE (ctx\<lparr>ctx_json := ctx_json ctx\<rparr>))"
    by (rule good_fails) (use assms in \<open>simp_all add: moves_def terminated_def\<close>)
  have d: "good_run ctx z (store_double strtod ctx (ctx_json ctx) s)"
    unfolding store_double_def using alloc range_error
    by (cases "strtod (cstring_from (ctx_text ctx) (ctx_json ctx))") simp
  show ?thesis
    unfolding store_number_def by (simp only: alloc d split: if_split prod.split) simp
qed

lemma scan_part_ok:
  assumes "terminated buf s z"
  shows "\<exists>b s' code. scan_fraction buf s = Some (b, s', code) \<and> s \<le> s' \<and> terminated buf s' z \<and>
      code \<noteq> NDM_JSON_PARSE_ERROR_UNKNOWN_TYPE"
    "\<exists>b s' code. scan_exponent buf s = Some (b, s', code) \<and> s \<le> s' \<and> terminated buf s' z \<and>
      code \<noteq> NDM_JSON_PARSE_ERROR_UNKNOWN_TYPE"
proof -
  note pk = peek_terminated [OF assms]
  note sk = skip_while_terminated [of is_digit buf, OF not_digit_0(1)]
  show "\<exists>b s' code. scan_fraction buf s = Some (b, s', code) \<and> s \<le> s' \<and> terminated buf s' z \<and>
      code \<noteq> NDM_JSON_PARSE_ERROR_UNKNOWN_TYPE"
  proof (cases "buf ! s = 46")
    case True
    then have "terminated buf (Suc s) z" using terminated_next [OF assms] by simp
    from sk [OF this] obtain s' where "skip_while is_digit buf (Suc s) = Some s'" "Suc s \<le> s'"
      "terminated buf s' z" by blast
    then show ?thesis using True pk by (simp add: scan_fraction_def ex_bool_eq)
  qed (use pk assms in \<open>simp add: scan_fraction_def ex_bool_eq\<close>)
  show "\<exists>b s' code. scan_exponent buf s = Some (b, s', code) \<and> s \<le> s' \<and> terminated buf s' z \<and>
      code \<noteq> NDM_JSON_PARSE_ERROR_UNKNOWN_TYPE"
  proof (cases "buf ! s = 101 \<or> buf ! s = 69")
    case True
    then have t1: "terminated buf (Suc s) z" using terminated_next [OF assms] by auto
    note pk1 = peek_terminated [OF t1]
    show ?thesis
    proof (cases "buf ! Suc s = 43 \<or> buf ! Suc s = 45")
      case sign: True
      then have "terminated buf (Suc (Suc s)) z" using terminated_next [OF t1] by auto
      from sk [OF this] obtain s' where "skip_while is_digit buf (Suc (Suc s)) = Some s'"
        "Suc (Suc s) \<le> s'" "terminated buf s' z" by blast
      then show ?thesis using True sign pk pk1 by (simp add: scan_exponent_def Let_def ex_bool_eq)
    next
      case False
      from sk [OF t1] obtain s' where "skip_while is_digit buf (Suc s) = Some s'"
        "Suc s \<le> s'" "terminated buf s' z" by blast
      then show ?thesis using True False pk pk1 by (simp add: scan_exponent_def Let_def ex_bool_eq)
    qed
  qed (use pk assms in \<open>simp add: scan_exponent_def ex_bool_eq\<close>)
qed

lemma good_number:
  assumes "ctx_ok ctx z"
  shows "good_run ctx z (parse_number strtod ctx)"
proof -
  let ?buf = "ctx_text ctx" and ?start = "ctx_json ctx"
  define s where "s = (if ?buf ! ?start = 45 then ?start + 1 else ?start)"
  have t0: "terminated ?buf ?start z" using assms by (simp add: ctx_ok_def)
  have t1: "terminated ?buf s z" and le: "?start \<le> s"
    using terminated_next [OF t0] t0 by (auto simp: s_def)
  note pk = peek_terminated [OF t0] peek_terminated [OF t1]
  define lead where "lead = (?buf ! s = 48 \<and> is_digit (?buf ! (s + 1)))"
  have lead: "(if ?buf ! s = 48 then map_option is_digit (peek ?buf (s + 1)) else Some False) = Some lead"
    using terminated_next [OF t1] by (auto simp: lead_def dest!: peek_terminated)
  obtain s1 where s1: "skip_while is_digit ?buf s = Some s1" "s \<le> s1" "terminated ?buf s1 z"
    using skip_while_terminated [of is_digit, OF not_digit_0(1) t1] by blast
  obtain fr s2 c2 where s2: "scan_fraction ?buf s1 = Some (fr, s2, c2)" "s1 \<le> s2" "terminated ?buf s2 z"
      "c2 \<noteq> NDM_JSON_PARSE_ERROR_UNKNOWN_TYPE" using scan_part_ok(1) [OF s1(3)] by blast
  obtain ex s3 c3 where s3: "scan_exponent ?buf s2 = Some (ex, s3, c3)" "s2 \<le> s3" "terminated ?buf s3 z"
      "c3 \<noteq> NDM_JSON_PARSE_ERROR_UNKNOWN_TYPE" using scan_part_ok(2) [OF s2(3)] by blast
  have run: "parse_number strtod ctx =
      (if lead then fails NDM_JSON_PARSE_ERROR_NUMBER_LEADING_ZERO ctx
       else if s = s1 then fails NDM_JSON_PARSE_ERROR_NUMBER_EXPECTED (ctx\<lparr>ctx_json := s1\<rparr>)
       else if c2 \<noteq> NDM_JSON_PARSE_ERROR_OK then fails c2 (ctx\<lparr>ctx_json := s2\<rparr>)
       else if c3 \<noteq> NDM_JSON_PARSE_ERROR_OK then fails c3 (ctx\<lparr>ctx_json := s3\<rparr>)
       else store_number strtod ctx ?start s3 (?buf ! ?start = 45) (fr \<or> ex))"
    unfolding parse_number_def Let_def pk(1) run_of_simps s_def [symmetric] pk(2) lead s1(1) s2(1) s3(1)
      prod.case ..
  have mv: "?start \<le> s' \<Longrightarrow> moves ctx (ctx\<lparr>ctx_json := s'\<rparr>)" for s'
    by (simp add: moves_def)
  have "s \<noteq> s1 \<Longrightarrow> good_run ctx z (store_number strtod ctx ?start s3 (?buf ! ?start = 45) (fr \<or> ex))"
    by (rule good_store) (use s1 s2 s3 le in auto)
  then show ?thesis
    unfolding run using s1 s2 s3 le ctx_ok_pos [OF assms]
    by (auto simp: terminated_def intro!: good_fails mv moves_refl)
qed

section \<open>Values, arrays, objects\<close>

lemma after_item_ok:
  assumes "ctx_ok ctx z" and "close \<noteq> 0"
    and "corrupted \<noteq> NDM_JSON_PARSE_ERROR_OK"
  shows "\<exists>code ctx' fin. after_item close corrupted ctx = Run (code, ctx', fin) \<and> moves ctx ctx' \<and>
    (code = NDM_JSON_PARSE_ERROR_OK \<or> code = corrupted) \<and> ctx_ok ctx' z \<and>
    (code = NDM_JSON_PARSE_ERROR_OK \<longrightarrow> ctx_json ctx < ctx_json ctx' \<and> ctx_ok ctx' z)"
proof -
  obtain c1 where c1: "ndm_json_parse_whitespaces ctx = Some c1" "ctx_ok c1 z" "moves ctx c1"
    using whitespaces_ok [OF assms(1)] by blast
  note pk = ctx_ok_peek [OF c1(2)]
  let ?c = "ctx_text c1 ! ctx_json c1"
  have mv: "moves ctx (skip_char c1)" by (rule moves_trans [OF c1(3) moves_skip(1)])
  have lt: "ctx_json ctx < ctx_json (skip_char c1)" using c1(3) by (simp add: moves_def moves_skip(2))
  show ?thesis
  proof (cases "?c = 44")
    case True
    then have "ctx_ok (skip_char c1) z" by (intro ctx_ok_skip c1) simp
    from whitespaces_ok [OF this] obtain c2 where c2: "ndm_json_parse_whitespaces (skip_char c1) = Some c2" "ctx_ok c2 z"
      "moves (skip_char c1) c2" by blast
    have "ctx_json ctx < ctx_json c2" using lt c2(3) by (simp add: moves_def)
    then show ?thesis
      using True pk c1 c2 moves_trans [OF mv c2(3)]
      by (simp add: after_item_def ex_bool_eq)
  next
    case ncomma: False
    show ?thesis
    proof (cases "?c = close")
      case True
      then have "ctx_ok (skip_char c1) z" using assms(2) by (intro ctx_ok_skip c1) simp
      then show ?thesis
        using True ncomma pk c1 mv lt
        by (simp add: after_item_def ex_bool_eq)
    next
      case False
      then show ?thesis
        using ncomma pk c1 assms(3) by (simp add: after_item_def ex_bool_eq)
    qed
  qed
qed

lemma good_item_error:
  assumes "moves ctx0 ctx" "ctx_json ctx \<le> Suc z" "code \<noteq> NDM_JSON_PARSE_ERROR_OK" "corrupted \<noteq> NDM_JSON_PARSE_ERROR_OK"
    "corrupted \<noteq> NDM_JSON_PARSE_ERROR_UNKNOWN_TYPE"
    and "code = NDM_JSON_PARSE_ERROR_UNKNOWN_TYPE \<longrightarrow> ctx_ok ctx z"
  shows "good_run ctx0 z (item_error close corrupted code ctx)"
  using assms by (auto simp: item_error_def ctx_ok_peek intro!: good_fails)

text \<open>Enough fuel for a value at a distance \<open>d\<close> from the terminator, or for a list of items.\<close>

definition fuel_value :: "nat \<Rightarrow> json_ctx \<Rightarrow> nat" where
  "fuel_value z ctx = 2 * (z - ctx_json ctx) + 1"

lemma fuel_less:
  "ctx_ok ctx z \<Longrightarrow> ctx_ok ctx' z \<Longrightarrow> ctx_json ctx < ctx_json ctx' \<Longrightarrow>
   fuel_value z ctx' + 2 \<le> fuel_value z ctx"
  using ctx_ok_pos [of ctx z] ctx_ok_pos [of ctx' z] by (simp add: fuel_value_def)

lemma good_elements_step:
  assumes val: "\<And>ctx. ctx_ok ctx z \<Longrightarrow> fuel_value z ctx \<le> n \<Longrightarrow> good_run ctx z (ndm_json_parse_value strtod n ctx)"
    and elems: "\<And>ctx v es. ctx_ok ctx z \<Longrightarrow> fuel_value z ctx < n \<Longrightarrow> good_run ctx z (parse_elements strtod n ctx v es)"
    and ok: "ctx_ok ctx z" "fuel_value z ctx \<le> n"
  shows "good_run ctx z (parse_elements strtod (Suc n) ctx v es)"
proof -
  obtain code c1 e where r: "ndm_json_parse_value strtod n ctx = Run (code, c1, e)" "moves ctx c1"
    "code = NDM_JSON_PARSE_ERROR_OK \<longleftrightarrow> e \<noteq> None" "e \<noteq> None \<longrightarrow> ctx_json ctx < ctx_json c1 \<and> ctx_ok c1 z"
    "code = NDM_JSON_PARSE_ERROR_UNKNOWN_TYPE \<longrightarrow> ctx_ok c1 z" "ctx_json c1 \<le> Suc z"
    using val [OF ok] unfolding good_run_def by blast
  show ?thesis
  proof (cases e)
    case None
    then show ?thesis
      using r by (auto simp: parse_elements.simps ndm_json_array_push_def intro!: good_item_error)
  next
    case (Some e')
    then have c1: "ctx_ok c1 z" "ctx_json ctx < ctx_json c1" using r(4) by auto
    obtain code2 c2 fin where a: "after_item 93 NDM_JSON_PARSE_ERROR_CORRUPTED_ARRAY c1 = Run (code2, c2, fin)"
      "moves c1 c2" "ctx_ok c2 z" "code2 = NDM_JSON_PARSE_ERROR_OK \<or> code2 = NDM_JSON_PARSE_ERROR_CORRUPTED_ARRAY"
      "code2 = NDM_JSON_PARSE_ERROR_OK \<longrightarrow> ctx_json c1 < ctx_json c2 \<and> ctx_ok c2 z"
      using after_item_ok [OF c1(1), of 93 NDM_JSON_PARSE_ERROR_CORRUPTED_ARRAY] by auto
    have mv: "moves ctx c2" by (rule moves_trans [OF r(2) a(2)])
    have run: "parse_elements strtod (Suc n) ctx v es =
        (if code2 \<noteq> NDM_JSON_PARSE_ERROR_OK then fails code2 c2
         else if fin then Run (code2, c2, Some (with_data (DataArray (es @ [e'])) v))
         else parse_elements strtod n c2 v (es @ [e']))"
      using r(1) a(1) Some by (simp add: parse_elements.simps ndm_json_array_push_def)
    show ?thesis
    proof (cases "code2 = NDM_JSON_PARSE_ERROR_OK")
      case False
      then show ?thesis unfolding run using a(3,4) ctx_ok_pos [OF a(3)] mv by (auto intro!: good_fails)
    next
      case True
      then have c2: "ctx_ok c2 z" "ctx_json ctx < ctx_json c2" using a(5) c1(2) by auto
      have "good_run c2 z (parse_elements strtod n c2 v (es @ [e']))"
        by (rule elems [OF c2(1)]) (use fuel_less [OF ok(1) c2] ok(2) in simp)
      from good_run_later [OF mv this] show ?thesis
        unfolding run using True mv c2 ctx_ok_pos [OF c2(1)] by (simp add: good_run_def)
    qed
  qed
qed

lemma good_members_step:
  assumes val: "\<And>ctx. ctx_ok ctx z \<Longrightarrow> fuel_value z ctx \<le> n \<Longrightarrow> good_run ctx z (ndm_json_parse_value strtod n ctx)"
    and mems: "\<And>ctx v ms. ctx_ok ctx z \<Longrightarrow> fuel_value z ctx < n \<Longrightarrow> good_run ctx z (parse_members strtod n ctx v ms)"
    and ok: "ctx_ok ctx z" "fuel_value z ctx \<le> n"
  shows "good_run ctx z (parse_members strtod (Suc n) ctx v ms)"
proof (cases "ctx_text ctx ! ctx_json ctx = 34")
  case False
  then show ?thesis
    using ctx_ok_peek [OF ok(1)] ctx_ok_pos [OF ok(1)]
    by (auto simp: parse_members.simps intro!: good_fails moves_refl)
next
  case quote: True
  note pk = ctx_ok_peek [OF ok(1)]
  obtain code c1 name where s: "ndm_json_parse_string ctx = Some (code, c1, name)"
    "moves ctx c1" "Suc (ctx_json ctx) < ctx_json c1" "code \<noteq> NDM_JSON_PARSE_ERROR_UNKNOWN_TYPE"
    "code = NDM_JSON_PARSE_ERROR_OK \<longleftrightarrow> name \<noteq> None" "name \<noteq> None \<longrightarrow> ctx_ok c1 z"
    "ctx_json c1 \<le> Suc z"
  proof -
    have "ctx_text ctx ! ctx_json ctx \<noteq> 0" using quote by simp
    from parse_string_ok [OF ok(1) this] that show ?thesis by blast
  qed
  show ?thesis
  proof (cases name)
    case None
    then show ?thesis using pk quote s by (auto simp: parse_members.simps intro!: good_fails)
  next
    case (Some name')
    then have "ctx_ok c1 z" using s(6) by simp
    from whitespaces_ok [OF this] obtain c2 where c2: "ndm_json_parse_whitespaces c1 = Some c2" "ctx_ok c2 z" "moves c1 c2"
      by blast
    note pk2 = ctx_ok_peek [OF c2(2)]
    have mv2: "moves ctx c2" by (rule moves_trans [OF s(2) c2(3)])
    show ?thesis
    proof (cases "ctx_text c2 ! ctx_json c2 = 58")
      case False
      then show ?thesis
        using pk quote s(1) Some c2(1) pk2 mv2 ctx_ok_pos [OF c2(2)] by (auto simp: parse_members.simps intro!: good_fails)
    next
      case colon: True
      then have "ctx_ok (skip_char c2) z" by (intro ctx_ok_skip c2) simp
      from whitespaces_ok [OF this] obtain c3 where c3: "ndm_json_parse_whitespaces (skip_char c2) = Some c3" "ctx_ok c3 z"
        "moves (skip_char c2) c3" by blast
      have mv3: "moves ctx c3" using mv2 moves_skip(1) c3(3) moves_trans by blast
      have lt3: "ctx_json ctx < ctx_json c3"
        using s(3) c2(3) c3(3) by (simp add: moves_def moves_skip(2))
      obtain code4 c4 e where r: "ndm_json_parse_value strtod n c3 = Run (code4, c4, e)" "moves c3 c4"
        "code4 = NDM_JSON_PARSE_ERROR_OK \<longleftrightarrow> e \<noteq> None" "e \<noteq> None \<longrightarrow> ctx_json c3 < ctx_json c4 \<and> ctx_ok c4 z"
        "code4 = NDM_JSON_PARSE_ERROR_UNKNOWN_TYPE \<longrightarrow> ctx_ok c4 z" "ctx_json c4 \<le> Suc z"
      proof -
        have "fuel_value z c3 \<le> n" using fuel_less [OF ok(1) c3(2) lt3] ok(2) by simp
        from val [OF c3(2) this] that show ?thesis unfolding good_run_def by blast
      qed
      have mv4: "moves ctx c4" by (rule moves_trans [OF mv3 r(2)])
      show ?thesis
      proof (cases e)
        case None
        then show ?thesis
          using pk quote s(1) Some c2(1) pk2 colon c3(1) r mv4
          by (auto simp: parse_members.simps intro!: good_item_error)
      next
        case e: (Some e')
        then have c4: "ctx_ok c4 z" "ctx_json ctx < ctx_json c4" using r(4) lt3 by auto
        obtain code5 c5 fin where a: "after_item 125 NDM_JSON_PARSE_ERROR_CORRUPTED_OBJECT c4 = Run (code5, c5, fin)"
          "moves c4 c5" "ctx_ok c5 z" "code5 = NDM_JSON_PARSE_ERROR_OK \<or> code5 = NDM_JSON_PARSE_ERROR_CORRUPTED_OBJECT"
          "code5 = NDM_JSON_PARSE_ERROR_OK \<longrightarrow> ctx_json c4 < ctx_json c5 \<and> ctx_ok c5 z"
          using after_item_ok [OF c4(1), of 125 NDM_JSON_PARSE_ERROR_CORRUPTED_OBJECT] by auto
        have mv: "moves ctx c5" by (rule moves_trans [OF mv4 a(2)])
        let ?ms = "ms @ [with_name name' e']"
        have run: "parse_members strtod (Suc n) ctx v ms =
            (if code5 \<noteq> NDM_JSON_PARSE_ERROR_OK then fails code5 c5
             else if fin then Run (code5, c5, Some (with_data (DataObject ?ms) v))
             else parse_members strtod n c5 v ?ms)"
          using pk quote s(1) Some c2(1) pk2 colon c3(1) r(1) a(1) e by (simp add: parse_members.simps Let_def)
        show ?thesis
        proof (cases "code5 = NDM_JSON_PARSE_ERROR_OK")
          case False
          then show ?thesis unfolding run using a(3,4) ctx_ok_pos [OF a(3)] mv by (auto intro!: good_fails)
        next
          case True
          then have c5: "ctx_ok c5 z" "ctx_json ctx < ctx_json c5" using a(5) c4(2) by auto
          have "good_run c5 z (parse_members strtod n c5 v ?ms)"
            by (rule mems [OF c5(1)]) (use fuel_less [OF ok(1) c5] ok(2) in simp)
          from good_run_later [OF mv this] show ?thesis
            unfolding run using True mv c5 ctx_ok_pos [OF c5(1)] by (simp add: good_run_def)
        qed
      qed
    qed
  qed
qed

text \<open>The body of an array or object after its opening bracket.\<close>

lemma good_brackets:
  assumes ok: "ctx_ok ctx z" "ctx_text ctx ! ctx_json ctx \<noteq> 0" and close: "close \<noteq> 0"
    and items: "\<And>c. ctx_ok c z \<Longrightarrow> ctx_json ctx < ctx_json c \<Longrightarrow> good_run c z (items c)"
  shows "good_run ctx z (run_of (ndm_json_parse_whitespaces (skip_char ctx)) (\<lambda>c.
     run_of (peek (ctx_text c) (ctx_json c)) (\<lambda>ch.
       if ch = close then Run (NDM_JSON_PARSE_ERROR_OK, skip_char c, Some v) else items c)))"
proof -
  obtain c where c: "ndm_json_parse_whitespaces (skip_char ctx) = Some c" "ctx_ok c z" "moves (skip_char ctx) c"
    using whitespaces_ok [OF ctx_ok_skip [OF ok]] by blast
  have mv: "moves ctx c" by (rule moves_trans [OF moves_skip(1) c(3)])
  have lt: "ctx_json ctx < ctx_json c" using c(3) by (simp add: moves_def moves_skip(2))
  show ?thesis
  proof (cases "ctx_text c ! ctx_json c = close")
    case True
    then have "ctx_ok (skip_char c) z" using close by (intro ctx_ok_skip c) simp
    then show ?thesis
      using c(1) ctx_ok_peek [OF c(2)] True moves_trans [OF mv moves_skip(1)] lt ctx_ok_pos [OF c(2)]
      by (simp add: good_run_def moves_skip(2))
  next
    case False
    then show ?thesis
      using c(1) ctx_ok_peek [OF c(2)] good_run_later [OF mv items [OF c(2) lt]] by simp
  qed
qed

lemma if_good:
  "(b \<Longrightarrow> good_run ctx z x) \<Longrightarrow> (\<not> b \<Longrightarrow> good_run ctx z y) \<Longrightarrow> good_run ctx z (if b then x else y)"
  by simp

lemma good_value_step:
  assumes elems: "\<And>ctx v es. ctx_ok ctx z \<Longrightarrow> fuel_value z ctx < n \<Longrightarrow> good_run ctx z (parse_elements strtod n ctx v es)"
    and mems: "\<And>ctx v ms. ctx_ok ctx z \<Longrightarrow> fuel_value z ctx < n \<Longrightarrow> good_run ctx z (parse_members strtod n ctx v ms)"
    and ok: "ctx_ok ctx z" "fuel_value z ctx \<le> Suc n"
  shows "good_run ctx z (ndm_json_parse_value strtod (Suc n) ctx)"
proof -
  let ?c = "ctx_text ctx ! ctx_json ctx"
  note pk = ctx_ok_peek [OF ok(1)]
  have alloc: "\<exists>code c' v. allocated ctx (ctx_json ctx) (ctx_json ctx) r = Run (code, c', v) \<and>
      ctx_text c' = ctx_text ctx \<and> ctx_json c' = ctx_json ctx \<and>
      (v = None \<longrightarrow> code = NDM_JSON_PARSE_ERROR_OOM)" for r
    by (cases r; cases "fst r") (auto simp: allocated_def fails_def)
  have less: "ctx_ok c z \<Longrightarrow> ctx_json ctx < ctx_json c \<Longrightarrow> fuel_value z c < n" for c
    using fuel_less [OF ok(1), of c] ok(2) by simp
  have body: "good_run ctx z (ndm_json_parse_array strtod n c' v)" "good_run ctx z (ndm_json_parse_object strtod n c' v)"
    if c': "ctx_text c' = ctx_text ctx" "ctx_json c' = ctx_json ctx" and nz: "?c \<noteq> 0" for c' v
  proof -
    have k: "ctx_ok c' z" using ok(1) c' by (simp add: ctx_ok_def)
    have mv: "moves ctx c'" using c' by (simp add: moves_def)
    have lt: "ctx_ok c z \<Longrightarrow> ctx_json c' < ctx_json c \<Longrightarrow> fuel_value z c < n" for c
      using less [of c] c' by simp
    show "good_run ctx z (ndm_json_parse_array strtod n c' v)"
      unfolding ndm_json_parse_array.simps
      by (rule good_run_later [OF mv good_brackets [OF k]]) (use nz c' lt elems in auto)
    show "good_run ctx z (ndm_json_parse_object strtod n c' v)"
      unfolding ndm_json_parse_object.simps
      by (rule good_run_later [OF mv good_brackets [OF k]]) (use nz c' lt mems in auto)
  qed
  have opened: "good_run ctx z (bind_run (allocated ctx (ctx_json ctx) (ctx_json ctx) r)
      (\<lambda>(code, ctx, v). case v of None \<Rightarrow> fails code ctx | Some v \<Rightarrow> k ctx v))"
    if "\<And>c' v. ctx_text c' = ctx_text ctx \<Longrightarrow> ctx_json c' = ctx_json ctx \<Longrightarrow> good_run ctx z (k c' v)" for r k
  proof -
    obtain code c' v where a: "allocated ctx (ctx_json ctx) (ctx_json ctx) r = Run (code, c', v)"
      "ctx_text c' = ctx_text ctx" "ctx_json c' = ctx_json ctx" "v = None \<longrightarrow> code = NDM_JSON_PARSE_ERROR_OOM"
      using alloc [of r] by blast
    show ?thesis
      using a that [OF a(2,3)] ctx_ok_pos [OF ok(1)] by (cases v) (auto simp: moves_def intro!: good_fails)
  qed
  have word: "?c \<noteq> 0 \<Longrightarrow> good_run ctx z (parse_word ctx [117, 108, 108] NDM_JSON_PARSE_ERROR_NULL_EXPECTED a)"
    "?c \<noteq> 0 \<Longrightarrow> good_run ctx z (parse_word ctx [114, 117, 101] NDM_JSON_PARSE_ERROR_TRUE_EXPECTED a)"
    "?c \<noteq> 0 \<Longrightarrow> good_run ctx z (parse_word ctx [97, 108, 115, 101] NDM_JSON_PARSE_ERROR_FALSE_EXPECTED a)" for a
    by (rule good_word [OF ok(1)]; simp)+
  have str: "?c = 34 \<Longrightarrow> good_run ctx z (parse_string_value ctx)"
    by (rule good_string_value [OF ok(1)]) simp
  have arr: "?c = 91 \<Longrightarrow> good_run ctx z (bind_run
      (allocated ctx (ctx_json ctx) (ctx_json ctx) (ndm_json_value_alloc_array (ctx_pool ctx)))
      (\<lambda>(code, ctx, v). case v of None \<Rightarrow> fails code ctx | Some v \<Rightarrow> ndm_json_parse_array strtod n ctx v))"
    by (rule opened, rule body(1)) simp_all
  have obj: "?c = 123 \<Longrightarrow> good_run ctx z (bind_run
      (allocated ctx (ctx_json ctx) (ctx_json ctx) (ndm_json_value_alloc_object (ctx_pool ctx)))
      (\<lambda>(code, ctx, v). case v of None \<Rightarrow> fails code ctx | Some v \<Rightarrow> ndm_json_parse_object strtod n ctx v))"
    by (rule opened, rule body(2)) simp_all
  have unknown: "good_run ctx z (fails NDM_JSON_PARSE_ERROR_UNKNOWN_TYPE ctx)"
    by (rule good_fails) (use ctx_ok_pos [OF ok(1)] in \<open>simp_all add: moves_refl ok(1)\<close>)
  note num = good_number [OF ok(1), of strtod]
  show ?thesis
    unfolding ndm_json_parse_value.simps pk run_of_simps
    by (intro if_good) (auto intro: word arr obj str unknown num)
qed

lemma parse_good:
  "ctx_ok ctx z \<Longrightarrow> fuel_value z ctx \<le> n \<Longrightarrow> good_run ctx z (ndm_json_parse_value strtod n ctx)"
  "ctx_ok ctx z \<Longrightarrow> fuel_value z ctx < n \<Longrightarrow> good_run ctx z (parse_elements strtod n ctx v es)"
  "ctx_ok ctx z \<Longrightarrow> fuel_value z ctx < n \<Longrightarrow> good_run ctx z (parse_members strtod n ctx v ms)"
proof (induction n arbitrary: ctx v es ms)
  case 0
  {
    case 1
    then show ?case by (simp add: fuel_value_def)
  next
    case 2
    then show ?case by simp
  next
    case 3
    then show ?case by simp
  }
next
  case (Suc n)
  {
    case 1
    then show ?case using good_value_step [of z n strtod ctx] Suc.IH(2,3) by blast
  next
    case 2
    then show ?case using good_elements_step [of z n strtod ctx] Suc.IH(1,2) by simp
  next
    case 3
    then show ?case using good_members_step [of z n strtod ctx] Suc.IH(1,3) by simp
  }
qed

section \<open>The whole parser\<close>

text \<open>The position of the first terminator.\<close>

definition text_end :: "u8 list \<Rightarrow> nat" where
  "text_end buf = length (takeWhile (\<lambda>c. c \<noteq> 0) buf)"

lemma text_end_terminated: "0 \<in> set buf \<Longrightarrow> terminated buf 0 (text_end buf)"
proof -
  assume z: "0 \<in> set buf"
  have lt: "text_end buf < length buf"
    using z unfolding text_end_def by (induction buf) auto
  then have "buf ! text_end buf = 0"
    unfolding text_end_def using nth_length_takeWhile [of "\<lambda>c. c \<noteq> 0" buf] by auto
  with lt show ?thesis by (simp add: terminated_def)
qed

lemma parse_safe:
  assumes z: "0 \<in> set buf" and fuel: "2 * text_end buf < fuel"
    and codes: "fail_code \<noteq> NDM_JSON_PARSE_ERROR_OK" and start: "start_char \<noteq> 0"
  shows "\<exists>code ctx v. ndm_json_parse strtod fuel start_char fail_code pool buf = Run (code, ctx, v) \<and>
    length (ctx_text ctx) = length buf \<and>
    drop (Suc (text_end buf)) (ctx_text ctx) = drop (Suc (text_end buf)) buf \<and>
    (code = NDM_JSON_PARSE_ERROR_OK \<longrightarrow> v \<noteq> None)"
proof -
  let ?z = "text_end buf" and ?ctx0 = "\<lparr>ctx_pool = pool, ctx_text = buf, ctx_json = 0\<rparr>"
  have ok0: "ctx_ok ?ctx0 ?z" using text_end_terminated [OF z] by (simp add: ctx_ok_def)
  have keeps: "length (ctx_text ctx) = length buf \<and> drop (Suc ?z) (ctx_text ctx) = drop (Suc ?z) buf"
    if "moves ?ctx0 ctx" "ctx_json ctx \<le> Suc ?z" for ctx
    using that drop_trans by (fastforce simp: moves_def)
  obtain c1 where c1: "ndm_json_parse_whitespaces ?ctx0 = Some c1" "ctx_ok c1 ?z" "moves ?ctx0 c1"
    using whitespaces_ok [OF ok0] by blast
  note pk1 = ctx_ok_peek [OF c1(2)]
  show ?thesis
  proof (cases "ctx_text c1 ! ctx_json c1 = start_char")
    case False
    then show ?thesis
      using c1(1) pk1 keeps [OF c1(3)] ctx_ok_pos [OF c1(2)] codes
      by (simp add: ndm_json_parse_def fails_def)
  next
    case True
    have "fuel_value ?z c1 \<le> fuel" using fuel by (simp add: fuel_value_def)
    then obtain code c2 v where r: "ndm_json_parse_value strtod fuel c1 = Run (code, c2, v)" "moves c1 c2"
      "ctx_json c2 \<le> Suc ?z" "code = NDM_JSON_PARSE_ERROR_OK \<longleftrightarrow> v \<noteq> None" "v \<noteq> None \<longrightarrow> ctx_ok c2 ?z"
      using parse_good(1) [OF c1(2)] unfolding good_run_def by blast
    have mv: "moves ?ctx0 c2" by (rule moves_trans [OF c1(3) r(2)])
    show ?thesis
    proof (cases "code = NDM_JSON_PARSE_ERROR_OK")
      case False
      then show ?thesis
        using c1(1) pk1 True r(1) keeps [OF mv r(3)] by (simp add: ndm_json_parse_def)
    next
      case ok: True
      then have "ctx_ok c2 ?z" using r(4,5) by simp
      from whitespaces_ok [OF this] obtain c3 where c3: "ndm_json_parse_whitespaces c2 = Some c3"
        "ctx_ok c3 ?z" "moves c2 c3" by blast
      have "moves ?ctx0 c3" by (rule moves_trans [OF mv c3(3)])
      with c1(1) pk1 True r(1) r(4) ok c3(1) ctx_ok_peek [OF c3(2)] keeps [of c3] ctx_ok_pos [OF c3(2)]
      show ?thesis by (simp add: ndm_json_parse_def)
    qed
  qed
qed

text \<open>
  C2: on any text with a terminator, and with fuel for every character,
  the parser of arrays returns: whatever the bytes are and whichever allocations fail,
  it never reads or writes outside the text, and never changes a byte after the first
  terminator. On success there is an array.
\<close>
theorem json_parse_safe:
  assumes "0 \<in> set buf" and "2 * length buf \<le> fuel"
  shows "\<exists>code ctx v. ndm_json_array_parse strtod fuel pool buf = Run (code, ctx, v) \<and>
    length (ctx_text ctx) = length buf \<and>
    drop (Suc (text_end buf)) (ctx_text ctx) = drop (Suc (text_end buf)) buf"
proof -
  have "2 * text_end buf < fuel" using text_end_terminated [OF assms(1)] assms(2) by (simp add: terminated_def)
  from parse_safe [OF assms(1) this, of NDM_JSON_PARSE_ERROR_ARRAY 91 strtod pool]
  show ?thesis by (auto simp: ndm_json_array_parse_def)
qed

theorem json_parse_safe_witness:
  "\<exists>code ctx v. ndm_json_array_parse (\<lambda>_. (0, 0, True)) 12
      (ndm_pool_init \<lparr>answers = \<lambda>_. False, garbage = \<lambda>_. 0\<rparr> [] 0 64) [91, 34, 92, 117, 0, 7] = Run (code, ctx, v) \<and>
    length (ctx_text ctx) = length [91, 34, 92, 117, 0, 7 :: u8] \<and>
    drop (Suc (text_end [91, 34, 92, 117, 0, 7])) (ctx_text ctx) =
      drop (Suc (text_end [91, 34, 92, 117, 0, 7])) [91, 34, 92, 117, 0, 7]"
  by (rule json_parse_safe) simp_all

end
