(* ===== verification/Json_Print.thy ===== *)
theory Json_Print
  imports Json_Parse
begin

text \<open>
  The printer of \<^verbatim>\<open>src/json.c\<close>: a fixed buffer in front of a growing heap block, the
  emitters on top of it, and the walk over a value. A write outside the buffer or the
  block, or a failed assertion, is \<open>None\<close>. \<open>printf\<close>'s \<open>%g\<close> is a parameter. The
  text a value must give is specified by \<open>render\<close> on plain JSON trees.
\<close>

definition NDM_JSON_PRINT_IDENT_STEP :: nat where "NDM_JSON_PRINT_IDENT_STEP = 2"
definition NDM_JSON_PRINT_BUFSIZE :: nat where "NDM_JSON_PRINT_BUFSIZE = 4096"
definition NDM_JSON_PRINT_FLAGS_COMPACT :: u32 where "NDM_JSON_PRINT_FLAGS_COMPACT = 0x0001"
definition NDM_JSON_PRINT_FLAGS_CRLF :: u32 where "NDM_JSON_PRINT_FLAGS_CRLF = 0x0002"

definition NDM_JSON_DOUBLE_BUFSIZE :: nat where
  "NDM_JSON_DOUBLE_BUFSIZE =
     1 + NDM_INT_MAX_BUFSIZE 8 + 1 + 1 + 1 + NDM_INT_MAX_BUFSIZE 4 + 1"

text \<open>
  \<open>pr_block\<close> is the heap block, empty for \<open>NULL\<close>; \<open>pr_buffer\<close> the bytes put in the
  buffer so far.
\<close>

record json_print =
  pr_flags :: u32
  pr_ident :: nat
  pr_block :: "u8 list"
  pr_size :: nat
  pr_buffer :: "u8 list"
  pr_ok :: bool
  pr_heap :: heap

definition ndm_json_print_init :: "heap \<Rightarrow> u32 \<Rightarrow> json_print" where
  "ndm_json_print_init heap f =
     \<lparr>pr_flags = f, pr_ident = 0, pr_block = [], pr_size = 0, pr_buffer = [], pr_ok = True,
      pr_heap = heap\<rparr>"

text \<open>The buffered bytes and new ones go to the reallocated block, the buffer is emptied.\<close>

definition print_grow :: "json_print \<Rightarrow> u8 list \<Rightarrow> json_print option" where
  "print_grow ctx new =
     (let buffered = length (pr_buffer ctx);
          ctx' = ctx\<lparr>pr_buffer := [], pr_heap := heap_next (pr_heap ctx)\<rparr> in
      if \<not> can_alloc (pr_heap ctx) then Some (ctx'\<lparr>pr_ok := False\<rparr>)
      else
        Option.bind (mem_write
            (resize_block (pr_heap ctx) (pr_block ctx) (pr_size ctx + buffered + length new + 1))
            (pr_size ctx) (pr_buffer ctx)) (\<lambda>blk.
        Option.bind (mem_write blk (pr_size ctx + buffered) new) (\<lambda>blk.
        map_option (\<lambda>blk.
            ctx'\<lparr>pr_block := blk, pr_size := pr_size ctx + buffered + length new\<rparr>)
          (mem_write blk (pr_size ctx + buffered + length new) [0]))))"

definition ndm_json_print_flush :: "json_print \<Rightarrow> json_print option" where
  "ndm_json_print_flush ctx = print_grow ctx []"

definition ndm_json_print_data :: "json_print \<Rightarrow> u8 list \<Rightarrow> json_print option" where
  "ndm_json_print_data ctx bs =
     (if length bs < NDM_JSON_PRINT_BUFSIZE - length (pr_buffer ctx)
      then Some (ctx\<lparr>pr_buffer := pr_buffer ctx @ bs\<rparr>)
      else print_grow ctx bs)"

definition ndm_json_print_fill :: "json_print \<Rightarrow> u8 \<Rightarrow> nat \<Rightarrow> json_print option" where
  "ndm_json_print_fill ctx c count =
     (if count < NDM_JSON_PRINT_BUFSIZE - length (pr_buffer ctx)
      then Some (ctx\<lparr>pr_buffer := pr_buffer ctx @ replicate count c\<rparr>)
      else print_grow ctx (replicate count c))"

definition ndm_json_print_char :: "json_print \<Rightarrow> u8 \<Rightarrow> json_print option" where
  "ndm_json_print_char ctx c =
     (if length (pr_buffer ctx) \<ge> NDM_JSON_PRINT_BUFSIZE then None
      else
        let ctx = ctx\<lparr>pr_buffer := pr_buffer ctx @ [c]\<rparr> in
        if length (pr_buffer ctx) = NDM_JSON_PRINT_BUFSIZE then ndm_json_print_flush ctx
        else Some ctx)"

text \<open>The block and the size handed out, \<open>None\<close> inside for \<open>NULL\<close>.\<close>

definition ndm_json_print_done :: "json_print \<Rightarrow> (u8 list option \<times> nat) option" where
  "ndm_json_print_done ctx =
     map_option (\<lambda>ctx. if pr_ok ctx then (Some (pr_block ctx), pr_size ctx) else (None, 0))
       (ndm_json_print_flush ctx)"

definition ndm_json_print_ident :: "json_print \<Rightarrow> json_print option" where
  "ndm_json_print_ident ctx =
     (if pr_flags ctx AND NDM_JSON_PRINT_FLAGS_COMPACT = 0 then
        Option.bind (if pr_flags ctx AND NDM_JSON_PRINT_FLAGS_CRLF \<noteq> 0
                     then ndm_json_print_data ctx [13, 10] else ndm_json_print_char ctx 10)
          (\<lambda>ctx. ndm_json_print_fill ctx 32 (pr_ident ctx))
      else Some ctx)"

definition ident_step :: "json_print \<Rightarrow> json_print" where
  "ident_step ctx = ctx\<lparr>pr_ident := pr_ident ctx + NDM_JSON_PRINT_IDENT_STEP\<rparr>"

definition ident_back :: "json_print \<Rightarrow> json_print" where
  "ident_back ctx = ctx\<lparr>pr_ident := pr_ident ctx - NDM_JSON_PRINT_IDENT_STEP\<rparr>"

text \<open>The table of escapes: 0 for a plain character, \<open>u\<close> (117) for a numeric escape.\<close>

definition PRINT_ESCAPE :: "u8 \<Rightarrow> u8" where
  "PRINT_ESCAPE c =
     (if c = 8 then 98 else if c = 9 then 116 else if c = 10 then 110 else if c = 12 then 102
      else if c = 13 then 114 else if c < 32 then 117 else if c = 34 then 34 else if c = 92 then 92
      else 0)"

definition HEX_DIGIT_CHAR :: "u8 \<Rightarrow> u8" where
  "HEX_DIGIT_CHAR d = (if d < 10 then 48 + d else 55 + d)"

fun print_string_chars :: "json_print \<Rightarrow> cstring \<Rightarrow> json_print option" where
  "print_string_chars ctx [] = Some ctx"
| "print_string_chars ctx (c # s) =
     (let e = PRINT_ESCAPE c in
      Option.bind
        (if e \<noteq> 0 then
           if e \<noteq> 117 then ndm_json_print_data ctx [92, e]
           else ndm_json_print_data ctx
             [92, 117, 48, 48, HEX_DIGIT_CHAR (drop_bit 4 c AND 0x0f), HEX_DIGIT_CHAR (c AND 0x0f)]
         else ndm_json_print_char ctx c)
        (\<lambda>ctx. print_string_chars ctx s))"

definition ndm_json_print_string :: "json_print \<Rightarrow> cstring \<Rightarrow> json_print option" where
  "ndm_json_print_string ctx s =
     Option.bind (ndm_json_print_char ctx 34) (\<lambda>ctx.
     Option.bind (print_string_chars ctx s) (\<lambda>ctx. ndm_json_print_char ctx 34))"

text \<open>\<open>str\<close> reads the C string at a reference; \<open>fmt\<close> is \<open>%g\<close>.\<close>

function (sequential) ndm_json_print_value ::
  "(str_ref \<Rightarrow> cstring option) \<Rightarrow> (u64 \<Rightarrow> cstring) \<Rightarrow> json_print \<Rightarrow> ndm_json_value_t \<Rightarrow> json_print option"
and ndm_json_print_array ::
  "(str_ref \<Rightarrow> cstring option) \<Rightarrow> (u64 \<Rightarrow> cstring) \<Rightarrow> json_print \<Rightarrow> json_array \<Rightarrow> json_print option"
and print_elements ::
  "(str_ref \<Rightarrow> cstring option) \<Rightarrow> (u64 \<Rightarrow> cstring) \<Rightarrow> json_print \<Rightarrow> json_array \<Rightarrow> json_print option"
and ndm_json_print_object ::
  "(str_ref \<Rightarrow> cstring option) \<Rightarrow> (u64 \<Rightarrow> cstring) \<Rightarrow> json_print \<Rightarrow> json_object \<Rightarrow> json_print option"
and print_members ::
  "(str_ref \<Rightarrow> cstring option) \<Rightarrow> (u64 \<Rightarrow> cstring) \<Rightarrow> json_print \<Rightarrow> json_object \<Rightarrow> json_print option"
where
  "ndm_json_print_value str fmt ctx (Value f n d) =
     (let v = Value f n d in
      if ndm_json_value_is_object v then
        (case d of DataObject ms \<Rightarrow> ndm_json_print_object str fmt ctx ms | _ \<Rightarrow> None)
      else if ndm_json_value_is_array v then
        (case d of DataArray es \<Rightarrow> ndm_json_print_array str fmt ctx es | _ \<Rightarrow> None)
      else if ndm_json_value_is_string v then
        Option.bind (Option.bind (ndm_json_value_string v) str) (ndm_json_print_string ctx)
      else if ndm_json_value_is_null v then ndm_json_print_data ctx [110, 117, 108, 108]
      else if ndm_json_value_is_true v then ndm_json_print_data ctx [116, 114, 117, 101]
      else if ndm_json_value_is_false v then ndm_json_print_data ctx [102, 97, 108, 115, 101]
      else if ndm_json_value_is_llong v then
        Option.bind (ndm_json_value_llong v) (\<lambda>w.
          let buffer = print_int (sint w) in
          if 0 < length buffer \<and> length buffer < NDM_INT_BUFSIZE then ndm_json_print_data ctx buffer
          else None)
      else if ndm_json_value_is_ullong v then
        Option.bind (ndm_json_value_ullong v) (\<lambda>w.
          let buffer = print_int (uint w) in
          if 0 < length buffer \<and> length buffer < NDM_INT_BUFSIZE then ndm_json_print_data ctx buffer
          else None)
      else if ndm_json_value_is_double v then
        Option.bind (ndm_json_value_double v) (\<lambda>w.
          let buffer = fmt w in
          if 0 < length buffer \<and> length buffer < NDM_JSON_DOUBLE_BUFSIZE then ndm_json_print_data ctx buffer
          else None)
      else None)"
| "ndm_json_print_array str fmt ctx es =
     Option.bind (ndm_json_print_char ctx 91) (\<lambda>ctx.
     Option.bind (print_elements str fmt (ident_step ctx) es) (\<lambda>ctx.
     Option.bind (ndm_json_print_ident (ident_back ctx)) (\<lambda>ctx.
     ndm_json_print_char ctx 93)))"
| "print_elements str fmt ctx [] = Some ctx"
| "print_elements str fmt ctx (e # es) =
     (if \<not> pr_ok ctx then Some ctx
      else
        Option.bind (ndm_json_print_ident ctx) (\<lambda>ctx.
        Option.bind (ndm_json_print_value str fmt ctx e) (\<lambda>ctx.
        Option.bind (if es = [] then Some ctx else ndm_json_print_char ctx 44) (\<lambda>ctx.
        print_elements str fmt ctx es))))"
| "ndm_json_print_object str fmt ctx ms =
     Option.bind (ndm_json_print_char ctx 123) (\<lambda>ctx.
     Option.bind (print_members str fmt (ident_step ctx) ms) (\<lambda>ctx.
     Option.bind (ndm_json_print_ident (ident_back ctx)) (\<lambda>ctx.
     ndm_json_print_char ctx 125)))"
| "print_members str fmt ctx [] = Some ctx"
| "print_members str fmt ctx (m # ms) =
     (if \<not> pr_ok ctx then Some ctx
      else
        Option.bind (ndm_json_print_ident ctx) (\<lambda>ctx.
        Option.bind (Option.bind (member_name m) str) (\<lambda>name.
        Option.bind (ndm_json_print_string ctx name) (\<lambda>ctx.
        Option.bind (ndm_json_print_char ctx 58) (\<lambda>ctx.
        Option.bind (if pr_flags ctx AND NDM_JSON_PRINT_FLAGS_COMPACT = 0
                     then ndm_json_print_char ctx 32 else Some ctx) (\<lambda>ctx.
        Option.bind (ndm_json_print_value str fmt ctx m) (\<lambda>ctx.
        Option.bind (if ms = [] then Some ctx else ndm_json_print_char ctx 44) (\<lambda>ctx.
        print_members str fmt ctx ms))))))))"
  by pat_completeness auto
termination
  by (relation "measure (\<lambda>x. case x of
      Inl (Inl (_, _, _, v)) \<Rightarrow> 2 * size v | Inl (Inr (_, _, _, es)) \<Rightarrow> 2 * size_list size es + 1
    | Inr (Inl (_, _, _, es)) \<Rightarrow> 2 * size_list size es
    | Inr (Inr (Inl (_, _, _, ms))) \<Rightarrow> 2 * size_list size ms + 1
    | Inr (Inr (Inr (_, _, _, ms))) \<Rightarrow> 2 * size_list size ms)") auto

declare ndm_json_print_value.simps [simp del]

definition ndm_json_array_print ::
  "(str_ref \<Rightarrow> cstring option) \<Rightarrow> (u64 \<Rightarrow> cstring) \<Rightarrow> heap \<Rightarrow> json_array \<Rightarrow> u32 \<Rightarrow> (u8 list option \<times> nat) option" where
  "ndm_json_array_print str fmt heap array f =
     Option.bind (ndm_json_print_array str fmt (ndm_json_print_init heap f) array) ndm_json_print_done"

definition ndm_json_object_print ::
  "(str_ref \<Rightarrow> cstring option) \<Rightarrow> (u64 \<Rightarrow> cstring) \<Rightarrow> heap \<Rightarrow> json_object \<Rightarrow> u32 \<Rightarrow> (u8 list option \<times> nat) option" where
  "ndm_json_object_print str fmt heap object f =
     Option.bind (ndm_json_print_object str fmt (ndm_json_print_init heap f) object) ndm_json_print_done"

section \<open>JSON trees and their text\<close>

datatype json_tree =
    TNull
  | TBool bool
  | TString cstring
  | TInt int
  | TDouble u64
  | TArray "json_tree list"
  | TObject "(cstring \<times> json_tree) list"

text \<open>The tree a value stands for.\<close>

inductive json_abs :: "(str_ref \<Rightarrow> cstring option) \<Rightarrow> ndm_json_value_t \<Rightarrow> json_tree \<Rightarrow> bool"
  for str :: "str_ref \<Rightarrow> cstring option"
where
  abs_null: "json_abs str (Value 0 n NoData) TNull"
| abs_boolean: "json_abs str (Value 1 n (DataBoolean b)) (TBool b)"
| abs_string: "str r = Some s \<Longrightarrow> json_abs str (Value 2 n (DataString r)) (TString s)"
| abs_integer: "flags v = flags (integer_value w neg) \<Longrightarrow> data v = DataWord w \<Longrightarrow>
    json_abs str v (TInt (int_of_word w neg))"
| abs_double: "json_abs str (Value 0x2003 n (DataWord w)) (TDouble w)"
| abs_array: "list_all2 (json_abs str) es ts \<Longrightarrow> json_abs str (Value 4 n (DataArray es)) (TArray ts)"
| abs_object: "list_all2 (\<lambda>m (name, t). Option.bind (member_name m) str = Some name \<and> json_abs str m t) ms ts \<Longrightarrow>
    json_abs str (Value 5 n (DataObject ms)) (TObject ts)"

definition render_ident :: "u32 \<Rightarrow> nat \<Rightarrow> u8 list" where
  "render_ident f i =
     (if f AND NDM_JSON_PRINT_FLAGS_COMPACT = 0
      then (if f AND NDM_JSON_PRINT_FLAGS_CRLF \<noteq> 0 then [13, 10] else [10]) @ replicate i 32 else [])"

definition render_char :: "u8 \<Rightarrow> u8 list" where
  "render_char c =
     (let e = PRINT_ESCAPE c in
      if e = 0 then [c] else if e \<noteq> 117 then [92, e]
      else [92, 117, 48, 48, HEX_DIGIT_CHAR (drop_bit 4 c AND 0x0f), HEX_DIGIT_CHAR (c AND 0x0f)])"

definition render_string :: "cstring \<Rightarrow> u8 list" where
  "render_string s = [34] @ concat (map render_char s) @ [34]"

fun comma_separated :: "u8 list list \<Rightarrow> u8 list" where
  "comma_separated [] = []"
| "comma_separated [x] = x"
| "comma_separated (x # y # xs) = x @ [44] @ comma_separated (y # xs)"

fun render :: "(u64 \<Rightarrow> cstring) \<Rightarrow> u32 \<Rightarrow> nat \<Rightarrow> json_tree \<Rightarrow> u8 list" where
  "render fmt f i TNull = [110, 117, 108, 108]"
| "render fmt f i (TBool b) = (if b then [116, 114, 117, 101] else [102, 97, 108, 115, 101])"
| "render fmt f i (TString s) = render_string s"
| "render fmt f i (TInt n) = print_int n"
| "render fmt f i (TDouble w) = fmt w"
| "render fmt f i (TArray ts) =
     [91] @ comma_separated (map (\<lambda>t. render_ident f (i + 2) @ render fmt f (i + 2) t) ts) @
     render_ident f i @ [93]"
| "render fmt f i (TObject ms) =
     [123] @ comma_separated (map (\<lambda>m. render_ident f (i + 2) @ render_string (fst m) @ [58] @
       (if f AND NDM_JSON_PRINT_FLAGS_COMPACT = 0 then [32] else []) @ render fmt f (i + 2) (snd m)) ms) @
     render_ident f i @ [125]"

end
