(* ===== verification/Json_Render.thy ===== *)
theory Json_Render
  imports Json_Print
begin

text \<open>
  The printer implements \<open>render\<close>: whatever the allocator answers, the block it hands
  out is the text of the tree with its terminator, or there is none.
\<close>

section \<open>Emitting text\<close>

definition pr_inv :: "json_print \<Rightarrow> bool" where
  "pr_inv ctx \<longleftrightarrow> length (pr_buffer ctx) < NDM_JSON_PRINT_BUFSIZE \<and> pr_size ctx \<le> length (pr_block ctx)"

definition pr_text :: "json_print \<Rightarrow> u8 list" where
  "pr_text ctx = take (pr_size ctx) (pr_block ctx) @ pr_buffer ctx"

definition emits :: "json_print \<Rightarrow> u8 list \<Rightarrow> json_print \<Rightarrow> bool" where
  "emits ctx out ctx' \<longleftrightarrow> pr_inv ctx' \<and> pr_flags ctx' = pr_flags ctx \<and> pr_ident ctx' = pr_ident ctx \<and>
     (pr_ok ctx' \<longrightarrow> pr_ok ctx \<and> pr_text ctx' = pr_text ctx @ out) \<and>
     (no_failure (pr_heap ctx) \<longrightarrow> no_failure (pr_heap ctx') \<and> pr_ok ctx' = pr_ok ctx)"

definition prints :: "u32 \<Rightarrow> nat \<Rightarrow> (json_print \<Rightarrow> json_print option) \<Rightarrow> u8 list \<Rightarrow> bool" where
  "prints f i p out \<longleftrightarrow> (\<forall>ctx. pr_inv ctx \<longrightarrow> pr_flags ctx = f \<longrightarrow> pr_ident ctx = i \<longrightarrow>
     (\<exists>ctx'. p ctx = Some ctx' \<and> emits ctx out ctx'))"

lemma bufsize_pos: "0 < NDM_JSON_PRINT_BUFSIZE"
  by (simp add: NDM_JSON_PRINT_BUFSIZE_def)

lemma split_three:
  assumes "length T = a + b + c"
  obtains X Y Z where "T = X @ Y @ Z" "length X = a" "length Y = b" "length Z = c"
proof -
  have "T = take a T @ take b (drop a T) @ drop b (drop a T)" by (simp only: append_take_drop_id)
  from that [OF this] assms show ?thesis by simp
qed

lemma grow_block:
  assumes "n \<le> length block"
  shows "Option.bind (mem_write (resize_block h block (n + length buf + length new + 1)) n buf)
      (\<lambda>blk. Option.bind (mem_write blk (n + length buf) new)
        (\<lambda>blk. map_option g (mem_write blk (n + length buf + length new) [0]))) =
    Some (g (take n block @ buf @ new @ [0]))"
proof -
  let ?r = "resize_block h block (n + length buf + length new + 1)"
  have "length (drop n ?r) = length buf + length new + 1" by simp
  then obtain X Y Z where T: "drop n ?r = X @ Y @ Z" "length X = length buf" "length Y = length new" "length Z = 1"
    by (rule split_three)
  have "take n ?r = take n block" using assms by (simp add: resize_block_def)
  then have r: "?r = take n block @ X @ Y @ Z" using T(1) by (metis append_take_drop_id)
  have ln: "length (take n block) = n" using assms by simp
  have 1: "mem_write (take n block @ X @ Y @ Z) n buf = Some (take n block @ buf @ Y @ Z)"
    by (rule mem_write_at) (use ln T in simp_all)
  have 2: "mem_write ((take n block @ buf) @ Y @ Z) (n + length buf) new = Some ((take n block @ buf) @ new @ Z)"
    by (rule mem_write_at) (use ln T in simp_all)
  have 3: "mem_write ((take n block @ buf @ new) @ Z @ []) (n + length buf + length new) [0] =
      Some ((take n block @ buf @ new) @ [0] @ [])"
    by (rule mem_write_at) (use ln T in simp_all)
  show ?thesis unfolding r 1 using 2 3 by simp
qed

lemma print_grow_emits:
  assumes "pr_size ctx \<le> length (pr_block ctx)"
  shows "\<exists>ctx'. print_grow ctx new = Some ctx' \<and> emits ctx new ctx' \<and> pr_buffer ctx' = [] \<and>
    (pr_ok ctx' \<longrightarrow> pr_block ctx' = pr_text ctx @ new @ [0] \<and> pr_size ctx' = length (pr_text ctx @ new))"
proof (cases "can_alloc (pr_heap ctx)")
  case False
  then have "\<not> no_failure (pr_heap ctx)" using no_failure_can_alloc by blast
  with False assms show ?thesis
    using bufsize_pos by (simp add: print_grow_def Let_def emits_def pr_inv_def)
next
  case True
  have "print_grow ctx new = Some (ctx\<lparr>pr_buffer := [], pr_heap := heap_next (pr_heap ctx),
      pr_block := take (pr_size ctx) (pr_block ctx) @ pr_buffer ctx @ new @ [0],
      pr_size := pr_size ctx + length (pr_buffer ctx) + length new\<rparr>)"
    unfolding print_grow_def Let_def grow_block [OF assms] using True by simp
  then show ?thesis
    using assms bufsize_pos by (simp add: emits_def pr_inv_def pr_text_def heap_simps)
qed

lemma prints_data: "prints f i (\<lambda>ctx. ndm_json_print_data ctx bs) bs"
proof -
  have "\<exists>ctx'. ndm_json_print_data ctx bs = Some ctx' \<and> emits ctx bs ctx'" if inv: "pr_inv ctx" for ctx
  proof (cases "length bs < NDM_JSON_PRINT_BUFSIZE - length (pr_buffer ctx)")
    case True
    then show ?thesis using inv by (simp add: ndm_json_print_data_def emits_def pr_inv_def pr_text_def)
  next
    case False
    then show ?thesis
      using inv print_grow_emits [of ctx bs] by (auto simp: ndm_json_print_data_def pr_inv_def)
  qed
  then show ?thesis by (simp add: prints_def)
qed

lemma fill_data: "ndm_json_print_fill ctx c n = ndm_json_print_data ctx (replicate n c)"
  by (simp add: ndm_json_print_fill_def ndm_json_print_data_def)

lemma prints_fill: "prints f i (\<lambda>ctx. ndm_json_print_fill ctx c n) (replicate n c)"
  unfolding fill_data by (rule prints_data)

lemma prints_char: "prints f i (\<lambda>ctx. ndm_json_print_char ctx c) [c]"
proof -
  have "\<exists>ctx'. ndm_json_print_char ctx c = Some ctx' \<and> emits ctx [c] ctx'" if inv: "pr_inv ctx" for ctx
  proof (cases "length (pr_buffer ctx) + 1 = NDM_JSON_PRINT_BUFSIZE")
    case False
    then show ?thesis using inv by (simp add: ndm_json_print_char_def Let_def emits_def pr_inv_def pr_text_def)
  next
    case True
    let ?ctx = "ctx\<lparr>pr_buffer := pr_buffer ctx @ [c]\<rparr>"
    have "pr_size ?ctx \<le> length (pr_block ?ctx)" using inv by (simp add: pr_inv_def)
    from print_grow_emits [OF this, of "[]"] True show ?thesis
      using inv by (auto simp: ndm_json_print_char_def ndm_json_print_flush_def Let_def emits_def pr_inv_def pr_text_def)
  qed
  then show ?thesis by (simp add: prints_def)
qed

lemma emits_trans: "emits a x b \<Longrightarrow> emits b y c \<Longrightarrow> emits a (x @ y) c"
  by (auto simp: emits_def)

lemma prints_bind:
  assumes "prints f i p x" and "prints f i q y"
  shows "prints f i (\<lambda>ctx. Option.bind (p ctx) q) (x @ y)"
  unfolding prints_def
proof (intro allI impI)
  fix ctx assume ctx: "pr_inv ctx" "pr_flags ctx = f" "pr_ident ctx = i"
  obtain c1 where c1: "p ctx = Some c1" "emits ctx x c1" using assms(1) ctx unfolding prints_def by blast
  then have "pr_inv c1" "pr_flags c1 = f" "pr_ident c1 = i" using ctx by (simp_all add: emits_def)
  then obtain c2 where c2: "q c1 = Some c2" "emits c1 y c2" using assms(2) unfolding prints_def by blast
  show "\<exists>ctx'. Option.bind (p ctx) q = Some ctx' \<and> emits ctx (x @ y) ctx'"
    using c1 c2 emits_trans by (auto intro!: exI [of _ c2])
qed

lemma prints_none: "prints f i Some []"
  by (simp add: prints_def emits_def)

lemma prints_ident: "prints f i ndm_json_print_ident (render_ident f i)"
proof -
  let ?nl = "if f AND NDM_JSON_PRINT_FLAGS_CRLF \<noteq> 0 then [13, 10] else [10 :: u8]"
  have nl: "prints f i (\<lambda>ctx. if pr_flags ctx AND NDM_JSON_PRINT_FLAGS_CRLF \<noteq> 0
      then ndm_json_print_data ctx [13, 10] else ndm_json_print_char ctx 10) ?nl"
    using prints_data [of f i "[13, 10]"] prints_char [of f i 10] by (simp add: prints_def)
  have fill: "prints f i (\<lambda>ctx. ndm_json_print_fill ctx 32 (pr_ident ctx)) (replicate i 32)"
    using prints_fill [of f i 32 i] by (simp add: prints_def)
  show ?thesis
    using prints_bind [OF nl fill] prints_none [of f i]
    unfolding prints_def ndm_json_print_ident_def render_ident_def by simp
qed

lemma prints_render_char:
  "prints f i (\<lambda>ctx. let e = PRINT_ESCAPE c in
     if e \<noteq> 0 then
       if e \<noteq> 117 then ndm_json_print_data ctx [92, e]
       else ndm_json_print_data ctx
         [92, 117, 48, 48, HEX_DIGIT_CHAR (drop_bit 4 c AND 0x0f), HEX_DIGIT_CHAR (c AND 0x0f)]
     else ndm_json_print_char ctx c) (render_char c)"
  by (simp add: render_char_def Let_def prints_data prints_char)

lemma prints_chars: "prints f i (\<lambda>ctx. print_string_chars ctx s) (concat (map render_char s))"
proof (induction s)
  case Nil
  then show ?case using prints_none by (simp add: prints_def)
next
  case (Cons c s)
  show ?case using prints_bind [OF prints_render_char Cons.IH] by (simp add: Let_def)
qed

lemma prints_string: "prints f i (\<lambda>ctx. ndm_json_print_string ctx s) (render_string s)"
  unfolding ndm_json_print_string_def render_string_def
  by (intro prints_bind prints_char prints_chars)

section \<open>Printing a value\<close>

lemma prints_indented:
  assumes "prints f (i + 2) p x"
  shows "prints f i (\<lambda>ctx. map_option ident_back (p (ident_step ctx))) x"
  unfolding prints_def
proof (intro allI impI)
  fix ctx assume ctx: "pr_inv ctx" "pr_flags ctx = f" "pr_ident ctx = i"
  then have "pr_inv (ident_step ctx)" "pr_flags (ident_step ctx) = f" "pr_ident (ident_step ctx) = i + 2"
    by (simp_all add: ident_step_def pr_inv_def NDM_JSON_PRINT_IDENT_STEP_def)
  then obtain c where c: "p (ident_step ctx) = Some c" "emits (ident_step ctx) x c"
    using assms unfolding prints_def by blast
  then have "emits ctx x (ident_back c)" using ctx
    by (simp add: emits_def ident_step_def ident_back_def pr_inv_def pr_text_def NDM_JSON_PRINT_IDENT_STEP_def)
  with c(1) show "\<exists>ctx'. map_option ident_back (p (ident_step ctx)) = Some ctx' \<and> emits ctx x ctx'" by simp
qed

lemma prints_brackets:
  assumes "prints f (i + 2) p x"
  shows "prints f i (\<lambda>ctx. Option.bind (ndm_json_print_char ctx a) (\<lambda>ctx.
      Option.bind (p (ident_step ctx)) (\<lambda>ctx. Option.bind (ndm_json_print_ident (ident_back ctx)) (\<lambda>ctx.
      ndm_json_print_char ctx b)))) ([a] @ x @ render_ident f i @ [b])"
proof -
  have eq: "Option.bind o1 (\<lambda>ctx. Option.bind (ndm_json_print_ident (ident_back ctx)) k) =
      Option.bind (map_option ident_back o1) (\<lambda>ctx. Option.bind (ndm_json_print_ident ctx) k)"
    for o1 :: "json_print option" and k :: "json_print \<Rightarrow> json_print option"
    by (cases o1) simp_all
  show ?thesis
    unfolding eq
    by (intro prints_bind prints_char prints_indented assms prints_ident)
qed

text \<open>A failed context is passed on as it is, so a loop may stop at it.\<close>

lemma prints_if_ok: "prints f i p x \<Longrightarrow> prints f i (\<lambda>ctx. if \<not> pr_ok ctx then Some ctx else p ctx) x"
  by (auto simp: prints_def emits_def)

lemma comma_separated_Cons:
  "comma_separated (x # xs) = x @ (if xs = [] then [] else [44]) @ comma_separated xs"
  by (cases xs) simp_all

lemma prints_comma: "prints f i (\<lambda>ctx. if xs = [] then Some ctx else ndm_json_print_char ctx 44)
    (if xs = [] then [] else [44])"
  using prints_none [of f i] prints_char [of f i 44] by (simp add: prints_def)

lemma prints_space: "prints f i (\<lambda>ctx. if pr_flags ctx AND NDM_JSON_PRINT_FLAGS_COMPACT = 0
      then ndm_json_print_char ctx 32 else Some ctx) (if f AND NDM_JSON_PRINT_FLAGS_COMPACT = 0 then [32] else [])"
  using prints_none [of f i] prints_char [of f i 32] by (simp add: prints_def)

definition fmt_ok :: "(u64 \<Rightarrow> cstring) \<Rightarrow> bool" where
  "fmt_ok fmt \<longleftrightarrow> (\<forall>w. 0 < length (fmt w) \<and> length (fmt w) < NDM_JSON_DOUBLE_BUFSIZE)"

lemma type_of_integer:
  "NDM_JSON_TYPE (flags (integer_value w neg)) = NDM_JSON_TYPE_NUMBER"
  using integer_value_flags(1) [of w neg] by (simp add: ndm_json_value_is_number_def)

lemma prints_integer:
  assumes v: "flags v = flags (integer_value w neg)" "data v = DataWord w"
  shows "prints f i (\<lambda>ctx. ndm_json_print_value str fmt ctx v) (print_int (int_of_word w neg))"
proof -
  obtain n where val: "v = Value (flags (integer_value w neg)) n (DataWord w)"
    using v by (cases v) auto
  let ?i = "int_of_word w neg"
  note flg = integer_value_flags [of w neg]
  have ll: "ndm_json_value_is_llong v = ndm_json_value_is_llong (integer_value w neg)"
    "ndm_json_value_is_ullong v = ndm_json_value_is_ullong (integer_value w neg)"
    "data_word v = Some w"
    by (simp_all add: val ndm_json_value_is_llong_def ndm_json_value_is_ullong_def ndm_json_value_is_number_def data_word_def)
  have other: "\<not> ndm_json_value_is_object v" "\<not> ndm_json_value_is_array v" "\<not> ndm_json_value_is_string v"
    "\<not> ndm_json_value_is_null v" "\<not> ndm_json_value_is_true v" "\<not> ndm_json_value_is_false v"
    using type_of_integer [of w neg]
    by (simp_all add: val json_type_defs ndm_json_value_is_true_def ndm_json_value_is_false_def
        NDM_JSON_TYPE_OBJECT_def NDM_JSON_TYPE_ARRAY_def NDM_JSON_TYPE_STRING_def NDM_JSON_TYPE_NULL_def
        NDM_JSON_TYPE_BOOLEAN_def NDM_JSON_TYPE_NUMBER_def)
  have range: "- (2 ^ 63) \<le> sint w" "sint w < 2 ^ 63" "0 \<le> uint w" "uint w < 2 ^ 64"
    using sint_ge [of w] sint_lt [of w] uint_lt2p [of w] by simp_all
  have len: "0 < length (print_int (sint w))" "length (print_int (sint w)) < NDM_INT_BUFSIZE"
    "0 < length (print_int (uint w))" "length (print_int (uint w)) < NDM_INT_BUFSIZE"
    using print_int_length [of "sint w"] print_int_length [of "uint w"] range by simp_all
  have eq: "?i < 2 ^ 63 \<Longrightarrow> sint w = ?i" "\<not> ?i < 2 ^ 63 \<Longrightarrow> 0 \<le> ?i \<and> uint w = ?i"
    using sint_unat [of w] range by (auto simp: int_of_word_def split: if_splits)
  have "ndm_json_print_value str fmt ctx v = ndm_json_print_data ctx (print_int ?i)" for ctx
  proof (cases "?i < 2 ^ 63")
    case True
    then have "ndm_json_value_is_llong v" using ll(1) flg(11) by simp
    then show ?thesis
      using eq(1) [OF True] len(1,2) other ll(3) unfolding val
      by (simp add: ndm_json_print_value.simps Let_def ndm_json_value_llong_def)
  next
    case False
    then have "\<not> ndm_json_value_is_llong v" "ndm_json_value_is_ullong v" using ll flg(11,12) eq(2) by simp_all
    then show ?thesis
      using eq(2) [OF False] len(3,4) other ll(3) unfolding val
      by (simp add: ndm_json_print_value.simps Let_def ndm_json_value_ullong_def)
  qed
  then show ?thesis using prints_data by (simp add: prints_def)
qed

lemmas type_evals = json_type_defs NDM_JSON_TYPE_def NDM_JSON_TYPE_MASK_def NDM_JSON_TYPE_OBJECT_def
  NDM_JSON_TYPE_ARRAY_def NDM_JSON_TYPE_STRING_def NDM_JSON_TYPE_NULL_def NDM_JSON_TYPE_BOOLEAN_def
  NDM_JSON_TYPE_NUMBER_def ndm_json_value_is_true_def ndm_json_value_is_false_def ndm_json_value_boolean_def

lemma prints_value:
  assumes fmt: "fmt_ok fmt" and "json_abs str v t"
  shows "prints f i (\<lambda>ctx. ndm_json_print_value str fmt ctx v) (render fmt f i t)"
  using assms(2)
proof (induction arbitrary: i)
  case (abs_null n)
  then show ?case by (simp add: ndm_json_print_value.simps Let_def type_evals prints_data)
next
  case (abs_boolean n b)
  then show ?case by (cases b) (simp_all add: ndm_json_print_value.simps Let_def type_evals prints_data)
next
  case (abs_string r s n)
  then show ?case
    by (simp add: ndm_json_print_value.simps Let_def type_evals ndm_json_value_string_def prints_string)
next
  case (abs_integer v w neg)
  then show ?case using prints_integer by simp
next
  case (abs_double n w)
  then show ?case
    using fmt by (simp add: ndm_json_print_value.simps Let_def type_evals ndm_json_value_double_def data_word_def
        ndm_json_value_is_llong_def ndm_json_value_is_ullong_def ndm_json_value_is_double_def
        NDM_JSON_NUMBER_IS_LLONG_def NDM_JSON_NUMBER_IS_ULLONG_def NDM_JSON_NUMBER_IS_DOUBLE_def
        prints_data fmt_ok_def)
next
  case (abs_array es ts n)
  have "prints f (i + 2) (\<lambda>ctx. print_elements str fmt ctx es)
      (comma_separated (map (\<lambda>t. render_ident f (i + 2) @ render fmt f (i + 2) t) ts))"
    using abs_array
  proof (induction es ts rule: list_all2_induct)
    case Nil
    then show ?case using prints_none by (simp add: prints_def)
  next
    case (Cons e es t ts)
    have nil: "(map (\<lambda>t. render_ident f (i + 2) @ render fmt f (i + 2) t) ts = []) = (es = [])"
      using Cons(2) by (auto dest: list_all2_lengthD)
    show ?case
      unfolding print_elements.simps list.map comma_separated_Cons nil append_assoc
      by (intro prints_if_ok prints_bind prints_ident prints_comma Cons.IH) (use Cons(1) in blast)
  qed
  from prints_brackets [OF this, of 91 93] show ?case
    by (simp add: ndm_json_print_value.simps Let_def type_evals)
next
  case (abs_object ms ts n)
  have "prints f (i + 2) (\<lambda>ctx. print_members str fmt ctx ms)
      (comma_separated (map (\<lambda>m. render_ident f (i + 2) @ render_string (fst m) @ [58] @
       (if f AND NDM_JSON_PRINT_FLAGS_COMPACT = 0 then [32] else []) @ render fmt f (i + 2) (snd m)) ts))"
    using abs_object
  proof (induction ms ts rule: list_all2_induct)
    case Nil
    then show ?case using prints_none by (simp add: prints_def)
  next
    case (Cons m ms t ts)
    obtain name u where t: "t = (name, u)" by fastforce
    have m: "Option.bind (member_name m) str = Some name"
      "prints f (i + 2) (\<lambda>ctx. ndm_json_print_value str fmt ctx m) (render fmt f (i + 2) u)"
      using Cons(1) by (auto simp: t)
    have nil: "(map (\<lambda>m. render_ident f (i + 2) @ render_string (fst m) @ [58] @
       (if f AND NDM_JSON_PRINT_FLAGS_COMPACT = 0 then [32] else []) @ render fmt f (i + 2) (snd m)) ts = []) = (ms = [])"
      using Cons(2) by (auto dest: list_all2_lengthD)
    show ?case
      unfolding print_members.simps list.map comma_separated_Cons nil append_assoc t fst_conv snd_conv m(1)
        Option.bind.bind_lunit
      by (intro prints_if_ok prints_bind prints_ident prints_string prints_char prints_space prints_comma Cons.IH m(2))
  qed
  from prints_brackets [OF this, of 123 125] show ?case
    by (simp add: ndm_json_print_value.simps Let_def type_evals)
qed

lemma print_done:
  assumes "emits (ndm_json_print_init heap f) out ctx"
  shows "\<exists>r. ndm_json_print_done ctx = Some r \<and> (r = (None, 0) \<or> r = (Some (out @ [0]), length out)) \<and>
    (no_failure heap \<longrightarrow> r = (Some (out @ [0]), length out))"
proof -
  have inv: "pr_inv ctx" and contents: "pr_ok ctx \<longrightarrow> pr_text ctx = out"
    and nf: "no_failure heap \<longrightarrow> no_failure (pr_heap ctx) \<and> pr_ok ctx"
    using assms by (auto simp: emits_def ndm_json_print_init_def pr_text_def)
  then have "pr_size ctx \<le> length (pr_block ctx)" by (simp add: pr_inv_def)
  from print_grow_emits [OF this, of "[]"] obtain c where c: "ndm_json_print_flush ctx = Some c"
    "emits ctx [] c" "pr_ok c \<longrightarrow> pr_block c = pr_text ctx @ [0] \<and> pr_size c = length (pr_text ctx)"
    by (auto simp: ndm_json_print_flush_def)
  show ?thesis
    using c contents nf by (auto simp: ndm_json_print_done_def emits_def)
qed

lemma array_print_text:
  assumes "fmt_ok fmt" and "list_all2 (json_abs str) es ts"
  shows "\<exists>r. ndm_json_array_print str fmt heap es f = Some r \<and>
    (r = (None, 0) \<or> r = (Some (render fmt f 0 (TArray ts) @ [0]), length (render fmt f 0 (TArray ts)))) \<and>
    (no_failure heap \<longrightarrow> r = (Some (render fmt f 0 (TArray ts) @ [0]), length (render fmt f 0 (TArray ts))))"
proof -
  let ?v = "Value 4 None (DataArray es)" and ?init = "ndm_json_print_init heap f"
  have "json_abs str ?v (TArray ts)" by (rule abs_array [OF assms(2)])
  from prints_value [OF assms(1) this, of f 0]
  have "prints f 0 (\<lambda>ctx. ndm_json_print_array str fmt ctx es) (render fmt f 0 (TArray ts))"
    by (simp add: ndm_json_print_value.simps Let_def type_evals)
  moreover have "pr_inv ?init" "pr_flags ?init = f" "pr_ident ?init = 0"
    using bufsize_pos by (simp_all add: pr_inv_def ndm_json_print_init_def)
  ultimately obtain ctx where ctx: "ndm_json_print_array str fmt ?init es = Some ctx"
      "emits ?init (render fmt f 0 (TArray ts)) ctx"
    unfolding prints_def by blast
  have "ndm_json_array_print str fmt heap es f = ndm_json_print_done ctx"
    by (simp only: ndm_json_array_print_def ctx(1) Option.bind.bind_lunit)
  with print_done [OF ctx(2)] show ?thesis by metis
qed

section \<open>Properties\<close>

text \<open>
  C3: printing an array or object never writes outside its buffers and
  meets no failed assertion; it hands out the text of the tree, terminated, with its
  length, and \<open>NULL\<close> with length 0 at most when an allocation failed: never a truncated
  text.
\<close>
theorem json_print_text:
  assumes "fmt_ok fmt" and "list_all2 (json_abs str) es ts"
  shows "\<exists>r. ndm_json_array_print str fmt heap es f = Some r \<and>
    (r = (None, 0) \<or> r = (Some (render fmt f 0 (TArray ts) @ [0]), length (render fmt f 0 (TArray ts)))) \<and>
    (no_failure heap \<longrightarrow> r = (Some (render fmt f 0 (TArray ts) @ [0]), length (render fmt f 0 (TArray ts))))"
  by (rule array_print_text [OF assms])

theorem json_print_text_witness:
  "\<exists>r. ndm_json_array_print (\<lambda>_. Some [97, 10]) (\<lambda>_. [48]) \<lparr>answers = \<lambda>_. True, garbage = \<lambda>_. 0\<rparr>
      [Value 2 None (DataString (InText 0)), Value 0 None NoData] 1 = Some r \<and>
    (r = (None, 0) \<or> r = (Some (render (\<lambda>_. [48]) 1 0 (TArray [TString [97, 10], TNull]) @ [0]),
      length (render (\<lambda>_. [48]) 1 0 (TArray [TString [97, 10], TNull])))) \<and>
    (no_failure \<lparr>answers = \<lambda>_. True, garbage = \<lambda>_. 0\<rparr> \<longrightarrow>
      r = (Some (render (\<lambda>_. [48]) 1 0 (TArray [TString [97, 10], TNull]) @ [0]),
      length (render (\<lambda>_. [48]) 1 0 (TArray [TString [97, 10], TNull]))))"
  by (rule json_print_text)
    (simp_all add: fmt_ok_def NDM_JSON_DOUBLE_BUFSIZE_def NDM_INT_MAX_BUFSIZE_def NDM_INT_MAX_STRLEN_def
      abs_string abs_null)

end
