(* ===== verification/Json_Scan.thy ===== *)
theory Json_Scan
  imports Json_Safe Json_Render
begin

text \<open>
  The parser on text that is known: white space, strings and numbers as the printer
  writes them are scanned to their end and give what was printed.
\<close>

section \<open>Scanning known text\<close>

abbreviation at :: "ndm_pool_t \<Rightarrow> u8 list \<Rightarrow> nat \<Rightarrow> json_ctx" where
  "at pool buf pos \<equiv> \<lparr>ctx_pool = pool, ctx_text = buf, ctx_json = pos\<rparr>"

lemma whitespaces_at:
  assumes "list_all is_json_space w" "rest \<noteq> []" "\<not> is_json_space (hd rest)" "pos = length pre"
  shows "ndm_json_parse_whitespaces (at pool (pre @ w @ rest) pos) =
    Some (at pool (pre @ w @ rest) (pos + length w))"
  by (simp add: ndm_json_parse_whitespaces_def skip_while_at [OF assms])

lemma render_ident_space: "list_all is_json_space (render_ident f i)"
  by (auto simp: render_ident_def is_json_space_def list_all_iff)

section \<open>Strings\<close>

lemma hex_char_value: "d < 16 \<Longrightarrow> HEX_DIGITS (HEX_DIGIT_CHAR d) = d"
proof -
  assume "d < 16"
  then have "unat d < 16" by (simp add: word_less_nat_alt)
  then have "unat d \<in> set [0..<16]" by simp
  moreover have "\<forall>n \<in> set [0..<16]. HEX_DIGITS (HEX_DIGIT_CHAR (of_nat n)) = of_nat n" by code_simp
  ultimately have "HEX_DIGITS (HEX_DIGIT_CHAR (of_nat (unat d))) = of_nat (unat d)" by blast
  then show ?thesis by simp
qed

lemma control_char_codepoint:
  "c < 32 \<Longrightarrow> push_bit 4 (ucast (drop_bit 4 c AND 0x0f :: u8) :: u32) + ucast (c AND 0x0f) = ucast c"
proof -
  assume "c < 32"
  then have "unat c \<in> set [0..<32]" by (simp add: word_less_nat_alt)
  moreover have "\<forall>n \<in> set [0..<32].
      push_bit 4 (ucast (drop_bit 4 (of_nat n) AND 0x0f :: u8) :: u32) + ucast (of_nat n AND 0x0f :: u8) =
      ucast (of_nat n :: u8)" by code_simp
  ultimately have "push_bit 4 (ucast (drop_bit 4 (of_nat (unat c)) AND 0x0f :: u8) :: u32) +
      ucast (of_nat (unat c) AND 0x0f :: u8) = ucast (of_nat (unat c) :: u8)" by blast
  then show ?thesis by simp
qed

lemma escape_inverse: "PRINT_ESCAPE c \<noteq> 0 \<Longrightarrow> PRINT_ESCAPE c \<noteq> 117 \<Longrightarrow> c \<noteq> 0 \<Longrightarrow> PARSE_ESCAPE (PRINT_ESCAPE c) = c"
  by (auto simp: PRINT_ESCAPE_def PARSE_ESCAPE_def split: if_splits)

lemma nibble_less: "(x :: u8) AND 0x0f < 16"
proof -
  have "x AND 0x0f \<le> 0x0f" by (simp add: word_and_le1)
  then show ?thesis by (simp add: word_le_nat_alt word_less_nat_alt)
qed

lemma codepoint_at:
  assumes c: "c < 32" and pos: "pos = length pre"
  shows "parse_codepoint (pre @ [48, 48, HEX_DIGIT_CHAR (drop_bit 4 c AND 0x0f), HEX_DIGIT_CHAR (c AND 0x0f)] @ rest) pos
    = Some (NDM_JSON_PARSE_ERROR_OK, ucast c, pos + 4)"
proof -
  let ?h = "HEX_DIGIT_CHAR (drop_bit 4 c AND 0x0f)" and ?l = "HEX_DIGIT_CHAR (c AND 0x0f)"
  let ?buf = "pre @ [48, 48, ?h, ?l] @ rest"
  have p: "peek ?buf pos = Some 48" "peek ?buf (pos + 1) = Some 48" "peek ?buf (pos + 1 + 1) = Some ?h"
    "peek ?buf (pos + 1 + 1 + 1) = Some ?l"
    using pos by (simp_all add: peek_def nth_append)
  have z: "HEX_DIGITS 48 = 0" by (simp add: HEX_DIGITS_def)
  have h: "HEX_DIGITS ?h = drop_bit 4 c AND 0x0f" "HEX_DIGITS ?l = c AND 0x0f"
    by (rule hex_char_value [OF nibble_less])+
  have le: "\<not> drop_bit 4 c AND 0x0f > 0x0f" "\<not> c AND 0x0f > (0x0f :: u8)"
    using word_and_le1 by (simp_all add: not_less)
  have "hex4_loop 4 ?buf pos 0 = Some (NDM_JSON_PARSE_ERROR_OK, ucast c, pos + 4)"
    using p z h le control_char_codepoint [OF c] by (simp add: numeral_eq_Suc Let_def)
  moreover have "\<not> 0xd800 \<le> (ucast c :: u32)"
  proof -
    have "unat (ucast c :: u32) < 256" using unsigned_less [of c, where 'a = nat] by (simp add: unat_ucast_up)
    then show ?thesis by (simp add: word_le_nat_alt)
  qed
  ultimately show ?thesis by (simp add: parse_codepoint_def ndm_json_parse_hex4_def)
qed

lemma render_char_not_Nil: "render_char c \<noteq> []"
  by (simp add: render_char_def Let_def)

lemma string_loop_char:
  assumes c: "c \<noteq> 0" and pos: "pos = length pre"
  shows "string_loop (pre @ render_char c @ rest) pos out =
    (case mem_write (pre @ render_char c @ rest) out [c] of None \<Rightarrow> None
     | Some buf \<Rightarrow> string_loop buf (pos + length (render_char c)) (out + 1))"
proof (cases "PRINT_ESCAPE c = 0")
  case True
  then have plain: "c \<noteq> 92" "c \<noteq> 34" "\<not> c < 32" "render_char c = [c]"
    by (auto simp: PRINT_ESCAPE_def render_char_def split: if_splits)
  then show ?thesis
    using c pos by (subst string_loop.simps) (simp add: peek_Cons split: option.split)
next
  case esc: False
  show ?thesis
  proof (cases "PRINT_ESCAPE c = 117")
    case False
    let ?e = "PRINT_ESCAPE c"
    have r: "render_char c = [92, ?e]" using esc False by (simp add: render_char_def Let_def)
    have pk: "peek (pre @ 92 # ?e # rest) pos = Some 92" "peek (pre @ 92 # ?e # rest) (Suc pos) = Some ?e"
      using peek_Cons [of pos pre 92] peek_Cons [of "Suc pos" "pre @ [92]" ?e rest] pos by simp_all
    show ?thesis
      using pk esc False c escape_inverse [of c] unfolding r
      by (subst string_loop.simps) (simp add: Let_def split: option.split)
  next
    case True
    then have lt: "c < 32" by (auto simp: PRINT_ESCAPE_def split: if_splits)
    let ?h = "HEX_DIGIT_CHAR (drop_bit 4 c AND 0x0f)" and ?l = "HEX_DIGIT_CHAR (c AND 0x0f)"
    have r: "render_char c = [92, 117, 48, 48, ?h, ?l]" using True by (simp add: render_char_def Let_def)
    let ?buf = "pre @ [92, 117, 48, 48, ?h, ?l] @ rest"
    have pk: "peek ?buf pos = Some 92" "peek ?buf (pos + 1) = Some 117"
      using pos by (simp_all add: peek_def nth_append)
    have cp: "parse_codepoint ?buf (pos + 2) = Some (NDM_JSON_PARSE_ERROR_OK, ucast c, pos + 6)"
      using codepoint_at [OF lt, of "pos + 2" "pre @ [92, 117]" rest] pos by simp
    have "unat (ucast c :: u32) < 128" using lt by (simp add: unat_ucast_up word_less_nat_alt)
    moreover have "(ucast (ucast c :: u32) :: u8) = c" by (rule bit_word_eqI) (simp add: bit_simps)
    ultimately have u8: "utf8_bytes (ucast c) = [c]"
      by (simp add: utf8_bytes_def word_less_nat_alt)
    have e0: "PARSE_ESCAPE 117 = 0" by (simp add: PARSE_ESCAPE_def)
    show ?thesis
      unfolding r string_loop.simps [of ?buf pos out] pk option.case
      using cp u8 e0 by (simp add: Let_def numeral_eq_Suc split: option.split)
  qed
qed

lemma string_loop_at:
  assumes "0 \<notin> set s"
  shows "\<exists>J. string_loop (pre @ dec @ junk @ concat (map render_char s) @ [34] @ rest)
      (length (pre @ dec @ junk)) (length (pre @ dec)) =
    Some (NDM_JSON_PARSE_ERROR_OK, pre @ dec @ s @ [0] @ J @ rest,
      length (pre @ dec @ junk @ concat (map render_char s)) + 1) \<and>
    length (dec @ s @ [0] @ J) = length (dec @ junk @ concat (map render_char s) @ [34])"
  using assms
proof (induction s arbitrary: dec junk)
  case Nil
  let ?buf = "(pre @ dec) @ junk @ 34 # rest" and ?pos = "length (pre @ dec @ junk)"
  have pk: "peek ?buf ?pos = Some 34" using peek_Cons [of ?pos "pre @ dec @ junk" 34 rest] by simp
  obtain a J where J: "junk @ [34] = a # J" by (cases "junk @ [34]") auto
  have blk: "?buf = (pre @ dec) @ [a] @ J @ rest" using arg_cong [OF J, of "\<lambda>x. x @ rest"] by simp
  have w: "mem_write ?buf (length (pre @ dec)) [0] = Some ((pre @ dec) @ [0] @ J @ rest)"
    unfolding blk by (rule mem_write_at) simp_all
  have "string_loop ?buf ?pos (length (pre @ dec)) =
      Some (NDM_JSON_PARSE_ERROR_OK, (pre @ dec) @ [0] @ J @ rest, ?pos + 1)"
    unfolding string_loop.simps [of ?buf ?pos] pk option.case using w by simp
  moreover have "length (a # J) = length (junk @ [34])" by (simp only: J)
  ultimately show ?case by (intro exI [of _ J]) simp
next
  case (Cons c s)
  let ?R = "concat (map render_char s) @ [34] @ rest"
  let ?pos = "length (pre @ dec @ junk)"
  let ?buf = "(pre @ dec @ junk) @ render_char c @ ?R"
  obtain a J where J: "junk @ render_char c = a # J"
    using render_char_not_Nil by (cases "junk @ render_char c") auto
  have blk: "?buf = (pre @ dec) @ [a] @ J @ ?R" using arg_cong [OF J, of "\<lambda>x. x @ ?R"] by simp
  have w: "mem_write ?buf (length (pre @ dec)) [c] = Some ((pre @ dec) @ [c] @ J @ ?R)"
    unfolding blk by (rule mem_write_at) simp_all
  have lenJ: "Suc (length J) = length junk + length (render_char c)"
    using arg_cong [OF J, of length] by simp
  have step: "string_loop ?buf ?pos (length (pre @ dec)) =
      string_loop ((pre @ dec) @ [c] @ J @ ?R) (?pos + length (render_char c)) (length (pre @ dec) + 1)"
    using string_loop_char [of c ?pos "pre @ dec @ junk" ?R "length (pre @ dec)"] Cons.prems w by simp
  obtain J' where ih: "string_loop (pre @ (dec @ [c]) @ J @ ?R) (length (pre @ (dec @ [c]) @ J))
      (length (pre @ dec @ [c])) = Some (NDM_JSON_PARSE_ERROR_OK, pre @ (dec @ [c]) @ s @ [0] @ J' @ rest,
        length (pre @ (dec @ [c]) @ J @ concat (map render_char s)) + 1)"
      "length ((dec @ [c]) @ s @ [0] @ J') = length ((dec @ [c]) @ J @ concat (map render_char s) @ [34])"
    using Cons.IH [of "dec @ [c]" J] Cons.prems by auto
  have p: "length (pre @ (dec @ [c]) @ J) = ?pos + length (render_char c)" using lenJ by simp
  show ?case
    using step ih lenJ unfolding p by (intro exI [of _ J']) (simp add: algebra_simps)
qed

text \<open>
  A printed string at the position: it is decoded in place, the pointer goes to its
  first character.
\<close>

lemma parse_string_at:
  assumes "0 \<notin> set s" and pos: "pos = length pre"
  shows "\<exists>J. ndm_json_parse_string (at pool (pre @ render_string s @ rest) pos) =
      Some (NDM_JSON_PARSE_ERROR_OK, at pool (pre @ (34 # s @ [0] @ J) @ rest) (pos + length (render_string s)),
        Some (InText (pos + 1))) \<and>
    length (34 # s @ [0] @ J) = length (render_string s)"
proof -
  obtain J where "string_loop ((pre @ [34]) @ concat (map render_char s) @ [34] @ rest) (length (pre @ [34]))
      (length (pre @ [34])) = Some (NDM_JSON_PARSE_ERROR_OK, (pre @ [34]) @ s @ [0] @ J @ rest,
        length ((pre @ [34]) @ concat (map render_char s)) + 1)"
      "length (s @ [0] @ J) = length (concat (map render_char s) @ [34])"
    using string_loop_at [OF assms(1), of "pre @ [34]" "[]" "[]" rest] by auto
  then show ?thesis
    by (intro exI [of _ J]) (simp add: ndm_json_parse_string_def Let_def render_string_def pos)
qed

section \<open>Allocation\<close>

definition pool_good :: "ndm_pool_t \<Rightarrow> bool" where
  "pool_good pool \<longleftrightarrow> is_valid pool \<and> no_failure (pool_sys pool)"

lemma alloc_good:
  assumes "pool_good pool"
  obtains pool' where "ndm_json_value_alloc type pool = (Some (Value (NDM_JSON_TYPE type) None NoData), pool')"
    "pool_good pool'"
proof -
  obtain p pool' where m: "ndm_pool_malloc pool sizeof_json_value = (Some p, pool')" "is_valid pool'"
      "no_failure (pool_sys pool')"
    using malloc_valid [of pool sizeof_json_value] assms by (auto simp: pool_good_def)
  then show ?thesis using that [of pool'] by (simp add: ndm_json_value_alloc_def pool_good_def)
qed

lemma type_consts:
  "NDM_JSON_TYPE NDM_JSON_TYPE_NULL = 0" "NDM_JSON_TYPE NDM_JSON_TYPE_BOOLEAN = 1"
  "NDM_JSON_TYPE NDM_JSON_TYPE_STRING = 2" "NDM_JSON_TYPE NDM_JSON_TYPE_NUMBER = 3"
  "NDM_JSON_TYPE NDM_JSON_TYPE_ARRAY = 4" "NDM_JSON_TYPE NDM_JSON_TYPE_OBJECT = 5"
  by (simp_all add: json_flag_defs)

lemma allocs_good:
  assumes "pool_good pool"
  shows "\<exists>pool'. ndm_json_value_alloc_null pool = (Some (Value 0 None NoData), pool') \<and> pool_good pool'"
    "\<exists>pool'. ndm_json_value_alloc_boolean b pool = (Some (Value 1 None (DataBoolean b)), pool') \<and> pool_good pool'"
    "\<exists>pool'. map_prod (map_option (with_data d)) id (ndm_json_value_alloc NDM_JSON_TYPE_STRING pool) =
        (Some (Value 2 None d), pool') \<and> pool_good pool'"
    "\<exists>pool'. ndm_json_value_alloc_llong w pool = (Some (integer_value w True), pool') \<and> pool_good pool'"
    "\<exists>pool'. ndm_json_value_alloc_ullong w pool = (Some (integer_value w False), pool') \<and> pool_good pool'"
    "\<exists>pool'. ndm_json_value_alloc_array pool = (Some (Value 4 None (DataArray [])), pool') \<and> pool_good pool'"
    "\<exists>pool'. ndm_json_value_alloc_object pool = (Some (Value 5 None (DataObject [])), pool') \<and> pool_good pool'"
proof -
  have a: "\<exists>pool'. ndm_json_value_alloc type pool = (Some (Value (NDM_JSON_TYPE type) None NoData), pool') \<and>
      pool_good pool'" for type
    by (rule alloc_good [OF assms]) blast
  show "\<exists>pool'. ndm_json_value_alloc_null pool = (Some (Value 0 None NoData), pool') \<and> pool_good pool'"
    using a [of NDM_JSON_TYPE_NULL] by (simp add: ndm_json_value_alloc_null_def type_consts)
  show "\<exists>pool'. ndm_json_value_alloc_boolean b pool = (Some (Value 1 None (DataBoolean b)), pool') \<and> pool_good pool'"
    using a [of NDM_JSON_TYPE_BOOLEAN] by (auto simp: ndm_json_value_alloc_boolean_def type_consts with_data_def)
  show "\<exists>pool'. map_prod (map_option (with_data d)) id (ndm_json_value_alloc NDM_JSON_TYPE_STRING pool) =
        (Some (Value 2 None d), pool') \<and> pool_good pool'"
    using a [of NDM_JSON_TYPE_STRING] by (auto simp: type_consts with_data_def)
  show "\<exists>pool'. ndm_json_value_alloc_array pool = (Some (Value 4 None (DataArray [])), pool') \<and> pool_good pool'"
    using a [of NDM_JSON_TYPE_ARRAY] by (auto simp: ndm_json_value_alloc_array_def type_consts with_data_def)
  show "\<exists>pool'. ndm_json_value_alloc_object pool = (Some (Value 5 None (DataObject [])), pool') \<and> pool_good pool'"
    using a [of NDM_JSON_TYPE_OBJECT] by (auto simp: ndm_json_value_alloc_object_def type_consts with_data_def)
  obtain pool' where p: "ndm_json_value_alloc NDM_JSON_TYPE_NUMBER pool = (Some (Value 3 None NoData), pool')"
      "pool_good pool'"
    using a [of NDM_JSON_TYPE_NUMBER] by (auto simp: type_consts)
  then obtain v where "ndm_json_value_alloc_llong w pool = (Some v, pool')"
    by (simp add: ndm_json_value_alloc_llong_def)
  then show "\<exists>pool'. ndm_json_value_alloc_llong w pool = (Some (integer_value w True), pool') \<and> pool_good pool'"
    using alloc_llong_value p(2) by blast
  from p obtain v where "ndm_json_value_alloc_ullong w pool = (Some v, pool')"
    by (simp add: ndm_json_value_alloc_ullong_def)
  then show "\<exists>pool'. ndm_json_value_alloc_ullong w pool = (Some (integer_value w False), pool') \<and> pool_good pool'"
    using alloc_ullong_value p(2) by blast
qed

section \<open>Numbers\<close>

definition delimited :: "u8 list \<Rightarrow> bool" where
  "delimited rest \<longleftrightarrow> rest \<noteq> [] \<and> hd rest \<in> {0, 10, 13, 32, 44, 93, 125}"

lemma delimited_hd:
  "delimited rest \<Longrightarrow> rest \<noteq> []" "delimited rest \<Longrightarrow> \<not> is_digit (hd rest)"
  "delimited rest \<Longrightarrow> hd rest \<noteq> 46" "delimited rest \<Longrightarrow> hd rest \<noteq> 101" "delimited rest \<Longrightarrow> hd rest \<noteq> 69"
  by (auto simp: delimited_def is_digit_def word_le_nat_alt)

lemma digits_nonzero: "list_all is_digit ds \<Longrightarrow> list_all (\<lambda>c. c \<noteq> 0) ds"
  by (auto simp: list_all_iff is_digit_def)

lemma cstring_from_at:
  assumes "list_all (\<lambda>c. c \<noteq> 0) w" and "pos = length pre" and "delimited rest"
  shows "\<exists>r. cstring_from (pre @ w @ rest) pos = w @ r \<and> (r = [] \<or> \<not> is_digit (hd r))"
proof (intro exI conjI)
  let ?r = "takeWhile (\<lambda>c. c \<noteq> 0) rest"
  show "cstring_from (pre @ w @ rest) pos = w @ ?r"
    using assms(1,2) by (auto simp: cstring_from_def list_all_iff takeWhile_append)
  show "?r = [] \<or> \<not> is_digit (hd ?r)"
    using delimited_hd(1,2) [OF assms(3)] by (cases rest) auto
qed

lemma print_int_nonzero: "list_all (\<lambda>c. c \<noteq> 0) (print_int i)"
  using print_nat_digits [THEN conjunct1, THEN digits_nonzero] by (simp add: print_int_def)

lemma sint_of_int: "- (2 ^ 63) \<le> i \<Longrightarrow> i < 2 ^ 63 \<Longrightarrow> sint (of_int i :: u64) = i"
  by (simp add: signed_of_int signed_take_bit_int_eq_self)

text \<open>The scans before the conversion: only digits, no leading zero, no fraction, no exponent.\<close>

lemma parse_number_scan:
  assumes ds: "list_all is_digit ds" "ds \<noteq> []" "hd ds = 48 \<Longrightarrow> ds = [48]"
    and rest: "delimited rest" and pos: "pos = length pre"
  shows "parse_number strtod (at pool (pre @ ds @ rest) pos) =
      store_number strtod (at pool (pre @ ds @ rest) pos) pos (pos + length ds) False False"
    "parse_number strtod (at pool (pre @ (45 # ds) @ rest) pos) =
      store_number strtod (at pool (pre @ (45 # ds) @ rest) pos) pos (pos + Suc (length ds)) True False"
proof -
  note hd_rest = delimited_hd [OF rest]
  have ne: "hd ds \<noteq> 45" "hd (ds @ rest) = hd ds"
    using ds not_space_digit by (cases ds; auto)+
  have scan: "hd ds = 48 \<Longrightarrow> peek (p @ ds @ rest) (Suc (length p)) = Some (hd rest)"
      "skip_while is_digit (p @ ds @ rest) (length p) = Some (length p + length ds)"
      "scan_fraction (p @ ds @ rest) (length p + length ds) = Some (False, length p + length ds, NDM_JSON_PARSE_ERROR_OK)"
      "scan_exponent (p @ ds @ rest) (length p + length ds) = Some (False, length p + length ds, NDM_JSON_PARSE_ERROR_OK)"
      "peek (p @ ds @ rest) (length p) = Some (hd ds)" for p
  proof -
    have pk: "peek ((p @ ds) @ rest) (length p + length ds) = Some (hd rest)"
      by (rule peek_at) (use hd_rest in simp_all)
    show "hd ds = 48 \<Longrightarrow> peek (p @ ds @ rest) (Suc (length p)) = Some (hd rest)"
      using ds(3) pk hd_rest by auto
    show "skip_while is_digit (p @ ds @ rest) (length p) = Some (length p + length ds)"
      by (rule skip_while_at) (use ds hd_rest in simp_all)
    show "scan_fraction (p @ ds @ rest) (length p + length ds) = Some (False, length p + length ds, NDM_JSON_PARSE_ERROR_OK)"
      "scan_exponent (p @ ds @ rest) (length p + length ds) = Some (False, length p + length ds, NDM_JSON_PARSE_ERROR_OK)"
      using pk hd_rest by (simp_all add: scan_fraction_def scan_exponent_def)
    show "peek (p @ ds @ rest) (length p) = Some (hd ds)"
      using peek_at [of "ds @ rest" "length p" p] ds(2) ne by simp
  qed
  show "parse_number strtod (at pool (pre @ ds @ rest) pos) =
      store_number strtod (at pool (pre @ ds @ rest) pos) pos (pos + length ds) False False"
    using scan [of pre] ne ds(2) hd_rest(2) by (cases "hd ds = 48") (simp_all add: parse_number_def Let_def pos)
  have "peek (pre @ (45 # ds) @ rest) pos = Some 45" by (simp add: peek_Cons pos)
  then show "parse_number strtod (at pool (pre @ (45 # ds) @ rest) pos) =
      store_number strtod (at pool (pre @ (45 # ds) @ rest) pos) pos (pos + Suc (length ds)) True False"
    using scan [of "pre @ [45]"] ds(2) hd_rest(2) by (cases "hd ds = 48") (simp_all add: parse_number_def Let_def pos)
qed

lemma parse_number_at:
  assumes i: "- (2 ^ 63) \<le> i" "i < 2 ^ 64" and rest: "delimited rest" and pool: "pool_good pool"
    and pos: "pos = length pre"
  shows "\<exists>w neg pool'. parse_number strtod (at pool (pre @ print_int i @ rest) pos) =
      Run (NDM_JSON_PARSE_ERROR_OK, at pool' (pre @ print_int i @ rest) (pos + length (print_int i)),
        Some (integer_value w neg)) \<and> pool_good pool' \<and> int_of_word w neg = i"
proof -
  let ?ds = "print_nat (nat \<bar>i\<bar>)" and ?buf = "pre @ print_int i @ rest"
  have ds: "list_all is_digit ?ds" "?ds \<noteq> []" using print_nat_digits by auto
  have zero: "hd ?ds = 48 \<Longrightarrow> ?ds = [48]" using print_nat_leading [of "nat \<bar>i\<bar>"] print_nat_0 by fastforce
  obtain r where r: "cstring_from ?buf pos = print_int i @ r" "r = [] \<or> \<not> is_digit (hd r)"
    using cstring_from_at [OF print_int_nonzero pos rest] by blast
  note scan = parse_number_scan [OF ds zero rest pos, of strtod pool]
  show ?thesis
  proof (cases "i < 0")
    case True
    then have p: "print_int i = 45 # ?ds" by (simp add: print_int_def)
    have "i < 2 ^ 63" using True by simp
    then have ll: "strtoll (print_int i @ r) = (i, length (print_int i), False)" "sint (of_int i :: u64) = i"
      using strtoll_print [OF i(1) _ r(2)] sint_of_int [OF i(1)] by simp_all
    obtain pool' where a: "ndm_json_value_alloc_llong (of_int i) pool = (Some (integer_value (of_int i) True), pool')"
      "pool_good pool'" using allocs_good(4) [OF pool] by blast
    show ?thesis
      using scan(2) ll a r(1) unfolding p
      by (intro exI [of _ "of_int i"] exI [of _ True] exI [of _ pool'])
        (simp add: store_number_def allocated_def int_of_word_def)
  next
    case False
    then have p: "print_int i = ?ds" by (simp add: print_int_def)
    have u: "unat (of_nat (nat i) :: u64) = nat i"
      by (rule unat_of_nat_small) (use False i in simp)
    have ull: "strtoull (print_int i @ r) = (of_nat (nat i), length (print_int i), False)"
      using strtoull_print [of "nat \<bar>i\<bar>" r] r(2) i False unfolding p by simp
    have w: "uint (of_nat (nat i) :: u64) = i"
      using u False by (metis int_nat_eq not_less of_nat_nat uint_nat)
    obtain pool' where a: "ndm_json_value_alloc_ullong (of_nat (nat i)) pool =
        (Some (integer_value (of_nat (nat i)) False), pool')" "pool_good pool'"
      using allocs_good(5) [OF pool] by blast
    show ?thesis
      using scan(1) ull a r(1) w unfolding p
      by (intro exI [of _ "of_nat (nat i)"] exI [of _ False] exI [of _ pool'])
        (simp add: store_number_def allocated_def int_of_word_def)
  qed
qed

end
