(* ===== verification/Json_Roundtrip.thy ===== *)
theory Json_Roundtrip
  imports Json_Scan
begin

text \<open>
  What the printer writes, the parser reads back: the text of a tree of null, booleans,
  strings, integers, arrays and objects parses, in place, to a value of the same tree.
\<close>

section \<open>Trees that survive printing\<close>

text \<open>
  Strings have no zero byte, integers fit \<open>long long\<close> or its unsigned twin, and there are
  no doubles, which \<open>%g\<close> rounds.
\<close>

fun plain :: "json_tree \<Rightarrow> bool" where
  "plain TNull = True"
| "plain (TBool b) = True"
| "plain (TString s) = (0 \<notin> set s)"
| "plain (TInt i) = (- (2 ^ 63) \<le> i \<and> i < 2 ^ 64)"
| "plain (TDouble w) = False"
| "plain (TArray ts) = list_all plain ts"
| "plain (TObject ms) = list_all (\<lambda>m. 0 \<notin> set (fst m) \<and> plain (snd m)) ms"

lemma render_starts:
  assumes "plain t"
  shows "render fmt f i t \<noteq> [] \<and> \<not> is_json_space (hd (render fmt f i t)) \<and>
    hd (render fmt f i t) \<noteq> 93 \<and> hd (render fmt f i t) \<noteq> 125"
proof (cases t)
  case (TInt j)
  have "print_nat (nat \<bar>j\<bar>) \<noteq> []" "is_digit (hd (print_nat (nat \<bar>j\<bar>)))"
    using print_nat_digits [of "nat \<bar>j\<bar>"] by (auto simp: list_all_iff)
  then show ?thesis using TInt
    by (auto simp: print_int_def is_digit_def is_json_space_def word_le_nat_alt)
qed (use assms in \<open>auto simp: is_json_space_def render_string_def\<close>)

section \<open>Items\<close>

lemma word_at:
  assumes "pos = length pre" and "alloc pool = (Some v, pool')"
  shows "parse_word (at pool (pre @ (c # w) @ rest) pos) w expected alloc =
    Run (NDM_JSON_PARSE_ERROR_OK, at pool' (pre @ (c # w) @ rest) (pos + length (c # w)), Some v)"
  using matches_at [of "pos + 1" "pre @ [c]" w rest] assms by (simp add: parse_word_def allocated_def)

lemma after_comma_at:
  assumes "list_all is_json_space w" and "rest \<noteq> []" "\<not> is_json_space (hd rest)" and "pos = length pre"
  shows "after_item close corrupted (at pool (pre @ (44 # w) @ rest) pos) =
    Run (NDM_JSON_PARSE_ERROR_OK, at pool (pre @ (44 # w) @ rest) (pos + length (44 # w)), False)"
proof -
  have "ndm_json_parse_whitespaces (at pool (pre @ (44 # w) @ rest) pos) =
      Some (at pool (pre @ (44 # w) @ rest) pos)"
    using whitespaces_at [of "[]" "(44 # w) @ rest" pos pre pool] assms(4) by (simp add: is_json_space_def)
  moreover have "ndm_json_parse_whitespaces (at pool ((pre @ [44]) @ w @ rest) (pos + 1)) =
      Some (at pool ((pre @ [44]) @ w @ rest) (pos + 1 + length w))"
    by (rule whitespaces_at) (simp_all add: assms)
  ultimately show ?thesis
    using peek_Cons [of pos pre 44 "w @ rest"] assms(4) by (simp add: after_item_def skip_char_def)
qed

lemma after_close_at:
  assumes "list_all is_json_space w" and "\<not> is_json_space close" "close \<noteq> 44" and "pos = length pre"
  shows "after_item close corrupted (at pool (pre @ (w @ [close]) @ rest) pos) =
    Run (NDM_JSON_PARSE_ERROR_OK, at pool (pre @ (w @ [close]) @ rest) (pos + length (w @ [close])), True)"
proof -
  have "ndm_json_parse_whitespaces (at pool (pre @ w @ (close # rest)) pos) =
      Some (at pool (pre @ w @ (close # rest)) (pos + length w))"
    by (rule whitespaces_at) (simp_all add: assms)
  moreover have "peek ((pre @ w) @ close # rest) (pos + length w) = Some close"
    by (rule peek_Cons) (simp add: assms)
  ultimately show ?thesis using assms by (simp add: after_item_def skip_char_def)
qed

lemma delimited_item: "delimited (44 # rest)" "delimited (render_ident f i @ [93] @ rest)"
  "delimited (render_ident f i @ [125] @ rest)"
  by (auto simp: delimited_def render_ident_def)


section \<open>Values that stand for a tree\<close>

text \<open>
  A fact about the strings at references into the segment \<open>r\<close> of the text at \<open>off\<close>
  that holds whatever surrounds the segment and whatever is in the pool; a value stands
  for a tree there.
\<close>

definition everywhere :: "((str_ref \<Rightarrow> cstring option) \<Rightarrow> bool) \<Rightarrow> nat \<Rightarrow> u8 list \<Rightarrow> bool" where
  "everywhere Q off r \<longleftrightarrow> (\<forall>pre rest pool. length pre = off \<longrightarrow> Q (ref_string (pre @ r @ rest) pool))"

abbreviation stands :: "ndm_json_value_t \<Rightarrow> nat \<Rightarrow> u8 list \<Rightarrow> json_tree \<Rightarrow> bool" where
  "stands v off r t \<equiv> everywhere (\<lambda>str. json_abs str v t) off r"

lemma everywhere_extend:
  assumes "everywhere Q (off + length l) r"
  shows "everywhere Q off (l @ r @ k)"
  unfolding everywhere_def
proof (intro allI impI)
  fix pre rest :: "u8 list" and pool
  assume "length pre = off"
  then have "Q (ref_string ((pre @ l) @ r @ (k @ rest)) pool)"
    using assms [unfolded everywhere_def, rule_format, of "pre @ l" "k @ rest" pool] by simp
  then show "Q (ref_string (pre @ (l @ r @ k) @ rest) pool)" by simp
qed

lemma everywhere_list:
  assumes "list_all2 (\<lambda>v t. everywhere (Q v t) (off + length l) r) vs ts"
  shows "everywhere (\<lambda>str. list_all2 (\<lambda>v t. Q v t str) vs ts) off (l @ r @ k)"
proof -
  have "list_all2 (\<lambda>v t. everywhere (Q v t) off (l @ r @ k)) vs ts"
    using assms by (rule list_all2_mono) (rule everywhere_extend)
  then show ?thesis by (auto simp: everywhere_def list_all2_conv_all_nth)
qed

lemma json_abs_name:
  assumes "json_abs str v t"
  shows "json_abs str (with_name n v) t"
  using assms
proof cases
  case (abs_integer w neg)
  then show ?thesis using json_abs.abs_integer [of "with_name n v" w neg str] by (simp add: with_name_def)
qed (simp_all add: with_name_def json_abs.intros)

text \<open>What it means for a tree to be parsed back from its text.\<close>

definition parses_back :: "strtod \<Rightarrow> (u64 \<Rightarrow> cstring) \<Rightarrow> json_tree \<Rightarrow> bool" where
  "parses_back strtod fmt t \<longleftrightarrow>
     (\<forall>f i n pre rest pool. 2 * length (render fmt f i t) \<le> n \<longrightarrow> delimited rest \<longrightarrow> pool_good pool \<longrightarrow>
       (\<exists>r v pool'. ndm_json_parse_value strtod n (at pool (pre @ render fmt f i t @ rest) (length pre)) =
           Run (NDM_JSON_PARSE_ERROR_OK, at pool' (pre @ r @ rest) (length pre + length r), Some v) \<and>
         pool_good pool' \<and> length r = length (render fmt f i t) \<and> stands v (length pre) r t))"

lemma parses_backE:
  assumes "parses_back strtod fmt t" and "2 * length (render fmt f i t) \<le> n" "delimited rest" "pool_good pool"
    and "pos = length pre"
  obtains r v pool' where "ndm_json_parse_value strtod n (at pool (pre @ render fmt f i t @ rest) pos) =
      Run (NDM_JSON_PARSE_ERROR_OK, at pool' (pre @ r @ rest) (pos + length r), Some v)"
    "pool_good pool'" "length r = length (render fmt f i t)" "stands v pos r t"
  using assms unfolding parses_back_def by blast

lemma parse_value_dispatch:
  assumes "plain t" and "pos = length pre"
  shows "peek (pre @ render fmt f i t @ rest) pos = Some (hd (render fmt f i t))"
  using peek_at [of "render fmt f i t @ rest" pos pre] render_starts [OF assms(1), of fmt f i] assms(2) by simp

lemma read_cstring:
  assumes "0 \<notin> set s" and "length pre = off"
  shows "ref_string (pre @ s @ 0 # rest) pool (InText off) = Some s"
proof -
  have "drop off (pre @ s @ 0 # rest) = s @ 0 # rest" using assms(2) by simp
  moreover have "takeWhile (\<lambda>c. c \<noteq> 0) (s @ 0 # rest) = s"
    using takeWhile_append2 [of s "\<lambda>c. c \<noteq> 0" "0 # rest"] assms(1)
    by (metis (mono_tags, lifting) append.right_neutral takeWhile.simps(2))
  ultimately show ?thesis unfolding ref_string_def cstr_at_def str_ref.case by simp
qed

lemma data_integer_value: "data (integer_value w neg) = DataWord w"
  by (simp add: integer_value_def number_value_def)

lemma parses_back_scalar:
  assumes "plain t" and "case t of TArray _ \<Rightarrow> False | TObject _ \<Rightarrow> False | _ \<Rightarrow> True"
  shows "parses_back strtod fmt t"
  unfolding parses_back_def
proof (intro allI impI)
  fix f i n pre rest pool
  let ?R = "render fmt f i t" and ?pos = "length (pre :: u8 list)"
  assume n: "2 * length ?R \<le> n" and rest: "delimited rest" and pool: "pool_good pool"
  have "?R \<noteq> []" using render_starts [OF assms(1)] by simp
  then obtain m where m: "n = Suc m" using n by (cases n) auto
  note peek = parse_value_dispatch [OF assms(1) refl [of ?pos], of fmt f i rest]
  show "\<exists>r v pool'. ndm_json_parse_value strtod n (at pool (pre @ ?R @ rest) ?pos) =
      Run (NDM_JSON_PARSE_ERROR_OK, at pool' (pre @ r @ rest) (?pos + length r), Some v) \<and>
    pool_good pool' \<and> length r = length ?R \<and> stands v ?pos r t"
  proof (cases t)
    case TNull
    obtain pool' where a: "ndm_json_value_alloc_null pool = (Some (Value 0 None NoData), pool')" "pool_good pool'"
      using allocs_good(1) [OF pool] by blast
    show ?thesis
      using word_at [of ?pos pre ndm_json_value_alloc_null pool _ _ 110 "[117, 108, 108]" rest, OF refl a(1)] a(2) peek
      by (intro exI [of _ ?R] exI [of _ "Value 0 None NoData"] exI [of _ pool'])
        (simp add: TNull m ndm_json_parse_value.simps everywhere_def abs_null)
  next
    case (TBool b)
    obtain pool' where a: "ndm_json_value_alloc_boolean b pool = (Some (Value 1 None (DataBoolean b)), pool')"
        "pool_good pool'" using allocs_good(2) [OF pool] by blast
    show ?thesis
      using word_at [of ?pos pre "ndm_json_value_alloc_boolean b" pool _ _ 116 "[114, 117, 101]" rest, OF refl a(1)]
        word_at [of ?pos pre "ndm_json_value_alloc_boolean b" pool _ _ 102 "[97, 108, 115, 101]" rest, OF refl a(1)] a(2) peek
      by (intro exI [of _ ?R] exI [of _ "Value 1 None (DataBoolean b)"] exI [of _ pool'])
        (auto simp: TBool m ndm_json_parse_value.simps everywhere_def abs_boolean)
  next
    case (TString s)
    have s: "0 \<notin> set s" using assms(1) TString by simp
    obtain J where J: "ndm_json_parse_string (at pool (pre @ render_string s @ rest) ?pos) =
        Some (NDM_JSON_PARSE_ERROR_OK, at pool (pre @ (34 # s @ [0] @ J) @ rest) (?pos + length (render_string s)),
          Some (InText (?pos + 1)))" "length (34 # s @ [0] @ J) = length (render_string s)"
      using parse_string_at [OF s refl, of pool pre rest] by blast
    obtain pool' where a: "map_prod (map_option (with_data (DataString (InText (?pos + 1))))) id
        (ndm_json_value_alloc NDM_JSON_TYPE_STRING pool) =
        (Some (Value 2 None (DataString (InText (?pos + 1)))), pool')" "pool_good pool'"
      using allocs_good(3) [OF pool] by blast
    have "stands (Value 2 None (DataString (InText (?pos + 1)))) ?pos (34 # s @ [0] @ J) (TString s)"
      unfolding everywhere_def
    proof (intro allI impI abs_string)
      fix pre' rest' :: "u8 list" and pool''
      assume "length pre' = ?pos"
      then show "ref_string (pre' @ (34 # s @ [0] @ J) @ rest') pool'' (InText (?pos + 1)) = Some s"
        using read_cstring [OF s, of "pre' @ [34]" "?pos + 1" "J @ rest'" pool''] by simp
    qed
    moreover have "hd (render_string s) = 34" by (simp add: render_string_def)
    ultimately show ?thesis
      using J a peek
      by (intro exI [of _ "34 # s @ [0] @ J"] exI [of _ "Value 2 None (DataString (InText (?pos + 1)))"]
          exI [of _ pool']) (simp add: TString m ndm_json_parse_value.simps parse_string_value_def allocated_def)
  next
    case (TInt j)
    have j: "- (2 ^ 63) \<le> j" "j < 2 ^ 64" using assms(1) TInt by simp_all
    obtain w neg pool' where w: "parse_number strtod (at pool (pre @ print_int j @ rest) ?pos) =
        Run (NDM_JSON_PARSE_ERROR_OK, at pool' (pre @ print_int j @ rest) (?pos + length (print_int j)),
          Some (integer_value w neg))" "pool_good pool'" "int_of_word w neg = j"
      using parse_number_at [OF j rest pool refl, of strtod pre] by blast
    have "hd (print_int j) = 45 \<or> is_digit (hd (print_int j))"
      using print_nat_digits [of "nat \<bar>j\<bar>"] by (auto simp: print_int_def list_all_iff)
    moreover have "is_digit c \<Longrightarrow> c \<noteq> 110 \<and> c \<noteq> 116 \<and> c \<noteq> 102 \<and> c \<noteq> 91 \<and> c \<noteq> 123 \<and> c \<noteq> 34" for c
      by (auto simp: is_digit_def word_le_nat_alt)
    moreover have "stands (integer_value w neg) ?pos (print_int j) (TInt j)"
      using abs_integer [of "integer_value w neg" w neg] data_integer_value [of w neg] w(3) by (auto simp: everywhere_def)
    ultimately show ?thesis
      using w(1,2) peek
      by (intro exI [of _ "print_int j"] exI [of _ "integer_value w neg"] exI [of _ pool'])
        (auto simp: TInt m ndm_json_parse_value.simps)
  qed (use assms in simp_all)
qed


section \<open>Arrays\<close>

lemma comma_list:
  "comma_separated (map (\<lambda>t. w @ g t) (t # ts)) = w @ g t @ concat (map (\<lambda>t. 44 # w @ g t) ts)"
  by (induction ts arbitrary: t) (simp_all add: comma_separated_Cons)

lemma push_some: "ndm_json_array_push (Some es) (Some v) = Some (es @ [v])"
  by (simp add: ndm_json_array_push_def)

definition elements_text :: "(u64 \<Rightarrow> cstring) \<Rightarrow> u32 \<Rightarrow> nat \<Rightarrow> json_tree \<Rightarrow> json_tree list \<Rightarrow> u8 list" where
  "elements_text fmt f i t ts = render fmt f (i + 2) t @
     concat (map (\<lambda>t. 44 # render_ident f (i + 2) @ render fmt f (i + 2) t) ts) @ render_ident f i @ [93]"

lemma elements_text_simps:
  "elements_text fmt f i t [] = render fmt f (i + 2) t @ render_ident f i @ [93]"
  "elements_text fmt f i t (u # ts) =
     render fmt f (i + 2) t @ (44 # render_ident f (i + 2)) @ elements_text fmt f i u ts"
  by (simp_all add: elements_text_def)

lemma elements_text_starts:
  assumes "plain t"
  shows "elements_text fmt f i t ts \<noteq> []" "\<not> is_json_space (hd (elements_text fmt f i t ts))"
    "hd (elements_text fmt f i t ts) \<noteq> 93"
  using render_starts [OF assms, of fmt f "i + 2"] by (simp_all add: elements_text_def)

lemma elements_back:
  assumes "list_all (parses_back strtod fmt) (t # ts)" and "list_all plain (t # ts)"
    and "2 * length (elements_text fmt f i t ts) \<le> n" and "pool_good pool" and "pos = length pre"
  shows "\<exists>r vs pool'. parse_elements strtod n (at pool (pre @ elements_text fmt f i t ts @ rest) pos) v es =
      Run (NDM_JSON_PARSE_ERROR_OK, at pool' (pre @ r @ rest) (pos + length r),
        Some (with_data (DataArray (es @ vs)) v)) \<and>
    pool_good pool' \<and> length r = length (elements_text fmt f i t ts) \<and>
    list_all2 (\<lambda>v t. stands v pos r t) vs (t # ts)"
  using assms
proof (induction ts arbitrary: t n pool pre pos es)
  case Nil
  let ?R = "render fmt f (i + 2) t" and ?w = "render_ident f i"
  obtain m where m: "n = Suc m" "2 * length ?R \<le> m"
    using Nil.prems(3) by (cases n) (auto simp: elements_text_simps)
  have pb: "parses_back strtod fmt t" and delim: "delimited ((?w @ [93]) @ rest)"
    using Nil.prems(1) delimited_item(2) by simp_all
  obtain r v1 pool1 where v1: "ndm_json_parse_value strtod m (at pool (pre @ ?R @ ((?w @ [93]) @ rest)) pos) =
      Run (NDM_JSON_PARSE_ERROR_OK, at pool1 (pre @ r @ ((?w @ [93]) @ rest)) (pos + length r), Some v1)"
      "pool_good pool1" "length r = length ?R" "stands v1 pos r t"
    by (rule parses_backE [OF pb m(2) delim Nil.prems(4,5)])
  have "after_item 93 NDM_JSON_PARSE_ERROR_CORRUPTED_ARRAY
      (at pool1 ((pre @ r) @ (?w @ [93]) @ rest) (pos + length r)) =
    Run (NDM_JSON_PARSE_ERROR_OK, at pool1 ((pre @ r) @ (?w @ [93]) @ rest)
      (pos + length r + length (?w @ [93])), True)"
    by (rule after_close_at) (simp_all add: render_ident_space is_json_space_def Nil.prems)
  moreover have "stands v1 pos ([] @ r @ (?w @ [93])) t"
    by (rule everywhere_extend) (simp add: v1(4))
  ultimately show ?case
    using v1 m by (intro exI [of _ "r @ ?w @ [93]"] exI [of _ "[v1]"] exI [of _ pool1])
      (simp add: elements_text_simps parse_elements.simps push_some)
next
  case (Cons u ts)
  let ?R = "render fmt f (i + 2) t" and ?w = "render_ident f (i + 2)" and ?E = "elements_text fmt f i u ts"
  obtain m where m: "n = Suc m" "2 * length ?R \<le> m" "2 * length ?E \<le> m"
    using Cons.prems(3) by (cases n) (auto simp: elements_text_simps)
  have pb: "parses_back strtod fmt t" using Cons.prems(1) by simp
  obtain r v1 pool1 where v1: "ndm_json_parse_value strtod m (at pool (pre @ ?R @ (44 # ?w @ ?E @ rest)) pos) =
      Run (NDM_JSON_PARSE_ERROR_OK, at pool1 (pre @ r @ (44 # ?w @ ?E @ rest)) (pos + length r), Some v1)"
      "pool_good pool1" "length r = length ?R" "stands v1 pos r t"
    by (rule parses_backE [OF pb m(2) delimited_item(1) Cons.prems(4,5)])
  have "after_item 93 NDM_JSON_PARSE_ERROR_CORRUPTED_ARRAY
      (at pool1 ((pre @ r) @ (44 # ?w) @ (?E @ rest)) (pos + length r)) =
    Run (NDM_JSON_PARSE_ERROR_OK, at pool1 ((pre @ r) @ (44 # ?w) @ (?E @ rest))
      (pos + length r + length (44 # ?w)), False)"
    using elements_text_starts [of u fmt f i ts] Cons.prems
    by (intro after_comma_at) (simp_all add: render_ident_space)
  then have item: "after_item 93 NDM_JSON_PARSE_ERROR_CORRUPTED_ARRAY
      (at pool1 (pre @ r @ 44 # ?w @ ?E @ rest) (pos + length r)) =
    Run (NDM_JSON_PARSE_ERROR_OK, at pool1 ((pre @ r @ 44 # ?w) @ ?E @ rest)
      (length (pre @ r @ 44 # ?w)), False)"
    using Cons.prems(5) by simp
  obtain r2 vs pool' where ih: "parse_elements strtod m (at pool1 ((pre @ r @ 44 # ?w) @ ?E @ rest)
        (length (pre @ r @ 44 # ?w))) v (es @ [v1]) =
      Run (NDM_JSON_PARSE_ERROR_OK, at pool' ((pre @ r @ 44 # ?w) @ r2 @ rest) (length (pre @ r @ 44 # ?w) + length r2),
        Some (with_data (DataArray ((es @ [v1]) @ vs)) v))"
      "pool_good pool'" "length r2 = length ?E"
      "list_all2 (\<lambda>v t. stands v (length (pre @ r @ 44 # ?w)) r2 t) vs (u # ts)"
    using Cons.IH [OF _ _ m(3) v1(2) refl, of "pre @ r @ 44 # ?w" "es @ [v1]"] Cons.prems(1,2) by auto
  let ?r = "r @ 44 # ?w @ r2"
  have "stands v1 pos ([] @ r @ (44 # ?w @ r2)) t" by (rule everywhere_extend) (simp add: v1(4))
  moreover have "list_all2 (\<lambda>v t. stands v pos ?r t) vs (u # ts)"
    using ih(4)
  proof (rule list_all2_mono)
    fix x y
    assume "stands x (length (pre @ r @ 44 # ?w)) r2 y"
    then show "stands x pos ?r y"
      using everywhere_extend [of "\<lambda>str. json_abs str x y" pos "r @ 44 # ?w" r2 "[]"] Cons.prems(5) by (simp add: add.assoc)
  qed
  ultimately show ?case
    using v1 item ih Cons.prems(5) m
    by (intro exI [of _ ?r] exI [of _ "v1 # vs"] exI [of _ pool'])
      (simp add: elements_text_simps parse_elements.simps push_some)
qed

lemma parse_start:
  assumes "plain t" and "length (render fmt f i t) \<le> n"
  obtains m where "n = Suc m"
  using assms render_starts [of t fmt f i] by (cases n) auto

lemma parses_back_array:
  assumes "list_all (parses_back strtod fmt) ts" and "list_all plain ts"
  shows "parses_back strtod fmt (TArray ts)"
  unfolding parses_back_def
proof (intro allI impI)
  fix f i n pre rest pool
  let ?R = "render fmt f i (TArray ts)" and ?pos = "length (pre :: u8 list)"
  assume n: "2 * length ?R \<le> n" and rest: "delimited rest" and pool: "pool_good pool"
  obtain m where m: "n = Suc m" using parse_start [of "TArray ts" fmt f i n] assms(2) n by auto
  obtain pool0 where a: "ndm_json_value_alloc_array pool = (Some (Value 4 None (DataArray [])), pool0)"
      "pool_good pool0" using allocs_good(6) [OF pool] by blast
  have step: "ndm_json_parse_value strtod n (at pool (pre @ (91 # B) @ rest) ?pos) =
      ndm_json_parse_array strtod m (at pool0 (pre @ (91 # B) @ rest) ?pos) (Value 4 None (DataArray []))" for B
    using a peek_Cons [of ?pos pre 91 "B @ rest"]
    by (simp add: m ndm_json_parse_value.simps allocated_def)
  show "\<exists>r v pool'. ndm_json_parse_value strtod n (at pool (pre @ ?R @ rest) ?pos) =
      Run (NDM_JSON_PARSE_ERROR_OK, at pool' (pre @ r @ rest) (?pos + length r), Some v) \<and>
    pool_good pool' \<and> length r = length ?R \<and> stands v ?pos r (TArray ts)"
  proof (cases ts)
    case Nil
    let ?w = "render_ident f i"
    have "ndm_json_parse_whitespaces (at pool0 ((pre @ [91]) @ ?w @ (93 # rest)) (?pos + 1)) =
        Some (at pool0 ((pre @ [91]) @ ?w @ (93 # rest)) (?pos + 1 + length ?w))"
      by (rule whitespaces_at) (simp_all add: render_ident_space is_json_space_def)
    moreover have "peek ((pre @ [91] @ ?w) @ 93 # rest) (?pos + 1 + length ?w) = Some 93"
      by (rule peek_Cons) simp
    ultimately show ?thesis
      using step [of "?w @ [93]"] a(2)
      by (intro exI [of _ ?R] exI [of _ "Value 4 None (DataArray [])"] exI [of _ pool0])
        (simp add: Nil ndm_json_parse_array.simps skip_char_def everywhere_def abs_array)
  next
    case (Cons t ts')
    let ?w = "render_ident f (i + 2)" and ?E = "elements_text fmt f i t ts'"
    have R: "?R = 91 # ?w @ ?E"
      unfolding Cons elements_text_def by (simp add: comma_list [of ?w "render fmt f (i + 2)", simplified])
    have ws: "ndm_json_parse_whitespaces (at pool0 ((pre @ [91]) @ ?w @ (?E @ rest)) (?pos + 1)) =
        Some (at pool0 ((pre @ [91]) @ ?w @ (?E @ rest)) (?pos + 1 + length ?w))"
      using elements_text_starts [of t fmt f i ts'] assms(2) Cons
      by (intro whitespaces_at) (simp_all add: render_ident_space)
    have pk: "peek ((pre @ 91 # ?w) @ ?E @ rest) (length (pre @ 91 # ?w)) = Some (hd ?E)"
      using peek_at [of "?E @ rest" _ "pre @ 91 # ?w"] elements_text_starts(1) [of t fmt f i ts'] assms(2) Cons
      by simp
    have fuel: "2 * length ?E \<le> m" using n [unfolded R] m by simp
    obtain r vs pool' where E: "parse_elements strtod m (at pool0 ((pre @ 91 # ?w) @ ?E @ rest) (length (pre @ 91 # ?w)))
          (Value 4 None (DataArray [])) [] =
        Run (NDM_JSON_PARSE_ERROR_OK, at pool' ((pre @ 91 # ?w) @ r @ rest) (length (pre @ 91 # ?w) + length r),
          Some (with_data (DataArray ([] @ vs)) (Value 4 None (DataArray []))))"
        "pool_good pool'" "length r = length ?E"
        "list_all2 (\<lambda>v t. stands v (length (pre @ 91 # ?w)) r t) vs (t # ts')"
      using elements_back [OF _ _ fuel a(2) refl, of strtod "pre @ 91 # ?w" rest "Value 4 None (DataArray [])" "[]"]
        assms Cons by auto
    have "everywhere (\<lambda>str. list_all2 (\<lambda>v t. json_abs str v t) vs (t # ts')) ?pos ((91 # ?w) @ r @ [])"
      by (rule everywhere_list) (use E(4) in simp)
    then have "stands (Value 4 None (DataArray vs)) ?pos ((91 # ?w) @ r @ []) (TArray ts)"
      unfolding Cons by (auto simp: everywhere_def intro!: abs_array)
    then show ?thesis
      using step [of "?w @ ?E"] E ws pk elements_text_starts(3) [of t fmt f i ts'] assms(2) unfolding R
      by (intro exI [of _ "91 # ?w @ r"] exI [of _ "Value 4 None (DataArray vs)"] exI [of _ pool'])
        (simp add: Cons ndm_json_parse_array.simps skip_char_def with_data_def)
  qed
qed


section \<open>Objects\<close>

definition colon_text :: "u32 \<Rightarrow> u8 list" where
  "colon_text f = 58 # (if f AND NDM_JSON_PRINT_FLAGS_COMPACT = 0 then [32] else [])"

definition member_text :: "(u64 \<Rightarrow> cstring) \<Rightarrow> u32 \<Rightarrow> nat \<Rightarrow> cstring \<times> json_tree \<Rightarrow> u8 list" where
  "member_text fmt f i m = render_string (fst m) @ colon_text f @ render fmt f (i + 2) (snd m)"

definition members_text ::
  "(u64 \<Rightarrow> cstring) \<Rightarrow> u32 \<Rightarrow> nat \<Rightarrow> cstring \<times> json_tree \<Rightarrow> (cstring \<times> json_tree) list \<Rightarrow> u8 list" where
  "members_text fmt f i m ms = member_text fmt f i m @
     concat (map (\<lambda>m. 44 # render_ident f (i + 2) @ member_text fmt f i m) ms) @ render_ident f i @ [125]"

lemma members_text_simps:
  "members_text fmt f i m [] = member_text fmt f i m @ render_ident f i @ [125]"
  "members_text fmt f i m (n # ms) =
     member_text fmt f i m @ (44 # render_ident f (i + 2)) @ members_text fmt f i n ms"
  by (simp_all add: members_text_def)

lemma members_text_starts:
  "members_text fmt f i m ms \<noteq> []" "hd (members_text fmt f i m ms) = 34"
  by (simp_all add: members_text_def member_text_def render_string_def)

text \<open>The name of a member with its colon, before the value.\<close>

lemma member_name_at:
  assumes "0 \<notin> set name" and "rest \<noteq> []" "\<not> is_json_space (hd rest)" and "pos = length pre"
  shows "\<exists>r. length r = length (render_string name @ colon_text f) \<and>
    everywhere (\<lambda>str. str (InText (Suc pos)) = Some name) pos r \<and>
    parse_members strtod (Suc n) (at pool (pre @ (render_string name @ colon_text f) @ rest) pos) v ms =
      bind_run (ndm_json_parse_value strtod n (at pool (pre @ r @ rest) (pos + length r))) (\<lambda>(code, ctx, e).
        case e of
          None \<Rightarrow> item_error 125 NDM_JSON_PARSE_ERROR_CORRUPTED_OBJECT code ctx
        | Some e \<Rightarrow>
            bind_run (after_item 125 NDM_JSON_PARSE_ERROR_CORRUPTED_OBJECT ctx) (\<lambda>(code, ctx, done).
              if code \<noteq> NDM_JSON_PARSE_ERROR_OK then fails code ctx
              else let ms = ms @ [with_name (InText (Suc pos)) e] in
                   if done then Run (code, ctx, Some (with_data (DataObject ms) v))
                   else parse_members strtod n ctx v ms))"
proof -
  let ?c = "colon_text f"
  obtain J where J: "ndm_json_parse_string (at pool (pre @ render_string name @ (?c @ rest)) pos) =
      Some (NDM_JSON_PARSE_ERROR_OK, at pool (pre @ (34 # name @ [0] @ J) @ (?c @ rest))
        (pos + length (render_string name)), Some (InText (pos + 1)))"
      "length (34 # name @ [0] @ J) = length (render_string name)"
    using parse_string_at [OF assms(1,4), of pool "?c @ rest"] by blast
  let ?s = "34 # name @ [0] @ J" and ?pos1 = "pos + length (render_string name)"
  have len: "length (render_string name) = length ?s" using J(2) by simp
  have pos1: "?pos1 = length (pre @ ?s)" using J(2) assms(4) by simp
  obtain sp where sp: "?c = 58 # sp" "list_all is_json_space sp"
    by (simp add: colon_text_def is_json_space_def)
  have ws1: "ndm_json_parse_whitespaces (at pool ((pre @ ?s) @ [] @ (?c @ rest)) ?pos1) =
      Some (at pool ((pre @ ?s) @ [] @ (?c @ rest)) (?pos1 + length ([] :: u8 list)))"
    by (rule whitespaces_at) (use J(2) assms(4) in \<open>simp_all add: sp is_json_space_def\<close>)
  have ws2: "ndm_json_parse_whitespaces (at pool ((pre @ ?s @ [58]) @ sp @ rest) (?pos1 + 1)) =
      Some (at pool ((pre @ ?s @ [58]) @ sp @ rest) (?pos1 + 1 + length sp))"
    by (rule whitespaces_at) (use J(2) assms sp(2) in simp_all)
  have pk: "peek (pre @ 34 # name @ 0 # J @ ?c @ rest) ?pos1 = Some 58"
    using peek_Cons [of ?pos1 "pre @ ?s" 58 "sp @ rest"] pos1 by (simp add: sp)
  have pk0: "peek (pre @ render_string name @ ?c @ rest) pos = Some 34"
    using peek_Cons [of pos pre 34] assms(4) by (simp add: render_string_def)
  have "everywhere (\<lambda>str. str (InText (Suc pos)) = Some name) pos (?s @ ?c)"
    unfolding everywhere_def
  proof (intro allI impI)
    fix pre' rest' :: "u8 list" and pool''
    assume "length pre' = pos"
    then show "ref_string (pre' @ (?s @ ?c) @ rest') pool'' (InText (Suc pos)) = Some name"
      using read_cstring [OF assms(1), of "pre' @ [34]" "pos + 1" "J @ ?c @ rest'" pool''] by simp
  qed
  then show ?thesis
    using J(1) ws1 ws2 pk pk0
    by (intro exI [of _ "?s @ ?c"] conjI) (simp_all add: len parse_members.simps skip_char_def sp add.assoc)
qed

text \<open>A member with its value.\<close>

definition member_abs :: "ndm_json_value_t \<Rightarrow> cstring \<times> json_tree \<Rightarrow> (str_ref \<Rightarrow> cstring option) \<Rightarrow> bool" where
  "member_abs v m str \<longleftrightarrow> (case m of (name, t) \<Rightarrow> Option.bind (member_name v) str = Some name \<and> json_abs str v t)"

lemma member_back:
  assumes "parses_back strtod fmt (snd m)" and "plain (snd m)" "0 \<notin> set (fst m)"
    and "2 * length (member_text fmt f i m) \<le> n" and "delimited rest" "pool_good pool" "pos = length pre"
  shows "\<exists>r e pool'. parse_members strtod (Suc n) (at pool (pre @ member_text fmt f i m @ rest) pos) v ms =
      bind_run (after_item 125 NDM_JSON_PARSE_ERROR_CORRUPTED_OBJECT (at pool' (pre @ r @ rest) (pos + length r)))
        (\<lambda>(code, ctx, done).
           if code \<noteq> NDM_JSON_PARSE_ERROR_OK then fails code ctx
           else let ms = ms @ [e] in
                if done then Run (code, ctx, Some (with_data (DataObject ms) v))
                else parse_members strtod n ctx v ms) \<and>
    pool_good pool' \<and> length r = length (member_text fmt f i m) \<and> everywhere (member_abs e m) pos r"
proof -
  let ?R = "render fmt f (i + 2) (snd m)" and ?h = "render_string (fst m) @ colon_text f"
  have "?R @ rest \<noteq> []" "\<not> is_json_space (hd (?R @ rest))"
    using render_starts [OF assms(2), of fmt f "i + 2"] by simp_all
  then obtain r1 where r1: "length r1 = length ?h"
      "everywhere (\<lambda>str. str (InText (Suc pos)) = Some (fst m)) pos r1"
      "parse_members strtod (Suc n) (at pool (pre @ ?h @ (?R @ rest)) pos) v ms =
        bind_run (ndm_json_parse_value strtod n (at pool (pre @ r1 @ (?R @ rest)) (pos + length r1))) (\<lambda>(code, ctx, e).
        case e of
          None \<Rightarrow> item_error 125 NDM_JSON_PARSE_ERROR_CORRUPTED_OBJECT code ctx
        | Some e \<Rightarrow>
            bind_run (after_item 125 NDM_JSON_PARSE_ERROR_CORRUPTED_OBJECT ctx) (\<lambda>(code, ctx, done).
              if code \<noteq> NDM_JSON_PARSE_ERROR_OK then fails code ctx
              else let ms = ms @ [with_name (InText (Suc pos)) e] in
                   if done then Run (code, ctx, Some (with_data (DataObject ms) v))
                   else parse_members strtod n ctx v ms))"
    using member_name_at [OF assms(3) _ _ assms(7), of "?R @ rest" f strtod n pool v ms] by auto
  have fuel: "2 * length ?R \<le> n" using assms(4) by (simp add: member_text_def)
  obtain r2 e pool' where e: "ndm_json_parse_value strtod n (at pool ((pre @ r1) @ ?R @ rest) (length (pre @ r1))) =
      Run (NDM_JSON_PARSE_ERROR_OK, at pool' ((pre @ r1) @ r2 @ rest) (length (pre @ r1) + length r2), Some e)"
      "pool_good pool'" "length r2 = length ?R" "stands e (length (pre @ r1)) r2 (snd m)"
    by (rule parses_backE [OF assms(1) fuel assms(5,6) refl])
  let ?e = "with_name (InText (Suc pos)) e"
  have name: "everywhere (\<lambda>str. str (InText (Suc pos)) = Some (fst m)) pos ([] @ r1 @ r2)"
    by (rule everywhere_extend) (use r1(2) in simp)
  have stand: "stands e pos (r1 @ r2 @ []) (snd m)"
    by (rule everywhere_extend) (use e(4) assms(7) in simp)
  have "everywhere (member_abs ?e m) pos (r1 @ r2)"
    using name stand json_abs_name
    by (auto simp: everywhere_def member_abs_def with_name_def split: prod.split)
  then show ?thesis
    using r1(1,3) e assms(7)
    by (intro exI [of _ "r1 @ r2"] exI [of _ ?e] exI [of _ pool']) (simp add: member_text_def add.assoc)
qed

lemma members_back:
  assumes "list_all (\<lambda>m. parses_back strtod fmt (snd m)) (m # ms)"
    and "list_all (\<lambda>m. 0 \<notin> set (fst m) \<and> plain (snd m)) (m # ms)"
    and "2 * length (members_text fmt f i m ms) \<le> n" and "pool_good pool" and "pos = length pre"
  shows "\<exists>r vs pool'. parse_members strtod n (at pool (pre @ members_text fmt f i m ms @ rest) pos) v es =
      Run (NDM_JSON_PARSE_ERROR_OK, at pool' (pre @ r @ rest) (pos + length r),
        Some (with_data (DataObject (es @ vs)) v)) \<and>
    pool_good pool' \<and> length r = length (members_text fmt f i m ms) \<and>
    list_all2 (\<lambda>v m. everywhere (member_abs v m) pos r) vs (m # ms)"
  using assms
proof (induction ms arbitrary: m n pool pre pos es)
  case Nil
  let ?M = "member_text fmt f i m" and ?w = "render_ident f i"
  obtain k where k: "n = Suc k" "2 * length ?M \<le> k"
    using Nil.prems(3) by (cases n) (auto simp: members_text_simps)
  have pb: "parses_back strtod fmt (snd m)" "plain (snd m)" "0 \<notin> set (fst m)"
    and delim: "delimited ((?w @ [125]) @ rest)"
    using Nil.prems(1,2) delimited_item(3) by simp_all
  obtain r e pool1 where e: "parse_members strtod n (at pool (pre @ ?M @ ((?w @ [125]) @ rest)) pos) v es =
      bind_run (after_item 125 NDM_JSON_PARSE_ERROR_CORRUPTED_OBJECT
          (at pool1 (pre @ r @ ((?w @ [125]) @ rest)) (pos + length r)))
        (\<lambda>(code, ctx, done).
           if code \<noteq> NDM_JSON_PARSE_ERROR_OK then fails code ctx
           else let ms = es @ [e] in
                if done then Run (code, ctx, Some (with_data (DataObject ms) v))
                else parse_members strtod k ctx v ms)"
      "pool_good pool1" "length r = length ?M" "everywhere (member_abs e m) pos r"
    using member_back [OF pb k(2) delim Nil.prems(4,5), where v = v and ms = es] unfolding k(1) by blast
  have "after_item 125 NDM_JSON_PARSE_ERROR_CORRUPTED_OBJECT
      (at pool1 ((pre @ r) @ (?w @ [125]) @ rest) (pos + length r)) =
    Run (NDM_JSON_PARSE_ERROR_OK, at pool1 ((pre @ r) @ (?w @ [125]) @ rest)
      (pos + length r + length (?w @ [125])), True)"
    by (rule after_close_at) (simp_all add: render_ident_space is_json_space_def Nil.prems)
  moreover have "everywhere (member_abs e m) pos ([] @ r @ (?w @ [125]))"
    by (rule everywhere_extend) (simp add: e(4))
  ultimately show ?case
    using e(1-3) by (intro exI [of _ "r @ ?w @ [125]"] exI [of _ "[e]"] exI [of _ pool1])
      (simp add: members_text_simps)
next
  case (Cons m2 ms)
  let ?M = "member_text fmt f i m" and ?w = "render_ident f (i + 2)" and ?E = "members_text fmt f i m2 ms"
  obtain k where k: "n = Suc k" "2 * length ?M \<le> k" "2 * length ?E \<le> k"
    using Cons.prems(3) by (cases n) (auto simp: members_text_simps)
  have pb: "parses_back strtod fmt (snd m)" "plain (snd m)" "0 \<notin> set (fst m)"
    using Cons.prems(1,2) by simp_all
  obtain r e pool1 where e: "parse_members strtod n (at pool (pre @ ?M @ (44 # ?w @ ?E @ rest)) pos) v es =
      bind_run (after_item 125 NDM_JSON_PARSE_ERROR_CORRUPTED_OBJECT
          (at pool1 (pre @ r @ (44 # ?w @ ?E @ rest)) (pos + length r)))
        (\<lambda>(code, ctx, done).
           if code \<noteq> NDM_JSON_PARSE_ERROR_OK then fails code ctx
           else let ms = es @ [e] in
                if done then Run (code, ctx, Some (with_data (DataObject ms) v))
                else parse_members strtod k ctx v ms)"
      "pool_good pool1" "length r = length ?M" "everywhere (member_abs e m) pos r"
    using member_back [OF pb k(2) delimited_item(1) Cons.prems(4,5), where v = v and ms = es] unfolding k(1) by blast
  have "after_item 125 NDM_JSON_PARSE_ERROR_CORRUPTED_OBJECT
      (at pool1 ((pre @ r) @ (44 # ?w) @ (?E @ rest)) (pos + length r)) =
    Run (NDM_JSON_PARSE_ERROR_OK, at pool1 ((pre @ r) @ (44 # ?w) @ (?E @ rest))
      (pos + length r + length (44 # ?w)), False)"
    using members_text_starts [of fmt f i m2 ms] Cons.prems
    by (intro after_comma_at) (simp_all add: render_ident_space is_json_space_def)
  then have item: "after_item 125 NDM_JSON_PARSE_ERROR_CORRUPTED_OBJECT
      (at pool1 (pre @ r @ 44 # ?w @ ?E @ rest) (pos + length r)) =
    Run (NDM_JSON_PARSE_ERROR_OK, at pool1 ((pre @ r @ 44 # ?w) @ ?E @ rest)
      (length (pre @ r @ 44 # ?w)), False)"
    using Cons.prems(5) by simp
  obtain r2 vs pool' where ih: "parse_members strtod k (at pool1 ((pre @ r @ 44 # ?w) @ ?E @ rest)
        (length (pre @ r @ 44 # ?w))) v (es @ [e]) =
      Run (NDM_JSON_PARSE_ERROR_OK, at pool' ((pre @ r @ 44 # ?w) @ r2 @ rest) (length (pre @ r @ 44 # ?w) + length r2),
        Some (with_data (DataObject ((es @ [e]) @ vs)) v))"
      "pool_good pool'" "length r2 = length ?E"
      "list_all2 (\<lambda>v m. everywhere (member_abs v m) (length (pre @ r @ 44 # ?w)) r2) vs (m2 # ms)"
    using Cons.IH [OF _ _ k(3) e(2) refl, of "pre @ r @ 44 # ?w" "es @ [e]"] Cons.prems(1,2) by auto
  let ?r = "r @ 44 # ?w @ r2"
  have "everywhere (member_abs e m) pos ([] @ r @ (44 # ?w @ r2))" by (rule everywhere_extend) (simp add: e(4))
  moreover have "list_all2 (\<lambda>v m. everywhere (member_abs v m) pos ?r) vs (m2 # ms)"
    using ih(4)
  proof (rule list_all2_mono)
    fix x y
    assume "everywhere (member_abs x y) (length (pre @ r @ 44 # ?w)) r2"
    then show "everywhere (member_abs x y) pos ?r"
      using everywhere_extend [of "member_abs x y" pos "r @ 44 # ?w" r2 "[]"] Cons.prems(5) by (simp add: add.assoc)
  qed
  ultimately show ?case
    using e item ih Cons.prems(5) k
    by (intro exI [of _ ?r] exI [of _ "e # vs"] exI [of _ pool']) (simp add: members_text_simps)
qed

lemma parses_back_object:
  assumes "list_all (\<lambda>m. parses_back strtod fmt (snd m)) ms"
    and "list_all (\<lambda>m. 0 \<notin> set (fst m) \<and> plain (snd m)) ms"
  shows "parses_back strtod fmt (TObject ms)"
  unfolding parses_back_def
proof (intro allI impI)
  fix f i n pre rest pool
  let ?R = "render fmt f i (TObject ms)" and ?pos = "length (pre :: u8 list)"
  assume n: "2 * length ?R \<le> n" and rest: "delimited rest" and pool: "pool_good pool"
  obtain m where m: "n = Suc m" using parse_start [of "TObject ms" fmt f i n] assms(2) n by auto
  obtain pool0 where a: "ndm_json_value_alloc_object pool = (Some (Value 5 None (DataObject [])), pool0)"
      "pool_good pool0" using allocs_good(7) [OF pool] by blast
  have step: "ndm_json_parse_value strtod n (at pool (pre @ (123 # B) @ rest) ?pos) =
      ndm_json_parse_object strtod m (at pool0 (pre @ (123 # B) @ rest) ?pos) (Value 5 None (DataObject []))" for B
    using a peek_Cons [of ?pos pre 123 "B @ rest"]
    by (simp add: m ndm_json_parse_value.simps allocated_def)
  show "\<exists>r v pool'. ndm_json_parse_value strtod n (at pool (pre @ ?R @ rest) ?pos) =
      Run (NDM_JSON_PARSE_ERROR_OK, at pool' (pre @ r @ rest) (?pos + length r), Some v) \<and>
    pool_good pool' \<and> length r = length ?R \<and> stands v ?pos r (TObject ms)"
  proof (cases ms)
    case Nil
    let ?w = "render_ident f i"
    have "ndm_json_parse_whitespaces (at pool0 ((pre @ [123]) @ ?w @ (125 # rest)) (?pos + 1)) =
        Some (at pool0 ((pre @ [123]) @ ?w @ (125 # rest)) (?pos + 1 + length ?w))"
      by (rule whitespaces_at) (simp_all add: render_ident_space is_json_space_def)
    moreover have "peek ((pre @ [123] @ ?w) @ 125 # rest) (?pos + 1 + length ?w) = Some 125"
      by (rule peek_Cons) simp
    ultimately show ?thesis
      using step [of "?w @ [125]"] a(2)
      by (intro exI [of _ ?R] exI [of _ "Value 5 None (DataObject [])"] exI [of _ pool0])
        (simp add: Nil ndm_json_parse_object.simps skip_char_def everywhere_def abs_object)
  next
    case (Cons t ts')
    let ?w = "render_ident f (i + 2)" and ?E = "members_text fmt f i t ts'"
    have R: "?R = 123 # ?w @ ?E"
      unfolding Cons members_text_def member_text_def colon_text_def
      by (simp add: comma_list [of ?w "\<lambda>m. render_string (fst m) @ 58 #
          (if f AND NDM_JSON_PRINT_FLAGS_COMPACT = 0 then [32] else []) @ render fmt f (i + 2) (snd m)", simplified])
    have ws: "ndm_json_parse_whitespaces (at pool0 ((pre @ [123]) @ ?w @ (?E @ rest)) (?pos + 1)) =
        Some (at pool0 ((pre @ [123]) @ ?w @ (?E @ rest)) (?pos + 1 + length ?w))"
      using members_text_starts [of fmt f i t ts']
      by (intro whitespaces_at) (simp_all add: render_ident_space is_json_space_def)
    have pk: "peek ((pre @ 123 # ?w) @ ?E @ rest) (length (pre @ 123 # ?w)) = Some 34"
      using peek_at [of "?E @ rest" _ "pre @ 123 # ?w"] members_text_starts [of fmt f i t ts'] by simp
    have fuel: "2 * length ?E \<le> m" using n [unfolded R] m by simp
    obtain r vs pool' where E: "parse_members strtod m (at pool0 ((pre @ 123 # ?w) @ ?E @ rest) (length (pre @ 123 # ?w)))
          (Value 5 None (DataObject [])) [] =
        Run (NDM_JSON_PARSE_ERROR_OK, at pool' ((pre @ 123 # ?w) @ r @ rest) (length (pre @ 123 # ?w) + length r),
          Some (with_data (DataObject ([] @ vs)) (Value 5 None (DataObject []))))"
        "pool_good pool'" "length r = length ?E"
        "list_all2 (\<lambda>v m. everywhere (member_abs v m) (length (pre @ 123 # ?w)) r) vs (t # ts')"
      using members_back [OF _ _ fuel a(2) refl, of strtod "pre @ 123 # ?w" rest "Value 5 None (DataObject [])" "[]"]
        assms Cons by auto
    have "everywhere (\<lambda>str. list_all2 (\<lambda>v m. member_abs v m str) vs (t # ts')) ?pos ((123 # ?w) @ r @ [])"
      by (rule everywhere_list) (use E(4) in simp)
    then have "stands (Value 5 None (DataObject vs)) ?pos ((123 # ?w) @ r @ []) (TObject ms)"
      unfolding Cons member_abs_def by (auto simp: everywhere_def intro!: abs_object)
    then show ?thesis
      using step [of "?w @ ?E"] E ws pk unfolding R
      by (intro exI [of _ "123 # ?w @ r"] exI [of _ "Value 5 None (DataObject vs)"] exI [of _ pool'])
        (simp add: ndm_json_parse_object.simps skip_char_def with_data_def)
  qed
qed

section \<open>The round trip\<close>

lemma plain_parses_back: "plain t \<Longrightarrow> parses_back strtod fmt t"
proof (induction t)
  case (TArray ts)
  then show ?case by (intro parses_back_array) (auto simp: list_all_iff)
next
  case (TObject ms)
  have "parses_back strtod fmt (snd m)" if "m \<in> set ms" for m
    using TObject.IH [OF that snds.intros] TObject.prems that by (auto simp: list_all_iff)
  then show ?case using TObject.prems by (intro parses_back_object) (auto simp: list_all_iff)
qed (rule parses_back_scalar; simp)+

lemma parse_document:
  assumes "plain t" and "hd (render fmt f 0 t) = c" and "2 * length (render fmt f 0 t) \<le> fuel" and "pool_good pool"
  shows "\<exists>r v pool'. ndm_json_parse strtod fuel c fail_code pool (render fmt f 0 t @ [0]) =
      Run (NDM_JSON_PARSE_ERROR_OK, at pool' (r @ [0]) (length r), Some v) \<and>
    json_abs (ref_string (r @ [0]) pool') v t"
proof -
  let ?R = "render fmt f 0 t"
  have start: "?R \<noteq> []" "\<not> is_json_space (hd ?R)" using render_starts [OF assms(1)] by simp_all
  obtain r v pool' where v: "ndm_json_parse_value strtod fuel (at pool ([] @ ?R @ [0]) 0) =
      Run (NDM_JSON_PARSE_ERROR_OK, at pool' ([] @ r @ [0]) (0 + length r), Some v)"
      "length r = length ?R" "stands v 0 r t"
    by (rule parses_backE [OF plain_parses_back [OF assms(1)] assms(3) _ assms(4), of "[0]" 0 "[]"])
      (simp_all add: delimited_def)
  have "ndm_json_parse_whitespaces (at pool ([] @ [] @ (?R @ [0])) 0) =
      Some (at pool ([] @ [] @ (?R @ [0])) (0 + length ([] :: u8 list)))"
    by (rule whitespaces_at) (use start in simp_all)
  moreover have "peek ([] @ ?R @ [0]) 0 = Some (hd (?R @ [0]))" by (rule peek_at) simp_all
  moreover have "ndm_json_parse_whitespaces (at pool' (r @ [] @ [0]) (length r)) =
      Some (at pool' (r @ [] @ [0]) (length r + length ([] :: u8 list)))"
    by (rule whitespaces_at) (simp_all add: is_json_space_def)
  moreover have "peek (r @ [0]) (length r) = Some 0" by (simp add: peek_def nth_append)
  ultimately show ?thesis
    using v start assms(2) everywhere_def [of "\<lambda>str. json_abs str v t" 0 r]
    by (intro exI [of _ r] exI [of _ v] exI [of _ pool']) (auto simp: ndm_json_parse_def)
qed

lemma array_parse_text:
  assumes "list_all plain ts" and "2 * length (render fmt f 0 (TArray ts)) \<le> fuel" and "pool_good pool"
  shows "\<exists>buf pos pool' es. ndm_json_array_parse strtod fuel pool (render fmt f 0 (TArray ts) @ [0]) =
      Run (NDM_JSON_PARSE_ERROR_OK, \<lparr>ctx_pool = pool', ctx_text = buf, ctx_json = pos\<rparr>, Some es) \<and>
    list_all2 (json_abs (ref_string buf pool')) es ts"
proof -
  have "plain (TArray ts)" using assms(1) by simp
  moreover have "hd (render fmt f 0 (TArray ts)) = 91" by simp
  ultimately obtain r v pool' where v: "ndm_json_parse strtod fuel 91 NDM_JSON_PARSE_ERROR_ARRAY pool
        (render fmt f 0 (TArray ts) @ [0]) =
      Run (NDM_JSON_PARSE_ERROR_OK, at pool' (r @ [0]) (length r), Some v)"
      "json_abs (ref_string (r @ [0]) pool') v (TArray ts)"
    using parse_document assms(2,3) by blast
  from v(2) obtain n es where es: "v = Value 4 n (DataArray es)" "list_all2 (json_abs (ref_string (r @ [0]) pool')) es ts"
    by cases auto
  then have "ndm_json_value_array v = Some es"
    by (simp add: ndm_json_value_array_def ndm_json_value_is_array_def json_flag_defs)
  then show ?thesis using v(1) es(2) by (auto simp: ndm_json_array_parse_def)
qed

text \<open>
  C4: what the printer writes, in any layout, the parser reads back: for an
  array of values of trees without doubles (\<open>%g\<close> does not keep them) and without zero bytes in
  strings and names, with integers of at most 64 bits, and while no allocation fails, the text
  parses without error to values of the same trees.
\<close>
theorem json_print_parse:
  assumes "fmt_ok fmt" and "list_all2 (json_abs str) es ts" and "list_all plain ts" and "no_failure heap"
    and "ndm_pool_is_valid pool" "no_failure (pool_sys pool)"
  shows "\<exists>out len. ndm_json_array_print str fmt heap es f = Some (Some out, len) \<and>
    (\<forall>fuel \<ge> 2 * len. \<exists>buf pos pool' es'. ndm_json_array_parse strtod fuel pool out =
        Run (NDM_JSON_PARSE_ERROR_OK, \<lparr>ctx_pool = pool', ctx_text = buf, ctx_json = pos\<rparr>, Some es') \<and>
      list_all2 (json_abs (ref_string buf pool')) es' ts)"
proof -
  have "pool_good pool" using assms(5,6) by (simp add: pool_good_def ndm_pool_is_valid_def)
  then show ?thesis
    using array_print_text [OF assms(1,2), of heap f] array_parse_text [OF assms(3), of fmt f _ pool strtod] assms(4)
    by auto
qed

theorem json_print_parse_witness:
  "\<exists>out len. ndm_json_array_print (\<lambda>_. Some [97, 10]) (\<lambda>_. [48]) \<lparr>answers = \<lambda>_. True, garbage = \<lambda>_. 0\<rparr>
      [Value 2 None (DataString (InText 0)), Value 0 None NoData] 0 = Some (Some out, len) \<and>
    (\<forall>fuel \<ge> 2 * len. \<exists>buf pos pool' es'. ndm_json_array_parse (\<lambda>_. (0, 0, True)) fuel
        (ndm_pool_init \<lparr>answers = \<lambda>_. True, garbage = \<lambda>_. 0\<rparr> [] 0 64) out =
        Run (NDM_JSON_PARSE_ERROR_OK, \<lparr>ctx_pool = pool', ctx_text = buf, ctx_json = pos\<rparr>, Some es') \<and>
      list_all2 (json_abs (ref_string buf pool')) es' [TString [97, 10], TNull])"
  by (rule json_print_parse)
    (simp_all add: fmt_ok_def NDM_JSON_DOUBLE_BUFSIZE_def NDM_INT_MAX_BUFSIZE_def NDM_INT_MAX_STRLEN_def
      abs_string abs_null ndm_pool_init_def ndm_pool_is_valid_def no_failure_def)

end
