(* ===== verification/Vector_Spec.thy ===== *)
theory Vector_Spec
  imports Ndm_Prelude
begin

text \<open>
  The contract of a growing vector, shared by the vectors of pointers and of strings: it
  stands for a list, an insertion may be refused when memory is short and then changes
  nothing, a removal takes one item out. A client asks the size before it uses an index.
\<close>

datatype 'p vec_op = VecInsert heap nat 'p | VecRemove heap nat

definition insert_list :: "nat \<Rightarrow> 'p \<Rightarrow> 'p list \<Rightarrow> 'p list" where
  "insert_list i p xs = take i xs @ p # drop i xs"

definition remove_list :: "nat \<Rightarrow> 'p list \<Rightarrow> 'p list" where
  "remove_list i xs = take i xs @ drop (Suc i) xs"

lemma length_insert_list [simp]: "i \<le> length xs \<Longrightarrow> length (insert_list i p xs) = Suc (length xs)"
  by (simp add: insert_list_def)

lemma length_remove_list [simp]: "i < length xs \<Longrightarrow> length (remove_list i xs) = length xs - 1"
  by (simp add: remove_list_def)

text \<open>A history of calls, with the list it should leave.\<close>

fun vec_run :: "('v \<Rightarrow> nat) \<Rightarrow> (heap \<Rightarrow> 'v \<Rightarrow> nat \<Rightarrow> 'p \<Rightarrow> (bool \<times> 'v) result) \<Rightarrow> (heap \<Rightarrow> 'v \<Rightarrow> nat \<Rightarrow> 'v result) \<Rightarrow>
    'v \<Rightarrow> 'p list \<Rightarrow> 'p vec_op list \<Rightarrow> ('v \<times> 'p list) result" where
  "vec_run sz ins del v xs [] = Ok (v, xs)"
| "vec_run sz ins del v xs (VecInsert h i p # ops) =
     (if i \<le> sz v
      then bind_result (ins h v i p) (\<lambda>(done, v). vec_run sz ins del v (if done then insert_list i p xs else xs) ops)
      else vec_run sz ins del v xs ops)"
| "vec_run sz ins del v xs (VecRemove h i # ops) =
     (if i < sz v
      then bind_result (del h v i) (\<lambda>v. vec_run sz ins del v (remove_list i xs) ops)
      else vec_run sz ins del v xs ops)"

text \<open>The list that a history leaves when every insertion is done.\<close>

fun vec_spec :: "'p list \<Rightarrow> 'p vec_op list \<Rightarrow> 'p list" where
  "vec_spec xs [] = xs"
| "vec_spec xs (VecInsert h i p # ops) = vec_spec (if i \<le> length xs then insert_list i p xs else xs) ops"
| "vec_spec xs (VecRemove h i # ops) = vec_spec (if i < length xs then remove_list i xs else xs) ops"

fun never_fails :: "'p vec_op \<Rightarrow> bool" where
  "never_fails (VecInsert h i p) = no_failure h"
| "never_fails (VecRemove h i) = no_failure h"

text \<open>The removals whose \<open>realloc\<close> to a smaller block succeeds.\<close>

fun shrinks :: "'p vec_op \<Rightarrow> bool" where
  "shrinks (VecInsert h i p) = True"
| "shrinks (VecRemove h i) = can_alloc h"

lemma run_append:
  "vec_run sz ins del v xs ops = Ok (v', xs') \<Longrightarrow>
   vec_run sz ins del v xs (ops @ ops') = vec_run sz ins del v' xs' ops'"
proof (induction ops arbitrary: v xs)
  case (Cons op ops)
  show ?case
  proof (cases op)
    case (VecInsert h i p)
    then show ?thesis using Cons by (cases "i \<le> sz v") (auto simp: bind_result_Ok)
  next
    case (VecRemove h i)
    then show ?thesis using Cons by (cases "i < sz v") (auto simp: bind_result_Ok)
  qed
qed simp

locale vector =
  fixes holds :: "'v \<Rightarrow> 'p list \<Rightarrow> bool"
    and sz :: "'v \<Rightarrow> nat"
    and item :: "'v \<Rightarrow> nat \<Rightarrow> 'p result"
    and ins :: "heap \<Rightarrow> 'v \<Rightarrow> nat \<Rightarrow> 'p \<Rightarrow> (bool \<times> 'v) result"
    and del :: "heap \<Rightarrow> 'v \<Rightarrow> nat \<Rightarrow> 'v result"
  assumes size_holds: "holds v xs \<Longrightarrow> sz v = length xs"
    and item_holds: "holds v xs \<Longrightarrow> i < length xs \<Longrightarrow> item v i = Ok (xs ! i)"
    and ins_holds: "holds v xs \<Longrightarrow> i \<le> length xs \<Longrightarrow>
      ins h v i p = Ok (False, v) \<and> \<not> no_failure h \<or>
      (\<exists>v'. ins h v i p = Ok (True, v') \<and> holds v' (insert_list i p xs))"
    and del_holds: "holds v xs \<Longrightarrow> i < length xs \<Longrightarrow> can_alloc h \<Longrightarrow>
      \<exists>v'. del h v i = Ok v' \<and> holds v' (remove_list i xs)"
begin

text \<open>Every history of calls is defined, and the vector keeps standing for its list.\<close>

lemma run_holds:
  assumes "holds v xs" and "list_all shrinks ops"
  shows "\<exists>v' xs'. vec_run sz ins del v xs ops = Ok (v', xs') \<and> holds v' xs'"
  using assms
proof (induction ops arbitrary: v xs)
  case Nil
  then show ?case by simp
next
  case (Cons op ops)
  show ?case
  proof (cases op)
    case (VecInsert h i p)
    then show ?thesis
      using Cons ins_holds [of v xs i h p] size_holds [of v xs] by (cases "i \<le> length xs") auto
  next
    case (VecRemove h i)
    then show ?thesis
      using Cons del_holds [of v xs i h] size_holds [of v xs] by (cases "i < length xs") auto
  qed
qed

lemma run_items:
  assumes "holds v xs" and "list_all shrinks ops"
  shows "\<exists>v' xs'. vec_run sz ins del v xs ops = Ok (v', xs') \<and> sz v' = length xs' \<and>
    (\<forall>i < length xs'. item v' i = Ok (xs' ! i))"
  using run_holds [OF assms] size_holds item_holds by blast

text \<open>With no failing allocation the list is the one that the calls describe.\<close>

lemma run_spec:
  assumes "holds v xs" and "list_all never_fails ops"
  shows "\<exists>v'. vec_run sz ins del v xs ops = Ok (v', vec_spec xs ops) \<and> holds v' (vec_spec xs ops)"
  using assms
proof (induction ops arbitrary: v xs)
  case Nil
  then show ?case by simp
next
  case (Cons op ops)
  show ?case
  proof (cases op)
    case (VecInsert h i p)
    then show ?thesis
      using Cons ins_holds [of v xs i h p] size_holds [of v xs] by (cases "i \<le> length xs") auto
  next
    case (VecRemove h i)
    then show ?thesis
      using Cons del_holds [of v xs i h] size_holds [of v xs] no_failure_can_alloc [of h]
      by (cases "i < length xs") auto
  qed
qed

text \<open>
  Whatever the allocator answers: the history is defined and the vector keeps standing for its
  list, unless some removal whose \<open>realloc\<close> was refused did not keep it.
\<close>

lemma run_until:
  assumes "holds v xs"
  shows "(\<exists>v' xs'. vec_run sz ins del v xs ops = Ok (v', xs') \<and> holds v' xs') \<or>
    (\<exists>pre h i post v' xs'. ops = pre @ VecRemove h i # post \<and> vec_run sz ins del v xs pre = Ok (v', xs') \<and>
       holds v' xs' \<and> i < length xs' \<and> \<not> can_alloc h \<and>
       \<not> (\<exists>v''. del h v' i = Ok v'' \<and> holds v'' (remove_list i xs')))"
  using assms
proof (induction ops rule: rev_induct)
  case Nil
  then show ?case by simp
next
  case (snoc op ops)
  from snoc.IH [OF snoc.prems] show ?case
  proof
    assume "\<exists>v' xs'. vec_run sz ins del v xs ops = Ok (v', xs') \<and> holds v' xs'"
    then obtain v' xs' where r: "vec_run sz ins del v xs ops = Ok (v', xs')" "holds v' xs'" by blast
    show ?thesis
    proof (cases op)
      case (VecInsert h i p)
      then show ?thesis using r ins_holds [OF r(2), of i h p] size_holds [OF r(2)]
        by (cases "i \<le> length xs'") (auto simp: run_append)
    next
      case (VecRemove h i)
      show ?thesis
      proof (cases "i < length xs' \<and> \<not> (\<exists>v''. del h v' i = Ok v'' \<and> holds v'' (remove_list i xs'))")
        case True
        then show ?thesis using r VecRemove del_holds [OF r(2), of i h] by blast
      next
        case False
        then show ?thesis using r VecRemove size_holds [OF r(2)]
          by (cases "i < length xs'") (auto simp: run_append)
      qed
    qed
  next
    assume "\<exists>pre h i post v' xs'. ops = pre @ VecRemove h i # post \<and> vec_run sz ins del v xs pre = Ok (v', xs') \<and>
       holds v' xs' \<and> i < length xs' \<and> \<not> can_alloc h \<and>
       \<not> (\<exists>v''. del h v' i = Ok v'' \<and> holds v'' (remove_list i xs'))"
    then obtain pre h i post v' xs' where "ops @ [op] = pre @ VecRemove h i # (post @ [op])"
        "vec_run sz ins del v xs pre = Ok (v', xs') \<and>
       holds v' xs' \<and> i < length xs' \<and> \<not> can_alloc h \<and>
       \<not> (\<exists>v''. del h v' i = Ok v'' \<and> holds v'' (remove_list i xs'))" by auto
    then show ?thesis by blast
  qed
qed

lemma push_holds:
  assumes "holds v xs" and "no_failure h"
  shows "\<exists>v'. ins h v (sz v) p = Ok (True, v') \<and> holds v' (xs @ [p])"
  using ins_holds [OF assms(1), of "length xs" h p] size_holds [OF assms(1)] assms(2)
  by (auto simp: insert_list_def)

end

end
