(* ===== verification/Ptrvec.thy ===== *)
theory Ptrvec
  imports Vector_Spec "HOL-Library.Multiset"
begin

text \<open>
  The vector of pointers of \<^verbatim>\<open>src/ptrvec.c\<close> and \<^verbatim>\<open>include/ndm/ptrvec.h\<close>: a heap block
  of slots that grows by eight. A slot is \<open>None\<close> until it is written; reading such a slot,
  leaving the block and a failed assertion are \<open>Undefined\<close>. The size counts slots of
  eight bytes in memory, so it never comes near the end of \<open>size_t\<close>; the mask of
  \<open>ndm_ptrvec_assign\<close> is an \<open>unsigned int\<close>, so there the count is cut to 32 bits.
\<close>

section \<open>The vector\<close>

record 'p ndm_ptrvec_t =
  vec_data :: "'p option list option"
  vec_size :: nat

definition NDM_PTRVEC_BLOCK_SIZE :: nat where "NDM_PTRVEC_BLOCK_SIZE = 8"

definition ndm_ptrvec_init :: "'p ndm_ptrvec_t" where
  "ndm_ptrvec_init = \<lparr>vec_data = None, vec_size = 0\<rparr>"

definition ndm_ptrvec_size :: "'p ndm_ptrvec_t \<Rightarrow> nat" where
  "ndm_ptrvec_size v = vec_size v"

definition ndm_ptrvec_is_empty :: "'p ndm_ptrvec_t \<Rightarrow> bool" where
  "ndm_ptrvec_is_empty v \<longleftrightarrow> ndm_ptrvec_size v = 0"

text \<open>A slot of the block, and the block with a slot written.\<close>

definition load_slot :: "'p option list option \<Rightarrow> nat \<Rightarrow> 'p option" where
  "load_slot data i = (case data of None \<Rightarrow> None | Some blk \<Rightarrow> if i < length blk then blk ! i else None)"

definition store_slot :: "'p option list option \<Rightarrow> nat \<Rightarrow> 'p option \<Rightarrow> 'p option list option" where
  "store_slot data i p =
     (case data of None \<Rightarrow> None | Some blk \<Rightarrow> if i < length blk then Some (blk[i := p]) else None)"

text \<open>\<open>memmove\<close> and \<open>realloc\<close> on slots.\<close>

definition move_slots :: "'p option list option \<Rightarrow> nat \<Rightarrow> nat \<Rightarrow> nat \<Rightarrow> 'p option list option" where
  "move_slots data dst src n =
     (case data of None \<Rightarrow> None
      | Some blk \<Rightarrow>
          if src + n \<le> length blk \<and> dst + n \<le> length blk
          then Some (take dst blk @ take n (drop src blk) @ drop (dst + n) blk) else None)"

definition resize_slots :: "'p option list option \<Rightarrow> nat \<Rightarrow> 'p option list" where
  "resize_slots data n = (let blk = (case data of None \<Rightarrow> [] | Some blk \<Rightarrow> blk) in
     take n blk @ replicate (n - length blk) None)"

definition ndm_ptrvec_at :: "'p ndm_ptrvec_t \<Rightarrow> nat \<Rightarrow> 'p result" where
  "ndm_ptrvec_at v idx = (if idx < vec_size v then need (load_slot (vec_data v) idx) Ok else Undefined)"

definition ndm_ptrvec_set :: "'p ndm_ptrvec_t \<Rightarrow> nat \<Rightarrow> 'p \<Rightarrow> 'p ndm_ptrvec_t result" where
  "ndm_ptrvec_set v idx p =
     (if idx < vec_size v
      then need (store_slot (vec_data v) idx (Some p)) (\<lambda>blk. Ok (v\<lparr>vec_data := Some blk\<rparr>))
      else Undefined)"

definition ndm_ptrvec_insert :: "heap \<Rightarrow> 'p ndm_ptrvec_t \<Rightarrow> nat \<Rightarrow> 'p \<Rightarrow> (bool \<times> 'p ndm_ptrvec_t) result" where
  "ndm_ptrvec_insert heap v idx p =
     (if idx > vec_size v then Undefined
      else
        let do_realloc = (if vec_size v > 0 then vec_size v mod NDM_PTRVEC_BLOCK_SIZE = 0 else vec_data v = None) in
        if do_realloc \<and> \<not> can_alloc heap then Ok (False, v)
        else
          let data = (if do_realloc then Some (resize_slots (vec_data v) (vec_size v + NDM_PTRVEC_BLOCK_SIZE))
                      else vec_data v) in
          need (if idx < vec_size v then move_slots data (idx + 1) idx (vec_size v - idx) else data) (\<lambda>blk.
          need (store_slot (Some blk) idx (Some p)) (\<lambda>blk.
          Ok (True, \<lparr>vec_data = Some blk, vec_size = vec_size v + 1\<rparr>))))"

text \<open>The result of the last \<open>realloc\<close> is stored unchecked.\<close>

definition ndm_ptrvec_remove :: "heap \<Rightarrow> 'p ndm_ptrvec_t \<Rightarrow> nat \<Rightarrow> 'p ndm_ptrvec_t result" where
  "ndm_ptrvec_remove heap v idx =
     (if idx \<ge> vec_size v then Undefined
      else need (if idx < vec_size v - 1 then move_slots (vec_data v) idx (idx + 1) (vec_size v - idx - 1)
                 else vec_data v) (\<lambda>blk.
        let size = vec_size v - 1 in
        Ok (if size mod NDM_PTRVEC_BLOCK_SIZE = 0 \<and> size > 0
            then \<lparr>vec_data = (if can_alloc heap then Some (resize_slots (Some blk) size) else None), vec_size = size\<rparr>
            else \<lparr>vec_data = Some blk, vec_size = size\<rparr>)))"

definition ndm_ptrvec_push_back :: "heap \<Rightarrow> 'p ndm_ptrvec_t \<Rightarrow> 'p \<Rightarrow> (bool \<times> 'p ndm_ptrvec_t) result" where
  "ndm_ptrvec_push_back heap v p = ndm_ptrvec_insert heap v (vec_size v) p"

definition ndm_ptrvec_push_front :: "heap \<Rightarrow> 'p ndm_ptrvec_t \<Rightarrow> 'p \<Rightarrow> (bool \<times> 'p ndm_ptrvec_t) result" where
  "ndm_ptrvec_push_front heap v p = ndm_ptrvec_insert heap v 0 p"

text \<open>On an empty vector the index wraps to the end of \<open>size_t\<close> and the assertion fails.\<close>

definition ndm_ptrvec_pop_back :: "heap \<Rightarrow> 'p ndm_ptrvec_t \<Rightarrow> 'p ndm_ptrvec_t result" where
  "ndm_ptrvec_pop_back heap v =
     (if vec_size v = 0 then Undefined else ndm_ptrvec_remove heap v (vec_size v - 1))"

definition ndm_ptrvec_pop_front :: "heap \<Rightarrow> 'p ndm_ptrvec_t \<Rightarrow> 'p ndm_ptrvec_t result" where
  "ndm_ptrvec_pop_front heap v = ndm_ptrvec_remove heap v 0"

definition ndm_ptrvec_clear :: "'p ndm_ptrvec_t \<Rightarrow> 'p ndm_ptrvec_t" where
  "ndm_ptrvec_clear v = ndm_ptrvec_init"

text \<open>The search loop, from index \<open>i\<close>.\<close>

function find_slot :: "'p ndm_ptrvec_t \<Rightarrow> 'p \<Rightarrow> nat \<Rightarrow> nat result" where
  "find_slot v p i =
     (if i < vec_size v
      then need (load_slot (vec_data v) i) (\<lambda>q. if q = p then Ok i else find_slot v p (i + 1))
      else Ok i)"
  by pat_completeness auto
termination by (relation "measure (\<lambda>(v, p, i). vec_size v - i)") auto

declare find_slot.simps [simp del]

definition ndm_ptrvec_find :: "'p ndm_ptrvec_t \<Rightarrow> 'p \<Rightarrow> nat result" where
  "ndm_ptrvec_find v p = find_slot v p 0"

definition ndm_ptrvec_swap :: "'p ndm_ptrvec_t \<Rightarrow> 'p ndm_ptrvec_t \<Rightarrow> 'p ndm_ptrvec_t \<times> 'p ndm_ptrvec_t" where
  "ndm_ptrvec_swap l r = (r, l)"

text \<open>
  \<open>~(NDM_PTRVEC_BLOCK_SIZE_ - 1)\<close> has 32 bits: the rounded number of slots loses its upper
  half, and copying more slots than the new block has leaves it.
\<close>

definition ndm_ptrvec_assign ::
  "heap \<Rightarrow> 'p ndm_ptrvec_t \<Rightarrow> 'p ndm_ptrvec_t \<Rightarrow> (bool \<times> 'p ndm_ptrvec_t) result" where
  "ndm_ptrvec_assign heap dst src =
     (if \<not> can_alloc heap then Ok (False, dst)
      else
        let n = vec_size src;
            blk = replicate ((n + NDM_PTRVEC_BLOCK_SIZE - 1) mod 2 ^ 32 div NDM_PTRVEC_BLOCK_SIZE * NDM_PTRVEC_BLOCK_SIZE) None
        in case vec_data src of
             None \<Rightarrow> if n = 0 then Ok (True, \<lparr>vec_data = Some blk, vec_size = n\<rparr>) else Undefined
           | Some sblk \<Rightarrow>
               if n \<le> length sblk \<and> n \<le> length blk
               then Ok (True, \<lparr>vec_data = Some (take n sblk @ drop n blk), vec_size = n\<rparr>)
               else Undefined)"

text \<open>The loop moves slots \<open>i + 1 .. size - 1\<close> one down.\<close>

function rotate_slots :: "'p option list option \<Rightarrow> nat \<Rightarrow> nat \<Rightarrow> 'p option list option" where
  "rotate_slots data n i =
     (if i < n - 1
      then (case load_slot data (i + 1) of
              None \<Rightarrow> None
            | Some p \<Rightarrow> (case store_slot data i (Some p) of
                None \<Rightarrow> None | Some blk \<Rightarrow> rotate_slots (Some blk) n (i + 1)))
      else data)"
  by pat_completeness auto
termination by (relation "measure (\<lambda>(data, n, i). n - 1 - i)") auto

declare rotate_slots.simps [simp del]

definition ndm_ptrvec_rotate_left :: "'p ndm_ptrvec_t \<Rightarrow> 'p ndm_ptrvec_t result" where
  "ndm_ptrvec_rotate_left v =
     (if vec_size v > 1
      then need (load_slot (vec_data v) 0) (\<lambda>p.
           need (rotate_slots (vec_data v) (vec_size v) 0) (\<lambda>blk.
           need (store_slot (Some blk) (vec_size v - 1) (Some p)) (\<lambda>blk.
           Ok (v\<lparr>vec_data := Some blk\<rparr>))))
      else Ok v)"

section \<open>Bubble sort\<close>

text \<open>
  One pass of the inner loop over the slots \<open>p .. hi\<close>, and the outer loop that lowers
  \<open>hi\<close>; \<open>compare\<close> gets the two slots' pointers.
\<close>

function bubble_pass :: "('p \<Rightarrow> 'p \<Rightarrow> int) \<Rightarrow> 'p option list \<Rightarrow> nat \<Rightarrow> nat \<Rightarrow> 'p option list option" where
  "bubble_pass compare blk hi p =
     (if p < hi
      then (case (load_slot (Some blk) p, load_slot (Some blk) (p + 1)) of
              (Some x, Some y) \<Rightarrow>
                bubble_pass compare (if compare x y > 0 then blk[p := Some y, p + 1 := Some x] else blk) hi (p + 1)
            | _ \<Rightarrow> None)
      else Some blk)"
  by pat_completeness auto
termination by (relation "measure (\<lambda>(c, blk, hi, p). hi - p)") auto

declare bubble_pass.simps [simp del]

fun bubble_loop :: "('p \<Rightarrow> 'p \<Rightarrow> int) \<Rightarrow> 'p option list \<Rightarrow> nat \<Rightarrow> 'p option list option" where
  "bubble_loop compare blk 0 = Some blk"
| "bubble_loop compare blk (Suc hi) =
     (case bubble_pass compare blk (Suc hi) 0 of None \<Rightarrow> None | Some blk \<Rightarrow> bubble_loop compare blk hi)"

definition ndm_ptrvec_bubble_sort :: "('p \<Rightarrow> 'p \<Rightarrow> int) \<Rightarrow> 'p ndm_ptrvec_t \<Rightarrow> 'p ndm_ptrvec_t result" where
  "ndm_ptrvec_bubble_sort compare v =
     (if vec_size v < 2 then Ok v
      else need (vec_data v) (\<lambda>blk.
           need (bubble_loop compare blk (vec_size v - 1)) (\<lambda>blk.
           Ok (v\<lparr>vec_data := Some blk\<rparr>))))"

section \<open>The list a vector stands for\<close>

definition ptrvec_holds :: "'p ndm_ptrvec_t \<Rightarrow> 'p list \<Rightarrow> bool" where
  "ptrvec_holds v xs \<longleftrightarrow> vec_size v = length xs \<and>
     (vec_data v = None \<and> xs = [] \<or>
      (\<exists>rest. vec_data v = Some (map Some xs @ rest) \<and> 8 \<le> length xs + length rest \<and>
         (length xs + 7) div 8 * 8 \<le> length xs + length rest))"

lemma ptrvec_holds_init: "ptrvec_holds ndm_ptrvec_init []"
  by (simp add: ptrvec_holds_def ndm_ptrvec_init_def)

lemma ptrvec_holds_size: "ptrvec_holds v xs \<Longrightarrow> vec_size v = length xs"
  by (simp add: ptrvec_holds_def)

lemma load_held: "ptrvec_holds v xs \<Longrightarrow> i < length xs \<Longrightarrow> load_slot (vec_data v) i = Some (xs ! i)"
  by (auto simp: ptrvec_holds_def load_slot_def nth_append)

lemma store_held:
  "i < length xs \<Longrightarrow> store_slot (Some (map Some xs @ rest)) i (Some p) = Some (map Some (xs[i := p]) @ rest)"
  by (simp add: store_slot_def list_update_append map_update)

text \<open>Making room and writing, in a block with one free slot.\<close>

lemma insert_slots:
  assumes "i \<le> length xs"
  shows "(case (if i < length xs then move_slots (Some (map Some xs @ r # rest)) (i + 1) i (length xs - i)
            else Some (map Some xs @ r # rest)) of
      None \<Rightarrow> None | Some blk \<Rightarrow> store_slot (Some blk) i (Some p)) =
    Some (map Some (insert_list i p xs) @ rest)"
proof (cases "i < length xs")
  case True
  have "move_slots (Some (map Some xs @ r # rest)) (i + 1) i (length xs - i) =
      Some (map Some (take i xs @ [xs ! i] @ drop i xs) @ rest)"
    using True by (simp add: move_slots_def take_Suc_conv_app_nth take_map drop_map)
  moreover have "store_slot (Some (map Some (take i xs @ [xs ! i] @ drop i xs) @ rest)) i (Some p) =
      Some (map Some ((take i xs @ [xs ! i] @ drop i xs)[i := p]) @ rest)"
    using True by (intro store_held) simp
  moreover have "(take i xs @ [xs ! i] @ drop i xs)[i := p] = insert_list i p xs"
    using True by (simp add: insert_list_def list_update_append)
  ultimately show ?thesis using True by simp
next
  case False
  then show ?thesis
    using assms by (simp add: store_slot_def insert_list_def list_update_append)
qed

lemma insert_block:
  assumes "i \<le> length xs" and "data = Some (map Some xs @ r # rest)"
  shows "need (if i < length xs then move_slots data (i + 1) i (length xs - i) else data) (\<lambda>blk.
      need (store_slot (Some blk) i (Some p)) f) = f (map Some (insert_list i p xs) @ rest)"
  using insert_slots [OF assms(1), where r = r and rest = rest and p = p] assms(2)
  by (auto simp: need_def split: option.splits if_splits)

lemma round_up_8:
  assumes "n mod 8 \<noteq> 0"
  shows "(Suc n + 7) div 8 = (n + 7) div (8 :: nat)" "n < (n + 7) div 8 * (8 :: nat)"
proof -
  obtain q r where n: "n = 8 * q + r" "0 < r" "r < 8"
    using assms by (metis mult_div_mod_eq mod_less_divisor neq0_conv zero_less_numeral)
  have "(n + 7) div 8 = q + 1" by (rule div_nat_eqI) (use n in simp_all)
  moreover have "(Suc n + 7) div 8 = q + 1" by (rule div_nat_eqI) (use n in simp_all)
  ultimately show "(Suc n + 7) div 8 = (n + 7) div 8" "n < (n + 7) div 8 * 8" using n by simp_all
qed

lemma ptrvec_insert:
  assumes holds: "ptrvec_holds v xs" and i: "i \<le> length xs"
  shows "ndm_ptrvec_insert h v i p = Ok (False, v) \<and> \<not> no_failure h \<or>
    (\<exists>v'. ndm_ptrvec_insert h v i p = Ok (True, v') \<and> ptrvec_holds v' (insert_list i p xs))"
proof -
  let ?n = "length xs"
  let ?re = "if ?n > 0 then ?n mod 8 = 0 else vec_data v = None"
  let ?data = "if ?re then Some (resize_slots (vec_data v) (?n + 8)) else vec_data v"
  have n: "vec_size v = ?n" using holds by (rule ptrvec_holds_size)
  have "\<exists>r rest. ?data = Some (map Some xs @ r # rest) \<and> 8 \<le> Suc ?n + length rest \<and>
      (Suc ?n + 7) div 8 * 8 \<le> Suc ?n + length rest"
  proof (cases "vec_data v")
    case None
    then have "xs = []" using holds by (simp add: ptrvec_holds_def)
    then show ?thesis
      using None by (intro exI [of _ None] exI [of _ "replicate 7 None"])
        (simp add: resize_slots_def flip: replicate_Suc)
  next
    case (Some blk)
    then obtain rest where rest: "blk = map Some xs @ rest" "8 \<le> ?n + length rest"
        "(?n + 7) div 8 * 8 \<le> ?n + length rest"
      using holds by (auto simp: ptrvec_holds_def)
    show ?thesis
    proof (cases ?re)
      case True
      define rest' where "rest' = take 8 rest @ replicate (8 - length rest) None"
      have data: "resize_slots (vec_data v) (?n + 8) = map Some xs @ rest'"
        using Some rest(1) by (simp add: resize_slots_def rest'_def)
      have len: "length rest' = 8" by (simp add: rest'_def)
      then obtain r rest2 where "rest' = r # rest2" by (cases rest') auto
      moreover have "?n mod 8 = 0" using True by (simp split: if_splits)
      ultimately show ?thesis using True data len by (intro exI [of _ r] exI [of _ rest2]) auto
    next
      case False
      then have "?n = 0 \<or> ?n mod 8 \<noteq> 0" by (simp split: if_splits)
      then have "rest \<noteq> []" "(Suc ?n + 7) div 8 * 8 \<le> ?n + length rest"
        using rest(2,3) round_up_8 [of ?n] by auto
      then show ?thesis using False Some rest(1,2) by (cases rest) auto
    qed
  qed
  then obtain r rest where data: "?data = Some (map Some xs @ r # rest)"
      "8 \<le> Suc ?n + length rest" "(Suc ?n + 7) div 8 * 8 \<le> Suc ?n + length rest" by blast
  show ?thesis
  proof (cases "?re \<and> \<not> can_alloc h")
    case True
    then show ?thesis
      using i n by (auto simp: ndm_ptrvec_insert_def NDM_PTRVEC_BLOCK_SIZE_def heap_simps)
  next
    case False
    let ?v = "\<lparr>vec_data = Some (map Some (insert_list i p xs) @ rest), vec_size = ?n + 1\<rparr>"
    have "ndm_ptrvec_insert h v i p = Ok (True, ?v)"
      using i False insert_block [OF i data(1), of p "\<lambda>blk. Ok (True, \<lparr>vec_data = Some blk, vec_size = ?n + 1\<rparr>)"]
      unfolding ndm_ptrvec_insert_def NDM_PTRVEC_BLOCK_SIZE_def n Let_def by auto
    moreover have "ptrvec_holds ?v (insert_list i p xs)"
      using data(2,3) i by (auto simp: ptrvec_holds_def)
    ultimately show ?thesis by blast
  qed
qed

lemma remove_slots:
  assumes "i < length xs"
  shows "(if i < length xs - 1 then move_slots (Some (map Some xs @ rest)) i (i + 1) (length xs - i - 1)
      else Some (map Some xs @ rest)) =
    Some (map Some (remove_list i xs) @ Some (last xs) # rest)"
proof (cases "i < length xs - 1")
  case True
  have "drop (i + (length xs - i - 1)) (map Some xs @ rest) = Some (last xs) # rest"
    using True last_conv_nth [of xs] by (cases "xs = []") (simp_all flip: Cons_nth_drop_Suc)
  then show ?thesis
    using True by (simp add: move_slots_def remove_list_def take_map drop_map)
next
  case False
  then have "i = length xs - 1" using assms by simp
  moreover have "xs \<noteq> []" using assms by auto
  ultimately have "remove_list i xs = butlast xs" by (simp add: remove_list_def butlast_conv_take)
  moreover have "map Some xs = map Some (butlast xs) @ [Some (last xs)]"
    using \<open>xs \<noteq> []\<close> by (metis append_butlast_last_id list.simps(8,9) map_append)
  ultimately show ?thesis using False by simp
qed

text \<open>The block is lost when the \<open>realloc\<close> to a smaller one is refused.\<close>

lemma ptrvec_remove_any:
  assumes holds: "ptrvec_holds v xs" and i: "i < length xs"
  shows "if (length xs - 1) mod 8 = 0 \<and> length xs - 1 > 0 \<and> \<not> can_alloc h
    then ndm_ptrvec_remove h v i = Ok \<lparr>vec_data = None, vec_size = length xs - 1\<rparr>
    else \<exists>v'. ndm_ptrvec_remove h v i = Ok v' \<and> ptrvec_holds v' (remove_list i xs)"
proof -
  let ?n = "length xs" and ?ys = "remove_list i xs"
  have n: "vec_size v = ?n" using holds by (rule ptrvec_holds_size)
  obtain rest where rest: "vec_data v = Some (map Some xs @ rest)" "8 \<le> ?n + length rest"
      "(?n + 7) div 8 * 8 \<le> ?n + length rest"
    using holds i by (auto simp: ptrvec_holds_def)
  have len: "length ?ys = ?n - 1" using i by simp
  let ?blk = "map Some ?ys @ Some (last xs) # rest"
  have blk: "need (if i < ?n - 1 then move_slots (vec_data v) i (i + 1) (?n - i - 1) else vec_data v) f = f ?blk" for f
    using remove_slots [OF i, of rest] by (simp only: rest(1) need_simps)
  show ?thesis
  proof (cases "(?n - 1) mod 8 = 0 \<and> ?n - 1 > 0")
    case True
    let ?v = "\<lparr>vec_data = (if can_alloc h then Some (map Some ?ys) else None), vec_size = ?n - 1\<rparr>"
    have "ndm_ptrvec_remove h v i = Ok ?v"
      using i True len
      unfolding ndm_ptrvec_remove_def NDM_PTRVEC_BLOCK_SIZE_def n blk by (simp add: resize_slots_def)
    moreover have "8 \<le> ?n - 1" "(?n - 1 + 7) div 8 * 8 \<le> ?n - 1"
      using True by auto
    ultimately show ?thesis using len True by (auto simp: ptrvec_holds_def)
  next
    case False
    let ?v = "\<lparr>vec_data = Some ?blk, vec_size = ?n - 1\<rparr>"
    have "ndm_ptrvec_remove h v i = Ok ?v"
      using i False unfolding ndm_ptrvec_remove_def NDM_PTRVEC_BLOCK_SIZE_def n blk by (auto simp: Let_def)
    moreover have "(?n - 1 + 7) div 8 * 8 \<le> (?n + 7) div 8 * 8"
      by (intro mult_right_mono div_le_mono) simp_all
    then have "(?n - 1 + 7) div 8 * 8 \<le> ?n + length rest" using rest(3) by (rule le_trans)
    ultimately have "\<exists>v'. ndm_ptrvec_remove h v i = Ok v' \<and> ptrvec_holds v' ?ys"
      using rest(2) len i by (auto simp: ptrvec_holds_def)
    moreover have "\<not> ((?n - 1) mod 8 = 0 \<and> ?n - 1 > 0 \<and> \<not> can_alloc h)" using False by (metis (full_types))
    ultimately show ?thesis by (simp only: if_False)
  qed
qed

lemma ptrvec_remove:
  "ptrvec_holds v xs \<Longrightarrow> i < length xs \<Longrightarrow> can_alloc h \<Longrightarrow>
   \<exists>v'. ndm_ptrvec_remove h v i = Ok v' \<and> ptrvec_holds v' (remove_list i xs)"
  using ptrvec_remove_any [of v xs i h] by simp

interpretation pv: vector ptrvec_holds ndm_ptrvec_size ndm_ptrvec_at ndm_ptrvec_insert ndm_ptrvec_remove
proof unfold_locales
  fix v :: "'a ndm_ptrvec_t" and xs
  assume "ptrvec_holds v xs"
  then show "ndm_ptrvec_size v = length xs" by (simp add: ndm_ptrvec_size_def ptrvec_holds_size)
next
  fix v :: "'a ndm_ptrvec_t" and xs i
  assume "ptrvec_holds v xs" "i < length xs"
  then show "ndm_ptrvec_at v i = Ok (xs ! i)"
    by (simp add: ndm_ptrvec_at_def load_held ptrvec_holds_size)
qed (fact ptrvec_insert ptrvec_remove)+

lemma ptrvec_set:
  assumes "ptrvec_holds v xs" and "i < length xs"
  shows "\<exists>v'. ndm_ptrvec_set v i p = Ok v' \<and> ptrvec_holds v' (xs[i := p])"
proof -
  obtain rest where rest: "vec_data v = Some (map Some xs @ rest)" "8 \<le> length xs + length rest"
      "(length xs + 7) div 8 * 8 \<le> length xs + length rest" and n: "vec_size v = length xs"
    using assms by (auto simp: ptrvec_holds_def)
  then have "ndm_ptrvec_set v i p = Ok (v\<lparr>vec_data := Some (map Some (xs[i := p]) @ rest)\<rparr>)"
    using assms(2) by (simp add: ndm_ptrvec_set_def store_held)
  then show ?thesis using rest(2,3) n by (auto simp: ptrvec_holds_def)
qed

section \<open>Searching\<close>

lemma find_slot_held:
  "ptrvec_holds v xs \<Longrightarrow> i \<le> length xs \<Longrightarrow>
   find_slot v p i = Ok (i + length (takeWhile (\<lambda>q. q \<noteq> p) (drop i xs)))"
proof (induction v p i rule: find_slot.induct)
  case (1 v p i)
  have n: "vec_size v = length xs" using 1(2) by (rule ptrvec_holds_size)
  show ?case
  proof (cases "i < length xs")
    case True
    then have "drop i xs = xs ! i # drop (Suc i) xs" by (rule Cons_nth_drop_Suc [symmetric])
    then show ?thesis
      using 1 True n load_held [OF 1(2) True] by (subst find_slot.simps) simp
  next
    case False
    then show ?thesis using n 1(3) by (subst find_slot.simps) simp
  qed
qed

section \<open>Rotation and copying\<close>

lemma rotate_slots_held:
  "i < length xs \<Longrightarrow>
   rotate_slots (Some (map Some xs @ rest)) (length xs) i =
     Some (map Some (take i xs @ drop (Suc i) xs @ [last xs]) @ rest)"
proof (induction "length xs - Suc i" arbitrary: i xs)
  case 0
  then have end_: "length xs = Suc i" by simp
  then have "xs \<noteq> []" by auto
  then have "take i xs @ [last xs] = xs"
    using end_ append_butlast_last_id [of xs] by (simp add: butlast_conv_take)
  then show ?case using end_ by (subst rotate_slots.simps) simp
next
  case (Suc d)
  let ?xs = "xs[i := xs ! Suc i]"
  have i: "Suc i < length xs" using Suc.hyps(2) by simp
  have load: "load_slot (Some (map Some xs @ rest)) (i + 1) = Some (xs ! Suc i)"
    using i by (simp add: load_slot_def nth_append)
  have step: "rotate_slots (Some (map Some xs @ rest)) (length xs) i =
      rotate_slots (Some (map Some ?xs @ rest)) (length ?xs) (Suc i)"
    using i load store_held [of i xs rest "xs ! Suc i"] by (subst rotate_slots.simps) (auto simp: less_diff_conv)
  have "rotate_slots (Some (map Some ?xs @ rest)) (length ?xs) (Suc i) =
      Some (map Some (take (Suc i) ?xs @ drop (Suc (Suc i)) ?xs @ [last ?xs]) @ rest)"
    using i Suc.hyps(2) by (intro Suc.hyps(1)) simp_all
  moreover have "take (Suc i) ?xs = take i xs @ [xs ! Suc i]"
    using i by (simp add: take_Suc_conv_app_nth)
  moreover have "drop (Suc i) xs = xs ! Suc i # drop (Suc (Suc i)) xs"
    using i by (simp add: Cons_nth_drop_Suc)
  moreover have "last ?xs = last xs"
    using i by (subst last_list_update) auto
  ultimately show ?case using step by (simp add: drop_update_cancel)
qed

lemma ptrvec_rotate:
  assumes "ptrvec_holds v xs"
  shows "\<exists>v'. ndm_ptrvec_rotate_left v = Ok v' \<and> ptrvec_holds v' (rotate1 xs)"
proof (cases "length xs > 1")
  case True
  then obtain rest where rest: "vec_data v = Some (map Some xs @ rest)" "8 \<le> length xs + length rest"
      "(length xs + 7) div 8 * 8 \<le> length xs + length rest" and n: "vec_size v = length xs"
    using assms by (auto simp: ptrvec_holds_def)
  have rotated: "rotate_slots (vec_data v) (length xs) 0 = Some (map Some (drop 1 xs @ [last xs]) @ rest)"
    using True rotate_slots_held [of 0 xs rest] by (cases "xs = []") (simp_all add: rest(1))
  have "store_slot (Some (map Some (drop 1 xs @ [last xs]) @ rest)) (length xs - 1) (Some (xs ! 0)) =
      Some (map Some ((drop 1 xs @ [last xs])[length xs - 1 := xs ! 0]) @ rest)"
    using True by (intro store_held) simp
  moreover have "(drop 1 xs @ [last xs])[length xs - 1 := xs ! 0] = rotate1 xs"
    using True by (cases xs) (auto simp: list_update_append)
  moreover have "load_slot (vec_data v) 0 = Some (xs ! 0)"
    using True by (intro load_held [OF assms]) auto
  ultimately have "ndm_ptrvec_rotate_left v = Ok (v\<lparr>vec_data := Some (map Some (rotate1 xs) @ rest)\<rparr>)"
    using True by (simp add: ndm_ptrvec_rotate_left_def n rotated)
  then show ?thesis using rest(2,3) n by (auto simp: ptrvec_holds_def)
next
  case False
  then have "rotate1 xs = xs" by (cases xs) (auto simp: Suc_le_eq length_Suc_conv)
  then show ?thesis using False assms by (simp add: ndm_ptrvec_rotate_left_def ptrvec_holds_size)
qed

lemma ptrvec_assign:
  assumes "ptrvec_holds src xs" and "xs \<noteq> []" and "can_alloc h" and "length xs + 7 < 2 ^ 32"
  shows "\<exists>v'. ndm_ptrvec_assign h dst src = Ok (True, v') \<and> ptrvec_holds v' xs"
proof -
  obtain rest where rest: "vec_data src = Some (map Some xs @ rest)" and n: "vec_size src = length xs"
    using assms by (auto simp: ptrvec_holds_def)
  let ?cap = "(length xs + 7) div 8 * 8"
  let ?v = "\<lparr>vec_data = Some (map Some xs @ replicate (?cap - length xs) None), vec_size = length xs\<rparr>"
  have cap: "length xs \<le> ?cap"
    using round_up_8(2) [of "length xs"] by (cases "length xs mod 8 = 0") auto
  have small: "(length xs + 8 - 1) mod 2 ^ 32 = length xs + 7" using assms(4) by simp
  have "ndm_ptrvec_assign h dst src = Ok (True, ?v)"
    using assms(3) cap
    unfolding ndm_ptrvec_assign_def rest n NDM_PTRVEC_BLOCK_SIZE_def Let_def small by (simp add: add.commute)
  moreover note cap
  moreover have "1 \<le> (length xs + 7) div 8" using assms(2) by (cases xs) auto
  then have "8 \<le> ?cap" by simp
  ultimately show ?thesis by (auto simp: ptrvec_holds_def)
qed

section \<open>Bubble sort\<close>

text \<open>The passes on lists: one pass moves a largest item to the end.\<close>

fun bubble :: "('p \<Rightarrow> 'p \<Rightarrow> int) \<Rightarrow> 'p list \<Rightarrow> 'p list" where
  "bubble compare (x # y # zs) =
     (if compare x y > 0 then y # bubble compare (x # zs) else x # bubble compare (y # zs))"
| "bubble compare xs = xs"

fun bubbles :: "('p \<Rightarrow> 'p \<Rightarrow> int) \<Rightarrow> nat \<Rightarrow> 'p list \<Rightarrow> 'p list" where
  "bubbles compare 0 xs = xs"
| "bubbles compare (Suc hi) xs =
     bubbles compare hi (bubble compare (take (hi + 2) xs) @ drop (hi + 2) xs)"

lemma bubble_mset [simp]: "mset (bubble compare xs) = mset xs"
  by (induction compare xs rule: bubble.induct) auto

lemma bubble_length [simp]: "length (bubble compare xs) = length xs"
  by (rule mset_eq_length) simp

lemma bubble_set [simp]: "set (bubble compare xs) = set xs"
  by (rule mset_eq_setD) simp

lemma pass_held:
  "cur \<noteq> [] \<Longrightarrow> p = length pre \<Longrightarrow> hi = length pre + length cur - 1 \<Longrightarrow>
   bubble_pass compare (map Some pre @ map Some cur @ rest) hi p =
     Some (map Some pre @ map Some (bubble compare cur) @ rest)"
proof (induction compare cur arbitrary: pre p rule: bubble.induct)
  case (1 compare x y zs)
  let ?swap = "compare x y > 0"
  let ?a = "if ?swap then y else x" and ?b = "if ?swap then x else y"
  have "bubble_pass compare (map Some (pre @ [?a]) @ map Some (?b # zs) @ rest) hi (Suc p) =
      Some (map Some (pre @ [?a]) @ map Some (bubble compare (?b # zs)) @ rest)"
  proof (cases ?swap)
    case True
    then show ?thesis using 1(1) [of "Suc p" "pre @ [y]"] 1(4,5) by simp
  next
    case False
    then show ?thesis using 1(2) [of "Suc p" "pre @ [x]"] 1(4,5) by simp
  qed
  then show ?case
    using 1(4,5) by (cases ?swap; subst bubble_pass.simps) (simp_all add: load_slot_def nth_append list_update_append)
qed (simp, subst bubble_pass.simps, simp)

lemma loop_held:
  "hi < length xs \<Longrightarrow>
   bubble_loop compare (map Some xs @ rest) hi = Some (map Some (bubbles compare hi xs) @ rest)"
proof (induction hi arbitrary: xs)
  case (Suc hi)
  let ?A = "take (hi + 2) xs" and ?D = "drop (hi + 2) xs"
  have "bubble_pass compare (map Some [] @ map Some ?A @ (map Some ?D @ rest)) (Suc hi) 0 =
      Some (map Some [] @ map Some (bubble compare ?A) @ (map Some ?D @ rest))"
    using Suc.prems by (intro pass_held) auto
  moreover have "map Some xs = map Some ?A @ map Some ?D" by (simp flip: map_append)
  then have "map Some [] @ map Some ?A @ (map Some ?D @ rest) = map Some xs @ rest" by simp
  ultimately have "bubble_pass compare (map Some xs @ rest) (Suc hi) 0 =
      Some (map Some (bubble compare ?A @ ?D) @ rest)"
    by (metis append.assoc append_Nil list.simps(8) map_append)
  moreover have "hi < length (bubble compare ?A @ ?D)" using Suc.prems by simp
  ultimately show ?case using Suc.IH [of "bubble compare ?A @ ?D"] by simp
qed simp

lemma bubble_take_mset: "mset (bubble compare (take n xs) @ drop n xs) = mset xs"
  using append_take_drop_id [of n xs] by (simp, metis mset_append)

lemma bubbles_mset [simp]: "mset (bubbles compare hi xs) = mset xs"
  by (induction hi arbitrary: xs) (simp_all add: bubble_take_mset del: mset_append)

lemma bubbles_length [simp]: "length (bubbles compare hi xs) = length xs"
  by (rule mset_eq_length) simp

lemma ptrvec_bubble:
  assumes "ptrvec_holds v xs"
  shows "\<exists>v'. ndm_ptrvec_bubble_sort compare v = Ok v' \<and> ptrvec_holds v' (bubbles compare (length xs - 1) xs)"
proof (cases "length xs < 2")
  case True
  then have "length xs - 1 = 0" by simp
  then show ?thesis using True assms by (simp add: ndm_ptrvec_bubble_sort_def ptrvec_holds_size)
next
  case False
  then obtain rest where rest: "vec_data v = Some (map Some xs @ rest)" "8 \<le> length xs + length rest"
      "(length xs + 7) div 8 * 8 \<le> length xs + length rest" and n: "vec_size v = length xs"
    using assms by (auto simp: ptrvec_holds_def)
  have "length xs - 1 < length xs" using False by linarith
  then show ?thesis
    using False rest n loop_held [of "length xs - 1" xs compare rest]
    by (auto simp: ndm_ptrvec_bubble_sort_def ptrvec_holds_def)
qed

text \<open>With a comparison by key the passes sort, and never exchange items of one key.\<close>

definition compares_by :: "('p \<Rightarrow> 'k::linorder) \<Rightarrow> ('p \<Rightarrow> 'p \<Rightarrow> int) \<Rightarrow> bool" where
  "compares_by key compare \<longleftrightarrow> (\<forall>x y. compare x y > 0 \<longleftrightarrow> key y < key x)"

lemma bubble_stable:
  "compares_by key compare \<Longrightarrow> filter (\<lambda>x. key x = k) (bubble compare xs) = filter (\<lambda>x. key x = k) xs"
  by (induction compare xs rule: bubble.induct) (auto simp: compares_by_def)

lemma bubbles_stable:
  assumes "compares_by key compare"
  shows "filter (\<lambda>x. key x = k) (bubbles compare hi xs) = filter (\<lambda>x. key x = k) xs"
proof (induction hi arbitrary: xs)
  case (Suc hi)
  have "filter (\<lambda>x. key x = k) (bubble compare (take (hi + 2) xs) @ drop (hi + 2) xs) =
      filter (\<lambda>x. key x = k) (take (hi + 2) xs @ drop (hi + 2) xs)"
    unfolding filter_append bubble_stable [OF assms] ..
  then show ?case using Suc by simp
qed simp

lemma bubble_last:
  "compares_by key compare \<Longrightarrow> x \<in> set xs \<Longrightarrow> key x \<le> key (last (bubble compare xs))"
proof (induction compare xs arbitrary: x rule: bubble.induct)
  case (1 compare a b zs)
  have ne: "bubble compare (c # zs) \<noteq> []" for c using bubble_length [of compare "c # zs"] by fastforce
  show ?case
  proof (cases "compare a b > 0")
    case True
    then have "key b < key a" using 1(3) by (simp add: compares_by_def)
    moreover have "key a \<le> key (last (bubble compare (a # zs)))" using 1(1) [OF True 1(3)] by simp
    ultimately show ?thesis using 1(1) [OF True 1(3), of x] 1(4) True ne by auto
  next
    case False
    then have "key a \<le> key b" using 1(3) by (metis compares_by_def not_less)
    moreover have "key b \<le> key (last (bubble compare (b # zs)))" using 1(2) [OF False 1(3)] by simp
    ultimately show ?thesis using 1(2) [OF False 1(3), of x] 1(4) False ne by auto
  qed
qed simp_all

lemma bubbles_sorted:
  assumes "compares_by key compare"
  shows "hi < length xs \<Longrightarrow> sorted (map key (drop (Suc hi) xs)) \<Longrightarrow>
    \<forall>x \<in> set (take (Suc hi) xs). \<forall>y \<in> set (drop (Suc hi) xs). key x \<le> key y \<Longrightarrow>
    sorted (map key (bubbles compare hi xs))"
proof (induction hi arbitrary: xs)
  case 0
  then show ?case by (cases xs) auto
next
  case (Suc hi)
  let ?A = "take (Suc (Suc hi)) xs" and ?D = "drop (Suc (Suc hi)) xs"
  let ?B = "bubble compare ?A"
  have len: "length ?B = Suc (Suc hi)" using Suc.prems(1) by simp
  then have ne: "?B \<noteq> []" by (metis length_0_conv nat.distinct(1))
  have parts: "take (Suc hi) (?B @ ?D) = butlast ?B" "drop (Suc hi) (?B @ ?D) = last ?B # ?D"
    using len ne append_butlast_last_id [OF ne]
    by (simp add: butlast_conv_take, metis (no_types) append.assoc append_Cons append_Nil
      append_eq_conv_conj diff_Suc_1 length_butlast)
  have in_A: "set ?B = set ?A" by simp
  have last: "last ?B \<in> set ?A" using last_in_set [OF ne] in_A by simp
  have but: "x \<in> set (butlast ?B) \<Longrightarrow> x \<in> set ?A" for x using in_set_butlastD in_A by fast
  have "sorted (map key (bubbles compare hi (?B @ ?D)))"
  proof (rule Suc.IH)
    show "hi < length (?B @ ?D)" using len by simp
    show "sorted (map key (drop (Suc hi) (?B @ ?D)))"
      unfolding parts using Suc.prems(2,3) last by auto
    show "\<forall>x \<in> set (take (Suc hi) (?B @ ?D)). \<forall>y \<in> set (drop (Suc hi) (?B @ ?D)). key x \<le> key y"
      unfolding parts using bubble_last [OF assms, of _ ?A] but Suc.prems(3) by auto
  qed
  then show ?case by simp
qed

lemma bubbles_sort_key:
  assumes "compares_by key compare"
  shows "bubbles compare (length xs - 1) xs = sort_key key xs"
proof (rule properties_for_sort_key [symmetric])
  show "mset (bubbles compare (length xs - 1) xs) = mset xs" by simp
  show "filter (\<lambda>x. key k = key x) (bubbles compare (length xs - 1) xs) = filter (\<lambda>x. key k = key x) xs"
    if "k \<in> set (bubbles compare (length xs - 1) xs)" for k
    using bubbles_stable [OF assms, of "key k"] by (simp add: eq_commute)
  show "sorted (map key (bubbles compare (length xs - 1) xs))"
    by (cases "xs = []") (auto intro!: bubbles_sorted [OF assms])
qed

section \<open>Properties\<close>

text \<open>
  C23: any history of insertions and removals on a fresh vector, whatever the allocator
  answers, stays inside the block and leaves the vector holding the list that its calls describe
  (an insertion counts when it was reported as done, and all are when no allocation fails), unless
  a removal down to a positive multiple of eight items had its \<open>realloc\<close> refused: the first such
  removal leaves a vector that still has its size but no block, of which every access is undefined.
\<close>
theorem ptrvec_history:
  "(\<exists>v xs. vec_run ndm_ptrvec_size ndm_ptrvec_insert ndm_ptrvec_remove ndm_ptrvec_init [] ops = Ok (v, xs) \<and>
      ndm_ptrvec_size v = length xs \<and> (\<forall>i < length xs. ndm_ptrvec_at v i = Ok (xs ! i)) \<and>
      (list_all never_fails ops \<longrightarrow> xs = vec_spec [] ops)) \<or>
    (\<exists>pre h i post v xs v'. ops = pre @ VecRemove h i # post \<and> can_alloc h = False \<and>
      vec_run ndm_ptrvec_size ndm_ptrvec_insert ndm_ptrvec_remove ndm_ptrvec_init [] pre = Ok (v, xs) \<and>
      ndm_ptrvec_size v = length xs \<and> (length xs - 1) mod 8 = 0 \<and> 1 < length xs \<and>
      ndm_ptrvec_remove h v i = Ok v' \<and> ndm_ptrvec_size v' = length xs - 1 \<and>
      (\<forall>j. ndm_ptrvec_at v' j = Undefined))"
  using pv.run_until [OF ptrvec_holds_init, of ops]
proof
  assume "\<exists>v xs. vec_run ndm_ptrvec_size ndm_ptrvec_insert ndm_ptrvec_remove ndm_ptrvec_init [] ops = Ok (v, xs) \<and>
    ptrvec_holds v xs"
  then obtain v xs where r: "vec_run ndm_ptrvec_size ndm_ptrvec_insert ndm_ptrvec_remove ndm_ptrvec_init [] ops = Ok (v, xs)"
      "ptrvec_holds v xs" by blast
  have "list_all never_fails ops \<longrightarrow> xs = vec_spec [] ops"
    using pv.run_spec [OF ptrvec_holds_init, of ops] r(1) by auto
  then show ?thesis using r pv.size_holds pv.item_holds by blast
next
  assume "\<exists>pre h i post v xs. ops = pre @ VecRemove h i # post \<and>
    vec_run ndm_ptrvec_size ndm_ptrvec_insert ndm_ptrvec_remove ndm_ptrvec_init [] pre = Ok (v, xs) \<and>
    ptrvec_holds v xs \<and> i < length xs \<and> \<not> can_alloc h \<and>
    \<not> (\<exists>v''. ndm_ptrvec_remove h v i = Ok v'' \<and> ptrvec_holds v'' (remove_list i xs))"
  then obtain pre h i post v xs where r: "ops = pre @ VecRemove h i # post"
      "vec_run ndm_ptrvec_size ndm_ptrvec_insert ndm_ptrvec_remove ndm_ptrvec_init [] pre = Ok (v, xs)"
      "ptrvec_holds v xs" "i < length xs" "\<not> can_alloc h"
      "\<not> (\<exists>v''. ndm_ptrvec_remove h v i = Ok v'' \<and> ptrvec_holds v'' (remove_list i xs))" by blast
  then have lost: "(length xs - 1) mod 8 = 0" "1 < length xs"
      "ndm_ptrvec_remove h v i = Ok \<lparr>vec_data = None, vec_size = length xs - 1\<rparr>"
    using ptrvec_remove_any [OF r(3,4), of h] by (auto split: if_splits)
  have "ndm_ptrvec_at \<lparr>vec_data = None, vec_size = length xs - 1\<rparr> j = (Undefined :: 'a result)" for j
    by (simp add: ndm_ptrvec_at_def load_slot_def)
  then show ?thesis using r lost pv.size_holds [OF r(3)]
    by (intro disjI2 exI [of _ pre] exI [of _ h] exI [of _ i] exI [of _ post] exI [of _ v] exI [of _ xs]
        exI [of _ "\<lparr>vec_data = None, vec_size = length xs - 1\<rparr>"]) (simp add: ndm_ptrvec_size_def)
qed

theorem ptrvec_history_witness:
  "\<exists>v. vec_run ndm_ptrvec_size ndm_ptrvec_insert ndm_ptrvec_remove ndm_ptrvec_init []
      [VecInsert \<lparr>answers = \<lambda>_. True, garbage = \<lambda>_. 0\<rparr> 0 (7 :: nat),
       VecInsert \<lparr>answers = \<lambda>_. True, garbage = \<lambda>_. 0\<rparr> 0 5,
       VecRemove \<lparr>answers = \<lambda>_. True, garbage = \<lambda>_. 0\<rparr> 1] = Ok (v, [5]) \<and> ndm_ptrvec_at v 0 = Ok 5"
  (is "\<exists>v. vec_run _ _ _ _ _ ?ops = _ \<and> _")
proof -
  have all: "list_all never_fails ?ops" by (simp add: no_failure_def)
  have no: "\<not> (\<exists>pre h i post. ?ops = pre @ VecRemove h i # post \<and> can_alloc h = False)"
  proof (intro notI, elim exE conjE)
    fix pre h i post assume o: "?ops = pre @ VecRemove h i # post" "can_alloc h = False"
    have "no_failure h" using all unfolding o(1) by simp
    then show False using o(2) no_failure_can_alloc by blast
  qed
  have spec: "vec_spec [] ?ops = [5]" by (simp add: insert_list_def remove_list_def)
  show ?thesis using ptrvec_history [of ?ops] no all unfolding spec by (elim disjE) fastforce+
qed

text \<open>
  C24: for a comparison by any key, bubble sort stays inside the
  block and gives the stable sort of the vector's list.
\<close>
theorem ptrvec_bubble_sort_stable:
  assumes "ptrvec_holds v xs" and "compares_by key compare"
  shows "\<exists>v'. ndm_ptrvec_bubble_sort compare v = Ok v' \<and> ptrvec_holds v' (sort_key key xs)"
  using ptrvec_bubble [OF assms(1), of compare] bubbles_sort_key [OF assms(2)] by simp

theorem ptrvec_bubble_sort_stable_witness:
  "\<exists>v'. ndm_ptrvec_bubble_sort (\<lambda>x y. int (fst x) - int (fst y))
      \<lparr>vec_data = Some (map Some [(2, 0), (1, 1), (2, 2)] @ replicate 5 None), vec_size = 3\<rparr> = Ok v' \<and>
    ptrvec_holds v' (sort_key fst [(2, 0), (1, 1), (2, 2 :: nat)])"
  by (rule ptrvec_bubble_sort_stable)
    (auto simp: ptrvec_holds_def compares_by_def intro!: exI [of _ "replicate 5 None"])

text \<open>
  The copy of an empty vector keeps a block of no bytes
  as its data, so the next insertion, which allocates only when the data is \<open>NULL\<close>,
  writes outside it.
\<close>
theorem ptrvec_assign_empty_overflows:
  assumes "can_alloc heap"
  shows "\<exists>v. ndm_ptrvec_assign heap dst ndm_ptrvec_init = Ok (True, v) \<and>
    ndm_ptrvec_push_back heap' v p = Undefined"
  using assms
  by (simp add: ndm_ptrvec_assign_def ndm_ptrvec_init_def ndm_ptrvec_push_back_def ndm_ptrvec_insert_def
    NDM_PTRVEC_BLOCK_SIZE_def store_slot_def)

theorem ptrvec_assign_empty_overflows_witness:
  "\<exists>v. ndm_ptrvec_assign \<lparr>answers = \<lambda>_. True, garbage = \<lambda>_. 0\<rparr> ndm_ptrvec_init ndm_ptrvec_init = Ok (True, v) \<and>
    ndm_ptrvec_push_back \<lparr>answers = \<lambda>_. True, garbage = \<lambda>_. 0\<rparr> v (1 :: nat) = Undefined"
  by (rule ptrvec_assign_empty_overflows) (simp add: can_alloc_def)

end
