(* ===== verification/Strmap.thy ===== *)
theory Strmap
  imports Ptrvec Kv_Store
begin

text \<open>
  The map from strings to strings of \<^verbatim>\<open>src/strmap.c\<close>: a vector of entries, searched in
  order, with keys compared byte by byte or ignoring case. Every entry belongs to one
  map, so the vector holds the entries themselves where the code has pointers to them;
  an entry changed through its pointer is a slot written. Keys and values are given by
  their bytes, and the arguments of a call do not lie inside the map.
\<close>

section \<open>Entries\<close>

record ndm_strmap_entry_t =
  ent_value :: "u8 list"
  ent_value_size :: nat
  ent_key_size :: nat
  ent_key :: "u8 list"

record ndm_strmap_t =
  map_vec :: "ndm_strmap_entry_t ndm_ptrvec_t"
  map_flags :: u32

definition NDM_STRMAP_FLAGS_CASE_INSENSITIVE :: u32 where "NDM_STRMAP_FLAGS_CASE_INSENSITIVE = 0x0001"

text \<open>The entry, or \<open>None\<close> for \<open>NULL\<close>, and the allocator after the requests made.\<close>

definition ndm_strmap_entry_alloc :: "heap \<Rightarrow> u8 list \<Rightarrow> u8 list \<Rightarrow> ndm_strmap_entry_t option \<times> heap" where
  "ndm_strmap_entry_alloc heap key val =
     (if \<not> can_alloc heap then (None, heap_next heap)
      else if \<not> can_alloc (heap_next heap) then (None, heap_next (heap_next heap))
      else (Some \<lparr>ent_value = val @ [0], ent_value_size = length val,
                  ent_key_size = length key, ent_key = key @ [0]\<rparr>, heap_next (heap_next heap)))"

section \<open>Finding\<close>

definition to_lower :: "u8 \<Rightarrow> u8" where
  "to_lower c = (if 65 \<le> c \<and> c \<le> 90 then c + 32 else c)"

text \<open>\<open>memcmp\<close> and \<open>strncasecmp\<close> giving 0, on the first \<open>n\<close> bytes; the latter stops at a zero byte.\<close>

fun memcmp_eq :: "nat \<Rightarrow> u8 list \<Rightarrow> u8 list \<Rightarrow> bool option" where
  "memcmp_eq 0 l r = Some True"
| "memcmp_eq (Suc n) (a # l) (b # r) = (if a = b then memcmp_eq n l r else Some False)"
| "memcmp_eq (Suc n) _ _ = None"

fun strncasecmp_eq :: "nat \<Rightarrow> u8 list \<Rightarrow> u8 list \<Rightarrow> bool option" where
  "strncasecmp_eq 0 l r = Some True"
| "strncasecmp_eq (Suc n) (a # l) (b # r) =
     (if to_lower a \<noteq> to_lower b then Some False
      else if a = 0 then Some True else strncasecmp_eq n l r)"
| "strncasecmp_eq (Suc n) _ _ = None"

definition key_comp :: "u32 \<Rightarrow> nat \<Rightarrow> u8 list \<Rightarrow> u8 list \<Rightarrow> bool option" where
  "key_comp f = (if f AND NDM_STRMAP_FLAGS_CASE_INSENSITIVE \<noteq> 0 then strncasecmp_eq else memcmp_eq)"

function strmap_find_from :: "ndm_strmap_t \<Rightarrow> u8 list \<Rightarrow> nat \<Rightarrow> nat result" where
  "strmap_find_from m key i =
     (if i < ndm_ptrvec_size (map_vec m)
      then bind_result (ndm_ptrvec_at (map_vec m) i) (\<lambda>e.
           if ent_key_size e = length key
           then need (key_comp (map_flags m) (length key) (ent_key e) key) (\<lambda>eq.
                if eq then Ok i else strmap_find_from m key (i + 1))
           else strmap_find_from m key (i + 1))
      else Ok i)"
  by pat_completeness auto
termination by (relation "measure (\<lambda>(m, key, i). ndm_ptrvec_size (map_vec m) - i)") auto

declare strmap_find_from.simps [simp del]

definition ndm_strmap_nfind :: "ndm_strmap_t \<Rightarrow> u8 list \<Rightarrow> nat result" where
  "ndm_strmap_nfind m key = strmap_find_from m key 0"

definition ndm_strmap_nhas :: "ndm_strmap_t \<Rightarrow> u8 list \<Rightarrow> bool result" where
  "ndm_strmap_nhas m key =
     bind_result (ndm_strmap_nfind m key) (\<lambda>i. Ok (i < ndm_ptrvec_size (map_vec m)))"

section \<open>Operations\<close>

definition ndm_strmap_init :: "u32 \<Rightarrow> ndm_strmap_t" where
  "ndm_strmap_init f = \<lparr>map_vec = ndm_ptrvec_init, map_flags = f\<rparr>"

definition ndm_strmap_size :: "ndm_strmap_t \<Rightarrow> nat" where
  "ndm_strmap_size m = ndm_ptrvec_size (map_vec m)"

definition ndm_strmap_is_empty :: "ndm_strmap_t \<Rightarrow> bool" where
  "ndm_strmap_is_empty m \<longleftrightarrow> ndm_strmap_size m = 0"

definition ndm_strmap_clear :: "ndm_strmap_t \<Rightarrow> ndm_strmap_t" where
  "ndm_strmap_clear m = m\<lparr>map_vec := ndm_ptrvec_clear (map_vec m)\<rparr>"

text \<open>A new value for an entry: the block is resized when the size differs.\<close>

definition set_entry_value ::
  "heap \<Rightarrow> ndm_strmap_entry_t \<Rightarrow> u8 list \<Rightarrow> ndm_strmap_entry_t option result" where
  "set_entry_value heap e val =
     (let n = length val in
      if ent_value_size e \<noteq> n \<and> \<not> can_alloc heap then Ok None
      else
        let blk = (if ent_value_size e \<noteq> n then resize_block heap (ent_value e) (n + 1) else ent_value e) in
        need (mem_write blk 0 val) (\<lambda>blk.
        need (mem_write blk n [0]) (\<lambda>blk.
        Ok (Some (e\<lparr>ent_value := blk, ent_value_size := n\<rparr>)))))"

definition ndm_strmap_nset ::
  "heap \<Rightarrow> ndm_strmap_t \<Rightarrow> u8 list \<Rightarrow> u8 list \<Rightarrow> (bool \<times> ndm_strmap_t) result" where
  "ndm_strmap_nset heap m key val =
     bind_result (ndm_strmap_nfind m key) (\<lambda>i.
       if i < ndm_ptrvec_size (map_vec m)
       then bind_result (ndm_ptrvec_at (map_vec m) i) (\<lambda>e.
            bind_result (set_entry_value heap e val) (\<lambda>e'.
            case e' of
              None \<Rightarrow> Ok (False, m)
            | Some e' \<Rightarrow>
                bind_result (ndm_ptrvec_set (map_vec m) i e') (\<lambda>v. Ok (True, m\<lparr>map_vec := v\<rparr>))))
       else
         case ndm_strmap_entry_alloc heap key val of
           (None, heap) \<Rightarrow> Ok (False, m)
         | (Some e, heap) \<Rightarrow>
             bind_result (ndm_ptrvec_push_back heap (map_vec m) e) (\<lambda>(done, v).
               Ok (done, if done then m\<lparr>map_vec := v\<rparr> else m)))"

definition ndm_strmap_get_by_index :: "ndm_strmap_t \<Rightarrow> nat \<Rightarrow> u8 list result" where
  "ndm_strmap_get_by_index m i =
     (if i < ndm_ptrvec_size (map_vec m)
      then bind_result (ndm_ptrvec_at (map_vec m) i) (\<lambda>e. Ok (ent_value e)) else Undefined)"

text \<open>The empty string for a key that is not there.\<close>

definition ndm_strmap_nget :: "ndm_strmap_t \<Rightarrow> u8 list \<Rightarrow> u8 list result" where
  "ndm_strmap_nget m key =
     bind_result (ndm_strmap_nfind m key) (\<lambda>i.
       if i < ndm_ptrvec_size (map_vec m) then ndm_strmap_get_by_index m i else Ok [0])"

definition ndm_strmap_get_key :: "ndm_strmap_t \<Rightarrow> nat \<Rightarrow> u8 list result" where
  "ndm_strmap_get_key m i =
     (if i < ndm_ptrvec_size (map_vec m)
      then bind_result (ndm_ptrvec_at (map_vec m) i) (\<lambda>e. Ok (ent_key e)) else Undefined)"

definition ndm_strmap_remove_by_index :: "heap \<Rightarrow> ndm_strmap_t \<Rightarrow> nat \<Rightarrow> ndm_strmap_t result" where
  "ndm_strmap_remove_by_index heap m i =
     (if i < ndm_ptrvec_size (map_vec m)
      then bind_result (ndm_ptrvec_remove heap (map_vec m) i) (\<lambda>v. Ok (m\<lparr>map_vec := v\<rparr>)) else Undefined)"

definition ndm_strmap_nremove :: "heap \<Rightarrow> ndm_strmap_t \<Rightarrow> u8 list \<Rightarrow> (bool \<times> ndm_strmap_t) result" where
  "ndm_strmap_nremove heap m key =
     bind_result (ndm_strmap_nfind m key) (\<lambda>i.
       if i < ndm_ptrvec_size (map_vec m)
       then bind_result (ndm_strmap_remove_by_index heap m i) (\<lambda>m. Ok (True, m)) else Ok (False, m))"

definition ndm_strmap_swap :: "ndm_strmap_t \<Rightarrow> ndm_strmap_t \<Rightarrow> ndm_strmap_t \<times> ndm_strmap_t" where
  "ndm_strmap_swap lmap rmap = (rmap, lmap)"

text \<open>
  The copying loop of \<open>assign\<close>: \<open>v\<close> starts as the copied pointers of \<open>src\<close> and gets a
  new entry at each index. \<open>None\<close>: an allocation failed, the entries made so far and
  the vector are released.
\<close>

function strmap_copy_entries ::
  "heap \<Rightarrow> ndm_strmap_t \<Rightarrow> ndm_strmap_entry_t ndm_ptrvec_t \<Rightarrow> nat \<Rightarrow> ndm_strmap_entry_t ndm_ptrvec_t option result" where
  "strmap_copy_entries heap src v i =
     (if i < ndm_ptrvec_size (map_vec src)
      then bind_result (ndm_ptrvec_at (map_vec src) i) (\<lambda>se.
           need (mem_read (ent_key se) 0 (ent_key_size se)) (\<lambda>key.
           need (mem_read (ent_value se) 0 (ent_value_size se)) (\<lambda>val.
           case ndm_strmap_entry_alloc heap key val of
             (None, heap) \<Rightarrow> Ok None
           | (Some e, heap) \<Rightarrow>
               bind_result (ndm_ptrvec_set v i e) (\<lambda>v. strmap_copy_entries heap src v (i + 1)))))
      else Ok (Some v))"
  by pat_completeness auto
termination by (relation "measure (\<lambda>(heap, src, v, i). ndm_ptrvec_size (map_vec src) - i)") auto

declare strmap_copy_entries.simps [simp del]

text \<open>\<open>same\<close>: both arguments are one map.\<close>

definition ndm_strmap_assign ::
  "heap \<Rightarrow> bool \<Rightarrow> ndm_strmap_t \<Rightarrow> ndm_strmap_t \<Rightarrow> (bool \<times> ndm_strmap_t) result" where
  "ndm_strmap_assign heap same dst src =
     (if same then Ok (True, dst)
      else bind_result (ndm_ptrvec_assign heap ndm_ptrvec_init (map_vec src)) (\<lambda>(done, v).
        if \<not> done then Ok (False, dst)
        else bind_result (strmap_copy_entries (heap_next heap) src v 0) (\<lambda>v.
          case v of
            None \<Rightarrow> Ok (False, dst)
          | Some v \<Rightarrow> Ok (True, \<lparr>map_vec = v, map_flags = map_flags src\<rparr>))))"

text \<open>The calls on terminated strings.\<close>

definition ndm_strmap_flags :: "ndm_strmap_t \<Rightarrow> u32" where
  "ndm_strmap_flags m = map_flags m"

definition ndm_strmap_set :: "heap \<Rightarrow> ndm_strmap_t \<Rightarrow> u8 list \<Rightarrow> u8 list \<Rightarrow> (bool \<times> ndm_strmap_t) result" where
  "ndm_strmap_set heap m key val = ndm_strmap_nset heap m key val"

definition ndm_strmap_get :: "ndm_strmap_t \<Rightarrow> u8 list \<Rightarrow> u8 list result" where
  "ndm_strmap_get m key = ndm_strmap_nget m key"

definition ndm_strmap_remove :: "heap \<Rightarrow> ndm_strmap_t \<Rightarrow> u8 list \<Rightarrow> (bool \<times> ndm_strmap_t) result" where
  "ndm_strmap_remove heap m key = ndm_strmap_nremove heap m key"

definition ndm_strmap_find :: "ndm_strmap_t \<Rightarrow> u8 list \<Rightarrow> nat result" where
  "ndm_strmap_find m key = ndm_strmap_nfind m key"

definition ndm_strmap_has :: "ndm_strmap_t \<Rightarrow> u8 list \<Rightarrow> bool result" where
  "ndm_strmap_has m key = ndm_strmap_nhas m key"

section \<open>The pairs a map holds\<close>

text \<open>Two keys are the same key when they compare equal; \<open>norm_key\<close> decides it.\<close>

definition ignores_case :: "u32 \<Rightarrow> bool" where
  "ignores_case f \<longleftrightarrow> f AND NDM_STRMAP_FLAGS_CASE_INSENSITIVE \<noteq> 0"

definition norm_key :: "u32 \<Rightarrow> u8 list \<Rightarrow> nat \<times> u8 list" where
  "norm_key f k = (length k, if ignores_case f then map to_lower (takeWhile (\<lambda>c. c \<noteq> 0) k) else k)"

definition entry_of :: "u8 list \<times> u8 list \<Rightarrow> ndm_strmap_entry_t" where
  "entry_of kv = \<lparr>ent_value = snd kv @ [0], ent_value_size = length (snd kv),
     ent_key_size = length (fst kv), ent_key = fst kv @ [0]\<rparr>"

definition strmap_holds :: "ndm_strmap_t \<Rightarrow> (u8 list \<times> u8 list) list \<Rightarrow> bool" where
  "strmap_holds m kvs \<longleftrightarrow> ptrvec_holds (map_vec m) (map entry_of kvs) \<and>
     distinct (map (norm_key (map_flags m) \<circ> fst) kvs)"

lemma to_lower_0: "to_lower c = 0 \<longleftrightarrow> c = 0"
proof -
  have "65 \<le> c \<Longrightarrow> c \<le> 90 \<Longrightarrow> c + 32 \<noteq> 0"
    by (auto simp: word_le_nat_alt unat_word_ariths simp flip: unat_eq_0)
  then show ?thesis by (auto simp: to_lower_def)
qed

lemma memcmp_eq_same: "length l = n \<Longrightarrow> length r = n \<Longrightarrow> memcmp_eq n (l @ l') r = Some (l = r)"
proof (induction n arbitrary: l r)
  case (Suc n)
  then show ?case by (cases l; cases r) auto
qed simp

lemma strncasecmp_eq_same:
  "length l = n \<Longrightarrow> length r = n \<Longrightarrow> strncasecmp_eq n (l @ l') r =
    Some (map to_lower (takeWhile (\<lambda>c. c \<noteq> 0) l) = map to_lower (takeWhile (\<lambda>c. c \<noteq> 0) r))"
proof (induction n arbitrary: l r)
  case (Suc n)
  then obtain a l2 b r2 where l: "l = a # l2" "r = b # r2" "length l2 = n" "length r2 = n"
    by (auto simp: length_Suc_conv)
  show ?case
    using Suc.IH [OF l(3,4)] to_lower_0 [of a] to_lower_0 [of b] by (auto simp: l)
qed simp

lemma key_comp_same:
  "length k = length key \<Longrightarrow> key_comp f (length key) (k @ [0]) key = Some (norm_key f k = norm_key f key)"
  by (simp add: key_comp_def norm_key_def ignores_case_def memcmp_eq_same strncasecmp_eq_same)

lemma norm_key_length: "norm_key f k = norm_key f key \<Longrightarrow> length k = length key"
  by (simp add: norm_key_def)

lemma strmap_size: "strmap_holds m kvs \<Longrightarrow> ndm_ptrvec_size (map_vec m) = length kvs"
  using pv.size_holds [of "map_vec m" "map entry_of kvs"] by (simp add: strmap_holds_def)

lemma strmap_at: "strmap_holds m kvs \<Longrightarrow> i < length kvs \<Longrightarrow> ndm_ptrvec_at (map_vec m) i = Ok (entry_of (kvs ! i))"
  using pv.item_holds [of "map_vec m" "map entry_of kvs" i] by (simp add: strmap_holds_def)

text \<open>The search finds the first pair of the key, or the size.\<close>

definition key_index :: "u32 \<Rightarrow> u8 list \<Rightarrow> (u8 list \<times> u8 list) list \<Rightarrow> nat" where
  "key_index f key kvs = length (takeWhile (\<lambda>kv. norm_key f (fst kv) \<noteq> norm_key f key) kvs)"

lemma strmap_find_from_index:
  "strmap_holds m kvs \<Longrightarrow> i \<le> length kvs \<Longrightarrow>
   strmap_find_from m key i = Ok (i + key_index (map_flags m) key (drop i kvs))"
proof (induction m key i rule: strmap_find_from.induct)
  case (1 m key i)
  note size = strmap_size [OF 1(3)]
  show ?case
  proof (cases "i < length kvs")
    case True
    let ?kv = "kvs ! i"
    have at: "ndm_ptrvec_at (map_vec m) i = Ok (entry_of ?kv)" by (rule strmap_at [OF 1(3) True])
    have drop: "drop i kvs = ?kv # drop (Suc i) kvs" using True by (rule Cons_nth_drop_Suc [symmetric])
    have "i < ndm_ptrvec_size (map_vec m)" using True size by simp
    then have rest: "strmap_find_from m key (i + 1) = Ok (i + 1 + key_index (map_flags m) key (drop (i + 1) kvs))"
      if "norm_key (map_flags m) (fst ?kv) \<noteq> norm_key (map_flags m) key"
      using 1(1,2) at 1(3) True that key_comp_same [of "fst ?kv" key "map_flags m"]
      by (cases "length (fst ?kv) = length key") (auto simp: entry_of_def)
    show ?thesis
    proof (cases "norm_key (map_flags m) (fst ?kv) = norm_key (map_flags m) key")
      case True
      then show ?thesis
        using at \<open>i < length kvs\<close> size drop norm_key_length [OF True] key_comp_same [of "fst ?kv" key "map_flags m"]
        by (subst strmap_find_from.simps) (simp add: entry_of_def key_index_def)
    next
      case False
      then show ?thesis
        using at \<open>i < length kvs\<close> size drop rest [OF False] key_comp_same [of "fst ?kv" key "map_flags m"]
        by (subst strmap_find_from.simps) (simp add: entry_of_def key_index_def)
    qed
  next
    case False
    then show ?thesis using size 1(4) by (subst strmap_find_from.simps) (simp add: key_index_def)
  qed
qed

lemma strmap_nfind: "strmap_holds m kvs \<Longrightarrow> ndm_strmap_nfind m key = Ok (key_index (map_flags m) key kvs)"
  using strmap_find_from_index [of m kvs 0 key] by (simp add: ndm_strmap_nfind_def)

section \<open>The map\<close>

definition map_norm :: "u32 \<Rightarrow> (u8 list \<times> u8 list) list \<Rightarrow> nat \<times> u8 list \<rightharpoonup> u8 list" where
  "map_norm f kvs = map_of (map (\<lambda>kv. (norm_key f (fst kv), snd kv)) kvs)"

lemma key_index_le: "key_index f key kvs \<le> length kvs"
  by (simp add: key_index_def length_takeWhile_le)

lemma key_index_found:
  assumes "key_index f key kvs < length kvs"
  shows "norm_key f (fst (kvs ! key_index f key kvs)) = norm_key f key"
  using nth_length_takeWhile [OF assms [unfolded key_index_def]] by (simp add: key_index_def)

lemma key_index_missing: "\<not> key_index f key kvs < length kvs \<Longrightarrow> norm_key f key \<notin> norm_key f ` fst ` set kvs"
  by (induction kvs) (auto simp: key_index_def split: if_splits)

lemma map_norm_found:
  assumes "distinct (map (norm_key f \<circ> fst) kvs)" and "i < length kvs"
  shows "map_norm f kvs (norm_key f (fst (kvs ! i))) = Some (snd (kvs ! i))"
proof -
  have "distinct (map fst (map (\<lambda>kv. (norm_key f (fst kv), snd kv)) kvs))"
    using assms(1) by (simp add: comp_def)
  moreover have "(norm_key f (fst (kvs ! i)), snd (kvs ! i)) \<in> set (map (\<lambda>kv. (norm_key f (fst kv), snd kv)) kvs)"
    using assms(2) by (auto simp: image_iff intro!: bexI [of _ "kvs ! i"])
  ultimately show ?thesis by (simp add: map_norm_def)
qed

lemma map_norm_missing: "norm_key f key \<notin> norm_key f ` fst ` set kvs \<Longrightarrow> map_norm f kvs (norm_key f key) = None"
  by (auto simp: map_norm_def map_of_eq_None_iff image_iff)

lemma map_norm_append:
  "map_norm f (kvs @ [(k, v)]) = (\<lambda>x. case map_norm f kvs x of Some w \<Rightarrow> Some w
     | None \<Rightarrow> if x = norm_key f k then Some v else None)"
  by (auto simp: map_norm_def map_add_def fun_eq_iff split: option.splits)

text \<open>Every lookup of a map, found or not.\<close>

lemma strmap_nget:
  assumes "strmap_holds m kvs"
  shows "ndm_strmap_nget m key =
    Ok (case map_norm (map_flags m) kvs (norm_key (map_flags m) key) of None \<Rightarrow> [0] | Some v \<Rightarrow> v @ [0])"
proof -
  let ?i = "key_index (map_flags m) key kvs" and ?f = "map_flags m"
  have dist: "distinct (map (norm_key ?f \<circ> fst) kvs)" using assms by (simp add: strmap_holds_def)
  show ?thesis
  proof (cases "?i < length kvs")
    case True
    have "map_norm ?f kvs (norm_key ?f key) = Some (snd (kvs ! ?i))"
      using map_norm_found [OF dist True] key_index_found [OF True] by simp
    then show ?thesis
      using True strmap_at [OF assms True] strmap_size [OF assms]
      by (simp add: ndm_strmap_nget_def strmap_nfind [OF assms] ndm_strmap_get_by_index_def entry_of_def)
  next
    case False
    then show ?thesis
      using strmap_size [OF assms] map_norm_missing [OF key_index_missing [OF False]]
      by (simp add: ndm_strmap_nget_def strmap_nfind [OF assms])
  qed
qed

lemma strmap_nhas:
  assumes "strmap_holds m kvs"
  shows "ndm_strmap_nhas m key =
    Ok (map_norm (map_flags m) kvs (norm_key (map_flags m) key) \<noteq> None)"
proof (cases "key_index (map_flags m) key kvs < length kvs")
  case True
  then show ?thesis
    using map_norm_found [of "map_flags m" kvs, OF _ True] key_index_found [OF True] assms strmap_size [OF assms]
    by (simp add: ndm_strmap_nhas_def strmap_nfind [OF assms] strmap_holds_def)
next
  case False
  then show ?thesis
    using map_norm_missing [OF key_index_missing [OF False]] strmap_size [OF assms]
    by (simp add: ndm_strmap_nhas_def strmap_nfind [OF assms])
qed

section \<open>Setting\<close>

lemma set_entry_value:
  "set_entry_value h (entry_of (k, w)) val = Ok None \<and> \<not> no_failure h \<or>
   set_entry_value h (entry_of (k, w)) val = Ok (Some (entry_of (k, val)))"
proof (cases "length w \<noteq> length val \<and> \<not> can_alloc h")
  case True
  then show ?thesis by (auto simp: set_entry_value_def entry_of_def heap_simps)
next
  case False
  define blk where "blk = (if length w \<noteq> length val then resize_block h (w @ [0]) (length val + 1) else w @ [0])"
  have "length blk = length val + 1" by (simp add: blk_def)
  then obtain a b where ab: "blk = a @ [b]" "length a = length val" by (cases blk rule: rev_cases) auto
  have "mem_write blk 0 val = Some (val @ [b])"
    unfolding ab(1) using mem_write_at [of 0 "[]" a val "[b]"] ab(2) by simp
  moreover have "mem_write (val @ [b]) (length val) [0] = Some (val @ [0])"
    using mem_write_at [of "length val" val "[b]" "[0]" "[]"] by simp
  ultimately have "need (mem_write blk 0 val) (\<lambda>blk. need (mem_write blk (length val) [0]) (\<lambda>blk.
      Ok (Some (entry_of (k, w)\<lparr>ent_value := blk, ent_value_size := length val\<rparr>)))) = Ok (Some (entry_of (k, val)))"
    by (simp add: entry_of_def)
  moreover have "ent_value_size (entry_of (k, w)) = length w" "ent_value (entry_of (k, w)) = w @ [0]"
    by (simp_all add: entry_of_def)
  ultimately show ?thesis
    using False unfolding set_entry_value_def Let_def blk_def by auto
qed

text \<open>The pairs after a value is set.\<close>

definition set_pair :: "u32 \<Rightarrow> u8 list \<Rightarrow> u8 list \<Rightarrow> (u8 list \<times> u8 list) list \<Rightarrow> (u8 list \<times> u8 list) list" where
  "set_pair f key val kvs =
     (let i = key_index f key kvs in
      if i < length kvs then kvs[i := (fst (kvs ! i), val)] else kvs @ [(key, val)])"

lemma map_of_list_update:
  "distinct (map fst ps) \<Longrightarrow> i < length ps \<Longrightarrow>
   map_of (ps[i := (fst (ps ! i), v)]) = (map_of ps)(fst (ps ! i) \<mapsto> v)"
proof (induction ps arbitrary: i)
  case (Cons p ps)
  show ?case
  proof (cases i)
    case 0
    then show ?thesis by (cases p) (auto simp: fun_eq_iff)
  next
    case (Suc j)
    then have "fst (ps ! j) \<in> fst ` set ps" using Cons.prems(2) by simp
    then have "fst p \<noteq> fst (ps ! j)" using Cons.prems(1) by (metis distinct.simps(2) list.set_map list.simps(9))
    then show ?thesis using Cons Suc by (cases p) (auto simp: fun_upd_twist)
  qed
qed simp

lemma map_norm_set_pair:
  assumes "distinct (map (norm_key f \<circ> fst) kvs)"
  shows "map_norm f (set_pair f key val kvs) = (map_norm f kvs)(norm_key f key \<mapsto> val)"
proof (cases "key_index f key kvs < length kvs")
  case True
  let ?i = "key_index f key kvs"
  have "distinct (map fst (map (\<lambda>kv. (norm_key f (fst kv), snd kv)) kvs))" using assms by (simp add: comp_def)
  from map_of_list_update [OF this, of ?i] show ?thesis
    using True key_index_found [OF True] by (simp add: map_norm_def set_pair_def map_update Let_def)
next
  case False
  then show ?thesis
    using map_norm_missing [OF key_index_missing [OF False]]
    by (auto simp: set_pair_def map_norm_append fun_eq_iff split: option.splits)
qed

lemma distinct_set_pair:
  assumes "distinct (map (norm_key f \<circ> fst) kvs)"
  shows "distinct (map (norm_key f \<circ> fst) (set_pair f key val kvs))"
proof (cases "key_index f key kvs < length kvs")
  case True
  then have "map (norm_key f \<circ> fst) (set_pair f key val kvs) = map (norm_key f \<circ> fst) kvs"
    using list_update_id [of "map (norm_key f \<circ> fst) kvs" "key_index f key kvs"]
    by (simp add: set_pair_def map_update Let_def)
  then show ?thesis using assms by simp
next
  case False
  then show ?thesis
    using assms key_index_missing [OF False] by (auto simp: set_pair_def)
qed

lemma map_entry_set_pair:
  "map entry_of (set_pair f key val kvs) =
     (let i = key_index f key kvs in
      if i < length kvs then (map entry_of kvs)[i := entry_of (fst (kvs ! i), val)]
      else map entry_of kvs @ [entry_of (key, val)])"
  by (simp add: set_pair_def map_update Let_def)

lemma entry_alloc_cases:
  "(\<exists>h'. ndm_strmap_entry_alloc h key val = (None, h')) \<and> \<not> no_failure h \<or>
   (\<exists>h'. ndm_strmap_entry_alloc h key val = (Some (entry_of (key, val)), h') \<and> (no_failure h \<longrightarrow> no_failure h'))"
  by (auto simp: ndm_strmap_entry_alloc_def entry_of_def heap_simps)

text \<open>Setting is refused, changing nothing, or sets the pair.\<close>

lemma strmap_nset:
  assumes "strmap_holds m kvs"
  shows "ndm_strmap_nset h m key val = Ok (False, m) \<and> \<not> no_failure h \<or>
    (\<exists>m'. ndm_strmap_nset h m key val = Ok (True, m') \<and> map_flags m' = map_flags m \<and>
      strmap_holds m' (set_pair (map_flags m) key val kvs))"
proof -
  let ?f = "map_flags m" and ?i = "key_index (map_flags m) key kvs"
  have vec: "ptrvec_holds (map_vec m) (map entry_of kvs)" and dist: "distinct (map (norm_key ?f \<circ> fst) kvs)"
    using assms by (simp_all add: strmap_holds_def)
  note dist' = distinct_set_pair [OF dist, of key val]
  show ?thesis
  proof (cases "?i < length kvs")
    case True
    let ?k = "fst (kvs ! ?i)"
    have at: "ndm_ptrvec_at (map_vec m) ?i = Ok (entry_of (?k, snd (kvs ! ?i)))"
      using strmap_at [OF assms True] by simp
    obtain v where v: "ndm_ptrvec_set (map_vec m) ?i (entry_of (?k, val)) = Ok v"
        "ptrvec_holds v ((map entry_of kvs)[?i := entry_of (?k, val)])"
      using ptrvec_set [OF vec] True by (metis length_map)
    have "strmap_holds (m\<lparr>map_vec := v\<rparr>) (set_pair ?f key val kvs)"
      using v(2) dist' True by (simp add: strmap_holds_def map_entry_set_pair Let_def)
    then show ?thesis
      using set_entry_value [of h ?k "snd (kvs ! ?i)" val] True at v(1) strmap_size [OF assms]
      by (auto simp: ndm_strmap_nset_def strmap_nfind [OF assms])
  next
    case False
    have size: "vec_size (map_vec m) = length (map entry_of kvs)" using vec by (rule ptrvec_holds_size)
    show ?thesis
    proof (cases "ndm_strmap_entry_alloc h key val")
      case (Pair e h')
      show ?thesis
      proof (cases e)
        case None
        then show ?thesis
          using entry_alloc_cases [of h key val] Pair False strmap_size [OF assms]
          by (auto simp: ndm_strmap_nset_def strmap_nfind [OF assms])
      next
        case (Some e')
        then have e: "e' = entry_of (key, val)" "no_failure h \<longrightarrow> no_failure h'"
          using entry_alloc_cases [of h key val] Pair by auto
        from ptrvec_insert [OF vec order_refl, of h' e'] show ?thesis
        proof
          assume "ndm_ptrvec_insert h' (map_vec m) (length (map entry_of kvs)) e' = Ok (False, map_vec m) \<and> \<not> no_failure h'"
          then show ?thesis
            using Pair Some e(2) False strmap_size [OF assms] size
            by (auto simp: ndm_strmap_nset_def strmap_nfind [OF assms] ndm_ptrvec_push_back_def)
        next
          assume "\<exists>v'. ndm_ptrvec_insert h' (map_vec m) (length (map entry_of kvs)) e' = Ok (True, v') \<and>
            ptrvec_holds v' (insert_list (length (map entry_of kvs)) e' (map entry_of kvs))"
          then obtain v' where v': "ndm_ptrvec_insert h' (map_vec m) (length (map entry_of kvs)) e' = Ok (True, v')"
              "ptrvec_holds v' (map entry_of kvs @ [e'])" by (auto simp: insert_list_def)
          have "strmap_holds (m\<lparr>map_vec := v'\<rparr>) (set_pair ?f key val kvs)"
            using v'(2) dist' False e(1) by (simp add: strmap_holds_def map_entry_set_pair Let_def)
          then show ?thesis
            using Pair Some v'(1) False strmap_size [OF assms] size
            by (auto simp: ndm_strmap_nset_def strmap_nfind [OF assms] ndm_ptrvec_push_back_def)
        qed
      qed
    qed
  qed
qed

section \<open>Removing\<close>

lemma map_of_remove:
  "distinct (map fst ps) \<Longrightarrow> i < length ps \<Longrightarrow> map_of (remove_list i ps) = (map_of ps)(fst (ps ! i) := None)"
proof (induction ps arbitrary: i)
  case (Cons p ps)
  show ?case
  proof (cases i)
    case 0
    then show ?thesis
      using Cons.prems(1) by (cases p) (auto simp: remove_list_def fun_eq_iff map_of_eq_None_iff)
  next
    case (Suc j)
    then have "fst (ps ! j) \<in> fst ` set ps" using Cons.prems(2) by simp
    then have "fst p \<noteq> fst (ps ! j)" using Cons.prems(1) by (metis distinct.simps(2) list.set_map list.simps(9))
    moreover have "remove_list i (p # ps) = p # remove_list j ps" by (simp add: remove_list_def Suc)
    ultimately show ?thesis using Cons Suc by (cases p) (auto simp: fun_upd_twist)
  qed
qed simp

lemma map_remove_list: "map g (remove_list i xs) = remove_list i (map g xs)"
  by (simp add: remove_list_def take_map drop_map)

lemma distinct_remove_list: "distinct xs \<Longrightarrow> distinct (remove_list i xs)"
  by (auto simp: remove_list_def set_take_disj_set_drop_if_distinct)

text \<open>A map whose block was lost: it has its size, and every search is an access to \<open>NULL\<close>.\<close>

definition block_lost :: "ndm_strmap_t \<Rightarrow> bool" where
  "block_lost m \<longleftrightarrow> vec_data (map_vec m) = None \<and> 0 < ndm_strmap_size m"

lemma lost_search: "block_lost m \<Longrightarrow> ndm_strmap_nfind m key = Undefined"
  unfolding ndm_strmap_nfind_def
  by (subst strmap_find_from.simps)
    (auto simp: block_lost_def ndm_strmap_size_def ndm_ptrvec_at_def ndm_ptrvec_size_def load_slot_def)

lemma strmap_nremove:
  assumes "strmap_holds m kvs"
  shows "if map_norm (map_flags m) kvs (norm_key (map_flags m) key) = None
    then ndm_strmap_nremove h m key = Ok (False, m)
    else (\<exists>m' kvs'. ndm_strmap_nremove h m key = Ok (True, m') \<and> map_flags m' = map_flags m \<and> strmap_holds m' kvs' \<and>
        map_norm (map_flags m) kvs' = (map_norm (map_flags m) kvs)(norm_key (map_flags m) key := None)) \<or>
      \<not> can_alloc h \<and> (\<exists>m'. ndm_strmap_nremove h m key = Ok (True, m') \<and> block_lost m')"
proof -
  let ?f = "map_flags m" and ?i = "key_index (map_flags m) key kvs"
  have vec: "ptrvec_holds (map_vec m) (map entry_of kvs)" and dist: "distinct (map (norm_key ?f \<circ> fst) kvs)"
    using assms(1) by (simp_all add: strmap_holds_def)
  show ?thesis
  proof (cases "?i < length kvs")
    case True
    have found: "map_norm ?f kvs (norm_key ?f key) \<noteq> None"
      using map_norm_found [OF dist True] key_index_found [OF True] by simp
    have del: "ndm_strmap_nremove h m key = bind_result (ndm_ptrvec_remove h (map_vec m) ?i) (\<lambda>v. Ok (True, m\<lparr>map_vec := v\<rparr>))"
      using True strmap_size [OF assms(1)]
      by (cases "ndm_ptrvec_remove h (map_vec m) ?i")
        (simp_all add: ndm_strmap_nremove_def strmap_nfind [OF assms(1)] ndm_strmap_remove_by_index_def)
    show ?thesis
    proof (cases "(length kvs - 1) mod 8 = 0 \<and> length kvs - 1 > 0 \<and> \<not> can_alloc h")
      case lost: True
      then have "ndm_ptrvec_remove h (map_vec m) ?i = Ok \<lparr>vec_data = None, vec_size = length kvs - 1\<rparr>"
        using ptrvec_remove_any [OF vec, of ?i h] True by (simp split: if_splits)
      then show ?thesis
        using lost found del by (auto simp: block_lost_def ndm_strmap_size_def ndm_ptrvec_size_def)
    next
      case False
      then obtain v where v: "ndm_ptrvec_remove h (map_vec m) ?i = Ok v" "ptrvec_holds v (remove_list ?i (map entry_of kvs))"
        using ptrvec_remove_any [OF vec, of ?i h] True by (auto split: if_splits)
      have "strmap_holds (m\<lparr>map_vec := v\<rparr>) (remove_list ?i kvs)"
        using v(2) distinct_remove_list [OF dist, of ?i] by (simp add: strmap_holds_def map_remove_list)
      moreover have "distinct (map fst (map (\<lambda>kv. (norm_key ?f (fst kv), snd kv)) kvs))"
        using dist by (simp add: comp_def)
      then have "map_norm ?f (remove_list ?i kvs) = (map_norm ?f kvs)(norm_key ?f key := None)"
        using map_of_remove [of "map (\<lambda>kv. (norm_key ?f (fst kv), snd kv)) kvs" ?i] True key_index_found [OF True]
        by (simp add: map_norm_def map_remove_list)
      ultimately show ?thesis
        using found v(1) del by (auto intro!: exI [of _ "remove_list ?i kvs"])
    qed
  next
    case False
    then show ?thesis
      using map_norm_missing [OF key_index_missing [OF False]] strmap_size [OF assms(1)]
      by (simp add: ndm_strmap_nremove_def strmap_nfind [OF assms(1)])
  qed
qed

section \<open>Copying\<close>

lemma strmap_copy:
  "strmap_holds src kvs \<Longrightarrow> ptrvec_holds v (map entry_of kvs) \<Longrightarrow> i \<le> length kvs \<Longrightarrow>
   strmap_copy_entries h src v i = Ok None \<and> \<not> no_failure h \<or>
   (\<exists>v'. strmap_copy_entries h src v i = Ok (Some v') \<and> ptrvec_holds v' (map entry_of kvs))"
proof (induction h src v i rule: strmap_copy_entries.induct)
  case (1 h src v i)
  note size = strmap_size [OF 1(2)]
  show ?case
  proof (cases "i < length kvs")
    case False
    then show ?thesis using size 1(3) by (subst (1 2) strmap_copy_entries.simps) simp
  next
    case True
    obtain k w where kw: "kvs ! i = (k, w)" by (cases "kvs ! i")
    have at: "ndm_ptrvec_at (map_vec src) i = Ok (entry_of (k, w))" using strmap_at [OF 1(2) True] kw by simp
    have rd: "mem_read (ent_key (entry_of (k, w))) 0 (ent_key_size (entry_of (k, w))) = Some k"
      "mem_read (ent_value (entry_of (k, w))) 0 (ent_value_size (entry_of (k, w))) = Some w"
      by (simp_all add: mem_read_def entry_of_def)
    obtain v1 where v1: "ndm_ptrvec_set v i (entry_of (k, w)) = Ok v1"
        "ptrvec_holds v1 ((map entry_of kvs)[i := entry_of (k, w)])"
      using ptrvec_set [OF 1(3)] True by (metis length_map)
    have "(map entry_of kvs)[i := entry_of (k, w)] = map entry_of kvs"
      using True kw by (metis list_update_id nth_map)
    then have v1': "ptrvec_holds v1 (map entry_of kvs)" using v1(2) by simp
    have step: "strmap_copy_entries h src v i =
        (case ndm_strmap_entry_alloc h k w of (None, heap) \<Rightarrow> Ok None
         | (Some e, heap) \<Rightarrow> bind_result (ndm_ptrvec_set v i e) (\<lambda>v. strmap_copy_entries heap src v (i + 1)))"
      using True size at rd by (subst strmap_copy_entries.simps) simp
    from entry_alloc_cases [of h k w] show ?thesis
    proof
      assume "(\<exists>h'. ndm_strmap_entry_alloc h k w = (None, h')) \<and> \<not> no_failure h"
      then show ?thesis using step by auto
    next
      assume "\<exists>h'. ndm_strmap_entry_alloc h k w = (Some (entry_of (k, w)), h') \<and> (no_failure h \<longrightarrow> no_failure h')"
      then obtain h' where h': "ndm_strmap_entry_alloc h k w = (Some (entry_of (k, w)), h')"
          "no_failure h \<longrightarrow> no_failure h'" by blast
      have "strmap_copy_entries h src v i = strmap_copy_entries h' src v1 (i + 1)"
        using step h'(1) v1(1) by simp
      moreover have "i < ndm_ptrvec_size (map_vec src)" using True size by simp
      ultimately show ?thesis
        using 1(1) [OF _ h'(1) [symmetric] refl 1(2) v1'] True h'(2) by auto
    qed
  qed
qed

lemma strmap_assign:
  assumes "strmap_holds src kvs" and "kvs \<noteq> []" and "length kvs + 7 < 2 ^ 32"
  shows "ndm_strmap_assign h False dst src = Ok (False, dst) \<and> \<not> no_failure h \<or>
    (\<exists>m. ndm_strmap_assign h False dst src = Ok (True, m) \<and> map_flags m = map_flags src \<and> strmap_holds m kvs)"
proof (cases "can_alloc h")
  case False
  then show ?thesis
    by (auto simp: ndm_strmap_assign_def ndm_ptrvec_assign_def heap_simps)
next
  case True
  have vec: "ptrvec_holds (map_vec src) (map entry_of kvs)" and ne: "map entry_of kvs \<noteq> []"
    using assms by (simp_all add: strmap_holds_def)
  obtain v where v: "ndm_ptrvec_assign h ndm_ptrvec_init (map_vec src) = Ok (True, v)" "ptrvec_holds v (map entry_of kvs)"
    using ptrvec_assign [OF vec ne True] assms(3) by auto
  from strmap_copy [OF assms(1) v(2), of 0 "heap_next h"] show ?thesis
    using v(1) assms(1) heap_simps by (auto simp: ndm_strmap_assign_def strmap_holds_def)
qed

section \<open>Histories\<close>

text \<open>
  A history of calls on a map, and the finite map it should leave, whose keys are the normal
  forms that the flags compare: a call that was reported as done has its effect there.
\<close>

fun strmap_step ::
  "ndm_strmap_t \<Rightarrow> (heap, u8 list, u8 list) kv_op \<Rightarrow> (bool \<times> ndm_strmap_t) result" where
  "strmap_step m (KvSet h key val) = ndm_strmap_nset h m key val"
| "strmap_step m (KvDel h key) = ndm_strmap_nremove h m key"

definition norm_effect ::
  "u32 \<Rightarrow> (heap, u8 list, u8 list) kv_op \<Rightarrow> (nat \<times> u8 list \<rightharpoonup> u8 list) \<Rightarrow> nat \<times> u8 list \<rightharpoonup> u8 list" where
  "norm_effect f op = kv_effect (map_kv_op id (norm_key f) id op)"

fun strmap_run ::
  "u32 \<Rightarrow> ndm_strmap_t \<Rightarrow> (nat \<times> u8 list \<rightharpoonup> u8 list) \<Rightarrow> (heap, u8 list, u8 list) kv_op list \<Rightarrow>
   (ndm_strmap_t \<times> (nat \<times> u8 list \<rightharpoonup> u8 list)) result" where
  "strmap_run f m g [] = Ok (m, g)"
| "strmap_run f m g (op # ops) =
     bind_result (strmap_step m op) (\<lambda>(done, m).
     strmap_run f m (if done then norm_effect f op g else g) ops)"

fun op_heap :: "(heap, u8 list, u8 list) kv_op \<Rightarrow> heap" where
  "op_heap (KvSet h key val) = h"
| "op_heap (KvDel h key) = h"

definition strmap_stands :: "u32 \<Rightarrow> ndm_strmap_t \<Rightarrow> (nat \<times> u8 list \<rightharpoonup> u8 list) \<Rightarrow> bool" where
  "strmap_stands f m g \<longleftrightarrow> map_flags m = f \<and> (\<exists>kvs. strmap_holds m kvs \<and> g = map_norm f kvs)"

lemma strmap_step_stands:
  assumes "strmap_stands f m g"
  shows "(\<exists>done m'. strmap_step m op = Ok (done, m') \<and>
      strmap_stands f m' (if done then norm_effect f op g else g) \<and>
      (no_failure (op_heap op) \<longrightarrow> (if done then norm_effect f op g else g) = norm_effect f op g)) \<or>
    (\<exists>h key m'. op = KvDel h key \<and> \<not> can_alloc h \<and> strmap_step m op = Ok (True, m') \<and> block_lost m')"
proof -
  obtain kvs where kvs: "strmap_holds m kvs" "g = map_norm f kvs" "map_flags m = f"
    using assms by (auto simp: strmap_stands_def)
  have dist: "distinct (map (norm_key f \<circ> fst) kvs)" using kvs by (simp add: strmap_holds_def)
  show ?thesis
  proof (cases op)
    case (KvSet h key val)
    have eff: "norm_effect f op g = g(norm_key f key \<mapsto> val)" and st: "strmap_step m op = ndm_strmap_nset h m key val"
      by (simp_all add: KvSet norm_effect_def)
    from strmap_nset [OF kvs(1), of h key val] show ?thesis
    proof (elim disjE)
      assume "ndm_strmap_nset h m key val = Ok (False, m) \<and> \<not> no_failure h"
      then show ?thesis using assms st KvSet by (intro disjI1 exI [of _ False] exI [of _ m]) simp
    next
      assume "\<exists>m'. ndm_strmap_nset h m key val = Ok (True, m') \<and> map_flags m' = map_flags m \<and>
        strmap_holds m' (set_pair (map_flags m) key val kvs)"
      then obtain m' where m': "ndm_strmap_nset h m key val = Ok (True, m')" "map_flags m' = map_flags m"
          "strmap_holds m' (set_pair (map_flags m) key val kvs)" by blast
      have "strmap_stands f m' (g(norm_key f key \<mapsto> val))"
        using m'(2,3) kvs(2,3) map_norm_set_pair [OF dist, of key val] unfolding strmap_stands_def by metis
      then show ?thesis using m'(1) st eff by auto
    qed
  next
    case (KvDel h key)
    have eff: "norm_effect f op g = g(norm_key f key := None)" and st: "strmap_step m op = ndm_strmap_nremove h m key"
      by (simp_all add: KvDel norm_effect_def)
    show ?thesis
    proof (cases "g (norm_key f key)")
      case None
      then have "g(norm_key f key := None) = g" by (simp add: fun_eq_iff)
      moreover have "strmap_step m op = Ok (False, m)"
        using strmap_nremove [OF kvs(1), of key h] None kvs(2,3) st by simp
      ultimately show ?thesis using assms unfolding eff by auto
    next
      case (Some val)
      then have ne: "map_norm (map_flags m) kvs (norm_key (map_flags m) key) \<noteq> None" using kvs by simp
      from strmap_nremove [OF kvs(1), of key h, unfolded if_not_P [OF ne]] show ?thesis
      proof (elim disjE exE conjE)
        fix m' kvs' assume m': "ndm_strmap_nremove h m key = Ok (True, m')" "map_flags m' = map_flags m" "strmap_holds m' kvs'"
          "map_norm (map_flags m) kvs' = (map_norm (map_flags m) kvs)(norm_key (map_flags m) key := None)"
        have "g(norm_key f key := None) = map_norm f kvs'" using m'(4) kvs(2,3) by simp
        then have "strmap_stands f m' (g(norm_key f key := None))"
          using m'(2,3) kvs(3) unfolding strmap_stands_def by blast
        then show ?thesis using m'(1) by (intro disjI1 exI [of _ True] exI [of _ m']) (simp add: st eff)
      next
        fix m' assume "\<not> can_alloc h" "ndm_strmap_nremove h m key = Ok (True, m')" "block_lost m'"
        then show ?thesis by (intro disjI2 exI [of _ h] exI [of _ key] exI [of _ m']) (simp add: KvDel)
      qed
    qed
  qed
qed

lemma strmap_run_until:
  assumes "strmap_stands f m g"
  shows "(\<exists>m' g'. strmap_run f m g ops = Ok (m', g') \<and> strmap_stands f m' g' \<and>
      (list_all (\<lambda>op. no_failure (op_heap op)) ops \<longrightarrow> g' = fold (norm_effect f) ops g)) \<or>
    (\<exists>pre h key post m' g' m''. ops = pre @ KvDel h key # post \<and> \<not> can_alloc h \<and> strmap_run f m g pre = Ok (m', g') \<and>
      ndm_strmap_nremove h m' key = Ok (True, m'') \<and> block_lost m'')"
  using assms
proof (induction ops arbitrary: m g)
  case (Cons op ops)
  from strmap_step_stands [OF Cons.prems, of op] show ?case
  proof
    assume "\<exists>done m'. strmap_step m op = Ok (done, m') \<and>
      strmap_stands f m' (if done then norm_effect f op g else g) \<and>
      (no_failure (op_heap op) \<longrightarrow> (if done then norm_effect f op g else g) = norm_effect f op g)"
    then obtain d m1 g1 where st: "strmap_step m op = Ok (d, m1)" "strmap_stands f m1 g1"
        "no_failure (op_heap op) \<longrightarrow> g1 = norm_effect f op g" "g1 = (if d then norm_effect f op g else g)" by blast
    have run: "strmap_run f m g (op # os) = strmap_run f m1 g1 os" for os using st(1,4) by simp
    from Cons.IH [OF st(2)] show ?thesis
    proof
      assume "\<exists>m' g'. strmap_run f m1 g1 ops = Ok (m', g') \<and> strmap_stands f m' g' \<and>
        (list_all (\<lambda>op. no_failure (op_heap op)) ops \<longrightarrow> g' = fold (norm_effect f) ops g1)"
      then show ?thesis using st(3) unfolding run by auto
    next
      assume "\<exists>pre h key post m' g' m''. ops = pre @ KvDel h key # post \<and> \<not> can_alloc h \<and>
        strmap_run f m1 g1 pre = Ok (m', g') \<and> ndm_strmap_nremove h m' key = Ok (True, m'') \<and> block_lost m''"
      then obtain pre h key post m' g' m'' where "op # ops = (op # pre) @ KvDel h key # post" "\<not> can_alloc h"
          "strmap_run f m g (op # pre) = Ok (m', g')" "ndm_strmap_nremove h m' key = Ok (True, m'')" "block_lost m''"
        using run by auto
      then show ?thesis by blast
    qed
  next
    assume "\<exists>h key m'. op = KvDel h key \<and> \<not> can_alloc h \<and> strmap_step m op = Ok (True, m') \<and> block_lost m'"
    then obtain h key m' where "op # ops = [] @ KvDel h key # ops" "\<not> can_alloc h" "strmap_run f m g [] = Ok (m, g)"
        "ndm_strmap_nremove h m key = Ok (True, m')" "block_lost m'" by auto
    then show ?thesis by blast
  qed
qed simp

lemma stands_lookup:
  assumes "strmap_stands f m g"
  shows "ndm_strmap_nhas m key = Ok (g (norm_key f key) \<noteq> None) \<and>
    ndm_strmap_nget m key = Ok (case g (norm_key f key) of None \<Rightarrow> [0] | Some v \<Rightarrow> v @ [0])"
  using assms strmap_nhas strmap_nget by (auto simp: strmap_stands_def)

section \<open>Properties\<close>

lemma strmap_holds_init: "strmap_holds (ndm_strmap_init f) []"
  by (simp add: strmap_holds_def ndm_strmap_init_def ptrvec_holds_init)

lemma init_stands: "strmap_stands f (ndm_strmap_init f) Map.empty"
  using strmap_holds_init [of f]
  by (auto simp: strmap_stands_def ndm_strmap_init_def map_norm_def intro!: exI [of _ "[]"])

text \<open>
  C22: on a fresh map with any flags, after any history of sets and removals and whatever
  the allocator answers, every call is defined and every key has the value of the last set that was
  reported as done for a key that the flags compare equal to it, and is found unless such a key was
  removed since; when no allocation fails every set is done. The one exception is a removal whose
  \<open>realloc\<close> to a smaller block is refused: the first one that loses the block leaves a map of which
  every lookup is undefined.
\<close>
theorem strmap_history:
  "(\<exists>m g. strmap_run f (ndm_strmap_init f) Map.empty ops = Ok (m, g) \<and>
      (\<forall>key. ndm_strmap_nhas m key = Ok (g (norm_key f key) \<noteq> None) \<and>
         ndm_strmap_nget m key = Ok (case g (norm_key f key) of None \<Rightarrow> [0] | Some v \<Rightarrow> v @ [0])) \<and>
      (list_all (\<lambda>op. no_failure (op_heap op)) ops \<longrightarrow> g = fold (norm_effect f) ops Map.empty)) \<or>
    (\<exists>pre h key post m g m'. ops = pre @ KvDel h key # post \<and> can_alloc h = False \<and>
      strmap_run f (ndm_strmap_init f) Map.empty pre = Ok (m, g) \<and>
      ndm_strmap_nremove h m key = Ok (True, m') \<and> (\<forall>k. ndm_strmap_nget m' k = Undefined))"
proof -
  have "ndm_strmap_nget m k = Undefined" if "block_lost m" for m k
    using lost_search [OF that] by (simp add: ndm_strmap_nget_def)
  then show ?thesis
    using strmap_run_until [OF init_stands [of f], of ops] stands_lookup by (elim disjE) blast+
qed

theorem strmap_history_witness:
  "\<exists>m g. strmap_run 1 (ndm_strmap_init 1) Map.empty
      [KvSet \<lparr>answers = \<lambda>_. True, garbage = \<lambda>_. 0\<rparr> [72, 111] [49], KvSet \<lparr>answers = \<lambda>_. True, garbage = \<lambda>_. 0\<rparr> [104, 79] [50]] =
      Ok (m, g) \<and> ndm_strmap_nget m [72, 79] = Ok [50, 0]"
  (is "\<exists>m g. strmap_run _ _ _ ?ops = _ \<and> _")
proof -
  have all: "list_all (\<lambda>op. no_failure (op_heap op)) ?ops" by (simp add: no_failure_def)
  have no: "\<not> (\<exists>pre h key post. ?ops = pre @ KvDel h key # post)" by (auto simp: Cons_eq_append_conv)
  have "norm_key 1 [72, 111] = norm_key 1 [72, 79]" "norm_key 1 [104, 79] = norm_key 1 [72, 79]"
    by (simp_all add: norm_key_def ignores_case_def NDM_STRMAP_FLAGS_CASE_INSENSITIVE_def to_lower_def)
  then have g: "fold (norm_effect 1) ?ops Map.empty (norm_key 1 [72, 79]) = Some [50]"
    by (simp add: norm_effect_def)
  from strmap_history [of 1 ?ops] no
  obtain m g where "strmap_run 1 (ndm_strmap_init 1) Map.empty ?ops = Ok (m, g)"
      "ndm_strmap_nget m [72, 79] = Ok (case g (norm_key 1 [72, 79]) of None \<Rightarrow> [0] | Some v \<Rightarrow> v @ [0])"
      "g = fold (norm_effect 1) ?ops Map.empty"
    using all by blast
  then show ?thesis using g by auto
qed

text \<open>
  A set that is done, with either kind of keys, changes the value of the
  keys that compare equal to the one set and of no other key; a set that is refused
  changes nothing, and none is refused while memory lasts.
\<close>
theorem strmap_set_get:
  assumes "strmap_holds m kvs"
  shows "\<exists>done m'. ndm_strmap_nset heap m key val = Ok (done, m') \<and> (no_failure heap \<longrightarrow> done) \<and>
    (if done then \<forall>k. ndm_strmap_nget m' k =
         (if norm_key (map_flags m) k = norm_key (map_flags m) key then Ok (val @ [0]) else ndm_strmap_nget m k)
     else m' = m)"
proof -
  let ?f = "map_flags m"
  have upd: "map_norm ?f (set_pair ?f key val kvs) = (map_norm ?f kvs)(norm_key ?f key \<mapsto> val)"
    by (rule map_norm_set_pair) (use assms in \<open>simp add: strmap_holds_def\<close>)
  show ?thesis
    using strmap_nset [OF assms, of heap key val]
  proof
    assume "\<exists>m'. ndm_strmap_nset heap m key val = Ok (True, m') \<and> map_flags m' = ?f \<and>
      strmap_holds m' (set_pair ?f key val kvs)"
    then obtain m' where m': "ndm_strmap_nset heap m key val = Ok (True, m')" "map_flags m' = ?f"
        "strmap_holds m' (set_pair ?f key val kvs)" by blast
    have "ndm_strmap_nget m' k = (if norm_key ?f k = norm_key ?f key then Ok (val @ [0]) else ndm_strmap_nget m k)" for k
      using strmap_nget [OF m'(3), of k] strmap_nget [OF assms, of k] by (simp add: m'(2) upd)
    then show ?thesis using m'(1) by auto
  qed auto
qed

theorem strmap_set_get_witness:
  "\<exists>done m'. ndm_strmap_nset \<lparr>answers = \<lambda>_. True, garbage = \<lambda>_. 0\<rparr> (ndm_strmap_init 1) [72, 111] [49] = Ok (done, m') \<and>
    (no_failure \<lparr>answers = \<lambda>_. True, garbage = \<lambda>_. 0\<rparr> \<longrightarrow> done) \<and>
    (if done then \<forall>k. ndm_strmap_nget m' k =
         (if norm_key (map_flags (ndm_strmap_init 1)) k = norm_key (map_flags (ndm_strmap_init 1)) [72, 111]
          then Ok ([49] @ [0]) else ndm_strmap_nget (ndm_strmap_init 1) k)
     else m' = ndm_strmap_init 1)"
  by (rule strmap_set_get [OF strmap_holds_init])

text \<open>
  The copy of a map that is not empty and has less than \<open>2 ^ 32 - 7\<close> pairs has the same pairs
  and the same kind of keys; when memory runs out the destination is left as it was.
\<close>
theorem strmap_assign_copies:
  assumes "strmap_holds src kvs" and "kvs \<noteq> []" and "length kvs + 7 < 2 ^ 32"
  shows "\<exists>done m. ndm_strmap_assign heap False dst src = Ok (done, m) \<and> (no_failure heap \<longrightarrow> done) \<and>
    (if done then \<forall>k. ndm_strmap_nget m k = ndm_strmap_nget src k else m = dst)"
  using strmap_assign [OF assms, of heap dst]
proof
  assume "\<exists>m. ndm_strmap_assign heap False dst src = Ok (True, m) \<and> map_flags m = map_flags src \<and> strmap_holds m kvs"
  then obtain m where m: "ndm_strmap_assign heap False dst src = Ok (True, m)" "map_flags m = map_flags src"
      "strmap_holds m kvs" by blast
  have "ndm_strmap_nget m k = ndm_strmap_nget src k" for k
    using strmap_nget [OF m(3), of k] strmap_nget [OF assms(1), of k] m(2) by simp
  then show ?thesis using m(1) by auto
qed auto

theorem strmap_assign_copies_witness:
  "\<exists>done m. ndm_strmap_assign \<lparr>answers = \<lambda>_. True, garbage = \<lambda>_. 0\<rparr> False (ndm_strmap_init 0)
      \<lparr>map_vec = \<lparr>vec_data = Some (map Some [entry_of ([65], [66])] @ replicate 7 None), vec_size = 1\<rparr>, map_flags = 0\<rparr> =
      Ok (done, m) \<and> (no_failure \<lparr>answers = \<lambda>_. True, garbage = \<lambda>_. 0\<rparr> \<longrightarrow> done) \<and>
    (if done then \<forall>k. ndm_strmap_nget m k = ndm_strmap_nget
      \<lparr>map_vec = \<lparr>vec_data = Some (map Some [entry_of ([65], [66])] @ replicate 7 None), vec_size = 1\<rparr>, map_flags = 0\<rparr> k
     else m = ndm_strmap_init 0)"
  by (rule strmap_assign_copies [of _ "[([65], [66])]"])
    (auto simp: strmap_holds_def ptrvec_holds_def intro!: exI [of _ "replicate 7 None"])

end
