(* ===== verification/Strvec.thy ===== *)
theory Strvec
  imports Vector_Spec Pool "HOL-Library.Multiset"
begin

text \<open>
  The vector of strings of \<^verbatim>\<open>src/strvec.c\<close> and \<^verbatim>\<open>include/ndm/strvec.h\<close>: a heap block of
  pointers to strings the vector owns, with a closing \<open>NULL\<close>. A call returns the
  allocator after its requests. Strings are given without their terminator. A call with two
  vectors is modelled for different ones: \<open>ndm_strvec_assign\<close> of a vector to itself would clear
  its source first.
\<close>

section \<open>The vector\<close>

datatype str_slot = Junk | Null | Str cstring

record ndm_strvec_t =
  sv_data :: "str_slot list option"
  sv_size :: nat

definition ndm_strvec_init :: ndm_strvec_t where
  "ndm_strvec_init = \<lparr>sv_data = None, sv_size = 0\<rparr>"

definition ndm_strvec_size :: "ndm_strvec_t \<Rightarrow> nat" where
  "ndm_strvec_size v = sv_size v"

definition ndm_strvec_is_empty :: "ndm_strvec_t \<Rightarrow> bool" where
  "ndm_strvec_is_empty v \<longleftrightarrow> sv_size v = 0"

text \<open>A slot read and a slot written, \<open>None\<close> outside the block.\<close>

definition slot_at :: "str_slot list option \<Rightarrow> nat \<Rightarrow> str_slot option" where
  "slot_at data i = (case data of None \<Rightarrow> None | Some blk \<Rightarrow> if i < length blk then Some (blk ! i) else None)"

definition slot_put :: "str_slot list option \<Rightarrow> nat \<Rightarrow> str_slot \<Rightarrow> str_slot list option" where
  "slot_put data i s =
     (case data of None \<Rightarrow> None | Some blk \<Rightarrow> if i < length blk then Some (blk[i := s]) else None)"

definition resize_strs :: "str_slot list option \<Rightarrow> nat \<Rightarrow> str_slot list" where
  "resize_strs data n = (let blk = (case data of None \<Rightarrow> [] | Some blk \<Rightarrow> blk) in
     take n blk @ replicate (n - length blk) Junk)"

text \<open>The string at an index: a slot that holds no string cannot be used as one.\<close>

definition str_at :: "ndm_strvec_t \<Rightarrow> nat \<Rightarrow> cstring result" where
  "str_at v i = (case slot_at (sv_data v) i of Some (Str s) \<Rightarrow> Ok s | _ \<Rightarrow> Undefined)"

definition ndm_strvec_at :: "ndm_strvec_t \<Rightarrow> nat \<Rightarrow> cstring result" where
  "ndm_strvec_at v i = str_at v i"

definition ndm_strvec_front :: "ndm_strvec_t \<Rightarrow> cstring result" where
  "ndm_strvec_front v = str_at v 0"

definition ndm_strvec_back :: "ndm_strvec_t \<Rightarrow> cstring result" where
  "ndm_strvec_back v = (if sv_size v = 0 then Undefined else str_at v (sv_size v - 1))"

definition ndm_strvec_array :: "ndm_strvec_t \<Rightarrow> str_slot list" where
  "ndm_strvec_array v =
     (case sv_data v of None \<Rightarrow> [Null] | Some blk \<Rightarrow> if sv_size v = 0 then [Null] else blk)"

section \<open>Comparing and searching\<close>

function equal_from :: "ndm_strvec_t \<Rightarrow> ndm_strvec_t \<Rightarrow> nat \<Rightarrow> nat result" where
  "equal_from v r i =
     (if i < sv_size v
      then bind_result (str_at v i) (\<lambda>s. bind_result (str_at r i) (\<lambda>t.
           if s = t then equal_from v r (i + 1) else Ok i))
      else Ok i)"
  by pat_completeness auto
termination by (relation "measure (\<lambda>(v, r, i). sv_size v - i)") auto

declare equal_from.simps [simp del]

definition ndm_strvec_is_equal :: "ndm_strvec_t \<Rightarrow> ndm_strvec_t \<Rightarrow> bool result" where
  "ndm_strvec_is_equal v r =
     (if sv_size v = sv_size r then bind_result (equal_from v r 0) (\<lambda>i. Ok (i = sv_size v)) else Ok False)"

function strvec_find_from :: "ndm_strvec_t \<Rightarrow> cstring \<Rightarrow> nat \<Rightarrow> nat result" where
  "strvec_find_from v s i =
     (if i < sv_size v
      then bind_result (str_at v i) (\<lambda>t. if t \<noteq> s then strvec_find_from v s (i + 1) else Ok i)
      else Ok i)"
  by pat_completeness auto
termination by (relation "measure (\<lambda>(v, s, i). sv_size v - i)") auto

declare strvec_find_from.simps [simp del]

definition ndm_strvec_find :: "ndm_strvec_t \<Rightarrow> cstring \<Rightarrow> nat result" where
  "ndm_strvec_find v s = strvec_find_from v s 0"

section \<open>Inserting and removing\<close>

text \<open>
  The loop that makes room, with \<open>k + 1\<close> as its counter: below the index 0 it would
  read before the block.
\<close>

fun shift_up :: "str_slot list \<Rightarrow> nat \<Rightarrow> nat \<Rightarrow> str_slot list option" where
  "shift_up blk 0 i = (if i = 0 then Some blk else None)"
| "shift_up blk (Suc k) i =
     (if Suc k = i then Some blk
      else (case slot_at (Some blk) k of
              None \<Rightarrow> None
            | Some s \<Rightarrow> (case slot_put (Some blk) (Suc k) s of None \<Rightarrow> None | Some blk \<Rightarrow> shift_up blk k i)))"

definition ndm_strvec_insert_at ::
  "heap \<Rightarrow> ndm_strvec_t \<Rightarrow> nat \<Rightarrow> cstring \<Rightarrow> (cstring option \<times> ndm_strvec_t \<times> heap) result" where
  "ndm_strvec_insert_at heap v i s =
     (if \<not> can_alloc heap then Ok (None, v, heap_next heap)
      else if \<not> can_alloc (heap_next heap) then Ok (None, v, heap_next (heap_next heap))
      else
        need (shift_up (resize_strs (sv_data v) (sv_size v + 2)) (sv_size v) i) (\<lambda>blk.
        need (slot_put (Some blk) i (Str s)) (\<lambda>blk.
        need (slot_put (Some blk) (sv_size v + 1) Null) (\<lambda>blk.
        Ok (Some s, \<lparr>sv_data = Some blk, sv_size = sv_size v + 1\<rparr>, heap_next (heap_next heap))))))"

definition ndm_strvec_push_front :: "heap \<Rightarrow> ndm_strvec_t \<Rightarrow> cstring \<Rightarrow> (cstring option \<times> ndm_strvec_t \<times> heap) result" where
  "ndm_strvec_push_front heap v s = ndm_strvec_insert_at heap v 0 s"

definition ndm_strvec_push_back :: "heap \<Rightarrow> ndm_strvec_t \<Rightarrow> cstring \<Rightarrow> (cstring option \<times> ndm_strvec_t \<times> heap) result" where
  "ndm_strvec_push_back heap v s = ndm_strvec_insert_at heap v (sv_size v) s"

text \<open>The loop that closes the gap, up to the closing \<open>NULL\<close>.\<close>

function shift_down :: "str_slot list \<Rightarrow> nat \<Rightarrow> nat \<Rightarrow> str_slot list option" where
  "shift_down blk n k =
     (if k < n
      then (case slot_at (Some blk) (k + 1) of
              None \<Rightarrow> None
            | Some s \<Rightarrow> (case slot_put (Some blk) k s of None \<Rightarrow> None | Some blk \<Rightarrow> shift_down blk n (k + 1)))
      else Some blk)"
  by pat_completeness auto
termination by (relation "measure (\<lambda>(blk, n, k). n - k)") auto

declare shift_down.simps [simp del]

text \<open>
  The slot's string is freed; the result of the last \<open>realloc\<close> is stored unchecked. The
  size of an empty vector would wrap, but there the first access already fails.
\<close>

definition ndm_strvec_remove_at :: "heap \<Rightarrow> ndm_strvec_t \<Rightarrow> nat \<Rightarrow> (ndm_strvec_t \<times> heap) result" where
  "ndm_strvec_remove_at heap v i =
     (case slot_at (sv_data v) i of
        None \<Rightarrow> Undefined
      | Some Junk \<Rightarrow> Undefined
      | Some _ \<Rightarrow>
          need (sv_data v) (\<lambda>blk.
          need (shift_down blk (sv_size v) i) (\<lambda>blk.
          let n = sv_size v - 1 in
          if n > 0
          then Ok (\<lparr>sv_data = (if can_alloc heap then Some (resize_strs (Some blk) (n + 1)) else None), sv_size = n\<rparr>,
                   heap_next heap)
          else Ok (\<lparr>sv_data = None, sv_size = n\<rparr>, heap))))"

definition ndm_strvec_pop_front :: "heap \<Rightarrow> ndm_strvec_t \<Rightarrow> (ndm_strvec_t \<times> heap) result" where
  "ndm_strvec_pop_front heap v = ndm_strvec_remove_at heap v 0"

definition ndm_strvec_pop_back :: "heap \<Rightarrow> ndm_strvec_t \<Rightarrow> (ndm_strvec_t \<times> heap) result" where
  "ndm_strvec_pop_back heap v =
     (if sv_size v = 0 then Undefined else ndm_strvec_remove_at heap v (sv_size v - 1))"

text \<open>\<open>k\<close> pops of the truncating loop.\<close>

fun pop_times :: "nat \<Rightarrow> heap \<Rightarrow> ndm_strvec_t \<Rightarrow> (ndm_strvec_t \<times> heap) result" where
  "pop_times 0 heap v = Ok (v, heap)"
| "pop_times (Suc k) heap v = bind_result (ndm_strvec_pop_back heap v) (\<lambda>(v, heap). pop_times k heap v)"

definition ndm_strvec_truncate :: "heap \<Rightarrow> ndm_strvec_t \<Rightarrow> nat \<Rightarrow> (ndm_strvec_t \<times> heap) result" where
  "ndm_strvec_truncate heap v n = pop_times (sv_size v - n) heap v"

definition ndm_strvec_clear :: "heap \<Rightarrow> ndm_strvec_t \<Rightarrow> (ndm_strvec_t \<times> heap) result" where
  "ndm_strvec_clear heap v = ndm_strvec_truncate heap v 0"

section \<open>Copying and appending\<close>

text \<open>The copies of \<open>r\<close>'s strings from index \<open>sv_size v\<close> on, until one fails.\<close>

function copy_strs :: "heap \<Rightarrow> ndm_strvec_t \<Rightarrow> ndm_strvec_t \<Rightarrow> (ndm_strvec_t \<times> heap) result" where
  "copy_strs heap v r =
     (if sv_size v < sv_size r
      then bind_result (str_at r (sv_size v)) (\<lambda>s.
           need (slot_put (sv_data v) (sv_size v) (if can_alloc heap then Str s else Null)) (\<lambda>blk.
           if can_alloc heap
           then copy_strs (heap_next heap) \<lparr>sv_data = Some blk, sv_size = sv_size v + 1\<rparr> r
           else Ok (v\<lparr>sv_data := Some blk\<rparr>, heap_next heap)))
      else Ok (v, heap))"
  by pat_completeness auto
termination by (relation "measure (\<lambda>(heap, v, r). sv_size r - sv_size v)") auto

declare copy_strs.simps [simp del]

definition ndm_strvec_assign :: "heap \<Rightarrow> ndm_strvec_t \<Rightarrow> ndm_strvec_t \<Rightarrow> (bool \<times> ndm_strvec_t \<times> heap) result" where
  "ndm_strvec_assign heap v r =
     bind_result (ndm_strvec_clear heap v) (\<lambda>(v, heap).
     if ndm_strvec_is_empty r then Ok (True, v, heap)
     else if \<not> can_alloc heap then Ok (False, \<lparr>sv_data = None, sv_size = 0\<rparr>, heap_next heap)
     else bind_result (copy_strs (heap_next heap)
            (v\<lparr>sv_data := Some (replicate (sv_size r + 1) Junk)\<rparr>) r) (\<lambda>(v, heap).
          need (slot_put (sv_data v) (sv_size v) Null) (\<lambda>blk.
          let v = v\<lparr>sv_data := Some blk\<rparr> in
          if sv_size v \<noteq> sv_size r
          then bind_result (ndm_strvec_clear heap v) (\<lambda>(v, heap). Ok (False, v, heap))
          else Ok (True, v, heap))))"

text \<open>
  The strings of an array up to its closing \<open>NULL\<close>, pushed one by one; \<open>a\<close> is not the
  block of \<open>v\<close> itself.
\<close>

fun append_strs :: "heap \<Rightarrow> ndm_strvec_t \<Rightarrow> str_slot list \<Rightarrow> (bool \<times> ndm_strvec_t \<times> heap) result" where
  "append_strs heap v (Null # a) = Ok (True, v, heap)"
| "append_strs heap v (Str s # a) =
     bind_result (ndm_strvec_push_back heap v s) (\<lambda>(copy, v, heap).
       case copy of
         None \<Rightarrow> Ok (False, v, heap)
       | Some _ \<Rightarrow> append_strs heap v a)"
| "append_strs heap v _ = Undefined"

definition strvec_append_array :: "heap \<Rightarrow> ndm_strvec_t \<Rightarrow> str_slot list \<Rightarrow> (bool \<times> ndm_strvec_t \<times> heap) result" where
  "strvec_append_array heap v a =
     bind_result (append_strs heap v a) (\<lambda>(all, v, heap).
       if all then Ok (True, v, heap)
       else bind_result (ndm_strvec_clear heap v) (\<lambda>(v, heap). Ok (False, v, heap)))"

definition ndm_strvec_assign_array :: "heap \<Rightarrow> ndm_strvec_t \<Rightarrow> str_slot list \<Rightarrow> (bool \<times> ndm_strvec_t \<times> heap) result" where
  "ndm_strvec_assign_array heap v a =
     bind_result (ndm_strvec_clear heap v) (\<lambda>(v, heap). strvec_append_array heap v a)"

definition ndm_strvec_append :: "heap \<Rightarrow> ndm_strvec_t \<Rightarrow> ndm_strvec_t \<Rightarrow> (bool \<times> ndm_strvec_t \<times> heap) result" where
  "ndm_strvec_append heap v r = strvec_append_array heap v (ndm_strvec_array r)"

definition ndm_strvec_swap :: "ndm_strvec_t \<Rightarrow> ndm_strvec_t \<Rightarrow> ndm_strvec_t \<times> ndm_strvec_t" where
  "ndm_strvec_swap v r = (r, v)"

section \<open>The list a vector stands for\<close>

definition strvec_holds :: "ndm_strvec_t \<Rightarrow> cstring list \<Rightarrow> bool" where
  "strvec_holds v xs \<longleftrightarrow> sv_size v = length xs \<and>
     (sv_data v = None \<and> xs = [] \<or> (\<exists>rest. sv_data v = Some (map Str xs @ Null # rest)))"

lemma strvec_holds_init [simp]: "strvec_holds ndm_strvec_init []"
  by (simp add: strvec_holds_def ndm_strvec_init_def)

lemma strvec_holds_size: "strvec_holds v xs \<Longrightarrow> sv_size v = length xs"
  by (simp add: strvec_holds_def)

lemma strvec_holds_block:
  "strvec_holds \<lparr>sv_data = Some (map Str xs @ Null # rest), sv_size = length xs\<rparr> xs"
  by (simp add: strvec_holds_def)

lemma str_at_held: "strvec_holds v xs \<Longrightarrow> i < length xs \<Longrightarrow> str_at v i = Ok (xs ! i)"
  by (auto simp: strvec_holds_def str_at_def slot_at_def nth_append)

lemma shift_up_held:
  "shift_up (P @ ys @ s # R) (length P + length ys) (length P) = Some (P @ hd (ys @ [s]) # ys @ R)"
proof (induction ys arbitrary: s R rule: rev_induct)
  case Nil
  then show ?case by (cases "length P") auto
next
  case (snoc y ys)
  have "(P @ ys @ y # s # R)[Suc (length P + length ys) := y] = P @ ys @ y # y # R"
    by (simp add: list_update_append)
  then show ?case
    using snoc [of y "y # R"] by (simp add: slot_at_def slot_put_def nth_append hd_append split: list.splits)
qed

lemma shift_down_held:
  "shift_down (P @ s # zs @ R) (length P + length zs) (length P) = Some (P @ zs @ last (s # zs) # R)"
proof (induction zs arbitrary: P s)
  case Nil
  then show ?case by (subst shift_down.simps) simp
next
  case (Cons z zs)
  have "(P @ s # z # zs @ R)[length P := z] = (P @ [z]) @ z # zs @ R" by simp
  then show ?case
    using Cons [of "P @ [z]" z] by (subst shift_down.simps) (simp add: slot_at_def slot_put_def nth_append)
qed

lemma strvec_insert:
  assumes holds: "strvec_holds v xs" and i: "i \<le> length xs"
  shows "ndm_strvec_insert_at h v i s =
    (if \<not> can_alloc h then Ok (None, v, heap_next h)
     else if \<not> can_alloc (heap_next h) then Ok (None, v, heap_next (heap_next h))
     else Ok (Some s, \<lparr>sv_data = Some (map Str (insert_list i s xs) @ [Null]), sv_size = Suc (length xs)\<rparr>,
       heap_next (heap_next h)))"
proof -
  let ?P = "map Str (take i xs)" and ?ys = "map Str (drop i xs)"
  obtain t u where "resize_strs (sv_data v) (length xs + 2) = map Str xs @ [t, u]"
  proof (cases "sv_data v")
    case None
    then show ?thesis using that [of Junk Junk] holds by (simp add: strvec_holds_def resize_strs_def numeral_2_eq_2)
  next
    case (Some blk)
    then obtain rest where "blk = map Str xs @ Null # rest" using holds by (auto simp: strvec_holds_def)
    then show ?thesis
      using that [of Null "hd (rest @ [Junk])"] Some by (cases rest) (simp_all add: resize_strs_def numeral_2_eq_2)
  qed
  then have blk: "resize_strs (sv_data v) (length xs + 2) = ?P @ ?ys @ t # [u]"
    by (simp flip: map_append append_assoc)
  have "shift_up (resize_strs (sv_data v) (length xs + 2)) (length xs) i = Some (?P @ hd (?ys @ [t]) # ?ys @ [u])"
    using shift_up_held [of ?P ?ys t "[u]"] i unfolding blk by (simp add: min_absorb2)
  moreover have "(?P @ x # ?ys @ [u])[i := Str s] = ?P @ Str s # ?ys @ [u]" for x
    using i by (simp add: list_update_append min_absorb2)
  moreover have "(?P @ Str s # ?ys @ [u])[Suc (length xs) := Null] = ?P @ Str s # ?ys @ [Null]"
    using i by (simp add: list_update_append min_absorb2 Suc_diff_le)
  ultimately show ?thesis
    using i strvec_holds_size [OF holds]
    by (simp add: ndm_strvec_insert_at_def slot_put_def min_absorb2 insert_list_def)
qed

lemma strvec_remove:
  assumes holds: "strvec_holds v xs" and i: "i < length xs"
  shows "ndm_strvec_remove_at h v i =
    (if length xs = 1 then Ok (ndm_strvec_init, h)
     else Ok (\<lparr>sv_data = (if can_alloc h then Some (map Str (remove_list i xs) @ [Null]) else None),
               sv_size = length xs - 1\<rparr>, heap_next h))"
proof -
  let ?P = "map Str (take i xs)" and ?zs = "map Str (drop (Suc i) xs) @ [Null]"
  have xs: "xs \<noteq> []" using i by auto
  obtain R where "sv_data v = Some (map Str xs @ Null # R)" using holds xs by (auto simp: strvec_holds_def)
  moreover have "map Str xs = ?P @ Str (xs ! i) # map Str (drop (Suc i) xs)"
    using arg_cong [OF id_take_nth_drop [OF i], of "map Str"] by simp
  ultimately have data: "sv_data v = Some (?P @ Str (xs ! i) # ?zs @ R)" by simp
  have shift: "shift_down (?P @ Str (xs ! i) # ?zs @ R) (length xs) i = Some (?P @ ?zs @ Null # R)"
    using shift_down_held [of ?P "Str (xs ! i)" ?zs R] i xs by (simp add: min_absorb2 last_ConsR)
  have "slot_at (sv_data v) i = Some (Str (xs ! i))"
    using i unfolding data by (simp add: slot_at_def nth_append min_absorb2)
  moreover have "length xs \<noteq> 1 \<Longrightarrow> resize_strs (Some (?P @ ?zs @ Null # R)) (length xs - 1 + 1) =
      map Str (remove_list i xs) @ [Null]"
    using i by (simp add: resize_strs_def remove_list_def min_absorb2)
  moreover have "length xs \<noteq> 1 \<longleftrightarrow> length xs - 1 > 0" using xs by (cases xs) auto
  ultimately show ?thesis
    using shift strvec_holds_size [OF holds] unfolding ndm_strvec_remove_at_def data
    by (simp add: Let_def ndm_strvec_init_def)
qed

text \<open>The operations of the vector contract, without the allocator they leave.\<close>

definition strvec_ins :: "heap \<Rightarrow> ndm_strvec_t \<Rightarrow> nat \<Rightarrow> cstring \<Rightarrow> (bool \<times> ndm_strvec_t) result" where
  "strvec_ins h v i s = bind_result (ndm_strvec_insert_at h v i s) (\<lambda>(copy, v, h). Ok (copy \<noteq> None, v))"

definition strvec_del :: "heap \<Rightarrow> ndm_strvec_t \<Rightarrow> nat \<Rightarrow> ndm_strvec_t result" where
  "strvec_del h v i = bind_result (ndm_strvec_remove_at h v i) (\<lambda>(v, h). Ok v)"

lemma insert_list_not_Nil [simp]: "insert_list i p xs \<noteq> []"
  by (simp add: insert_list_def)

interpretation strvec: vector strvec_holds ndm_strvec_size ndm_strvec_at strvec_ins strvec_del
proof unfold_locales
  fix v xs h i s
  assume holds: "strvec_holds v xs" and i: "i \<le> length xs"
  show "strvec_ins h v i s = Ok (False, v) \<and> \<not> no_failure h \<or>
      (\<exists>v'. strvec_ins h v i s = Ok (True, v') \<and> strvec_holds v' (insert_list i s xs))"
    unfolding strvec_ins_def strvec_insert [OF holds i]
    using i by (auto simp: strvec_holds_def heap_simps)
next
  fix v xs h i
  assume holds: "strvec_holds v xs" and i: "i < length xs" and h: "can_alloc h"
  have "remove_list i xs = [] \<longleftrightarrow> length xs = 1"
    using i by (cases xs) (auto simp: remove_list_def)
  then show "\<exists>v'. strvec_del h v i = Ok v' \<and> strvec_holds v' (remove_list i xs)"
    unfolding strvec_del_def strvec_remove [OF holds i]
    using i h by (auto simp: strvec_holds_def ndm_strvec_init_def)
qed (auto simp: ndm_strvec_size_def ndm_strvec_at_def strvec_holds_size str_at_held)

section \<open>Clearing, copying, appending\<close>

text \<open>The allocator after \<open>n\<close> requests.\<close>

abbreviation heap_after :: "nat \<Rightarrow> heap \<Rightarrow> heap" where
  "heap_after n h \<equiv> (heap_next ^^ n) h"

lemma answers_heap_after: "answers (heap_after n h) k = answers h (n + k)"
  by (induction n arbitrary: k) (simp_all add: heap_next_def)

lemma can_alloc_heap_after: "can_alloc (heap_after n h) = answers h n"
  by (simp add: can_alloc_def answers_heap_after)

lemma heap_after_next: "heap_next (heap_after n h) = heap_after (Suc n) h" "heap_after n (heap_next h) = heap_after (Suc n) h"
  by (simp_all add: funpow_swap1)

lemma strvec_pop:
  assumes "strvec_holds v (xs @ [x])"
  shows "ndm_strvec_pop_back h v =
    (if xs = [] then Ok (ndm_strvec_init, h)
     else Ok (\<lparr>sv_data = (if can_alloc h then Some (map Str xs @ [Null]) else None), sv_size = length xs\<rparr>,
       heap_next h))"
  using strvec_remove [OF assms, of "length xs" h] strvec_holds_size [OF assms]
  by (simp add: ndm_strvec_pop_back_def remove_list_def)

lemma strvec_clear:
  assumes "strvec_holds v xs" and "\<And>k. k < length xs - 1 \<Longrightarrow> answers h k"
  shows "\<exists>v'. ndm_strvec_clear h v = Ok (v', heap_after (length xs - 1) h) \<and> strvec_holds v' []"
proof -
  have "strvec_holds v xs \<Longrightarrow> (\<And>k. k < length xs - 1 \<Longrightarrow> answers h k) \<Longrightarrow>
      \<exists>v'. pop_times (length xs) h v = Ok (v', heap_after (length xs - 1) h) \<and> strvec_holds v' []"
  proof (induction xs arbitrary: v h rule: rev_induct)
    case (snoc x xs)
    show ?case
    proof (cases "xs = []")
      case True
      then show ?thesis using strvec_pop [OF snoc.prems(1), of h] by simp
    next
      case False
      then have now: "can_alloc h" using snoc.prems(2) [of 0] by (simp add: can_alloc_def)
      have "\<exists>v'. pop_times (length xs) (heap_next h) \<lparr>sv_data = Some (map Str xs @ [Null]), sv_size = length xs\<rparr> =
          Ok (v', heap_after (length xs - 1) (heap_next h)) \<and> strvec_holds v' []"
        using False snoc.prems(2) by (intro snoc.IH strvec_holds_block) (auto simp: heap_next_def)
      then show ?thesis
        using False now strvec_pop [OF snoc.prems(1), of h] by (simp add: heap_after_next del: funpow.simps)
    qed
  qed simp
  then show ?thesis
    using assms strvec_holds_size [OF assms(1)] by (simp add: ndm_strvec_clear_def ndm_strvec_truncate_def)
qed

text \<open>The copying loop, at the \<open>k\<close>-th string.\<close>

definition copied :: "cstring list \<Rightarrow> nat \<Rightarrow> str_slot list \<Rightarrow> ndm_strvec_t" where
  "copied ys k rest = \<lparr>sv_data = Some (map Str (take k ys) @ rest), sv_size = k\<rparr>"

lemma copy_one:
  assumes r: "strvec_holds r ys" and k: "k < length ys"
  shows "copy_strs h (copied ys k (s # rest)) r =
    (if can_alloc h then copy_strs (heap_next h) (copied ys (Suc k) rest) r
     else Ok (copied ys k (Null # rest), heap_next h))"
proof -
  have "slot_put (sv_data (copied ys k (s # rest))) k t = Some (map Str (take k ys) @ t # rest)" for t
    using k by (simp add: copied_def slot_put_def list_update_append min_absorb2)
  then show ?thesis
    using k str_at_held [OF r k] strvec_holds_size [OF r]
    by (subst copy_strs.simps) (simp add: copied_def take_Suc_conv_app_nth)
qed

lemma copy_stops:
  assumes r: "strvec_holds r ys"
  shows "k \<le> length ys \<Longrightarrow> length rest = length ys - k \<Longrightarrow> (\<And>j. j < n \<Longrightarrow> answers h j) \<Longrightarrow>
    n \<le> length ys - k \<Longrightarrow> n < length ys - k \<longrightarrow> \<not> answers h n \<Longrightarrow>
    \<exists>s rest'. copy_strs h (copied ys k (rest @ [Junk])) r =
      Ok (copied ys (k + n) (s # rest'), heap_after (if n < length ys - k then Suc n else n) h)"
proof (induction n arbitrary: k h rest)
  case 0
  show ?case
  proof (cases "k = length ys")
    case True
    then have "copy_strs h (copied ys k (rest @ [Junk])) r = Ok (copied ys k (rest @ [Junk]), h)"
      using strvec_holds_size [OF r] by (subst copy_strs.simps) (simp add: copied_def)
    then show ?thesis using True 0 by auto
  next
    case False
    then obtain t rest' where "rest = t # rest'" using 0 by (cases rest) auto
    then show ?thesis using False 0 copy_one [OF r, of k h] by (auto simp: can_alloc_def)
  qed
next
  case (Suc n)
  then obtain t rest' where rest: "rest = t # rest'" by (cases rest) auto
  have "can_alloc h" using Suc.prems(3) [of 0] by (simp add: can_alloc_def)
  moreover have "\<exists>s rest2. copy_strs (heap_next h) (copied ys (Suc k) (rest' @ [Junk])) r =
      Ok (copied ys (Suc k + n) (s # rest2), heap_after (if n < length ys - Suc k then Suc n else n) (heap_next h))"
    using Suc.prems rest by (intro Suc.IH) (auto simp: heap_next_def)
  ultimately show ?case
    using Suc.prems rest copy_one [OF r, of k h t "rest' @ [Junk]"]
    by (auto simp: heap_after_next less_diff_conv simp del: funpow.simps; blast)
qed

lemma no_failure_iff: "no_failure h \<longleftrightarrow> (\<forall>k. answers h k)"
  by (auto simp: no_failure_def)

lemma strvec_assign_failing:
  assumes v: "strvec_holds v xs" and r: "strvec_holds r ys"
    and h: "answers h = (\<lambda>k. k \<noteq> length xs - 1 + f)"
  shows "\<exists>v' h'. ndm_strvec_assign h v r = Ok (ys = [] \<or> length ys < f, v', h') \<and>
    strvec_holds v' (if length ys < f then ys else [])"
proof -
  let ?n = "length ys"
  define h1 where "h1 = heap_after (length xs - 1) h"
  obtain v1 where v1: "ndm_strvec_clear h v = Ok (v1, h1)" "strvec_holds v1 []"
    using strvec_clear [OF v, of h] unfolding h h1_def by (metis add_leD1 less_irrefl less_le_trans order_refl)
  have h1: "answers h1 = (\<lambda>k. k \<noteq> f)" using h by (auto simp: h1_def answers_heap_after)
  show ?thesis
  proof (cases "ys = [] \<or> f = 0")
    case True
    then show ?thesis
      using v1 h1 strvec_holds_size [OF r] strvec_holds_init
      by (auto simp: ndm_strvec_assign_def ndm_strvec_is_empty_def can_alloc_def ndm_strvec_init_def)
  next
    case False
    then obtain g where f: "f = Suc g" by (cases f) auto
    define h2 where "h2 = heap_next h1"
    have h2: "answers h2 = (\<lambda>k. k \<noteq> g)" using h1 f by (auto simp: h2_def heap_next_def)
    let ?m = "min g ?n"
    have start: "v1\<lparr>sv_data := Some (Junk # replicate ?n Junk)\<rparr> = copied ys 0 (replicate ?n Junk @ [Junk])"
      using v1(2) by (simp add: copied_def strvec_holds_def replicate_append_same)
    obtain s rest where copy: "copy_strs h2 (copied ys 0 (replicate ?n Junk @ [Junk])) r =
        Ok (copied ys ?m (s # rest), heap_after (if ?m < ?n then Suc ?m else ?m) h2)"
      using copy_stops [OF r, of 0 "replicate ?n Junk" ?m h2] h2 by auto
    define v3 where "v3 = \<lparr>sv_data = Some (map Str (take ?m ys) @ Null # rest), sv_size = length (take ?m ys)\<rparr>"
    have v3: "strvec_holds v3 (take ?m ys)" unfolding v3_def by (rule strvec_holds_block)
    have size: "sv_size v3 = ?m" by (simp add: v3_def)
    have put: "slot_put (sv_data (copied ys ?m (s # rest))) ?m Null = Some (map Str (take ?m ys) @ Null # rest)"
      by (simp add: copied_def slot_put_def list_update_append)
    have closed: "copied ys ?m (s # rest)\<lparr>sv_data := Some (map Str (take ?m ys) @ Null # rest)\<rparr> = v3"
        "sv_size (copied ys ?m (s # rest)) = ?m"
      by (simp_all add: copied_def v3_def)
    have run: "ndm_strvec_assign h v r =
        (if ?m \<noteq> ?n
         then bind_result (ndm_strvec_clear (heap_after (if ?m < ?n then Suc ?m else ?m) h2) v3) (\<lambda>(v, heap). Ok (False, v, heap))
         else Ok (True, v3, heap_after (if ?m < ?n then Suc ?m else ?m) h2))"
      using False f h1 strvec_holds_size [OF r] size
      by (simp add: ndm_strvec_assign_def ndm_strvec_is_empty_def can_alloc_def v1(1) start copy put closed
          del: min_less_iff_disj funpow.simps flip: h2_def)
    show ?thesis
    proof (cases "g < ?n")
      case True
      have "answers (heap_after (Suc g) h2) k" for k using h2 by (simp add: answers_heap_after del: funpow.simps)
      then obtain v' h' where "ndm_strvec_clear (heap_after (Suc g) h2) v3 = Ok (v', h')" "strvec_holds v' []"
        using strvec_clear [OF v3] by blast
      then show ?thesis using run True f False by simp
    next
      case False
      then show ?thesis using run v3 f by simp
    qed
  qed
qed

lemma append_strs_failing:
  assumes "strvec_holds v xs" and "answers h = (\<lambda>k. k \<noteq> f)"
  shows "\<exists>v' h'. append_strs h v (map Str ys @ Null # rest) = Ok (2 * length ys \<le> f, v', h') \<and>
    strvec_holds v' (xs @ take (f div 2) ys) \<and> (f < 2 * length ys \<longrightarrow> no_failure h')"
  using assms
proof (induction ys arbitrary: v xs h f)
  case Nil
  then show ?case by simp
next
  case (Cons y ys)
  show ?case
  proof (cases "f < 2")
    case True
    then have "f = 0 \<or> f = 1" by auto
    then show ?thesis
      using Cons.prems strvec_insert [OF Cons.prems(1), of "length xs" h y] strvec_holds_size [OF Cons.prems(1)]
      by (auto simp: ndm_strvec_push_back_def can_alloc_def heap_next_def no_failure_iff)
  next
    case False
    define h' where "h' = heap_next (heap_next h)"
    let ?v = "\<lparr>sv_data = Some (map Str (xs @ [y]) @ [Null]), sv_size = length (xs @ [y])\<rparr>"
    have "can_alloc h" "can_alloc (heap_next h)" using False Cons.prems(2) by (auto simp: can_alloc_def heap_next_def)
    then have push: "ndm_strvec_push_back h v y = Ok (Some y, ?v, h')"
      using strvec_insert [OF Cons.prems(1), of "length xs" h y] strvec_holds_size [OF Cons.prems(1)]
      by (simp add: ndm_strvec_push_back_def insert_list_def h'_def)
    have "answers h' = (\<lambda>k. k \<noteq> f - 2)" using Cons.prems(2) False by (auto simp: h'_def heap_next_def)
    from Cons.IH [OF strvec_holds_block this] obtain v2 h2 where
      "append_strs h' ?v (map Str ys @ Null # rest) = Ok (2 * length ys \<le> f - 2, v2, h2)"
      "strvec_holds v2 ((xs @ [y]) @ take ((f - 2) div 2) ys)" "f - 2 < 2 * length ys \<longrightarrow> no_failure h2" by blast
    moreover have "f div 2 = Suc ((f - 2) div 2)" using False by (simp add: div_nat_eqI le_div_geq)
    ultimately show ?thesis using push False by (auto simp: le_diff_conv2)
  qed
qed

lemma append_array_failing:
  assumes "strvec_holds v xs" and "answers h = (\<lambda>k. k \<noteq> f)"
  shows "\<exists>v' h'. strvec_append_array h v (map Str ys @ Null # rest) = Ok (2 * length ys \<le> f, v', h') \<and>
    strvec_holds v' (if 2 * length ys \<le> f then xs @ ys else [])"
proof -
  obtain v1 h1 where run: "append_strs h v (map Str ys @ Null # rest) = Ok (2 * length ys \<le> f, v1, h1)"
      "strvec_holds v1 (xs @ take (f div 2) ys)" "f < 2 * length ys \<longrightarrow> no_failure h1"
    using append_strs_failing [OF assms, of ys rest] by blast
  show ?thesis
  proof (cases "2 * length ys \<le> f")
    case True
    then have "take (f div 2) ys = ys" by simp
    then show ?thesis using run True by (simp add: strvec_append_array_def)
  next
    case False
    then show ?thesis
      using run strvec_clear [OF run(2), of h1] by (auto simp: strvec_append_array_def no_failure_iff)
  qed
qed

lemma strvec_array_held: "strvec_holds r ys \<Longrightarrow> \<exists>rest. ndm_strvec_array r = map Str ys @ Null # rest"
  by (auto simp: strvec_holds_def ndm_strvec_array_def)

lemma strvec_find_held:
  "strvec_holds v xs \<Longrightarrow> i \<le> length xs \<Longrightarrow>
   strvec_find_from v s i = Ok (i + length (takeWhile (\<lambda>t. t \<noteq> s) (drop i xs)))"
proof (induction v s i rule: strvec_find_from.induct)
  case (1 v s i)
  show ?case
  proof (cases "i < length xs")
    case True
    then have "drop i xs = xs ! i # drop (Suc i) xs" by (simp add: Cons_nth_drop_Suc)
    then show ?thesis
      using 1 True str_at_held [OF 1(2) True] strvec_holds_size [OF 1(2)]
      by (subst strvec_find_from.simps) simp
  qed (use 1 strvec_holds_size [OF 1(2)] in \<open>subst strvec_find_from.simps, simp\<close>)
qed

lemma equal_from_held:
  "strvec_holds v xs \<Longrightarrow> strvec_holds r ys \<Longrightarrow> length xs = length ys \<Longrightarrow> i \<le> length xs \<Longrightarrow>
   \<exists>j. equal_from v r i = Ok j \<and> (j = length xs \<longleftrightarrow> drop i xs = drop i ys)"
proof (induction v r i rule: equal_from.induct)
  case (1 v r i)
  show ?case
  proof (cases "i < length xs")
    case True
    then have "drop i xs = xs ! i # drop (Suc i) xs" "drop i ys = ys ! i # drop (Suc i) ys"
      using 1(4) by (simp_all add: Cons_nth_drop_Suc)
    then show ?thesis
      using 1 True str_at_held [OF 1(2) True] str_at_held [OF 1(3), of i] strvec_holds_size [OF 1(2)]
      by (subst equal_from.simps) auto
  qed (use 1 strvec_holds_size [OF 1(2)] in \<open>subst equal_from.simps, simp\<close>)
qed

lemma strvec_is_equal_held:
  assumes "strvec_holds v xs" and "strvec_holds r ys"
  shows "ndm_strvec_is_equal v r = Ok (xs = ys)"
  using equal_from_held [OF assms, of 0] strvec_holds_size [OF assms(1)] strvec_holds_size [OF assms(2)]
  by (cases "length xs = length ys") (auto simp: ndm_strvec_is_equal_def)

section \<open>Properties\<close>

text \<open>
  Any history of insertions and removals on a fresh vector of strings,
  with any answers of the allocator to the insertions, stays inside the block, and the
  vector holds exactly the list those calls describe.
\<close>
theorem strvec_history:
  assumes "list_all shrinks ops"
  shows "\<exists>v xs. vec_run ndm_strvec_size strvec_ins strvec_del ndm_strvec_init [] ops = Ok (v, xs) \<and>
    ndm_strvec_size v = length xs \<and> (\<forall>i < length xs. ndm_strvec_at v i = Ok (xs ! i))"
  by (rule strvec.run_items [OF strvec_holds_init assms])

theorem strvec_history_witness:
  "\<exists>v xs. vec_run ndm_strvec_size strvec_ins strvec_del ndm_strvec_init []
      [VecInsert \<lparr>answers = \<lambda>_. True, garbage = \<lambda>_. 0\<rparr> 0 [7],
       VecInsert \<lparr>answers = \<lambda>k. k = 0, garbage = \<lambda>_. 0\<rparr> 0 [],
       VecRemove \<lparr>answers = \<lambda>_. True, garbage = \<lambda>_. 0\<rparr> 0] = Ok (v, xs) \<and>
    ndm_strvec_size v = length xs \<and> (\<forall>i < length xs. ndm_strvec_at v i = Ok (xs ! i))"
  by (rule strvec_history) (simp add: can_alloc_def)

text \<open>
  C25: when the allocator refuses one request, the
  \<open>f\<close>-th after the old strings are gone, the assignment copies every string or reports
  the failure and leaves the vector empty, and never leaves its block.
\<close>
theorem strvec_assign_all_or_nothing:
  assumes "strvec_holds v xs" and "strvec_holds r ys" and "answers h = (\<lambda>k. k \<noteq> length xs - 1 + f)"
  shows "\<exists>v' h'. ndm_strvec_assign h v r = Ok (ys = [] \<or> length ys < f, v', h') \<and>
    ndm_strvec_is_equal v' (if length ys < f then r else ndm_strvec_init) = Ok True"
  using strvec_assign_failing [OF assms] strvec_is_equal_held [OF _ assms(2), of _ ys]
    strvec_is_equal_held [OF _ strvec_holds_init, of _ "[]"] by (auto split: if_splits)

theorem strvec_assign_all_or_nothing_witness:
  "\<exists>v' h'. ndm_strvec_assign \<lparr>answers = \<lambda>k. k \<noteq> 2, garbage = \<lambda>_. 0\<rparr> ndm_strvec_init
      \<lparr>sv_data = Some [Str [1], Str [2], Null], sv_size = 2\<rparr> = Ok (False, v', h') \<and>
    ndm_strvec_is_equal v' ndm_strvec_init = Ok True"
  using strvec_assign_all_or_nothing [of ndm_strvec_init "[]" "\<lparr>sv_data = Some [Str [1], Str [2], Null], sv_size = 2\<rparr>"
      "[[1], [2]]" "\<lparr>answers = \<lambda>k. k \<noteq> 2, garbage = \<lambda>_. 0\<rparr>" 2]
  by (simp add: strvec_holds_def ndm_strvec_init_def numeral_2_eq_2)

text \<open>
  A refused request in the middle of an append is reported,
  and the vector is then empty: its old strings are gone too.
\<close>
theorem strvec_append_all_or_nothing:
  assumes "strvec_holds v xs" and "strvec_holds r ys" and "answers h = (\<lambda>k. k \<noteq> f)"
  shows "\<exists>v' h'. ndm_strvec_append h v r = Ok (2 * length ys \<le> f, v', h') \<and>
    strvec_holds v' (if 2 * length ys \<le> f then xs @ ys else [])"
  using strvec_array_held [OF assms(2)] append_array_failing [OF assms(1,3), of ys]
  by (auto simp: ndm_strvec_append_def)

theorem strvec_append_all_or_nothing_witness:
  "\<exists>v' h'. ndm_strvec_append \<lparr>answers = \<lambda>k. k \<noteq> 1, garbage = \<lambda>_. 0\<rparr>
      \<lparr>sv_data = Some [Str [1], Null], sv_size = 1\<rparr> \<lparr>sv_data = Some [Str [2], Null], sv_size = 1\<rparr> = Ok (False, v', h') \<and>
    strvec_holds v' []"
  using strvec_append_all_or_nothing [of "\<lparr>sv_data = Some [Str [1], Null], sv_size = 1\<rparr>" "[[1]]"
      "\<lparr>sv_data = Some [Str [2], Null], sv_size = 1\<rparr>" "[[2]]" "\<lparr>answers = \<lambda>k. k \<noteq> 1, garbage = \<lambda>_. 0\<rparr>" 1]
  by (simp add: strvec_holds_def)

end
