(* ===== verification/Strarg.thy ===== *)
theory Strarg
  imports Strvec Int_Parse Text_Scan
begin

text \<open>
  Splitting a command into arguments, \<^verbatim>\<open>src/strarg.c\<close>: words separated by white space,
  with quotes and escapes, taken apart inside a copy of the command. \<open>s\<close> is the block
  of the copy and \<open>p\<close> an index into it. A loop of the code that does not end is \<open>None\<close>.
  \<open>isspace\<close> is that of the C locale, on bytes; the code passes it a \<open>char\<close>, which C defines for
  values from 0 to 127 only where \<open>char\<close> is signed. The list of words has no bound here: the code
  counts them in an \<open>unsigned int\<close>, which a command of nearly \<open>2 ^ 33\<close> bytes could wrap.
\<close>

section \<open>Escapes and quotes\<close>

definition strlen_at :: "u8 list \<Rightarrow> nat \<Rightarrow> nat option" where
  "strlen_at s p =
     (if 0 \<in> set (drop p s) then Some (length (takeWhile (\<lambda>c. c \<noteq> 0) (drop p s))) else None)"

definition strarg_remove_symbol :: "u8 list \<Rightarrow> nat \<Rightarrow> u8 list option" where
  "strarg_remove_symbol s p =
     (case strlen_at s p of None \<Rightarrow> None | Some n \<Rightarrow> mem_move s p (p + 1) n)"

text \<open>The error, the block and the position after a step.\<close>

type_synonym strarg_step = "(errno option \<times> u8 list \<times> nat) result"

definition escaped_char :: "u8 \<Rightarrow> u8 option" where
  "escaped_char c =
     (if c = 97 then Some 7
      else if c = 98 then Some 8
      else if c = 102 then Some 12
      else if c = 110 then Some 10
      else if c = 114 then Some 13
      else if c = 116 then Some 9
      else if c = 118 then Some 11
      else if c = 92 \<or> c = 39 \<or> c = 34 then Some c
      else None)"

definition strarg_parse_escape_sequence :: "u8 list \<Rightarrow> nat \<Rightarrow> strarg_step" where
  "strarg_parse_escape_sequence s p =
     need (peek s p) (\<lambda>c.
     if c \<noteq> 92 then Ok (Some EINVAL, s, p)
     else need (strarg_remove_symbol s p) (\<lambda>s.
          need (peek s p) (\<lambda>c.
          case escaped_char c of
            None \<Rightarrow> Ok (Some EINVAL, s, p)
          | Some e \<Rightarrow> need (mem_write s p [e]) (\<lambda>s. Ok (None, s, p + 1)))))"

partial_function (option) quoted_loop :: "u8 \<Rightarrow> u8 list \<Rightarrow> nat \<Rightarrow> strarg_step option" where
  "quoted_loop q s p =
     (case peek s p of
        None \<Rightarrow> Some Undefined
      | Some c \<Rightarrow>
          if c = 0 \<or> c = q then Some (Ok (None, s, p))
          else if c = 92 then
            (case strarg_parse_escape_sequence s p of
               Ok (None, s, p) \<Rightarrow> quoted_loop q s p
             | r \<Rightarrow> Some r)
          else quoted_loop q s (p + 1))"

text \<open>The end of the quoted string: its closing quote is removed.\<close>

definition quoted_end :: "u8 \<Rightarrow> strarg_step \<Rightarrow> strarg_step" where
  "quoted_end q r =
     bind_result r (\<lambda>(error, s, p).
       if error \<noteq> None then Ok (error, s, p)
       else need (peek s p) (\<lambda>c.
            if c \<noteq> q then Ok (Some EINVAL, s, p)
            else need (strarg_remove_symbol s p) (\<lambda>s. Ok (None, s, p))))"

definition strarg_parse_quoted_string :: "u8 list \<Rightarrow> nat \<Rightarrow> strarg_step option" where
  "strarg_parse_quoted_string s p =
     (case peek s p of
        None \<Rightarrow> Some Undefined
      | Some q \<Rightarrow>
          if q \<noteq> 39 \<and> q \<noteq> 34 then Some (Ok (Some EINVAL, s, p))
          else (case strarg_remove_symbol s p of
                  None \<Rightarrow> Some Undefined
                | Some s \<Rightarrow> map_option (quoted_end q) (quoted_loop q s p)))"

section \<open>Words\<close>

text \<open>One round of the loop over the characters of a word, and the loop.\<close>

definition word_step :: "u8 list \<Rightarrow> nat \<Rightarrow> u8 \<Rightarrow> strarg_step option" where
  "word_step s p c =
     (if c = 39 \<or> c = 34 then strarg_parse_quoted_string s p
      else if c = 92 then Some (strarg_parse_escape_sequence s p)
      else Some (Ok (None, s, p + 1)))"

partial_function (option) word_loop :: "u8 list \<Rightarrow> nat \<Rightarrow> strarg_step option" where
  "word_loop s p =
     (case peek s p of
        None \<Rightarrow> Some Undefined
      | Some c \<Rightarrow>
          if c = 0 \<or> is_space c then Some (Ok (None, s, p))
          else (case word_step s p c of
                  None \<Rightarrow> None
                | Some (Ok (None, s, p)) \<Rightarrow> word_loop s p
                | Some r \<Rightarrow> Some r))"

function skip_spaces :: "u8 list \<Rightarrow> nat \<Rightarrow> nat" where
  "skip_spaces s p = (if p < length s \<and> is_space (s ! p) then skip_spaces s (p + 1) else p)"
  by pat_completeness auto
termination by (relation "measure (\<lambda>(s, p). length s - p)") auto

declare skip_spaces.simps [simp del]

text \<open>
  The loop over the words. \<open>argv\<close> holds the positions of the words found; its block
  grows by one pointer for each.
\<close>

definition strarg_word ::
  "heap \<Rightarrow> u8 list \<Rightarrow> nat \<Rightarrow> nat list \<Rightarrow> (errno option \<times> u8 list \<times> nat \<times> nat list \<times> heap) result option" where
  "strarg_word heap s p argv =
     (case peek s p of
        None \<Rightarrow> Some Undefined
      | Some c \<Rightarrow>
          if c \<noteq> 0 \<and> \<not> is_space c then
            if \<not> can_alloc heap then Some (Ok (Some ENOMEM, s, p, argv, heap_next heap))
            else map_option (\<lambda>r. bind_result r (\<lambda>(error, s, p'). Ok (error, s, p', argv @ [p], heap_next heap)))
                   (word_loop s p)
          else Some (Ok (None, s, p, argv, heap)))"

partial_function (option) strarg_loop ::
  "heap \<Rightarrow> u8 list \<Rightarrow> nat \<Rightarrow> nat list \<Rightarrow> (errno option \<times> u8 list \<times> nat list \<times> heap) result option" where
  "strarg_loop heap s p argv =
     (case strarg_word heap s (skip_spaces s p) argv of
        Some (Ok (None, s, p, argv, heap)) \<Rightarrow>
          (case peek s p of
             None \<Rightarrow> Some Undefined
           | Some c \<Rightarrow>
               if c \<noteq> 0 then
                 (case peek s (p + 1) of
                    None \<Rightarrow> Some Undefined
                  | Some d \<Rightarrow>
                      if d \<noteq> 0 then strarg_loop heap (s[p := 0]) (p + 1) argv
                      else Some (Ok (None, s[p := 0], argv, heap)))
               else Some (Ok (None, s, argv, heap)))
      | Some (Ok (error, s, p, argv, heap)) \<Rightarrow> Some (Ok (error, s, argv, heap))
      | Some (Error e) \<Rightarrow> Some (Error e)
      | Some Undefined \<Rightarrow> Some Undefined
      | None \<Rightarrow> None)"

text \<open>The string at a position of the block.\<close>

definition string_at :: "u8 list \<Rightarrow> nat \<Rightarrow> cstring option" where
  "string_at s p = map_option (\<lambda>n. take n (drop p s)) (strlen_at s p)"

text \<open>
  \<open>None\<close> as the error is the return of \<open>true\<close>. A vector that cannot be filled leaves the
  \<open>errno\<close> of its failed allocation.
\<close>

definition ndm_strarg_parse ::
  "heap \<Rightarrow> cstring \<Rightarrow> ndm_strvec_t \<Rightarrow> (errno option \<times> ndm_strvec_t \<times> heap) result option" where
  "ndm_strarg_parse heap command args =
     (if \<not> can_alloc heap \<or> \<not> can_alloc (heap_next heap)
      then Some (Ok (Some ENOMEM, args, heap_next (heap_next heap)))
      else map_option (\<lambda>r. bind_result r (\<lambda>(error, s, argv, heap).
        if error \<noteq> None then Ok (error, args, heap)
        else if argv = [] then bind_result (ndm_strvec_clear heap args) (\<lambda>(args, heap). Ok (None, args, heap))
        else need (those (map (string_at s) argv)) (\<lambda>strs.
             bind_result (ndm_strvec_assign_array heap args (map Str strs @ [Null])) (\<lambda>(done, args, heap).
             Ok (if done then None else Some ENOMEM, args, heap)))))
        (strarg_loop (heap_next (heap_next heap)) (command @ [0]) 0 []))"

section \<open>Words as lists\<close>

text \<open>
  The first word of a text and the text after it; \<open>quote\<close> is the quote the reader is
  inside of. \<open>None\<close>: a quote is not closed, or an escape is not known.
\<close>

definition cons_word :: "u8 \<Rightarrow> (cstring \<times> cstring) option \<Rightarrow> (cstring \<times> cstring) option" where
  "cons_word c = map_option (\<lambda>(w, rest). (c # w, rest))"

function first_word :: "u8 option \<Rightarrow> cstring \<Rightarrow> (cstring \<times> cstring) option" where
  "first_word quote [] = (if quote = None then Some ([], []) else None)"
| "first_word quote (c # s) =
     (if c = 92 then
        (case s of
           [] \<Rightarrow> None
         | e # s' \<Rightarrow> (case escaped_char e of None \<Rightarrow> None | Some x \<Rightarrow> cons_word x (first_word quote s')))
      else if quote = Some c then first_word None s
      else if quote = None \<and> (c = 39 \<or> c = 34) then first_word (Some c) s
      else if quote = None \<and> is_space c then Some ([], c # s)
      else cons_word c (first_word quote s))"
  by pat_completeness auto
termination by (relation "measure (\<lambda>(q, s). length s)") auto

lemma first_word_length: "first_word q s = Some (w, rest) \<Longrightarrow> length rest \<le> length s"
  by (induction q s arbitrary: w rest rule: first_word.induct)
    (force simp: cons_word_def split: if_splits list.splits option.splits)+

lemma first_word_shorter:
  "first_word None (c # s) = Some (w, rest) \<Longrightarrow> \<not> is_space c \<Longrightarrow> length rest \<le> length s"
  by (force simp: cons_word_def split: if_splits list.splits option.splits dest: first_word_length)

function split_words :: "cstring \<Rightarrow> cstring list option" where
  "split_words s =
     (case dropWhile is_space s of
        [] \<Rightarrow> Some []
      | c # s' \<Rightarrow>
          (case first_word None (c # s') of
             None \<Rightarrow> None
           | Some (w, rest) \<Rightarrow> map_option ((#) w) (split_words rest)))"
  by pat_completeness auto
termination
proof (relation "measure length")
  fix s c s' p w rest
  assume *: "dropWhile is_space s = c # s'" "first_word None (c # s') = Some p" "(w, rest) = p"
  then have "\<not> is_space c" using hd_dropWhile [of is_space s] by simp
  then have "length rest \<le> length s'" using * first_word_shorter by force
  moreover have "Suc (length s') \<le> length s" using * length_dropWhile_le [of is_space s] by simp
  ultimately show "(rest, s) \<in> measure length" by simp
qed simp

declare split_words.simps [simp del]

section \<open>The block as text before and after the position\<close>

lemma peek_here [simp]: "peek (pre @ c # s) (length pre) = Some c"
  by (simp add: peek_def)

lemma peek_next [simp]: "peek (pre @ b # c # s) (Suc (length pre)) = Some c"
  by (simp add: peek_def nth_append)

lemma strlen_here: "0 \<notin> set s \<Longrightarrow> strlen_at (pre @ s @ 0 # junk) (length pre) = Some (length s)"
  by (auto simp: strlen_at_def takeWhile_append)

lemma remove_here:
  assumes "0 \<notin> set (c # s)"
  shows "strarg_remove_symbol (pre @ c # s @ 0 # junk) (length pre) = Some (pre @ s @ 0 # 0 # junk)"
proof -
  have "strlen_at (pre @ c # s @ 0 # junk) (length pre) = Some (Suc (length s))"
    using strlen_here [of "c # s" pre junk] assms by simp
  moreover have "mem_read (pre @ c # s @ 0 # junk) (Suc (length pre)) (Suc (length s)) = Some (s @ [0])"
    using mem_read_at [of "Suc (length pre)" "pre @ [c]" "Suc (length s)" "s @ [0]" junk] by simp
  moreover have "mem_write (pre @ (c # s) @ 0 # junk) (length pre) (s @ [0]) = Some (pre @ (s @ [0]) @ 0 # junk)"
    by (rule mem_write_at) simp_all
  ultimately show ?thesis by (simp add: strarg_remove_symbol_def mem_move_def)
qed

lemma escape_here:
  assumes "0 \<notin> set s"
  shows "strarg_parse_escape_sequence (pre @ 92 # s @ 0 # junk) (length pre) =
    (case s of
       [] \<Rightarrow> Ok (Some EINVAL, pre @ 0 # 0 # junk, length pre)
     | e # s' \<Rightarrow>
        (case escaped_char e of
           None \<Rightarrow> Ok (Some EINVAL, pre @ s @ 0 # 0 # junk, length pre)
         | Some x \<Rightarrow> Ok (None, (pre @ [x]) @ s' @ 0 # 0 # junk, length (pre @ [x]))))"
proof -
  have "mem_write (pre @ [e] @ s') (length pre) [x] = Some (pre @ [x] @ s')" for e x :: u8 and s'
    by (rule mem_write_at) simp_all
  then show ?thesis
    using assms remove_here [of 92 s pre junk]
    by (auto simp: strarg_parse_escape_sequence_def escaped_char_def split: list.splits option.splits)
qed

section \<open>The loops read words\<close>

text \<open>The word and the rest are in place, or the text was refused.\<close>

definition word_found :: "u8 list \<Rightarrow> (cstring \<times> cstring) option \<Rightarrow> strarg_step option \<Rightarrow> bool" where
  "word_found pre found r =
     (case found of
        None \<Rightarrow> \<exists>s p. r = Some (Ok (Some EINVAL, s, p))
      | Some (w, rest) \<Rightarrow> \<exists>junk. r = Some (Ok (None, pre @ w @ rest @ 0 # junk, length (pre @ w))))"

lemma word_found_cons: "word_found (pre @ [c]) found r \<Longrightarrow> word_found pre (cons_word c found) r"
  by (auto simp: word_found_def cons_word_def split: option.splits)

text \<open>What is left to do inside a quoted string, then in the word.\<close>

definition after_quote :: "u8 \<Rightarrow> strarg_step option \<Rightarrow> strarg_step option" where
  "after_quote q r =
     (case map_option (quoted_end q) r of
        Some (Ok (None, s, p)) \<Rightarrow> word_loop s p
      | r \<Rightarrow> r)"

definition reading :: "u8 option \<Rightarrow> u8 list \<Rightarrow> nat \<Rightarrow> strarg_step option" where
  "reading quote s p =
     (case quote of None \<Rightarrow> word_loop s p | Some q \<Rightarrow> after_quote q (quoted_loop q s p))"

lemma reading_end:
  assumes "quote = None \<or> quote = Some 39 \<or> quote = Some 34"
  shows "word_found pre (first_word quote []) (reading quote (pre @ 0 # junk) (length pre))"
  using assms
  by (auto simp: reading_def after_quote_def quoted_end_def word_found_def
    word_loop.simps [of "pre @ 0 # junk"] quoted_loop.simps [of _ "pre @ 0 # junk"])

lemma reading_escape:
  assumes "0 \<notin> set s" and quote: "quote = None \<or> quote = Some 39 \<or> quote = Some 34"
  shows "reading quote (pre @ 92 # s @ 0 # junk) (length pre) =
    (case s of
       [] \<Rightarrow> Some (Ok (Some EINVAL, pre @ 0 # 0 # junk, length pre))
     | e # s' \<Rightarrow>
        (case escaped_char e of
           None \<Rightarrow> Some (Ok (Some EINVAL, pre @ s @ 0 # 0 # junk, length pre))
         | Some x \<Rightarrow> reading quote ((pre @ [x]) @ s' @ 0 # 0 # junk) (length (pre @ [x]))))"
  using quote escape_here [OF assms(1), of pre junk]
  by (auto simp: reading_def after_quote_def quoted_end_def word_step_def is_space_def
    word_loop.simps [of "pre @ 92 # _"] quoted_loop.simps [of _ "pre @ 92 # _"] split: list.splits option.splits)

lemma reading_plain:
  assumes "c \<noteq> 0" and "c \<noteq> 92" and "quote \<noteq> Some c" and "quote = None \<Longrightarrow> c \<noteq> 39 \<and> c \<noteq> 34 \<and> \<not> is_space c"
  shows "reading quote (pre @ c # s) (length pre) = reading quote ((pre @ [c]) @ s) (length (pre @ [c]))"
  using assms
  by (auto simp: reading_def after_quote_def word_step_def
    word_loop.simps [of "pre @ c # s"] quoted_loop.simps [of _ "pre @ c # s"] split: option.splits)

lemma reading_open:
  assumes "0 \<notin> set s" and "c = 39 \<or> c = 34"
  shows "reading None (pre @ c # s @ 0 # junk) (length pre) = reading (Some c) (pre @ s @ 0 # 0 # junk) (length pre)"
proof -
  have "strarg_parse_quoted_string (pre @ c # s @ 0 # junk) (length pre) =
      map_option (quoted_end c) (quoted_loop c (pre @ s @ 0 # 0 # junk) (length pre))"
    using assms remove_here [of c s pre junk] by (auto simp: strarg_parse_quoted_string_def)
  then show ?thesis
    using assms(2)
    by (auto simp: reading_def after_quote_def word_step_def is_space_def word_loop.simps [of "pre @ c # _"]
      split: option.splits)
qed

lemma reading_close:
  assumes "0 \<notin> set s" and "c = 39 \<or> c = 34"
  shows "reading (Some c) (pre @ c # s @ 0 # junk) (length pre) = reading None (pre @ s @ 0 # 0 # junk) (length pre)"
  using assms remove_here [of c s pre junk]
  by (auto simp: reading_def after_quote_def quoted_end_def quoted_loop.simps [of _ "pre @ c # _"])

lemma reading_word:
  "0 \<notin> set s \<Longrightarrow> quote = None \<or> quote = Some 39 \<or> quote = Some 34 \<Longrightarrow>
   word_found pre (first_word quote s) (reading quote (pre @ s @ 0 # junk) (length pre))"
proof (induction quote s arbitrary: pre junk rule: first_word.induct)
  case (1 quote)
  then show ?case using reading_end [of quote pre junk] by simp
next
  case (2 quote c s)
  have s: "0 \<notin> set s" and c: "c \<noteq> 0" using 2(5) by auto
  consider (esc) "c = 92" | (close) "c \<noteq> 92" "quote = Some c" | (opn) "quote = None" "c = 39 \<or> c = 34"
    | (space) "quote = None" "is_space c" "c \<noteq> 92" "c \<noteq> 39" "c \<noteq> 34"
    | (plain) "c \<noteq> 92" "quote \<noteq> Some c" "quote = None \<Longrightarrow> c \<noteq> 39 \<and> c \<noteq> 34 \<and> \<not> is_space c"
    by blast
  then show ?case
  proof cases
    case esc
    show ?thesis
    proof (cases s)
      case Nil
      then show ?thesis using esc reading_escape [OF _ 2(6), of "[]" pre junk] by (simp add: word_found_def)
    next
      case (Cons e s')
      show ?thesis
      proof (cases "escaped_char e")
        case None
        then show ?thesis using esc Cons reading_escape [OF s 2(6), of pre junk] by (simp add: word_found_def)
      next
        case (Some x)
        have "word_found (pre @ [x]) (first_word quote s') (reading quote ((pre @ [x]) @ s' @ 0 # 0 # junk) (length (pre @ [x])))"
          using s Cons by (intro 2(1) [OF esc Cons Some _ 2(6)]) simp
        then show ?thesis
          using esc Cons Some reading_escape [OF s 2(6), of pre junk] word_found_cons by simp
      qed
    qed
  next
    case close
    then have "c = 39 \<or> c = 34" using 2(6) by auto
    then show ?thesis using close 2(2) [OF close s] reading_close [OF s, of c pre junk] by simp
  next
    case opn
    then have "word_found pre (first_word (Some c) s) (reading (Some c) (pre @ s @ 0 # 0 # junk) (length pre))"
      using s by (intro 2(3)) auto
    then show ?thesis using opn reading_open [OF s opn(2), of pre junk] by auto
  next
    case space
    then show ?thesis by (simp add: word_found_def reading_def word_loop.simps [of "pre @ c # _"])
  next
    case plain
    then have "word_found (pre @ [c]) (first_word quote s) (reading quote ((pre @ [c]) @ s @ 0 # junk) (length (pre @ [c])))"
      using s 2(6) by (intro 2(4)) auto
    then show ?thesis
      using plain c reading_plain [of c quote pre "s @ 0 # junk"] word_found_cons by auto
  qed
qed

section \<open>The command\<close>

lemma first_word_rest: "first_word q s = Some (w, d # rest) \<Longrightarrow> is_space d"
  by (induction q s arbitrary: w rule: first_word.induct)
    (force simp: cons_word_def split: if_splits list.splits option.splits)+

lemma escaped_nonzero: "escaped_char e = Some x \<Longrightarrow> x \<noteq> 0"
  by (auto simp: escaped_char_def split: if_splits)

lemma first_word_nonzero:
  "first_word q s = Some (w, rest) \<Longrightarrow> 0 \<notin> set s \<Longrightarrow> 0 \<notin> set w \<and> 0 \<notin> set rest"
  by (induction q s arbitrary: w rest rule: first_word.induct)
    (force simp: cons_word_def split: if_splits list.splits option.splits dest: escaped_nonzero)+

lemma skip_spaces_here:
  "0 \<notin> set s \<Longrightarrow> skip_spaces (pre @ s @ 0 # junk) (length pre) = length (pre @ takeWhile is_space s)"
proof (induction s arbitrary: pre)
  case Nil
  then show ?case by (subst skip_spaces.simps) (simp add: is_space_def)
next
  case (Cons c s)
  then show ?case using Cons.IH [of "pre @ [c]"] by (subst skip_spaces.simps) (auto simp: nth_append)
qed

lemma string_here: "0 \<notin> set w \<Longrightarrow> string_at (pre @ w @ 0 # tail) (length pre) = Some w"
  by (simp add: string_at_def strlen_here)

text \<open>The loop from a position on finds the words of the text there.\<close>

definition words_found ::
  "u8 list \<Rightarrow> nat list \<Rightarrow> cstring list option \<Rightarrow> (errno option \<times> u8 list \<times> nat list \<times> heap) result option \<Rightarrow> bool" where
  "words_found pre argv ws r =
     (case ws of
        None \<Rightarrow> \<exists>s argv' heap. r = Some (Ok (Some EINVAL, s, argv', heap))
      | Some ws \<Rightarrow> \<exists>tail argv' heap. r = Some (Ok (None, pre @ tail, argv @ argv', heap)) \<and> no_failure heap \<and>
          map (string_at (pre @ tail)) argv' = map Some ws)"

lemma words_found_later:
  assumes "words_found (pre @ sp @ w @ [0]) (argv @ [length (pre @ sp)]) ws r" and "0 \<notin> set w"
  shows "words_found pre argv (map_option ((#) w) ws) r"
  using assms string_here [of w "pre @ sp"]
  by (auto simp: words_found_def split: option.splits)

lemma loop_words:
  "0 \<notin> set s \<Longrightarrow> no_failure heap \<Longrightarrow>
   words_found pre argv (split_words s) (strarg_loop heap (pre @ s @ 0 # junk) (length pre) argv)"
proof (induction "length s" arbitrary: s pre junk argv heap rule: less_induct)
  case less
  let ?sp = "takeWhile is_space s"
  define pre' where "pre' = pre @ ?sp"
  have s: "pre @ s @ 0 # junk = pre' @ dropWhile is_space s @ 0 # junk" by (simp add: pre'_def)
  have skip: "skip_spaces (pre' @ dropWhile is_space s @ 0 # junk) (length pre) = length pre'"
    using skip_spaces_here [OF less(2), of pre junk] by (simp add: pre'_def s)
  show ?case
  proof (cases "dropWhile is_space s")
    case Nil
    then have "strarg_loop heap (pre' @ 0 # junk) (length pre) argv = Some (Ok (None, pre' @ 0 # junk, argv, heap))"
      using skip [unfolded Nil append_Nil] by (subst strarg_loop.simps) (simp add: strarg_word_def)
    moreover have "split_words s = Some []" by (subst split_words.simps) (simp only: Nil list.case)
    ultimately show ?thesis
      unfolding s Nil append_Nil using less(3) by (simp add: words_found_def pre'_def)
  next
    case (Cons c s')
    have "set (c # s') \<subseteq> set s" using set_dropWhileD [of _ is_space s] Cons by (metis subsetI)
    moreover have "\<not> is_space c" using hd_dropWhile [of is_space s] Cons by (metis list.distinct(1) list.sel(1))
    ultimately have c: "c \<noteq> 0" "\<not> is_space c" "0 \<notin> set (c # s')" using less(2) by auto
    have read: "word_found pre' (first_word None (c # s')) (word_loop (pre' @ c # s' @ 0 # junk) (length pre'))"
      using reading_word [OF c(3), of None pre' junk] by (simp add: reading_def)
    show ?thesis
    proof (cases "first_word None (c # s')")
      case None
      then show ?thesis
        using read skip [unfolded Cons append_Cons] c less(3) unfolding s Cons
        by (subst strarg_loop.simps)
          (auto simp: words_found_def word_found_def strarg_word_def heap_simps split_words.simps [of s] Cons)
    next
      case (Some wr)
      then obtain w rest where wr: "first_word None (c # s') = Some (w, rest)" by (cases wr) auto
      obtain junk' where loop: "word_loop (pre' @ c # s' @ 0 # junk) (length pre') =
          Some (Ok (None, pre' @ w @ rest @ 0 # junk', length (pre' @ w)))"
        using read wr by (auto simp: word_found_def)
      have nz: "0 \<notin> set w" "0 \<notin> set rest" using first_word_nonzero [OF wr c(3)] by simp_all
      have split: "split_words s = map_option ((#) w) (split_words rest)"
        using wr Cons by (simp add: split_words.simps [of s])
      have step: "strarg_loop heap (pre' @ c # s' @ 0 # junk) (length pre) argv =
          (case rest of
             [] \<Rightarrow> Some (Ok (None, pre' @ w @ 0 # junk', argv @ [length pre'], heap_next heap))
           | d # rest' \<Rightarrow>
              (if rest' \<noteq> [] then strarg_loop (heap_next heap) ((pre' @ w @ [0]) @ rest' @ 0 # junk')
                 (length (pre' @ w @ [0])) (argv @ [length pre'])
               else Some (Ok (None, pre' @ w @ 0 # 0 # junk', argv @ [length pre'], heap_next heap))))"
      proof (cases rest)
        case Nil
        then show ?thesis
          using skip [unfolded Cons append_Cons] c loop less(3) peek_here [of "pre' @ w"]
          by (subst strarg_loop.simps) (simp add: strarg_word_def heap_simps)
      next
        case rest: (Cons d rest')
        then show ?thesis
          using skip [unfolded Cons append_Cons] c loop less(3) nz(2) peek_next [of "pre' @ w"]
            peek_here [of "pre' @ w"]
          by (cases rest'; subst strarg_loop.simps) (simp_all add: strarg_word_def heap_simps list_update_append)
      qed
      show ?thesis
      proof (cases rest)
        case Nil
        then show ?thesis
          unfolding s Cons append_Cons step split using nz string_here [OF nz(1), of pre' junk'] less(3)
          by (simp add: words_found_def split_words.simps [of "[]"] pre'_def heap_simps)
      next
        case rest: (Cons d rest')
        have d: "is_space d" using wr rest first_word_rest by blast
        then have split_rest: "split_words rest = split_words rest'"
          unfolding rest by (simp add: split_words.simps [of "d # rest'"] split_words.simps [of rest'])
        have "length rest \<le> length s'" using first_word_shorter [OF wr c(2)] .
        then have shorter: "length rest' < length s"
          using rest Cons length_dropWhile_le [of is_space s] by simp
        have later: "words_found pre argv (map_option ((#) w) ws) r"
          if "words_found (pre' @ w @ [0]) (argv @ [length pre']) ws r" for ws r
          using words_found_later [of pre ?sp w argv ws r] that nz(1) by (simp add: pre'_def)
        show ?thesis
        proof (cases "rest' = []")
          case True
          have "words_found (pre' @ w @ [0]) (argv @ [length pre']) (Some [])
              (Some (Ok (None, pre' @ w @ 0 # 0 # junk', argv @ [length pre'], heap_next heap)))"
            using less(3) by (simp add: words_found_def heap_simps)
          from later [OF this] show ?thesis
            unfolding s Cons append_Cons step split split_rest using rest True
            by (simp add: split_words.simps [of "[]"])
        next
          case False
          have "words_found (pre' @ w @ [0]) (argv @ [length pre']) (split_words rest')
              (strarg_loop (heap_next heap) ((pre' @ w @ [0]) @ rest' @ 0 # junk') (length (pre' @ w @ [0])) (argv @ [length pre']))"
            using nz rest less(3) by (intro less(1) [OF shorter]) (auto simp: heap_simps)
          from later [OF this] show ?thesis
            unfolding s Cons append_Cons step split split_rest using rest False by simp
        qed
      qed
    qed
  qed
qed

text \<open>Every list of words can be written as a command, each word quoted.\<close>

fun quote_char :: "u8 \<Rightarrow> u8 list" where
  "quote_char c = (if c = 39 \<or> c = 92 then [92, c] else [c])"

definition quote_word :: "cstring \<Rightarrow> cstring" where
  "quote_word w = 39 # concat (map quote_char w) @ [39]"

lemma first_word_chars: "first_word (Some 39) (concat (map quote_char w) @ 39 # s) =
    map_option (\<lambda>(w', rest). (w @ w', rest)) (first_word None s)"
proof (induction w)
  case Nil
  then show ?case by (cases "first_word None s") (auto simp del: first_word.simps(2)
    simp: first_word.simps(2) [of "Some 39" 39])
next
  case (Cons c w)
  then show ?case
    by (auto simp: cons_word_def escaped_char_def option.map_comp comp_def case_prod_beta split: option.splits)
qed

lemma first_quoted:
  "s = [] \<or> is_space (hd s) \<and> hd s \<notin> {39, 34, 92} \<Longrightarrow> first_word None (quote_word w @ s) = Some (w, s)"
  using first_word_chars [of w s] by (cases s) (auto simp: quote_word_def)

lemma split_quoted: "split_words (concat (map (\<lambda>w. 32 # quote_word w) ws)) = Some ws"
proof (induction ws)
  case Nil
  then show ?case by (subst split_words.simps) simp
next
  case (Cons w ws)
  let ?rest = "concat (map (\<lambda>w. 32 # quote_word w) ws)"
  have "first_word None (quote_word w @ ?rest) = Some (w, ?rest)"
    by (rule first_quoted) (cases ws; simp add: is_space_def)
  moreover have "dropWhile is_space (32 # quote_word w @ ?rest) = quote_word w @ ?rest"
    by (simp add: is_space_def quote_word_def)
  ultimately show ?case
    using Cons by (subst split_words.simps) (simp add: quote_word_def)
qed

lemma append_strs_all:
  "strvec_holds v xs \<Longrightarrow> no_failure h \<Longrightarrow>
   \<exists>v' h'. append_strs h v (map Str ys @ Null # rest) = Ok (True, v', h') \<and> strvec_holds v' (xs @ ys)"
proof (induction ys arbitrary: v xs h)
  case (Cons y ys)
  let ?v = "\<lparr>sv_data = Some (map Str (xs @ [y]) @ [Null]), sv_size = length (xs @ [y])\<rparr>"
  have "ndm_strvec_push_back h v y = Ok (Some y, ?v, heap_next (heap_next h))"
    using strvec_insert [OF Cons.prems(1), of "length xs" h y] strvec_holds_size [OF Cons.prems(1)] Cons.prems(2)
    by (simp add: ndm_strvec_push_back_def insert_list_def heap_simps)
  then show ?case
    using Cons.IH [OF strvec_holds_block, of "heap_next (heap_next h)" "xs @ [y]" "[]"] Cons.prems(2)
    by (simp add: heap_simps)
qed simp

lemma those_Some: "those (map Some xs) = Some xs"
  by (induction xs) simp_all

lemma parse_meaning:
  assumes "0 \<notin> set command" and "strvec_holds args xs" and "no_failure heap"
  shows "\<exists>args' heap'. ndm_strarg_parse heap command args =
      Some (Ok (if split_words command = None then Some EINVAL else None, args', heap')) \<and>
    (case split_words command of None \<Rightarrow> args' = args | Some ws \<Rightarrow> strvec_holds args' ws)"
proof -
  let ?heap = "heap_next (heap_next heap)"
  have heap: "can_alloc heap" "can_alloc (heap_next heap)" "no_failure ?heap" using assms(3) by (simp_all add: heap_simps)
  have found: "words_found [] [] (split_words command) (strarg_loop ?heap (command @ [0]) 0 [])"
    using loop_words [OF assms(1) heap(3), of "[]" "[]" "[]"] by simp
  show ?thesis
  proof (cases "split_words command")
    case None
    then show ?thesis using found heap by (auto simp: words_found_def ndm_strarg_parse_def)
  next
    case (Some ws)
    then obtain s argv h where run: "strarg_loop ?heap (command @ [0]) 0 [] = Some (Ok (None, s, argv, h))"
        "no_failure h" "map (string_at s) argv = map Some ws"
      using found by (auto simp: words_found_def)
    obtain v1 h1 where clear: "ndm_strvec_clear h args = Ok (v1, h1)" "strvec_holds v1 []" "no_failure h1"
      using strvec_clear [OF assms(2), of h] run(2) unfolding no_failure_iff by (metis answers_heap_after)
    show ?thesis
    proof (cases "argv = []")
      case True
      then have "ws = []" using run(3) by simp
      then show ?thesis using True run clear heap Some by (simp add: ndm_strarg_parse_def)
    next
      case False
      obtain v2 h2 where "append_strs h1 v1 (map Str ws @ [Null]) = Ok (True, v2, h2)" "strvec_holds v2 ws"
        using append_strs_all [OF clear(2,3), of ws "[]"] by auto
      then show ?thesis
        using False run clear heap Some
        by (simp add: ndm_strarg_parse_def ndm_strvec_assign_array_def strvec_append_array_def those_Some)
    qed
  qed
qed

section \<open>Properties\<close>

text \<open>
  C33: on every command, while no allocation fails, the parser returns,
  never leaves its copy of the command, and puts exactly the words of the command into
  the vector, or refuses an open quote or unknown escape and leaves the vector alone.
\<close>
theorem strarg_parse_words:
  assumes "0 \<notin> set command" and "strvec_holds args xs" and "no_failure heap"
  shows "\<exists>args' heap'. ndm_strarg_parse heap command args =
      Some (Ok (if split_words command = None then Some EINVAL else None, args', heap')) \<and>
    (case split_words command of None \<Rightarrow> args' = args | Some ws \<Rightarrow> strvec_holds args' ws)"
  by (rule parse_meaning [OF assms])

theorem strarg_parse_words_witness:
  "\<exists>args' heap'. ndm_strarg_parse \<lparr>answers = \<lambda>_. True, garbage = \<lambda>_. 0\<rparr> [97, 32, 39, 32, 39] ndm_strvec_init =
      Some (Ok (None, args', heap')) \<and> strvec_holds args' [[97], [32]]"
proof -
  have "split_words [97, 32, 39, 32, 39] = Some [[97], [32]]"
    by (simp add: split_words.simps is_space_def cons_word_def)
  then show ?thesis
    using strarg_parse_words [of "[97, 32, 39, 32, 39]" ndm_strvec_init "[]" "\<lparr>answers = \<lambda>_. True, garbage = \<lambda>_. 0\<rparr>"]
    by (simp add: no_failure_def)
qed

text \<open>
  Every list of words, empty ones included, written with each
  word in quotes, is parsed back into exactly these words.
\<close>
theorem strarg_quote_roundtrip:
  assumes "0 \<notin> \<Union> (set ` set ws)" and "strvec_holds args xs" and "no_failure heap"
  shows "\<exists>args' heap'. ndm_strarg_parse heap (concat (map (\<lambda>w. 32 # quote_word w) ws)) args =
      Some (Ok (None, args', heap')) \<and> strvec_holds args' ws"
proof -
  have "0 \<notin> set (concat (map (\<lambda>w. 32 # quote_word w) ws))"
    using assms(1) by (auto simp: quote_word_def split: if_splits)
  from parse_meaning [OF this assms(2,3)] show ?thesis by (simp add: split_quoted)
qed

theorem strarg_quote_roundtrip_witness:
  "\<exists>args' heap'. ndm_strarg_parse \<lparr>answers = \<lambda>_. True, garbage = \<lambda>_. 0\<rparr>
      (concat (map (\<lambda>w. 32 # quote_word w) [[39], []])) ndm_strvec_init =
      Some (Ok (None, args', heap')) \<and> strvec_holds args' [[39], []]"
  by (rule strarg_quote_roundtrip [where xs = "[]"]) (simp_all add: no_failure_def)

end
