(* ===== verification/Ndm_Time.thy ===== *)
theory Ndm_Time
  imports Ndm_Prelude "HOL-Library.Signed_Division"
begin

text \<open>
  The arithmetic on \<open>struct timespec\<close> of \<^verbatim>\<open>src/time.c\<close>. \<open>time_t\<close>, \<open>long\<close> and
  \<open>suseconds_t\<close> are 64-bit signed; a result that leaves them is \<open>Undefined\<close>, and so is
  a failed assertion. Division is C's, towards zero.
\<close>

section \<open>Times\<close>

record timespec =
  tv_sec :: int
  tv_nsec :: int

record timeval =
  val_sec :: int
  val_usec :: int

definition NDM_TIME_SEC :: int where "NDM_TIME_SEC = 1"
definition NDM_TIME_MSEC :: int where "NDM_TIME_MSEC = 1000"
definition NDM_TIME_USEC :: int where "NDM_TIME_USEC = 1000000"
definition NDM_TIME_NSEC :: int where "NDM_TIME_NSEC = 1000000000"
definition NDM_TIME_PREC :: int where "NDM_TIME_PREC = NDM_TIME_NSEC"

named_theorems time_units \<open>the units of time as numbers\<close>

declare NDM_TIME_SEC_def [time_units] NDM_TIME_MSEC_def [time_units] NDM_TIME_USEC_def [time_units]
  NDM_TIME_NSEC_def [time_units] NDM_TIME_PREC_def [time_units]

definition NDM_TIME_ZERO :: timespec where
  "NDM_TIME_ZERO = \<lparr>tv_sec = 0, tv_nsec = 0\<rparr>"

text \<open>The value of a signed 64-bit expression, which C leaves undefined outside the type.\<close>

definition in_int64 :: "int \<Rightarrow> bool" where
  "in_int64 x \<longleftrightarrow> - 9223372036854775808 \<le> x \<and> x < 9223372036854775808"

definition int64 :: "int \<Rightarrow> int result" where
  "int64 x = (if in_int64 x then Ok x else Undefined)"

lemma int64_simps [simp]: "in_int64 x \<Longrightarrow> int64 x = Ok x" "\<not> in_int64 x \<Longrightarrow> int64 x = Undefined"
  by (simp_all add: int64_def)

definition ndm_time_get_max :: timespec where
  "ndm_time_get_max = \<lparr>tv_sec = 9223372036854775807, tv_nsec = NDM_TIME_PREC - 1\<rparr>"

definition ndm_time_get_min :: timespec where
  "ndm_time_get_min = \<lparr>tv_sec = - 9223372036854775808, tv_nsec = - (NDM_TIME_PREC - 1)\<rparr>"

section \<open>Comparing\<close>

definition ndm_time_equal :: "timespec \<Rightarrow> timespec \<Rightarrow> bool" where
  "ndm_time_equal t u \<longleftrightarrow> tv_sec t = tv_sec u \<and> tv_nsec t = tv_nsec u"

definition ndm_time_is_zero :: "timespec \<Rightarrow> bool" where
  "ndm_time_is_zero t \<longleftrightarrow> ndm_time_equal t NDM_TIME_ZERO"

definition ndm_time_less :: "timespec \<Rightarrow> timespec \<Rightarrow> bool" where
  "ndm_time_less t u =
     (if tv_sec t = tv_sec u then tv_nsec t < tv_nsec u else tv_sec t < tv_sec u)"

definition ndm_time_less_or_equal :: "timespec \<Rightarrow> timespec \<Rightarrow> bool" where
  "ndm_time_less_or_equal t u \<longleftrightarrow> ndm_time_equal t u \<or> ndm_time_less t u"

definition ndm_time_greater :: "timespec \<Rightarrow> timespec \<Rightarrow> bool" where
  "ndm_time_greater t u \<longleftrightarrow> \<not> ndm_time_less_or_equal t u"

definition ndm_time_greater_or_equal :: "timespec \<Rightarrow> timespec \<Rightarrow> bool" where
  "ndm_time_greater_or_equal t u \<longleftrightarrow> \<not> ndm_time_less t u"

section \<open>Adding and subtracting\<close>

text \<open>The assertion at the end of the addition.\<close>

definition one_sign :: "timespec \<Rightarrow> bool" where
  "one_sign t \<longleftrightarrow> tv_sec t \<ge> 0 \<and> tv_nsec t \<ge> 0 \<or> tv_sec t \<le> 0 \<and> tv_nsec t \<le> 0"

definition ndm_time_add :: "timespec \<Rightarrow> timespec \<Rightarrow> timespec result" where
  "ndm_time_add t u =
     (let tpos = tv_sec t \<ge> 0 \<and> tv_nsec t \<ge> 0;
          upos = tv_sec u \<ge> 0 \<and> tv_nsec u \<ge> 0
      in bind_result
        (if tpos \<and> upos \<or> \<not> tpos \<and> \<not> upos
         then
           bind_result (int64 (tv_nsec t + tv_nsec u)) (\<lambda>nsec.
           let carry = nsec sdiv NDM_TIME_PREC; correction = carry * NDM_TIME_PREC in
           bind_result (int64 (tv_sec u + carry)) (\<lambda>s.
           bind_result (int64 (tv_sec t + s)) (\<lambda>sec.
           let nsec = nsec - correction in
           Ok \<lparr>tv_sec = sec,
               tv_nsec = (if tpos \<and> sec < 0 \<or> \<not> tpos \<and> sec > 0 then nsec + (carry - correction) else nsec)\<rparr>)))
         else
           bind_result (int64 (tv_sec t + tv_sec u)) (\<lambda>sec.
           bind_result (int64 (tv_nsec t + tv_nsec u)) (\<lambda>nsec.
           if sec \<ge> 0 \<and> nsec \<ge> 0 \<or> sec \<le> 0 \<and> nsec \<le> 0 then Ok \<lparr>tv_sec = sec, tv_nsec = nsec\<rparr>
           else if sec > 0 then Ok \<lparr>tv_sec = sec - 1, tv_nsec = nsec + NDM_TIME_PREC\<rparr>
           else Ok \<lparr>tv_sec = sec + 1, tv_nsec = nsec - NDM_TIME_PREC\<rparr>)))
        (\<lambda>t. if one_sign t then Ok t else Undefined))"

definition ndm_time_sub :: "timespec \<Rightarrow> timespec \<Rightarrow> timespec result" where
  "ndm_time_sub t u =
     bind_result (int64 (- tv_sec u)) (\<lambda>sec.
     bind_result (int64 (- tv_nsec u)) (\<lambda>nsec.
     ndm_time_add t \<lparr>tv_sec = sec, tv_nsec = nsec\<rparr>))"

definition ndm_time_to_timeval :: "timespec \<Rightarrow> timeval" where
  "ndm_time_to_timeval u =
     \<lparr>val_sec = tv_sec u, val_usec = tv_nsec u sdiv (NDM_TIME_PREC sdiv NDM_TIME_USEC)\<rparr>"

definition ndm_time_from_timeval :: "timeval \<Rightarrow> timespec result" where
  "ndm_time_from_timeval u =
     bind_result (int64 (val_usec u * (NDM_TIME_PREC sdiv NDM_TIME_USEC))) (\<lambda>nsec.
     Ok \<lparr>tv_sec = val_sec u, tv_nsec = nsec\<rparr>)"

definition ndm_time_add_timeval :: "timespec \<Rightarrow> timeval \<Rightarrow> timespec result" where
  "ndm_time_add_timeval t u = bind_result (ndm_time_from_timeval u) (ndm_time_add t)"

definition ndm_time_sub_timeval :: "timespec \<Rightarrow> timeval \<Rightarrow> timespec result" where
  "ndm_time_sub_timeval t u = bind_result (ndm_time_from_timeval u) (ndm_time_sub t)"

section \<open>Units\<close>

text \<open>
  The four functions the macro \<open>NDM_TIME_FUNCS\<close> defines for each unit; \<open>d\<close> is the
  number of units in a second.
\<close>

definition ndm_time_from_unit :: "int \<Rightarrow> int \<Rightarrow> timespec" where
  "ndm_time_from_unit d p = \<lparr>tv_sec = p sdiv d, tv_nsec = (p smod d) * (NDM_TIME_PREC sdiv d)\<rparr>"

definition ndm_time_add_unit :: "int \<Rightarrow> timespec \<Rightarrow> int \<Rightarrow> timespec result" where
  "ndm_time_add_unit d t p =
     ndm_time_add t \<lparr>tv_sec = p sdiv d, tv_nsec = (p smod d) * (NDM_TIME_PREC sdiv d)\<rparr>"

definition ndm_time_sub_unit :: "int \<Rightarrow> timespec \<Rightarrow> int \<Rightarrow> timespec result" where
  "ndm_time_sub_unit d t p =
     bind_result (int64 (- p)) (\<lambda>p.
     ndm_time_add t \<lparr>tv_sec = p sdiv d, tv_nsec = (p smod d) * (NDM_TIME_PREC sdiv d)\<rparr>)"

definition ndm_time_to_unit :: "int \<Rightarrow> timespec \<Rightarrow> int result" where
  "ndm_time_to_unit d t =
     bind_result (int64 (tv_sec t * d)) (\<lambda>s.
     bind_result (int64 (tv_nsec t + (NDM_TIME_PREC sdiv d) sdiv 2)) (\<lambda>n.
     int64 (s + n sdiv (NDM_TIME_PREC sdiv d))))"

definition ndm_time_from_sec :: "int \<Rightarrow> timespec" where "ndm_time_from_sec = ndm_time_from_unit NDM_TIME_SEC"
definition ndm_time_from_msec :: "int \<Rightarrow> timespec" where "ndm_time_from_msec = ndm_time_from_unit NDM_TIME_MSEC"
definition ndm_time_from_usec :: "int \<Rightarrow> timespec" where "ndm_time_from_usec = ndm_time_from_unit NDM_TIME_USEC"
definition ndm_time_from_nsec :: "int \<Rightarrow> timespec" where "ndm_time_from_nsec = ndm_time_from_unit NDM_TIME_NSEC"

definition ndm_time_to_sec :: "timespec \<Rightarrow> int result" where "ndm_time_to_sec = ndm_time_to_unit NDM_TIME_SEC"
definition ndm_time_to_msec :: "timespec \<Rightarrow> int result" where "ndm_time_to_msec = ndm_time_to_unit NDM_TIME_MSEC"
definition ndm_time_to_usec :: "timespec \<Rightarrow> int result" where "ndm_time_to_usec = ndm_time_to_unit NDM_TIME_USEC"
definition ndm_time_to_nsec :: "timespec \<Rightarrow> int result" where "ndm_time_to_nsec = ndm_time_to_unit NDM_TIME_NSEC"

definition ndm_time_add_sec :: "timespec \<Rightarrow> int \<Rightarrow> timespec result" where "ndm_time_add_sec = ndm_time_add_unit NDM_TIME_SEC"
definition ndm_time_add_msec :: "timespec \<Rightarrow> int \<Rightarrow> timespec result" where "ndm_time_add_msec = ndm_time_add_unit NDM_TIME_MSEC"
definition ndm_time_add_usec :: "timespec \<Rightarrow> int \<Rightarrow> timespec result" where "ndm_time_add_usec = ndm_time_add_unit NDM_TIME_USEC"
definition ndm_time_add_nsec :: "timespec \<Rightarrow> int \<Rightarrow> timespec result" where "ndm_time_add_nsec = ndm_time_add_unit NDM_TIME_NSEC"

definition ndm_time_sub_sec :: "timespec \<Rightarrow> int \<Rightarrow> timespec result" where "ndm_time_sub_sec = ndm_time_sub_unit NDM_TIME_SEC"
definition ndm_time_sub_msec :: "timespec \<Rightarrow> int \<Rightarrow> timespec result" where "ndm_time_sub_msec = ndm_time_sub_unit NDM_TIME_MSEC"
definition ndm_time_sub_usec :: "timespec \<Rightarrow> int \<Rightarrow> timespec result" where "ndm_time_sub_usec = ndm_time_sub_unit NDM_TIME_USEC"
definition ndm_time_sub_nsec :: "timespec \<Rightarrow> int \<Rightarrow> timespec result" where "ndm_time_sub_nsec = ndm_time_sub_unit NDM_TIME_NSEC"

text \<open>\<open>now\<close> is the reading of the monotonic clock.\<close>

definition ndm_time_get_monotonic_plus_msec :: "timespec \<Rightarrow> int \<Rightarrow> timespec result" where
  "ndm_time_get_monotonic_plus_msec now msec = ndm_time_add_msec now msec"

definition ndm_time_left_monotonic_msec :: "timespec \<Rightarrow> timespec \<Rightarrow> int result" where
  "ndm_time_left_monotonic_msec now t = bind_result (ndm_time_sub t now) ndm_time_to_msec"

section \<open>The instant a time stands for\<close>

definition nanoseconds :: "timespec \<Rightarrow> int" where
  "nanoseconds t = tv_sec t * 1000000000 + tv_nsec t"

definition normal :: "timespec \<Rightarrow> bool" where
  "normal t \<longleftrightarrow> one_sign t \<and> \<bar>tv_nsec t\<bar> < 1000000000 \<and> in_int64 (tv_sec t)"

text \<open>The instants between \<open>ndm_time_get_min\<close> and \<open>ndm_time_get_max\<close>.\<close>

definition in_time :: "int \<Rightarrow> bool" where
  "in_time n \<longleftrightarrow> nanoseconds ndm_time_get_min \<le> n \<and> n \<le> nanoseconds ndm_time_get_max"

lemma in_time_iff: "in_time n \<longleftrightarrow> \<bar>n\<bar> < 9223372036854775808 * 1000000000 \<or>
    n \<le> - 9223372036854775808 * 1000000000 \<and> - 9223372036854775809 * 1000000000 < n"
  by (auto simp: in_time_def nanoseconds_def ndm_time_get_min_def ndm_time_get_max_def time_units)

text \<open>Division towards zero, by a positive number.\<close>

lemma sdiv_pos: "0 < d \<Longrightarrow> x sdiv d = (if 0 \<le> x then x div d else - ((- x) div d))" for x d :: int
  by (cases "x = 0") (simp_all add: signed_divide_int_def sgn_if)

lemma smod_pos: "0 < d \<Longrightarrow> x smod d = (if 0 \<le> x then x mod d else - ((- x) mod d))" for x d :: int
  by (cases "x = 0") (simp_all add: signed_modulo_int_def sgn_if)

text \<open>Two normal times with one instant are the same.\<close>

lemma normal_unique:
  assumes "normal t" and "normal u" and "nanoseconds t = nanoseconds u"
  shows "t = u"
proof -
  have "tv_sec t = tv_sec u"
    using assms by (simp add: normal_def one_sign_def nanoseconds_def) linarith
  then show ?thesis using assms(3) by (simp add: nanoseconds_def)
qed

lemma less_nanoseconds:
  assumes "normal t" and "normal u"
  shows "ndm_time_less t u \<longleftrightarrow> nanoseconds t < nanoseconds u"
  using assms by (auto simp: normal_def one_sign_def nanoseconds_def ndm_time_less_def)

lemma carry_cases:
  "\<bar>n\<bar> < 2000000000 \<Longrightarrow>
   n sdiv 1000000000 = (if 1000000000 \<le> n then 1 else if n \<le> - 1000000000 then - 1 else 0)" for n :: int
  by (simp add: sdiv_pos, arith)

lemma add_nanoseconds:
  assumes t: "normal t" and u: "normal u" and total: "in_time (nanoseconds t + nanoseconds u)"
  shows "\<exists>v. ndm_time_add t u = Ok v \<and> normal v \<and> nanoseconds v = nanoseconds t + nanoseconds u"
proof -
  let ?tpos = "tv_sec t \<ge> 0 \<and> tv_nsec t \<ge> 0" and ?upos = "tv_sec u \<ge> 0 \<and> tv_nsec u \<ge> 0"
  let ?n = "tv_nsec t + tv_nsec u"
  have n: "\<bar>?n\<bar> < 2000000000" "in_int64 ?n" using t u by (auto simp: normal_def in_int64_def)
  note defs = normal_def one_sign_def nanoseconds_def in_int64_def in_time_iff
  show ?thesis
  proof (cases "?tpos = ?upos")
    case True
    let ?c = "if 1000000000 \<le> ?n then 1 else if ?n \<le> - 1000000000 then - 1 else 0"
    let ?v = "\<lparr>tv_sec = tv_sec t + (tv_sec u + ?c), tv_nsec = ?n - ?c * 1000000000\<rparr>"
    have range: "in_int64 (tv_sec u + ?c)" "in_int64 (tv_sec t + (tv_sec u + ?c))"
      using True t u total unfolding defs by (auto split: if_splits)
    have sign: "\<not> (?tpos \<and> tv_sec ?v < 0 \<or> \<not> ?tpos \<and> tv_sec ?v > 0)"
      using True t u by (auto simp: normal_def one_sign_def)
    have v: "normal ?v" "nanoseconds ?v = nanoseconds t + nanoseconds u"
      using True t u range(2) by (auto simp: normal_def one_sign_def nanoseconds_def)
    have "ndm_time_add t u = Ok ?v"
      using True n range sign v(1)
      by (auto simp: ndm_time_add_def Let_def time_units carry_cases normal_def)
    then show ?thesis using v by blast
  next
    case False
    have range: "in_int64 (tv_sec t + tv_sec u)"
      using False t u unfolding defs by auto
    let ?s = "tv_sec t + tv_sec u"
    let ?v = "if 0 \<le> ?s \<and> 0 \<le> ?n \<or> ?s \<le> 0 \<and> ?n \<le> 0 then \<lparr>tv_sec = ?s, tv_nsec = ?n\<rparr>
      else if ?s > 0 then \<lparr>tv_sec = ?s - 1, tv_nsec = ?n + 1000000000\<rparr>
      else \<lparr>tv_sec = ?s + 1, tv_nsec = ?n - 1000000000\<rparr>"
    have "\<bar>?n\<bar> < 1000000000" using False t u by (auto simp: normal_def one_sign_def)
    then have v: "normal ?v" "nanoseconds ?v = nanoseconds t + nanoseconds u"
      using range by (auto simp: normal_def one_sign_def nanoseconds_def in_int64_def)
    have "\<not> (?tpos \<and> ?upos \<or> \<not> ?tpos \<and> \<not> ?upos)" using False by blast
    then have "ndm_time_add t u = bind_result (Ok ?v) (\<lambda>t. if one_sign t then Ok t else Undefined)"
      using n(2) range unfolding ndm_time_add_def Let_def time_units by (simp del: de_Morgan_disj)
    then show ?thesis using v by (simp add: normal_def)
  qed
qed

lemma add_overflow:
  assumes t: "normal t" and u: "normal u" and total: "\<not> in_time (nanoseconds t + nanoseconds u)"
  shows "ndm_time_add t u = Undefined"
proof -
  let ?tpos = "tv_sec t \<ge> 0 \<and> tv_nsec t \<ge> 0" and ?upos = "tv_sec u \<ge> 0 \<and> tv_nsec u \<ge> 0"
  let ?n = "tv_nsec t + tv_nsec u"
  let ?c = "if 1000000000 \<le> ?n then 1 else if ?n \<le> - 1000000000 then - 1 else 0"
  have n: "\<bar>?n\<bar> < 2000000000" "in_int64 ?n" using t u by (auto simp: normal_def in_int64_def)
  note defs = normal_def one_sign_def nanoseconds_def in_int64_def in_time_iff
  have same: "?tpos = ?upos" using t u total unfolding defs by auto
  then have "\<not> (in_int64 (tv_sec u + ?c) \<and> in_int64 (tv_sec t + (tv_sec u + ?c)))"
    using t u total unfolding defs by (auto split: if_splits)
  then show ?thesis
    using same n by (auto simp: ndm_time_add_def Let_def time_units carry_cases int64_def)
qed

lemma nanoseconds_minus: "nanoseconds \<lparr>tv_sec = - s, tv_nsec = - n\<rparr> = - nanoseconds \<lparr>tv_sec = s, tv_nsec = n\<rparr>"
  by (simp add: nanoseconds_def)

lemma sub_nanoseconds:
  assumes t: "normal t" and u: "normal u" and min: "tv_sec u \<noteq> - 9223372036854775808"
    and total: "in_time (nanoseconds t - nanoseconds u)"
  shows "\<exists>v. ndm_time_sub t u = Ok v \<and> normal v \<and> nanoseconds v = nanoseconds t - nanoseconds u"
proof -
  let ?u = "\<lparr>tv_sec = - tv_sec u, tv_nsec = - tv_nsec u\<rparr>"
  have "normal ?u" "in_int64 (- tv_sec u)" "in_int64 (- tv_nsec u)"
    using u min by (auto simp: normal_def one_sign_def in_int64_def)
  moreover have "nanoseconds ?u = - nanoseconds u" by (simp add: nanoseconds_def)
  ultimately show ?thesis
    using add_nanoseconds [OF t, of ?u] total by (simp add: ndm_time_sub_def)
qed

text \<open>The rounding of \<open>ndm_time_to_\<close>, with \<open>M\<close> nanoseconds to a unit.\<close>

lemma round_up: "0 < M \<Longrightarrow> (r * M + M div 2) div M = r" for r M :: int
  by (intro int_div_pos_eq [of _ _ _ "M div 2"]) auto

lemma round_down: "0 < k \<Longrightarrow> (r * (2 * k) - k) div (2 * k) = r - 1" for r k :: int
  by (intro int_div_pos_eq [of _ _ _ k]) (auto simp: algebra_simps)

definition time_unit :: "int \<Rightarrow> bool" where
  "time_unit d \<longleftrightarrow> d = NDM_TIME_SEC \<or> d = NDM_TIME_MSEC \<or> d = NDM_TIME_USEC \<or> d = NDM_TIME_NSEC"

lemma time_unit_cases:
  assumes "time_unit d"
  obtains "d = 1" "1000000000 sdiv d = 1000000000" | "d = 1000" "1000000000 sdiv d = 1000000"
    | "d = 1000000" "1000000000 sdiv d = 1000" | "d = 1000000000" "1000000000 sdiv d = 1"
  using assms by (auto simp: time_unit_def time_units sdiv_pos)

lemma from_unit_parts:
  assumes "time_unit d"
  shows "0 \<le> p \<Longrightarrow> ndm_time_from_unit d p =
      \<lparr>tv_sec = p div d, tv_nsec = p mod d * (1000000000 sdiv d)\<rparr>"
    and "p < 0 \<Longrightarrow> ndm_time_from_unit d p =
      \<lparr>tv_sec = - (- p div d), tv_nsec = - (- p mod d * (1000000000 sdiv d))\<rparr>"
  using assms by (auto elim!: time_unit_cases simp: ndm_time_from_unit_def time_units sdiv_pos smod_pos)

lemma time_unit_factor:
  assumes "time_unit d"
  shows "0 < d" and "0 < 1000000000 sdiv d" and "d * (1000000000 sdiv d) = 1000000000"
  using assms by (auto elim!: time_unit_cases)

lemma from_unit_pos:
  assumes d: "time_unit d" and p: "0 \<le> p"
  shows "0 \<le> p mod d * (1000000000 sdiv d) \<and> p mod d * (1000000000 sdiv d) < 1000000000 \<and>
    0 \<le> p div d \<and> p div d \<le> p \<and>
    p div d * 1000000000 + p mod d * (1000000000 sdiv d) = p * (1000000000 sdiv d)"
proof -
  define M where "M = 1000000000 sdiv d"
  have M: "0 < d" "0 < M" "1000000000 = d * M" using time_unit_factor [OF d] by (simp_all add: M_def)
  have "p mod d * M < d * M" using M(1,2) by (intro mult_strict_right_mono) auto
  moreover have "p div d * (d * M) + p mod d * M = p * M"
    by (metis div_mult_mod_eq distrib_right mult.assoc)
  moreover have "p div d \<le> p" using zdiv_mono2 [OF p, of 1 d] M(1) by simp
  moreover have "0 \<le> p mod d" using M(1) by simp
  ultimately show ?thesis
    using M p unfolding M_def [symmetric] by (metis mult_nonneg_nonneg order_less_imp_le pos_imp_zdiv_nonneg_iff)
qed

lemma normal_from_unit:
  assumes "time_unit d" and "in_int64 p"
  shows "normal (ndm_time_from_unit d p)"
    and "nanoseconds (ndm_time_from_unit d p) = p * (1000000000 sdiv d)"
proof -
  have "normal (ndm_time_from_unit d p) \<and> nanoseconds (ndm_time_from_unit d p) = p * (1000000000 sdiv d)"
  proof (cases "0 \<le> p")
    case True
    then show ?thesis
      using from_unit_pos [OF assms(1) True] assms(2)
      by (auto simp: from_unit_parts [OF assms(1)] normal_def one_sign_def nanoseconds_def in_int64_def)
  next
    case False
    then have p: "0 \<le> - p" "p < 0" by simp_all
    show ?thesis
      using assms(2) p(1) from_unit_pos [OF assms(1) p(1)]
      by (auto simp: from_unit_parts(2) [OF assms(1) p(2)] normal_def one_sign_def nanoseconds_def in_int64_def)
  qed
  then show "normal (ndm_time_from_unit d p)"
    and "nanoseconds (ndm_time_from_unit d p) = p * (1000000000 sdiv d)" by blast+
qed

text \<open>The number of units a time reads back as.\<close>

definition read_back :: "int \<Rightarrow> int \<Rightarrow> int" where
  "read_back d p = (if p < 0 \<and> p mod d \<noteq> 0 \<and> d \<noteq> NDM_TIME_NSEC then p + 1 else p)"

lemma to_unit_parts:
  assumes d: "time_unit d" and s: "in_int64 (s * d)" "\<bar>n\<bar> < 1000000000"
    and r: "(n + 1000000000 sdiv d div 2) sdiv (1000000000 sdiv d) = r" and t: "in_int64 (s * d + r)"
  shows "ndm_time_to_unit d \<lparr>tv_sec = s, tv_nsec = n\<rparr> = Ok (s * d + r)"
proof -
  have M: "0 < 1000000000 sdiv d" "1000000000 sdiv d \<le> 1000000000" using d by (auto elim!: time_unit_cases)
  then have "in_int64 (n + 1000000000 sdiv d div 2)" using s(2) unfolding in_int64_def by arith
  then show ?thesis
    using s(1) t r M(1) by (simp add: ndm_time_to_unit_def time_units sdiv_pos [of 2])
qed

lemma to_from_unit_pos:
  assumes d: "time_unit d" and p: "0 \<le> p" "in_int64 p"
  shows "ndm_time_to_unit d (ndm_time_from_unit d p) = Ok p"
proof -
  let ?M = "1000000000 sdiv d"
  have "(p mod d * ?M + ?M div 2) sdiv ?M = p mod d"
    using time_unit_factor [OF d] from_unit_pos [OF d p(1)] round_up [of ?M "p mod d"] by (simp add: sdiv_pos)
  moreover have "0 \<le> p div d * d" "p div d * d \<le> p"
    using time_unit_factor(1) [OF d] p(1) pos_mod_sign [of d p] div_mult_mod_eq [of p d]
    by (simp add: pos_imp_zdiv_nonneg_iff, linarith)
  ultimately show ?thesis
    using p from_unit_pos [OF d p(1)] to_unit_parts [OF d, of "p div d" "p mod d * ?M" "p mod d"]
    by (simp add: from_unit_parts(1) [OF d p(1)] in_int64_def)
qed

lemma to_from_unit_neg:
  assumes d: "time_unit d" and p: "p < 0" "in_int64 p"
  shows "ndm_time_to_unit d (ndm_time_from_unit d p) = Ok (read_back d p)"
proof -
  let ?M = "1000000000 sdiv d" and ?q = "- p"
  let ?r = "if ?q mod d \<noteq> 0 \<and> d \<noteq> 1000000000 then 1 - ?q mod d else - (?q mod d)"
  have q: "0 \<le> ?q" using p by simp
  have M: "0 < ?M" by (rule time_unit_factor(2) [OF d])
  have "(- (?q mod d * ?M) + ?M div 2) sdiv ?M = ?r"
  proof (cases "d = 1000000000 \<or> ?q mod d = 0")
    case True
    then show ?thesis using M by (auto simp: sdiv_pos)
  next
    case False
    then obtain k where k: "?M = 2 * k" "0 < k" using d M
      by (auto elim!: time_unit_cases intro: that [of 500000000] that [of 500000] that [of 500])
    have "1 \<le> ?q mod d" using False time_unit_factor(1) [OF d] pos_mod_sign [of d ?q] by linarith
    then have "k < ?q mod d * (2 * k)" using k(2) mult_right_mono [of 1 "?q mod d" "2 * k"] by linarith
    then show ?thesis using k False round_down [of k "?q mod d"] by (simp add: sdiv_pos)
  qed
  note rounded = this
  define a b where "a = ?q div d * d" and "b = ?q mod d"
  have ab: "0 \<le> a" "0 \<le> b" "a + b = - p"
    using time_unit_factor(1) [OF d] q by (simp_all add: a_def b_def pos_imp_zdiv_nonneg_iff)
  have "in_int64 (- (?q div d) * d)" "in_int64 (- (?q div d) * d + ?r)"
    using ab p unfolding in_int64_def minus_mult_left [symmetric] a_def [symmetric] b_def [symmetric] by auto
  moreover have "\<bar>- (?q mod d * ?M)\<bar> < 1000000000" using from_unit_pos [OF d q] by linarith
  ultimately have "ndm_time_to_unit d (ndm_time_from_unit d p) = Ok (- a + ?r)"
    using to_unit_parts [OF d _ _ rounded, of "- (?q div d)"]
    by (simp only: from_unit_parts(2) [OF d p(1)] minus_mult_left [symmetric] a_def)
  moreover have "p mod d = 0 \<longleftrightarrow> b = 0" unfolding b_def by (metis dvd_minus_iff mod_eq_0_iff_dvd)
  then have "- a + ?r = read_back d p"
    using ab p(1) unfolding b_def [symmetric] by (simp add: read_back_def time_units)
  ultimately show ?thesis by simp
qed

section \<open>Properties\<close>

text \<open>
  C26: the sum of two normal times is their exact sum in nanoseconds, in
  normal form, whenever that is a time at all, and otherwise the addition overflows.
\<close>
theorem time_add_bounds:
  assumes "normal t" and "normal u"
  shows "if in_time (nanoseconds t + nanoseconds u)
    then \<exists>v. ndm_time_add t u = Ok v \<and> normal v \<and> nanoseconds v = nanoseconds t + nanoseconds u
    else ndm_time_add t u = Undefined"
  using add_nanoseconds [OF assms] add_overflow [OF assms] by simp

theorem time_add_bounds_witness:
  "ndm_time_add \<lparr>tv_sec = 3, tv_nsec = 0\<rparr> \<lparr>tv_sec = - 1, tv_nsec = - 1\<rparr> = Ok \<lparr>tv_sec = 1, tv_nsec = 999999999\<rparr>"
proof -
  have "\<exists>v. ndm_time_add \<lparr>tv_sec = 3, tv_nsec = 0\<rparr> \<lparr>tv_sec = - 1, tv_nsec = - 1\<rparr> = Ok v \<and> normal v \<and>
      nanoseconds v = 1999999999"
    using time_add_bounds [of "\<lparr>tv_sec = 3, tv_nsec = 0\<rparr>" "\<lparr>tv_sec = - 1, tv_nsec = - 1\<rparr>"]
    by (simp add: normal_def one_sign_def nanoseconds_def in_int64_def in_time_iff)
  moreover have "v = \<lparr>tv_sec = 1, tv_nsec = 999999999\<rparr>" if "normal v" "nanoseconds v = 1999999999" for v
    using that by (intro normal_unique) (auto simp: normal_def one_sign_def nanoseconds_def in_int64_def)
  ultimately show ?thesis by blast
qed

text \<open>
  C27: a number of seconds, milli-, micro- or nanoseconds becomes a
  normal time of exactly that length, which reads back as itself, except that a negative number
  of milli- or microseconds that is no whole number of seconds reads back as one more.
\<close>
theorem time_unit_roundtrip:
  assumes "time_unit d" and "in_int64 p"
  shows "normal (ndm_time_from_unit d p) \<and>
    nanoseconds (ndm_time_from_unit d p) * d = p * nanoseconds (ndm_time_from_sec 1) \<and>
    ndm_time_to_unit d (ndm_time_from_unit d p) = Ok (read_back d p)"
proof (intro conjI normal_from_unit [OF assms])
  have "nanoseconds (ndm_time_from_sec 1) = 1000000000"
    by (simp add: ndm_time_from_sec_def ndm_time_from_unit_def nanoseconds_def time_units sdiv_pos smod_pos)
  then show "nanoseconds (ndm_time_from_unit d p) * d = p * nanoseconds (ndm_time_from_sec 1)"
    using normal_from_unit(2) [OF assms] time_unit_factor(3) [OF assms(1)] by (metis mult.assoc mult.commute)
  show "ndm_time_to_unit d (ndm_time_from_unit d p) = Ok (read_back d p)"
    using to_from_unit_pos [OF assms(1), of p] to_from_unit_neg [OF assms(1), of p] assms(2)
    by (cases "0 \<le> p") (simp_all add: read_back_def)
qed

theorem time_unit_roundtrip_witness:
  "ndm_time_to_msec (ndm_time_from_msec (- 1)) = Ok 0"
  using time_unit_roundtrip [of NDM_TIME_MSEC "- 1"]
  by (simp add: time_unit_def in_int64_def read_back_def ndm_time_to_msec_def ndm_time_from_msec_def time_units)

end
