(* ===== verification/Dlist_Ring.thy ===== *)
theory Dlist_Ring
  imports Ndm_Prelude
begin

text \<open>
  The intrusive doubly linked lists of \<^verbatim>\<open>include/ndm/dlist.h\<close>: a ring of entries through
  a head entry. Memory maps the address of an entry to its two pointers; an access to an
  address without an entry is \<open>Undefined\<close>. A walk around a ring that never comes back to
  its head does not end, and is \<open>None\<close>.
\<close>

section \<open>Entries\<close>

record 'a ndm_dlist_entry_t =
  dl_next :: 'a
  dl_prev :: 'a

type_synonym 'a dl_mem = "'a \<rightharpoonup> 'a ndm_dlist_entry_t"

definition put_next :: "'a dl_mem \<Rightarrow> 'a \<Rightarrow> 'a \<Rightarrow> 'a dl_mem result" where
  "put_next m e x = need (m e) (\<lambda>r. Ok (m(e \<mapsto> r\<lparr>dl_next := x\<rparr>)))"

definition put_prev :: "'a dl_mem \<Rightarrow> 'a \<Rightarrow> 'a \<Rightarrow> 'a dl_mem result" where
  "put_prev m e x = need (m e) (\<lambda>r. Ok (m(e \<mapsto> r\<lparr>dl_prev := x\<rparr>)))"

definition ndm_dlist_init :: "'a dl_mem \<Rightarrow> 'a \<Rightarrow> 'a dl_mem result" where
  "ndm_dlist_init m e = bind_result (put_prev m e e) (\<lambda>m. put_next m e e)"

definition dlist_add :: "'a dl_mem \<Rightarrow> 'a \<Rightarrow> 'a \<Rightarrow> 'a \<Rightarrow> 'a dl_mem result" where
  "dlist_add m new_entry prev next =
     bind_result (put_prev m next new_entry) (\<lambda>m.
     bind_result (put_next m new_entry next) (\<lambda>m.
     bind_result (put_prev m new_entry prev) (\<lambda>m.
     put_next m prev new_entry)))"

definition ndm_dlist_insert_after :: "'a dl_mem \<Rightarrow> 'a \<Rightarrow> 'a \<Rightarrow> 'a dl_mem result" where
  "ndm_dlist_insert_after m head new_entry =
     need (m head) (\<lambda>r. dlist_add m new_entry head (dl_next r))"

definition ndm_dlist_insert_before :: "'a dl_mem \<Rightarrow> 'a \<Rightarrow> 'a \<Rightarrow> 'a dl_mem result" where
  "ndm_dlist_insert_before m head new_entry =
     need (m head) (\<lambda>r. dlist_add m new_entry (dl_prev r) head)"

definition ndm_dlist_remove :: "'a dl_mem \<Rightarrow> 'a \<Rightarrow> 'a dl_mem result" where
  "ndm_dlist_remove m e =
     need (m e) (\<lambda>r.
     bind_result (put_next m (dl_prev r) (dl_next r)) (\<lambda>m.
     need (m e) (\<lambda>r.
     bind_result (put_prev m (dl_next r) (dl_prev r)) (\<lambda>m.
     ndm_dlist_init m e))))"

definition ndm_dlist_is_empty :: "'a dl_mem \<Rightarrow> 'a \<Rightarrow> bool result" where
  "ndm_dlist_is_empty m head = need (m head) (\<lambda>r. Ok (dl_next r = head))"

text \<open>The entries a walk meets, from \<open>e\<close> on: \<open>ndm_dlist_foreach_entry\<close>, and the size loop.\<close>

partial_function (option) dlist_walk :: "'a dl_mem \<Rightarrow> 'a \<Rightarrow> 'a \<Rightarrow> 'a list result option" where
  "dlist_walk m head e =
     (if e = head then Some (Ok [])
      else case m e of
        None \<Rightarrow> Some Undefined
      | Some r \<Rightarrow> Option.bind (dlist_walk m head (dl_next r)) (\<lambda>es. Some (bind_result es (\<lambda>es. Ok (e # es)))))"

definition ndm_dlist_foreach :: "'a dl_mem \<Rightarrow> 'a \<Rightarrow> 'a list result option" where
  "ndm_dlist_foreach m head = (case m head of None \<Rightarrow> Some Undefined | Some r \<Rightarrow> dlist_walk m head (dl_next r))"

partial_function (option) dlist_count :: "'a dl_mem \<Rightarrow> 'a \<Rightarrow> 'a \<Rightarrow> nat \<Rightarrow> nat result option" where
  "dlist_count m head e n =
     (if e \<noteq> head
      then (case m e of None \<Rightarrow> Some Undefined | Some r \<Rightarrow> dlist_count m head (dl_next r) (n + 1))
      else Some (Ok n))"

definition ndm_dlist_size :: "'a dl_mem \<Rightarrow> 'a \<Rightarrow> nat result option" where
  "ndm_dlist_size m head = (case m head of None \<Rightarrow> Some Undefined | Some r \<Rightarrow> dlist_count m head (dl_next r) 0)"

section \<open>Rings\<close>

definition nextp :: "'a dl_mem \<Rightarrow> 'a \<Rightarrow> 'a option" where
  "nextp m e = map_option dl_next (m e)"

definition prevp :: "'a dl_mem \<Rightarrow> 'a \<Rightarrow> 'a option" where
  "prevp m e = map_option dl_prev (m e)"

definition edge :: "'a dl_mem \<Rightarrow> 'a \<Rightarrow> 'a \<Rightarrow> bool" where
  "edge m a b \<longleftrightarrow> nextp m a = Some b \<and> prevp m b = Some a"

fun linked :: "'a dl_mem \<Rightarrow> 'a \<Rightarrow> 'a list \<Rightarrow> 'a \<Rightarrow> bool" where
  "linked m a [] b \<longleftrightarrow> edge m a b"
| "linked m a (x # xs) b \<longleftrightarrow> edge m a x \<and> linked m x xs b"

definition ring :: "'a dl_mem \<Rightarrow> 'a \<Rightarrow> 'a list \<Rightarrow> bool" where
  "ring m head xs \<longleftrightarrow> distinct (head # xs) \<and> linked m head xs head"

text \<open>The links before and after one edge of a ring.\<close>

definition links_to :: "'a dl_mem \<Rightarrow> 'a \<Rightarrow> 'a list \<Rightarrow> bool" where
  "links_to m a ys \<longleftrightarrow> ys = [] \<or> linked m a (butlast ys) (last ys)"

definition links_from :: "'a dl_mem \<Rightarrow> 'a list \<Rightarrow> 'a \<Rightarrow> bool" where
  "links_from m zs b \<longleftrightarrow> zs = [] \<or> linked m (hd zs) (tl zs) b"

lemma linked_append: "linked m a (xs @ y # ys) b \<longleftrightarrow> linked m a xs y \<and> linked m y ys b"
  by (induction xs arbitrary: a) auto

lemma linked_edge:
  "linked m a (ys @ zs) b \<longleftrightarrow>
   links_to m a ys \<and> edge m (last (a # ys)) (hd (zs @ [b])) \<and> links_from m zs b"
proof (cases ys rule: rev_cases)
  case Nil
  then show ?thesis by (cases zs) (auto simp: links_to_def links_from_def)
next
  case (snoc us u)
  then show ?thesis by (cases zs) (auto simp: links_to_def links_from_def linked_append)
qed

lemma linked_cong:
  "(\<And>c. c \<in> set (a # xs) \<Longrightarrow> nextp m' c = nextp m c) \<Longrightarrow> (\<And>c. c \<in> set (xs @ [b]) \<Longrightarrow> prevp m' c = prevp m c) \<Longrightarrow>
   linked m' a xs b = linked m a xs b"
  by (induction xs arbitrary: a) (auto simp: edge_def)

lemma links_to_cong:
  assumes "\<And>c. c \<in> set (butlast (a # ys)) \<Longrightarrow> nextp m' c = nextp m c" and "\<And>c. c \<in> set ys \<Longrightarrow> prevp m' c = prevp m c"
  shows "links_to m' a ys = links_to m a ys"
proof (cases ys rule: rev_cases)
  case (snoc us u)
  then show ?thesis
    using linked_cong [of a us m' m u] assms by (simp add: links_to_def butlast_append)
qed (simp add: links_to_def)

lemma links_from_cong:
  assumes "\<And>c. c \<in> set zs \<Longrightarrow> nextp m' c = nextp m c" and "\<And>c. c \<in> set (tl (zs @ [b])) \<Longrightarrow> prevp m' c = prevp m c"
  shows "links_from m' zs b = links_from m zs b"
proof (cases zs)
  case (Cons v vs)
  then show ?thesis using linked_cong [of v vs m' m b] assms by (simp add: links_from_def)
qed (simp add: links_from_def)

text \<open>What the pointer writes do.\<close>

lemma put_next_links:
  assumes "e \<in> dom m"
  shows "\<exists>m'. put_next m e x = Ok m' \<and> dom m' = dom m \<and> nextp m' = (nextp m)(e := Some x) \<and> prevp m' = prevp m"
proof -
  obtain r where "m e = Some r" using assms by blast
  then show ?thesis
    by (intro exI [of _ "m(e \<mapsto> r\<lparr>dl_next := x\<rparr>)"]) (auto simp: put_next_def nextp_def prevp_def fun_eq_iff)
qed

lemma put_prev_links:
  assumes "e \<in> dom m"
  shows "\<exists>m'. put_prev m e x = Ok m' \<and> dom m' = dom m \<and> nextp m' = nextp m \<and> prevp m' = (prevp m)(e := Some x)"
proof -
  obtain r where "m e = Some r" using assms by blast
  then show ?thesis
    by (intro exI [of _ "m(e \<mapsto> r\<lparr>dl_prev := x\<rparr>)"]) (auto simp: put_prev_def nextp_def prevp_def fun_eq_iff)
qed

lemma add_links:
  assumes "e \<in> dom m" and "p \<in> dom m" and "n \<in> dom m"
  shows "\<exists>m'. dlist_add m e p n = Ok m' \<and> dom m' = dom m \<and>
    nextp m' = (nextp m)(e := Some n, p := Some e) \<and>
    prevp m' = (prevp m)(n := Some e, e := Some p)"
proof -
  obtain m1 where m1: "put_prev m n e = Ok m1" "dom m1 = dom m" "nextp m1 = nextp m"
      "prevp m1 = (prevp m)(n := Some e)"
    using put_prev_links [OF assms(3), of e] by blast
  obtain m2 where m2: "put_next m1 e n = Ok m2" "dom m2 = dom m" "prevp m2 = prevp m1"
      "nextp m2 = (nextp m)(e := Some n)"
    using put_next_links [of e m1 n] m1 assms(1) by auto
  obtain m3 where m3: "put_prev m2 e p = Ok m3" "dom m3 = dom m" "nextp m3 = nextp m2"
      "prevp m3 = (prevp m1)(e := Some p)"
    using put_prev_links [of e m2 p] m2 assms(1) by auto
  obtain m4 where "put_next m3 p e = Ok m4" "dom m4 = dom m" "prevp m4 = prevp m3"
      "nextp m4 = (nextp m2)(p := Some e)"
    using put_next_links [of p m3 e] m3 assms(2) by auto
  then show ?thesis using m1 m2 m3 by (simp add: dlist_add_def)
qed

lemma last_not_butlast: "distinct xs \<Longrightarrow> xs \<noteq> [] \<Longrightarrow> last xs \<notin> set (butlast xs)"
  by (cases xs rule: rev_cases) auto

lemma hd_not_tl: "distinct xs \<Longrightarrow> xs \<noteq> [] \<Longrightarrow> hd xs \<notin> set (tl xs)"
  by (cases xs) auto

lemma edge_dom: "edge m a b \<Longrightarrow> a \<in> dom m \<and> b \<in> dom m"
  by (auto simp: edge_def nextp_def prevp_def)

lemma linked_dom: "linked m a xs b \<Longrightarrow> a \<in> dom m \<and> b \<in> dom m \<and> set xs \<subseteq> dom m"
  by (induction xs arbitrary: a) (auto dest: edge_dom)

lemma ring_dom: "ring m head xs \<Longrightarrow> head \<in> dom m \<and> set xs \<subseteq> dom m"
  using linked_dom [of m head xs head] by (simp add: ring_def)

lemma ring_edges:
  assumes "ring m head (ys @ zs)"
  shows "edge m (last (head # ys)) (hd (zs @ [head]))"
  using assms by (auto simp: ring_def linked_edge)

lemma ring_ends:
  assumes "ring m head xs"
  shows "nextp m head = Some (hd (xs @ [head]))" and "prevp m head = Some (last (head # xs))"
  using ring_edges [of m head "[]" xs] ring_edges [of m head xs "[]"] assms by (simp_all add: edge_def)

lemma ring_apart:
  assumes "distinct (head # ys @ zs)"
  shows "last (head # ys) \<notin> set (butlast (head # ys))" and "hd (zs @ [head]) \<notin> set ys"
    and "hd (zs @ [head]) \<notin> set (tl (zs @ [head]))" and "last (head # ys) \<notin> set zs"
proof -
  show "last (head # ys) \<notin> set (butlast (head # ys))" using assms by (intro last_not_butlast) auto
  show "hd (zs @ [head]) \<notin> set ys" using assms by (cases zs) auto
  show "hd (zs @ [head]) \<notin> set (tl (zs @ [head]))" using assms by (intro hd_not_tl) auto
  show "last (head # ys) \<notin> set zs" using assms last_in_set [of ys] by (cases "ys = []") (auto simp: disjoint_iff)
qed

lemma add_ring:
  assumes ring: "ring m head (ys @ zs)" and new: "e \<notin> set (head # ys @ zs)" "e \<in> dom m"
  shows "\<exists>m'. dlist_add m e (last (head # ys)) (hd (zs @ [head])) = Ok m' \<and> dom m' = dom m \<and>
    ring m' head (ys @ e # zs)"
proof -
  define p n where "p = last (head # ys)" and "n = hd (zs @ [head])"
  have "edge m p n" unfolding p_def n_def by (rule ring_edges [OF ring])
  then have pn: "p \<in> dom m" "n \<in> dom m" by (simp_all add: edge_dom)
  obtain m' where m': "dlist_add m e p n = Ok m'" "dom m' = dom m"
      "nextp m' = (nextp m)(e := Some n, p := Some e)" "prevp m' = (prevp m)(n := Some e, e := Some p)"
    using add_links [OF new(2) pn] by blast
  have dist: "distinct (head # ys @ zs)" using ring by (simp add: ring_def)
  note apart = ring_apart [OF dist, folded p_def n_def]
  have ne: "p \<noteq> e" "n \<noteq> e"
    using new(1) last_in_set [of "head # ys"] hd_in_set [of "zs @ [head]"] by (auto simp: p_def n_def)
  have "links_to m' head ys = links_to m head ys"
  proof (rule links_to_cong)
    show "nextp m' c = nextp m c" if "c \<in> set (butlast (head # ys))" for c
      using that apart(1) in_set_butlastD [OF that] new(1) by (auto simp: m'(3))
    show "prevp m' c = prevp m c" if "c \<in> set ys" for c using that apart(2) new(1) by (auto simp: m'(4))
  qed
  moreover have "links_from m' zs head = links_from m zs head"
  proof (rule links_from_cong)
    show "nextp m' c = nextp m c" if "c \<in> set zs" for c using that apart(4) new(1) by (auto simp: m'(3))
    show "prevp m' c = prevp m c" if "c \<in> set (tl (zs @ [head]))" for c
      using that apart(3) list.set_sel(2) [of "zs @ [head]" c] new(1) by (auto simp: m'(4))
  qed
  moreover have "links_to m head ys" "links_from m zs head" using ring by (simp_all add: ring_def linked_edge)
  moreover have "edge m' p e" "edge m' e n" using ne by (auto simp: edge_def m'(3,4))
  ultimately have "linked m' head (ys @ e # zs) head"
    using linked_edge [of m' e "[]" zs head] linked_edge [of m' head ys "e # zs" head]
    by (simp add: links_from_def [of _ "_ # _"] links_to_def [of _ _ "[]"] p_def n_def)
  then show ?thesis using m' dist new(1) by (auto simp: ring_def p_def n_def)
qed

text \<open>Taking an entry out: it becomes a ring of its own.\<close>

lemma init_links:
  assumes "e \<in> dom m"
  shows "\<exists>m'. ndm_dlist_init m e = Ok m' \<and> dom m' = dom m \<and>
    nextp m' = (nextp m)(e := Some e) \<and> prevp m' = (prevp m)(e := Some e)"
proof -
  obtain m1 where m1: "put_prev m e e = Ok m1" "dom m1 = dom m" "nextp m1 = nextp m" "prevp m1 = (prevp m)(e := Some e)"
    using put_prev_links [OF assms, of e] by blast
  then show ?thesis using put_next_links [of e m1 e] assms by (simp add: ndm_dlist_init_def)
qed

lemma init_ring:
  assumes "e \<in> dom m"
  shows "\<exists>m'. ndm_dlist_init m e = Ok m' \<and> dom m' = dom m \<and> ring m' e []"
  using init_links [OF assms] by (auto simp: ring_def edge_def)

lemma remove_links:
  assumes "edge m p e" and "edge m e n" and "p \<noteq> e" and "n \<noteq> e"
  shows "\<exists>m'. ndm_dlist_remove m e = Ok m' \<and> dom m' = dom m \<and>
    nextp m' = (nextp m)(p := Some n, e := Some e) \<and> prevp m' = (prevp m)(n := Some p, e := Some e)"
proof -
  have dom: "p \<in> dom m" "e \<in> dom m" "n \<in> dom m" using edge_dom [OF assms(1)] edge_dom [OF assms(2)] by simp_all
  then obtain r where r: "m e = Some r" by blast
  have ptr: "dl_prev r = p" "dl_next r = n" using assms(1,2) r by (simp_all add: edge_def nextp_def prevp_def)
  obtain m1 where m1: "put_next m p n = Ok m1" "dom m1 = dom m" "nextp m1 = (nextp m)(p := Some n)" "prevp m1 = prevp m"
    using put_next_links [OF dom(1), of n] by blast
  then obtain r1 where r1: "m1 e = Some r1" using dom(2) by blast
  have "dl_prev r1 = p" "dl_next r1 = n"
    using fun_cong [OF m1(3), of e] fun_cong [OF m1(4), of e] r1 r ptr assms(3) by (simp_all add: nextp_def prevp_def)
  moreover obtain m2 where m2: "put_prev m1 n p = Ok m2" "dom m2 = dom m" "nextp m2 = nextp m1"
      "prevp m2 = (prevp m)(n := Some p)"
    using put_prev_links [of n m1 p] m1 dom(3) by auto
  moreover obtain m3 where "ndm_dlist_init m2 e = Ok m3" "dom m3 = dom m"
      "nextp m3 = (nextp m1)(e := Some e)" "prevp m3 = (prevp m2)(e := Some e)"
    using init_links [of e m2] m2 dom(2) by auto
  ultimately show ?thesis using r r1 ptr m1 by (simp add: ndm_dlist_remove_def)
qed

lemma remove_ring:
  assumes ring: "ring m head (ys @ e # zs)"
  shows "\<exists>m'. ndm_dlist_remove m e = Ok m' \<and> dom m' = dom m \<and> ring m' head (ys @ zs) \<and> ring m' e []"
proof -
  define p n where "p = last (head # ys)" and "n = hd (zs @ [head])"
  have dist: "distinct (head # ys @ zs)" and e: "e \<notin> set (head # ys @ zs)" using ring by (auto simp: ring_def)
  have old: "links_to m head ys" "edge m p e" "edge m e n" "links_from m zs head"
    using ring linked_edge [of m e "[]" zs head]
    by (simp_all add: ring_def linked_edge [of m head ys] links_from_def [of _ "_ # _"] p_def n_def)
  have ne: "p \<noteq> e" "n \<noteq> e"
    using e last_in_set [of "head # ys"] hd_in_set [of "zs @ [head]"] by (auto simp: p_def n_def)
  obtain m' where m': "ndm_dlist_remove m e = Ok m'" "dom m' = dom m"
      "nextp m' = (nextp m)(p := Some n, e := Some e)" "prevp m' = (prevp m)(n := Some p, e := Some e)"
    using remove_links [OF old(2,3) ne] by blast
  note apart = ring_apart [OF dist, folded p_def n_def]
  have "links_to m' head ys = links_to m head ys"
  proof (rule links_to_cong)
    show "nextp m' c = nextp m c" if "c \<in> set (butlast (head # ys))" for c
      using that apart(1) in_set_butlastD [OF that] e by (auto simp: m'(3))
    show "prevp m' c = prevp m c" if "c \<in> set ys" for c using that apart(2) e by (auto simp: m'(4))
  qed
  moreover have "links_from m' zs head = links_from m zs head"
  proof (rule links_from_cong)
    show "nextp m' c = nextp m c" if "c \<in> set zs" for c using that apart(4) e by (auto simp: m'(3))
    show "prevp m' c = prevp m c" if "c \<in> set (tl (zs @ [head]))" for c
      using that apart(3) list.set_sel(2) [of "zs @ [head]" c] e by (auto simp: m'(4))
  qed
  moreover have "edge m' p n" using ne by (simp add: edge_def m'(3,4))
  ultimately have "linked m' head (ys @ zs) head" using old by (simp add: linked_edge p_def n_def)
  moreover have "ring m' e []" by (simp add: ring_def edge_def m'(3,4))
  ultimately show ?thesis using m' dist by (auto simp: ring_def)
qed

text \<open>A ring read through its head.\<close>

lemma insert_after_ring:
  assumes "ring m head xs" and "e \<notin> set (head # xs)" and "e \<in> dom m"
  shows "\<exists>m'. ndm_dlist_insert_after m head e = Ok m' \<and> dom m' = dom m \<and> ring m' head (e # xs)"
proof -
  obtain r where "m head = Some r" "dl_next r = hd (xs @ [head])"
    using ring_ends(1) [OF assms(1)] by (auto simp: nextp_def)
  then show ?thesis using add_ring [of m head "[]" xs e] assms by (simp add: ndm_dlist_insert_after_def)
qed

lemma insert_before_ring:
  assumes "ring m head xs" and "e \<notin> set (head # xs)" and "e \<in> dom m"
  shows "\<exists>m'. ndm_dlist_insert_before m head e = Ok m' \<and> dom m' = dom m \<and> ring m' head (xs @ [e])"
proof -
  obtain r where "m head = Some r" "dl_prev r = last (head # xs)"
    using ring_ends(2) [OF assms(1)] by (auto simp: prevp_def)
  then show ?thesis using add_ring [of m head xs "[]" e] assms by (simp add: ndm_dlist_insert_before_def)
qed

lemma is_empty_ring: "ring m head xs \<Longrightarrow> ndm_dlist_is_empty m head = Ok (xs = [])"
  using ring_ends(1) [of m head xs] by (cases xs) (auto simp: ndm_dlist_is_empty_def nextp_def ring_def)

lemma walk_linked:
  "linked m a xs head \<Longrightarrow> head \<notin> set xs \<Longrightarrow> nextp m a = Some e \<Longrightarrow> dlist_walk m head e = Some (Ok xs)"
proof (induction xs arbitrary: a e)
  case Nil
  then show ?case by (subst dlist_walk.simps) (simp add: edge_def)
next
  case (Cons x xs)
  then have x: "e = x" "x \<in> dom m" using linked_dom [of m x xs head] by (auto simp: edge_def)
  then obtain r where r: "m x = Some r" by blast
  then have "dlist_walk m head (dl_next r) = Some (Ok xs)" using Cons by (auto simp: nextp_def)
  then show ?case using Cons.prems(2) x r by (subst dlist_walk.simps) auto
qed

lemma count_linked:
  "linked m a xs head \<Longrightarrow> head \<notin> set xs \<Longrightarrow> nextp m a = Some e \<Longrightarrow> dlist_count m head e k = Some (Ok (k + length xs))"
proof (induction xs arbitrary: a e k)
  case Nil
  then show ?case by (subst dlist_count.simps) (simp add: edge_def)
next
  case (Cons x xs)
  then have x: "e = x" "x \<in> dom m" using linked_dom [of m x xs head] by (auto simp: edge_def)
  then obtain r where r: "m x = Some r" by blast
  then have "dlist_count m head (dl_next r) (k + 1) = Some (Ok (k + 1 + length xs))" using Cons by (auto simp: nextp_def)
  then show ?case using Cons.prems(2) x r by (subst dlist_count.simps) auto
qed

lemma ring_read:
  assumes "ring m head xs"
  shows "ndm_dlist_foreach m head = Some (Ok xs)" and "ndm_dlist_size m head = Some (Ok (length xs))"
proof -
  obtain r where r: "m head = Some r" using ring_dom [OF assms] by blast
  have "linked m head xs head" "head \<notin> set xs" "nextp m head = Some (dl_next r)"
    using assms r by (simp_all add: ring_def nextp_def)
  then show "ndm_dlist_foreach m head = Some (Ok xs)" "ndm_dlist_size m head = Some (Ok (length xs))"
    using walk_linked [of m head xs head] count_linked [of m head xs head] r
    by (simp_all add: ndm_dlist_foreach_def ndm_dlist_size_def)
qed

section \<open>Histories\<close>

text \<open>
  The calls of a client that links only entries that are in no list and removes only
  entries that are in this one, with the list they should leave.
\<close>

datatype 'a dlist_op = InsertAfter 'a | InsertBefore 'a | RemoveEntry 'a

fun dlist_run :: "'a dl_mem \<Rightarrow> 'a \<Rightarrow> 'a list \<Rightarrow> 'a dlist_op list \<Rightarrow> ('a dl_mem \<times> 'a list) result" where
  "dlist_run m head xs [] = Ok (m, xs)"
| "dlist_run m head xs (InsertAfter e # ops) =
     (if e \<in> set (head # xs) then dlist_run m head xs ops
      else bind_result (ndm_dlist_insert_after m head e) (\<lambda>m. dlist_run m head (e # xs) ops))"
| "dlist_run m head xs (InsertBefore e # ops) =
     (if e \<in> set (head # xs) then dlist_run m head xs ops
      else bind_result (ndm_dlist_insert_before m head e) (\<lambda>m. dlist_run m head (xs @ [e]) ops))"
| "dlist_run m head xs (RemoveEntry e # ops) =
     (if e \<notin> set xs then dlist_run m head xs ops
      else bind_result (ndm_dlist_remove m e) (\<lambda>m. dlist_run m head (remove1 e xs) ops))"

fun op_entry :: "'a dlist_op \<Rightarrow> 'a" where
  "op_entry (InsertAfter e) = e"
| "op_entry (InsertBefore e) = e"
| "op_entry (RemoveEntry e) = e"

lemma run_ring:
  "ring m head xs \<Longrightarrow> op_entry ` set ops \<subseteq> dom m \<Longrightarrow>
   \<exists>m' xs'. dlist_run m head xs ops = Ok (m', xs') \<and> dom m' = dom m \<and> ring m' head xs'"
proof (induction ops arbitrary: m xs)
  case (Cons op ops)
  show ?case
  proof (cases op)
    case (InsertAfter e)
    show ?thesis
    proof (cases "e \<in> set (head # xs)")
      case True
      then show ?thesis using InsertAfter Cons by simp
    next
      case False
      then obtain m1 where "ndm_dlist_insert_after m head e = Ok m1" "dom m1 = dom m" "ring m1 head (e # xs)"
        using insert_after_ring [OF Cons.prems(1) False] InsertAfter Cons.prems(2) by auto
      then show ?thesis using False InsertAfter Cons.prems(2) Cons.IH [of m1 "e # xs"] by auto
    qed
  next
    case (InsertBefore e)
    show ?thesis
    proof (cases "e \<in> set (head # xs)")
      case True
      then show ?thesis using InsertBefore Cons by simp
    next
      case False
      then obtain m1 where "ndm_dlist_insert_before m head e = Ok m1" "dom m1 = dom m" "ring m1 head (xs @ [e])"
        using insert_before_ring [OF Cons.prems(1) False] InsertBefore Cons.prems(2) by auto
      then show ?thesis using False InsertBefore Cons.prems(2) Cons.IH [of m1 "xs @ [e]"] by auto
    qed
  next
    case (RemoveEntry e)
    show ?thesis
    proof (cases "e \<in> set xs")
      case True
      then obtain ys zs where xs: "xs = ys @ e # zs" "e \<notin> set ys" by (meson split_list_first)
      then have "remove1 e xs = ys @ zs" by (simp add: remove1_append)
      moreover obtain m1 where "ndm_dlist_remove m e = Ok m1" "dom m1 = dom m" "ring m1 head (ys @ zs)"
        using remove_ring [of m head ys e zs] Cons.prems(1) xs(1) by blast
      ultimately show ?thesis using True RemoveEntry Cons.prems(2) Cons.IH [of m1 "ys @ zs"] by auto
    next
      case False
      then show ?thesis using RemoveEntry Cons by simp
    qed
  qed
qed simp

section \<open>Properties\<close>

text \<open>
  C34: after any history of insertions and removals on an initialised head,
  the walk over the list and the count of its entries come to an end, and give exactly
  the list those calls describe.
\<close>
theorem dlist_history:
  assumes "head \<in> dom m" and "op_entry ` set ops \<subseteq> dom m"
  shows "\<exists>m0 m' xs. ndm_dlist_init m head = Ok m0 \<and> dlist_run m0 head [] ops = Ok (m', xs) \<and>
    ndm_dlist_foreach m' head = Some (Ok xs) \<and> ndm_dlist_size m' head = Some (Ok (length xs)) \<and>
    ndm_dlist_is_empty m' head = Ok (xs = [])"
proof -
  obtain m0 where m0: "ndm_dlist_init m head = Ok m0" "dom m0 = dom m" "ring m0 head []"
    using init_ring [OF assms(1)] by blast
  then obtain m' xs where "dlist_run m0 head [] ops = Ok (m', xs)" "ring m' head xs"
    using run_ring [OF m0(3), of ops] assms(2) by auto
  then show ?thesis using m0(1) ring_read [of m' head xs] is_empty_ring [of m' head xs] by blast
qed

theorem dlist_history_witness:
  "\<exists>m0 m' xs. ndm_dlist_init (\<lambda>_. Some \<lparr>dl_next = 9, dl_prev = 9\<rparr>) (0 :: nat) = Ok m0 \<and>
    dlist_run m0 0 [] [InsertAfter 1, InsertBefore 2, RemoveEntry 1] = Ok (m', xs) \<and>
    ndm_dlist_foreach m' 0 = Some (Ok xs) \<and> ndm_dlist_size m' 0 = Some (Ok (length xs)) \<and>
    ndm_dlist_is_empty m' 0 = Ok (xs = [])"
  by (rule dlist_history) auto

end
