(* ===== verification/Stracc.thy ===== *)
theory Stracc
  imports Ndm_Prelude
begin

text \<open>
  The string accumulator of \<^verbatim>\<open>src/stracc.c\<close>. The formatting itself is the C library's:
  an append gets the text the format produces, which may contain zero bytes. A pointer
  into the accumulated text is an offset, and \<open>None\<close> stands for \<open>NULL\<close>. Calls return the
  allocator after their requests.
\<close>

section \<open>The accumulator\<close>

record ndm_stracc_t =
  acc_data :: "u8 list option"
  acc_size :: nat
  acc_is_valid :: bool

definition ndm_stracc_init :: ndm_stracc_t where
  "ndm_stracc_init = \<lparr>acc_data = None, acc_size = 0, acc_is_valid = True\<rparr>"

definition stracc_invalidate :: "ndm_stracc_t \<Rightarrow> ndm_stracc_t" where
  "stracc_invalidate acc = \<lparr>acc_data = None, acc_size = 0, acc_is_valid = False\<rparr>"

definition ndm_stracc_clear :: "ndm_stracc_t \<Rightarrow> ndm_stracc_t" where
  "ndm_stracc_clear acc = (stracc_invalidate acc)\<lparr>acc_is_valid := True\<rparr>"

definition ndm_stracc_is_valid :: "ndm_stracc_t \<Rightarrow> bool" where
  "ndm_stracc_is_valid a = acc_is_valid a"

text \<open>The block of the text, or the block of an empty string.\<close>

definition ndm_stracc_value :: "ndm_stracc_t \<Rightarrow> u8 list" where
  "ndm_stracc_value acc =
     (if \<not> acc_is_valid acc then [0] else case acc_data acc of None \<Rightarrow> [0] | Some blk \<Rightarrow> blk)"

definition ndm_stracc_size :: "ndm_stracc_t \<Rightarrow> nat" where
  "ndm_stracc_size acc = (if acc_is_valid acc then acc_size acc else 0)"

definition ndm_stracc_is_empty :: "ndm_stracc_t \<Rightarrow> bool" where
  "ndm_stracc_is_empty a \<longleftrightarrow> ndm_stracc_size a = 0"

text \<open>The old block of \<open>a\<close> is not released.\<close>

definition ndm_stracc_assign :: "heap \<Rightarrow> ndm_stracc_t \<Rightarrow> ndm_stracc_t \<Rightarrow> (bool \<times> ndm_stracc_t) result" where
  "ndm_stracc_assign heap a b =
     (if acc_size b = 0 then Ok (True, (ndm_stracc_clear a)\<lparr>acc_is_valid := acc_is_valid b\<rparr>)
      else if \<not> can_alloc heap then Ok (False, a)
      else need (acc_data b) (\<lambda>src. need (mem_read src 0 (acc_size b + 1)) (\<lambda>bs.
           Ok (True, \<lparr>acc_data = Some bs, acc_size = acc_size b, acc_is_valid = acc_is_valid b\<rparr>))))"

definition ndm_stracc_is_equal :: "ndm_stracc_t \<Rightarrow> ndm_stracc_t \<Rightarrow> bool result" where
  "ndm_stracc_is_equal a b =
     (let a_valid = ndm_stracc_is_valid a; b_valid = ndm_stracc_is_valid b in
      if \<not> a_valid \<and> \<not> b_valid then Ok True
      else if a_valid \<and> b_valid \<and> ndm_stracc_size a = ndm_stracc_size b then
        need (mem_read (ndm_stracc_value a) 0 (ndm_stracc_size a)) (\<lambda>l.
        need (mem_read (ndm_stracc_value b) 0 (ndm_stracc_size a)) (\<lambda>r. Ok (l = r)))
      else Ok False)"

definition ndm_stracc_swap :: "ndm_stracc_t \<Rightarrow> ndm_stracc_t \<Rightarrow> ndm_stracc_t \<times> ndm_stracc_t" where
  "ndm_stracc_swap a b = (b, a)"

text \<open>
  \<open>snprintf\<close> with \<open>%s\<close> copies the formatted text up to its first zero byte, while the size
  counts all of it.
\<close>

definition ndm_stracc_append :: "heap \<Rightarrow> ndm_stracc_t \<Rightarrow> u8 list \<Rightarrow> (bool \<times> ndm_stracc_t \<times> heap) result" where
  "ndm_stracc_append heap acc s =
     (if \<not> acc_is_valid acc then Ok (False, acc, heap)
      else if \<not> can_alloc heap then Ok (False, stracc_invalidate acc, heap_next heap)
      else if length s > 0 then
        let heap = heap_next heap in
        if \<not> can_alloc heap then Ok (False, stracc_invalidate acc, heap_next heap)
        else
          let p = resize_block heap (case acc_data acc of None \<Rightarrow> [] | Some blk \<Rightarrow> blk) (acc_size acc + (length s + 1)) in
          need (if acc_size acc = 0 then mem_write p 0 [0] else Some p) (\<lambda>p.
          need (mem_write p (acc_size acc) (takeWhile (\<lambda>c. c \<noteq> 0) s @ [0])) (\<lambda>p.
          Ok (True, acc\<lparr>acc_data := Some p, acc_size := acc_size acc + length s\<rparr>, heap_next heap)))
      else Ok (True, acc, heap_next heap))"

text \<open>The next of the strings that follow one another in the text.\<close>

definition acc_strlen :: "ndm_stracc_t \<Rightarrow> nat \<Rightarrow> nat option" where
  "acc_strlen acc s =
     (case acc_data acc of
        None \<Rightarrow> None
      | Some blk \<Rightarrow>
          if 0 \<in> set (drop s blk) then Some (length (takeWhile (\<lambda>c. c \<noteq> 0) (drop s blk))) else None)"

definition ndm_stracc_next_cstr :: "ndm_stracc_t \<Rightarrow> nat option \<Rightarrow> nat option result" where
  "ndm_stracc_next_cstr acc s =
     (case s of
        None \<Rightarrow> Ok None
      | Some s \<Rightarrow>
          if \<not> acc_is_valid acc \<or> s \<ge> acc_size acc then Ok None
          else need (acc_strlen acc s) (\<lambda>n.
               let s = s + (n + 1) in Ok (if s \<ge> acc_size acc then None else Some s)))"

section \<open>The accumulated text\<close>

text \<open>The terminator after the text is only there when the text does not end in one.\<close>

definition stracc_holds :: "ndm_stracc_t \<Rightarrow> u8 list \<Rightarrow> bool" where
  "stracc_holds acc c \<longleftrightarrow> acc_is_valid acc \<and> acc_size acc = length c \<and>
     (if c = [] then acc_data acc = None
      else \<exists>x. acc_data acc = Some (c @ [x]) \<and> (last c = 0 \<or> x = 0))"

lemma stracc_holds_init: "stracc_holds ndm_stracc_init []"
  by (simp add: stracc_holds_def ndm_stracc_init_def)

lemma copied_text:
  assumes "0 \<notin> set (butlast s)" and "s \<noteq> []"
  shows "takeWhile (\<lambda>c. c \<noteq> 0) s @ [0] = (if last s = 0 then s else s @ [0])"
proof -
  have "s = butlast s @ [last s]" using assms(2) by simp
  moreover have "takeWhile (\<lambda>c. c \<noteq> 0) (butlast s @ [last s]) =
      (if last s = 0 then butlast s else butlast s @ [last s])"
    using assms(1) by (auto simp: takeWhile_append)
  ultimately show ?thesis by metis
qed

lemma resize_keeps: "length c \<le> n \<Longrightarrow> take (length c) (resize_block h (c @ d) n) = c"
  by (simp add: resize_block_def)

lemma append_holds:
  assumes acc: "stracc_holds acc c" and s: "0 \<notin> set (butlast s)"
  shows "\<exists>ok acc' h'. ndm_stracc_append h acc s = Ok (ok, acc', h') \<and> (no_failure h \<longrightarrow> ok \<and> no_failure h') \<and>
    (if ok then stracc_holds acc' (c @ s) else acc' = stracc_invalidate acc)"
proof (cases "s = [] \<or> \<not> can_alloc h \<or> \<not> can_alloc (heap_next h)")
  case True
  moreover have "no_failure h \<Longrightarrow> can_alloc h \<and> can_alloc (heap_next h)" by (simp add: heap_simps)
  moreover have "acc_is_valid acc" using acc by (simp add: stracc_holds_def)
  ultimately have "ndm_stracc_append h acc s = Ok (False, stracc_invalidate acc, heap_next h) \<and> \<not> no_failure h \<or>
      ndm_stracc_append h acc s = Ok (False, stracc_invalidate acc, heap_next (heap_next h)) \<and> \<not> no_failure h \<or>
      ndm_stracc_append h acc s = Ok (True, acc, heap_next h) \<and> s = []"
    by (cases "can_alloc h"; cases "s = []") (auto simp: ndm_stracc_append_def Let_def)
  then show ?thesis
  proof (elim disjE conjE)
    assume "ndm_stracc_append h acc s = Ok (True, acc, heap_next h)" "s = []"
    then show ?thesis using acc by (auto simp: heap_simps intro!: exI [of _ True])
  qed (auto intro!: exI [of _ False])
next
  case False
  let ?h = "heap_next h"
  let ?p = "resize_block ?h (case acc_data acc of None \<Rightarrow> [] | Some blk \<Rightarrow> blk) (length c + (length s + 1))"
  let ?w = "if last s = 0 then s else s @ [0]"
  obtain r where r: "?p = c @ r" "length r = Suc (length s)"
  proof -
    have "take (length c) ?p = c"
    proof (cases "c = []")
      case False
      then obtain x where "acc_data acc = Some (c @ [x])" using acc by (auto simp: stracc_holds_def)
      then show ?thesis by (simp add: resize_keeps)
    qed simp
    then have "?p = c @ drop (length c) ?p" by (metis append_take_drop_id)
    then show ?thesis by (rule that) simp
  qed
  have "\<exists>q. (if length c = 0 then mem_write ?p 0 [0] else Some ?p) = Some (c @ q) \<and> length q = Suc (length s)"
    using r by (cases r) (auto simp: mem_write_def)
  then obtain q where q: "(if length c = 0 then mem_write ?p 0 [0] else Some ?p) = Some (c @ q)" "length q = Suc (length s)" by blast
  have len: "length ?w \<le> length q" using q(2) by auto
  have "mem_write (c @ q) (length c) ?w = Some (c @ ?w @ drop (length ?w) q)"
    using mem_write_at [of "length c" c "take (length ?w) q" ?w "drop (length ?w) q"] len by simp
  moreover have "\<exists>x. c @ ?w @ drop (length ?w) q = (c @ s) @ [x] \<and> (last (c @ s) = 0 \<or> x = 0)"
  proof (cases "last s = 0")
    case True
    then have "length (drop (length ?w) q) = 1" using q(2) by simp
    then obtain x where "drop (length ?w) q = [x]" by (cases "drop (length ?w) q") auto
    then show ?thesis using True False by (intro exI [of _ x]) simp
  qed (use q(2) in simp)
  then obtain x where x: "c @ ?w @ drop (length ?w) q = (c @ s) @ [x]" "last (c @ s) = 0 \<or> x = 0" by blast
  moreover have size: "acc_size acc = length c" using acc by (simp add: stracc_holds_def)
  moreover have "s \<noteq> []" "can_alloc h" "can_alloc ?h" "acc_is_valid acc" using False acc by (simp_all add: stracc_holds_def)
  ultimately have "ndm_stracc_append h acc s =
      Ok (True, acc\<lparr>acc_data := Some ((c @ s) @ [x]), acc_size := length c + length s\<rparr>, heap_next ?h)"
    unfolding ndm_stracc_append_def Let_def size q(1) need_simps by (simp add: copied_text [OF s])
  then show ?thesis
    using False acc x(2) by (auto simp: stracc_holds_def heap_simps)
qed

lemma append_invalid: "\<not> acc_is_valid acc \<Longrightarrow> ndm_stracc_append h acc s = Ok (False, acc, h)"
  by (simp add: ndm_stracc_append_def)

text \<open>A sequence of appends, each with its result ignored, as the clients write them.\<close>

fun append_all :: "heap \<Rightarrow> ndm_stracc_t \<Rightarrow> u8 list list \<Rightarrow> (ndm_stracc_t \<times> heap) result" where
  "append_all heap acc [] = Ok (acc, heap)"
| "append_all heap acc (s # ss) =
     bind_result (ndm_stracc_append heap acc s) (\<lambda>(ok, acc, heap). append_all heap acc ss)"

lemma append_all_invalid: "\<not> acc_is_valid acc \<Longrightarrow> append_all h acc ss = Ok (acc, h)"
  by (induction ss) (simp_all add: append_invalid)

lemma append_all_holds:
  "stracc_holds acc c \<Longrightarrow> \<forall>s \<in> set ss. 0 \<notin> set (butlast s) \<Longrightarrow>
   \<exists>acc' h'. append_all h acc ss = Ok (acc', h') \<and>
     (if acc_is_valid acc' then stracc_holds acc' (c @ concat ss) else \<not> no_failure h \<and> acc' = stracc_invalidate acc)"
proof (induction ss arbitrary: acc c h)
  case Nil
  then show ?case by (simp add: stracc_holds_def)
next
  case (Cons s ss)
  obtain ok acc1 h1 where step: "ndm_stracc_append h acc s = Ok (ok, acc1, h1)" "no_failure h \<longrightarrow> ok \<and> no_failure h1"
      "if ok then stracc_holds acc1 (c @ s) else acc1 = stracc_invalidate acc"
    using append_holds [OF Cons.prems(1), of s h] Cons.prems(2) by auto
  show ?case
  proof (cases ok)
    case True
    then obtain acc' h' where "append_all h1 acc1 ss = Ok (acc', h')"
        "if acc_is_valid acc' then stracc_holds acc' ((c @ s) @ concat ss) else \<not> no_failure h1 \<and> acc' = stracc_invalidate acc1"
      using Cons.IH [of acc1 "c @ s" h1] step(3) Cons.prems(2) by auto
    then show ?thesis using step True by (auto simp: stracc_invalidate_def split: if_splits)
  next
    case False
    then have "\<not> acc_is_valid acc1" using step(3) by (simp add: stracc_invalidate_def)
    then show ?thesis
      using step False append_all_invalid [of acc1 h1 ss] by (auto simp: stracc_invalidate_def)
  qed
qed

lemma append_all_init:
  assumes "\<forall>s \<in> set ss. 0 \<notin> set (butlast s)"
  obtains acc h' where "append_all h ndm_stracc_init ss = Ok (acc, h')"
    and "if acc_is_valid acc then stracc_holds acc (concat ss)
      else \<not> no_failure h \<and> acc = stracc_invalidate ndm_stracc_init"
  using append_all_holds [OF stracc_holds_init assms, of h] unfolding append_Nil by blast

lemma holds_value:
  assumes "stracc_holds acc c"
  shows "take (ndm_stracc_size acc) (ndm_stracc_value acc) = c \<and> ndm_stracc_size acc = length c"
  using assms by (cases "c = []") (auto simp: stracc_holds_def ndm_stracc_value_def ndm_stracc_size_def)

text \<open>Strings that follow one another, each with its zero byte.\<close>

definition cstrings :: "u8 list list \<Rightarrow> u8 list" where
  "cstrings ws = concat (map (\<lambda>w. w @ [0]) ws)"

lemma cstrings_split: "i < length ws \<Longrightarrow>
   cstrings ws = cstrings (take i ws) @ ws ! i @ 0 # cstrings (drop (Suc i) ws)"
  using arg_cong [OF id_take_nth_drop [of i ws], of cstrings] by (simp add: cstrings_def)

lemma cstrings_Suc: "i < length ws \<Longrightarrow>
   length (cstrings (take (Suc i) ws)) = length (cstrings (take i ws)) + length (ws ! i) + 1"
  by (simp add: cstrings_def take_Suc_conv_app_nth)

lemma strlen_cstrings:
  assumes "stracc_holds acc (cstrings ws)" and "i < length ws" and "0 \<notin> set (ws ! i)"
  shows "acc_strlen acc (length (cstrings (take i ws))) = Some (length (ws ! i))"
proof -
  have ne: "cstrings ws \<noteq> []" using assms(2) by (cases ws) (auto simp: cstrings_def)
  then obtain x where "acc_data acc = Some (cstrings ws @ [x])" using assms(1) by (auto simp: stracc_holds_def)
  then show ?thesis
    using cstrings_split [OF assms(2)] assms(3) by (auto simp: acc_strlen_def takeWhile_append)
qed

lemma next_cstrings:
  assumes acc: "stracc_holds acc (cstrings ws)" and i: "i < length ws" and w: "0 \<notin> set (ws ! i)"
  shows "ndm_stracc_next_cstr acc (Some (length (cstrings (take i ws)))) =
    Ok (if Suc i < length ws then Some (length (cstrings (take (Suc i) ws))) else None)"
proof -
  have size: "acc_size acc = length (cstrings ws)" "acc_is_valid acc" using acc by (simp_all add: stracc_holds_def)
  have "length (cstrings (take i ws)) < length (cstrings ws)" using arg_cong [OF cstrings_split [OF i], of length] by simp
  moreover have "length (cstrings (take (Suc i) ws)) < length (cstrings ws) \<longleftrightarrow> Suc i < length ws"
  proof (cases "Suc i < length ws")
    case True
    then show ?thesis using arg_cong [OF cstrings_split [OF True], of length] by simp
  qed simp
  ultimately show ?thesis
    using size strlen_cstrings [OF assms] cstrings_Suc [OF i]
    by (auto simp: ndm_stracc_next_cstr_def not_less)
qed

section \<open>Properties\<close>

text \<open>
  Whatever requests fail, a sequence of appends leaves either all
  the texts, one after the other, or an invalid and empty accumulator, and the latter
  only after a failed request; a text may end in a zero byte.
\<close>
theorem stracc_accumulates:
  assumes "\<forall>s \<in> set ss. 0 \<notin> set (butlast s)"
  shows "\<exists>acc h'. append_all h ndm_stracc_init ss = Ok (acc, h') \<and>
    (if ndm_stracc_is_valid acc
     then take (ndm_stracc_size acc) (ndm_stracc_value acc) = concat ss \<and> ndm_stracc_size acc = length (concat ss)
     else \<not> no_failure h \<and> ndm_stracc_value acc = [0] \<and> ndm_stracc_size acc = 0)"
proof -
  obtain acc h' where "append_all h ndm_stracc_init ss = Ok (acc, h')"
      "if acc_is_valid acc then stracc_holds acc (concat ss) else \<not> no_failure h \<and> acc = stracc_invalidate ndm_stracc_init"
    using append_all_init [OF assms] .
  then show ?thesis
    using holds_value [of acc "concat ss"]
    by (auto simp: ndm_stracc_is_valid_def ndm_stracc_value_def ndm_stracc_size_def stracc_invalidate_def split: if_splits)
qed

theorem stracc_accumulates_witness:
  "\<exists>acc h'. append_all \<lparr>answers = \<lambda>k. k \<noteq> 3, garbage = \<lambda>_. 7\<rparr> ndm_stracc_init [[97, 0], [98]] = Ok (acc, h') \<and>
    (if ndm_stracc_is_valid acc
     then take (ndm_stracc_size acc) (ndm_stracc_value acc) = concat [[97, 0], [98]] \<and>
       ndm_stracc_size acc = length (concat [[97, 0], [98 :: u8]])
     else \<not> no_failure \<lparr>answers = \<lambda>k. k \<noteq> 3, garbage = \<lambda>_. 7\<rparr> \<and> ndm_stracc_value acc = [0] \<and> ndm_stracc_size acc = 0)"
  by (rule stracc_accumulates) simp

text \<open>
  Over strings appended with their zero bytes,
  \<open>ndm_stracc_next_cstr\<close> steps from the start of each string to the start of the next
  and stops after the last.
\<close>
theorem stracc_next_cstr_walks:
  assumes "\<forall>w \<in> set ws. 0 \<notin> set w" and "no_failure h"
  shows "\<exists>acc h'. append_all h ndm_stracc_init (map (\<lambda>w. w @ [0]) ws) = Ok (acc, h') \<and>
    (\<forall>i < length ws. ndm_stracc_next_cstr acc (Some (length (cstrings (take i ws)))) =
      Ok (if Suc i < length ws then Some (length (cstrings (take (Suc i) ws))) else None) \<and>
      take (length (ws ! i) + 1) (drop (length (cstrings (take i ws))) (ndm_stracc_value acc)) = ws ! i @ [0])"
proof -
  have "\<forall>s \<in> set (map (\<lambda>w. w @ [0]) ws). 0 \<notin> set (butlast s)" using assms(1) by simp
  then obtain acc h' where run: "append_all h ndm_stracc_init (map (\<lambda>w. w @ [0]) ws) = Ok (acc, h')"
      "if acc_is_valid acc then stracc_holds acc (cstrings ws)
       else \<not> no_failure h \<and> acc = stracc_invalidate ndm_stracc_init"
    unfolding cstrings_def by (rule append_all_init)
  then have acc: "stracc_holds acc (cstrings ws)" using assms(2) by (simp split: if_splits)
  have "take (length (ws ! i) + 1) (drop (length (cstrings (take i ws))) (ndm_stracc_value acc)) = ws ! i @ [0]"
    if "i < length ws" for i
  proof -
    have "cstrings ws \<noteq> []" using that by (cases ws) (auto simp: cstrings_def)
    then obtain x where "ndm_stracc_value acc = cstrings ws @ [x]"
      using acc by (auto simp: stracc_holds_def ndm_stracc_value_def)
    then show ?thesis using cstrings_split [OF that] by simp
  qed
  then show ?thesis using run(1) next_cstrings [OF acc] assms(1) by auto
qed

theorem stracc_next_cstr_walks_witness:
  "\<exists>acc h'. append_all \<lparr>answers = \<lambda>_. True, garbage = \<lambda>_. 7\<rparr> ndm_stracc_init (map (\<lambda>w. w @ [0]) [[97 :: u8], []]) = Ok (acc, h') \<and>
    (\<forall>i < length [[97 :: u8], []]. ndm_stracc_next_cstr acc (Some (length (cstrings (take i [[97 :: u8], []])))) =
      Ok (if Suc i < length [[97 :: u8], []] then Some (length (cstrings (take (Suc i) [[97 :: u8], []]))) else None) \<and>
      take (length ([[97 :: u8], []] ! i) + 1) (drop (length (cstrings (take i [[97 :: u8], []]))) (ndm_stracc_value acc)) =
        [[97 :: u8], []] ! i @ [0])"
  by (rule stracc_next_cstr_walks) (simp_all add: no_failure_def)

text \<open>A zero byte inside an appended text: what follows it is not copied, but counted.\<close>

lemma stracc_append_drops_tail:
  "\<exists>acc h. ndm_stracc_append \<lparr>answers = \<lambda>_. True, garbage = \<lambda>_. 7\<rparr> ndm_stracc_init [97, 0, 98] = Ok (True, acc, h) \<and>
    acc_size acc = 3 \<and> acc_data acc = Some [97, 0, 7, 7]"
  by (simp add: ndm_stracc_append_def ndm_stracc_init_def can_alloc_def heap_next_def resize_block_def
    mem_write_def upt_rec Let_def)

end
