(* ===== verification/Ip_Checksum.thy ===== *)
theory Ip_Checksum
  imports Endian
begin

text \<open>
  The Internet checksum of \<^verbatim>\<open>src/ip_checksum.c\<close>: the one's complement sum of the 16-bit
  words of a packet as the host loads them, complemented. The reference is RFC 1071: the
  same sum over the words in network order, as a natural number.
\<close>

section \<open>The code\<close>

definition checksum_fold :: "u32 \<Rightarrow> u32" where
  "checksum_fold s = (s AND 0x0000ffff) + (drop_bit 16 s AND 0x0000fffff)"

fun ndm_ip_checksum_from :: "host \<Rightarrow> u32 \<Rightarrow> u8 list \<Rightarrow> u32" where
  "ndm_ip_checksum_from h s (a # b # bs) =
     (let s = s + ucast (mem_value h [a, b] :: u16) in
      ndm_ip_checksum_from h (if s AND 0x80000000 \<noteq> 0 then checksum_fold s else s) bs)"
| "ndm_ip_checksum_from h s [b] = s + ucast (ndm_endian_htobe16 h (push_bit 8 (ucast b)))"
| "ndm_ip_checksum_from h s [] = s"

definition ndm_ip_checksum_get :: "host \<Rightarrow> u8 list \<Rightarrow> u32" where
  "ndm_ip_checksum_get h packet = ndm_ip_checksum_from h 0 packet"

lemma unat_less_2p32: "unat (s :: u32) < 4294967296"
  using unsigned_less [of s, where 'a = nat] by simp

lemma unat_low16: "unat (s AND 0x0000ffff :: u32) = unat s mod 65536"
proof -
  have "s AND 0x0000ffff = take_bit 16 s" by (simp add: take_bit_eq_mask mask_numeral)
  then show ?thesis by (simp add: take_bit_eq_mod unat_mod)
qed

lemma unat_high16: "unat (drop_bit 16 s AND 0x0000fffff :: u32) = unat s div 65536"
proof -
  have "drop_bit 16 s AND 0x0000fffff = take_bit 20 (drop_bit 16 s)" by (simp add: take_bit_eq_mask mask_numeral)
  moreover have "unat (drop_bit 16 s) = unat s div 65536" by (simp add: drop_bit_eq_div unat_div)
  moreover have "unat s div 65536 < 65536" using unat_less_2p32 [of s] by (simp add: less_mult_imp_div_less)
  ultimately show ?thesis by (simp add: take_bit_eq_mod unat_mod unat_div drop_bit_eq_div)
qed

lemma unat_checksum_fold: "unat (checksum_fold s) = unat s mod 65536 + unat s div 65536"
proof -
  have "unat s div 65536 < 65536" using unat_less_2p32 [of s] by (simp add: less_mult_imp_div_less)
  then have "unat s mod 65536 + unat s div 65536 < 4294967296" by linarith
  then show ?thesis
    unfolding checksum_fold_def unat_word_ariths unat_low16 unat_high16 by simp
qed

lemma high_bits: "s AND 0xffff0000 \<noteq> 0 \<longleftrightarrow> unat (s :: u32) \<ge> 65536"
proof -
  have "0xffff0000 = NOT (mask 16 :: u32)" by (simp add: mask_numeral)
  then have "s AND 0xffff0000 = 0 \<longleftrightarrow> take_bit 16 s = s"
    by (auto simp: bit_eq_iff bit_simps)
  also have "\<dots> \<longleftrightarrow> unat s mod 65536 = unat s"
    by (simp add: take_bit_eq_mod word_unat_eq_iff unat_mod)
  finally show ?thesis by (metis mod_less mod_less_divisor not_le zero_less_numeral)
qed

lemma fold_less: "65536 \<le> n \<Longrightarrow> n mod 65536 + n div 65536 < (n :: nat)"
proof -
  assume "65536 \<le> n"
  then have "0 < n div 65536" by (simp add: div_greater_zero_iff)
  then show ?thesis using div_mult_mod_eq [of n 65536] by linarith
qed

function checksum_finish_loop :: "u32 \<Rightarrow> u32" where
  "checksum_finish_loop s = (if s AND 0xffff0000 \<noteq> 0 then checksum_finish_loop (checksum_fold s) else s)"
  by pat_completeness auto
termination
  by (relation "measure unat") (auto simp: high_bits unat_checksum_fold fold_less)

declare checksum_finish_loop.simps [simp del]

definition ndm_ip_checksum_finish :: "u32 \<Rightarrow> u16" where
  "ndm_ip_checksum_finish s = ucast (NOT (checksum_finish_loop s))"

definition ndm_ip_checksum :: "host \<Rightarrow> u8 list \<Rightarrow> u16" where
  "ndm_ip_checksum h packet = ndm_ip_checksum_finish (ndm_ip_checksum_get h packet)"

section \<open>One's complement sums\<close>

text \<open>The sum of the words of the packet, an odd byte at the end padded with zero.\<close>

fun word_sum :: "host \<Rightarrow> u8 list \<Rightarrow> nat" where
  "word_sum h (a # b # bs) = unat (mem_value h [a, b] :: u16) + word_sum h bs"
| "word_sum h [b] = unat (mem_value h [b, 0] :: u16)"
| "word_sum h [] = 0"

text \<open>A number folded into 16 bits with end-around carry.\<close>

definition ones :: "nat \<Rightarrow> nat" where
  "ones n = (if n = 0 then 0 else (n - 1) mod 65535 + 1)"

lemma ones_le: "ones n \<le> 65535"
  by (auto simp: ones_def Suc_le_eq)

lemma ones_small: "n \<le> 65535 \<Longrightarrow> ones n = n"
  by (auto simp: ones_def)

lemma ones_cong: "(a = 0 \<longleftrightarrow> b = 0) \<Longrightarrow> a mod 65535 = b mod 65535 \<Longrightarrow> ones a = ones b"
  unfolding ones_def by (cases a; cases b) (auto dest: mod_eq_dvd_iff_nat [THEN iffD1] simp: mod_Suc split: if_splits)

lemma mod_fold: "(n mod 65536 + n div 65536) mod 65535 = n mod (65535 :: nat)"
proof -
  have "n = n mod 65536 + n div 65536 + 65535 * (n div 65536)" by simp
  then show ?thesis by (metis mod_mult_self2)
qed

lemma ones_fold: "ones (n mod 65536 + n div 65536 + m) = ones (n + m)"
proof (rule ones_cong)
  show "n mod 65536 + n div 65536 + m = 0 \<longleftrightarrow> n + m = 0" by (cases "n = 0") (auto simp: div_eq_0_iff)
  show "(n mod 65536 + n div 65536 + m) mod 65535 = (n + m) mod 65535"
    by (metis mod_add_left_eq mod_fold)
qed

lemma finish_loop_ones: "unat (checksum_finish_loop s) = ones (unat s)"
proof (induction s rule: checksum_finish_loop.induct)
  case (1 s)
  show ?case
  proof (cases "unat s < 65536")
    case True
    then show ?thesis by (subst checksum_finish_loop.simps) (simp add: high_bits ones_small)
  next
    case False
    then have "unat (checksum_finish_loop (checksum_fold s)) = ones (unat (checksum_fold s))"
      using 1 by (simp add: high_bits)
    then show ?thesis
      using False ones_fold [of "unat s" 0]
      by (subst checksum_finish_loop.simps) (simp add: high_bits unat_checksum_fold)
  qed
qed

lemma unat_finish: "unat (ndm_ip_checksum_finish s) = 65535 - ones (unat s)"
proof -
  let ?r = "checksum_finish_loop s"
  have "ucast (NOT ?r) = NOT (ucast ?r :: u16)" by (rule bit_word_eqI) (simp add: bit_simps)
  moreover have "unat (NOT x) = 65535 - unat x" for x :: u16
  proof -
    have "NOT x = - 1 - x" by (simp add: not_eq_complement)
    moreover have "unat (- 1 :: u16) = 65535" by (simp add: unsigned_minus_1_eq_mask mask_eq_exp_minus_1)
    ultimately show ?thesis using unat_sub [of x "- 1"] by simp
  qed
  moreover have "unat (ucast ?r :: u16) = unat ?r"
    using ones_le [of "unat s"] finish_loop_ones [of s] by (simp add: unsigned_ucast_eq take_bit_nat_eq_self)
  ultimately show ?thesis by (simp add: ndm_ip_checksum_finish_def finish_loop_ones)
qed

lemma top_bit: "s AND 0x80000000 \<noteq> 0 \<longleftrightarrow> unat (s :: u32) \<ge> 2147483648"
proof -
  have "s AND 0x80000000 = 0 \<longleftrightarrow> \<not> bit s 31"
    using and_exp_eq_0_iff_not_bit [of s 31] by simp
  also have "bit s 31 = odd (unat s div 2147483648)"
    using bit_unsigned_iff [of s 31, where 'a = nat] by (simp add: bit_iff_odd [of "unat s"])
  also have "unat s div 2147483648 = (if unat s \<ge> 2147483648 then 1 else 0)"
    using unat_less_2p32 [of s] by (auto intro: div_nat_eqI)
  finally show ?thesis by auto
qed

lemma odd_byte: "ndm_endian_htobe16 h (push_bit 8 (ucast b)) = mem_value h [b, 0]"
proof -
  have "ndm_endian_htobe16 h x = mem_value h (be_bytes 2 x)" for x
    using be16.store [of h x] by (metis be16.width mem_value_mem_bytes order_refl)
  moreover have "be_bytes 2 (push_bit 8 (ucast b) :: u16) = [b, 0]"
    by (auto simp: be_bytes_def mem_bytes_def upt_bytes intro!: bit_word_eqI simp: bit_simps)
  ultimately show ?thesis by simp
qed

lemma checksum_from_ones:
  "unat s < 2147483648 \<Longrightarrow>
   ones (unat (ndm_ip_checksum_from h s bs)) = ones (unat s + word_sum h bs)"
proof (induction h s bs rule: ndm_ip_checksum_from.induct)
  case (1 h s a b bs)
  let ?w = "mem_value h [a, b] :: u16" and ?s = "s + ucast (mem_value h [a, b] :: u16)"
  have w: "unat ?w < 65536" using unsigned_less [of ?w, where 'a = nat] by simp
  then have s: "unat ?s = unat s + unat ?w" using 1(2) by (simp add: unat_word_ariths unat_ucast_up)
  show ?case
  proof (cases "unat ?s \<ge> 2147483648")
    case True
    have "unat (checksum_fold ?s) < 2147483648"
      unfolding unat_checksum_fold s using 1(2) w by auto
    then show ?thesis using 1 True ones_fold [of "unat ?s" "word_sum h bs"]
      by (simp add: Let_def top_bit unat_checksum_fold s add.assoc)
  next
    case False
    then show ?thesis using 1 by (simp add: Let_def top_bit s add.assoc)
  qed
next
  case (2 h s b)
  let ?w = "mem_value h [b, 0] :: u16"
  have "unat ?w < 65536" using unsigned_less [of ?w, where 'a = nat] by simp
  then show ?case using 2 by (simp add: odd_byte unat_word_ariths unat_ucast_up)
qed simp

lemma unat_checksum: "unat (ndm_ip_checksum h packet) = 65535 - ones (word_sum h packet)"
  using checksum_from_ones [of 0 h packet] by (simp add: ndm_ip_checksum_def ndm_ip_checksum_get_def unat_finish)

text \<open>The words of the two hosts have their bytes exchanged.\<close>

lemma unat_pair: "unat (push_bit 8 (ucast b) OR ucast a :: u16) = 256 * unat b + unat (a :: u8)"
  for b :: u8
proof -
  have "n < 8" if "bit a n" for n using bit_imp_le_length [OF that] by simp
  then have "push_bit 8 (ucast b) OR ucast a = (push_bit 8 (ucast b) + ucast a :: u16)"
    by (intro disjunctive_add_eq_or [symmetric] bit_word_eqI) (force simp: bit_simps)
  then show ?thesis
    using unsigned_less [of a, where 'a = nat] unsigned_less [of b, where 'a = nat]
    by (simp add: push_bit_eq_mult unat_word_ariths unat_ucast_up)
qed

lemma unat_words:
  "unat (mem_value LittleEndian [a, b] :: u16) = unat a + 256 * unat b"
  "unat (mem_value BigEndian [a, b] :: u16) = 256 * unat a + unat b"
  by (simp_all add: mem_value_def bytes_value_def unat_pair)

lemma swap_mod: "(a + 256 * b) mod 65535 = 256 * (256 * a + b) mod (65535 :: nat)"
proof -
  have "256 * (256 * a + b) = a + 256 * b + 65535 * a" by simp
  then show ?thesis by (simp only: mod_mult_self2)
qed

lemma word_sum_LE: "word_sum LittleEndian bs mod 65535 = 256 * word_sum BigEndian bs mod 65535"
proof (induction "LittleEndian" bs rule: word_sum.induct)
  case (1 a b bs)
  then show ?case
    using mod_add_cong [OF swap_mod [of "unat a" "unat b"] 1] by (simp only: word_sum.simps unat_words distrib_left)
next
  case (2 b)
  then show ?case using swap_mod [of "unat b" 0] by (simp add: unat_words)
qed simp

lemma word_sum_0: "word_sum LittleEndian bs = 0 \<longleftrightarrow> word_sum BigEndian bs = 0"
  by (induction "LittleEndian" bs rule: word_sum.induct) (auto simp: unat_words)

lemma ones_256: "n \<le> 65535 \<Longrightarrow> ones (256 * n) = n div 256 + 256 * (n mod 256)"
proof -
  assume "n \<le> 65535"
  then have "ones (256 * n) = ones (n div 256 + 256 * (n mod 256))"
    using swap_mod [of "n div 256" "n mod 256"] by (intro ones_cong) (auto simp: div_eq_0_iff)
  moreover have "n div 256 < 256" "n mod 256 < 256" using \<open>n \<le> 65535\<close> by auto
  then have "n div 256 + 256 * (n mod 256) \<le> 65535" by linarith
  ultimately show ?thesis by (simp add: ones_small)
qed

lemma checksum_LE: "ndm_ip_checksum LittleEndian packet = mem_value LittleEndian (be_bytes 2 (ndm_ip_checksum BigEndian packet))"
proof -
  let ?n = "ones (word_sum BigEndian packet)" and ?c = "ndm_ip_checksum BigEndian packet"
  have "ones (word_sum LittleEndian packet) = ones (256 * ?n)"
  proof (rule ones_cong)
    show "word_sum LittleEndian packet = 0 \<longleftrightarrow> 256 * ?n = 0" by (simp add: word_sum_0 ones_def)
    have "?n mod 65535 = word_sum BigEndian packet mod 65535" by (cases "word_sum BigEndian packet") (simp_all add: ones_def mod_Suc_eq)
    then show "word_sum LittleEndian packet mod 65535 = 256 * ?n mod 65535"
      unfolding word_sum_LE by (metis mod_mult_right_eq)
  qed
  then have le: "unat (ndm_ip_checksum LittleEndian packet) = 65535 - (?n div 256 + 256 * (?n mod 256))"
    using ones_le by (simp add: unat_checksum ones_256)
  obtain a b where ab: "be_bytes 2 ?c = [a, b]" using list_nth_2 [of "be_bytes 2 ?c"] by auto
  then have "?c = mem_value BigEndian [a, b]"
    using be_value_be_bytes [of 2 ?c] by (simp add: be_value_def)
  then have c: "65535 - ?n = 256 * unat a + unat b" using unat_checksum [of BigEndian packet] by (simp add: unat_words)
  have small: "unat a < 256" "unat b < 256"
    using unsigned_less [of a, where 'a = nat] unsigned_less [of b, where 'a = nat] by simp_all
  have n: "?n = 256 * (255 - unat a) + (255 - unat b)" using c small ones_le [of "word_sum BigEndian packet"] by linarith
  have "?n div 256 = 255 - unat a" "?n mod 256 = 255 - unat b"
    unfolding n by (simp_all add: div_nat_eqI)
  then have "unat (ndm_ip_checksum LittleEndian packet) = unat a + 256 * unat b" using le small by simp
  then have "unat (ndm_ip_checksum LittleEndian packet) = unat (mem_value LittleEndian [a, b] :: u16)" by (simp add: unat_words)
  then show ?thesis by (simp add: ab word_unat_eq_iff)
qed

lemma word_sum_insert:
  "even (length pre) \<Longrightarrow> word_sum h (pre @ a # b # post) =
   word_sum h (pre @ 0 # 0 # post) + unat (mem_value h [a, b] :: u16)"
proof (induction h pre rule: word_sum.induct)
  case (3 h)
  have "unat (mem_value h [0, 0] :: u16) = 0" by (cases h) (simp_all add: unat_words)
  then show ?case by simp
qed simp_all

section \<open>Properties\<close>

text \<open>
  C35: on a host of either byte order, the checksum stored in memory is
  in network order the complement of the one's complement sum of the packet's words in
  network order.
\<close>
theorem ip_checksum_rfc1071:
  "mem_bytes h 2 (ndm_ip_checksum h packet) = be_bytes 2 (of_nat (65535 - ones (word_sum BigEndian packet)) :: u16)"
proof -
  have be: "ndm_ip_checksum BigEndian packet = of_nat (65535 - ones (word_sum BigEndian packet))"
    using unat_checksum [of BigEndian packet] by (metis word_unat_eq_iff unat_of_nat_small unsigned_less word_nat_cases)
  then show ?thesis
    by (cases h) (simp_all add: checksum_LE mem_bytes_mem_value be_bytes_def [symmetric])
qed

text \<open>
  Writing the checksum of a packet into its zeroed checksum field,
  at an even offset, makes the checksum of the packet zero.
\<close>
theorem ip_checksum_verifies:
  assumes "even (length pre)"
  shows "ndm_ip_checksum h (pre @ mem_bytes h 2 (ndm_ip_checksum h (pre @ [0, 0] @ post)) @ post) = 0"
proof -
  let ?S = "word_sum h (pre @ 0 # 0 # post)" and ?c = "ndm_ip_checksum h (pre @ [0, 0] @ post)"
  obtain a b where ab: "mem_bytes h 2 ?c = [a, b]" using list_nth_2 [of "mem_bytes h 2 ?c"] by auto
  then have "mem_value h [a, b] = ?c" using mem_value_mem_bytes [of 2 h ?c] by simp
  then have "word_sum h (pre @ a # b # post) = ?S + (65535 - ones ?S)"
    using word_sum_insert [OF assms, of h a b post] by (simp add: unat_checksum)
  moreover have "ones (?S + (65535 - ones ?S)) = ones 65535"
  proof (rule ones_cong)
    have "(?S + (65535 - ones ?S)) mod 65535 = (ones ?S + (65535 - ones ?S)) mod 65535"
      by (rule mod_add_cong) (cases ?S; simp add: ones_def mod_Suc_eq)+
    then show "(?S + (65535 - ones ?S)) mod 65535 = 65535 mod 65535" using ones_le [of ?S] by simp
  qed (simp add: ones_def)
  ultimately have "unat (ndm_ip_checksum h (pre @ a # b # post)) = 0" by (simp add: unat_checksum ones_small)
  then have "ndm_ip_checksum h (pre @ a # b # post) = 0" by (simp add: word_unat_eq_iff)
  then show ?thesis unfolding ab by simp
qed

theorem ip_checksum_verifies_witness:
  "ndm_ip_checksum LittleEndian ([0x45, 0] @ mem_bytes LittleEndian 2 (ndm_ip_checksum LittleEndian ([0x45, 0] @ [0, 0] @ [7])) @ [7]) = 0"
  by (rule ip_checksum_verifies) simp

end
