(* ===== verification/Mac_Addr.thy ===== *)
theory Mac_Addr
  imports Ndm_Prelude
begin

text \<open>
  MAC addresses of \<^verbatim>\<open>src/mac_addr.c\<close>: a \<open>sockaddr\<close> with its family and 14 bytes of data,
  of which the first six are the address, and a buffer for the printed form.
\<close>

section \<open>Addresses\<close>

record ndm_mac_addr_t =
  sa_family :: u16
  sa_data :: "u8 list"
  mac_str :: "u8 list"

definition ARPHRD_ETHER :: u16 where "ARPHRD_ETHER = 1"

definition NDM_MAC_SIZE :: nat where "NDM_MAC_SIZE = 6"

definition NDM_MAC_BUFSIZE :: nat where "NDM_MAC_BUFSIZE = 18"

text \<open>``00:00:00:00:00:00'', and the same with the letter f.\<close>

definition MAC_ADDR_PATTERN :: "u8 list" where
  "MAC_ADDR_PATTERN = [48, 48, 58, 48, 48, 58, 48, 48, 58, 48, 48, 58, 48, 48, 58, 48, 48]"

definition NDM_MAC_ADDR_ZERO :: ndm_mac_addr_t where
  "NDM_MAC_ADDR_ZERO =
     \<lparr>sa_family = ARPHRD_ETHER, sa_data = replicate 14 0,
      mac_str = [48, 48, 58, 48, 48, 58, 48, 48, 58, 48, 48, 58, 48, 48, 58, 48, 48, 0]\<rparr>"

definition NDM_MAC_ADDR_BROADCAST :: ndm_mac_addr_t where
  "NDM_MAC_ADDR_BROADCAST =
     \<lparr>sa_family = ARPHRD_ETHER, sa_data = replicate 6 0xff @ replicate 8 0,
      mac_str = [102, 102, 58, 102, 102, 58, 102, 102, 58, 102, 102, 58, 102, 102, 58, 102, 102, 0]\<rparr>"

definition ndm_mac_addr_assign :: "ndm_mac_addr_t \<Rightarrow> ndm_mac_addr_t \<Rightarrow> ndm_mac_addr_t" where
  "ndm_mac_addr_assign a b = b"

definition ndm_mac_addr_init :: "ndm_mac_addr_t \<Rightarrow> ndm_mac_addr_t" where
  "ndm_mac_addr_init a = ndm_mac_addr_assign a NDM_MAC_ADDR_ZERO"

definition ndm_mac_addr_assign_array :: "u8 list \<Rightarrow> ndm_mac_addr_t result" where
  "ndm_mac_addr_assign_array mac =
     (if length mac \<noteq> NDM_MAC_SIZE then Error EINVAL
      else Ok \<lparr>sa_family = ARPHRD_ETHER, sa_data = mac @ replicate (14 - NDM_MAC_SIZE) 0,
               mac_str = replicate NDM_MAC_BUFSIZE 0\<rparr>)"

section \<open>Printing\<close>

definition MAC_HEX_CHAR :: "u8 \<Rightarrow> u8" where
  "MAC_HEX_CHAR d = (if d < 10 then 48 + d else 87 + d)"

text \<open>The loop from octet \<open>i\<close> on, over the octets left.\<close>

fun mac_print_loop :: "u8 list \<Rightarrow> nat \<Rightarrow> u8 list \<Rightarrow> u8 list option" where
  "mac_print_loop str i [] = Some str"
| "mac_print_loop str i (b # bs) =
     (case mem_write str (3 * i) [MAC_HEX_CHAR (drop_bit 4 b), MAC_HEX_CHAR (b AND 0x0f), 58] of
        None \<Rightarrow> None
      | Some str \<Rightarrow> mac_print_loop str (i + 1) bs)"

text \<open>
  The constants are recognised by their address and return their own text; any other
  object is printed into its buffer.
\<close>

datatype mac_object = ZeroConstant | BroadcastConstant | OtherObject

definition ndm_mac_addr_as_string :: "mac_object \<Rightarrow> ndm_mac_addr_t \<Rightarrow> (u8 list \<times> ndm_mac_addr_t) result" where
  "ndm_mac_addr_as_string obj a =
     (case obj of
        ZeroConstant \<Rightarrow> Ok (mac_str NDM_MAC_ADDR_ZERO, a)
      | BroadcastConstant \<Rightarrow> Ok (mac_str NDM_MAC_ADDR_BROADCAST, a)
      | OtherObject \<Rightarrow>
          need (mac_print_loop (mac_str a) 0 (take NDM_MAC_SIZE (sa_data a))) (\<lambda>str.
          need (mem_write str (NDM_MAC_BUFSIZE - 1) [0]) (\<lambda>str.
          Ok (str, a\<lparr>mac_str := str\<rparr>))))"

section \<open>Parsing\<close>

definition MAC_NH :: u8 where "MAC_NH = 0xff"

definition MAC_HEX_DIGITS :: "u8 \<Rightarrow> u8" where
  "MAC_HEX_DIGITS c =
     (if 48 \<le> c \<and> c \<le> 57 then c - 48
      else if 65 \<le> c \<and> c \<le> 70 then c - 55
      else if 97 \<le> c \<and> c \<le> 102 then c - 87
      else MAC_NH)"

text \<open>
  The loop over pattern and text; \<open>offs\<close> counts the digits so far, \<open>None\<close> is the
  return of \<open>false\<close>.
\<close>

fun mac_parse_loop :: "u8 list \<Rightarrow> u8 list \<Rightarrow> nat \<Rightarrow> u8 list \<Rightarrow> u8 list option" where
  "mac_parse_loop (p # ps) (c # cs) offs octets =
     (let d = MAC_HEX_DIGITS c in
      if d \<noteq> MAC_NH then
        let i = offs div 2; offs = offs + 1 in
        if i \<ge> length octets then None
        else mac_parse_loop ps cs offs (octets[i := octets ! i OR push_bit (offs mod 2 * 4) d])
      else if p \<noteq> c then None
      else mac_parse_loop ps cs offs octets)"
| "mac_parse_loop _ _ offs octets = Some octets"

definition ndm_mac_addr_parse :: "u8 list \<Rightarrow> ndm_mac_addr_t \<Rightarrow> bool \<times> ndm_mac_addr_t" where
  "ndm_mac_addr_parse str_addr a =
     (if length str_addr \<noteq> length MAC_ADDR_PATTERN then (False, a)
      else case mac_parse_loop MAC_ADDR_PATTERN str_addr 0 (replicate 14 0) of
             None \<Rightarrow> (False, a)
           | Some octets \<Rightarrow> (True, a\<lparr>sa_family := ARPHRD_ETHER, sa_data := octets\<rparr>))"

section \<open>Kinds of address\<close>

definition ndm_mac_addr_is_equal :: "ndm_mac_addr_t \<Rightarrow> ndm_mac_addr_t \<Rightarrow> bool" where
  "ndm_mac_addr_is_equal a b \<longleftrightarrow>
     sa_family a = ARPHRD_ETHER \<and> sa_family b = ARPHRD_ETHER \<and>
     take NDM_MAC_SIZE (sa_data a) = take NDM_MAC_SIZE (sa_data b)"

definition ndm_mac_addr_is_zero :: "ndm_mac_addr_t \<Rightarrow> bool" where
  "ndm_mac_addr_is_zero a = ndm_mac_addr_is_equal a NDM_MAC_ADDR_ZERO"

definition ndm_mac_addr_is_broadcast :: "ndm_mac_addr_t \<Rightarrow> bool" where
  "ndm_mac_addr_is_broadcast a = ndm_mac_addr_is_equal a NDM_MAC_ADDR_BROADCAST"

definition ndm_mac_addr_is_unicast :: "ndm_mac_addr_t \<Rightarrow> bool" where
  "ndm_mac_addr_is_unicast a \<longleftrightarrow>
     \<not> ndm_mac_addr_is_zero a \<and> \<not> ndm_mac_addr_is_broadcast a \<and>
     sa_family a = ARPHRD_ETHER \<and> sa_data a ! 0 AND 0x01 = 0"

definition ndm_mac_addr_is_multicast :: "ndm_mac_addr_t \<Rightarrow> bool" where
  "ndm_mac_addr_is_multicast a \<longleftrightarrow>
     \<not> ndm_mac_addr_is_broadcast a \<and> sa_family a = ARPHRD_ETHER \<and> sa_data a ! 0 AND 0x01 = 0x01"

definition ndm_mac_addr_is_oui_enforced :: "ndm_mac_addr_t \<Rightarrow> bool" where
  "ndm_mac_addr_is_oui_enforced a \<longleftrightarrow>
     \<not> ndm_mac_addr_is_zero a \<and> \<not> ndm_mac_addr_is_multicast a \<and>
     sa_family a = ARPHRD_ETHER \<and> sa_data a ! 0 AND 0x02 = 0x02"

section \<open>Proofs\<close>

definition mac_ok :: "ndm_mac_addr_t \<Rightarrow> bool" where
  "mac_ok a \<longleftrightarrow> sa_family a = ARPHRD_ETHER \<and> length (sa_data a) = 14 \<and> length (mac_str a) = NDM_MAC_BUFSIZE"

lemma nibble: "n < 16 \<Longrightarrow> MAC_HEX_DIGITS (MAC_HEX_CHAR n) = n \<and> n \<noteq> MAC_NH"
proof -
  assume "n < 16"
  then have "unat n < 16" by (simp add: word_less_nat_alt)
  then have "unat n \<in> set [0..<16]" by simp
  moreover have "\<forall>k \<in> set [0..<16]. MAC_HEX_DIGITS (MAC_HEX_CHAR (of_nat k)) = of_nat k \<and> of_nat k \<noteq> MAC_NH"
    by code_simp
  ultimately have "MAC_HEX_DIGITS (MAC_HEX_CHAR (of_nat (unat n))) = of_nat (unat n) \<and> of_nat (unat n) \<noteq> MAC_NH" by blast
  then show ?thesis by simp
qed

lemma nibbles [simp]:
  "MAC_HEX_DIGITS (MAC_HEX_CHAR (drop_bit 4 b)) = drop_bit 4 b" "drop_bit 4 b \<noteq> MAC_NH"
  "MAC_HEX_DIGITS (MAC_HEX_CHAR (b AND 0x0f)) = b AND 0x0f" "b AND 0x0f \<noteq> MAC_NH"
  "push_bit 4 (drop_bit 4 b) OR (b AND 0x0f) = b"
proof -
  have "unat (drop_bit 4 b) < 16"
    using unsigned_less [of b, where 'a = nat] by (simp add: unat_div drop_bit_eq_div less_mult_imp_div_less)
  then have "drop_bit 4 b < 16" by (simp add: word_less_nat_alt)
  then show "MAC_HEX_DIGITS (MAC_HEX_CHAR (drop_bit 4 b)) = drop_bit 4 b" "drop_bit 4 b \<noteq> MAC_NH"
    using nibble by blast+
  have "b AND 0x0f \<le> 0x0f" by (simp add: word_and_le1)
  then have "b AND 0x0f < 16" by (simp add: word_le_nat_alt word_less_nat_alt)
  then show "MAC_HEX_DIGITS (MAC_HEX_CHAR (b AND 0x0f)) = b AND 0x0f" "b AND 0x0f \<noteq> MAC_NH"
    using nibble by blast+
  have "b AND 0x0f = take_bit 4 b" by (simp add: take_bit_eq_mask mask_numeral)
  then show "push_bit 4 (drop_bit 4 b) OR (b AND 0x0f) = b"
    by (simp only:) (auto intro!: bit_word_eqI simp: bit_simps)
qed

lemma colon: "MAC_HEX_DIGITS 58 = MAC_NH"
  by (simp add: MAC_HEX_DIGITS_def)

lemma length_6: "length xs = 6 \<Longrightarrow> \<exists>a b c d e f. xs = [a, b, c, d, e, f]"
  by (auto simp: length_Suc_conv numeral_eq_Suc)

lemma length_18: "length xs = 18 \<Longrightarrow> \<exists>x0 x1 x2 x3 x4 x5 x6 x7 x8 x9 y0 y1 y2 y3 y4 y5 y6 y7.
    xs = [x0, x1, x2, x3, x4, x5, x6, x7, x8, x9, y0, y1, y2, y3, y4, y5, y6, y7]"
  by (auto simp: length_Suc_conv numeral_eq_Suc)

text \<open>The printed form of six octets.\<close>

definition mac_text :: "u8 list \<Rightarrow> u8 list" where
  "mac_text bs = butlast (concat (map (\<lambda>b. [MAC_HEX_CHAR (drop_bit 4 b), MAC_HEX_CHAR (b AND 0x0f), 58]) bs))"

lemma print_text:
  assumes "length str = 18" and "length bs = 6"
  shows "\<exists>str'. mac_print_loop str 0 bs = Some str' \<and> mem_write str' 17 [0] = Some (mac_text bs @ [0])"
proof -
  obtain a b c d e f where bs: "bs = [a, b, c, d, e, f]" using length_6 [OF assms(2)] by blast
  show ?thesis using length_18 [OF assms(1)] by (auto simp: bs mem_write_def mac_text_def)
qed

lemma parse_octet:
  assumes "even offs" and "offs div 2 < length octets" and "octets ! (offs div 2) = 0"
  shows "mac_parse_loop (p # q # ps) (MAC_HEX_CHAR (drop_bit 4 b) # MAC_HEX_CHAR (b AND 0x0f) # cs) offs octets =
    mac_parse_loop ps cs (offs + 2) (octets[offs div 2 := b])"
proof -
  obtain k where "offs = 2 * k" using assms(1) by blast
  then show ?thesis using assms(2,3) by (simp add: Let_def)
qed

lemma parse_colon: "mac_parse_loop (58 # ps) (58 # cs) offs octets = mac_parse_loop ps cs offs octets"
  by (simp add: colon)

lemma parse_text:
  assumes "length bs = 6"
  shows "mac_parse_loop MAC_ADDR_PATTERN (mac_text bs) 0 (replicate 14 0) = Some (bs @ replicate 8 0)"
proof -
  obtain a b c d e f where bs: "bs = [a, b, c, d, e, f]" using length_6 [OF assms] by blast
  have "replicate 14 (0 :: u8) = [0, 0, 0, 0, 0, 0, 0, 0, 0, 0, 0, 0, 0, 0]"
    "replicate 8 (0 :: u8) = [0, 0, 0, 0, 0, 0, 0, 0]" by (simp_all add: numeral_eq_Suc)
  then show ?thesis
    by (simp add: bs mac_text_def MAC_ADDR_PATTERN_def parse_octet parse_colon del: mac_parse_loop.simps(1))
qed

lemma mac_text_length: "length bs = 6 \<Longrightarrow> length (mac_text bs) = 17"
  using length_6 [of bs] by (auto simp: mac_text_def)

section \<open>Properties\<close>

text \<open>
  The printed form of an address that is printed into its buffer is 17
  characters and a terminator, and parses into an equal address.
\<close>
theorem mac_print_parse:
  assumes "mac_ok a"
  shows "\<exists>s a'. ndm_mac_addr_as_string OtherObject a = Ok (s @ [0], a') \<and> length s = 17 \<and>
    fst (ndm_mac_addr_parse s b) \<and> ndm_mac_addr_is_equal (snd (ndm_mac_addr_parse s b)) a"
proof -
  let ?bs = "take 6 (sa_data a)"
  have a: "sa_family a = ARPHRD_ETHER" "length (mac_str a) = 18" and len: "length ?bs = 6"
    using assms by (simp_all add: mac_ok_def NDM_MAC_BUFSIZE_def)
  obtain str where "mac_print_loop (mac_str a) 0 ?bs = Some str" "mem_write str 17 [0] = Some (mac_text ?bs @ [0])"
    using print_text [OF a(2) len] by blast
  then have "ndm_mac_addr_as_string OtherObject a = Ok (mac_text ?bs @ [0], a\<lparr>mac_str := mac_text ?bs @ [0]\<rparr>)"
    by (simp add: ndm_mac_addr_as_string_def NDM_MAC_SIZE_def NDM_MAC_BUFSIZE_def)
  moreover have "length MAC_ADDR_PATTERN = 17" by (simp add: MAC_ADDR_PATTERN_def)
  then have "ndm_mac_addr_parse (mac_text ?bs) b =
      (True, b\<lparr>sa_family := ARPHRD_ETHER, sa_data := ?bs @ replicate 8 0\<rparr>)"
    by (simp add: ndm_mac_addr_parse_def parse_text [OF len] mac_text_length [OF len])
  ultimately show ?thesis
    using a len mac_text_length [OF len] by (simp add: ndm_mac_addr_is_equal_def NDM_MAC_SIZE_def)
qed

theorem mac_print_parse_witness:
  "\<exists>s a'. ndm_mac_addr_as_string OtherObject NDM_MAC_ADDR_BROADCAST = Ok (s @ [0], a') \<and> length s = 17 \<and>
    fst (ndm_mac_addr_parse s NDM_MAC_ADDR_ZERO) \<and>
    ndm_mac_addr_is_equal (snd (ndm_mac_addr_parse s NDM_MAC_ADDR_ZERO)) NDM_MAC_ADDR_BROADCAST"
  by (rule mac_print_parse) (simp add: mac_ok_def NDM_MAC_ADDR_BROADCAST_def NDM_MAC_BUFSIZE_def)

text \<open>
  A hexadecimal digit is taken wherever it stands, also in the place of a colon, and
  shifts the octets after it.
\<close>
lemma mac_parse_no_colons:
  "ndm_mac_addr_parse (replicate 17 49) a =
   (True, a\<lparr>sa_family := ARPHRD_ETHER, sa_data := replicate 8 0x11 @ [0x10] @ replicate 5 0\<rparr>)"
proof -
  have "mac_parse_loop MAC_ADDR_PATTERN (replicate 17 49) 0 (replicate 14 0) =
      Some (replicate 8 0x11 @ [0x10] @ replicate 5 0)" by code_simp
  then show ?thesis by (simp add: ndm_mac_addr_parse_def MAC_ADDR_PATTERN_def)
qed

end
