(* ===== verification/Xml_Node.thy ===== *)
theory Xml_Node
  imports Int_Parse
begin

text \<open>
  The document tree of \<^verbatim>\<open>src/xml.c\<close>: nodes and attributes with their pointers to parent,
  children and siblings, and the operations that link and unlink them. A document holds
  its nodes, attributes, pool and the text it was parsed from; a pointer to a node or
  attribute is its number, \<open>None\<close> is \<open>NULL\<close>. Nodes of two documents are never mixed (the
  assertions of the code refuse it). A failed assertion and an access to a node that is
  gone are \<open>Undefined\<close>; a loop along links that does not end is \<open>None\<close>.
\<close>

section \<open>Documents, nodes, attributes\<close>

datatype ndm_xml_node_type_t =
    NDM_XML_NODE_TYPE_DOCUMENT
  | NDM_XML_NODE_TYPE_ELEMENT
  | NDM_XML_NODE_TYPE_DATA
  | NDM_XML_NODE_TYPE_CDATA
  | NDM_XML_NODE_TYPE_COMMENT
  | NDM_XML_NODE_TYPE_DECLARATION
  | NDM_XML_NODE_TYPE_DOCTYPE
  | NDM_XML_NODE_TYPE_PI

text \<open>A string of the caller, or a pointer into the parsed text or into the pool.\<close>

datatype xml_str = XmlGiven cstring | XmlText nat | XmlPool pool_ptr

record ndm_xml_node_t =
  nd_name :: xml_str
  nd_name_size :: nat
  nd_value :: xml_str
  nd_value_size :: nat
  nd_type :: ndm_xml_node_type_t
  nd_parent :: "nat option"
  nd_first_child :: "nat option"
  nd_last_child :: "nat option"
  nd_first_attr :: "nat option"
  nd_last_attr :: "nat option"
  nd_next_sibling :: "nat option"
  nd_prev_sibling :: "nat option"

record ndm_xml_attr_t =
  at_name :: xml_str
  at_name_size :: nat
  at_value :: xml_str
  at_value_size :: nat
  at_node :: "nat option"
  at_next :: "nat option"
  at_prev :: "nat option"

record ndm_xml_document_t =
  doc_root :: "nat option"
  doc_pool :: ndm_pool_t
  doc_nodes :: "nat \<rightharpoonup> ndm_xml_node_t"
  doc_attrs :: "nat \<rightharpoonup> ndm_xml_attr_t"
  doc_fresh :: nat
  doc_text :: "u8 list"

definition xml_name_is_empty :: "cstring option \<Rightarrow> bool" where
  "xml_name_is_empty name \<longleftrightarrow> name = None \<or> name = Some []"

text \<open>The bytes at a string pointer up to the first zero byte.\<close>

definition cstring_in :: "u8 list \<Rightarrow> nat \<Rightarrow> cstring option" where
  "cstring_in blk off =
     (if 0 \<in> set (drop off blk) then Some (takeWhile (\<lambda>c. c \<noteq> 0) (drop off blk)) else None)"

definition xml_string :: "ndm_xml_document_t \<Rightarrow> xml_str \<Rightarrow> cstring option" where
  "xml_string d s =
     (case s of
        XmlGiven c \<Rightarrow> Some c
      | XmlText off \<Rightarrow> cstring_in (doc_text d) off
      | XmlPool p \<Rightarrow> cstring_in (block_bytes (doc_pool d) (fst p)) (snd p))"

text \<open>A field of a node or attribute changed.\<close>

definition put_node :: "ndm_xml_document_t \<Rightarrow> nat \<Rightarrow> (ndm_xml_node_t \<Rightarrow> ndm_xml_node_t) \<Rightarrow> ndm_xml_document_t result" where
  "put_node d n f = need (doc_nodes d n) (\<lambda>r. Ok (d\<lparr>doc_nodes := (doc_nodes d)(n \<mapsto> f r)\<rparr>))"

definition put_attr :: "ndm_xml_document_t \<Rightarrow> nat \<Rightarrow> (ndm_xml_attr_t \<Rightarrow> ndm_xml_attr_t) \<Rightarrow> ndm_xml_document_t result" where
  "put_attr d a f = need (doc_attrs d a) (\<lambda>r. Ok (d\<lparr>doc_attrs := (doc_attrs d)(a \<mapsto> f r)\<rparr>))"

section \<open>Names and values\<close>

definition given_or_empty :: "xml_str option \<Rightarrow> xml_str" where
  "given_or_empty s = (case s of None \<Rightarrow> XmlGiven [] | Some s \<Rightarrow> s)"

definition ndm_xml_node_set_name :: "ndm_xml_document_t \<Rightarrow> nat \<Rightarrow> xml_str option \<Rightarrow> ndm_xml_document_t result" where
  "ndm_xml_node_set_name d n name =
     need (xml_string d (given_or_empty name)) (\<lambda>c.
     put_node d n (\<lambda>r. r\<lparr>nd_name := given_or_empty name, nd_name_size := length c\<rparr>))"

definition ndm_xml_node_set_value :: "ndm_xml_document_t \<Rightarrow> nat \<Rightarrow> xml_str option \<Rightarrow> ndm_xml_document_t result" where
  "ndm_xml_node_set_value d n val =
     need (xml_string d (given_or_empty val)) (\<lambda>c.
     put_node d n (\<lambda>r. r\<lparr>nd_value := given_or_empty val, nd_value_size := length c\<rparr>))"

definition ndm_xml_attr_set_name :: "ndm_xml_document_t \<Rightarrow> nat \<Rightarrow> xml_str option \<Rightarrow> ndm_xml_document_t result" where
  "ndm_xml_attr_set_name d a name =
     need (xml_string d (given_or_empty name)) (\<lambda>c.
     put_attr d a (\<lambda>r. r\<lparr>at_name := given_or_empty name, at_name_size := length c\<rparr>))"

definition ndm_xml_attr_set_value :: "ndm_xml_document_t \<Rightarrow> nat \<Rightarrow> xml_str option \<Rightarrow> ndm_xml_document_t result" where
  "ndm_xml_attr_set_value d a val =
     need (xml_string d (given_or_empty val)) (\<lambda>c.
     put_attr d a (\<lambda>r. r\<lparr>at_value := given_or_empty val, at_value_size := length c\<rparr>))"

definition ndm_xml_node_type :: "ndm_xml_document_t \<Rightarrow> nat \<Rightarrow> ndm_xml_node_type_t result" where
  "ndm_xml_node_type d n = need (doc_nodes d n) (\<lambda>r. Ok (nd_type r))"

definition ndm_xml_node_name :: "ndm_xml_document_t \<Rightarrow> nat \<Rightarrow> xml_str result" where
  "ndm_xml_node_name d n = need (doc_nodes d n) (\<lambda>r. Ok (nd_name r))"

definition ndm_xml_node_name_size :: "ndm_xml_document_t \<Rightarrow> nat \<Rightarrow> nat result" where
  "ndm_xml_node_name_size d n = need (doc_nodes d n) (\<lambda>r. Ok (nd_name_size r))"

definition ndm_xml_node_value :: "ndm_xml_document_t \<Rightarrow> nat \<Rightarrow> xml_str result" where
  "ndm_xml_node_value d n = need (doc_nodes d n) (\<lambda>r. Ok (nd_value r))"

definition ndm_xml_node_value_size :: "ndm_xml_document_t \<Rightarrow> nat \<Rightarrow> nat result" where
  "ndm_xml_node_value_size d n = need (doc_nodes d n) (\<lambda>r. Ok (nd_value_size r))"

definition ndm_xml_node_parent :: "ndm_xml_document_t \<Rightarrow> nat \<Rightarrow> nat option result" where
  "ndm_xml_node_parent d n = need (doc_nodes d n) (\<lambda>r. Ok (nd_parent r))"

definition ndm_xml_attr_name :: "ndm_xml_document_t \<Rightarrow> nat \<Rightarrow> xml_str result" where
  "ndm_xml_attr_name d a = need (doc_attrs d a) (\<lambda>r. Ok (at_name r))"

definition ndm_xml_attr_name_size :: "ndm_xml_document_t \<Rightarrow> nat \<Rightarrow> nat result" where
  "ndm_xml_attr_name_size d a = need (doc_attrs d a) (\<lambda>r. Ok (at_name_size r))"

definition ndm_xml_attr_value :: "ndm_xml_document_t \<Rightarrow> nat \<Rightarrow> xml_str result" where
  "ndm_xml_attr_value d a = need (doc_attrs d a) (\<lambda>r. Ok (at_value r))"

definition ndm_xml_attr_value_size :: "ndm_xml_document_t \<Rightarrow> nat \<Rightarrow> nat result" where
  "ndm_xml_attr_value_size d a = need (doc_attrs d a) (\<lambda>r. Ok (at_value_size r))"

definition ndm_xml_attr_node :: "ndm_xml_document_t \<Rightarrow> nat \<Rightarrow> nat option result" where
  "ndm_xml_attr_node d a = need (doc_attrs d a) (\<lambda>r. Ok (at_node r))"

section \<open>Walking\<close>

text \<open>
  The loops that follow one kind of link until the name is the wanted one; \<open>link\<close> is the
  pointer followed.
\<close>

partial_function (option) xml_find_node ::
  "ndm_xml_document_t \<Rightarrow> (ndm_xml_node_t \<Rightarrow> nat option) \<Rightarrow> cstring \<Rightarrow> nat option \<Rightarrow> nat option result option" where
  "xml_find_node d link name n =
     (case n of
        None \<Rightarrow> Some (Ok None)
      | Some i \<Rightarrow>
          (case doc_nodes d i of
             None \<Rightarrow> Some Undefined
           | Some r \<Rightarrow>
               (case xml_string d (nd_name r) of
                  None \<Rightarrow> Some Undefined
                | Some c \<Rightarrow> if c \<noteq> name then xml_find_node d link name (link r) else Some (Ok n))))"

partial_function (option) xml_find_attr ::
  "ndm_xml_document_t \<Rightarrow> (ndm_xml_attr_t \<Rightarrow> nat option) \<Rightarrow> cstring \<Rightarrow> nat option \<Rightarrow> nat option result option" where
  "xml_find_attr d link name a =
     (case a of
        None \<Rightarrow> Some (Ok None)
      | Some i \<Rightarrow>
          (case doc_attrs d i of
             None \<Rightarrow> Some Undefined
           | Some r \<Rightarrow>
               (case xml_string d (at_name r) of
                  None \<Rightarrow> Some Undefined
                | Some c \<Rightarrow> if c \<noteq> name then xml_find_attr d link name (link r) else Some (Ok a))))"

definition needing :: "'a option \<Rightarrow> ('a \<Rightarrow> 'b result option) \<Rightarrow> 'b result option" where
  "needing x f = (case x of None \<Rightarrow> Some Undefined | Some y \<Rightarrow> f y)"

definition ndm_xml_node_first_child :: "ndm_xml_document_t \<Rightarrow> nat \<Rightarrow> cstring option \<Rightarrow> nat option result option" where
  "ndm_xml_node_first_child d n name =
     needing (doc_nodes d n) (\<lambda>r.
     if \<not> xml_name_is_empty name then xml_find_node d nd_next_sibling (the name) (nd_first_child r)
     else Some (Ok (nd_first_child r)))"

definition ndm_xml_node_last_child :: "ndm_xml_document_t \<Rightarrow> nat \<Rightarrow> cstring option \<Rightarrow> nat option result option" where
  "ndm_xml_node_last_child d n name =
     needing (doc_nodes d n) (\<lambda>r.
     if nd_first_child r \<noteq> None \<and> \<not> xml_name_is_empty name
     then xml_find_node d nd_prev_sibling (the name) (nd_last_child r)
     else Some (Ok (nd_last_child r)))"

definition ndm_xml_node_next_sibling :: "ndm_xml_document_t \<Rightarrow> nat \<Rightarrow> cstring option \<Rightarrow> nat option result option" where
  "ndm_xml_node_next_sibling d n name =
     needing (doc_nodes d n) (\<lambda>r.
     if nd_parent r = None then Some Undefined
     else if \<not> xml_name_is_empty name then xml_find_node d nd_next_sibling (the name) (nd_next_sibling r)
     else Some (Ok (nd_next_sibling r)))"

definition ndm_xml_node_prev_sibling :: "ndm_xml_document_t \<Rightarrow> nat \<Rightarrow> cstring option \<Rightarrow> nat option result option" where
  "ndm_xml_node_prev_sibling d n name =
     needing (doc_nodes d n) (\<lambda>r.
     if nd_parent r = None then Some Undefined
     else if \<not> xml_name_is_empty name then xml_find_node d nd_prev_sibling (the name) (nd_prev_sibling r)
     else Some (Ok (nd_prev_sibling r)))"

definition ndm_xml_node_first_attr :: "ndm_xml_document_t \<Rightarrow> nat \<Rightarrow> cstring option \<Rightarrow> nat option result option" where
  "ndm_xml_node_first_attr d n name =
     needing (doc_nodes d n) (\<lambda>r.
     if \<not> xml_name_is_empty name then xml_find_attr d at_next (the name) (nd_first_attr r)
     else Some (Ok (nd_first_attr r)))"

definition ndm_xml_node_last_attr :: "ndm_xml_document_t \<Rightarrow> nat \<Rightarrow> cstring option \<Rightarrow> nat option result option" where
  "ndm_xml_node_last_attr d n name =
     needing (doc_nodes d n) (\<lambda>r.
     if nd_first_attr r \<noteq> None \<and> \<not> xml_name_is_empty name
     then xml_find_attr d at_prev (the name) (nd_last_attr r)
     else Some (Ok (nd_last_attr r)))"

definition ndm_xml_attr_next :: "ndm_xml_document_t \<Rightarrow> nat \<Rightarrow> cstring option \<Rightarrow> nat option result option" where
  "ndm_xml_attr_next d a name =
     needing (doc_attrs d a) (\<lambda>r.
     let b = (if at_node r = None then None else at_next r) in
     if \<not> xml_name_is_empty name then xml_find_attr d at_next (the name) b else Some (Ok b))"

definition ndm_xml_attr_prev :: "ndm_xml_document_t \<Rightarrow> nat \<Rightarrow> cstring option \<Rightarrow> nat option result option" where
  "ndm_xml_attr_prev d a name =
     needing (doc_attrs d a) (\<lambda>r.
     let b = (if at_node r = None then None else at_prev r) in
     if \<not> xml_name_is_empty name then xml_find_attr d at_prev (the name) b else Some (Ok b))"

section \<open>Linking children\<close>

text \<open>The assertion of every operation that links a child.\<close>

definition can_link :: "ndm_xml_document_t \<Rightarrow> nat option \<Rightarrow> bool" where
  "can_link d child =
     (case child of
        None \<Rightarrow> False
      | Some c \<Rightarrow>
          (case doc_nodes d c of
             None \<Rightarrow> False
           | Some r \<Rightarrow> nd_parent r = None \<and> nd_type r \<noteq> NDM_XML_NODE_TYPE_DOCUMENT))"

definition ndm_xml_node_prepend_child :: "ndm_xml_document_t \<Rightarrow> nat \<Rightarrow> nat option \<Rightarrow> ndm_xml_document_t result" where
  "ndm_xml_node_prepend_child d n child =
     (if \<not> can_link d child then Undefined
      else
        let c = the child in
        need (doc_nodes d n) (\<lambda>r.
        bind_result
          (case nd_first_child r of
             Some f \<Rightarrow>
               bind_result (put_node d c (\<lambda>r. r\<lparr>nd_next_sibling := Some f\<rparr>)) (\<lambda>d.
               put_node d f (\<lambda>r. r\<lparr>nd_prev_sibling := Some c\<rparr>))
           | None \<Rightarrow>
               bind_result (put_node d c (\<lambda>r. r\<lparr>nd_next_sibling := None\<rparr>)) (\<lambda>d.
               put_node d n (\<lambda>r. r\<lparr>nd_last_child := Some c\<rparr>))) (\<lambda>d.
        bind_result (put_node d n (\<lambda>r. r\<lparr>nd_first_child := Some c\<rparr>)) (\<lambda>d.
        put_node d c (\<lambda>r. r\<lparr>nd_parent := Some n, nd_prev_sibling := None\<rparr>)))))"

definition ndm_xml_node_append_child :: "ndm_xml_document_t \<Rightarrow> nat \<Rightarrow> nat option \<Rightarrow> ndm_xml_document_t result" where
  "ndm_xml_node_append_child d n child =
     (if \<not> can_link d child then Undefined
      else
        let c = the child in
        need (doc_nodes d n) (\<lambda>r.
        bind_result
          (case nd_first_child r of
             Some f \<Rightarrow>
               bind_result (put_node d c (\<lambda>s. s\<lparr>nd_prev_sibling := nd_last_child r\<rparr>)) (\<lambda>d.
               need (nd_last_child r) (\<lambda>l. put_node d l (\<lambda>r. r\<lparr>nd_next_sibling := Some c\<rparr>)))
           | None \<Rightarrow>
               bind_result (put_node d c (\<lambda>r. r\<lparr>nd_prev_sibling := None\<rparr>)) (\<lambda>d.
               put_node d n (\<lambda>r. r\<lparr>nd_first_child := Some c\<rparr>))) (\<lambda>d.
        bind_result (put_node d n (\<lambda>r. r\<lparr>nd_last_child := Some c\<rparr>)) (\<lambda>d.
        put_node d c (\<lambda>r. r\<lparr>nd_parent := Some n, nd_next_sibling := None\<rparr>)))))"

definition ndm_xml_node_insert_child ::
  "ndm_xml_document_t \<Rightarrow> nat \<Rightarrow> nat option \<Rightarrow> nat option \<Rightarrow> ndm_xml_document_t result" where
  "ndm_xml_node_insert_child d n place child =
     (if place \<noteq> None \<and> (case doc_nodes d (the place) of None \<Rightarrow> True | Some w \<Rightarrow> nd_parent w \<noteq> Some n) then Undefined
      else if \<not> can_link d child then Undefined
      else
        need (doc_nodes d n) (\<lambda>r.
        if place = nd_first_child r then ndm_xml_node_prepend_child d n child
        else case place of
          None \<Rightarrow> ndm_xml_node_append_child d n child
        | Some w \<Rightarrow>
            let c = the child in
            need (doc_nodes d w) (\<lambda>wr.
            bind_result (put_node d c (\<lambda>r. r\<lparr>nd_prev_sibling := nd_prev_sibling wr, nd_next_sibling := Some w\<rparr>)) (\<lambda>d.
            need (nd_prev_sibling wr) (\<lambda>p.
            bind_result (put_node d p (\<lambda>r. r\<lparr>nd_next_sibling := Some c\<rparr>)) (\<lambda>d.
            bind_result (put_node d w (\<lambda>r. r\<lparr>nd_prev_sibling := Some c\<rparr>)) (\<lambda>d.
            put_node d c (\<lambda>r. r\<lparr>nd_parent := Some n\<rparr>))))))))"

definition ndm_xml_node_remove_first_child :: "ndm_xml_document_t \<Rightarrow> nat \<Rightarrow> ndm_xml_document_t result" where
  "ndm_xml_node_remove_first_child d n =
     need (doc_nodes d n) (\<lambda>r.
     need (nd_first_child r) (\<lambda>c.
     need (doc_nodes d c) (\<lambda>cr.
     bind_result (put_node d n (\<lambda>r. r\<lparr>nd_first_child := nd_next_sibling cr\<rparr>)) (\<lambda>d.
     bind_result
       (case nd_next_sibling cr of
          Some s \<Rightarrow> put_node d s (\<lambda>r. r\<lparr>nd_prev_sibling := None\<rparr>)
        | None \<Rightarrow> put_node d n (\<lambda>r. r\<lparr>nd_last_child := None\<rparr>)) (\<lambda>d.
     put_node d c (\<lambda>r. r\<lparr>nd_parent := None\<rparr>))))))"

text \<open>When the last child is the only one, \<open>last_child\<close> keeps pointing to it.\<close>

definition ndm_xml_node_remove_last_child :: "ndm_xml_document_t \<Rightarrow> nat \<Rightarrow> ndm_xml_document_t result" where
  "ndm_xml_node_remove_last_child d n =
     need (doc_nodes d n) (\<lambda>r.
     if nd_first_child r = None then Undefined
     else
       need (nd_last_child r) (\<lambda>c.
       need (doc_nodes d c) (\<lambda>cr.
       bind_result
         (case nd_prev_sibling cr of
            Some p \<Rightarrow>
              bind_result (put_node d n (\<lambda>r. r\<lparr>nd_last_child := Some p\<rparr>)) (\<lambda>d.
              put_node d p (\<lambda>r. r\<lparr>nd_next_sibling := None\<rparr>))
          | None \<Rightarrow> put_node d n (\<lambda>r. r\<lparr>nd_first_child := None\<rparr>)) (\<lambda>d.
       put_node d c (\<lambda>r. r\<lparr>nd_parent := None\<rparr>)))))"

definition ndm_xml_node_remove_child :: "ndm_xml_document_t \<Rightarrow> nat \<Rightarrow> nat option \<Rightarrow> ndm_xml_document_t result" where
  "ndm_xml_node_remove_child d n child =
     need child (\<lambda>c.
     need (doc_nodes d c) (\<lambda>cr.
     if nd_parent cr \<noteq> Some n then Undefined
     else need (doc_nodes d n) (\<lambda>r.
       if nd_first_child r = None then Undefined
       else if Some c = nd_first_child r then ndm_xml_node_remove_first_child d n
       else if Some c = nd_last_child r then ndm_xml_node_remove_last_child d n
       else
         need (nd_prev_sibling cr) (\<lambda>p.
         bind_result (put_node d p (\<lambda>r. r\<lparr>nd_next_sibling := nd_next_sibling cr\<rparr>)) (\<lambda>d.
         need (nd_next_sibling cr) (\<lambda>s.
         bind_result (put_node d s (\<lambda>r. r\<lparr>nd_prev_sibling := nd_prev_sibling cr\<rparr>)) (\<lambda>d.
         put_node d c (\<lambda>r. r\<lparr>nd_parent := None\<rparr>))))))))"

text \<open>The loop that drops the parent of a child and of all after it.\<close>

partial_function (option) xml_orphan ::
  "ndm_xml_document_t \<Rightarrow> nat option \<Rightarrow> ndm_xml_document_t result option" where
  "xml_orphan d n =
     (case n of
        None \<Rightarrow> Some (Ok d)
      | Some i \<Rightarrow>
          (case doc_nodes d i of
             None \<Rightarrow> Some Undefined
           | Some r \<Rightarrow>
               xml_orphan (d\<lparr>doc_nodes := (doc_nodes d)(i \<mapsto> r\<lparr>nd_parent := None\<rparr>)\<rparr>) (nd_next_sibling r)))"

definition ndm_xml_node_remove_all_children ::
  "ndm_xml_document_t \<Rightarrow> nat \<Rightarrow> nat option \<Rightarrow> ndm_xml_document_t result option" where
  "ndm_xml_node_remove_all_children d n start_child =
     needing (doc_nodes d n) (\<lambda>r.
     if start_child \<noteq> None \<and>
        (case doc_nodes d (the start_child) of None \<Rightarrow> True | Some s \<Rightarrow> nd_parent s \<noteq> Some n)
     then Some Undefined
     else map_option (\<lambda>d. bind_result d (\<lambda>d.
       need (doc_nodes d n) (\<lambda>r.
       if start_child = None \<or> start_child = nd_first_child r
       then put_node d n (\<lambda>r. r\<lparr>nd_first_child := None, nd_last_child := None\<rparr>)
       else need (doc_nodes d (the start_child)) (\<lambda>s.
            put_node d n (\<lambda>r. r\<lparr>nd_last_child := nd_prev_sibling s\<rparr>)))))
       (xml_orphan d (if start_child = None then nd_first_child r else start_child)))"

section \<open>Linking attributes\<close>

text \<open>The assertion of every operation that links an attribute.\<close>

definition can_link_attr :: "ndm_xml_document_t \<Rightarrow> nat option \<Rightarrow> bool" where
  "can_link_attr d attr =
     (case attr of
        None \<Rightarrow> False
      | Some a \<Rightarrow> (case doc_attrs d a of None \<Rightarrow> False | Some r \<Rightarrow> at_node r = None))"

definition ndm_xml_node_prepend_attr :: "ndm_xml_document_t \<Rightarrow> nat \<Rightarrow> nat option \<Rightarrow> ndm_xml_document_t result" where
  "ndm_xml_node_prepend_attr d n attr =
     (if \<not> can_link_attr d attr then Undefined
      else
        let a = the attr in
        need (doc_nodes d n) (\<lambda>r.
        bind_result
          (case nd_first_attr r of
             Some f \<Rightarrow>
               bind_result (put_attr d a (\<lambda>r. r\<lparr>at_next := Some f\<rparr>)) (\<lambda>d.
               put_attr d f (\<lambda>r. r\<lparr>at_prev := Some a\<rparr>))
           | None \<Rightarrow>
               bind_result (put_attr d a (\<lambda>r. r\<lparr>at_next := None\<rparr>)) (\<lambda>d.
               put_node d n (\<lambda>r. r\<lparr>nd_last_attr := Some a\<rparr>))) (\<lambda>d.
        bind_result (put_node d n (\<lambda>r. r\<lparr>nd_first_attr := Some a\<rparr>)) (\<lambda>d.
        put_attr d a (\<lambda>r. r\<lparr>at_node := Some n, at_prev := None\<rparr>)))))"

definition ndm_xml_node_append_attr :: "ndm_xml_document_t \<Rightarrow> nat \<Rightarrow> nat option \<Rightarrow> ndm_xml_document_t result" where
  "ndm_xml_node_append_attr d n attr =
     (if \<not> can_link_attr d attr then Undefined
      else
        let a = the attr in
        need (doc_nodes d n) (\<lambda>r.
        bind_result
          (case nd_first_attr r of
             Some f \<Rightarrow>
               bind_result (put_attr d a (\<lambda>s. s\<lparr>at_prev := nd_last_attr r\<rparr>)) (\<lambda>d.
               need (nd_last_attr r) (\<lambda>l. put_attr d l (\<lambda>r. r\<lparr>at_next := Some a\<rparr>)))
           | None \<Rightarrow>
               bind_result (put_attr d a (\<lambda>r. r\<lparr>at_prev := None\<rparr>)) (\<lambda>d.
               put_node d n (\<lambda>r. r\<lparr>nd_first_attr := Some a\<rparr>))) (\<lambda>d.
        bind_result (put_node d n (\<lambda>r. r\<lparr>nd_last_attr := Some a\<rparr>)) (\<lambda>d.
        put_attr d a (\<lambda>r. r\<lparr>at_node := Some n, at_next := None\<rparr>)))))"

definition ndm_xml_node_insert_attr ::
  "ndm_xml_document_t \<Rightarrow> nat \<Rightarrow> nat option \<Rightarrow> nat option \<Rightarrow> ndm_xml_document_t result" where
  "ndm_xml_node_insert_attr d n place attr =
     (if place \<noteq> None \<and> (case doc_attrs d (the place) of None \<Rightarrow> True | Some w \<Rightarrow> at_node w \<noteq> Some n) then Undefined
      else if \<not> can_link_attr d attr then Undefined
      else
        need (doc_nodes d n) (\<lambda>r.
        if place = nd_first_attr r then ndm_xml_node_prepend_attr d n attr
        else case place of
          None \<Rightarrow> ndm_xml_node_append_attr d n attr
        | Some w \<Rightarrow>
            let a = the attr in
            need (doc_attrs d w) (\<lambda>wr.
            bind_result (put_attr d a (\<lambda>r. r\<lparr>at_prev := at_prev wr, at_next := Some w\<rparr>)) (\<lambda>d.
            need (at_prev wr) (\<lambda>p.
            bind_result (put_attr d p (\<lambda>r. r\<lparr>at_next := Some a\<rparr>)) (\<lambda>d.
            bind_result (put_attr d w (\<lambda>r. r\<lparr>at_prev := Some a\<rparr>)) (\<lambda>d.
            put_attr d a (\<lambda>r. r\<lparr>at_node := Some n\<rparr>))))))))"

definition ndm_xml_node_remove_first_attr :: "ndm_xml_document_t \<Rightarrow> nat \<Rightarrow> ndm_xml_document_t result" where
  "ndm_xml_node_remove_first_attr d n =
     need (doc_nodes d n) (\<lambda>r.
     need (nd_first_attr r) (\<lambda>a.
     need (doc_attrs d a) (\<lambda>ar.
     bind_result
       (case at_next ar of
          Some s \<Rightarrow> put_attr d s (\<lambda>r. r\<lparr>at_prev := None\<rparr>)
        | None \<Rightarrow> put_node d n (\<lambda>r. r\<lparr>nd_last_attr := None\<rparr>)) (\<lambda>d.
     bind_result (put_attr d a (\<lambda>r. r\<lparr>at_node := None\<rparr>)) (\<lambda>d.
     put_node d n (\<lambda>r. r\<lparr>nd_first_attr := at_next ar\<rparr>))))))"

definition ndm_xml_node_remove_last_attr :: "ndm_xml_document_t \<Rightarrow> nat \<Rightarrow> ndm_xml_document_t result" where
  "ndm_xml_node_remove_last_attr d n =
     need (doc_nodes d n) (\<lambda>r.
     if nd_first_attr r = None then Undefined
     else
       need (nd_last_attr r) (\<lambda>a.
       need (doc_attrs d a) (\<lambda>ar.
       bind_result
         (case at_prev ar of
            Some p \<Rightarrow>
              bind_result (put_attr d p (\<lambda>r. r\<lparr>at_next := None\<rparr>)) (\<lambda>d.
              put_node d n (\<lambda>r. r\<lparr>nd_last_attr := Some p\<rparr>))
          | None \<Rightarrow> put_node d n (\<lambda>r. r\<lparr>nd_first_attr := None\<rparr>)) (\<lambda>d.
       put_attr d a (\<lambda>r. r\<lparr>at_node := None\<rparr>)))))"

definition ndm_xml_node_remove_attr :: "ndm_xml_document_t \<Rightarrow> nat \<Rightarrow> nat option \<Rightarrow> ndm_xml_document_t result" where
  "ndm_xml_node_remove_attr d n place =
     need (doc_nodes d n) (\<lambda>r.
     if nd_first_attr r = None then Undefined
     else need place (\<lambda>a.
     need (doc_attrs d a) (\<lambda>ar.
     if at_node ar \<noteq> Some n then Undefined
     else if Some a = nd_first_attr r then ndm_xml_node_remove_first_attr d n
     else if Some a = nd_last_attr r then ndm_xml_node_remove_last_attr d n
     else
       need (at_prev ar) (\<lambda>p.
       bind_result (put_attr d p (\<lambda>r. r\<lparr>at_next := at_next ar\<rparr>)) (\<lambda>d.
       need (at_next ar) (\<lambda>s.
       bind_result (put_attr d s (\<lambda>r. r\<lparr>at_prev := at_prev ar\<rparr>)) (\<lambda>d.
       put_attr d a (\<lambda>r. r\<lparr>at_node := None\<rparr>))))))))"

partial_function (option) xml_orphan_attrs ::
  "ndm_xml_document_t \<Rightarrow> nat option \<Rightarrow> ndm_xml_document_t result option" where
  "xml_orphan_attrs d a =
     (case a of
        None \<Rightarrow> Some (Ok d)
      | Some i \<Rightarrow>
          (case doc_attrs d i of
             None \<Rightarrow> Some Undefined
           | Some r \<Rightarrow>
               xml_orphan_attrs (d\<lparr>doc_attrs := (doc_attrs d)(i \<mapsto> r\<lparr>at_node := None\<rparr>)\<rparr>) (at_next r)))"

definition ndm_xml_node_remove_all_attr ::
  "ndm_xml_document_t \<Rightarrow> nat \<Rightarrow> ndm_xml_document_t result option" where
  "ndm_xml_node_remove_all_attr d n =
     needing (doc_nodes d n) (\<lambda>r.
     map_option (\<lambda>d. bind_result d (\<lambda>d. put_node d n (\<lambda>r. r\<lparr>nd_first_attr := None, nd_last_attr := None\<rparr>)))
       (xml_orphan_attrs d (nd_first_attr r)))"

end
