(* ===== verification/Xml_Document.thy ===== *)
theory Xml_Document
  imports Xml_Node
begin

text \<open>
  The document functions of \<^verbatim>\<open>src/xml.c\<close>: nodes, attributes and strings are allocated
  in the pool of the document, and the functions that append an element or attribute with
  copies of its name and value; copying and comparing whole documents. The recursions over
  nodes take fuel; \<open>None\<close> is a recursion or a loop that has not returned.
\<close>

section \<open>The document and its pool\<close>

definition ndm_xml_document_init :: "heap \<Rightarrow> u8 list \<Rightarrow> u64 \<Rightarrow> u64 \<Rightarrow> ndm_xml_document_t" where
  "ndm_xml_document_init sys static_buffer static_buffer_size dynamic_buffer_size =
     \<lparr>doc_root = None,
      doc_pool = ndm_pool_init sys static_buffer static_buffer_size dynamic_buffer_size,
      doc_nodes = (\<lambda>_. None), doc_attrs = (\<lambda>_. None), doc_fresh = 0, doc_text = []\<rparr>"

text \<open>The nodes and attributes are gone with the pool they were allocated in.\<close>

definition ndm_xml_document_clear :: "ndm_xml_document_t \<Rightarrow> ndm_xml_document_t" where
  "ndm_xml_document_clear d =
     d\<lparr>doc_pool := ndm_pool_clear (doc_pool d), doc_nodes := (\<lambda>_. None), doc_attrs := (\<lambda>_. None),
       doc_root := None\<rparr>"

definition ndm_xml_document_is_valid :: "ndm_xml_document_t \<Rightarrow> bool" where
  "ndm_xml_document_is_valid d = ndm_pool_is_valid (doc_pool d)"

definition ndm_xml_document_is_empty :: "ndm_xml_document_t \<Rightarrow> bool" where
  "ndm_xml_document_is_empty d \<longleftrightarrow> doc_root d = None"

definition ndm_xml_document_size :: "ndm_xml_document_t \<Rightarrow> u64" where
  "ndm_xml_document_size d = ndm_pool_total_dynamic_size (doc_pool d)"

definition ndm_xml_document_allocated_size :: "ndm_xml_document_t \<Rightarrow> u64" where
  "ndm_xml_document_allocated_size d = ndm_pool_allocated (doc_pool d)"

definition ndm_xml_document_root :: "ndm_xml_document_t \<Rightarrow> nat option" where
  "ndm_xml_document_root d = doc_root d"

definition ndm_xml_document_alloc :: "ndm_xml_document_t \<Rightarrow> u64 \<Rightarrow> pool_ptr option \<times> ndm_xml_document_t" where
  "ndm_xml_document_alloc d n =
     (case ndm_pool_malloc (doc_pool d) n of (p, pool) \<Rightarrow> (p, d\<lparr>doc_pool := pool\<rparr>))"

definition xml_pool_string ::
  "ndm_xml_document_t \<Rightarrow> (pool_ptr option \<times> ndm_pool_t) result \<Rightarrow> (xml_str option \<times> ndm_xml_document_t) result" where
  "xml_pool_string d r = bind_result r (\<lambda>(p, pool). Ok (map_option XmlPool p, d\<lparr>doc_pool := pool\<rparr>))"

definition ndm_xml_document_alloc_str ::
  "ndm_xml_document_t \<Rightarrow> cstring \<Rightarrow> (xml_str option \<times> ndm_xml_document_t) result" where
  "ndm_xml_document_alloc_str d s = xml_pool_string d (ndm_pool_strdup (doc_pool d) s)"

definition ndm_xml_document_alloc_strn ::
  "ndm_xml_document_t \<Rightarrow> u8 list \<Rightarrow> u64 \<Rightarrow> (xml_str option \<times> ndm_xml_document_t) result" where
  "ndm_xml_document_alloc_strn d s n = xml_pool_string d (ndm_pool_strndup (doc_pool d) s n)"

text \<open>\<open>sizeof\<close> of a node and of an attribute.\<close>

definition XML_NODE_SIZE :: u64 where "XML_NODE_SIZE = 104"
definition XML_ATTR_SIZE :: u64 where "XML_ATTR_SIZE = 64"

definition blank_node :: "ndm_xml_node_type_t \<Rightarrow> ndm_xml_node_t" where
  "blank_node type =
     \<lparr>nd_name = XmlGiven [], nd_name_size = 0, nd_value = XmlGiven [], nd_value_size = 0,
      nd_type = type, nd_parent = None, nd_first_child = None, nd_last_child = None,
      nd_first_attr = None, nd_last_attr = None, nd_next_sibling = None, nd_prev_sibling = None\<rparr>"

definition blank_attr :: ndm_xml_attr_t where
  "blank_attr =
     \<lparr>at_name = XmlGiven [], at_name_size = 0, at_value = XmlGiven [], at_value_size = 0,
      at_node = None, at_next = None, at_prev = None\<rparr>"

definition ndm_xml_document_alloc_node ::
  "ndm_xml_document_t \<Rightarrow> ndm_xml_node_type_t \<Rightarrow> xml_str option \<Rightarrow> xml_str option \<Rightarrow>
   (nat option \<times> ndm_xml_document_t) result" where
  "ndm_xml_document_alloc_node d type name val =
     (case ndm_xml_document_alloc d XML_NODE_SIZE of
        (None, d) \<Rightarrow> Ok (None, d)
      | (Some p, d) \<Rightarrow>
          let n = doc_fresh d;
              d = d\<lparr>doc_nodes := (doc_nodes d)(n \<mapsto> blank_node type), doc_fresh := Suc n\<rparr> in
          bind_result (ndm_xml_node_set_name d n name) (\<lambda>d.
          bind_result (ndm_xml_node_set_value d n val) (\<lambda>d. Ok (Some n, d))))"

definition ndm_xml_document_alloc_attr ::
  "ndm_xml_document_t \<Rightarrow> xml_str option \<Rightarrow> xml_str option \<Rightarrow>
   (nat option \<times> ndm_xml_document_t) result" where
  "ndm_xml_document_alloc_attr d name val =
     (case ndm_xml_document_alloc d XML_ATTR_SIZE of
        (None, d) \<Rightarrow> Ok (None, d)
      | (Some p, d) \<Rightarrow>
          let a = doc_fresh d;
              d = d\<lparr>doc_attrs := (doc_attrs d)(a \<mapsto> blank_attr), doc_fresh := Suc a\<rparr> in
          bind_result (ndm_xml_attr_set_name d a name) (\<lambda>d.
          bind_result (ndm_xml_attr_set_value d a val) (\<lambda>d. Ok (Some a, d))))"

definition ndm_xml_document_alloc_root ::
  "ndm_xml_document_t \<Rightarrow> (nat option \<times> ndm_xml_document_t) result" where
  "ndm_xml_document_alloc_root d =
     bind_result (ndm_xml_document_alloc_node (ndm_xml_document_clear d) NDM_XML_NODE_TYPE_DOCUMENT None None)
       (\<lambda>(r, d).
       let d = d\<lparr>doc_root := r\<rparr>;
           d = (if r = None then ndm_xml_document_clear d else d) in
       Ok (ndm_xml_document_root d, d))"

section \<open>Elements and attributes with copied strings\<close>

text \<open>
  C leaves the order of the two copies open; here the name is copied first. A missing
  name or value is the empty string, without a copy.
\<close>

definition copied_string ::
  "ndm_xml_document_t \<Rightarrow> cstring option \<Rightarrow> (xml_str option \<times> ndm_xml_document_t) result" where
  "copied_string d s =
     (case s of None \<Rightarrow> Ok (Some (XmlGiven []), d) | Some c \<Rightarrow> ndm_xml_document_alloc_str d c)"

definition ndm_xml_node_append_child_str ::
  "ndm_xml_document_t \<Rightarrow> nat \<Rightarrow> cstring option \<Rightarrow> cstring option \<Rightarrow> (nat option \<times> ndm_xml_document_t) result" where
  "ndm_xml_node_append_child_str d n name val =
     bind_result (copied_string d name) (\<lambda>(s, d).
     bind_result (copied_string d val) (\<lambda>(v, d).
     bind_result (ndm_xml_document_alloc_node d NDM_XML_NODE_TYPE_ELEMENT s v) (\<lambda>(c, d).
     if ndm_xml_document_is_valid d
     then bind_result (ndm_xml_node_append_child d n c) (\<lambda>d. Ok (c, d))
     else Ok (None, d))))"

definition ndm_xml_node_append_child_int ::
  "ndm_xml_document_t \<Rightarrow> nat \<Rightarrow> cstring option \<Rightarrow> u64 \<Rightarrow> (nat option \<times> ndm_xml_document_t) result" where
  "ndm_xml_node_append_child_int d n name v =
     ndm_xml_node_append_child_str d n name (Some (print_int (sint v)))"

definition ndm_xml_node_append_child_uint ::
  "ndm_xml_document_t \<Rightarrow> nat \<Rightarrow> cstring option \<Rightarrow> u64 \<Rightarrow> (nat option \<times> ndm_xml_document_t) result" where
  "ndm_xml_node_append_child_uint d n name v =
     ndm_xml_node_append_child_str d n name (Some (print_nat (unat v)))"

definition ndm_xml_node_append_attr_str ::
  "ndm_xml_document_t \<Rightarrow> nat \<Rightarrow> cstring option \<Rightarrow> cstring option \<Rightarrow> (nat option \<times> ndm_xml_document_t) result" where
  "ndm_xml_node_append_attr_str d n name val =
     bind_result (copied_string d name) (\<lambda>(s, d).
     bind_result (copied_string d val) (\<lambda>(v, d).
     bind_result (ndm_xml_document_alloc_attr d s v) (\<lambda>(a, d).
     if ndm_xml_document_is_valid d
     then bind_result (ndm_xml_node_append_attr d n a) (\<lambda>d. Ok (a, d))
     else Ok (None, d))))"

definition ndm_xml_node_append_attr_int ::
  "ndm_xml_document_t \<Rightarrow> nat \<Rightarrow> cstring option \<Rightarrow> u64 \<Rightarrow> (nat option \<times> ndm_xml_document_t) result" where
  "ndm_xml_node_append_attr_int d n name v =
     ndm_xml_node_append_attr_str d n name (Some (print_int (sint v)))"

definition ndm_xml_append_attr_uint ::
  "ndm_xml_document_t \<Rightarrow> nat \<Rightarrow> cstring option \<Rightarrow> u64 \<Rightarrow> (nat option \<times> ndm_xml_document_t) result" where
  "ndm_xml_append_attr_uint d n name v =
     ndm_xml_node_append_attr_str d n name (Some (print_nat (unat v)))"

section \<open>Copying a document\<close>

fun then_do :: "'a result option \<Rightarrow> ('a \<Rightarrow> 'b result option) \<Rightarrow> 'b result option" where
  "then_do None f = None"
| "then_do (Some (Ok x)) f = f x"
| "then_do (Some (Error e)) f = Some (Error e)"
| "then_do (Some Undefined) f = Some Undefined"

text \<open>The loop over the attributes, until one cannot be copied.\<close>

partial_function (option) xml_copy_attrs ::
  "ndm_xml_document_t \<Rightarrow> nat option \<Rightarrow> ndm_xml_document_t \<Rightarrow> nat \<Rightarrow> ndm_xml_document_t result option" where
  "xml_copy_attrs src attr dest n =
     (case attr of
        None \<Rightarrow> Some (Ok dest)
      | Some a \<Rightarrow>
          (case doc_attrs src a of
             None \<Rightarrow> Some Undefined
           | Some r \<Rightarrow>
               (case (xml_string src (at_name r), xml_string src (at_value r)) of
                  (Some name, Some val) \<Rightarrow>
                    (case ndm_xml_node_append_attr_str dest n (Some name) (Some val) of
                       Ok (None, dest) \<Rightarrow> Some (Ok dest)
                     | Ok (Some b, dest) \<Rightarrow>
                         (case ndm_xml_attr_next src a None of
                            Some (Ok attr) \<Rightarrow> xml_copy_attrs src attr dest n
                          | Some (Error e) \<Rightarrow> Some (Error e)
                          | Some Undefined \<Rightarrow> Some Undefined
                          | None \<Rightarrow> None)
                     | Error e \<Rightarrow> Some (Error e)
                     | Undefined \<Rightarrow> Some Undefined)
                | _ \<Rightarrow> Some Undefined)))"

text \<open>
  A node with its attributes and children, and the loop over the children. When a child
  is not copied the target is invalid and the loop ends.
\<close>

fun xml_copy_node ::
  "nat \<Rightarrow> ndm_xml_document_t \<Rightarrow> nat \<Rightarrow> ndm_xml_document_t \<Rightarrow> (nat option \<times> ndm_xml_document_t) result option"
and xml_copy_children ::
  "nat \<Rightarrow> ndm_xml_document_t \<Rightarrow> nat option \<Rightarrow> ndm_xml_document_t \<Rightarrow> nat \<Rightarrow> ndm_xml_document_t result option" where
  "xml_copy_node 0 src n dest = None"
| "xml_copy_node (Suc fuel) src n dest =
     needing (doc_nodes src n) (\<lambda>r.
     needing (xml_string src (nd_name r)) (\<lambda>name.
     needing (xml_string src (nd_value r)) (\<lambda>val.
     then_do (Some (bind_result (ndm_xml_document_alloc_str dest name) (\<lambda>(s, dest).
              bind_result (ndm_xml_document_alloc_str dest val) (\<lambda>(v, dest).
              ndm_xml_document_alloc_node dest (nd_type r) s v)))) (\<lambda>(new, dest).
     then_do
       (case new of
          None \<Rightarrow> Some (Ok dest)
        | Some m \<Rightarrow>
            then_do (ndm_xml_node_first_attr src n None) (\<lambda>attr.
            then_do (ndm_xml_node_first_child src n None) (\<lambda>child.
            then_do (xml_copy_attrs src attr dest m) (\<lambda>dest.
            xml_copy_children fuel src child dest m)))) (\<lambda>dest.
     Some (Ok (if ndm_xml_document_is_valid dest then new else None, dest)))))))"
| "xml_copy_children 0 src child dest m = None"
| "xml_copy_children (Suc fuel) src child dest m =
     (case child of
        None \<Rightarrow> Some (Ok dest)
      | Some c \<Rightarrow>
          if ndm_xml_document_is_valid dest then
            then_do (xml_copy_node fuel src c dest) (\<lambda>(new, dest).
            if new \<noteq> None then
              then_do (Some (ndm_xml_node_append_child dest m new)) (\<lambda>dest.
              then_do (ndm_xml_node_next_sibling src c None) (\<lambda>child.
              xml_copy_children fuel src child dest m))
            else xml_copy_children fuel src child dest m)
          else Some (Ok dest))"

definition ndm_xml_document_copy ::
  "nat \<Rightarrow> ndm_xml_document_t \<Rightarrow> ndm_xml_document_t \<Rightarrow> (bool \<times> ndm_xml_document_t) result option" where
  "ndm_xml_document_copy fuel dest src =
     (let dest = ndm_xml_document_clear dest in
      case doc_root src of
        None \<Rightarrow> Some (Ok (True, dest))
      | Some n \<Rightarrow>
          then_do (xml_copy_node fuel src n dest) (\<lambda>(root, dest).
          let dest = dest\<lparr>doc_root := root\<rparr> in
          Some (Ok (if \<not> ndm_xml_document_is_valid dest then (False, ndm_xml_document_clear dest)
                    else (True, dest)))))"

section \<open>Comparing documents\<close>

text \<open>The loop over the attributes of both nodes.\<close>

definition attr_equal :: "ndm_xml_document_t \<Rightarrow> nat \<Rightarrow> ndm_xml_document_t \<Rightarrow> nat \<Rightarrow> bool result" where
  "attr_equal d a e b =
     need (doc_attrs d a) (\<lambda>r. need (doc_attrs e b) (\<lambda>s.
     if at_name_size r = at_name_size s \<and> at_value_size r = at_value_size s then
       need (xml_string d (at_name r)) (\<lambda>x. need (xml_string e (at_name s)) (\<lambda>y.
       if x = y then
         need (xml_string d (at_value r)) (\<lambda>x. need (xml_string e (at_value s)) (\<lambda>y. Ok (x = y)))
       else Ok False))
     else Ok False))"

partial_function (option) xml_attrs_equal ::
  "ndm_xml_document_t \<Rightarrow> nat option \<Rightarrow> ndm_xml_document_t \<Rightarrow> nat option \<Rightarrow> bool result option" where
  "xml_attrs_equal d attr e other =
     (case (attr, other) of
        (Some a, Some b) \<Rightarrow>
          (case attr_equal d a e b of
             Ok eq \<Rightarrow>
               (case (ndm_xml_attr_next d a None, ndm_xml_attr_next e b None) of
                  (Some (Ok attr), Some (Ok other)) \<Rightarrow>
                    if eq then xml_attrs_equal d attr e other else Some (Ok False)
                | (None, _) \<Rightarrow> None
                | (_, None) \<Rightarrow> None
                | _ \<Rightarrow> Some Undefined)
           | Error er \<Rightarrow> Some (Error er)
           | Undefined \<Rightarrow> Some Undefined)
      | _ \<Rightarrow> Some (Ok (attr = None \<and> other = None)))"

definition node_fields_equal :: "ndm_xml_document_t \<Rightarrow> nat \<Rightarrow> ndm_xml_document_t \<Rightarrow> nat \<Rightarrow> bool result" where
  "node_fields_equal d n e m =
     need (doc_nodes d n) (\<lambda>r. need (doc_nodes e m) (\<lambda>s.
     if nd_type r = nd_type s \<and> nd_name_size r = nd_name_size s \<and> nd_value_size r = nd_value_size s then
       need (xml_string d (nd_name r)) (\<lambda>x. need (xml_string e (nd_name s)) (\<lambda>y.
       if x = y then
         need (xml_string d (nd_value r)) (\<lambda>x. need (xml_string e (nd_value s)) (\<lambda>y. Ok (x = y)))
       else Ok False))
     else Ok False))"

fun xml_node_is_equal ::
  "nat \<Rightarrow> ndm_xml_document_t \<Rightarrow> nat \<Rightarrow> ndm_xml_document_t \<Rightarrow> nat \<Rightarrow> bool result option"
and xml_children_equal ::
  "nat \<Rightarrow> ndm_xml_document_t \<Rightarrow> nat option \<Rightarrow> ndm_xml_document_t \<Rightarrow> nat option \<Rightarrow> bool result option" where
  "xml_node_is_equal 0 d n e m = None"
| "xml_node_is_equal (Suc fuel) d n e m =
     then_do (Some (node_fields_equal d n e m)) (\<lambda>eq.
     if \<not> eq then Some (Ok False)
     else
       then_do (ndm_xml_node_first_attr d n None) (\<lambda>attr.
       then_do (ndm_xml_node_first_attr e m None) (\<lambda>other.
       then_do (xml_attrs_equal d attr e other) (\<lambda>eq.
       if \<not> eq then Some (Ok False)
       else
         then_do (ndm_xml_node_first_child d n None) (\<lambda>child.
         then_do (ndm_xml_node_first_child e m None) (\<lambda>other.
         xml_children_equal fuel d child e other))))))"
| "xml_children_equal 0 d child e other = None"
| "xml_children_equal (Suc fuel) d child e other =
     (case (child, other) of
        (Some c, Some o') \<Rightarrow>
          then_do (xml_node_is_equal fuel d c e o') (\<lambda>eq.
          then_do (ndm_xml_node_next_sibling d c None) (\<lambda>child.
          then_do (ndm_xml_node_next_sibling e o' None) (\<lambda>other.
          if eq then xml_children_equal fuel d child e other else Some (Ok False))))
      | _ \<Rightarrow> Some (Ok (child = None \<and> other = None)))"

definition ndm_xml_document_is_equal ::
  "nat \<Rightarrow> ndm_xml_document_t \<Rightarrow> ndm_xml_document_t \<Rightarrow> bool result option" where
  "ndm_xml_document_is_equal fuel d e =
     (if ndm_xml_document_is_valid d \<and> ndm_xml_document_is_valid e then
        (case (doc_root d, doc_root e) of
           (None, None) \<Rightarrow> Some (Ok True)
         | (Some n, Some m) \<Rightarrow> xml_node_is_equal fuel d n e m
         | _ \<Rightarrow> Some (Ok False))
      else Some (Ok False))"

end
