(* ===== verification/Xml_Links.thy ===== *)
theory Xml_Links
  imports Xml_Document
begin

text \<open>
  The children of a node and its attributes are two doubly linked lists with the same
  contract: the locale \<open>owned_sequence\<close> states it over the view of a list, its first and
  last pointers and the links of its entries, and proves what a history of calls leaves.
  Both kinds of lists interpret it.
\<close>

section \<open>Linked entries\<close>

text \<open>Owner, next and previous entry; a view is the first, the last and the entries.\<close>

type_synonym link = "nat option \<times> nat option \<times> nat option"
type_synonym seq_view = "nat option \<times> nat option \<times> (nat \<Rightarrow> link option)"

definition head_or :: "nat list \<Rightarrow> nat option \<Rightarrow> nat option" where
  "head_or xs q = (case xs of [] \<Rightarrow> q | y # _ \<Rightarrow> Some y)"

definition last_or :: "nat option \<Rightarrow> nat list \<Rightarrow> nat option" where
  "last_or p xs = (if xs = [] then p else Some (last xs))"

fun seg :: "nat \<Rightarrow> (nat \<Rightarrow> link option) \<Rightarrow> nat option \<Rightarrow> nat list \<Rightarrow> nat option \<Rightarrow> bool" where
  "seg n ent p [] q \<longleftrightarrow> True"
| "seg n ent p (x # xs) q \<longleftrightarrow> ent x = Some (Some n, head_or xs q, p) \<and> seg n ent (Some x) xs q"

definition seq_holds :: "nat \<Rightarrow> seq_view \<Rightarrow> nat list \<Rightarrow> bool" where
  "seq_holds n v xs \<longleftrightarrow>
     distinct xs \<and> fst v = head_or xs None \<and> (xs \<noteq> [] \<longrightarrow> fst (snd v) = Some (last xs)) \<and>
     seg n (snd (snd v)) None xs None"

text \<open>The entries without an owner.\<close>

definition seq_free :: "seq_view \<Rightarrow> nat set" where
  "seq_free v = {c. \<exists>nx pv. snd (snd v) c = Some (None, nx, pv)}"

lemma head_or_simps [simp]: "head_or [] q = q" "head_or (x # xs) q = Some x"
  by (simp_all add: head_or_def)

lemma head_or_append: "head_or (xs @ ys) q = head_or xs (head_or ys q)"
  by (cases xs) simp_all

lemma last_or_simps [simp]: "last_or p [] = p" "last_or p (xs @ [x]) = Some x" "last_or p (x # xs) = last_or (Some x) xs"
  by (simp_all add: last_or_def)

lemma seg_append:
  "seg n ent p (xs @ ys) q \<longleftrightarrow> seg n ent p xs (head_or ys q) \<and> seg n ent (last_or p xs) ys q"
  by (induction xs arbitrary: p) (auto simp: head_or_append)

lemma seg_frame: "(\<And>x. x \<in> set xs \<Longrightarrow> ent' x = ent x) \<Longrightarrow> seg n ent' p xs q = seg n ent p xs q"
  by (induction xs arbitrary: p) auto

lemma seg_upd [simp]: "x \<notin> set xs \<Longrightarrow> seg n (ent(x := e)) p xs q = seg n ent p xs q"
  by (rule seg_frame) auto

lemma seg_owned: "seg n ent p xs q \<Longrightarrow> x \<in> set xs \<Longrightarrow> \<exists>nx pv. ent x = Some (Some n, nx, pv)"
  by (induction xs arbitrary: p) auto

lemma seq_holds_owned: "seq_holds n v xs \<Longrightarrow> x \<in> set xs \<Longrightarrow> \<exists>nx pv. snd (snd v) x = Some (Some n, nx, pv)"
  by (auto simp: seq_holds_def intro: seg_owned)

lemma seq_free_owned: "seq_holds n v xs \<Longrightarrow> c \<in> seq_free v \<Longrightarrow> c \<notin> set xs"
  using seg_owned by (fastforce simp: seq_holds_def seq_free_def)

section \<open>Changes of links\<close>

text \<open>
  The links after an entry was joined between \<open>p\<close> and \<open>w\<close>, and after it was taken out
  from there; the entry taken out keeps its own pointers to its neighbours.
\<close>

definition link_in :: "nat \<Rightarrow> nat \<Rightarrow> nat option \<Rightarrow> nat option \<Rightarrow> (nat \<Rightarrow> link option) \<Rightarrow> nat \<Rightarrow> link option" where
  "link_in n c p w ent = (\<lambda>i.
     if i = c then Some (Some n, w, p)
     else if Some i = p then map_option (\<lambda>(own, nx, pv). (own, Some c, pv)) (ent i)
     else if Some i = w then map_option (\<lambda>(own, nx, pv). (own, nx, Some c)) (ent i)
     else ent i)"

definition link_out :: "nat \<Rightarrow> nat option \<Rightarrow> nat option \<Rightarrow> (nat \<Rightarrow> link option) \<Rightarrow> nat \<Rightarrow> link option" where
  "link_out c p w ent = (\<lambda>i.
     if i = c then map_option (\<lambda>(own, nx, pv). (None, nx, pv)) (ent i)
     else if Some i = p then map_option (\<lambda>(own, nx, pv). (own, w, pv)) (ent i)
     else if Some i = w then map_option (\<lambda>(own, nx, pv). (own, nx, p)) (ent i)
     else ent i)"

lemma last_or_in: "Some i = last_or None xs \<Longrightarrow> i \<in> set xs"
  by (auto simp: last_or_def split: if_splits)

lemma head_or_in: "Some i = head_or ys None \<Longrightarrow> i \<in> set ys"
  by (cases ys) auto

lemma link_in_other:
  "i \<noteq> c \<Longrightarrow> Some i \<noteq> p \<Longrightarrow> Some i \<noteq> w \<Longrightarrow> link_in n c p w ent i = ent i"
  by (simp add: link_in_def)

lemma link_out_other:
  "i \<noteq> c \<Longrightarrow> Some i \<noteq> p \<Longrightarrow> Some i \<noteq> w \<Longrightarrow> link_out c p w ent i = ent i"
  by (simp add: link_out_def)

lemma seg_link_in:
  assumes "seg n ent None (xs @ ys) None" and "distinct (xs @ c # ys)"
  shows "seg n (link_in n c (last_or None xs) (head_or ys None) ent) None (xs @ c # ys) None"
proof -
  let ?e = "link_in n c (last_or None xs) (head_or ys None) ent"
  have x: "seg n ent None xs (head_or ys None)" and y: "seg n ent (last_or None xs) ys None"
    using assms(1) by (simp_all add: seg_append)
  have "seg n ?e None xs (Some c)"
  proof (cases xs rule: rev_cases)
    case (snoc zs z)
    have "seg n ?e None zs (Some z) = seg n ent None zs (Some z)"
      by (rule seg_frame, rule link_in_other) (use assms(2) in \<open>auto simp: snoc dest: head_or_in\<close>)
    then show ?thesis using x assms(2) by (auto simp: snoc seg_append link_in_def)
  qed simp
  moreover have "seg n ?e (Some c) ys None"
  proof (cases ys)
    case (Cons z zs)
    have "seg n ?e (Some z) zs None = seg n ent (Some z) zs None"
      by (rule seg_frame, rule link_in_other) (use assms(2) in \<open>auto simp: Cons dest: last_or_in\<close>)
    moreover have "Some z \<noteq> last_or None xs" using assms(2) by (auto simp: Cons dest: last_or_in)
    ultimately show ?thesis using y assms(2) by (auto simp: Cons link_in_def)
  qed simp
  ultimately show ?thesis by (simp add: seg_append) (simp add: link_in_def)
qed

lemma seg_link_out:
  assumes "seg n ent None (xs @ c # ys) None" and "distinct (xs @ c # ys)"
  shows "seg n (link_out c (last_or None xs) (head_or ys None) ent) None (xs @ ys) None"
proof -
  let ?e = "link_out c (last_or None xs) (head_or ys None) ent"
  have x: "seg n ent None xs (Some c)" and y: "seg n ent (Some c) ys None"
    using assms(1) by (simp_all add: seg_append)
  have "seg n ?e None xs (head_or ys None)"
  proof (cases xs rule: rev_cases)
    case (snoc zs z)
    have "seg n ?e None zs (Some z) = seg n ent None zs (Some z)"
      by (rule seg_frame, rule link_out_other) (use assms(2) in \<open>auto simp: snoc dest: head_or_in\<close>)
    then show ?thesis using x assms(2) by (auto simp: snoc seg_append link_out_def)
  qed simp
  moreover have "seg n ?e (last_or None xs) ys None"
  proof (cases ys)
    case (Cons z zs)
    have "seg n ?e (Some z) zs None = seg n ent (Some z) zs None"
      by (rule seg_frame, rule link_out_other) (use assms(2) in \<open>auto simp: Cons dest: last_or_in\<close>)
    moreover have "Some z \<noteq> last_or None xs" using assms(2) by (auto simp: Cons dest: last_or_in)
    ultimately show ?thesis using y assms(2) by (auto simp: Cons link_out_def)
  qed simp
  ultimately show ?thesis by (simp add: seg_append)
qed

lemma seq_link_in:
  assumes "seq_holds n v (xs @ ys)" and "c \<in> seq_free v"
    and "v' = (head_or (xs @ [c]) None, Some (last (xs @ c # ys)),
      link_in n c (last_or None xs) (head_or ys None) (snd (snd v)))"
  shows "seq_holds n v' (xs @ c # ys)" "seq_free v' = seq_free v - {c}"
proof -
  have c: "c \<notin> set (xs @ ys)" using seq_free_owned [OF assms(1,2)] .
  then show "seq_holds n v' (xs @ c # ys)"
    using assms(1) seg_link_in [of n "snd (snd v)" xs ys c]
    by (auto simp: assms(3) seq_holds_def head_or_append)
  have "link_in n c (last_or None xs) (head_or ys None) (snd (snd v)) i = snd (snd v) i"
    if "i \<in> seq_free v" "i \<noteq> c" for i
    using that(2) seq_free_owned [OF assms(1) that(1)]
    by (intro link_in_other) (auto dest: last_or_in head_or_in)
  moreover have "i \<in> seq_free v \<and> i \<noteq> c" if free: "i \<in> seq_free v'" for i
  proof (cases "i \<in> set (xs @ ys)")
    case True
    then obtain nx pv where "snd (snd v) i = Some (Some n, nx, pv)"
      using seq_holds_owned [OF assms(1)] by blast
    then show ?thesis using free by (auto simp: seq_free_def assms(3) link_in_def split: if_splits)
  next
    case False
    then have "Some i \<noteq> last_or None xs" "Some i \<noteq> head_or ys None" by (auto dest: last_or_in head_or_in)
    then show ?thesis using free by (auto simp: seq_free_def assms(3) link_in_def split: if_splits)
  qed
  moreover have "i \<in> seq_free v'" if "i \<in> seq_free v" "i \<noteq> c" for i
    using calculation(1) [OF that] that(1) by (simp add: seq_free_def assms(3))
  ultimately show "seq_free v' = seq_free v - {c}" by blast
qed

lemma seq_link_out:
  assumes "seq_holds n v (xs @ c # ys)"
    and "fst v' = head_or (xs @ ys) None" "xs @ ys \<noteq> [] \<Longrightarrow> fst (snd v') = Some (last (xs @ ys))"
    and "snd (snd v') = link_out c (last_or None xs) (head_or ys None) (snd (snd v))"
  shows "seq_holds n v' (xs @ ys)" "seq_free v' = insert c (seq_free v)"
proof -
  show "seq_holds n v' (xs @ ys)"
    using assms seg_link_out [of n "snd (snd v)" xs c ys] by (simp add: seq_holds_def)
  have "link_out c (last_or None xs) (head_or ys None) (snd (snd v)) i = snd (snd v) i"
    if "i \<in> seq_free v" for i
    using seq_free_owned [OF assms(1) that] by (intro link_out_other) (auto dest: last_or_in head_or_in)
  moreover have "i \<in> insert c (seq_free v)" if free: "i \<in> seq_free v'" for i
  proof (cases "i \<in> set (xs @ c # ys)")
    case True
    then obtain nx pv where "snd (snd v) i = Some (Some n, nx, pv)"
      using seq_holds_owned [OF assms(1)] by blast
    then show ?thesis using free by (auto simp: seq_free_def assms(4) link_out_def split: if_splits)
  next
    case False
    then have "Some i \<noteq> last_or None xs" "Some i \<noteq> head_or ys None" by (auto dest: last_or_in head_or_in)
    then show ?thesis using free by (auto simp: seq_free_def assms(4) link_out_def split: if_splits)
  qed
  moreover have "c \<in> seq_free v'"
    using assms(1) seg_owned [of n "snd (snd v)" None "xs @ c # ys" None c]
    by (auto simp: seq_free_def assms(4) link_out_def seq_holds_def)
  moreover have "i \<in> seq_free v'" if "i \<in> seq_free v" for i
    using calculation(1) [OF that] that by (simp add: seq_free_def assms(4))
  ultimately show "seq_free v' = insert c (seq_free v)" by blast
qed

section \<open>The contract\<close>

datatype seq_op =
    PrependEntry nat
  | AppendEntry nat
  | InsertEntry "nat option" nat
  | RemoveEntry nat
  | RemoveFirst
  | RemoveLast

text \<open>An entry before another one, or at the end.\<close>

definition insert_before :: "nat option \<Rightarrow> nat \<Rightarrow> nat list \<Rightarrow> nat list" where
  "insert_before place c xs =
     takeWhile (\<lambda>x. Some x \<noteq> place) xs @ c # dropWhile (\<lambda>x. Some x \<noteq> place) xs"

lemma insert_before_None: "insert_before None c xs = xs @ [c]"
  by (induction xs) (simp_all add: insert_before_def)

text \<open>
  A call on the list and the set of entries without an owner: \<open>None\<close> where the
  assertions of the code refuse it.
\<close>

fun seq_apply :: "seq_op \<Rightarrow> nat list \<times> nat set \<Rightarrow> (nat list \<times> nat set) option" where
  "seq_apply (PrependEntry c) (xs, C) = (if c \<in> C then Some (c # xs, C - {c}) else None)"
| "seq_apply (AppendEntry c) (xs, C) = (if c \<in> C then Some (xs @ [c], C - {c}) else None)"
| "seq_apply (InsertEntry place c) (xs, C) =
     (if c \<in> C \<and> (case place of None \<Rightarrow> True | Some w \<Rightarrow> w \<in> set xs)
      then Some (insert_before place c xs, C - {c}) else None)"
| "seq_apply (RemoveEntry c) (xs, C) = (if c \<in> set xs then Some (remove1 c xs, insert c C) else None)"
| "seq_apply RemoveFirst (xs, C) = (if xs = [] then None else Some (tl xs, insert (hd xs) C))"
| "seq_apply RemoveLast (xs, C) = (if xs = [] then None else Some (butlast xs, insert (last xs) C))"

fun seq_apply_all :: "seq_op list \<Rightarrow> nat list \<times> nat set \<Rightarrow> (nat list \<times> nat set) option" where
  "seq_apply_all [] st = Some st"
| "seq_apply_all (q # qs) st = (case seq_apply q st of None \<Rightarrow> None | Some st \<Rightarrow> seq_apply_all qs st)"

locale owned_sequence =
  fixes view :: "'s \<Rightarrow> nat \<Rightarrow> seq_view"
    and prepend append :: "'s \<Rightarrow> nat \<Rightarrow> nat option \<Rightarrow> 's result"
    and insert_at :: "'s \<Rightarrow> nat \<Rightarrow> nat option \<Rightarrow> nat option \<Rightarrow> 's result"
    and remove :: "'s \<Rightarrow> nat \<Rightarrow> nat option \<Rightarrow> 's result"
    and remove_first remove_last :: "'s \<Rightarrow> nat \<Rightarrow> 's result"
    and has_node :: "'s \<Rightarrow> nat \<Rightarrow> bool"
  assumes prepend_ok: "\<lbrakk>has_node s n; seq_holds n (view s n) xs; c \<in> seq_free (view s n)\<rbrakk> \<Longrightarrow>
      \<exists>s'. prepend s n (Some c) = Ok s' \<and> has_node s' n \<and> seq_holds n (view s' n) (c # xs) \<and>
        seq_free (view s' n) = seq_free (view s n) - {c}"
    and append_ok: "\<lbrakk>has_node s n; seq_holds n (view s n) xs; c \<in> seq_free (view s n)\<rbrakk> \<Longrightarrow>
      \<exists>s'. append s n (Some c) = Ok s' \<and> has_node s' n \<and> seq_holds n (view s' n) (xs @ [c]) \<and>
        seq_free (view s' n) = seq_free (view s n) - {c}"
    and insert_ok: "\<lbrakk>has_node s n; seq_holds n (view s n) (xs @ w # ys); c \<in> seq_free (view s n)\<rbrakk> \<Longrightarrow>
      \<exists>s'. insert_at s n (Some w) (Some c) = Ok s' \<and> has_node s' n \<and> seq_holds n (view s' n) (xs @ c # w # ys) \<and>
        seq_free (view s' n) = seq_free (view s n) - {c}"
    and insert_end_ok: "\<lbrakk>has_node s n; seq_holds n (view s n) xs; c \<in> seq_free (view s n)\<rbrakk> \<Longrightarrow>
      \<exists>s'. insert_at s n None (Some c) = Ok s' \<and> has_node s' n \<and> seq_holds n (view s' n) (xs @ [c]) \<and>
        seq_free (view s' n) = seq_free (view s n) - {c}"
    and remove_ok: "\<lbrakk>has_node s n; seq_holds n (view s n) (xs @ c # ys)\<rbrakk> \<Longrightarrow>
      \<exists>s'. remove s n (Some c) = Ok s' \<and> has_node s' n \<and> seq_holds n (view s' n) (xs @ ys) \<and>
        seq_free (view s' n) = insert c (seq_free (view s n))"
    and remove_first_ok: "\<lbrakk>has_node s n; seq_holds n (view s n) (c # xs)\<rbrakk> \<Longrightarrow>
      \<exists>s'. remove_first s n = Ok s' \<and> has_node s' n \<and> seq_holds n (view s' n) xs \<and>
        seq_free (view s' n) = insert c (seq_free (view s n))"
    and remove_last_ok: "\<lbrakk>has_node s n; seq_holds n (view s n) (xs @ [c])\<rbrakk> \<Longrightarrow>
      \<exists>s'. remove_last s n = Ok s' \<and> has_node s' n \<and> seq_holds n (view s' n) xs \<and>
        seq_free (view s' n) = insert c (seq_free (view s n))"

text \<open>The calls of a provider, and a history of them.\<close>

type_synonym 's seq_calls =
  "('s \<Rightarrow> nat \<Rightarrow> nat option \<Rightarrow> 's result) \<times> ('s \<Rightarrow> nat \<Rightarrow> nat option \<Rightarrow> 's result) \<times>
   ('s \<Rightarrow> nat \<Rightarrow> nat option \<Rightarrow> nat option \<Rightarrow> 's result) \<times> ('s \<Rightarrow> nat \<Rightarrow> nat option \<Rightarrow> 's result) \<times>
   ('s \<Rightarrow> nat \<Rightarrow> 's result) \<times> ('s \<Rightarrow> nat \<Rightarrow> 's result)"

fun seq_call :: "'s seq_calls \<Rightarrow> 's \<Rightarrow> nat \<Rightarrow> seq_op \<Rightarrow> 's result" where
  "seq_call (prep, app, ins, rem, rf, rl) s n (PrependEntry c) = prep s n (Some c)"
| "seq_call (prep, app, ins, rem, rf, rl) s n (AppendEntry c) = app s n (Some c)"
| "seq_call (prep, app, ins, rem, rf, rl) s n (InsertEntry place c) = ins s n place (Some c)"
| "seq_call (prep, app, ins, rem, rf, rl) s n (RemoveEntry c) = rem s n (Some c)"
| "seq_call (prep, app, ins, rem, rf, rl) s n RemoveFirst = rf s n"
| "seq_call (prep, app, ins, rem, rf, rl) s n RemoveLast = rl s n"

fun seq_calls :: "'s seq_calls \<Rightarrow> 's \<Rightarrow> nat \<Rightarrow> seq_op list \<Rightarrow> 's result" where
  "seq_calls cs s n [] = Ok s"
| "seq_calls cs s n (q # qs) = bind_result (seq_call cs s n q) (\<lambda>s. seq_calls cs s n qs)"

context owned_sequence begin

lemma call_ok:
  assumes "has_node s n" "seq_holds n (view s n) xs" "C \<subseteq> seq_free (view s n)" "seq_apply q (xs, C) = Some (ys, D)"
  shows "\<exists>s'. seq_call (prepend, append, insert_at, remove, remove_first, remove_last) s n q = Ok s' \<and>
    has_node s' n \<and> seq_holds n (view s' n) ys \<and> D \<subseteq> seq_free (view s' n)"
proof (cases q)
  case (PrependEntry c)
  then show ?thesis using prepend_ok [OF assms(1,2), of c] assms(3,4) by (fastforce split: if_splits)
next
  case (AppendEntry c)
  then show ?thesis using append_ok [OF assms(1,2), of c] assms(3,4) by (fastforce split: if_splits)
next
  case (InsertEntry place c)
  show ?thesis
  proof (cases place)
    case None
    then have "ys = xs @ [c]" "D = C - {c}" "c \<in> C"
      using InsertEntry assms(4) by (auto simp: insert_before_None split: if_splits)
    then show ?thesis using InsertEntry None insert_end_ok [OF assms(1,2), of c] assms(3) by fastforce
  next
    case (Some w)
    then have w: "w \<in> set xs" using InsertEntry assms(4) by (auto split: if_splits)
    then obtain a b where xs: "xs = a @ w # b" "w \<notin> set a" by (meson split_list_first)
    then have "insert_before (Some w) c xs = a @ c # w # b"
      unfolding insert_before_def xs(1) using xs(2)
      by (subst takeWhile_append2, blast, subst dropWhile_append2) auto
    then have "ys = a @ c # w # b" "D = C - {c}" "c \<in> C"
      using InsertEntry Some assms(4) by (auto split: if_splits)
    then show ?thesis
      using InsertEntry Some insert_ok [OF assms(1) assms(2) [unfolded xs(1)], of c] assms(3) by fastforce
  qed
next
  case (RemoveEntry c)
  then have "c \<in> set xs" using assms(4) by (auto split: if_splits)
  then obtain a b where xs: "xs = a @ c # b" "c \<notin> set a" by (meson split_list_first)
  then have "remove1 c xs = a @ b" by (simp add: remove1_append)
  then show ?thesis using RemoveEntry remove_ok [OF assms(1) assms(2) [unfolded xs(1)]] assms(3,4) xs
    by (fastforce split: if_splits)
next
  case RemoveFirst
  then show ?thesis using remove_first_ok [OF assms(1), of "hd xs" "tl xs"] assms(2,3,4)
    by (fastforce split: if_splits)
next
  case RemoveLast
  then show ?thesis using remove_last_ok [OF assms(1), of "butlast xs" "last xs"] assms(2,3,4)
    by (fastforce split: if_splits)
qed

lemma history:
  assumes "has_node s n" "seq_holds n (view s n) xs" "C \<subseteq> seq_free (view s n)" "seq_apply_all qs (xs, C) = Some (ys, D)"
  shows "\<exists>s'. seq_calls (prepend, append, insert_at, remove, remove_first, remove_last) s n qs = Ok s' \<and>
    has_node s' n \<and> seq_holds n (view s' n) ys"
  using assms
proof (induction qs arbitrary: s xs C)
  case (Cons q qs)
  then obtain zs E where q: "seq_apply q (xs, C) = Some (zs, E)" "seq_apply_all qs (zs, E) = Some (ys, D)"
    by (auto split: option.splits)
  obtain s' where "seq_call (prepend, append, insert_at, remove, remove_first, remove_last) s n q = Ok s'"
      "has_node s' n" "seq_holds n (view s' n) zs" "E \<subseteq> seq_free (view s' n)"
    using call_ok [OF Cons.prems(1-3) q(1)] by blast
  then show ?case using Cons.IH [of s' zs E] q(2) by simp
qed simp

end

end
