(* ===== verification/Xml_Siblings.thy ===== *)
theory Xml_Siblings
  imports Xml_Links
begin

text \<open>
  The children of a node, and its attributes, meet the contract of \<open>Xml_Links\<close>; so any
  history of calls the assertions allow leaves the list it describes, forwards and
  backwards.
\<close>

section \<open>Children\<close>

text \<open>A node of type document is never a child, so it has no links here.\<close>

definition child_link :: "ndm_xml_document_t \<Rightarrow> nat \<Rightarrow> nat \<Rightarrow> link option" where
  "child_link d n i =
     (if i = n then None
      else case doc_nodes d i of
        None \<Rightarrow> None
      | Some r \<Rightarrow>
          if nd_type r = NDM_XML_NODE_TYPE_DOCUMENT then None
          else Some (nd_parent r, nd_next_sibling r, nd_prev_sibling r))"

definition child_view :: "ndm_xml_document_t \<Rightarrow> nat \<Rightarrow> seq_view" where
  "child_view d n =
     (case doc_nodes d n of
        None \<Rightarrow> (None, None, \<lambda>_. None)
      | Some r \<Rightarrow> (nd_first_child r, nd_last_child r, child_link d n))"

definition has_node :: "ndm_xml_document_t \<Rightarrow> nat \<Rightarrow> bool" where
  "has_node d n \<longleftrightarrow> doc_nodes d n \<noteq> None"

lemma child_link_Some: "child_link d n i = Some (own, nx, pv) \<longleftrightarrow>
  (i \<noteq> n \<and> (\<exists>r. doc_nodes d i = Some r \<and> nd_type r \<noteq> NDM_XML_NODE_TYPE_DOCUMENT \<and>
    nd_parent r = own \<and> nd_next_sibling r = nx \<and> nd_prev_sibling r = pv))"
  by (auto simp: child_link_def split: option.splits if_splits)

lemma child_free:
  assumes "has_node d n" "c \<in> seq_free (child_view d n)"
  shows "c \<noteq> n \<and> (\<exists>r. doc_nodes d c = Some r \<and> nd_type r \<noteq> NDM_XML_NODE_TYPE_DOCUMENT \<and> nd_parent r = None)"
  using assms by (auto simp: seq_free_def child_view_def has_node_def child_link_Some)

lemma child_owned:
  assumes "has_node d n" "seq_holds n (child_view d n) xs" "c \<in> set xs"
  shows "c \<noteq> n \<and> (\<exists>r. doc_nodes d c = Some r \<and> nd_type r \<noteq> NDM_XML_NODE_TYPE_DOCUMENT \<and> nd_parent r = Some n)"
  using seq_holds_owned [OF assms(2,3)] assms(1) by (auto simp: child_view_def has_node_def child_link_Some)

lemma child_first:
  "has_node d n \<Longrightarrow> seq_holds n (child_view d n) xs \<Longrightarrow>
   \<exists>r. doc_nodes d n = Some r \<and> nd_first_child r = head_or xs None \<and> (xs \<noteq> [] \<longrightarrow> nd_last_child r = Some (last xs))"
  by (auto simp: has_node_def seq_holds_def child_view_def)

lemma children_prepend_ok:
  assumes n: "has_node d n" and h: "seq_holds n (child_view d n) xs" and c: "c \<in> seq_free (child_view d n)"
  shows "\<exists>d'. ndm_xml_node_prepend_child d n (Some c) = Ok d' \<and> has_node d' n \<and>
    seq_holds n (child_view d' n) (c # xs) \<and> seq_free (child_view d' n) = seq_free (child_view d n) - {c}"
proof -
  obtain r where r: "doc_nodes d n = Some r" "nd_first_child r = head_or xs None"
      "xs \<noteq> [] \<longrightarrow> nd_last_child r = Some (last xs)" using child_first [OF n h] by blast
  obtain cr where cr: "c \<noteq> n" "doc_nodes d c = Some cr" "nd_type cr \<noteq> NDM_XML_NODE_TYPE_DOCUMENT" "nd_parent cr = None"
    using child_free [OF n c] by blast
  have cx: "c \<notin> set xs" using seq_free_owned [OF h c] .
  have "\<exists>d'. ndm_xml_node_prepend_child d n (Some c) = Ok d' \<and> has_node d' n \<and>
    child_view d' n = (Some c, Some (last (c # xs)), link_in n c None (head_or xs None) (child_link d n))"
  proof (cases xs)
    case Nil
    then show ?thesis using r cr
      by (auto simp: ndm_xml_node_prepend_child_def can_link_def put_node_def child_view_def has_node_def
          link_in_def child_link_def fun_eq_iff)
  next
    case (Cons f fs)
    obtain fr where "f \<noteq> n" "doc_nodes d f = Some fr" "nd_type fr \<noteq> NDM_XML_NODE_TYPE_DOCUMENT" "nd_parent fr = Some n"
      using child_owned [OF n h, of f] Cons by auto
    then show ?thesis using r cr cx Cons
      by (auto simp: ndm_xml_node_prepend_child_def can_link_def put_node_def child_view_def has_node_def
          link_in_def child_link_def fun_eq_iff)
  qed
  then obtain d' where d': "ndm_xml_node_prepend_child d n (Some c) = Ok d'" "has_node d' n"
    "child_view d' n = (Some c, Some (last (c # xs)), link_in n c None (head_or xs None) (child_link d n))" by blast
  have "child_view d n = (nd_first_child r, nd_last_child r, child_link d n)" by (simp add: child_view_def r(1))
  then show ?thesis
    using seq_link_in [of n "child_view d n" "[]" xs c "child_view d' n"] h c d' by simp
qed

lemma head_or_hd: "xs \<noteq> [] \<Longrightarrow> head_or (xs @ ys) q = Some (hd xs)" "xs \<noteq> [] \<Longrightarrow> head_or xs q = Some (hd xs)"
  by (cases xs; simp)+

lemma child_view_eq:
  "doc_nodes d n = Some r \<Longrightarrow> child_view d n = (nd_first_child r, nd_last_child r, child_link d n)"
  by (simp add: child_view_def)

lemma children_append_ok:
  assumes n: "has_node d n" and h: "seq_holds n (child_view d n) xs" and c: "c \<in> seq_free (child_view d n)"
  shows "\<exists>d'. ndm_xml_node_append_child d n (Some c) = Ok d' \<and> has_node d' n \<and>
    seq_holds n (child_view d' n) (xs @ [c]) \<and> seq_free (child_view d' n) = seq_free (child_view d n) - {c}"
proof -
  obtain r where r: "doc_nodes d n = Some r" "nd_first_child r = head_or xs None"
      "xs \<noteq> [] \<longrightarrow> nd_last_child r = Some (last xs)" using child_first [OF n h] by blast
  obtain cr where cr: "c \<noteq> n" "doc_nodes d c = Some cr" "nd_type cr \<noteq> NDM_XML_NODE_TYPE_DOCUMENT" "nd_parent cr = None"
    using child_free [OF n c] by blast
  have cx: "c \<notin> set xs" using seq_free_owned [OF h c] .
  have "\<exists>d'. ndm_xml_node_append_child d n (Some c) = Ok d' \<and> has_node d' n \<and>
    child_view d' n = (head_or (xs @ [c]) None, Some c, link_in n c (last_or None xs) None (child_link d n))"
  proof (cases xs rule: rev_cases)
    case Nil
    then show ?thesis using r cr
      by (auto simp: ndm_xml_node_append_child_def can_link_def put_node_def child_view_def has_node_def
          link_in_def child_link_def fun_eq_iff)
  next
    case (snoc zs l)
    obtain lr where l: "l \<noteq> n" "doc_nodes d l = Some lr" "nd_type lr \<noteq> NDM_XML_NODE_TYPE_DOCUMENT" "nd_parent lr = Some n"
      using child_owned [OF n h, of l] snoc by auto
    define f where "f = hd xs"
    have "xs \<noteq> []" using snoc by simp
    then have f: "head_or xs None = Some f" "head_or (xs @ [c]) None = Some f"
      by (simp_all add: head_or_hd f_def)
    show ?thesis using r cr cx snoc l f
      by (auto simp: ndm_xml_node_append_child_def can_link_def put_node_def child_view_def has_node_def
          link_in_def child_link_def fun_eq_iff)
  qed
  then show ?thesis
    using seq_link_in [of n "child_view d n" xs "[]" c] h c child_view_eq [OF r(1)] by fastforce
qed

lemma children_insert_ok:
  assumes n: "has_node d n" and h: "seq_holds n (child_view d n) (xs @ w # ys)" and c: "c \<in> seq_free (child_view d n)"
  shows "\<exists>d'. ndm_xml_node_insert_child d n (Some w) (Some c) = Ok d' \<and> has_node d' n \<and>
    seq_holds n (child_view d' n) (xs @ c # w # ys) \<and> seq_free (child_view d' n) = seq_free (child_view d n) - {c}"
proof -
  obtain r where r: "doc_nodes d n = Some r" "nd_first_child r = head_or (xs @ w # ys) None"
      "nd_last_child r = Some (last (xs @ w # ys))" using child_first [OF n h] by auto
  obtain cr where cr: "c \<noteq> n" "doc_nodes d c = Some cr" "nd_type cr \<noteq> NDM_XML_NODE_TYPE_DOCUMENT" "nd_parent cr = None"
    using child_free [OF n c] by blast
  obtain wr where w: "w \<noteq> n" "doc_nodes d w = Some wr" "nd_type wr \<noteq> NDM_XML_NODE_TYPE_DOCUMENT" "nd_parent wr = Some n"
    using child_owned [OF n h, of w] by auto
  have cx: "c \<notin> set (xs @ w # ys)" using seq_free_owned [OF h c] .
  have link: "can_link d (Some c)" using cr by (simp add: can_link_def)
  show ?thesis
  proof (cases xs rule: rev_cases)
    case Nil
    then have "ndm_xml_node_insert_child d n (Some w) (Some c) = ndm_xml_node_prepend_child d n (Some c)"
      using r w link by (simp add: ndm_xml_node_insert_child_def)
    then show ?thesis using children_prepend_ok [OF n h c] Nil by simp
  next
    case (snoc zs l)
    have l: "l \<noteq> n" "l \<noteq> w" "l \<noteq> c" using child_owned [OF n h, of l] snoc h cx by (auto simp: seq_holds_def)
    obtain lr where lr: "doc_nodes d l = Some lr" "nd_type lr \<noteq> NDM_XML_NODE_TYPE_DOCUMENT" "nd_parent lr = Some n"
      using child_owned [OF n h, of l] snoc by auto
    have pv: "nd_prev_sibling wr = Some l"
      using h w n by (simp add: seq_holds_def snoc seg_append child_view_def r(1) child_link_def)
    define f where "f = hd xs"
    have "xs \<noteq> []" using snoc by simp
    then have f: "nd_first_child r = Some f" "f \<in> set xs" "head_or (xs @ [c]) None = Some f"
      by (simp_all add: head_or_hd f_def r(2))
    then have fw: "f \<noteq> w" using h by (auto simp: seq_holds_def)
    have "\<exists>d'. ndm_xml_node_insert_child d n (Some w) (Some c) = Ok d' \<and> has_node d' n \<and>
      child_view d' n = (Some f, Some (last (xs @ w # ys)), link_in n c (Some l) (Some w) (child_link d n))"
      using r(1,3) cr cx w l lr pv f(1) fw link
      by (auto simp: ndm_xml_node_insert_child_def Let_def put_node_def child_view_def has_node_def
          link_in_def child_link_def fun_eq_iff)
    then show ?thesis
      using seq_link_in [of n "child_view d n" xs "w # ys" c] h c child_view_eq [OF r(1)] f snoc by fastforce
  qed
qed

lemma children_insert_end_ok:
  assumes n: "has_node d n" and h: "seq_holds n (child_view d n) xs" and c: "c \<in> seq_free (child_view d n)"
  shows "\<exists>d'. ndm_xml_node_insert_child d n None (Some c) = Ok d' \<and> has_node d' n \<and>
    seq_holds n (child_view d' n) (xs @ [c]) \<and> seq_free (child_view d' n) = seq_free (child_view d n) - {c}"
proof -
  obtain r where r: "doc_nodes d n = Some r" "nd_first_child r = head_or xs None" using child_first [OF n h] by blast
  have "can_link d (Some c)" using child_free [OF n c] by (auto simp: can_link_def)
  then have "ndm_xml_node_insert_child d n None (Some c) =
      (if xs = [] then ndm_xml_node_prepend_child d n (Some c) else ndm_xml_node_append_child d n (Some c))"
    using r by (cases xs) (simp_all add: ndm_xml_node_insert_child_def)
  then show ?thesis using children_prepend_ok [OF n h c] children_append_ok [OF n h c]
    by (cases "xs = []") simp_all
qed

lemma child_at:
  assumes "has_node d n" "seq_holds n (child_view d n) (xs @ c # ys)"
  shows "\<exists>r. doc_nodes d c = Some r \<and> c \<noteq> n \<and> nd_type r \<noteq> NDM_XML_NODE_TYPE_DOCUMENT \<and> nd_parent r = Some n \<and>
    nd_next_sibling r = head_or ys None \<and> nd_prev_sibling r = last_or None xs"
  using assms by (auto simp: has_node_def seq_holds_def seg_append child_view_def child_link_Some)

lemma children_remove_first_ok:
  assumes n: "has_node d n" and h: "seq_holds n (child_view d n) (c # xs)"
  shows "\<exists>d'. ndm_xml_node_remove_first_child d n = Ok d' \<and> has_node d' n \<and>
    seq_holds n (child_view d' n) xs \<and> seq_free (child_view d' n) = insert c (seq_free (child_view d n))"
proof -
  obtain r where r: "doc_nodes d n = Some r" "nd_first_child r = Some c"
      "nd_last_child r = Some (last (c # xs))" using child_first [OF n h] by auto
  obtain cr where cr: "doc_nodes d c = Some cr" "c \<noteq> n" "nd_type cr \<noteq> NDM_XML_NODE_TYPE_DOCUMENT"
      "nd_parent cr = Some n" "nd_next_sibling cr = head_or xs None"
    using child_at [OF n, of "[]" c xs] h by auto
  have "\<exists>d'. ndm_xml_node_remove_first_child d n = Ok d' \<and> has_node d' n \<and>
    child_view d' n = (head_or xs None, if xs = [] then None else Some (last xs),
      link_out c None (head_or xs None) (child_link d n))"
  proof (cases xs)
    case Nil
    then show ?thesis using r cr
      by (auto simp: ndm_xml_node_remove_first_child_def put_node_def child_view_def has_node_def
          link_out_def child_link_def fun_eq_iff)
  next
    case (Cons s zs)
    have s: "s \<noteq> c" using h Cons by (simp add: seq_holds_def)
    obtain sr where "doc_nodes d s = Some sr" "s \<noteq> n" "nd_type sr \<noteq> NDM_XML_NODE_TYPE_DOCUMENT" "nd_parent sr = Some n"
      using child_at [OF n, of "[c]" s zs] h Cons by auto
    then show ?thesis using r cr s Cons
      by (auto simp: ndm_xml_node_remove_first_child_def put_node_def child_view_def has_node_def
          link_out_def child_link_def fun_eq_iff)
  qed
  then obtain d' where d': "ndm_xml_node_remove_first_child d n = Ok d'" "has_node d' n"
    "child_view d' n = (head_or xs None, if xs = [] then None else Some (last xs),
      link_out c None (head_or xs None) (child_link d n))" by blast
  then show ?thesis
    using seq_link_out [of n "child_view d n" "[]" c xs "child_view d' n"] h child_view_eq [OF r(1)] by simp
qed

text \<open>The last pointer is left as it was when the only child is removed.\<close>

lemma children_remove_last_ok:
  assumes n: "has_node d n" and h: "seq_holds n (child_view d n) (xs @ [c])"
  shows "\<exists>d'. ndm_xml_node_remove_last_child d n = Ok d' \<and> has_node d' n \<and>
    seq_holds n (child_view d' n) xs \<and> seq_free (child_view d' n) = insert c (seq_free (child_view d n))"
proof -
  obtain r where r: "doc_nodes d n = Some r" "nd_first_child r = head_or (xs @ [c]) None"
      "nd_last_child r = Some c" using child_first [OF n h] by auto
  obtain cr where cr: "doc_nodes d c = Some cr" "c \<noteq> n" "nd_type cr \<noteq> NDM_XML_NODE_TYPE_DOCUMENT"
      "nd_parent cr = Some n" "nd_prev_sibling cr = last_or None xs"
    using child_at [OF n, of xs c "[]"] h by auto
  have "\<exists>d'. ndm_xml_node_remove_last_child d n = Ok d' \<and> has_node d' n \<and>
    child_view d' n = (head_or xs None, if xs = [] then Some c else Some (last xs),
      link_out c (last_or None xs) None (child_link d n))"
  proof (cases xs rule: rev_cases)
    case Nil
    then show ?thesis using r cr
      by (auto simp: ndm_xml_node_remove_last_child_def put_node_def child_view_def has_node_def
          link_out_def child_link_def fun_eq_iff)
  next
    case (snoc zs p)
    have p: "p \<noteq> c" using h snoc by (simp add: seq_holds_def)
    have ne: "xs \<noteq> []" using snoc by simp
    obtain pr where "doc_nodes d p = Some pr" "p \<noteq> n" "nd_type pr \<noteq> NDM_XML_NODE_TYPE_DOCUMENT" "nd_parent pr = Some n"
      using child_at [OF n, of zs p "[c]"] h snoc by auto
    then show ?thesis using r cr p snoc head_or_hd [OF ne]
      by (auto simp: ndm_xml_node_remove_last_child_def put_node_def child_view_def has_node_def
          link_out_def child_link_def fun_eq_iff)
  qed
  then obtain d' where d': "ndm_xml_node_remove_last_child d n = Ok d'" "has_node d' n"
    "child_view d' n = (head_or xs None, if xs = [] then Some c else Some (last xs),
      link_out c (last_or None xs) None (child_link d n))" by blast
  then show ?thesis
    using seq_link_out [of n "child_view d n" xs c "[]" "child_view d' n"] h child_view_eq [OF r(1)] by simp
qed

lemma children_remove_ok:
  assumes n: "has_node d n" and h: "seq_holds n (child_view d n) (xs @ c # ys)"
  shows "\<exists>d'. ndm_xml_node_remove_child d n (Some c) = Ok d' \<and> has_node d' n \<and>
    seq_holds n (child_view d' n) (xs @ ys) \<and> seq_free (child_view d' n) = insert c (seq_free (child_view d n))"
proof -
  obtain r where r: "doc_nodes d n = Some r" "nd_first_child r = head_or (xs @ c # ys) None"
      "nd_last_child r = Some (last (xs @ c # ys))" using child_first [OF n h] by auto
  obtain cr where cr: "doc_nodes d c = Some cr" "c \<noteq> n" "nd_type cr \<noteq> NDM_XML_NODE_TYPE_DOCUMENT"
      "nd_parent cr = Some n" "nd_next_sibling cr = head_or ys None" "nd_prev_sibling cr = last_or None xs"
    using child_at [OF n h] by blast
  have dist: "distinct (xs @ c # ys)" using h by (simp add: seq_holds_def)
  show ?thesis
  proof (cases xs rule: rev_cases)
    case Nil
    then have "ndm_xml_node_remove_child d n (Some c) = ndm_xml_node_remove_first_child d n"
      using r cr by (simp add: ndm_xml_node_remove_child_def)
    then show ?thesis using children_remove_first_ok [OF n, of c ys] h Nil by simp
  next
    case xs: (snoc zs p)
    define f where "f = hd xs"
    have "xs \<noteq> []" using xs by simp
    then have "head_or (xs @ c # ys) None = Some f" "f \<in> set xs" by (simp_all add: head_or_hd f_def)
    then have f: "nd_first_child r = Some f" "c \<noteq> f" using r(2) dist by auto
    show ?thesis
    proof (cases ys)
      case Nil
      then have "ndm_xml_node_remove_child d n (Some c) = ndm_xml_node_remove_last_child d n"
        using r(1,3) cr f by (simp add: ndm_xml_node_remove_child_def)
      then show ?thesis using children_remove_last_ok [OF n, of xs c] h Nil by simp
    next
      case (Cons s ss)
      have ne: "p \<noteq> c" "s \<noteq> c" "p \<noteq> s" "c \<noteq> last ys" using dist xs Cons by auto
      obtain pr where p: "doc_nodes d p = Some pr" "p \<noteq> n" "nd_type pr \<noteq> NDM_XML_NODE_TYPE_DOCUMENT" "nd_parent pr = Some n"
        using child_at [OF n, of zs p "c # ys"] h xs by auto
      obtain sr where s: "doc_nodes d s = Some sr" "s \<noteq> n" "nd_type sr \<noteq> NDM_XML_NODE_TYPE_DOCUMENT" "nd_parent sr = Some n"
        using child_at [OF n, of "xs @ [c]" s ss] h Cons by auto
      have "\<exists>d'. ndm_xml_node_remove_child d n (Some c) = Ok d' \<and> has_node d' n \<and>
        child_view d' n = (Some f, Some (last ys), link_out c (Some p) (Some s) (child_link d n))"
        using r(1,3) cr f ne p s xs Cons
        by (auto simp: ndm_xml_node_remove_child_def put_node_def child_view_def has_node_def
            link_out_def child_link_def fun_eq_iff)
      then obtain d' where d': "ndm_xml_node_remove_child d n (Some c) = Ok d'" "has_node d' n"
        "child_view d' n = (Some f, Some (last ys), link_out c (Some p) (Some s) (child_link d n))" by blast
      have "head_or (xs @ ys) None = Some f" using \<open>xs \<noteq> []\<close> by (simp add: head_or_hd f_def)
      then show ?thesis
        using seq_link_out [of n "child_view d n" xs c ys "child_view d' n"] h child_view_eq [OF r(1)] d' xs Cons by simp
    qed
  qed
qed

interpretation children: owned_sequence child_view ndm_xml_node_prepend_child ndm_xml_node_append_child
    ndm_xml_node_insert_child ndm_xml_node_remove_child ndm_xml_node_remove_first_child
    ndm_xml_node_remove_last_child has_node
  by unfold_locales
    (rule children_prepend_ok children_append_ok children_insert_ok children_insert_end_ok
      children_remove_ok children_remove_first_ok children_remove_last_ok; assumption)+

section \<open>Attributes\<close>

definition attr_link :: "ndm_xml_document_t \<Rightarrow> nat \<Rightarrow> link option" where
  "attr_link d i = map_option (\<lambda>r. (at_node r, at_next r, at_prev r)) (doc_attrs d i)"

definition attr_view :: "ndm_xml_document_t \<Rightarrow> nat \<Rightarrow> seq_view" where
  "attr_view d n =
     (case doc_nodes d n of
        None \<Rightarrow> (None, None, \<lambda>_. None)
      | Some r \<Rightarrow> (nd_first_attr r, nd_last_attr r, attr_link d))"

lemma attr_link_Some: "attr_link d i = Some (own, nx, pv) \<longleftrightarrow>
  (\<exists>r. doc_attrs d i = Some r \<and> at_node r = own \<and> at_next r = nx \<and> at_prev r = pv)"
  by (auto simp: attr_link_def)

lemma attr_free:
  assumes "has_node d n" "c \<in> seq_free (attr_view d n)"
  shows "\<exists>r. doc_attrs d c = Some r \<and> at_node r = None"
  using assms by (auto simp: seq_free_def attr_view_def has_node_def attr_link_Some)

lemma attr_owned:
  assumes "has_node d n" "seq_holds n (attr_view d n) xs" "c \<in> set xs"
  shows "\<exists>r. doc_attrs d c = Some r \<and> at_node r = Some n"
  using seq_holds_owned [OF assms(2,3)] assms(1) by (auto simp: attr_view_def has_node_def attr_link_Some)

lemma attr_first:
  "has_node d n \<Longrightarrow> seq_holds n (attr_view d n) xs \<Longrightarrow>
   \<exists>r. doc_nodes d n = Some r \<and> nd_first_attr r = head_or xs None \<and> (xs \<noteq> [] \<longrightarrow> nd_last_attr r = Some (last xs))"
  by (auto simp: has_node_def seq_holds_def attr_view_def)

lemma attr_view_eq:
  "doc_nodes d n = Some r \<Longrightarrow> attr_view d n = (nd_first_attr r, nd_last_attr r, attr_link d)"
  by (simp add: attr_view_def)

lemma attr_at:
  assumes "has_node d n" "seq_holds n (attr_view d n) (xs @ c # ys)"
  shows "\<exists>r. doc_attrs d c = Some r \<and> at_node r = Some n \<and> at_next r = head_or ys None \<and> at_prev r = last_or None xs"
  using assms by (auto simp: has_node_def seq_holds_def seg_append attr_view_def attr_link_Some)

lemma attrs_prepend_ok:
  assumes n: "has_node d n" and h: "seq_holds n (attr_view d n) xs" and c: "c \<in> seq_free (attr_view d n)"
  shows "\<exists>d'. ndm_xml_node_prepend_attr d n (Some c) = Ok d' \<and> has_node d' n \<and>
    seq_holds n (attr_view d' n) (c # xs) \<and> seq_free (attr_view d' n) = seq_free (attr_view d n) - {c}"
proof -
  obtain r where r: "doc_nodes d n = Some r" "nd_first_attr r = head_or xs None"
      "xs \<noteq> [] \<longrightarrow> nd_last_attr r = Some (last xs)" using attr_first [OF n h] by blast
  obtain cr where cr: "doc_attrs d c = Some cr" "at_node cr = None"
    using attr_free [OF n c] by blast
  have cx: "c \<notin> set xs" using seq_free_owned [OF h c] .
  have "\<exists>d'. ndm_xml_node_prepend_attr d n (Some c) = Ok d' \<and> has_node d' n \<and>
    attr_view d' n = (Some c, Some (last (c # xs)), link_in n c None (head_or xs None) (attr_link d))"
  proof (cases xs)
    case Nil
    then show ?thesis using r cr
      by (auto simp: ndm_xml_node_prepend_attr_def can_link_attr_def put_node_def put_attr_def attr_view_def has_node_def
          link_in_def attr_link_def fun_eq_iff)
  next
    case (Cons f fs)
    obtain fr where "doc_attrs d f = Some fr" "at_node fr = Some n"
      using attr_owned [OF n h, of f] Cons by auto
    then show ?thesis using r cr cx Cons
      by (auto simp: ndm_xml_node_prepend_attr_def can_link_attr_def put_node_def put_attr_def attr_view_def has_node_def
          link_in_def attr_link_def fun_eq_iff)
  qed
  then obtain d' where d': "ndm_xml_node_prepend_attr d n (Some c) = Ok d'" "has_node d' n"
    "attr_view d' n = (Some c, Some (last (c # xs)), link_in n c None (head_or xs None) (attr_link d))" by blast
  have "attr_view d n = (nd_first_attr r, nd_last_attr r, attr_link d)" by (simp add: attr_view_def r(1))
  then show ?thesis
    using seq_link_in [of n "attr_view d n" "[]" xs c "attr_view d' n"] h c d' by simp
qed

lemma attrs_append_ok:
  assumes n: "has_node d n" and h: "seq_holds n (attr_view d n) xs" and c: "c \<in> seq_free (attr_view d n)"
  shows "\<exists>d'. ndm_xml_node_append_attr d n (Some c) = Ok d' \<and> has_node d' n \<and>
    seq_holds n (attr_view d' n) (xs @ [c]) \<and> seq_free (attr_view d' n) = seq_free (attr_view d n) - {c}"
proof -
  obtain r where r: "doc_nodes d n = Some r" "nd_first_attr r = head_or xs None"
      "xs \<noteq> [] \<longrightarrow> nd_last_attr r = Some (last xs)" using attr_first [OF n h] by blast
  obtain cr where cr: "doc_attrs d c = Some cr" "at_node cr = None"
    using attr_free [OF n c] by blast
  have cx: "c \<notin> set xs" using seq_free_owned [OF h c] .
  have "\<exists>d'. ndm_xml_node_append_attr d n (Some c) = Ok d' \<and> has_node d' n \<and>
    attr_view d' n = (head_or (xs @ [c]) None, Some c, link_in n c (last_or None xs) None (attr_link d))"
  proof (cases xs rule: rev_cases)
    case Nil
    then show ?thesis using r cr
      by (auto simp: ndm_xml_node_append_attr_def can_link_attr_def put_node_def put_attr_def attr_view_def has_node_def
          link_in_def attr_link_def fun_eq_iff)
  next
    case (snoc zs l)
    obtain lr where l: "doc_attrs d l = Some lr" "at_node lr = Some n"
      using attr_owned [OF n h, of l] snoc by auto
    define f where "f = hd xs"
    have "xs \<noteq> []" using snoc by simp
    then have f: "head_or xs None = Some f" "head_or (xs @ [c]) None = Some f"
      by (simp_all add: head_or_hd f_def)
    show ?thesis using r cr cx snoc l f
      by (auto simp: ndm_xml_node_append_attr_def can_link_attr_def put_node_def put_attr_def attr_view_def has_node_def
          link_in_def attr_link_def fun_eq_iff)
  qed
  then show ?thesis
    using seq_link_in [of n "attr_view d n" xs "[]" c] h c attr_view_eq [OF r(1)] by fastforce
qed

lemma attrs_insert_ok:
  assumes n: "has_node d n" and h: "seq_holds n (attr_view d n) (xs @ w # ys)" and c: "c \<in> seq_free (attr_view d n)"
  shows "\<exists>d'. ndm_xml_node_insert_attr d n (Some w) (Some c) = Ok d' \<and> has_node d' n \<and>
    seq_holds n (attr_view d' n) (xs @ c # w # ys) \<and> seq_free (attr_view d' n) = seq_free (attr_view d n) - {c}"
proof -
  obtain r where r: "doc_nodes d n = Some r" "nd_first_attr r = head_or (xs @ w # ys) None"
      "nd_last_attr r = Some (last (xs @ w # ys))" using attr_first [OF n h] by auto
  obtain cr where cr: "doc_attrs d c = Some cr" "at_node cr = None"
    using attr_free [OF n c] by blast
  obtain wr where w: "doc_attrs d w = Some wr" "at_node wr = Some n"
    using attr_owned [OF n h, of w] by auto
  have cx: "c \<notin> set (xs @ w # ys)" using seq_free_owned [OF h c] .
  have link: "can_link_attr d (Some c)" using cr by (simp add: can_link_attr_def)
  show ?thesis
  proof (cases xs rule: rev_cases)
    case Nil
    then have "ndm_xml_node_insert_attr d n (Some w) (Some c) = ndm_xml_node_prepend_attr d n (Some c)"
      using r w link by (simp add: ndm_xml_node_insert_attr_def)
    then show ?thesis using attrs_prepend_ok [OF n h c] Nil by simp
  next
    case (snoc zs l)
    have l: "l \<noteq> w" "l \<noteq> c" using attr_owned [OF n h, of l] snoc h cx by (auto simp: seq_holds_def)
    obtain lr where lr: "doc_attrs d l = Some lr" "at_node lr = Some n"
      using attr_owned [OF n h, of l] snoc by auto
    have pv: "at_prev wr = Some l"
      using h w n by (simp add: seq_holds_def snoc seg_append attr_view_def r(1) attr_link_def)
    define f where "f = hd xs"
    have "xs \<noteq> []" using snoc by simp
    then have f: "nd_first_attr r = Some f" "f \<in> set xs" "head_or (xs @ [c]) None = Some f"
      by (simp_all add: head_or_hd f_def r(2))
    then have fw: "f \<noteq> w" using h by (auto simp: seq_holds_def)
    have "\<exists>d'. ndm_xml_node_insert_attr d n (Some w) (Some c) = Ok d' \<and> has_node d' n \<and>
      attr_view d' n = (Some f, Some (last (xs @ w # ys)), link_in n c (Some l) (Some w) (attr_link d))"
      using r(1,3) cr cx w l lr pv f(1) fw link
      by (auto simp: ndm_xml_node_insert_attr_def Let_def put_node_def put_attr_def attr_view_def has_node_def
          link_in_def attr_link_def fun_eq_iff)
    then show ?thesis
      using seq_link_in [of n "attr_view d n" xs "w # ys" c] h c attr_view_eq [OF r(1)] f snoc by fastforce
  qed
qed

lemma attrs_insert_end_ok:
  assumes n: "has_node d n" and h: "seq_holds n (attr_view d n) xs" and c: "c \<in> seq_free (attr_view d n)"
  shows "\<exists>d'. ndm_xml_node_insert_attr d n None (Some c) = Ok d' \<and> has_node d' n \<and>
    seq_holds n (attr_view d' n) (xs @ [c]) \<and> seq_free (attr_view d' n) = seq_free (attr_view d n) - {c}"
proof -
  obtain r where r: "doc_nodes d n = Some r" "nd_first_attr r = head_or xs None" using attr_first [OF n h] by blast
  have "can_link_attr d (Some c)" using attr_free [OF n c] by (auto simp: can_link_attr_def)
  then have "ndm_xml_node_insert_attr d n None (Some c) =
      (if xs = [] then ndm_xml_node_prepend_attr d n (Some c) else ndm_xml_node_append_attr d n (Some c))"
    using r by (cases xs) (simp_all add: ndm_xml_node_insert_attr_def)
  then show ?thesis using attrs_prepend_ok [OF n h c] attrs_append_ok [OF n h c]
    by (cases "xs = []") simp_all
qed

lemma attrs_remove_first_ok:
  assumes n: "has_node d n" and h: "seq_holds n (attr_view d n) (c # xs)"
  shows "\<exists>d'. ndm_xml_node_remove_first_attr d n = Ok d' \<and> has_node d' n \<and>
    seq_holds n (attr_view d' n) xs \<and> seq_free (attr_view d' n) = insert c (seq_free (attr_view d n))"
proof -
  obtain r where r: "doc_nodes d n = Some r" "nd_first_attr r = Some c"
      "nd_last_attr r = Some (last (c # xs))" using attr_first [OF n h] by auto
  obtain cr where cr: "doc_attrs d c = Some cr" 
      "at_node cr = Some n" "at_next cr = head_or xs None"
    using attr_at [OF n, of "[]" c xs] h by auto
  have "\<exists>d'. ndm_xml_node_remove_first_attr d n = Ok d' \<and> has_node d' n \<and>
    attr_view d' n = (head_or xs None, if xs = [] then None else Some (last xs),
      link_out c None (head_or xs None) (attr_link d))"
  proof (cases xs)
    case Nil
    then show ?thesis using r cr
      by (auto simp: ndm_xml_node_remove_first_attr_def put_node_def put_attr_def attr_view_def has_node_def
          link_out_def attr_link_def fun_eq_iff)
  next
    case (Cons s zs)
    have s: "s \<noteq> c" using h Cons by (simp add: seq_holds_def)
    obtain sr where "doc_attrs d s = Some sr" "at_node sr = Some n"
      using attr_at [OF n, of "[c]" s zs] h Cons by auto
    then show ?thesis using r cr s Cons
      by (auto simp: ndm_xml_node_remove_first_attr_def put_node_def put_attr_def attr_view_def has_node_def
          link_out_def attr_link_def fun_eq_iff)
  qed
  then obtain d' where d': "ndm_xml_node_remove_first_attr d n = Ok d'" "has_node d' n"
    "attr_view d' n = (head_or xs None, if xs = [] then None else Some (last xs),
      link_out c None (head_or xs None) (attr_link d))" by blast
  then show ?thesis
    using seq_link_out [of n "attr_view d n" "[]" c xs "attr_view d' n"] h attr_view_eq [OF r(1)] by simp
qed

lemma attrs_remove_last_ok:
  assumes n: "has_node d n" and h: "seq_holds n (attr_view d n) (xs @ [c])"
  shows "\<exists>d'. ndm_xml_node_remove_last_attr d n = Ok d' \<and> has_node d' n \<and>
    seq_holds n (attr_view d' n) xs \<and> seq_free (attr_view d' n) = insert c (seq_free (attr_view d n))"
proof -
  obtain r where r: "doc_nodes d n = Some r" "nd_first_attr r = head_or (xs @ [c]) None"
      "nd_last_attr r = Some c" using attr_first [OF n h] by auto
  obtain cr where cr: "doc_attrs d c = Some cr" 
      "at_node cr = Some n" "at_prev cr = last_or None xs"
    using attr_at [OF n, of xs c "[]"] h by auto
  have "\<exists>d'. ndm_xml_node_remove_last_attr d n = Ok d' \<and> has_node d' n \<and>
    attr_view d' n = (head_or xs None, if xs = [] then Some c else Some (last xs),
      link_out c (last_or None xs) None (attr_link d))"
  proof (cases xs rule: rev_cases)
    case Nil
    then show ?thesis using r cr
      by (auto simp: ndm_xml_node_remove_last_attr_def put_node_def put_attr_def attr_view_def has_node_def
          link_out_def attr_link_def fun_eq_iff)
  next
    case (snoc zs p)
    have p: "p \<noteq> c" using h snoc by (simp add: seq_holds_def)
    have ne: "xs \<noteq> []" using snoc by simp
    obtain pr where "doc_attrs d p = Some pr" "at_node pr = Some n"
      using attr_at [OF n, of zs p "[c]"] h snoc by auto
    then show ?thesis using r cr p snoc head_or_hd [OF ne]
      by (auto simp: ndm_xml_node_remove_last_attr_def put_node_def put_attr_def attr_view_def has_node_def
          link_out_def attr_link_def fun_eq_iff)
  qed
  then obtain d' where d': "ndm_xml_node_remove_last_attr d n = Ok d'" "has_node d' n"
    "attr_view d' n = (head_or xs None, if xs = [] then Some c else Some (last xs),
      link_out c (last_or None xs) None (attr_link d))" by blast
  then show ?thesis
    using seq_link_out [of n "attr_view d n" xs c "[]" "attr_view d' n"] h attr_view_eq [OF r(1)] by simp
qed

lemma attrs_remove_ok:
  assumes n: "has_node d n" and h: "seq_holds n (attr_view d n) (xs @ c # ys)"
  shows "\<exists>d'. ndm_xml_node_remove_attr d n (Some c) = Ok d' \<and> has_node d' n \<and>
    seq_holds n (attr_view d' n) (xs @ ys) \<and> seq_free (attr_view d' n) = insert c (seq_free (attr_view d n))"
proof -
  obtain r where r: "doc_nodes d n = Some r" "nd_first_attr r = head_or (xs @ c # ys) None"
      "nd_last_attr r = Some (last (xs @ c # ys))" using attr_first [OF n h] by auto
  obtain cr where cr: "doc_attrs d c = Some cr" 
      "at_node cr = Some n" "at_next cr = head_or ys None" "at_prev cr = last_or None xs"
    using attr_at [OF n h] by blast
  have dist: "distinct (xs @ c # ys)" using h by (simp add: seq_holds_def)
  show ?thesis
  proof (cases xs rule: rev_cases)
    case Nil
    then have "ndm_xml_node_remove_attr d n (Some c) = ndm_xml_node_remove_first_attr d n"
      using r cr by (simp add: ndm_xml_node_remove_attr_def)
    then show ?thesis using attrs_remove_first_ok [OF n, of c ys] h Nil by simp
  next
    case xs: (snoc zs p)
    define f where "f = hd xs"
    have "xs \<noteq> []" using xs by simp
    then have "head_or (xs @ c # ys) None = Some f" "f \<in> set xs" by (simp_all add: head_or_hd f_def)
    then have f: "nd_first_attr r = Some f" "c \<noteq> f" using r(2) dist by auto
    show ?thesis
    proof (cases ys)
      case Nil
      then have "ndm_xml_node_remove_attr d n (Some c) = ndm_xml_node_remove_last_attr d n"
        using r(1,3) cr f by (simp add: ndm_xml_node_remove_attr_def)
      then show ?thesis using attrs_remove_last_ok [OF n, of xs c] h Nil by simp
    next
      case (Cons s ss)
      have ne: "p \<noteq> c" "s \<noteq> c" "p \<noteq> s" "c \<noteq> last ys" using dist xs Cons by auto
      obtain pr where p: "doc_attrs d p = Some pr" "at_node pr = Some n"
        using attr_at [OF n, of zs p "c # ys"] h xs by auto
      obtain sr where s: "doc_attrs d s = Some sr" "at_node sr = Some n"
        using attr_at [OF n, of "xs @ [c]" s ss] h Cons by auto
      have "\<exists>d'. ndm_xml_node_remove_attr d n (Some c) = Ok d' \<and> has_node d' n \<and>
        attr_view d' n = (Some f, Some (last ys), link_out c (Some p) (Some s) (attr_link d))"
        using r(1,3) cr f ne p s xs Cons
        by (auto simp: ndm_xml_node_remove_attr_def put_node_def put_attr_def attr_view_def has_node_def
            link_out_def attr_link_def fun_eq_iff)
      then obtain d' where d': "ndm_xml_node_remove_attr d n (Some c) = Ok d'" "has_node d' n"
        "attr_view d' n = (Some f, Some (last ys), link_out c (Some p) (Some s) (attr_link d))" by blast
      have "head_or (xs @ ys) None = Some f" using \<open>xs \<noteq> []\<close> by (simp add: head_or_hd f_def)
      then show ?thesis
        using seq_link_out [of n "attr_view d n" xs c ys "attr_view d' n"] h attr_view_eq [OF r(1)] d' xs Cons by simp
    qed
  qed
qed

interpretation attrs: owned_sequence attr_view ndm_xml_node_prepend_attr ndm_xml_node_append_attr
    ndm_xml_node_insert_attr ndm_xml_node_remove_attr ndm_xml_node_remove_first_attr
    ndm_xml_node_remove_last_attr has_node
  by unfold_locales
    (rule attrs_prepend_ok attrs_append_ok attrs_insert_ok attrs_insert_end_ok
      attrs_remove_ok attrs_remove_first_ok attrs_remove_last_ok; assumption)+

section \<open>Walks\<close>

text \<open>The walk of a client along one kind of pointer, to \<open>NULL\<close>.\<close>

partial_function (option) xml_walk ::
  "(nat \<Rightarrow> nat option result option) \<Rightarrow> nat option \<Rightarrow> nat list result option" where
  "xml_walk step c =
     (case c of
        None \<Rightarrow> Some (Ok [])
      | Some i \<Rightarrow>
          (case step i of
             Some (Ok nx) \<Rightarrow>
               Option.bind (xml_walk step nx) (\<lambda>r. Some (bind_result r (\<lambda>xs. Ok (i # xs))))
           | Some (Error e) \<Rightarrow> Some (Error e)
           | Some Undefined \<Rightarrow> Some Undefined
           | None \<Rightarrow> None))"

definition xml_children_forward :: "ndm_xml_document_t \<Rightarrow> nat \<Rightarrow> nat list result option" where
  "xml_children_forward d n =
     then_do (ndm_xml_node_first_child d n None) (xml_walk (\<lambda>i. ndm_xml_node_next_sibling d i None))"

definition xml_children_backward :: "ndm_xml_document_t \<Rightarrow> nat \<Rightarrow> nat list result option" where
  "xml_children_backward d n =
     then_do (ndm_xml_node_last_child d n None) (xml_walk (\<lambda>i. ndm_xml_node_prev_sibling d i None))"

definition xml_attrs_forward :: "ndm_xml_document_t \<Rightarrow> nat \<Rightarrow> nat list result option" where
  "xml_attrs_forward d n =
     then_do (ndm_xml_node_first_attr d n None) (xml_walk (\<lambda>i. ndm_xml_attr_next d i None))"

definition xml_attrs_backward :: "ndm_xml_document_t \<Rightarrow> nat \<Rightarrow> nat list result option" where
  "xml_attrs_backward d n =
     then_do (ndm_xml_node_last_attr d n None) (xml_walk (\<lambda>i. ndm_xml_attr_prev d i None))"

lemma xml_walk_list:
  "(\<And>as c bs. xs = as @ c # bs \<Longrightarrow> step c = Some (Ok (head_or bs None))) \<Longrightarrow>
   xml_walk step (head_or xs None) = Some (Ok xs)"
proof (induction xs)
  case Nil
  then show ?case by (simp add: xml_walk.simps)
next
  case (Cons x xs)
  have "xml_walk step (head_or xs None) = Some (Ok xs)"
    by (rule Cons.IH) (use Cons.prems [of "x # as" for as] in auto)
  moreover have "step x = Some (Ok (head_or xs None))" by (rule Cons.prems [of "[]"]) simp
  ultimately show ?case by (subst xml_walk.simps) simp
qed

lemma xml_walk_rev:
  assumes "\<And>as c bs. xs = as @ c # bs \<Longrightarrow> step c = Some (Ok (last_or None as))" and "xs \<noteq> []"
  shows "xml_walk step (Some (last xs)) = Some (Ok (rev xs))"
proof -
  have "xml_walk step (head_or (rev xs) None) = Some (Ok (rev xs))"
  proof (rule xml_walk_list)
    fix as c bs assume "rev xs = as @ c # bs"
    then have "xs = rev bs @ c # rev as"
      by (metis append.assoc append_Cons append_Nil rev.simps(2) rev_append rev_rev_ident)
    from assms(1) [OF this] show "step c = Some (Ok (head_or bs None))"
      by (cases bs) (simp_all add: last_or_def)
  qed
  moreover have "head_or (rev xs) None = Some (last xs)"
    using head_or_hd(2) [of "rev xs" None] assms(2) by (simp add: hd_rev)
  ultimately show ?thesis by simp
qed

lemma children_walks:
  assumes n: "has_node d n" and h: "seq_holds n (child_view d n) xs"
  shows "xml_children_forward d n = Some (Ok xs)"
    and "xs \<noteq> [] \<Longrightarrow> xml_children_backward d n = Some (Ok (rev xs))"
proof -
  obtain r where r: "doc_nodes d n = Some r" "nd_first_child r = head_or xs None"
      "xs \<noteq> [] \<longrightarrow> nd_last_child r = Some (last xs)" using child_first [OF n h] by blast
  have "ndm_xml_node_next_sibling d c None = Some (Ok (head_or bs None)) \<and>
      ndm_xml_node_prev_sibling d c None = Some (Ok (last_or None as))" if "xs = as @ c # bs" for as c bs
    using child_at [OF n, of as c bs] h that
    by (auto simp: ndm_xml_node_next_sibling_def ndm_xml_node_prev_sibling_def needing_def xml_name_is_empty_def)
  then show "xml_children_forward d n = Some (Ok xs)"
    "xs \<noteq> [] \<Longrightarrow> xml_children_backward d n = Some (Ok (rev xs))"
    using r xml_walk_list [of xs "\<lambda>i. ndm_xml_node_next_sibling d i None"]
      xml_walk_rev [of xs "\<lambda>i. ndm_xml_node_prev_sibling d i None"]
    by (simp_all add: xml_children_forward_def xml_children_backward_def ndm_xml_node_first_child_def
        ndm_xml_node_last_child_def needing_def xml_name_is_empty_def)
qed

lemma attrs_walks:
  assumes n: "has_node d n" and h: "seq_holds n (attr_view d n) xs"
  shows "xml_attrs_forward d n = Some (Ok xs)"
    and "xs \<noteq> [] \<Longrightarrow> xml_attrs_backward d n = Some (Ok (rev xs))"
proof -
  obtain r where r: "doc_nodes d n = Some r" "nd_first_attr r = head_or xs None"
      "xs \<noteq> [] \<longrightarrow> nd_last_attr r = Some (last xs)" using attr_first [OF n h] by blast
  have "ndm_xml_attr_next d c None = Some (Ok (head_or bs None)) \<and>
      ndm_xml_attr_prev d c None = Some (Ok (last_or None as))" if "xs = as @ c # bs" for as c bs
    using attr_at [OF n, of as c bs] h that
    by (auto simp: ndm_xml_attr_next_def ndm_xml_attr_prev_def needing_def xml_name_is_empty_def)
  then show "xml_attrs_forward d n = Some (Ok xs)"
    "xs \<noteq> [] \<Longrightarrow> xml_attrs_backward d n = Some (Ok (rev xs))"
    using r xml_walk_list [of xs "\<lambda>i. ndm_xml_attr_next d i None"]
      xml_walk_rev [of xs "\<lambda>i. ndm_xml_attr_prev d i None"]
    by (simp_all add: xml_attrs_forward_def xml_attrs_backward_def ndm_xml_node_first_attr_def
        ndm_xml_node_last_attr_def needing_def xml_name_is_empty_def)
qed

section \<open>Histories\<close>

definition xml_child_calls :: "ndm_xml_document_t \<Rightarrow> nat \<Rightarrow> seq_op list \<Rightarrow> ndm_xml_document_t result" where
  "xml_child_calls = seq_calls
     (ndm_xml_node_prepend_child, ndm_xml_node_append_child, ndm_xml_node_insert_child,
      ndm_xml_node_remove_child, ndm_xml_node_remove_first_child, ndm_xml_node_remove_last_child)"

definition xml_attr_calls :: "ndm_xml_document_t \<Rightarrow> nat \<Rightarrow> seq_op list \<Rightarrow> ndm_xml_document_t result" where
  "xml_attr_calls = seq_calls
     (ndm_xml_node_prepend_attr, ndm_xml_node_append_attr, ndm_xml_node_insert_attr,
      ndm_xml_node_remove_attr, ndm_xml_node_remove_first_attr, ndm_xml_node_remove_last_attr)"

text \<open>
  C11: whatever children are put before, behind or between the children of
  a node and removed again, in any order the assertions allow, every call succeeds, the walk
  along the next siblings ends and visits exactly the children that are left, in order, and
  the walk from the last child backwards visits them in reverse.
\<close>

theorem xml_children_history:
  assumes "doc_nodes d n = Some r" and "nd_first_child r = None"
    and "\<forall>c \<in> C. c \<noteq> n \<and> (\<exists>cr. doc_nodes d c = Some cr \<and> nd_parent cr = None \<and>
      nd_type cr \<noteq> NDM_XML_NODE_TYPE_DOCUMENT)"
    and "seq_apply_all ops ([], C) = Some (xs, D)"
  shows "\<exists>d'. xml_child_calls d n ops = Ok d' \<and> xml_children_forward d' n = Some (Ok xs) \<and>
    (xs \<noteq> [] \<longrightarrow> xml_children_backward d' n = Some (Ok (rev xs)))"
proof -
  have "has_node d n" "seq_holds n (child_view d n) []"
    using assms(1,2) by (simp_all add: has_node_def seq_holds_def child_view_def)
  moreover have "C \<subseteq> seq_free (child_view d n)"
    using assms(1,3) by (auto simp: seq_free_def child_view_def child_link_Some)
  ultimately show ?thesis
    using children.history [OF _ _ _ assms(4)] children_walks unfolding xml_child_calls_def by blast
qed

theorem xml_children_history_witness:
  "\<exists>d'. xml_child_calls
      (ndm_xml_document_init \<lparr>answers = \<lambda>_. True, garbage = \<lambda>_. 0\<rparr> [] 0 0
        \<lparr>doc_nodes := [0 \<mapsto> blank_node NDM_XML_NODE_TYPE_DOCUMENT, 1 \<mapsto> blank_node NDM_XML_NODE_TYPE_ELEMENT,
          2 \<mapsto> blank_node NDM_XML_NODE_TYPE_DATA, 3 \<mapsto> blank_node NDM_XML_NODE_TYPE_COMMENT]\<rparr>) 0
      [AppendEntry 1, InsertEntry (Some 1) 2, PrependEntry 3, RemoveEntry 2, AppendEntry 2, RemoveFirst] = Ok d' \<and>
    xml_children_forward d' 0 = Some (Ok [1, 2]) \<and> xml_children_backward d' 0 = Some (Ok [2, 1])"
  using xml_children_history
    [of "ndm_xml_document_init \<lparr>answers = \<lambda>_. True, garbage = \<lambda>_. 0\<rparr> [] 0 0
        \<lparr>doc_nodes := [0 \<mapsto> blank_node NDM_XML_NODE_TYPE_DOCUMENT, 1 \<mapsto> blank_node NDM_XML_NODE_TYPE_ELEMENT,
          2 \<mapsto> blank_node NDM_XML_NODE_TYPE_DATA, 3 \<mapsto> blank_node NDM_XML_NODE_TYPE_COMMENT]\<rparr>" 0
      "blank_node NDM_XML_NODE_TYPE_DOCUMENT" "{1, 2, 3}"
      "[AppendEntry 1, InsertEntry (Some 1) 2, PrependEntry 3, RemoveEntry 2, AppendEntry 2, RemoveFirst]" "[1, 2]" "{3}"]
  by (simp add: blank_node_def insert_before_def)

text \<open>
  The attributes of a node are refined by the same histories as its children.
\<close>

theorem xml_attrs_history:
  assumes "doc_nodes d n = Some r" and "nd_first_attr r = None"
    and "\<forall>a \<in> C. \<exists>ar. doc_attrs d a = Some ar \<and> at_node ar = None"
    and "seq_apply_all ops ([], C) = Some (xs, D)"
  shows "\<exists>d'. xml_attr_calls d n ops = Ok d' \<and> xml_attrs_forward d' n = Some (Ok xs) \<and>
    (xs \<noteq> [] \<longrightarrow> xml_attrs_backward d' n = Some (Ok (rev xs)))"
proof -
  have "has_node d n" "seq_holds n (attr_view d n) []"
    using assms(1,2) by (simp_all add: has_node_def seq_holds_def attr_view_def)
  moreover have "C \<subseteq> seq_free (attr_view d n)"
    using assms(1,3) by (fastforce simp: seq_free_def attr_view_def attr_link_Some)
  ultimately show ?thesis
    using attrs.history [OF _ _ _ assms(4)] attrs_walks unfolding xml_attr_calls_def by blast
qed

theorem xml_attrs_history_witness:
  "\<exists>d'. xml_attr_calls
      (ndm_xml_document_init \<lparr>answers = \<lambda>_. True, garbage = \<lambda>_. 0\<rparr> [] 0 0
        \<lparr>doc_nodes := [0 \<mapsto> blank_node NDM_XML_NODE_TYPE_ELEMENT],
         doc_attrs := [1 \<mapsto> blank_attr, 2 \<mapsto> blank_attr, 3 \<mapsto> blank_attr]\<rparr>) 0
      [AppendEntry 1, InsertEntry None 2, InsertEntry (Some 2) 3, RemoveLast] = Ok d' \<and>
    xml_attrs_forward d' 0 = Some (Ok [1, 3]) \<and> xml_attrs_backward d' 0 = Some (Ok [3, 1])"
  using xml_attrs_history
    [of "ndm_xml_document_init \<lparr>answers = \<lambda>_. True, garbage = \<lambda>_. 0\<rparr> [] 0 0
        \<lparr>doc_nodes := [0 \<mapsto> blank_node NDM_XML_NODE_TYPE_ELEMENT],
         doc_attrs := [1 \<mapsto> blank_attr, 2 \<mapsto> blank_attr, 3 \<mapsto> blank_attr]\<rparr>" 0
      "blank_node NDM_XML_NODE_TYPE_ELEMENT" "{1, 2, 3}"
      "[AppendEntry 1, InsertEntry None 2, InsertEntry (Some 2) 3, RemoveLast]" "[1, 3]" "{2}"]
  by (simp add: blank_node_def blank_attr_def insert_before_def)

end
