(* ===== verification/Xml_Parse.thy ===== *)
theory Xml_Parse
  imports Xml_Document Text_Scan
begin

text \<open>
  The in situ XML parser of \<^verbatim>\<open>src/xml.c\<close>. The text is the block \<open>doc_text\<close> of the
  document, read and rewritten by the parser: names and values are terminated where they
  stand and their nodes keep pointers to them. Every access is checked against the block.
  The loops over attributes, children and nodes take fuel; the other loops are total.
\<close>

datatype xml_code =
    NDM_XML_DOCUMENT_PARSE_ERROR_OK
  | NDM_XML_DOCUMENT_PARSE_ERROR_OOM
  | NDM_XML_DOCUMENT_PARSE_ERROR_INVALID_CHAR_ENTITY
  | NDM_XML_DOCUMENT_PARSE_ERROR_UNEXPECTED_STREAM_END
  | NDM_XML_DOCUMENT_PARSE_ERROR_UNEXPECTED_CDATA_END
  | NDM_XML_DOCUMENT_PARSE_ERROR_CLOSING_TAG
  | NDM_XML_DOCUMENT_PARSE_ERROR_NO_SEMICOLON
  | NDM_XML_DOCUMENT_PARSE_ERROR_ATTR_NAME_EXPECTED
  | NDM_XML_DOCUMENT_PARSE_ERROR_EQUAL_SIGN_EXPECTED
  | NDM_XML_DOCUMENT_PARSE_ERROR_QUOTE_EXPECTED
  | NDM_XML_DOCUMENT_PARSE_ERROR_DECL_END_EXPECTED
  | NDM_XML_DOCUMENT_PARSE_ERROR_PI_TARGET_EXPECTED
  | NDM_XML_DOCUMENT_PARSE_ERROR_NODE_NAME_EXPECTED
  | NDM_XML_DOCUMENT_PARSE_ERROR_RBRACKET_EXPECTED
  | NDM_XML_DOCUMENT_PARSE_ERROR_LBRACKET_EXPECTED

definition NDM_XML_DOCUMENT_PARSE_FLAGS_NO_DATA_NODES :: u32 where
  "NDM_XML_DOCUMENT_PARSE_FLAGS_NO_DATA_NODES = 0x0001"
definition NDM_XML_DOCUMENT_PARSE_FLAGS_NO_ELEMENT_VALUES :: u32 where
  "NDM_XML_DOCUMENT_PARSE_FLAGS_NO_ELEMENT_VALUES = 0x0002"
definition NDM_XML_DOCUMENT_PARSE_FLAGS_NO_ENTITY_TRANSLATION :: u32 where
  "NDM_XML_DOCUMENT_PARSE_FLAGS_NO_ENTITY_TRANSLATION = 0x0008"
definition NDM_XML_DOCUMENT_PARSE_FLAGS_NO_UTF8 :: u32 where
  "NDM_XML_DOCUMENT_PARSE_FLAGS_NO_UTF8 = 0x0010"
definition NDM_XML_DOCUMENT_PARSE_FLAGS_PARSE_DECLARATION_NODE :: u32 where
  "NDM_XML_DOCUMENT_PARSE_FLAGS_PARSE_DECLARATION_NODE = 0x0020"
definition NDM_XML_DOCUMENT_PARSE_FLAGS_PARSE_COMMENT_NODES :: u32 where
  "NDM_XML_DOCUMENT_PARSE_FLAGS_PARSE_COMMENT_NODES = 0x0040"
definition NDM_XML_DOCUMENT_PARSE_FLAGS_PARSE_DOCTYPE_NODE :: u32 where
  "NDM_XML_DOCUMENT_PARSE_FLAGS_PARSE_DOCTYPE_NODE = 0x0080"
definition NDM_XML_DOCUMENT_PARSE_FLAGS_PARSE_PI_NODES :: u32 where
  "NDM_XML_DOCUMENT_PARSE_FLAGS_PARSE_PI_NODES = 0x0100"
definition NDM_XML_DOCUMENT_PARSE_FLAGS_CHECK_CLOSING_TAGS :: u32 where
  "NDM_XML_DOCUMENT_PARSE_FLAGS_CHECK_CLOSING_TAGS = 0x0200"
definition NDM_XML_DOCUMENT_PARSE_FLAGS_TRIM_WHITESPACE :: u32 where
  "NDM_XML_DOCUMENT_PARSE_FLAGS_TRIM_WHITESPACE = 0x0400"
definition NDM_XML_DOCUMENT_PARSE_FLAGS_NORMALIZE_WHITESPACE :: u32 where
  "NDM_XML_DOCUMENT_PARSE_FLAGS_NORMALIZE_WHITESPACE = 0x0800"

definition NDM_XML_DOCUMENT_PARSE_FLAGS_DEFAULT :: u32 where
  "NDM_XML_DOCUMENT_PARSE_FLAGS_DEFAULT =
     NDM_XML_DOCUMENT_PARSE_FLAGS_PARSE_DECLARATION_NODE OR
     NDM_XML_DOCUMENT_PARSE_FLAGS_PARSE_COMMENT_NODES OR
     NDM_XML_DOCUMENT_PARSE_FLAGS_PARSE_DOCTYPE_NODE OR
     NDM_XML_DOCUMENT_PARSE_FLAGS_PARSE_PI_NODES OR
     NDM_XML_DOCUMENT_PARSE_FLAGS_CHECK_CLOSING_TAGS"

definition xml_flag :: "u32 \<Rightarrow> u32 \<Rightarrow> bool" where
  "xml_flag flags f \<longleftrightarrow> flags AND f \<noteq> 0"

section \<open>Classes of characters\<close>

definition xml_whitespace_pred :: "u8 \<Rightarrow> bool" where
  "xml_whitespace_pred c \<longleftrightarrow> c \<in> {32, 10, 13, 9} \<and> c \<noteq> 0"

definition xml_node_name_pred :: "u8 \<Rightarrow> bool" where
  "xml_node_name_pred c \<longleftrightarrow> c \<notin> {32, 10, 13, 9, 47, 62, 63} \<and> c \<noteq> 0"

definition xml_attr_name_pred :: "u8 \<Rightarrow> bool" where
  "xml_attr_name_pred c \<longleftrightarrow> c \<notin> {32, 10, 13, 9, 47, 60, 62, 61, 63, 33} \<and> c \<noteq> 0"

definition xml_text_pred :: "u8 \<Rightarrow> bool" where
  "xml_text_pred c \<longleftrightarrow> \<not> (c = 60 \<or> c = 0)"

definition xml_text_pure_no_ws_pred :: "u8 \<Rightarrow> bool" where
  "xml_text_pure_no_ws_pred c \<longleftrightarrow> \<not> (c = 60 \<or> c = 0 \<or> c = 38)"

definition xml_text_pure_with_ws_pred :: "u8 \<Rightarrow> bool" where
  "xml_text_pure_with_ws_pred c \<longleftrightarrow> c \<notin> {32, 10, 13, 9, 60, 38} \<and> c \<noteq> 0"

definition xml_attr_value_quote_pred :: "u8 \<Rightarrow> bool" where
  "xml_attr_value_quote_pred c \<longleftrightarrow> \<not> (c = 39 \<or> c = 0)"

definition xml_attr_value_dquote_pred :: "u8 \<Rightarrow> bool" where
  "xml_attr_value_dquote_pred c \<longleftrightarrow> \<not> (c = 34 \<or> c = 0)"

definition xml_attr_value_pure_quote_pred :: "u8 \<Rightarrow> bool" where
  "xml_attr_value_pure_quote_pred c \<longleftrightarrow> \<not> (c = 39 \<or> c = 0 \<or> c = 38)"

definition xml_attr_value_pure_dquote_pred :: "u8 \<Rightarrow> bool" where
  "xml_attr_value_pure_dquote_pred c \<longleftrightarrow> \<not> (c = 34 \<or> c = 0 \<or> c = 38)"

section \<open>Character references\<close>

definition xml_char_bytes :: "u32 \<Rightarrow> u32 \<Rightarrow> u8 list option" where
  "xml_char_bytes ccode flags =
     (let low = (\<lambda>c. ucast ((c OR 0x80) AND 0xbf)) in
      if xml_flag flags NDM_XML_DOCUMENT_PARSE_FLAGS_NO_UTF8 then Some [ucast ccode]
      else if ccode < 0x80 then Some [ucast ccode]
      else if ccode < 0x800 then Some [ucast (drop_bit 6 ccode OR 0xc0), low ccode]
      else if ccode < 0x10000 then
        Some [ucast (drop_bit 12 ccode OR 0xe0), low (drop_bit 6 ccode), low ccode]
      else if ccode < 0x110000 then
        Some [ucast (drop_bit 18 ccode OR 0xf0), low (drop_bit 12 ccode), low (drop_bit 6 ccode), low ccode]
      else None)"

definition xml_insert_coded_character ::
  "u8 list \<Rightarrow> nat \<Rightarrow> u32 \<Rightarrow> u32 \<Rightarrow> (xml_code \<times> u8 list \<times> nat) option" where
  "xml_insert_coded_character buf pos ccode flags =
     (case xml_char_bytes ccode flags of
        None \<Rightarrow> Some (NDM_XML_DOCUMENT_PARSE_ERROR_INVALID_CHAR_ENTITY, buf, pos)
      | Some bs \<Rightarrow>
          map_option (\<lambda>buf. (NDM_XML_DOCUMENT_PARSE_ERROR_OK, buf, pos + length bs))
            (mem_write buf pos bs))"

text \<open>The character a named reference stands for and its length; the inner \<open>None\<close> is no reference.\<close>

definition first_match :: "u8 list \<Rightarrow> nat \<Rightarrow> (u8 list \<times> u8) list \<Rightarrow> (u8 \<times> nat) option option" where
  "first_match buf pos alternatives =
     foldr (\<lambda>(name, ch) rest.
       case matches buf pos name of
         None \<Rightarrow> None
       | Some True \<Rightarrow> Some (Some (ch, length name))
       | Some False \<Rightarrow> rest) alternatives (Some None)"

definition xml_named_reference :: "u8 list \<Rightarrow> nat \<Rightarrow> (u8 \<times> nat) option option" where
  "xml_named_reference buf src =
     (case peek buf (src + 1) of
        None \<Rightarrow> None
      | Some c \<Rightarrow>
          map_option (map_option (\<lambda>(ch, n). (ch, n + 2)))
            (if c = 97 then first_match buf (src + 2) [([109, 112, 59], 38), ([112, 111, 115, 59], 39)]
             else if c = 113 then first_match buf (src + 2) [([117, 111, 116, 59], 34)]
             else if c = 103 then first_match buf (src + 2) [([116, 59], 62)]
             else if c = 108 then first_match buf (src + 2) [([116, 59], 60)]
             else Some None))"

definition is_xdigit :: "u8 \<Rightarrow> bool" where
  "is_xdigit c \<longleftrightarrow> 48 \<le> c \<and> c \<le> 57 \<or> 65 \<le> c \<and> c \<le> 70 \<or> 97 \<le> c \<and> c \<le> 102"

definition xml_lower :: "u8 \<Rightarrow> u8" where
  "xml_lower c = (if 65 \<le> c \<and> c \<le> 90 then c + 32 else c)"

text \<open>
  The digit loops. A letter of a hexadecimal code is \<open>tolower(c) - '0'\<close>, so \<open>a\<close> counts
  as 49, not 10.
\<close>

function xml_digits :: "(u8 \<Rightarrow> bool) \<Rightarrow> (u8 \<Rightarrow> u32) \<Rightarrow> u32 \<Rightarrow> u8 list \<Rightarrow> nat \<Rightarrow> u32 \<Rightarrow> (u32 \<times> nat) option" where
  "xml_digits digit val base buf src code =
     (case peek buf src of
        None \<Rightarrow> None
      | Some c \<Rightarrow>
          if digit c then xml_digits digit val base buf (src + 1) (code * base + val c)
          else Some (code, src))"
  by auto
termination
  by (relation "measure (\<lambda>(digit, val, base, buf, src, code). length buf - src)")
    (auto simp: peek_Some)

declare xml_digits.simps [simp del]

definition xml_number :: "u8 list \<Rightarrow> nat \<Rightarrow> (u32 \<times> nat) option" where
  "xml_number buf src =
     (case peek buf (src + 2) of
        None \<Rightarrow> None
      | Some c \<Rightarrow>
          if c = 120 then xml_digits is_xdigit (\<lambda>c. ucast (xml_lower c) - 48) 16 buf (src + 3) 0
          else xml_digits is_digit (\<lambda>c. ucast c - 48) 10 buf (src + 2) 0)"

text \<open>One round of the translating loop: the code, the block, the new \<open>src\<close> and \<open>dest\<close>.\<close>

definition xml_number_step ::
  "u32 \<Rightarrow> u8 list \<Rightarrow> nat \<Rightarrow> nat \<Rightarrow> (xml_code \<times> u8 list \<times> nat \<times> nat) option" where
  "xml_number_step flags buf src dest =
     (case xml_number buf src of
        None \<Rightarrow> None
      | Some (ccode, src) \<Rightarrow>
          (case xml_insert_coded_character buf dest ccode flags of
             None \<Rightarrow> None
           | Some (code, buf, dest) \<Rightarrow>
               if code \<noteq> NDM_XML_DOCUMENT_PARSE_ERROR_OK then Some (code, buf, src, dest)
               else
                 map_option (\<lambda>c.
                   if c = 59 then (NDM_XML_DOCUMENT_PARSE_ERROR_OK, buf, src + 1, dest)
                   else (NDM_XML_DOCUMENT_PARSE_ERROR_NO_SEMICOLON, buf, src, dest))
                   (peek buf src)))"

definition xml_copy_step ::
  "u32 \<Rightarrow> u8 list \<Rightarrow> nat \<Rightarrow> nat \<Rightarrow> (xml_code \<times> u8 list \<times> nat \<times> nat) option" where
  "xml_copy_step flags buf src dest =
     (case peek buf src of
        None \<Rightarrow> None
      | Some c \<Rightarrow>
          if xml_flag flags NDM_XML_DOCUMENT_PARSE_FLAGS_NORMALIZE_WHITESPACE \<and> xml_whitespace_pred c then
            (case mem_write buf dest [32] of
               None \<Rightarrow> None
             | Some buf \<Rightarrow>
                 map_option (\<lambda>src. (NDM_XML_DOCUMENT_PARSE_ERROR_OK, buf, src, dest + 1))
                   (skip_while xml_whitespace_pred buf (src + 1)))
          else
            map_option (\<lambda>buf. (NDM_XML_DOCUMENT_PARSE_ERROR_OK, buf, src + 1, dest + 1))
              (mem_write buf dest [c]))"

definition xml_expand_step ::
  "u32 \<Rightarrow> u8 list \<Rightarrow> nat \<Rightarrow> nat \<Rightarrow> (xml_code \<times> u8 list \<times> nat \<times> nat) option" where
  "xml_expand_step flags buf src dest =
     (if \<not> xml_flag flags NDM_XML_DOCUMENT_PARSE_FLAGS_NO_ENTITY_TRANSLATION \<and> peek buf src = Some 38 then
        (if peek buf (src + 1) = Some 35 then xml_number_step flags buf src dest
         else
           (case xml_named_reference buf src of
              None \<Rightarrow> None
            | Some (Some (ch, n)) \<Rightarrow>
                map_option (\<lambda>buf. (NDM_XML_DOCUMENT_PARSE_ERROR_OK, buf, src + n, dest + 1))
                  (mem_write buf dest [ch])
            | Some None \<Rightarrow> xml_copy_step flags buf src dest))
      else xml_copy_step flags buf src dest)"

lemma xml_digits_le: "xml_digits digit val base buf src code = Some (code', src') \<Longrightarrow> src \<le> src'"
proof (induction digit val base buf src code rule: xml_digits.induct)
  case (1 digit val base buf src code)
  then show ?case
    by (subst (asm) xml_digits.simps) (fastforce split: option.splits if_splits)
qed

lemma skip_while_le: "skip_while P buf pos = Some s \<Longrightarrow> pos \<le> s"
proof (induction P buf pos rule: skip_while.induct)
  case (1 P buf pos)
  then show ?case by (subst (asm) skip_while.simps) (fastforce split: if_splits)
qed

lemma xml_number_le: "xml_number buf src = Some (code, src') \<Longrightarrow> src + 2 \<le> src'"
  by (auto simp: xml_number_def dest!: xml_digits_le split: option.splits if_splits)

lemma xml_insert_coded_character_length:
  "xml_insert_coded_character buf pos ccode flags = Some (code, buf', pos') \<Longrightarrow> length buf' = length buf"
  by (auto simp: xml_insert_coded_character_def dest: mem_write_length split: option.splits)

lemma xml_copy_step_progress:
  "xml_copy_step flags buf src dest = Some (code, buf', src', dest') \<Longrightarrow>
   length buf' = length buf \<and> src < src' \<and> code = NDM_XML_DOCUMENT_PARSE_ERROR_OK"
  by (auto simp: xml_copy_step_def dest: mem_write_length skip_while_le split: option.splits if_splits)

lemma first_match_pos:
  "first_match buf pos alts = Some (Some (ch, n)) \<Longrightarrow> \<exists>name. (name, ch) \<in> set alts \<and> n = length name"
  by (induction alts) (auto simp: first_match_def split: option.splits bool.splits)

lemma xml_named_reference_pos: "xml_named_reference buf src = Some (Some (ch, n)) \<Longrightarrow> 2 \<le> n"
  by (auto simp: xml_named_reference_def split: option.splits if_splits)

lemma xml_number_step_progress:
  assumes "xml_number_step flags buf src dest = Some (code, buf', src', dest')"
  shows "length buf' = length buf \<and> (code = NDM_XML_DOCUMENT_PARSE_ERROR_OK \<longrightarrow> src < src')"
proof -
  obtain ccode s where n: "xml_number buf src = Some (ccode, s)"
    using assms by (auto simp: xml_number_step_def split: option.splits)
  obtain code1 buf1 d1 where i: "xml_insert_coded_character buf dest ccode flags = Some (code1, buf1, d1)"
    using assms n by (auto simp: xml_number_step_def split: option.splits)
  show ?thesis
    using assms xml_number_le [OF n] xml_insert_coded_character_length [OF i]
    by (auto simp: xml_number_step_def n i split: if_splits)
qed

lemma xml_expand_step_progress:
  assumes "xml_expand_step flags buf src dest = Some (code, buf', src', dest')"
  shows "length buf' = length buf \<and> (code = NDM_XML_DOCUMENT_PARSE_ERROR_OK \<longrightarrow> src < src')"
proof (cases "xml_copy_step flags buf src dest = Some (code, buf', src', dest')")
  case True
  then show ?thesis using xml_copy_step_progress by blast
next
  case copy: False
  show ?thesis
  proof (cases "xml_number_step flags buf src dest = Some (code, buf', src', dest')")
    case True
    then show ?thesis using xml_number_step_progress by blast
  next
    case False
    with copy assms obtain ch n where "xml_named_reference buf src = Some (Some (ch, n))"
        "mem_write buf dest [ch] = Some buf'" "src' = src + n"
      by (auto simp: xml_expand_step_def split: option.splits if_splits)
    then show ?thesis using xml_named_reference_pos mem_write_length by fastforce
  qed
qed

function xml_expand_loop ::
  "(u8 \<Rightarrow> bool) \<Rightarrow> u32 \<Rightarrow> u8 list \<Rightarrow> nat \<Rightarrow> nat \<Rightarrow> (xml_code \<times> u8 list \<times> nat \<times> nat) option" where
  "xml_expand_loop stop flags buf src dest =
     (case peek buf src of
        None \<Rightarrow> None
      | Some c \<Rightarrow>
          if \<not> stop c then Some (NDM_XML_DOCUMENT_PARSE_ERROR_OK, buf, src, dest)
          else
            (case xml_expand_step flags buf src dest of
               None \<Rightarrow> None
             | Some (code, buf', src', dest') \<Rightarrow>
                 if code \<noteq> NDM_XML_DOCUMENT_PARSE_ERROR_OK then Some (code, buf', src', dest')
                 else xml_expand_loop stop flags buf' src' dest'))"
  by auto
termination
proof (relation "measure (\<lambda>(stop, flags, buf, src, dest). length buf - src)", goal_cases)
  case (2 stop flags buf src dest c x code y buf' z src' dest')
  then show ?case using xml_expand_step_progress [of flags buf src dest code buf' src' dest']
    by (auto simp: peek_Some)
qed simp

declare xml_expand_loop.simps [simp del]

text \<open>Returned are the code, the block, the position after the text and the end of its new form.\<close>

definition xml_skip_and_expand_character_refs ::
  "(u8 \<Rightarrow> bool) \<Rightarrow> (u8 \<Rightarrow> bool) \<Rightarrow> u32 \<Rightarrow> u8 list \<Rightarrow> nat \<Rightarrow> (xml_code \<times> u8 list \<times> nat \<times> nat) option" where
  "xml_skip_and_expand_character_refs stop pure flags buf pos =
     (if xml_flag flags NDM_XML_DOCUMENT_PARSE_FLAGS_NO_ENTITY_TRANSLATION \<and>
         \<not> xml_flag flags NDM_XML_DOCUMENT_PARSE_FLAGS_NORMALIZE_WHITESPACE \<and>
         \<not> xml_flag flags NDM_XML_DOCUMENT_PARSE_FLAGS_TRIM_WHITESPACE
      then map_option (\<lambda>s. (NDM_XML_DOCUMENT_PARSE_ERROR_OK, buf, s, s)) (skip_while stop buf pos)
      else
        (case skip_while pure buf pos of
           None \<Rightarrow> None
         | Some s \<Rightarrow>
             map_option (\<lambda>(code, buf, src, dest).
               if code \<noteq> NDM_XML_DOCUMENT_PARSE_ERROR_OK then (code, buf, s, s) else (code, buf, src, dest))
               (xml_expand_loop stop flags buf s s)))"

section \<open>Runs of the parser\<close>

text \<open>
  A run ends with a result, with an access outside the text or a node that is gone, with
  the failed assertion that a child is not \<open>NULL\<close>, or with the overflow of the depth
  counter of \<open>DOCTYPE\<close>; \<open>XmlNoFuel\<close> is a run that has not ended.
\<close>

datatype 'a xml_run = XmlRun 'a | XmlOutside | XmlAssertion | XmlOverflow | XmlNoFuel

fun bind_xml :: "'a xml_run \<Rightarrow> ('a \<Rightarrow> 'b xml_run) \<Rightarrow> 'b xml_run" where
  "bind_xml (XmlRun x) f = f x"
| "bind_xml XmlOutside f = XmlOutside"
| "bind_xml XmlAssertion f = XmlAssertion"
| "bind_xml XmlOverflow f = XmlOverflow"
| "bind_xml XmlNoFuel f = XmlNoFuel"

definition access :: "'a option \<Rightarrow> ('a \<Rightarrow> 'b xml_run) \<Rightarrow> 'b xml_run" where
  "access x f = (case x of None \<Rightarrow> XmlOutside | Some y \<Rightarrow> f y)"

definition doing :: "'a result \<Rightarrow> ('a \<Rightarrow> 'b xml_run) \<Rightarrow> 'b xml_run" where
  "doing r f = (case r of Ok y \<Rightarrow> f y | _ \<Rightarrow> XmlOutside)"

lemma access_simps [simp]: "access None f = XmlOutside" "access (Some y) f = f y"
  by (simp_all add: access_def)

lemma doing_simps [simp]:
  "doing (Ok y) f = f y" "doing (Error e) f = XmlOutside" "doing Undefined f = XmlOutside"
  by (simp_all add: doing_def)

text \<open>The code, the document with its text, and the position; for a node also the node.\<close>

type_synonym xml_step = "(xml_code \<times> ndm_xml_document_t \<times> nat) xml_run"
type_synonym xml_node_step = "(xml_code \<times> ndm_xml_document_t \<times> nat \<times> nat option) xml_run"

abbreviation xml_fails :: "xml_code \<Rightarrow> ndm_xml_document_t \<Rightarrow> nat \<Rightarrow> xml_step" where
  "xml_fails code d pos \<equiv> XmlRun (code, d, pos)"

abbreviation xml_node_fails :: "xml_code \<Rightarrow> ndm_xml_document_t \<Rightarrow> nat \<Rightarrow> xml_node_step" where
  "xml_node_fails code d pos \<equiv> XmlRun (code, d, pos, None)"

definition if_parsed :: "xml_step \<Rightarrow> (ndm_xml_document_t \<Rightarrow> nat \<Rightarrow> xml_step) \<Rightarrow> xml_step" where
  "if_parsed r f =
     bind_xml r (\<lambda>(code, d, pos).
     if code \<noteq> NDM_XML_DOCUMENT_PARSE_ERROR_OK then XmlRun (code, d, pos) else f d pos)"

definition node_if_parsed :: "xml_step \<Rightarrow> (ndm_xml_document_t \<Rightarrow> nat \<Rightarrow> xml_node_step) \<Rightarrow> xml_node_step" where
  "node_if_parsed r f =
     bind_xml r (\<lambda>(code, d, pos).
     if code \<noteq> NDM_XML_DOCUMENT_PARSE_ERROR_OK then XmlRun (code, d, pos, None) else f d pos)"

text \<open>A zero byte is put into the text.\<close>

definition put_zero :: "ndm_xml_document_t \<Rightarrow> nat \<Rightarrow> ndm_xml_document_t option" where
  "put_zero d pos = map_option (\<lambda>buf. d\<lparr>doc_text := buf\<rparr>) (mem_write (doc_text d) pos [0])"

definition append_parsed :: "ndm_xml_document_t \<Rightarrow> nat \<Rightarrow> nat option \<Rightarrow> (ndm_xml_document_t \<Rightarrow> 'a xml_run) \<Rightarrow> 'a xml_run" where
  "append_parsed d n child f =
     (case child of
        None \<Rightarrow> XmlAssertion
      | Some c \<Rightarrow> doing (ndm_xml_node_append_child d n (Some c)) f)"

section \<open>Attributes\<close>

text \<open>The loop body: one attribute.\<close>

definition xml_attribute_value ::
  "ndm_xml_document_t \<Rightarrow> nat \<Rightarrow> nat \<Rightarrow> u32 \<Rightarrow> u8 \<Rightarrow> xml_step" where
  "xml_attribute_value d a pos flags quote =
     (let flags = flags AND NOT NDM_XML_DOCUMENT_PARSE_FLAGS_NORMALIZE_WHITESPACE in
      access
        (if quote = 39
         then xml_skip_and_expand_character_refs xml_attr_value_quote_pred xml_attr_value_pure_quote_pred
                flags (doc_text d) pos
         else xml_skip_and_expand_character_refs xml_attr_value_dquote_pred xml_attr_value_pure_dquote_pred
                flags (doc_text d) pos) (\<lambda>(code, buf, text', end').
      let d = d\<lparr>doc_text := buf\<rparr> in
      if code \<noteq> NDM_XML_DOCUMENT_PARSE_ERROR_OK then xml_fails code d text'
      else
        access (peek (doc_text d) text') (\<lambda>c.
        if c \<noteq> quote then xml_fails NDM_XML_DOCUMENT_PARSE_ERROR_QUOTE_EXPECTED d text'
        else
          access (put_zero d end') (\<lambda>d.
          doing (ndm_xml_attr_set_value d a (Some (XmlText pos))) (\<lambda>d.
          access (skip_while xml_whitespace_pred (doc_text d) (text' + 1)) (\<lambda>text'.
          XmlRun (NDM_XML_DOCUMENT_PARSE_ERROR_OK, d, text')))))))"

definition xml_parse_attribute :: "ndm_xml_document_t \<Rightarrow> nat \<Rightarrow> nat \<Rightarrow> u32 \<Rightarrow> xml_step" where
  "xml_parse_attribute d n name flags =
     access (skip_while xml_attr_name_pred (doc_text d) (name + 1)) (\<lambda>end'.
     if end' = name then xml_fails NDM_XML_DOCUMENT_PARSE_ERROR_ATTR_NAME_EXPECTED d end'
     else
       doing (ndm_xml_document_alloc_attr d None None) (\<lambda>(attr, d).
       case attr of
         None \<Rightarrow> xml_fails NDM_XML_DOCUMENT_PARSE_ERROR_OOM d end'
       | Some a \<Rightarrow>
           doing (ndm_xml_node_append_attr d n (Some a)) (\<lambda>d.
           access (skip_while xml_whitespace_pred (doc_text d) end') (\<lambda>pos.
           access (peek (doc_text d) pos) (\<lambda>c.
           if c \<noteq> 61 then xml_fails NDM_XML_DOCUMENT_PARSE_ERROR_EQUAL_SIGN_EXPECTED d pos
           else
             access (put_zero d end') (\<lambda>d.
             doing (ndm_xml_attr_set_name d a (Some (XmlText name))) (\<lambda>d.
             access (skip_while xml_whitespace_pred (doc_text d) (pos + 1)) (\<lambda>pos.
             access (peek (doc_text d) pos) (\<lambda>quote.
             if quote \<noteq> 39 \<and> quote \<noteq> 34 then xml_fails NDM_XML_DOCUMENT_PARSE_ERROR_QUOTE_EXPECTED d pos
             else xml_attribute_value d a (pos + 1) flags quote)))))))))"

fun xml_parse_node_attributes :: "nat \<Rightarrow> ndm_xml_document_t \<Rightarrow> nat \<Rightarrow> nat \<Rightarrow> u32 \<Rightarrow> xml_step" where
  "xml_parse_node_attributes 0 d n pos flags = XmlNoFuel"
| "xml_parse_node_attributes (Suc fuel) d n pos flags =
     access (peek (doc_text d) pos) (\<lambda>c.
     if \<not> xml_attr_name_pred c then XmlRun (NDM_XML_DOCUMENT_PARSE_ERROR_OK, d, pos)
     else
       if_parsed (xml_parse_attribute d n pos flags) (\<lambda>d pos.
       xml_parse_node_attributes fuel d n pos flags))"

section \<open>Declarations, comments, processing instructions, sections\<close>

text \<open>The scan for the end of a construct: found, or stopped at the terminator.\<close>

function skip_until :: "u8 list \<Rightarrow> u8 list \<Rightarrow> nat \<Rightarrow> (bool \<times> nat) option" where
  "skip_until pat buf pos =
     (case matches buf pos pat of
        None \<Rightarrow> None
      | Some True \<Rightarrow> Some (True, pos)
      | Some False \<Rightarrow>
          (case peek buf pos of
             None \<Rightarrow> None
           | Some c \<Rightarrow> if c = 0 then Some (False, pos) else skip_until pat buf (pos + 1)))"
  by auto
termination
  by (relation "measure (\<lambda>(pat, buf, pos). length buf - pos)") (auto simp: peek_Some)

declare skip_until.simps [simp del]

definition xml_parse_xml_declaration :: "nat \<Rightarrow> ndm_xml_document_t \<Rightarrow> nat \<Rightarrow> u32 \<Rightarrow> xml_node_step" where
  "xml_parse_xml_declaration fuel d pos flags =
     (if \<not> xml_flag flags NDM_XML_DOCUMENT_PARSE_FLAGS_PARSE_DECLARATION_NODE then
        access (skip_until [63, 62] (doc_text d) pos) (\<lambda>(found, pos).
        if \<not> found then xml_node_fails NDM_XML_DOCUMENT_PARSE_ERROR_DECL_END_EXPECTED d pos
        else XmlRun (NDM_XML_DOCUMENT_PARSE_ERROR_OK, d, pos + 2, None))
      else
        doing (ndm_xml_document_alloc_node d NDM_XML_NODE_TYPE_DECLARATION None None) (\<lambda>(decl, d).
        case decl of
          None \<Rightarrow> xml_node_fails NDM_XML_DOCUMENT_PARSE_ERROR_OOM d pos
        | Some n \<Rightarrow>
            access (skip_while xml_whitespace_pred (doc_text d) pos) (\<lambda>pos.
            bind_xml (xml_parse_node_attributes fuel d n pos flags) (\<lambda>(code, d, pos).
            if code \<noteq> NDM_XML_DOCUMENT_PARSE_ERROR_OK then xml_node_fails code d (pos + 2)
            else
              access (matches (doc_text d) pos [63, 62]) (\<lambda>found.
              if \<not> found then xml_node_fails NDM_XML_DOCUMENT_PARSE_ERROR_DECL_END_EXPECTED d pos
              else XmlRun (NDM_XML_DOCUMENT_PARSE_ERROR_OK, d, pos + 2, decl))))))"

text \<open>A node whose value is the text between two positions, terminated at the second.\<close>

definition xml_value_node ::
  "ndm_xml_document_t \<Rightarrow> ndm_xml_node_type_t \<Rightarrow> nat \<Rightarrow> nat \<Rightarrow> nat \<Rightarrow> xml_node_step" where
  "xml_value_node d type start pos skip =
     doing (ndm_xml_document_alloc_node d type None None) (\<lambda>(node, d).
     case node of
       None \<Rightarrow> xml_node_fails NDM_XML_DOCUMENT_PARSE_ERROR_OOM d pos
     | Some n \<Rightarrow>
         access (put_zero d pos) (\<lambda>d.
         doing (ndm_xml_node_set_value d n (Some (XmlText start))) (\<lambda>d.
         XmlRun (NDM_XML_DOCUMENT_PARSE_ERROR_OK, d, pos + skip, node))))"

definition xml_parse_comment :: "ndm_xml_document_t \<Rightarrow> nat \<Rightarrow> u32 \<Rightarrow> xml_node_step" where
  "xml_parse_comment d start flags =
     access (skip_until [45, 45, 62] (doc_text d) start) (\<lambda>(found, pos).
     if \<not> found then xml_node_fails NDM_XML_DOCUMENT_PARSE_ERROR_UNEXPECTED_STREAM_END d pos
     else if xml_flag flags NDM_XML_DOCUMENT_PARSE_FLAGS_PARSE_COMMENT_NODES
     then xml_value_node d NDM_XML_NODE_TYPE_COMMENT start pos 3
     else XmlRun (NDM_XML_DOCUMENT_PARSE_ERROR_OK, d, pos + 3, None))"

text \<open>
  The scan of \<open>DOCTYPE\<close> to its \<open>'>'\<close>; \<open>depth > 0\<close> is the inner loop, over an internal
  subset. There a bracket changes the depth but not the position. The depth is an \<open>int\<close>.
\<close>

function doctype_scan :: "u8 list \<Rightarrow> nat \<Rightarrow> nat \<Rightarrow> (xml_code \<times> nat) xml_run" where
  "doctype_scan buf pos depth =
     (case peek buf pos of
        None \<Rightarrow> XmlOutside
      | Some c \<Rightarrow>
          if depth = 0 then
            (if c = 62 then XmlRun (NDM_XML_DOCUMENT_PARSE_ERROR_OK, pos)
             else if c = 91 then doctype_scan buf (pos + 1) 1
             else if c = 0 then XmlRun (NDM_XML_DOCUMENT_PARSE_ERROR_UNEXPECTED_STREAM_END, pos)
             else doctype_scan buf (pos + 1) 0)
          else if c = 91 then
            (if depth + 1 > 2147483647 then XmlOverflow else doctype_scan buf pos (depth + 1))
          else if c = 93 then doctype_scan buf pos (depth - 1)
          else if c = 0 then XmlRun (NDM_XML_DOCUMENT_PARSE_ERROR_UNEXPECTED_STREAM_END, pos)
          else doctype_scan buf (pos + 1) depth)"
  by auto
termination
  by (relation "inv_image (less_than <*lex*> less_than)
        (\<lambda>(buf, pos, depth). (length buf - pos,
           if pos < length buf \<and> buf ! pos = 91 \<and> depth > 0 then 2147483648 - depth else depth))")
    (auto simp: peek_Some)

declare doctype_scan.simps [simp del]

definition xml_parse_doctype :: "ndm_xml_document_t \<Rightarrow> nat \<Rightarrow> u32 \<Rightarrow> xml_node_step" where
  "xml_parse_doctype d start flags =
     bind_xml (doctype_scan (doc_text d) start 0) (\<lambda>(code, pos).
     if code \<noteq> NDM_XML_DOCUMENT_PARSE_ERROR_OK then xml_node_fails code d pos
     else if xml_flag flags NDM_XML_DOCUMENT_PARSE_FLAGS_PARSE_DOCTYPE_NODE
     then xml_value_node d NDM_XML_NODE_TYPE_DOCTYPE start pos 1
     else XmlRun (NDM_XML_DOCUMENT_PARSE_ERROR_OK, d, pos + 1, None))"

definition xml_parse_pi :: "ndm_xml_document_t \<Rightarrow> nat \<Rightarrow> u32 \<Rightarrow> xml_node_step" where
  "xml_parse_pi d name flags =
     (if xml_flag flags NDM_XML_DOCUMENT_PARSE_FLAGS_PARSE_PI_NODES then
        doing (ndm_xml_document_alloc_node d NDM_XML_NODE_TYPE_PI None None) (\<lambda>(node, d).
        case node of
          None \<Rightarrow> xml_node_fails NDM_XML_DOCUMENT_PARSE_ERROR_OOM d name
        | Some n \<Rightarrow>
            access (skip_while xml_node_name_pred (doc_text d) name) (\<lambda>end'.
            if end' = name then xml_node_fails NDM_XML_DOCUMENT_PARSE_ERROR_PI_TARGET_EXPECTED d end'
            else
              access (skip_while xml_whitespace_pred (doc_text d) end') (\<lambda>val.
              access (skip_until [63, 62] (doc_text d) val) (\<lambda>(found, pos).
              if \<not> found then xml_node_fails NDM_XML_DOCUMENT_PARSE_ERROR_DECL_END_EXPECTED d pos
              else
                access (put_zero d end') (\<lambda>d.
                access (put_zero d pos) (\<lambda>d.
                doing (ndm_xml_node_set_name d n (Some (XmlText name))) (\<lambda>d.
                doing (ndm_xml_node_set_value d n (Some (XmlText val))) (\<lambda>d.
                XmlRun (NDM_XML_DOCUMENT_PARSE_ERROR_OK, d, pos + 2, node)))))))))
      else
        access (skip_until [63, 62] (doc_text d) name) (\<lambda>(found, pos).
        if \<not> found then xml_node_fails NDM_XML_DOCUMENT_PARSE_ERROR_DECL_END_EXPECTED d pos
        else XmlRun (NDM_XML_DOCUMENT_PARSE_ERROR_OK, d, pos + 2, None)))"

text \<open>Without data nodes the end of the section is found but not skipped.\<close>

definition xml_parse_cdata :: "ndm_xml_document_t \<Rightarrow> nat \<Rightarrow> u32 \<Rightarrow> xml_node_step" where
  "xml_parse_cdata d start flags =
     access (skip_until [93, 93, 62] (doc_text d) start) (\<lambda>(found, pos).
     if \<not> found then xml_node_fails NDM_XML_DOCUMENT_PARSE_ERROR_UNEXPECTED_CDATA_END d pos
     else if \<not> xml_flag flags NDM_XML_DOCUMENT_PARSE_FLAGS_NO_DATA_NODES
     then xml_value_node d NDM_XML_NODE_TYPE_CDATA start pos 3
     else XmlRun (NDM_XML_DOCUMENT_PARSE_ERROR_OK, d, pos, None))"

text \<open>Markup after \<open><!\<close> that is none of the known kinds is skipped, without a node.\<close>

definition xml_skip_unknown :: "ndm_xml_document_t \<Rightarrow> nat \<Rightarrow> xml_node_step" where
  "xml_skip_unknown d pos =
     access (skip_while (\<lambda>c. c \<noteq> 62 \<and> c \<noteq> 0) (doc_text d) pos) (\<lambda>pos.
     access (peek (doc_text d) pos) (\<lambda>c.
     if c = 0 then xml_node_fails NDM_XML_DOCUMENT_PARSE_ERROR_RBRACKET_EXPECTED d pos
     else XmlRun (NDM_XML_DOCUMENT_PARSE_ERROR_OK, d, pos + 1, None)))"

text \<open>The markup that starts with \<open><?\<close> and with \<open><!\<close>; \<open>pos\<close> is that of the second character.\<close>

fun match_any :: "u8 list \<Rightarrow> nat \<Rightarrow> u8 set list \<Rightarrow> bool option" where
  "match_any buf pos [] = Some True"
| "match_any buf pos (s # cs) =
     (case peek buf pos of
        None \<Rightarrow> None
      | Some c \<Rightarrow> if c \<in> s then match_any buf (pos + 1) cs else Some False)"

definition xml_parse_question :: "nat \<Rightarrow> ndm_xml_document_t \<Rightarrow> nat \<Rightarrow> u32 \<Rightarrow> xml_node_step" where
  "xml_parse_question fuel d pos flags =
     access (match_any (doc_text d) (pos + 1) [{120, 88}, {109, 77}, {108, 76}, {32, 10, 13, 9}]) (\<lambda>decl.
     if decl then xml_parse_xml_declaration fuel d (pos + 5) flags
     else xml_parse_pi d (pos + 1) flags)"

definition xml_parse_exclamation :: "ndm_xml_document_t \<Rightarrow> nat \<Rightarrow> u32 \<Rightarrow> xml_node_step" where
  "xml_parse_exclamation d pos flags =
     access (peek (doc_text d) (pos + 1)) (\<lambda>c.
     if c = 45 then
       access (matches (doc_text d) (pos + 2) [45]) (\<lambda>found.
       if found then xml_parse_comment d (pos + 3) flags else xml_skip_unknown d (pos + 1))
     else if c = 91 then
       access (matches (doc_text d) (pos + 2) [67, 68, 65, 84, 65, 91]) (\<lambda>found.
       if found then xml_parse_cdata d (pos + 8) flags else xml_skip_unknown d (pos + 1))
     else if c = 68 then
       access (match_any (doc_text d) (pos + 2) [{79}, {67}, {84}, {89}, {80}, {69}, {32, 10, 13, 9}]) (\<lambda>found.
       if found then xml_parse_doctype d (pos + 9) flags else xml_skip_unknown d (pos + 1))
     else xml_skip_unknown d (pos + 1))"

section \<open>Elements\<close>

text \<open>
  A closing tag: with the check, the name of the node is compared with as many characters
  as the tag has (\<open>strncmp\<close>).
\<close>

fun strncmp_eq :: "cstring \<Rightarrow> u8 list \<Rightarrow> bool" where
  "strncmp_eq name [] \<longleftrightarrow> True"
| "strncmp_eq [] (c # closing) \<longleftrightarrow> c = 0"
| "strncmp_eq (a # name) (c # closing) \<longleftrightarrow> a = c \<and> strncmp_eq name closing"

definition xml_parse_closing :: "ndm_xml_document_t \<Rightarrow> nat \<Rightarrow> nat \<Rightarrow> u32 \<Rightarrow> xml_step" where
  "xml_parse_closing d n start flags =
     access (skip_while xml_node_name_pred (doc_text d) start) (\<lambda>pos.
     doing (ndm_xml_node_name d n) (\<lambda>s.
     access (xml_string d s) (\<lambda>name.
     if xml_flag flags NDM_XML_DOCUMENT_PARSE_FLAGS_CHECK_CLOSING_TAGS \<and>
        \<not> strncmp_eq name (take (pos - start) (drop start (doc_text d)))
     then xml_fails NDM_XML_DOCUMENT_PARSE_ERROR_CLOSING_TAG d pos
     else
       access (skip_while xml_whitespace_pred (doc_text d) pos) (\<lambda>pos.
       access (peek (doc_text d) pos) (\<lambda>c.
       if c \<noteq> 62 then xml_fails NDM_XML_DOCUMENT_PARSE_ERROR_RBRACKET_EXPECTED d pos
       else XmlRun (NDM_XML_DOCUMENT_PARSE_ERROR_OK, d, pos + 1))))))"

text \<open>White space is trimmed while the end is behind the position; \<open>end'\<close> is the end.\<close>

fun trim_end :: "u8 list \<Rightarrow> nat \<Rightarrow> nat \<Rightarrow> nat option" where
  "trim_end buf pos 0 = Some 0"
| "trim_end buf pos (Suc end') =
     (if Suc end' > pos then
        (case peek buf end' of
           None \<Rightarrow> None
         | Some c \<Rightarrow> if xml_whitespace_pred c then trim_end buf pos end' else Some (Suc end'))
      else Some (Suc end'))"

definition xml_trim :: "u32 \<Rightarrow> u8 list \<Rightarrow> nat \<Rightarrow> nat \<Rightarrow> nat option" where
  "xml_trim flags buf pos end' =
     (if xml_flag flags NDM_XML_DOCUMENT_PARSE_FLAGS_TRIM_WHITESPACE then
        if xml_flag flags NDM_XML_DOCUMENT_PARSE_FLAGS_NORMALIZE_WHITESPACE then
          (if end' > pos
           then map_option (\<lambda>c. if c = 32 then end' - 1 else end') (peek buf (end' - 1))
           else Some end')
        else trim_end buf pos end'
      else Some end')"

text \<open>Returned with the position is the character that ended the data.\<close>

definition xml_parse_and_append_data ::
  "ndm_xml_document_t \<Rightarrow> nat \<Rightarrow> nat \<Rightarrow> nat \<Rightarrow> u32 \<Rightarrow> (xml_code \<times> ndm_xml_document_t \<times> nat \<times> u8) xml_run" where
  "xml_parse_and_append_data d n pos contents_start flags =
     (let start = (if xml_flag flags NDM_XML_DOCUMENT_PARSE_FLAGS_TRIM_WHITESPACE then pos else contents_start) in
      access
        (xml_skip_and_expand_character_refs xml_text_pred
           (if xml_flag flags NDM_XML_DOCUMENT_PARSE_FLAGS_NORMALIZE_WHITESPACE
            then xml_text_pure_with_ws_pred else xml_text_pure_no_ws_pred)
           flags (doc_text d) start) (\<lambda>(code, buf, pos, end').
      let d = d\<lparr>doc_text := buf\<rparr> in
      if code \<noteq> NDM_XML_DOCUMENT_PARSE_ERROR_OK then XmlRun (code, d, pos, 0)
      else
        access (xml_trim flags (doc_text d) pos end') (\<lambda>end'.
        bind_xml
          (if \<not> xml_flag flags NDM_XML_DOCUMENT_PARSE_FLAGS_NO_DATA_NODES then
             doing (ndm_xml_document_alloc_node d NDM_XML_NODE_TYPE_DATA None None) (\<lambda>(data', d).
             case data' of
               None \<Rightarrow> XmlRun (NDM_XML_DOCUMENT_PARSE_ERROR_OOM, d)
             | Some c \<Rightarrow> append_parsed d n data' (\<lambda>d. XmlRun (NDM_XML_DOCUMENT_PARSE_ERROR_OK, d)))
           else XmlRun (NDM_XML_DOCUMENT_PARSE_ERROR_OK, d)) (\<lambda>(code, d).
        if code \<noteq> NDM_XML_DOCUMENT_PARSE_ERROR_OK then XmlRun (code, d, pos, 0)
        else
          access (peek (doc_text d) pos) (\<lambda>following.
          access (put_zero d end') (\<lambda>d.
          doing (ndm_xml_node_name d n) (\<lambda>s.
          access (xml_string d s) (\<lambda>name.
          doing
            (if \<not> xml_flag flags NDM_XML_DOCUMENT_PARSE_FLAGS_NO_ELEMENT_VALUES \<and> xml_name_is_empty (Some name)
             then ndm_xml_node_set_value d n (Some (XmlText start)) else Ok d) (\<lambda>d.
          XmlRun (NDM_XML_DOCUMENT_PARSE_ERROR_OK, d, pos, following))))))))))"

text \<open>
  An element, any node, and the loop over the contents of an element;
  \<open>xml_parse_content\<close> is the loop from its label \<open>after_data_node\<close>.
\<close>

function (sequential) xml_parse_element :: "nat \<Rightarrow> ndm_xml_document_t \<Rightarrow> nat \<Rightarrow> u32 \<Rightarrow> xml_node_step"
and xml_parse_node :: "nat \<Rightarrow> ndm_xml_document_t \<Rightarrow> nat \<Rightarrow> u32 \<Rightarrow> xml_node_step"
and xml_parse_node_contents :: "nat \<Rightarrow> ndm_xml_document_t \<Rightarrow> nat \<Rightarrow> nat \<Rightarrow> u32 \<Rightarrow> xml_step"
and xml_parse_content :: "nat \<Rightarrow> ndm_xml_document_t \<Rightarrow> nat \<Rightarrow> nat \<Rightarrow> nat \<Rightarrow> u8 \<Rightarrow> u32 \<Rightarrow> xml_step" where
  "xml_parse_element 0 d name flags = XmlNoFuel"
| "xml_parse_element (Suc fuel) d name flags =
     doing (ndm_xml_document_alloc_node d NDM_XML_NODE_TYPE_ELEMENT None None) (\<lambda>(element, d).
     case element of
       None \<Rightarrow> xml_node_fails NDM_XML_DOCUMENT_PARSE_ERROR_OOM d name
     | Some n \<Rightarrow>
         access (skip_while xml_node_name_pred (doc_text d) name) (\<lambda>end'.
         if end' = name then xml_node_fails NDM_XML_DOCUMENT_PARSE_ERROR_NODE_NAME_EXPECTED d end'
         else
           access (skip_while xml_whitespace_pred (doc_text d) end') (\<lambda>pos.
           doing (ndm_xml_node_set_name d n (Some (XmlText name))) (\<lambda>d.
           node_if_parsed (xml_parse_node_attributes fuel d n pos flags) (\<lambda>d pos.
           access (peek (doc_text d) pos) (\<lambda>c.
           if c = 62 then
             access (put_zero d end') (\<lambda>d.
             doing (ndm_xml_node_set_name d n (Some (XmlText name))) (\<lambda>d.
             node_if_parsed (xml_parse_node_contents fuel d n (pos + 1) flags) (\<lambda>d pos.
             access (put_zero d end') (\<lambda>d.
             XmlRun (NDM_XML_DOCUMENT_PARSE_ERROR_OK, d, pos, element)))))
           else if c = 47 then
             access (put_zero d end') (\<lambda>d.
             doing (ndm_xml_node_set_name d n (Some (XmlText name))) (\<lambda>d.
             access (peek (doc_text d) (pos + 1)) (\<lambda>c.
             if c \<noteq> 62 then xml_node_fails NDM_XML_DOCUMENT_PARSE_ERROR_RBRACKET_EXPECTED d (pos + 1)
             else
               access (put_zero d end') (\<lambda>d.
               XmlRun (NDM_XML_DOCUMENT_PARSE_ERROR_OK, d, pos + 2, element)))))
           else xml_node_fails NDM_XML_DOCUMENT_PARSE_ERROR_RBRACKET_EXPECTED d pos))))))"
| "xml_parse_node 0 d pos flags = XmlNoFuel"
| "xml_parse_node (Suc fuel) d pos flags =
     access (peek (doc_text d) pos) (\<lambda>c.
     if c = 63 then xml_parse_question fuel d pos flags
     else if c = 33 then xml_parse_exclamation d pos flags
     else xml_parse_element fuel d pos flags)"
| "xml_parse_node_contents 0 d n contents_start flags = XmlNoFuel"
| "xml_parse_node_contents (Suc fuel) d n contents_start flags =
     access (skip_while xml_whitespace_pred (doc_text d) contents_start) (\<lambda>pos.
     access (peek (doc_text d) pos) (\<lambda>c.
     xml_parse_content fuel d n pos contents_start c flags))"
| "xml_parse_content 0 d n pos contents_start c flags = XmlNoFuel"
| "xml_parse_content (Suc fuel) d n pos contents_start c flags =
     (if c = 60 then
        access (peek (doc_text d) (pos + 1)) (\<lambda>c.
        if c = 47 then xml_parse_closing d n (pos + 2) flags
        else
          bind_xml (xml_parse_node fuel d (pos + 1) flags) (\<lambda>(code, d, pos, child).
          if code \<noteq> NDM_XML_DOCUMENT_PARSE_ERROR_OK then xml_fails code d pos
          else append_parsed d n child (\<lambda>d. xml_parse_node_contents fuel d n pos flags)))
      else if c = 0 then xml_fails NDM_XML_DOCUMENT_PARSE_ERROR_UNEXPECTED_STREAM_END d pos
      else
        bind_xml (xml_parse_and_append_data d n pos contents_start flags) (\<lambda>(code, d, pos, c).
        if code \<noteq> NDM_XML_DOCUMENT_PARSE_ERROR_OK then xml_fails code d pos
        else xml_parse_content fuel d n pos contents_start c flags))"
  by pat_completeness auto
termination
  by (relation "measure (\<lambda>x. case x of
      Inl (Inl (n, _)) \<Rightarrow> n | Inl (Inr (n, _)) \<Rightarrow> n
    | Inr (Inl (n, _)) \<Rightarrow> n | Inr (Inr (n, _)) \<Rightarrow> n)") auto

declare xml_parse_element.simps [simp del] xml_parse_node.simps [simp del]
  xml_parse_node_contents.simps [simp del] xml_parse_content.simps [simp del]

section \<open>Documents\<close>

text \<open>The loop over the top level nodes, which are appended to the root.\<close>

fun xml_parse_nodes :: "nat \<Rightarrow> ndm_xml_document_t \<Rightarrow> nat \<Rightarrow> nat \<Rightarrow> u32 \<Rightarrow> xml_step" where
  "xml_parse_nodes 0 d root pos flags = XmlNoFuel"
| "xml_parse_nodes (Suc fuel) d root pos flags =
     access (skip_while xml_whitespace_pred (doc_text d) pos) (\<lambda>pos.
     access (peek (doc_text d) pos) (\<lambda>c.
     if c = 0 then XmlRun (NDM_XML_DOCUMENT_PARSE_ERROR_OK, d, pos)
     else if c \<noteq> 60 then xml_fails NDM_XML_DOCUMENT_PARSE_ERROR_LBRACKET_EXPECTED d pos
     else
       bind_xml (xml_parse_node fuel d (pos + 1) flags) (\<lambda>(code, d, pos, node).
       if code \<noteq> NDM_XML_DOCUMENT_PARSE_ERROR_OK then xml_fails code d pos
       else
         doing (if node \<noteq> None then ndm_xml_node_append_child d root node else Ok d) (\<lambda>d.
         access (peek (doc_text d) pos) (\<lambda>c.
         if c = 0 then XmlRun (NDM_XML_DOCUMENT_PARSE_ERROR_OK, d, pos)
         else xml_parse_nodes fuel d root pos flags)))))"

definition xml_parser_do :: "nat \<Rightarrow> ndm_xml_document_t \<Rightarrow> u32 \<Rightarrow> xml_step" where
  "xml_parser_do fuel d flags =
     (let d = ndm_xml_document_clear d in
      doing (ndm_xml_document_alloc_root d) (\<lambda>(root, d).
      case root of
        None \<Rightarrow> xml_fails NDM_XML_DOCUMENT_PARSE_ERROR_OOM d 0
      | Some r \<Rightarrow>
          access
            (if \<not> xml_flag flags NDM_XML_DOCUMENT_PARSE_FLAGS_NO_UTF8
             then matches (doc_text d) 0 [0xef, 0xbb, 0xbf] else Some False) (\<lambda>bom.
          xml_parse_nodes fuel d r (if bom then 3 else 0) flags)))"

definition ndm_xml_document_parse ::
  "nat \<Rightarrow> ndm_xml_document_t \<Rightarrow> u8 list \<Rightarrow> u32 \<Rightarrow> (xml_code \<times> ndm_xml_document_t) xml_run" where
  "ndm_xml_document_parse fuel d txt' flags =
     bind_xml (xml_parser_do fuel (d\<lparr>doc_text := txt'\<rparr>) flags) (\<lambda>(code, d, pos).
     if code \<noteq> NDM_XML_DOCUMENT_PARSE_ERROR_OK \<or> \<not> ndm_xml_document_is_valid d then
       let d = ndm_xml_document_clear d in
       XmlRun (if \<not> ndm_xml_document_is_valid d then NDM_XML_DOCUMENT_PARSE_ERROR_OOM else code, d)
     else XmlRun (code, d))"

end
