(* ===== verification/Xml_Scan.thy ===== *)
theory Xml_Scan
  imports Xml_Parse
begin

text \<open>
  The scans of the XML parser on a terminated text: they end at the terminator at the
  latest, and the expansion of character references in place never writes past what it has
  read.
\<close>

lemma terminated_step: "terminated buf pos z \<Longrightarrow> buf ! pos \<noteq> 0 \<Longrightarrow> terminated buf (pos + 1) z"
  using terminated_next by simp

lemma terminated_le: "terminated buf pos z \<Longrightarrow> pos \<le> z"
  by (simp add: terminated_def)

lemma terminated_mono: "terminated buf pos z \<Longrightarrow> pos \<le> q \<Longrightarrow> q \<le> z \<Longrightarrow> terminated buf q z"
  by (simp add: terminated_def)

lemma xml_preds_0 [simp]:
  "\<not> xml_whitespace_pred 0" "\<not> xml_node_name_pred 0" "\<not> xml_attr_name_pred 0" "\<not> xml_text_pred 0"
  "\<not> xml_text_pure_no_ws_pred 0" "\<not> xml_text_pure_with_ws_pred 0" "\<not> xml_attr_value_quote_pred 0"
  "\<not> xml_attr_value_dquote_pred 0" "\<not> xml_attr_value_pure_quote_pred 0" "\<not> xml_attr_value_pure_dquote_pred 0"
  by (simp_all add: xml_whitespace_pred_def xml_node_name_pred_def xml_attr_name_pred_def xml_text_pred_def
      xml_text_pure_no_ws_pred_def xml_text_pure_with_ws_pred_def xml_attr_value_quote_pred_def
      xml_attr_value_dquote_pred_def xml_attr_value_pure_quote_pred_def xml_attr_value_pure_dquote_pred_def)

lemma xml_digits_terminated:
  assumes "terminated buf src z" and "\<not> digit 0"
  shows "\<exists>code' src'. xml_digits digit val base buf src code = Some (code', src') \<and> src \<le> src' \<and> terminated buf src' z \<and>
    (src' \<le> Suc src \<longrightarrow> code' = code \<or> digit (buf ! src) \<and> code' = code * base + val (buf ! src))"
  using assms
proof (induction digit val base buf src code rule: xml_digits.induct)
  case (1 digit val base buf src code)
  note pk = peek_terminated [OF 1(2)]
  show ?case
  proof (cases "digit (buf ! src)")
    case True
    then have "terminated buf (src + 1) z" using 1(2,3) by (intro terminated_step) auto
    from 1(1) [OF pk True this 1(3)] obtain code' src' where
      "xml_digits digit val base buf (src + 1) (code * base + val (buf ! src)) = Some (code', src')"
      "src + 1 \<le> src'" "terminated buf src' z"
      "src' \<le> Suc (src + 1) \<longrightarrow> code' = code * base + val (buf ! src) \<or> digit (buf ! (src + 1)) \<and>
        code' = (code * base + val (buf ! src)) * base + val (buf ! (src + 1))" by blast
    moreover have "code' = code * base + val (buf ! src)" if "src' = Suc src"
      using calculation(1) that by (subst (asm) xml_digits.simps) (auto split: option.splits if_splits dest: xml_digits_le)
    ultimately show ?thesis using pk True by (subst xml_digits.simps) auto
  next
    case False
    then show ?thesis using pk 1(2) by (subst xml_digits.simps) auto
  qed
qed

lemma is_digit_0 [simp]: "\<not> is_digit 0" "\<not> is_xdigit 0"
  by (simp_all add: is_digit_def is_xdigit_def)

lemma xml_char_bytes_length: "xml_char_bytes code flags = Some bs \<Longrightarrow> 1 \<le> length bs \<and> length bs \<le> 4"
  by (auto simp: xml_char_bytes_def Let_def split: if_splits)

lemma xml_char_bytes_small: "xml_char_bytes code flags = Some bs \<Longrightarrow> code < 0x80 \<Longrightarrow> length bs = 1"
  by (auto simp: xml_char_bytes_def Let_def split: if_splits)

lemma digit_small:
  assumes "is_digit c"
  shows "ucast c - 48 < (0x80 :: u32)"
proof -
  have "unat c \<in> set [48..<58]" using assms by (simp add: is_digit_def word_le_nat_alt) arith
  moreover have "\<forall>n \<in> set [48..<58]. ucast (of_nat n :: u8) - 48 < (0x80 :: u32)" by code_simp
  ultimately have "ucast (of_nat (unat c) :: u8) - 48 < (0x80 :: u32)" by blast
  then show ?thesis by simp
qed

text \<open>A numeric reference is at least as long as the bytes of its character.\<close>

lemma xml_number_terminated:
  assumes "terminated buf src z" "buf ! src = 38" "buf ! Suc src = 35"
  shows "\<exists>code src'. xml_number buf src = Some (code, src') \<and> terminated buf src' z \<and>
    (\<forall>flags bs. xml_char_bytes code flags = Some bs \<longrightarrow> src + length bs \<le> src')"
proof -
  have t2: "terminated buf (src + 2) z"
    using terminated_step [OF terminated_step [OF assms(1)]] assms(2,3) by simp
  note pk = peek_terminated [OF t2]
  show ?thesis
  proof (cases "buf ! (src + 2) = 120")
    case True
    then have "terminated buf (src + 3) z" using terminated_step [OF t2] by (simp add: numeral_3_eq_3)
    from xml_digits_terminated [OF this, of is_xdigit "\<lambda>c. ucast (xml_lower c) - 48" 16 0]
    obtain code src' where r: "xml_digits is_xdigit (\<lambda>c. ucast (xml_lower c) - 48) 16 buf (src + 3) 0 = Some (code, src')"
        "src + 3 \<le> src'" "terminated buf src' z" by auto
    have "src + length bs \<le> src'" if "xml_char_bytes code flags = Some bs" for flags bs
    proof (cases "src' = src + 3")
      case True
      then have "code = 0" using r(1) by (subst (asm) xml_digits.simps) (auto split: option.splits if_splits dest: xml_digits_le)
      then show ?thesis using xml_char_bytes_small [OF that] True by simp
    qed (use r(2) xml_char_bytes_length [OF that] in simp)
    then show ?thesis using r pk True by (auto simp: xml_number_def)
  next
    case False
    from xml_digits_terminated [OF t2, of is_digit "\<lambda>c. ucast c - 48" 10 0]
    obtain code src' where r: "xml_digits is_digit (\<lambda>c. ucast c - 48) 10 buf (src + 2) 0 = Some (code, src')"
        "src + 2 \<le> src'" "terminated buf src' z"
        "src' \<le> Suc (src + 2) \<longrightarrow> code = 0 \<or> is_digit (buf ! (src + 2)) \<and> code = ucast (buf ! (src + 2)) - 48" by auto
    have digit: "(ucast (c :: u8) :: u32) - 48 < 0x80" if "is_digit c" for c
      using that digit_small [of c] by simp
    have "src + length bs \<le> src'" if b: "xml_char_bytes code flags = Some bs" for flags bs
    proof (cases "src' \<le> Suc (src + 2)")
      case True
      then have "code < 0x80" using r(4) digit by auto
      then show ?thesis using xml_char_bytes_small [OF b] r(2) by simp
    qed (use xml_char_bytes_length [OF b] in simp)
    then show ?thesis using r pk False by (auto simp: xml_number_def)
  qed
qed

section \<open>The translating loop\<close>

text \<open>
  A piece of translation: the block keeps its length, what is before \<open>dest\<close> and what is
  from the new \<open>src\<close> on.
\<close>

definition translates :: "u8 list \<Rightarrow> nat \<Rightarrow> nat \<Rightarrow> nat \<Rightarrow> (xml_code \<times> u8 list \<times> nat \<times> nat) option \<Rightarrow> bool" where
  "translates buf src dest z r \<longleftrightarrow>
     (\<exists>code buf' src' dest'. r = Some (code, buf', src', dest') \<and> length buf' = length buf \<and>
       take dest buf' = take dest buf \<and> drop src' buf' = drop src' buf \<and> src \<le> src' \<and> dest \<le> dest' \<and>
       dest' \<le> src' \<and> terminated buf' src' z)"

lemma translates_write:
  assumes "dest + length bs \<le> src'" "terminated buf src' z" "src \<le> src'" "dest \<le> src"
    and "\<And>buf'. mem_write buf dest bs = Some buf' \<Longrightarrow> r = Some (code, buf', src', dest + length bs)"
  shows "translates buf src dest z r"
proof -
  have "src' \<le> length buf" using assms(2) by (simp add: terminated_def)
  from mem_write_before [OF assms(1) this] obtain buf' where w: "mem_write buf dest bs = Some buf'"
      "length buf' = length buf" "take dest buf' = take dest buf" "drop src' buf' = drop src' buf" by blast
  moreover have "terminated buf' src' z" using assms(2) terminated_drop [OF w(4,2)] by simp
  ultimately show ?thesis using assms by (auto simp: translates_def)
qed

lemma xml_number_step_translates:
  assumes t: "terminated buf src z" "dest \<le> src" and c: "buf ! src = 38" "buf ! Suc src = 35"
  shows "translates buf src dest z (xml_number_step flags buf src dest)"
proof -
  obtain ccode s where n: "xml_number buf src = Some (ccode, s)" "terminated buf s z"
      "\<And>flags bs. xml_char_bytes ccode flags = Some bs \<Longrightarrow> src + length bs \<le> s"
    using xml_number_terminated [OF t(1) c] by blast
  have le: "src + 2 \<le> s" using xml_number_le [OF n(1)] .
  show ?thesis
  proof (cases "xml_char_bytes ccode flags")
    case None
    then show ?thesis using n le t
      by (auto simp: translates_def xml_number_step_def xml_insert_coded_character_def)
  next
    case (Some bs)
    have room: "dest + length bs \<le> s" using n(3) [OF Some] t(2) by simp
    have sl: "s \<le> length buf" using n(2) by (simp add: terminated_def)
    obtain buf' where w: "mem_write buf dest bs = Some buf'" "length buf' = length buf"
        "take dest buf' = take dest buf" "drop s buf' = drop s buf"
      using mem_write_before [OF room sl] by blast
    have t': "terminated buf' s z" using n(2) terminated_drop [OF w(4,2)] by simp
    have "drop (Suc s) buf' = drop (Suc s) buf" by (rule drop_trans [OF w(4)]) simp
    moreover have "terminated buf' (Suc s) z" if "buf' ! s = 59" using terminated_step [OF t'] that by simp
    ultimately show ?thesis using n(1) le t room w t' Some
      by (auto simp: translates_def xml_number_step_def xml_insert_coded_character_def peek_terminated)
  qed
qed

lemma xml_copy_step_translates:
  assumes t: "terminated buf src z" "dest \<le> src" and c: "buf ! src \<noteq> 0"
  shows "translates buf src dest z (xml_copy_step flags buf src dest)"
proof -
  have t1: "terminated buf (Suc src) z" using terminated_next [OF t(1) c] .
  show ?thesis
  proof (cases "xml_flag flags NDM_XML_DOCUMENT_PARSE_FLAGS_NORMALIZE_WHITESPACE \<and> xml_whitespace_pred (buf ! src)")
    case False
    then show ?thesis
      by (intro translates_write [of dest "[buf ! src]" "Suc src"])
        (use t t1 in \<open>auto simp: xml_copy_step_def peek_terminated\<close>)
  next
    case True
    have sl: "Suc src \<le> length buf" using t1 by (simp add: terminated_def)
    have room: "dest + length [32 :: u8] \<le> Suc src" using t(2) by simp
    obtain buf' where w: "mem_write buf dest [32] = Some buf'" "length buf' = length buf"
        "take dest buf' = take dest buf" "drop (Suc src) buf' = drop (Suc src) buf"
      using mem_write_before [OF room sl] by blast
    have t': "terminated buf' (Suc src) z" using t1 terminated_drop [OF w(4,2)] by simp
    obtain s where s: "skip_while xml_whitespace_pred buf' (Suc src) = Some s" "Suc src \<le> s" "terminated buf' s z"
      using skip_while_terminated [of xml_whitespace_pred, OF xml_preds_0(1) t'] by blast
    have "drop s buf' = drop s buf" by (rule drop_trans [OF w(4) s(2)])
    then show ?thesis using t w s True by (auto simp: translates_def xml_copy_step_def peek_terminated)
  qed
qed

lemma first_match_terminated:
  assumes "terminated buf pos z" "\<forall>(name, ch) \<in> set alts. 0 \<notin> set name"
  shows "\<exists>m. first_match buf pos alts = Some m \<and> (case m of None \<Rightarrow> True | Some (ch, n) \<Rightarrow> terminated buf (pos + n) z)"
  using assms(2)
proof (induction alts)
  case (Cons a alts)
  obtain name ch where a: "a = (name, ch)" by (cases a)
  then have "0 \<notin> set name" using Cons.prems by auto
  from matches_terminated [OF assms(1) this] obtain b where
    "matches buf pos name = Some b" "b \<longrightarrow> terminated buf (pos + length name) z" by blast
  then show ?case using Cons a by (cases b) (auto simp: first_match_def)
qed (simp add: first_match_def)

lemma xml_named_reference_terminated:
  assumes t: "terminated buf src z" and c: "buf ! src = 38"
  shows "\<exists>m. xml_named_reference buf src = Some m \<and> (case m of None \<Rightarrow> True | Some (ch, n) \<Rightarrow> terminated buf (src + n) z)"
proof -
  have t1: "terminated buf (Suc src) z" using terminated_next [OF t] c by simp
  note pk = peek_terminated [OF t1]
  have "\<exists>m. map_option (map_option (\<lambda>(ch, n). (ch, n + 2))) (first_match buf (src + 2) alts) = Some m \<and>
      (case m of None \<Rightarrow> True | Some (ch, n) \<Rightarrow> terminated buf (src + n) z)"
    if "buf ! Suc src \<noteq> 0" "\<forall>(name, ch) \<in> set alts. 0 \<notin> set name" for alts
  proof -
    have "terminated buf (src + 2) z" using terminated_next [OF t1 that(1)] by simp
    from first_match_terminated [OF this that(2)] obtain m where m: "first_match buf (src + 2) alts = Some m"
        "case m of None \<Rightarrow> True | Some (ch, n) \<Rightarrow> terminated buf (src + 2 + n) z" by blast
    show ?thesis
      by (rule exI [of _ "map_option (\<lambda>(ch, n). (ch, n + 2)) m"])
        (use m in \<open>auto simp: ac_simps split: option.splits\<close>)
  qed
  note alt = this
  show ?thesis
    using alt [of "[([109, 112, 59], 38), ([112, 111, 115, 59], 39)]"] alt [of "[([117, 111, 116, 59], 34)]"]
      alt [of "[([116, 59], 62)]"] alt [of "[([116, 59], 60)]"]
    by (simp add: xml_named_reference_def pk)
qed

lemma xml_expand_step_translates:
  assumes t: "terminated buf src z" "dest \<le> src" and c: "buf ! src \<noteq> 0"
  shows "translates buf src dest z (xml_expand_step flags buf src dest)"
proof (cases "\<not> xml_flag flags NDM_XML_DOCUMENT_PARSE_FLAGS_NO_ENTITY_TRANSLATION \<and> buf ! src = 38")
  case False
  then have "xml_expand_step flags buf src dest = xml_copy_step flags buf src dest"
    by (auto simp: xml_expand_step_def peek_terminated [OF t(1)])
  then show ?thesis using xml_copy_step_translates [OF t c] by simp
next
  case True
  then have t1: "terminated buf (Suc src) z" using terminated_next [OF t(1)] by simp
  note pk = peek_terminated [OF t(1)] peek_terminated [OF t1]
  show ?thesis
  proof (cases "buf ! Suc src = 35")
    case num: True
    then show ?thesis using xml_number_step_translates [OF t] True by (simp add: xml_expand_step_def pk)
  next
    case False
    obtain m where m: "xml_named_reference buf src = Some m"
        "case m of None \<Rightarrow> True | Some (ch, n) \<Rightarrow> terminated buf (src + n) z"
      using xml_named_reference_terminated [OF t(1)] True by blast
    show ?thesis
    proof (cases m)
      case None
      then show ?thesis using xml_copy_step_translates [OF t c] m False True by (simp add: xml_expand_step_def pk)
    next
      case (Some r)
      then obtain ch n where r: "m = Some (ch, n)" by (cases r) auto
      then have "2 \<le> n" using xml_named_reference_pos m(1) by simp
      then show ?thesis
        by (intro translates_write [of dest "[ch]" "src + n"])
          (use t m r False True in \<open>auto simp: xml_expand_step_def pk\<close>)
    qed
  qed
qed

lemma xml_expand_loop_translates:
  assumes "terminated buf src z" "dest \<le> src" and "\<not> stop 0"
  shows "translates buf src dest z (xml_expand_loop stop flags buf src dest)"
  using assms
proof (induction stop flags buf src dest rule: xml_expand_loop.induct)
  case (1 stop flags buf src dest)
  note pk = peek_terminated [OF 1(2)]
  show ?case
  proof (cases "stop (buf ! src)")
    case False
    then show ?thesis using 1(2,3) pk by (subst xml_expand_loop.simps) (simp add: translates_def)
  next
    case True
    then have nz: "buf ! src \<noteq> 0" using 1(4) by metis
    obtain code b s e where st: "xml_expand_step flags buf src dest = Some (code, b, s, e)" "length b = length buf"
        "take dest b = take dest buf" "drop s b = drop s buf" "src \<le> s" "dest \<le> e" "e \<le> s" "terminated b s z"
      using xml_expand_step_translates [OF 1(2,3) nz, of flags] by (auto simp: translates_def)
    show ?thesis
    proof (cases "code = NDM_XML_DOCUMENT_PARSE_ERROR_OK")
      case False
      then show ?thesis using True pk st by (subst xml_expand_loop.simps) (simp add: translates_def)
    next
      case ok: True
      from 1(1) [OF pk _ st(1) refl refl refl _ st(8,7) 1(4)] True ok
      have "translates b s e z (xml_expand_loop stop flags b s e)" by simp
      then obtain code' b' s' e' where r: "xml_expand_loop stop flags b s e = Some (code', b', s', e')"
          "length b' = length b" "take e b' = take e b" "drop s' b' = drop s' b" "s \<le> s'" "e \<le> e'" "e' \<le> s'"
          "terminated b' s' z" by (auto simp: translates_def)
      have "take dest b' = take dest buf" using r(3) st(3,6) by (metis min.absorb1 take_take)
      moreover have "drop s' b' = drop s' buf" using r(4) drop_trans [OF st(4) r(5)] by simp
      ultimately show ?thesis using True ok pk st r by (subst xml_expand_loop.simps) (simp add: translates_def)
    qed
  qed
qed

lemma xml_expand_loop_stop:
  "xml_expand_loop stop flags buf src dest = Some (NDM_XML_DOCUMENT_PARSE_ERROR_OK, buf', src', dest') \<Longrightarrow>
   src' < length buf' \<and> \<not> stop (buf' ! src')"
proof (induction stop flags buf src dest rule: xml_expand_loop.induct)
  case (1 stop flags buf src dest)
  show ?case
  proof (cases "src < length buf \<and> stop (buf ! src)")
    case True
    then obtain code b s e where st: "xml_expand_step flags buf src dest = Some (code, b, s, e)"
      using 1(2) by (subst (asm) xml_expand_loop.simps) (auto simp: peek_def split: option.splits)
    then have ok: "code = NDM_XML_DOCUMENT_PARSE_ERROR_OK"
        "xml_expand_loop stop flags b s e = Some (NDM_XML_DOCUMENT_PARSE_ERROR_OK, buf', src', dest')"
      using 1(2) True by (subst (asm) xml_expand_loop.simps, simp add: peek_def split: if_splits)+
    show ?thesis
      using 1(1) [of "buf ! src" "(code, b, s, e)" code "(b, s, e)" b "(s, e)" s e] True st ok by (simp add: peek_def)
  next
    case False
    then show ?thesis using 1(2) by (subst (asm) xml_expand_loop.simps) (auto simp: peek_def split: if_splits)
  qed
qed

text \<open>
  The text between the position and the stop is replaced: nothing before the position nor
  from the stop on is written, and the new end is not behind the stop.
\<close>

lemma expand_terminated:
  assumes t: "terminated buf pos z" and p: "\<not> stop 0" "\<not> pure 0"
  shows "\<exists>code buf' pos' end'. xml_skip_and_expand_character_refs stop pure flags buf pos = Some (code, buf', pos', end') \<and>
    length buf' = length buf \<and> take pos buf' = take pos buf \<and> drop z buf' = drop z buf \<and> pos \<le> pos' \<and>
    terminated buf' pos' z \<and>
    (code = NDM_XML_DOCUMENT_PARSE_ERROR_OK \<longrightarrow>
      pos \<le> end' \<and> end' \<le> pos' \<and> drop pos' buf' = drop pos' buf \<and> \<not> stop (buf' ! pos'))"
proof (cases "xml_flag flags NDM_XML_DOCUMENT_PARSE_FLAGS_NO_ENTITY_TRANSLATION \<and>
    \<not> xml_flag flags NDM_XML_DOCUMENT_PARSE_FLAGS_NORMALIZE_WHITESPACE \<and>
    \<not> xml_flag flags NDM_XML_DOCUMENT_PARSE_FLAGS_TRIM_WHITESPACE")
  case True
  then show ?thesis
    using skip_while_terminated [of stop, OF p(1) t] by (auto simp: xml_skip_and_expand_character_refs_def)
next
  case False
  obtain s where s: "skip_while pure buf pos = Some s" "pos \<le> s" "terminated buf s z"
    using skip_while_terminated [of pure, OF p(2) t] by blast
  obtain code b s' e where r: "xml_expand_loop stop flags buf s s = Some (code, b, s', e)" "length b = length buf"
      "take s b = take s buf" "drop s' b = drop s' buf" "s \<le> s'" "s \<le> e" "e \<le> s'" "terminated b s' z"
    using xml_expand_loop_translates [of buf s z s stop flags, OF s(3) order_refl p(1)] by (auto simp: translates_def)
  have tk: "take pos b = take pos buf" using r(3) s(2) by (metis min.absorb1 take_take)
  have dz: "drop z b = drop z buf" by (rule drop_trans [OF r(4)]) (rule terminated_le [OF r(8)])
  have ts: "terminated b s z" using r(8) s(3) by (simp add: terminated_def)
  have eq: "xml_skip_and_expand_character_refs stop pure flags buf pos =
      Some (code, b, if code = NDM_XML_DOCUMENT_PARSE_ERROR_OK then s' else s,
        if code = NDM_XML_DOCUMENT_PARSE_ERROR_OK then e else s)"
    unfolding xml_skip_and_expand_character_refs_def if_not_P [OF False] by (simp add: s(1) r(1))
  show ?thesis
  proof (cases "code = NDM_XML_DOCUMENT_PARSE_ERROR_OK")
    case True
    have "\<not> stop (b ! s')" using xml_expand_loop_stop r(1) True by blast
    then show ?thesis unfolding eq using True r(2,4-8) s(2) tk dz by auto
  next
    case False
    then show ?thesis unfolding eq using r(2) s(2) tk dz ts by auto
  qed
qed

section \<open>The other scans\<close>

lemma skip_until_terminated:
  assumes "terminated buf pos z" "0 \<notin> set pat"
  shows "\<exists>found pos'. skip_until pat buf pos = Some (found, pos') \<and> pos \<le> pos' \<and> terminated buf pos' z \<and>
    (found \<longrightarrow> terminated buf (pos' + length pat) z)"
  using assms
proof (induction pat buf pos rule: skip_until.induct)
  case (1 pat buf pos)
  obtain b where b: "matches buf pos pat = Some b" "b \<longrightarrow> terminated buf (pos + length pat) z"
    using matches_terminated [OF 1(2,3)] by blast
  note pk = peek_terminated [OF 1(2)]
  show ?case
  proof (cases "b \<or> buf ! pos = 0")
    case True
    then show ?thesis using b 1(2) pk by (cases b; subst skip_until.simps) auto
  next
    case False
    then have "terminated buf (pos + 1) z" using terminated_step [OF 1(2)] by simp
    from 1(1) [of False "buf ! pos"] this b False pk 1(3) obtain found pos' where
      "skip_until pat buf (pos + 1) = Some (found, pos')" "pos + 1 \<le> pos'" "terminated buf pos' z"
      "found \<longrightarrow> terminated buf (pos' + length pat) z" by auto
    then show ?thesis using False b pk by (subst skip_until.simps) auto
  qed
qed

lemma match_any_terminated:
  assumes "terminated buf pos z" "\<forall>s \<in> set cs. 0 \<notin> s"
  shows "\<exists>b. match_any buf pos cs = Some b \<and> (b \<longrightarrow> terminated buf (pos + length cs) z)"
  using assms
proof (induction cs arbitrary: pos)
  case (Cons s cs)
  note pk = peek_terminated [OF Cons.prems(1)]
  show ?case
  proof (cases "buf ! pos \<in> s")
    case True
    then have "buf ! pos \<noteq> 0" using Cons.prems(2) by auto
    from Cons.IH [OF terminated_next [OF Cons.prems(1) this]] Cons.prems(2) True pk
    show ?thesis by auto
  qed (auto simp: pk)
qed (simp add: exI [of _ True])

lemma doctype_scan_terminated:
  assumes "terminated buf pos z"
  shows "doctype_scan buf pos depth = XmlOverflow \<or>
    (\<exists>code pos'. doctype_scan buf pos depth = XmlRun (code, pos') \<and> pos \<le> pos' \<and> terminated buf pos' z \<and>
      (code = NDM_XML_DOCUMENT_PARSE_ERROR_OK \<longrightarrow> buf ! pos' = 62))"
  using assms
proof (induction buf pos depth rule: doctype_scan.induct)
  case (1 buf pos depth)
  note pk = peek_terminated [OF 1(6)]
  have next_pos: "terminated buf (pos + 1) z" if "buf ! pos \<noteq> 0" using terminated_step [OF 1(6) that] .
  consider "depth = 0" "buf ! pos = 62" | "depth = 0" "buf ! pos = 91" | "buf ! pos = 0"
    | "depth = 0" "buf ! pos \<notin> {0, 62, 91}" | "depth \<noteq> 0" "buf ! pos = 91" | "depth \<noteq> 0" "buf ! pos = 93"
    | "depth \<noteq> 0" "buf ! pos \<notin> {0, 91, 93}" by blast
  then show ?case
  proof cases
    case 2
    with 1(1) [OF pk] next_pos show ?thesis using pk by (subst (1 2) doctype_scan.simps) fastforce
  next
    case 4
    with 1(2) [OF pk] next_pos show ?thesis using pk by (subst (1 2) doctype_scan.simps) fastforce
  next
    case 5
    with 1(3) [OF pk] 1(6) show ?thesis using pk by (subst (1 2) doctype_scan.simps) fastforce
  next
    case 6
    with 1(4) [OF pk] 1(6) show ?thesis using pk by (subst (1 2) doctype_scan.simps) fastforce
  next
    case 7
    with 1(5) [OF pk] next_pos show ?thesis using pk by (subst (1 2) doctype_scan.simps) fastforce
  qed (use pk 1(6) in \<open>subst (1 2) doctype_scan.simps, simp\<close>)+
qed

lemma trim_end_ok: "end' \<le> length buf \<Longrightarrow> \<exists>e. trim_end buf pos end' = Some e \<and> e \<le> end'"
  by (induction end') (auto simp: peek_def intro: le_SucI)

lemma xml_trim_ok: "end' \<le> length buf \<Longrightarrow> \<exists>e. xml_trim flags buf pos end' = Some e \<and> e \<le> end'"
  using trim_end_ok [of end' buf pos] by (auto simp: xml_trim_def peek_def)

end
