(* ===== verification/Xml_Safe.thy ===== *)
theory Xml_Safe
  imports Xml_Scan
begin

text \<open>
  On any terminated text the XML parser ends, reads and writes only the text up to its
  terminator, and never follows a pointer that leads nowhere; the two ways to leave defined
  behaviour are the assertion that a child is not \<open>NULL\<close> and the overflow of the depth of an
  internal subset, and neither is taken on a text of elements, attributes and data alone.
\<close>

section \<open>The state of a run\<close>

text \<open>\<open>z\<close> is the terminator of the text; names point into the text before it.\<close>

definition node_ok :: "ndm_xml_document_t \<Rightarrow> nat \<Rightarrow> ndm_xml_node_t \<Rightarrow> bool" where
  "node_ok d z r \<longleftrightarrow>
     (case nd_name r of XmlGiven c \<Rightarrow> True | XmlText off \<Rightarrow> off \<le> z | XmlPool p \<Rightarrow> False) \<and>
     (nd_first_child r \<noteq> None \<longrightarrow> nd_last_child r \<noteq> None \<and> (\<forall>l. nd_last_child r = Some l \<longrightarrow> doc_nodes d l \<noteq> None)) \<and>
     (nd_first_attr r \<noteq> None \<longrightarrow> nd_last_attr r \<noteq> None \<and> (\<forall>l. nd_last_attr r = Some l \<longrightarrow> doc_attrs d l \<noteq> None))"

text \<open>
  A text with no markup but elements: it has none of the bytes \<open>'!'\<close> and \<open>'?'\<close>, which start
  the other kinds, nor \<open>'&'\<close>, whose references could bring them in. \<open>cl\<close> says that the text of
  a run is such a text.
\<close>

definition plain_markup :: "nat \<Rightarrow> u8 list \<Rightarrow> bool" where
  "plain_markup z t \<longleftrightarrow> set (take z t) \<inter> {33, 38, 63} = {}"

definition doc_ok :: "bool \<Rightarrow> nat \<Rightarrow> ndm_xml_document_t \<Rightarrow> bool" where
  "doc_ok cl z d \<longleftrightarrow>
     z < length (doc_text d) \<and> doc_text d ! z = 0 \<and> (cl \<longrightarrow> plain_markup z (doc_text d)) \<and>
     (\<forall>n r. doc_nodes d n = Some r \<longrightarrow> n < doc_fresh d \<and> node_ok d z r) \<and>
     (\<forall>a. doc_attrs d a \<noteq> None \<longrightarrow> a < doc_fresh d)"

text \<open>What a run leaves: the text from the terminator on, and the place of every older node.\<close>

definition keeps :: "bool \<Rightarrow> nat \<Rightarrow> ndm_xml_document_t \<Rightarrow> ndm_xml_document_t \<Rightarrow> bool" where
  "keeps cl z d d' \<longleftrightarrow>
     doc_ok cl z d' \<and> length (doc_text d') = length (doc_text d) \<and> drop z (doc_text d') = drop z (doc_text d) \<and>
     doc_fresh d \<le> doc_fresh d' \<and>
     (\<forall>n r. doc_nodes d n = Some r \<longrightarrow>
       (\<exists>r'. doc_nodes d' n = Some r' \<and> nd_parent r' = nd_parent r \<and> nd_type r' = nd_type r)) \<and>
     (\<forall>a. doc_attrs d a \<noteq> None \<longrightarrow> doc_attrs d' a \<noteq> None)"

lemma keeps_refl: "doc_ok cl z d \<Longrightarrow> keeps cl z d d"
  by (simp add: keeps_def)

lemma keeps_trans: "keeps cl z d e \<Longrightarrow> keeps cl z e f \<Longrightarrow> keeps cl z d f"
  unfolding keeps_def by (fastforce dest: order_trans)

lemma keeps_ok: "keeps cl z d d' \<Longrightarrow> doc_ok cl z d'"
  by (simp add: keeps_def)

lemma keeps_frame:
  "keeps cl z d d' \<Longrightarrow> doc_nodes d n = Some r \<Longrightarrow>
   \<exists>r'. doc_nodes d' n = Some r' \<and> nd_parent r' = nd_parent r \<and> nd_type r' = nd_type r"
  by (simp add: keeps_def)

lemma keeps_attr: "keeps cl z d d' \<Longrightarrow> doc_attrs d a \<noteq> None \<Longrightarrow> doc_attrs d' a \<noteq> None"
  by (simp add: keeps_def)

lemma keeps_node: "keeps cl z d d' \<Longrightarrow> doc_nodes d n \<noteq> None \<Longrightarrow> doc_nodes d' n \<noteq> None"
  by (force simp: keeps_def)

lemma doc_ok_terminated: "doc_ok cl z d \<Longrightarrow> pos \<le> z \<Longrightarrow> terminated (doc_text d) pos z"
  by (simp add: doc_ok_def terminated_def)

lemma node_ok_text: "node_ok (d\<lparr>doc_text := t\<rparr>) z r = node_ok d z r"
  by (simp add: node_ok_def)

lemma node_ok_mono:
  assumes "node_ok d z r" and "\<And>l. doc_nodes d l \<noteq> None \<Longrightarrow> doc_nodes e l \<noteq> None"
    and "\<And>l. doc_attrs d l \<noteq> None \<Longrightarrow> doc_attrs e l \<noteq> None"
  shows "node_ok e z r"
  using assms unfolding node_ok_def by blast

lemma keeps_text:
  assumes "doc_ok cl z d" "length t = length (doc_text d)" "drop z t = drop z (doc_text d)"
    and "plain_markup z (doc_text d) \<Longrightarrow> plain_markup z t"
  shows "keeps cl z d (d\<lparr>doc_text := t\<rparr>)"
proof -
  have "t ! z = doc_text d ! z"
    using assms nth_drop [of z t 0] nth_drop [of z "doc_text d" 0] by (simp add: doc_ok_def)
  then show ?thesis using assms by (auto simp: keeps_def doc_ok_def node_ok_text)
qed

lemma plain_update:
  assumes "plain_markup z t" "x \<notin> {33, 38, 63}"
  shows "plain_markup z (t[pos := x])"
  using assms set_update_subset_insert [of "take z t" pos x] by (auto simp: plain_markup_def take_update_swap)

lemma plain_write:
  assumes "plain_markup z buf" "mem_write buf pos [x] = Some buf'" "x \<notin> {33, 38, 63}"
  shows "plain_markup z buf'"
proof -
  have "buf' = buf[pos := x]"
    using assms(2) by (auto simp: mem_write_def upd_conv_take_nth_drop split: if_splits)
  then show ?thesis using plain_update [OF assms(1,3)] by simp
qed

lemma plain_at:
  assumes "plain_markup z buf" "pos < z" "z < length buf"
  shows "buf ! pos \<notin> {33, 38, 63}"
proof -
  have "buf ! pos \<in> set (take z buf)" using assms(2,3) by (auto simp: in_set_conv_nth intro!: exI [of _ pos])
  then show ?thesis using assms(1) by (auto simp: plain_markup_def)
qed

text \<open>Without references the expansion copies bytes and joins white space only.\<close>

lemma expand_step_plain:
  assumes "plain_markup z buf" "terminated buf src z" "buf ! src \<noteq> 0"
    "xml_expand_step flags buf src dest = Some (code, buf', src', dest')"
  shows "plain_markup z buf'"
proof -
  have z: "src < z" "z < length buf" using assms(2,3) by (auto simp: terminated_def order_le_less)
  note at = plain_at [OF assms(1) z]
  have pk: "peek buf src = Some (buf ! src)" using peek_terminated [OF assms(2)] .
  then have "xml_copy_step flags buf src dest = Some (code, buf', src', dest')"
    using assms(4) at by (simp add: xml_expand_step_def)
  then show ?thesis using plain_write [OF assms(1)] at pk
    by (auto simp: xml_copy_step_def split: if_splits option.splits)
qed

lemma expand_loop_plain:
  "plain_markup z buf \<Longrightarrow> terminated buf src z \<Longrightarrow> dest \<le> src \<Longrightarrow> \<not> stop 0 \<Longrightarrow>
   xml_expand_loop stop flags buf src dest = Some (code, buf', src', dest') \<Longrightarrow> plain_markup z buf'"
proof (induction stop flags buf src dest rule: xml_expand_loop.induct)
  case (1 stop flags buf src dest)
  note pk = peek_terminated [OF 1(3)]
  show ?case
  proof (cases "stop (buf ! src)")
    case False
    then show ?thesis using 1(2,6) pk by (subst (asm) xml_expand_loop.simps) simp
  next
    case True
    then have nz: "buf ! src \<noteq> 0" using 1(5) by metis
    obtain k b s e where st: "xml_expand_step flags buf src dest = Some (k, b, s, e)" "e \<le> s" "terminated b s z"
      using xml_expand_step_translates [OF 1(3,4) nz, of flags] by (auto simp: translates_def)
    note b = expand_step_plain [OF 1(2,3) nz st(1)]
    show ?thesis
    proof (cases "k = NDM_XML_DOCUMENT_PARSE_ERROR_OK")
      case False
      then show ?thesis using 1(6) True pk st(1) b by (subst (asm) xml_expand_loop.simps) simp
    next
      case ok: True
      then have "xml_expand_loop stop flags b s e = Some (code, buf', src', dest')"
        using 1(6) True pk st(1) by (subst (asm) xml_expand_loop.simps) simp
      then show ?thesis using 1(1) [OF pk _ st(1) refl refl refl _ b st(3,2) 1(5)] True ok by simp
    qed
  qed
qed

lemma expand_plain:
  assumes "plain_markup z buf" "terminated buf pos z" "\<not> stop 0" "\<not> pure 0"
    "xml_skip_and_expand_character_refs stop pure flags buf pos = Some (code, buf', pos', end')"
  shows "plain_markup z buf'"
proof -
  obtain s where s: "skip_while pure buf pos = Some s" "terminated buf s z"
    using skip_while_terminated [of pure, OF assms(4,2)] by blast
  show ?thesis using assms(1,5) s expand_loop_plain [of z buf s s stop flags] assms(3)
    by (auto simp: xml_skip_and_expand_character_refs_def split: if_splits)
qed

lemma put_zero_keeps:
  assumes "doc_ok cl z d" "pos \<le> z"
  shows "\<exists>d'. put_zero d pos = Some d' \<and> keeps cl z d d' \<and> doc_nodes d' = doc_nodes d \<and> doc_attrs d' = doc_attrs d"
proof -
  have z: "z < length (doc_text d)" "doc_text d ! z = 0" using assms(1) by (simp_all add: doc_ok_def)
  then obtain t where t: "mem_write (doc_text d) pos [0] = Some t" "length t = length (doc_text d)"
    using assms(2) by (auto simp: mem_write_def)
  have "t = (doc_text d)[pos := 0]"
    using t(1) z assms(2) by (auto simp: mem_write_def upd_conv_take_nth_drop split: if_splits)
  then have "drop z t = drop z (doc_text d)"
    using assms(2) z by (cases "pos = z") (auto simp: drop_update_swap list_update_beyond list_eq_iff_nth_eq nth_list_update)
  moreover have "plain_markup z t" if "plain_markup z (doc_text d)" using plain_write [OF that t(1)] by simp
  ultimately have "keeps cl z d (d\<lparr>doc_text := t\<rparr>)" using keeps_text [OF assms(1) t(2)] by simp
  then show ?thesis using t(1) by (simp add: put_zero_def)
qed

lemma xml_string_text:
  assumes "doc_ok cl z d" "off \<le> z"
  shows "\<exists>c. xml_string d (XmlText off) = Some c"
proof -
  have "doc_text d ! z \<in> set (drop off (doc_text d))"
    using assms by (auto simp: doc_ok_def in_set_conv_nth intro!: exI [of _ "z - off"])
  then show ?thesis using assms by (simp add: xml_string_def cstring_in_def doc_ok_def)
qed

lemma xml_string_name:
  assumes "doc_ok cl z d" "doc_nodes d n = Some r"
  shows "\<exists>c. xml_string d (nd_name r) = Some c"
proof -
  have "node_ok d z r" using assms by (auto simp: doc_ok_def)
  then show ?thesis using xml_string_text [OF assms(1)] xml_string_def by (auto simp: node_ok_def split: xml_str.splits)
qed

section \<open>Names, values, nodes, attributes\<close>

text \<open>A field that is no pointer is changed.\<close>

lemma put_node_keeps:
  assumes "doc_ok cl z d" "doc_nodes d n = Some r" "node_ok d z (f r)" "nd_parent (f r) = nd_parent r" "nd_type (f r) = nd_type r"
  shows "\<exists>d'. put_node d n f = Ok d' \<and> keeps cl z d d' \<and> doc_nodes d' = (doc_nodes d)(n \<mapsto> f r) \<and> doc_text d' = doc_text d"
proof -
  let ?d = "d\<lparr>doc_nodes := (doc_nodes d)(n \<mapsto> f r)\<rparr>"
  have "node_ok ?d z s" if "node_ok d z s" for s by (rule node_ok_mono [OF that]) auto
  then have "keeps cl z d ?d" using assms by (auto simp: keeps_def doc_ok_def)
  then show ?thesis using assms(2) by (simp add: put_node_def)
qed

lemma set_name_keeps:
  assumes "doc_ok cl z d" "doc_nodes d n = Some r" "off \<le> z"
  shows "\<exists>d'. ndm_xml_node_set_name d n (Some (XmlText off)) = Ok d' \<and> keeps cl z d d'"
proof -
  obtain c where c: "xml_string d (XmlText off) = Some c" using xml_string_text [OF assms(1,3)] by blast
  have "node_ok d z r" using assms(1,2) by (auto simp: doc_ok_def)
  then have "node_ok d z (r\<lparr>nd_name := XmlText off, nd_name_size := length c\<rparr>)" using assms(3) by (simp add: node_ok_def)
  from put_node_keeps [OF assms(1,2), of "\<lambda>r. r\<lparr>nd_name := XmlText off, nd_name_size := length c\<rparr>"] this
  show ?thesis by (auto simp: ndm_xml_node_set_name_def given_or_empty_def c)
qed

lemma set_value_keeps:
  assumes "doc_ok cl z d" "doc_nodes d n = Some r" "off \<le> z"
  shows "\<exists>d'. ndm_xml_node_set_value d n (Some (XmlText off)) = Ok d' \<and> keeps cl z d d'"
proof -
  obtain c where c: "xml_string d (XmlText off) = Some c" using xml_string_text [OF assms(1,3)] by blast
  have "node_ok d z r" using assms(1,2) by (auto simp: doc_ok_def)
  then have "node_ok d z (r\<lparr>nd_value := XmlText off, nd_value_size := length c\<rparr>)" by (simp add: node_ok_def)
  from put_node_keeps [OF assms(1,2), of "\<lambda>r. r\<lparr>nd_value := XmlText off, nd_value_size := length c\<rparr>"] this
  show ?thesis by (auto simp: ndm_xml_node_set_value_def given_or_empty_def c)
qed

lemma put_attr_keeps:
  assumes "doc_ok cl z d" "doc_attrs d a \<noteq> None"
  shows "\<exists>d'. put_attr d a f = Ok d' \<and> keeps cl z d d' \<and> (\<forall>b. (doc_attrs d' b = None) = (doc_attrs d b = None)) \<and>
    doc_nodes d' = doc_nodes d"
proof -
  obtain r where r: "doc_attrs d a = Some r" using assms(2) by auto
  let ?d = "d\<lparr>doc_attrs := (doc_attrs d)(a \<mapsto> f r)\<rparr>"
  have "node_ok ?d z s" if "node_ok d z s" for s by (rule node_ok_mono [OF that]) auto
  then have "keeps cl z d ?d" using assms r by (auto simp: keeps_def doc_ok_def)
  then show ?thesis using r by (auto simp: put_attr_def)
qed

lemma set_attr_keeps:
  assumes "doc_ok cl z d" "doc_attrs d a \<noteq> None" "off \<le> z"
  shows "\<exists>d'. ndm_xml_attr_set_name d a (Some (XmlText off)) = Ok d' \<and> keeps cl z d d'"
    and "\<exists>d'. ndm_xml_attr_set_value d a (Some (XmlText off)) = Ok d' \<and> keeps cl z d d'"
proof -
  obtain c where c: "xml_string d (XmlText off) = Some c" using xml_string_text [OF assms(1,3)] by blast
  show "\<exists>d'. ndm_xml_attr_set_name d a (Some (XmlText off)) = Ok d' \<and> keeps cl z d d'"
    "\<exists>d'. ndm_xml_attr_set_value d a (Some (XmlText off)) = Ok d' \<and> keeps cl z d d'"
    using put_attr_keeps [OF assms(1,2)] c
    by (fastforce simp: ndm_xml_attr_set_name_def ndm_xml_attr_set_value_def given_or_empty_def)+
qed

lemma alloc_node_keeps:
  assumes "doc_ok cl z d"
  shows "\<exists>c d'. ndm_xml_document_alloc_node d type None None = Ok (c, d') \<and> keeps cl z d d' \<and> doc_text d' = doc_text d \<and>
    (\<forall>n. c = Some n \<longrightarrow> doc_nodes d n = None \<and> doc_nodes d' n = Some (blank_node type))"
proof -
  have fresh: "doc_nodes d (doc_fresh d) = None" using assms by (fastforce simp: doc_ok_def)
  obtain p pool where m: "ndm_pool_malloc (doc_pool d) XML_NODE_SIZE = (p, pool)" by fastforce
  show ?thesis
  proof (cases p)
    case None
    then show ?thesis using assms m
      by (auto simp: ndm_xml_document_alloc_node_def ndm_xml_document_alloc_def keeps_def doc_ok_def node_ok_def)
  next
    case (Some q)
    let ?d = "d\<lparr>doc_pool := pool, doc_fresh := Suc (doc_fresh d), doc_nodes := (doc_nodes d)(doc_fresh d \<mapsto> blank_node type)\<rparr>"
    have "ndm_xml_document_alloc_node d type None None = Ok (Some (doc_fresh d), ?d)"
      using m Some by (simp add: ndm_xml_document_alloc_node_def ndm_xml_document_alloc_def ndm_xml_node_set_name_def
          ndm_xml_node_set_value_def given_or_empty_def xml_string_def put_node_def blank_node_def Let_def)
    moreover have "node_ok ?d z (blank_node type)" by (simp add: node_ok_def blank_node_def)
    moreover have "\<And>r. node_ok d z r \<Longrightarrow> node_ok ?d z r" by (auto simp: node_ok_def)
    then have "keeps cl z d ?d" using assms fresh calculation(2) by (auto simp: keeps_def doc_ok_def less_Suc_eq)
    ultimately show ?thesis using fresh by auto
  qed
qed

lemma alloc_attr_keeps:
  assumes "doc_ok cl z d"
  shows "\<exists>c d'. ndm_xml_document_alloc_attr d None None = Ok (c, d') \<and> keeps cl z d d' \<and> doc_text d' = doc_text d \<and>
    (\<forall>a. c = Some a \<longrightarrow> doc_attrs d' a = Some blank_attr)"
proof -
  obtain p pool where m: "ndm_pool_malloc (doc_pool d) XML_ATTR_SIZE = (p, pool)" by fastforce
  show ?thesis
  proof (cases p)
    case None
    then show ?thesis using assms m
      by (auto simp: ndm_xml_document_alloc_attr_def ndm_xml_document_alloc_def keeps_def doc_ok_def node_ok_def)
  next
    case (Some q)
    let ?d = "d\<lparr>doc_pool := pool, doc_fresh := Suc (doc_fresh d), doc_attrs := (doc_attrs d)(doc_fresh d \<mapsto> blank_attr)\<rparr>"
    have "ndm_xml_document_alloc_attr d None None = Ok (Some (doc_fresh d), ?d)"
      using m Some by (simp add: ndm_xml_document_alloc_attr_def ndm_xml_document_alloc_def ndm_xml_attr_set_name_def
          ndm_xml_attr_set_value_def given_or_empty_def xml_string_def put_attr_def blank_attr_def Let_def)
    moreover have "\<And>r. node_ok d z r \<Longrightarrow> node_ok ?d z r" by (auto simp: node_ok_def)
    then have "keeps cl z d ?d" using assms by (auto simp: keeps_def doc_ok_def less_Suc_eq)
    ultimately show ?thesis by auto
  qed
qed

section \<open>Linking\<close>

text \<open>
  What the functions that link an entry change: the fields with pointers, and the owner of
  that entry.
\<close>

definition relinks :: "nat option \<Rightarrow> ndm_xml_document_t \<Rightarrow> ndm_xml_document_t \<Rightarrow> bool" where
  "relinks c d d' \<longleftrightarrow>
     doc_text d' = doc_text d \<and> doc_fresh d' = doc_fresh d \<and> dom (doc_nodes d') = dom (doc_nodes d) \<and>
     dom (doc_attrs d') = dom (doc_attrs d) \<and>
     (\<forall>m s. doc_nodes d m = Some s \<longrightarrow>
       (\<exists>s'. doc_nodes d' m = Some s' \<and> nd_name s' = nd_name s \<and> nd_type s' = nd_type s \<and>
         (Some m \<noteq> c \<longrightarrow> nd_parent s' = nd_parent s)))"

lemma relinks_refl: "relinks c d d"
  by (simp add: relinks_def)

lemma relinks_node:
  assumes "relinks c d d'" "doc_nodes d m = Some s"
  obtains s' where "doc_nodes d' m = Some s'" "nd_name s' = nd_name s" "nd_type s' = nd_type s"
    "Some m \<noteq> c \<Longrightarrow> nd_parent s' = nd_parent s"
  using assms unfolding relinks_def by blast

lemma relinks_trans:
  assumes "relinks c d e" "relinks c e f"
  shows "relinks c d f"
proof -
  have "\<exists>s'. doc_nodes f m = Some s' \<and> nd_name s' = nd_name s \<and> nd_type s' = nd_type s \<and>
      (Some m \<noteq> c \<longrightarrow> nd_parent s' = nd_parent s)" if s: "doc_nodes d m = Some s" for m s
  proof -
    obtain t where t: "doc_nodes e m = Some t" "nd_name t = nd_name s" "nd_type t = nd_type s"
        "Some m \<noteq> c \<Longrightarrow> nd_parent t = nd_parent s"
      using relinks_node [OF assms(1) s] by metis
    show ?thesis using relinks_node [OF assms(2) t(1)] t(2-4) by metis
  qed
  then show ?thesis using assms by (simp add: relinks_def)
qed

text \<open>The lists of all nodes have an end where they have a start.\<close>

definition ends_ok :: "ndm_xml_document_t \<Rightarrow> bool" where
  "ends_ok d \<longleftrightarrow>
     (\<forall>n r. doc_nodes d n = Some r \<longrightarrow>
       (nd_first_child r \<noteq> None \<longrightarrow> nd_last_child r \<noteq> None \<and> (\<forall>l. nd_last_child r = Some l \<longrightarrow> doc_nodes d l \<noteq> None)) \<and>
       (nd_first_attr r \<noteq> None \<longrightarrow> nd_last_attr r \<noteq> None \<and> (\<forall>l. nd_last_attr r = Some l \<longrightarrow> doc_attrs d l \<noteq> None)))"

lemma doc_ok_ends: "doc_ok cl z d \<Longrightarrow> ends_ok d"
  by (auto simp: doc_ok_def node_ok_def ends_ok_def)

lemma relinks_dom:
  "relinks c d d' \<Longrightarrow> (doc_nodes d' m = None) = (doc_nodes d m = None)"
  "relinks c d d' \<Longrightarrow> (doc_attrs d' m = None) = (doc_attrs d m = None)"
  unfolding relinks_def by (metis domIff)+

lemma relinks_keeps:
  assumes "keeps cl z d0 d" "relinks c d d'" "ends_ok d'" "\<And>i. c = Some i \<Longrightarrow> doc_nodes d0 i = None"
  shows "keeps cl z d0 d'"
proof -
  have ok: "doc_ok cl z d" using assms(1) by (rule keeps_ok)
  have same: "doc_text d' = doc_text d" "doc_fresh d' = doc_fresh d" using assms(2) by (simp_all add: relinks_def)
  have nodes: "n < doc_fresh d \<and> node_ok d' z r'" if r': "doc_nodes d' n = Some r'" for n r'
  proof -
    obtain r where r: "doc_nodes d n = Some r" using relinks_dom(1) [OF assms(2), of n] r' by auto
    have "nd_name r' = nd_name r" using relinks_node [OF assms(2) r] r' by auto
    moreover have "node_ok d z r" "n < doc_fresh d" using ok r by (simp_all add: doc_ok_def)
    ultimately show ?thesis using assms(3) r' by (simp add: node_ok_def ends_ok_def)
  qed
  have "doc_ok cl z d'"
    using ok nodes relinks_dom(2) [OF assms(2)] by (simp add: doc_ok_def same)
  moreover have "\<exists>r'. doc_nodes d' n = Some r' \<and> nd_parent r' = nd_parent r \<and> nd_type r' = nd_type r"
    if d0: "doc_nodes d0 n = Some r" for n r
  proof -
    obtain s where s: "doc_nodes d n = Some s" "nd_parent s = nd_parent r" "nd_type s = nd_type r"
      using keeps_frame [OF assms(1) d0] by metis
    have "c \<noteq> Some n" using assms(4) [of n] d0 by auto
    then obtain s' where "doc_nodes d' n = Some s'" "nd_type s' = nd_type s" "nd_parent s' = nd_parent s"
      using relinks_node [OF assms(2) s(1)] by metis
    then show ?thesis using s by simp
  qed
  moreover have "doc_attrs d' a \<noteq> None" if "doc_attrs d0 a \<noteq> None" for a
    using keeps_attr [OF assms(1) that] relinks_dom(2) [OF assms(2)] by simp
  ultimately show ?thesis using assms(1) unfolding keeps_def same by blast
qed

lemma put_node_step:
  assumes "ends_ok d" "doc_nodes d m \<noteq> None"
    and "\<And>r. nd_name (f r) = nd_name r \<and> nd_type (f r) = nd_type r \<and> (Some m \<noteq> c \<longrightarrow> nd_parent (f r) = nd_parent r)"
    and "\<And>r. nd_first_child (f r) = nd_first_child r \<and> nd_first_attr (f r) = nd_first_attr r"
    and "\<And>r. nd_last_child (f r) = nd_last_child r \<or> (\<exists>k. nd_last_child (f r) = Some k \<and> doc_nodes d k \<noteq> None)"
    and "\<And>r. nd_last_attr (f r) = nd_last_attr r \<or> (\<exists>k. nd_last_attr (f r) = Some k \<and> doc_attrs d k \<noteq> None)"
  shows "\<exists>d'. put_node d m f = Ok d' \<and> relinks c d d' \<and> ends_ok d'"
proof -
  obtain r where r: "doc_nodes d m = Some r" using assms(2) by auto
  let ?d = "d\<lparr>doc_nodes := (doc_nodes d)(m \<mapsto> f r)\<rparr>"
  have "relinks c d ?d" using r assms(3) by (auto simp: relinks_def)
  moreover have "ends_ok ?d"
    using assms(1) r assms(4-6) [of r] unfolding ends_ok_def by auto
  ultimately show ?thesis using r by (simp add: put_node_def)
qed

lemma put_attr_step:
  assumes "ends_ok d" "doc_attrs d a \<noteq> None"
  shows "\<exists>d'. put_attr d a f = Ok d' \<and> relinks c d d' \<and> ends_ok d'"
proof -
  obtain r where r: "doc_attrs d a = Some r" using assms(2) by auto
  then have "relinks c d (d\<lparr>doc_attrs := (doc_attrs d)(a \<mapsto> f r)\<rparr>)" "ends_ok (d\<lparr>doc_attrs := (doc_attrs d)(a \<mapsto> f r)\<rparr>)"
    using assms(1) by (auto simp: relinks_def ends_ok_def)
  then show ?thesis using r by (simp add: put_attr_def)
qed

lemma append_child_relinks:
  assumes ok: "ends_ok d" and n: "doc_nodes d n \<noteq> None" and link: "can_link d (Some c)" and ne: "c \<noteq> n"
  shows "\<exists>d'. ndm_xml_node_append_child d n (Some c) = Ok d' \<and> relinks (Some c) d d' \<and> ends_ok d'"
proof -
  obtain r cr where r: "doc_nodes d n = Some r" and cr: "doc_nodes d c = Some cr"
    using n link by (auto simp: can_link_def split: option.splits)
  show ?thesis
  proof (cases "nd_first_child r")
    case None
    then show ?thesis using r cr ne link ok
      by (auto simp: ndm_xml_node_append_child_def put_node_def relinks_def ends_ok_def dom_def)
  next
    case (Some f)
    then obtain l where l: "nd_last_child r = Some l" "doc_nodes d l \<noteq> None"
      using ok r unfolding ends_ok_def by (metis option.exhaust option.distinct(1))
    obtain d1 where d1: "put_node d c (\<lambda>s. s\<lparr>nd_prev_sibling := nd_last_child r\<rparr>) = Ok d1" "relinks (Some c) d d1" "ends_ok d1"
      using put_node_step [OF ok, of c "\<lambda>s. s\<lparr>nd_prev_sibling := nd_last_child r\<rparr>" "Some c"] cr by auto
    obtain d2 where d2: "put_node d1 l (\<lambda>r. r\<lparr>nd_next_sibling := Some c\<rparr>) = Ok d2" "relinks (Some c) d1 d2" "ends_ok d2"
      using put_node_step [OF d1(3), of l "\<lambda>r. r\<lparr>nd_next_sibling := Some c\<rparr>" "Some c"] l relinks_dom(1) [OF d1(2)] by auto
    have c2: "doc_nodes d2 c \<noteq> None" "doc_nodes d2 n \<noteq> None"
      using r cr relinks_dom(1) [OF d1(2)] relinks_dom(1) [OF d2(2)] by simp_all
    obtain d3 where d3: "put_node d2 n (\<lambda>r. r\<lparr>nd_last_child := Some c\<rparr>) = Ok d3" "relinks (Some c) d2 d3" "ends_ok d3"
      using put_node_step [OF d2(3) c2(2), of "\<lambda>r. r\<lparr>nd_last_child := Some c\<rparr>" "Some c"] c2(1) by auto
    obtain d4 where d4: "put_node d3 c (\<lambda>r. r\<lparr>nd_parent := Some n, nd_next_sibling := None\<rparr>) = Ok d4"
        "relinks (Some c) d3 d4" "ends_ok d4"
      using put_node_step [OF d3(3), of c "\<lambda>r. r\<lparr>nd_parent := Some n, nd_next_sibling := None\<rparr>" "Some c"]
        c2(1) relinks_dom(1) [OF d3(2)] by auto
    have "ndm_xml_node_append_child d n (Some c) = Ok d4"
      using link r Some l d1(1) d2(1) d3(1) d4(1) by (simp add: ndm_xml_node_append_child_def)
    moreover have "relinks (Some c) d d4"
      using relinks_trans [OF relinks_trans [OF relinks_trans [OF d1(2) d2(2)] d3(2)] d4(2)] .
    ultimately show ?thesis using d4(3) by blast
  qed
qed

lemma append_attr_relinks:
  assumes ok: "ends_ok d" and n: "doc_nodes d n \<noteq> None" and link: "can_link_attr d (Some a)"
  shows "\<exists>d'. ndm_xml_node_append_attr d n (Some a) = Ok d' \<and> relinks None d d' \<and> ends_ok d'"
proof -
  obtain r ar where r: "doc_nodes d n = Some r" and ar: "doc_attrs d a = Some ar"
    using n link by (auto simp: can_link_attr_def split: option.splits)
  show ?thesis
  proof (cases "nd_first_attr r")
    case None
    then show ?thesis using r ar link ok
      by (auto simp: ndm_xml_node_append_attr_def put_node_def put_attr_def relinks_def ends_ok_def dom_def)
  next
    case (Some f)
    then obtain l where l: "nd_last_attr r = Some l" "doc_attrs d l \<noteq> None"
      using ok r unfolding ends_ok_def by (metis option.exhaust option.distinct(1))
    obtain d1 where d1: "put_attr d a (\<lambda>s. s\<lparr>at_prev := nd_last_attr r\<rparr>) = Ok d1" "relinks None d d1" "ends_ok d1"
      using put_attr_step [OF ok, of a "\<lambda>s. s\<lparr>at_prev := nd_last_attr r\<rparr>" None] ar by auto
    obtain d2 where d2: "put_attr d1 l (\<lambda>r. r\<lparr>at_next := Some a\<rparr>) = Ok d2" "relinks None d1 d2" "ends_ok d2"
      using put_attr_step [OF d1(3), of l "\<lambda>r. r\<lparr>at_next := Some a\<rparr>" None] l relinks_dom(2) [OF d1(2)] by auto
    have c2: "doc_attrs d2 a \<noteq> None" "doc_nodes d2 n \<noteq> None"
      using r ar relinks_dom [OF d1(2)] relinks_dom [OF d2(2)] by simp_all
    obtain d3 where d3: "put_node d2 n (\<lambda>r. r\<lparr>nd_last_attr := Some a\<rparr>) = Ok d3" "relinks None d2 d3" "ends_ok d3"
      using put_node_step [OF d2(3) c2(2), of "\<lambda>r. r\<lparr>nd_last_attr := Some a\<rparr>" None] c2(1) by auto
    obtain d4 where d4: "put_attr d3 a (\<lambda>r. r\<lparr>at_node := Some n, at_next := None\<rparr>) = Ok d4" "relinks None d3 d4" "ends_ok d4"
      using put_attr_step [OF d3(3), of a "\<lambda>r. r\<lparr>at_node := Some n, at_next := None\<rparr>" None]
        c2(1) relinks_dom(2) [OF d3(2)] by auto
    have "ndm_xml_node_append_attr d n (Some a) = Ok d4"
      using link r Some l d1(1) d2(1) d3(1) d4(1) by (simp add: ndm_xml_node_append_attr_def)
    moreover have "relinks None d d4"
      using relinks_trans [OF relinks_trans [OF relinks_trans [OF d1(2) d2(2)] d3(2)] d4(2)] .
    ultimately show ?thesis using d4(3) by blast
  qed
qed

section \<open>Runs\<close>

text \<open>
  A run that ends in defined behaviour with a result that satisfies \<open>P\<close>, or in one of the two
  ways out where \<open>cl\<close> does not hold.
\<close>

fun run_ok :: "bool \<Rightarrow> ('a \<Rightarrow> bool) \<Rightarrow> 'a xml_run \<Rightarrow> bool" where
  "run_ok cl P (XmlRun x) \<longleftrightarrow> P x"
| "run_ok cl P XmlAssertion \<longleftrightarrow> \<not> cl"
| "run_ok cl P XmlOverflow \<longleftrightarrow> \<not> cl"
| "run_ok cl P XmlOutside \<longleftrightarrow> False"
| "run_ok cl P XmlNoFuel \<longleftrightarrow> False"

lemma run_ok_bind: "run_ok cl P r \<Longrightarrow> (\<And>x. P x \<Longrightarrow> run_ok cl Q (f x)) \<Longrightarrow> run_ok cl Q (bind_xml r f)"
  by (cases r) auto

lemma run_ok_mono: "run_ok cl P r \<Longrightarrow> (\<And>x. P x \<Longrightarrow> Q x) \<Longrightarrow> run_ok cl Q r"
  by (cases r) auto

definition step_ok :: "bool \<Rightarrow> nat \<Rightarrow> ndm_xml_document_t \<Rightarrow> nat \<Rightarrow> xml_code \<times> ndm_xml_document_t \<times> nat \<Rightarrow> bool" where
  "step_ok cl z d0 lo = (\<lambda>(code, d, pos). keeps cl z d0 d \<and> (code = NDM_XML_DOCUMENT_PARSE_ERROR_OK \<longrightarrow> lo \<le> pos \<and> pos \<le> z))"

text \<open>A node that was parsed is new and has no parent yet; none is missing where \<open>cl\<close> holds.\<close>

definition new_node :: "ndm_xml_document_t \<Rightarrow> ndm_xml_document_t \<Rightarrow> nat option \<Rightarrow> bool" where
  "new_node d0 d node \<longleftrightarrow>
     (\<forall>c. node = Some c \<longrightarrow> doc_nodes d0 c = None \<and>
       (\<exists>r. doc_nodes d c = Some r \<and> nd_parent r = None \<and> nd_type r \<noteq> NDM_XML_NODE_TYPE_DOCUMENT))"

definition node_step_ok ::
  "bool \<Rightarrow> nat \<Rightarrow> ndm_xml_document_t \<Rightarrow> nat \<Rightarrow> xml_code \<times> ndm_xml_document_t \<times> nat \<times> nat option \<Rightarrow> bool" where
  "node_step_ok cl z d0 lo = (\<lambda>(code, d, pos, node). keeps cl z d0 d \<and>
     (code = NDM_XML_DOCUMENT_PARSE_ERROR_OK \<longrightarrow>
        lo \<le> pos \<and> pos \<le> z \<and> new_node d0 d node \<and> (cl \<longrightarrow> node \<noteq> None)))"

lemma step_ok_simp [simp]:
  "step_ok cl z d0 lo (code, d, pos) \<longleftrightarrow>
    keeps cl z d0 d \<and> (code = NDM_XML_DOCUMENT_PARSE_ERROR_OK \<longrightarrow> lo \<le> pos \<and> pos \<le> z)"
  by (simp add: step_ok_def)

lemma node_step_ok_simp [simp]:
  "node_step_ok cl z d0 lo (code, d, pos, node) \<longleftrightarrow>
    keeps cl z d0 d \<and> (code = NDM_XML_DOCUMENT_PARSE_ERROR_OK \<longrightarrow>
      lo \<le> pos \<and> pos \<le> z \<and> new_node d0 d node \<and> (cl \<longrightarrow> node \<noteq> None))"
  by (simp add: node_step_ok_def)

lemma doc_peek: "doc_ok cl z d \<Longrightarrow> pos \<le> z \<Longrightarrow> peek (doc_text d) pos = Some (doc_text d ! pos)"
  using peek_terminated [OF doc_ok_terminated] .

lemma doc_next: "doc_ok cl z d \<Longrightarrow> pos \<le> z \<Longrightarrow> doc_text d ! pos \<noteq> 0 \<Longrightarrow> Suc pos \<le> z"
  using terminated_le [OF terminated_next [OF doc_ok_terminated]] .

lemma doc_skip:
  "doc_ok cl z d \<Longrightarrow> \<not> P 0 \<Longrightarrow> pos \<le> z \<Longrightarrow>
   \<exists>s. skip_while P (doc_text d) pos = Some s \<and> pos \<le> s \<and> s \<le> z \<and> \<not> P (doc_text d ! s)"
  using skip_while_terminated [of P "doc_text d" pos z] doc_ok_terminated terminated_le by metis

lemmas doc_skip_whitespace = doc_skip [of _ _ _ xml_whitespace_pred, OF _ xml_preds_0(1)]
  and doc_skip_node_name = doc_skip [of _ _ _ xml_node_name_pred, OF _ xml_preds_0(2)]
  and doc_skip_attr_name = doc_skip [of _ _ _ xml_attr_name_pred, OF _ xml_preds_0(3)]

lemma doc_expand:
  assumes "doc_ok cl z d" "pos \<le> z" "\<not> stop 0" "\<not> pure 0"
  shows "\<exists>code buf pos' end'. xml_skip_and_expand_character_refs stop pure flags (doc_text d) pos = Some (code, buf, pos', end') \<and>
    keeps cl z d (d\<lparr>doc_text := buf\<rparr>) \<and> pos \<le> pos' \<and> pos' \<le> z \<and>
    (code = NDM_XML_DOCUMENT_PARSE_ERROR_OK \<longrightarrow> end' \<le> pos' \<and> \<not> stop (buf ! pos'))"
proof -
  obtain code buf pos' end' where e:
    "xml_skip_and_expand_character_refs stop pure flags (doc_text d) pos = Some (code, buf, pos', end')"
    "length buf = length (doc_text d)" "drop z buf = drop z (doc_text d)" "pos \<le> pos'" "terminated buf pos' z"
    "code = NDM_XML_DOCUMENT_PARSE_ERROR_OK \<longrightarrow> end' \<le> pos' \<and> \<not> stop (buf ! pos')"
    using expand_terminated [of "doc_text d" pos z stop pure flags, OF doc_ok_terminated [OF assms(1,2)] assms(3,4)] by blast
  then show ?thesis
    using keeps_text [OF assms(1) e(2,3)] expand_plain [OF _ doc_ok_terminated [OF assms(1,2)] assms(3,4) e(1)]
      terminated_le [OF e(5)] by auto
qed

section \<open>Attributes\<close>

lemma xml_attribute_value_ok:
  assumes ok: "doc_ok cl z d" and a: "doc_attrs d a \<noteq> None" and pos: "pos \<le> z" and q: "quote \<in> {39, 34}"
  shows "run_ok cl (step_ok cl z d pos) (xml_attribute_value d a pos flags quote)"
proof -
  let ?stop = "if quote = 39 then xml_attr_value_quote_pred else xml_attr_value_dquote_pred"
  let ?pure = "if quote = 39 then xml_attr_value_pure_quote_pred else xml_attr_value_pure_dquote_pred"
  let ?f = "flags AND NOT NDM_XML_DOCUMENT_PARSE_FLAGS_NORMALIZE_WHITESPACE"
  have p0: "\<not> ?stop 0" "\<not> ?pure 0" by simp_all
  obtain code buf p e where x: "xml_skip_and_expand_character_refs ?stop ?pure ?f (doc_text d) pos = Some (code, buf, p, e)"
      "keeps cl z d (d\<lparr>doc_text := buf\<rparr>)" "pos \<le> p" "p \<le> z" "code = NDM_XML_DOCUMENT_PARSE_ERROR_OK \<Longrightarrow> e \<le> p"
    using doc_expand [OF ok pos, of ?stop ?pure ?f] p0 by blast
  let ?d = "d\<lparr>doc_text := buf\<rparr>"
  have call: "(if quote = 39
         then xml_skip_and_expand_character_refs xml_attr_value_quote_pred xml_attr_value_pure_quote_pred ?f (doc_text d) pos
         else xml_skip_and_expand_character_refs xml_attr_value_dquote_pred xml_attr_value_pure_dquote_pred ?f (doc_text d) pos)
      = Some (code, buf, p, e)" using x(1) by (simp split: if_splits)
  note ok1 = keeps_ok [OF x(2)]
  show ?thesis
  proof (cases "code = NDM_XML_DOCUMENT_PARSE_ERROR_OK \<and> buf ! p = quote")
    case False
    then show ?thesis using x(2) doc_peek [OF ok1 x(4)] by (auto simp: xml_attribute_value_def Let_def call)
  next
    case True
    then have "Suc p \<le> z" using doc_next [OF ok1 x(4)] q by auto
    obtain d2 where d2: "put_zero ?d e = Some d2" "keeps cl z ?d d2" "doc_attrs d2 = doc_attrs ?d"
      using put_zero_keeps [OF ok1] x(4,5) True by (meson order_trans)
    obtain d3 where d3: "ndm_xml_attr_set_value d2 a (Some (XmlText pos)) = Ok d3" "keeps cl z d2 d3"
      using set_attr_keeps(2) [OF keeps_ok [OF d2(2)] _ pos, of a] a d2(3) by auto
    obtain s where s: "skip_while xml_whitespace_pred (doc_text d3) (Suc p) = Some s" "Suc p \<le> s" "s \<le> z"
      using doc_skip_whitespace [OF keeps_ok [OF d3(2)] \<open>Suc p \<le> z\<close>] by blast
    have "keeps cl z d d3" using keeps_trans [OF x(2) keeps_trans [OF d2(2) d3(2)]] .
    then show ?thesis using True x(3) doc_peek [OF ok1 x(4)] d2(1) d3(1) s
      by (simp add: xml_attribute_value_def Let_def call)
  qed
qed

lemma xml_parse_attribute_ok:
  assumes ok: "doc_ok cl z d" and n: "doc_nodes d n \<noteq> None" and pos: "pos \<le> z" "xml_attr_name_pred (doc_text d ! pos)"
  shows "run_ok cl (step_ok cl z d (Suc pos)) (xml_parse_attribute d n pos flags)"
proof -
  have "Suc pos \<le> z" using doc_next [OF ok pos(1)] pos(2) by (metis xml_preds_0(3))
  obtain e where e: "skip_while xml_attr_name_pred (doc_text d) (Suc pos) = Some e" "Suc pos \<le> e" "e \<le> z"
    using doc_skip_attr_name [OF ok \<open>Suc pos \<le> z\<close>] by blast
  obtain c d1 where d1: "ndm_xml_document_alloc_attr d None None = Ok (c, d1)" "keeps cl z d d1"
      "\<And>a. c = Some a \<Longrightarrow> doc_attrs d1 a = Some blank_attr"
    using alloc_attr_keeps [OF ok] by blast
  show ?thesis
  proof (cases c)
    case None
    then show ?thesis using e d1 by (simp add: xml_parse_attribute_def)
  next
    case (Some a)
    have link: "can_link_attr d1 (Some a)" using d1(3) [OF Some] by (simp add: can_link_attr_def blank_attr_def)
    obtain d2 where d2: "ndm_xml_node_append_attr d1 n (Some a) = Ok d2" "relinks None d1 d2" "ends_ok d2"
      using append_attr_relinks [OF doc_ok_ends [OF keeps_ok [OF d1(2)]] keeps_node [OF d1(2) n] link] by blast
    have k2: "keeps cl z d d2" using relinks_keeps [OF d1(2) d2(2,3)] by simp
    have a2: "doc_attrs d2 a \<noteq> None" using relinks_dom(2) [OF d2(2)] d1(3) [OF Some] by simp
    obtain p where p: "skip_while xml_whitespace_pred (doc_text d2) e = Some p" "e \<le> p" "p \<le> z"
      using doc_skip_whitespace [OF keeps_ok [OF k2] e(3)] by blast
    note pk = doc_peek [OF keeps_ok [OF k2] p(3)]
    show ?thesis
    proof (cases "doc_text d2 ! p = 61")
      case False
      then show ?thesis using e d1 Some d2(1) p k2 pk by (simp add: xml_parse_attribute_def)
    next
      case eq: True
      then have "Suc p \<le> z" using doc_next [OF keeps_ok [OF k2] p(3)] by simp
      obtain d3 where d3: "put_zero d2 e = Some d3" "keeps cl z d2 d3" "doc_attrs d3 = doc_attrs d2"
        using put_zero_keeps [OF keeps_ok [OF k2] e(3)] by blast
      obtain d4 where d4: "ndm_xml_attr_set_name d3 a (Some (XmlText pos)) = Ok d4" "keeps cl z d3 d4"
        using set_attr_keeps(1) [OF keeps_ok [OF d3(2)] _ pos(1), of a] a2 d3(3) by auto
      have k4: "keeps cl z d d4" using keeps_trans [OF k2 keeps_trans [OF d3(2) d4(2)]] .
      have a4: "doc_attrs d4 a \<noteq> None" using keeps_attr [OF d4(2)] a2 d3(3) by simp
      obtain r where r: "skip_while xml_whitespace_pred (doc_text d4) (Suc p) = Some r" "Suc p \<le> r" "r \<le> z"
        using doc_skip_whitespace [OF keeps_ok [OF k4] \<open>Suc p \<le> z\<close>] by blast
      note pk4 = doc_peek [OF keeps_ok [OF k4] r(3)]
      have unf: "xml_parse_attribute d n pos flags =
          (if doc_text d4 ! r \<noteq> 39 \<and> doc_text d4 ! r \<noteq> 34
           then xml_fails NDM_XML_DOCUMENT_PARSE_ERROR_QUOTE_EXPECTED d4 r
           else xml_attribute_value d4 a (Suc r) flags (doc_text d4 ! r))"
        using e d1(1) Some d2(1) p pk eq d3(1) d4(1) r(1) pk4 by (simp add: xml_parse_attribute_def)
      show ?thesis
      proof (cases "doc_text d4 ! r \<noteq> 39 \<and> doc_text d4 ! r \<noteq> 34")
        case True
        then show ?thesis using k4 by (simp add: unf)
      next
        case False
        then have "Suc r \<le> z" "doc_text d4 ! r \<in> {39, 34}" using doc_next [OF keeps_ok [OF k4] r(3)] by auto
        from xml_attribute_value_ok [OF keeps_ok [OF k4] a4 this, of flags]
        have "run_ok cl (step_ok cl z d (Suc pos)) (xml_attribute_value d4 a (Suc r) flags (doc_text d4 ! r))"
          by (rule run_ok_mono) (use e(2) p(2) r(2) keeps_trans [OF k4] in \<open>auto simp: step_ok_def\<close>)
        then show ?thesis unfolding unf if_not_P [OF False] .
      qed
    qed
  qed
qed

lemma xml_parse_node_attributes_ok:
  assumes "doc_ok cl z d" "doc_nodes d n \<noteq> None" "pos \<le> z" "z - pos < fuel"
  shows "run_ok cl (step_ok cl z d pos) (xml_parse_node_attributes fuel d n pos flags)"
  using assms
proof (induction fuel arbitrary: d pos)
  case (Suc fuel)
  note pk = doc_peek [OF Suc.prems(1,3)]
  show ?case
  proof (cases "xml_attr_name_pred (doc_text d ! pos)")
    case False
    then show ?thesis using pk Suc.prems keeps_refl by simp
  next
    case True
    have "run_ok cl (step_ok cl z d pos) (if_parsed (xml_parse_attribute d n pos flags) (\<lambda>d pos. xml_parse_node_attributes fuel d n pos flags))"
      unfolding if_parsed_def
    proof (rule run_ok_bind [OF xml_parse_attribute_ok [OF Suc.prems(1-3) True]], clarify)
      fix code d' pos'
      assume st: "step_ok cl z d (Suc pos) (code, d', pos')"
      show "run_ok cl (step_ok cl z d pos) (if code \<noteq> NDM_XML_DOCUMENT_PARSE_ERROR_OK then XmlRun (code, d', pos')
        else xml_parse_node_attributes fuel d' n pos' flags)"
      proof (cases "code = NDM_XML_DOCUMENT_PARSE_ERROR_OK")
        case True
        with st have k: "keeps cl z d d'" "Suc pos \<le> pos'" "pos' \<le> z" by auto
        have "run_ok cl (step_ok cl z d' pos') (xml_parse_node_attributes fuel d' n pos' flags)"
          by (rule Suc.IH) (use k keeps_ok [OF k(1)] keeps_node [OF k(1)] Suc.prems in auto)
        then show ?thesis using True
          by simp (erule run_ok_mono, use k keeps_trans [OF k(1)] in \<open>auto simp: step_ok_def\<close>)
      qed (use st in simp)
    qed
    then show ?thesis using True pk by simp
  qed
qed simp

section \<open>Nodes other than elements\<close>

text \<open>Those that \<open>'!'\<close> and \<open>'?'\<close> start are met only where \<open>cl\<close> does not hold.\<close>

lemma new_node_None [simp]: "new_node d0 d None"
  by (simp add: new_node_def)

lemma new_node_keeps:
  assumes "new_node d0 d node" "keeps cl z d d'"
  shows "new_node d0 d' node"
  unfolding new_node_def
proof (intro allI impI)
  fix c assume "node = Some c"
  with assms(1) obtain r where r: "doc_nodes d0 c = None" "doc_nodes d c = Some r" "nd_parent r = None"
      "nd_type r \<noteq> NDM_XML_NODE_TYPE_DOCUMENT" by (auto simp: new_node_def)
  obtain r' where "doc_nodes d' c = Some r'" "nd_parent r' = nd_parent r" "nd_type r' = nd_type r"
    using keeps_frame [OF assms(2) r(2)] by blast
  then show "doc_nodes d0 c = None \<and>
      (\<exists>r. doc_nodes d' c = Some r \<and> nd_parent r = None \<and> nd_type r \<noteq> NDM_XML_NODE_TYPE_DOCUMENT)"
    using r by simp
qed

lemma alloc_new_node:
  assumes "ndm_xml_document_alloc_node d type None None = Ok (Some n, d')" "doc_ok cl z d" "type \<noteq> NDM_XML_NODE_TYPE_DOCUMENT"
  shows "new_node d d' (Some n)" "doc_nodes d' n \<noteq> None"
proof -
  obtain c e where "ndm_xml_document_alloc_node d type None None = Ok (c, e)"
      "\<forall>n. c = Some n \<longrightarrow> doc_nodes d n = None \<and> doc_nodes e n = Some (blank_node type)"
    using alloc_node_keeps [OF assms(2)] by blast
  then show "new_node d d' (Some n)" "doc_nodes d' n \<noteq> None"
    using assms(1,3) by (auto simp: new_node_def blank_node_def)
qed

lemma new_node_older:
  "new_node e f node \<Longrightarrow> keeps cl z d e \<Longrightarrow> new_node d f node"
  unfolding new_node_def using keeps_node by blast

lemma node_step_lift:
  assumes "run_ok cl (node_step_ok cl z e q) r" "keeps cl z d e" "lo \<le> q"
  shows "run_ok cl (node_step_ok cl z d lo) r"
  using assms(1) by (rule run_ok_mono)
    (use assms(3) keeps_trans [OF assms(2)] new_node_older [OF _ assms(2)] in \<open>auto simp: node_step_ok_def\<close>)

lemma step_lift:
  assumes "run_ok cl (step_ok cl z e q) r" "keeps cl z d e" "lo \<le> q"
  shows "run_ok cl (step_ok cl z d lo) r"
  using assms(1) by (rule run_ok_mono) (use assms(2,3) keeps_trans in \<open>fastforce simp: step_ok_def\<close>)

lemma xml_value_node_ok:
  assumes ok: "doc_ok cl z d" and pos: "start \<le> z" "pos + k \<le> z" and type: "type \<noteq> NDM_XML_NODE_TYPE_DOCUMENT"
  shows "run_ok cl (node_step_ok cl z d pos) (xml_value_node d type start pos k)"
proof -
  obtain c d1 where d1: "ndm_xml_document_alloc_node d type None None = Ok (c, d1)" "keeps cl z d d1"
    using alloc_node_keeps [OF ok] by blast
  show ?thesis
  proof (cases c)
    case None
    then show ?thesis using d1 by (simp add: xml_value_node_def)
  next
    case (Some n)
    note nw = alloc_new_node [OF d1(1) [unfolded Some] ok type]
    obtain d2 where d2: "put_zero d1 pos = Some d2" "keeps cl z d1 d2" "doc_nodes d2 = doc_nodes d1"
      using put_zero_keeps [OF keeps_ok [OF d1(2)], of pos] pos(2) by auto
    obtain d3 where d3: "ndm_xml_node_set_value d2 n (Some (XmlText start)) = Ok d3" "keeps cl z d2 d3"
      using set_value_keeps [OF keeps_ok [OF d2(2)] _ pos(1), of n] nw(2) d2(3) by auto
    have "new_node d d3 (Some n)" using new_node_keeps [OF nw(1) keeps_trans [OF d2(2) d3(2)]] .
    then show ?thesis
      using keeps_trans [OF d1(2) keeps_trans [OF d2(2) d3(2)]] pos(2) d1(1) d2(1) d3(1) Some
      by (simp add: xml_value_node_def)
  qed
qed

lemma doc_until:
  assumes "doc_ok cl z d" "pos \<le> z" "0 \<notin> set pat"
  shows "\<exists>found p. skip_until pat (doc_text d) pos = Some (found, p) \<and> pos \<le> p \<and> p \<le> z \<and> (found \<longrightarrow> p + length pat \<le> z)"
  using skip_until_terminated [OF doc_ok_terminated [OF assms(1,2)] assms(3)] terminated_le by metis

lemma xml_parse_comment_ok:
  assumes ok: "doc_ok False z d" and pos: "pos \<le> z"
  shows "run_ok False (node_step_ok False z d pos) (xml_parse_comment d pos flags)"
proof -
  obtain found p where s: "skip_until [45, 45, 62] (doc_text d) pos = Some (found, p)" "pos \<le> p" "p \<le> z" "found \<longrightarrow> p + 3 \<le> z"
    using doc_until [OF ok pos, of "[45, 45, 62]"] by auto
  then show ?thesis
    using run_ok_mono [OF xml_value_node_ok [OF ok pos, of p 3 NDM_XML_NODE_TYPE_COMMENT]] keeps_refl [OF ok]
    by (force simp: xml_parse_comment_def node_step_ok_def)
qed

lemma xml_parse_cdata_ok:
  assumes ok: "doc_ok False z d" and pos: "pos \<le> z"
  shows "run_ok False (node_step_ok False z d pos) (xml_parse_cdata d pos flags)"
proof -
  obtain found p where s: "skip_until [93, 93, 62] (doc_text d) pos = Some (found, p)" "pos \<le> p" "p \<le> z" "found \<longrightarrow> p + 3 \<le> z"
    using doc_until [OF ok pos, of "[93, 93, 62]"] by auto
  then show ?thesis
    using run_ok_mono [OF xml_value_node_ok [OF ok pos, of p 3 NDM_XML_NODE_TYPE_CDATA]] keeps_refl [OF ok]
    by (force simp: xml_parse_cdata_def node_step_ok_def)
qed

lemma xml_parse_doctype_ok:
  assumes ok: "doc_ok False z d" and pos: "pos \<le> z"
  shows "run_ok False (node_step_ok False z d pos) (xml_parse_doctype d pos flags)"
proof (cases "doctype_scan (doc_text d) pos 0 = XmlOverflow")
  case False
  then obtain code p where s: "doctype_scan (doc_text d) pos 0 = XmlRun (code, p)" "pos \<le> p" "terminated (doc_text d) p z"
      "code = NDM_XML_DOCUMENT_PARSE_ERROR_OK \<longrightarrow> doc_text d ! p = 62"
    using doctype_scan_terminated [OF doc_ok_terminated [OF ok pos], of 0] by blast
  have "p + 1 \<le> z" if "code = NDM_XML_DOCUMENT_PARSE_ERROR_OK"
    using doc_next [OF ok terminated_le [OF s(3)]] s(4) that by simp
  then show ?thesis
    using s run_ok_mono [OF xml_value_node_ok [OF ok pos, of p 1 NDM_XML_NODE_TYPE_DOCTYPE]] keeps_refl [OF ok]
    by (force simp: xml_parse_doctype_def node_step_ok_def)
qed (simp add: xml_parse_doctype_def)

lemma xml_skip_unknown_ok:
  assumes ok: "doc_ok False z d" and pos: "pos \<le> z"
  shows "run_ok False (node_step_ok False z d pos) (xml_skip_unknown d pos)"
proof -
  obtain p where p: "skip_while (\<lambda>c. c \<noteq> 62 \<and> c \<noteq> 0) (doc_text d) pos = Some p" "pos \<le> p" "p \<le> z"
    using doc_skip [OF ok, of "\<lambda>c. c \<noteq> 62 \<and> c \<noteq> 0" pos] pos by auto
  then show ?thesis using doc_peek [OF ok p(3)] doc_next [OF ok p(3)] keeps_refl [OF ok]
    by (simp add: xml_skip_unknown_def)
qed

lemma xml_parse_xml_declaration_ok:
  assumes ok: "doc_ok False z d" and pos: "pos \<le> z" "z - pos < fuel"
  shows "run_ok False (node_step_ok False z d pos) (xml_parse_xml_declaration fuel d pos flags)"
proof (cases "xml_flag flags NDM_XML_DOCUMENT_PARSE_FLAGS_PARSE_DECLARATION_NODE")
  case False
  obtain found p where s: "skip_until [63, 62] (doc_text d) pos = Some (found, p)" "pos \<le> p" "p \<le> z" "found \<longrightarrow> p + 2 \<le> z"
    using doc_until [OF ok pos(1), of "[63, 62]"] by auto
  then show ?thesis using False keeps_refl [OF ok] by (simp add: xml_parse_xml_declaration_def)
next
  case flag: True
  obtain c d1 where d1: "ndm_xml_document_alloc_node d NDM_XML_NODE_TYPE_DECLARATION None None = Ok (c, d1)" "keeps False z d d1"
    using alloc_node_keeps [OF ok] by blast
  show ?thesis
  proof (cases c)
    case None
    then show ?thesis using d1 flag by (simp add: xml_parse_xml_declaration_def)
  next
    case (Some n)
    note nw = alloc_new_node [OF d1(1) [unfolded Some] ok, simplified]
    obtain p where p: "skip_while xml_whitespace_pred (doc_text d1) pos = Some p" "pos \<le> p" "p \<le> z"
      using doc_skip_whitespace [OF keeps_ok [OF d1(2)] pos(1)] by blast
    have "run_ok False (step_ok False z d1 p) (xml_parse_node_attributes fuel d1 n p flags)"
      by (rule xml_parse_node_attributes_ok [OF keeps_ok [OF d1(2)]]) (use nw p pos in auto)
    then have "run_ok False (node_step_ok False z d pos)
      (bind_xml (xml_parse_node_attributes fuel d1 n p flags) (\<lambda>(code, d, pos).
        if code \<noteq> NDM_XML_DOCUMENT_PARSE_ERROR_OK then xml_node_fails code d (pos + 2)
        else access (matches (doc_text d) pos [63, 62]) (\<lambda>found.
          if \<not> found then xml_node_fails NDM_XML_DOCUMENT_PARSE_ERROR_DECL_END_EXPECTED d pos
          else XmlRun (NDM_XML_DOCUMENT_PARSE_ERROR_OK, d, pos + 2, Some n))))"
    proof (rule run_ok_bind, clarify)
      fix code d2 q
      assume st: "step_ok False z d1 p (code, d2, q)"
      then have k: "keeps False z d d2" using keeps_trans [OF d1(2)] by simp
      show "run_ok False (node_step_ok False z d pos) (if code \<noteq> NDM_XML_DOCUMENT_PARSE_ERROR_OK then xml_node_fails code d2 (q + 2)
        else access (matches (doc_text d2) q [63, 62]) (\<lambda>found.
          if \<not> found then xml_node_fails NDM_XML_DOCUMENT_PARSE_ERROR_DECL_END_EXPECTED d2 q
          else XmlRun (NDM_XML_DOCUMENT_PARSE_ERROR_OK, d2, q + 2, Some n)))"
      proof (cases "code = NDM_XML_DOCUMENT_PARSE_ERROR_OK")
        case True
        with st have q: "p \<le> q" "q \<le> z" "keeps False z d1 d2" by auto
        obtain b where b: "matches (doc_text d2) q [63, 62] = Some b" "b \<longrightarrow> q + 2 \<le> z"
          using matches_terminated [OF doc_ok_terminated [OF keeps_ok [OF k] q(2)], of "[63, 62]"] terminated_le by fastforce
        have "new_node d d2 (Some n)" using new_node_keeps [OF nw(1) q(3)] .
        then show ?thesis using True k b p q by (simp del: matches.simps)
      qed (use k in simp)
    qed
    then show ?thesis using flag d1(1) Some p(1) by (simp add: xml_parse_xml_declaration_def)
  qed
qed

lemma xml_parse_pi_ok:
  assumes ok: "doc_ok False z d" and pos: "pos \<le> z"
  shows "run_ok False (node_step_ok False z d pos) (xml_parse_pi d pos flags)"
proof (cases "xml_flag flags NDM_XML_DOCUMENT_PARSE_FLAGS_PARSE_PI_NODES")
  case False
  obtain found p where s: "skip_until [63, 62] (doc_text d) pos = Some (found, p)" "pos \<le> p" "p \<le> z" "found \<longrightarrow> p + 2 \<le> z"
    using doc_until [OF ok pos, of "[63, 62]"] by auto
  then show ?thesis using False keeps_refl [OF ok] by (simp add: xml_parse_pi_def)
next
  case flag: True
  obtain c d1 where d1: "ndm_xml_document_alloc_node d NDM_XML_NODE_TYPE_PI None None = Ok (c, d1)" "keeps False z d d1"
    using alloc_node_keeps [OF ok] by blast
  show ?thesis
  proof (cases c)
    case None
    then show ?thesis using d1 flag by (simp add: xml_parse_pi_def)
  next
    case (Some n)
    note nw = alloc_new_node [OF d1(1) [unfolded Some] ok, simplified]
    note ok1 = keeps_ok [OF d1(2)]
    obtain e where e: "skip_while xml_node_name_pred (doc_text d1) pos = Some e" "pos \<le> e" "e \<le> z"
      using doc_skip_node_name [OF ok1 pos] by blast
    obtain v where v: "skip_while xml_whitespace_pred (doc_text d1) e = Some v" "e \<le> v" "v \<le> z"
      using doc_skip_whitespace [OF ok1 e(3)] by blast
    obtain found p where s: "skip_until [63, 62] (doc_text d1) v = Some (found, p)" "v \<le> p" "p \<le> z" "found \<longrightarrow> p + 2 \<le> z"
      using doc_until [OF ok1 v(3), of "[63, 62]"] by auto
    obtain d2 where d2: "put_zero d1 e = Some d2" "keeps False z d1 d2" "doc_nodes d2 = doc_nodes d1"
      using put_zero_keeps [OF ok1 e(3)] by blast
    obtain d3 where d3: "put_zero d2 p = Some d3" "keeps False z d2 d3" "doc_nodes d3 = doc_nodes d2"
      using put_zero_keeps [OF keeps_ok [OF d2(2)] s(3)] by blast
    have n3: "doc_nodes d3 n \<noteq> None" using nw(2) d2(3) d3(3) by simp
    then obtain d4 where d4: "ndm_xml_node_set_name d3 n (Some (XmlText pos)) = Ok d4" "keeps False z d3 d4"
      using set_name_keeps [OF keeps_ok [OF d3(2)] _ pos] by blast
    have "doc_nodes d4 n \<noteq> None" using keeps_node [OF d4(2) n3] .
    then obtain d5 where d5: "ndm_xml_node_set_value d4 n (Some (XmlText v)) = Ok d5" "keeps False z d4 d5"
      using set_value_keeps [OF keeps_ok [OF d4(2)] _ v(3)] by blast
    have k: "keeps False z d1 d5" using keeps_trans [OF d2(2) keeps_trans [OF d3(2) keeps_trans [OF d4(2) d5(2)]]] .
    show ?thesis
      using flag d1 Some e v s d2(1) d3(1) d4(1) d5(1) keeps_trans [OF d1(2) k] new_node_keeps [OF nw(1) k]
      by (simp add: xml_parse_pi_def)
  qed
qed

lemma xml_parse_question_ok:
  assumes ok: "doc_ok False z d" and pos: "pos \<le> z" "doc_text d ! pos = 63" "z - pos < fuel"
  shows "run_ok False (node_step_ok False z d pos) (xml_parse_question fuel d pos flags)"
proof -
  have p1: "Suc pos \<le> z" using doc_next [OF ok pos(1)] pos(2) by simp
  let ?cs = "[{120, 88}, {109, 77}, {108, 76}, {32, 10, 13, 9}] :: u8 set list"
  have "\<exists>b. match_any (doc_text d) (Suc pos) ?cs = Some b \<and> (b \<longrightarrow> terminated (doc_text d) (Suc pos + length ?cs) z)"
    by (rule match_any_terminated [OF doc_ok_terminated [OF ok p1]]) auto
  then obtain b where b: "match_any (doc_text d) (Suc pos) ?cs = Some b" "b \<longrightarrow> pos + 5 \<le> z"
    using terminated_le by fastforce
  have "run_ok False (node_step_ok False z d pos) (xml_parse_xml_declaration fuel d (pos + 5) flags)" if b
    by (rule node_step_lift [OF xml_parse_xml_declaration_ok [OF ok] keeps_refl [OF ok]]) (use b(2) that pos(3) in auto)
  moreover have "run_ok False (node_step_ok False z d pos) (xml_parse_pi d (Suc pos) flags)"
    by (rule node_step_lift [OF xml_parse_pi_ok [OF ok p1] keeps_refl [OF ok]]) simp
  ultimately show ?thesis using b(1) by (cases b) (simp_all add: xml_parse_question_def del: match_any.simps)
qed

lemma xml_parse_exclamation_ok:
  assumes ok: "doc_ok False z d" and pos: "pos \<le> z" "doc_text d ! pos = 33"
  shows "run_ok False (node_step_ok False z d pos) (xml_parse_exclamation d pos flags)"
proof -
  have p1: "Suc pos \<le> z" using doc_next [OF ok pos(1)] pos(2) by simp
  note pk = doc_peek [OF ok p1]
  have lift: "run_ok False (node_step_ok False z d q) r \<Longrightarrow> pos \<le> q \<Longrightarrow> run_ok False (node_step_ok False z d pos) r" for q r
    using node_step_lift [OF _ keeps_refl [OF ok]] .
  have unk: "run_ok False (node_step_ok False z d pos) (xml_skip_unknown d (Suc pos))"
    by (rule lift [OF xml_skip_unknown_ok [OF ok p1]]) simp
  show ?thesis
  proof (cases "doc_text d ! Suc pos = 0")
    case True
    then show ?thesis using pk unk by (simp add: xml_parse_exclamation_def)
  next
    case False
    then have p2: "pos + 2 \<le> z" using doc_next [OF ok p1] by simp
    note t2 = doc_ok_terminated [OF ok p2]
    obtain b1 where b1: "matches (doc_text d) (pos + 2) [45] = Some b1" "b1 \<longrightarrow> pos + 3 \<le> z"
      using matches_terminated [OF t2, of "[45]"] terminated_le by fastforce
    obtain b2 where b2: "matches (doc_text d) (pos + 2) [67, 68, 65, 84, 65, 91] = Some b2" "b2 \<longrightarrow> pos + 8 \<le> z"
      using matches_terminated [OF t2, of "[67, 68, 65, 84, 65, 91]"] terminated_le by fastforce
    let ?cs = "[{79}, {67}, {84}, {89}, {80}, {69}, {32, 10, 13, 9}] :: u8 set list"
    have "\<exists>b. match_any (doc_text d) (pos + 2) ?cs = Some b \<and> (b \<longrightarrow> terminated (doc_text d) (pos + 2 + length ?cs) z)"
      by (rule match_any_terminated [OF t2]) auto
    then obtain b3 where b3: "match_any (doc_text d) (pos + 2) ?cs = Some b3" "b3 \<longrightarrow> pos + 9 \<le> z"
      using terminated_le by fastforce
    have "b1 \<Longrightarrow> run_ok False (node_step_ok False z d pos) (xml_parse_comment d (pos + 3) flags)"
      using lift [OF xml_parse_comment_ok [OF ok, of "pos + 3"]] b1(2) by simp
    moreover have "b2 \<Longrightarrow> run_ok False (node_step_ok False z d pos) (xml_parse_cdata d (pos + 8) flags)"
      using lift [OF xml_parse_cdata_ok [OF ok, of "pos + 8"]] b2(2) by simp
    moreover have "b3 \<Longrightarrow> run_ok False (node_step_ok False z d pos) (xml_parse_doctype d (pos + 9) flags)"
      using lift [OF xml_parse_doctype_ok [OF ok, of "pos + 9"]] b3(2) by simp
    ultimately show ?thesis using pk unk b1(1) b2(1) b3(1)
      by (simp add: xml_parse_exclamation_def del: match_any.simps matches.simps)
  qed
qed

section \<open>Elements\<close>

lemma xml_parse_closing_ok:
  assumes ok: "doc_ok cl z d" and n: "doc_nodes d n \<noteq> None" and pos: "pos \<le> z"
  shows "run_ok cl (step_ok cl z d pos) (xml_parse_closing d n pos flags)"
proof -
  obtain p where p: "skip_while xml_node_name_pred (doc_text d) pos = Some p" "pos \<le> p" "p \<le> z"
    using doc_skip_node_name [OF ok pos] by blast
  obtain q where q: "skip_while xml_whitespace_pred (doc_text d) p = Some q" "p \<le> q" "q \<le> z"
    using doc_skip_whitespace [OF ok p(3)] by blast
  obtain r where r: "doc_nodes d n = Some r" using n by auto
  obtain name where nm: "xml_string d (nd_name r) = Some name" using xml_string_name [OF ok r] by blast
  show ?thesis using p q r nm doc_peek [OF ok q(3)] doc_next [OF ok q(3)] keeps_refl [OF ok]
    by (simp add: xml_parse_closing_def ndm_xml_node_name_def)
qed

text \<open>A new node becomes a child of an older one.\<close>

lemma append_new_child:
  assumes k: "keeps cl z d0 d" and new: "new_node d0 d (Some c)" and n: "doc_nodes d0 n \<noteq> None"
  shows "\<exists>d'. ndm_xml_node_append_child d n (Some c) = Ok d' \<and> keeps cl z d0 d'"
proof -
  obtain r where r: "doc_nodes d0 c = None" "doc_nodes d c = Some r" "nd_parent r = None"
      "nd_type r \<noteq> NDM_XML_NODE_TYPE_DOCUMENT" using new by (auto simp: new_node_def)
  have "can_link d (Some c)" using r by (simp add: can_link_def)
  moreover have "c \<noteq> n" using n r(1) by auto
  ultimately obtain d' where d': "ndm_xml_node_append_child d n (Some c) = Ok d'" "relinks (Some c) d d'" "ends_ok d'"
    using append_child_relinks [OF doc_ok_ends [OF keeps_ok [OF k]] keeps_node [OF k n]] by blast
  have "keeps cl z d0 d'" by (rule relinks_keeps [OF k d'(2,3)]) (use r(1) in auto)
  then show ?thesis using d'(1) by blast
qed

definition data_ok ::
  "bool \<Rightarrow> nat \<Rightarrow> ndm_xml_document_t \<Rightarrow> nat \<Rightarrow> xml_code \<times> ndm_xml_document_t \<times> nat \<times> u8 \<Rightarrow> bool" where
  "data_ok cl z d0 lo = (\<lambda>(code, d, pos, c). keeps cl z d0 d \<and>
     (code = NDM_XML_DOCUMENT_PARSE_ERROR_OK \<longrightarrow> lo \<le> pos \<and> pos \<le> z \<and> (c = 60 \<and> Suc pos \<le> z \<or> c = 0)))"

lemma data_node_ok:
  assumes k: "keeps cl z d0 d" and n: "doc_nodes d0 n \<noteq> None"
  shows "run_ok cl (\<lambda>(code, d'). keeps cl z d0 d' \<and> doc_text d' = doc_text d)
    (if \<not> xml_flag flags NDM_XML_DOCUMENT_PARSE_FLAGS_NO_DATA_NODES then
       doing (ndm_xml_document_alloc_node d NDM_XML_NODE_TYPE_DATA None None) (\<lambda>(data', d).
       case data' of
         None \<Rightarrow> XmlRun (NDM_XML_DOCUMENT_PARSE_ERROR_OOM, d)
       | Some c \<Rightarrow> append_parsed d n data' (\<lambda>d. XmlRun (NDM_XML_DOCUMENT_PARSE_ERROR_OK, d)))
     else XmlRun (NDM_XML_DOCUMENT_PARSE_ERROR_OK, d))"
proof (cases "xml_flag flags NDM_XML_DOCUMENT_PARSE_FLAGS_NO_DATA_NODES")
  case False
  note ok = keeps_ok [OF k]
  obtain c d1 where d1: "ndm_xml_document_alloc_node d NDM_XML_NODE_TYPE_DATA None None = Ok (c, d1)" "keeps cl z d d1"
      "doc_text d1 = doc_text d" using alloc_node_keeps [OF ok] by blast
  show ?thesis
  proof (cases c)
    case None
    then show ?thesis using False d1 keeps_trans [OF k d1(2)] by simp
  next
    case (Some m)
    have "new_node d d1 (Some m)" by (rule alloc_new_node(1) [OF d1(1) [unfolded Some] ok]) simp
    then have new: "new_node d0 d1 (Some m)" using new_node_older k by blast
    have k1: "keeps cl z d0 d1" using keeps_trans [OF k d1(2)] .
    obtain d2 where d2: "ndm_xml_node_append_child d1 n (Some m) = Ok d2" "keeps cl z d0 d2"
      using append_new_child [OF k1 new n] by blast
    have "doc_text d2 = doc_text d1"
      using d2(1) by (auto simp: ndm_xml_node_append_child_def put_node_def need_def bind_result_Ok
          split: if_splits option.splits)
    then show ?thesis using False d1 d2 Some by (simp add: append_parsed_def)
  qed
qed (use k in simp)

lemma xml_parse_and_append_data_ok:
  assumes ok: "doc_ok cl z d" and n: "doc_nodes d n \<noteq> None" and pos: "cs \<le> pos" "pos \<le> z"
  shows "run_ok cl (data_ok cl z d cs) (xml_parse_and_append_data d n pos cs flags)"
proof -
  define start where "start = (if xml_flag flags NDM_XML_DOCUMENT_PARSE_FLAGS_TRIM_WHITESPACE then pos else cs)"
  have start: "cs \<le> start" "start \<le> z" using pos by (auto simp: start_def)
  let ?pure = "if xml_flag flags NDM_XML_DOCUMENT_PARSE_FLAGS_NORMALIZE_WHITESPACE
    then xml_text_pure_with_ws_pred else xml_text_pure_no_ws_pred"
  have p0: "\<not> xml_text_pred 0" "\<not> ?pure 0" by simp_all
  obtain code buf p e where x: "xml_skip_and_expand_character_refs xml_text_pred ?pure flags (doc_text d) start = Some (code, buf, p, e)"
      "keeps cl z d (d\<lparr>doc_text := buf\<rparr>)" "start \<le> p" "p \<le> z"
      "code = NDM_XML_DOCUMENT_PARSE_ERROR_OK \<longrightarrow> e \<le> p \<and> \<not> xml_text_pred (buf ! p)"
    using doc_expand [where stop = xml_text_pred and pure = ?pure, OF ok start(2) p0, of flags] by blast
  let ?d = "d\<lparr>doc_text := buf\<rparr>"
  note ok1 = keeps_ok [OF x(2)]
  show ?thesis
  proof (cases "code = NDM_XML_DOCUMENT_PARSE_ERROR_OK")
    case False
    then show ?thesis using x(2)
      by (simp add: xml_parse_and_append_data_def Let_def start_def [symmetric] x(1) data_ok_def)
  next
    case True
    then have ep: "e \<le> p" "\<not> xml_text_pred (buf ! p)" using x(5) by auto
    have "e \<le> length buf" using ep(1) x(4) ok1 by (simp add: doc_ok_def)
    then obtain e' where e': "xml_trim flags buf p e = Some e'" "e' \<le> e" using xml_trim_ok by blast
    have unf: "xml_parse_and_append_data d n pos cs flags = bind_xml
        (if \<not> xml_flag flags NDM_XML_DOCUMENT_PARSE_FLAGS_NO_DATA_NODES then
           doing (ndm_xml_document_alloc_node ?d NDM_XML_NODE_TYPE_DATA None None) (\<lambda>(data', d).
           case data' of
             None \<Rightarrow> XmlRun (NDM_XML_DOCUMENT_PARSE_ERROR_OOM, d)
           | Some c \<Rightarrow> append_parsed d n data' (\<lambda>d. XmlRun (NDM_XML_DOCUMENT_PARSE_ERROR_OK, d)))
         else XmlRun (NDM_XML_DOCUMENT_PARSE_ERROR_OK, ?d)) (\<lambda>(code, d).
        if code \<noteq> NDM_XML_DOCUMENT_PARSE_ERROR_OK then XmlRun (code, d, p, 0)
        else
          access (peek (doc_text d) p) (\<lambda>following.
          access (put_zero d e') (\<lambda>d.
          doing (ndm_xml_node_name d n) (\<lambda>s.
          access (xml_string d s) (\<lambda>name.
          doing
            (if \<not> xml_flag flags NDM_XML_DOCUMENT_PARSE_FLAGS_NO_ELEMENT_VALUES \<and> xml_name_is_empty (Some name)
             then ndm_xml_node_set_value d n (Some (XmlText start)) else Ok d) (\<lambda>d.
          XmlRun (NDM_XML_DOCUMENT_PARSE_ERROR_OK, d, p, following)))))))"
      using True by (simp add: xml_parse_and_append_data_def Let_def start_def [symmetric] x(1) e'(1))
    show ?thesis unfolding unf
    proof (rule run_ok_bind [OF data_node_ok [OF x(2) n]], clarify)
      fix code' d2
      assume k: "keeps cl z d d2" and same: "doc_text d2 = doc_text ?d"
      note ok2 = keeps_ok [OF k]
      have fol: "peek (doc_text d2) p = Some (buf ! p)" using doc_peek [OF ok2 x(4)] same by simp
      have c: "buf ! p = 60 \<and> Suc p \<le> z \<or> buf ! p = 0"
        using ep(2) doc_next [OF ok1 x(4)] by (auto simp: xml_text_pred_def)
      obtain d3 where d3: "put_zero d2 e' = Some d3" "keeps cl z d2 d3" "doc_nodes d3 = doc_nodes d2"
        using put_zero_keeps [OF ok2, of e'] e'(2) ep(1) x(4) by auto
      note k3 = keeps_trans [OF k d3(2)]
      obtain r where r: "doc_nodes d3 n = Some r" using keeps_node [OF k3 n] by auto
      obtain name where nm: "xml_string d3 (nd_name r) = Some name"
        using xml_string_name [OF keeps_ok [OF k3] r] by blast
      obtain d4 where d4: "ndm_xml_node_set_value d3 n (Some (XmlText start)) = Ok d4" "keeps cl z d3 d4"
        using set_value_keeps [OF keeps_ok [OF k3] r start(2)] by blast
      show "run_ok cl (data_ok cl z d cs) (if code' \<noteq> NDM_XML_DOCUMENT_PARSE_ERROR_OK then XmlRun (code', d2, p, 0)
        else
          access (peek (doc_text d2) p) (\<lambda>following.
          access (put_zero d2 e') (\<lambda>d.
          doing (ndm_xml_node_name d n) (\<lambda>s.
          access (xml_string d s) (\<lambda>name.
          doing
            (if \<not> xml_flag flags NDM_XML_DOCUMENT_PARSE_FLAGS_NO_ELEMENT_VALUES \<and> xml_name_is_empty (Some name)
             then ndm_xml_node_set_value d n (Some (XmlText start)) else Ok d) (\<lambda>d.
          XmlRun (NDM_XML_DOCUMENT_PARSE_ERROR_OK, d, p, following)))))))"
        using k k3 keeps_trans [OF k3 d4(2)] fol c d3(1) r nm d4(1) start(1) x(3,4)
        by (simp add: ndm_xml_node_name_def data_ok_def)
    qed
  qed
qed

text \<open>
  The fuel of the mutual recursion falls with every call, and the distance to the
  terminator with every round.
\<close>

definition element_ok :: "bool \<Rightarrow> nat \<Rightarrow> u32 \<Rightarrow> nat \<Rightarrow> bool" where
  "element_ok cl z flags fuel \<longleftrightarrow> (\<forall>d pos. doc_ok cl z d \<longrightarrow> pos \<le> z \<longrightarrow> 4 * (z - pos) + 3 \<le> fuel \<longrightarrow>
     run_ok cl (node_step_ok cl z d pos) (xml_parse_element fuel d pos flags))"

definition any_ok :: "bool \<Rightarrow> nat \<Rightarrow> u32 \<Rightarrow> nat \<Rightarrow> bool" where
  "any_ok cl z flags fuel \<longleftrightarrow> (\<forall>d pos. doc_ok cl z d \<longrightarrow> pos \<le> z \<longrightarrow> 4 * (z - pos) + 4 \<le> fuel \<longrightarrow>
     run_ok cl (node_step_ok cl z d pos) (xml_parse_node fuel d pos flags))"

definition contents_ok :: "bool \<Rightarrow> nat \<Rightarrow> u32 \<Rightarrow> nat \<Rightarrow> bool" where
  "contents_ok cl z flags fuel \<longleftrightarrow> (\<forall>d n cs. doc_ok cl z d \<longrightarrow> doc_nodes d n \<noteq> None \<longrightarrow> cs \<le> z \<longrightarrow>
     4 * (z - cs) + 3 \<le> fuel \<longrightarrow> run_ok cl (step_ok cl z d cs) (xml_parse_node_contents fuel d n cs flags))"

definition content_ok :: "bool \<Rightarrow> nat \<Rightarrow> u32 \<Rightarrow> nat \<Rightarrow> bool" where
  "content_ok cl z flags fuel \<longleftrightarrow> (\<forall>d n cs pos c. doc_ok cl z d \<longrightarrow> doc_nodes d n \<noteq> None \<longrightarrow> cs \<le> pos \<longrightarrow> pos \<le> z \<longrightarrow>
     (c = 60 \<longrightarrow> Suc pos \<le> z) \<longrightarrow> (if c = 60 \<or> c = 0 then 4 * (z - pos) + 1 else 4 * (z - cs) + 2) \<le> fuel \<longrightarrow>
     run_ok cl (step_ok cl z d cs) (xml_parse_content fuel d n pos cs c flags))"

lemma any_ok_Suc:
  assumes "element_ok cl z flags fuel"
  shows "any_ok cl z flags (Suc fuel)"
  unfolding any_ok_def
proof (intro allI impI)
  fix d pos
  assume ok: "doc_ok cl z d" and pos: "pos \<le> z" and fuel: "4 * (z - pos) + 4 \<le> Suc fuel"
  have el: "run_ok cl (node_step_ok cl z d pos) (xml_parse_element fuel d pos flags)"
    using assms ok pos fuel by (simp add: element_ok_def)
  show "run_ok cl (node_step_ok cl z d pos) (xml_parse_node (Suc fuel) d pos flags)"
  proof (cases "doc_text d ! pos = 63 \<or> doc_text d ! pos = 33")
    case False
    then show ?thesis using doc_peek [OF ok pos] el by (simp add: xml_parse_node.simps)
  next
    case True
    then have "pos < z" "z < length (doc_text d)" using doc_next [OF ok pos] ok by (auto simp: doc_ok_def)
    then have "\<not> plain_markup z (doc_text d)" using plain_at [of z "doc_text d" pos] True by auto
    then have cl: "\<not> cl" using ok by (auto simp: doc_ok_def)
    then have okF: "doc_ok False z d" using ok by simp
    show ?thesis
      using cl doc_peek [OF ok pos] True xml_parse_question_ok [OF okF pos, of fuel flags] fuel
        xml_parse_exclamation_ok [OF okF pos, of flags]
      by (auto simp: xml_parse_node.simps)
  qed
qed

lemma contents_ok_Suc:
  assumes "content_ok cl z flags fuel"
  shows "contents_ok cl z flags (Suc fuel)"
  unfolding contents_ok_def
proof (intro allI impI)
  fix d n cs
  assume ok: "doc_ok cl z d" and n: "doc_nodes d n \<noteq> None" and cs: "cs \<le> z" and fuel: "4 * (z - cs) + 3 \<le> Suc fuel"
  obtain p where p: "skip_while xml_whitespace_pred (doc_text d) cs = Some p" "cs \<le> p" "p \<le> z"
    using doc_skip_whitespace [OF ok cs] by blast
  have bound: "(if doc_text d ! p = 60 \<or> doc_text d ! p = 0 then 4 * (z - p) + 1 else 4 * (z - cs) + 2) \<le> fuel"
    using p(2) fuel by auto
  have "doc_text d ! p = 60 \<longrightarrow> Suc p \<le> z" using doc_next [OF ok p(3)] by auto
  then have "run_ok cl (step_ok cl z d cs) (xml_parse_content fuel d n p cs (doc_text d ! p) flags)"
    using assms ok n p(2,3) bound unfolding content_ok_def by blast
  then show "run_ok cl (step_ok cl z d cs) (xml_parse_node_contents (Suc fuel) d n cs flags)"
    using p(1) doc_peek [OF ok p(3)] by (simp add: xml_parse_node_contents.simps)
qed

lemma content_markup_ok:
  assumes any: "any_ok cl z flags fuel" and contents: "contents_ok cl z flags fuel"
    and ok: "doc_ok cl z d" and n: "doc_nodes d n \<noteq> None" and pos: "cs \<le> pos" "Suc pos \<le> z" and fuel: "4 * (z - pos) \<le> fuel"
  shows "run_ok cl (step_ok cl z d cs)
    (bind_xml (xml_parse_node fuel d (pos + 1) flags) (\<lambda>(code, d, pos, child).
          if code \<noteq> NDM_XML_DOCUMENT_PARSE_ERROR_OK then xml_fails code d pos
          else append_parsed d n child (\<lambda>d. xml_parse_node_contents fuel d n pos flags)))"
proof (rule run_ok_bind [where P = "node_step_ok cl z d (pos + 1)"], goal_cases)
  case 1
  show ?case using any ok pos fuel unfolding any_ok_def by simp
next
  case (2 x)
  obtain code d1 p child where x: "x = (code, d1, p, child)" by (cases x)
  show ?case
  proof (cases "code = NDM_XML_DOCUMENT_PARSE_ERROR_OK \<and> child \<noteq> None")
    case False
    then show ?thesis using 2 by (auto simp: x append_parsed_def)
  next
    case True
    then obtain c where c: "child = Some c" by blast
    have k: "keeps cl z d d1" "pos + 1 \<le> p" "p \<le> z" "new_node d d1 (Some c)" using 2 True c by (simp_all add: x)
    obtain d2 where d2: "ndm_xml_node_append_child d1 n (Some c) = Ok d2" "keeps cl z d d2"
      using append_new_child [OF k(1,4) n] by blast
    have "run_ok cl (step_ok cl z d2 p) (xml_parse_node_contents fuel d2 n p flags)"
      using contents keeps_ok [OF d2(2)] keeps_node [OF d2(2) n] k(2,3) pos fuel unfolding contents_ok_def by simp
    then have "run_ok cl (step_ok cl z d cs) (xml_parse_node_contents fuel d2 n p flags)"
      by (rule run_ok_mono) (use k(2) pos keeps_trans [OF d2(2)] in \<open>auto simp: step_ok_def\<close>)
    then show ?thesis using True c d2(1) by (simp add: x append_parsed_def)
  qed
qed

lemma content_ok_Suc:
  assumes any: "any_ok cl z flags fuel" and contents: "contents_ok cl z flags fuel" and content: "content_ok cl z flags fuel"
  shows "content_ok cl z flags (Suc fuel)"
  unfolding content_ok_def
proof (intro allI impI)
  fix d n cs pos and c :: u8
  assume ok: "doc_ok cl z d" and n: "doc_nodes d n \<noteq> None" and pos: "cs \<le> pos" "pos \<le> z"
    and mark: "c = 60 \<longrightarrow> Suc pos \<le> z"
    and fuel: "(if c = 60 \<or> c = 0 then 4 * (z - pos) + 1 else 4 * (z - cs) + 2) \<le> Suc fuel"
  consider "c = 60" | "c = 0" | "c \<noteq> 60" "c \<noteq> 0" by blast
  then show "run_ok cl (step_ok cl z d cs) (xml_parse_content (Suc fuel) d n pos cs c flags)"
  proof cases
    case 1
    then have p: "Suc pos \<le> z" "4 * (z - pos) \<le> fuel" using mark fuel by simp_all
    note pk = doc_peek [OF ok p(1)]
    have "run_ok cl (step_ok cl z d cs) (xml_parse_closing d n (pos + 2) flags)" if "doc_text d ! Suc pos = 47"
    proof -
      have "Suc (Suc pos) \<le> z" using doc_next [OF ok p(1)] that by simp
      then show ?thesis
        using run_ok_mono [OF xml_parse_closing_ok [OF ok n, of "pos + 2" flags]] pos by (fastforce simp: step_ok_def)
    qed
    then show ?thesis using 1 pk content_markup_ok [OF any contents ok n pos(1) p]
      by (simp add: xml_parse_content.simps)
  next
    case 2
    then show ?thesis using keeps_refl [OF ok] by (simp add: xml_parse_content.simps)
  next
    case 3
    have "run_ok cl (step_ok cl z d cs) (bind_xml (xml_parse_and_append_data d n pos cs flags) (\<lambda>(code, d, pos, c).
        if code \<noteq> NDM_XML_DOCUMENT_PARSE_ERROR_OK then xml_fails code d pos
        else xml_parse_content fuel d n pos cs c flags))"
    proof (rule run_ok_bind [OF xml_parse_and_append_data_ok [OF ok n pos]], goal_cases)
      case (1 x)
      obtain code d1 p c1 where x: "x = (code, d1, p, c1)" by (cases x)
      show ?case
      proof (cases "code = NDM_XML_DOCUMENT_PARSE_ERROR_OK")
        case False
        then show ?thesis using 1 by (simp add: x data_ok_def)
      next
        case True
        then have k: "keeps cl z d d1" "cs \<le> p" "p \<le> z" "c1 = 60 \<longrightarrow> Suc p \<le> z" "c1 = 60 \<or> c1 = 0"
          using 1 by (auto simp: x data_ok_def)
        have "(if c1 = 60 \<or> c1 = 0 then 4 * (z - p) + 1 else 4 * (z - cs) + 2) \<le> fuel" using k(2,5) 3 fuel by auto
        then have "run_ok cl (step_ok cl z d1 cs) (xml_parse_content fuel d1 n p cs c1 flags)"
          using content keeps_ok [OF k(1)] keeps_node [OF k(1) n] k(2-4) unfolding content_ok_def by blast
        then have "run_ok cl (step_ok cl z d cs) (xml_parse_content fuel d1 n p cs c1 flags)"
          by (rule run_ok_mono) (use keeps_trans [OF k(1)] in \<open>auto simp: step_ok_def\<close>)
        then show ?thesis using True by (simp add: x)
      qed
    qed
    then show ?thesis using 3 by (simp add: xml_parse_content.simps)
  qed
qed

lemma node_if_parsed_ok:
  assumes "run_ok cl (step_ok cl z d lo) r" "\<And>d' p. keeps cl z d d' \<Longrightarrow> lo \<le> p \<Longrightarrow> p \<le> z \<Longrightarrow> run_ok cl (node_step_ok cl z d0 l0) (f d' p)"
    and "keeps cl z d0 d"
  shows "run_ok cl (node_step_ok cl z d0 l0) (node_if_parsed r f)"
  unfolding node_if_parsed_def
  by (rule run_ok_bind [OF assms(1)]) (use assms(2) keeps_trans [OF assms(3)] in \<open>auto simp: step_ok_def\<close>)

text \<open>The name is terminated and set again after the attributes.\<close>

lemma name_again:
  assumes "keeps cl z d d1" "doc_nodes d n \<noteq> None" "e \<le> z" "name \<le> z"
  shows "\<exists>d2 d3. put_zero d1 e = Some d2 \<and> ndm_xml_node_set_name d2 n (Some (XmlText name)) = Ok d3 \<and> keeps cl z d1 d3"
proof -
  obtain d2 where d2: "put_zero d1 e = Some d2" "keeps cl z d1 d2"
    using put_zero_keeps [OF keeps_ok [OF assms(1)] assms(3)] by blast
  obtain r where "doc_nodes d2 n = Some r" using keeps_node [OF d2(2) keeps_node [OF assms(1,2)]] by blast
  from set_name_keeps [OF keeps_ok [OF d2(2)] this assms(4)] show ?thesis using d2 keeps_trans [OF d2(2)] by blast
qed

text \<open>An element after its attributes.\<close>

definition element_rest ::
  "nat \<Rightarrow> ndm_xml_document_t \<Rightarrow> nat option \<Rightarrow> nat \<Rightarrow> nat \<Rightarrow> nat \<Rightarrow> nat \<Rightarrow> u32 \<Rightarrow> xml_node_step" where
  "element_rest fuel d el n name e pos flags =
     access (peek (doc_text d) pos) (\<lambda>c.
           if c = 62 then
             access (put_zero d e) (\<lambda>d.
             doing (ndm_xml_node_set_name d n (Some (XmlText name))) (\<lambda>d.
             node_if_parsed (xml_parse_node_contents fuel d n (pos + 1) flags) (\<lambda>d pos.
             access (put_zero d e) (\<lambda>d.
             XmlRun (NDM_XML_DOCUMENT_PARSE_ERROR_OK, d, pos, el)))))
           else if c = 47 then
             access (put_zero d e) (\<lambda>d.
             doing (ndm_xml_node_set_name d n (Some (XmlText name))) (\<lambda>d.
             access (peek (doc_text d) (pos + 1)) (\<lambda>c.
             if c \<noteq> 62 then xml_node_fails NDM_XML_DOCUMENT_PARSE_ERROR_RBRACKET_EXPECTED d (pos + 1)
             else
               access (put_zero d e) (\<lambda>d.
               XmlRun (NDM_XML_DOCUMENT_PARSE_ERROR_OK, d, pos + 2, el)))))
           else xml_node_fails NDM_XML_DOCUMENT_PARSE_ERROR_RBRACKET_EXPECTED d pos)"

lemma element_rest_ok:
  assumes contents: "contents_ok cl z flags fuel" and k: "keeps cl z d0 d" and new: "new_node d0 d (Some n)"
    and bounds: "e \<le> z" "name \<le> p" "p \<le> z" and fuel: "4 * (z - p) \<le> Suc fuel"
  shows "run_ok cl (node_step_ok cl z d0 name) (element_rest fuel d (Some n) n name e p flags)"
proof -
  note ok = keeps_ok [OF k]
  note pk = doc_peek [OF ok bounds(3)]
  have n: "doc_nodes d n \<noteq> None" using new by (auto simp: new_node_def)
  have name: "name \<le> z" using bounds by simp
  obtain d2 d3 where d3: "put_zero d e = Some d2" "ndm_xml_node_set_name d2 n (Some (XmlText name)) = Ok d3" "keeps cl z d d3"
    using name_again [OF keeps_refl [OF ok] n bounds(1) name] by blast
  note k3 = keeps_trans [OF k d3(3)]
  have last: "run_ok cl (node_step_ok cl z d0 name) (access (put_zero f e) (\<lambda>d. XmlRun (NDM_XML_DOCUMENT_PARSE_ERROR_OK, d, q, Some n)))"
    if f: "keeps cl z d3 f" "name \<le> q" "q \<le> z" for f q
  proof -
    obtain g where g: "put_zero f e = Some g" "keeps cl z f g" using put_zero_keeps [OF keeps_ok [OF f(1)] bounds(1)] by blast
    have "keeps cl z d g" using keeps_trans [OF d3(3) keeps_trans [OF f(1) g(2)]] .
    then show ?thesis using g(1) f(2,3) keeps_trans [OF k] new_node_keeps [OF new] by simp
  qed
  consider "doc_text d ! p = 62" | "doc_text d ! p = 47" | "doc_text d ! p \<noteq> 62" "doc_text d ! p \<noteq> 47" by blast
  then show ?thesis
  proof cases
    case 1
    then have p1: "Suc p \<le> z" using doc_next [OF ok bounds(3)] by simp
    have "run_ok cl (step_ok cl z d3 (p + 1)) (xml_parse_node_contents fuel d3 n (p + 1) flags)"
      using contents keeps_ok [OF d3(3)] keeps_node [OF d3(3) n] p1 fuel unfolding contents_ok_def by simp
    then have "run_ok cl (node_step_ok cl z d0 name) (node_if_parsed (xml_parse_node_contents fuel d3 n (p + 1) flags)
        (\<lambda>d pos. access (put_zero d e) (\<lambda>d. XmlRun (NDM_XML_DOCUMENT_PARSE_ERROR_OK, d, pos, Some n))))"
      by (rule node_if_parsed_ok [OF _ _ k3]) (use last bounds(2) in auto)
    then show ?thesis using 1 pk d3(1,2) by (simp add: element_rest_def)
  next
    case 2
    then have p1: "Suc p \<le> z" using doc_next [OF ok bounds(3)] by simp
    note ok3 = keeps_ok [OF d3(3)]
    have "doc_text d3 ! Suc p = 62 \<longrightarrow> p + 2 \<le> z" using doc_next [OF ok3 p1] by simp
    then show ?thesis using 2 pk d3(1,2) doc_peek [OF ok3 p1] last [OF keeps_refl [OF ok3], of "p + 2"] bounds(2) k3
      by (simp add: element_rest_def)
  next
    case 3
    then show ?thesis using pk k by (simp add: element_rest_def)
  qed
qed

lemma element_ok_Suc:
  assumes contents: "contents_ok cl z flags fuel"
  shows "element_ok cl z flags (Suc fuel)"
  unfolding element_ok_def
proof (intro allI impI)
  fix d name
  assume ok: "doc_ok cl z d" and name: "name \<le> z" and fuel: "4 * (z - name) + 3 \<le> Suc fuel"
  obtain el d1 where d1: "ndm_xml_document_alloc_node d NDM_XML_NODE_TYPE_ELEMENT None None = Ok (el, d1)" "keeps cl z d d1"
    using alloc_node_keeps [OF ok] by blast
  show "run_ok cl (node_step_ok cl z d name) (xml_parse_element (Suc fuel) d name flags)"
  proof (cases el)
    case None
    then show ?thesis using d1 by (simp add: xml_parse_element.simps)
  next
    case (Some n)
    note nw = alloc_new_node [OF d1(1) [unfolded Some] ok, simplified]
    note ok1 = keeps_ok [OF d1(2)]
    obtain e where e: "skip_while xml_node_name_pred (doc_text d1) name = Some e" "name \<le> e" "e \<le> z"
      using doc_skip_node_name [OF ok1 name] by blast
    obtain pos where pos: "skip_while xml_whitespace_pred (doc_text d1) e = Some pos" "e \<le> pos" "pos \<le> z"
      using doc_skip_whitespace [OF ok1 e(3)] by blast
    obtain r1 where r1: "doc_nodes d1 n = Some r1" using nw(2) by blast
    then obtain d2 where d2: "ndm_xml_node_set_name d1 n (Some (XmlText name)) = Ok d2" "keeps cl z d1 d2"
      using set_name_keeps [OF ok1 _ name] by blast
    have n2: "doc_nodes d2 n \<noteq> None" using keeps_node [OF d2(2)] r1 by simp
    have new2: "new_node d d2 (Some n)" using new_node_keeps [OF nw(1) d2(2)] .
    have unf: "xml_parse_element (Suc fuel) d name flags =
        (if e = name then xml_node_fails NDM_XML_DOCUMENT_PARSE_ERROR_NODE_NAME_EXPECTED d1 e
         else node_if_parsed (xml_parse_node_attributes fuel d2 n pos flags)
           (\<lambda>d pos. element_rest fuel d (Some n) n name e pos flags))"
      using d1(1) Some e(1) pos(1) d2(1) by (simp add: xml_parse_element.simps element_rest_def)
    have "run_ok cl (node_step_ok cl z d name) (node_if_parsed (xml_parse_node_attributes fuel d2 n pos flags)
        (\<lambda>d pos. element_rest fuel d (Some n) n name e pos flags))" if ne: "e \<noteq> name"
    proof (rule node_if_parsed_ok [of cl z d2 pos])
      show "run_ok cl (step_ok cl z d2 pos) (xml_parse_node_attributes fuel d2 n pos flags)"
        by (rule xml_parse_node_attributes_ok [OF keeps_ok [OF d2(2)] n2 pos(3)]) (use fuel e(2) ne pos(2,3) in auto)
      show "keeps cl z d d2" using keeps_trans [OF d1(2) d2(2)] .
      fix d' p assume "keeps cl z d2 d'" "pos \<le> p" "p \<le> z"
      then show "run_ok cl (node_step_ok cl z d name) (element_rest fuel d' (Some n) n name e p flags)"
        using element_rest_ok [OF contents keeps_trans [OF \<open>keeps cl z d d2\<close>] new_node_keeps [OF new2] e(3)] e(2) pos(2) fuel
        by simp
    qed
    then show ?thesis using d1(2) by (simp add: unf)
  qed
qed

lemma parser_ok: "element_ok cl z flags fuel \<and> any_ok cl z flags fuel \<and> contents_ok cl z flags fuel \<and> content_ok cl z flags fuel"
proof (induction fuel)
  case 0
  show ?case by (auto simp: element_ok_def any_ok_def contents_ok_def content_ok_def)
next
  case (Suc fuel)
  then show ?case by (simp add: element_ok_Suc any_ok_Suc contents_ok_Suc content_ok_Suc)
qed

section \<open>Documents\<close>

lemma xml_parse_nodes_ok:
  assumes "doc_ok cl z d" "doc_nodes d root \<noteq> None" "pos \<le> z" "4 * (z - pos) + 5 \<le> fuel"
  shows "run_ok cl (step_ok cl z d pos) (xml_parse_nodes fuel d root pos flags)"
  using assms
proof (induction fuel arbitrary: d pos)
  case (Suc fuel)
  note ok = Suc.prems(1)
  obtain p where p: "skip_while xml_whitespace_pred (doc_text d) pos = Some p" "pos \<le> p" "p \<le> z"
    using doc_skip_whitespace [OF ok Suc.prems(3)] by blast
  note pk = doc_peek [OF ok p(3)]
  show ?case
  proof (cases "doc_text d ! p = 60")
    case False
    then show ?thesis using p pk keeps_refl [OF ok] by simp
  next
    case True
    then have p1: "Suc p \<le> z" using doc_next [OF ok p(3)] by simp
    have "run_ok cl (step_ok cl z d pos) (bind_xml (xml_parse_node fuel d (p + 1) flags) (\<lambda>(code, d, pos, node).
       if code \<noteq> NDM_XML_DOCUMENT_PARSE_ERROR_OK then xml_fails code d pos
       else
         doing (if node \<noteq> None then ndm_xml_node_append_child d root node else Ok d) (\<lambda>d.
         access (peek (doc_text d) pos) (\<lambda>c.
         if c = 0 then XmlRun (NDM_XML_DOCUMENT_PARSE_ERROR_OK, d, pos)
         else xml_parse_nodes fuel d root pos flags))))"
    proof (rule run_ok_bind [where P = "node_step_ok cl z d (p + 1)"], goal_cases)
      case 1
      show ?case using parser_ok [of cl z flags fuel] ok p1 Suc.prems(4) p(2) unfolding any_ok_def by simp
    next
      case (2 x)
      obtain code d1 q node where x: "x = (code, d1, q, node)" by (cases x)
      show ?case
      proof (cases "code = NDM_XML_DOCUMENT_PARSE_ERROR_OK")
        case False
        then show ?thesis using 2 by (simp add: x)
      next
        case code: True
        then have k: "keeps cl z d d1" "p + 1 \<le> q" "q \<le> z" "new_node d d1 node" using 2 by (simp_all add: x)
        obtain d2 where d2: "(if node \<noteq> None then ndm_xml_node_append_child d1 root node else Ok d1) = Ok d2" "keeps cl z d d2"
          using append_new_child [OF k(1) _ Suc.prems(2)] k(1,4) by (cases node) auto
        have "run_ok cl (step_ok cl z d2 q) (xml_parse_nodes fuel d2 root q flags)"
          by (rule Suc.IH) (use keeps_ok [OF d2(2)] keeps_node [OF d2(2) Suc.prems(2)] k(2,3) p(2) Suc.prems(4) in auto)
        then have "run_ok cl (step_ok cl z d pos) (xml_parse_nodes fuel d2 root q flags)"
          by (rule run_ok_mono) (use k(2) p(2) keeps_trans [OF d2(2)] in \<open>auto simp: step_ok_def\<close>)
        then show ?thesis using code d2 k(2,3) p(2) doc_peek [OF keeps_ok [OF d2(2)] k(3)] by (simp add: x)
      qed
    qed
    then show ?thesis using True p pk by simp
  qed
qed simp

lemma blank_doc_ok:
  "z < length (doc_text d) \<Longrightarrow> doc_text d ! z = 0 \<Longrightarrow> cl \<longrightarrow> plain_markup z (doc_text d) \<Longrightarrow>
   doc_ok cl z (ndm_xml_document_clear d)"
  by (simp add: doc_ok_def ndm_xml_document_clear_def)

text \<open>What is left of the text, and the names that can be read.\<close>

definition parsed_ok :: "bool \<Rightarrow> nat \<Rightarrow> u8 list \<Rightarrow> ndm_xml_document_t \<Rightarrow> bool" where
  "parsed_ok cl z txt' d \<longleftrightarrow> doc_ok cl z d \<and> length (doc_text d) = length txt' \<and> drop z (doc_text d) = drop z txt'"

lemma parsed_ok_keeps: "parsed_ok cl z txt' d \<Longrightarrow> keeps cl z d d' \<Longrightarrow> parsed_ok cl z txt' d'"
  by (simp add: parsed_ok_def keeps_def)

lemma parsed_ok_clear: "parsed_ok cl z txt' d \<Longrightarrow> parsed_ok cl z txt' (ndm_xml_document_clear d)"
  by (simp add: parsed_ok_def doc_ok_def ndm_xml_document_clear_def)

lemma parsed_ok_root: "parsed_ok cl z txt' (d\<lparr>doc_root := r\<rparr>) = parsed_ok cl z txt' d"
  by (simp add: parsed_ok_def doc_ok_def node_ok_def)

lemma alloc_root_ok:
  assumes "parsed_ok cl z txt' d"
  shows "\<exists>r d'. ndm_xml_document_alloc_root d = Ok (r, d') \<and> parsed_ok cl z txt' d' \<and>
    (\<forall>n. r = Some n \<longrightarrow> doc_nodes d' n \<noteq> None)"
proof -
  let ?d = "ndm_xml_document_clear d"
  have p: "parsed_ok cl z txt' ?d" using parsed_ok_clear [OF assms] .
  then have "doc_ok cl z ?d" by (simp add: parsed_ok_def)
  then obtain c d1 where d1: "ndm_xml_document_alloc_node ?d NDM_XML_NODE_TYPE_DOCUMENT None None = Ok (c, d1)" "keeps cl z ?d d1"
      "\<And>n. c = Some n \<Longrightarrow> doc_nodes d1 n \<noteq> None"
    using alloc_node_keeps by (metis option.distinct(1))
  have p1: "parsed_ok cl z txt' (d1\<lparr>doc_root := c\<rparr>)" using parsed_ok_keeps [OF p d1(2)] by (simp add: parsed_ok_root)
  show ?thesis using d1 p1 parsed_ok_clear [OF p1]
    by (auto simp: ndm_xml_document_alloc_root_def ndm_xml_document_root_def ndm_xml_document_clear_def Let_def)
qed

lemma xml_parser_do_ok:
  assumes "parsed_ok cl z txt' (ndm_xml_document_clear d)" "4 * z + 5 \<le> fuel"
  shows "run_ok cl (\<lambda>(code, d, pos). parsed_ok cl z txt' d) (xml_parser_do fuel d flags)"
proof -
  obtain r d1 where d1: "ndm_xml_document_alloc_root (ndm_xml_document_clear d) = Ok (r, d1)" "parsed_ok cl z txt' d1"
      "\<And>n. r = Some n \<Longrightarrow> doc_nodes d1 n \<noteq> None"
    using alloc_root_ok [OF assms(1)] by blast
  show ?thesis
  proof (cases r)
    case None
    then show ?thesis using d1 by (simp add: xml_parser_do_def Let_def)
  next
    case (Some n)
    have ok: "doc_ok cl z d1" using d1(2) by (simp add: parsed_ok_def)
    obtain b where b: "matches (doc_text d1) 0 [239, 187, 191] = Some b" "b \<longrightarrow> 3 \<le> z"
      using matches_terminated [OF doc_ok_terminated [OF ok le0], of "[239, 187, 191]"] terminated_le by fastforce
    have "run_ok cl (\<lambda>(code, d, pos). parsed_ok cl z txt' d) (xml_parse_nodes fuel d1 n pos flags)" if "pos \<le> z" for pos
      by (rule run_ok_mono [OF xml_parse_nodes_ok [OF ok d1(3) [OF Some] that]])
        (use assms(2) parsed_ok_keeps [OF d1(2)] in \<open>auto simp: step_ok_def\<close>)
    then show ?thesis using d1(1) Some b by (simp add: xml_parser_do_def Let_def del: matches.simps)
  qed
qed

text \<open>
  C5: on every text that holds a terminator, with the stated fuel, the XML parser reads
  and writes nothing outside the text, follows no pointer to nothing, and never goes on for ever: it
  returns a code and a document, where the bytes from the terminator on are as they were and the
  name of every node that is left can be read, or it fails the assertion that a parsed child is not
  \<open>NULL\<close>, or overflows the depth of an internal subset of \<open>DOCTYPE\<close>. The last two happen only
  on texts with one of the bytes \<open>'!'\<close>, \<open>'?'\<close> and \<open>'&'\<close>: on a text of elements, attributes
  and data without them the parser always returns.
\<close>

theorem xml_parse_safe:
  assumes "z < length txt'" "txt' ! z = 0" "4 * z + 5 \<le> fuel"
  shows "case ndm_xml_document_parse fuel d txt' flags of
      XmlRun (code, d') \<Rightarrow> length (doc_text d') = length txt' \<and> drop z (doc_text d') = drop z txt' \<and>
        (\<forall>n r. doc_nodes d' n = Some r \<longrightarrow> (\<exists>name. xml_string d' (nd_name r) = Some name))
    | XmlAssertion \<Rightarrow> \<not> plain_markup z txt'
    | XmlOverflow \<Rightarrow> \<not> plain_markup z txt'
    | XmlOutside \<Rightarrow> False
    | XmlNoFuel \<Rightarrow> False"
proof -
  let ?cl = "plain_markup z txt'"
  have "run_ok ?cl (\<lambda>(code, d, pos). parsed_ok ?cl z txt' d) (xml_parser_do fuel (d\<lparr>doc_text := txt'\<rparr>) flags)"
  proof -
    have c: "parsed_ok ?cl z txt' (ndm_xml_document_clear (d\<lparr>doc_text := txt'\<rparr>))"
      using assms blank_doc_ok [of z "d\<lparr>doc_text := txt'\<rparr>" ?cl] by (simp add: parsed_ok_def ndm_xml_document_clear_def)
    show ?thesis using xml_parser_do_ok [OF c assms(3)] by simp
  qed
  then have "run_ok ?cl (\<lambda>(code, d'). parsed_ok ?cl z txt' d') (ndm_xml_document_parse fuel d txt' flags)"
    unfolding ndm_xml_document_parse_def
    by (rule run_ok_bind) (auto simp: Let_def parsed_ok_clear)
  then show ?thesis
    using xml_string_name by (cases "ndm_xml_document_parse fuel d txt' flags") (auto simp: parsed_ok_def)
qed


theorem xml_parse_safe_witness:
  "case ndm_xml_document_parse 33 (ndm_xml_document_init \<lparr>answers = \<lambda>_. True, garbage = \<lambda>_. 0\<rparr> [] 0 512)
      [60, 97, 62, 60, 47, 97, 62, 0] NDM_XML_DOCUMENT_PARSE_FLAGS_DEFAULT of
      XmlRun (code, d') \<Rightarrow> drop 7 (doc_text d') = [0] \<and>
        (\<forall>n r. doc_nodes d' n = Some r \<longrightarrow> (\<exists>name. xml_string d' (nd_name r) = Some name))
    | _ \<Rightarrow> False"
proof -
  have "plain_markup 7 [60, 97, 62, 60, 47, 97, 62, 0]" by (simp add: plain_markup_def)
  then show ?thesis
    using xml_parse_safe [of 7 "[60, 97, 62, 60, 47, 97, 62, 0]" 33 "ndm_xml_document_init \<lparr>answers = \<lambda>_. True, garbage = \<lambda>_. 0\<rparr> [] 0 512"
      NDM_XML_DOCUMENT_PARSE_FLAGS_DEFAULT]
    by (simp split: xml_run.splits prod.splits)
qed

end
