(* ===== verification/Core_Buffer.thy ===== *)
theory Core_Buffer
  imports Xml_Document
begin

text \<open>
  The buffered socket traffic of \<^verbatim>\<open>src/core.c\<close>: sending a whole buffer and receiving a
  given number of bytes before a deadline. The operating system is a script of rounds, one
  for each turn of a loop: the milliseconds left, the answer of \<open>poll\<close> (or of the
  interruptible \<open>ndm_poll\<close>, whichever is called) and what \<open>send\<close> or \<open>recv\<close> does. The
  bytes the peer sends are a list. A call that has used up the script is still waiting.
\<close>

record io_round =
  io_left :: int
  io_poll :: int
  io_revents :: u16
  io_moved :: int
  io_errno :: errno

definition POLLIN :: u16 where "POLLIN = 1"
definition POLLOUT :: u16 where "POLLOUT = 4"
definition POLLHUP :: u16 where "POLLHUP = 16"
definition POLLNVAL :: u16 where "POLLNVAL = 32"

text \<open>A buffer is its block, with \<open>getp\<close> and \<open>putp\<close> as offsets from \<open>start\<close>.\<close>

record ndm_core_buffer_t =
  buf_block :: "u8 list"
  buf_getp :: nat
  buf_putp :: nat

definition core_buffer_init :: "u8 list \<Rightarrow> ndm_core_buffer_t" where
  "core_buffer_init block = \<lparr>buf_block = block, buf_getp = 0, buf_putp = 0\<rparr>"

definition core_buffer_is_empty :: "ndm_core_buffer_t \<Rightarrow> bool" where
  "core_buffer_is_empty b \<longleftrightarrow> buf_getp b = buf_putp b"

text \<open>A connection: the buffer of the caller, the rounds to come, the bytes of both directions.\<close>

record core_conn =
  conn_buffer :: ndm_core_buffer_t
  conn_rounds :: "io_round list"
  conn_in :: "u8 list"
  conn_out :: "u8 list"

datatype 'a io = IoDone 'a core_conn | IoFailed errno core_conn | IoUndefined | IoWaiting

fun bind_io :: "'a io \<Rightarrow> ('a \<Rightarrow> core_conn \<Rightarrow> 'b io) \<Rightarrow> 'b io" where
  "bind_io (IoDone x c) f = f x c"
| "bind_io (IoFailed e c) f = IoFailed e c"
| "bind_io IoUndefined f = IoUndefined"
| "bind_io IoWaiting f = IoWaiting"

section \<open>Sending\<close>

text \<open>One turn of the loop; \<open>False\<close> is the \<open>continue\<close> after an empty poll.\<close>

definition core_send_round :: "core_conn \<Rightarrow> bool io" where
  "core_send_round c =
     (case conn_rounds c of
        [] \<Rightarrow> IoWaiting
      | r # rs \<Rightarrow>
          let c = c\<lparr>conn_rounds := rs\<rparr>; b = conn_buffer c in
          if io_left r \<le> 0 then IoFailed ETIMEDOUT c
          else if io_poll r < 0 then IoFailed (io_errno r) c
          else if io_poll r = 0 then IoDone False c
          else if io_revents r AND POLLHUP \<noteq> 0 then IoFailed ECONNRESET c
          else if io_revents r AND POLLNVAL \<noteq> 0 then IoFailed EINVAL c
          else if io_revents r AND POLLOUT = 0 then IoFailed EIO c
          else if io_moved r < 0 then IoFailed (io_errno r) c
          else if io_moved r = 0 then IoFailed EIO c
          else
            let s = min (nat (io_moved r)) (buf_putp b - buf_getp b) in
            (case mem_read (buf_block b) (buf_getp b) s of
               None \<Rightarrow> IoUndefined
             | Some bs \<Rightarrow>
                 IoDone True (c\<lparr>conn_buffer := b\<lparr>buf_getp := buf_getp b + s\<rparr>, conn_out := conn_out c @ bs\<rparr>)))"

lemma core_send_round_less:
  "core_send_round c = IoDone x c' \<Longrightarrow> length (conn_rounds c') < length (conn_rounds c)"
  by (auto simp: core_send_round_def Let_def split: list.splits if_splits option.splits)

function core_buffer_send_all :: "core_conn \<Rightarrow> unit io" where
  "core_buffer_send_all c =
     (if core_buffer_is_empty (conn_buffer c) then IoDone () c
      else
        (case core_send_round c of
           IoDone sent c \<Rightarrow> core_buffer_send_all c
         | IoFailed e c \<Rightarrow> IoFailed e c
         | IoUndefined \<Rightarrow> IoUndefined
         | IoWaiting \<Rightarrow> IoWaiting))"
  by auto
termination
  by (relation "measure (\<lambda>c. length (conn_rounds c))") (auto dest: core_send_round_less)

declare core_buffer_send_all.simps [simp del]

section \<open>Receiving\<close>

text \<open>An empty buffer is filled; \<open>False\<close> is the \<open>continue\<close> after an empty poll.\<close>

definition core_fill :: "core_conn \<Rightarrow> bool io" where
  "core_fill c =
     (case conn_rounds c of
        [] \<Rightarrow> IoWaiting
      | r # rs \<Rightarrow>
          let b = (conn_buffer c)\<lparr>buf_putp := 0, buf_getp := 0\<rparr>; c = c\<lparr>conn_rounds := rs, conn_buffer := b\<rparr> in
          if io_left r \<le> 0 then IoFailed ETIMEDOUT c
          else if io_poll r < 0 then IoFailed (io_errno r) c
          else if io_poll r = 0 then IoDone False c
          else if io_revents r AND POLLNVAL \<noteq> 0 then IoFailed EINVAL c
          else if io_revents r AND (POLLIN OR POLLHUP) = 0 then IoFailed EIO c
          else if io_moved r < 0 then IoFailed (io_errno r) c
          else
            let bs = take (min (nat (io_moved r)) (length (buf_block b))) (conn_in c) in
            if bs = [] then IoFailed ECONNRESET c
            else
              (case mem_write (buf_block b) 0 bs of
                 None \<Rightarrow> IoUndefined
               | Some blk \<Rightarrow>
                   IoDone True (c\<lparr>conn_buffer := b\<lparr>buf_block := blk, buf_putp := length bs\<rparr>,
                     conn_in := drop (length bs) (conn_in c)\<rparr>)))"

text \<open>At most \<open>n\<close> bytes are copied from the buffer.\<close>

definition core_copied :: "core_conn \<Rightarrow> nat \<Rightarrow> (u8 list \<times> core_conn) option" where
  "core_copied c n =
     (let b = conn_buffer c; k = min n (buf_putp b - buf_getp b) in
      if buf_putp b < buf_getp b then None
      else map_option (\<lambda>bs. (bs, c\<lparr>conn_buffer := b\<lparr>buf_getp := buf_getp b + k\<rparr>\<rparr>))
        (mem_read (buf_block b) (buf_getp b) k))"

lemma core_fill_less:
  "core_fill c = IoDone x c' \<Longrightarrow> length (conn_rounds c') < length (conn_rounds c)"
  by (auto simp: core_fill_def Let_def split: list.splits if_splits option.splits)

lemma core_fill_True: "core_fill c = IoDone True c' \<Longrightarrow> \<not> core_buffer_is_empty (conn_buffer c')"
  by (auto simp: core_fill_def core_buffer_is_empty_def Let_def min_def split: list.splits if_splits option.splits)

lemma core_copied_less:
  assumes "core_copied c n = Some (bs, c')" "0 < n" "\<not> core_buffer_is_empty (conn_buffer c)"
  shows "0 < length bs" "conn_rounds c' = conn_rounds c"
  using assms by (auto simp: core_copied_def Let_def core_buffer_is_empty_def dest!: mem_read_length split: if_splits)

text \<open>
  The bytes received so far are \<open>got\<close>; they are copied to memory with room for \<open>room\<close>
  bytes.
\<close>

function core_recv :: "core_conn \<Rightarrow> nat \<Rightarrow> nat \<Rightarrow> u8 list \<Rightarrow> (u8 list) io" where
  "core_recv c n room got =
     (if length got \<ge> n then IoDone got c
      else
        (case (if core_buffer_is_empty (conn_buffer c) then core_fill c else IoDone True c) of
           IoFailed e c \<Rightarrow> IoFailed e c
         | IoUndefined \<Rightarrow> IoUndefined
         | IoWaiting \<Rightarrow> IoWaiting
         | IoDone False c \<Rightarrow> core_recv c n room got
         | IoDone True c \<Rightarrow>
             (case core_copied c (n - length got) of
                None \<Rightarrow> IoUndefined
              | Some (bs, c) \<Rightarrow>
                  if length got + length bs > room then IoUndefined else core_recv c n room (got @ bs))))"
  by auto
termination
proof (relation "measures [\<lambda>(c, n, room, got). n - length got, \<lambda>(c, n, room, got). length (conn_rounds c)]", goal_cases)
  case 1
  show ?case by simp
next
  case (2 c n room got has c1 p bs c2)
  then have "\<not> core_buffer_is_empty (conn_buffer c1)" by (auto split: if_splits dest: core_fill_True)
  then have "0 < length bs" using 2 core_copied_less(1) [of c1 "n - length got" bs c2] by simp
  then have "n - (length got + length bs) < n - length got" using 2(1) by linarith
  then show ?case by simp
next
  case (3 c n room got x1 x2)
  then show ?case by (auto split: if_splits dest: core_fill_less)
qed

declare core_recv.simps [simp del]

definition core_buffer_recv_all :: "core_conn \<Rightarrow> nat \<Rightarrow> nat \<Rightarrow> (u8 list) io" where
  "core_buffer_recv_all c n room = core_recv c n room []"

section \<open>What is received is the stream\<close>

text \<open>The bytes still to be read, buffered or on their way.\<close>

definition conn_stream :: "core_conn \<Rightarrow> u8 list" where
  "conn_stream c = (let b = conn_buffer c in drop (buf_getp b) (take (buf_putp b) (buf_block b))) @ conn_in c"

definition buffer_ok :: "ndm_core_buffer_t \<Rightarrow> bool" where
  "buffer_ok b \<longleftrightarrow> buf_getp b \<le> buf_putp b \<and> buf_putp b \<le> length (buf_block b)"

text \<open>Rounds in which the peer delivers, at least one for every byte on its way.\<close>

definition delivers :: "io_round \<Rightarrow> bool" where
  "delivers r \<longleftrightarrow> 0 < io_left r \<and> 0 < io_poll r \<and> io_revents r AND POLLNVAL = 0 \<and>
     io_revents r AND (POLLIN OR POLLHUP) \<noteq> 0 \<and> 0 < io_moved r"

definition conn_live :: "core_conn \<Rightarrow> bool" where
  "conn_live c \<longleftrightarrow> (\<forall>r \<in> set (conn_rounds c). delivers r) \<and> length (conn_in c) \<le> length (conn_rounds c) \<and>
     buf_block (conn_buffer c) \<noteq> []"

lemma core_copied_stream:
  assumes "core_copied c n = Some (bs, c')"
  shows "conn_stream c = bs @ conn_stream c'" "length bs \<le> n" "conn_in c' = conn_in c" "conn_out c' = conn_out c"
proof -
  let ?b = "conn_buffer c"
  let ?k = "min n (buf_putp ?b - buf_getp ?b)"
  have k: "buf_getp ?b \<le> buf_putp ?b" "bs = take ?k (drop (buf_getp ?b) (buf_block ?b))" "buf_getp ?b + ?k \<le> length (buf_block ?b)"
      "c' = c\<lparr>conn_buffer := ?b\<lparr>buf_getp := buf_getp ?b + ?k\<rparr>\<rparr>"
    using assms by (auto simp: core_copied_def Let_def mem_read_def split: if_splits)
  have "drop (buf_getp ?b) (take (buf_putp ?b) (buf_block ?b)) = bs @ drop (buf_getp ?b + ?k) (take (buf_putp ?b) (buf_block ?b))"
    by (subst append_take_drop_id [of ?k "drop (buf_getp ?b) (take (buf_putp ?b) (buf_block ?b))", symmetric])
      (simp add: k(2) drop_take add.commute)
  then show "conn_stream c = bs @ conn_stream c'" by (simp add: conn_stream_def k(4) Let_def)
  show "length bs \<le> n" "conn_in c' = conn_in c" "conn_out c' = conn_out c" by (simp_all add: k(2,4))
qed

lemma core_copied_ok:
  assumes "buffer_ok (conn_buffer c)"
  shows "\<exists>bs c'. core_copied c n = Some (bs, c') \<and> buffer_ok (conn_buffer c') \<and> (conn_live c \<longrightarrow> conn_live c')"
  using assms by (auto simp: core_copied_def Let_def mem_read_def buffer_ok_def conn_live_def)

lemma core_fill_stream:
  assumes "core_fill c = IoDone x c'" "core_buffer_is_empty (conn_buffer c)"
  shows "conn_stream c' = conn_stream c"
  using assms by (auto simp: core_fill_def conn_stream_def core_buffer_is_empty_def Let_def mem_write_def split: list.splits if_splits)

lemma core_fill_ok:
  assumes "buffer_ok (conn_buffer c)"
  shows "core_fill c \<noteq> IoUndefined" "core_fill c = IoDone x c' \<Longrightarrow> buffer_ok (conn_buffer c')"
  using assms by (auto simp: core_fill_def buffer_ok_def Let_def mem_write_def split: list.splits if_splits)

lemma core_fill_live:
  assumes "conn_live c" "conn_in c \<noteq> []"
  shows "\<exists>c'. core_fill c = IoDone True c' \<and> conn_live c'"
proof -
  obtain r rs where r: "conn_rounds c = r # rs" using assms by (cases "conn_rounds c") (auto simp: conn_live_def)
  let ?k = "min (nat (io_moved r)) (length (buf_block (conn_buffer c)))"
  let ?bs = "take ?k (conn_in c)"
  have d: "delivers r" "buf_block (conn_buffer c) \<noteq> []" using assms(1) r by (auto simp: conn_live_def)
  have k: "0 < ?k" using d by (simp add: delivers_def)
  have "length ?bs \<le> length (buf_block (conn_buffer c))" by simp
  then obtain blk where blk: "mem_write (buf_block (conn_buffer c)) 0 ?bs = Some blk" "length blk = length (buf_block (conn_buffer c))"
    unfolding mem_write_def by (simp del: length_take)
  have fill: "core_fill c = IoDone True (c\<lparr>conn_rounds := rs,
      conn_buffer := \<lparr>buf_block = blk, buf_getp = 0, buf_putp = length ?bs\<rparr>, conn_in := drop (length ?bs) (conn_in c)\<rparr>)"
    using r d k assms(2) blk by (simp add: core_fill_def delivers_def Let_def)
  have "1 \<le> length ?bs" using k assms(2) by (simp add: Suc_le_eq)
  moreover have "length (conn_in c) \<le> Suc (length rs)" using assms(1) r by (simp add: conn_live_def)
  ultimately have less: "length (conn_in c) - length ?bs \<le> length rs" by linarith
  have "conn_live (c\<lparr>conn_rounds := rs,
      conn_buffer := \<lparr>buf_block = blk, buf_getp = 0, buf_putp = length ?bs\<rparr>, conn_in := drop (length ?bs) (conn_in c)\<rparr>)"
    using assms(1) r blk(2) d(2) less by (auto simp: conn_live_def)
  then show ?thesis using fill by blast
qed

text \<open>The turns of the loop.\<close>

lemma core_recv_enough: "n \<le> length got \<Longrightarrow> core_recv c n room got = IoDone got c"
  by (subst core_recv.simps) simp

lemma core_recv_again:
  "length got < n \<Longrightarrow> (if core_buffer_is_empty (conn_buffer c) then core_fill c else IoDone True c) = IoDone False c1 \<Longrightarrow>
   core_recv c n room got = core_recv c1 n room got"
  by (subst core_recv.simps) simp

lemma core_recv_copies:
  "length got < n \<Longrightarrow> (if core_buffer_is_empty (conn_buffer c) then core_fill c else IoDone True c) = IoDone True c1 \<Longrightarrow>
   core_copied c1 (n - length got) = Some (bs, c2) \<Longrightarrow>
   core_recv c n room got = (if length got + length bs > room then IoUndefined else core_recv c2 n room (got @ bs))"
  by (subst core_recv.simps) simp

lemma core_recv_stream_aux:
  assumes "core_recv c n room got = IoDone bs c'" "length got \<le> n"
  shows "\<exists>new. bs = got @ new \<and> conn_stream c = new @ conn_stream c' \<and> length bs = n"
  using assms
proof (induction c n room got rule: core_recv.induct)
  case (1 c n room got)
  show ?case
  proof (cases "length got \<ge> n")
    case True
    then have "bs = got \<and> c' = c" using "1.prems"(1) by (subst (asm) core_recv.simps) simp
    then show ?thesis using True "1.prems"(2) by simp
  next
    case False
    then obtain has c1 where f: "(if core_buffer_is_empty (conn_buffer c) then core_fill c else IoDone True c) = IoDone has c1"
      using "1.prems" by (subst (asm) core_recv.simps) (auto split: io.splits)
    have s: "conn_stream c1 = conn_stream c" using f core_fill_stream by (auto split: if_splits)
    have less: "length got < n" using False by simp
    show ?thesis
    proof (cases has)
      case has: False
      have "core_recv c1 n room got = IoDone bs c'" using "1.prems"(1) core_recv_again [OF less] f has by simp
      then show ?thesis using "1.IH"(2) [OF False f] has "1.prems"(2) s by simp
    next
      case has: True
      then obtain b c2 where c2: "core_copied c1 (n - length got) = Some (b, c2)" "length got + length b \<le> room"
          "core_recv c2 n room (got @ b) = IoDone bs c'"
        using "1.prems"(1) False f by (subst (asm) core_recv.simps) (auto split: option.splits if_splits)
      note st = core_copied_stream [OF c2(1)]
      have "\<exists>new. bs = (got @ b) @ new \<and> conn_stream c2 = new @ conn_stream c' \<and> length bs = n"
        by (rule "1.IH"(1) [OF False f]) (use False has c2 st(2) in auto)
      then show ?thesis using s st(1) by auto
    qed
  qed
qed

lemma core_recv_ok:
  assumes "buffer_ok (conn_buffer c)" "n \<le> room" "length got \<le> n"
  shows "core_recv c n room got \<noteq> IoUndefined \<and>
    (\<forall>bs c'. core_recv c n room got = IoDone bs c' \<longrightarrow> buffer_ok (conn_buffer c')) \<and>
    (conn_live c \<and> n - length got \<le> length (conn_stream c) \<longrightarrow>
      (\<exists>bs c'. core_recv c n room got = IoDone bs c' \<and> conn_live c'))"
  using assms
proof (induction c n room got rule: core_recv.induct)
  case (1 c n room got)
  show ?case
  proof (cases "length got \<ge> n")
    case True
    then show ?thesis using core_recv_enough [OF True] "1.prems" by auto
  next
    case less: False
    let ?f = "if core_buffer_is_empty (conn_buffer c) then core_fill c else IoDone True c"
    have f: "?f \<noteq> IoUndefined" "\<And>x c1. ?f = IoDone x c1 \<Longrightarrow> buffer_ok (conn_buffer c1) \<and> conn_stream c1 = conn_stream c"
      using core_fill_ok "1.prems"(1) core_fill_stream by (auto split: if_splits)
    have live: "\<exists>c1. ?f = IoDone True c1 \<and> conn_live c1" if "conn_live c" "n - length got \<le> length (conn_stream c)"
    proof (cases "core_buffer_is_empty (conn_buffer c)")
      case True
      then have "conn_in c \<noteq> []" using that(2) less by (auto simp: conn_stream_def core_buffer_is_empty_def Let_def)
      then show ?thesis using core_fill_live that(1) True by simp
    qed (use that in simp)
    show ?thesis
    proof (cases ?f)
      case (IoDone has c1)
      note c1 = f(2) [OF IoDone]
      show ?thesis
      proof (cases has)
        case False
        have "core_recv c n room got = core_recv c1 n room got" using core_recv_again less IoDone False by simp
        then show ?thesis using "1.IH"(2) [OF less IoDone] False "1.prems" c1 live IoDone by auto
      next
        case True
        obtain bs c2 where c2: "core_copied c1 (n - length got) = Some (bs, c2)" "buffer_ok (conn_buffer c2)"
            "conn_live c1 \<longrightarrow> conn_live c2" using core_copied_ok c1 by blast
        note st = core_copied_stream [OF c2(1)]
        have room: "\<not> length got + length bs > room" and got: "length (got @ bs) \<le> n"
          using st(2) less "1.prems"(2) by simp_all
        then have eq: "core_recv c n room got = core_recv c2 n room (got @ bs)"
          using core_recv_copies [OF _ _ c2(1), of c room] less IoDone True by simp
        have len: "length (conn_stream c) = length bs + length (conn_stream c2)" using c1 st(1) by (metis length_append)
        have left: "n - length (got @ bs) \<le> length (conn_stream c2)" if "n - length got \<le> length (conn_stream c)"
          using that len by simp
        have filled: "?f = IoDone True c1" using IoDone True by simp
        note ih = "1.IH"(1) [OF less filled refl c2(1) refl room c2(2) "1.prems"(2) got]
        have "conn_live c \<and> n - length got \<le> length (conn_stream c) \<longrightarrow> conn_live c2"
        proof (intro impI, elim conjE)
          assume "conn_live c" "n - length got \<le> length (conn_stream c)"
          then obtain c1' where "?f = IoDone True c1'" "conn_live c1'" using live by blast
          then show "conn_live c2" using IoDone c2(3) by simp
        qed
        then show ?thesis using ih left unfolding eq by blast
      qed
    qed (use f(1) less live in \<open>auto simp: core_recv.simps [of c n room got]\<close>)
  qed
qed

text \<open>
  C7: however the bytes of the peer come in pieces, a receive that returns has
  exactly the next bytes of its stream, none lost, none twice; it never leaves its memory, and
  with a peer that delivers it returns.
\<close>

theorem core_recv_stream:
  assumes "buffer_ok (conn_buffer c)" "n \<le> room"
  shows "case core_buffer_recv_all c n room of
      IoDone bs c' \<Rightarrow> conn_stream c = bs @ conn_stream c' \<and> length bs = n \<and> buffer_ok (conn_buffer c')
    | IoFailed e c' \<Rightarrow> \<not> (conn_live c \<and> n \<le> length (conn_stream c))
    | IoUndefined \<Rightarrow> False
    | IoWaiting \<Rightarrow> \<not> (conn_live c \<and> n \<le> length (conn_stream c))"
  using core_recv_ok [OF assms, of "[]"] core_recv_stream_aux [of c n room "[]"]
  by (auto simp: core_buffer_recv_all_def split: io.split)

text \<open>Two pieces of 3 and 2 bytes for a request of 4.\<close>

theorem core_recv_stream_witness:
  "case core_buffer_recv_all
      \<lparr>conn_buffer = core_buffer_init (replicate 3 0),
       conn_rounds = replicate 9 \<lparr>io_left = 5, io_poll = 1, io_revents = POLLIN, io_moved = 7, io_errno = EINTR\<rparr>,
       conn_in = [1, 2, 3, 4, 5], conn_out = []\<rparr> 4 4 of
      IoDone bs c' \<Rightarrow> [1, 2, 3, 4, 5] = bs @ conn_stream c' \<and> length bs = 4 \<and> buffer_ok (conn_buffer c')
    | IoFailed e c' \<Rightarrow> False
    | IoUndefined \<Rightarrow> False
    | IoWaiting \<Rightarrow> False"
proof -
  let ?c = "\<lparr>conn_buffer = core_buffer_init (replicate 3 (0 :: u8)),
       conn_rounds = replicate 9 \<lparr>io_left = 5, io_poll = 1, io_revents = POLLIN, io_moved = 7, io_errno = EINTR\<rparr>,
       conn_in = [1, 2, 3, 4, 5], conn_out = []\<rparr>"
  have "buffer_ok (conn_buffer ?c)" "conn_live ?c \<and> 4 \<le> length (conn_stream ?c)" "conn_stream ?c = [1, 2, 3, 4, 5]"
    by (simp_all add: buffer_ok_def core_buffer_init_def conn_live_def delivers_def conn_stream_def POLLIN_def POLLNVAL_def
        POLLHUP_def Let_def)
  then show ?thesis using core_recv_stream [of ?c 4 4] by (simp split: io.splits)
qed

section \<open>What is sent\<close>

definition conn_pending :: "core_conn \<Rightarrow> u8 list" where
  "conn_pending c = (let b = conn_buffer c in drop (buf_getp b) (take (buf_putp b) (buf_block b)))"

lemma core_send_round_sent:
  assumes "buffer_ok (conn_buffer c)"
  shows "core_send_round c \<noteq> IoUndefined"
    and "core_send_round c = IoDone x c' \<Longrightarrow>
      conn_out c' @ conn_pending c' = conn_out c @ conn_pending c \<and> buffer_ok (conn_buffer c')"
    and "core_send_round c = IoFailed e c' \<Longrightarrow>
      conn_out c' @ conn_pending c' = conn_out c @ conn_pending c \<and> buffer_ok (conn_buffer c')"
proof -
  have split: "take k (drop g blk) @ drop (g + k) (take p blk) = drop g (take p blk)"
    if "k \<le> p - g" for k g p and blk :: "u8 list"
  proof -
    have "take k (drop g (take p blk)) = take k (drop g blk)" using that by (simp add: drop_take)
    then show ?thesis by (metis add.commute append_take_drop_id drop_drop)
  qed
  show "core_send_round c \<noteq> IoUndefined"
    using assms by (auto simp: core_send_round_def Let_def mem_read_def buffer_ok_def split: list.splits if_splits)
  show "core_send_round c = IoDone x c' \<Longrightarrow>
      conn_out c' @ conn_pending c' = conn_out c @ conn_pending c \<and> buffer_ok (conn_buffer c')"
    using assms by (auto simp: core_send_round_def Let_def mem_read_def buffer_ok_def conn_pending_def split
        split: list.splits if_splits)
  show "core_send_round c = IoFailed e c' \<Longrightarrow>
      conn_out c' @ conn_pending c' = conn_out c @ conn_pending c \<and> buffer_ok (conn_buffer c')"
    using assms by (auto simp: core_send_round_def Let_def conn_pending_def split: list.splits if_splits option.splits)
qed

lemma core_send_all_sent:
  assumes "buffer_ok (conn_buffer c)"
  shows "case core_buffer_send_all c of
      IoDone u c' \<Rightarrow> conn_out c' = conn_out c @ conn_pending c
    | IoFailed e c' \<Rightarrow> conn_out c' @ conn_pending c' = conn_out c @ conn_pending c
    | IoUndefined \<Rightarrow> False
    | IoWaiting \<Rightarrow> True"
  using assms
proof (induction c rule: core_buffer_send_all.induct)
  case (1 c)
  show ?case
  proof (cases "core_buffer_is_empty (conn_buffer c)")
    case True
    then show ?thesis
      by (subst core_buffer_send_all.simps) (simp add: conn_pending_def core_buffer_is_empty_def Let_def)
  next
    case False
    have eq: "core_buffer_send_all c = bind_io (core_send_round c) (\<lambda>sent. core_buffer_send_all)"
      using False by (subst core_buffer_send_all.simps) (simp split: io.split)
    show ?thesis
    proof (cases "core_send_round c")
      case (IoDone x c1)
      then have "conn_out c1 @ conn_pending c1 = conn_out c @ conn_pending c" "buffer_ok (conn_buffer c1)"
        using core_send_round_sent(2) [OF "1.prems"] by auto
      then show ?thesis using "1.IH" [OF False IoDone] unfolding eq IoDone by (simp split: io.splits)
    next
      case (IoFailed e c1)
      then show ?thesis using core_send_round_sent(3) [OF "1.prems"] unfolding eq by simp
    next
      case IoUndefined
      then show ?thesis using core_send_round_sent(1) [OF "1.prems"] by simp
    next
      case IoWaiting
      then show ?thesis unfolding eq by simp
    qed
  qed
qed

end
