(* ===== verification/Core_Read.thy ===== *)
theory Core_Read
  imports Core_Buffer Endian
begin

text \<open>
  Reading a binary document from the core (\<^verbatim>\<open>src/core.c\<close>): the control bytes, the strings
  with their lengths in network byte order, and the loop that links nodes and attributes
  into a document. Whoever asks for a document releases it when the reading fails, so a
  failure has only the connection as its result.
\<close>

datatype ndm_core_ctrl_t =
    NDM_CORE_CTRL_NODE
  | NDM_CORE_CTRL_ATTR
  | NDM_CORE_CTRL_SIBL
  | NDM_CORE_CTRL_END

lemma bind_io_cong [fundef_cong]:
  "r = r' \<Longrightarrow> (\<And>x c. r' = IoDone x c \<Longrightarrow> f x c = g x c) \<Longrightarrow> bind_io r f = bind_io r' g"
  by (cases r') auto

text \<open>A step on the document between two reads.\<close>

fun doc_step :: "'a result \<Rightarrow> core_conn \<Rightarrow> ('a \<Rightarrow> 'b io) \<Rightarrow> 'b io" where
  "doc_step (Ok x) c f = f x"
| "doc_step (Error e) c f = IoFailed e c"
| "doc_step Undefined c f = IoUndefined"

lemma doc_step_cong [fundef_cong]:
  "r = r' \<Longrightarrow> c = c' \<Longrightarrow> (\<And>x. r' = Ok x \<Longrightarrow> f x = g x) \<Longrightarrow> doc_step r c f = doc_step r' c' g"
  by (cases r') auto

definition core_ctrl :: "u8 \<Rightarrow> ndm_core_ctrl_t" where
  "core_ctrl b =
     (let k = drop_bit 6 b AND 0x03 in
      if k = 0 then NDM_CORE_CTRL_NODE else if k = 1 then NDM_CORE_CTRL_ATTR
      else if k = 2 then NDM_CORE_CTRL_SIBL else NDM_CORE_CTRL_END)"

definition core_node_types :: "ndm_xml_node_type_t list" where
  "core_node_types =
     [NDM_XML_NODE_TYPE_DOCUMENT, NDM_XML_NODE_TYPE_ELEMENT, NDM_XML_NODE_TYPE_DATA, NDM_XML_NODE_TYPE_CDATA,
      NDM_XML_NODE_TYPE_COMMENT, NDM_XML_NODE_TYPE_DECLARATION, NDM_XML_NODE_TYPE_DOCTYPE, NDM_XML_NODE_TYPE_PI]"

definition core_read_ctrl :: "core_conn \<Rightarrow> (ndm_core_ctrl_t \<times> ndm_xml_node_type_t) io" where
  "core_read_ctrl c =
     bind_io (core_buffer_recv_all c 1 1) (\<lambda>bs c.
     let b = bs ! 0; type = unat (b AND 0x3f) in
     if type > 7 then IoFailed EBADMSG c
     else IoDone (core_ctrl b, core_node_types ! type) c)"

text \<open>
  The length is a \<open>uint32_t\<close>, also with the terminator added: for \<open>0xffffffff\<close> no memory
  is allocated. The memory ends with the block of the pool.
\<close>

definition core_read_string ::
  "host \<Rightarrow> core_conn \<Rightarrow> ndm_xml_document_t \<Rightarrow> (xml_str \<times> ndm_xml_document_t) io" where
  "core_read_string h c d =
     bind_io (core_buffer_recv_all c 4 4) (\<lambda>bs c.
     let n = ndm_endian_betoh32 h (mem_value h bs) in
     if n = 0 then IoDone (XmlGiven [], d) c
     else
       (case ndm_xml_document_alloc d (ucast (n + 1)) of
          (None, d) \<Rightarrow> IoFailed ENOMEM c
        | (Some p, d) \<Rightarrow>
            bind_io (core_buffer_recv_all c (unat n) (length (block_bytes (doc_pool d) (fst p)) - snd p)) (\<lambda>bs c.
            case pool_write (doc_pool d) p (bs @ [0]) of
              None \<Rightarrow> IoUndefined
            | Some pool \<Rightarrow> IoDone (XmlPool p, d\<lparr>doc_pool := pool\<rparr>) c)))"

definition core_read_strings ::
  "host \<Rightarrow> core_conn \<Rightarrow> ndm_xml_document_t \<Rightarrow> (xml_str \<times> xml_str \<times> ndm_xml_document_t) io" where
  "core_read_strings h c d =
     bind_io (core_read_string h c d) (\<lambda>(name, d) c.
     bind_io (core_read_string h c d) (\<lambda>(val, d) c. IoDone (name, val, d) c))"

definition core_name_misplaced :: "ndm_xml_node_type_t \<Rightarrow> cstring \<Rightarrow> bool" where
  "core_name_misplaced type name \<longleftrightarrow>
     name = [] \<and> type \<in> {NDM_XML_NODE_TYPE_ELEMENT, NDM_XML_NODE_TYPE_PI} \<or>
     name \<noteq> [] \<and> type \<in> {NDM_XML_NODE_TYPE_DATA, NDM_XML_NODE_TYPE_CDATA, NDM_XML_NODE_TYPE_COMMENT,
       NDM_XML_NODE_TYPE_DECLARATION, NDM_XML_NODE_TYPE_DOCTYPE}"

text \<open>The fields of the document itself.\<close>

definition core_read_document ::
  "host \<Rightarrow> core_conn \<Rightarrow> ndm_xml_document_t \<Rightarrow> bool \<Rightarrow> nat \<Rightarrow> nat \<Rightarrow> ndm_core_ctrl_t \<Rightarrow>
   (ndm_xml_document_t \<times> nat option \<times> nat option) io" where
  "core_read_document h c d first root_parent n ctrl =
     doc_step (ndm_xml_node_type d n) c (\<lambda>t.
     if \<not> first \<or> n \<noteq> root_parent \<or> t \<noteq> NDM_XML_NODE_TYPE_DOCUMENT then IoFailed EBADMSG c
     else if ctrl \<noteq> NDM_CORE_CTRL_NODE then IoFailed EBADMSG c
     else
       bind_io (core_read_strings h c d) (\<lambda>(name, val, d) c.
       doc_step (ndm_xml_node_set_name d n (Some name)) c (\<lambda>d.
       doc_step (ndm_xml_node_set_value d n (Some val)) c (\<lambda>d.
       IoDone (d, Some n, Some n) c))))"

text \<open>A child of the node \<open>n\<close>, or a sibling of it; data is the value of a parent that has none.\<close>

definition core_read_node ::
  "host \<Rightarrow> core_conn \<Rightarrow> ndm_xml_document_t \<Rightarrow> nat \<Rightarrow> nat option \<Rightarrow> nat option \<Rightarrow> ndm_core_ctrl_t \<Rightarrow>
   ndm_xml_node_type_t \<Rightarrow> (ndm_xml_document_t \<times> nat option \<times> nat option) io" where
  "core_read_node h c d n parent root ctrl type =
     (if ctrl = NDM_CORE_CTRL_SIBL \<and> parent = None then IoFailed EBADMSG c
      else
        bind_io (core_read_strings h c d) (\<lambda>(name, val, d) c.
        doc_step (ndm_xml_document_alloc_node d type (Some name) (Some val)) c (\<lambda>(new, d).
        case new of
          None \<Rightarrow> IoFailed ENOMEM c
        | Some m \<Rightarrow>
            doc_step (need (xml_string d name) Ok) c (\<lambda>s.
            if core_name_misplaced type s then IoFailed EBADMSG c
            else
              let p = (if ctrl = NDM_CORE_CTRL_NODE then n else the parent) in
              doc_step (ndm_xml_node_append_child d p new) c (\<lambda>d.
              doc_step (ndm_xml_node_value d p) c (\<lambda>v.
              doc_step (need (xml_string d v) Ok) c (\<lambda>old.
              doc_step
                (if type = NDM_XML_NODE_TYPE_DATA \<and> old = []
                 then bind_result (ndm_xml_node_value d m) (\<lambda>s. ndm_xml_node_set_value d p (Some s))
                 else Ok d) c (\<lambda>d.
              IoDone (d, new, if root = None then new else root) c)))))))) "

definition core_read_attr ::
  "host \<Rightarrow> core_conn \<Rightarrow> ndm_xml_document_t \<Rightarrow> nat \<Rightarrow> nat option \<Rightarrow> ndm_xml_document_t io" where
  "core_read_attr h c d n parent =
     (if parent = None then IoFailed EBADMSG c
      else
        bind_io (core_read_strings h c d) (\<lambda>(name, val, d) c.
        doc_step (ndm_xml_document_alloc_attr d (Some name) (Some val)) c (\<lambda>(new, d).
        case new of
          None \<Rightarrow> IoFailed ENOMEM c
        | Some a \<Rightarrow>
            doc_step (need (xml_string d name) Ok) c (\<lambda>s.
            if s = [] then IoFailed EBADMSG c
            else doc_step (ndm_xml_node_append_attr d n new) c (\<lambda>d. IoDone d c)))))"

section \<open>Every control byte shortens the stream\<close>

lemma bind_io_done:
  "bind_io r f = IoDone y c' \<longleftrightarrow> (\<exists>x c. r = IoDone x c \<and> f x c = IoDone y c')"
  by (cases r) auto

lemma doc_step_done:
  "doc_step r c f = IoDone y c' \<longleftrightarrow> (\<exists>x. r = Ok x \<and> f x = IoDone y c')"
  by (cases r) auto

lemma core_buffer_recv_all_done:
  "core_buffer_recv_all c n room = IoDone bs c' \<Longrightarrow> conn_stream c = bs @ conn_stream c' \<and> length bs = n"
  using core_recv_stream_aux [of c n room "[]"] by (auto simp: core_buffer_recv_all_def)

lemma core_read_ctrl_less:
  "core_read_ctrl c = IoDone x c' \<Longrightarrow> length (conn_stream c') < length (conn_stream c)"
  by (auto simp: core_read_ctrl_def bind_io_done Let_def dest!: core_buffer_recv_all_done split: if_splits)

lemma core_read_string_le:
  "core_read_string h c d = IoDone x c' \<Longrightarrow> length (conn_stream c') \<le> length (conn_stream c)"
  by (auto simp: core_read_string_def bind_io_done Let_def dest!: core_buffer_recv_all_done
      split: if_splits option.splits prod.splits)

lemma core_read_strings_le:
  "core_read_strings h c d = IoDone x c' \<Longrightarrow> length (conn_stream c') \<le> length (conn_stream c)"
  by (auto simp: core_read_strings_def bind_io_done dest!: core_read_string_le)

lemma core_read_document_le:
  "core_read_document h c d first rp n ctrl = IoDone x c' \<Longrightarrow> length (conn_stream c') \<le> length (conn_stream c)"
  by (auto simp: core_read_document_def bind_io_done doc_step_done dest!: core_read_strings_le split: if_splits)

lemma core_read_node_le:
  "core_read_node h c d n parent root ctrl type = IoDone x c' \<Longrightarrow> length (conn_stream c') \<le> length (conn_stream c)"
  by (auto simp: core_read_node_def bind_io_done doc_step_done Let_def dest!: core_read_strings_le
      split: if_splits option.splits)

lemma core_read_attr_le:
  "core_read_attr h c d n parent = IoDone x c' \<Longrightarrow> length (conn_stream c') \<le> length (conn_stream c)"
  by (auto simp: core_read_attr_def bind_io_done doc_step_done dest!: core_read_strings_le
      split: if_splits option.splits)

text \<open>
  The loop. \<open>node\<close> is the node last read, \<open>root\<close> the first one; the next control byte
  is an access to \<open>node\<close>, which may be \<open>NULL\<close>.
\<close>

function core_read_xml_children ::
  "host \<Rightarrow> core_conn \<Rightarrow> ndm_xml_document_t \<Rightarrow> nat \<Rightarrow> nat option \<Rightarrow> nat option \<Rightarrow> bool \<Rightarrow> ndm_xml_document_t io" where
  "core_read_xml_children h c d root_parent node root first =
     doc_step (need node (ndm_xml_node_parent d)) c (\<lambda>parent.
     let n = the node in
     bind_io (core_read_ctrl c) (\<lambda>ct c. case ct of (ctrl, type) \<Rightarrow>
     if ctrl = NDM_CORE_CTRL_NODE \<or> ctrl = NDM_CORE_CTRL_SIBL then
       bind_io
         (if type = NDM_XML_NODE_TYPE_DOCUMENT then core_read_document h c d first root_parent n ctrl
          else core_read_node h c d n parent root ctrl type) (\<lambda>st c. case st of (d, node, root) \<Rightarrow>
       core_read_xml_children h c d root_parent node root False)
     else if ctrl = NDM_CORE_CTRL_ATTR then
       bind_io (core_read_attr h c d n parent) (\<lambda>d c.
       core_read_xml_children h c d root_parent node root False)
     else if node = root \<or> parent = root then IoDone d c
     else core_read_xml_children h c d root_parent parent root False))"
  by auto
termination
proof (relation "measure (\<lambda>(h, c, d, rp, node, root, first). length (conn_stream c))", goal_cases)
  case 1
  show ?case by simp
next
  case 2
  then show ?case by (auto dest!: core_read_ctrl_less core_read_document_le core_read_node_le split: if_splits)
next
  case 3
  then show ?case by (auto dest!: core_read_ctrl_less core_read_attr_le)
next
  case 4
  then show ?case by (auto dest!: core_read_ctrl_less)
qed

declare core_read_xml_children.simps [simp del]

section \<open>What a hostile peer can do\<close>

lemma core_recv_overflow:
  assumes "buffer_ok (conn_buffer c)" "conn_live c" "length got \<le> room" "room < n" "room - length got < length (conn_stream c)"
  shows "core_recv c n room got = IoUndefined"
  using assms
proof (induction c n room got rule: core_recv.induct)
  case (1 c n room got)
  have less: "\<not> length got \<ge> n" "length got < n" using "1.prems" by simp_all
  let ?f = "if core_buffer_is_empty (conn_buffer c) then core_fill c else IoDone True c"
  obtain c1 where c1: "?f = IoDone True c1" "conn_live c1" "buffer_ok (conn_buffer c1)" "conn_stream c1 = conn_stream c"
  proof (cases "core_buffer_is_empty (conn_buffer c)")
    case True
    then have "conn_in c \<noteq> []" using "1.prems"(5) by (auto simp: conn_stream_def core_buffer_is_empty_def Let_def)
    then obtain c1 where "core_fill c = IoDone True c1" "conn_live c1" using core_fill_live [OF "1.prems"(2)] by blast
    then show ?thesis using that True core_fill_ok(2) [OF "1.prems"(1)] core_fill_stream by simp
  next
    case False
    then show ?thesis using that "1.prems" by simp
  qed
  obtain bs c2 where c2: "core_copied c1 (n - length got) = Some (bs, c2)" "buffer_ok (conn_buffer c2)"
      "conn_live c1 \<longrightarrow> conn_live c2" using core_copied_ok c1(3) by blast
  note st = core_copied_stream [OF c2(1)]
  show ?case
  proof (cases "length got + length bs > room")
    case True
    then show ?thesis using core_recv_copies [OF less(2) c1(1) c2(1)] by simp
  next
    case False
    have len: "length (conn_stream c) = length bs + length (conn_stream c2)" using c1(4) st(1) by (metis length_append)
    have "core_recv c2 n room (got @ bs) = IoUndefined"
      by (rule "1.IH"(1) [OF less(1) c1(1) refl c2(1) refl False c2(2)]) (use c2(3) c1(2) "1.prems" False len in auto)
    then show ?thesis using core_recv_copies [OF less(2) c1(1) c2(1)] by simp
  qed
qed

text \<open>
  C36: a string whose length is announced as \<open>0xffffffff\<close> gets a block
  of no bytes, since the terminator makes the length wrap to 0, and the bytes that follow are
  written past it as soon as they fill the rest of the block of the pool.
\<close>

theorem core_read_string_overflows:
  assumes "buffer_ok (conn_buffer c)" "conn_live c" "conn_stream c = [0xff, 0xff, 0xff, 0xff] @ bs"
    and "ndm_xml_document_alloc d 0 = (Some p, d')"
    and "length (block_bytes (doc_pool d') (fst p)) - snd p < length bs" "length (block_bytes (doc_pool d') (fst p)) < 2 ^ 32 - 1"
  shows "core_read_string h c d = IoUndefined"
proof -
  obtain c1 where c1: "core_buffer_recv_all c 4 4 = IoDone [0xff, 0xff, 0xff, 0xff] c1" "conn_stream c1 = bs"
      "buffer_ok (conn_buffer c1)" "conn_live c1"
  proof -
    obtain got c1 where c1: "core_recv c 4 4 [] = IoDone got c1" "conn_live c1" "buffer_ok (conn_buffer c1)"
      using core_recv_ok [OF assms(1), of 4 4 "[]"] assms(2,3) by auto
    then have "[0xff, 0xff, 0xff, 0xff] @ bs = got @ conn_stream c1" "length got = 4"
      using core_recv_stream_aux [OF c1(1)] assms(3) by auto
    then have "got = [0xff, 0xff, 0xff, 0xff]" "conn_stream c1 = bs"
      using append_eq_append_conv [of "[0xff, 0xff, 0xff, 0xff]" got bs "conn_stream c1"] by auto
    then show ?thesis using that c1 by (simp add: core_buffer_recv_all_def)
  qed
  have "[0xff, 0xff, 0xff, 0xff] = be_bytes 4 (0xffffffff :: u32)"
    by (simp add: be_bytes_def mem_bytes_def upt_bytes Let_def)
  then have n: "ndm_endian_betoh32 h (mem_value h [0xff, 0xff, 0xff, 0xff]) = 0xffffffff"
    using be32.load_wire [of h "0xffffffff"] by simp
  have "core_buffer_recv_all c1 (unat (0xffffffff :: u32)) (length (block_bytes (doc_pool d') (fst p)) - snd p) = IoUndefined"
    unfolding core_buffer_recv_all_def by (rule core_recv_overflow) (use c1 assms(5,6) in auto)
  then show ?thesis using c1(1) assms(4) by (simp add: core_read_string_def n Let_def)
qed

theorem core_read_string_overflows_witness:
  "core_read_string BigEndian
     \<lparr>conn_buffer = core_buffer_init (replicate 16 0),
      conn_rounds = replicate 40 \<lparr>io_left = 5, io_poll = 1, io_revents = POLLIN, io_moved = 16, io_errno = EINTR\<rparr>,
      conn_in = [0xff, 0xff, 0xff, 0xff] @ replicate 36 0xff, conn_out = []\<rparr>
     (ndm_xml_document_init \<lparr>answers = \<lambda>_. True, garbage = \<lambda>_. 0\<rparr> (replicate 8 0) 8 8) = IoUndefined"
proof (rule core_read_string_overflows [where bs = "replicate 36 0xff"])
  show "ndm_xml_document_alloc (ndm_xml_document_init \<lparr>answers = \<lambda>_. True, garbage = \<lambda>_. 0\<rparr> (replicate 8 0) 8 8) 0 =
      (Some (StaticBlock, 0), ndm_xml_document_init \<lparr>answers = \<lambda>_. True, garbage = \<lambda>_. 0\<rparr> (replicate 8 0) 8 8)"
    by (simp add: ndm_xml_document_alloc_def ndm_xml_document_init_def ndm_pool_malloc_def ndm_pool_init_def NDM_POOL_ALIGN_def
        ndm_pool_is_valid_def current_block_def block_end_def Let_def)
qed (simp_all add: buffer_ok_def core_buffer_init_def conn_live_def delivers_def conn_stream_def POLLIN_def POLLNVAL_def
   POLLHUP_def Let_def ndm_xml_document_init_def ndm_pool_init_def block_bytes_def)

text \<open>
  The ancestors of a node up to \<open>NULL\<close>, \<open>k\<close> of them with the node itself, without \<open>root\<close> among
  them: a node that was read outside of the first one, as a sibling of it or below such a sibling.
\<close>

fun outside_root :: "ndm_xml_document_t \<Rightarrow> nat option \<Rightarrow> nat option \<Rightarrow> nat \<Rightarrow> bool" where
  "outside_root d root node 0 \<longleftrightarrow> node = None"
| "outside_root d root node (Suc k) \<longleftrightarrow>
     (case node of
        None \<Rightarrow> False
      | Some n \<Rightarrow> node \<noteq> root \<and> (\<exists>r. doc_nodes d n = Some r \<and> outside_root d root (nd_parent r) k))"

definition closing_ctrl :: "u8 \<Rightarrow> bool" where
  "closing_ctrl b \<longleftrightarrow> core_ctrl b = NDM_CORE_CTRL_END \<and> unat (b AND 0x3f) \<le> 7"

lemma core_read_closing:
  assumes "buffer_ok (conn_buffer c)" "conn_live c" "conn_stream c = b # bs" "closing_ctrl b"
  obtains type c1 where "core_read_ctrl c = IoDone (NDM_CORE_CTRL_END, type) c1" "buffer_ok (conn_buffer c1)"
    "conn_live c1" "conn_stream c1 = bs"
proof -
  obtain got c1 where c1: "core_recv c 1 1 [] = IoDone got c1" "conn_live c1" "buffer_ok (conn_buffer c1)"
    using core_recv_ok [OF assms(1), of 1 1 "[]"] assms(2,3) by auto
  then have "b # bs = got @ conn_stream c1" "length got = 1"
    using core_recv_stream_aux [OF c1(1)] assms(3) by auto
  then have got: "got = [b]" "conn_stream c1 = bs" by (auto simp: length_Suc_conv)
  then show ?thesis using that c1 assms(4)
    by (simp add: core_read_ctrl_def core_buffer_recv_all_def closing_ctrl_def)
qed

text \<open>
  C37: the end of the document is looked for at the first node only. Below a node that was
  read outside of the first one (a sibling of it, which the reader accepts) each closing control
  moves to the parent, and after as many of them as the node has ancestors, itself included, the
  reader uses the node \<open>NULL\<close>, on every connection that brings those controls.
\<close>

theorem core_read_follows_null:
  assumes "buffer_ok (conn_buffer c)" "conn_live c" "conn_stream c = es @ bs" "\<forall>e \<in> set es. closing_ctrl e"
    and "root \<noteq> None" "outside_root d root node (length es)"
  shows "core_read_xml_children h c d root_parent node root first = IoUndefined"
  using assms
proof (induction es arbitrary: c node first)
  case Nil
  then show ?case by (subst core_read_xml_children.simps) simp
next
  case (Cons e es)
  obtain n r where n: "node = Some n" "node \<noteq> root" "doc_nodes d n = Some r" "outside_root d root (nd_parent r) (length es)"
    using Cons.prems(6) by (auto split: option.splits)
  obtain type c1 where c1: "core_read_ctrl c = IoDone (NDM_CORE_CTRL_END, type) c1" "buffer_ok (conn_buffer c1)"
      "conn_live c1" "conn_stream c1 = es @ bs"
    using core_read_closing [OF Cons.prems(1,2), of e "es @ bs"] Cons.prems(3,4) by auto
  have "nd_parent r \<noteq> root" using n(4) Cons.prems(5) by (cases es) (auto split: option.splits)
  moreover have "core_read_xml_children h c1 d root_parent (nd_parent r) root False = IoUndefined"
    using Cons.IH [OF c1(2-4)] Cons.prems(4,5) n(4) by simp
  ultimately show ?case using n(1-3) c1(1)
    by (subst core_read_xml_children.simps) (simp add: ndm_xml_node_parent_def)
qed

text \<open>A document with the first node 1 and its sibling 2 below the node 0, and two closing controls.\<close>

theorem core_read_follows_null_witness:
  "core_read_xml_children LittleEndian
     \<lparr>conn_buffer = core_buffer_init (replicate 16 0),
      conn_rounds = replicate 2 \<lparr>io_left = 5, io_poll = 1, io_revents = POLLIN, io_moved = 16, io_errno = EINTR\<rparr>,
      conn_in = [0xc0, 0xc0], conn_out = []\<rparr>
     \<lparr>doc_root = Some 0, doc_pool = ndm_pool_init \<lparr>answers = \<lambda>_. True, garbage = \<lambda>_. 0\<rparr> [] 0 512,
      doc_nodes =
        [0 \<mapsto> (blank_node NDM_XML_NODE_TYPE_DOCUMENT)\<lparr>nd_first_child := Some 1, nd_last_child := Some 2\<rparr>,
         1 \<mapsto> (blank_node NDM_XML_NODE_TYPE_ELEMENT)\<lparr>nd_parent := Some 0, nd_next_sibling := Some 2\<rparr>,
         2 \<mapsto> (blank_node NDM_XML_NODE_TYPE_ELEMENT)\<lparr>nd_parent := Some 0, nd_prev_sibling := Some 1\<rparr>],
      doc_attrs = \<lambda>_. None, doc_fresh = 3, doc_text = []\<rparr>
     0 (Some 2) (Some 1) False = IoUndefined"
proof (rule core_read_follows_null [where es = "[0xc0, 0xc0]" and bs = "[]"])
  show "\<forall>e \<in> set [0xc0, 0xc0]. closing_ctrl e"
    by (simp add: closing_ctrl_def core_ctrl_def Let_def)
qed (simp_all add: buffer_ok_def core_buffer_init_def conn_live_def delivers_def conn_stream_def POLLIN_def POLLNVAL_def
   POLLHUP_def Let_def blank_node_def)

text \<open>
  The whole way there: the bytes of a first node, of a sibling of it, and of two closing controls.
\<close>

theorem core_read_sibling_example:
  "case ndm_xml_document_alloc_root (ndm_xml_document_init \<lparr>answers = \<lambda>_. True, garbage = \<lambda>_. 0\<rparr> [] 0 512) of
     Ok (Some r, d) \<Rightarrow>
       (case core_read_xml_children LittleEndian
          \<lparr>conn_buffer = core_buffer_init (replicate 16 0),
           conn_rounds = replicate 9 \<lparr>io_left = 5, io_poll = 1, io_revents = POLLIN, io_moved = 16, io_errno = EINTR\<rparr>,
           conn_in = [0x01, 0, 0, 0, 1, 97, 0, 0, 0, 0, 0x81, 0, 0, 0, 1, 98, 0, 0, 0, 0, 0xc0, 0xc0], conn_out = []\<rparr>
          d r (Some r) None True of
        IoUndefined \<Rightarrow> True
      | _ \<Rightarrow> False)
   | _ \<Rightarrow> False"
  by code_simp

end
