(* ===== verification/Core_Response.thy ===== *)
theory Core_Response
  imports Core_Read Int_Parse Xml_Parse
begin

text \<open>
  Responses of the core (\<^verbatim>\<open>src/core.c\<close>): their kind, the last message, copies, and the
  look-up of values by paths such as \<^verbatim>\<open>interface/address@mask\<close>. Texts that a format makes
  are arguments, \<open>None\<close> where the formatting fails; loops along links may not end, which is
  the outer \<open>None\<close>.
\<close>

definition core_str :: "string \<Rightarrow> cstring" where
  "core_str s = map of_char s"

datatype ndm_core_response_type_t = NDM_CORE_INFO | NDM_CORE_WARNING | NDM_CORE_ERROR | NDM_CORE_CRITICAL

datatype ndm_core_response_error_t =
    NDM_CORE_RESPONSE_ERROR_OK
  | NDM_CORE_RESPONSE_ERROR_SYNTAX
  | NDM_CORE_RESPONSE_ERROR_FORMAT
  | NDM_CORE_RESPONSE_ERROR_NOT_FOUND
  | NDM_CORE_RESPONSE_ERROR_BUFFER_SIZE
  | NDM_CORE_RESPONSE_ERROR_MESSAGE
  | NDM_CORE_RESPONSE_ERROR_SYSTEM

record ndm_core_response_t =
  rsp_doc :: ndm_xml_document_t
  rsp_root :: "nat option"
  rsp_id :: u64

lemma then_do_cong [fundef_cong]:
  "r = r' \<Longrightarrow> (\<And>x. r' = Some (Ok x) \<Longrightarrow> f x = g x) \<Longrightarrow> then_do r f = then_do r' g"
  by (cases "(r', f)" rule: then_do.cases) auto

lemma then_do_Ok: "then_do r f = Some (Ok y) \<longleftrightarrow> (\<exists>x. r = Some (Ok x) \<and> f x = Some (Ok y))"
  by (cases "(r, f)" rule: then_do.cases) auto

section \<open>The kind of a response\<close>

definition core_strcasecmp_eq :: "cstring \<Rightarrow> cstring \<Rightarrow> bool" where
  "core_strcasecmp_eq s t \<longleftrightarrow> map xml_lower s = map xml_lower t"

definition core_attr_text :: "ndm_xml_document_t \<Rightarrow> nat \<Rightarrow> cstring result" where
  "core_attr_text d a = bind_result (ndm_xml_attr_value d a) (\<lambda>s. need (xml_string d s) Ok)"

definition core_node_text :: "ndm_xml_document_t \<Rightarrow> nat \<Rightarrow> cstring result" where
  "core_node_text d n = bind_result (ndm_xml_node_value d n) (\<lambda>s. need (xml_string d s) Ok)"

text \<open>The node if its attribute says yes or no, with the kind each answer stands for.\<close>

definition core_message_level ::
  "ndm_xml_document_t \<Rightarrow> nat \<Rightarrow> cstring \<Rightarrow> ndm_core_response_type_t \<Rightarrow> ndm_core_response_type_t \<Rightarrow>
   (nat option \<times> ndm_core_response_type_t) result option" where
  "core_message_level d m attr yes no =
     then_do (ndm_xml_node_first_attr d m (Some attr)) (\<lambda>a.
     case a of
       None \<Rightarrow> Some (Ok (None, NDM_CORE_INFO))
     | Some a \<Rightarrow>
         then_do (Some (core_attr_text d a)) (\<lambda>v.
         Some (Ok
           (if core_strcasecmp_eq v (core_str ''yes'') then (Some m, yes)
            else if core_strcasecmp_eq v (core_str ''no'') then (Some m, no)
            else (None, NDM_CORE_INFO)))))"

definition core_response_message_node ::
  "ndm_core_response_t \<Rightarrow> (nat option \<times> ndm_core_response_type_t) result option" where
  "core_response_message_node rsp =
     (let d = rsp_doc rsp in
      case rsp_root rsp of
        None \<Rightarrow> Some (Ok (None, NDM_CORE_INFO))
      | Some n \<Rightarrow>
          then_do (ndm_xml_node_first_child d n (Some (core_str ''message''))) (\<lambda>m.
          case m of
            Some m \<Rightarrow> core_message_level d m (core_str ''warning'') NDM_CORE_WARNING NDM_CORE_INFO
          | None \<Rightarrow>
              then_do (ndm_xml_node_first_child d n (Some (core_str ''error''))) (\<lambda>m.
              case m of
                None \<Rightarrow> Some (Ok (None, NDM_CORE_INFO))
              | Some m \<Rightarrow> core_message_level d m (core_str ''critical'') NDM_CORE_CRITICAL NDM_CORE_ERROR)))"

definition ndm_core_response_type :: "ndm_core_response_t \<Rightarrow> ndm_core_response_type_t result option" where
  "ndm_core_response_type rsp =
     then_do (core_response_message_node rsp) (\<lambda>(m, type).
     Some (Ok (if m = None then NDM_CORE_INFO else type)))"

definition ndm_core_response_is_ok :: "ndm_core_response_t \<Rightarrow> bool result option" where
  "ndm_core_response_is_ok rsp =
     then_do (ndm_core_response_type rsp) (\<lambda>type.
     Some (Ok (type = NDM_CORE_INFO \<or> type = NDM_CORE_WARNING)))"

definition ndm_core_response_is_continued :: "ndm_core_response_t \<Rightarrow> bool result option" where
  "ndm_core_response_is_continued rsp =
     then_do (Some (need (rsp_root rsp) Ok)) (\<lambda>n.
     then_do (ndm_xml_node_first_child (rsp_doc rsp) n (Some (core_str ''continued''))) (\<lambda>c.
     Some (Ok (c \<noteq> None))))"

definition ndm_core_response_root :: "ndm_core_response_t \<Rightarrow> nat option" where
  "ndm_core_response_root rsp = rsp_root rsp"

section \<open>The last message\<close>

record ndm_core_message_t =
  msg_received :: bool
  msg_string :: cstring
  msg_ident :: cstring
  msg_source :: cstring
  msg_code :: u32
  msg_type :: ndm_core_response_type_t
  msg_response_id :: u64

definition core_message_init :: ndm_core_message_t where
  "core_message_init =
     \<lparr>msg_received = False, msg_string = [], msg_ident = [], msg_source = [], msg_code = 0,
      msg_type = NDM_CORE_INFO, msg_response_id = 0\<rparr>"

definition NDM_CORE_MESSAGE_STRING_MAX_SIZE :: nat where "NDM_CORE_MESSAGE_STRING_MAX_SIZE = 512"
definition NDM_CORE_MESSAGE_IDENT_MAX_SIZE :: nat where "NDM_CORE_MESSAGE_IDENT_MAX_SIZE = 128"
definition NDM_CORE_MESSAGE_SOURCE_MAX_SIZE :: nat where "NDM_CORE_MESSAGE_SOURCE_MAX_SIZE = 128"

text \<open>The string in an array of \<open>dst_size\<close> bytes whose last ones before the terminator become dots.\<close>

definition core_message_append_dots :: "cstring \<Rightarrow> nat \<Rightarrow> cstring" where
  "core_message_append_dots dst dst_size = take (dst_size - 4) dst @ core_str ''...''"

definition core_message_printf :: "nat \<Rightarrow> cstring \<Rightarrow> cstring" where
  "core_message_printf dst_size src =
     (if length src \<ge> dst_size then core_message_append_dots (take (dst_size - 1) src) dst_size else src)"

text \<open>The \<open>index\<close>-th argument of a message.\<close>

fun core_argument :: "ndm_xml_document_t \<Rightarrow> nat option \<Rightarrow> nat \<Rightarrow> nat option result option" where
  "core_argument d None index = Some (Ok None)"
| "core_argument d (Some a) 0 = Some (Ok (Some a))"
| "core_argument d (Some a) (Suc index) =
     then_do (ndm_xml_node_next_sibling d a (Some (core_str ''argument''))) (\<lambda>b. core_argument d b index)"

text \<open>
  One turn of the loop: the rest of the text and the bytes written so far. The end of the
  text is looked for after a turn, so an empty text is read beyond its terminator.
\<close>

definition core_message_turn ::
  "ndm_xml_document_t \<Rightarrow> nat \<Rightarrow> cstring \<Rightarrow> u8 list \<Rightarrow> (cstring \<times> u8 list) result option" where
  "core_message_turn d node m out =
     (if 2 < length m \<and> m ! 0 = 0xee \<and> m ! 1 = 0x80 \<and> m ! 2 \<ge> 0x80 then
        then_do (ndm_xml_node_first_child d node (Some (core_str ''argument''))) (\<lambda>a.
        then_do (core_argument d a (unat (m ! 2 - 0x80))) (\<lambda>a.
        case a of
          None \<Rightarrow> Some (Ok (drop 3 m, out))
        | Some a \<Rightarrow>
            then_do (Some (core_node_text d a)) (\<lambda>arg.
            let room = NDM_CORE_MESSAGE_STRING_MAX_SIZE - length out in
            Some (Ok (drop 3 m, out @ (if length arg \<ge> room then take (room - 1) arg @ [0] else arg))))))
      else
        (case m of
           [] \<Rightarrow> Some Undefined
         | c # m \<Rightarrow> Some (Ok (m, out @ [c]))))"

lemma core_message_turn_less:
  "core_message_turn d node m out = Some (Ok (m', out')) \<Longrightarrow> length m' < length m"
  by (auto simp: core_message_turn_def then_do_Ok Let_def split: if_splits list.splits option.splits)

text \<open>The loop, and the end of the string.\<close>

function core_message_loop ::
  "ndm_xml_document_t \<Rightarrow> nat \<Rightarrow> cstring \<Rightarrow> u8 list \<Rightarrow> u8 list result option" where
  "core_message_loop d node m out =
     then_do (core_message_turn d node m out) (\<lambda>st. case st of (m, out) \<Rightarrow>
     if m \<noteq> [] \<and> length out < NDM_CORE_MESSAGE_STRING_MAX_SIZE then core_message_loop d node m out else Some (Ok out))"
  by auto
termination
  by (relation "measure (\<lambda>(d, node, m, out). length m)") (auto dest: core_message_turn_less)

declare core_message_loop.simps [simp del]

definition core_message_text :: "ndm_xml_document_t \<Rightarrow> nat \<Rightarrow> cstring \<Rightarrow> cstring result option" where
  "core_message_text d node m =
     then_do (core_message_loop d node m []) (\<lambda>out.
     Some (Ok (if length out = NDM_CORE_MESSAGE_STRING_MAX_SIZE
               then core_message_append_dots (butlast out) NDM_CORE_MESSAGE_STRING_MAX_SIZE else out)))"

definition NDM_CODEGROUP :: "u32 \<Rightarrow> u32" where "NDM_CODEGROUP code = drop_bit 16 (code AND 0x0fff0000)"
definition NDM_CODELOCAL :: "u32 \<Rightarrow> u32" where "NDM_CODELOCAL code = code AND 0x0000ffff"
definition NDM_CODE_I :: "u32 \<Rightarrow> u32 \<Rightarrow> u32" where "NDM_CODE_I grp loc = 0x00000000 OR push_bit 16 grp OR loc"
definition NDM_CODE_W :: "u32 \<Rightarrow> u32 \<Rightarrow> u32" where "NDM_CODE_W grp loc = 0x40000000 OR push_bit 16 grp OR loc"
definition NDM_CODE_E :: "u32 \<Rightarrow> u32 \<Rightarrow> u32" where "NDM_CODE_E grp loc = 0x80000000 OR push_bit 16 grp OR loc"
definition NDM_CODE_C :: "u32 \<Rightarrow> u32 \<Rightarrow> u32" where "NDM_CODE_C grp loc = 0xc0000000 OR push_bit 16 grp OR loc"

text \<open>
  \<open>sscanf\<close> with \<open>%u%c\<close> converts one number and finds nothing behind it; the number is that
  of \<open>strtoul\<close> cut to 32 bits.
\<close>

definition core_message_code :: "ndm_core_response_type_t \<Rightarrow> cstring \<Rightarrow> u32" where
  "core_message_code type s =
     (case strtoull s of (v, e, overflow) \<Rightarrow>
        if e = 0 \<or> e < length s then 0
        else
          let code = ucast v; grp = NDM_CODEGROUP code; loc = NDM_CODELOCAL code in
          case type of
            NDM_CORE_WARNING \<Rightarrow> NDM_CODE_W grp loc
          | NDM_CORE_ERROR \<Rightarrow> NDM_CODE_E grp loc
          | NDM_CORE_CRITICAL \<Rightarrow> NDM_CODE_C grp loc
          | NDM_CORE_INFO \<Rightarrow> NDM_CODE_I grp loc)"

definition core_optional_attr :: "ndm_xml_document_t \<Rightarrow> nat \<Rightarrow> cstring \<Rightarrow> cstring option result option" where
  "core_optional_attr d n name =
     then_do (ndm_xml_node_first_attr d n (Some name)) (\<lambda>a.
     case a of
       None \<Rightarrow> Some (Ok None)
     | Some a \<Rightarrow> then_do (Some (core_attr_text d a)) (\<lambda>v. Some (Ok (Some v))))"

definition core_message_update ::
  "ndm_core_message_t \<Rightarrow> ndm_core_response_t \<Rightarrow> ndm_core_message_t result option" where
  "core_message_update message rsp =
     (if \<not> msg_received message \<or> msg_response_id message \<noteq> rsp_id rsp then
        then_do (core_response_message_node rsp) (\<lambda>(node, type).
        case node of
          None \<Rightarrow> Some (Ok core_message_init)
        | Some n \<Rightarrow>
            let d = rsp_doc rsp in
            then_do (Some (core_node_text d n)) (\<lambda>m.
            then_do (core_optional_attr d n (core_str ''code'')) (\<lambda>code.
            then_do (core_optional_attr d n (core_str ''ident'')) (\<lambda>ident.
            then_do (core_optional_attr d n (core_str ''source'')) (\<lambda>source.
            then_do (core_message_text d n m) (\<lambda>s.
            Some (Ok
              \<lparr>msg_received = True, msg_string = s,
               msg_ident = core_message_printf NDM_CORE_MESSAGE_IDENT_MAX_SIZE (case ident of None \<Rightarrow> [] | Some v \<Rightarrow> v),
               msg_source = core_message_printf NDM_CORE_MESSAGE_SOURCE_MAX_SIZE (case source of None \<Rightarrow> [] | Some v \<Rightarrow> v),
               msg_code = (case code of None \<Rightarrow> 0 | Some v \<Rightarrow> core_message_code type v),
               msg_type = type, msg_response_id = rsp_id rsp\<rparr>)))))))
      else Some (Ok message))"

section \<open>Copies\<close>

text \<open>\<open>sizeof (struct ndm_core_response_t)\<close>: the buffer, the document, a pointer and the number.\<close>

definition CORE_RESPONSE_SIZE :: u64 where "CORE_RESPONSE_SIZE = 2136"

definition core_response_init :: "heap \<Rightarrow> ndm_core_response_t" where
  "core_response_init heap =
     \<lparr>rsp_doc = ndm_xml_document_init heap (map (garbage heap) [0..<2048]) 2048 4096, rsp_root = None, rsp_id = 0\<rparr>"

text \<open>The copy, or \<open>None\<close> for \<open>NULL\<close>, and the allocator after the requests made.\<close>

definition core_response_copy ::
  "nat \<Rightarrow> heap \<Rightarrow> ndm_core_response_t \<Rightarrow> (ndm_core_response_t option \<times> heap) result option" where
  "core_response_copy fuel heap rsp =
     (if \<not> can_alloc heap then Some (Ok (None, heap_next heap))
      else
        then_do (ndm_xml_document_copy fuel (rsp_doc (core_response_init (heap_next heap))) (rsp_doc rsp)) (\<lambda>(copied, d).
        if \<not> copied then Some (Ok (None, pool_sys (doc_pool (ndm_xml_document_clear d))))
        else
          then_do (Some (need (ndm_xml_document_root d) Ok)) (\<lambda>r.
          then_do (ndm_xml_node_first_child d r (Some (core_str ''response''))) (\<lambda>root.
          case root of
            None \<Rightarrow> Some (Ok (None, pool_sys (doc_pool (ndm_xml_document_clear d))))
          | Some n \<Rightarrow> Some (Ok (Some \<lparr>rsp_doc = d, rsp_root = root, rsp_id = rsp_id rsp\<rparr>, pool_sys (doc_pool d)))))))"

definition core_response_size :: "ndm_core_response_t option \<Rightarrow> u64" where
  "core_response_size rsp =
     (case rsp of None \<Rightarrow> 0 | Some r \<Rightarrow> CORE_RESPONSE_SIZE + ndm_xml_document_size (rsp_doc r))"

section \<open>Values by path\<close>

definition core_path_name :: "cstring \<Rightarrow> cstring" where
  "core_path_name p = takeWhile (\<lambda>c. c \<noteq> 47 \<and> c \<noteq> 64) p"

definition core_response_find_end :: "cstring \<Rightarrow> cstring" where
  "core_response_find_end p = dropWhile (\<lambda>c. c \<noteq> 47 \<and> c \<noteq> 64) p"

lemma core_response_find_end_le: "length (core_response_find_end p) \<le> length p"
  by (simp add: core_response_find_end_def length_dropWhile_le)

text \<open>The path is what is left of it; a slash at its end is the end.\<close>

function core_response_first_node ::
  "ndm_xml_document_t \<Rightarrow> nat \<Rightarrow> cstring \<Rightarrow> (ndm_core_response_error_t \<times> nat option) result option" where
  "core_response_first_node d n p =
     (let name = core_path_name p; q = core_response_find_end p in
      if q \<noteq> [] \<and> hd q = 64 then Some (Ok (NDM_CORE_RESPONSE_ERROR_SYNTAX, Some n))
      else
        then_do (if name \<noteq> [] then ndm_xml_node_first_child d n (Some name) else Some (Ok (Some n))) (\<lambda>m.
        case m of
          None \<Rightarrow> Some (Ok (NDM_CORE_RESPONSE_ERROR_NOT_FOUND, None))
        | Some m \<Rightarrow>
            if tl q = [] then Some (Ok (NDM_CORE_RESPONSE_ERROR_OK, Some m))
            else core_response_first_node d m (tl q)))"
  by auto
termination
proof (relation "measure (\<lambda>(d, n, p). length p)", goal_cases)
  case (2 d n p name q x m)
  have "length (tl q) < length q" using 2(6) by (cases q) auto
  then have "length (tl q) < length p" using core_response_find_end_le [of p] unfolding 2(2) by linarith
  then show ?case by simp
qed simp

declare core_response_first_node.simps [simp del]

definition ndm_core_response_first_node ::
  "ndm_xml_document_t \<Rightarrow> nat \<Rightarrow> cstring option \<Rightarrow> (ndm_core_response_error_t \<times> nat option) result option" where
  "ndm_core_response_first_node d n path =
     (case path of
        None \<Rightarrow> Some (Ok (NDM_CORE_RESPONSE_ERROR_SYSTEM, None))
      | Some p \<Rightarrow> core_response_first_node d n p)"

text \<open>The scan from the last character back to a mark or to the first character.\<close>

fun core_path_mark :: "cstring \<Rightarrow> nat \<Rightarrow> nat" where
  "core_path_mark path 0 = 0"
| "core_path_mark path (Suc k) =
     (if path ! Suc k \<noteq> 64 \<and> path ! Suc k \<noteq> 47 then core_path_mark path k else Suc k)"

definition core_response_first_str ::
  "ndm_xml_document_t \<Rightarrow> nat \<Rightarrow> cstring option \<Rightarrow> (ndm_core_response_error_t \<times> cstring option) result option" where
  "core_response_first_str d n path =
     (case path of
        None \<Rightarrow> Some (Ok (NDM_CORE_RESPONSE_ERROR_SYSTEM, None))
      | Some path \<Rightarrow>
          let k = core_path_mark path (length path - 1);
              has_attr = (path \<noteq> [] \<and> path ! k = 64) in
          then_do (core_response_first_node d n (if has_attr then take k path else path)) (\<lambda>(e, m).
          if e \<noteq> NDM_CORE_RESPONSE_ERROR_OK then Some (Ok (e, None))
          else
            then_do (Some (need m Ok)) (\<lambda>m.
            if \<not> has_attr then then_do (Some (core_node_text d m)) (\<lambda>v. Some (Ok (e, Some v)))
            else
              then_do (ndm_xml_node_first_attr d m (Some (drop (Suc k) path))) (\<lambda>a.
              case a of
                None \<Rightarrow> Some (Ok (NDM_CORE_RESPONSE_ERROR_NOT_FOUND, None))
              | Some a \<Rightarrow> then_do (Some (core_attr_text d a)) (\<lambda>v. Some (Ok (e, Some v)))))))"

text \<open>The macro \<open>NDM_CORE_RESPONSE_FIRST_INTEGER_\<close>, for the parser of each type.\<close>

definition core_response_first_integer ::
  "(cstring \<Rightarrow> 'v option \<times> errno option) \<Rightarrow> ndm_xml_document_t \<Rightarrow> nat \<Rightarrow> cstring option \<Rightarrow>
   (ndm_core_response_error_t \<times> 'v option) result option" where
  "core_response_first_integer parse d n path =
     then_do (core_response_first_str d n path) (\<lambda>(e, v).
     if e = NDM_CORE_RESPONSE_ERROR_OK then
       then_do (Some (need v Ok)) (\<lambda>s.
       Some (Ok (case fst (parse s) of
           None \<Rightarrow> (NDM_CORE_RESPONSE_ERROR_FORMAT, None)
         | Some i \<Rightarrow> (e, Some i))))
     else Some (Ok (e, None)))"

definition ndm_core_response_first_char where
  "ndm_core_response_first_char = core_response_first_integer ndm_int_parse_char"
definition ndm_core_response_first_uchar where
  "ndm_core_response_first_uchar = core_response_first_integer ndm_int_parse_uchar"
definition ndm_core_response_first_short where
  "ndm_core_response_first_short = core_response_first_integer ndm_int_parse_short"
definition ndm_core_response_first_ushort where
  "ndm_core_response_first_ushort = core_response_first_integer ndm_int_parse_ushort"
definition ndm_core_response_first_int where
  "ndm_core_response_first_int = core_response_first_integer ndm_int_parse_int"
definition ndm_core_response_first_uint where
  "ndm_core_response_first_uint = core_response_first_integer ndm_int_parse_uint"
definition ndm_core_response_first_long where
  "ndm_core_response_first_long = core_response_first_integer ndm_int_parse_long"
definition ndm_core_response_first_ulong where
  "ndm_core_response_first_ulong = core_response_first_integer ndm_int_parse_ulong"
definition ndm_core_response_first_llong where
  "ndm_core_response_first_llong = core_response_first_integer ndm_int_parse_llong"
definition ndm_core_response_first_ullong where
  "ndm_core_response_first_ullong = core_response_first_integer ndm_int_parse_ullong"

definition core_bool_of_text :: "cstring \<Rightarrow> bool option" where
  "core_bool_of_text s =
     (case fst (ndm_int_parse_long s) of
        Some l \<Rightarrow> Some (l \<noteq> 0)
      | None \<Rightarrow>
          if \<exists>t \<in> set [''yes'', ''true'', ''up'', ''on'']. core_strcasecmp_eq s (core_str t) then Some True
          else if \<exists>t \<in> set [''no'', ''false'', ''down'', ''off'']. core_strcasecmp_eq s (core_str t) then Some False
          else None)"

definition ndm_core_response_first_bool ::
  "ndm_xml_document_t \<Rightarrow> nat \<Rightarrow> bool \<Rightarrow> cstring option \<Rightarrow> (ndm_core_response_error_t \<times> bool option) result option" where
  "ndm_core_response_first_bool d n parse_value path =
     then_do (core_response_first_str d n path) (\<lambda>(e, v).
     if \<not> parse_value then
       Some (Ok
         (if e = NDM_CORE_RESPONSE_ERROR_OK then (e, Some True)
          else if e = NDM_CORE_RESPONSE_ERROR_NOT_FOUND then (NDM_CORE_RESPONSE_ERROR_OK, Some False)
          else (e, None)))
     else if e = NDM_CORE_RESPONSE_ERROR_OK then
       then_do (Some (need v Ok)) (\<lambda>s.
       Some (Ok (case core_bool_of_text s of
           None \<Rightarrow> (NDM_CORE_RESPONSE_ERROR_FORMAT, None)
         | Some b \<Rightarrow> (e, Some b))))
     else Some (Ok (e, None)))"

end
