(* ===== verification/Core_Cache.thy ===== *)
theory Core_Cache
  imports Core_Response Ndm_Time
begin

text \<open>
  The cache of responses (\<^verbatim>\<open>src/core.c\<close>): entries in the order of their use, found by the
  bytes of the request, limited in age and in size. The ring of entries is the list of them
  from its head on (\<open>Dlist_Ring\<close> shows that the ring keeps such a list); \<open>now\<close> is the
  reading of the monotonic clock.
\<close>

record ndm_core_cache_entry_t =
  ce_response :: ndm_core_response_t
  ce_expiration_time :: timespec
  ce_request :: "u8 list"

record ndm_core_cache_t =
  cc_ttl_msec :: int
  cc_max_size :: u64
  cc_next_expiration_time :: timespec
  cc_size :: u64
  cc_entries :: "ndm_core_cache_entry_t list"

text \<open>\<open>sizeof (struct ndm_core_cache_entry_t)\<close>.\<close>

definition CORE_CACHE_ENTRY_SIZE :: u64 where "CORE_CACHE_ENTRY_SIZE = 56"

definition core_cache_entry_size :: "u64 \<Rightarrow> ndm_core_response_t \<Rightarrow> u64" where
  "core_cache_entry_size request_size rsp = request_size + CORE_CACHE_ENTRY_SIZE + core_response_size (Some rsp)"

definition ce_size :: "ndm_core_cache_entry_t \<Rightarrow> u64" where
  "ce_size e = core_cache_entry_size (of_nat (length (ce_request e))) (ce_response e)"

text \<open>The entry at an index of the list is taken out and released.\<close>

definition core_cache_entry_remove :: "ndm_core_cache_t \<Rightarrow> nat \<Rightarrow> ndm_core_cache_t" where
  "core_cache_entry_remove cache i =
     cache\<lparr>cc_entries := take i (cc_entries cache) @ drop (Suc i) (cc_entries cache),
           cc_size := cc_size cache - ce_size (cc_entries cache ! i)\<rparr>"

definition core_cache_init :: "int \<Rightarrow> u64 \<Rightarrow> ndm_core_cache_t" where
  "core_cache_init ttl_msec max_size =
     \<lparr>cc_ttl_msec = ttl_msec, cc_max_size = max_size, cc_next_expiration_time = ndm_time_get_max, cc_size = 0, cc_entries = []\<rparr>"

text \<open>With no entry the last one would be the head of the ring itself.\<close>

definition core_cache_remove_last :: "ndm_core_cache_t \<Rightarrow> ndm_core_cache_t result" where
  "core_cache_remove_last cache =
     (if cc_entries cache = [] then Undefined
      else Ok (core_cache_entry_remove cache (length (cc_entries cache) - 1)))"

section \<open>Clearing\<close>

function core_cache_remove_all :: "ndm_core_cache_t \<Rightarrow> ndm_core_cache_t result" where
  "core_cache_remove_all cache =
     (if cc_entries cache = [] then Ok cache
      else (case core_cache_remove_last cache of
          Ok cache \<Rightarrow> core_cache_remove_all cache
        | Error e \<Rightarrow> Error e
        | Undefined \<Rightarrow> Undefined))"
  by auto
termination
  by (relation "measure (\<lambda>cache. length (cc_entries cache))")
    (auto simp: core_cache_remove_last_def core_cache_entry_remove_def)

declare core_cache_remove_all.simps [simp del]

text \<open>The walk that removes the expired entries from the index \<open>i\<close> on.\<close>

function core_cache_expire :: "timespec \<Rightarrow> ndm_core_cache_t \<Rightarrow> nat \<Rightarrow> ndm_core_cache_t" where
  "core_cache_expire now cache i =
     (if i < length (cc_entries cache) then
        let e = cc_entries cache ! i in
        if ndm_time_less (ce_expiration_time e) now then core_cache_expire now (core_cache_entry_remove cache i) i
        else
          core_cache_expire now
            (if ndm_time_greater (cc_next_expiration_time cache) (ce_expiration_time e)
             then cache\<lparr>cc_next_expiration_time := ce_expiration_time e\<rparr> else cache) (Suc i)
      else cache)"
  by auto
termination
  by (relation "measure (\<lambda>(now, cache, i). length (cc_entries cache) - i)") (auto simp: core_cache_entry_remove_def)

declare core_cache_expire.simps [simp del]

definition ndm_core_cache_clear :: "timespec \<Rightarrow> ndm_core_cache_t \<Rightarrow> bool \<Rightarrow> ndm_core_cache_t result" where
  "ndm_core_cache_clear now cache remove_all =
     (if remove_all then
        bind_result (core_cache_remove_all cache) (\<lambda>cache.
        Ok (cache\<lparr>cc_next_expiration_time := ndm_time_get_max\<rparr>))
      else if ndm_time_less (cc_next_expiration_time cache) now then
        Ok (core_cache_expire now (cache\<lparr>cc_next_expiration_time := ndm_time_get_max\<rparr>) 0)
      else Ok cache)"

section \<open>Finding\<close>

text \<open>Expired entries on the way are removed; the result is the index of the entry found.\<close>

function core_cache_find :: "timespec \<Rightarrow> u8 list \<Rightarrow> ndm_core_cache_t \<Rightarrow> nat \<Rightarrow> nat option \<times> ndm_core_cache_t" where
  "core_cache_find now request cache i =
     (if i < length (cc_entries cache) then
        let e = cc_entries cache ! i in
        if ndm_time_less (ce_expiration_time e) now then core_cache_find now request (core_cache_entry_remove cache i) i
        else if length (ce_request e) = length request \<and> ce_request e = request then (Some i, cache)
        else core_cache_find now request cache (Suc i)
      else (None, cache))"
  by auto
termination
  by (relation "measure (\<lambda>(now, request, cache, i). length (cc_entries cache) - i)") (auto simp: core_cache_entry_remove_def)

declare core_cache_find.simps [simp del]

text \<open>An entry that was used goes to the head.\<close>

definition core_cache_to_head :: "ndm_core_cache_t \<Rightarrow> nat \<Rightarrow> ndm_core_cache_t" where
  "core_cache_to_head cache i =
     cache\<lparr>cc_entries := cc_entries cache ! i # take i (cc_entries cache) @ drop (Suc i) (cc_entries cache)\<rparr>"

text \<open>The return value, whether the response is a copy, the response, the cache and the allocator.\<close>

definition core_cache_get ::
  "nat \<Rightarrow> heap \<Rightarrow> timespec \<Rightarrow> ndm_core_cache_t \<Rightarrow> u8 list \<Rightarrow> bool \<Rightarrow>
   (bool \<times> bool \<times> ndm_core_response_t option \<times> ndm_core_cache_t \<times> heap) result option" where
  "core_cache_get fuel heap now cache request copy_cached_response =
     (case core_cache_find now request cache 0 of
        (None, cache) \<Rightarrow> Some (Ok (True, False, None, cache, heap))
      | (Some i, cache) \<Rightarrow>
          let rsp = ce_response (cc_entries cache ! i); cache = core_cache_to_head cache i in
          if copy_cached_response then
            then_do (core_response_copy fuel heap rsp) (\<lambda>(copy, heap).
            Some (Ok (copy \<noteq> None, copy \<noteq> None, copy, cache, heap)))
          else Some (Ok (True, False, Some rsp, cache, heap)))"

section \<open>Adding\<close>

function core_cache_make_room :: "ndm_core_cache_t \<Rightarrow> u64 \<Rightarrow> ndm_core_cache_t result" where
  "core_cache_make_room cache need_size =
     (if cc_max_size cache - cc_size cache < need_size then
        (case core_cache_remove_last cache of
           Ok cache \<Rightarrow> core_cache_make_room cache need_size
         | Error e \<Rightarrow> Error e
         | Undefined \<Rightarrow> Undefined)
      else Ok cache)"
  by auto
termination
  by (relation "measure (\<lambda>(cache, need_size). length (cc_entries cache))")
    (auto simp: core_cache_remove_last_def core_cache_entry_remove_def split: if_splits)

declare core_cache_make_room.simps [simp del]

definition core_cache_add ::
  "nat \<Rightarrow> heap \<Rightarrow> timespec \<Rightarrow> ndm_core_cache_t \<Rightarrow> u8 list \<Rightarrow> ndm_core_response_t \<Rightarrow>
   (ndm_core_cache_t \<times> heap) result option" where
  "core_cache_add fuel heap now cache request rsp =
     (let need_size = core_cache_entry_size (of_nat (length request)) rsp in
      if cc_max_size cache \<ge> need_size then
        then_do (Some (core_cache_make_room cache need_size)) (\<lambda>cache.
        if \<not> can_alloc heap then Some (Ok (cache, heap_next heap))
        else
          then_do (core_response_copy fuel (heap_next heap) rsp) (\<lambda>(copy, heap).
          case copy of
            None \<Rightarrow> Some (Ok (cache, heap))
          | Some copy \<Rightarrow>
              then_do (Some (ndm_time_add_msec now (cc_ttl_msec cache))) (\<lambda>expiration_time.
              Some (Ok
                (cache\<lparr>cc_size := cc_size cache + need_size,
                   cc_next_expiration_time :=
                     (if cc_entries cache = [] then expiration_time else cc_next_expiration_time cache),
                   cc_entries := \<lparr>ce_response = copy, ce_expiration_time = expiration_time, ce_request = request\<rparr> #
                     cc_entries cache\<rparr>, heap)))))
      else Some (Ok (cache, heap)))"

end
