(* ===== verification/Core_Cache_Spec.thy ===== *)
theory Core_Cache_Spec
  imports Core_Cache
begin

text \<open>
  What the cache of responses promises: no request is cached twice, the moment of the next
  expiration lets \<open>ndm_core_cache_clear\<close> skip the walk only when nothing has expired, and
  the size kept is that of the entries up to the drift of the additions, each of which counts
  the size of the response instead of that of the copy it keeps. Where every copy has had the
  size of its original, the size is exact, within the limit, and the loop that makes room never
  runs out of entries.
\<close>

section \<open>Entries taken out\<close>

lemma no_drift: "set ds \<subseteq> {0} \<Longrightarrow> sum_list ds = (0 :: u64)"
  by (induction ds) auto

definition entry_total :: "ndm_core_cache_entry_t list \<Rightarrow> nat" where
  "entry_total es = (\<Sum>e\<leftarrow>es. unat (ce_size e))"

definition expired :: "timespec \<Rightarrow> ndm_core_cache_entry_t \<Rightarrow> bool" where
  "expired now e \<longleftrightarrow> ndm_time_less (ce_expiration_time e) now"

definition leq_time :: "timespec \<Rightarrow> timespec \<Rightarrow> bool" where
  "leq_time t u \<longleftrightarrow> \<not> ndm_time_less u t"

lemma leq_time_trans: "leq_time t u \<Longrightarrow> leq_time u v \<Longrightarrow> leq_time t v"
  by (auto simp: leq_time_def ndm_time_less_def split: if_splits)

lemma leq_time_refl [simp]: "leq_time t t"
  by (simp add: leq_time_def ndm_time_less_def)

lemma leq_time_linear: "leq_time t u \<or> leq_time u t"
  by (auto simp: leq_time_def ndm_time_less_def)

lemma greater_iff_leq: "ndm_time_greater t u \<longleftrightarrow> \<not> leq_time t u"
  by (auto simp: ndm_time_greater_def ndm_time_less_or_equal_def ndm_time_equal_def leq_time_def ndm_time_less_def)

lemma entry_total_simps [simp]:
  "entry_total [] = 0" "entry_total (e # es) = unat (ce_size e) + entry_total es"
  "entry_total (es @ fs) = entry_total es + entry_total fs"
  by (simp_all add: entry_total_def)

lemma remove_entries [simp]:
  "cc_entries (core_cache_entry_remove c i) = take i (cc_entries c) @ drop (Suc i) (cc_entries c)"
  "cc_max_size (core_cache_entry_remove c i) = cc_max_size c"
  "cc_ttl_msec (core_cache_entry_remove c i) = cc_ttl_msec c"
  "cc_next_expiration_time (core_cache_entry_remove c i) = cc_next_expiration_time c"
  by (simp_all add: core_cache_entry_remove_def)

lemma entry_total_remove:
  "i < length es \<Longrightarrow> entry_total es = entry_total (take i es @ drop (Suc i) es) + unat (ce_size (es ! i))"
  by (subst id_take_nth_drop [of i es]) simp_all

section \<open>The invariant\<close>

text \<open>
  The size, the requests, and the expirations up to \<open>ttl_msec\<close> after the moment \<open>t\<close>.
  \<open>ds\<close> lists, for each response added, the size counted for it less that of its copy.
\<close>

definition cache_sized :: "u64 list \<Rightarrow> timespec \<Rightarrow> ndm_core_cache_t \<Rightarrow> bool" where
  "cache_sized ds t c \<longleftrightarrow>
     cc_size c = of_nat (entry_total (cc_entries c)) + sum_list ds \<and>
     (set ds \<subseteq> {0} \<longrightarrow> entry_total (cc_entries c) \<le> unat (cc_max_size c)) \<and>
     distinct (map ce_request (cc_entries c)) \<and>
     (\<forall>e \<in> set (cc_entries c). normal (ce_expiration_time e) \<and>
        nanoseconds (ce_expiration_time e) \<le> nanoseconds t + cc_ttl_msec c * 1000000)"

definition next_known :: "ndm_core_cache_t \<Rightarrow> bool" where
  "next_known c \<longleftrightarrow> (\<forall>e \<in> set (cc_entries c). leq_time (cc_next_expiration_time c) (ce_expiration_time e))"

definition cache_inv :: "u64 list \<Rightarrow> timespec \<Rightarrow> ndm_core_cache_t \<Rightarrow> bool" where
  "cache_inv ds t c \<longleftrightarrow> cache_sized ds t c \<and> next_known c"

lemma sized_sub:
  assumes "cache_sized ds t c" "entry_total es \<le> entry_total (cc_entries c)" "set es \<subseteq> set (cc_entries c)"
    "distinct (map ce_request es)" "sz = of_nat (entry_total es) + sum_list ds"
  shows "cache_sized ds t (c\<lparr>cc_entries := es, cc_size := sz\<rparr>)"
  using assms unfolding cache_sized_def by (auto dest: subsetD)

lemma distinct_sub:
  "i < length es \<Longrightarrow> distinct (map f es) \<Longrightarrow> distinct (map f (take i es @ drop (Suc i) es))"
proof -
  assume i: "i < length es" "distinct (map f es)"
  have "distinct (map f (take i es @ es ! i # drop (Suc i) es))" using i by (simp add: id_take_nth_drop [symmetric])
  then show ?thesis by simp
qed

lemma set_take_drop: "set (take i es @ drop (Suc i) es) \<subseteq> set es"
  by (auto dest: in_set_takeD in_set_dropD)

lemma remove_sized:
  assumes "cache_sized ds t c" "i < length (cc_entries c)"
  shows "cache_sized ds t (core_cache_entry_remove c i)"
proof -
  let ?es = "take i (cc_entries c) @ drop (Suc i) (cc_entries c)"
  have tot: "entry_total (cc_entries c) = entry_total ?es + unat (ce_size (cc_entries c ! i))"
    by (rule entry_total_remove [OF assms(2)])
  have "cc_size c - ce_size (cc_entries c ! i) = of_nat (entry_total ?es) + sum_list ds"
    using assms(1) tot by (simp add: cache_sized_def)
  then show ?thesis
    using sized_sub [OF assms(1) _ set_take_drop distinct_sub [OF assms(2)]] assms(1) tot
    by (simp add: core_cache_entry_remove_def cache_sized_def)
qed

lemma remove_next: "next_known c \<Longrightarrow> next_known (core_cache_entry_remove c i)"
  using set_take_drop [of i "cc_entries c"] by (fastforce simp: next_known_def)

lemma remove_inv: "cache_inv ds t c \<Longrightarrow> i < length (cc_entries c) \<Longrightarrow> cache_inv ds t (core_cache_entry_remove c i)"
  by (simp add: cache_inv_def remove_sized remove_next)

lemma remove_last_Ok: "core_cache_remove_last c = Ok c' \<longleftrightarrow>
    cc_entries c \<noteq> [] \<and> c' = core_cache_entry_remove c (length (cc_entries c) - 1)"
  by (auto simp: core_cache_remove_last_def)

lemma remove_last_total: "cc_entries c \<noteq> [] \<Longrightarrow>
    core_cache_remove_last c = Ok (core_cache_entry_remove c (length (cc_entries c) - 1))"
  by (simp add: core_cache_remove_last_def)

section \<open>Clearing\<close>

lemma remove_all_total:
  "\<exists>c'. core_cache_remove_all c = Ok c' \<and> cc_entries c' = [] \<and> cc_max_size c' = cc_max_size c \<and>
     cc_ttl_msec c' = cc_ttl_msec c \<and>
     cc_size c' = cc_size c - (\<Sum>e\<leftarrow>cc_entries c. ce_size e)"
proof (induction c rule: core_cache_remove_all.induct)
  case (1 c)
  show ?case
  proof (cases "cc_entries c = []")
    case True
    then show ?thesis by (subst core_cache_remove_all.simps) simp
  next
    case False
    let ?c = "core_cache_entry_remove c (length (cc_entries c) - 1)"
    have es: "cc_entries ?c = butlast (cc_entries c)" using False by (simp add: butlast_conv_take)
    have sum: "(\<Sum>e\<leftarrow>cc_entries c. ce_size e) = (\<Sum>e\<leftarrow>butlast (cc_entries c). ce_size e) + ce_size (last (cc_entries c))"
      using arg_cong [OF append_butlast_last_id [OF False, symmetric], of "\<lambda>es. \<Sum>e\<leftarrow>es. ce_size e"] by simp
    have sz: "cc_size ?c = cc_size c - ce_size (last (cc_entries c))"
      using False by (simp add: core_cache_entry_remove_def last_conv_nth)
    have "cc_size ?c - (\<Sum>e\<leftarrow>cc_entries ?c. ce_size e) = cc_size c - (\<Sum>e\<leftarrow>cc_entries c. ce_size e)"
      unfolding es sum sz by simp
    then show ?thesis
      using "1.IH" [OF False remove_last_total [OF False]] False
      by (subst core_cache_remove_all.simps) (simp add: remove_last_total [OF False])
  qed
qed

lemma expire_step_next:
  "leq_time (if ndm_time_greater n x then x else n) x"
  "leq_time n y \<Longrightarrow> leq_time (if ndm_time_greater n x then x else n) y"
  using leq_time_linear [of n x] by (auto simp: greater_iff_leq intro: leq_time_trans)

lemma expire_entries:
  assumes "i \<le> length (cc_entries c)"
  shows "cc_entries (core_cache_expire now c i) =
      take i (cc_entries c) @ filter (\<lambda>e. \<not> expired now e) (drop i (cc_entries c)) \<and>
    (cache_sized ds t c \<longrightarrow> cache_sized ds t (core_cache_expire now c i)) \<and>
    ((\<forall>e \<in> set (take i (cc_entries c)). leq_time (cc_next_expiration_time c) (ce_expiration_time e)) \<longrightarrow>
       next_known (core_cache_expire now c i))"
  using assms
proof (induction now c i rule: core_cache_expire.induct)
  case (1 now c i)
  show ?case
  proof (cases "i < length (cc_entries c)")
    case False
    then show ?thesis using "1.prems" by (subst (1 2 3) core_cache_expire.simps) (simp add: next_known_def)
  next
    case True
    let ?e = "cc_entries c ! i"
    have d: "drop i (cc_entries c) = ?e # drop (Suc i) (cc_entries c)" using True by (simp add: Cons_nth_drop_Suc)
    show ?thesis
    proof (cases "expired now ?e")
      case ex: True
      have "core_cache_expire now c i = core_cache_expire now (core_cache_entry_remove c i) i"
        using True ex by (subst core_cache_expire.simps) (simp add: expired_def)
      moreover have "take i (cc_entries (core_cache_entry_remove c i)) = take i (cc_entries c)"
          "drop i (cc_entries (core_cache_entry_remove c i)) = drop (Suc i) (cc_entries c)" using True by simp_all
      ultimately show ?thesis
        using "1.IH"(1) [OF True refl] True ex d remove_sized [of ds t c i] by (simp add: expired_def)
    next
      case ex: False
      let ?c = "if ndm_time_greater (cc_next_expiration_time c) (ce_expiration_time ?e)
             then c\<lparr>cc_next_expiration_time := ce_expiration_time ?e\<rparr> else c"
      have st: "core_cache_expire now c i = core_cache_expire now ?c (Suc i)"
        using True ex by (subst core_cache_expire.simps) (simp add: expired_def Let_def)
      have es: "cc_entries ?c = cc_entries c" "cache_sized ds t ?c = cache_sized ds t c"
          "cc_next_expiration_time ?c = (if ndm_time_greater (cc_next_expiration_time c) (ce_expiration_time ?e)
             then ce_expiration_time ?e else cc_next_expiration_time c)"
        by (simp_all add: cache_sized_def)
      have tk: "take (Suc i) (cc_entries c) = take i (cc_entries c) @ [?e]" using True by (simp add: take_Suc_conv_app_nth)
      show ?thesis
        using "1.IH"(2) [OF True refl] True ex d
        unfolding st expired_def [symmetric] by (auto simp: es tk expire_step_next expired_def split del: if_split)
    qed
  qed
qed

lemma clear_all_inv:
  assumes "ndm_core_cache_clear now c True = Ok c'"
  shows "cc_entries c' = [] \<and> cc_max_size c' = cc_max_size c \<and> cc_ttl_msec c' = cc_ttl_msec c \<and>
    cc_size c' = cc_size c - (\<Sum>e\<leftarrow>cc_entries c. ce_size e)"
  using remove_all_total [of c] assms by (auto simp: ndm_core_cache_clear_def)

lemma sum_sizes: "(\<Sum>e\<leftarrow>es. ce_size e) = of_nat (entry_total es)"
  by (induction es) simp_all

lemma not_less_not_expired:
  assumes "next_known c" "\<not> ndm_time_less (cc_next_expiration_time c) now"
  shows "filter (\<lambda>e. \<not> expired now e) (cc_entries c) = cc_entries c"
  using assms leq_time_trans by (auto simp: next_known_def expired_def leq_time_def filter_id_conv)

lemma clear_expired:
  assumes "next_known c"
  shows "\<exists>c'. ndm_core_cache_clear now c False = Ok c' \<and> cc_entries c' = filter (\<lambda>e. \<not> expired now e) (cc_entries c) \<and>
    (cache_sized ds t c \<longrightarrow> cache_sized ds t c') \<and> next_known c'"
proof (cases "ndm_time_less (cc_next_expiration_time c) now")
  case True
  let ?c = "c\<lparr>cc_next_expiration_time := ndm_time_get_max\<rparr>"
  have "cache_sized ds t ?c = cache_sized ds t c" by (simp add: cache_sized_def)
  then show ?thesis using expire_entries [of 0 ?c now ds t] True by (simp add: ndm_core_cache_clear_def)
next
  case False
  then show ?thesis using not_less_not_expired [OF assms False] assms by (simp add: ndm_core_cache_clear_def)
qed


section \<open>Finding\<close>

definition answers_request :: "timespec \<Rightarrow> u8 list \<Rightarrow> ndm_core_cache_entry_t \<Rightarrow> bool" where
  "answers_request now request e \<longleftrightarrow> \<not> expired now e \<and> ce_request e = request"

lemma find_spec:
  assumes "i \<le> length (cc_entries c)" "core_cache_find now request c i = (r, c')"
  shows "cc_max_size c' = cc_max_size c \<and> cc_ttl_msec c' = cc_ttl_msec c \<and>
    (cache_inv ds t c \<longrightarrow> cache_inv ds t c') \<and>
    (case r of
       None \<Rightarrow> cc_entries c' = take i (cc_entries c) @ filter (\<lambda>e. \<not> expired now e) (drop i (cc_entries c)) \<and>
         List.find (answers_request now request) (drop i (cc_entries c)) = None
     | Some k \<Rightarrow> k < length (cc_entries c') \<and>
         List.find (answers_request now request) (drop i (cc_entries c)) = Some (cc_entries c' ! k) \<and>
         set (cc_entries c') \<subseteq> set (cc_entries c) \<and>
         {e \<in> set (cc_entries c). \<not> expired now e} \<subseteq> set (cc_entries c'))"
  using assms
proof (induction now request c i rule: core_cache_find.induct)
  case (1 now request c i)
  show ?case
  proof (cases "i < length (cc_entries c)")
    case False
    then show ?thesis using "1.prems" by (subst (asm) core_cache_find.simps) auto
  next
    case True
    let ?e = "cc_entries c ! i"
    have d: "drop i (cc_entries c) = ?e # drop (Suc i) (cc_entries c)" using True by (simp add: Cons_nth_drop_Suc)
    show ?thesis
    proof (cases "expired now ?e")
      case ex: True
      let ?c = "core_cache_entry_remove c i"
      have f: "core_cache_find now request ?c i = (r, c')"
        using True ex "1.prems"(2) by (subst (asm) core_cache_find.simps) (simp add: expired_def)
      have es: "take i (cc_entries ?c) = take i (cc_entries c)" "drop i (cc_entries ?c) = drop (Suc i) (cc_entries c)"
          "i \<le> length (cc_entries ?c)" using True by simp_all
      have sub: "set (cc_entries ?c) \<subseteq> set (cc_entries c)" using set_take_drop by simp
      have un: "{e \<in> set (cc_entries c). \<not> expired now e} = {e \<in> set (cc_entries ?c). \<not> expired now e}"
        using ex by (subst id_take_nth_drop [OF True]) auto
      have na: "\<not> answers_request now request ?e" using ex by (simp add: answers_request_def)
      show ?thesis
        using "1.IH"(1) [OF True refl _ es(3) f] ex d es(1,2) sub na remove_inv [OF _ True, of ds t]
        unfolding un by (auto simp: expired_def split: option.splits)
    next
      case ex: False
      show ?thesis
      proof (cases "ce_request ?e = request")
        case eq: True
        have "r = Some i" "c' = c" using True ex eq "1.prems"(2) by (subst (asm) core_cache_find.simps, simp add: expired_def)+
        then show ?thesis using True ex eq d by (auto simp: answers_request_def)
      next
        case ne: False
        have f: "core_cache_find now request c (Suc i) = (r, c')"
          using True ex ne "1.prems"(2) by (subst (asm) core_cache_find.simps) (auto simp: expired_def Let_def)
        have na: "\<not> answers_request now request ?e" using ne by (simp add: answers_request_def)
        have tk: "take (Suc i) (cc_entries c) = take i (cc_entries c) @ [?e]" using True by (simp add: take_Suc_conv_app_nth)
        show ?thesis
          using "1.IH"(2) [OF True refl _ _ _ f] True ex ne d na tk
          by (auto simp: expired_def split: option.splits)
      qed
    qed
  qed
qed

lemma to_head_perm:
  "i < length (cc_entries c) \<Longrightarrow> set (cc_entries (core_cache_to_head c i)) = set (cc_entries c) \<and>
     entry_total (cc_entries (core_cache_to_head c i)) = entry_total (cc_entries c) \<and>
     (distinct (map ce_request (cc_entries c)) \<longrightarrow> distinct (map ce_request (cc_entries (core_cache_to_head c i)))) \<and>
     hd (cc_entries (core_cache_to_head c i)) = cc_entries c ! i"
proof -
  assume i: "i < length (cc_entries c)"
  let ?a = "take i (cc_entries c)" and ?b = "drop (Suc i) (cc_entries c)" and ?e = "cc_entries c ! i"
  have es: "cc_entries c = ?a @ ?e # ?b" using i by (rule id_take_nth_drop)
  have hd: "cc_entries (core_cache_to_head c i) = ?e # ?a @ ?b" by (simp add: core_cache_to_head_def)
  have "set (?e # ?a @ ?b) = set (?a @ ?e # ?b)" "entry_total (?e # ?a @ ?b) = entry_total (?a @ ?e # ?b)"
      "distinct (map ce_request (?a @ ?e # ?b)) \<Longrightarrow> distinct (map ce_request (?e # ?a @ ?b))" by auto
  then show ?thesis unfolding hd by (metis es list.sel(1))
qed

lemma to_head_inv: "cache_inv ds t c \<Longrightarrow> i < length (cc_entries c) \<Longrightarrow> cache_inv ds t (core_cache_to_head c i)"
  using to_head_perm [of i c]
  by (simp add: cache_inv_def cache_sized_def next_known_def core_cache_to_head_def)

lemma get_inv:
  assumes "core_cache_get fuel heap now c request cp = Some (Ok (good, copied, r, c', heap'))" "cache_inv ds t c"
  shows "cache_inv ds t c' \<and> cc_max_size c' = cc_max_size c \<and> cc_ttl_msec c' = cc_ttl_msec c"
proof -
  obtain k c1 where f: "core_cache_find now request c 0 = (k, c1)" by (cases "core_cache_find now request c 0")
  note s = find_spec [OF _ f, of ds t, simplified]
  show ?thesis
  proof (cases k)
    case None
    then show ?thesis using assms f s by (simp add: core_cache_get_def)
  next
    case (Some i)
    have "c' = core_cache_to_head c1 i"
      using assms(1) f Some by (auto simp: core_cache_get_def Let_def then_do_Ok split: if_splits)
    then show ?thesis using s Some assms(2) to_head_inv [of ds t c1 i] by (simp add: core_cache_to_head_def)
  qed
qed

section \<open>Adding\<close>

lemma make_room_keeps:
  assumes "core_cache_make_room c need_size = Ok c'" "cache_inv ds t c"
  shows "cache_inv ds t c' \<and> cc_max_size c' = cc_max_size c \<and> cc_ttl_msec c' = cc_ttl_msec c \<and>
    (\<exists>k. cc_entries c' = take k (cc_entries c))"
  using assms
proof (induction c need_size arbitrary: c' rule: core_cache_make_room.induct)
  case (1 c need_size)
  show ?case
  proof (cases "cc_max_size c - cc_size c < need_size \<and> cc_entries c \<noteq> []")
    case False
    then have "c' = c" using "1.prems"(1)
      by (subst (asm) core_cache_make_room.simps) (auto simp: core_cache_remove_last_def split: if_splits)
    then show ?thesis using "1.prems"(2) by (auto intro!: exI [of _ "length (cc_entries c)"])
  next
    case True
    let ?c = "core_cache_entry_remove c (length (cc_entries c) - 1)"
    have es: "cc_entries ?c = take (length (cc_entries c) - 1) (cc_entries c)" using True by simp
    have "core_cache_make_room ?c need_size = Ok c'"
      using True "1.prems"(1) by (subst (asm) core_cache_make_room.simps) (simp add: remove_last_total)
    then show ?thesis
      using "1.IH" [OF _ remove_last_total _ remove_inv [OF "1.prems"(2)]] True by (auto simp: es take_take)
  qed
qed

lemma make_room_total:
  assumes "cache_inv ds t c" "need_size \<le> cc_max_size c" "set ds \<subseteq> {0}"
  shows "\<exists>k c'. core_cache_make_room c need_size = Ok c' \<and> cache_inv ds t c' \<and>
    cc_max_size c' = cc_max_size c \<and> cc_ttl_msec c' = cc_ttl_msec c \<and>
    cc_entries c' = take k (cc_entries c) \<and> entry_total (cc_entries c') + unat need_size \<le> unat (cc_max_size c)"
  using assms
proof (induction c need_size rule: core_cache_make_room.induct)
  case (1 c need_size)
  have tot: "entry_total (cc_entries c) \<le> unat (cc_max_size c)" "cc_size c = of_nat (entry_total (cc_entries c))"
    using "1.prems"(1,3) no_drift by (auto simp: cache_inv_def cache_sized_def)
  moreover have "unat (cc_max_size c) < 2 ^ 64" using unsigned_less [of "cc_max_size c", where ?'a = nat] by simp
  ultimately have sz: "unat (cc_size c) = entry_total (cc_entries c)" "cc_size c \<le> cc_max_size c"
    by (simp_all add: unsigned_of_nat take_bit_nat_eq_self word_le_nat_alt)
  have room: "unat (cc_max_size c - cc_size c) = unat (cc_max_size c) - entry_total (cc_entries c)"
    using sz by (simp add: unat_sub)
  show ?case
  proof (cases "cc_max_size c - cc_size c < need_size")
    case False
    then have "entry_total (cc_entries c) + unat need_size \<le> unat (cc_max_size c)"
      using room tot(1) by (simp add: word_less_nat_alt)
    then show ?thesis using False "1.prems" by (subst core_cache_make_room.simps) (auto intro!: exI [of _ "length (cc_entries c)"])
  next
    case True
    have ne: "cc_entries c \<noteq> []"
    proof
      assume "cc_entries c = []"
      then show False using True room "1.prems"(2) by (simp add: word_less_nat_alt word_le_nat_alt)
    qed
    let ?c = "core_cache_entry_remove c (length (cc_entries c) - 1)"
    have es: "cc_entries ?c = take (length (cc_entries c) - 1) (cc_entries c)" using ne by simp
    obtain k c' where i: "core_cache_make_room ?c need_size = Ok c'" "cache_inv ds t c'" "cc_max_size c' = cc_max_size c"
        "cc_ttl_msec c' = cc_ttl_msec c" "cc_entries c' = take k (cc_entries ?c)"
        "entry_total (cc_entries c') + unat need_size \<le> unat (cc_max_size c)"
      using "1.IH" [OF True remove_last_total [OF ne] remove_inv [OF "1.prems"(1)]] "1.prems"(2,3) ne by auto
    have "core_cache_make_room c need_size = Ok c'"
      using True i(1) by (subst core_cache_make_room.simps) (simp add: remove_last_total [OF ne])
    then show ?thesis using i unfolding es by (auto simp: take_take)
  qed
qed

lemma add_msec_nanoseconds:
  assumes "normal now" "in_int64 ttl" "ndm_time_add_msec now ttl = Ok v"
  shows "normal v \<and> nanoseconds v = nanoseconds now + ttl * 1000000"
proof -
  have d: "time_unit NDM_TIME_MSEC" by (simp add: time_unit_def)
  have u: "normal (ndm_time_from_unit NDM_TIME_MSEC ttl)"
      "nanoseconds (ndm_time_from_unit NDM_TIME_MSEC ttl) = ttl * 1000000"
    using normal_from_unit [OF d assms(2)] by (simp_all add: NDM_TIME_MSEC_def sdiv_pos)
  have "ndm_time_add now (ndm_time_from_unit NDM_TIME_MSEC ttl) = Ok v"
    using assms(3) by (simp add: ndm_time_add_msec_def ndm_time_add_unit_def ndm_time_from_unit_def)
  then show ?thesis using add_nanoseconds [OF assms(1) u(1)] add_overflow [OF assms(1) u(1)] u(2)
    by (cases "in_time (nanoseconds now + nanoseconds (ndm_time_from_unit NDM_TIME_MSEC ttl))") auto
qed

lemma next_after_add:
  assumes "cache_sized ds t c" "next_known c" "normal v" "nanoseconds v = nanoseconds t + cc_ttl_msec c * 1000000"
    "e \<in> set (cc_entries c)"
  shows "leq_time (cc_next_expiration_time c) v"
proof -
  have "normal (ce_expiration_time e)" "nanoseconds (ce_expiration_time e) \<le> nanoseconds v"
    using assms by (auto simp: cache_sized_def)
  then have "leq_time (ce_expiration_time e) v" using less_nanoseconds [OF assms(3)] by (simp add: leq_time_def)
  then show ?thesis using assms(2,5) leq_time_trans by (auto simp: next_known_def)
qed

text \<open>The entry counts as \<open>n\<close> bytes.\<close>

lemma insert_inv:
  assumes c: "cache_inv ds t c" and v: "normal v" "nanoseconds v = nanoseconds t + cc_ttl_msec c * 1000000"
    and e: "ce_expiration_time e = v" "ce_request e \<notin> ce_request ` set (cc_entries c)"
    and room: "set ((n - ce_size e) # ds) \<subseteq> {0} \<Longrightarrow> entry_total (cc_entries c) + unat n \<le> unat (cc_max_size c)"
  shows "cache_inv ((n - ce_size e) # ds) t (c\<lparr>cc_size := cc_size c + n,
    cc_next_expiration_time := (if cc_entries c = [] then v else cc_next_expiration_time c),
    cc_entries := e # cc_entries c\<rparr>)"
proof -
  have sized: "cache_sized ds t c" "next_known c" using c by (simp_all add: cache_inv_def)
  have "leq_time (if cc_entries c = [] then v else cc_next_expiration_time c) v"
    using next_after_add [OF sized v] by (cases "cc_entries c") auto
  moreover have "\<forall>x \<in> set (cc_entries c). leq_time (if cc_entries c = [] then v else cc_next_expiration_time c) (ce_expiration_time x)"
    using sized(2) by (auto simp: next_known_def)
  ultimately show ?thesis
    using sized(1) v e room by (auto simp: cache_inv_def cache_sized_def next_known_def simp del: fun_upd_apply)
qed

text \<open>
  The drift of one addition: none where nothing was added, else the size of the response less
  that of the copy at the head of the cache.
\<close>

definition add_drift :: "u8 list \<Rightarrow> ndm_core_response_t \<Rightarrow> ndm_core_cache_t \<Rightarrow> u64 list" where
  "add_drift request rsp c =
     (if request \<in> ce_request ` set (cc_entries c)
      then [core_response_size (Some rsp) - core_response_size (Some (ce_response (hd (cc_entries c))))] else [])"

lemma add_inv:
  assumes "core_cache_add fuel heap t c request rsp = Some (Ok (c', heap'))" "cache_inv ds t c"
    "normal t" "in_int64 (cc_ttl_msec c)" "request \<notin> ce_request ` set (cc_entries c)"
  shows "cache_inv (add_drift request rsp c' @ ds) t c' \<and> cc_max_size c' = cc_max_size c \<and> cc_ttl_msec c' = cc_ttl_msec c"
proof (cases "core_cache_entry_size (of_nat (length request)) rsp \<le> cc_max_size c")
  case False
  then show ?thesis using assms by (simp add: core_cache_add_def Let_def add_drift_def)
next
  case True
  let ?n = "core_cache_entry_size (of_nat (length request)) rsp"
  obtain c1 where c1: "core_cache_make_room c ?n = Ok c1"
    using assms(1) True by (auto simp: core_cache_add_def Let_def then_do_Ok)
  note k = make_room_keeps [OF c1 assms(2)]
  have fresh: "request \<notin> ce_request ` set (cc_entries c1)" using assms(5) k by (metis image_iff in_set_takeD)
  have fits: "entry_total (cc_entries c1) + unat ?n \<le> unat (cc_max_size c)" if "set ds \<subseteq> {0}"
    using make_room_total [OF assms(2) True that] c1 by auto
  have same: ?thesis if "c' = c1" using k fresh that by (simp add: add_drift_def)
  show ?thesis
  proof (cases "can_alloc heap")
    case False
    then have "c' = c1" using assms(1) True c1 by (simp add: core_cache_add_def Let_def)
    then show ?thesis by (rule same)
  next
    case alloc: True
    obtain copy h where cp: "core_response_copy fuel (heap_next heap) rsp = Some (Ok (copy, h))"
      using assms(1) True c1(1) alloc by (auto simp: core_cache_add_def Let_def then_do_Ok)
    note add = assms(1) [unfolded core_cache_add_def Let_def] True c1 alloc cp
    show ?thesis
    proof (cases copy)
      case None
      then have "c' = c1" using add by simp
      then show ?thesis by (rule same)
    next
      case (Some r)
      then obtain v where v: "ndm_time_add_msec t (cc_ttl_msec c1) = Ok v"
        using add by (auto simp: then_do_Ok)
      let ?e = "\<lparr>ce_response = r, ce_expiration_time = v, ce_request = request\<rparr>"
      have c': "c' = c1\<lparr>cc_size := cc_size c1 + ?n,
          cc_next_expiration_time := (if cc_entries c1 = [] then v else cc_next_expiration_time c1),
          cc_entries := ?e # cc_entries c1\<rparr>"
        using add Some v by simp
      have nv: "normal v" "nanoseconds v = nanoseconds t + cc_ttl_msec c1 * 1000000"
        using add_msec_nanoseconds [OF assms(3) _ v] assms(4) k by auto
      have d: "add_drift request rsp c' = [?n - ce_size ?e]"
        by (simp add: add_drift_def c' ce_size_def core_cache_entry_size_def)
      have "cache_inv ((?n - ce_size ?e) # ds) t c'"
        unfolding c' by (rule insert_inv [OF _ nv]) (use k fresh fits in auto)
      then show ?thesis using d k c' by simp
    qed
  qed
qed

section \<open>Histories\<close>

text \<open>
  The caches a program can have at the moment \<open>t\<close>: a response is added for a request that
  was not found, and the clock does not go back. \<open>ds\<close> collects the drifts of the additions.
\<close>

inductive cache_reach :: "int \<Rightarrow> u64 \<Rightarrow> u64 list \<Rightarrow> timespec \<Rightarrow> ndm_core_cache_t \<Rightarrow> bool" for ttl_msec max_size where
  cache_starts: "normal t \<Longrightarrow> cache_reach ttl_msec max_size [] t (core_cache_init ttl_msec max_size)"
| time_passes: "cache_reach ttl_msec max_size ds t c \<Longrightarrow> normal u \<Longrightarrow> nanoseconds t \<le> nanoseconds u \<Longrightarrow>
    cache_reach ttl_msec max_size ds u c"
| cache_asked: "cache_reach ttl_msec max_size ds t c \<Longrightarrow>
    core_cache_get fuel heap t c request copy_cached = Some (Ok (good, copied, r, c', heap')) \<Longrightarrow>
    cache_reach ttl_msec max_size ds t c'"
| cache_cleared: "cache_reach ttl_msec max_size ds t c \<Longrightarrow> ndm_core_cache_clear t c remove_all = Ok c' \<Longrightarrow>
    cache_reach ttl_msec max_size ds t c'"
| response_added: "cache_reach ttl_msec max_size ds t c \<Longrightarrow> request \<notin> ce_request ` set (cc_entries c) \<Longrightarrow>
    core_cache_add fuel heap t c request rsp = Some (Ok (c', heap')) \<Longrightarrow>
    cache_reach ttl_msec max_size (add_drift request rsp c' @ ds) t c'"

lemma expire_fields:
  "cc_max_size (core_cache_expire now c i) = cc_max_size c" "cc_ttl_msec (core_cache_expire now c i) = cc_ttl_msec c"
  by (induction now c i rule: core_cache_expire.induct; subst core_cache_expire.simps; simp add: Let_def)+

lemma clear_inv:
  assumes "ndm_core_cache_clear t c remove_all = Ok c'" "cache_inv ds t c"
  shows "cache_inv ds t c' \<and> cc_max_size c' = cc_max_size c \<and> cc_ttl_msec c' = cc_ttl_msec c"
proof (cases remove_all)
  case True
  then show ?thesis using clear_all_inv [of t c c'] assms
    by (simp add: cache_inv_def cache_sized_def next_known_def sum_sizes)
next
  case False
  then have "cc_max_size c' = cc_max_size c \<and> cc_ttl_msec c' = cc_ttl_msec c"
    using assms(1) by (auto simp: ndm_core_cache_clear_def expire_fields split: if_splits)
  then show ?thesis using clear_expired [of c t ds t] assms False by (auto simp: cache_inv_def)
qed

lemma reach_inv:
  assumes "cache_reach ttl_msec max_size ds t c" "in_int64 ttl_msec"
  shows "cache_inv ds t c \<and> normal t \<and> cc_ttl_msec c = ttl_msec \<and> cc_max_size c = max_size"
  using assms
proof (induction rule: cache_reach.induct)
  case (cache_starts t)
  then show ?case by (simp add: core_cache_init_def cache_inv_def cache_sized_def next_known_def)
next
  case (time_passes ds t c u)
  then show ?case by (fastforce simp: cache_inv_def cache_sized_def)
next
  case (cache_asked ds t c)
  then show ?case using get_inv by fastforce
next
  case (cache_cleared ds t c)
  then show ?case using clear_inv by fastforce
next
  case (response_added ds t c)
  then show ?case using add_inv by fastforce
qed

section \<open>A response to try\<close>

definition demo_heap :: heap where
  "demo_heap = \<lparr>answers = \<lambda>_. True, garbage = \<lambda>_. 0\<rparr>"

text \<open>An empty response whose document has \<open>n\<close> bytes in dynamic blocks.\<close>

definition demo_response :: "u64 \<Rightarrow> ndm_core_response_t" where
  "demo_response n =
     \<lparr>rsp_doc =
       \<lparr>doc_root = Some 0, doc_pool = (ndm_pool_init demo_heap [] 0 64)\<lparr>total_dynamic_size := n\<rparr>,
        doc_nodes =
          [0 \<mapsto> (blank_node NDM_XML_NODE_TYPE_DOCUMENT)\<lparr>nd_first_child := Some 1, nd_last_child := Some 1\<rparr>,
           1 \<mapsto> (blank_node NDM_XML_NODE_TYPE_ELEMENT)\<lparr>nd_name := XmlGiven (core_str ''response''), nd_name_size := 8,
             nd_parent := Some 0\<rparr>],
        doc_attrs = (\<lambda>_. None), doc_fresh = 2, doc_text = []\<rparr>,
      rsp_root = Some 1, rsp_id = 1\<rparr>"

definition demo_cache :: ndm_core_cache_t where
  "demo_cache = core_cache_init 5000 8192"

definition demo_time :: timespec where
  "demo_time = \<lparr>tv_sec = 3, tv_nsec = 0\<rparr>"

abbreviation demo_fuel :: nat where
  "demo_fuel \<equiv> Suc (Suc (Suc (Suc (Suc 0))))"

lemma align_demo: "NDM_POOL_ALIGN 1 = 8" "NDM_POOL_ALIGN 9 = 16" "NDM_POOL_ALIGN 104 = 104"
  by (simp_all add: NDM_POOL_ALIGN_def)

lemmas run_simps = ndm_pool_clear_def ndm_pool_init_def ndm_xml_document_alloc_def ndm_pool_malloc_def align_demo
  XML_NODE_SIZE_def ndm_pool_is_valid_def ndm_xml_node_set_name_def ndm_xml_node_set_value_def put_node_def
  given_or_empty_def copied_string_def ndm_xml_document_alloc_str_def xml_pool_string_def ndm_pool_strdup_def
  pool_write_def xml_string_def block_bytes_def current_block_def block_end_def mem_write_def cstring_in_def
  take_Cons' drop_Cons' xml_name_is_empty_def ndm_xml_document_is_valid_def ndm_xml_node_append_child_def can_link_def
  Let_def blank_node_def ndm_xml_document_alloc_node_def ndm_xml_document_init_def ndm_xml_document_clear_def
  ndm_xml_document_copy_def needing_def ndm_xml_node_first_attr_def ndm_xml_node_first_child_def
  ndm_xml_node_next_sibling_def xml_copy_attrs.simps xml_find_node.simps core_str_def of_char_def

lemma demo_document_copy:
  assumes "length b = 2048"
  shows "\<exists>d. ndm_xml_document_copy demo_fuel (ndm_xml_document_init h b 2048 4096) (rsp_doc (demo_response n)) = Some (Ok (True, d)) \<and>
    ndm_xml_document_root d = Some 0 \<and> ndm_xml_document_size d = 0 \<and>
    ndm_xml_node_first_child d 0 (Some (core_str ''response'')) = Some (Ok (Some 1))"
  using assms
  by (simp add: demo_response_def ndm_xml_document_root_def ndm_xml_document_size_def ndm_pool_total_dynamic_size_def run_simps)

lemma demo_copy:
  "\<exists>r h. core_response_copy demo_fuel (heap_next demo_heap) (demo_response n) = Some (Ok (Some r, h)) \<and>
     core_response_size (Some r) = 2136"
proof -
  obtain d where d: "ndm_xml_document_copy demo_fuel (rsp_doc (core_response_init (heap_next (heap_next demo_heap)))) (rsp_doc (demo_response n)) =
      Some (Ok (True, d))" "ndm_xml_document_root d = Some 0" "ndm_xml_document_size d = 0"
      "ndm_xml_node_first_child d 0 (Some (core_str ''response'')) = Some (Ok (Some 1))"
    using demo_document_copy [of "map (garbage (heap_next (heap_next demo_heap))) [0..<2048]" "heap_next (heap_next demo_heap)" n]
    unfolding core_response_init_def by auto
  have "can_alloc (heap_next demo_heap)" by (simp add: demo_heap_def heap_next_def can_alloc_def)
  then show ?thesis using d by (simp add: core_response_copy_def core_response_size_def CORE_RESPONSE_SIZE_def)
qed

lemma demo_size: "core_response_size (Some (demo_response n)) = 2136 + n"
  by (simp add: core_response_size_def CORE_RESPONSE_SIZE_def demo_response_def ndm_xml_document_size_def
      ndm_pool_total_dynamic_size_def ndm_pool_init_def)

lemma demo_normal: "normal demo_time"
  by (simp add: demo_time_def normal_def one_sign_def in_int64_def)

lemma demo_add:
  assumes "n \<le> 4096"
  shows "\<exists>c h r v. core_cache_add demo_fuel demo_heap demo_time demo_cache [1, 2] (demo_response n) = Some (Ok (c, h)) \<and>
    cc_entries c = [\<lparr>ce_response = r, ce_expiration_time = v, ce_request = [1, 2]\<rparr>] \<and>
    core_response_size (Some r) = 2136 \<and> v = \<lparr>tv_sec = 8, tv_nsec = 0\<rparr>"
proof -
  obtain r h where r: "core_response_copy demo_fuel (heap_next demo_heap) (demo_response n) = Some (Ok (Some r, h))"
      "core_response_size (Some r) = 2136" using demo_copy by blast
  have sz: "core_cache_entry_size 2 (demo_response n) = 2194 + n"
    using demo_size [of n] by (simp add: core_cache_entry_size_def CORE_CACHE_ENTRY_SIZE_def)
  have le: "2194 + n \<le> 8192" using assms by (simp add: word_le_nat_alt unat_word_ariths)
  have "ndm_time_add_msec demo_time 5000 = Ok \<lparr>tv_sec = 8, tv_nsec = 0\<rparr>" by code_simp
  moreover have "core_cache_make_room demo_cache (2194 + n) = Ok demo_cache"
    using le by (subst core_cache_make_room.simps) (simp add: demo_cache_def core_cache_init_def not_less [symmetric])
  moreover have "can_alloc demo_heap" by (simp add: can_alloc_def demo_heap_def)
  ultimately show ?thesis
    using r le sz by (simp add: core_cache_add_def demo_cache_def core_cache_init_def Let_def)
qed

lemma demo_reach:
  "\<exists>c r. cache_reach 5000 8192 [0] demo_time c \<and> cc_entries c = [\<lparr>ce_response = r, ce_expiration_time = \<lparr>tv_sec = 8, tv_nsec = 0\<rparr>, ce_request = [1, 2]\<rparr>]"
proof -
  have r: "cache_reach 5000 8192 [] demo_time demo_cache" unfolding demo_cache_def by (rule cache_starts [OF demo_normal])
  obtain c h r v where c: "core_cache_add demo_fuel demo_heap demo_time demo_cache [1, 2] (demo_response 0) = Some (Ok (c, h))"
      "cc_entries c = [\<lparr>ce_response = r, ce_expiration_time = v, ce_request = [1, 2]\<rparr>]"
      "core_response_size (Some r) = 2136" "v = \<lparr>tv_sec = 8, tv_nsec = 0\<rparr>"
    using demo_add [of 0] by auto
  have "[1, 2] \<notin> ce_request ` set (cc_entries demo_cache)" by (simp add: demo_cache_def core_cache_init_def)
  then have "cache_reach 5000 8192 (add_drift [1, 2] (demo_response 0) c @ []) demo_time c" by (rule response_added [OF r _ c(1)])
  then show ?thesis using c demo_size [of 0] by (auto simp: add_drift_def)
qed

section \<open>The promises\<close>



text \<open>
  C13: clearing without \<open>remove_all\<close>, which looks at the entries only when the moment
  of the next expiration has passed, removes exactly the entries that have expired, in every cache a
  program can reach.
\<close>

theorem core_cache_clear_exact:
  assumes "cache_reach ttl_msec max_size ds t c" "in_int64 ttl_msec"
  shows "\<exists>c'. ndm_core_cache_clear t c False = Ok c' \<and>
    cc_entries c' = filter (\<lambda>e. \<not> ndm_time_less (ce_expiration_time e) t) (cc_entries c)"
  using clear_expired [of c t ds t] reach_inv [OF assms] by (auto simp: cache_inv_def expired_def)

theorem core_cache_clear_exact_witness:
  "\<exists>c c'. cache_reach 5000 8192 [0] \<lparr>tv_sec = 9, tv_nsec = 0\<rparr> c \<and> cc_entries c \<noteq> [] \<and>
    ndm_core_cache_clear \<lparr>tv_sec = 9, tv_nsec = 0\<rparr> c False = Ok c' \<and> cc_entries c' = []"
proof -
  obtain c r where c: "cache_reach 5000 8192 [0] demo_time c"
      "cc_entries c = [\<lparr>ce_response = r, ce_expiration_time = \<lparr>tv_sec = 8, tv_nsec = 0\<rparr>, ce_request = [1, 2]\<rparr>]"
    using demo_reach by blast
  have "cache_reach 5000 8192 [0] \<lparr>tv_sec = 9, tv_nsec = 0\<rparr> c"
    by (rule time_passes [OF c(1)]) (simp_all add: normal_def one_sign_def nanoseconds_def demo_time_def in_int64_def)
  then show ?thesis using core_cache_clear_exact [of 5000 8192 "[0]" "\<lparr>tv_sec = 9, tv_nsec = 0\<rparr>" c] c(2)
    by (auto simp: in_int64_def ndm_time_less_def)
qed

text \<open>
  C14: asked without a copy of the response, the cache answers a request with the first
  entry that has its bytes and has
  not expired, and with nothing if there is none; it keeps all entries that have not expired, removes
  no other than expired ones, and the entry found is the head of the list.
\<close>

theorem core_cache_get_lookup:
  "\<exists>c'. core_cache_get fuel heap t c request False =
     Some (Ok (True, False, map_option ce_response (List.find (answers_request t request) (cc_entries c)), c', heap)) \<and>
    set (cc_entries c') \<subseteq> set (cc_entries c) \<and>
    {e \<in> set (cc_entries c). \<not> ndm_time_less (ce_expiration_time e) t} \<subseteq> set (cc_entries c') \<and>
    (case List.find (answers_request t request) (cc_entries c) of None \<Rightarrow> True | Some e \<Rightarrow> hd (cc_entries c') = e)"
proof -
  obtain k c1 where f: "core_cache_find t request c 0 = (k, c1)" by (cases "core_cache_find t request c 0")
  note s = find_spec [OF _ f, simplified]
  show ?thesis
  proof (cases k)
    case None
    then show ?thesis using f s by (auto simp: core_cache_get_def expired_def)
  next
    case (Some i)
    have i: "i < length (cc_entries c1)" using s Some by simp
    have h: "cc_entries (core_cache_to_head c1 i) = cc_entries c1 ! i # take i (cc_entries c1) @ drop (Suc i) (cc_entries c1)"
      by (simp add: core_cache_to_head_def)
    show ?thesis using f s Some to_head_perm [OF i] by (auto simp: core_cache_get_def Let_def expired_def h)
  qed
qed

lemma make_room_nothing:
  "cc_entries c = [] \<Longrightarrow> cc_max_size c - cc_size c < need_size \<Longrightarrow> core_cache_make_room c need_size = Undefined"
  by (subst core_cache_make_room.simps) (simp add: core_cache_remove_last_def)

lemma add_to_empty:
  assumes "core_cache_add fuel heap t c request rsp = Some (Ok (c1, heap1))" "cc_entries c = []" "cc_entries c1 = [e]"
  shows "cc_size c1 = cc_size c + core_cache_entry_size (of_nat (length request)) rsp \<and> ce_request e = request \<and>
    cc_max_size c1 = cc_max_size c"
  using assms
  by (auto simp: core_cache_add_def Let_def then_do_Ok core_cache_make_room.simps [of c] core_cache_remove_last_def
      split: if_splits option.splits)

text \<open>
  C38: adding counts the size of the response, removing counts that of its copy:
  after a response is added and the cache is cleared the size is off by the difference of the two,
  and where it has grown that way, making room in the cache without entries is an access to an
  entry that does not exist.
\<close>

theorem core_cache_size_drift:
  assumes "core_cache_add fuel heap t c request rsp = Some (Ok (c1, heap1))" "cc_entries c = []"
    "cc_entries c1 = [e]" "ndm_core_cache_clear t c1 True = Ok c2"
  shows "cc_size c2 = cc_size c + core_response_size (Some rsp) - core_response_size (Some (ce_response e)) \<and>
    (cc_max_size c2 - cc_size c2 < need_size \<longrightarrow> core_cache_make_room c2 need_size = Undefined)"
proof -
  note c2 = clear_all_inv [OF assms(4)]
  have "cc_size c2 = cc_size c1 - ce_size e" using c2 assms(3) by simp
  then show ?thesis using add_to_empty [OF assms(1-3)] make_room_nothing [of c2] c2
    by (simp add: ce_size_def core_cache_entry_size_def)
qed

theorem core_cache_size_drift_witness:
  "\<exists>c1 h1 c2. core_cache_add demo_fuel demo_heap demo_time demo_cache [1, 2] (demo_response 4096) = Some (Ok (c1, h1)) \<and>
    ndm_core_cache_clear demo_time c1 True = Ok c2 \<and> cc_entries c2 = [] \<and> cc_size c2 = 4096 \<and>
    core_cache_make_room c2 5000 = Undefined"
proof -
  obtain c1 h1 r where a: "core_cache_add demo_fuel demo_heap demo_time demo_cache [1, 2] (demo_response 4096) = Some (Ok (c1, h1))"
      "cc_entries c1 = [\<lparr>ce_response = r, ce_expiration_time = \<lparr>tv_sec = 8, tv_nsec = 0\<rparr>, ce_request = [1, 2]\<rparr>]"
      "core_response_size (Some r) = 2136"
    using demo_add [of 4096] by auto
  obtain c2 where c2: "ndm_core_cache_clear demo_time c1 True = Ok c2"
    using remove_all_total [of c1] by (auto simp: ndm_core_cache_clear_def)
  have e: "cc_entries demo_cache = []" "cc_size demo_cache = 0" "cc_max_size demo_cache = 8192"
    by (simp_all add: demo_cache_def core_cache_init_def)
  have m: "cc_max_size c2 = 8192" "cc_entries c2 = []"
    using clear_all_inv [OF c2] add_to_empty [OF a(1) e(1) a(2)] e(3) by simp_all
  note drift = core_cache_size_drift [OF a(1) e(1) a(2) c2, of 5000]
  then have "cc_size c2 = 4096" using demo_size [of 4096] a(3) e(2) by simp
  then show ?thesis using drift a(1) c2 m by auto
qed

end
