(* ===== verification/Core_Event.thy ===== *)
theory Core_Event
  imports Core_Response Ndm_Time
begin

text \<open>
  Events of the core (\<^verbatim>\<open>src/core.c\<close>): reading the next one of a connection, with its
  class and the time it was raised.
\<close>

record ndm_core_event_t =
  ev_doc :: ndm_xml_document_t
  ev_root :: nat
  ev_type :: xml_str
  ev_raise_time :: timespec

text \<open>A connection that \<open>socket\<close> and \<open>connect\<close> have made, or \<open>None\<close>.\<close>

definition ndm_core_event_connection_open :: "heap \<Rightarrow> core_conn option \<Rightarrow> core_conn option \<times> heap" where
  "ndm_core_event_connection_open heap conn =
     (if \<not> can_alloc heap then (None, heap_next heap)
      else (map_option (\<lambda>c. c\<lparr>conn_buffer := core_buffer_init (map (garbage heap) [0..<4096])\<rparr>) conn, heap_next heap))"

definition ndm_core_event_connection_has_events :: "core_conn \<Rightarrow> bool" where
  "ndm_core_event_connection_has_events conn \<longleftrightarrow> \<not> core_buffer_is_empty (conn_buffer conn)"

section \<open>The time of an event\<close>

text \<open>
  \<open>sscanf\<close> with \<open>%ld%c\<close> and \<open>%ld.%ld%c\<close>; a number out of range is clamped, as \<open>strtol\<close>
  does it. The result is the seconds and the milliseconds.
\<close>

definition scan_ld :: "cstring \<Rightarrow> int option" where
  "scan_ld s = (case strtoll s of (v, e, overflow) \<Rightarrow> if e = 0 \<or> e < length s then None else Some v)"

definition scan_ld_dot_ld :: "cstring \<Rightarrow> (int \<times> int) option" where
  "scan_ld_dot_ld s =
     (case strtoll s of (v, e, overflow) \<Rightarrow>
        if e = 0 \<or> e = length s \<or> s ! e \<noteq> 46 then None
        else map_option (Pair v) (scan_ld (drop (Suc e) s)))"

definition core_raise_time_scan :: "cstring \<Rightarrow> (int \<times> int) option" where
  "core_raise_time_scan s =
     (if 46 \<notin> set s \<and> scan_ld s \<noteq> None then Some (the (scan_ld s), 0) else scan_ld_dot_ld s)"

text \<open>The milliseconds are multiplied by \<open>NDM_TIME_MSEC\<close> as a \<open>long\<close>.\<close>

definition core_raise_time :: "cstring \<Rightarrow> timespec option result" where
  "core_raise_time s =
     (case core_raise_time_scan s of
        None \<Rightarrow> Ok None
      | Some (seconds, milliseconds) \<Rightarrow>
          bind_result (int64 (milliseconds * NDM_TIME_MSEC)) (\<lambda>nsec.
          Ok (Some \<lparr>tv_sec = seconds, tv_nsec = nsec\<rparr>)))"

section \<open>Reading an event\<close>

text \<open>The attribute with a text that is not empty.\<close>

definition core_event_attr :: "ndm_xml_document_t \<Rightarrow> nat \<Rightarrow> cstring \<Rightarrow> (xml_str \<times> cstring) option result option" where
  "core_event_attr d n name =
     then_do (ndm_xml_node_first_attr d n (Some name)) (\<lambda>a.
     case a of
       None \<Rightarrow> Some (Ok None)
     | Some a \<Rightarrow>
         then_do (Some (ndm_xml_attr_value d a)) (\<lambda>s.
         then_do (Some (need (xml_string d s) Ok)) (\<lambda>v.
         Some (Ok (if v = [] then None else Some (s, v))))))"

definition core_event_of_document :: "ndm_xml_document_t \<Rightarrow> nat \<Rightarrow> ndm_core_event_t option result option" where
  "core_event_of_document d root =
     then_do (ndm_xml_node_first_child d root (Some (core_str ''event''))) (\<lambda>event.
     case event of
       None \<Rightarrow> Some (Ok None)
     | Some n \<Rightarrow>
         then_do (core_event_attr d n (core_str ''class'')) (\<lambda>class.
         case class of
           None \<Rightarrow> Some (Ok None)
         | Some (type, _) \<Rightarrow>
             then_do (core_event_attr d n (core_str ''raise_time'')) (\<lambda>raise_time.
             case raise_time of
               None \<Rightarrow> Some (Ok None)
             | Some (_, s) \<Rightarrow>
                 then_do (Some (core_raise_time s)) (\<lambda>t.
                 Some (Ok (map_option (\<lambda>time. \<lparr>ev_doc = d, ev_root = n, ev_type = type, ev_raise_time = time\<rparr>) t))))))"

text \<open>The event, or \<open>errno\<close>, the connection and the allocator; \<open>None\<close> is a call that still waits.\<close>

definition ndm_core_event_connection_get ::
  "host \<Rightarrow> heap \<Rightarrow> core_conn \<Rightarrow> (ndm_core_event_t option \<times> errno option \<times> core_conn \<times> heap) result option" where
  "ndm_core_event_connection_get h heap conn =
     (let heap' = heap_next heap in
      if \<not> can_alloc heap then Some (Ok (None, Some ENOMEM, conn, heap'))
      else
        then_do (Some (ndm_xml_document_alloc_root
          (ndm_xml_document_init heap' (map (garbage heap) [0..<1024]) 1024 1024))) (\<lambda>(root, d).
        case root of
          None \<Rightarrow> Some (Ok (None, Some ENOMEM, conn, heap'))
        | Some r \<Rightarrow>
            (case core_read_xml_children h conn d r root None True of
               IoUndefined \<Rightarrow> Some Undefined
             | IoWaiting \<Rightarrow> None
             | IoFailed e conn \<Rightarrow> Some (Ok (None, Some e, conn, heap'))
             | IoDone d conn \<Rightarrow>
                 then_do (Some (need (ndm_xml_document_root d) Ok)) (\<lambda>r.
                 then_do (core_event_of_document d r) (\<lambda>event.
                 case event of
                   None \<Rightarrow> Some (Ok (None, Some EBADMSG, conn, pool_sys (doc_pool (ndm_xml_document_clear d))))
                 | Some e \<Rightarrow> Some (Ok (event, None, conn, pool_sys (doc_pool d))))))))"

definition ndm_core_event_root :: "ndm_core_event_t \<Rightarrow> nat" where
  "ndm_core_event_root event = ev_root event"

definition ndm_core_event_type :: "ndm_core_event_t \<Rightarrow> cstring option" where
  "ndm_core_event_type event = xml_string (ev_doc event) (ev_type event)"

definition ndm_core_event_raise_time :: "ndm_core_event_t \<Rightarrow> timespec" where
  "ndm_core_event_raise_time event = ev_raise_time event"

section \<open>Milliseconds\<close>

text \<open>A time as the core prints it.\<close>

definition print_raise_time :: "int \<Rightarrow> nat \<Rightarrow> cstring" where
  "print_raise_time seconds milliseconds = print_int seconds @ 46 # print_nat milliseconds"

lemma strtoll_print_nat:
  "n < 2 ^ 63 \<Longrightarrow> strtoll (print_nat n) = (int n, length (print_nat n), False)"
  using strtoll_print [of "int n" "[]"] by (simp add: print_int_def)

lemma core_raise_time_print:
  assumes "- (2 ^ 63) \<le> s" "s < 2 ^ 63" "ms < 2 ^ 63"
  shows "core_raise_time_scan (print_raise_time s ms) = Some (s, int ms)"
proof -
  have d: "\<not> is_digit (hd (46 # print_nat ms))" by (simp add: is_digit_def)
  have "print_nat ms \<noteq> []" using print_nat_digits by blast
  then have "scan_ld_dot_ld (print_raise_time s ms) = Some (s, int ms)"
    using strtoll_print [OF assms(1,2) disjI2 [OF d]] strtoll_print_nat [OF assms(3)] print_int_def [of s] print_nat_digits
    by (auto simp: scan_ld_dot_ld_def scan_ld_def print_raise_time_def nth_append)
  then show ?thesis by (simp add: core_raise_time_scan_def print_raise_time_def)
qed

text \<open>
  C39: the fraction of a time "seconds.milliseconds" is
  multiplied by 1000 where nanoseconds need 1000000: the moment kept for an event is
  always within a microsecond per millisecond of the full second, not at the moment that was sent.
\<close>

theorem core_event_raise_time_scale:
  assumes "- (2 ^ 63) \<le> s" "s < 2 ^ 63" "ms < 1000"
  shows "core_raise_time (print_raise_time s ms) = Ok (Some \<lparr>tv_sec = s, tv_nsec = 1000 * int ms\<rparr>)"
  using core_raise_time_print [of s ms] assms
  by (simp add: core_raise_time_def int64_def in_int64_def NDM_TIME_MSEC_def)

theorem core_event_raise_time_scale_witness:
  "core_raise_time (print_raise_time 7 500) = Ok (Some \<lparr>tv_sec = 7, tv_nsec = 500000\<rparr>) \<and>
   \<lparr>tv_sec = 7, tv_nsec = 500000\<rparr> \<noteq> \<lparr>tv_sec = 7, tv_nsec = 500000000\<rparr>"
  using core_event_raise_time_scale [of 7 500] by simp

end
