(* ===== verification/Core_Store.thy ===== *)
theory Core_Store
  imports Core_Read
begin

text \<open>
  Writing a document in the binary form of the core (\<^verbatim>\<open>src/core.c\<close>): the same functions
  count the bytes and write them. The operands of a sum are evaluated from the left, which
  C leaves open and the code relies on.
\<close>

section \<open>Counting and storing\<close>

text \<open>
  The cursor \<open>uint8_t **p\<close>: \<open>NULL\<close>, a place in the buffer, or a cursor set to \<open>NULL\<close>
  because the buffer was too small.
\<close>

datatype core_store_to = CountOnly | StoreAt "u8 list" nat | StoreFailed "u8 list"

fun core_store_bytes :: "core_store_to \<Rightarrow> nat \<Rightarrow> u8 list option \<Rightarrow> (nat \<times> core_store_to) result" where
  "core_store_bytes CountOnly n bs = Ok (n, CountOnly)"
| "core_store_bytes (StoreFailed buf) n bs = Ok (0, StoreFailed buf)"
| "core_store_bytes (StoreAt buf p) n bs =
     (if length buf - p < n then Ok (0, StoreFailed buf)
      else need bs (\<lambda>bs. need (mem_write buf p bs) (\<lambda>buf. Ok (n, StoreAt buf (p + n)))))"

definition core_ctrl_code :: "ndm_core_ctrl_t \<Rightarrow> u8" where
  "core_ctrl_code ctrl =
     (case ctrl of NDM_CORE_CTRL_NODE \<Rightarrow> 0 | NDM_CORE_CTRL_ATTR \<Rightarrow> 1 | NDM_CORE_CTRL_SIBL \<Rightarrow> 2
      | NDM_CORE_CTRL_END \<Rightarrow> 3)"

definition core_type_code :: "ndm_xml_node_type_t \<Rightarrow> u8" where
  "core_type_code type =
     (case type of NDM_XML_NODE_TYPE_DOCUMENT \<Rightarrow> 0 | NDM_XML_NODE_TYPE_ELEMENT \<Rightarrow> 1 | NDM_XML_NODE_TYPE_DATA \<Rightarrow> 2
      | NDM_XML_NODE_TYPE_CDATA \<Rightarrow> 3 | NDM_XML_NODE_TYPE_COMMENT \<Rightarrow> 4 | NDM_XML_NODE_TYPE_DECLARATION \<Rightarrow> 5
      | NDM_XML_NODE_TYPE_DOCTYPE \<Rightarrow> 6 | NDM_XML_NODE_TYPE_PI \<Rightarrow> 7)"

definition core_request_store_ctrl ::
  "core_store_to \<Rightarrow> ndm_core_ctrl_t \<Rightarrow> u8 \<Rightarrow> (nat \<times> core_store_to) result" where
  "core_request_store_ctrl p ctrl node_type =
     core_store_bytes p 1 (Some [push_bit 6 (core_ctrl_code ctrl) OR node_type])"

text \<open>The \<open>n\<close> bytes at a string pointer.\<close>

definition core_str_bytes :: "ndm_xml_document_t \<Rightarrow> xml_str \<Rightarrow> nat \<Rightarrow> u8 list option" where
  "core_str_bytes d s n =
     (case s of
        XmlGiven c \<Rightarrow> mem_read (c @ [0]) 0 n
      | XmlText off \<Rightarrow> mem_read (doc_text d) off n
      | XmlPool q \<Rightarrow> pool_read (doc_pool d) q n)"

definition core_request_store_str ::
  "host \<Rightarrow> ndm_xml_document_t \<Rightarrow> core_store_to \<Rightarrow> xml_str \<Rightarrow> nat \<Rightarrow> (nat \<times> core_store_to) result" where
  "core_request_store_str h d p str str_size =
     core_store_bytes p (4 + str_size)
       (map_option (\<lambda>bs. mem_bytes h 4 (ndm_endian_htobe32 h (of_nat str_size)) @ bs) (core_str_bytes d str str_size))"

definition core_request_store_base ::
  "host \<Rightarrow> ndm_xml_document_t \<Rightarrow> core_store_to \<Rightarrow> ndm_core_ctrl_t \<Rightarrow> u8 \<Rightarrow> xml_str \<Rightarrow> nat \<Rightarrow> xml_str \<Rightarrow> nat \<Rightarrow>
   (nat \<times> core_store_to) result" where
  "core_request_store_base h d p ctrl node_type name name_size val value_size =
     bind_result (core_request_store_ctrl p ctrl node_type) (\<lambda>(n0, p).
     bind_result (core_request_store_str h d p name name_size) (\<lambda>(n1, p).
     bind_result (core_request_store_str h d p val value_size) (\<lambda>(n2, p).
     Ok (n0 + n1 + n2, p))))"

text \<open>The loop over the attributes.\<close>

partial_function (option) core_store_attrs ::
  "host \<Rightarrow> ndm_xml_document_t \<Rightarrow> nat option \<Rightarrow> core_store_to \<Rightarrow> nat \<Rightarrow> (nat \<times> core_store_to) result option" where
  "core_store_attrs h d attr p sz =
     (case attr of
        None \<Rightarrow> Some (Ok (sz, p))
      | Some a \<Rightarrow>
          (case doc_attrs d a of
             None \<Rightarrow> Some Undefined
           | Some r \<Rightarrow>
               (case core_request_store_base h d p NDM_CORE_CTRL_ATTR 0 (at_name r) (at_name_size r) (at_value r) (at_value_size r) of
                  Error e \<Rightarrow> Some (Error e)
                | Undefined \<Rightarrow> Some Undefined
                | Ok (n, p) \<Rightarrow>
                    (case ndm_xml_attr_next d a None of
                       Some (Ok attr) \<Rightarrow> core_store_attrs h d attr p (sz + n)
                     | Some (Error e) \<Rightarrow> Some (Error e)
                     | Some Undefined \<Rightarrow> Some Undefined
                     | None \<Rightarrow> None))))"

fun core_request_store_node ::
  "nat \<Rightarrow> host \<Rightarrow> ndm_xml_document_t \<Rightarrow> nat \<Rightarrow> ndm_core_ctrl_t \<Rightarrow> core_store_to \<Rightarrow> nat \<Rightarrow>
   (nat \<times> core_store_to) result option"
and core_store_children ::
  "nat \<Rightarrow> host \<Rightarrow> ndm_xml_document_t \<Rightarrow> nat option \<Rightarrow> nat option \<Rightarrow> core_store_to \<Rightarrow> nat \<Rightarrow> nat \<Rightarrow>
   (nat \<times> core_store_to) result option" where
  "core_request_store_node 0 h d n node_ctrl p level = None"
| "core_request_store_node (Suc fuel) h d n node_ctrl p level =
     needing (doc_nodes d n) (\<lambda>r.
     then_do (Some (core_request_store_base h d p node_ctrl (core_type_code (nd_type r))
       (nd_name r) (nd_name_size r) (nd_value r) (nd_value_size r))) (\<lambda>(sz, p).
     then_do (ndm_xml_node_first_attr d n None) (\<lambda>attr.
     then_do (ndm_xml_node_first_child d n None) (\<lambda>first_child.
     then_do (core_store_attrs h d attr p sz) (\<lambda>(sz, p).
     then_do (core_store_children fuel h d first_child first_child p sz level) (\<lambda>(sz, p).
     if first_child \<noteq> None \<or> level = 0 then
       then_do (Some (core_request_store_ctrl p NDM_CORE_CTRL_END 0)) (\<lambda>(n, p). Some (Ok (sz + n, p)))
     else Some (Ok (sz, p))))))))"
| "core_store_children 0 h d child first_child p sz level = None"
| "core_store_children (Suc fuel) h d child first_child p sz level =
     (case child of
        None \<Rightarrow> Some (Ok (sz, p))
      | Some c \<Rightarrow>
          then_do (core_request_store_node fuel h d c
            (if child = first_child then NDM_CORE_CTRL_NODE else NDM_CORE_CTRL_SIBL) p (level + 1)) (\<lambda>(n, p).
          then_do (ndm_xml_node_next_sibling d c None) (\<lambda>child.
          core_store_children fuel h d child first_child p (sz + n) level)))"

text \<open>Returned are the size and the buffer, if there is one.\<close>

definition core_request_store ::
  "nat \<Rightarrow> host \<Rightarrow> ndm_xml_document_t \<Rightarrow> nat option \<Rightarrow> u8 list option \<Rightarrow> (nat \<times> u8 list option) result option" where
  "core_request_store fuel h d root buffer =
     (case root of
        None \<Rightarrow> Some (Ok (0, buffer))
      | Some n \<Rightarrow>
          then_do (core_request_store_node fuel h d n NDM_CORE_CTRL_NODE
            (case buffer of None \<Rightarrow> CountOnly | Some buf \<Rightarrow> StoreAt buf 0) 0) (\<lambda>(sz, p).
          Some (Ok (case p of
              CountOnly \<Rightarrow> (sz, None)
            | StoreAt buf q \<Rightarrow> (sz, Some buf)
            | StoreFailed buf \<Rightarrow> (0, Some buf)))))"

section \<open>The encoding of a tree\<close>

datatype xtree = XTree ndm_xml_node_type_t cstring cstring "(cstring \<times> cstring) list" "xtree list"

definition enc_ctrl :: "ndm_core_ctrl_t \<Rightarrow> u8 \<Rightarrow> u8 list" where
  "enc_ctrl ctrl type = [push_bit 6 (core_ctrl_code ctrl) OR type]"

definition enc_str :: "cstring \<Rightarrow> u8 list" where
  "enc_str c = be_bytes 4 (of_nat (length c) :: u32) @ c"

definition enc_attrs :: "(cstring \<times> cstring) list \<Rightarrow> u8 list" where
  "enc_attrs attrs = concat (map (\<lambda>(name, val). enc_ctrl NDM_CORE_CTRL_ATTR 0 @ enc_str name @ enc_str val) attrs)"

fun enc_tree :: "ndm_core_ctrl_t \<Rightarrow> bool \<Rightarrow> xtree \<Rightarrow> u8 list"
and enc_trees :: "ndm_core_ctrl_t \<Rightarrow> xtree list \<Rightarrow> u8 list" where
  "enc_tree ctrl outer (XTree type name val attrs kids) =
     enc_ctrl ctrl (core_type_code type) @ enc_str name @ enc_str val @ enc_attrs attrs @
     enc_trees NDM_CORE_CTRL_NODE kids @ (if kids \<noteq> [] \<or> outer then enc_ctrl NDM_CORE_CTRL_END 0 else [])"
| "enc_trees ctrl [] = []"
| "enc_trees ctrl (t # ts) = enc_tree ctrl False t @ enc_trees NDM_CORE_CTRL_SIBL ts"

text \<open>The tree a node of a document is the root of.\<close>

definition str_at :: "ndm_xml_document_t \<Rightarrow> xml_str \<Rightarrow> nat \<Rightarrow> cstring \<Rightarrow> bool" where
  "str_at d s n c \<longleftrightarrow> xml_string d s = Some c \<and> n = length c"

fun attrs_at :: "ndm_xml_document_t \<Rightarrow> nat option \<Rightarrow> (cstring \<times> cstring) list \<Rightarrow> bool" where
  "attrs_at d attr [] \<longleftrightarrow> attr = None"
| "attrs_at d attr ((name, val) # attrs) \<longleftrightarrow>
     (\<exists>a r. attr = Some a \<and> doc_attrs d a = Some r \<and> at_node r \<noteq> None \<and> str_at d (at_name r) (at_name_size r) name \<and>
       str_at d (at_value r) (at_value_size r) val \<and> attrs_at d (at_next r) attrs)"

fun tree_at :: "ndm_xml_document_t \<Rightarrow> nat \<Rightarrow> xtree \<Rightarrow> bool"
and trees_at :: "ndm_xml_document_t \<Rightarrow> nat \<Rightarrow> nat option \<Rightarrow> xtree list \<Rightarrow> bool" where
  "tree_at d n (XTree type name val attrs kids) \<longleftrightarrow>
     (\<exists>r. doc_nodes d n = Some r \<and> nd_type r = type \<and> str_at d (nd_name r) (nd_name_size r) name \<and>
       str_at d (nd_value r) (nd_value_size r) val \<and> attrs_at d (nd_first_attr r) attrs \<and>
       trees_at d n (nd_first_child r) kids)"
| "trees_at d p child [] \<longleftrightarrow> child = None"
| "trees_at d p child (t # ts) \<longleftrightarrow>
     (\<exists>c r. child = Some c \<and> doc_nodes d c = Some r \<and> nd_parent r = Some p \<and> tree_at d c t \<and>
       trees_at d p (nd_next_sibling r) ts)"

fun tree_fuel :: "xtree \<Rightarrow> nat" and trees_fuel :: "xtree list \<Rightarrow> nat" where
  "tree_fuel (XTree type name val attrs kids) = Suc (trees_fuel kids)"
| "trees_fuel [] = 1"
| "trees_fuel (t # ts) = Suc (max (tree_fuel t) (trees_fuel ts))"

section \<open>Counting and storing agree with the encoding\<close>

text \<open>What a function that puts out the bytes \<open>bs\<close> makes of a cursor.\<close>

fun emits :: "core_store_to \<Rightarrow> u8 list \<Rightarrow> nat \<times> core_store_to \<Rightarrow> bool" where
  "emits CountOnly bs (n, p) \<longleftrightarrow> n = length bs \<and> p = CountOnly"
| "emits (StoreFailed buf) bs (n, p) \<longleftrightarrow> p = StoreFailed buf"
| "emits (StoreAt buf q) bs (n, p) \<longleftrightarrow>
     (if q + length bs \<le> length buf
      then n = length bs \<and> p = StoreAt (take q buf @ bs @ drop (q + length bs) buf) (q + length bs)
      else \<exists>buf'. p = StoreFailed buf' \<and> length buf' = length buf)"

fun cursor_ok :: "core_store_to \<Rightarrow> bool" where
  "cursor_ok (StoreAt buf q) \<longleftrightarrow> q \<le> length buf"
| "cursor_ok _ \<longleftrightarrow> True"

lemma emits_cursor: "emits p bs (n, p') \<Longrightarrow> cursor_ok p'"
  by (cases p) (auto split: if_splits)

lemma emits_append:
  assumes "emits p xs (n, p')" "emits p' ys (m, p'')"
  shows "emits p (xs @ ys) (n + m, p'')"
  using assms
proof (cases p)
  case (StoreAt buf q)
  then show ?thesis
  proof (cases "q + length xs \<le> length buf")
    case fits: True
    have p': "n = length xs" "p' = StoreAt (take q buf @ xs @ drop (q + length xs) buf) (q + length xs)"
      using assms(1) StoreAt fits by auto
    show ?thesis using assms(2) fits unfolding p' StoreAt by (auto simp: ac_simps split: if_splits)
  next
    case False
    then show ?thesis using assms StoreAt by auto
  qed
qed auto

lemma emits_Nil: "cursor_ok p \<Longrightarrow> emits p [] (0, p)"
  by (cases p) auto

lemma core_store_bytes_emits:
  "cursor_ok p \<Longrightarrow> n = length bs \<Longrightarrow> \<exists>r. core_store_bytes p n (Some bs) = Ok r \<and> emits p bs r"
  by (cases p) (auto simp: mem_write_def)

lemma str_at_bytes:
  assumes "str_at d s n c"
  shows "core_str_bytes d s n = Some c"
proof -
  have scan: "mem_read blk off (length (takeWhile (\<lambda>c. c \<noteq> 0) (drop off blk))) = Some (takeWhile (\<lambda>c. c \<noteq> 0) (drop off blk))"
    if "0 \<in> set (drop off blk)" for blk :: "u8 list" and off
  proof -
    have "off \<le> length blk" using that by (cases "off \<le> length blk") auto
    moreover
    have "length (takeWhile (\<lambda>c. c \<noteq> 0) (drop off blk)) \<le> length blk - off"
      using length_takeWhile_le [of "\<lambda>c. c \<noteq> 0" "drop off blk"] by simp
    ultimately show ?thesis by (simp add: mem_read_def takeWhile_eq_take [symmetric])
  qed
  have "mem_read (c @ [0]) 0 (length c) = Some c" by (simp add: mem_read_def)
  then show ?thesis using assms scan
    by (cases s) (auto simp: str_at_def xml_string_def core_str_bytes_def cstring_in_def pool_read_def split: if_splits)
qed

lemma store_ctrl_emits:
  "cursor_ok p \<Longrightarrow> \<exists>r. core_request_store_ctrl p ctrl type = Ok r \<and> emits p (enc_ctrl ctrl type) r"
  unfolding core_request_store_ctrl_def enc_ctrl_def by (rule core_store_bytes_emits) simp_all

lemma store_str_emits:
  assumes "cursor_ok p" "str_at d s n c"
  shows "\<exists>r. core_request_store_str h d p s n = Ok r \<and> emits p (enc_str c) r"
proof -
  have n: "n = length c" using assms(2) by (simp add: str_at_def)
  show ?thesis using core_store_bytes_emits [OF assms(1), of "4 + n" "enc_str c"]
    by (simp add: core_request_store_str_def str_at_bytes [OF assms(2), unfolded n] enc_str_def be32.store n)
qed

lemma store_base_emits:
  assumes "cursor_ok p" "str_at d s n c" "str_at d v m w"
  shows "\<exists>r. core_request_store_base h d p ctrl type s n v m = Ok r \<and> emits p (enc_ctrl ctrl type @ enc_str c @ enc_str w) r"
proof -
  obtain n0 p0 where 0: "core_request_store_ctrl p ctrl type = Ok (n0, p0)" "emits p (enc_ctrl ctrl type) (n0, p0)"
    using store_ctrl_emits [OF assms(1)] by fastforce
  obtain n1 p1 where 1: "core_request_store_str h d p0 s n = Ok (n1, p1)" "emits p0 (enc_str c) (n1, p1)"
    using store_str_emits [OF emits_cursor [OF 0(2)] assms(2)] by fastforce
  obtain n2 p2 where 2: "core_request_store_str h d p1 v m = Ok (n2, p2)" "emits p1 (enc_str w) (n2, p2)"
    using store_str_emits [OF emits_cursor [OF 1(2)] assms(3)] by fastforce
  show ?thesis using 0(1) 1(1) 2(1) emits_append [OF 0(2) emits_append [OF 1(2) 2(2)]]
    by (simp add: core_request_store_base_def add.assoc)
qed

lemma store_attrs_emits:
  assumes "cursor_ok p" "attrs_at d attr attrs"
  shows "\<exists>n p'. core_store_attrs h d attr p sz = Some (Ok (sz + n, p')) \<and> emits p (enc_attrs attrs) (n, p')"
  using assms
proof (induction attrs arbitrary: attr p sz)
  case Nil
  then show ?case using emits_Nil by (subst core_store_attrs.simps) (auto simp: enc_attrs_def)
next
  case (Cons nv attrs)
  obtain name val where nv: "nv = (name, val)" by (cases nv)
  obtain a r where a: "attr = Some a" "doc_attrs d a = Some r" "at_node r \<noteq> None" "str_at d (at_name r) (at_name_size r) name"
      "str_at d (at_value r) (at_value_size r) val" "attrs_at d (at_next r) attrs"
    using Cons.prems(2) by (auto simp: nv)
  obtain n0 p0 where 0: "core_request_store_base h d p NDM_CORE_CTRL_ATTR 0 (at_name r) (at_name_size r) (at_value r) (at_value_size r)
      = Ok (n0, p0)" "emits p (enc_ctrl NDM_CORE_CTRL_ATTR 0 @ enc_str name @ enc_str val) (n0, p0)"
    using store_base_emits [OF Cons.prems(1) a(4,5)] by fastforce
  obtain n1 p1 where 1: "core_store_attrs h d (at_next r) p0 (sz + n0) = Some (Ok (sz + n0 + n1, p1))"
      "emits p0 (enc_attrs attrs) (n1, p1)"
    using Cons.IH [OF emits_cursor [OF 0(2)] a(6)] by blast
  obtain q where "at_node r = Some q" using a(3) by blast
  then have "core_store_attrs h d attr p sz = Some (Ok (sz + (n0 + n1), p1))"
    using a(1-3) 0(1) 1(1) by (subst core_store_attrs.simps)
      (simp add: ndm_xml_attr_next_def needing_def xml_name_is_empty_def Let_def add.assoc)
  then show ?case using emits_append [OF 0(2) 1(2)] by (auto simp: enc_attrs_def nv)
qed

text \<open>The siblings of a node form a chain that does not come back to its first node.\<close>

lemma trees_at_length: "trees_at d p child ts \<Longrightarrow> trees_at d q child us \<Longrightarrow> length ts = length us"
proof (induction ts arbitrary: child us)
  case Nil
  then show ?case by (cases us) auto
next
  case (Cons t ts)
  obtain c r where c: "child = Some c" "doc_nodes d c = Some r" "trees_at d p (nd_next_sibling r) ts"
    using Cons.prems(1) by auto
  then obtain u us' where "us = u # us'" "trees_at d q (nd_next_sibling r) us'" using Cons.prems(2) by (cases us) auto
  then show ?case using Cons.IH [OF c(3)] by simp
qed

lemma store_tree_emits:
  "cursor_ok p \<Longrightarrow> tree_at d n t \<Longrightarrow> tree_fuel t \<le> fuel \<Longrightarrow>
   \<exists>r. core_request_store_node fuel h d n ctrl p level = Some (Ok r) \<and> emits p (enc_tree ctrl (level = 0) t) r"
  "cursor_ok p \<Longrightarrow> trees_at d q child ts \<Longrightarrow> trees_fuel ts \<le> fuel \<Longrightarrow>
   (child \<noteq> first_child \<longrightarrow> (\<forall>us. trees_at d q first_child us \<longrightarrow> length ts < length us)) \<Longrightarrow>
   \<exists>n p'. core_store_children fuel h d child first_child p sz level = Some (Ok (sz + n, p')) \<and>
     emits p (enc_trees (if child = first_child then NDM_CORE_CTRL_NODE else NDM_CORE_CTRL_SIBL) ts) (n, p')"
proof (induction t and ts arbitrary: fuel n ctrl p level and fuel q child p sz level first_child rule: tree_fuel_trees_fuel.induct)
  case (1 type name val attrs kids)
  obtain f where f: "fuel = Suc f" "trees_fuel kids \<le> f" using "1.prems"(3) by (cases fuel) auto
  obtain r where r: "doc_nodes d n = Some r" "nd_type r = type" "str_at d (nd_name r) (nd_name_size r) name"
      "str_at d (nd_value r) (nd_value_size r) val" "attrs_at d (nd_first_attr r) attrs" "trees_at d n (nd_first_child r) kids"
    using "1.prems"(2) by auto
  obtain n0 p0 where 0: "core_request_store_base h d p ctrl (core_type_code type) (nd_name r) (nd_name_size r) (nd_value r) (nd_value_size r)
      = Ok (n0, p0)" "emits p (enc_ctrl ctrl (core_type_code type) @ enc_str name @ enc_str val) (n0, p0)"
    using store_base_emits [OF "1.prems"(1) r(3,4)] by fastforce
  obtain n1 p1 where 1: "core_store_attrs h d (nd_first_attr r) p0 n0 = Some (Ok (n0 + n1, p1))" "emits p0 (enc_attrs attrs) (n1, p1)"
    using store_attrs_emits [OF emits_cursor [OF 0(2)] r(5)] by blast
  obtain n2 p2 where 2: "core_store_children f h d (nd_first_child r) (nd_first_child r) p1 (n0 + n1) level = Some (Ok (n0 + n1 + n2, p2))"
      "emits p1 (enc_trees NDM_CORE_CTRL_NODE kids) (n2, p2)"
    using "1.IH" [OF emits_cursor [OF 1(2)] r(6) f(2), of "nd_first_child r" "n0 + n1" level] by auto
  have kids: "nd_first_child r \<noteq> None \<longleftrightarrow> kids \<noteq> []" using r(6) by (cases kids) auto
  note e2 = emits_append [OF emits_append [OF 0(2) 1(2)] 2(2)]
  let ?more = "nd_first_child r \<noteq> None \<or> level = 0"
  have "\<exists>r3. (if ?more then core_request_store_ctrl p2 NDM_CORE_CTRL_END 0 else Ok (0, p2)) = Ok r3 \<and>
      emits p2 (if ?more then enc_ctrl NDM_CORE_CTRL_END 0 else []) r3"
  proof (cases ?more)
    case True
    show ?thesis unfolding if_P [OF True] by (rule store_ctrl_emits [OF emits_cursor [OF e2]])
  next
    case False
    show ?thesis unfolding if_not_P [OF False] using emits_Nil [OF emits_cursor [OF e2]] by blast
  qed
  then obtain n3 p3 where 3: "(if ?more then core_request_store_ctrl p2 NDM_CORE_CTRL_END 0 else Ok (0, p2)) = Ok (n3, p3)"
      "emits p2 (if ?more then enc_ctrl NDM_CORE_CTRL_END 0 else []) (n3, p3)" by auto
  have "core_request_store_node fuel h d n ctrl p level = Some (Ok (n0 + n1 + n2 + n3, p3))"
    using r(1,2) 0(1) 1(1) 2(1) 3(1)
    by (auto simp: f(1) needing_def ndm_xml_node_first_attr_def ndm_xml_node_first_child_def xml_name_is_empty_def split: if_splits)
  moreover have "emits p (enc_tree ctrl (level = 0) (XTree type name val attrs kids)) (n0 + n1 + n2 + n3, p3)"
    using emits_append [OF e2 3(2)] kids by simp
  ultimately show ?case by blast
next
  case 2
  then obtain f where "fuel = Suc f" by (cases fuel) auto
  then show ?case using 2 emits_Nil by auto
next
  case (3 t ts)
  obtain f where f: "fuel = Suc f" "tree_fuel t \<le> f" "trees_fuel ts \<le> f" using "3.prems"(3) by (cases fuel) auto
  obtain c r where c: "child = Some c" "doc_nodes d c = Some r" "nd_parent r = Some q" "tree_at d c t"
      "trees_at d q (nd_next_sibling r) ts" using "3.prems"(2) by auto
  let ?ctrl = "if child = first_child then NDM_CORE_CTRL_NODE else NDM_CORE_CTRL_SIBL"
  obtain n0 p0 where 0: "core_request_store_node f h d c ?ctrl p (level + 1) = Some (Ok (n0, p0))" "emits p (enc_tree ?ctrl False t) (n0, p0)"
    using "3.IH"(1) [OF "3.prems"(1) c(4) f(2), of ?ctrl "level + 1"] by fastforce
  have longer: "\<forall>us. trees_at d q first_child us \<longrightarrow> length ts < length us"
  proof (cases "child = first_child")
    case True
    then show ?thesis using trees_at_length [OF "3.prems"(2)] by fastforce
  next
    case False
    then show ?thesis using "3.prems"(4) by auto
  qed
  have ne: "nd_next_sibling r \<noteq> first_child" using longer c(5) by blast
  obtain n1 p1 where 1: "core_store_children f h d (nd_next_sibling r) first_child p0 (sz + n0) level = Some (Ok (sz + n0 + n1, p1))"
      "emits p0 (enc_trees NDM_CORE_CTRL_SIBL ts) (n1, p1)"
    using "3.IH"(2) [OF emits_cursor [OF 0(2)] c(5) f(3), of first_child "sz + n0" level] longer ne by auto
  show ?case using emits_append [OF 0(2) 1(2)] 0(1) 1(1) c(1-3)
    by (simp add: f(1) ndm_xml_node_next_sibling_def needing_def xml_name_is_empty_def add.assoc)
qed

text \<open>
  C6: the size that is counted is the length of the encoding of the tree; a
  buffer of that size receives exactly the encoding, on hosts of both byte orders, and a
  smaller one is refused without a byte written outside it.
\<close>

theorem core_store_encodes:
  assumes "tree_at d n t" and "tree_fuel t \<le> fuel"
  shows "core_request_store fuel h d (Some n) None = Some (Ok (length (enc_tree NDM_CORE_CTRL_NODE True t), None)) \<and>
    (\<exists>sz buf'. core_request_store fuel h d (Some n) (Some buf) = Some (Ok (sz, Some buf')) \<and> length buf' = length buf \<and>
      (if length buf < length (enc_tree NDM_CORE_CTRL_NODE True t) then sz = 0
       else sz = length (enc_tree NDM_CORE_CTRL_NODE True t) \<and> take sz buf' = enc_tree NDM_CORE_CTRL_NODE True t))"
proof -
  obtain n0 p0 where c: "core_request_store_node fuel h d n NDM_CORE_CTRL_NODE CountOnly 0 = Some (Ok (n0, p0))"
      "emits CountOnly (enc_tree NDM_CORE_CTRL_NODE True t) (n0, p0)"
    using store_tree_emits(1) [OF _ assms, of CountOnly h NDM_CORE_CTRL_NODE 0] by auto
  obtain n1 p1 where b: "core_request_store_node fuel h d n NDM_CORE_CTRL_NODE (StoreAt buf 0) 0 = Some (Ok (n1, p1))"
      "emits (StoreAt buf 0) (enc_tree NDM_CORE_CTRL_NODE True t) (n1, p1)"
    using store_tree_emits(1) [OF _ assms, of "StoreAt buf 0" h NDM_CORE_CTRL_NODE 0] by auto
  show ?thesis using c b by (auto simp: core_request_store_def split: if_splits)
qed

theorem core_store_encodes_witness:
  "core_request_store 3 LittleEndian
     (ndm_xml_document_init \<lparr>answers = \<lambda>_. True, garbage = \<lambda>_. 0\<rparr> [] 0 0
        \<lparr>doc_nodes := [0 \<mapsto> (blank_node NDM_XML_NODE_TYPE_ELEMENT)\<lparr>nd_name := XmlGiven [97], nd_name_size := 1\<rparr>]\<rparr>)
     (Some 0) None = Some (Ok (11, None)) \<and>
   (\<exists>sz buf'. core_request_store 3 LittleEndian
     (ndm_xml_document_init \<lparr>answers = \<lambda>_. True, garbage = \<lambda>_. 0\<rparr> [] 0 0
        \<lparr>doc_nodes := [0 \<mapsto> (blank_node NDM_XML_NODE_TYPE_ELEMENT)\<lparr>nd_name := XmlGiven [97], nd_name_size := 1\<rparr>]\<rparr>)
     (Some 0) (Some (replicate 11 0)) = Some (Ok (sz, Some buf')) \<and> length buf' = 11 \<and>
     sz = 11 \<and> take 11 buf' = [1, 0, 0, 0, 1, 97, 0, 0, 0, 0, 192])"
proof -
  let ?d = "ndm_xml_document_init \<lparr>answers = \<lambda>_. True, garbage = \<lambda>_. 0\<rparr> [] 0 0
        \<lparr>doc_nodes := [0 \<mapsto> (blank_node NDM_XML_NODE_TYPE_ELEMENT)\<lparr>nd_name := XmlGiven [97], nd_name_size := 1\<rparr>]\<rparr>"
  let ?t = "XTree NDM_XML_NODE_TYPE_ELEMENT [97] [] [] []"
  have e: "enc_tree NDM_CORE_CTRL_NODE True ?t = [1, 0, 0, 0, 1, 97, 0, 0, 0, 0, 192]"
    by (simp add: enc_ctrl_def enc_str_def enc_attrs_def core_ctrl_code_def core_type_code_def be_bytes_def mem_bytes_def
        upt_bytes Let_def)
  then have len: "length (enc_tree NDM_CORE_CTRL_NODE True ?t) = 11" by simp
  have "tree_at ?d 0 ?t" "tree_fuel ?t \<le> 3" by (simp_all add: blank_node_def str_at_def xml_string_def)
  from core_store_encodes [OF this, of LittleEndian "replicate 11 0", unfolded len, unfolded e]
  show ?thesis by simp
qed

end
