(* ===== verification/Ndm_Stdio.thy ===== *)
theory Ndm_Stdio
  imports Pool
begin

text \<open>
  Copies of strings (\<^verbatim>\<open>src/string.c\<close>) and formatting into a buffer or a new block
  (\<^verbatim>\<open>src/stdio.c\<close>). The text that a format makes is an argument, \<open>None\<close> where
  \<open>vsnprintf\<close> fails; a text longer than \<open>INT_MAX\<close> is its failure.
\<close>

section \<open>Copies\<close>

text \<open>The block of the copy, or \<open>None\<close> for \<open>NULL\<close>, and the allocator.\<close>

definition ndm_string_dup :: "heap \<Rightarrow> cstring \<Rightarrow> u8 list option \<times> heap" where
  "ndm_string_dup heap s =
     (if can_alloc heap then (Some (s @ [0]), heap_next heap) else (None, heap_next heap))"

text \<open>\<open>mem\<close> is the memory from \<open>value\<close> on, which need not hold a terminator.\<close>

definition ndm_string_ndup :: "heap \<Rightarrow> u8 list \<Rightarrow> nat \<Rightarrow> (u8 list option \<times> heap) result" where
  "ndm_string_ndup heap mem len =
     need (strndup_scan mem len) (\<lambda>l.
     Ok (if can_alloc heap then (Some (take l mem @ [0]), heap_next heap) else (None, heap_next heap)))"

section \<open>Formatting\<close>

text \<open>Where the text is: in the caller's buffer, whose bytes are given, or in a new block.\<close>

datatype text_at = TextInBuffer "u8 list" | TextInBlock "u8 list"

definition ndm_vabsprintf ::
  "heap \<Rightarrow> u8 list \<Rightarrow> cstring option \<Rightarrow> int \<times> text_at option \<times> errno option \<times> heap" where
  "ndm_vabsprintf heap buffer formatted =
     (case formatted of
        None \<Rightarrow> (-1, None, Some EINVAL, heap)
      | Some s \<Rightarrow>
          if length s > 2147483647 then (-1, None, Some EINVAL, heap)
          else if length s \<ge> length buffer then
            (if \<not> can_alloc heap then (-1, None, Some ENOMEM, heap_next heap)
             else (int (length s), Some (TextInBlock (s @ [0])), None, heap_next heap))
          else (int (length s), Some (TextInBuffer (s @ [0] @ drop (Suc (length s)) buffer)), None, heap))"

definition ndm_vasprintf :: "heap \<Rightarrow> cstring option \<Rightarrow> int \<times> text_at option \<times> errno option \<times> heap" where
  "ndm_vasprintf heap formatted = ndm_vabsprintf heap [] formatted"

text \<open>The string at the place, up to its terminator.\<close>

definition text_of :: "text_at \<Rightarrow> cstring" where
  "text_of t = takeWhile (\<lambda>c. c \<noteq> 0) (case t of TextInBuffer b \<Rightarrow> b | TextInBlock b \<Rightarrow> b)"

lemma ndm_vabsprintf_text:
  assumes "ndm_vabsprintf heap buffer (Some s) = (n, Some t, e, heap')" "0 \<notin> set s"
  shows "text_of t = s \<and> n = int (length s)"
proof -
  have "takeWhile (\<lambda>c. c \<noteq> 0) (s @ 0 # r) = s" for r using assms(2) by (induction s) auto
  then show ?thesis using assms(1) by (auto simp: ndm_vabsprintf_def text_of_def split: if_splits)
qed

end
