(* ===== verification/Core_Request.thy ===== *)
theory Core_Request
  imports Core_Store Core_Cache Ndm_Stdio
begin

text \<open>
  Requests to the core (\<^verbatim>\<open>src/core.c\<close>): building the document of a request, sending it,
  reading or finding the response, and the functions that ask for one value. Commands and
  paths are given as the texts their formats make, \<open>None\<close> where the formatting fails; a long
  command takes a block of its own.
  The readings of the clock for the cache are arguments. A call that waits for its peer has
  the outer \<open>None\<close>. After a failed read the allocator goes on from where the read began.
\<close>

datatype ndm_core_request_type_t = NDM_CORE_REQUEST_CONFIG | NDM_CORE_REQUEST_EXECUTE | NDM_CORE_REQUEST_PARSE

datatype ndm_core_cache_mode_t = NDM_CORE_MODE_CACHE | NDM_CORE_MODE_NO_CACHE

record ndm_core_t =
  core_conn :: core_conn
  core_timeout :: int
  core_agent :: cstring
  core_cache :: ndm_core_cache_t
  core_last_message :: ndm_core_message_t
  core_response_id :: u64
  core_heap :: heap

text \<open>What does not change from call to call: fuel, byte order and the two readings of the clock.\<close>

record core_world =
  w_fuel :: nat
  w_host :: host
  w_get_time :: timespec
  w_add_time :: timespec

text \<open>A response, whether the caller has to release it, and the \<open>errno\<close> of a failure.\<close>

type_synonym core_reply = "ndm_core_response_t option \<times> bool \<times> errno option \<times> ndm_core_t"

section \<open>The connection\<close>

definition NDM_CORE_DEFAULT_TIMEOUT :: int where "NDM_CORE_DEFAULT_TIMEOUT = 15000"

text \<open>
  \<open>connected\<close> is the connection that \<open>socket\<close> and \<open>connect\<close> make, if they succeed; \<open>NULL\<close> and
  an empty name are no agent. When the name of the agent cannot be copied, \<open>ndm_core_close\<close>
  reads and closes a descriptor that was never set.
\<close>

definition ndm_core_open ::
  "heap \<Rightarrow> core_conn option \<Rightarrow> cstring option \<Rightarrow> int \<Rightarrow> u64 \<Rightarrow> (ndm_core_t option \<times> heap) result" where
  "ndm_core_open heap connected agent cache_ttl_msec cache_max_size =
     (let current_agent = (case agent of None \<Rightarrow> [] | Some a \<Rightarrow> a); heap' = heap_next (heap_next heap) in
      if \<not> can_alloc heap then Ok (None, heap_next heap)
      else if \<not> can_alloc (heap_next heap) then Undefined
      else
        Ok (map_option (\<lambda>conn.
          \<lparr>core_conn = conn\<lparr>conn_buffer := core_buffer_init (map (garbage heap) [0..<8192])\<rparr>,
           core_timeout = NDM_CORE_DEFAULT_TIMEOUT, core_agent = current_agent,
           core_cache = core_cache_init cache_ttl_msec cache_max_size, core_last_message = core_message_init,
           core_response_id = 0, core_heap = heap'\<rparr>) connected, heap'))"

definition ndm_core_set_timeout :: "ndm_core_t \<Rightarrow> int \<Rightarrow> ndm_core_t" where
  "ndm_core_set_timeout core timeout = core\<lparr>core_timeout := timeout\<rparr>"

definition ndm_core_get_timeout :: "ndm_core_t \<Rightarrow> int" where
  "ndm_core_get_timeout core = core_timeout core"

definition ndm_core_agent :: "ndm_core_t \<Rightarrow> cstring" where
  "ndm_core_agent core = core_agent core"

definition ndm_core_last_message_received :: "ndm_core_t \<Rightarrow> bool" where
  "ndm_core_last_message_received core = msg_received (core_last_message core)"

definition ndm_core_last_message_type :: "ndm_core_t \<Rightarrow> ndm_core_response_type_t" where
  "ndm_core_last_message_type core = msg_type (core_last_message core)"

definition ndm_core_last_message_string :: "ndm_core_t \<Rightarrow> cstring" where
  "ndm_core_last_message_string core = msg_string (core_last_message core)"

definition ndm_core_last_message_ident :: "ndm_core_t \<Rightarrow> cstring" where
  "ndm_core_last_message_ident core = msg_ident (core_last_message core)"

definition ndm_core_last_message_source :: "ndm_core_t \<Rightarrow> cstring" where
  "ndm_core_last_message_source core = msg_source (core_last_message core)"

definition ndm_core_last_message_code :: "ndm_core_t \<Rightarrow> u32" where
  "ndm_core_last_message_code core = msg_code (core_last_message core)"

section \<open>One request\<close>

definition NDM_CORE_REQUEST_BINARY_STATIC_SIZE :: nat where "NDM_CORE_REQUEST_BINARY_STATIC_SIZE = 2048"

text \<open>A document sent through a buffer of its own; the buffer of the connection stays.\<close>

definition core_send_document :: "core_conn \<Rightarrow> u8 list \<Rightarrow> (errno option \<times> core_conn) result option" where
  "core_send_document conn bytes =
     (case core_buffer_send_all (conn\<lparr>conn_buffer := (core_buffer_init bytes)\<lparr>buf_putp := length bytes\<rparr>\<rparr>) of
        IoDone u c \<Rightarrow> Some (Ok (None, c\<lparr>conn_buffer := conn_buffer conn\<rparr>))
      | IoFailed e c \<Rightarrow> Some (Ok (Some e, c\<lparr>conn_buffer := conn_buffer conn\<rparr>))
      | IoUndefined \<Rightarrow> Some Undefined
      | IoWaiting \<Rightarrow> None)"

text \<open>The response read behind a request, or the failure.\<close>

definition core_receive_response ::
  "host \<Rightarrow> heap \<Rightarrow> core_conn \<Rightarrow> u64 \<Rightarrow> (ndm_core_response_t option \<times> errno option \<times> core_conn \<times> heap) result option" where
  "core_receive_response h heap conn rsp_id' =
     (let heap' = heap_next heap in
      if \<not> can_alloc heap then Some (Ok (None, Some ENOMEM, conn, heap'))
      else
        then_do (Some (ndm_xml_document_alloc_root (rsp_doc (core_response_init heap')))) (\<lambda>(root, d).
        case root of
          None \<Rightarrow> Some (Ok (None, Some ENOMEM, conn, heap'))
        | Some r \<Rightarrow>
            (case core_read_xml_children h conn d r root None True of
               IoUndefined \<Rightarrow> Some Undefined
             | IoWaiting \<Rightarrow> None
             | IoFailed e conn \<Rightarrow> Some (Ok (None, Some e, conn, heap'))
             | IoDone d conn \<Rightarrow>
                 then_do (ndm_xml_node_first_child d r (Some (core_str ''response''))) (\<lambda>n.
                 case n of
                   None \<Rightarrow> Some (Ok (None, None, conn, pool_sys (doc_pool (ndm_xml_document_clear d))))
                 | Some m \<Rightarrow>
                     Some (Ok (Some \<lparr>rsp_doc = d, rsp_root = n, rsp_id = rsp_id'\<rparr>, None, conn, pool_sys (doc_pool d)))))))"

text \<open>The request on the wire in a block of its own when it does not fit the static one.\<close>

definition core_request_bytes ::
  "core_world \<Rightarrow> heap \<Rightarrow> ndm_xml_document_t \<Rightarrow> nat option \<Rightarrow> (u8 list option \<times> errno option \<times> heap) result option" where
  "core_request_bytes w heap d request =
     then_do (core_request_store (w_fuel w) (w_host w) d request None) (\<lambda>(request_size, _).
     if request_size = 0 then Some (Ok (None, Some EBADMSG, heap))
     else if request_size > NDM_CORE_REQUEST_BINARY_STATIC_SIZE \<and> \<not> can_alloc heap
     then Some (Ok (None, Some ENOMEM, heap_next heap))
     else
       let on_heap = (request_size > NDM_CORE_REQUEST_BINARY_STATIC_SIZE);
           buffer = map (garbage heap) [0..<if on_heap then request_size else NDM_CORE_REQUEST_BINARY_STATIC_SIZE];
           heap = (if on_heap then heap_next heap else heap) in
       then_do (core_request_store (w_fuel w) (w_host w) d request (Some (take request_size buffer))) (\<lambda>(stored, buffer).
       if stored \<noteq> request_size then Some (Ok (None, Some EILSEQ, heap))
       else Some (Ok (buffer, None, heap))))"

text \<open>The request sent and answered; a final answer is cached.\<close>

definition core_ask ::
  "core_world \<Rightarrow> ndm_core_t \<Rightarrow> ndm_core_cache_mode_t \<Rightarrow> u8 list \<Rightarrow> core_reply result option" where
  "core_ask w core cache_mode bytes =
     then_do (core_send_document (core_conn core) bytes) (\<lambda>(e, conn).
     let core = core\<lparr>core_conn := conn\<rparr> in
     if e \<noteq> None then Some (Ok (None, False, e, core))
     else
       then_do (core_receive_response (w_host w) (core_heap core) conn (core_response_id core + 1)) (\<lambda>(rsp, e, conn, heap).
       let core = core\<lparr>core_conn := conn, core_heap := heap\<rparr> in
       case rsp of
         None \<Rightarrow> Some (Ok (None, False, e, core))
       | Some r \<Rightarrow>
           let core = core\<lparr>core_response_id := rsp_id r\<rparr> in
           then_do (if cache_mode = NDM_CORE_MODE_CACHE then ndm_core_response_is_continued r else Some (Ok True)) (\<lambda>continued.
           then_do
             (if \<not> continued
              then core_cache_add (w_fuel w) (core_heap core) (w_add_time w) (core_cache core) bytes r
              else Some (Ok (core_cache core, core_heap core))) (\<lambda>(cache, heap).
           Some (Ok (rsp, True, None, core\<lparr>core_cache := cache, core_heap := heap\<rparr>))))))"

text \<open>The last message follows the response, also one from the cache; without one it is reset.\<close>

definition core_message_after :: "core_reply \<Rightarrow> core_reply result option" where
  "core_message_after reply =
     (case reply of (rsp, copied, e, core) \<Rightarrow>
        then_do
          (case rsp of
             None \<Rightarrow> Some (Ok core_message_init)
           | Some r \<Rightarrow> core_message_update (core_last_message core) r) (\<lambda>message.
        Some (Ok (rsp, copied, e, core\<lparr>core_last_message := message\<rparr>))))"

definition core_do_request ::
  "core_world \<Rightarrow> ndm_core_t \<Rightarrow> ndm_core_cache_mode_t \<Rightarrow> bool \<Rightarrow> ndm_xml_document_t \<Rightarrow> nat option \<Rightarrow> core_reply result option" where
  "core_do_request w core cache_mode copy_cached_response d request =
     then_do (core_request_bytes w (core_heap core) d request) (\<lambda>(bytes, e, heap).
     let core = core\<lparr>core_heap := heap\<rparr> in
     then_do
       (case bytes of
          None \<Rightarrow> Some (Ok (None, False, e, core))
        | Some bytes \<Rightarrow>
            if cache_mode = NDM_CORE_MODE_CACHE then
              then_do (core_cache_get (w_fuel w) heap (w_get_time w) (core_cache core) bytes copy_cached_response)
                (\<lambda>(done', copied, rsp, cache, heap).
              let core = core\<lparr>core_cache := cache, core_heap := heap\<rparr> in
              if \<not> done' then Some (Ok (None, False, Some ENOMEM, core))
              else if rsp \<noteq> None then Some (Ok (rsp, copied, None, core))
              else core_ask w core cache_mode bytes)
            else core_ask w core cache_mode bytes) core_message_after)"

section \<open>Building requests\<close>

definition core_request_document_init ::
  "heap \<Rightarrow> u8 list \<Rightarrow> cstring \<Rightarrow> (ndm_xml_document_t \<times> nat option) result" where
  "core_request_document_init heap buffer agent =
     bind_result (ndm_xml_document_alloc_root (ndm_xml_document_init heap buffer (of_nat (length buffer)) 1024)) (\<lambda>(root, d).
     case root of
       None \<Rightarrow> Ok (ndm_xml_document_clear d, None)
     | Some r \<Rightarrow>
         bind_result (ndm_xml_node_append_child_str d r (Some (core_str ''request'')) None) (\<lambda>(request, d).
         case request of
           None \<Rightarrow> Ok (ndm_xml_document_clear d, None)
         | Some n \<Rightarrow>
             bind_result (ndm_xml_node_append_attr_str d n (Some (core_str ''agent'')) (Some agent)) (\<lambda>(a, d).
             if a = None then Ok (ndm_xml_document_clear d, None) else Ok (d, request))))"

text \<open>
  The arguments of a command. The offset behind the prefix of an attribute is
  \<open>sizeof '@'\<close>, which is 4 in C: a shorter name is read beyond its end, and the name of an
  attribute keeps its prefix.
\<close>

definition core_after_prefix :: "cstring \<Rightarrow> cstring option" where
  "core_after_prefix name = (if 4 \<le> length name then Some (drop 4 name) else None)"

fun core_request_args ::
  "ndm_xml_document_t \<Rightarrow> nat \<Rightarrow> cstring list \<Rightarrow> bool \<Rightarrow> (errno option \<times> bool \<times> ndm_xml_document_t) result" where
  "core_request_args d n [] has_args = Ok (None, has_args, d)"
| "core_request_args d n [name] has_args = Ok (Some EINVAL, has_args, d)"
| "core_request_args d n (name # val # args) has_args =
     (if name \<noteq> [] \<and> hd name = 64 then
        need (core_after_prefix name) (\<lambda>s.
        if s = core_str ''name'' then Ok (Some EINVAL, has_args, d)
        else
          bind_result (ndm_xml_node_append_attr_str d n (Some name) (Some val)) (\<lambda>(a, d).
          if a = None then Ok (Some ENOMEM, has_args, d) else core_request_args d n args has_args))
      else
        bind_result (ndm_xml_node_append_child_str d n (Some name) (Some val)) (\<lambda>(c, d).
        if c = None then Ok (Some ENOMEM, has_args, d) else core_request_args d n args True))"

text \<open>The node of the command with its name and arguments, or the \<open>errno\<close> of the failure.\<close>

definition core_request_command ::
  "ndm_xml_document_t \<Rightarrow> nat \<Rightarrow> ndm_core_request_type_t \<Rightarrow> cstring \<Rightarrow> cstring list option \<Rightarrow>
   (errno option \<times> ndm_xml_document_t) result" where
  "core_request_command d request request_type command command_args =
     bind_result (ndm_xml_node_append_child_str d request
       (Some (case request_type of NDM_CORE_REQUEST_CONFIG \<Rightarrow> core_str ''config'' | NDM_CORE_REQUEST_EXECUTE \<Rightarrow> core_str ''command''
          | NDM_CORE_REQUEST_PARSE \<Rightarrow> core_str ''parse''))
       (if request_type = NDM_CORE_REQUEST_PARSE then Some command else None)) (\<lambda>(node, d).
     case node of
       None \<Rightarrow> Ok (Some ENOMEM, d)
     | Some n \<Rightarrow>
         bind_result
           (if request_type \<noteq> NDM_CORE_REQUEST_PARSE
            then ndm_xml_node_append_attr_str d n (Some (core_str ''name'')) (Some command) else Ok (Some 0, d)) (\<lambda>(a, d).
         if a = None then Ok (Some ENOMEM, d)
         else
           bind_result
             (case command_args of None \<Rightarrow> Ok (None, False, d) | Some args \<Rightarrow> core_request_args d n args False) (\<lambda>(e, has_args, d).
           Ok (if e \<noteq> None then e else if request_type = NDM_CORE_REQUEST_PARSE \<and> has_args then Some EINVAL else None, d))))"

text \<open>
  The common part of all calls with a document: \<open>build\<close> completes the document of the
  request; the document is released at the end, and with it the requests it made.
\<close>

definition core_with_request ::
  "ndm_core_t \<Rightarrow> (ndm_xml_document_t \<Rightarrow> nat \<Rightarrow> (errno option \<times> ndm_xml_document_t) result) \<Rightarrow>
   (ndm_core_t \<Rightarrow> ndm_xml_document_t \<Rightarrow> nat \<Rightarrow> core_reply result option) \<Rightarrow> core_reply result option" where
  "core_with_request core build ask =
     then_do (Some (core_request_document_init (core_heap core) (map (garbage (core_heap core)) [0..<2048]) (core_agent core)))
       (\<lambda>(d, request).
     case request of
       None \<Rightarrow> Some (Ok (None, False, Some ENOMEM, core\<lparr>core_heap := pool_sys (doc_pool d)\<rparr>))
     | Some n \<Rightarrow>
         then_do (Some (build d n)) (\<lambda>(e, d).
         let core = core\<lparr>core_heap := pool_sys (doc_pool d)\<rparr> in
         if e \<noteq> None then Some (Ok (None, False, e, core)) else ask core d n))"

definition core_request ::
  "core_world \<Rightarrow> ndm_core_t \<Rightarrow> ndm_core_request_type_t \<Rightarrow> ndm_core_cache_mode_t \<Rightarrow> bool \<Rightarrow> cstring list option \<Rightarrow>
   cstring option \<Rightarrow> core_reply result option" where
  "core_request w core request_type cache_mode copy_cached_response command_args command =
     core_with_request core
       (\<lambda>d n. case ndm_vabsprintf (pool_sys (doc_pool d)) (replicate 512 0) command of (size', text', e, heap) \<Rightarrow>
          let d = d\<lparr>doc_pool := (doc_pool d)\<lparr>pool_sys := heap\<rparr>\<rparr> in
          (case text' of
             None \<Rightarrow> Ok (e, d)
           | Some t \<Rightarrow> core_request_command d n request_type (text_of t) command_args))
       (\<lambda>core d n. core_do_request w core cache_mode copy_cached_response d (Some n))"

definition ndm_core_request ::
  "core_world \<Rightarrow> ndm_core_t \<Rightarrow> ndm_core_request_type_t \<Rightarrow> ndm_core_cache_mode_t \<Rightarrow> cstring list option \<Rightarrow>
   cstring option \<Rightarrow> core_reply result option" where
  "ndm_core_request w core request_type cache_mode command_args command =
     core_request w core request_type cache_mode True command_args command"

definition core_get_one_tag ::
  "core_world \<Rightarrow> ndm_core_t \<Rightarrow> ndm_core_cache_mode_t \<Rightarrow> cstring \<Rightarrow> cstring \<Rightarrow> core_reply result option" where
  "core_get_one_tag w core cache_mode tag val =
     core_with_request core
       (\<lambda>d n. bind_result (ndm_xml_node_append_child_str d n (Some tag) (Some val)) (\<lambda>(c, d).
          Ok (if c = None then Some ENOMEM else None, d)))
       (\<lambda>core d n. core_do_request w core cache_mode True d (Some n))"

definition ndm_core_get_help ::
  "core_world \<Rightarrow> ndm_core_t \<Rightarrow> ndm_core_cache_mode_t \<Rightarrow> cstring \<Rightarrow> core_reply result option" where
  "ndm_core_get_help w core cache_mode command = core_get_one_tag w core cache_mode (core_str ''help'') command"

definition ndm_core_continue :: "core_world \<Rightarrow> ndm_core_t \<Rightarrow> core_reply result option" where
  "ndm_core_continue w core = core_get_one_tag w core NDM_CORE_MODE_NO_CACHE (core_str ''continue'') []"

definition ndm_core_break :: "core_world \<Rightarrow> ndm_core_t \<Rightarrow> core_reply result option" where
  "ndm_core_break w core = core_get_one_tag w core NDM_CORE_MODE_NO_CACHE (core_str ''break'') []"

text \<open>Returned are whether it is done and whether the core has let the user in.\<close>

definition ndm_core_authenticate ::
  "core_world \<Rightarrow> ndm_core_t \<Rightarrow> cstring \<Rightarrow> cstring \<Rightarrow> cstring \<Rightarrow> (bool \<times> bool \<times> ndm_core_t) result option" where
  "ndm_core_authenticate w core user password tag =
     then_do (core_with_request core
       (\<lambda>d n. bind_result (ndm_xml_node_append_child_str d n (Some (core_str ''hello'')) (Some password)) (\<lambda>(c, d).
          case c of
            None \<Rightarrow> Ok (Some ENOMEM, d)
          | Some m \<Rightarrow>
              bind_result (ndm_xml_node_append_attr_str d m (Some (core_str ''name'')) (Some user)) (\<lambda>(a, d).
              if a = None then Ok (Some ENOMEM, d)
              else
                bind_result (ndm_xml_node_append_attr_str d m (Some (core_str ''tag'')) (Some tag)) (\<lambda>(b, d).
                Ok (if b = None then Some ENOMEM else None, d)))))
       (\<lambda>core d n. core_do_request w core NDM_CORE_MODE_NO_CACHE True d (Some n))) (\<lambda>(rsp, copied, e, core).
     case rsp of
       None \<Rightarrow> Some (Ok (False, False, core))
     | Some r \<Rightarrow>
         then_do (Some (need (rsp_root r) Ok)) (\<lambda>n.
         then_do (ndm_xml_node_first_child (rsp_doc r) n (Some (core_str ''prompt''))) (\<lambda>p.
         Some (Ok (True, p \<noteq> None, core)))))"

definition ndm_core_find_command ::
  "core_world \<Rightarrow> ndm_core_t \<Rightarrow> cstring \<Rightarrow> (bool \<times> bool \<times> errno option \<times> ndm_core_t) result option" where
  "ndm_core_find_command w core command =
     then_do (core_with_request core
       (\<lambda>d n. bind_result (ndm_xml_node_append_child_str d n (Some (core_str ''probe'')) None) (\<lambda>(c, d).
          case c of
            None \<Rightarrow> Ok (Some ENOMEM, d)
          | Some m \<Rightarrow>
              bind_result (ndm_xml_node_append_attr_str d m (Some (core_str ''name'')) (Some command)) (\<lambda>(a, d).
              Ok (if a = None then Some ENOMEM else None, d))))
       (\<lambda>core d n. core_do_request w core NDM_CORE_MODE_NO_CACHE True d (Some n))) (\<lambda>(rsp, copied, e, core).
     case rsp of
       None \<Rightarrow> Some (Ok (False, False, e, core))
     | Some r \<Rightarrow>
         then_do (Some (need (rsp_root r) Ok)) (\<lambda>n.
         then_do (ndm_xml_node_first_child (rsp_doc r) n (Some (core_str ''probe''))) (\<lambda>p.
         then_do (case p of None \<Rightarrow> Some (Ok None) | Some q \<Rightarrow> core_optional_attr (rsp_doc r) q (core_str ''found'')) (\<lambda>found.
         Some (Ok (case found of
             None \<Rightarrow> (False, False, Some EBADMSG, core)
           | Some v \<Rightarrow>
               if core_strcasecmp_eq v (core_str ''yes'') then (True, True, None, core)
               else if core_strcasecmp_eq v (core_str ''no'') then (True, False, None, core)
               else (False, False, Some EBADMSG, core)))))))"

section \<open>Asking for a value\<close>

definition ndm_core_request_break :: "core_world \<Rightarrow> ndm_core_t \<Rightarrow> (ndm_core_response_error_t \<times> ndm_core_t) result option" where
  "ndm_core_request_break w core =
     then_do (ndm_core_break w core) (\<lambda>(rsp, copied, e, core).
     case rsp of
       None \<Rightarrow> Some (Ok (NDM_CORE_RESPONSE_ERROR_SYSTEM, core))
     | Some r \<Rightarrow>
         then_do (Some (need (rsp_root r) Ok)) (\<lambda>n.
         then_do (ndm_xml_node_first_child (rsp_doc r) n (Some (core_str ''prompt''))) (\<lambda>p.
         Some (Ok (if p = None then NDM_CORE_RESPONSE_ERROR_NOT_FOUND else NDM_CORE_RESPONSE_ERROR_OK, core)))))"

definition core_request_succeeded :: "ndm_core_t \<Rightarrow> bool" where
  "core_request_succeeded core \<longleftrightarrow>
     \<not> ndm_core_last_message_received core \<or>
     \<not> (ndm_core_last_message_type core = NDM_CORE_ERROR \<or> ndm_core_last_message_type core = NDM_CORE_CRITICAL)"

definition ndm_core_request_send ::
  "core_world \<Rightarrow> ndm_core_t \<Rightarrow> ndm_core_request_type_t \<Rightarrow> cstring list option \<Rightarrow> cstring option \<Rightarrow>
   (ndm_core_response_error_t \<times> ndm_core_t) result option" where
  "ndm_core_request_send w core request_type command_args command =
     then_do (core_request w core request_type NDM_CORE_MODE_NO_CACHE True command_args command) (\<lambda>(rsp, copied, e, core).
     Some (Ok
       (if rsp = None then NDM_CORE_RESPONSE_ERROR_SYSTEM
        else if \<not> core_request_succeeded core then NDM_CORE_RESPONSE_ERROR_MESSAGE
        else NDM_CORE_RESPONSE_ERROR_OK, core)))"

text \<open>The frame of all functions that ask for one value; \<open>look\<close> finds it in the response.\<close>

definition core_request_first ::
  "core_world \<Rightarrow> ndm_core_t \<Rightarrow> ndm_core_request_type_t \<Rightarrow> ndm_core_cache_mode_t \<Rightarrow> cstring list option \<Rightarrow> cstring option \<Rightarrow>
   (ndm_xml_document_t \<Rightarrow> nat \<Rightarrow> (ndm_core_response_error_t \<times> 'v option) result option) \<Rightarrow>
   (ndm_core_response_error_t \<times> 'v option \<times> ndm_core_t) result option" where
  "core_request_first w core request_type cache_mode command_args command look =
     then_do (core_request w core request_type cache_mode (cache_mode \<noteq> NDM_CORE_MODE_CACHE) command_args command)
       (\<lambda>(rsp, copied, e, core).
     case rsp of
       None \<Rightarrow> Some (Ok (NDM_CORE_RESPONSE_ERROR_SYSTEM, None, core))
     | Some r \<Rightarrow>
         if \<not> core_request_succeeded core then Some (Ok (NDM_CORE_RESPONSE_ERROR_MESSAGE, None, core))
         else
           then_do (Some (need (ndm_core_response_root r) Ok)) (\<lambda>n.
           then_do (look (rsp_doc r) n) (\<lambda>(e, v). Some (Ok (e, v, core)))))"

text \<open>The value in a new block, which the oracle may refuse.\<close>

definition ndm_core_request_first_str_alloc_cf ::
  "core_world \<Rightarrow> ndm_core_t \<Rightarrow> ndm_core_request_type_t \<Rightarrow> ndm_core_cache_mode_t \<Rightarrow> cstring option \<Rightarrow> cstring list option \<Rightarrow>
   cstring option \<Rightarrow> (ndm_core_response_error_t \<times> cstring option \<times> ndm_core_t) result option" where
  "ndm_core_request_first_str_alloc_cf w core request_type cache_mode value_path command_args command =
     then_do (core_request_first w core request_type cache_mode command_args command
       (\<lambda>d n. core_response_first_str d n value_path)) (\<lambda>(e, v, core).
     if e = NDM_CORE_RESPONSE_ERROR_OK then
       let heap = core_heap core; core = core\<lparr>core_heap := heap_next heap\<rparr> in
       Some (Ok (if can_alloc heap then (e, v, core) else (NDM_CORE_RESPONSE_ERROR_SYSTEM, None, core)))
     else Some (Ok (e, None, core)))"

text \<open>
  The value as far as it fits a buffer, and its whole length. \<open>snprintf\<close> returns an \<open>int\<close>,
  which the code compares with the size cut to an \<open>int\<close>; a text longer than \<open>INT_MAX\<close> is its failure.
\<close>

definition core_snprintf :: "u64 \<Rightarrow> cstring \<Rightarrow> cstring \<times> int" where
  "core_snprintf n s = (take (unat n - 1) s, if length s \<le> 2147483647 then int (length s) else -1)"

definition core_value_to_buffer :: "u64 \<Rightarrow> cstring \<Rightarrow> ndm_core_response_error_t \<times> (cstring \<times> int) option" where
  "core_value_to_buffer value_buffer_size s =
     (let (v, size') = core_snprintf value_buffer_size s in
      (if size' \<ge> sint (ucast value_buffer_size :: u32) then NDM_CORE_RESPONSE_ERROR_BUFFER_SIZE
       else if size' < 0 then NDM_CORE_RESPONSE_ERROR_SYSTEM
       else NDM_CORE_RESPONSE_ERROR_OK,
       if size' < 0 then None else Some (v, size')))"

definition ndm_core_request_first_str_buffer_cf ::
  "core_world \<Rightarrow> ndm_core_t \<Rightarrow> ndm_core_request_type_t \<Rightarrow> ndm_core_cache_mode_t \<Rightarrow> u64 \<Rightarrow> cstring option \<Rightarrow> cstring list option \<Rightarrow>
   cstring option \<Rightarrow>
   (ndm_core_response_error_t \<times> (cstring \<times> int) option \<times> ndm_core_t) result option" where
  "ndm_core_request_first_str_buffer_cf w core request_type cache_mode value_buffer_size value_path command_args command =
     core_request_first w core request_type cache_mode command_args command
       (\<lambda>d n. then_do (core_response_first_str d n value_path) (\<lambda>(e, v).
          if e \<noteq> NDM_CORE_RESPONSE_ERROR_OK then Some (Ok (e, None))
          else then_do (Some (need v Ok)) (\<lambda>s. Some (Ok (core_value_to_buffer value_buffer_size s)))))"

definition ndm_core_request_first_int_cf ::
  "core_world \<Rightarrow> ndm_core_t \<Rightarrow> ndm_core_request_type_t \<Rightarrow> ndm_core_cache_mode_t \<Rightarrow> cstring option \<Rightarrow> cstring list option \<Rightarrow>
   cstring option \<Rightarrow> (ndm_core_response_error_t \<times> int option \<times> ndm_core_t) result option" where
  "ndm_core_request_first_int_cf w core request_type cache_mode value_path command_args command =
     core_request_first w core request_type cache_mode command_args command
       (\<lambda>d n. ndm_core_response_first_int d n value_path)"

definition ndm_core_request_first_uint_cf ::
  "core_world \<Rightarrow> ndm_core_t \<Rightarrow> ndm_core_request_type_t \<Rightarrow> ndm_core_cache_mode_t \<Rightarrow> cstring option \<Rightarrow> cstring list option \<Rightarrow>
   cstring option \<Rightarrow> (ndm_core_response_error_t \<times> u64 option \<times> ndm_core_t) result option" where
  "ndm_core_request_first_uint_cf w core request_type cache_mode value_path command_args command =
     core_request_first w core request_type cache_mode command_args command
       (\<lambda>d n. ndm_core_response_first_uint d n value_path)"

definition ndm_core_request_first_bool_cf ::
  "core_world \<Rightarrow> ndm_core_t \<Rightarrow> ndm_core_request_type_t \<Rightarrow> ndm_core_cache_mode_t \<Rightarrow> bool \<Rightarrow> cstring option \<Rightarrow> cstring list option \<Rightarrow>
   cstring option \<Rightarrow> (ndm_core_response_error_t \<times> bool option \<times> ndm_core_t) result option" where
  "ndm_core_request_first_bool_cf w core request_type cache_mode parse_value value_path command_args command =
     core_request_first w core request_type cache_mode command_args command
       (\<lambda>d n. ndm_core_response_first_bool d n parse_value value_path)"

section \<open>Asking with a formatted path\<close>

definition ndm_core_request_first_str_alloc_pf ::
  "core_world \<Rightarrow> ndm_core_t \<Rightarrow> ndm_core_request_type_t \<Rightarrow> ndm_core_cache_mode_t \<Rightarrow> cstring list option \<Rightarrow> cstring option \<Rightarrow>
   cstring option \<Rightarrow> (ndm_core_response_error_t \<times> cstring option \<times> ndm_core_t) result option" where
  "ndm_core_request_first_str_alloc_pf w core request_type cache_mode command_args command value_path =
     then_do (core_request_first w core request_type cache_mode command_args command
       (\<lambda>d n. core_response_first_str d n value_path)) (\<lambda>(e, v, core).
     if e = NDM_CORE_RESPONSE_ERROR_OK then
       let heap = core_heap core; core = core\<lparr>core_heap := heap_next heap\<rparr> in
       Some (Ok (if can_alloc heap then (e, v, core) else (NDM_CORE_RESPONSE_ERROR_SYSTEM, None, core)))
     else Some (Ok (e, None, core)))"

definition ndm_core_request_first_str_buffer_pf ::
  "core_world \<Rightarrow> ndm_core_t \<Rightarrow> ndm_core_request_type_t \<Rightarrow> ndm_core_cache_mode_t \<Rightarrow> cstring list option \<Rightarrow> cstring option \<Rightarrow> u64 \<Rightarrow>
   cstring option \<Rightarrow>
   (ndm_core_response_error_t \<times> (cstring \<times> int) option \<times> ndm_core_t) result option" where
  "ndm_core_request_first_str_buffer_pf w core request_type cache_mode command_args command value_buffer_size value_path =
     core_request_first w core request_type cache_mode command_args command
       (\<lambda>d n. then_do (core_response_first_str d n value_path) (\<lambda>(e, v).
          if e \<noteq> NDM_CORE_RESPONSE_ERROR_OK then Some (Ok (e, None))
          else then_do (Some (need v Ok)) (\<lambda>s. Some (Ok (core_value_to_buffer value_buffer_size s)))))"

definition ndm_core_request_first_int_pf ::
  "core_world \<Rightarrow> ndm_core_t \<Rightarrow> ndm_core_request_type_t \<Rightarrow> ndm_core_cache_mode_t \<Rightarrow> cstring list option \<Rightarrow> cstring option \<Rightarrow>
   cstring option \<Rightarrow> (ndm_core_response_error_t \<times> int option \<times> ndm_core_t) result option" where
  "ndm_core_request_first_int_pf w core request_type cache_mode command_args command value_path =
     core_request_first w core request_type cache_mode command_args command
       (\<lambda>d n. ndm_core_response_first_int d n value_path)"

definition ndm_core_request_first_uint_pf ::
  "core_world \<Rightarrow> ndm_core_t \<Rightarrow> ndm_core_request_type_t \<Rightarrow> ndm_core_cache_mode_t \<Rightarrow> cstring list option \<Rightarrow> cstring option \<Rightarrow>
   cstring option \<Rightarrow> (ndm_core_response_error_t \<times> u64 option \<times> ndm_core_t) result option" where
  "ndm_core_request_first_uint_pf w core request_type cache_mode command_args command value_path =
     core_request_first w core request_type cache_mode command_args command
       (\<lambda>d n. ndm_core_response_first_uint d n value_path)"

definition ndm_core_request_first_bool_pf ::
  "core_world \<Rightarrow> ndm_core_t \<Rightarrow> ndm_core_request_type_t \<Rightarrow> ndm_core_cache_mode_t \<Rightarrow> cstring list option \<Rightarrow> cstring option \<Rightarrow>
   bool \<Rightarrow> cstring option \<Rightarrow> (ndm_core_response_error_t \<times> bool option \<times> ndm_core_t) result option" where
  "ndm_core_request_first_bool_pf w core request_type cache_mode command_args command parse_value value_path =
     core_request_first w core request_type cache_mode command_args command
       (\<lambda>d n. ndm_core_response_first_bool d n parse_value value_path)"

end
