(* ===== verification/Core_Feedback.thy ===== *)
theory Core_Feedback
  imports Core_Request
begin

text \<open>
  Feedback to the core (\<^verbatim>\<open>src/core.c\<close>) and the environment it is given as one formatted
  text (\<^verbatim>\<open>src/feedback.c\<close>).
\<close>

section \<open>The document of a feedback\<close>

text \<open>Nodes that cannot be allocated are missing, and the document is no longer valid.\<close>

fun core_feedback_items :: "ndm_xml_document_t \<Rightarrow> nat \<Rightarrow> cstring list \<Rightarrow> ndm_xml_document_t result" where
  "core_feedback_items d input [] = Ok d"
| "core_feedback_items d input (arg # args) =
     bind_result (ndm_xml_node_append_child_str d input (Some (core_str ''item'')) (Some arg)) (\<lambda>(m, d).
     core_feedback_items d input args)"

text \<open>The two copies are made in the order of the text. Returned is whether an entry has no \<open>=\<close>.\<close>

fun core_feedback_env ::
  "ndm_xml_document_t \<Rightarrow> nat \<Rightarrow> cstring list \<Rightarrow> bool \<Rightarrow> (bool \<times> ndm_xml_document_t) result" where
  "core_feedback_env d environment [] invalid_args = Ok (invalid_args, d)"
| "core_feedback_env d environment (name # env_argv) invalid_args =
     (let k = length (takeWhile (\<lambda>c. c \<noteq> 61) name) in
      if k = length name then core_feedback_env d environment env_argv True
      else
        bind_result (ndm_xml_document_alloc_strn d (name @ [0]) (of_nat k)) (\<lambda>(env_name, d).
        bind_result (ndm_xml_document_alloc_str d (drop (Suc k) name)) (\<lambda>(env_value, d).
        bind_result (ndm_xml_document_alloc_node d NDM_XML_NODE_TYPE_ELEMENT env_name env_value) (\<lambda>(env_node, d).
        bind_result (if env_node = None then Ok d else ndm_xml_node_append_child d environment env_node) (\<lambda>d.
        core_feedback_env d environment env_argv invalid_args)))))"

definition core_feedback_document ::
  "ndm_xml_document_t \<Rightarrow> nat \<Rightarrow> cstring list \<Rightarrow> cstring list \<Rightarrow> (bool \<times> ndm_xml_document_t) result" where
  "core_feedback_document d root argv env_argv =
     bind_result (ndm_xml_node_append_child_str d root (Some (core_str ''feedback'')) None) (\<lambda>(feedback, d).
     case feedback of
       None \<Rightarrow> Ok (False, d)
     | Some f \<Rightarrow>
         bind_result (ndm_xml_node_append_child_str d f (Some (core_str ''from'')) (Some (hd argv))) (\<lambda>(sender, d).
         bind_result (ndm_xml_node_append_child_str d f (Some (core_str ''input'')) None) (\<lambda>(input, d).
         bind_result (ndm_xml_node_append_child_str d f (Some (core_str ''environment'')) None) (\<lambda>(environment, d).
         if sender = None \<or> input = None \<or> environment = None then Ok (False, d)
         else
           bind_result (core_feedback_items d (the input) (tl argv)) (\<lambda>d.
           core_feedback_env d (the environment) env_argv False)))))"

section \<open>Sending\<close>

text \<open>
  Without a name of the sender \<open>errno\<close> is set, and the document that has only its root is
  sent all the same.
\<close>

definition core_feedback_send ::
  "core_world \<Rightarrow> heap \<Rightarrow> core_conn \<Rightarrow> cstring list \<Rightarrow> cstring list \<Rightarrow> (bool \<times> errno option \<times> core_conn \<times> heap) result option" where
  "core_feedback_send w heap conn argv env_argv =
     then_do (Some (ndm_xml_document_alloc_root (ndm_xml_document_init heap (map (garbage heap) [0..<1024]) 1024 1024)))
       (\<lambda>(root, d).
     then_do
       (Some (if argv = [] then Ok (Some EINVAL, False, d)
              else case root of
                None \<Rightarrow> Ok (None, False, d)
              | Some r \<Rightarrow> bind_result (core_feedback_document d r argv env_argv) (\<lambda>(bad, d). Ok (None, bad, d))))
       (\<lambda>(e, invalid_args, d).
     let heap = pool_sys (doc_pool (ndm_xml_document_clear d)) in
     if invalid_args then Some (Ok (False, Some EINVAL, conn, heap))
     else if \<not> ndm_xml_document_is_valid d then Some (Ok (False, Some ENOMEM, conn, heap))
     else
       then_do (core_request_bytes w heap d root) (\<lambda>(bytes, e', heap).
       case bytes of
         None \<Rightarrow> Some (Ok (False, e', conn, heap))
       | Some bytes \<Rightarrow>
           then_do (core_send_document conn bytes) (\<lambda>(failed, conn).
           Some (Ok (failed = None, if failed = None then e else failed, conn, heap))))))"

definition core_feedback_recv ::
  "core_world \<Rightarrow> heap \<Rightarrow> core_conn \<Rightarrow> (bool \<times> errno option \<times> core_conn \<times> heap) result option" where
  "core_feedback_recv w heap conn =
     then_do (Some (ndm_xml_document_alloc_root (ndm_xml_document_init heap (map (garbage heap) [0..<1024]) 1024 1024)))
       (\<lambda>(root, d).
     case root of
       None \<Rightarrow> Some (Ok (False, Some ENOMEM, conn, pool_sys (doc_pool d)))
     | Some r \<Rightarrow>
         (case core_read_xml_children (w_host w) (conn\<lparr>conn_buffer := core_buffer_init (map (garbage heap) [0..<256])\<rparr>) d r root None True of
            IoUndefined \<Rightarrow> Some Undefined
          | IoWaiting \<Rightarrow> None
          | IoFailed e conn \<Rightarrow> Some (Ok (False, Some e, conn, heap))
          | IoDone d conn \<Rightarrow>
              let heap = pool_sys (doc_pool (ndm_xml_document_clear d)) in
              then_do (ndm_xml_node_first_child d r (Some (core_str ''feedback''))) (\<lambda>feedback.
              then_do
                (case feedback of
                   None \<Rightarrow> Some (Ok None)
                 | Some f \<Rightarrow> ndm_xml_node_first_child d f (Some (core_str ''exit''))) (\<lambda>exit.
              case exit of
                None \<Rightarrow> Some (Ok (False, Some EBADMSG, conn, heap))
              | Some x \<Rightarrow>
                  then_do (Some (core_node_text d x)) (\<lambda>s.
                  Some (Ok (case fst (ndm_int_parse_int s) of
                      None \<Rightarrow> (False, Some EBADMSG, conn, heap)
                    | Some exit_code \<Rightarrow>
                        if exit_code \<noteq> 0 then (False, Some EIO, conn, heap) else (True, None, conn, heap))))))))"

text \<open>The timeout of the caller is not used; the rounds of the connection stand for the default one.\<close>

definition ndm_core_feedback_ve ::
  "core_world \<Rightarrow> heap \<Rightarrow> core_conn + errno \<Rightarrow> int \<Rightarrow> cstring list \<Rightarrow> cstring list \<Rightarrow>
   (bool \<times> errno option \<times> core_conn option \<times> heap) result option" where
  "ndm_core_feedback_ve w heap connected timeout_msec argv env_argv =
     (case connected of
        Inr e \<Rightarrow> Some (Ok (False, Some e, None, heap))
      | Inl conn \<Rightarrow>
          then_do (core_feedback_send w heap conn argv env_argv) (\<lambda>(sent, e, conn, heap).
          if \<not> sent then Some (Ok (False, e, Some conn, heap))
          else
            then_do (core_feedback_recv w heap conn) (\<lambda>(good, e, conn, heap).
            Some (Ok (good, e, Some conn, heap)))))"

section \<open>The environment as one text\<close>

text \<open>
  The loop: \<open>env\<close> is the text with its terminator, which is cut at the separators;
  \<open>env_argv\<close> has the offsets of the entries, in a block with room for \<open>env_count\<close> pointers.
\<close>

function feedback_split ::
  "nat \<Rightarrow> nat \<Rightarrow> u8 list \<Rightarrow> nat \<Rightarrow> nat \<Rightarrow> nat list \<Rightarrow> bool \<Rightarrow> (u8 list \<times> nat list \<times> bool) result" where
  "feedback_split ret env_count env i env_start env_argv valid_format =
     (if i \<le> ret \<and> valid_format then
        if i \<ge> length env then Undefined
        else if env ! i = 10 \<or> i = ret then
          if env_start = i \<and> i = ret then feedback_split ret env_count env (Suc i) env_start env_argv valid_format
          else if length env_argv \<ge> env_count then Undefined
          else
            let env' = env[i := 0] in
            need (cstring_in env' env_start) (\<lambda>entry.
            feedback_split ret env_count env' (Suc i) (Suc i) (env_argv @ [env_start]) (61 \<in> set entry))
        else feedback_split ret env_count env (Suc i) env_start env_argv valid_format
      else Ok (env, env_argv, valid_format))"
  by auto
termination
  by (relation "measure (\<lambda>(ret, env_count, env, i, env_start, env_argv, valid_format). Suc ret - i)") auto

declare feedback_split.simps [simp del]

text \<open>The texts at the offsets; the list ends with \<open>NULL\<close>, for which there must be room.\<close>

definition feedback_entries :: "nat \<Rightarrow> u8 list \<Rightarrow> nat list \<Rightarrow> cstring list result" where
  "feedback_entries env_count env env_argv =
     (if length env_argv \<ge> env_count then Undefined
      else if \<forall>off \<in> set env_argv. cstring_in env off \<noteq> None then Ok (map (\<lambda>off. the (cstring_in env off)) env_argv)
      else Undefined)"

definition feedback_env_count :: "cstring \<Rightarrow> nat" where
  "feedback_env_count env = (if env \<noteq> [] then 1 else 0) + count_list env 10 + 1"

text \<open>The entries, and whether all of them have a \<open>=\<close>.\<close>

definition feedback_env :: "cstring \<Rightarrow> (cstring list \<times> bool) result" where
  "feedback_env env =
     (let env_count = feedback_env_count env in
      bind_result (feedback_split (length env) env_count (env @ [0]) 0 0 [] True) (\<lambda>(env', env_argv, valid_format).
      bind_result (feedback_entries env_count env' env_argv) (\<lambda>entries. Ok (entries, valid_format))))"

definition ndm_feedback_ve where
  "ndm_feedback_ve w heap connected timeout_msec argv env_argv =
     ndm_core_feedback_ve w heap connected timeout_msec argv env_argv"

definition ndm_feedback ::
  "core_world \<Rightarrow> heap \<Rightarrow> core_conn + errno \<Rightarrow> int \<Rightarrow> cstring list \<Rightarrow> cstring option \<Rightarrow>
   (bool \<times> errno option \<times> core_conn option \<times> heap) result option" where
  "ndm_feedback w heap connected timeout_msec args env_formatted =
     (case ndm_vasprintf heap env_formatted of (ret, text', e, heap) \<Rightarrow>
        case text' of
          None \<Rightarrow> Some (Ok (False, e, None, heap))
        | Some t \<Rightarrow>
            let env = text_of t in
            if feedback_env_count env > (2 ^ 64 - 1) div 8 \<or> \<not> can_alloc heap
            then Some (Ok (False, Some ENOMEM, None, if feedback_env_count env > (2 ^ 64 - 1) div 8 then heap else heap_next heap))
            else
              then_do (Some (feedback_env env)) (\<lambda>(env_argv, valid_format).
              if \<not> valid_format then Some (Ok (False, Some EINVAL, None, heap_next heap))
              else ndm_feedback_ve w (heap_next heap) connected timeout_msec args env_argv))"

section \<open>The entries are the lines of the text\<close>

function env_lines :: "cstring \<Rightarrow> cstring list" where
  "env_lines env =
     (if env = [] then []
      else takeWhile (\<lambda>c. c \<noteq> 10) env # env_lines (drop (Suc (length (takeWhile (\<lambda>c. c \<noteq> 10) env))) env))"
  by auto
termination by (relation "measure length") auto

declare env_lines.simps [simp del]

text \<open>The entries up to the first one without a \<open>=\<close>.\<close>

fun env_taken :: "cstring list \<Rightarrow> cstring list" where
  "env_taken [] = []"
| "env_taken (e # es) = e # (if 61 \<in> set e then env_taken es else [])"

lemma env_taken_all: "list_all (\<lambda>e. 61 \<in> set e) es \<Longrightarrow> env_taken es = es"
  by (induction es) auto

lemma env_taken_le: "length (env_taken es) \<le> length es"
  by (induction es) auto

lemma env_lines_Nil: "env_lines [] = []"
  by (simp add: env_lines.simps)

lemma env_lines_last: "10 \<notin> set s \<Longrightarrow> s \<noteq> [] \<Longrightarrow> env_lines s = [s]"
proof -
  assume s: "10 \<notin> set s" "s \<noteq> []"
  have "takeWhile (\<lambda>c. c \<noteq> 10) s = s" using s(1) by (intro takeWhile_eq_all_conv [THEN iffD2]) auto
  moreover have "env_lines [] = []" by (rule env_lines_Nil)
  ultimately show ?thesis using s(2) by (subst env_lines.simps) (simp only: if_False drop_all le_SucI le_refl)
qed

lemma env_lines_line: "10 \<notin> set s \<Longrightarrow> env_lines (s @ 10 # r) = s # env_lines r"
proof -
  assume "10 \<notin> set s"
  then have "takeWhile (\<lambda>c. c \<noteq> 10) (s @ 10 # r) = s" by (induction s) auto
  then show ?thesis by (subst env_lines.simps) simp
qed

lemma line_cases:
  obtains "10 \<notin> set s" | t r where "s = t @ 10 # r" "10 \<notin> set t"
  using split_list_first [of 10 s] by blast

lemma env_lines_count: "length (env_lines env) \<le> (if env \<noteq> [] then 1 else 0) + count_list env 10"
proof (induction env rule: length_induct)
  case (1 env)
  note IH = 1
  show ?case
  proof (cases rule: line_cases [of env])
    case 1
    then show ?thesis using env_lines_last [of env] env_lines_Nil by (cases "env = []") auto
  next
    case (2 t r)
    have "length (env_lines r) \<le> (if r \<noteq> [] then 1 else 0) + count_list r 10"
      using IH [rule_format, of r] 2(1) by simp
    then have "length (env_lines r) \<le> 1 + count_list r 10" by (simp split: if_splits)
    then show ?thesis using env_lines_line [OF 2(2), of r] 2 by (simp add: count_notin)
  qed
qed

lemma feedback_split_skip:
  assumes "10 \<notin> set s"
  shows "feedback_split (length pre + length s + length t) cnt (pre @ s @ t @ [0]) (length pre) st argv True =
    feedback_split (length pre + length s + length t) cnt (pre @ s @ t @ [0]) (length pre + length s) st argv True"
  using assms
proof (induction s arbitrary: pre)
  case (Cons c s)
  have "feedback_split (length pre + length (c # s) + length t) cnt (pre @ (c # s) @ t @ [0]) (length pre) st argv True =
      feedback_split (length pre + length (c # s) + length t) cnt (pre @ (c # s) @ t @ [0]) (Suc (length pre)) st argv True"
    using Cons.prems by (subst feedback_split.simps) auto
  then show ?case using Cons.IH [of "pre @ [c]"] Cons.prems by simp
qed simp

lemma cstring_at:
  assumes "0 \<notin> set s"
  shows "cstring_in (pre @ s @ 0 # r) (length pre) = Some s"
proof -
  have "takeWhile (\<lambda>c. c \<noteq> 0) (s @ 0 # r) = s" using assms by (induction s) auto
  then show ?thesis by (simp add: cstring_in_def)
qed

lemma feedback_split_lines:
  assumes "0 \<notin> set rest" "length argv + length (env_lines rest) < cnt"
  shows "\<exists>env' offs. feedback_split (length pre + length rest) cnt (pre @ rest @ [0]) (length pre) (length pre) argv True =
      Ok (pre @ env', argv @ offs, list_all (\<lambda>e. 61 \<in> set e) (env_lines rest)) \<and>
    map (cstring_in (pre @ env')) offs = map Some (env_taken (env_lines rest))"
  using assms
proof (induction rest arbitrary: pre argv rule: length_induct)
  case (1 rest)
  show ?case
  proof (cases "rest = []")
    case True
    then show ?thesis
      by (subst feedback_split.simps, subst feedback_split.simps) (simp add: env_lines_Nil)
  next
    case ne: False
    show ?thesis
    proof (cases rule: line_cases [of rest])
      case 1
      have "feedback_split (length pre + length rest) cnt (pre @ rest @ [0]) (length pre) (length pre) argv True =
          feedback_split (length pre + length rest) cnt (pre @ rest @ [0]) (length pre + length rest) (length pre) argv True"
        using feedback_split_skip [OF 1, of pre "[]"] by simp
      also have "\<dots> = Ok (pre @ rest @ [0], argv @ [length pre], 61 \<in> set rest)"
        using ne "1.prems" env_lines_last [OF 1 ne] cstring_at [of rest pre "[]"]
        by (subst feedback_split.simps, subst feedback_split.simps) (simp add: nth_append list_update_append)
      finally show ?thesis
        using env_lines_last [OF 1 ne] cstring_at [of rest pre "[]"] "1.prems"(1)
        by (intro exI [of _ "rest @ [0]"] exI [of _ "[length pre]"]) simp
    next
      case (2 t r)
      have t0: "0 \<notin> set t" "0 \<notin> set r" using "1.prems"(1) 2(1) by auto
      have cs: "cstring_in (pre @ t @ 0 # y) (length pre) = Some t" for y by (rule cstring_at [OF t0(1)])
      let ?n = "length pre + length rest" and ?pre = "pre @ t @ [0]"
      have "feedback_split ?n cnt (pre @ rest @ [0]) (length pre) (length pre) argv True =
          feedback_split ?n cnt (pre @ t @ 10 # r @ [0]) (length pre + length t) (length pre) argv True"
        using feedback_split_skip [OF 2(2), of pre "10 # r"] 2(1) by (simp add: add.assoc)
      also have "\<dots> = feedback_split ?n cnt (?pre @ r @ [0]) (Suc (length pre + length t)) (Suc (length pre + length t))
          (argv @ [length pre]) (61 \<in> set t)"
        using 2 "1.prems"(2) env_lines_line [OF 2(2), of r] cs [of "r @ [0]"]
        by (subst feedback_split.simps) (simp add: nth_append list_update_append)
      finally have step: "feedback_split ?n cnt (pre @ rest @ [0]) (length pre) (length pre) argv True =
          feedback_split (length ?pre + length r) cnt (?pre @ r @ [0]) (length ?pre) (length ?pre) (argv @ [length pre]) (61 \<in> set t)"
        using 2(1) by (simp add: add.assoc)
      show ?thesis
      proof (cases "61 \<in> set t")
        case False
        have "feedback_split (length ?pre + length r) cnt (?pre @ r @ [0]) (length ?pre) (length ?pre) (argv @ [length pre]) False =
            Ok (?pre @ r @ [0], argv @ [length pre], False)" by (subst feedback_split.simps) simp
        then show ?thesis
          using step False env_lines_line [OF 2(2), of r] cs [of "r @ [0]"] 2(1)
          by (intro exI [of _ "t @ [0] @ r @ [0]"] exI [of _ "[length pre]"]) simp
      next
        case True
        obtain env' offs where i: "feedback_split (length ?pre + length r) cnt (?pre @ r @ [0]) (length ?pre) (length ?pre) (argv @ [length pre]) True =
            Ok (?pre @ env', (argv @ [length pre]) @ offs, list_all (\<lambda>e. 61 \<in> set e) (env_lines r))"
            "map (cstring_in (?pre @ env')) offs = map Some (env_taken (env_lines r))"
          using "1.IH" [rule_format, of r "argv @ [length pre]" ?pre] "1.prems"(2) 2(1) t0 env_lines_line [OF 2(2), of r] by auto
        show ?thesis
          using step True i env_lines_line [OF 2(2), of r] cs [of env'] 2(1)
          by (intro exI [of _ "t @ [0] @ env'"] exI [of _ "length pre # offs"]) simp
      qed
    qed
  qed
qed

text \<open>
  C17: splitting the formatted environment stays within the text and within the
  array of pointers that was sized beforehand, accepts exactly the texts whose every line has a
  \<open>=\<close> (an empty last line is not counted), and then the entries are the lines.
\<close>

theorem feedback_env_lines:
  assumes "0 \<notin> set env"
  shows "feedback_env env =
    Ok (env_taken (env_lines env), list_all (\<lambda>e. 61 \<in> set e) (env_lines env)) \<and>
    (list_all (\<lambda>e. 61 \<in> set e) (env_lines env) \<longrightarrow> env_taken (env_lines env) = env_lines env)"
proof -
  have n: "length (env_lines env) < feedback_env_count env"
    using env_lines_count [of env] by (simp add: feedback_env_count_def)
  obtain env' offs where s: "feedback_split (length env) (feedback_env_count env) (env @ [0]) 0 0 [] True =
      Ok (env', offs, list_all (\<lambda>e. 61 \<in> set e) (env_lines env))"
      "map (cstring_in env') offs = map Some (env_taken (env_lines env))"
    using feedback_split_lines [of env "[]" "feedback_env_count env" "[]"] assms n by auto
  have "length offs = length (env_taken (env_lines env))" using s(2) by (metis length_map)
  then have "length offs < feedback_env_count env" using n env_taken_le [of "env_lines env"] by linarith
  moreover have "cstring_in env' off \<noteq> None" if "off \<in> set offs" for off
  proof -
    have "cstring_in env' off \<in> set (map Some (env_taken (env_lines env)))" using that s(2) by (metis image_eqI list.set_map)
    then show ?thesis by auto
  qed
  moreover have "map (\<lambda>off. the (cstring_in env' off)) offs = env_taken (env_lines env)"
    using arg_cong [OF s(2), of "map the"] by (simp add: comp_def)
  ultimately show ?thesis using s(1) env_taken_all
    by (simp add: feedback_env_def feedback_entries_def)
qed

theorem feedback_env_lines_witness:
  "feedback_env [65, 61, 49, 10, 66, 61, 10] = Ok ([[65, 61, 49], [66, 61]], True)"
  using feedback_env_lines [of "[65, 61, 49, 10, 66, 61, 10]"] by (simp add: env_lines.simps)

end
