(* ===== verification/Md5.thy ===== *)
theory Md5
  imports Endian
begin

text \<open>
  The MD5 digest (\<^verbatim>\<open>src/md5.c\<close>): the buffer \<open>in_\<close> is its 64 bytes of memory, the host may have
  either byte order. The end of the theory shows that pieces of any lengths give the digest
  that RFC 1321 defines for the whole message.
\<close>

record ndm_md5_t =
  md5_buf :: "u32 list"
  md5_bits :: "u32 \<times> u32"
  md5_in :: "u8 list"

section \<open>The transformation\<close>

definition revert_long :: "u8 list \<Rightarrow> u32" where
  "revert_long p =
     push_bit 24 (ucast (p ! 3)) OR push_bit 16 (ucast (p ! 2)) OR push_bit 8 (ucast (p ! 1)) OR push_bit 0 (ucast (p ! 0))"

fun revert_longs :: "host \<Rightarrow> u8 list \<Rightarrow> nat \<Rightarrow> u8 list" where
  "revert_longs h p 0 = p"
| "revert_longs h p (Suc longs) = mem_bytes h 4 (revert_long p) @ revert_longs h (drop 4 p) longs"

definition revert_bytes :: "host \<Rightarrow> u8 list \<Rightarrow> nat \<Rightarrow> u8 list" where
  "revert_bytes h buf longs = (if \<not> ndm_endian_is_le h then revert_longs h buf longs else buf)"

definition F1 :: "u32 \<Rightarrow> u32 \<Rightarrow> u32 \<Rightarrow> u32" where "F1 x y z = z XOR (x AND (y XOR z))"
definition F2 :: "u32 \<Rightarrow> u32 \<Rightarrow> u32 \<Rightarrow> u32" where "F2 x y z = F1 z x y"
definition F3 :: "u32 \<Rightarrow> u32 \<Rightarrow> u32 \<Rightarrow> u32" where "F3 x y z = x XOR y XOR z"
definition F4 :: "u32 \<Rightarrow> u32 \<Rightarrow> u32 \<Rightarrow> u32" where "F4 x y z = y XOR (x OR NOT z)"

definition MD5STEP :: "(u32 \<Rightarrow> u32 \<Rightarrow> u32 \<Rightarrow> u32) \<Rightarrow> u32 \<Rightarrow> u32 \<Rightarrow> u32 \<Rightarrow> u32 \<Rightarrow> u32 \<times> nat \<Rightarrow> u32" where
  "MD5STEP f w x y z ds =
     (let w = w + (f x y z + fst ds); w = push_bit (snd ds) w OR drop_bit (32 - snd ds) w in w + x)"

text \<open>Four lines of the table of steps, after which the registers are where they were.\<close>

fun md5_quad ::
  "(u32 \<Rightarrow> u32 \<Rightarrow> u32 \<Rightarrow> u32) \<Rightarrow> u32 \<times> nat \<Rightarrow> u32 \<times> nat \<Rightarrow> u32 \<times> nat \<Rightarrow> u32 \<times> nat \<Rightarrow>
   u32 \<times> u32 \<times> u32 \<times> u32 \<Rightarrow> u32 \<times> u32 \<times> u32 \<times> u32" where
  "md5_quad f d0 d1 d2 d3 (a, b, c, d) =
     (let a = MD5STEP f a b c d d0; d = MD5STEP f d a b c d1; c = MD5STEP f c d a b d2; b = MD5STEP f b c d a d3
      in (a, b, c, d))"

definition transform :: "u32 list \<Rightarrow> u32 list \<Rightarrow> u32 list" where
  "transform buf i =
     (let s = (buf ! 0, buf ! 1, buf ! 2, buf ! 3);
         s = md5_quad F1 (i ! 0 + 0xd76aa478, 7) (i ! 1 + 0xe8c7b756, 12) (i ! 2 + 0x242070db, 17) (i ! 3 + 0xc1bdceee, 22) s;
         s = md5_quad F1 (i ! 4 + 0xf57c0faf, 7) (i ! 5 + 0x4787c62a, 12) (i ! 6 + 0xa8304613, 17) (i ! 7 + 0xfd469501, 22) s;
         s = md5_quad F1 (i ! 8 + 0x698098d8, 7) (i ! 9 + 0x8b44f7af, 12) (i ! 10 + 0xffff5bb1, 17) (i ! 11 + 0x895cd7be, 22) s;
         s = md5_quad F1 (i ! 12 + 0x6b901122, 7) (i ! 13 + 0xfd987193, 12) (i ! 14 + 0xa679438e, 17) (i ! 15 + 0x49b40821, 22) s;
         s = md5_quad F2 (i ! 1 + 0xf61e2562, 5) (i ! 6 + 0xc040b340, 9) (i ! 11 + 0x265e5a51, 14) (i ! 0 + 0xe9b6c7aa, 20) s;
         s = md5_quad F2 (i ! 5 + 0xd62f105d, 5) (i ! 10 + 0x02441453, 9) (i ! 15 + 0xd8a1e681, 14) (i ! 4 + 0xe7d3fbc8, 20) s;
         s = md5_quad F2 (i ! 9 + 0x21e1cde6, 5) (i ! 14 + 0xc33707d6, 9) (i ! 3 + 0xf4d50d87, 14) (i ! 8 + 0x455a14ed, 20) s;
         s = md5_quad F2 (i ! 13 + 0xa9e3e905, 5) (i ! 2 + 0xfcefa3f8, 9) (i ! 7 + 0x676f02d9, 14) (i ! 12 + 0x8d2a4c8a, 20) s;
         s = md5_quad F3 (i ! 5 + 0xfffa3942, 4) (i ! 8 + 0x8771f681, 11) (i ! 11 + 0x6d9d6122, 16) (i ! 14 + 0xfde5380c, 23) s;
         s = md5_quad F3 (i ! 1 + 0xa4beea44, 4) (i ! 4 + 0x4bdecfa9, 11) (i ! 7 + 0xf6bb4b60, 16) (i ! 10 + 0xbebfbc70, 23) s;
         s = md5_quad F3 (i ! 13 + 0x289b7ec6, 4) (i ! 0 + 0xeaa127fa, 11) (i ! 3 + 0xd4ef3085, 16) (i ! 6 + 0x04881d05, 23) s;
         s = md5_quad F3 (i ! 9 + 0xd9d4d039, 4) (i ! 12 + 0xe6db99e5, 11) (i ! 15 + 0x1fa27cf8, 16) (i ! 2 + 0xc4ac5665, 23) s;
         s = md5_quad F4 (i ! 0 + 0xf4292244, 6) (i ! 7 + 0x432aff97, 10) (i ! 14 + 0xab9423a7, 15) (i ! 5 + 0xfc93a039, 21) s;
         s = md5_quad F4 (i ! 12 + 0x655b59c3, 6) (i ! 3 + 0x8f0ccc92, 10) (i ! 10 + 0xffeff47d, 15) (i ! 1 + 0x85845dd1, 21) s;
         s = md5_quad F4 (i ! 8 + 0x6fa87e4f, 6) (i ! 15 + 0xfe2ce6e0, 10) (i ! 6 + 0xa3014314, 15) (i ! 13 + 0x4e0811a1, 21) s;
         s = md5_quad F4 (i ! 4 + 0xf7537e82, 6) (i ! 11 + 0xbd3af235, 10) (i ! 2 + 0x2ad7d2bb, 15) (i ! 9 + 0xeb86d391, 21) s
      in case s of (a, b, c, d) \<Rightarrow> [buf ! 0 + a, buf ! 1 + b, buf ! 2 + c, buf ! 3 + d])"

text \<open>The words of the buffer.\<close>

definition md5_words :: "host \<Rightarrow> u8 list \<Rightarrow> u32 list" where
  "md5_words h mem = map (\<lambda>k. mem_value h (take 4 (drop (4 * k) mem))) [0..<16]"

section \<open>Operations\<close>

definition ndm_md5_init :: "ndm_md5_t \<Rightarrow> ndm_md5_t" where
  "ndm_md5_init md5 = md5\<lparr>md5_buf := [0x67452301, 0xefcdab89, 0x98badcfe, 0x10325476], md5_bits := (0, 0)\<rparr>"

text \<open>The full buffer is reverted in place and transformed.\<close>

definition md5_block :: "host \<Rightarrow> ndm_md5_t \<Rightarrow> ndm_md5_t" where
  "md5_block h md5 =
     (let mem = revert_bytes h (md5_in md5) 16 in
      md5\<lparr>md5_in := mem, md5_buf := transform (md5_buf md5) (md5_words h mem)\<rparr>)"

text \<open>Bytes copied into the buffer at an offset.\<close>

definition md5_fill :: "ndm_md5_t \<Rightarrow> nat \<Rightarrow> u8 list \<Rightarrow> ndm_md5_t result" where
  "md5_fill md5 off bs = need (mem_write (md5_in md5) off bs) (\<lambda>mem. Ok (md5\<lparr>md5_in := mem\<rparr>))"

function md5_blocks :: "host \<Rightarrow> ndm_md5_t \<Rightarrow> u8 list \<Rightarrow> ndm_md5_t result" where
  "md5_blocks h md5 buf =
     (if length buf \<ge> 64 then
        bind_result (md5_fill md5 0 (take 64 buf)) (\<lambda>md5. md5_blocks h (md5_block h md5) (drop 64 buf))
      else md5_fill md5 0 buf)"
  by auto
termination by (relation "measure (\<lambda>(h, md5, buf). length buf)") auto

declare md5_blocks.simps [simp del]

definition md5_count :: "ndm_md5_t \<Rightarrow> u64 \<Rightarrow> u32 \<times> u32" where
  "md5_count md5 len =
     (case md5_bits md5 of (t, high) \<Rightarrow>
        let low = t + push_bit 3 (ucast len) in
        (low, (if low < t then high + 1 else high) + ucast (drop_bit 29 len)))"

definition ndm_md5_update :: "host \<Rightarrow> ndm_md5_t \<Rightarrow> u8 list \<Rightarrow> ndm_md5_t result" where
  "ndm_md5_update h md5 buf =
     (let t = unat (drop_bit 3 (fst (md5_bits md5)) AND 0x3f);
          md5 = md5\<lparr>md5_bits := md5_count md5 (of_nat (length buf))\<rparr> in
      if t > 0 then
        if length buf < 64 - t then md5_fill md5 t buf
        else
          bind_result (md5_fill md5 t (take (64 - t) buf)) (\<lambda>md5.
          md5_blocks h (md5_block h md5) (drop (64 - t) buf))
      else md5_blocks h md5 buf)"

definition md5_zero :: ndm_md5_t where
  "md5_zero = \<lparr>md5_buf = replicate 4 0, md5_bits = (0, 0), md5_in = replicate 64 0\<rparr>"

text \<open>Returned are the digest and the cleared state.\<close>

definition ndm_md5_digest :: "host \<Rightarrow> ndm_md5_t \<Rightarrow> (u8 list \<times> ndm_md5_t) result" where
  "ndm_md5_digest h md5 =
     (let count = unat (drop_bit 3 (fst (md5_bits md5)) AND 0x3f) in
      bind_result (md5_fill md5 count [0x80]) (\<lambda>md5.
      let p = count + 1; count = 64 - 1 - count in
      bind_result
        (if count < 8 then
           bind_result (md5_fill md5 p (replicate count 0)) (\<lambda>md5. md5_fill (md5_block h md5) 0 (replicate 56 0))
         else md5_fill md5 p (replicate (count - 8) 0)) (\<lambda>md5.
      let md5 = md5\<lparr>md5_in := revert_bytes h (md5_in md5) 14\<rparr> in
      bind_result (md5_fill md5 56 (mem_bytes h 4 (fst (md5_bits md5)) @ mem_bytes h 4 (snd (md5_bits md5)))) (\<lambda>md5.
      let buf = transform (md5_buf md5) (md5_words h (md5_in md5)) in
      Ok (revert_bytes h (concat (map (mem_bytes h 4) buf)) 4, md5_zero)))))"

definition hex_digit :: "nat \<Rightarrow> u8" where
  "hex_digit n = (if n < 10 then 48 + of_nat n else 87 + of_nat n)"

text \<open>\<open>%08x\<close>.\<close>

definition print_hex32 :: "u32 \<Rightarrow> u8 list" where
  "print_hex32 x = map (\<lambda>k. hex_digit (unat (drop_bit (28 - 4 * k) x AND 0xf))) [0..<8]"

definition ndm_md5_text_digest :: "host \<Rightarrow> ndm_md5_t \<Rightarrow> (u8 list \<times> ndm_md5_t) result" where
  "ndm_md5_text_digest h md5 =
     bind_result (ndm_md5_digest h md5) (\<lambda>(digest, md5).
     let bdigest = map (\<lambda>k. mem_value h (take 4 (drop (4 * k) digest))) [0..<4] in
     Ok (concat (map (\<lambda>w. print_hex32 (ndm_endian_htobe32 h w)) bdigest), md5))"

section \<open>The reference\<close>

text \<open>RFC 1321: one loop of 64 rounds over rotating registers.\<close>

definition MD5_T :: "u32 list" where
  "MD5_T =
    [0xd76aa478, 0xe8c7b756, 0x242070db, 0xc1bdceee, 0xf57c0faf, 0x4787c62a, 0xa8304613, 0xfd469501,
     0x698098d8, 0x8b44f7af, 0xffff5bb1, 0x895cd7be, 0x6b901122, 0xfd987193, 0xa679438e, 0x49b40821,
     0xf61e2562, 0xc040b340, 0x265e5a51, 0xe9b6c7aa, 0xd62f105d, 0x02441453, 0xd8a1e681, 0xe7d3fbc8,
     0x21e1cde6, 0xc33707d6, 0xf4d50d87, 0x455a14ed, 0xa9e3e905, 0xfcefa3f8, 0x676f02d9, 0x8d2a4c8a,
     0xfffa3942, 0x8771f681, 0x6d9d6122, 0xfde5380c, 0xa4beea44, 0x4bdecfa9, 0xf6bb4b60, 0xbebfbc70,
     0x289b7ec6, 0xeaa127fa, 0xd4ef3085, 0x04881d05, 0xd9d4d039, 0xe6db99e5, 0x1fa27cf8, 0xc4ac5665,
     0xf4292244, 0x432aff97, 0xab9423a7, 0xfc93a039, 0x655b59c3, 0x8f0ccc92, 0xffeff47d, 0x85845dd1,
     0x6fa87e4f, 0xfe2ce6e0, 0xa3014314, 0x4e0811a1, 0xf7537e82, 0xbd3af235, 0x2ad7d2bb, 0xeb86d391]"

definition MD5_S :: "nat list list" where
  "MD5_S = [[7, 12, 17, 22], [5, 9, 14, 20], [4, 11, 16, 23], [6, 10, 15, 21]]"

definition rfc_mix :: "nat \<Rightarrow> u32 \<Rightarrow> u32 \<Rightarrow> u32 \<Rightarrow> u32" where
  "rfc_mix j x y z =
     (if j = 0 then (x AND y) OR (NOT x AND z)
      else if j = 1 then (x AND z) OR (y AND NOT z)
      else if j = 2 then x XOR y XOR z
      else y XOR (x OR NOT z))"

definition rfc_index :: "nat \<Rightarrow> nat" where
  "rfc_index k =
     (if k < 16 then k else if k < 32 then (5 * k + 1) mod 16 else if k < 48 then (3 * k + 5) mod 16 else 7 * k mod 16)"

definition rotl32 :: "nat \<Rightarrow> u32 \<Rightarrow> u32" where
  "rotl32 s x = push_bit s x OR drop_bit (32 - s) x"

fun rfc_round :: "u32 list \<Rightarrow> nat \<Rightarrow> u32 \<times> u32 \<times> u32 \<times> u32 \<Rightarrow> u32 \<times> u32 \<times> u32 \<times> u32" where
  "rfc_round m k (a, b, c, d) =
     (d, b + rotl32 (MD5_S ! (k div 16) ! (k mod 4)) (a + rfc_mix (k div 16) b c d + m ! rfc_index k + MD5_T ! k), b, c)"

definition rfc_block :: "u32 list \<Rightarrow> u32 list \<Rightarrow> u32 list" where
  "rfc_block st m =
     (case fold (rfc_round m) [0..<64] (st ! 0, st ! 1, st ! 2, st ! 3) of
        (a, b, c, d) \<Rightarrow> [st ! 0 + a, st ! 1 + b, st ! 2 + c, st ! 3 + d])"

lemma F_rfc: "F1 = rfc_mix 0" "F2 = rfc_mix 1" "F3 = rfc_mix 2" "F4 = rfc_mix 3"
  by (intro ext bit_eqI; auto simp: F1_def F2_def F3_def F4_def rfc_mix_def bit_simps)+

lemma md5_quad_rfc:
  "md5_quad (rfc_mix j) (m ! rfc_index k + MD5_T ! k, MD5_S ! (k div 16) ! (k mod 4))
     (m ! rfc_index (k + 1) + MD5_T ! (k + 1), MD5_S ! ((k + 1) div 16) ! ((k + 1) mod 4))
     (m ! rfc_index (k + 2) + MD5_T ! (k + 2), MD5_S ! ((k + 2) div 16) ! ((k + 2) mod 4))
     (m ! rfc_index (k + 3) + MD5_T ! (k + 3), MD5_S ! ((k + 3) div 16) ! ((k + 3) mod 4)) s =
   fold (rfc_round m) [k, k + 1, k + 2, k + 3] s"
  if "k div 16 = j" "(k + 1) div 16 = j" "(k + 2) div 16 = j" "(k + 3) div 16 = j"
  using that by (cases s) (simp add: Let_def MD5STEP_def rotl32_def ac_simps)

declare md5_quad.simps [simp del] rfc_round.simps [simp del]

lemma upto64: "[0..<64::nat] = [0, 1, 2, 3] @ [4, 5, 6, 7] @ [8, 9, 10, 11] @ [12, 13, 14, 15] @ [16, 17, 18, 19] @ [20, 21, 22, 23] @ [24, 25, 26, 27] @ [28, 29, 30, 31] @ [32, 33, 34, 35] @ [36, 37, 38, 39] @ [40, 41, 42, 43] @ [44, 45, 46, 47] @ [48, 49, 50, 51] @ [52, 53, 54, 55] @ [56, 57, 58, 59] @ [60, 61, 62, 63]"
  by (simp add: upt_rec)

lemma transform_rfc: "transform buf m = rfc_block buf m"
  using md5_quad_rfc [of 0 0 m] md5_quad_rfc [of 4 0 m] md5_quad_rfc [of 8 0 m] md5_quad_rfc [of 12 0 m] md5_quad_rfc [of 16 1 m] md5_quad_rfc [of 20 1 m] md5_quad_rfc [of 24 1 m] md5_quad_rfc [of 28 1 m] md5_quad_rfc [of 32 2 m] md5_quad_rfc [of 36 2 m] md5_quad_rfc [of 40 2 m] md5_quad_rfc [of 44 2 m] md5_quad_rfc [of 48 3 m] md5_quad_rfc [of 52 3 m] md5_quad_rfc [of 56 3 m] md5_quad_rfc [of 60 3 m]
  by (simp add: transform_def rfc_block_def upto64 Let_def F_rfc rfc_index_def MD5_T_def MD5_S_def
      del: fold_simps fold.simps append.simps One_nat_def add_2_eq_Suc add_2_eq_Suc')

section \<open>Memory of either byte order\<close>

lemma revert_long_le: "length p \<ge> 4 \<Longrightarrow> revert_long p = mem_value LittleEndian (take 4 p)"
proof -
  assume "length p \<ge> 4"
  then obtain a b c d q where "p = a # b # c # d # q" by (auto simp: Suc_le_length_iff numeral_eq_Suc)
  then show ?thesis
    by (simp add: revert_long_def mem_value_def bytes_value_def push_bit_or or.assoc [symmetric])
qed

lemma revert_longs_at:
  assumes "k < n" "4 * n \<le> length p"
  shows "take 4 (drop (4 * k) (revert_longs h p n)) = mem_bytes h 4 (revert_long (drop (4 * k) p))"
  using assms
proof (induction n arbitrary: p k)
  case (Suc n)
  show ?case
  proof (cases k)
    case (Suc j)
    then have "take 4 (drop (4 * j) (revert_longs h (drop 4 p) n)) = mem_bytes h 4 (revert_long (drop (4 * j) (drop 4 p)))"
      using Suc.prems by (intro Suc.IH) auto
    then show ?thesis using Suc by (simp add: add.commute)
  qed simp
qed simp

lemma length_revert_longs: "4 * n \<le> length p \<Longrightarrow> length (revert_longs h p n) = length p"
  by (induction n arbitrary: p) auto

lemma length_revert_bytes: "4 * n \<le> length p \<Longrightarrow> length (revert_bytes h p n) = length p"
  by (simp add: revert_bytes_def length_revert_longs)

text \<open>A reverted word reads as the little-endian one.\<close>

lemma revert_bytes_word:
  assumes "k < n" "4 * n \<le> length p"
  shows "mem_value h (take 4 (drop (4 * k) (revert_bytes h p n))) = (mem_value LittleEndian (take 4 (drop (4 * k) p)) :: u32)"
proof (cases h)
  case BigEndian
  have "length (drop (4 * k) p) \<ge> 4" using assms by simp
  then show ?thesis using BigEndian revert_longs_at [OF assms] revert_long_le [of "drop (4 * k) p"]
    by (simp add: revert_bytes_def mem_value_mem_bytes)
qed (simp add: revert_bytes_def)

lemma words_revert: "length mem = 64 \<Longrightarrow> md5_words h (revert_bytes h mem 16) = md5_words LittleEndian mem"
  by (simp add: md5_words_def revert_bytes_word)

lemma words_tail:
  assumes "length mem = 64"
  shows "md5_words h (take 56 (revert_bytes h mem 14) @ mem_bytes h 4 x @ mem_bytes h 4 y) =
    md5_words LittleEndian (take 56 mem @ mem_bytes LittleEndian 4 (x :: u32) @ mem_bytes LittleEndian 4 (y :: u32))"
proof -
  let ?a = "take 56 (revert_bytes h mem 14) @ mem_bytes h 4 x @ mem_bytes h 4 y"
  let ?b = "take 56 mem @ mem_bytes LittleEndian 4 x @ mem_bytes LittleEndian 4 y"
  have "mem_value h (take 4 (drop (4 * k) ?a)) = (mem_value LittleEndian (take 4 (drop (4 * k) ?b)) :: u32)" if k: "k < 16" for k
  proof -
    consider "k < 14" | "k = 14" | "k = 15" using k by linarith
    then show ?thesis
    proof cases
      case 1
      then have "take 4 (drop (4 * k) (take 56 z)) = take 4 (drop (4 * k) z)" for z :: "u8 list"
        by (simp add: drop_take min_def)
      then show ?thesis using 1 assms revert_bytes_word [of k 14 mem h] by (simp add: length_revert_bytes)
    qed (use assms in \<open>simp_all add: length_revert_bytes mem_value_mem_bytes\<close>)
  qed
  then show ?thesis by (simp add: md5_words_def)
qed

lemma be_le_bytes: "mem_bytes BigEndian 4 (mem_value LittleEndian (mem_bytes BigEndian 4 w) :: u32) = mem_bytes LittleEndian 4 (w :: u32)"
proof -
  have r: "mem_bytes BigEndian 4 v = rev (mem_bytes LittleEndian 4 v)" for v :: u32 by (simp add: mem_bytes_def)
  show ?thesis by (simp add: r [of "mem_value _ _"] mem_bytes_mem_value) (simp add: r)
qed

lemma revert_digest:
  "revert_bytes h (concat (map (mem_bytes h 4) [a, b, c, d])) 4 = concat (map (mem_bytes LittleEndian 4) [a, b, c, d :: u32])"
proof (cases h)
  case BigEndian
  have step: "revert_longs BigEndian (mem_bytes BigEndian 4 w @ r) (Suc n) = mem_bytes LittleEndian 4 w @ revert_longs BigEndian r n"
    for w :: u32 and r n by (simp add: revert_long_le be_le_bytes)
  have "revert_longs BigEndian p 4 = revert_longs BigEndian p (Suc (Suc (Suc (Suc 0))))" for p
    by (simp only: numeral_eq_Suc pred_numeral_simps BitM.simps)
  then show ?thesis using BigEndian step [of d "[]" 0] by (simp add: revert_bytes_def step del: revert_longs.simps(2))
qed (simp add: revert_bytes_def)

section \<open>The message in blocks\<close>

function md5_fold :: "u32 list \<Rightarrow> u8 list \<Rightarrow> u32 list \<times> u8 list" where
  "md5_fold st msg =
     (if length msg \<ge> 64 then md5_fold (rfc_block st (md5_words LittleEndian (take 64 msg))) (drop 64 msg) else (st, msg))"
  by auto
termination by (relation "measure (\<lambda>(st, msg). length msg)") auto

declare md5_fold.simps [simp del]

lemma md5_fold_short: "length msg < 64 \<Longrightarrow> md5_fold st msg = (st, msg)"
  by (subst md5_fold.simps) simp

lemma md5_fold_block:
  "length b = 64 \<Longrightarrow> md5_fold st (b @ msg) = md5_fold (rfc_block st (md5_words LittleEndian b)) msg"
  by (subst md5_fold.simps) simp

lemma md5_fold_append: "md5_fold st (a @ b) = (case md5_fold st a of (s, r) \<Rightarrow> md5_fold s (r @ b))"
proof (induction st a rule: md5_fold.induct)
  case (1 st a)
  show ?case
  proof (cases "length a \<ge> 64")
    case True
    have "md5_fold st (a @ b) = md5_fold (rfc_block st (md5_words LittleEndian (take 64 a))) (drop 64 a @ b)"
      using True md5_fold_block [of "take 64 a" st "drop 64 a @ b"] append_take_drop_id [of 64 a]
      by (simp del: append_take_drop_id flip: append_assoc)
    then show ?thesis using 1 [OF True] True by (simp add: md5_fold.simps [of st a])
  next
    case False
    then show ?thesis by (simp add: md5_fold_short)
  qed
qed

lemma md5_fold_rest: "length (snd (md5_fold st a)) = length a mod 64"
proof (induction st a rule: md5_fold.induct)
  case (1 st a)
  show ?case
  proof (cases "length a \<ge> 64")
    case True
    then show ?thesis using 1 [OF True] by (subst md5_fold.simps) (simp add: le_mod_geq)
  next
    case False
    then show ?thesis by (simp add: md5_fold_short)
  qed
qed

lemma md5_fold_four: "length st = 4 \<Longrightarrow> length (fst (md5_fold st a)) = 4"
proof (induction st a rule: md5_fold.induct)
  case (1 st a)
  have "length (rfc_block st m) = 4" for m by (simp add: rfc_block_def split: prod.splits)
  then show ?case using 1 by (subst md5_fold.simps) simp
qed

definition MD5_IV :: "u32 list" where
  "MD5_IV = [0x67452301, 0xefcdab89, 0x98badcfe, 0x10325476]"

text \<open>The length in bits, its low-order word first.\<close>

definition rfc_length :: "nat \<Rightarrow> u32 \<times> u32" where
  "rfc_length n = (of_nat (8 * n), of_nat (8 * n div 2 ^ 32))"

definition rfc_padding :: "nat \<Rightarrow> u8 list" where
  "rfc_padding n = [0x80] @ replicate ((119 - n mod 64) mod 64) 0 @
     mem_bytes LittleEndian 4 (fst (rfc_length n)) @ mem_bytes LittleEndian 4 (snd (rfc_length n))"

definition rfc_md5 :: "u8 list \<Rightarrow> u8 list" where
  "rfc_md5 msg = concat (map (mem_bytes LittleEndian 4) (fst (md5_fold MD5_IV (msg @ rfc_padding (length msg)))))"

text \<open>The state after a message.\<close>

definition md5_state :: "ndm_md5_t \<Rightarrow> u8 list \<Rightarrow> bool" where
  "md5_state md5 msg \<longleftrightarrow>
     length (md5_in md5) = 64 \<and> md5_bits md5 = rfc_length (length msg) \<and>
     (case md5_fold MD5_IV msg of (st, r) \<Rightarrow> md5_buf md5 = st \<and> take (length r) (md5_in md5) = r)"

lemma md5_init_state: "length (md5_in md5) = 64 \<Longrightarrow> md5_state (ndm_md5_init md5) []"
  by (simp add: md5_state_def ndm_md5_init_def rfc_length_def md5_fold_short MD5_IV_def)

lemma add_carry:
  fixes a b m :: nat
  assumes "m > 0"
  shows "(a + b) mod m < a mod m \<longleftrightarrow> m \<le> a mod m + b mod m"
    and "(a + b) div m = a div m + b div m + (if m \<le> a mod m + b mod m then 1 else 0)"
proof -
  have le: "a mod m < m" "b mod m < m" using assms by simp_all
  have e: "(a + b) mod m = (if m \<le> a mod m + b mod m then a mod m + b mod m - m else a mod m + b mod m)"
  proof -
    have two: "x < 2 * m \<Longrightarrow> x mod m = (if m \<le> x then x - m else x)" for x by (simp add: le_mod_geq)
    have "(a + b) mod m = (a mod m + b mod m) mod m" by (simp add: mod_add_eq)
    also have "\<dots> = (if m \<le> a mod m + b mod m then a mod m + b mod m - m else a mod m + b mod m)"
      using two [of "a mod m + b mod m"] le by linarith
    finally show ?thesis .
  qed
  show "(a + b) mod m < a mod m \<longleftrightarrow> m \<le> a mod m + b mod m" using e le by auto
  have "(a mod m + b mod m) div m = (if m \<le> a mod m + b mod m then 1 else 0)"
  proof -
    have "x < 2 * m \<Longrightarrow> x div m = (if m \<le> x then 1 else 0)" for x using assms by (simp add: le_div_geq)
    from this [of "a mod m + b mod m"] show ?thesis using le by linarith
  qed
  then show "(a + b) div m = a div m + b div m + (if m \<le> a mod m + b mod m then 1 else 0)"
    by (simp only: div_add1_eq [of a b m])
qed

lemma md5_count_carry:
  assumes "md5_bits md5 = rfc_length n" and k: "k < 2 ^ 64"
  shows "md5_count md5 (of_nat k) = rfc_length (n + k)"
proof -
  have len: "unat (of_nat k :: u64) = k" using k by (simp add: unat_of_nat)
  have uc: "ucast w = (of_nat (unat w) :: u32)" for w :: u64 by simp
  have low: "push_bit 3 (ucast (of_nat k :: u64)) = (of_nat (8 * k) :: u32)"
    by (simp only: uc len) (simp add: push_bit_eq_mult mult.commute)
  have "unat (drop_bit 29 (of_nat k :: u64)) = k div 2 ^ 29"
    using len by (metis unat_drop_bit_eq drop_bit_eq_div)
  also have "\<dots> = 8 * k div 2 ^ 32" using div_mult_mult1 [of "8 :: nat" k "2 ^ 29"] by simp
  finally have high: "ucast (drop_bit 29 (of_nat k :: u64)) = (of_nat (8 * k div 2 ^ 32) :: u32)"
    by (simp only: uc)
  have less: "(of_nat a + of_nat b :: u32) < of_nat a \<longleftrightarrow> 2 ^ 32 \<le> a mod 2 ^ 32 + b mod 2 ^ 32" for a b
    using add_carry(1) [of "2 ^ 32" a b] by (simp add: word_less_nat_alt unat_of_nat flip: of_nat_add)
  show ?thesis
    using assms(1) add_carry(2) [of "2 ^ 32" "8 * n" "8 * k"]
    by (simp only: md5_count_def rfc_length_def prod.case Let_def low high less distrib_left prod.inject of_nat_add)
       (simp add: less add.commute add.left_commute)
qed

text \<open>The offset in the buffer is the length of the message modulo 64.\<close>

lemma md5_offset: "unat (drop_bit 3 (fst (rfc_length n)) AND 0x3f) = n mod 64"
proof -
  have "unat (fst (rfc_length n)) = 8 * (n mod 2 ^ 29)"
    using mod_mult_mult1 [of 8 n "2 ^ 29"] by (simp only: rfc_length_def fst_conv unat_of_nat) simp
  then have "unat (drop_bit 3 (fst (rfc_length n))) = n mod 2 ^ 29"
    by (simp only: unat_drop_bit_eq) (simp add: drop_bit_eq_div)
  moreover have "w AND 0x3f = take_bit 6 w" for w :: u32
    by (simp add: take_bit_eq_mask mask_eq_exp_minus_1)
  moreover have "n mod 2 ^ 29 mod 64 = n mod 64" by (simp add: mod_mod_cancel)
  ultimately show ?thesis by (simp only: unsigned_take_bit_eq) (simp add: take_bit_eq_mod)
qed

lemma md5_fill_ok:
  "off + length bs \<le> length (md5_in md5) \<Longrightarrow>
   md5_fill md5 off bs = Ok (md5\<lparr>md5_in := take off (md5_in md5) @ bs @ drop (off + length bs) (md5_in md5)\<rparr>)"
  by (simp add: md5_fill_def mem_write_def)

lemma md5_block_sel:
  "md5_bits (md5_block h md5) = md5_bits md5"
  "length (md5_in md5) = 64 \<Longrightarrow> length (md5_in (md5_block h md5)) = 64"
  "length (md5_in md5) = 64 \<Longrightarrow> md5_buf (md5_block h md5) = rfc_block (md5_buf md5) (md5_words LittleEndian (md5_in md5))"
  by (simp_all add: md5_block_def Let_def length_revert_bytes transform_rfc words_revert)

lemma md5_blocks_fold:
  "length (md5_in md5) = 64 \<Longrightarrow>
   \<exists>md5'. md5_blocks h md5 buf = Ok md5' \<and> md5_bits md5' = md5_bits md5 \<and> length (md5_in md5') = 64 \<and>
     (case md5_fold (md5_buf md5) buf of (st, r) \<Rightarrow> md5_buf md5' = st \<and> take (length r) (md5_in md5') = r)"
proof (induction h md5 buf rule: md5_blocks.induct)
  case (1 h md5 buf)
  show ?case
  proof (cases "length buf \<ge> 64")
    case True
    let ?m = "md5\<lparr>md5_in := take 64 buf\<rparr>"
    have fill: "md5_fill md5 0 (take 64 buf) = Ok ?m" using True "1.prems" by (simp add: md5_fill_ok)
    have "length (md5_in (md5_block h ?m)) = 64" using True by (simp add: md5_block_sel)
    from "1.IH" [OF True this] fill True show ?thesis
      by (subst md5_blocks.simps, subst md5_fold.simps) (simp add: md5_block_sel)
  next
    case False
    then show ?thesis using "1.prems" by (subst md5_blocks.simps) (simp add: md5_fill_ok md5_fold_short)
  qed
qed

lemma md5_update_state:
  assumes st: "md5_state md5 msg" and len: "length buf < 2 ^ 64"
  shows "\<exists>md5'. ndm_md5_update h md5 buf = Ok md5' \<and> md5_state md5' (msg @ buf)"
proof -
  obtain s r where f: "md5_fold MD5_IV msg = (s, r)" by (cases "md5_fold MD5_IV msg")
  let ?t = "length r"
  let ?m = "md5\<lparr>md5_bits := rfc_length (length msg + length buf)\<rparr>"
  have t: "?t = length msg mod 64" using md5_fold_rest [of MD5_IV msg] f by simp
  note m0 = st [unfolded md5_state_def f prod.case]
  note m = m0 [THEN conjunct1] m0 [THEN conjunct2, THEN conjunct1] m0 [THEN conjunct2, THEN conjunct2, THEN conjunct1]
    m0 [THEN conjunct2, THEN conjunct2, THEN conjunct2]
  have fold: "md5_fold MD5_IV (msg @ buf) = md5_fold s (r @ buf)" using f md5_fold_append [of MD5_IV msg buf] by simp
  have upd: "ndm_md5_update h md5 buf =
     (if ?t > 0 then
        if length buf < 64 - ?t then md5_fill ?m ?t buf
        else bind_result (md5_fill ?m ?t (take (64 - ?t) buf)) (\<lambda>md5. md5_blocks h (md5_block h md5) (drop (64 - ?t) buf))
      else md5_blocks h ?m buf)"
    by (simp only: ndm_md5_update_def m(2) md5_offset md5_count_carry [OF m(2) len] Let_def t)
  consider (empty) "?t = 0" | (small) "?t > 0" "length buf < 64 - ?t" | (full) "?t > 0" "length buf \<ge> 64 - ?t" by linarith
  then show ?thesis
  proof cases
    case empty
    then show ?thesis using md5_blocks_fold [of ?m h buf] m upd fold by (auto simp: md5_state_def)
  next
    case small
    then show ?thesis using m upd fold by (simp add: md5_fill_ok md5_state_def md5_fold_short)
  next
    case full
    define b where "b = r @ take (64 - ?t) buf"
    have "?t \<le> 64" using t by simp
    then have b: "length b = 64" "r @ buf = b @ drop (64 - ?t) buf" using full by (simp_all add: b_def)
    have fill: "md5_fill ?m ?t (take (64 - ?t) buf) = Ok (?m\<lparr>md5_in := b\<rparr>)"
      using m full \<open>?t \<le> 64\<close> by (simp add: md5_fill_ok b_def min_def)
    have blk: "md5_fold s (r @ buf) = md5_fold (rfc_block s (md5_words LittleEndian b)) (drop (64 - ?t) buf)"
      using md5_fold_block [OF b(1)] b(2) by simp
    let ?B = "md5_block h (?m\<lparr>md5_in := b\<rparr>)"
    have B: "length (md5_in ?B) = 64" "md5_bits ?B = rfc_length (length msg + length buf)"
      "md5_buf ?B = rfc_block s (md5_words LittleEndian b)"
      using b(1) m(3) by (simp_all add: md5_block_sel)
    obtain md5' where "md5_blocks h ?B (drop (64 - ?t) buf) = Ok md5'" "md5_state md5' (msg @ buf)"
      using md5_blocks_fold [OF B(1), of h "drop (64 - ?t) buf"] B(2,3) fold blk
      by (auto simp: md5_state_def)
    then show ?thesis using full fill upd by simp
  qed
qed

text \<open>The last block: \<open>in\<close> holds 56 bytes, the length is stored after them.\<close>

definition md5_last :: "host \<Rightarrow> ndm_md5_t \<Rightarrow> (u8 list \<times> ndm_md5_t) result" where
  "md5_last h md5 =
     (let md5 = md5\<lparr>md5_in := revert_bytes h (md5_in md5) 14\<rparr> in
      bind_result (md5_fill md5 56 (mem_bytes h 4 (fst (md5_bits md5)) @ mem_bytes h 4 (snd (md5_bits md5)))) (\<lambda>md5.
      let buf = transform (md5_buf md5) (md5_words h (md5_in md5)) in
      Ok (revert_bytes h (concat (map (mem_bytes h 4) buf)) 4, md5_zero)))"

lemma revert_block: "revert_bytes h (concat (map (mem_bytes h 4) (rfc_block st m))) 4 = concat (map (mem_bytes LittleEndian 4) (rfc_block st m))"
  by (cases "fold (rfc_round m) [0..<64] (st ! 0, st ! 1, st ! 2, st ! 3)") (simp only: rfc_block_def prod.case revert_digest)

lemma md5_last_block:
  assumes "length (md5_in md5) = 64" "take 56 (md5_in md5) = p" "md5_bits md5 = rfc_length n"
  shows "md5_last h md5 =
    Ok (concat (map (mem_bytes LittleEndian 4) (rfc_block (md5_buf md5) (md5_words LittleEndian
      (p @ mem_bytes LittleEndian 4 (fst (rfc_length n)) @ mem_bytes LittleEndian 4 (snd (rfc_length n)))))), md5_zero)"
proof -
  let ?x = "fst (rfc_length n)" and ?y = "snd (rfc_length n)"
  have "md5_fill (md5\<lparr>md5_in := revert_bytes h (md5_in md5) 14\<rparr>) 56 (mem_bytes h 4 ?x @ mem_bytes h 4 ?y) =
      Ok (md5\<lparr>md5_in := take 56 (revert_bytes h (md5_in md5) 14) @ mem_bytes h 4 ?x @ mem_bytes h 4 ?y\<rparr>)"
    using assms(1) by (simp add: md5_fill_ok length_revert_bytes)
  then show ?thesis
    using words_tail [OF assms(1), of h ?x ?y] assms(2,3)
    by (simp add: md5_last_def Let_def transform_rfc revert_block)
qed

lemma md5_digest_rfc:
  assumes st: "md5_state md5 msg"
  shows "ndm_md5_digest h md5 = Ok (rfc_md5 msg, md5_zero)"
proof -
  obtain s r where f: "md5_fold MD5_IV msg = (s, r)" by (cases "md5_fold MD5_IV msg")
  let ?t = "length r" and ?n = "length msg"
  let ?len = "mem_bytes LittleEndian 4 (fst (rfc_length ?n)) @ mem_bytes LittleEndian 4 (snd (rfc_length ?n))"
  have t: "?t = ?n mod 64" using md5_fold_rest [of MD5_IV msg] f by simp
  note m0 = st [unfolded md5_state_def f prod.case]
  note m = m0 [THEN conjunct1] m0 [THEN conjunct2, THEN conjunct1] m0 [THEN conjunct2, THEN conjunct2, THEN conjunct1]
    m0 [THEN conjunct2, THEN conjunct2, THEN conjunct2]
  have ref: "rfc_md5 msg = concat (map (mem_bytes LittleEndian 4)
      (fst (md5_fold s (r @ [0x80] @ replicate ((119 - ?t) mod 64) 0 @ ?len))))"
    using f md5_fold_append [of MD5_IV msg "rfc_padding ?n"] by (simp add: rfc_md5_def rfc_padding_def t)
  have off: "unat (drop_bit 3 (fst (md5_bits md5)) AND 0x3f) = ?t" using m(2) t md5_offset by simp
  let ?m = "md5\<lparr>md5_in := r @ [0x80] @ drop (?t + 1) (md5_in md5)\<rparr>"
  have t64: "?t < 64" using t by simp
  have fill: "md5_fill md5 ?t [0x80] = Ok ?m" using m t64 by (simp add: md5_fill_ok)
  have dig: "ndm_md5_digest h md5 =
     bind_result
       (if 63 - ?t < 8 then
          bind_result (md5_fill ?m (?t + 1) (replicate (63 - ?t) 0)) (\<lambda>md5. md5_fill (md5_block h md5) 0 (replicate 56 0))
        else md5_fill ?m (?t + 1) (replicate (63 - ?t - 8) 0)) (md5_last h)"
    by (simp add: ndm_md5_digest_def off fill md5_last_def [abs_def] Let_def)
  show ?thesis
  proof (cases "63 - ?t < 8")
    case False
    define p where "p = r @ [0x80 :: u8] @ replicate (55 - ?t) 0"
    have p: "length p = 56" using False t64 by (simp add: p_def)
    let ?l = "?m\<lparr>md5_in := p @ drop 56 (md5_in md5)\<rparr>"
    have "md5_fill ?m (?t + 1) (replicate (63 - ?t - 8) 0) = Ok ?l"
      using False m(1) t64 by (simp add: md5_fill_ok p_def drop_Cons')
    moreover have "md5_last h ?l = Ok (concat (map (mem_bytes LittleEndian 4) (rfc_block s (md5_words LittleEndian (p @ ?len)))), md5_zero)"
      using md5_last_block [of ?l p ?n h] m p by simp
    moreover have pad: "r @ [0x80] @ replicate ((119 - ?t) mod 64) 0 @ ?len = p @ ?len"
      using False t64 by (simp add: p_def le_mod_geq)
    moreover have "fst (md5_fold s (p @ ?len)) = rfc_block s (md5_words LittleEndian (p @ ?len))"
      using md5_fold_block [of "p @ ?len" s "[]"] p by (simp add: md5_fold_short)
    ultimately show ?thesis using False dig ref [unfolded pad] by simp
  next
    case True
    define b where "b = r @ [0x80 :: u8] @ replicate (63 - ?t) 0"
    have b: "length b = 64" using t64 by (simp add: b_def)
    let ?B = "md5_block h (?m\<lparr>md5_in := b\<rparr>)"
    let ?l = "?B\<lparr>md5_in := replicate 56 0 @ drop 56 (md5_in ?B)\<rparr>"
    have B: "length (md5_in ?B) = 64" "md5_bits ?B = rfc_length ?n" "md5_buf ?B = rfc_block s (md5_words LittleEndian b)"
      using b m by (simp_all add: md5_block_sel)
    have "md5_fill ?m (?t + 1) (replicate (63 - ?t) 0) = Ok (?m\<lparr>md5_in := b\<rparr>)"
      using m(1) t64 by (simp add: md5_fill_ok b_def drop_Cons')
    moreover have "md5_fill ?B 0 (replicate 56 0) = Ok ?l" using B(1) by (simp add: md5_fill_ok)
    moreover have "md5_last h ?l = Ok (concat (map (mem_bytes LittleEndian 4)
        (rfc_block (md5_buf ?B) (md5_words LittleEndian (replicate 56 0 @ ?len)))), md5_zero)"
      using md5_last_block [of ?l "replicate 56 0" ?n h] B by simp
    moreover have pad: "r @ [0x80] @ replicate ((119 - ?t) mod 64) 0 @ ?len = b @ replicate 56 0 @ ?len"
    proof -
      have "(119 - ?t) mod 64 = (63 - ?t) + 56" using True t64 by simp
      then have "replicate ((119 - ?t) mod 64) (0 :: u8) = replicate (63 - ?t) 0 @ replicate 56 0"
        by (simp only: replicate_add)
      then show ?thesis by (simp only: b_def append_assoc)
    qed
    moreover have "fst (md5_fold s (b @ replicate 56 0 @ ?len)) =
        rfc_block (rfc_block s (md5_words LittleEndian b)) (md5_words LittleEndian (replicate 56 0 @ ?len))"
      using md5_fold_block [OF b, of s "replicate 56 0 @ ?len"] md5_fold_block [of "replicate 56 0 @ ?len" _ "[]"]
      by (simp add: md5_fold_short)
    ultimately show ?thesis using True dig ref [unfolded pad] B(3) by simp
  qed
qed

text \<open>A message handed over in pieces.\<close>

fun md5_run :: "host \<Rightarrow> ndm_md5_t \<Rightarrow> u8 list list \<Rightarrow> (u8 list \<times> ndm_md5_t) result" where
  "md5_run h md5 [] = ndm_md5_digest h md5"
| "md5_run h md5 (piece # pieces) = bind_result (ndm_md5_update h md5 piece) (\<lambda>md5. md5_run h md5 pieces)"

lemma md5_run_state:
  "md5_state md5 msg \<Longrightarrow> \<forall>p \<in> set pieces. length p < 2 ^ 64 \<Longrightarrow>
   md5_run h md5 pieces = Ok (rfc_md5 (msg @ concat pieces), md5_zero)"
proof (induction pieces arbitrary: md5 msg)
  case Nil
  then show ?case by (simp add: md5_digest_rfc)
next
  case (Cons p pieces)
  then have "length p < 2 ^ 64" by simp
  from md5_update_state [OF Cons.prems(1) this] obtain md5' where
    "ndm_md5_update h md5 p = Ok md5'" "md5_state md5' (msg @ p)" by blast
  with Cons.IH [OF this(2)] Cons.prems(2) show ?case by simp
qed

section \<open>Properties\<close>

text \<open>C15: a message handed to \<open>ndm_md5_update\<close> in pieces of any lengths (none, empty, across
  the blocks, longer than the 32-bit bit counters can hold) on a host of either byte order gives
  \<open>ndm_md5_digest\<close> exactly the digest that the 64 rounds of RFC 1321 define for the whole message
  after its padding; every store stays in the block and the state is cleared afterwards.\<close>

theorem md5_matches_rfc1321:
  assumes "length (md5_in md5) = 64"
    and "\<forall>p \<in> set pieces. length p < 2 ^ 64"
  shows "md5_run h (ndm_md5_init md5) pieces = Ok (rfc_md5 (concat pieces), md5_zero)"
  using md5_run_state [OF md5_init_state [OF assms(1)] assms(2)] by simp

lemma pad3: "rfc_padding 3 = 0x80 # replicate 52 0 @ [24, 0, 0, 0, 0, 0, 0, 0]"
  by (simp add: rfc_padding_def rfc_length_def mem_bytes_def upt_bytes Let_def)

lemma words3: "md5_words LittleEndian ([97, 98, 99, 0x80] @ replicate 52 0 @ [24, 0, 0, 0, 0, 0, 0, 0]) =
   [0x80636261, 0, 0, 0, 0, 0, 0, 0, 0, 0, 0, 0, 0, 0, 24, 0]"
  by code_simp

lemma blk3: "rfc_block MD5_IV [0x80636261, 0, 0, 0, 0, 0, 0, 0, 0, 0, 0, 0, 0, 0, 24, 0] = [0x98500190, 0xb04fd23c, 0x7d3f96d6, 0x727fe128]"
  by code_simp
lemma digest3: "concat (map (mem_bytes LittleEndian 4) [0x98500190, 0xb04fd23c, 0x7d3f96d6, 0x727fe128 :: u32]) =
   [0x90, 0x01, 0x50, 0x98, 0x3c, 0xd2, 0x4f, 0xb0, 0xd6, 0x96, 0x3f, 0x7d, 0x28, 0xe1, 0x7f, 0x72]"
  by code_simp

lemma md5_abc: "rfc_md5 [97, 98, 99] = [0x90, 0x01, 0x50, 0x98, 0x3c, 0xd2, 0x4f, 0xb0, 0xd6, 0x96, 0x3f, 0x7d, 0x28, 0xe1, 0x7f, 0x72]"
proof -
  let ?b = "[97, 98, 99, 0x80] @ replicate 52 0 @ [24, 0, 0, 0, 0, 0, 0, 0 :: u8]"
  have "md5_fold MD5_IV ?b = md5_fold (rfc_block MD5_IV (md5_words LittleEndian ?b)) []"
    using md5_fold_block [of ?b MD5_IV "[]"] by simp
  then have "fst (md5_fold MD5_IV ?b) = [0x98500190, 0xb04fd23c, 0x7d3f96d6, 0x727fe128]"
    by (simp only: words3 blk3) (simp add: md5_fold_short)
  moreover have "[97, 98, 99] @ rfc_padding (length [97, 98, 99 :: u8]) = ?b" using pad3 by (simp add: numeral_3_eq_3)
  ultimately show ?thesis by (simp only: rfc_md5_def digest3)
qed

theorem md5_matches_rfc1321_witness:
  "md5_run BigEndian (ndm_md5_init md5_zero) [[97], [], [98, 99]] =
     Ok ([0x90, 0x01, 0x50, 0x98, 0x3c, 0xd2, 0x4f, 0xb0, 0xd6, 0x96, 0x3f, 0x7d, 0x28, 0xe1, 0x7f, 0x72], md5_zero)"
  using md5_matches_rfc1321 [of md5_zero "[[97], [], [98, 99]]" BigEndian] md5_abc by (simp add: md5_zero_def)

end
