(* ===== verification/Conv_Utf.thy ===== *)
theory Conv_Utf
  imports Endian "HOL-Library.Sublist"
begin

text \<open>
  The Unicode encodings of \<^verbatim>\<open>src/conv.c\<close>. A decoder gets the bytes that are left and returns the
  code point it has set, if it has, with the count of \<^verbatim>\<open>to_uni_func_t_\<close>; an encoder gets the
  free part of the output buffer and returns it with the count of \<^verbatim>\<open>uni_to_func_t_\<close>. A failing
  assertion is undefined behaviour.
\<close>

type_synonym to_uni_func = "u8 list \<Rightarrow> (int \<times> u32 option) result"
type_synonym uni_to_func = "u32 \<Rightarrow> u8 list \<Rightarrow> int \<times> u8 list"

definition asserting :: "bool \<Rightarrow> 'a result \<Rightarrow> 'a result" where
  "asserting b r = (if b then r else Undefined)"

lemma asserting_simps [simp]: "asserting True r = r" "asserting False r = Undefined"
  by (simp_all add: asserting_def)

definition UNICODE_MAX :: u32 where "UNICODE_MAX = 0x10ffff"
definition SUR_HIGH_START :: u32 where "SUR_HIGH_START = 0xd800"
definition SUR_LOW_START :: u32 where "SUR_LOW_START = 0xdc00"
definition SUR_LOW_END :: u32 where "SUR_LOW_END = 0xdfff"

lemmas sur_defs = UNICODE_MAX_def SUR_HIGH_START_def SUR_LOW_START_def SUR_LOW_END_def

section \<open>UTF-8\<close>

definition conv_utf8_to_uni :: to_uni_func where
  "conv_utf8_to_uni inp =
     asserting (length inp > 0)
       (let b0 = inp ! 0 in
        if b0 < 0x80 then Ok (1, Some (ucast b0))
        else if b0 < 0xc2 then Ok (- 2, None)
        else if b0 < 0xe0 then
          if length inp < 2 then Ok (0, None)
          else
            let b1 = inp ! 1 in
            if b1 AND 0xc0 \<noteq> 0x80 then Ok (- 2, None)
            else
              let cp = push_bit 6 (ucast (b0 AND 0x1f)) OR push_bit 0 (ucast (b1 AND 0x3f)) in
              asserting (cp \<ge> 0x80) (Ok (2, Some cp))
        else if b0 < 0xf0 then
          if length inp < 3 then Ok (0, None)
          else
            let b1 = inp ! 1; b2 = inp ! 2 in
            if b0 = 0xe0 \<and> b1 < 0xa0 then Ok (- 2, None)
            else if b1 AND 0xc0 \<noteq> 0x80 then Ok (- 2, None)
            else if b2 AND 0xc0 \<noteq> 0x80 then Ok (- 3, None)
            else
              let cp = push_bit 12 (ucast (b0 AND 0x0f)) OR push_bit 6 (ucast (b1 AND 0x3f)) OR push_bit 0 (ucast (b2 AND 0x3f)) in
              asserting (cp \<ge> 0x800) (Ok (3, Some cp))
        else if b0 < 0xf5 then
          if length inp < 4 then Ok (0, None)
          else
            let b1 = inp ! 1; b2 = inp ! 2; b3 = inp ! 3 in
            if b0 = 0xf0 \<and> b1 < 0x90 \<or> b0 = 0xf4 \<and> b1 \<ge> 0x90 then Ok (- 2, None)
            else if b1 AND 0xc0 \<noteq> 0x80 then Ok (- 2, None)
            else if b2 AND 0xc0 \<noteq> 0x80 then Ok (- 3, None)
            else if b3 AND 0xc0 \<noteq> 0x80 then Ok (- 4, None)
            else
              let cp = push_bit 18 (ucast (b0 AND 0x07)) OR push_bit 12 (ucast (b1 AND 0x3f)) OR
                       push_bit 6 (ucast (b2 AND 0x3f)) OR push_bit 0 (ucast (b3 AND 0x3f)) in
              asserting (cp \<ge> 0x10000) (Ok (4, Some cp))
        else Ok (- 1, None))"

text \<open>The cases of the switch fall through.\<close>

definition conv_uni_to_utf8 :: uni_to_func where
  "conv_uni_to_utf8 cp out =
     (let sz = (if cp < 0x80 then 1 else if cp < 0x800 then 2 else if cp < 0x10000 then 3 else 4) in
      if length out < sz then (- int sz, out)
      else
        let (cp, out) =
              (if sz \<ge> 4 then (drop_bit 6 cp OR 0x10000, out[3 := ucast (0x80 OR (cp AND 0x3f))]) else (cp, out));
            (cp, out) =
              (if sz \<ge> 3 then (drop_bit 6 cp OR 0x800, out[2 := ucast (0x80 OR (cp AND 0x3f))]) else (cp, out));
            (cp, out) =
              (if sz \<ge> 2 then (drop_bit 6 cp OR 0xc0, out[1 := ucast (0x80 OR (cp AND 0x3f))]) else (cp, out))
        in (int sz, out[0 := ucast cp]))"

section \<open>UTF-16\<close>

definition NDM_CONV_UTF16_to_uni :: "host \<Rightarrow> (u16 \<Rightarrow> u16) \<Rightarrow> to_uni_func" where
  "NDM_CONV_UTF16_to_uni h toh16 inp =
     (if length inp < 2 then Ok (0, None)
      else
        let w0 = toh16 (mem_value h (take 2 inp)) in
        if ucast w0 < SUR_HIGH_START \<or> ucast w0 > SUR_LOW_END then Ok (2, Some (ucast w0))
        else if ucast w0 \<ge> SUR_LOW_START then Ok (- 1, None)
        else if length inp < 4 then Ok (0, None)
        else
          let w1 = toh16 (mem_value h (take 2 (drop 2 inp))) in
          if ucast w1 < SUR_LOW_START \<or> ucast w1 > SUR_LOW_END then Ok (- 3, None)
          else Ok (4, Some ((push_bit 10 (ucast (w0 AND 0x3ff)) OR push_bit 0 (ucast (w1 AND 0x3ff))) + 0x10000)))"

definition NDM_CONV_UTF16_uni_to :: "host \<Rightarrow> (u16 \<Rightarrow> u16) \<Rightarrow> uni_to_func" where
  "NDM_CONV_UTF16_uni_to h hto16 cp out =
     (if cp < 0x10000 then
        if length out < 2 then (- 2, out)
        else (2, mem_bytes h 2 (hto16 (ucast cp)) @ drop 2 out)
      else if length out < 4 then (- 4, out)
      else
        let cp = cp - 0x10000 in
        (4, mem_bytes h 2 (hto16 (ucast ((drop_bit 10 cp AND 0x3ff) OR SUR_HIGH_START))) @
            mem_bytes h 2 (hto16 (ucast ((drop_bit 0 cp AND 0x3ff) OR SUR_LOW_START))) @ drop 4 out))"

definition conv_utf16_be_to_uni :: "host \<Rightarrow> to_uni_func" where
  "conv_utf16_be_to_uni h = NDM_CONV_UTF16_to_uni h (ndm_endian_betoh16 h)"

definition conv_uni_to_utf16_be :: "host \<Rightarrow> uni_to_func" where
  "conv_uni_to_utf16_be h = NDM_CONV_UTF16_uni_to h (ndm_endian_htobe16 h)"

definition conv_utf16_le_to_uni :: "host \<Rightarrow> to_uni_func" where
  "conv_utf16_le_to_uni h = NDM_CONV_UTF16_to_uni h (ndm_endian_letoh16 h)"

definition conv_uni_to_utf16_le :: "host \<Rightarrow> uni_to_func" where
  "conv_uni_to_utf16_le h = NDM_CONV_UTF16_uni_to h (ndm_endian_htole16 h)"

definition conv_utf16_to_uni :: "host \<Rightarrow> to_uni_func" where
  "conv_utf16_to_uni h inp = (if ndm_endian_is_le h then conv_utf16_le_to_uni h inp else conv_utf16_be_to_uni h inp)"

definition conv_uni_to_utf16 :: "host \<Rightarrow> uni_to_func" where
  "conv_uni_to_utf16 h cp out =
     (if ndm_endian_is_le h then conv_uni_to_utf16_le h cp out else conv_uni_to_utf16_be h cp out)"

section \<open>UTF-32\<close>

definition NDM_CONV_UTF32_to_uni :: "host \<Rightarrow> (u32 \<Rightarrow> u32) \<Rightarrow> to_uni_func" where
  "NDM_CONV_UTF32_to_uni h toh32 inp =
     (if length inp < 4 then Ok (0, None)
      else
        let cp = toh32 (mem_value h (take 4 inp)) in
        if cp \<le> UNICODE_MAX \<and> (cp < SUR_HIGH_START \<or> cp > SUR_LOW_END) then Ok (4, Some cp)
        else Ok (- 1, Some cp))"

definition NDM_CONV_UTF32_uni_to :: "host \<Rightarrow> (u32 \<Rightarrow> u32) \<Rightarrow> uni_to_func" where
  "NDM_CONV_UTF32_uni_to h hto32 cp out =
     (if length out < 4 then (- 4, out) else (4, mem_bytes h 4 (hto32 cp) @ drop 4 out))"

definition conv_utf32_be_to_uni :: "host \<Rightarrow> to_uni_func" where
  "conv_utf32_be_to_uni h = NDM_CONV_UTF32_to_uni h (ndm_endian_betoh32 h)"

definition conv_uni_to_utf32_be :: "host \<Rightarrow> uni_to_func" where
  "conv_uni_to_utf32_be h = NDM_CONV_UTF32_uni_to h (ndm_endian_htobe32 h)"

definition conv_utf32_le_to_uni :: "host \<Rightarrow> to_uni_func" where
  "conv_utf32_le_to_uni h = NDM_CONV_UTF32_to_uni h (ndm_endian_letoh32 h)"

definition conv_uni_to_utf32_le :: "host \<Rightarrow> uni_to_func" where
  "conv_uni_to_utf32_le h = NDM_CONV_UTF32_uni_to h (ndm_endian_htole32 h)"

definition conv_utf32_to_uni :: "host \<Rightarrow> to_uni_func" where
  "conv_utf32_to_uni h inp = (if ndm_endian_is_le h then conv_utf32_le_to_uni h inp else conv_utf32_be_to_uni h inp)"

definition conv_uni_to_utf32 :: "host \<Rightarrow> uni_to_func" where
  "conv_uni_to_utf32 h cp out =
     (if ndm_endian_is_le h then conv_uni_to_utf32_le h cp out else conv_uni_to_utf32_be h cp out)"

section \<open>Words and their fields\<close>

lemma or_is_add: "x < 2 ^ k \<Longrightarrow> 2 ^ k dvd m \<Longrightarrow> x OR m = x + (m :: nat)"
proof -
  assume x: "x < 2 ^ k" and m: "2 ^ k dvd m"
  then obtain j where j: "m = push_bit k j" by (auto simp: push_bit_eq_mult mult.commute)
  have "x AND m = 0"
  proof (rule bit_eqI)
    fix n
    show "bit (x AND m) n \<longleftrightarrow> bit (0 :: nat) n"
    proof (cases "n < k")
      case False
      have "bit x n \<longleftrightarrow> bit (take_bit k x) n" using x by (simp add: take_bit_nat_eq_self)
      then show ?thesis using False by (simp add: bit_simps)
    qed (simp add: j bit_simps)
  qed
  then show ?thesis by (simp add: disjunctive_add_eq_or)
qed

lemma unat_or: "unat (x OR y) = unat x OR unat y" for x y :: "'a::len word"
  by (simp add: unsigned_or_eq)

lemma and_mod: "unat (x AND 0x3f) = unat x mod 64" "unat (x AND 0x1f) = unat x mod 32"
  "unat (x AND 0x0f) = unat x mod 16" "unat (x AND 0x07) = unat x mod 8" for x :: u8
proof -
  have m: "63 = (mask 6 :: u8)" "31 = (mask 5 :: u8)" "15 = (mask 4 :: u8)" "7 = (mask 3 :: u8)" by (simp_all add: mask_eq_exp_minus_1)
  show "unat (x AND 0x3f) = unat x mod 64" "unat (x AND 0x1f) = unat x mod 32" "unat (x AND 0x0f) = unat x mod 16" "unat (x AND 0x07) = unat x mod 8"
    by (simp_all only: m unsigned_take_bit_eq flip: take_bit_eq_mask) (simp_all add: take_bit_eq_mod)
qed

lemma and_mod32: "unat (x AND 0x3f) = unat x mod 64" "unat (x AND 0x3ff) = unat x mod 1024" for x :: u32
proof -
  have m: "63 = (mask 6 :: u32)" "1023 = (mask 10 :: u32)" by (simp_all add: mask_eq_exp_minus_1)
  show "unat (x AND 0x3f) = unat x mod 64" "unat (x AND 0x3ff) = unat x mod 1024"
    by (simp_all only: m unsigned_take_bit_eq flip: take_bit_eq_mask) (simp_all add: take_bit_eq_mod)
qed

lemma drop_or:
  "unat cp div 64 < 2 ^ k \<Longrightarrow> 2 ^ k dvd unat m \<Longrightarrow> unat (drop_bit 6 cp OR m) = unat cp div 64 + unat m" for cp :: u32
  by (simp only: unat_or unat_drop_bit_eq) (simp add: drop_bit_eq_div or_is_add)

lemma cont_byte: "ucast (0x80 OR (cp AND 0x3f)) = (of_nat (0x80 + unat cp mod 64) :: u8)" for cp :: u32
proof -
  have "unat (0x80 OR (cp AND 0x3f)) = unat cp mod 64 + 0x80"
    using or_is_add [of "unat cp mod 64" 6 128] by (simp add: unat_or and_mod32 or.commute)
  then have "(of_nat (unat (0x80 OR (cp AND 0x3f))) :: u8) = of_nat (0x80 + unat cp mod 64)"
    by (simp only: add.commute)
  then show ?thesis by simp
qed

lemma push_or: "unat y < 2 ^ k \<Longrightarrow> unat x * 2 ^ k < 2 ^ LENGTH('a) \<Longrightarrow> unat (push_bit k x OR y) = unat x * 2 ^ k + unat y"
  for x y :: "'a::len word"
proof -
  assume y: "unat y < 2 ^ k" and x: "unat x * 2 ^ k < 2 ^ LENGTH('a)"
  have "unat (push_bit k x) = unat x * 2 ^ k"
    using x by (simp only: unsigned_push_bit_eq) (simp add: push_bit_eq_mult take_bit_nat_eq_self)
  then show ?thesis using or_is_add [OF y, of "unat x * 2 ^ k"] by (simp add: unat_or or.commute add.commute)
qed

lemma mod64_shift: "(a + 2048) mod 64 = a mod (64 :: nat)" "(a + 3072) mod 64 = a mod (64 :: nat)" "(a + 65536) mod 64 = a mod (64 :: nat)"
  using mod_mult_self1 [of a 32 64] mod_mult_self1 [of a 48 64] mod_mult_self1 [of a 1024 64] by simp_all

section \<open>UTF-8 in RFC 3629\<close>

definition utf8_seq :: "nat \<Rightarrow> u8 list" where
  "utf8_seq c = map of_nat
     (if c < 0x80 then [c]
      else if c < 0x800 then [0xc0 + c div 64, 0x80 + c mod 64]
      else if c < 0x10000 then [0xe0 + c div 64 div 64, 0x80 + c div 64 mod 64, 0x80 + c mod 64]
      else [0xf0 + c div 64 div 64 div 64, 0x80 + c div 64 div 64 mod 64, 0x80 + c div 64 mod 64, 0x80 + c mod 64])"

lemma utf8_encodes:
  assumes cp: "cp \<le> UNICODE_MAX"
  shows "conv_uni_to_utf8 cp out =
    (let n = length (utf8_seq (unat cp)) in
     if length out < n then (- int n, out) else (int n, utf8_seq (unat cp) @ drop n out))"
proof -
  have max: "unat cp < 0x110000" using cp by (simp add: word_le_nat_alt UNICODE_MAX_def)
  have less: "cp < 0x80 \<longleftrightarrow> unat cp < 0x80" "cp < 0x800 \<longleftrightarrow> unat cp < 0x800" "cp < 0x10000 \<longleftrightarrow> unat cp < 0x10000"
    by (simp_all add: word_less_nat_alt)
  have last: "ucast w = (of_nat (unat w) :: u8)" for w :: u32 by simp
  consider "unat cp < 0x80" | "0x80 \<le> unat cp" "unat cp < 0x800" | "0x800 \<le> unat cp" "unat cp < 0x10000"
    | "0x10000 \<le> unat cp" by linarith
  then show ?thesis
  proof cases
    case 1
    then show ?thesis by (cases out) (simp_all add: conv_uni_to_utf8_def utf8_seq_def less)
  next
    case 2
    have "unat (drop_bit 6 cp OR 0xc0) = unat cp div 64 + 0xc0" using drop_or [of cp 6 "0xc0"] 2 by simp
    then have "ucast (drop_bit 6 cp OR 0xc0) = (of_nat (0xc0 + unat cp div 64) :: u8)" by (simp only: last add.commute)
    with 2 show ?thesis
      by (cases out rule: remdups_adj.cases)
        (simp_all add: conv_uni_to_utf8_def utf8_seq_def less Let_def cont_byte del: of_nat_add)
  next
    case 3
    define c1 where "c1 = drop_bit 6 cp OR 0x800"
    define c2 where "c2 = drop_bit 6 c1 OR 0xc0"
    have c1: "unat c1 = unat cp div 64 + 0x800" using drop_or [of cp 11 "0x800"] 3 by (simp add: c1_def)
    have c2: "unat c2 = unat cp div 64 div 64 + 0xe0" using drop_or [of c1 6 "0xc0"] 3 c1 by (simp add: c2_def)
    have b: "ucast c2 = (of_nat (0xe0 + unat cp div 64 div 64) :: u8)" by (simp only: last c2 add.commute)
    have b': "unat c1 mod 64 = unat cp div 64 mod 64" by (simp add: c1 mod64_shift)
    show ?thesis
    proof (cases "length out < 3")
      case False
      then obtain x y z r where "out = x # y # z # r" by (auto simp: not_less Suc_le_length_iff numeral_eq_Suc)
      with 3 show ?thesis
        by (simp add: conv_uni_to_utf8_def utf8_seq_def less Let_def b b' cont_byte del: of_nat_add drop_bit_or drop_bit_drop_bit flip: c1_def c2_def)
    qed (use 3 in \<open>simp add: conv_uni_to_utf8_def utf8_seq_def less Let_def\<close>)
  next
    case 4
    define c1 where "c1 = drop_bit 6 cp OR 0x10000"
    define c2 where "c2 = drop_bit 6 c1 OR 0x800"
    define c3 where "c3 = drop_bit 6 c2 OR 0xc0"
    have c1: "unat c1 = unat cp div 64 + 0x10000" using drop_or [of cp 16 "0x10000"] max by (simp add: c1_def)
    have c2: "unat c2 = unat cp div 64 div 64 + 0xc00" using drop_or [of c1 11 "0x800"] max c1 by (simp add: c2_def)
    have c3: "unat c3 = unat cp div 64 div 64 div 64 + 0xf0" using drop_or [of c2 6 "0xc0"] max c2 by (simp add: c3_def)
    have b: "ucast c3 = (of_nat (0xf0 + unat cp div 64 div 64 div 64) :: u8)" by (simp only: last c3 add.commute)
    have b': "unat c1 mod 64 = unat cp div 64 mod 64" "unat c2 mod 64 = unat cp div 64 div 64 mod 64"
      by (simp_all add: c1 c2 mod64_shift)
    show ?thesis
    proof (cases "length out < 4")
      case False
      then obtain w x y z r where "out = w # x # y # z # r" by (auto simp: not_less Suc_le_length_iff numeral_eq_Suc)
      with 4 show ?thesis
        by (simp add: conv_uni_to_utf8_def utf8_seq_def less Let_def b b' cont_byte del: of_nat_add drop_bit_or drop_bit_drop_bit flip: c1_def c2_def c3_def)
    qed (use 4 in \<open>simp add: conv_uni_to_utf8_def utf8_seq_def less Let_def\<close>)
  qed
qed

text \<open>A decoder that is told how many bytes there are, on natural numbers.\<close>

lemma and_c0: "b AND 0xc0 = 0x80 \<longleftrightarrow> 0x80 \<le> unat b \<and> unat b < 0xc0" for b :: u8
proof -
  have "b AND push_bit 6 (mask 2) = push_bit 6 (drop_bit 6 b)"
    by (rule bit_word_eqI) (auto simp: bit_simps)
  then have "b AND 0xc0 = push_bit 6 (drop_bit 6 b)" by (simp add: mask_eq_exp_minus_1)
  then have "unat (b AND 0xc0) = 64 * (unat b div 64)"
    using unsigned_less [where 'a=nat, of b]
    by (simp only: unsigned_push_bit_eq unat_drop_bit_eq) (simp add: drop_bit_eq_div push_bit_eq_mult take_bit_nat_eq_self)
  then have "b AND 0xc0 = 0x80 \<longleftrightarrow> unat b div 64 = 2" by (simp add: word_unat_eq_iff)
  also have "\<dots> \<longleftrightarrow> 0x80 \<le> unat b \<and> unat b < 0xc0" by linarith
  finally show ?thesis .
qed

lemma up8: "unat (ucast b :: u32) = unat b" for b :: u8
  using unsigned_less [where 'a=nat, of b] by (simp add: unsigned_ucast_eq take_bit_nat_eq_self)

lemma fields:
  fixes b0 b1 b2 b3 :: u8
  shows "unat (push_bit 6 (ucast (b0 AND 0x1f)) OR push_bit 0 (ucast (b1 AND 0x3f)) :: u32) = unat b0 mod 32 * 64 + unat b1 mod 64"
    and "unat (push_bit 12 (ucast (b0 AND 0x0f)) OR push_bit 6 (ucast (b1 AND 0x3f)) OR push_bit 0 (ucast (b2 AND 0x3f)) :: u32) =
      (unat b0 mod 16 * 64 + unat b1 mod 64) * 64 + unat b2 mod 64"
    and "unat (push_bit 18 (ucast (b0 AND 0x07)) OR push_bit 12 (ucast (b1 AND 0x3f)) OR push_bit 6 (ucast (b2 AND 0x3f)) OR
        push_bit 0 (ucast (b3 AND 0x3f)) :: u32) =
      ((unat b0 mod 8 * 64 + unat b1 mod 64) * 64 + unat b2 mod 64) * 64 + unat b3 mod 64"
proof -
  have lt: "unat b mod 64 < 64" for b :: u8 by simp
  have b: "unat (push_bit 6 (x :: u32) OR ucast (b AND 0x3f)) = unat x * 64 + unat b mod 64" if "unat x < 2 ^ 26" for x and b :: u8
    using push_or [of "ucast (b AND 0x3f) :: u32" 6 x] that by (simp add: and_mod up8)
  have 1: "unat (push_bit 6 (ucast (a :: u8)) OR ucast (b AND 0x3f) :: u32) = unat a * 64 + unat b mod 64" for a b :: u8
    using b [of "ucast a" b] unsigned_less [where 'a=nat, of a] by (simp add: up8)
  have 2: "unat (push_bit 6 (push_bit 6 (ucast (a :: u8)) OR ucast (b AND 0x3f)) OR ucast (c AND 0x3f) :: u32) =
      (unat a * 64 + unat b mod 64) * 64 + unat c mod 64" for a b c :: u8
    using b [of "push_bit 6 (ucast a) OR ucast (b AND 0x3f)" c] unsigned_less [where 'a=nat, of a] lt [of b] by (simp add: 1)
  have 3: "unat (push_bit 6 (push_bit 6 (push_bit 6 (ucast (a :: u8)) OR ucast (b AND 0x3f)) OR ucast (c AND 0x3f)) OR ucast (d AND 0x3f) :: u32) =
      ((unat a * 64 + unat b mod 64) * 64 + unat c mod 64) * 64 + unat d mod 64" for a b c d :: u8
    using b [of "push_bit 6 (push_bit 6 (ucast a) OR ucast (b AND 0x3f)) OR ucast (c AND 0x3f)" d] unsigned_less [where 'a=nat, of a] lt [of b] lt [of c]
    by (simp add: 2 del: push_bit_or push_bit_push_bit)
  show "unat (push_bit 6 (ucast (b0 AND 0x1f)) OR push_bit 0 (ucast (b1 AND 0x3f)) :: u32) = unat b0 mod 32 * 64 + unat b1 mod 64"
    using 1 [of "b0 AND 0x1f" b1] by (simp add: and_mod)
  show "unat (push_bit 12 (ucast (b0 AND 0x0f)) OR push_bit 6 (ucast (b1 AND 0x3f)) OR push_bit 0 (ucast (b2 AND 0x3f)) :: u32) =
      (unat b0 mod 16 * 64 + unat b1 mod 64) * 64 + unat b2 mod 64"
    using 2 [of "b0 AND 0x0f" b1 b2] by (simp add: and_mod push_bit_or or.assoc)
  show "unat (push_bit 18 (ucast (b0 AND 0x07)) OR push_bit 12 (ucast (b1 AND 0x3f)) OR push_bit 6 (ucast (b2 AND 0x3f)) OR
        push_bit 0 (ucast (b3 AND 0x3f)) :: u32) =
      ((unat b0 mod 8 * 64 + unat b1 mod 64) * 64 + unat b2 mod 64) * 64 + unat b3 mod 64"
    using 3 [of "b0 AND 0x07" b1 b2 b3] by (simp add: and_mod push_bit_or or.assoc)
qed

lemma horner: "(a * 64 + b) * 64 + c = 4096 * a + 64 * b + (c :: nat)"
  "((a * 64 + b) * 64 + c) * 64 + d = 262144 * a + 4096 * b + 64 * c + (d :: nat)"
  by simp_all

lemma seqs:
  "b < 64 \<Longrightarrow> 2 \<le> a \<Longrightarrow> a < 32 \<Longrightarrow> utf8_seq (a * 64 + b) = [of_nat (192 + a), of_nat (128 + b)]"
  "b < 64 \<Longrightarrow> c < 64 \<Longrightarrow> a < 16 \<Longrightarrow> 0 < a \<or> 32 \<le> b \<Longrightarrow>
   utf8_seq ((a * 64 + b) * 64 + c) = [of_nat (224 + a), of_nat (128 + b), of_nat (128 + c)]"
  "b < 64 \<Longrightarrow> c < 64 \<Longrightarrow> d < 64 \<Longrightarrow> a < 5 \<Longrightarrow> 0 < a \<or> 16 \<le> b \<Longrightarrow> a < 4 \<or> b < 16 \<Longrightarrow>
   utf8_seq (((a * 64 + b) * 64 + c) * 64 + d) = [of_nat (240 + a), of_nat (128 + b), of_nat (128 + c), of_nat (128 + d)]"
proof -
  have parts: "(x * 64 + y) div 64 = x" "(x * 64 + y) mod 64 = y" if "y < 64" for x y :: nat using that by simp_all
  show "b < 64 \<Longrightarrow> 2 \<le> a \<Longrightarrow> a < 32 \<Longrightarrow> utf8_seq (a * 64 + b) = [of_nat (192 + a), of_nat (128 + b)]"
    by (simp add: utf8_seq_def parts del: of_nat_add)
  show "utf8_seq ((a * 64 + b) * 64 + c) = [of_nat (224 + a), of_nat (128 + b), of_nat (128 + c)]"
    if "b < 64" "c < 64" "a < 16" "0 < a \<or> 32 \<le> b"
  proof -
    have "2048 \<le> (a * 64 + b) * 64 + c" "(a * 64 + b) * 64 + c < 65536" unfolding horner using that by auto
    then show ?thesis using that by (simp add: utf8_seq_def parts del: of_nat_add distrib_right_numeral)
  qed
  show "utf8_seq (((a * 64 + b) * 64 + c) * 64 + d) = [of_nat (240 + a), of_nat (128 + b), of_nat (128 + c), of_nat (128 + d)]"
    if "b < 64" "c < 64" "d < 64" "a < 5" "0 < a \<or> 16 \<le> b" "a < 4 \<or> b < 16"
  proof -
    have "65536 \<le> ((a * 64 + b) * 64 + c) * 64 + d" unfolding horner using that by auto
    then show ?thesis using that by (simp add: utf8_seq_def parts del: of_nat_add distrib_right_numeral)
  qed
qed

lemma lead_mods: "b < 64 \<Longrightarrow> (128 + b) mod 64 = (b :: nat)" "a < 32 \<Longrightarrow> (192 + a) mod 32 = (a :: nat)" "a < 16 \<Longrightarrow> (224 + a) mod 16 = (a :: nat)"
  "a < 8 \<Longrightarrow> (240 + a) mod 8 = (a :: nat)"
  using mod_mult_self2 [of b 64 2] mod_mult_self2 [of a 32 6] mod_mult_self2 [of a 16 14] mod_mult_self2 [of a 8 30]
  by (simp_all add: add.commute)

lemma leads: "b = 0xe0 \<longleftrightarrow> unat b = 0xe0" "b = 0xf0 \<longleftrightarrow> unat b = 0xf0" "b = 0xf4 \<longleftrightarrow> unat b = 0xf4" for b :: u8
  by (simp_all add: word_unat_eq_iff)

lemma decodes:
  "unat b0 < 128 \<Longrightarrow> conv_utf8_to_uni (b0 # r) = Ok (1, Some (ucast b0))"
  "unat b0 = 192 + a \<Longrightarrow> unat b1 = 128 + b \<Longrightarrow> b < 64 \<Longrightarrow> 2 \<le> a \<Longrightarrow> a < 32 \<Longrightarrow>
   conv_utf8_to_uni (b0 # b1 # r) = Ok (2, Some (of_nat (a * 64 + b)))"
  "unat b0 = 224 + a \<Longrightarrow> unat b1 = 128 + b \<Longrightarrow> unat b2 = 128 + c \<Longrightarrow> b < 64 \<Longrightarrow> c < 64 \<Longrightarrow> a < 16 \<Longrightarrow> 0 < a \<or> 32 \<le> b \<Longrightarrow>
   conv_utf8_to_uni (b0 # b1 # b2 # r) = Ok (3, Some (of_nat ((a * 64 + b) * 64 + c)))"
  "unat b0 = 240 + a \<Longrightarrow> unat b1 = 128 + b \<Longrightarrow> unat b2 = 128 + c \<Longrightarrow> unat b3 = 128 + d \<Longrightarrow> b < 64 \<Longrightarrow> c < 64 \<Longrightarrow> d < 64 \<Longrightarrow> a < 5 \<Longrightarrow>
   0 < a \<or> 16 \<le> b \<Longrightarrow> a < 4 \<or> b < 16 \<Longrightarrow>
   conv_utf8_to_uni (b0 # b1 # b2 # b3 # r) = Ok (4, Some (of_nat (((a * 64 + b) * 64 + c) * 64 + d)))"
proof -
  show "unat b0 < 128 \<Longrightarrow> conv_utf8_to_uni (b0 # r) = Ok (1, Some (ucast b0))"
    by (simp add: conv_utf8_to_uni_def word_less_nat_alt)
  show "conv_utf8_to_uni (b0 # b1 # r) = Ok (2, Some (of_nat (a * 64 + b)))"
    if "unat b0 = 192 + a" "unat b1 = 128 + b" "b < 64" "2 \<le> a" "a < 32"
  proof -
    define cp :: u32 where "cp = push_bit 6 (ucast (b0 AND 0x1f)) OR push_bit 0 (ucast (b1 AND 0x3f))"
    have n: "unat cp = a * 64 + b" using fields(1) [of b0 b1] that by (simp add: cp_def lead_mods)
    then have "cp = of_nat (a * 64 + b)" "0x80 \<le> cp"
      using that by (metis of_nat_unat ucast_id, simp add: word_le_nat_alt)
    moreover have "conv_utf8_to_uni (b0 # b1 # r) = asserting (0x80 \<le> cp) (Ok (2, Some cp))"
      using that by (simp add: conv_utf8_to_uni_def word_less_nat_alt and_c0 Let_def cp_def)
    ultimately show ?thesis by simp
  qed
  show "conv_utf8_to_uni (b0 # b1 # b2 # r) = Ok (3, Some (of_nat ((a * 64 + b) * 64 + c)))"
    if "unat b0 = 224 + a" "unat b1 = 128 + b" "unat b2 = 128 + c" "b < 64" "c < 64" "a < 16" "0 < a \<or> 32 \<le> b"
  proof -
    define cp :: u32 where "cp = push_bit 12 (ucast (b0 AND 0x0f)) OR push_bit 6 (ucast (b1 AND 0x3f)) OR push_bit 0 (ucast (b2 AND 0x3f))"
    have n: "unat cp = (a * 64 + b) * 64 + c" using fields(2) [of b0 b1 b2] that by (simp add: cp_def lead_mods)
    have "0x800 \<le> (a * 64 + b) * 64 + c" unfolding horner using that by auto
    then have "cp = of_nat ((a * 64 + b) * 64 + c)" "0x800 \<le> cp"
      using n by (metis of_nat_unat ucast_id, simp add: word_le_nat_alt)
    moreover have "conv_utf8_to_uni (b0 # b1 # b2 # r) = asserting (0x800 \<le> cp) (Ok (3, Some cp))"
      using that by (auto simp: conv_utf8_to_uni_def word_less_nat_alt leads and_c0 Let_def cp_def)
    ultimately show ?thesis by simp
  qed
  show "conv_utf8_to_uni (b0 # b1 # b2 # b3 # r) = Ok (4, Some (of_nat (((a * 64 + b) * 64 + c) * 64 + d)))"
    if "unat b0 = 240 + a" "unat b1 = 128 + b" "unat b2 = 128 + c" "unat b3 = 128 + d" "b < 64" "c < 64" "d < 64" "a < 5"
      "0 < a \<or> 16 \<le> b" "a < 4 \<or> b < 16"
  proof -
    define cp :: u32 where "cp = push_bit 18 (ucast (b0 AND 0x07)) OR push_bit 12 (ucast (b1 AND 0x3f)) OR
      push_bit 6 (ucast (b2 AND 0x3f)) OR push_bit 0 (ucast (b3 AND 0x3f))"
    have n: "unat cp = ((a * 64 + b) * 64 + c) * 64 + d" using fields(3) [of b0 b1 b2 b3] that by (simp add: cp_def lead_mods)
    have "0x10000 \<le> ((a * 64 + b) * 64 + c) * 64 + d" unfolding horner using that by auto
    then have "cp = of_nat (((a * 64 + b) * 64 + c) * 64 + d)" "0x10000 \<le> cp"
      using n by (metis of_nat_unat ucast_id, simp add: word_le_nat_alt)
    moreover have "conv_utf8_to_uni (b0 # b1 # b2 # b3 # r) = asserting (0x10000 \<le> cp) (Ok (4, Some cp))"
      using that by (auto simp: conv_utf8_to_uni_def word_less_nat_alt word_le_nat_alt leads and_c0 Let_def cp_def)
    ultimately show ?thesis by simp
  qed
qed

lemma of_nat_lead: "n < 256 \<Longrightarrow> unat (of_nat n :: u8) = n"
  by (simp add: unat_of_nat)

lemma utf8_decodes:
  assumes cp: "cp \<le> UNICODE_MAX"
  shows "conv_utf8_to_uni (utf8_seq (unat cp) @ rest) = Ok (int (length (utf8_seq (unat cp))), Some cp)"
proof -
  define n where "n = unat cp"
  have max: "n < 0x110000" using cp by (simp add: word_le_nat_alt UNICODE_MAX_def n_def)
  have cp': "of_nat n = cp" by (simp add: n_def)
  define a b c d where "a = n div 64 div 64 div 64" and "b = n div 64 div 64 mod 64" and "c = n div 64 mod 64" and "d = n mod 64"
  have lt: "b < 64" "c < 64" "d < 64" by (simp_all add: b_def c_def d_def)
  have dec: "n div 64 div 64 = a * 64 + b" "n div 64 = (a * 64 + b) * 64 + c" "n = ((a * 64 + b) * 64 + c) * 64 + d"
    by (simp_all only: a_def b_def c_def d_def div_mult_mod_eq)
  have n: "n = 262144 * a + 4096 * b + 64 * c + d" using dec(3) by (simp only: horner(2))
  consider "n < 0x80" | "0x80 \<le> n" "n < 0x800" | "0x800 \<le> n" "n < 0x10000" | "0x10000 \<le> n" by linarith
  then show ?thesis
  proof cases
    case 1
    have "unat (of_nat n :: u8) = n" using 1 by (simp add: of_nat_lead)
    then have "(of_nat (unat (of_nat n :: u8)) :: u32) = cp" by (simp only: cp')
    then have "ucast (of_nat n :: u8) = cp" by (simp only: of_nat_unat)
    then show ?thesis using 1 decodes(1) [of "of_nat n" rest] by (simp add: utf8_seq_def of_nat_lead flip: n_def)
  next
    case 2
    have z: "a = 0" "b = 0" by (use 2 n lt in linarith)+
    with n have m: "n = c * 64 + d" by simp
    have "2 \<le> c" "c < 32" by (use 2 lt m in linarith)+
    with m have ab: "a = 0" "b = 0" "n = c * 64 + d" "2 \<le> c" "c < 32" using z by simp_all
    have "utf8_seq n = [of_nat (192 + c), of_nat (128 + d)]" using seqs(1) [of d c] ab lt by simp
    moreover have "conv_utf8_to_uni (of_nat (192 + c) # of_nat (128 + d) # rest) = Ok (2, Some (of_nat n))"
      unfolding ab(3) by (rule decodes(2)) (use ab lt in \<open>simp_all add: of_nat_lead del: of_nat_add\<close>)
    ultimately show ?thesis by (simp only: cp' n_def [symmetric]) simp
  next
    case 3
    have z: "a = 0" by (use 3 n lt in linarith)
    with n have m: "n = 4096 * b + 64 * c + d" by simp
    have "b < 16" by (use 3 lt m in linarith)
    moreover have "0 < b \<or> 32 \<le> c" by (use 3 lt m in linarith)
    ultimately have ab: "a = 0" "n = (b * 64 + c) * 64 + d" "b < 16" "0 < b \<or> 32 \<le> c" using z m by (simp_all only: horner(1))
    have "utf8_seq n = [of_nat (224 + b), of_nat (128 + c), of_nat (128 + d)]" using seqs(2) [of c d b] ab lt by simp
    moreover have "conv_utf8_to_uni (of_nat (224 + b) # of_nat (128 + c) # of_nat (128 + d) # rest) = Ok (3, Some (of_nat n))"
      unfolding ab(2) by (rule decodes(3)) (use ab lt in \<open>simp_all add: of_nat_lead del: of_nat_add\<close>)
    ultimately show ?thesis by (simp only: cp' n_def [symmetric]) simp
  next
    case 4
    have ab: "a < 5" "0 < a \<or> 16 \<le> b" "a < 4 \<or> b < 16" by (use 4 n lt max in linarith)+
    have "utf8_seq n = [of_nat (240 + a), of_nat (128 + b), of_nat (128 + c), of_nat (128 + d)]"
      using seqs(3) [of b c d a] ab lt dec(3) by simp
    moreover have "conv_utf8_to_uni (of_nat (240 + a) # of_nat (128 + b) # of_nat (128 + c) # of_nat (128 + d) # rest) = Ok (4, Some (of_nat n))"
      by (subst dec(3), rule decodes(4)) (use ab lt in \<open>simp_all add: of_nat_lead del: of_nat_add\<close>)
    ultimately show ?thesis by (simp only: cp' n_def [symmetric]) simp
  qed
qed

text \<open>Whatever the decoder accepts is the sequence of the code point it returns.\<close>

lemma utf8_accepts:
  assumes "inp \<noteq> []" "\<forall>k c. conv_utf8_to_uni inp = Ok (k, c) \<longrightarrow> 0 < k"
  shows "\<exists>cp. cp \<le> UNICODE_MAX \<and> prefix (utf8_seq (unat cp)) inp"
proof -
  have fin: "\<exists>cp. cp \<le> UNICODE_MAX \<and> prefix (utf8_seq (unat cp)) inp"
    if "n < 0x110000" "prefix (utf8_seq n) inp" for n
    using that by (intro exI [of _ "of_nat n"]) (simp add: UNICODE_MAX_def word_le_nat_alt unat_of_nat)
  obtain b0 r0 where i0: "inp = b0 # r0" using assms(1) by (cases inp) auto
  note w = conv_utf8_to_uni_def Let_def word_less_nat_alt word_le_nat_alt leads and_c0
  consider "unat b0 < 128" | "194 \<le> unat b0" "unat b0 < 224" | "224 \<le> unat b0" "unat b0 < 240" | "240 \<le> unat b0" "unat b0 < 245"
    using assms by (auto simp: w i0 split: if_splits)
  then show ?thesis
  proof cases
    case 1
    show ?thesis by (rule fin [of "unat b0"]) (use 1 in \<open>simp_all add: utf8_seq_def i0\<close>)
  next
    case 2
    then obtain b1 r1 where i1: "r0 = b1 # r1" "128 \<le> unat b1" "unat b1 < 192"
      using assms by (cases r0) (auto simp: w i0 split: if_splits)
    define a b where "a = unat b0 - 192" and "b = unat b1 - 128"
    have ab: "unat b0 = 192 + a" "unat b1 = 128 + b" "b < 64" "2 \<le> a" "a < 32" using 2 i1 by (simp_all add: a_def b_def)
    show ?thesis
      by (rule fin [of "a * 64 + b"]) (use ab seqs(1) [of b a] in \<open>simp_all add: i0 i1 del: of_nat_add flip: ab(1,2)\<close>)
  next
    case 3
    then obtain b1 b2 r1 where i1: "r0 = b1 # b2 # r1" "128 \<le> unat b1" "unat b1 < 192" "128 \<le> unat b2" "unat b2 < 192"
      "224 < unat b0 \<or> 160 \<le> unat b1"
      using assms by (cases r0 rule: remdups_adj.cases) (auto simp: w i0 split: if_splits)
    define a b c where "a = unat b0 - 224" and "b = unat b1 - 128" and "c = unat b2 - 128"
    have ab: "unat b0 = 224 + a" "unat b1 = 128 + b" "unat b2 = 128 + c" "b < 64" "c < 64" "a < 16" "0 < a \<or> 32 \<le> b"
      using 3 i1 by (simp_all add: a_def b_def c_def) linarith
    show ?thesis
      by (rule fin [of "(a * 64 + b) * 64 + c"]) (use ab seqs(2) [of b c a] in \<open>simp_all add: i0 i1 horner del: of_nat_add flip: ab(1,2,3)\<close>)
  next
    case 4
    then obtain b1 b2 b3 r1 where i1: "r0 = b1 # b2 # b3 # r1" "128 \<le> unat b1" "unat b1 < 192" "128 \<le> unat b2" "unat b2 < 192"
      "128 \<le> unat b3" "unat b3 < 192" "240 < unat b0 \<or> 144 \<le> unat b1" "unat b0 < 244 \<or> unat b1 < 144"
      using assms by (cases r0 rule: remdups_adj.cases; cases "tl (tl r0)") (auto simp: w i0 split: if_splits)
    define a b c d where "a = unat b0 - 240" and "b = unat b1 - 128" and "c = unat b2 - 128" and "d = unat b3 - 128"
    have ab: "unat b0 = 240 + a" "unat b1 = 128 + b" "unat b2 = 128 + c" "unat b3 = 128 + d" "b < 64" "c < 64" "d < 64" "a < 5"
        "0 < a \<or> 16 \<le> b" "a < 4 \<or> b < 16"
      using 4 i1 by (simp_all add: a_def b_def c_def d_def) linarith+
    have "((a * 64 + b) * 64 + c) * 64 + d < 0x110000" unfolding horner using ab by auto
    then show ?thesis
      by (intro fin [of "((a * 64 + b) * 64 + c) * 64 + d"]) (use ab seqs(3) [of b c d a] in \<open>simp_all add: i0 i1 horner del: of_nat_add flip: ab(1,2,3,4)\<close>)
  qed
qed

lemma utf8_total:
  assumes "inp \<noteq> []"
  shows "(\<exists>k c. conv_utf8_to_uni inp = Ok (k, c) \<and> k \<le> 0) \<or>
    (\<exists>cp. cp \<le> UNICODE_MAX \<and> prefix (utf8_seq (unat cp)) inp \<and>
      conv_utf8_to_uni inp = Ok (int (length (utf8_seq (unat cp))), Some cp))"
proof (cases "\<forall>k c. conv_utf8_to_uni inp = Ok (k, c) \<longrightarrow> 0 < k")
  case True
  from utf8_accepts [OF assms True] obtain cp r where "cp \<le> UNICODE_MAX" "inp = utf8_seq (unat cp) @ r"
    by (auto simp: prefix_def)
  then show ?thesis using utf8_decodes [of cp r] by auto
qed (auto simp: not_less)

lemma utf8_seq_ne [simp]: "utf8_seq n \<noteq> []" "0 < length (utf8_seq n)"
  by (simp_all add: utf8_seq_def)

text \<open>
  C10: the UTF-8 decoder accepts exactly the sequences of RFC 3629 for the code points
  up to U+10FFFF (no overlong form, none that is cut off, nothing above) and returns the code
  point and the length of the sequence. The code points of surrogates are among them.
\<close>

theorem conv_utf8_exact:
  "conv_utf8_to_uni inp = Ok (d, Some cp) \<and> 0 < d \<longleftrightarrow>
   cp \<le> UNICODE_MAX \<and> prefix (utf8_seq (unat cp)) inp \<and> d = int (length (utf8_seq (unat cp)))"
proof
  assume l: "conv_utf8_to_uni inp = Ok (d, Some cp) \<and> 0 < d"
  then have "inp \<noteq> []" by (auto simp: conv_utf8_to_uni_def)
  from utf8_total [OF this] l show "cp \<le> UNICODE_MAX \<and> prefix (utf8_seq (unat cp)) inp \<and> d = int (length (utf8_seq (unat cp)))"
    by auto
next
  assume "cp \<le> UNICODE_MAX \<and> prefix (utf8_seq (unat cp)) inp \<and> d = int (length (utf8_seq (unat cp)))"
  then show "conv_utf8_to_uni inp = Ok (d, Some cp) \<and> 0 < d" using utf8_decodes [of cp] by (auto simp: prefix_def)
qed

end
