(* ===== verification/Conv_Codec.thy ===== *)
theory Conv_Codec
  imports Conv_Utf
begin

text \<open>
  What a character set promises to the conversion: its decoder returns on every input that is
  not empty, within it, and reads back what its encoder writes. All Unicode encodings of
  \<^verbatim>\<open>src/conv.c\<close> keep the promise, on hosts of both byte orders.
\<close>

definition scalar_cp :: "u32 \<Rightarrow> bool" where
  "scalar_cp cp \<longleftrightarrow> cp \<le> UNICODE_MAX \<and> (cp < SUR_HIGH_START \<or> cp > SUR_LOW_END)"

locale codec =
  fixes to_uni :: to_uni_func
    and uni_to :: uni_to_func
    and bytes_of :: "u32 \<Rightarrow> u8 list option"
  assumes decode_total: "inp \<noteq> [] \<Longrightarrow> (\<exists>k c. to_uni inp = Ok (k, c) \<and> k \<le> 0) \<or>
      (\<exists>k cp. to_uni inp = Ok (k, Some cp) \<and> 0 < k \<and> k \<le> int (length inp) \<and> cp \<le> UNICODE_MAX)"
    and encode_some: "scalar_cp cp \<Longrightarrow> bytes_of cp = Some bs \<Longrightarrow> bs \<noteq> [] \<and>
      uni_to cp out = (if length out < length bs then (- int (length bs), out) else (int (length bs), bs @ drop (length bs) out))"
    and encode_none: "scalar_cp cp \<Longrightarrow> bytes_of cp = None \<Longrightarrow> uni_to cp out = (if out = [] then - 1 else 0, out)"
    and decode_encode: "scalar_cp cp \<Longrightarrow> bytes_of cp = Some bs \<Longrightarrow> to_uni (bs @ rest) = Ok (int (length bs), Some cp)"

interpretation utf8: codec conv_utf8_to_uni conv_uni_to_utf8 "\<lambda>cp. Some (utf8_seq (unat cp))"
proof
  fix inp :: "u8 list" assume ne: "inp \<noteq> []"
  from utf8_total [OF ne] show "(\<exists>k c. conv_utf8_to_uni inp = Ok (k, c) \<and> k \<le> 0) \<or>
      (\<exists>k cp. conv_utf8_to_uni inp = Ok (k, Some cp) \<and> 0 < k \<and> k \<le> int (length inp) \<and> cp \<le> UNICODE_MAX)"
    by (auto dest: prefix_length_le)
next
  fix cp bs out assume "scalar_cp cp" "Some (utf8_seq (unat cp)) = Some bs"
  then show "bs \<noteq> [] \<and> conv_uni_to_utf8 cp out =
      (if length out < length bs then (- int (length bs), out) else (int (length bs), bs @ drop (length bs) out))"
    using utf8_encodes [of cp out] by (auto simp: scalar_cp_def Let_def)
next
  fix cp bs rest assume "scalar_cp cp" "Some (utf8_seq (unat cp)) = Some bs"
  then show "conv_utf8_to_uni (bs @ rest) = Ok (int (length bs), Some cp)"
    using utf8_decodes [of cp rest] by (auto simp: scalar_cp_def)
qed simp

section \<open>UTF-16\<close>

text \<open>The units are written in the order of \<open>wire\<close>.\<close>

definition utf16_seq :: "(u16 \<Rightarrow> u8 list) \<Rightarrow> u32 \<Rightarrow> u8 list" where
  "utf16_seq wire cp =
     (if cp < 0x10000 then wire (ucast cp)
      else let n = unat cp - 0x10000 in wire (of_nat (0xd800 + n div 1024)) @ wire (of_nat (0xdc00 + n mod 1024)))"

lemma or_base: "n < 1024 \<Longrightarrow> 1024 dvd m \<Longrightarrow> n OR m = m + (n :: nat)"
  using or_is_add [of n 10 m] by simp

lemma units:
  fixes c :: u32
  assumes n: "unat c < 0x100000"
  shows "ucast ((drop_bit 10 c AND 0x3ff) OR SUR_HIGH_START) = (of_nat (0xd800 + unat c div 1024) :: u16)"
    and "ucast ((drop_bit 0 c AND 0x3ff) OR SUR_LOW_START) = (of_nat (0xdc00 + unat c mod 1024) :: u16)"
proof -
  have "unat (drop_bit 10 c AND 0x3ff) = unat c div 1024"
    using n by (simp only: and_mod32 unat_drop_bit_eq) (simp add: drop_bit_eq_div)
  then have "unat ((drop_bit 10 c AND 0x3ff) OR SUR_HIGH_START) = 0xd800 + unat c div 1024"
    using n or_base [of "unat c div 1024" "0xd800"] by (simp add: unat_or SUR_HIGH_START_def)
  then have "(of_nat (unat ((drop_bit 10 c AND 0x3ff) OR SUR_HIGH_START)) :: u16) = of_nat (0xd800 + unat c div 1024)"
    by (simp only:)
  then show "ucast ((drop_bit 10 c AND 0x3ff) OR SUR_HIGH_START) = (of_nat (0xd800 + unat c div 1024) :: u16)"
    by (simp only: of_nat_unat)
  have "unat ((drop_bit 0 c AND 0x3ff) OR SUR_LOW_START) = 0xdc00 + unat c mod 1024"
    using or_base [of "unat c mod 1024" "0xdc00"] by (simp add: unat_or and_mod32 SUR_LOW_START_def)
  then have "(of_nat (unat ((drop_bit 0 c AND 0x3ff) OR SUR_LOW_START)) :: u16) = of_nat (0xdc00 + unat c mod 1024)"
    by (simp only:)
  then show "ucast ((drop_bit 0 c AND 0x3ff) OR SUR_LOW_START) = (of_nat (0xdc00 + unat c mod 1024) :: u16)"
    by (simp only: of_nat_unat)
qed

text \<open>A pair of units is read as the code point.\<close>

lemma up16: "unat (ucast w :: u32) = unat w" for w :: u16
  using unsigned_less [where 'a=nat, of w] by (simp add: unsigned_ucast_eq take_bit_nat_eq_self)

lemma and_mod16: "unat (w AND 0x3ff) = unat w mod 1024" for w :: u16
proof -
  have "w AND 0x3ff = take_bit 10 w" by (simp add: take_bit_eq_mask mask_eq_exp_minus_1)
  then show ?thesis by (simp only: unsigned_take_bit_eq) (simp add: take_bit_eq_mod)
qed

lemma pair:
  fixes w0 w1 :: u16
  assumes "unat w0 = 0xd800 + a" "unat w1 = 0xdc00 + b" "a < 1024" "b < 1024"
  shows "(push_bit 10 (ucast (w0 AND 0x3ff)) OR push_bit 0 (ucast (w1 AND 0x3ff))) + 0x10000 = (of_nat (0x10000 + (a * 1024 + b)) :: u32)"
proof -
  have m: "(0xd800 + a) mod 1024 = a" "(0xdc00 + b) mod 1024 = b"
    using assms mod_mult_self2 [of a 1024 54] mod_mult_self2 [of b 1024 55] by (simp_all add: add.commute)
  have "unat (push_bit 10 (ucast (w0 AND 0x3ff)) OR push_bit 0 (ucast (w1 AND 0x3ff)) :: u32) = a * 1024 + b"
    using push_or [of "ucast (w1 AND 0x3ff) :: u32" 10 "ucast (w0 AND 0x3ff)"] assms m by (simp add: up16 and_mod16)
  then have "(push_bit 10 (ucast (w0 AND 0x3ff)) OR push_bit 0 (ucast (w1 AND 0x3ff)) :: u32) = of_nat (a * 1024 + b)"
    by (metis of_nat_unat ucast_id)
  then show ?thesis by simp
qed

lemma sur16: "ucast w < SUR_HIGH_START \<longleftrightarrow> unat w < 0xd800" "SUR_LOW_START \<le> ucast w \<longleftrightarrow> 0xdc00 \<le> unat w"
  "SUR_LOW_END < ucast w \<longleftrightarrow> 0xdfff < unat w" "ucast w < SUR_LOW_START \<longleftrightarrow> unat w < 0xdc00" for w :: u16
  by (simp_all add: word_less_nat_alt word_le_nat_alt up16 sur_defs)

lemma utf16_codec:
  assumes "byte_order 2 toh hto wire unwire"
  shows "codec (NDM_CONV_UTF16_to_uni h (toh h)) (NDM_CONV_UTF16_uni_to h (hto h)) (\<lambda>cp. Some (utf16_seq wire cp))"
proof -
  note store = byte_order.store [OF assms] and load = byte_order.load_wire [OF assms] and len = byte_order.length_wire [OF assms]
  show ?thesis
  proof
    fix inp :: "u8 list"
    define w0 where "w0 = toh h (mem_value h (take 2 inp))"
    define w1 where "w1 = toh h (mem_value h (take 2 (drop 2 inp)))"
    let ?c = "(push_bit 10 (ucast (w0 AND 0x3ff)) OR push_bit 0 (ucast (w1 AND 0x3ff))) + 0x10000 :: u32"
    have "?c \<le> UNICODE_MAX" if "0xd800 \<le> unat w0" "unat w0 < 0xdc00" "0xdc00 \<le> unat w1" "unat w1 \<le> 0xdfff"
    proof -
      have "?c = of_nat (0x10000 + ((unat w0 - 0xd800) * 1024 + (unat w1 - 0xdc00)))"
        by (rule pair) (use that in auto)
      moreover have "0x10000 + ((unat w0 - 0xd800) * 1024 + (unat w1 - 0xdc00)) \<le> 0x10ffff" using that by linarith
      ultimately show ?thesis by (simp add: UNICODE_MAX_def word_le_nat_alt unat_of_nat del: of_nat_add of_nat_mult)
    qed
    moreover have "ucast w0 \<le> UNICODE_MAX"
      using unsigned_less [where 'a=nat, of w0] by (simp add: UNICODE_MAX_def word_le_nat_alt up16)
    ultimately show "(\<exists>k c. NDM_CONV_UTF16_to_uni h (toh h) inp = Ok (k, c) \<and> k \<le> 0) \<or>
        (\<exists>k cp. NDM_CONV_UTF16_to_uni h (toh h) inp = Ok (k, Some cp) \<and> 0 < k \<and> k \<le> int (length inp) \<and> cp \<le> UNICODE_MAX)"
      by (auto simp: NDM_CONV_UTF16_to_uni_def sur16 Let_def simp flip: w0_def w1_def)
  next
    fix cp bs out assume cp: "scalar_cp cp" and bs: "Some (utf16_seq wire cp) = Some bs"
    have lt: "unat (cp - 0x10000) = unat cp - 0x10000" "unat cp - 0x10000 < 0x100000" if "\<not> cp < 0x10000"
      using that cp by (auto simp: not_less scalar_cp_def UNICODE_MAX_def word_le_nat_alt unat_sub)
    show "bs \<noteq> [] \<and> NDM_CONV_UTF16_uni_to h (hto h) cp out =
        (if length out < length bs then (- int (length bs), out) else (int (length bs), bs @ drop (length bs) out))"
    proof (cases "cp < 0x10000")
      case True
      then show ?thesis using bs len [of "ucast cp"]
        by (auto simp: NDM_CONV_UTF16_uni_to_def utf16_seq_def store)
    next
      case False
      then show ?thesis using bs lt [OF False] units [of "cp - 0x10000"]
        by (auto simp: NDM_CONV_UTF16_uni_to_def utf16_seq_def store len Let_def simp del: of_nat_add
            dest: arg_cong [where f=length])
    qed
  next
    fix cp bs rest assume cp: "scalar_cp cp" and bs: "Some (utf16_seq wire cp) = Some bs"
    show "NDM_CONV_UTF16_to_uni h (toh h) (bs @ rest) = Ok (int (length bs), Some cp)"
    proof (cases "cp < 0x10000")
      case True
      then have u: "unat (ucast cp :: u16) = unat cp" by (simp add: unsigned_ucast_eq take_bit_nat_eq_self word_less_nat_alt)
      then have "(ucast (ucast cp :: u16) :: u32) = cp" by (simp add: word_unat_eq_iff up16)
      with True u bs cp show ?thesis
        by (auto simp: NDM_CONV_UTF16_to_uni_def utf16_seq_def load len sur16 scalar_cp_def sur_defs word_less_nat_alt)
    next
      case False
      define a b where "a = (unat cp - 0x10000) div 1024" and "b = (unat cp - 0x10000) mod 1024"
      have n: "0x10000 \<le> unat cp" "unat cp \<le> 0x10ffff"
        using False cp by (auto simp: not_less scalar_cp_def UNICODE_MAX_def word_le_nat_alt)
      then have ab: "a < 1024" "b < 1024" "0x10000 + (a * 1024 + b) = unat cp" by (auto simp: a_def b_def)
      have bs': "bs = wire (of_nat (0xd800 + a)) @ wire (of_nat (0xdc00 + b))"
        using bs False by (simp add: utf16_seq_def a_def b_def Let_def)
      have w: "unat (of_nat (0xd800 + a) :: u16) = 0xd800 + a" "unat (of_nat (0xdc00 + b) :: u16) = 0xdc00 + b"
        using ab by (simp_all add: unat_of_nat del: of_nat_add)
      have "(push_bit 10 (ucast ((of_nat (0xd800 + a) :: u16) AND 0x3ff)) OR push_bit 0 (ucast ((of_nat (0xdc00 + b) :: u16) AND 0x3ff))) + 0x10000 = cp"
        unfolding pair [OF w ab(1,2)] ab(3) by simp
      then show ?thesis using ab
        by (simp add: NDM_CONV_UTF16_to_uni_def bs' load len sur16 w Let_def del: of_nat_add)
    qed
  qed simp
qed

lemma utf16_be: "codec (conv_utf16_be_to_uni h) (conv_uni_to_utf16_be h) (\<lambda>cp. Some (utf16_seq (be_bytes 2) cp))"
  unfolding conv_utf16_be_to_uni_def conv_uni_to_utf16_be_def by (rule utf16_codec [OF be16.byte_order_axioms])

lemma utf16_le: "codec (conv_utf16_le_to_uni h) (conv_uni_to_utf16_le h) (\<lambda>cp. Some (utf16_seq (mem_bytes LittleEndian 2) cp))"
  unfolding conv_utf16_le_to_uni_def conv_uni_to_utf16_le_def by (rule utf16_codec [OF le16.byte_order_axioms])

lemma utf16_native: "\<exists>f. codec (conv_utf16_to_uni h) (conv_uni_to_utf16 h) f"
proof -
  have "conv_utf16_to_uni h = (if ndm_endian_is_le h then conv_utf16_le_to_uni h else conv_utf16_be_to_uni h)"
    "conv_uni_to_utf16 h = (if ndm_endian_is_le h then conv_uni_to_utf16_le h else conv_uni_to_utf16_be h)"
    by (auto simp: conv_utf16_to_uni_def conv_uni_to_utf16_def fun_eq_iff)
  then show ?thesis using utf16_be [of h] utf16_le [of h] by auto
qed

section \<open>UTF-32\<close>

lemma utf32_codec:
  assumes "byte_order 4 toh hto wire unwire"
  shows "codec (NDM_CONV_UTF32_to_uni h (toh h)) (NDM_CONV_UTF32_uni_to h (hto h)) (\<lambda>cp. Some (wire cp))"
proof -
  note store = byte_order.store [OF assms] and load = byte_order.load_wire [OF assms] and len = byte_order.length_wire [OF assms]
  show ?thesis
  proof
    fix cp bs rest assume cp: "scalar_cp cp" and bs: "Some (wire cp) = Some bs"
    have "wire cp \<noteq> []" using len [of cp] by auto
    then show "NDM_CONV_UTF32_to_uni h (toh h) (bs @ rest) = Ok (int (length bs), Some cp)"
      using bs cp by (auto simp: NDM_CONV_UTF32_to_uni_def load len scalar_cp_def Let_def)
  next
    fix cp bs out assume cp: "scalar_cp cp" and bs: "Some (wire cp) = Some bs"
    have "wire cp \<noteq> []" using len [of cp] by auto
    then show "bs \<noteq> [] \<and> NDM_CONV_UTF32_uni_to h (hto h) cp out =
        (if length out < length bs then (- int (length bs), out) else (int (length bs), bs @ drop (length bs) out))"
      using bs by (auto simp: NDM_CONV_UTF32_uni_to_def store len)
  qed (auto simp: NDM_CONV_UTF32_to_uni_def Let_def)
qed

lemma utf32_be: "codec (conv_utf32_be_to_uni h) (conv_uni_to_utf32_be h) (\<lambda>cp. Some (be_bytes 4 cp))"
  unfolding conv_utf32_be_to_uni_def conv_uni_to_utf32_be_def by (rule utf32_codec [OF be32.byte_order_axioms])

lemma utf32_le: "codec (conv_utf32_le_to_uni h) (conv_uni_to_utf32_le h) (\<lambda>cp. Some (mem_bytes LittleEndian 4 cp))"
  unfolding conv_utf32_le_to_uni_def conv_uni_to_utf32_le_def by (rule utf32_codec [OF le32.byte_order_axioms])

lemma utf32_native: "\<exists>f. codec (conv_utf32_to_uni h) (conv_uni_to_utf32 h) f"
proof -
  have "conv_utf32_to_uni h = (if ndm_endian_is_le h then conv_utf32_le_to_uni h else conv_utf32_be_to_uni h)"
    "conv_uni_to_utf32 h = (if ndm_endian_is_le h then conv_uni_to_utf32_le h else conv_uni_to_utf32_be h)"
    by (auto simp: conv_utf32_to_uni_def conv_uni_to_utf32_def fun_eq_iff)
  then show ?thesis using utf32_be [of h] utf32_le [of h] by auto
qed

end
