(* ===== verification/Charset.thy ===== *)
theory Charset
  imports Conv_Codec
begin

text \<open>
  Single-byte character sets (\<^verbatim>\<open>src/charset/*.h\<close>, written by \<^verbatim>\<open>utils/convgen.c\<close>): every decoder and
  every encoder is a chain of conditional branches of a few shapes over tables, which are the
  data of the theories of character sets. Bytes, code points and the entries of tables are
  natural numbers in the branches.
\<close>

text \<open>A table is the list of its rows.\<close>

definition table :: "nat list list \<Rightarrow> nat list" where
  "table rows = concat rows"

section \<open>Decoders\<close>

text \<open>
  \<open>Same hi\<close> is \<open>if (b0 <= hi) { *cp = b0; return 1; }\<close>; \<open>Table lo hi t bad\<close> is
  \<open>if (lo <= b0 && b0 <= hi)\<close> with the code \<open>t[b0 - lo]\<close>, refused if it is \<open>bad\<close>.
\<close>

datatype sbcs_decode =
    Same nat
  | Table nat nat "nat list" "nat option"

text \<open>The code that is set, if one is.\<close>

fun sbcs_byte :: "sbcs_decode list \<Rightarrow> nat \<Rightarrow> nat option result" where
  "sbcs_byte [] b0 = Ok None"
| "sbcs_byte (Same hi # branches) b0 = (if b0 \<le> hi then Ok (Some b0) else sbcs_byte branches b0)"
| "sbcs_byte (Table lo hi t bad # branches) b0 =
     (if lo \<le> b0 \<and> b0 \<le> hi then
        if b0 - lo < length t then
          let code = t ! (b0 - lo) in if bad = Some code then Ok None else Ok (Some code)
        else Undefined
      else sbcs_byte branches b0)"

definition sbcs_to_uni :: "sbcs_decode list \<Rightarrow> to_uni_func" where
  "sbcs_to_uni branches inp =
     asserting (length inp > 0)
       (bind_result (sbcs_byte branches (unat (inp ! 0))) (\<lambda>code.
        case code of None \<Rightarrow> Ok (- 1, None) | Some code \<Rightarrow> Ok (1, Some (ucast (of_nat code :: u16)))))"

section \<open>Encoders\<close>

text \<open>
  \<open>Upto hi\<close> is \<open>if (cp <= hi) { *out = cp; return 1; }\<close>, \<open>Single c b\<close> is
  \<open>if (cp == c) { *out = b; return 1; }\<close>, \<open>Codes lo hi t bad\<close> is
  \<open>if (lo <= cp && cp <= hi)\<close> with the byte \<open>t[cp - lo]\<close>, refused if it is \<open>bad\<close>.
\<close>

datatype sbcs_encode =
    Upto nat
  | Single nat nat
  | Codes nat nat "nat list" "nat option"

fun sbcs_code :: "sbcs_encode list \<Rightarrow> nat \<Rightarrow> nat option" where
  "sbcs_code [] cp = None"
| "sbcs_code (Upto hi # branches) cp = (if cp \<le> hi then Some cp else sbcs_code branches cp)"
| "sbcs_code (Single c b # branches) cp = (if cp = c then Some b else sbcs_code branches cp)"
| "sbcs_code (Codes lo hi t bad # branches) cp =
     (if lo \<le> cp \<and> cp \<le> hi then
        let code = t ! (cp - lo) in if bad = Some code then None else Some code
      else sbcs_code branches cp)"

definition sbcs_uni_to :: "sbcs_encode list \<Rightarrow> uni_to_func" where
  "sbcs_uni_to branches cp out =
     (if length out = 0 then (- 1, out)
      else case sbcs_code branches (unat cp) of None \<Rightarrow> (0, out) | Some b \<Rightarrow> (1, out[0 := of_nat b]))"

section \<open>Checking a character set\<close>

definition decodes_to :: "sbcs_decode list \<Rightarrow> nat \<Rightarrow> nat \<Rightarrow> bool" where
  "decodes_to d b cp \<longleftrightarrow> sbcs_byte d b = Ok (Some cp)"

fun codes_ok :: "sbcs_decode list \<Rightarrow> nat option \<Rightarrow> nat \<Rightarrow> nat list \<Rightarrow> bool" where
  "codes_ok d bad cp [] = True"
| "codes_ok d bad cp (b # t) = ((bad = Some b \<or> decodes_to d b cp) \<and> codes_ok d bad (cp + 1) t)"

fun decode_ok :: "sbcs_decode \<Rightarrow> bool" where
  "decode_ok (Same hi) = (hi < 256)"
| "decode_ok (Table lo hi t bad) = (hi < 256 \<and> length t = hi - lo + 1)"

fun encode_ok :: "sbcs_decode list \<Rightarrow> sbcs_encode \<Rightarrow> bool" where
  "encode_ok d (Upto hi) = (case d of Same h # _ \<Rightarrow> hi \<le> h | _ \<Rightarrow> False)"
| "encode_ok d (Single c b) = (c < 65536 \<and> decodes_to d b c)"
| "encode_ok d (Codes lo hi t bad) = (hi < 65536 \<and> length t = hi - lo + 1 \<and> codes_ok d bad lo t)"

definition sbcs_ok :: "sbcs_decode list \<Rightarrow> sbcs_encode list \<Rightarrow> bool" where
  "sbcs_ok d e \<longleftrightarrow> list_all decode_ok d \<and> list_all (encode_ok d) e"

lemma sbcs_byte_total:
  "list_all decode_ok d \<Longrightarrow> \<exists>c. sbcs_byte d b = Ok c \<and> (c \<noteq> None \<longrightarrow> b < 256)"
  by (induction d b rule: sbcs_byte.induct) (auto simp: Let_def)

lemma codes_ok_nth:
  "codes_ok d bad cp t \<Longrightarrow> i < length t \<Longrightarrow> bad = Some (t ! i) \<or> decodes_to d (t ! i) (cp + i)"
proof (induction d bad cp t arbitrary: i rule: codes_ok.induct)
  case (2 d bad cp b t)
  then show ?case by (cases i) auto
qed simp

lemma sbcs_code_decodes:
  "list_all decode_ok d \<Longrightarrow> list_all (encode_ok d) e \<Longrightarrow> sbcs_code e cp = Some b \<Longrightarrow> decodes_to d b cp \<and> cp < 65536"
proof (induction e cp rule: sbcs_code.induct)
  case (2 hi branches cp)
  then show ?case by (auto simp: decodes_to_def split: list.splits sbcs_decode.splits if_splits)
next
  case (4 lo hi t bad branches cp)
  show ?case
  proof (cases "lo \<le> cp \<and> cp \<le> hi")
    case True
    have "codes_ok d bad lo t" "cp - lo < length t" using 4 True by auto
    from codes_ok_nth [OF this] 4 True show ?thesis by (auto simp: Let_def split: if_splits)
  next
    case False
    then have "sbcs_code (Codes lo hi t bad # branches) cp = sbcs_code branches cp" by (simp del: de_Morgan_conj)
    with 4 False show ?thesis by (simp del: sbcs_code.simps)
  qed
qed (auto split: if_splits)

lemma sbcs_codec:
  assumes "sbcs_ok d e"
  shows "codec (sbcs_to_uni d) (sbcs_uni_to e) (\<lambda>cp. map_option (\<lambda>b. [of_nat b]) (sbcs_code e (unat cp)))"
proof
  fix inp :: "u8 list" assume "inp \<noteq> []"
  moreover have "(ucast w :: u32) \<le> UNICODE_MAX" for w :: u16
    using unsigned_less [where 'a=nat, of w] by (simp add: word_le_nat_alt UNICODE_MAX_def up16)
  moreover obtain c where "sbcs_byte d (unat (inp ! 0)) = Ok c"
    using sbcs_byte_total [of d "unat (inp ! 0)"] assms by (auto simp: sbcs_ok_def)
  ultimately show "(\<exists>k c. sbcs_to_uni d inp = Ok (k, c) \<and> k \<le> 0) \<or>
      (\<exists>k cp. sbcs_to_uni d inp = Ok (k, Some cp) \<and> 0 < k \<and> k \<le> int (length inp) \<and> cp \<le> UNICODE_MAX)"
    by (cases c) (simp_all add: sbcs_to_uni_def Suc_le_eq)
next
  fix cp :: u32 and bs out :: "u8 list" assume "map_option (\<lambda>b. [of_nat b]) (sbcs_code e (unat cp)) = Some bs"
  then show "bs \<noteq> [] \<and> sbcs_uni_to e cp out =
      (if length out < length bs then (- int (length bs), out) else (int (length bs), bs @ drop (length bs) out))"
    by (cases out) (auto simp: sbcs_uni_to_def)
next
  fix cp :: u32 and bs rest :: "u8 list" assume "map_option (\<lambda>b. [of_nat b]) (sbcs_code e (unat cp)) = Some bs"
  then obtain b where b: "sbcs_code e (unat cp) = Some b" "bs = [of_nat b]" by auto
  have d: "sbcs_byte d b = Ok (Some (unat cp))" "unat cp < 65536"
    using sbcs_code_decodes [OF _ _ b(1), of d] assms by (auto simp: sbcs_ok_def decodes_to_def)
  then have "unat (of_nat b :: u8) = b"
    using sbcs_byte_total [of d b] assms by (auto simp: sbcs_ok_def unat_of_nat)
  moreover have "unat (of_nat (unat cp) :: u16) = unat cp" using d(2) by (simp only: unat_of_nat) simp
  then have "ucast (of_nat (unat cp) :: u16) = cp" by (simp only: word_unat_eq_iff up16)
  ultimately show "sbcs_to_uni d (bs @ rest) = Ok (int (length bs), Some cp)"
    using d by (simp add: sbcs_to_uni_def b del: of_nat_unat)
qed (auto simp: sbcs_uni_to_def)

definition is_codec :: "to_uni_func \<Rightarrow> uni_to_func \<Rightarrow> bool" where
  "is_codec f g \<longleftrightarrow> (\<exists>bytes_of. codec f g bytes_of)"

lemma sbcs_is_codec: "sbcs_ok d e \<Longrightarrow> is_codec (sbcs_to_uni d) (sbcs_uni_to e)"
  using sbcs_codec by (auto simp: is_codec_def)

lemma utf_is_codec:
  "is_codec conv_utf8_to_uni conv_uni_to_utf8"
  "is_codec (conv_utf16_to_uni h) (conv_uni_to_utf16 h)"
  "is_codec (conv_utf16_le_to_uni h) (conv_uni_to_utf16_le h)"
  "is_codec (conv_utf16_be_to_uni h) (conv_uni_to_utf16_be h)"
  "is_codec (conv_utf32_to_uni h) (conv_uni_to_utf32 h)"
  "is_codec (conv_utf32_le_to_uni h) (conv_uni_to_utf32_le h)"
  "is_codec (conv_utf32_be_to_uni h) (conv_uni_to_utf32_be h)"
  using utf8.codec_axioms utf16_native utf16_le utf16_be utf32_native utf32_le utf32_be unfolding is_codec_def by blast+

text \<open>
  A set is checked entry by entry: the tables of the encoder are taken apart into rows, and
  the entries of those of the decoder are facts.
\<close>

definition entries :: "nat list \<Rightarrow> int \<Rightarrow> nat list \<Rightarrow> bool" where
  "entries t k xs \<longleftrightarrow> (\<forall>i < length xs. t ! nat (k + int i) = xs ! i)"

lemma entries_Nil: "entries t k []"
  by (simp add: entries_def)

lemma entries_Cons: "entries t k (x # xs) \<longleftrightarrow> t ! nat k = x \<and> entries t (k + 1) xs"
  by (auto simp: entries_def nth_Cons less_Suc_eq_0_disj algebra_simps split: nat.splits)

lemma entries_append: "entries t k (xs @ ys) \<longleftrightarrow> entries t k xs \<and> entries t (k + int (length xs)) ys"
  by (induction xs arbitrary: k) (auto simp: entries_Nil entries_Cons algebra_simps)

lemma entries_table: "entries t k (table []) = True"
  "entries t k (table (r # rs)) \<longleftrightarrow> entries t k r \<and> entries t (k + int (length r)) (table rs)"
  by (simp_all add: table_def entries_Nil entries_append)

lemma length_table: "length (table []) = 0" "length (table (r # rs)) = length r + length (table rs)"
  by (simp_all add: table_def)

lemma table_entries: "t = xs \<Longrightarrow> entries t 0 xs \<and> length t = length xs"
  by (simp add: entries_def)

lemma codes_ok_append:
  "codes_ok d bad cp (s @ t) \<longleftrightarrow> codes_ok d bad cp s \<and> codes_ok d bad (cp + length s) t"
  by (induction d bad cp s rule: codes_ok.induct) (auto simp: add.assoc)

lemma codes_ok_table: "codes_ok d bad cp (table []) = True"
  "codes_ok d bad cp (table (r # rs)) \<longleftrightarrow> codes_ok d bad cp r \<and> codes_ok d bad (cp + length r) (table rs)"
  by (simp_all add: table_def codes_ok_append)

lemmas entries_simps = entries_table entries_Nil entries_Cons length_table
lemmas sbcs_simps = sbcs_ok_def decodes_to_def codes_ok_table length_table

end
