(* ===== verification/Charset_Iso.thy ===== *)
theory Charset_Iso
  imports Charset
begin

text \<open>
  The sets of ISO 8859: the tables and the branches of \<^verbatim>\<open>src/charset/\<close>, one header per set, and for every set
  the proof that its encoder writes only what its decoder reads back.
\<close>

section \<open>8859-1\<close>

definition conv_8859_1_to_uni :: to_uni_func where
  "conv_8859_1_to_uni = sbcs_to_uni
    [Same 0xff]"

definition conv_uni_to_8859_1 :: uni_to_func where
  "conv_uni_to_8859_1 = sbcs_uni_to
    [Upto 0xff]"

lemma iso_8859_1_codec: "is_codec conv_8859_1_to_uni conv_uni_to_8859_1"
  unfolding conv_8859_1_to_uni_def conv_uni_to_8859_1_def
  by (rule sbcs_is_codec) (simp add: sbcs_simps)

section \<open>8859-10\<close>

definition ISO_8859_10_000000A1_000000FF_TO_UNI :: "nat list" where
  "ISO_8859_10_000000A1_000000FF_TO_UNI =
    table [[0x0104, 0x0112, 0x0122, 0x012a, 0x0128, 0x0136, 0x00a7, 0x013b, 0x0110, 0x0160, 0x0166, 0x017d, 0x00ad, 0x016a, 0x014a, 0x00b0],
     [0x0105, 0x0113, 0x0123, 0x012b, 0x0129, 0x0137, 0x00b7, 0x013c, 0x0111, 0x0161, 0x0167, 0x017e, 0x2015, 0x016b, 0x014b, 0x0100],
     [0x00c1, 0x00c2, 0x00c3, 0x00c4, 0x00c5, 0x00c6, 0x012e, 0x010c, 0x00c9, 0x0118, 0x00cb, 0x0116, 0x00cd, 0x00ce, 0x00cf, 0x00d0],
     [0x0145, 0x014c, 0x00d3, 0x00d4, 0x00d5, 0x00d6, 0x0168, 0x00d8, 0x0172, 0x00da, 0x00db, 0x00dc, 0x00dd, 0x00de, 0x00df, 0x0101],
     [0x00e1, 0x00e2, 0x00e3, 0x00e4, 0x00e5, 0x00e6, 0x012f, 0x010d, 0x00e9, 0x0119, 0x00eb, 0x0117, 0x00ed, 0x00ee, 0x00ef, 0x00f0],
     [0x0146, 0x014d, 0x00f3, 0x00f4, 0x00f5, 0x00f6, 0x0169, 0x00f8, 0x0173, 0x00fa, 0x00fb, 0x00fc, 0x00fd, 0x00fe, 0x0138]]"

definition UNI_000000A7_0000017E_TO_ISO_8859_10 :: "nat list" where
  "UNI_000000A7_0000017E_TO_ISO_8859_10 =
    table [[0xa7, 0x00, 0x00, 0x00, 0x00, 0x00, 0xad, 0x00, 0x00, 0xb0, 0x00, 0x00, 0x00, 0x00, 0x00, 0x00],
     [0xb7, 0x00, 0x00, 0x00, 0x00, 0x00, 0x00, 0x00, 0x00, 0x00, 0xc1, 0xc2, 0xc3, 0xc4, 0xc5, 0xc6],
     [0x00, 0x00, 0xc9, 0x00, 0xcb, 0x00, 0xcd, 0xce, 0xcf, 0xd0, 0x00, 0x00, 0xd3, 0xd4, 0xd5, 0xd6],
     [0x00, 0xd8, 0x00, 0xda, 0xdb, 0xdc, 0xdd, 0xde, 0xdf, 0x00, 0xe1, 0xe2, 0xe3, 0xe4, 0xe5, 0xe6],
     [0x00, 0x00, 0xe9, 0x00, 0xeb, 0x00, 0xed, 0xee, 0xef, 0xf0, 0x00, 0x00, 0xf3, 0xf4, 0xf5, 0xf6],
     [0x00, 0xf8, 0x00, 0xfa, 0xfb, 0xfc, 0xfd, 0xfe, 0x00, 0xc0, 0xe0, 0x00, 0x00, 0xa1, 0xb1, 0x00],
     [0x00, 0x00, 0x00, 0x00, 0x00, 0xc8, 0xe8, 0x00, 0x00, 0xa9, 0xb9, 0xa2, 0xb2, 0x00, 0x00, 0xcc],
     [0xec, 0xca, 0xea, 0x00, 0x00, 0x00, 0x00, 0x00, 0x00, 0x00, 0x00, 0xa3, 0xb3, 0x00, 0x00, 0x00],
     [0x00, 0xa5, 0xb5, 0xa4, 0xb4, 0x00, 0x00, 0xc7, 0xe7, 0x00, 0x00, 0x00, 0x00, 0x00, 0x00, 0xa6],
     [0xb6, 0xff, 0x00, 0x00, 0xa8, 0xb8, 0x00, 0x00, 0x00, 0x00, 0x00, 0x00, 0x00, 0x00, 0xd1, 0xf1],
     [0x00, 0x00, 0x00, 0xaf, 0xbf, 0xd2, 0xf2, 0x00, 0x00, 0x00, 0x00, 0x00, 0x00, 0x00, 0x00, 0x00],
     [0x00, 0x00, 0x00, 0x00, 0x00, 0x00, 0x00, 0x00, 0x00, 0xaa, 0xba, 0x00, 0x00, 0x00, 0x00, 0xab],
     [0xbb, 0xd7, 0xf7, 0xae, 0xbe, 0x00, 0x00, 0x00, 0x00, 0x00, 0x00, 0xd9, 0xf9, 0x00, 0x00, 0x00],
     [0x00, 0x00, 0x00, 0x00, 0x00, 0x00, 0xac, 0xbc]]"

definition conv_8859_10_to_uni :: to_uni_func where
  "conv_8859_10_to_uni = sbcs_to_uni
    [Same 0xa0,
     Table 0xa1 0xff ISO_8859_10_000000A1_000000FF_TO_UNI None]"

definition conv_uni_to_8859_10 :: uni_to_func where
  "conv_uni_to_8859_10 = sbcs_uni_to
    [Upto 0xa0,
     Codes 0x00a7 0x017e UNI_000000A7_0000017E_TO_ISO_8859_10 (Some 0x00),
     Single 0x2015 0xbd]"

lemmas iso_8859_10_entries = table_entries [OF ISO_8859_10_000000A1_000000FF_TO_UNI_def, simplified entries_simps, simplified]

lemma iso_8859_10_codec: "is_codec conv_8859_10_to_uni conv_uni_to_8859_10"
  unfolding conv_8859_10_to_uni_def conv_uni_to_8859_10_def
  by (rule sbcs_is_codec) (simp add: sbcs_simps iso_8859_10_entries
    UNI_000000A7_0000017E_TO_ISO_8859_10_def)

section \<open>8859-11\<close>

definition ISO_8859_11_000000A1_000000FB_TO_UNI :: "nat list" where
  "ISO_8859_11_000000A1_000000FB_TO_UNI =
    table [[0x0e01, 0x0e02, 0x0e03, 0x0e04, 0x0e05, 0x0e06, 0x0e07, 0x0e08, 0x0e09, 0x0e0a, 0x0e0b, 0x0e0c, 0x0e0d, 0x0e0e, 0x0e0f, 0x0e10],
     [0x0e11, 0x0e12, 0x0e13, 0x0e14, 0x0e15, 0x0e16, 0x0e17, 0x0e18, 0x0e19, 0x0e1a, 0x0e1b, 0x0e1c, 0x0e1d, 0x0e1e, 0x0e1f, 0x0e20],
     [0x0e21, 0x0e22, 0x0e23, 0x0e24, 0x0e25, 0x0e26, 0x0e27, 0x0e28, 0x0e29, 0x0e2a, 0x0e2b, 0x0e2c, 0x0e2d, 0x0e2e, 0x0e2f, 0x0e30],
     [0x0e31, 0x0e32, 0x0e33, 0x0e34, 0x0e35, 0x0e36, 0x0e37, 0x0e38, 0x0e39, 0x0e3a, 0xd800, 0xd800, 0xd800, 0xd800, 0x0e3f, 0x0e40],
     [0x0e41, 0x0e42, 0x0e43, 0x0e44, 0x0e45, 0x0e46, 0x0e47, 0x0e48, 0x0e49, 0x0e4a, 0x0e4b, 0x0e4c, 0x0e4d, 0x0e4e, 0x0e4f, 0x0e50],
     [0x0e51, 0x0e52, 0x0e53, 0x0e54, 0x0e55, 0x0e56, 0x0e57, 0x0e58, 0x0e59, 0x0e5a, 0x0e5b]]"

definition UNI_00000E01_00000E5B_TO_ISO_8859_11 :: "nat list" where
  "UNI_00000E01_00000E5B_TO_ISO_8859_11 =
    table [[0xa1, 0xa2, 0xa3, 0xa4, 0xa5, 0xa6, 0xa7, 0xa8, 0xa9, 0xaa, 0xab, 0xac, 0xad, 0xae, 0xaf, 0xb0],
     [0xb1, 0xb2, 0xb3, 0xb4, 0xb5, 0xb6, 0xb7, 0xb8, 0xb9, 0xba, 0xbb, 0xbc, 0xbd, 0xbe, 0xbf, 0xc0],
     [0xc1, 0xc2, 0xc3, 0xc4, 0xc5, 0xc6, 0xc7, 0xc8, 0xc9, 0xca, 0xcb, 0xcc, 0xcd, 0xce, 0xcf, 0xd0],
     [0xd1, 0xd2, 0xd3, 0xd4, 0xd5, 0xd6, 0xd7, 0xd8, 0xd9, 0xda, 0x00, 0x00, 0x00, 0x00, 0xdf, 0xe0],
     [0xe1, 0xe2, 0xe3, 0xe4, 0xe5, 0xe6, 0xe7, 0xe8, 0xe9, 0xea, 0xeb, 0xec, 0xed, 0xee, 0xef, 0xf0],
     [0xf1, 0xf2, 0xf3, 0xf4, 0xf5, 0xf6, 0xf7, 0xf8, 0xf9, 0xfa, 0xfb]]"

definition conv_8859_11_to_uni :: to_uni_func where
  "conv_8859_11_to_uni = sbcs_to_uni
    [Same 0xa0,
     Table 0xa1 0xfb ISO_8859_11_000000A1_000000FB_TO_UNI (Some 0xd800)]"

definition conv_uni_to_8859_11 :: uni_to_func where
  "conv_uni_to_8859_11 = sbcs_uni_to
    [Upto 0xa0,
     Codes 0x0e01 0x0e5b UNI_00000E01_00000E5B_TO_ISO_8859_11 (Some 0x00)]"

lemmas iso_8859_11_entries = table_entries [OF ISO_8859_11_000000A1_000000FB_TO_UNI_def, simplified entries_simps, simplified]

lemma iso_8859_11_codec: "is_codec conv_8859_11_to_uni conv_uni_to_8859_11"
  unfolding conv_8859_11_to_uni_def conv_uni_to_8859_11_def
  by (rule sbcs_is_codec) (simp add: sbcs_simps iso_8859_11_entries
    UNI_00000E01_00000E5B_TO_ISO_8859_11_def)

section \<open>8859-13\<close>

definition ISO_8859_13_000000A1_000000FF_TO_UNI :: "nat list" where
  "ISO_8859_13_000000A1_000000FF_TO_UNI =
    table [[0x201d, 0x00a2, 0x00a3, 0x00a4, 0x201e, 0x00a6, 0x00a7, 0x00d8, 0x00a9, 0x0156, 0x00ab, 0x00ac, 0x00ad, 0x00ae, 0x00c6, 0x00b0],
     [0x00b1, 0x00b2, 0x00b3, 0x201c, 0x00b5, 0x00b6, 0x00b7, 0x00f8, 0x00b9, 0x0157, 0x00bb, 0x00bc, 0x00bd, 0x00be, 0x00e6, 0x0104],
     [0x012e, 0x0100, 0x0106, 0x00c4, 0x00c5, 0x0118, 0x0112, 0x010c, 0x00c9, 0x0179, 0x0116, 0x0122, 0x0136, 0x012a, 0x013b, 0x0160],
     [0x0143, 0x0145, 0x00d3, 0x014c, 0x00d5, 0x00d6, 0x00d7, 0x0172, 0x0141, 0x015a, 0x016a, 0x00dc, 0x017b, 0x017d, 0x00df, 0x0105],
     [0x012f, 0x0101, 0x0107, 0x00e4, 0x00e5, 0x0119, 0x0113, 0x010d, 0x00e9, 0x017a, 0x0117, 0x0123, 0x0137, 0x012b, 0x013c, 0x0161],
     [0x0144, 0x0146, 0x00f3, 0x014d, 0x00f5, 0x00f6, 0x00f7, 0x0173, 0x0142, 0x015b, 0x016b, 0x00fc, 0x017c, 0x017e, 0x2019]]"

definition UNI_000000A2_0000017E_TO_ISO_8859_13 :: "nat list" where
  "UNI_000000A2_0000017E_TO_ISO_8859_13 =
    table [[0xa2, 0xa3, 0xa4, 0x00, 0xa6, 0xa7, 0x00, 0xa9, 0x00, 0xab, 0xac, 0xad, 0xae, 0x00, 0xb0, 0xb1],
     [0xb2, 0xb3, 0x00, 0xb5, 0xb6, 0xb7, 0x00, 0xb9, 0x00, 0xbb, 0xbc, 0xbd, 0xbe, 0x00, 0x00, 0x00],
     [0x00, 0x00, 0xc4, 0xc5, 0xaf, 0x00, 0x00, 0xc9, 0x00, 0x00, 0x00, 0x00, 0x00, 0x00, 0x00, 0x00],
     [0x00, 0xd3, 0x00, 0xd5, 0xd6, 0xd7, 0xa8, 0x00, 0x00, 0x00, 0xdc, 0x00, 0x00, 0xdf, 0x00, 0x00],
     [0x00, 0x00, 0xe4, 0xe5, 0xbf, 0x00, 0x00, 0xe9, 0x00, 0x00, 0x00, 0x00, 0x00, 0x00, 0x00, 0x00],
     [0x00, 0xf3, 0x00, 0xf5, 0xf6, 0xf7, 0xb8, 0x00, 0x00, 0x00, 0xfc, 0x00, 0x00, 0x00, 0xc2, 0xe2],
     [0x00, 0x00, 0xc0, 0xe0, 0xc3, 0xe3, 0x00, 0x00, 0x00, 0x00, 0xc8, 0xe8, 0x00, 0x00, 0x00, 0x00],
     [0xc7, 0xe7, 0x00, 0x00, 0xcb, 0xeb, 0xc6, 0xe6, 0x00, 0x00, 0x00, 0x00, 0x00, 0x00, 0x00, 0x00],
     [0xcc, 0xec, 0x00, 0x00, 0x00, 0x00, 0x00, 0x00, 0xce, 0xee, 0x00, 0x00, 0xc1, 0xe1, 0x00, 0x00],
     [0x00, 0x00, 0x00, 0x00, 0xcd, 0xed, 0x00, 0x00, 0x00, 0xcf, 0xef, 0x00, 0x00, 0x00, 0x00, 0xd9],
     [0xf9, 0xd1, 0xf1, 0xd2, 0xf2, 0x00, 0x00, 0x00, 0x00, 0x00, 0xd4, 0xf4, 0x00, 0x00, 0x00, 0x00],
     [0x00, 0x00, 0x00, 0x00, 0xaa, 0xba, 0x00, 0x00, 0xda, 0xfa, 0x00, 0x00, 0x00, 0x00, 0xd0, 0xf0],
     [0x00, 0x00, 0x00, 0x00, 0x00, 0x00, 0x00, 0x00, 0xdb, 0xfb, 0x00, 0x00, 0x00, 0x00, 0x00, 0x00],
     [0xd8, 0xf8, 0x00, 0x00, 0x00, 0x00, 0x00, 0xca, 0xea, 0xdd, 0xfd, 0xde, 0xfe]]"

definition UNI_00002019_0000201E_TO_ISO_8859_13 :: "nat list" where
  "UNI_00002019_0000201E_TO_ISO_8859_13 =
    table [[0xff, 0x00, 0x00, 0xb4, 0xa1, 0xa5]]"

definition conv_8859_13_to_uni :: to_uni_func where
  "conv_8859_13_to_uni = sbcs_to_uni
    [Same 0xa0,
     Table 0xa1 0xff ISO_8859_13_000000A1_000000FF_TO_UNI None]"

definition conv_uni_to_8859_13 :: uni_to_func where
  "conv_uni_to_8859_13 = sbcs_uni_to
    [Upto 0xa0,
     Codes 0x00a2 0x017e UNI_000000A2_0000017E_TO_ISO_8859_13 (Some 0x00),
     Codes 0x2019 0x201e UNI_00002019_0000201E_TO_ISO_8859_13 (Some 0x00)]"

lemmas iso_8859_13_entries = table_entries [OF ISO_8859_13_000000A1_000000FF_TO_UNI_def, simplified entries_simps, simplified]

lemma iso_8859_13_codec: "is_codec conv_8859_13_to_uni conv_uni_to_8859_13"
  unfolding conv_8859_13_to_uni_def conv_uni_to_8859_13_def
  by (rule sbcs_is_codec) (simp add: sbcs_simps iso_8859_13_entries
    UNI_000000A2_0000017E_TO_ISO_8859_13_def
    UNI_00002019_0000201E_TO_ISO_8859_13_def)

section \<open>8859-14\<close>

definition ISO_8859_14_000000A1_000000FF_TO_UNI :: "nat list" where
  "ISO_8859_14_000000A1_000000FF_TO_UNI =
    table [[0x1e02, 0x1e03, 0x00a3, 0x010a, 0x010b, 0x1e0a, 0x00a7, 0x1e80, 0x00a9, 0x1e82, 0x1e0b, 0x1ef2, 0x00ad, 0x00ae, 0x0178, 0x1e1e],
     [0x1e1f, 0x0120, 0x0121, 0x1e40, 0x1e41, 0x00b6, 0x1e56, 0x1e81, 0x1e57, 0x1e83, 0x1e60, 0x1ef3, 0x1e84, 0x1e85, 0x1e61, 0x00c0],
     [0x00c1, 0x00c2, 0x00c3, 0x00c4, 0x00c5, 0x00c6, 0x00c7, 0x00c8, 0x00c9, 0x00ca, 0x00cb, 0x00cc, 0x00cd, 0x00ce, 0x00cf, 0x0174],
     [0x00d1, 0x00d2, 0x00d3, 0x00d4, 0x00d5, 0x00d6, 0x1e6a, 0x00d8, 0x00d9, 0x00da, 0x00db, 0x00dc, 0x00dd, 0x0176, 0x00df, 0x00e0],
     [0x00e1, 0x00e2, 0x00e3, 0x00e4, 0x00e5, 0x00e6, 0x00e7, 0x00e8, 0x00e9, 0x00ea, 0x00eb, 0x00ec, 0x00ed, 0x00ee, 0x00ef, 0x0175],
     [0x00f1, 0x00f2, 0x00f3, 0x00f4, 0x00f5, 0x00f6, 0x1e6b, 0x00f8, 0x00f9, 0x00fa, 0x00fb, 0x00fc, 0x00fd, 0x0177, 0x00ff]]"

definition UNI_000000A3_00000178_TO_ISO_8859_14 :: "nat list" where
  "UNI_000000A3_00000178_TO_ISO_8859_14 =
    table [[0xa3, 0x00, 0x00, 0x00, 0xa7, 0x00, 0xa9, 0x00, 0x00, 0x00, 0xad, 0xae, 0x00, 0x00, 0x00, 0x00],
     [0x00, 0x00, 0x00, 0xb6, 0x00, 0x00, 0x00, 0x00, 0x00, 0x00, 0x00, 0x00, 0x00, 0xc0, 0xc1, 0xc2],
     [0xc3, 0xc4, 0xc5, 0xc6, 0xc7, 0xc8, 0xc9, 0xca, 0xcb, 0xcc, 0xcd, 0xce, 0xcf, 0x00, 0xd1, 0xd2],
     [0xd3, 0xd4, 0xd5, 0xd6, 0x00, 0xd8, 0xd9, 0xda, 0xdb, 0xdc, 0xdd, 0x00, 0xdf, 0xe0, 0xe1, 0xe2],
     [0xe3, 0xe4, 0xe5, 0xe6, 0xe7, 0xe8, 0xe9, 0xea, 0xeb, 0xec, 0xed, 0xee, 0xef, 0x00, 0xf1, 0xf2],
     [0xf3, 0xf4, 0xf5, 0xf6, 0x00, 0xf8, 0xf9, 0xfa, 0xfb, 0xfc, 0xfd, 0x00, 0xff, 0x00, 0x00, 0x00],
     [0x00, 0x00, 0x00, 0x00, 0x00, 0x00, 0x00, 0xa4, 0xa5, 0x00, 0x00, 0x00, 0x00, 0x00, 0x00, 0x00],
     [0x00, 0x00, 0x00, 0x00, 0x00, 0x00, 0x00, 0x00, 0x00, 0x00, 0x00, 0x00, 0x00, 0xb2, 0xb3, 0x00],
     [0x00, 0x00, 0x00, 0x00, 0x00, 0x00, 0x00, 0x00, 0x00, 0x00, 0x00, 0x00, 0x00, 0x00, 0x00, 0x00],
     [0x00, 0x00, 0x00, 0x00, 0x00, 0x00, 0x00, 0x00, 0x00, 0x00, 0x00, 0x00, 0x00, 0x00, 0x00, 0x00],
     [0x00, 0x00, 0x00, 0x00, 0x00, 0x00, 0x00, 0x00, 0x00, 0x00, 0x00, 0x00, 0x00, 0x00, 0x00, 0x00],
     [0x00, 0x00, 0x00, 0x00, 0x00, 0x00, 0x00, 0x00, 0x00, 0x00, 0x00, 0x00, 0x00, 0x00, 0x00, 0x00],
     [0x00, 0x00, 0x00, 0x00, 0x00, 0x00, 0x00, 0x00, 0x00, 0x00, 0x00, 0x00, 0x00, 0x00, 0x00, 0x00],
     [0x00, 0xd0, 0xf0, 0xde, 0xfe, 0xaf]]"

definition UNI_00001E02_00001EF3_TO_ISO_8859_14 :: "nat list" where
  "UNI_00001E02_00001EF3_TO_ISO_8859_14 =
    table [[0xa1, 0xa2, 0x00, 0x00, 0x00, 0x00, 0x00, 0x00, 0xa6, 0xab, 0x00, 0x00, 0x00, 0x00, 0x00, 0x00],
     [0x00, 0x00, 0x00, 0x00, 0x00, 0x00, 0x00, 0x00, 0x00, 0x00, 0x00, 0x00, 0xb0, 0xb1, 0x00, 0x00],
     [0x00, 0x00, 0x00, 0x00, 0x00, 0x00, 0x00, 0x00, 0x00, 0x00, 0x00, 0x00, 0x00, 0x00, 0x00, 0x00],
     [0x00, 0x00, 0x00, 0x00, 0x00, 0x00, 0x00, 0x00, 0x00, 0x00, 0x00, 0x00, 0x00, 0x00, 0xb4, 0xb5],
     [0x00, 0x00, 0x00, 0x00, 0x00, 0x00, 0x00, 0x00, 0x00, 0x00, 0x00, 0x00, 0x00, 0x00, 0x00, 0x00],
     [0x00, 0x00, 0x00, 0x00, 0xb7, 0xb9, 0x00, 0x00, 0x00, 0x00, 0x00, 0x00, 0x00, 0x00, 0xbb, 0xbf],
     [0x00, 0x00, 0x00, 0x00, 0x00, 0x00, 0x00, 0x00, 0xd7, 0xf7, 0x00, 0x00, 0x00, 0x00, 0x00, 0x00],
     [0x00, 0x00, 0x00, 0x00, 0x00, 0x00, 0x00, 0x00, 0x00, 0x00, 0x00, 0x00, 0x00, 0x00, 0xa8, 0xb8],
     [0xaa, 0xba, 0xbd, 0xbe, 0x00, 0x00, 0x00, 0x00, 0x00, 0x00, 0x00, 0x00, 0x00, 0x00, 0x00, 0x00],
     [0x00, 0x00, 0x00, 0x00, 0x00, 0x00, 0x00, 0x00, 0x00, 0x00, 0x00, 0x00, 0x00, 0x00, 0x00, 0x00],
     [0x00, 0x00, 0x00, 0x00, 0x00, 0x00, 0x00, 0x00, 0x00, 0x00, 0x00, 0x00, 0x00, 0x00, 0x00, 0x00],
     [0x00, 0x00, 0x00, 0x00, 0x00, 0x00, 0x00, 0x00, 0x00, 0x00, 0x00, 0x00, 0x00, 0x00, 0x00, 0x00],
     [0x00, 0x00, 0x00, 0x00, 0x00, 0x00, 0x00, 0x00, 0x00, 0x00, 0x00, 0x00, 0x00, 0x00, 0x00, 0x00],
     [0x00, 0x00, 0x00, 0x00, 0x00, 0x00, 0x00, 0x00, 0x00, 0x00, 0x00, 0x00, 0x00, 0x00, 0x00, 0x00],
     [0x00, 0x00, 0x00, 0x00, 0x00, 0x00, 0x00, 0x00, 0x00, 0x00, 0x00, 0x00, 0x00, 0x00, 0x00, 0x00],
     [0xac, 0xbc]]"

definition conv_8859_14_to_uni :: to_uni_func where
  "conv_8859_14_to_uni = sbcs_to_uni
    [Same 0xa0,
     Table 0xa1 0xff ISO_8859_14_000000A1_000000FF_TO_UNI None]"

definition conv_uni_to_8859_14 :: uni_to_func where
  "conv_uni_to_8859_14 = sbcs_uni_to
    [Upto 0xa0,
     Codes 0x00a3 0x0178 UNI_000000A3_00000178_TO_ISO_8859_14 (Some 0x00),
     Codes 0x1e02 0x1ef3 UNI_00001E02_00001EF3_TO_ISO_8859_14 (Some 0x00)]"

lemmas iso_8859_14_entries = table_entries [OF ISO_8859_14_000000A1_000000FF_TO_UNI_def, simplified entries_simps, simplified]

lemma iso_8859_14_codec: "is_codec conv_8859_14_to_uni conv_uni_to_8859_14"
  unfolding conv_8859_14_to_uni_def conv_uni_to_8859_14_def
  by (rule sbcs_is_codec) (simp add: sbcs_simps iso_8859_14_entries
    UNI_000000A3_00000178_TO_ISO_8859_14_def
    UNI_00001E02_00001EF3_TO_ISO_8859_14_def)

section \<open>8859-15\<close>

definition ISO_8859_15_000000A4_000000FF_TO_UNI :: "nat list" where
  "ISO_8859_15_000000A4_000000FF_TO_UNI =
    table [[0x20ac, 0x00a5, 0x0160, 0x00a7, 0x0161, 0x00a9, 0x00aa, 0x00ab, 0x00ac, 0x00ad, 0x00ae, 0x00af, 0x00b0, 0x00b1, 0x00b2, 0x00b3],
     [0x017d, 0x00b5, 0x00b6, 0x00b7, 0x017e, 0x00b9, 0x00ba, 0x00bb, 0x0152, 0x0153, 0x0178, 0x00bf, 0x00c0, 0x00c1, 0x00c2, 0x00c3],
     [0x00c4, 0x00c5, 0x00c6, 0x00c7, 0x00c8, 0x00c9, 0x00ca, 0x00cb, 0x00cc, 0x00cd, 0x00ce, 0x00cf, 0x00d0, 0x00d1, 0x00d2, 0x00d3],
     [0x00d4, 0x00d5, 0x00d6, 0x00d7, 0x00d8, 0x00d9, 0x00da, 0x00db, 0x00dc, 0x00dd, 0x00de, 0x00df, 0x00e0, 0x00e1, 0x00e2, 0x00e3],
     [0x00e4, 0x00e5, 0x00e6, 0x00e7, 0x00e8, 0x00e9, 0x00ea, 0x00eb, 0x00ec, 0x00ed, 0x00ee, 0x00ef, 0x00f0, 0x00f1, 0x00f2, 0x00f3],
     [0x00f4, 0x00f5, 0x00f6, 0x00f7, 0x00f8, 0x00f9, 0x00fa, 0x00fb, 0x00fc, 0x00fd, 0x00fe, 0x00ff]]"

definition UNI_000000A5_0000017E_TO_ISO_8859_15 :: "nat list" where
  "UNI_000000A5_0000017E_TO_ISO_8859_15 =
    table [[0xa5, 0x00, 0xa7, 0x00, 0xa9, 0xaa, 0xab, 0xac, 0xad, 0xae, 0xaf, 0xb0, 0xb1, 0xb2, 0xb3, 0x00],
     [0xb5, 0xb6, 0xb7, 0x00, 0xb9, 0xba, 0xbb, 0x00, 0x00, 0x00, 0xbf, 0xc0, 0xc1, 0xc2, 0xc3, 0xc4],
     [0xc5, 0xc6, 0xc7, 0xc8, 0xc9, 0xca, 0xcb, 0xcc, 0xcd, 0xce, 0xcf, 0xd0, 0xd1, 0xd2, 0xd3, 0xd4],
     [0xd5, 0xd6, 0xd7, 0xd8, 0xd9, 0xda, 0xdb, 0xdc, 0xdd, 0xde, 0xdf, 0xe0, 0xe1, 0xe2, 0xe3, 0xe4],
     [0xe5, 0xe6, 0xe7, 0xe8, 0xe9, 0xea, 0xeb, 0xec, 0xed, 0xee, 0xef, 0xf0, 0xf1, 0xf2, 0xf3, 0xf4],
     [0xf5, 0xf6, 0xf7, 0xf8, 0xf9, 0xfa, 0xfb, 0xfc, 0xfd, 0xfe, 0xff, 0x00, 0x00, 0x00, 0x00, 0x00],
     [0x00, 0x00, 0x00, 0x00, 0x00, 0x00, 0x00, 0x00, 0x00, 0x00, 0x00, 0x00, 0x00, 0x00, 0x00, 0x00],
     [0x00, 0x00, 0x00, 0x00, 0x00, 0x00, 0x00, 0x00, 0x00, 0x00, 0x00, 0x00, 0x00, 0x00, 0x00, 0x00],
     [0x00, 0x00, 0x00, 0x00, 0x00, 0x00, 0x00, 0x00, 0x00, 0x00, 0x00, 0x00, 0x00, 0x00, 0x00, 0x00],
     [0x00, 0x00, 0x00, 0x00, 0x00, 0x00, 0x00, 0x00, 0x00, 0x00, 0x00, 0x00, 0x00, 0x00, 0x00, 0x00],
     [0x00, 0x00, 0x00, 0x00, 0x00, 0x00, 0x00, 0x00, 0x00, 0x00, 0x00, 0x00, 0x00, 0xbc, 0xbd, 0x00],
     [0x00, 0x00, 0x00, 0x00, 0x00, 0x00, 0x00, 0x00, 0x00, 0x00, 0x00, 0xa6, 0xa8, 0x00, 0x00, 0x00],
     [0x00, 0x00, 0x00, 0x00, 0x00, 0x00, 0x00, 0x00, 0x00, 0x00, 0x00, 0x00, 0x00, 0x00, 0x00, 0x00],
     [0x00, 0x00, 0x00, 0xbe, 0x00, 0x00, 0x00, 0x00, 0xb4, 0xb8]]"

definition conv_8859_15_to_uni :: to_uni_func where
  "conv_8859_15_to_uni = sbcs_to_uni
    [Same 0xa3,
     Table 0xa4 0xff ISO_8859_15_000000A4_000000FF_TO_UNI None]"

definition conv_uni_to_8859_15 :: uni_to_func where
  "conv_uni_to_8859_15 = sbcs_uni_to
    [Upto 0xa3,
     Codes 0x00a5 0x017e UNI_000000A5_0000017E_TO_ISO_8859_15 (Some 0x00),
     Single 0x20ac 0xa4]"

lemmas iso_8859_15_entries = table_entries [OF ISO_8859_15_000000A4_000000FF_TO_UNI_def, simplified entries_simps, simplified]

lemma iso_8859_15_codec: "is_codec conv_8859_15_to_uni conv_uni_to_8859_15"
  unfolding conv_8859_15_to_uni_def conv_uni_to_8859_15_def
  by (rule sbcs_is_codec) (simp add: sbcs_simps iso_8859_15_entries
    UNI_000000A5_0000017E_TO_ISO_8859_15_def)

section \<open>8859-16\<close>

definition ISO_8859_16_000000A1_000000FF_TO_UNI :: "nat list" where
  "ISO_8859_16_000000A1_000000FF_TO_UNI =
    table [[0x0104, 0x0105, 0x0141, 0x20ac, 0x201e, 0x0160, 0x00a7, 0x0161, 0x00a9, 0x0218, 0x00ab, 0x0179, 0x00ad, 0x017a, 0x017b, 0x00b0],
     [0x00b1, 0x010c, 0x0142, 0x017d, 0x201d, 0x00b6, 0x00b7, 0x017e, 0x010d, 0x0219, 0x00bb, 0x0152, 0x0153, 0x0178, 0x017c, 0x00c0],
     [0x00c1, 0x00c2, 0x0102, 0x00c4, 0x0106, 0x00c6, 0x00c7, 0x00c8, 0x00c9, 0x00ca, 0x00cb, 0x00cc, 0x00cd, 0x00ce, 0x00cf, 0x0110],
     [0x0143, 0x00d2, 0x00d3, 0x00d4, 0x0150, 0x00d6, 0x015a, 0x0170, 0x00d9, 0x00da, 0x00db, 0x00dc, 0x0118, 0x021a, 0x00df, 0x00e0],
     [0x00e1, 0x00e2, 0x0103, 0x00e4, 0x0107, 0x00e6, 0x00e7, 0x00e8, 0x00e9, 0x00ea, 0x00eb, 0x00ec, 0x00ed, 0x00ee, 0x00ef, 0x0111],
     [0x0144, 0x00f2, 0x00f3, 0x00f4, 0x0151, 0x00f6, 0x015b, 0x0171, 0x00f9, 0x00fa, 0x00fb, 0x00fc, 0x0119, 0x021b, 0x00ff]]"

definition UNI_000000A7_0000017E_TO_ISO_8859_16 :: "nat list" where
  "UNI_000000A7_0000017E_TO_ISO_8859_16 =
    table [[0xa7, 0x00, 0xa9, 0x00, 0xab, 0x00, 0xad, 0x00, 0x00, 0xb0, 0xb1, 0x00, 0x00, 0x00, 0x00, 0xb6],
     [0xb7, 0x00, 0x00, 0x00, 0xbb, 0x00, 0x00, 0x00, 0x00, 0xc0, 0xc1, 0xc2, 0x00, 0xc4, 0x00, 0xc6],
     [0xc7, 0xc8, 0xc9, 0xca, 0xcb, 0xcc, 0xcd, 0xce, 0xcf, 0x00, 0x00, 0xd2, 0xd3, 0xd4, 0x00, 0xd6],
     [0x00, 0x00, 0xd9, 0xda, 0xdb, 0xdc, 0x00, 0x00, 0xdf, 0xe0, 0xe1, 0xe2, 0x00, 0xe4, 0x00, 0xe6],
     [0xe7, 0xe8, 0xe9, 0xea, 0xeb, 0xec, 0xed, 0xee, 0xef, 0x00, 0x00, 0xf2, 0xf3, 0xf4, 0x00, 0xf6],
     [0x00, 0x00, 0xf9, 0xfa, 0xfb, 0xfc, 0x00, 0x00, 0xff, 0x00, 0x00, 0xc3, 0xe3, 0xa1, 0xa2, 0xc5],
     [0xe5, 0x00, 0x00, 0x00, 0x00, 0xb2, 0xb9, 0x00, 0x00, 0xd0, 0xf0, 0x00, 0x00, 0x00, 0x00, 0x00],
     [0x00, 0xdd, 0xfd, 0x00, 0x00, 0x00, 0x00, 0x00, 0x00, 0x00, 0x00, 0x00, 0x00, 0x00, 0x00, 0x00],
     [0x00, 0x00, 0x00, 0x00, 0x00, 0x00, 0x00, 0x00, 0x00, 0x00, 0x00, 0x00, 0x00, 0x00, 0x00, 0x00],
     [0x00, 0x00, 0x00, 0x00, 0x00, 0x00, 0x00, 0x00, 0x00, 0x00, 0xa3, 0xb3, 0xd1, 0xf1, 0x00, 0x00],
     [0x00, 0x00, 0x00, 0x00, 0x00, 0x00, 0x00, 0x00, 0x00, 0xd5, 0xf5, 0xbc, 0xbd, 0x00, 0x00, 0x00],
     [0x00, 0x00, 0x00, 0xd7, 0xf7, 0x00, 0x00, 0x00, 0x00, 0xa6, 0xa8, 0x00, 0x00, 0x00, 0x00, 0x00],
     [0x00, 0x00, 0x00, 0x00, 0x00, 0x00, 0x00, 0x00, 0x00, 0xd8, 0xf8, 0x00, 0x00, 0x00, 0x00, 0x00],
     [0x00, 0xbe, 0xac, 0xae, 0xaf, 0xbf, 0xb4, 0xb8]]"

definition UNI_00000218_0000021B_TO_ISO_8859_16 :: "nat list" where
  "UNI_00000218_0000021B_TO_ISO_8859_16 =
    table [[0xaa, 0xba, 0xde, 0xfe]]"

definition UNI_0000201D_0000201E_TO_ISO_8859_16 :: "nat list" where
  "UNI_0000201D_0000201E_TO_ISO_8859_16 =
    table [[0xb5, 0xa5]]"

definition conv_8859_16_to_uni :: to_uni_func where
  "conv_8859_16_to_uni = sbcs_to_uni
    [Same 0xa0,
     Table 0xa1 0xff ISO_8859_16_000000A1_000000FF_TO_UNI None]"

definition conv_uni_to_8859_16 :: uni_to_func where
  "conv_uni_to_8859_16 = sbcs_uni_to
    [Upto 0xa0,
     Codes 0x00a7 0x017e UNI_000000A7_0000017E_TO_ISO_8859_16 (Some 0x00),
     Codes 0x0218 0x021b UNI_00000218_0000021B_TO_ISO_8859_16 None,
     Codes 0x201d 0x201e UNI_0000201D_0000201E_TO_ISO_8859_16 None,
     Single 0x20ac 0xa4]"

lemmas iso_8859_16_entries = table_entries [OF ISO_8859_16_000000A1_000000FF_TO_UNI_def, simplified entries_simps, simplified]

lemma iso_8859_16_codec: "is_codec conv_8859_16_to_uni conv_uni_to_8859_16"
  unfolding conv_8859_16_to_uni_def conv_uni_to_8859_16_def
  by (rule sbcs_is_codec) (simp add: sbcs_simps iso_8859_16_entries
    UNI_000000A7_0000017E_TO_ISO_8859_16_def
    UNI_00000218_0000021B_TO_ISO_8859_16_def
    UNI_0000201D_0000201E_TO_ISO_8859_16_def)

section \<open>8859-2\<close>

definition ISO_8859_2_000000A1_000000FF_TO_UNI :: "nat list" where
  "ISO_8859_2_000000A1_000000FF_TO_UNI =
    table [[0x0104, 0x02d8, 0x0141, 0x00a4, 0x013d, 0x015a, 0x00a7, 0x00a8, 0x0160, 0x015e, 0x0164, 0x0179, 0x00ad, 0x017d, 0x017b, 0x00b0],
     [0x0105, 0x02db, 0x0142, 0x00b4, 0x013e, 0x015b, 0x02c7, 0x00b8, 0x0161, 0x015f, 0x0165, 0x017a, 0x02dd, 0x017e, 0x017c, 0x0154],
     [0x00c1, 0x00c2, 0x0102, 0x00c4, 0x0139, 0x0106, 0x00c7, 0x010c, 0x00c9, 0x0118, 0x00cb, 0x011a, 0x00cd, 0x00ce, 0x010e, 0x0110],
     [0x0143, 0x0147, 0x00d3, 0x00d4, 0x0150, 0x00d6, 0x00d7, 0x0158, 0x016e, 0x00da, 0x0170, 0x00dc, 0x00dd, 0x0162, 0x00df, 0x0155],
     [0x00e1, 0x00e2, 0x0103, 0x00e4, 0x013a, 0x0107, 0x00e7, 0x010d, 0x00e9, 0x0119, 0x00eb, 0x011b, 0x00ed, 0x00ee, 0x010f, 0x0111],
     [0x0144, 0x0148, 0x00f3, 0x00f4, 0x0151, 0x00f6, 0x00f7, 0x0159, 0x016f, 0x00fa, 0x0171, 0x00fc, 0x00fd, 0x0163, 0x02d9]]"

definition UNI_000000A4_0000017E_TO_ISO_8859_2 :: "nat list" where
  "UNI_000000A4_0000017E_TO_ISO_8859_2 =
    table [[0xa4, 0x00, 0x00, 0xa7, 0xa8, 0x00, 0x00, 0x00, 0x00, 0xad, 0x00, 0x00, 0xb0, 0x00, 0x00, 0x00],
     [0xb4, 0x00, 0x00, 0x00, 0xb8, 0x00, 0x00, 0x00, 0x00, 0x00, 0x00, 0x00, 0x00, 0xc1, 0xc2, 0x00],
     [0xc4, 0x00, 0x00, 0xc7, 0x00, 0xc9, 0x00, 0xcb, 0x00, 0xcd, 0xce, 0x00, 0x00, 0x00, 0x00, 0xd3],
     [0xd4, 0x00, 0xd6, 0xd7, 0x00, 0x00, 0xda, 0x00, 0xdc, 0xdd, 0x00, 0xdf, 0x00, 0xe1, 0xe2, 0x00],
     [0xe4, 0x00, 0x00, 0xe7, 0x00, 0xe9, 0x00, 0xeb, 0x00, 0xed, 0xee, 0x00, 0x00, 0x00, 0x00, 0xf3],
     [0xf4, 0x00, 0xf6, 0xf7, 0x00, 0x00, 0xfa, 0x00, 0xfc, 0xfd, 0x00, 0x00, 0x00, 0x00, 0xc3, 0xe3],
     [0xa1, 0xb1, 0xc6, 0xe6, 0x00, 0x00, 0x00, 0x00, 0xc8, 0xe8, 0xcf, 0xef, 0xd0, 0xf0, 0x00, 0x00],
     [0x00, 0x00, 0x00, 0x00, 0xca, 0xea, 0xcc, 0xec, 0x00, 0x00, 0x00, 0x00, 0x00, 0x00, 0x00, 0x00],
     [0x00, 0x00, 0x00, 0x00, 0x00, 0x00, 0x00, 0x00, 0x00, 0x00, 0x00, 0x00, 0x00, 0x00, 0x00, 0x00],
     [0x00, 0x00, 0x00, 0x00, 0x00, 0xc5, 0xe5, 0x00, 0x00, 0xa5, 0xb5, 0x00, 0x00, 0xa3, 0xb3, 0xd1],
     [0xf1, 0x00, 0x00, 0xd2, 0xf2, 0x00, 0x00, 0x00, 0x00, 0x00, 0x00, 0x00, 0xd5, 0xf5, 0x00, 0x00],
     [0xc0, 0xe0, 0x00, 0x00, 0xd8, 0xf8, 0xa6, 0xb6, 0x00, 0x00, 0xaa, 0xba, 0xa9, 0xb9, 0xde, 0xfe],
     [0xab, 0xbb, 0x00, 0x00, 0x00, 0x00, 0x00, 0x00, 0x00, 0x00, 0xd9, 0xf9, 0xdb, 0xfb, 0x00, 0x00],
     [0x00, 0x00, 0x00, 0x00, 0x00, 0xac, 0xbc, 0xaf, 0xbf, 0xae, 0xbe]]"

definition UNI_000002C7_000002DD_TO_ISO_8859_2 :: "nat list" where
  "UNI_000002C7_000002DD_TO_ISO_8859_2 =
    table [[0xb7, 0x00, 0x00, 0x00, 0x00, 0x00, 0x00, 0x00, 0x00, 0x00, 0x00, 0x00, 0x00, 0x00, 0x00, 0x00],
     [0x00, 0xa2, 0xff, 0x00, 0xb2, 0x00, 0xbd]]"

definition conv_8859_2_to_uni :: to_uni_func where
  "conv_8859_2_to_uni = sbcs_to_uni
    [Same 0xa0,
     Table 0xa1 0xff ISO_8859_2_000000A1_000000FF_TO_UNI None]"

definition conv_uni_to_8859_2 :: uni_to_func where
  "conv_uni_to_8859_2 = sbcs_uni_to
    [Upto 0xa0,
     Codes 0x00a4 0x017e UNI_000000A4_0000017E_TO_ISO_8859_2 (Some 0x00),
     Codes 0x02c7 0x02dd UNI_000002C7_000002DD_TO_ISO_8859_2 (Some 0x00)]"

lemmas iso_8859_2_entries = table_entries [OF ISO_8859_2_000000A1_000000FF_TO_UNI_def, simplified entries_simps, simplified]

lemma iso_8859_2_codec: "is_codec conv_8859_2_to_uni conv_uni_to_8859_2"
  unfolding conv_8859_2_to_uni_def conv_uni_to_8859_2_def
  by (rule sbcs_is_codec) (simp add: sbcs_simps iso_8859_2_entries
    UNI_000000A4_0000017E_TO_ISO_8859_2_def
    UNI_000002C7_000002DD_TO_ISO_8859_2_def)

section \<open>8859-3\<close>

definition ISO_8859_3_000000A1_000000FF_TO_UNI :: "nat list" where
  "ISO_8859_3_000000A1_000000FF_TO_UNI =
    table [[0x0126, 0x02d8, 0x00a3, 0x00a4, 0xd800, 0x0124, 0x00a7, 0x00a8, 0x0130, 0x015e, 0x011e, 0x0134, 0x00ad, 0xd800, 0x017b, 0x00b0],
     [0x0127, 0x00b2, 0x00b3, 0x00b4, 0x00b5, 0x0125, 0x00b7, 0x00b8, 0x0131, 0x015f, 0x011f, 0x0135, 0x00bd, 0xd800, 0x017c, 0x00c0],
     [0x00c1, 0x00c2, 0xd800, 0x00c4, 0x010a, 0x0108, 0x00c7, 0x00c8, 0x00c9, 0x00ca, 0x00cb, 0x00cc, 0x00cd, 0x00ce, 0x00cf, 0xd800],
     [0x00d1, 0x00d2, 0x00d3, 0x00d4, 0x0120, 0x00d6, 0x00d7, 0x011c, 0x00d9, 0x00da, 0x00db, 0x00dc, 0x016c, 0x015c, 0x00df, 0x00e0],
     [0x00e1, 0x00e2, 0xd800, 0x00e4, 0x010b, 0x0109, 0x00e7, 0x00e8, 0x00e9, 0x00ea, 0x00eb, 0x00ec, 0x00ed, 0x00ee, 0x00ef, 0xd800],
     [0x00f1, 0x00f2, 0x00f3, 0x00f4, 0x0121, 0x00f6, 0x00f7, 0x011d, 0x00f9, 0x00fa, 0x00fb, 0x00fc, 0x016d, 0x015d, 0x02d9]]"

definition UNI_000000A3_0000017C_TO_ISO_8859_3 :: "nat list" where
  "UNI_000000A3_0000017C_TO_ISO_8859_3 =
    table [[0xa3, 0xa4, 0x00, 0x00, 0xa7, 0xa8, 0x00, 0x00, 0x00, 0x00, 0xad, 0x00, 0x00, 0xb0, 0x00, 0xb2],
     [0xb3, 0xb4, 0xb5, 0x00, 0xb7, 0xb8, 0x00, 0x00, 0x00, 0x00, 0xbd, 0x00, 0x00, 0xc0, 0xc1, 0xc2],
     [0x00, 0xc4, 0x00, 0x00, 0xc7, 0xc8, 0xc9, 0xca, 0xcb, 0xcc, 0xcd, 0xce, 0xcf, 0x00, 0xd1, 0xd2],
     [0xd3, 0xd4, 0x00, 0xd6, 0xd7, 0x00, 0xd9, 0xda, 0xdb, 0xdc, 0x00, 0x00, 0xdf, 0xe0, 0xe1, 0xe2],
     [0x00, 0xe4, 0x00, 0x00, 0xe7, 0xe8, 0xe9, 0xea, 0xeb, 0xec, 0xed, 0xee, 0xef, 0x00, 0xf1, 0xf2],
     [0xf3, 0xf4, 0x00, 0xf6, 0xf7, 0x00, 0xf9, 0xfa, 0xfb, 0xfc, 0x00, 0x00, 0x00, 0x00, 0x00, 0x00],
     [0x00, 0x00, 0x00, 0x00, 0x00, 0xc6, 0xe6, 0xc5, 0xe5, 0x00, 0x00, 0x00, 0x00, 0x00, 0x00, 0x00],
     [0x00, 0x00, 0x00, 0x00, 0x00, 0x00, 0x00, 0x00, 0x00, 0xd8, 0xf8, 0xab, 0xbb, 0xd5, 0xf5, 0x00],
     [0x00, 0xa6, 0xb6, 0xa1, 0xb1, 0x00, 0x00, 0x00, 0x00, 0x00, 0x00, 0x00, 0x00, 0xa9, 0xb9, 0x00],
     [0x00, 0xac, 0xbc, 0x00, 0x00, 0x00, 0x00, 0x00, 0x00, 0x00, 0x00, 0x00, 0x00, 0x00, 0x00, 0x00],
     [0x00, 0x00, 0x00, 0x00, 0x00, 0x00, 0x00, 0x00, 0x00, 0x00, 0x00, 0x00, 0x00, 0x00, 0x00, 0x00],
     [0x00, 0x00, 0x00, 0x00, 0x00, 0x00, 0x00, 0x00, 0x00, 0xde, 0xfe, 0xaa, 0xba, 0x00, 0x00, 0x00],
     [0x00, 0x00, 0x00, 0x00, 0x00, 0x00, 0x00, 0x00, 0x00, 0xdd, 0xfd, 0x00, 0x00, 0x00, 0x00, 0x00],
     [0x00, 0x00, 0x00, 0x00, 0x00, 0x00, 0x00, 0x00, 0xaf, 0xbf]]"

definition UNI_000002D8_000002D9_TO_ISO_8859_3 :: "nat list" where
  "UNI_000002D8_000002D9_TO_ISO_8859_3 =
    table [[0xa2, 0xff]]"

definition conv_8859_3_to_uni :: to_uni_func where
  "conv_8859_3_to_uni = sbcs_to_uni
    [Same 0xa0,
     Table 0xa1 0xff ISO_8859_3_000000A1_000000FF_TO_UNI (Some 0xd800)]"

definition conv_uni_to_8859_3 :: uni_to_func where
  "conv_uni_to_8859_3 = sbcs_uni_to
    [Upto 0xa0,
     Codes 0x00a3 0x017c UNI_000000A3_0000017C_TO_ISO_8859_3 (Some 0x00),
     Codes 0x02d8 0x02d9 UNI_000002D8_000002D9_TO_ISO_8859_3 None]"

lemmas iso_8859_3_entries = table_entries [OF ISO_8859_3_000000A1_000000FF_TO_UNI_def, simplified entries_simps, simplified]

lemma iso_8859_3_codec: "is_codec conv_8859_3_to_uni conv_uni_to_8859_3"
  unfolding conv_8859_3_to_uni_def conv_uni_to_8859_3_def
  by (rule sbcs_is_codec) (simp add: sbcs_simps iso_8859_3_entries
    UNI_000000A3_0000017C_TO_ISO_8859_3_def
    UNI_000002D8_000002D9_TO_ISO_8859_3_def)

section \<open>8859-4\<close>

definition ISO_8859_4_000000A1_000000FF_TO_UNI :: "nat list" where
  "ISO_8859_4_000000A1_000000FF_TO_UNI =
    table [[0x0104, 0x0138, 0x0156, 0x00a4, 0x0128, 0x013b, 0x00a7, 0x00a8, 0x0160, 0x0112, 0x0122, 0x0166, 0x00ad, 0x017d, 0x00af, 0x00b0],
     [0x0105, 0x02db, 0x0157, 0x00b4, 0x0129, 0x013c, 0x02c7, 0x00b8, 0x0161, 0x0113, 0x0123, 0x0167, 0x014a, 0x017e, 0x014b, 0x0100],
     [0x00c1, 0x00c2, 0x00c3, 0x00c4, 0x00c5, 0x00c6, 0x012e, 0x010c, 0x00c9, 0x0118, 0x00cb, 0x0116, 0x00cd, 0x00ce, 0x012a, 0x0110],
     [0x0145, 0x014c, 0x0136, 0x00d4, 0x00d5, 0x00d6, 0x00d7, 0x00d8, 0x0172, 0x00da, 0x00db, 0x00dc, 0x0168, 0x016a, 0x00df, 0x0101],
     [0x00e1, 0x00e2, 0x00e3, 0x00e4, 0x00e5, 0x00e6, 0x012f, 0x010d, 0x00e9, 0x0119, 0x00eb, 0x0117, 0x00ed, 0x00ee, 0x012b, 0x0111],
     [0x0146, 0x014d, 0x0137, 0x00f4, 0x00f5, 0x00f6, 0x00f7, 0x00f8, 0x0173, 0x00fa, 0x00fb, 0x00fc, 0x0169, 0x016b, 0x02d9]]"

definition UNI_000000A4_0000017E_TO_ISO_8859_4 :: "nat list" where
  "UNI_000000A4_0000017E_TO_ISO_8859_4 =
    table [[0xa4, 0x00, 0x00, 0xa7, 0xa8, 0x00, 0x00, 0x00, 0x00, 0xad, 0x00, 0xaf, 0xb0, 0x00, 0x00, 0x00],
     [0xb4, 0x00, 0x00, 0x00, 0xb8, 0x00, 0x00, 0x00, 0x00, 0x00, 0x00, 0x00, 0x00, 0xc1, 0xc2, 0xc3],
     [0xc4, 0xc5, 0xc6, 0x00, 0x00, 0xc9, 0x00, 0xcb, 0x00, 0xcd, 0xce, 0x00, 0x00, 0x00, 0x00, 0x00],
     [0xd4, 0xd5, 0xd6, 0xd7, 0xd8, 0x00, 0xda, 0xdb, 0xdc, 0x00, 0x00, 0xdf, 0x00, 0xe1, 0xe2, 0xe3],
     [0xe4, 0xe5, 0xe6, 0x00, 0x00, 0xe9, 0x00, 0xeb, 0x00, 0xed, 0xee, 0x00, 0x00, 0x00, 0x00, 0x00],
     [0xf4, 0xf5, 0xf6, 0xf7, 0xf8, 0x00, 0xfa, 0xfb, 0xfc, 0x00, 0x00, 0x00, 0xc0, 0xe0, 0x00, 0x00],
     [0xa1, 0xb1, 0x00, 0x00, 0x00, 0x00, 0x00, 0x00, 0xc8, 0xe8, 0x00, 0x00, 0xd0, 0xf0, 0xaa, 0xba],
     [0x00, 0x00, 0xcc, 0xec, 0xca, 0xea, 0x00, 0x00, 0x00, 0x00, 0x00, 0x00, 0x00, 0x00, 0xab, 0xbb],
     [0x00, 0x00, 0x00, 0x00, 0xa5, 0xb5, 0xcf, 0xef, 0x00, 0x00, 0xc7, 0xe7, 0x00, 0x00, 0x00, 0x00],
     [0x00, 0x00, 0xd3, 0xf3, 0xa2, 0x00, 0x00, 0xa6, 0xb6, 0x00, 0x00, 0x00, 0x00, 0x00, 0x00, 0x00],
     [0x00, 0xd1, 0xf1, 0x00, 0x00, 0x00, 0xbd, 0xbf, 0xd2, 0xf2, 0x00, 0x00, 0x00, 0x00, 0x00, 0x00],
     [0x00, 0x00, 0xa3, 0xb3, 0x00, 0x00, 0x00, 0x00, 0x00, 0x00, 0x00, 0x00, 0xa9, 0xb9, 0x00, 0x00],
     [0x00, 0x00, 0xac, 0xbc, 0xdd, 0xfd, 0xde, 0xfe, 0x00, 0x00, 0x00, 0x00, 0x00, 0x00, 0xd9, 0xf9],
     [0x00, 0x00, 0x00, 0x00, 0x00, 0x00, 0x00, 0x00, 0x00, 0xae, 0xbe]]"

definition UNI_000002C7_000002DB_TO_ISO_8859_4 :: "nat list" where
  "UNI_000002C7_000002DB_TO_ISO_8859_4 =
    table [[0xb7, 0x00, 0x00, 0x00, 0x00, 0x00, 0x00, 0x00, 0x00, 0x00, 0x00, 0x00, 0x00, 0x00, 0x00, 0x00],
     [0x00, 0x00, 0xff, 0x00, 0xb2]]"

definition conv_8859_4_to_uni :: to_uni_func where
  "conv_8859_4_to_uni = sbcs_to_uni
    [Same 0xa0,
     Table 0xa1 0xff ISO_8859_4_000000A1_000000FF_TO_UNI None]"

definition conv_uni_to_8859_4 :: uni_to_func where
  "conv_uni_to_8859_4 = sbcs_uni_to
    [Upto 0xa0,
     Codes 0x00a4 0x017e UNI_000000A4_0000017E_TO_ISO_8859_4 (Some 0x00),
     Codes 0x02c7 0x02db UNI_000002C7_000002DB_TO_ISO_8859_4 (Some 0x00)]"

lemmas iso_8859_4_entries = table_entries [OF ISO_8859_4_000000A1_000000FF_TO_UNI_def, simplified entries_simps, simplified]

lemma iso_8859_4_codec: "is_codec conv_8859_4_to_uni conv_uni_to_8859_4"
  unfolding conv_8859_4_to_uni_def conv_uni_to_8859_4_def
  by (rule sbcs_is_codec) (simp add: sbcs_simps iso_8859_4_entries
    UNI_000000A4_0000017E_TO_ISO_8859_4_def
    UNI_000002C7_000002DB_TO_ISO_8859_4_def)

section \<open>8859-5\<close>

definition ISO_8859_5_000000A1_000000FF_TO_UNI :: "nat list" where
  "ISO_8859_5_000000A1_000000FF_TO_UNI =
    table [[0x0401, 0x0402, 0x0403, 0x0404, 0x0405, 0x0406, 0x0407, 0x0408, 0x0409, 0x040a, 0x040b, 0x040c, 0x00ad, 0x040e, 0x040f, 0x0410],
     [0x0411, 0x0412, 0x0413, 0x0414, 0x0415, 0x0416, 0x0417, 0x0418, 0x0419, 0x041a, 0x041b, 0x041c, 0x041d, 0x041e, 0x041f, 0x0420],
     [0x0421, 0x0422, 0x0423, 0x0424, 0x0425, 0x0426, 0x0427, 0x0428, 0x0429, 0x042a, 0x042b, 0x042c, 0x042d, 0x042e, 0x042f, 0x0430],
     [0x0431, 0x0432, 0x0433, 0x0434, 0x0435, 0x0436, 0x0437, 0x0438, 0x0439, 0x043a, 0x043b, 0x043c, 0x043d, 0x043e, 0x043f, 0x0440],
     [0x0441, 0x0442, 0x0443, 0x0444, 0x0445, 0x0446, 0x0447, 0x0448, 0x0449, 0x044a, 0x044b, 0x044c, 0x044d, 0x044e, 0x044f, 0x2116],
     [0x0451, 0x0452, 0x0453, 0x0454, 0x0455, 0x0456, 0x0457, 0x0458, 0x0459, 0x045a, 0x045b, 0x045c, 0x00a7, 0x045e, 0x045f]]"

definition UNI_000000A7_000000AD_TO_ISO_8859_5 :: "nat list" where
  "UNI_000000A7_000000AD_TO_ISO_8859_5 =
    table [[0xfd, 0x00, 0x00, 0x00, 0x00, 0x00, 0xad]]"

definition UNI_00000401_0000045F_TO_ISO_8859_5 :: "nat list" where
  "UNI_00000401_0000045F_TO_ISO_8859_5 =
    table [[0xa1, 0xa2, 0xa3, 0xa4, 0xa5, 0xa6, 0xa7, 0xa8, 0xa9, 0xaa, 0xab, 0xac, 0x00, 0xae, 0xaf, 0xb0],
     [0xb1, 0xb2, 0xb3, 0xb4, 0xb5, 0xb6, 0xb7, 0xb8, 0xb9, 0xba, 0xbb, 0xbc, 0xbd, 0xbe, 0xbf, 0xc0],
     [0xc1, 0xc2, 0xc3, 0xc4, 0xc5, 0xc6, 0xc7, 0xc8, 0xc9, 0xca, 0xcb, 0xcc, 0xcd, 0xce, 0xcf, 0xd0],
     [0xd1, 0xd2, 0xd3, 0xd4, 0xd5, 0xd6, 0xd7, 0xd8, 0xd9, 0xda, 0xdb, 0xdc, 0xdd, 0xde, 0xdf, 0xe0],
     [0xe1, 0xe2, 0xe3, 0xe4, 0xe5, 0xe6, 0xe7, 0xe8, 0xe9, 0xea, 0xeb, 0xec, 0xed, 0xee, 0xef, 0x00],
     [0xf1, 0xf2, 0xf3, 0xf4, 0xf5, 0xf6, 0xf7, 0xf8, 0xf9, 0xfa, 0xfb, 0xfc, 0x00, 0xfe, 0xff]]"

definition conv_8859_5_to_uni :: to_uni_func where
  "conv_8859_5_to_uni = sbcs_to_uni
    [Same 0xa0,
     Table 0xa1 0xff ISO_8859_5_000000A1_000000FF_TO_UNI None]"

definition conv_uni_to_8859_5 :: uni_to_func where
  "conv_uni_to_8859_5 = sbcs_uni_to
    [Upto 0xa0,
     Codes 0x00a7 0x00ad UNI_000000A7_000000AD_TO_ISO_8859_5 (Some 0x00),
     Codes 0x0401 0x045f UNI_00000401_0000045F_TO_ISO_8859_5 (Some 0x00),
     Single 0x2116 0xf0]"

lemmas iso_8859_5_entries = table_entries [OF ISO_8859_5_000000A1_000000FF_TO_UNI_def, simplified entries_simps, simplified]

lemma iso_8859_5_codec: "is_codec conv_8859_5_to_uni conv_uni_to_8859_5"
  unfolding conv_8859_5_to_uni_def conv_uni_to_8859_5_def
  by (rule sbcs_is_codec) (simp add: sbcs_simps iso_8859_5_entries
    UNI_000000A7_000000AD_TO_ISO_8859_5_def
    UNI_00000401_0000045F_TO_ISO_8859_5_def)

section \<open>8859-6\<close>

definition ISO_8859_6_000000A4_000000F2_TO_UNI :: "nat list" where
  "ISO_8859_6_000000A4_000000F2_TO_UNI =
    table [[0x00a4, 0xd800, 0xd800, 0xd800, 0xd800, 0xd800, 0xd800, 0xd800, 0x060c, 0x00ad, 0xd800, 0xd800, 0xd800, 0xd800, 0xd800, 0xd800],
     [0xd800, 0xd800, 0xd800, 0xd800, 0xd800, 0xd800, 0xd800, 0x061b, 0xd800, 0xd800, 0xd800, 0x061f, 0xd800, 0x0621, 0x0622, 0x0623],
     [0x0624, 0x0625, 0x0626, 0x0627, 0x0628, 0x0629, 0x062a, 0x062b, 0x062c, 0x062d, 0x062e, 0x062f, 0x0630, 0x0631, 0x0632, 0x0633],
     [0x0634, 0x0635, 0x0636, 0x0637, 0x0638, 0x0639, 0x063a, 0xd800, 0xd800, 0xd800, 0xd800, 0xd800, 0x0640, 0x0641, 0x0642, 0x0643],
     [0x0644, 0x0645, 0x0646, 0x0647, 0x0648, 0x0649, 0x064a, 0x064b, 0x064c, 0x064d, 0x064e, 0x064f, 0x0650, 0x0651, 0x0652]]"

definition UNI_000000A4_000000AD_TO_ISO_8859_6 :: "nat list" where
  "UNI_000000A4_000000AD_TO_ISO_8859_6 =
    table [[0xa4, 0x00, 0x00, 0x00, 0x00, 0x00, 0x00, 0x00, 0x00, 0xad]]"

definition UNI_0000060C_00000652_TO_ISO_8859_6 :: "nat list" where
  "UNI_0000060C_00000652_TO_ISO_8859_6 =
    table [[0xac, 0x00, 0x00, 0x00, 0x00, 0x00, 0x00, 0x00, 0x00, 0x00, 0x00, 0x00, 0x00, 0x00, 0x00, 0xbb],
     [0x00, 0x00, 0x00, 0xbf, 0x00, 0xc1, 0xc2, 0xc3, 0xc4, 0xc5, 0xc6, 0xc7, 0xc8, 0xc9, 0xca, 0xcb],
     [0xcc, 0xcd, 0xce, 0xcf, 0xd0, 0xd1, 0xd2, 0xd3, 0xd4, 0xd5, 0xd6, 0xd7, 0xd8, 0xd9, 0xda, 0x00],
     [0x00, 0x00, 0x00, 0x00, 0xe0, 0xe1, 0xe2, 0xe3, 0xe4, 0xe5, 0xe6, 0xe7, 0xe8, 0xe9, 0xea, 0xeb],
     [0xec, 0xed, 0xee, 0xef, 0xf0, 0xf1, 0xf2]]"

definition conv_8859_6_to_uni :: to_uni_func where
  "conv_8859_6_to_uni = sbcs_to_uni
    [Same 0xa0,
     Table 0xa4 0xf2 ISO_8859_6_000000A4_000000F2_TO_UNI (Some 0xd800)]"

definition conv_uni_to_8859_6 :: uni_to_func where
  "conv_uni_to_8859_6 = sbcs_uni_to
    [Upto 0xa0,
     Codes 0x00a4 0x00ad UNI_000000A4_000000AD_TO_ISO_8859_6 (Some 0x00),
     Codes 0x060c 0x0652 UNI_0000060C_00000652_TO_ISO_8859_6 (Some 0x00)]"

lemmas iso_8859_6_entries = table_entries [OF ISO_8859_6_000000A4_000000F2_TO_UNI_def, simplified entries_simps, simplified]

lemma iso_8859_6_codec: "is_codec conv_8859_6_to_uni conv_uni_to_8859_6"
  unfolding conv_8859_6_to_uni_def conv_uni_to_8859_6_def
  by (rule sbcs_is_codec) (simp add: sbcs_simps iso_8859_6_entries
    UNI_000000A4_000000AD_TO_ISO_8859_6_def
    UNI_0000060C_00000652_TO_ISO_8859_6_def)

section \<open>8859-7\<close>

definition ISO_8859_7_000000A1_000000FE_TO_UNI :: "nat list" where
  "ISO_8859_7_000000A1_000000FE_TO_UNI =
    table [[0x2018, 0x2019, 0x00a3, 0x20ac, 0x20af, 0x00a6, 0x00a7, 0x00a8, 0x00a9, 0x037a, 0x00ab, 0x00ac, 0x00ad, 0xd800, 0x2015, 0x00b0],
     [0x00b1, 0x00b2, 0x00b3, 0x0384, 0x0385, 0x0386, 0x00b7, 0x0388, 0x0389, 0x038a, 0x00bb, 0x038c, 0x00bd, 0x038e, 0x038f, 0x0390],
     [0x0391, 0x0392, 0x0393, 0x0394, 0x0395, 0x0396, 0x0397, 0x0398, 0x0399, 0x039a, 0x039b, 0x039c, 0x039d, 0x039e, 0x039f, 0x03a0],
     [0x03a1, 0xd800, 0x03a3, 0x03a4, 0x03a5, 0x03a6, 0x03a7, 0x03a8, 0x03a9, 0x03aa, 0x03ab, 0x03ac, 0x03ad, 0x03ae, 0x03af, 0x03b0],
     [0x03b1, 0x03b2, 0x03b3, 0x03b4, 0x03b5, 0x03b6, 0x03b7, 0x03b8, 0x03b9, 0x03ba, 0x03bb, 0x03bc, 0x03bd, 0x03be, 0x03bf, 0x03c0],
     [0x03c1, 0x03c2, 0x03c3, 0x03c4, 0x03c5, 0x03c6, 0x03c7, 0x03c8, 0x03c9, 0x03ca, 0x03cb, 0x03cc, 0x03cd, 0x03ce]]"

definition UNI_000000A3_000000BD_TO_ISO_8859_7 :: "nat list" where
  "UNI_000000A3_000000BD_TO_ISO_8859_7 =
    table [[0xa3, 0x00, 0x00, 0xa6, 0xa7, 0xa8, 0xa9, 0x00, 0xab, 0xac, 0xad, 0x00, 0x00, 0xb0, 0xb1, 0xb2],
     [0xb3, 0x00, 0x00, 0x00, 0xb7, 0x00, 0x00, 0x00, 0xbb, 0x00, 0xbd]]"

definition UNI_0000037A_000003CE_TO_ISO_8859_7 :: "nat list" where
  "UNI_0000037A_000003CE_TO_ISO_8859_7 =
    table [[0xaa, 0x00, 0x00, 0x00, 0x00, 0x00, 0x00, 0x00, 0x00, 0x00, 0xb4, 0xb5, 0xb6, 0x00, 0xb8, 0xb9],
     [0xba, 0x00, 0xbc, 0x00, 0xbe, 0xbf, 0xc0, 0xc1, 0xc2, 0xc3, 0xc4, 0xc5, 0xc6, 0xc7, 0xc8, 0xc9],
     [0xca, 0xcb, 0xcc, 0xcd, 0xce, 0xcf, 0xd0, 0xd1, 0x00, 0xd3, 0xd4, 0xd5, 0xd6, 0xd7, 0xd8, 0xd9],
     [0xda, 0xdb, 0xdc, 0xdd, 0xde, 0xdf, 0xe0, 0xe1, 0xe2, 0xe3, 0xe4, 0xe5, 0xe6, 0xe7, 0xe8, 0xe9],
     [0xea, 0xeb, 0xec, 0xed, 0xee, 0xef, 0xf0, 0xf1, 0xf2, 0xf3, 0xf4, 0xf5, 0xf6, 0xf7, 0xf8, 0xf9],
     [0xfa, 0xfb, 0xfc, 0xfd, 0xfe]]"

definition UNI_00002015_00002019_TO_ISO_8859_7 :: "nat list" where
  "UNI_00002015_00002019_TO_ISO_8859_7 =
    table [[0xaf, 0x00, 0x00, 0xa1, 0xa2]]"

definition UNI_000020AC_000020AF_TO_ISO_8859_7 :: "nat list" where
  "UNI_000020AC_000020AF_TO_ISO_8859_7 =
    table [[0xa4, 0x00, 0x00, 0xa5]]"

definition conv_8859_7_to_uni :: to_uni_func where
  "conv_8859_7_to_uni = sbcs_to_uni
    [Same 0xa0,
     Table 0xa1 0xfe ISO_8859_7_000000A1_000000FE_TO_UNI (Some 0xd800)]"

definition conv_uni_to_8859_7 :: uni_to_func where
  "conv_uni_to_8859_7 = sbcs_uni_to
    [Upto 0xa0,
     Codes 0x00a3 0x00bd UNI_000000A3_000000BD_TO_ISO_8859_7 (Some 0x00),
     Codes 0x037a 0x03ce UNI_0000037A_000003CE_TO_ISO_8859_7 (Some 0x00),
     Codes 0x2015 0x2019 UNI_00002015_00002019_TO_ISO_8859_7 (Some 0x00),
     Codes 0x20ac 0x20af UNI_000020AC_000020AF_TO_ISO_8859_7 (Some 0x00)]"

lemmas iso_8859_7_entries = table_entries [OF ISO_8859_7_000000A1_000000FE_TO_UNI_def, simplified entries_simps, simplified]

lemma iso_8859_7_codec: "is_codec conv_8859_7_to_uni conv_uni_to_8859_7"
  unfolding conv_8859_7_to_uni_def conv_uni_to_8859_7_def
  by (rule sbcs_is_codec) (simp add: sbcs_simps iso_8859_7_entries
    UNI_000000A3_000000BD_TO_ISO_8859_7_def
    UNI_0000037A_000003CE_TO_ISO_8859_7_def
    UNI_00002015_00002019_TO_ISO_8859_7_def
    UNI_000020AC_000020AF_TO_ISO_8859_7_def)

section \<open>8859-8\<close>

definition ISO_8859_8_000000A2_000000FE_TO_UNI :: "nat list" where
  "ISO_8859_8_000000A2_000000FE_TO_UNI =
    table [[0x00a2, 0x00a3, 0x00a4, 0x00a5, 0x00a6, 0x00a7, 0x00a8, 0x00a9, 0x00d7, 0x00ab, 0x00ac, 0x00ad, 0x00ae, 0x00af, 0x00b0, 0x00b1],
     [0x00b2, 0x00b3, 0x00b4, 0x00b5, 0x00b6, 0x00b7, 0x00b8, 0x00b9, 0x00f7, 0x00bb, 0x00bc, 0x00bd, 0x00be, 0xd800, 0xd800, 0xd800],
     [0xd800, 0xd800, 0xd800, 0xd800, 0xd800, 0xd800, 0xd800, 0xd800, 0xd800, 0xd800, 0xd800, 0xd800, 0xd800, 0xd800, 0xd800, 0xd800],
     [0xd800, 0xd800, 0xd800, 0xd800, 0xd800, 0xd800, 0xd800, 0xd800, 0xd800, 0xd800, 0xd800, 0xd800, 0xd800, 0x2017, 0x05d0, 0x05d1],
     [0x05d2, 0x05d3, 0x05d4, 0x05d5, 0x05d6, 0x05d7, 0x05d8, 0x05d9, 0x05da, 0x05db, 0x05dc, 0x05dd, 0x05de, 0x05df, 0x05e0, 0x05e1],
     [0x05e2, 0x05e3, 0x05e4, 0x05e5, 0x05e6, 0x05e7, 0x05e8, 0x05e9, 0x05ea, 0xd800, 0xd800, 0x200e, 0x200f]]"

definition UNI_000000A2_000000F7_TO_ISO_8859_8 :: "nat list" where
  "UNI_000000A2_000000F7_TO_ISO_8859_8 =
    table [[0xa2, 0xa3, 0xa4, 0xa5, 0xa6, 0xa7, 0xa8, 0xa9, 0x00, 0xab, 0xac, 0xad, 0xae, 0xaf, 0xb0, 0xb1],
     [0xb2, 0xb3, 0xb4, 0xb5, 0xb6, 0xb7, 0xb8, 0xb9, 0x00, 0xbb, 0xbc, 0xbd, 0xbe, 0x00, 0x00, 0x00],
     [0x00, 0x00, 0x00, 0x00, 0x00, 0x00, 0x00, 0x00, 0x00, 0x00, 0x00, 0x00, 0x00, 0x00, 0x00, 0x00],
     [0x00, 0x00, 0x00, 0x00, 0x00, 0xaa, 0x00, 0x00, 0x00, 0x00, 0x00, 0x00, 0x00, 0x00, 0x00, 0x00],
     [0x00, 0x00, 0x00, 0x00, 0x00, 0x00, 0x00, 0x00, 0x00, 0x00, 0x00, 0x00, 0x00, 0x00, 0x00, 0x00],
     [0x00, 0x00, 0x00, 0x00, 0x00, 0xba]]"

definition UNI_000005D0_000005EA_TO_ISO_8859_8 :: "nat list" where
  "UNI_000005D0_000005EA_TO_ISO_8859_8 =
    table [[0xe0, 0xe1, 0xe2, 0xe3, 0xe4, 0xe5, 0xe6, 0xe7, 0xe8, 0xe9, 0xea, 0xeb, 0xec, 0xed, 0xee, 0xef],
     [0xf0, 0xf1, 0xf2, 0xf3, 0xf4, 0xf5, 0xf6, 0xf7, 0xf8, 0xf9, 0xfa]]"

definition UNI_0000200E_00002017_TO_ISO_8859_8 :: "nat list" where
  "UNI_0000200E_00002017_TO_ISO_8859_8 =
    table [[0xfd, 0xfe, 0x00, 0x00, 0x00, 0x00, 0x00, 0x00, 0x00, 0xdf]]"

definition conv_8859_8_to_uni :: to_uni_func where
  "conv_8859_8_to_uni = sbcs_to_uni
    [Same 0xa0,
     Table 0xa2 0xfe ISO_8859_8_000000A2_000000FE_TO_UNI (Some 0xd800)]"

definition conv_uni_to_8859_8 :: uni_to_func where
  "conv_uni_to_8859_8 = sbcs_uni_to
    [Upto 0xa0,
     Codes 0x00a2 0x00f7 UNI_000000A2_000000F7_TO_ISO_8859_8 (Some 0x00),
     Codes 0x05d0 0x05ea UNI_000005D0_000005EA_TO_ISO_8859_8 None,
     Codes 0x200e 0x2017 UNI_0000200E_00002017_TO_ISO_8859_8 (Some 0x00)]"

lemmas iso_8859_8_entries = table_entries [OF ISO_8859_8_000000A2_000000FE_TO_UNI_def, simplified entries_simps, simplified]

lemma iso_8859_8_codec: "is_codec conv_8859_8_to_uni conv_uni_to_8859_8"
  unfolding conv_8859_8_to_uni_def conv_uni_to_8859_8_def
  by (rule sbcs_is_codec) (simp add: sbcs_simps iso_8859_8_entries
    UNI_000000A2_000000F7_TO_ISO_8859_8_def
    UNI_000005D0_000005EA_TO_ISO_8859_8_def
    UNI_0000200E_00002017_TO_ISO_8859_8_def)

section \<open>8859-9\<close>

definition ISO_8859_9_000000D0_000000FF_TO_UNI :: "nat list" where
  "ISO_8859_9_000000D0_000000FF_TO_UNI =
    table [[0x011e, 0x00d1, 0x00d2, 0x00d3, 0x00d4, 0x00d5, 0x00d6, 0x00d7, 0x00d8, 0x00d9, 0x00da, 0x00db, 0x00dc, 0x0130, 0x015e, 0x00df],
     [0x00e0, 0x00e1, 0x00e2, 0x00e3, 0x00e4, 0x00e5, 0x00e6, 0x00e7, 0x00e8, 0x00e9, 0x00ea, 0x00eb, 0x00ec, 0x00ed, 0x00ee, 0x00ef],
     [0x011f, 0x00f1, 0x00f2, 0x00f3, 0x00f4, 0x00f5, 0x00f6, 0x00f7, 0x00f8, 0x00f9, 0x00fa, 0x00fb, 0x00fc, 0x0131, 0x015f, 0x00ff]]"

definition UNI_000000D1_0000015F_TO_ISO_8859_9 :: "nat list" where
  "UNI_000000D1_0000015F_TO_ISO_8859_9 =
    table [[0xd1, 0xd2, 0xd3, 0xd4, 0xd5, 0xd6, 0xd7, 0xd8, 0xd9, 0xda, 0xdb, 0xdc, 0x00, 0x00, 0xdf, 0xe0],
     [0xe1, 0xe2, 0xe3, 0xe4, 0xe5, 0xe6, 0xe7, 0xe8, 0xe9, 0xea, 0xeb, 0xec, 0xed, 0xee, 0xef, 0x00],
     [0xf1, 0xf2, 0xf3, 0xf4, 0xf5, 0xf6, 0xf7, 0xf8, 0xf9, 0xfa, 0xfb, 0xfc, 0x00, 0x00, 0xff, 0x00],
     [0x00, 0x00, 0x00, 0x00, 0x00, 0x00, 0x00, 0x00, 0x00, 0x00, 0x00, 0x00, 0x00, 0x00, 0x00, 0x00],
     [0x00, 0x00, 0x00, 0x00, 0x00, 0x00, 0x00, 0x00, 0x00, 0x00, 0x00, 0x00, 0x00, 0xd0, 0xf0, 0x00],
     [0x00, 0x00, 0x00, 0x00, 0x00, 0x00, 0x00, 0x00, 0x00, 0x00, 0x00, 0x00, 0x00, 0x00, 0x00, 0xdd],
     [0xfd, 0x00, 0x00, 0x00, 0x00, 0x00, 0x00, 0x00, 0x00, 0x00, 0x00, 0x00, 0x00, 0x00, 0x00, 0x00],
     [0x00, 0x00, 0x00, 0x00, 0x00, 0x00, 0x00, 0x00, 0x00, 0x00, 0x00, 0x00, 0x00, 0x00, 0x00, 0x00],
     [0x00, 0x00, 0x00, 0x00, 0x00, 0x00, 0x00, 0x00, 0x00, 0x00, 0x00, 0x00, 0x00, 0xde, 0xfe]]"

definition conv_8859_9_to_uni :: to_uni_func where
  "conv_8859_9_to_uni = sbcs_to_uni
    [Same 0xcf,
     Table 0xd0 0xff ISO_8859_9_000000D0_000000FF_TO_UNI None]"

definition conv_uni_to_8859_9 :: uni_to_func where
  "conv_uni_to_8859_9 = sbcs_uni_to
    [Upto 0xcf,
     Codes 0x00d1 0x015f UNI_000000D1_0000015F_TO_ISO_8859_9 (Some 0x00)]"

lemmas iso_8859_9_entries = table_entries [OF ISO_8859_9_000000D0_000000FF_TO_UNI_def, simplified entries_simps, simplified]

lemma iso_8859_9_codec: "is_codec conv_8859_9_to_uni conv_uni_to_8859_9"
  unfolding conv_8859_9_to_uni_def conv_uni_to_8859_9_def
  by (rule sbcs_is_codec) (simp add: sbcs_simps iso_8859_9_entries
    UNI_000000D1_0000015F_TO_ISO_8859_9_def)

end
