(* ===== verification/Charset_Ibm.thy ===== *)
theory Charset_Ibm
  imports Charset
begin

text \<open>
  The code pages of IBM and DOS: the tables and the branches of \<^verbatim>\<open>src/charset/\<close>, one header per set, and for every set
  the proof that its encoder writes only what its decoder reads back.
\<close>

section \<open>cp037\<close>

definition CP037_00000000_000000FF_TO_UNI :: "nat list" where
  "CP037_00000000_000000FF_TO_UNI =
    table [[0x0000, 0x0001, 0x0002, 0x0003, 0x009c, 0x0009, 0x0086, 0x007f, 0x0097, 0x008d, 0x008e, 0x000b, 0x000c, 0x000d, 0x000e, 0x000f],
     [0x0010, 0x0011, 0x0012, 0x0013, 0x009d, 0x0085, 0x0008, 0x0087, 0x0018, 0x0019, 0x0092, 0x008f, 0x001c, 0x001d, 0x001e, 0x001f],
     [0x0080, 0x0081, 0x0082, 0x0083, 0x0084, 0x000a, 0x0017, 0x001b, 0x0088, 0x0089, 0x008a, 0x008b, 0x008c, 0x0005, 0x0006, 0x0007],
     [0x0090, 0x0091, 0x0016, 0x0093, 0x0094, 0x0095, 0x0096, 0x0004, 0x0098, 0x0099, 0x009a, 0x009b, 0x0014, 0x0015, 0x009e, 0x001a],
     [0x0020, 0x00a0, 0x00e2, 0x00e4, 0x00e0, 0x00e1, 0x00e3, 0x00e5, 0x00e7, 0x00f1, 0x00a2, 0x002e, 0x003c, 0x0028, 0x002b, 0x007c],
     [0x0026, 0x00e9, 0x00ea, 0x00eb, 0x00e8, 0x00ed, 0x00ee, 0x00ef, 0x00ec, 0x00df, 0x0021, 0x0024, 0x002a, 0x0029, 0x003b, 0x00ac],
     [0x002d, 0x002f, 0x00c2, 0x00c4, 0x00c0, 0x00c1, 0x00c3, 0x00c5, 0x00c7, 0x00d1, 0x00a6, 0x002c, 0x0025, 0x005f, 0x003e, 0x003f],
     [0x00f8, 0x00c9, 0x00ca, 0x00cb, 0x00c8, 0x00cd, 0x00ce, 0x00cf, 0x00cc, 0x0060, 0x003a, 0x0023, 0x0040, 0x0027, 0x003d, 0x0022],
     [0x00d8, 0x0061, 0x0062, 0x0063, 0x0064, 0x0065, 0x0066, 0x0067, 0x0068, 0x0069, 0x00ab, 0x00bb, 0x00f0, 0x00fd, 0x00fe, 0x00b1],
     [0x00b0, 0x006a, 0x006b, 0x006c, 0x006d, 0x006e, 0x006f, 0x0070, 0x0071, 0x0072, 0x00aa, 0x00ba, 0x00e6, 0x00b8, 0x00c6, 0x00a4],
     [0x00b5, 0x007e, 0x0073, 0x0074, 0x0075, 0x0076, 0x0077, 0x0078, 0x0079, 0x007a, 0x00a1, 0x00bf, 0x00d0, 0x00dd, 0x00de, 0x00ae],
     [0x005e, 0x00a3, 0x00a5, 0x00b7, 0x00a9, 0x00a7, 0x00b6, 0x00bc, 0x00bd, 0x00be, 0x005b, 0x005d, 0x00af, 0x00a8, 0x00b4, 0x00d7],
     [0x007b, 0x0041, 0x0042, 0x0043, 0x0044, 0x0045, 0x0046, 0x0047, 0x0048, 0x0049, 0x00ad, 0x00f4, 0x00f6, 0x00f2, 0x00f3, 0x00f5],
     [0x007d, 0x004a, 0x004b, 0x004c, 0x004d, 0x004e, 0x004f, 0x0050, 0x0051, 0x0052, 0x00b9, 0x00fb, 0x00fc, 0x00f9, 0x00fa, 0x00ff],
     [0x005c, 0x00f7, 0x0053, 0x0054, 0x0055, 0x0056, 0x0057, 0x0058, 0x0059, 0x005a, 0x00b2, 0x00d4, 0x00d6, 0x00d2, 0x00d3, 0x00d5],
     [0x0030, 0x0031, 0x0032, 0x0033, 0x0034, 0x0035, 0x0036, 0x0037, 0x0038, 0x0039, 0x00b3, 0x00db, 0x00dc, 0x00d9, 0x00da, 0x009f]]"

definition UNI_00000000_000000FF_TO_CP037 :: "nat list" where
  "UNI_00000000_000000FF_TO_CP037 =
    table [[0x00, 0x01, 0x02, 0x03, 0x37, 0x2d, 0x2e, 0x2f, 0x16, 0x05, 0x25, 0x0b, 0x0c, 0x0d, 0x0e, 0x0f],
     [0x10, 0x11, 0x12, 0x13, 0x3c, 0x3d, 0x32, 0x26, 0x18, 0x19, 0x3f, 0x27, 0x1c, 0x1d, 0x1e, 0x1f],
     [0x40, 0x5a, 0x7f, 0x7b, 0x5b, 0x6c, 0x50, 0x7d, 0x4d, 0x5d, 0x5c, 0x4e, 0x6b, 0x60, 0x4b, 0x61],
     [0xf0, 0xf1, 0xf2, 0xf3, 0xf4, 0xf5, 0xf6, 0xf7, 0xf8, 0xf9, 0x7a, 0x5e, 0x4c, 0x7e, 0x6e, 0x6f],
     [0x7c, 0xc1, 0xc2, 0xc3, 0xc4, 0xc5, 0xc6, 0xc7, 0xc8, 0xc9, 0xd1, 0xd2, 0xd3, 0xd4, 0xd5, 0xd6],
     [0xd7, 0xd8, 0xd9, 0xe2, 0xe3, 0xe4, 0xe5, 0xe6, 0xe7, 0xe8, 0xe9, 0xba, 0xe0, 0xbb, 0xb0, 0x6d],
     [0x79, 0x81, 0x82, 0x83, 0x84, 0x85, 0x86, 0x87, 0x88, 0x89, 0x91, 0x92, 0x93, 0x94, 0x95, 0x96],
     [0x97, 0x98, 0x99, 0xa2, 0xa3, 0xa4, 0xa5, 0xa6, 0xa7, 0xa8, 0xa9, 0xc0, 0x4f, 0xd0, 0xa1, 0x07],
     [0x20, 0x21, 0x22, 0x23, 0x24, 0x15, 0x06, 0x17, 0x28, 0x29, 0x2a, 0x2b, 0x2c, 0x09, 0x0a, 0x1b],
     [0x30, 0x31, 0x1a, 0x33, 0x34, 0x35, 0x36, 0x08, 0x38, 0x39, 0x3a, 0x3b, 0x04, 0x14, 0x3e, 0xff],
     [0x41, 0xaa, 0x4a, 0xb1, 0x9f, 0xb2, 0x6a, 0xb5, 0xbd, 0xb4, 0x9a, 0x8a, 0x5f, 0xca, 0xaf, 0xbc],
     [0x90, 0x8f, 0xea, 0xfa, 0xbe, 0xa0, 0xb6, 0xb3, 0x9d, 0xda, 0x9b, 0x8b, 0xb7, 0xb8, 0xb9, 0xab],
     [0x64, 0x65, 0x62, 0x66, 0x63, 0x67, 0x9e, 0x68, 0x74, 0x71, 0x72, 0x73, 0x78, 0x75, 0x76, 0x77],
     [0xac, 0x69, 0xed, 0xee, 0xeb, 0xef, 0xec, 0xbf, 0x80, 0xfd, 0xfe, 0xfb, 0xfc, 0xad, 0xae, 0x59],
     [0x44, 0x45, 0x42, 0x46, 0x43, 0x47, 0x9c, 0x48, 0x54, 0x51, 0x52, 0x53, 0x58, 0x55, 0x56, 0x57],
     [0x8c, 0x49, 0xcd, 0xce, 0xcb, 0xcf, 0xcc, 0xe1, 0x70, 0xdd, 0xde, 0xdb, 0xdc, 0x8d, 0x8e, 0xdf]]"

definition conv_cp037_to_uni :: to_uni_func where
  "conv_cp037_to_uni = sbcs_to_uni
    [Table 0x00 0xff CP037_00000000_000000FF_TO_UNI None]"

definition conv_uni_to_cp037 :: uni_to_func where
  "conv_uni_to_cp037 = sbcs_uni_to
    [Codes 0x0000 0x00ff UNI_00000000_000000FF_TO_CP037 None]"

lemmas cp037_entries = table_entries [OF CP037_00000000_000000FF_TO_UNI_def, simplified entries_simps, simplified]

lemma cp037_codec: "is_codec conv_cp037_to_uni conv_uni_to_cp037"
  unfolding conv_cp037_to_uni_def conv_uni_to_cp037_def
  by (rule sbcs_is_codec) (simp add: sbcs_simps cp037_entries
    UNI_00000000_000000FF_TO_CP037_def)

section \<open>cp1026\<close>

definition CP1026_00000000_000000FF_TO_UNI :: "nat list" where
  "CP1026_00000000_000000FF_TO_UNI =
    table [[0x0000, 0x0001, 0x0002, 0x0003, 0x009c, 0x0009, 0x0086, 0x007f, 0x0097, 0x008d, 0x008e, 0x000b, 0x000c, 0x000d, 0x000e, 0x000f],
     [0x0010, 0x0011, 0x0012, 0x0013, 0x009d, 0x0085, 0x0008, 0x0087, 0x0018, 0x0019, 0x0092, 0x008f, 0x001c, 0x001d, 0x001e, 0x001f],
     [0x0080, 0x0081, 0x0082, 0x0083, 0x0084, 0x000a, 0x0017, 0x001b, 0x0088, 0x0089, 0x008a, 0x008b, 0x008c, 0x0005, 0x0006, 0x0007],
     [0x0090, 0x0091, 0x0016, 0x0093, 0x0094, 0x0095, 0x0096, 0x0004, 0x0098, 0x0099, 0x009a, 0x009b, 0x0014, 0x0015, 0x009e, 0x001a],
     [0x0020, 0x00a0, 0x00e2, 0x00e4, 0x00e0, 0x00e1, 0x00e3, 0x00e5, 0x007b, 0x00f1, 0x00c7, 0x002e, 0x003c, 0x0028, 0x002b, 0x0021],
     [0x0026, 0x00e9, 0x00ea, 0x00eb, 0x00e8, 0x00ed, 0x00ee, 0x00ef, 0x00ec, 0x00df, 0x011e, 0x0130, 0x002a, 0x0029, 0x003b, 0x005e],
     [0x002d, 0x002f, 0x00c2, 0x00c4, 0x00c0, 0x00c1, 0x00c3, 0x00c5, 0x005b, 0x00d1, 0x015f, 0x002c, 0x0025, 0x005f, 0x003e, 0x003f],
     [0x00f8, 0x00c9, 0x00ca, 0x00cb, 0x00c8, 0x00cd, 0x00ce, 0x00cf, 0x00cc, 0x0131, 0x003a, 0x00d6, 0x015e, 0x0027, 0x003d, 0x00dc],
     [0x00d8, 0x0061, 0x0062, 0x0063, 0x0064, 0x0065, 0x0066, 0x0067, 0x0068, 0x0069, 0x00ab, 0x00bb, 0x007d, 0x0060, 0x00a6, 0x00b1],
     [0x00b0, 0x006a, 0x006b, 0x006c, 0x006d, 0x006e, 0x006f, 0x0070, 0x0071, 0x0072, 0x00aa, 0x00ba, 0x00e6, 0x00b8, 0x00c6, 0x00a4],
     [0x00b5, 0x00f6, 0x0073, 0x0074, 0x0075, 0x0076, 0x0077, 0x0078, 0x0079, 0x007a, 0x00a1, 0x00bf, 0x005d, 0x0024, 0x0040, 0x00ae],
     [0x00a2, 0x00a3, 0x00a5, 0x00b7, 0x00a9, 0x00a7, 0x00b6, 0x00bc, 0x00bd, 0x00be, 0x00ac, 0x007c, 0x00af, 0x00a8, 0x00b4, 0x00d7],
     [0x00e7, 0x0041, 0x0042, 0x0043, 0x0044, 0x0045, 0x0046, 0x0047, 0x0048, 0x0049, 0x00ad, 0x00f4, 0x007e, 0x00f2, 0x00f3, 0x00f5],
     [0x011f, 0x004a, 0x004b, 0x004c, 0x004d, 0x004e, 0x004f, 0x0050, 0x0051, 0x0052, 0x00b9, 0x00fb, 0x005c, 0x00f9, 0x00fa, 0x00ff],
     [0x00fc, 0x00f7, 0x0053, 0x0054, 0x0055, 0x0056, 0x0057, 0x0058, 0x0059, 0x005a, 0x00b2, 0x00d4, 0x0023, 0x00d2, 0x00d3, 0x00d5],
     [0x0030, 0x0031, 0x0032, 0x0033, 0x0034, 0x0035, 0x0036, 0x0037, 0x0038, 0x0039, 0x00b3, 0x00db, 0x0022, 0x00d9, 0x00da, 0x009f]]"

definition UNI_00000000_000000FF_TO_CP1026 :: "nat list" where
  "UNI_00000000_000000FF_TO_CP1026 =
    table [[0x00, 0x01, 0x02, 0x03, 0x37, 0x2d, 0x2e, 0x2f, 0x16, 0x05, 0x25, 0x0b, 0x0c, 0x0d, 0x0e, 0x0f],
     [0x10, 0x11, 0x12, 0x13, 0x3c, 0x3d, 0x32, 0x26, 0x18, 0x19, 0x3f, 0x27, 0x1c, 0x1d, 0x1e, 0x1f],
     [0x40, 0x4f, 0xfc, 0xec, 0xad, 0x6c, 0x50, 0x7d, 0x4d, 0x5d, 0x5c, 0x4e, 0x6b, 0x60, 0x4b, 0x61],
     [0xf0, 0xf1, 0xf2, 0xf3, 0xf4, 0xf5, 0xf6, 0xf7, 0xf8, 0xf9, 0x7a, 0x5e, 0x4c, 0x7e, 0x6e, 0x6f],
     [0xae, 0xc1, 0xc2, 0xc3, 0xc4, 0xc5, 0xc6, 0xc7, 0xc8, 0xc9, 0xd1, 0xd2, 0xd3, 0xd4, 0xd5, 0xd6],
     [0xd7, 0xd8, 0xd9, 0xe2, 0xe3, 0xe4, 0xe5, 0xe6, 0xe7, 0xe8, 0xe9, 0x68, 0xdc, 0xac, 0x5f, 0x6d],
     [0x8d, 0x81, 0x82, 0x83, 0x84, 0x85, 0x86, 0x87, 0x88, 0x89, 0x91, 0x92, 0x93, 0x94, 0x95, 0x96],
     [0x97, 0x98, 0x99, 0xa2, 0xa3, 0xa4, 0xa5, 0xa6, 0xa7, 0xa8, 0xa9, 0x48, 0xbb, 0x8c, 0xcc, 0x07],
     [0x20, 0x21, 0x22, 0x23, 0x24, 0x15, 0x06, 0x17, 0x28, 0x29, 0x2a, 0x2b, 0x2c, 0x09, 0x0a, 0x1b],
     [0x30, 0x31, 0x1a, 0x33, 0x34, 0x35, 0x36, 0x08, 0x38, 0x39, 0x3a, 0x3b, 0x04, 0x14, 0x3e, 0xff],
     [0x41, 0xaa, 0xb0, 0xb1, 0x9f, 0xb2, 0x8e, 0xb5, 0xbd, 0xb4, 0x9a, 0x8a, 0xba, 0xca, 0xaf, 0xbc],
     [0x90, 0x8f, 0xea, 0xfa, 0xbe, 0xa0, 0xb6, 0xb3, 0x9d, 0xda, 0x9b, 0x8b, 0xb7, 0xb8, 0xb9, 0xab],
     [0x64, 0x65, 0x62, 0x66, 0x63, 0x67, 0x9e, 0x4a, 0x74, 0x71, 0x72, 0x73, 0x78, 0x75, 0x76, 0x77],
     [0x5a, 0x69, 0xed, 0xee, 0xeb, 0xef, 0x7b, 0xbf, 0x80, 0xfd, 0xfe, 0xfb, 0x7f, 0x5a, 0x5a, 0x59],
     [0x44, 0x45, 0x42, 0x46, 0x43, 0x47, 0x9c, 0xc0, 0x54, 0x51, 0x52, 0x53, 0x58, 0x55, 0x56, 0x57],
     [0x5a, 0x49, 0xcd, 0xce, 0xcb, 0xcf, 0xa1, 0xe1, 0x70, 0xdd, 0xde, 0xdb, 0xe0, 0x5a, 0x5a, 0xdf]]"

definition UNI_0000011E_0000015F_TO_CP1026 :: "nat list" where
  "UNI_0000011E_0000015F_TO_CP1026 =
    table [[0x5a, 0xd0, 0x00, 0x00, 0x00, 0x00, 0x00, 0x00, 0x00, 0x00, 0x00, 0x00, 0x00, 0x00, 0x00, 0x00],
     [0x00, 0x00, 0x5b, 0x79, 0x00, 0x00, 0x00, 0x00, 0x00, 0x00, 0x00, 0x00, 0x00, 0x00, 0x00, 0x00],
     [0x00, 0x00, 0x00, 0x00, 0x00, 0x00, 0x00, 0x00, 0x00, 0x00, 0x00, 0x00, 0x00, 0x00, 0x00, 0x00],
     [0x00, 0x00, 0x00, 0x00, 0x00, 0x00, 0x00, 0x00, 0x00, 0x00, 0x00, 0x00, 0x00, 0x00, 0x00, 0x00],
     [0x7c, 0x6a]]"

definition conv_cp1026_to_uni :: to_uni_func where
  "conv_cp1026_to_uni = sbcs_to_uni
    [Table 0x00 0xff CP1026_00000000_000000FF_TO_UNI None]"

definition conv_uni_to_cp1026 :: uni_to_func where
  "conv_uni_to_cp1026 = sbcs_uni_to
    [Codes 0x0000 0x00ff UNI_00000000_000000FF_TO_CP1026 (Some 0x5a),
     Codes 0x011e 0x015f UNI_0000011E_0000015F_TO_CP1026 (Some 0x00)]"

lemmas cp1026_entries = table_entries [OF CP1026_00000000_000000FF_TO_UNI_def, simplified entries_simps, simplified]

lemma cp1026_codec: "is_codec conv_cp1026_to_uni conv_uni_to_cp1026"
  unfolding conv_cp1026_to_uni_def conv_uni_to_cp1026_def
  by (rule sbcs_is_codec) (simp add: sbcs_simps cp1026_entries
    UNI_00000000_000000FF_TO_CP1026_def
    UNI_0000011E_0000015F_TO_CP1026_def)

section \<open>cp424\<close>

definition CP424_00000000_000000FF_TO_UNI :: "nat list" where
  "CP424_00000000_000000FF_TO_UNI =
    table [[0x0000, 0x0001, 0x0002, 0x0003, 0x009c, 0x0009, 0x0086, 0x007f, 0x0097, 0x008d, 0x008e, 0x000b, 0x000c, 0x000d, 0x000e, 0x000f],
     [0x0010, 0x0011, 0x0012, 0x0013, 0x009d, 0x0085, 0x0008, 0x0087, 0x0018, 0x0019, 0x0092, 0x008f, 0x001c, 0x001d, 0x001e, 0x001f],
     [0x0080, 0x0081, 0x0082, 0x0083, 0x0084, 0x000a, 0x0017, 0x001b, 0x0088, 0x0089, 0x008a, 0x008b, 0x008c, 0x0005, 0x0006, 0x0007],
     [0x0090, 0x0091, 0x0016, 0x0093, 0x0094, 0x0095, 0x0096, 0x0004, 0x0098, 0x0099, 0x009a, 0x009b, 0x0014, 0x0015, 0x009e, 0x001a],
     [0x0020, 0x05d0, 0x05d1, 0x05d2, 0x05d3, 0x05d4, 0x05d5, 0x05d6, 0x05d7, 0x05d8, 0x00a2, 0x002e, 0x003c, 0x0028, 0x002b, 0x007c],
     [0x0026, 0x05d9, 0x05da, 0x05db, 0x05dc, 0x05dd, 0x05de, 0x05df, 0x05e0, 0x05e1, 0x0021, 0x0024, 0x002a, 0x0029, 0x003b, 0x00ac],
     [0x002d, 0x002f, 0x05e2, 0x05e3, 0x05e4, 0x05e5, 0x05e6, 0x05e7, 0x05e8, 0x05e9, 0x00a6, 0x002c, 0x0025, 0x005f, 0x003e, 0x003f],
     [0xd800, 0x05ea, 0xd800, 0xd800, 0x00a0, 0xd800, 0xd800, 0xd800, 0x2017, 0x0060, 0x003a, 0x0023, 0x0040, 0x0027, 0x003d, 0x0022],
     [0xd800, 0x0061, 0x0062, 0x0063, 0x0064, 0x0065, 0x0066, 0x0067, 0x0068, 0x0069, 0x00ab, 0x00bb, 0xd800, 0xd800, 0xd800, 0x00b1],
     [0x00b0, 0x006a, 0x006b, 0x006c, 0x006d, 0x006e, 0x006f, 0x0070, 0x0071, 0x0072, 0xd800, 0xd800, 0xd800, 0x00b8, 0xd800, 0x00a4],
     [0x00b5, 0x007e, 0x0073, 0x0074, 0x0075, 0x0076, 0x0077, 0x0078, 0x0079, 0x007a, 0xd800, 0xd800, 0xd800, 0xd800, 0xd800, 0x00ae],
     [0x005e, 0x00a3, 0x00a5, 0x00b7, 0x00a9, 0x00a7, 0x00b6, 0x00bc, 0x00bd, 0x00be, 0x005b, 0x005d, 0x00af, 0x00a8, 0x00b4, 0x00d7],
     [0x007b, 0x0041, 0x0042, 0x0043, 0x0044, 0x0045, 0x0046, 0x0047, 0x0048, 0x0049, 0x00ad, 0xd800, 0xd800, 0xd800, 0xd800, 0xd800],
     [0x007d, 0x004a, 0x004b, 0x004c, 0x004d, 0x004e, 0x004f, 0x0050, 0x0051, 0x0052, 0x00b9, 0xd800, 0xd800, 0xd800, 0xd800, 0xd800],
     [0x005c, 0x00f7, 0x0053, 0x0054, 0x0055, 0x0056, 0x0057, 0x0058, 0x0059, 0x005a, 0x00b2, 0xd800, 0xd800, 0xd800, 0xd800, 0xd800],
     [0x0030, 0x0031, 0x0032, 0x0033, 0x0034, 0x0035, 0x0036, 0x0037, 0x0038, 0x0039, 0x00b3, 0xd800, 0xd800, 0xd800, 0xd800, 0x009f]]"

definition UNI_00000000_000000F7_TO_CP424 :: "nat list" where
  "UNI_00000000_000000F7_TO_CP424 =
    table [[0x00, 0x01, 0x02, 0x03, 0x37, 0x2d, 0x2e, 0x2f, 0x16, 0x05, 0x25, 0x0b, 0x0c, 0x0d, 0x0e, 0x0f],
     [0x10, 0x11, 0x12, 0x13, 0x3c, 0x3d, 0x32, 0x26, 0x18, 0x19, 0x3f, 0x27, 0x1c, 0x1d, 0x1e, 0x1f],
     [0x40, 0x5a, 0x7f, 0x7b, 0x5b, 0x6c, 0x50, 0x7d, 0x4d, 0x5d, 0x5c, 0x4e, 0x6b, 0x60, 0x4b, 0x61],
     [0xf0, 0xf1, 0xf2, 0xf3, 0xf4, 0xf5, 0xf6, 0xf7, 0xf8, 0xf9, 0x7a, 0x5e, 0x4c, 0x7e, 0x6e, 0x6f],
     [0x7c, 0xc1, 0xc2, 0xc3, 0xc4, 0xc5, 0xc6, 0xc7, 0xc8, 0xc9, 0xd1, 0xd2, 0xd3, 0xd4, 0xd5, 0xd6],
     [0xd7, 0xd8, 0xd9, 0xe2, 0xe3, 0xe4, 0xe5, 0xe6, 0xe7, 0xe8, 0xe9, 0xba, 0xe0, 0xbb, 0xb0, 0x6d],
     [0x79, 0x81, 0x82, 0x83, 0x84, 0x85, 0x86, 0x87, 0x88, 0x89, 0x91, 0x92, 0x93, 0x94, 0x95, 0x96],
     [0x97, 0x98, 0x99, 0xa2, 0xa3, 0xa4, 0xa5, 0xa6, 0xa7, 0xa8, 0xa9, 0xc0, 0x4f, 0xd0, 0xa1, 0x07],
     [0x20, 0x21, 0x22, 0x23, 0x24, 0x15, 0x06, 0x17, 0x28, 0x29, 0x2a, 0x2b, 0x2c, 0x09, 0x0a, 0x1b],
     [0x30, 0x31, 0x1a, 0x33, 0x34, 0x35, 0x36, 0x08, 0x38, 0x39, 0x3a, 0x3b, 0x04, 0x14, 0x3e, 0xff],
     [0x74, 0x41, 0x4a, 0xb1, 0x9f, 0xb2, 0x6a, 0xb5, 0xbd, 0xb4, 0x41, 0x8a, 0x5f, 0xca, 0xaf, 0xbc],
     [0x90, 0x8f, 0xea, 0xfa, 0xbe, 0xa0, 0xb6, 0xb3, 0x9d, 0xda, 0x41, 0x8b, 0xb7, 0xb8, 0xb9, 0x41],
     [0x41, 0x41, 0x41, 0x41, 0x41, 0x41, 0x41, 0x41, 0x41, 0x41, 0x41, 0x41, 0x41, 0x41, 0x41, 0x41],
     [0x41, 0x41, 0x41, 0x41, 0x41, 0x41, 0x41, 0xbf, 0x41, 0x41, 0x41, 0x41, 0x41, 0x41, 0x41, 0x41],
     [0x41, 0x41, 0x41, 0x41, 0x41, 0x41, 0x41, 0x41, 0x41, 0x41, 0x41, 0x41, 0x41, 0x41, 0x41, 0x41],
     [0x41, 0x41, 0x41, 0x41, 0x41, 0x41, 0x41, 0xe1]]"

definition UNI_000005D0_000005EA_TO_CP424 :: "nat list" where
  "UNI_000005D0_000005EA_TO_CP424 =
    table [[0x41, 0x42, 0x43, 0x44, 0x45, 0x46, 0x47, 0x48, 0x49, 0x51, 0x52, 0x53, 0x54, 0x55, 0x56, 0x57],
     [0x58, 0x59, 0x62, 0x63, 0x64, 0x65, 0x66, 0x67, 0x68, 0x69, 0x71]]"

definition conv_cp424_to_uni :: to_uni_func where
  "conv_cp424_to_uni = sbcs_to_uni
    [Table 0x00 0xff CP424_00000000_000000FF_TO_UNI (Some 0xd800)]"

definition conv_uni_to_cp424 :: uni_to_func where
  "conv_uni_to_cp424 = sbcs_uni_to
    [Codes 0x0000 0x00f7 UNI_00000000_000000F7_TO_CP424 (Some 0x41),
     Codes 0x05d0 0x05ea UNI_000005D0_000005EA_TO_CP424 None,
     Single 0x2017 0x78]"

lemmas cp424_entries = table_entries [OF CP424_00000000_000000FF_TO_UNI_def, simplified entries_simps, simplified]

lemma cp424_codec: "is_codec conv_cp424_to_uni conv_uni_to_cp424"
  unfolding conv_cp424_to_uni_def conv_uni_to_cp424_def
  by (rule sbcs_is_codec) (simp add: sbcs_simps cp424_entries
    UNI_00000000_000000F7_TO_CP424_def
    UNI_000005D0_000005EA_TO_CP424_def)

section \<open>cp437\<close>

definition CP437_00000080_000000FF_TO_UNI :: "nat list" where
  "CP437_00000080_000000FF_TO_UNI =
    table [[0x00c7, 0x00fc, 0x00e9, 0x00e2, 0x00e4, 0x00e0, 0x00e5, 0x00e7, 0x00ea, 0x00eb, 0x00e8, 0x00ef, 0x00ee, 0x00ec, 0x00c4, 0x00c5],
     [0x00c9, 0x00e6, 0x00c6, 0x00f4, 0x00f6, 0x00f2, 0x00fb, 0x00f9, 0x00ff, 0x00d6, 0x00dc, 0x00a2, 0x00a3, 0x00a5, 0x20a7, 0x0192],
     [0x00e1, 0x00ed, 0x00f3, 0x00fa, 0x00f1, 0x00d1, 0x00aa, 0x00ba, 0x00bf, 0x2310, 0x00ac, 0x00bd, 0x00bc, 0x00a1, 0x00ab, 0x00bb],
     [0x2591, 0x2592, 0x2593, 0x2502, 0x2524, 0x2561, 0x2562, 0x2556, 0x2555, 0x2563, 0x2551, 0x2557, 0x255d, 0x255c, 0x255b, 0x2510],
     [0x2514, 0x2534, 0x252c, 0x251c, 0x2500, 0x253c, 0x255e, 0x255f, 0x255a, 0x2554, 0x2569, 0x2566, 0x2560, 0x2550, 0x256c, 0x2567],
     [0x2568, 0x2564, 0x2565, 0x2559, 0x2558, 0x2552, 0x2553, 0x256b, 0x256a, 0x2518, 0x250c, 0x2588, 0x2584, 0x258c, 0x2590, 0x2580],
     [0x03b1, 0x00df, 0x0393, 0x03c0, 0x03a3, 0x03c3, 0x00b5, 0x03c4, 0x03a6, 0x0398, 0x03a9, 0x03b4, 0x221e, 0x03c6, 0x03b5, 0x2229],
     [0x2261, 0x00b1, 0x2265, 0x2264, 0x2320, 0x2321, 0x00f7, 0x2248, 0x00b0, 0x2219, 0x00b7, 0x221a, 0x207f, 0x00b2, 0x25a0, 0x00a0]]"

definition UNI_000000A0_000000FF_TO_CP437 :: "nat list" where
  "UNI_000000A0_000000FF_TO_CP437 =
    table [[0xff, 0xad, 0x9b, 0x9c, 0x00, 0x9d, 0x00, 0x00, 0x00, 0x00, 0xa6, 0xae, 0xaa, 0x00, 0x00, 0x00],
     [0xf8, 0xf1, 0xfd, 0x00, 0x00, 0xe6, 0x00, 0xfa, 0x00, 0x00, 0xa7, 0xaf, 0xac, 0xab, 0x00, 0xa8],
     [0x00, 0x00, 0x00, 0x00, 0x8e, 0x8f, 0x92, 0x80, 0x00, 0x90, 0x00, 0x00, 0x00, 0x00, 0x00, 0x00],
     [0x00, 0xa5, 0x00, 0x00, 0x00, 0x00, 0x99, 0x00, 0x00, 0x00, 0x00, 0x00, 0x9a, 0x00, 0x00, 0xe1],
     [0x85, 0xa0, 0x83, 0x00, 0x84, 0x86, 0x91, 0x87, 0x8a, 0x82, 0x88, 0x89, 0x8d, 0xa1, 0x8c, 0x8b],
     [0x00, 0xa4, 0x95, 0xa2, 0x93, 0x00, 0x94, 0xf6, 0x00, 0x97, 0xa3, 0x96, 0x81, 0x00, 0x00, 0x98]]"

definition UNI_00000393_000003C6_TO_CP437 :: "nat list" where
  "UNI_00000393_000003C6_TO_CP437 =
    table [[0xe2, 0x00, 0x00, 0x00, 0x00, 0xe9, 0x00, 0x00, 0x00, 0x00, 0x00, 0x00, 0x00, 0x00, 0x00, 0x00],
     [0xe4, 0x00, 0x00, 0xe8, 0x00, 0x00, 0xea, 0x00, 0x00, 0x00, 0x00, 0x00, 0x00, 0x00, 0xe0, 0x00],
     [0x00, 0xeb, 0xee, 0x00, 0x00, 0x00, 0x00, 0x00, 0x00, 0x00, 0x00, 0x00, 0x00, 0xe3, 0x00, 0x00],
     [0xe5, 0xe7, 0x00, 0xed]]"

definition UNI_0000207F_000020A7_TO_CP437 :: "nat list" where
  "UNI_0000207F_000020A7_TO_CP437 =
    table [[0xfc, 0x00, 0x00, 0x00, 0x00, 0x00, 0x00, 0x00, 0x00, 0x00, 0x00, 0x00, 0x00, 0x00, 0x00, 0x00],
     [0x00, 0x00, 0x00, 0x00, 0x00, 0x00, 0x00, 0x00, 0x00, 0x00, 0x00, 0x00, 0x00, 0x00, 0x00, 0x00],
     [0x00, 0x00, 0x00, 0x00, 0x00, 0x00, 0x00, 0x00, 0x9e]]"

definition UNI_00002219_00002265_TO_CP437 :: "nat list" where
  "UNI_00002219_00002265_TO_CP437 =
    table [[0xf9, 0xfb, 0x00, 0x00, 0x00, 0xec, 0x00, 0x00, 0x00, 0x00, 0x00, 0x00, 0x00, 0x00, 0x00, 0x00],
     [0xef, 0x00, 0x00, 0x00, 0x00, 0x00, 0x00, 0x00, 0x00, 0x00, 0x00, 0x00, 0x00, 0x00, 0x00, 0x00],
     [0x00, 0x00, 0x00, 0x00, 0x00, 0x00, 0x00, 0x00, 0x00, 0x00, 0x00, 0x00, 0x00, 0x00, 0x00, 0xf7],
     [0x00, 0x00, 0x00, 0x00, 0x00, 0x00, 0x00, 0x00, 0x00, 0x00, 0x00, 0x00, 0x00, 0x00, 0x00, 0x00],
     [0x00, 0x00, 0x00, 0x00, 0x00, 0x00, 0x00, 0x00, 0xf0, 0x00, 0x00, 0xf3, 0xf2]]"

definition UNI_00002310_00002321_TO_CP437 :: "nat list" where
  "UNI_00002310_00002321_TO_CP437 =
    table [[0xa9, 0x00, 0x00, 0x00, 0x00, 0x00, 0x00, 0x00, 0x00, 0x00, 0x00, 0x00, 0x00, 0x00, 0x00, 0x00],
     [0xf4, 0xf5]]"

definition UNI_00002500_000025A0_TO_CP437 :: "nat list" where
  "UNI_00002500_000025A0_TO_CP437 =
    table [[0xc4, 0x00, 0xb3, 0x00, 0x00, 0x00, 0x00, 0x00, 0x00, 0x00, 0x00, 0x00, 0xda, 0x00, 0x00, 0x00],
     [0xbf, 0x00, 0x00, 0x00, 0xc0, 0x00, 0x00, 0x00, 0xd9, 0x00, 0x00, 0x00, 0xc3, 0x00, 0x00, 0x00],
     [0x00, 0x00, 0x00, 0x00, 0xb4, 0x00, 0x00, 0x00, 0x00, 0x00, 0x00, 0x00, 0xc2, 0x00, 0x00, 0x00],
     [0x00, 0x00, 0x00, 0x00, 0xc1, 0x00, 0x00, 0x00, 0x00, 0x00, 0x00, 0x00, 0xc5, 0x00, 0x00, 0x00],
     [0x00, 0x00, 0x00, 0x00, 0x00, 0x00, 0x00, 0x00, 0x00, 0x00, 0x00, 0x00, 0x00, 0x00, 0x00, 0x00],
     [0xcd, 0xba, 0xd5, 0xd6, 0xc9, 0xb8, 0xb7, 0xbb, 0xd4, 0xd3, 0xc8, 0xbe, 0xbd, 0xbc, 0xc6, 0xc7],
     [0xcc, 0xb5, 0xb6, 0xb9, 0xd1, 0xd2, 0xcb, 0xcf, 0xd0, 0xca, 0xd8, 0xd7, 0xce, 0x00, 0x00, 0x00],
     [0x00, 0x00, 0x00, 0x00, 0x00, 0x00, 0x00, 0x00, 0x00, 0x00, 0x00, 0x00, 0x00, 0x00, 0x00, 0x00],
     [0xdf, 0x00, 0x00, 0x00, 0xdc, 0x00, 0x00, 0x00, 0xdb, 0x00, 0x00, 0x00, 0xdd, 0x00, 0x00, 0x00],
     [0xde, 0xb0, 0xb1, 0xb2, 0x00, 0x00, 0x00, 0x00, 0x00, 0x00, 0x00, 0x00, 0x00, 0x00, 0x00, 0x00],
     [0xfe]]"

definition conv_cp437_to_uni :: to_uni_func where
  "conv_cp437_to_uni = sbcs_to_uni
    [Same 0x7f,
     Table 0x80 0xff CP437_00000080_000000FF_TO_UNI None]"

definition conv_uni_to_cp437 :: uni_to_func where
  "conv_uni_to_cp437 = sbcs_uni_to
    [Upto 0x7f,
     Codes 0x00a0 0x00ff UNI_000000A0_000000FF_TO_CP437 (Some 0x00),
     Single 0x0192 0x9f,
     Codes 0x0393 0x03c6 UNI_00000393_000003C6_TO_CP437 (Some 0x00),
     Codes 0x207f 0x20a7 UNI_0000207F_000020A7_TO_CP437 (Some 0x00),
     Codes 0x2219 0x2265 UNI_00002219_00002265_TO_CP437 (Some 0x00),
     Codes 0x2310 0x2321 UNI_00002310_00002321_TO_CP437 (Some 0x00),
     Codes 0x2500 0x25a0 UNI_00002500_000025A0_TO_CP437 (Some 0x00)]"

lemmas cp437_entries = table_entries [OF CP437_00000080_000000FF_TO_UNI_def, simplified entries_simps, simplified]

lemma cp437_codec: "is_codec conv_cp437_to_uni conv_uni_to_cp437"
  unfolding conv_cp437_to_uni_def conv_uni_to_cp437_def
  by (rule sbcs_is_codec) (simp add: sbcs_simps cp437_entries
    UNI_000000A0_000000FF_TO_CP437_def
    UNI_00000393_000003C6_TO_CP437_def
    UNI_0000207F_000020A7_TO_CP437_def
    UNI_00002219_00002265_TO_CP437_def
    UNI_00002310_00002321_TO_CP437_def
    UNI_00002500_000025A0_TO_CP437_def)

section \<open>cp500\<close>

definition CP500_00000000_000000FF_TO_UNI :: "nat list" where
  "CP500_00000000_000000FF_TO_UNI =
    table [[0x0000, 0x0001, 0x0002, 0x0003, 0x009c, 0x0009, 0x0086, 0x007f, 0x0097, 0x008d, 0x008e, 0x000b, 0x000c, 0x000d, 0x000e, 0x000f],
     [0x0010, 0x0011, 0x0012, 0x0013, 0x009d, 0x0085, 0x0008, 0x0087, 0x0018, 0x0019, 0x0092, 0x008f, 0x001c, 0x001d, 0x001e, 0x001f],
     [0x0080, 0x0081, 0x0082, 0x0083, 0x0084, 0x000a, 0x0017, 0x001b, 0x0088, 0x0089, 0x008a, 0x008b, 0x008c, 0x0005, 0x0006, 0x0007],
     [0x0090, 0x0091, 0x0016, 0x0093, 0x0094, 0x0095, 0x0096, 0x0004, 0x0098, 0x0099, 0x009a, 0x009b, 0x0014, 0x0015, 0x009e, 0x001a],
     [0x0020, 0x00a0, 0x00e2, 0x00e4, 0x00e0, 0x00e1, 0x00e3, 0x00e5, 0x00e7, 0x00f1, 0x005b, 0x002e, 0x003c, 0x0028, 0x002b, 0x0021],
     [0x0026, 0x00e9, 0x00ea, 0x00eb, 0x00e8, 0x00ed, 0x00ee, 0x00ef, 0x00ec, 0x00df, 0x005d, 0x0024, 0x002a, 0x0029, 0x003b, 0x005e],
     [0x002d, 0x002f, 0x00c2, 0x00c4, 0x00c0, 0x00c1, 0x00c3, 0x00c5, 0x00c7, 0x00d1, 0x00a6, 0x002c, 0x0025, 0x005f, 0x003e, 0x003f],
     [0x00f8, 0x00c9, 0x00ca, 0x00cb, 0x00c8, 0x00cd, 0x00ce, 0x00cf, 0x00cc, 0x0060, 0x003a, 0x0023, 0x0040, 0x0027, 0x003d, 0x0022],
     [0x00d8, 0x0061, 0x0062, 0x0063, 0x0064, 0x0065, 0x0066, 0x0067, 0x0068, 0x0069, 0x00ab, 0x00bb, 0x00f0, 0x00fd, 0x00fe, 0x00b1],
     [0x00b0, 0x006a, 0x006b, 0x006c, 0x006d, 0x006e, 0x006f, 0x0070, 0x0071, 0x0072, 0x00aa, 0x00ba, 0x00e6, 0x00b8, 0x00c6, 0x00a4],
     [0x00b5, 0x007e, 0x0073, 0x0074, 0x0075, 0x0076, 0x0077, 0x0078, 0x0079, 0x007a, 0x00a1, 0x00bf, 0x00d0, 0x00dd, 0x00de, 0x00ae],
     [0x00a2, 0x00a3, 0x00a5, 0x00b7, 0x00a9, 0x00a7, 0x00b6, 0x00bc, 0x00bd, 0x00be, 0x00ac, 0x007c, 0x00af, 0x00a8, 0x00b4, 0x00d7],
     [0x007b, 0x0041, 0x0042, 0x0043, 0x0044, 0x0045, 0x0046, 0x0047, 0x0048, 0x0049, 0x00ad, 0x00f4, 0x00f6, 0x00f2, 0x00f3, 0x00f5],
     [0x007d, 0x004a, 0x004b, 0x004c, 0x004d, 0x004e, 0x004f, 0x0050, 0x0051, 0x0052, 0x00b9, 0x00fb, 0x00fc, 0x00f9, 0x00fa, 0x00ff],
     [0x005c, 0x00f7, 0x0053, 0x0054, 0x0055, 0x0056, 0x0057, 0x0058, 0x0059, 0x005a, 0x00b2, 0x00d4, 0x00d6, 0x00d2, 0x00d3, 0x00d5],
     [0x0030, 0x0031, 0x0032, 0x0033, 0x0034, 0x0035, 0x0036, 0x0037, 0x0038, 0x0039, 0x00b3, 0x00db, 0x00dc, 0x00d9, 0x00da, 0x009f]]"

definition UNI_00000000_000000FF_TO_CP500 :: "nat list" where
  "UNI_00000000_000000FF_TO_CP500 =
    table [[0x00, 0x01, 0x02, 0x03, 0x37, 0x2d, 0x2e, 0x2f, 0x16, 0x05, 0x25, 0x0b, 0x0c, 0x0d, 0x0e, 0x0f],
     [0x10, 0x11, 0x12, 0x13, 0x3c, 0x3d, 0x32, 0x26, 0x18, 0x19, 0x3f, 0x27, 0x1c, 0x1d, 0x1e, 0x1f],
     [0x40, 0x4f, 0x7f, 0x7b, 0x5b, 0x6c, 0x50, 0x7d, 0x4d, 0x5d, 0x5c, 0x4e, 0x6b, 0x60, 0x4b, 0x61],
     [0xf0, 0xf1, 0xf2, 0xf3, 0xf4, 0xf5, 0xf6, 0xf7, 0xf8, 0xf9, 0x7a, 0x5e, 0x4c, 0x7e, 0x6e, 0x6f],
     [0x7c, 0xc1, 0xc2, 0xc3, 0xc4, 0xc5, 0xc6, 0xc7, 0xc8, 0xc9, 0xd1, 0xd2, 0xd3, 0xd4, 0xd5, 0xd6],
     [0xd7, 0xd8, 0xd9, 0xe2, 0xe3, 0xe4, 0xe5, 0xe6, 0xe7, 0xe8, 0xe9, 0x4a, 0xe0, 0x5a, 0x5f, 0x6d],
     [0x79, 0x81, 0x82, 0x83, 0x84, 0x85, 0x86, 0x87, 0x88, 0x89, 0x91, 0x92, 0x93, 0x94, 0x95, 0x96],
     [0x97, 0x98, 0x99, 0xa2, 0xa3, 0xa4, 0xa5, 0xa6, 0xa7, 0xa8, 0xa9, 0xc0, 0xbb, 0xd0, 0xa1, 0x07],
     [0x20, 0x21, 0x22, 0x23, 0x24, 0x15, 0x06, 0x17, 0x28, 0x29, 0x2a, 0x2b, 0x2c, 0x09, 0x0a, 0x1b],
     [0x30, 0x31, 0x1a, 0x33, 0x34, 0x35, 0x36, 0x08, 0x38, 0x39, 0x3a, 0x3b, 0x04, 0x14, 0x3e, 0xff],
     [0x41, 0xaa, 0xb0, 0xb1, 0x9f, 0xb2, 0x6a, 0xb5, 0xbd, 0xb4, 0x9a, 0x8a, 0xba, 0xca, 0xaf, 0xbc],
     [0x90, 0x8f, 0xea, 0xfa, 0xbe, 0xa0, 0xb6, 0xb3, 0x9d, 0xda, 0x9b, 0x8b, 0xb7, 0xb8, 0xb9, 0xab],
     [0x64, 0x65, 0x62, 0x66, 0x63, 0x67, 0x9e, 0x68, 0x74, 0x71, 0x72, 0x73, 0x78, 0x75, 0x76, 0x77],
     [0xac, 0x69, 0xed, 0xee, 0xeb, 0xef, 0xec, 0xbf, 0x80, 0xfd, 0xfe, 0xfb, 0xfc, 0xad, 0xae, 0x59],
     [0x44, 0x45, 0x42, 0x46, 0x43, 0x47, 0x9c, 0x48, 0x54, 0x51, 0x52, 0x53, 0x58, 0x55, 0x56, 0x57],
     [0x8c, 0x49, 0xcd, 0xce, 0xcb, 0xcf, 0xcc, 0xe1, 0x70, 0xdd, 0xde, 0xdb, 0xdc, 0x8d, 0x8e, 0xdf]]"

definition conv_cp500_to_uni :: to_uni_func where
  "conv_cp500_to_uni = sbcs_to_uni
    [Table 0x00 0xff CP500_00000000_000000FF_TO_UNI None]"

definition conv_uni_to_cp500 :: uni_to_func where
  "conv_uni_to_cp500 = sbcs_uni_to
    [Codes 0x0000 0x00ff UNI_00000000_000000FF_TO_CP500 None]"

lemmas cp500_entries = table_entries [OF CP500_00000000_000000FF_TO_UNI_def, simplified entries_simps, simplified]

lemma cp500_codec: "is_codec conv_cp500_to_uni conv_uni_to_cp500"
  unfolding conv_cp500_to_uni_def conv_uni_to_cp500_def
  by (rule sbcs_is_codec) (simp add: sbcs_simps cp500_entries
    UNI_00000000_000000FF_TO_CP500_def)

section \<open>cp737\<close>

definition CP737_00000080_000000FF_TO_UNI :: "nat list" where
  "CP737_00000080_000000FF_TO_UNI =
    table [[0x0391, 0x0392, 0x0393, 0x0394, 0x0395, 0x0396, 0x0397, 0x0398, 0x0399, 0x039a, 0x039b, 0x039c, 0x039d, 0x039e, 0x039f, 0x03a0],
     [0x03a1, 0x03a3, 0x03a4, 0x03a5, 0x03a6, 0x03a7, 0x03a8, 0x03a9, 0x03b1, 0x03b2, 0x03b3, 0x03b4, 0x03b5, 0x03b6, 0x03b7, 0x03b8],
     [0x03b9, 0x03ba, 0x03bb, 0x03bc, 0x03bd, 0x03be, 0x03bf, 0x03c0, 0x03c1, 0x03c3, 0x03c2, 0x03c4, 0x03c5, 0x03c6, 0x03c7, 0x03c8],
     [0x2591, 0x2592, 0x2593, 0x2502, 0x2524, 0x2561, 0x2562, 0x2556, 0x2555, 0x2563, 0x2551, 0x2557, 0x255d, 0x255c, 0x255b, 0x2510],
     [0x2514, 0x2534, 0x252c, 0x251c, 0x2500, 0x253c, 0x255e, 0x255f, 0x255a, 0x2554, 0x2569, 0x2566, 0x2560, 0x2550, 0x256c, 0x2567],
     [0x2568, 0x2564, 0x2565, 0x2559, 0x2558, 0x2552, 0x2553, 0x256b, 0x256a, 0x2518, 0x250c, 0x2588, 0x2584, 0x258c, 0x2590, 0x2580],
     [0x03c9, 0x03ac, 0x03ad, 0x03ae, 0x03ca, 0x03af, 0x03cc, 0x03cd, 0x03cb, 0x03ce, 0x0386, 0x0388, 0x0389, 0x038a, 0x038c, 0x038e],
     [0x038f, 0x00b1, 0x2265, 0x2264, 0x03aa, 0x03ab, 0x00f7, 0x2248, 0x00b0, 0x2219, 0x00b7, 0x221a, 0x207f, 0x00b2, 0x25a0, 0x00a0]]"

definition UNI_000000A0_000000F7_TO_CP737 :: "nat list" where
  "UNI_000000A0_000000F7_TO_CP737 =
    table [[0xff, 0x00, 0x00, 0x00, 0x00, 0x00, 0x00, 0x00, 0x00, 0x00, 0x00, 0x00, 0x00, 0x00, 0x00, 0x00],
     [0xf8, 0xf1, 0xfd, 0x00, 0x00, 0x00, 0x00, 0xfa, 0x00, 0x00, 0x00, 0x00, 0x00, 0x00, 0x00, 0x00],
     [0x00, 0x00, 0x00, 0x00, 0x00, 0x00, 0x00, 0x00, 0x00, 0x00, 0x00, 0x00, 0x00, 0x00, 0x00, 0x00],
     [0x00, 0x00, 0x00, 0x00, 0x00, 0x00, 0x00, 0x00, 0x00, 0x00, 0x00, 0x00, 0x00, 0x00, 0x00, 0x00],
     [0x00, 0x00, 0x00, 0x00, 0x00, 0x00, 0x00, 0x00, 0x00, 0x00, 0x00, 0x00, 0x00, 0x00, 0x00, 0x00],
     [0x00, 0x00, 0x00, 0x00, 0x00, 0x00, 0x00, 0xf6]]"

definition UNI_00000386_000003CE_TO_CP737 :: "nat list" where
  "UNI_00000386_000003CE_TO_CP737 =
    table [[0xea, 0x00, 0xeb, 0xec, 0xed, 0x00, 0xee, 0x00, 0xef, 0xf0, 0x00, 0x80, 0x81, 0x82, 0x83, 0x84],
     [0x85, 0x86, 0x87, 0x88, 0x89, 0x8a, 0x8b, 0x8c, 0x8d, 0x8e, 0x8f, 0x90, 0x00, 0x91, 0x92, 0x93],
     [0x94, 0x95, 0x96, 0x97, 0xf4, 0xf5, 0xe1, 0xe2, 0xe3, 0xe5, 0x00, 0x98, 0x99, 0x9a, 0x9b, 0x9c],
     [0x9d, 0x9e, 0x9f, 0xa0, 0xa1, 0xa2, 0xa3, 0xa4, 0xa5, 0xa6, 0xa7, 0xa8, 0xaa, 0xa9, 0xab, 0xac],
     [0xad, 0xae, 0xaf, 0xe0, 0xe4, 0xe8, 0xe6, 0xe7, 0xe9]]"

definition UNI_00002219_00002265_TO_CP737 :: "nat list" where
  "UNI_00002219_00002265_TO_CP737 =
    table [[0xf9, 0xfb, 0x00, 0x00, 0x00, 0x00, 0x00, 0x00, 0x00, 0x00, 0x00, 0x00, 0x00, 0x00, 0x00, 0x00],
     [0x00, 0x00, 0x00, 0x00, 0x00, 0x00, 0x00, 0x00, 0x00, 0x00, 0x00, 0x00, 0x00, 0x00, 0x00, 0x00],
     [0x00, 0x00, 0x00, 0x00, 0x00, 0x00, 0x00, 0x00, 0x00, 0x00, 0x00, 0x00, 0x00, 0x00, 0x00, 0xf7],
     [0x00, 0x00, 0x00, 0x00, 0x00, 0x00, 0x00, 0x00, 0x00, 0x00, 0x00, 0x00, 0x00, 0x00, 0x00, 0x00],
     [0x00, 0x00, 0x00, 0x00, 0x00, 0x00, 0x00, 0x00, 0x00, 0x00, 0x00, 0xf3, 0xf2]]"

definition UNI_00002500_000025A0_TO_CP737 :: "nat list" where
  "UNI_00002500_000025A0_TO_CP737 =
    table [[0xc4, 0x00, 0xb3, 0x00, 0x00, 0x00, 0x00, 0x00, 0x00, 0x00, 0x00, 0x00, 0xda, 0x00, 0x00, 0x00],
     [0xbf, 0x00, 0x00, 0x00, 0xc0, 0x00, 0x00, 0x00, 0xd9, 0x00, 0x00, 0x00, 0xc3, 0x00, 0x00, 0x00],
     [0x00, 0x00, 0x00, 0x00, 0xb4, 0x00, 0x00, 0x00, 0x00, 0x00, 0x00, 0x00, 0xc2, 0x00, 0x00, 0x00],
     [0x00, 0x00, 0x00, 0x00, 0xc1, 0x00, 0x00, 0x00, 0x00, 0x00, 0x00, 0x00, 0xc5, 0x00, 0x00, 0x00],
     [0x00, 0x00, 0x00, 0x00, 0x00, 0x00, 0x00, 0x00, 0x00, 0x00, 0x00, 0x00, 0x00, 0x00, 0x00, 0x00],
     [0xcd, 0xba, 0xd5, 0xd6, 0xc9, 0xb8, 0xb7, 0xbb, 0xd4, 0xd3, 0xc8, 0xbe, 0xbd, 0xbc, 0xc6, 0xc7],
     [0xcc, 0xb5, 0xb6, 0xb9, 0xd1, 0xd2, 0xcb, 0xcf, 0xd0, 0xca, 0xd8, 0xd7, 0xce, 0x00, 0x00, 0x00],
     [0x00, 0x00, 0x00, 0x00, 0x00, 0x00, 0x00, 0x00, 0x00, 0x00, 0x00, 0x00, 0x00, 0x00, 0x00, 0x00],
     [0xdf, 0x00, 0x00, 0x00, 0xdc, 0x00, 0x00, 0x00, 0xdb, 0x00, 0x00, 0x00, 0xdd, 0x00, 0x00, 0x00],
     [0xde, 0xb0, 0xb1, 0xb2, 0x00, 0x00, 0x00, 0x00, 0x00, 0x00, 0x00, 0x00, 0x00, 0x00, 0x00, 0x00],
     [0xfe]]"

definition conv_cp737_to_uni :: to_uni_func where
  "conv_cp737_to_uni = sbcs_to_uni
    [Same 0x7f,
     Table 0x80 0xff CP737_00000080_000000FF_TO_UNI None]"

definition conv_uni_to_cp737 :: uni_to_func where
  "conv_uni_to_cp737 = sbcs_uni_to
    [Upto 0x7f,
     Codes 0x00a0 0x00f7 UNI_000000A0_000000F7_TO_CP737 (Some 0x00),
     Codes 0x0386 0x03ce UNI_00000386_000003CE_TO_CP737 (Some 0x00),
     Single 0x207f 0xfc,
     Codes 0x2219 0x2265 UNI_00002219_00002265_TO_CP737 (Some 0x00),
     Codes 0x2500 0x25a0 UNI_00002500_000025A0_TO_CP737 (Some 0x00)]"

lemmas cp737_entries = table_entries [OF CP737_00000080_000000FF_TO_UNI_def, simplified entries_simps, simplified]

lemma cp737_codec: "is_codec conv_cp737_to_uni conv_uni_to_cp737"
  unfolding conv_cp737_to_uni_def conv_uni_to_cp737_def
  by (rule sbcs_is_codec) (simp add: sbcs_simps cp737_entries
    UNI_000000A0_000000F7_TO_CP737_def
    UNI_00000386_000003CE_TO_CP737_def
    UNI_00002219_00002265_TO_CP737_def
    UNI_00002500_000025A0_TO_CP737_def)

section \<open>cp775\<close>

definition CP775_00000080_000000FF_TO_UNI :: "nat list" where
  "CP775_00000080_000000FF_TO_UNI =
    table [[0x0106, 0x00fc, 0x00e9, 0x0101, 0x00e4, 0x0123, 0x00e5, 0x0107, 0x0142, 0x0113, 0x0156, 0x0157, 0x012b, 0x0179, 0x00c4, 0x00c5],
     [0x00c9, 0x00e6, 0x00c6, 0x014d, 0x00f6, 0x0122, 0x00a2, 0x015a, 0x015b, 0x00d6, 0x00dc, 0x00f8, 0x00a3, 0x00d8, 0x00d7, 0x00a4],
     [0x0100, 0x012a, 0x00f3, 0x017b, 0x017c, 0x017a, 0x201d, 0x00a6, 0x00a9, 0x00ae, 0x00ac, 0x00bd, 0x00bc, 0x0141, 0x00ab, 0x00bb],
     [0x2591, 0x2592, 0x2593, 0x2502, 0x2524, 0x0104, 0x010c, 0x0118, 0x0116, 0x2563, 0x2551, 0x2557, 0x255d, 0x012e, 0x0160, 0x2510],
     [0x2514, 0x2534, 0x252c, 0x251c, 0x2500, 0x253c, 0x0172, 0x016a, 0x255a, 0x2554, 0x2569, 0x2566, 0x2560, 0x2550, 0x256c, 0x017d],
     [0x0105, 0x010d, 0x0119, 0x0117, 0x012f, 0x0161, 0x0173, 0x016b, 0x017e, 0x2518, 0x250c, 0x2588, 0x2584, 0x258c, 0x2590, 0x2580],
     [0x00d3, 0x00df, 0x014c, 0x0143, 0x00f5, 0x00d5, 0x00b5, 0x0144, 0x0136, 0x0137, 0x013b, 0x013c, 0x0146, 0x0112, 0x0145, 0x2019],
     [0x00ad, 0x00b1, 0x201c, 0x00be, 0x00b6, 0x00a7, 0x00f7, 0x201e, 0x00b0, 0x2219, 0x00b7, 0x00b9, 0x00b3, 0x00b2, 0x25a0, 0x00a0]]"

definition UNI_000000A0_0000017E_TO_CP775 :: "nat list" where
  "UNI_000000A0_0000017E_TO_CP775 =
    table [[0xff, 0x00, 0x96, 0x9c, 0x9f, 0x00, 0xa7, 0xf5, 0x00, 0xa8, 0x00, 0xae, 0xaa, 0xf0, 0xa9, 0x00],
     [0xf8, 0xf1, 0xfd, 0xfc, 0x00, 0xe6, 0xf4, 0xfa, 0x00, 0xfb, 0x00, 0xaf, 0xac, 0xab, 0xf3, 0x00],
     [0x00, 0x00, 0x00, 0x00, 0x8e, 0x8f, 0x92, 0x00, 0x00, 0x90, 0x00, 0x00, 0x00, 0x00, 0x00, 0x00],
     [0x00, 0x00, 0x00, 0xe0, 0x00, 0xe5, 0x99, 0x9e, 0x9d, 0x00, 0x00, 0x00, 0x9a, 0x00, 0x00, 0xe1],
     [0x00, 0x00, 0x00, 0x00, 0x84, 0x86, 0x91, 0x00, 0x00, 0x82, 0x00, 0x00, 0x00, 0x00, 0x00, 0x00],
     [0x00, 0x00, 0x00, 0xa2, 0x00, 0xe4, 0x94, 0xf6, 0x9b, 0x00, 0x00, 0x00, 0x81, 0x00, 0x00, 0x00],
     [0xa0, 0x83, 0x00, 0x00, 0xb5, 0xd0, 0x80, 0x87, 0x00, 0x00, 0x00, 0x00, 0xb6, 0xd1, 0x00, 0x00],
     [0x00, 0x00, 0xed, 0x89, 0x00, 0x00, 0xb8, 0xd3, 0xb7, 0xd2, 0x00, 0x00, 0x00, 0x00, 0x00, 0x00],
     [0x00, 0x00, 0x95, 0x85, 0x00, 0x00, 0x00, 0x00, 0x00, 0x00, 0xa1, 0x8c, 0x00, 0x00, 0xbd, 0xd4],
     [0x00, 0x00, 0x00, 0x00, 0x00, 0x00, 0xe8, 0xe9, 0x00, 0x00, 0x00, 0xea, 0xeb, 0x00, 0x00, 0x00],
     [0x00, 0xad, 0x88, 0xe3, 0xe7, 0xee, 0xec, 0x00, 0x00, 0x00, 0x00, 0x00, 0xe2, 0x93, 0x00, 0x00],
     [0x00, 0x00, 0x00, 0x00, 0x00, 0x00, 0x8a, 0x8b, 0x00, 0x00, 0x97, 0x98, 0x00, 0x00, 0x00, 0x00],
     [0xbe, 0xd5, 0x00, 0x00, 0x00, 0x00, 0x00, 0x00, 0x00, 0x00, 0xc7, 0xd7, 0x00, 0x00, 0x00, 0x00],
     [0x00, 0x00, 0xc6, 0xd6, 0x00, 0x00, 0x00, 0x00, 0x00, 0x8d, 0xa5, 0xa3, 0xa4, 0xcf, 0xd8]]"

definition UNI_00002019_0000201E_TO_CP775 :: "nat list" where
  "UNI_00002019_0000201E_TO_CP775 =
    table [[0xef, 0x00, 0x00, 0xf2, 0xa6, 0xf7]]"

definition UNI_00002500_000025A0_TO_CP775 :: "nat list" where
  "UNI_00002500_000025A0_TO_CP775 =
    table [[0xc4, 0x00, 0xb3, 0x00, 0x00, 0x00, 0x00, 0x00, 0x00, 0x00, 0x00, 0x00, 0xda, 0x00, 0x00, 0x00],
     [0xbf, 0x00, 0x00, 0x00, 0xc0, 0x00, 0x00, 0x00, 0xd9, 0x00, 0x00, 0x00, 0xc3, 0x00, 0x00, 0x00],
     [0x00, 0x00, 0x00, 0x00, 0xb4, 0x00, 0x00, 0x00, 0x00, 0x00, 0x00, 0x00, 0xc2, 0x00, 0x00, 0x00],
     [0x00, 0x00, 0x00, 0x00, 0xc1, 0x00, 0x00, 0x00, 0x00, 0x00, 0x00, 0x00, 0xc5, 0x00, 0x00, 0x00],
     [0x00, 0x00, 0x00, 0x00, 0x00, 0x00, 0x00, 0x00, 0x00, 0x00, 0x00, 0x00, 0x00, 0x00, 0x00, 0x00],
     [0xcd, 0xba, 0x00, 0x00, 0xc9, 0x00, 0x00, 0xbb, 0x00, 0x00, 0xc8, 0x00, 0x00, 0xbc, 0x00, 0x00],
     [0xcc, 0x00, 0x00, 0xb9, 0x00, 0x00, 0xcb, 0x00, 0x00, 0xca, 0x00, 0x00, 0xce, 0x00, 0x00, 0x00],
     [0x00, 0x00, 0x00, 0x00, 0x00, 0x00, 0x00, 0x00, 0x00, 0x00, 0x00, 0x00, 0x00, 0x00, 0x00, 0x00],
     [0xdf, 0x00, 0x00, 0x00, 0xdc, 0x00, 0x00, 0x00, 0xdb, 0x00, 0x00, 0x00, 0xdd, 0x00, 0x00, 0x00],
     [0xde, 0xb0, 0xb1, 0xb2, 0x00, 0x00, 0x00, 0x00, 0x00, 0x00, 0x00, 0x00, 0x00, 0x00, 0x00, 0x00],
     [0xfe]]"

definition conv_cp775_to_uni :: to_uni_func where
  "conv_cp775_to_uni = sbcs_to_uni
    [Same 0x7f,
     Table 0x80 0xff CP775_00000080_000000FF_TO_UNI None]"

definition conv_uni_to_cp775 :: uni_to_func where
  "conv_uni_to_cp775 = sbcs_uni_to
    [Upto 0x7f,
     Codes 0x00a0 0x017e UNI_000000A0_0000017E_TO_CP775 (Some 0x00),
     Codes 0x2019 0x201e UNI_00002019_0000201E_TO_CP775 (Some 0x00),
     Single 0x2219 0xf9,
     Codes 0x2500 0x25a0 UNI_00002500_000025A0_TO_CP775 (Some 0x00)]"

lemmas cp775_entries = table_entries [OF CP775_00000080_000000FF_TO_UNI_def, simplified entries_simps, simplified]

lemma cp775_codec: "is_codec conv_cp775_to_uni conv_uni_to_cp775"
  unfolding conv_cp775_to_uni_def conv_uni_to_cp775_def
  by (rule sbcs_is_codec) (simp add: sbcs_simps cp775_entries
    UNI_000000A0_0000017E_TO_CP775_def
    UNI_00002019_0000201E_TO_CP775_def
    UNI_00002500_000025A0_TO_CP775_def)

section \<open>cp850\<close>

definition CP850_00000080_000000FF_TO_UNI :: "nat list" where
  "CP850_00000080_000000FF_TO_UNI =
    table [[0x00c7, 0x00fc, 0x00e9, 0x00e2, 0x00e4, 0x00e0, 0x00e5, 0x00e7, 0x00ea, 0x00eb, 0x00e8, 0x00ef, 0x00ee, 0x00ec, 0x00c4, 0x00c5],
     [0x00c9, 0x00e6, 0x00c6, 0x00f4, 0x00f6, 0x00f2, 0x00fb, 0x00f9, 0x00ff, 0x00d6, 0x00dc, 0x00f8, 0x00a3, 0x00d8, 0x00d7, 0x0192],
     [0x00e1, 0x00ed, 0x00f3, 0x00fa, 0x00f1, 0x00d1, 0x00aa, 0x00ba, 0x00bf, 0x00ae, 0x00ac, 0x00bd, 0x00bc, 0x00a1, 0x00ab, 0x00bb],
     [0x2591, 0x2592, 0x2593, 0x2502, 0x2524, 0x00c1, 0x00c2, 0x00c0, 0x00a9, 0x2563, 0x2551, 0x2557, 0x255d, 0x00a2, 0x00a5, 0x2510],
     [0x2514, 0x2534, 0x252c, 0x251c, 0x2500, 0x253c, 0x00e3, 0x00c3, 0x255a, 0x2554, 0x2569, 0x2566, 0x2560, 0x2550, 0x256c, 0x00a4],
     [0x00f0, 0x00d0, 0x00ca, 0x00cb, 0x00c8, 0x0131, 0x00cd, 0x00ce, 0x00cf, 0x2518, 0x250c, 0x2588, 0x2584, 0x00a6, 0x00cc, 0x2580],
     [0x00d3, 0x00df, 0x00d4, 0x00d2, 0x00f5, 0x00d5, 0x00b5, 0x00fe, 0x00de, 0x00da, 0x00db, 0x00d9, 0x00fd, 0x00dd, 0x00af, 0x00b4],
     [0x00ad, 0x00b1, 0x2017, 0x00be, 0x00b6, 0x00a7, 0x00f7, 0x00b8, 0x00b0, 0x00a8, 0x00b7, 0x00b9, 0x00b3, 0x00b2, 0x25a0, 0x00a0]]"

definition UNI_000000A0_00000192_TO_CP850 :: "nat list" where
  "UNI_000000A0_00000192_TO_CP850 =
    table [[0xff, 0xad, 0xbd, 0x9c, 0xcf, 0xbe, 0xdd, 0xf5, 0xf9, 0xb8, 0xa6, 0xae, 0xaa, 0xf0, 0xa9, 0xee],
     [0xf8, 0xf1, 0xfd, 0xfc, 0xef, 0xe6, 0xf4, 0xfa, 0xf7, 0xfb, 0xa7, 0xaf, 0xac, 0xab, 0xf3, 0xa8],
     [0xb7, 0xb5, 0xb6, 0xc7, 0x8e, 0x8f, 0x92, 0x80, 0xd4, 0x90, 0xd2, 0xd3, 0xde, 0xd6, 0xd7, 0xd8],
     [0xd1, 0xa5, 0xe3, 0xe0, 0xe2, 0xe5, 0x99, 0x9e, 0x9d, 0xeb, 0xe9, 0xea, 0x9a, 0xed, 0xe8, 0xe1],
     [0x85, 0xa0, 0x83, 0xc6, 0x84, 0x86, 0x91, 0x87, 0x8a, 0x82, 0x88, 0x89, 0x8d, 0xa1, 0x8c, 0x8b],
     [0xd0, 0xa4, 0x95, 0xa2, 0x93, 0xe4, 0x94, 0xf6, 0x9b, 0x97, 0xa3, 0x96, 0x81, 0xec, 0xe7, 0x98],
     [0x00, 0x00, 0x00, 0x00, 0x00, 0x00, 0x00, 0x00, 0x00, 0x00, 0x00, 0x00, 0x00, 0x00, 0x00, 0x00],
     [0x00, 0x00, 0x00, 0x00, 0x00, 0x00, 0x00, 0x00, 0x00, 0x00, 0x00, 0x00, 0x00, 0x00, 0x00, 0x00],
     [0x00, 0x00, 0x00, 0x00, 0x00, 0x00, 0x00, 0x00, 0x00, 0x00, 0x00, 0x00, 0x00, 0x00, 0x00, 0x00],
     [0x00, 0xd5, 0x00, 0x00, 0x00, 0x00, 0x00, 0x00, 0x00, 0x00, 0x00, 0x00, 0x00, 0x00, 0x00, 0x00],
     [0x00, 0x00, 0x00, 0x00, 0x00, 0x00, 0x00, 0x00, 0x00, 0x00, 0x00, 0x00, 0x00, 0x00, 0x00, 0x00],
     [0x00, 0x00, 0x00, 0x00, 0x00, 0x00, 0x00, 0x00, 0x00, 0x00, 0x00, 0x00, 0x00, 0x00, 0x00, 0x00],
     [0x00, 0x00, 0x00, 0x00, 0x00, 0x00, 0x00, 0x00, 0x00, 0x00, 0x00, 0x00, 0x00, 0x00, 0x00, 0x00],
     [0x00, 0x00, 0x00, 0x00, 0x00, 0x00, 0x00, 0x00, 0x00, 0x00, 0x00, 0x00, 0x00, 0x00, 0x00, 0x00],
     [0x00, 0x00, 0x00, 0x00, 0x00, 0x00, 0x00, 0x00, 0x00, 0x00, 0x00, 0x00, 0x00, 0x00, 0x00, 0x00],
     [0x00, 0x00, 0x9f]]"

definition UNI_00002500_000025A0_TO_CP850 :: "nat list" where
  "UNI_00002500_000025A0_TO_CP850 =
    table [[0xc4, 0x00, 0xb3, 0x00, 0x00, 0x00, 0x00, 0x00, 0x00, 0x00, 0x00, 0x00, 0xda, 0x00, 0x00, 0x00],
     [0xbf, 0x00, 0x00, 0x00, 0xc0, 0x00, 0x00, 0x00, 0xd9, 0x00, 0x00, 0x00, 0xc3, 0x00, 0x00, 0x00],
     [0x00, 0x00, 0x00, 0x00, 0xb4, 0x00, 0x00, 0x00, 0x00, 0x00, 0x00, 0x00, 0xc2, 0x00, 0x00, 0x00],
     [0x00, 0x00, 0x00, 0x00, 0xc1, 0x00, 0x00, 0x00, 0x00, 0x00, 0x00, 0x00, 0xc5, 0x00, 0x00, 0x00],
     [0x00, 0x00, 0x00, 0x00, 0x00, 0x00, 0x00, 0x00, 0x00, 0x00, 0x00, 0x00, 0x00, 0x00, 0x00, 0x00],
     [0xcd, 0xba, 0x00, 0x00, 0xc9, 0x00, 0x00, 0xbb, 0x00, 0x00, 0xc8, 0x00, 0x00, 0xbc, 0x00, 0x00],
     [0xcc, 0x00, 0x00, 0xb9, 0x00, 0x00, 0xcb, 0x00, 0x00, 0xca, 0x00, 0x00, 0xce, 0x00, 0x00, 0x00],
     [0x00, 0x00, 0x00, 0x00, 0x00, 0x00, 0x00, 0x00, 0x00, 0x00, 0x00, 0x00, 0x00, 0x00, 0x00, 0x00],
     [0xdf, 0x00, 0x00, 0x00, 0xdc, 0x00, 0x00, 0x00, 0xdb, 0x00, 0x00, 0x00, 0x00, 0x00, 0x00, 0x00],
     [0x00, 0xb0, 0xb1, 0xb2, 0x00, 0x00, 0x00, 0x00, 0x00, 0x00, 0x00, 0x00, 0x00, 0x00, 0x00, 0x00],
     [0xfe]]"

definition conv_cp850_to_uni :: to_uni_func where
  "conv_cp850_to_uni = sbcs_to_uni
    [Same 0x7f,
     Table 0x80 0xff CP850_00000080_000000FF_TO_UNI None]"

definition conv_uni_to_cp850 :: uni_to_func where
  "conv_uni_to_cp850 = sbcs_uni_to
    [Upto 0x7f,
     Codes 0x00a0 0x0192 UNI_000000A0_00000192_TO_CP850 (Some 0x00),
     Single 0x2017 0xf2,
     Codes 0x2500 0x25a0 UNI_00002500_000025A0_TO_CP850 (Some 0x00)]"

lemmas cp850_entries = table_entries [OF CP850_00000080_000000FF_TO_UNI_def, simplified entries_simps, simplified]

lemma cp850_codec: "is_codec conv_cp850_to_uni conv_uni_to_cp850"
  unfolding conv_cp850_to_uni_def conv_uni_to_cp850_def
  by (rule sbcs_is_codec) (simp add: sbcs_simps cp850_entries
    UNI_000000A0_00000192_TO_CP850_def
    UNI_00002500_000025A0_TO_CP850_def)

section \<open>cp852\<close>

definition CP852_00000080_000000FF_TO_UNI :: "nat list" where
  "CP852_00000080_000000FF_TO_UNI =
    table [[0x00c7, 0x00fc, 0x00e9, 0x00e2, 0x00e4, 0x016f, 0x0107, 0x00e7, 0x0142, 0x00eb, 0x0150, 0x0151, 0x00ee, 0x0179, 0x00c4, 0x0106],
     [0x00c9, 0x0139, 0x013a, 0x00f4, 0x00f6, 0x013d, 0x013e, 0x015a, 0x015b, 0x00d6, 0x00dc, 0x0164, 0x0165, 0x0141, 0x00d7, 0x010d],
     [0x00e1, 0x00ed, 0x00f3, 0x00fa, 0x0104, 0x0105, 0x017d, 0x017e, 0x0118, 0x0119, 0x00ac, 0x017a, 0x010c, 0x015f, 0x00ab, 0x00bb],
     [0x2591, 0x2592, 0x2593, 0x2502, 0x2524, 0x00c1, 0x00c2, 0x011a, 0x015e, 0x2563, 0x2551, 0x2557, 0x255d, 0x017b, 0x017c, 0x2510],
     [0x2514, 0x2534, 0x252c, 0x251c, 0x2500, 0x253c, 0x0102, 0x0103, 0x255a, 0x2554, 0x2569, 0x2566, 0x2560, 0x2550, 0x256c, 0x00a4],
     [0x0111, 0x0110, 0x010e, 0x00cb, 0x010f, 0x0147, 0x00cd, 0x00ce, 0x011b, 0x2518, 0x250c, 0x2588, 0x2584, 0x0162, 0x016e, 0x2580],
     [0x00d3, 0x00df, 0x00d4, 0x0143, 0x0144, 0x0148, 0x0160, 0x0161, 0x0154, 0x00da, 0x0155, 0x0170, 0x00fd, 0x00dd, 0x0163, 0x00b4],
     [0x00ad, 0x02dd, 0x02db, 0x02c7, 0x02d8, 0x00a7, 0x00f7, 0x00b8, 0x00b0, 0x00a8, 0x02d9, 0x0171, 0x0158, 0x0159, 0x25a0, 0x00a0]]"

definition UNI_000000A0_0000017E_TO_CP852 :: "nat list" where
  "UNI_000000A0_0000017E_TO_CP852 =
    table [[0xff, 0x00, 0x00, 0x00, 0xcf, 0x00, 0x00, 0xf5, 0xf9, 0x00, 0x00, 0xae, 0xaa, 0xf0, 0x00, 0x00],
     [0xf8, 0x00, 0x00, 0x00, 0xef, 0x00, 0x00, 0x00, 0xf7, 0x00, 0x00, 0xaf, 0x00, 0x00, 0x00, 0x00],
     [0x00, 0xb5, 0xb6, 0x00, 0x8e, 0x00, 0x00, 0x80, 0x00, 0x90, 0x00, 0xd3, 0x00, 0xd6, 0xd7, 0x00],
     [0x00, 0x00, 0x00, 0xe0, 0xe2, 0x00, 0x99, 0x9e, 0x00, 0x00, 0xe9, 0x00, 0x9a, 0xed, 0x00, 0xe1],
     [0x00, 0xa0, 0x83, 0x00, 0x84, 0x00, 0x00, 0x87, 0x00, 0x82, 0x00, 0x89, 0x00, 0xa1, 0x8c, 0x00],
     [0x00, 0x00, 0x00, 0xa2, 0x93, 0x00, 0x94, 0xf6, 0x00, 0x00, 0xa3, 0x00, 0x81, 0xec, 0x00, 0x00],
     [0x00, 0x00, 0xc6, 0xc7, 0xa4, 0xa5, 0x8f, 0x86, 0x00, 0x00, 0x00, 0x00, 0xac, 0x9f, 0xd2, 0xd4],
     [0xd1, 0xd0, 0x00, 0x00, 0x00, 0x00, 0x00, 0x00, 0xa8, 0xa9, 0xb7, 0xd8, 0x00, 0x00, 0x00, 0x00],
     [0x00, 0x00, 0x00, 0x00, 0x00, 0x00, 0x00, 0x00, 0x00, 0x00, 0x00, 0x00, 0x00, 0x00, 0x00, 0x00],
     [0x00, 0x00, 0x00, 0x00, 0x00, 0x00, 0x00, 0x00, 0x00, 0x91, 0x92, 0x00, 0x00, 0x95, 0x96, 0x00],
     [0x00, 0x9d, 0x88, 0xe3, 0xe4, 0x00, 0x00, 0xd5, 0xe5, 0x00, 0x00, 0x00, 0x00, 0x00, 0x00, 0x00],
     [0x8a, 0x8b, 0x00, 0x00, 0xe8, 0xea, 0x00, 0x00, 0xfc, 0xfd, 0x97, 0x98, 0x00, 0x00, 0xb8, 0xad],
     [0xe6, 0xe7, 0xdd, 0xee, 0x9b, 0x9c, 0x00, 0x00, 0x00, 0x00, 0x00, 0x00, 0x00, 0x00, 0xde, 0x85],
     [0xeb, 0xfb, 0x00, 0x00, 0x00, 0x00, 0x00, 0x00, 0x00, 0x8d, 0xab, 0xbd, 0xbe, 0xa6, 0xa7]]"

definition UNI_000002C7_000002DD_TO_CP852 :: "nat list" where
  "UNI_000002C7_000002DD_TO_CP852 =
    table [[0xf3, 0x00, 0x00, 0x00, 0x00, 0x00, 0x00, 0x00, 0x00, 0x00, 0x00, 0x00, 0x00, 0x00, 0x00, 0x00],
     [0x00, 0xf4, 0xfa, 0x00, 0xf2, 0x00, 0xf1]]"

definition UNI_00002500_000025A0_TO_CP852 :: "nat list" where
  "UNI_00002500_000025A0_TO_CP852 =
    table [[0xc4, 0x00, 0xb3, 0x00, 0x00, 0x00, 0x00, 0x00, 0x00, 0x00, 0x00, 0x00, 0xda, 0x00, 0x00, 0x00],
     [0xbf, 0x00, 0x00, 0x00, 0xc0, 0x00, 0x00, 0x00, 0xd9, 0x00, 0x00, 0x00, 0xc3, 0x00, 0x00, 0x00],
     [0x00, 0x00, 0x00, 0x00, 0xb4, 0x00, 0x00, 0x00, 0x00, 0x00, 0x00, 0x00, 0xc2, 0x00, 0x00, 0x00],
     [0x00, 0x00, 0x00, 0x00, 0xc1, 0x00, 0x00, 0x00, 0x00, 0x00, 0x00, 0x00, 0xc5, 0x00, 0x00, 0x00],
     [0x00, 0x00, 0x00, 0x00, 0x00, 0x00, 0x00, 0x00, 0x00, 0x00, 0x00, 0x00, 0x00, 0x00, 0x00, 0x00],
     [0xcd, 0xba, 0x00, 0x00, 0xc9, 0x00, 0x00, 0xbb, 0x00, 0x00, 0xc8, 0x00, 0x00, 0xbc, 0x00, 0x00],
     [0xcc, 0x00, 0x00, 0xb9, 0x00, 0x00, 0xcb, 0x00, 0x00, 0xca, 0x00, 0x00, 0xce, 0x00, 0x00, 0x00],
     [0x00, 0x00, 0x00, 0x00, 0x00, 0x00, 0x00, 0x00, 0x00, 0x00, 0x00, 0x00, 0x00, 0x00, 0x00, 0x00],
     [0xdf, 0x00, 0x00, 0x00, 0xdc, 0x00, 0x00, 0x00, 0xdb, 0x00, 0x00, 0x00, 0x00, 0x00, 0x00, 0x00],
     [0x00, 0xb0, 0xb1, 0xb2, 0x00, 0x00, 0x00, 0x00, 0x00, 0x00, 0x00, 0x00, 0x00, 0x00, 0x00, 0x00],
     [0xfe]]"

definition conv_cp852_to_uni :: to_uni_func where
  "conv_cp852_to_uni = sbcs_to_uni
    [Same 0x7f,
     Table 0x80 0xff CP852_00000080_000000FF_TO_UNI None]"

definition conv_uni_to_cp852 :: uni_to_func where
  "conv_uni_to_cp852 = sbcs_uni_to
    [Upto 0x7f,
     Codes 0x00a0 0x017e UNI_000000A0_0000017E_TO_CP852 (Some 0x00),
     Codes 0x02c7 0x02dd UNI_000002C7_000002DD_TO_CP852 (Some 0x00),
     Codes 0x2500 0x25a0 UNI_00002500_000025A0_TO_CP852 (Some 0x00)]"

lemmas cp852_entries = table_entries [OF CP852_00000080_000000FF_TO_UNI_def, simplified entries_simps, simplified]

lemma cp852_codec: "is_codec conv_cp852_to_uni conv_uni_to_cp852"
  unfolding conv_cp852_to_uni_def conv_uni_to_cp852_def
  by (rule sbcs_is_codec) (simp add: sbcs_simps cp852_entries
    UNI_000000A0_0000017E_TO_CP852_def
    UNI_000002C7_000002DD_TO_CP852_def
    UNI_00002500_000025A0_TO_CP852_def)

section \<open>cp855\<close>

definition CP855_00000080_000000FF_TO_UNI :: "nat list" where
  "CP855_00000080_000000FF_TO_UNI =
    table [[0x0452, 0x0402, 0x0453, 0x0403, 0x0451, 0x0401, 0x0454, 0x0404, 0x0455, 0x0405, 0x0456, 0x0406, 0x0457, 0x0407, 0x0458, 0x0408],
     [0x0459, 0x0409, 0x045a, 0x040a, 0x045b, 0x040b, 0x045c, 0x040c, 0x045e, 0x040e, 0x045f, 0x040f, 0x044e, 0x042e, 0x044a, 0x042a],
     [0x0430, 0x0410, 0x0431, 0x0411, 0x0446, 0x0426, 0x0434, 0x0414, 0x0435, 0x0415, 0x0444, 0x0424, 0x0433, 0x0413, 0x00ab, 0x00bb],
     [0x2591, 0x2592, 0x2593, 0x2502, 0x2524, 0x0445, 0x0425, 0x0438, 0x0418, 0x2563, 0x2551, 0x2557, 0x255d, 0x0439, 0x0419, 0x2510],
     [0x2514, 0x2534, 0x252c, 0x251c, 0x2500, 0x253c, 0x043a, 0x041a, 0x255a, 0x2554, 0x2569, 0x2566, 0x2560, 0x2550, 0x256c, 0x00a4],
     [0x043b, 0x041b, 0x043c, 0x041c, 0x043d, 0x041d, 0x043e, 0x041e, 0x043f, 0x2518, 0x250c, 0x2588, 0x2584, 0x041f, 0x044f, 0x2580],
     [0x042f, 0x0440, 0x0420, 0x0441, 0x0421, 0x0442, 0x0422, 0x0443, 0x0423, 0x0436, 0x0416, 0x0432, 0x0412, 0x044c, 0x042c, 0x2116],
     [0x00ad, 0x044b, 0x042b, 0x0437, 0x0417, 0x0448, 0x0428, 0x044d, 0x042d, 0x0449, 0x0429, 0x0447, 0x0427, 0x00a7, 0x25a0, 0x00a0]]"

definition UNI_000000A0_000000BB_TO_CP855 :: "nat list" where
  "UNI_000000A0_000000BB_TO_CP855 =
    table [[0xff, 0x00, 0x00, 0x00, 0xcf, 0x00, 0x00, 0xfd, 0x00, 0x00, 0x00, 0xae, 0x00, 0xf0, 0x00, 0x00],
     [0x00, 0x00, 0x00, 0x00, 0x00, 0x00, 0x00, 0x00, 0x00, 0x00, 0x00, 0xaf]]"

definition UNI_00000401_0000045F_TO_CP855 :: "nat list" where
  "UNI_00000401_0000045F_TO_CP855 =
    table [[0x85, 0x81, 0x83, 0x87, 0x89, 0x8b, 0x8d, 0x8f, 0x91, 0x93, 0x95, 0x97, 0x00, 0x99, 0x9b, 0xa1],
     [0xa3, 0xec, 0xad, 0xa7, 0xa9, 0xea, 0xf4, 0xb8, 0xbe, 0xc7, 0xd1, 0xd3, 0xd5, 0xd7, 0xdd, 0xe2],
     [0xe4, 0xe6, 0xe8, 0xab, 0xb6, 0xa5, 0xfc, 0xf6, 0xfa, 0x9f, 0xf2, 0xee, 0xf8, 0x9d, 0xe0, 0xa0],
     [0xa2, 0xeb, 0xac, 0xa6, 0xa8, 0xe9, 0xf3, 0xb7, 0xbd, 0xc6, 0xd0, 0xd2, 0xd4, 0xd6, 0xd8, 0xe1],
     [0xe3, 0xe5, 0xe7, 0xaa, 0xb5, 0xa4, 0xfb, 0xf5, 0xf9, 0x9e, 0xf1, 0xed, 0xf7, 0x9c, 0xde, 0x00],
     [0x84, 0x80, 0x82, 0x86, 0x88, 0x8a, 0x8c, 0x8e, 0x90, 0x92, 0x94, 0x96, 0x00, 0x98, 0x9a]]"

definition UNI_00002500_000025A0_TO_CP855 :: "nat list" where
  "UNI_00002500_000025A0_TO_CP855 =
    table [[0xc4, 0x00, 0xb3, 0x00, 0x00, 0x00, 0x00, 0x00, 0x00, 0x00, 0x00, 0x00, 0xda, 0x00, 0x00, 0x00],
     [0xbf, 0x00, 0x00, 0x00, 0xc0, 0x00, 0x00, 0x00, 0xd9, 0x00, 0x00, 0x00, 0xc3, 0x00, 0x00, 0x00],
     [0x00, 0x00, 0x00, 0x00, 0xb4, 0x00, 0x00, 0x00, 0x00, 0x00, 0x00, 0x00, 0xc2, 0x00, 0x00, 0x00],
     [0x00, 0x00, 0x00, 0x00, 0xc1, 0x00, 0x00, 0x00, 0x00, 0x00, 0x00, 0x00, 0xc5, 0x00, 0x00, 0x00],
     [0x00, 0x00, 0x00, 0x00, 0x00, 0x00, 0x00, 0x00, 0x00, 0x00, 0x00, 0x00, 0x00, 0x00, 0x00, 0x00],
     [0xcd, 0xba, 0x00, 0x00, 0xc9, 0x00, 0x00, 0xbb, 0x00, 0x00, 0xc8, 0x00, 0x00, 0xbc, 0x00, 0x00],
     [0xcc, 0x00, 0x00, 0xb9, 0x00, 0x00, 0xcb, 0x00, 0x00, 0xca, 0x00, 0x00, 0xce, 0x00, 0x00, 0x00],
     [0x00, 0x00, 0x00, 0x00, 0x00, 0x00, 0x00, 0x00, 0x00, 0x00, 0x00, 0x00, 0x00, 0x00, 0x00, 0x00],
     [0xdf, 0x00, 0x00, 0x00, 0xdc, 0x00, 0x00, 0x00, 0xdb, 0x00, 0x00, 0x00, 0x00, 0x00, 0x00, 0x00],
     [0x00, 0xb0, 0xb1, 0xb2, 0x00, 0x00, 0x00, 0x00, 0x00, 0x00, 0x00, 0x00, 0x00, 0x00, 0x00, 0x00],
     [0xfe]]"

definition conv_cp855_to_uni :: to_uni_func where
  "conv_cp855_to_uni = sbcs_to_uni
    [Same 0x7f,
     Table 0x80 0xff CP855_00000080_000000FF_TO_UNI None]"

definition conv_uni_to_cp855 :: uni_to_func where
  "conv_uni_to_cp855 = sbcs_uni_to
    [Upto 0x7f,
     Codes 0x00a0 0x00bb UNI_000000A0_000000BB_TO_CP855 (Some 0x00),
     Codes 0x0401 0x045f UNI_00000401_0000045F_TO_CP855 (Some 0x00),
     Single 0x2116 0xef,
     Codes 0x2500 0x25a0 UNI_00002500_000025A0_TO_CP855 (Some 0x00)]"

lemmas cp855_entries = table_entries [OF CP855_00000080_000000FF_TO_UNI_def, simplified entries_simps, simplified]

lemma cp855_codec: "is_codec conv_cp855_to_uni conv_uni_to_cp855"
  unfolding conv_cp855_to_uni_def conv_uni_to_cp855_def
  by (rule sbcs_is_codec) (simp add: sbcs_simps cp855_entries
    UNI_000000A0_000000BB_TO_CP855_def
    UNI_00000401_0000045F_TO_CP855_def
    UNI_00002500_000025A0_TO_CP855_def)

section \<open>cp856\<close>

definition CP856_00000080_000000FF_TO_UNI :: "nat list" where
  "CP856_00000080_000000FF_TO_UNI =
    table [[0x05d0, 0x05d1, 0x05d2, 0x05d3, 0x05d4, 0x05d5, 0x05d6, 0x05d7, 0x05d8, 0x05d9, 0x05da, 0x05db, 0x05dc, 0x05dd, 0x05de, 0x05df],
     [0x05e0, 0x05e1, 0x05e2, 0x05e3, 0x05e4, 0x05e5, 0x05e6, 0x05e7, 0x05e8, 0x05e9, 0x05ea, 0xd800, 0x00a3, 0xd800, 0x00d7, 0xd800],
     [0xd800, 0xd800, 0xd800, 0xd800, 0xd800, 0xd800, 0xd800, 0xd800, 0xd800, 0x00ae, 0x00ac, 0x00bd, 0x00bc, 0xd800, 0x00ab, 0x00bb],
     [0x2591, 0x2592, 0x2593, 0x2502, 0x2524, 0xd800, 0xd800, 0xd800, 0x00a9, 0x2563, 0x2551, 0x2557, 0x255d, 0x00a2, 0x00a5, 0x2510],
     [0x2514, 0x2534, 0x252c, 0x251c, 0x2500, 0x253c, 0xd800, 0xd800, 0x255a, 0x2554, 0x2569, 0x2566, 0x2560, 0x2550, 0x256c, 0x00a4],
     [0xd800, 0xd800, 0xd800, 0xd800, 0xd800, 0xd800, 0xd800, 0xd800, 0xd800, 0x2518, 0x250c, 0x2588, 0x2584, 0x00a6, 0xd800, 0x2580],
     [0xd800, 0xd800, 0xd800, 0xd800, 0xd800, 0xd800, 0x00b5, 0xd800, 0xd800, 0xd800, 0xd800, 0xd800, 0xd800, 0xd800, 0x00af, 0x00b4],
     [0x00ad, 0x00b1, 0x2017, 0x00be, 0x00b6, 0x00a7, 0x00f7, 0x00b8, 0x00b0, 0x00a8, 0x00b7, 0x00b9, 0x00b3, 0x00b2, 0x25a0, 0x00a0]]"

definition UNI_000000A0_000000F7_TO_CP856 :: "nat list" where
  "UNI_000000A0_000000F7_TO_CP856 =
    table [[0xff, 0x00, 0xbd, 0x9c, 0xcf, 0xbe, 0xdd, 0xf5, 0xf9, 0xb8, 0x00, 0xae, 0xaa, 0xf0, 0xa9, 0xee],
     [0xf8, 0xf1, 0xfd, 0xfc, 0xef, 0xe6, 0xf4, 0xfa, 0xf7, 0xfb, 0x00, 0xaf, 0xac, 0xab, 0xf3, 0x00],
     [0x00, 0x00, 0x00, 0x00, 0x00, 0x00, 0x00, 0x00, 0x00, 0x00, 0x00, 0x00, 0x00, 0x00, 0x00, 0x00],
     [0x00, 0x00, 0x00, 0x00, 0x00, 0x00, 0x00, 0x9e, 0x00, 0x00, 0x00, 0x00, 0x00, 0x00, 0x00, 0x00],
     [0x00, 0x00, 0x00, 0x00, 0x00, 0x00, 0x00, 0x00, 0x00, 0x00, 0x00, 0x00, 0x00, 0x00, 0x00, 0x00],
     [0x00, 0x00, 0x00, 0x00, 0x00, 0x00, 0x00, 0xf6]]"

definition UNI_000005D0_000005EA_TO_CP856 :: "nat list" where
  "UNI_000005D0_000005EA_TO_CP856 =
    table [[0x80, 0x81, 0x82, 0x83, 0x84, 0x85, 0x86, 0x87, 0x88, 0x89, 0x8a, 0x8b, 0x8c, 0x8d, 0x8e, 0x8f],
     [0x90, 0x91, 0x92, 0x93, 0x94, 0x95, 0x96, 0x97, 0x98, 0x99, 0x9a]]"

definition UNI_00002500_000025A0_TO_CP856 :: "nat list" where
  "UNI_00002500_000025A0_TO_CP856 =
    table [[0xc4, 0x00, 0xb3, 0x00, 0x00, 0x00, 0x00, 0x00, 0x00, 0x00, 0x00, 0x00, 0xda, 0x00, 0x00, 0x00],
     [0xbf, 0x00, 0x00, 0x00, 0xc0, 0x00, 0x00, 0x00, 0xd9, 0x00, 0x00, 0x00, 0xc3, 0x00, 0x00, 0x00],
     [0x00, 0x00, 0x00, 0x00, 0xb4, 0x00, 0x00, 0x00, 0x00, 0x00, 0x00, 0x00, 0xc2, 0x00, 0x00, 0x00],
     [0x00, 0x00, 0x00, 0x00, 0xc1, 0x00, 0x00, 0x00, 0x00, 0x00, 0x00, 0x00, 0xc5, 0x00, 0x00, 0x00],
     [0x00, 0x00, 0x00, 0x00, 0x00, 0x00, 0x00, 0x00, 0x00, 0x00, 0x00, 0x00, 0x00, 0x00, 0x00, 0x00],
     [0xcd, 0xba, 0x00, 0x00, 0xc9, 0x00, 0x00, 0xbb, 0x00, 0x00, 0xc8, 0x00, 0x00, 0xbc, 0x00, 0x00],
     [0xcc, 0x00, 0x00, 0xb9, 0x00, 0x00, 0xcb, 0x00, 0x00, 0xca, 0x00, 0x00, 0xce, 0x00, 0x00, 0x00],
     [0x00, 0x00, 0x00, 0x00, 0x00, 0x00, 0x00, 0x00, 0x00, 0x00, 0x00, 0x00, 0x00, 0x00, 0x00, 0x00],
     [0xdf, 0x00, 0x00, 0x00, 0xdc, 0x00, 0x00, 0x00, 0xdb, 0x00, 0x00, 0x00, 0x00, 0x00, 0x00, 0x00],
     [0x00, 0xb0, 0xb1, 0xb2, 0x00, 0x00, 0x00, 0x00, 0x00, 0x00, 0x00, 0x00, 0x00, 0x00, 0x00, 0x00],
     [0xfe]]"

definition conv_cp856_to_uni :: to_uni_func where
  "conv_cp856_to_uni = sbcs_to_uni
    [Same 0x7f,
     Table 0x80 0xff CP856_00000080_000000FF_TO_UNI (Some 0xd800)]"

definition conv_uni_to_cp856 :: uni_to_func where
  "conv_uni_to_cp856 = sbcs_uni_to
    [Upto 0x7f,
     Codes 0x00a0 0x00f7 UNI_000000A0_000000F7_TO_CP856 (Some 0x00),
     Codes 0x05d0 0x05ea UNI_000005D0_000005EA_TO_CP856 None,
     Single 0x2017 0xf2,
     Codes 0x2500 0x25a0 UNI_00002500_000025A0_TO_CP856 (Some 0x00)]"

lemmas cp856_entries = table_entries [OF CP856_00000080_000000FF_TO_UNI_def, simplified entries_simps, simplified]

lemma cp856_codec: "is_codec conv_cp856_to_uni conv_uni_to_cp856"
  unfolding conv_cp856_to_uni_def conv_uni_to_cp856_def
  by (rule sbcs_is_codec) (simp add: sbcs_simps cp856_entries
    UNI_000000A0_000000F7_TO_CP856_def
    UNI_000005D0_000005EA_TO_CP856_def
    UNI_00002500_000025A0_TO_CP856_def)

section \<open>cp857\<close>

definition CP857_00000080_000000FF_TO_UNI :: "nat list" where
  "CP857_00000080_000000FF_TO_UNI =
    table [[0x00c7, 0x00fc, 0x00e9, 0x00e2, 0x00e4, 0x00e0, 0x00e5, 0x00e7, 0x00ea, 0x00eb, 0x00e8, 0x00ef, 0x00ee, 0x0131, 0x00c4, 0x00c5],
     [0x00c9, 0x00e6, 0x00c6, 0x00f4, 0x00f6, 0x00f2, 0x00fb, 0x00f9, 0x0130, 0x00d6, 0x00dc, 0x00f8, 0x00a3, 0x00d8, 0x015e, 0x015f],
     [0x00e1, 0x00ed, 0x00f3, 0x00fa, 0x00f1, 0x00d1, 0x011e, 0x011f, 0x00bf, 0x00ae, 0x00ac, 0x00bd, 0x00bc, 0x00a1, 0x00ab, 0x00bb],
     [0x2591, 0x2592, 0x2593, 0x2502, 0x2524, 0x00c1, 0x00c2, 0x00c0, 0x00a9, 0x2563, 0x2551, 0x2557, 0x255d, 0x00a2, 0x00a5, 0x2510],
     [0x2514, 0x2534, 0x252c, 0x251c, 0x2500, 0x253c, 0x00e3, 0x00c3, 0x255a, 0x2554, 0x2569, 0x2566, 0x2560, 0x2550, 0x256c, 0x00a4],
     [0x00ba, 0x00aa, 0x00ca, 0x00cb, 0x00c8, 0xd800, 0x00cd, 0x00ce, 0x00cf, 0x2518, 0x250c, 0x2588, 0x2584, 0x00a6, 0x00cc, 0x2580],
     [0x00d3, 0x00df, 0x00d4, 0x00d2, 0x00f5, 0x00d5, 0x00b5, 0xd800, 0x00d7, 0x00da, 0x00db, 0x00d9, 0x00ec, 0x00ff, 0x00af, 0x00b4],
     [0x00ad, 0x00b1, 0xd800, 0x00be, 0x00b6, 0x00a7, 0x00f7, 0x00b8, 0x00b0, 0x00a8, 0x00b7, 0x00b9, 0x00b3, 0x00b2, 0x25a0, 0x00a0]]"

definition UNI_000000A0_0000015F_TO_CP857 :: "nat list" where
  "UNI_000000A0_0000015F_TO_CP857 =
    table [[0xff, 0xad, 0xbd, 0x9c, 0xcf, 0xbe, 0xdd, 0xf5, 0xf9, 0xb8, 0xd1, 0xae, 0xaa, 0xf0, 0xa9, 0xee],
     [0xf8, 0xf1, 0xfd, 0xfc, 0xef, 0xe6, 0xf4, 0xfa, 0xf7, 0xfb, 0xd0, 0xaf, 0xac, 0xab, 0xf3, 0xa8],
     [0xb7, 0xb5, 0xb6, 0xc7, 0x8e, 0x8f, 0x92, 0x80, 0xd4, 0x90, 0xd2, 0xd3, 0xde, 0xd6, 0xd7, 0xd8],
     [0x00, 0xa5, 0xe3, 0xe0, 0xe2, 0xe5, 0x99, 0xe8, 0x9d, 0xeb, 0xe9, 0xea, 0x9a, 0x00, 0x00, 0xe1],
     [0x85, 0xa0, 0x83, 0xc6, 0x84, 0x86, 0x91, 0x87, 0x8a, 0x82, 0x88, 0x89, 0xec, 0xa1, 0x8c, 0x8b],
     [0x00, 0xa4, 0x95, 0xa2, 0x93, 0xe4, 0x94, 0xf6, 0x9b, 0x97, 0xa3, 0x96, 0x81, 0x00, 0x00, 0xed],
     [0x00, 0x00, 0x00, 0x00, 0x00, 0x00, 0x00, 0x00, 0x00, 0x00, 0x00, 0x00, 0x00, 0x00, 0x00, 0x00],
     [0x00, 0x00, 0x00, 0x00, 0x00, 0x00, 0x00, 0x00, 0x00, 0x00, 0x00, 0x00, 0x00, 0x00, 0xa6, 0xa7],
     [0x00, 0x00, 0x00, 0x00, 0x00, 0x00, 0x00, 0x00, 0x00, 0x00, 0x00, 0x00, 0x00, 0x00, 0x00, 0x00],
     [0x98, 0x8d, 0x00, 0x00, 0x00, 0x00, 0x00, 0x00, 0x00, 0x00, 0x00, 0x00, 0x00, 0x00, 0x00, 0x00],
     [0x00, 0x00, 0x00, 0x00, 0x00, 0x00, 0x00, 0x00, 0x00, 0x00, 0x00, 0x00, 0x00, 0x00, 0x00, 0x00],
     [0x00, 0x00, 0x00, 0x00, 0x00, 0x00, 0x00, 0x00, 0x00, 0x00, 0x00, 0x00, 0x00, 0x00, 0x9e, 0x9f]]"

definition UNI_00002500_000025A0_TO_CP857 :: "nat list" where
  "UNI_00002500_000025A0_TO_CP857 =
    table [[0xc4, 0x00, 0xb3, 0x00, 0x00, 0x00, 0x00, 0x00, 0x00, 0x00, 0x00, 0x00, 0xda, 0x00, 0x00, 0x00],
     [0xbf, 0x00, 0x00, 0x00, 0xc0, 0x00, 0x00, 0x00, 0xd9, 0x00, 0x00, 0x00, 0xc3, 0x00, 0x00, 0x00],
     [0x00, 0x00, 0x00, 0x00, 0xb4, 0x00, 0x00, 0x00, 0x00, 0x00, 0x00, 0x00, 0xc2, 0x00, 0x00, 0x00],
     [0x00, 0x00, 0x00, 0x00, 0xc1, 0x00, 0x00, 0x00, 0x00, 0x00, 0x00, 0x00, 0xc5, 0x00, 0x00, 0x00],
     [0x00, 0x00, 0x00, 0x00, 0x00, 0x00, 0x00, 0x00, 0x00, 0x00, 0x00, 0x00, 0x00, 0x00, 0x00, 0x00],
     [0xcd, 0xba, 0x00, 0x00, 0xc9, 0x00, 0x00, 0xbb, 0x00, 0x00, 0xc8, 0x00, 0x00, 0xbc, 0x00, 0x00],
     [0xcc, 0x00, 0x00, 0xb9, 0x00, 0x00, 0xcb, 0x00, 0x00, 0xca, 0x00, 0x00, 0xce, 0x00, 0x00, 0x00],
     [0x00, 0x00, 0x00, 0x00, 0x00, 0x00, 0x00, 0x00, 0x00, 0x00, 0x00, 0x00, 0x00, 0x00, 0x00, 0x00],
     [0xdf, 0x00, 0x00, 0x00, 0xdc, 0x00, 0x00, 0x00, 0xdb, 0x00, 0x00, 0x00, 0x00, 0x00, 0x00, 0x00],
     [0x00, 0xb0, 0xb1, 0xb2, 0x00, 0x00, 0x00, 0x00, 0x00, 0x00, 0x00, 0x00, 0x00, 0x00, 0x00, 0x00],
     [0xfe]]"

definition conv_cp857_to_uni :: to_uni_func where
  "conv_cp857_to_uni = sbcs_to_uni
    [Same 0x7f,
     Table 0x80 0xff CP857_00000080_000000FF_TO_UNI (Some 0xd800)]"

definition conv_uni_to_cp857 :: uni_to_func where
  "conv_uni_to_cp857 = sbcs_uni_to
    [Upto 0x7f,
     Codes 0x00a0 0x015f UNI_000000A0_0000015F_TO_CP857 (Some 0x00),
     Codes 0x2500 0x25a0 UNI_00002500_000025A0_TO_CP857 (Some 0x00)]"

lemmas cp857_entries = table_entries [OF CP857_00000080_000000FF_TO_UNI_def, simplified entries_simps, simplified]

lemma cp857_codec: "is_codec conv_cp857_to_uni conv_uni_to_cp857"
  unfolding conv_cp857_to_uni_def conv_uni_to_cp857_def
  by (rule sbcs_is_codec) (simp add: sbcs_simps cp857_entries
    UNI_000000A0_0000015F_TO_CP857_def
    UNI_00002500_000025A0_TO_CP857_def)

section \<open>cp860\<close>

definition CP860_00000080_000000FF_TO_UNI :: "nat list" where
  "CP860_00000080_000000FF_TO_UNI =
    table [[0x00c7, 0x00fc, 0x00e9, 0x00e2, 0x00e3, 0x00e0, 0x00c1, 0x00e7, 0x00ea, 0x00ca, 0x00e8, 0x00cd, 0x00d4, 0x00ec, 0x00c3, 0x00c2],
     [0x00c9, 0x00c0, 0x00c8, 0x00f4, 0x00f5, 0x00f2, 0x00da, 0x00f9, 0x00cc, 0x00d5, 0x00dc, 0x00a2, 0x00a3, 0x00d9, 0x20a7, 0x00d3],
     [0x00e1, 0x00ed, 0x00f3, 0x00fa, 0x00f1, 0x00d1, 0x00aa, 0x00ba, 0x00bf, 0x00d2, 0x00ac, 0x00bd, 0x00bc, 0x00a1, 0x00ab, 0x00bb],
     [0x2591, 0x2592, 0x2593, 0x2502, 0x2524, 0x2561, 0x2562, 0x2556, 0x2555, 0x2563, 0x2551, 0x2557, 0x255d, 0x255c, 0x255b, 0x2510],
     [0x2514, 0x2534, 0x252c, 0x251c, 0x2500, 0x253c, 0x255e, 0x255f, 0x255a, 0x2554, 0x2569, 0x2566, 0x2560, 0x2550, 0x256c, 0x2567],
     [0x2568, 0x2564, 0x2565, 0x2559, 0x2558, 0x2552, 0x2553, 0x256b, 0x256a, 0x2518, 0x250c, 0x2588, 0x2584, 0x258c, 0x2590, 0x2580],
     [0x03b1, 0x00df, 0x0393, 0x03c0, 0x03a3, 0x03c3, 0x00b5, 0x03c4, 0x03a6, 0x0398, 0x03a9, 0x03b4, 0x221e, 0x03c6, 0x03b5, 0x2229],
     [0x2261, 0x00b1, 0x2265, 0x2264, 0x2320, 0x2321, 0x00f7, 0x2248, 0x00b0, 0x2219, 0x00b7, 0x221a, 0x207f, 0x00b2, 0x25a0, 0x00a0]]"

definition UNI_000000A0_000000FC_TO_CP860 :: "nat list" where
  "UNI_000000A0_000000FC_TO_CP860 =
    table [[0xff, 0xad, 0x9b, 0x9c, 0x00, 0x00, 0x00, 0x00, 0x00, 0x00, 0xa6, 0xae, 0xaa, 0x00, 0x00, 0x00],
     [0xf8, 0xf1, 0xfd, 0x00, 0x00, 0xe6, 0x00, 0xfa, 0x00, 0x00, 0xa7, 0xaf, 0xac, 0xab, 0x00, 0xa8],
     [0x91, 0x86, 0x8f, 0x8e, 0x00, 0x00, 0x00, 0x80, 0x92, 0x90, 0x89, 0x00, 0x98, 0x8b, 0x00, 0x00],
     [0x00, 0xa5, 0xa9, 0x9f, 0x8c, 0x99, 0x00, 0x00, 0x00, 0x9d, 0x96, 0x00, 0x9a, 0x00, 0x00, 0xe1],
     [0x85, 0xa0, 0x83, 0x84, 0x00, 0x00, 0x00, 0x87, 0x8a, 0x82, 0x88, 0x00, 0x8d, 0xa1, 0x00, 0x00],
     [0x00, 0xa4, 0x95, 0xa2, 0x93, 0x94, 0x00, 0xf6, 0x00, 0x97, 0xa3, 0x00, 0x81]]"

definition UNI_00000393_000003C6_TO_CP860 :: "nat list" where
  "UNI_00000393_000003C6_TO_CP860 =
    table [[0xe2, 0x00, 0x00, 0x00, 0x00, 0xe9, 0x00, 0x00, 0x00, 0x00, 0x00, 0x00, 0x00, 0x00, 0x00, 0x00],
     [0xe4, 0x00, 0x00, 0xe8, 0x00, 0x00, 0xea, 0x00, 0x00, 0x00, 0x00, 0x00, 0x00, 0x00, 0xe0, 0x00],
     [0x00, 0xeb, 0xee, 0x00, 0x00, 0x00, 0x00, 0x00, 0x00, 0x00, 0x00, 0x00, 0x00, 0xe3, 0x00, 0x00],
     [0xe5, 0xe7, 0x00, 0xed]]"

definition UNI_0000207F_000020A7_TO_CP860 :: "nat list" where
  "UNI_0000207F_000020A7_TO_CP860 =
    table [[0xfc, 0x00, 0x00, 0x00, 0x00, 0x00, 0x00, 0x00, 0x00, 0x00, 0x00, 0x00, 0x00, 0x00, 0x00, 0x00],
     [0x00, 0x00, 0x00, 0x00, 0x00, 0x00, 0x00, 0x00, 0x00, 0x00, 0x00, 0x00, 0x00, 0x00, 0x00, 0x00],
     [0x00, 0x00, 0x00, 0x00, 0x00, 0x00, 0x00, 0x00, 0x9e]]"

definition UNI_00002219_00002265_TO_CP860 :: "nat list" where
  "UNI_00002219_00002265_TO_CP860 =
    table [[0xf9, 0xfb, 0x00, 0x00, 0x00, 0xec, 0x00, 0x00, 0x00, 0x00, 0x00, 0x00, 0x00, 0x00, 0x00, 0x00],
     [0xef, 0x00, 0x00, 0x00, 0x00, 0x00, 0x00, 0x00, 0x00, 0x00, 0x00, 0x00, 0x00, 0x00, 0x00, 0x00],
     [0x00, 0x00, 0x00, 0x00, 0x00, 0x00, 0x00, 0x00, 0x00, 0x00, 0x00, 0x00, 0x00, 0x00, 0x00, 0xf7],
     [0x00, 0x00, 0x00, 0x00, 0x00, 0x00, 0x00, 0x00, 0x00, 0x00, 0x00, 0x00, 0x00, 0x00, 0x00, 0x00],
     [0x00, 0x00, 0x00, 0x00, 0x00, 0x00, 0x00, 0x00, 0xf0, 0x00, 0x00, 0xf3, 0xf2]]"

definition UNI_00002320_00002321_TO_CP860 :: "nat list" where
  "UNI_00002320_00002321_TO_CP860 =
    table [[0xf4, 0xf5]]"

definition UNI_00002500_000025A0_TO_CP860 :: "nat list" where
  "UNI_00002500_000025A0_TO_CP860 =
    table [[0xc4, 0x00, 0xb3, 0x00, 0x00, 0x00, 0x00, 0x00, 0x00, 0x00, 0x00, 0x00, 0xda, 0x00, 0x00, 0x00],
     [0xbf, 0x00, 0x00, 0x00, 0xc0, 0x00, 0x00, 0x00, 0xd9, 0x00, 0x00, 0x00, 0xc3, 0x00, 0x00, 0x00],
     [0x00, 0x00, 0x00, 0x00, 0xb4, 0x00, 0x00, 0x00, 0x00, 0x00, 0x00, 0x00, 0xc2, 0x00, 0x00, 0x00],
     [0x00, 0x00, 0x00, 0x00, 0xc1, 0x00, 0x00, 0x00, 0x00, 0x00, 0x00, 0x00, 0xc5, 0x00, 0x00, 0x00],
     [0x00, 0x00, 0x00, 0x00, 0x00, 0x00, 0x00, 0x00, 0x00, 0x00, 0x00, 0x00, 0x00, 0x00, 0x00, 0x00],
     [0xcd, 0xba, 0xd5, 0xd6, 0xc9, 0xb8, 0xb7, 0xbb, 0xd4, 0xd3, 0xc8, 0xbe, 0xbd, 0xbc, 0xc6, 0xc7],
     [0xcc, 0xb5, 0xb6, 0xb9, 0xd1, 0xd2, 0xcb, 0xcf, 0xd0, 0xca, 0xd8, 0xd7, 0xce, 0x00, 0x00, 0x00],
     [0x00, 0x00, 0x00, 0x00, 0x00, 0x00, 0x00, 0x00, 0x00, 0x00, 0x00, 0x00, 0x00, 0x00, 0x00, 0x00],
     [0xdf, 0x00, 0x00, 0x00, 0xdc, 0x00, 0x00, 0x00, 0xdb, 0x00, 0x00, 0x00, 0xdd, 0x00, 0x00, 0x00],
     [0xde, 0xb0, 0xb1, 0xb2, 0x00, 0x00, 0x00, 0x00, 0x00, 0x00, 0x00, 0x00, 0x00, 0x00, 0x00, 0x00],
     [0xfe]]"

definition conv_cp860_to_uni :: to_uni_func where
  "conv_cp860_to_uni = sbcs_to_uni
    [Same 0x7f,
     Table 0x80 0xff CP860_00000080_000000FF_TO_UNI None]"

definition conv_uni_to_cp860 :: uni_to_func where
  "conv_uni_to_cp860 = sbcs_uni_to
    [Upto 0x7f,
     Codes 0x00a0 0x00fc UNI_000000A0_000000FC_TO_CP860 (Some 0x00),
     Codes 0x0393 0x03c6 UNI_00000393_000003C6_TO_CP860 (Some 0x00),
     Codes 0x207f 0x20a7 UNI_0000207F_000020A7_TO_CP860 (Some 0x00),
     Codes 0x2219 0x2265 UNI_00002219_00002265_TO_CP860 (Some 0x00),
     Codes 0x2320 0x2321 UNI_00002320_00002321_TO_CP860 None,
     Codes 0x2500 0x25a0 UNI_00002500_000025A0_TO_CP860 (Some 0x00)]"

lemmas cp860_entries = table_entries [OF CP860_00000080_000000FF_TO_UNI_def, simplified entries_simps, simplified]

lemma cp860_codec: "is_codec conv_cp860_to_uni conv_uni_to_cp860"
  unfolding conv_cp860_to_uni_def conv_uni_to_cp860_def
  by (rule sbcs_is_codec) (simp add: sbcs_simps cp860_entries
    UNI_000000A0_000000FC_TO_CP860_def
    UNI_00000393_000003C6_TO_CP860_def
    UNI_0000207F_000020A7_TO_CP860_def
    UNI_00002219_00002265_TO_CP860_def
    UNI_00002320_00002321_TO_CP860_def
    UNI_00002500_000025A0_TO_CP860_def)

section \<open>cp861\<close>

definition CP861_00000080_000000FF_TO_UNI :: "nat list" where
  "CP861_00000080_000000FF_TO_UNI =
    table [[0x00c7, 0x00fc, 0x00e9, 0x00e2, 0x00e4, 0x00e0, 0x00e5, 0x00e7, 0x00ea, 0x00eb, 0x00e8, 0x00d0, 0x00f0, 0x00de, 0x00c4, 0x00c5],
     [0x00c9, 0x00e6, 0x00c6, 0x00f4, 0x00f6, 0x00fe, 0x00fb, 0x00dd, 0x00fd, 0x00d6, 0x00dc, 0x00f8, 0x00a3, 0x00d8, 0x20a7, 0x0192],
     [0x00e1, 0x00ed, 0x00f3, 0x00fa, 0x00c1, 0x00cd, 0x00d3, 0x00da, 0x00bf, 0x2310, 0x00ac, 0x00bd, 0x00bc, 0x00a1, 0x00ab, 0x00bb],
     [0x2591, 0x2592, 0x2593, 0x2502, 0x2524, 0x2561, 0x2562, 0x2556, 0x2555, 0x2563, 0x2551, 0x2557, 0x255d, 0x255c, 0x255b, 0x2510],
     [0x2514, 0x2534, 0x252c, 0x251c, 0x2500, 0x253c, 0x255e, 0x255f, 0x255a, 0x2554, 0x2569, 0x2566, 0x2560, 0x2550, 0x256c, 0x2567],
     [0x2568, 0x2564, 0x2565, 0x2559, 0x2558, 0x2552, 0x2553, 0x256b, 0x256a, 0x2518, 0x250c, 0x2588, 0x2584, 0x258c, 0x2590, 0x2580],
     [0x03b1, 0x00df, 0x0393, 0x03c0, 0x03a3, 0x03c3, 0x00b5, 0x03c4, 0x03a6, 0x0398, 0x03a9, 0x03b4, 0x221e, 0x03c6, 0x03b5, 0x2229],
     [0x2261, 0x00b1, 0x2265, 0x2264, 0x2320, 0x2321, 0x00f7, 0x2248, 0x00b0, 0x2219, 0x00b7, 0x221a, 0x207f, 0x00b2, 0x25a0, 0x00a0]]"

definition UNI_000000A0_000000FE_TO_CP861 :: "nat list" where
  "UNI_000000A0_000000FE_TO_CP861 =
    table [[0xff, 0xad, 0x00, 0x9c, 0x00, 0x00, 0x00, 0x00, 0x00, 0x00, 0x00, 0xae, 0xaa, 0x00, 0x00, 0x00],
     [0xf8, 0xf1, 0xfd, 0x00, 0x00, 0xe6, 0x00, 0xfa, 0x00, 0x00, 0x00, 0xaf, 0xac, 0xab, 0x00, 0xa8],
     [0x00, 0xa4, 0x00, 0x00, 0x8e, 0x8f, 0x92, 0x80, 0x00, 0x90, 0x00, 0x00, 0x00, 0xa5, 0x00, 0x00],
     [0x8b, 0x00, 0x00, 0xa6, 0x00, 0x00, 0x99, 0x00, 0x9d, 0x00, 0xa7, 0x00, 0x9a, 0x97, 0x8d, 0xe1],
     [0x85, 0xa0, 0x83, 0x00, 0x84, 0x86, 0x91, 0x87, 0x8a, 0x82, 0x88, 0x89, 0x00, 0xa1, 0x00, 0x00],
     [0x8c, 0x00, 0x00, 0xa2, 0x93, 0x00, 0x94, 0xf6, 0x9b, 0x00, 0xa3, 0x96, 0x81, 0x98, 0x95]]"

definition UNI_00000393_000003C6_TO_CP861 :: "nat list" where
  "UNI_00000393_000003C6_TO_CP861 =
    table [[0xe2, 0x00, 0x00, 0x00, 0x00, 0xe9, 0x00, 0x00, 0x00, 0x00, 0x00, 0x00, 0x00, 0x00, 0x00, 0x00],
     [0xe4, 0x00, 0x00, 0xe8, 0x00, 0x00, 0xea, 0x00, 0x00, 0x00, 0x00, 0x00, 0x00, 0x00, 0xe0, 0x00],
     [0x00, 0xeb, 0xee, 0x00, 0x00, 0x00, 0x00, 0x00, 0x00, 0x00, 0x00, 0x00, 0x00, 0xe3, 0x00, 0x00],
     [0xe5, 0xe7, 0x00, 0xed]]"

definition UNI_0000207F_000020A7_TO_CP861 :: "nat list" where
  "UNI_0000207F_000020A7_TO_CP861 =
    table [[0xfc, 0x00, 0x00, 0x00, 0x00, 0x00, 0x00, 0x00, 0x00, 0x00, 0x00, 0x00, 0x00, 0x00, 0x00, 0x00],
     [0x00, 0x00, 0x00, 0x00, 0x00, 0x00, 0x00, 0x00, 0x00, 0x00, 0x00, 0x00, 0x00, 0x00, 0x00, 0x00],
     [0x00, 0x00, 0x00, 0x00, 0x00, 0x00, 0x00, 0x00, 0x9e]]"

definition UNI_00002219_00002265_TO_CP861 :: "nat list" where
  "UNI_00002219_00002265_TO_CP861 =
    table [[0xf9, 0xfb, 0x00, 0x00, 0x00, 0xec, 0x00, 0x00, 0x00, 0x00, 0x00, 0x00, 0x00, 0x00, 0x00, 0x00],
     [0xef, 0x00, 0x00, 0x00, 0x00, 0x00, 0x00, 0x00, 0x00, 0x00, 0x00, 0x00, 0x00, 0x00, 0x00, 0x00],
     [0x00, 0x00, 0x00, 0x00, 0x00, 0x00, 0x00, 0x00, 0x00, 0x00, 0x00, 0x00, 0x00, 0x00, 0x00, 0xf7],
     [0x00, 0x00, 0x00, 0x00, 0x00, 0x00, 0x00, 0x00, 0x00, 0x00, 0x00, 0x00, 0x00, 0x00, 0x00, 0x00],
     [0x00, 0x00, 0x00, 0x00, 0x00, 0x00, 0x00, 0x00, 0xf0, 0x00, 0x00, 0xf3, 0xf2]]"

definition UNI_00002310_00002321_TO_CP861 :: "nat list" where
  "UNI_00002310_00002321_TO_CP861 =
    table [[0xa9, 0x00, 0x00, 0x00, 0x00, 0x00, 0x00, 0x00, 0x00, 0x00, 0x00, 0x00, 0x00, 0x00, 0x00, 0x00],
     [0xf4, 0xf5]]"

definition UNI_00002500_000025A0_TO_CP861 :: "nat list" where
  "UNI_00002500_000025A0_TO_CP861 =
    table [[0xc4, 0x00, 0xb3, 0x00, 0x00, 0x00, 0x00, 0x00, 0x00, 0x00, 0x00, 0x00, 0xda, 0x00, 0x00, 0x00],
     [0xbf, 0x00, 0x00, 0x00, 0xc0, 0x00, 0x00, 0x00, 0xd9, 0x00, 0x00, 0x00, 0xc3, 0x00, 0x00, 0x00],
     [0x00, 0x00, 0x00, 0x00, 0xb4, 0x00, 0x00, 0x00, 0x00, 0x00, 0x00, 0x00, 0xc2, 0x00, 0x00, 0x00],
     [0x00, 0x00, 0x00, 0x00, 0xc1, 0x00, 0x00, 0x00, 0x00, 0x00, 0x00, 0x00, 0xc5, 0x00, 0x00, 0x00],
     [0x00, 0x00, 0x00, 0x00, 0x00, 0x00, 0x00, 0x00, 0x00, 0x00, 0x00, 0x00, 0x00, 0x00, 0x00, 0x00],
     [0xcd, 0xba, 0xd5, 0xd6, 0xc9, 0xb8, 0xb7, 0xbb, 0xd4, 0xd3, 0xc8, 0xbe, 0xbd, 0xbc, 0xc6, 0xc7],
     [0xcc, 0xb5, 0xb6, 0xb9, 0xd1, 0xd2, 0xcb, 0xcf, 0xd0, 0xca, 0xd8, 0xd7, 0xce, 0x00, 0x00, 0x00],
     [0x00, 0x00, 0x00, 0x00, 0x00, 0x00, 0x00, 0x00, 0x00, 0x00, 0x00, 0x00, 0x00, 0x00, 0x00, 0x00],
     [0xdf, 0x00, 0x00, 0x00, 0xdc, 0x00, 0x00, 0x00, 0xdb, 0x00, 0x00, 0x00, 0xdd, 0x00, 0x00, 0x00],
     [0xde, 0xb0, 0xb1, 0xb2, 0x00, 0x00, 0x00, 0x00, 0x00, 0x00, 0x00, 0x00, 0x00, 0x00, 0x00, 0x00],
     [0xfe]]"

definition conv_cp861_to_uni :: to_uni_func where
  "conv_cp861_to_uni = sbcs_to_uni
    [Same 0x7f,
     Table 0x80 0xff CP861_00000080_000000FF_TO_UNI None]"

definition conv_uni_to_cp861 :: uni_to_func where
  "conv_uni_to_cp861 = sbcs_uni_to
    [Upto 0x7f,
     Codes 0x00a0 0x00fe UNI_000000A0_000000FE_TO_CP861 (Some 0x00),
     Single 0x0192 0x9f,
     Codes 0x0393 0x03c6 UNI_00000393_000003C6_TO_CP861 (Some 0x00),
     Codes 0x207f 0x20a7 UNI_0000207F_000020A7_TO_CP861 (Some 0x00),
     Codes 0x2219 0x2265 UNI_00002219_00002265_TO_CP861 (Some 0x00),
     Codes 0x2310 0x2321 UNI_00002310_00002321_TO_CP861 (Some 0x00),
     Codes 0x2500 0x25a0 UNI_00002500_000025A0_TO_CP861 (Some 0x00)]"

lemmas cp861_entries = table_entries [OF CP861_00000080_000000FF_TO_UNI_def, simplified entries_simps, simplified]

lemma cp861_codec: "is_codec conv_cp861_to_uni conv_uni_to_cp861"
  unfolding conv_cp861_to_uni_def conv_uni_to_cp861_def
  by (rule sbcs_is_codec) (simp add: sbcs_simps cp861_entries
    UNI_000000A0_000000FE_TO_CP861_def
    UNI_00000393_000003C6_TO_CP861_def
    UNI_0000207F_000020A7_TO_CP861_def
    UNI_00002219_00002265_TO_CP861_def
    UNI_00002310_00002321_TO_CP861_def
    UNI_00002500_000025A0_TO_CP861_def)

section \<open>cp862\<close>

definition CP862_00000080_000000FF_TO_UNI :: "nat list" where
  "CP862_00000080_000000FF_TO_UNI =
    table [[0x05d0, 0x05d1, 0x05d2, 0x05d3, 0x05d4, 0x05d5, 0x05d6, 0x05d7, 0x05d8, 0x05d9, 0x05da, 0x05db, 0x05dc, 0x05dd, 0x05de, 0x05df],
     [0x05e0, 0x05e1, 0x05e2, 0x05e3, 0x05e4, 0x05e5, 0x05e6, 0x05e7, 0x05e8, 0x05e9, 0x05ea, 0x00a2, 0x00a3, 0x00a5, 0x20a7, 0x0192],
     [0x00e1, 0x00ed, 0x00f3, 0x00fa, 0x00f1, 0x00d1, 0x00aa, 0x00ba, 0x00bf, 0x2310, 0x00ac, 0x00bd, 0x00bc, 0x00a1, 0x00ab, 0x00bb],
     [0x2591, 0x2592, 0x2593, 0x2502, 0x2524, 0x2561, 0x2562, 0x2556, 0x2555, 0x2563, 0x2551, 0x2557, 0x255d, 0x255c, 0x255b, 0x2510],
     [0x2514, 0x2534, 0x252c, 0x251c, 0x2500, 0x253c, 0x255e, 0x255f, 0x255a, 0x2554, 0x2569, 0x2566, 0x2560, 0x2550, 0x256c, 0x2567],
     [0x2568, 0x2564, 0x2565, 0x2559, 0x2558, 0x2552, 0x2553, 0x256b, 0x256a, 0x2518, 0x250c, 0x2588, 0x2584, 0x258c, 0x2590, 0x2580],
     [0x03b1, 0x00df, 0x0393, 0x03c0, 0x03a3, 0x03c3, 0x00b5, 0x03c4, 0x03a6, 0x0398, 0x03a9, 0x03b4, 0x221e, 0x03c6, 0x03b5, 0x2229],
     [0x2261, 0x00b1, 0x2265, 0x2264, 0x2320, 0x2321, 0x00f7, 0x2248, 0x00b0, 0x2219, 0x00b7, 0x221a, 0x207f, 0x00b2, 0x25a0, 0x00a0]]"

definition UNI_000000A0_000000FA_TO_CP862 :: "nat list" where
  "UNI_000000A0_000000FA_TO_CP862 =
    table [[0xff, 0xad, 0x9b, 0x9c, 0x00, 0x9d, 0x00, 0x00, 0x00, 0x00, 0xa6, 0xae, 0xaa, 0x00, 0x00, 0x00],
     [0xf8, 0xf1, 0xfd, 0x00, 0x00, 0xe6, 0x00, 0xfa, 0x00, 0x00, 0xa7, 0xaf, 0xac, 0xab, 0x00, 0xa8],
     [0x00, 0x00, 0x00, 0x00, 0x00, 0x00, 0x00, 0x00, 0x00, 0x00, 0x00, 0x00, 0x00, 0x00, 0x00, 0x00],
     [0x00, 0xa5, 0x00, 0x00, 0x00, 0x00, 0x00, 0x00, 0x00, 0x00, 0x00, 0x00, 0x00, 0x00, 0x00, 0xe1],
     [0x00, 0xa0, 0x00, 0x00, 0x00, 0x00, 0x00, 0x00, 0x00, 0x00, 0x00, 0x00, 0x00, 0xa1, 0x00, 0x00],
     [0x00, 0xa4, 0x00, 0xa2, 0x00, 0x00, 0x00, 0xf6, 0x00, 0x00, 0xa3]]"

definition UNI_00000393_000003C6_TO_CP862 :: "nat list" where
  "UNI_00000393_000003C6_TO_CP862 =
    table [[0xe2, 0x00, 0x00, 0x00, 0x00, 0xe9, 0x00, 0x00, 0x00, 0x00, 0x00, 0x00, 0x00, 0x00, 0x00, 0x00],
     [0xe4, 0x00, 0x00, 0xe8, 0x00, 0x00, 0xea, 0x00, 0x00, 0x00, 0x00, 0x00, 0x00, 0x00, 0xe0, 0x00],
     [0x00, 0xeb, 0xee, 0x00, 0x00, 0x00, 0x00, 0x00, 0x00, 0x00, 0x00, 0x00, 0x00, 0xe3, 0x00, 0x00],
     [0xe5, 0xe7, 0x00, 0xed]]"

definition UNI_000005D0_000005EA_TO_CP862 :: "nat list" where
  "UNI_000005D0_000005EA_TO_CP862 =
    table [[0x80, 0x81, 0x82, 0x83, 0x84, 0x85, 0x86, 0x87, 0x88, 0x89, 0x8a, 0x8b, 0x8c, 0x8d, 0x8e, 0x8f],
     [0x90, 0x91, 0x92, 0x93, 0x94, 0x95, 0x96, 0x97, 0x98, 0x99, 0x9a]]"

definition UNI_0000207F_000020A7_TO_CP862 :: "nat list" where
  "UNI_0000207F_000020A7_TO_CP862 =
    table [[0xfc, 0x00, 0x00, 0x00, 0x00, 0x00, 0x00, 0x00, 0x00, 0x00, 0x00, 0x00, 0x00, 0x00, 0x00, 0x00],
     [0x00, 0x00, 0x00, 0x00, 0x00, 0x00, 0x00, 0x00, 0x00, 0x00, 0x00, 0x00, 0x00, 0x00, 0x00, 0x00],
     [0x00, 0x00, 0x00, 0x00, 0x00, 0x00, 0x00, 0x00, 0x9e]]"

definition UNI_00002219_00002265_TO_CP862 :: "nat list" where
  "UNI_00002219_00002265_TO_CP862 =
    table [[0xf9, 0xfb, 0x00, 0x00, 0x00, 0xec, 0x00, 0x00, 0x00, 0x00, 0x00, 0x00, 0x00, 0x00, 0x00, 0x00],
     [0xef, 0x00, 0x00, 0x00, 0x00, 0x00, 0x00, 0x00, 0x00, 0x00, 0x00, 0x00, 0x00, 0x00, 0x00, 0x00],
     [0x00, 0x00, 0x00, 0x00, 0x00, 0x00, 0x00, 0x00, 0x00, 0x00, 0x00, 0x00, 0x00, 0x00, 0x00, 0xf7],
     [0x00, 0x00, 0x00, 0x00, 0x00, 0x00, 0x00, 0x00, 0x00, 0x00, 0x00, 0x00, 0x00, 0x00, 0x00, 0x00],
     [0x00, 0x00, 0x00, 0x00, 0x00, 0x00, 0x00, 0x00, 0xf0, 0x00, 0x00, 0xf3, 0xf2]]"

definition UNI_00002310_00002321_TO_CP862 :: "nat list" where
  "UNI_00002310_00002321_TO_CP862 =
    table [[0xa9, 0x00, 0x00, 0x00, 0x00, 0x00, 0x00, 0x00, 0x00, 0x00, 0x00, 0x00, 0x00, 0x00, 0x00, 0x00],
     [0xf4, 0xf5]]"

definition UNI_00002500_000025A0_TO_CP862 :: "nat list" where
  "UNI_00002500_000025A0_TO_CP862 =
    table [[0xc4, 0x00, 0xb3, 0x00, 0x00, 0x00, 0x00, 0x00, 0x00, 0x00, 0x00, 0x00, 0xda, 0x00, 0x00, 0x00],
     [0xbf, 0x00, 0x00, 0x00, 0xc0, 0x00, 0x00, 0x00, 0xd9, 0x00, 0x00, 0x00, 0xc3, 0x00, 0x00, 0x00],
     [0x00, 0x00, 0x00, 0x00, 0xb4, 0x00, 0x00, 0x00, 0x00, 0x00, 0x00, 0x00, 0xc2, 0x00, 0x00, 0x00],
     [0x00, 0x00, 0x00, 0x00, 0xc1, 0x00, 0x00, 0x00, 0x00, 0x00, 0x00, 0x00, 0xc5, 0x00, 0x00, 0x00],
     [0x00, 0x00, 0x00, 0x00, 0x00, 0x00, 0x00, 0x00, 0x00, 0x00, 0x00, 0x00, 0x00, 0x00, 0x00, 0x00],
     [0xcd, 0xba, 0xd5, 0xd6, 0xc9, 0xb8, 0xb7, 0xbb, 0xd4, 0xd3, 0xc8, 0xbe, 0xbd, 0xbc, 0xc6, 0xc7],
     [0xcc, 0xb5, 0xb6, 0xb9, 0xd1, 0xd2, 0xcb, 0xcf, 0xd0, 0xca, 0xd8, 0xd7, 0xce, 0x00, 0x00, 0x00],
     [0x00, 0x00, 0x00, 0x00, 0x00, 0x00, 0x00, 0x00, 0x00, 0x00, 0x00, 0x00, 0x00, 0x00, 0x00, 0x00],
     [0xdf, 0x00, 0x00, 0x00, 0xdc, 0x00, 0x00, 0x00, 0xdb, 0x00, 0x00, 0x00, 0xdd, 0x00, 0x00, 0x00],
     [0xde, 0xb0, 0xb1, 0xb2, 0x00, 0x00, 0x00, 0x00, 0x00, 0x00, 0x00, 0x00, 0x00, 0x00, 0x00, 0x00],
     [0xfe]]"

definition conv_cp862_to_uni :: to_uni_func where
  "conv_cp862_to_uni = sbcs_to_uni
    [Same 0x7f,
     Table 0x80 0xff CP862_00000080_000000FF_TO_UNI None]"

definition conv_uni_to_cp862 :: uni_to_func where
  "conv_uni_to_cp862 = sbcs_uni_to
    [Upto 0x7f,
     Codes 0x00a0 0x00fa UNI_000000A0_000000FA_TO_CP862 (Some 0x00),
     Single 0x0192 0x9f,
     Codes 0x0393 0x03c6 UNI_00000393_000003C6_TO_CP862 (Some 0x00),
     Codes 0x05d0 0x05ea UNI_000005D0_000005EA_TO_CP862 None,
     Codes 0x207f 0x20a7 UNI_0000207F_000020A7_TO_CP862 (Some 0x00),
     Codes 0x2219 0x2265 UNI_00002219_00002265_TO_CP862 (Some 0x00),
     Codes 0x2310 0x2321 UNI_00002310_00002321_TO_CP862 (Some 0x00),
     Codes 0x2500 0x25a0 UNI_00002500_000025A0_TO_CP862 (Some 0x00)]"

lemmas cp862_entries = table_entries [OF CP862_00000080_000000FF_TO_UNI_def, simplified entries_simps, simplified]

lemma cp862_codec: "is_codec conv_cp862_to_uni conv_uni_to_cp862"
  unfolding conv_cp862_to_uni_def conv_uni_to_cp862_def
  by (rule sbcs_is_codec) (simp add: sbcs_simps cp862_entries
    UNI_000000A0_000000FA_TO_CP862_def
    UNI_00000393_000003C6_TO_CP862_def
    UNI_000005D0_000005EA_TO_CP862_def
    UNI_0000207F_000020A7_TO_CP862_def
    UNI_00002219_00002265_TO_CP862_def
    UNI_00002310_00002321_TO_CP862_def
    UNI_00002500_000025A0_TO_CP862_def)

section \<open>cp863\<close>

definition CP863_00000080_000000FF_TO_UNI :: "nat list" where
  "CP863_00000080_000000FF_TO_UNI =
    table [[0x00c7, 0x00fc, 0x00e9, 0x00e2, 0x00c2, 0x00e0, 0x00b6, 0x00e7, 0x00ea, 0x00eb, 0x00e8, 0x00ef, 0x00ee, 0x2017, 0x00c0, 0x00a7],
     [0x00c9, 0x00c8, 0x00ca, 0x00f4, 0x00cb, 0x00cf, 0x00fb, 0x00f9, 0x00a4, 0x00d4, 0x00dc, 0x00a2, 0x00a3, 0x00d9, 0x00db, 0x0192],
     [0x00a6, 0x00b4, 0x00f3, 0x00fa, 0x00a8, 0x00b8, 0x00b3, 0x00af, 0x00ce, 0x2310, 0x00ac, 0x00bd, 0x00bc, 0x00be, 0x00ab, 0x00bb],
     [0x2591, 0x2592, 0x2593, 0x2502, 0x2524, 0x2561, 0x2562, 0x2556, 0x2555, 0x2563, 0x2551, 0x2557, 0x255d, 0x255c, 0x255b, 0x2510],
     [0x2514, 0x2534, 0x252c, 0x251c, 0x2500, 0x253c, 0x255e, 0x255f, 0x255a, 0x2554, 0x2569, 0x2566, 0x2560, 0x2550, 0x256c, 0x2567],
     [0x2568, 0x2564, 0x2565, 0x2559, 0x2558, 0x2552, 0x2553, 0x256b, 0x256a, 0x2518, 0x250c, 0x2588, 0x2584, 0x258c, 0x2590, 0x2580],
     [0x03b1, 0x00df, 0x0393, 0x03c0, 0x03a3, 0x03c3, 0x00b5, 0x03c4, 0x03a6, 0x0398, 0x03a9, 0x03b4, 0x221e, 0x03c6, 0x03b5, 0x2229],
     [0x2261, 0x00b1, 0x2265, 0x2264, 0x2320, 0x2321, 0x00f7, 0x2248, 0x00b0, 0x2219, 0x00b7, 0x221a, 0x207f, 0x00b2, 0x25a0, 0x00a0]]"

definition UNI_000000A0_000000FC_TO_CP863 :: "nat list" where
  "UNI_000000A0_000000FC_TO_CP863 =
    table [[0xff, 0x00, 0x9b, 0x9c, 0x98, 0x00, 0xa0, 0x8f, 0xa4, 0x00, 0x00, 0xae, 0xaa, 0x00, 0x00, 0xa7],
     [0xf8, 0xf1, 0xfd, 0xa6, 0xa1, 0xe6, 0x86, 0xfa, 0xa5, 0x00, 0x00, 0xaf, 0xac, 0xab, 0xad, 0x00],
     [0x8e, 0x00, 0x84, 0x00, 0x00, 0x00, 0x00, 0x80, 0x91, 0x90, 0x92, 0x94, 0x00, 0x00, 0xa8, 0x95],
     [0x00, 0x00, 0x00, 0x00, 0x99, 0x00, 0x00, 0x00, 0x00, 0x9d, 0x00, 0x9e, 0x9a, 0x00, 0x00, 0xe1],
     [0x85, 0x00, 0x83, 0x00, 0x00, 0x00, 0x00, 0x87, 0x8a, 0x82, 0x88, 0x89, 0x00, 0x00, 0x8c, 0x8b],
     [0x00, 0x00, 0x00, 0xa2, 0x93, 0x00, 0x00, 0xf6, 0x00, 0x97, 0xa3, 0x96, 0x81]]"

definition UNI_00000393_000003C6_TO_CP863 :: "nat list" where
  "UNI_00000393_000003C6_TO_CP863 =
    table [[0xe2, 0x00, 0x00, 0x00, 0x00, 0xe9, 0x00, 0x00, 0x00, 0x00, 0x00, 0x00, 0x00, 0x00, 0x00, 0x00],
     [0xe4, 0x00, 0x00, 0xe8, 0x00, 0x00, 0xea, 0x00, 0x00, 0x00, 0x00, 0x00, 0x00, 0x00, 0xe0, 0x00],
     [0x00, 0xeb, 0xee, 0x00, 0x00, 0x00, 0x00, 0x00, 0x00, 0x00, 0x00, 0x00, 0x00, 0xe3, 0x00, 0x00],
     [0xe5, 0xe7, 0x00, 0xed]]"

definition UNI_00002017_0000207F_TO_CP863 :: "nat list" where
  "UNI_00002017_0000207F_TO_CP863 =
    table [[0x8d, 0x00, 0x00, 0x00, 0x00, 0x00, 0x00, 0x00, 0x00, 0x00, 0x00, 0x00, 0x00, 0x00, 0x00, 0x00],
     [0x00, 0x00, 0x00, 0x00, 0x00, 0x00, 0x00, 0x00, 0x00, 0x00, 0x00, 0x00, 0x00, 0x00, 0x00, 0x00],
     [0x00, 0x00, 0x00, 0x00, 0x00, 0x00, 0x00, 0x00, 0x00, 0x00, 0x00, 0x00, 0x00, 0x00, 0x00, 0x00],
     [0x00, 0x00, 0x00, 0x00, 0x00, 0x00, 0x00, 0x00, 0x00, 0x00, 0x00, 0x00, 0x00, 0x00, 0x00, 0x00],
     [0x00, 0x00, 0x00, 0x00, 0x00, 0x00, 0x00, 0x00, 0x00, 0x00, 0x00, 0x00, 0x00, 0x00, 0x00, 0x00],
     [0x00, 0x00, 0x00, 0x00, 0x00, 0x00, 0x00, 0x00, 0x00, 0x00, 0x00, 0x00, 0x00, 0x00, 0x00, 0x00],
     [0x00, 0x00, 0x00, 0x00, 0x00, 0x00, 0x00, 0x00, 0xfc]]"

definition UNI_00002219_00002265_TO_CP863 :: "nat list" where
  "UNI_00002219_00002265_TO_CP863 =
    table [[0xf9, 0xfb, 0x00, 0x00, 0x00, 0xec, 0x00, 0x00, 0x00, 0x00, 0x00, 0x00, 0x00, 0x00, 0x00, 0x00],
     [0xef, 0x00, 0x00, 0x00, 0x00, 0x00, 0x00, 0x00, 0x00, 0x00, 0x00, 0x00, 0x00, 0x00, 0x00, 0x00],
     [0x00, 0x00, 0x00, 0x00, 0x00, 0x00, 0x00, 0x00, 0x00, 0x00, 0x00, 0x00, 0x00, 0x00, 0x00, 0xf7],
     [0x00, 0x00, 0x00, 0x00, 0x00, 0x00, 0x00, 0x00, 0x00, 0x00, 0x00, 0x00, 0x00, 0x00, 0x00, 0x00],
     [0x00, 0x00, 0x00, 0x00, 0x00, 0x00, 0x00, 0x00, 0xf0, 0x00, 0x00, 0xf3, 0xf2]]"

definition UNI_00002310_00002321_TO_CP863 :: "nat list" where
  "UNI_00002310_00002321_TO_CP863 =
    table [[0xa9, 0x00, 0x00, 0x00, 0x00, 0x00, 0x00, 0x00, 0x00, 0x00, 0x00, 0x00, 0x00, 0x00, 0x00, 0x00],
     [0xf4, 0xf5]]"

definition UNI_00002500_000025A0_TO_CP863 :: "nat list" where
  "UNI_00002500_000025A0_TO_CP863 =
    table [[0xc4, 0x00, 0xb3, 0x00, 0x00, 0x00, 0x00, 0x00, 0x00, 0x00, 0x00, 0x00, 0xda, 0x00, 0x00, 0x00],
     [0xbf, 0x00, 0x00, 0x00, 0xc0, 0x00, 0x00, 0x00, 0xd9, 0x00, 0x00, 0x00, 0xc3, 0x00, 0x00, 0x00],
     [0x00, 0x00, 0x00, 0x00, 0xb4, 0x00, 0x00, 0x00, 0x00, 0x00, 0x00, 0x00, 0xc2, 0x00, 0x00, 0x00],
     [0x00, 0x00, 0x00, 0x00, 0xc1, 0x00, 0x00, 0x00, 0x00, 0x00, 0x00, 0x00, 0xc5, 0x00, 0x00, 0x00],
     [0x00, 0x00, 0x00, 0x00, 0x00, 0x00, 0x00, 0x00, 0x00, 0x00, 0x00, 0x00, 0x00, 0x00, 0x00, 0x00],
     [0xcd, 0xba, 0xd5, 0xd6, 0xc9, 0xb8, 0xb7, 0xbb, 0xd4, 0xd3, 0xc8, 0xbe, 0xbd, 0xbc, 0xc6, 0xc7],
     [0xcc, 0xb5, 0xb6, 0xb9, 0xd1, 0xd2, 0xcb, 0xcf, 0xd0, 0xca, 0xd8, 0xd7, 0xce, 0x00, 0x00, 0x00],
     [0x00, 0x00, 0x00, 0x00, 0x00, 0x00, 0x00, 0x00, 0x00, 0x00, 0x00, 0x00, 0x00, 0x00, 0x00, 0x00],
     [0xdf, 0x00, 0x00, 0x00, 0xdc, 0x00, 0x00, 0x00, 0xdb, 0x00, 0x00, 0x00, 0xdd, 0x00, 0x00, 0x00],
     [0xde, 0xb0, 0xb1, 0xb2, 0x00, 0x00, 0x00, 0x00, 0x00, 0x00, 0x00, 0x00, 0x00, 0x00, 0x00, 0x00],
     [0xfe]]"

definition conv_cp863_to_uni :: to_uni_func where
  "conv_cp863_to_uni = sbcs_to_uni
    [Same 0x7f,
     Table 0x80 0xff CP863_00000080_000000FF_TO_UNI None]"

definition conv_uni_to_cp863 :: uni_to_func where
  "conv_uni_to_cp863 = sbcs_uni_to
    [Upto 0x7f,
     Codes 0x00a0 0x00fc UNI_000000A0_000000FC_TO_CP863 (Some 0x00),
     Single 0x0192 0x9f,
     Codes 0x0393 0x03c6 UNI_00000393_000003C6_TO_CP863 (Some 0x00),
     Codes 0x2017 0x207f UNI_00002017_0000207F_TO_CP863 (Some 0x00),
     Codes 0x2219 0x2265 UNI_00002219_00002265_TO_CP863 (Some 0x00),
     Codes 0x2310 0x2321 UNI_00002310_00002321_TO_CP863 (Some 0x00),
     Codes 0x2500 0x25a0 UNI_00002500_000025A0_TO_CP863 (Some 0x00)]"

lemmas cp863_entries = table_entries [OF CP863_00000080_000000FF_TO_UNI_def, simplified entries_simps, simplified]

lemma cp863_codec: "is_codec conv_cp863_to_uni conv_uni_to_cp863"
  unfolding conv_cp863_to_uni_def conv_uni_to_cp863_def
  by (rule sbcs_is_codec) (simp add: sbcs_simps cp863_entries
    UNI_000000A0_000000FC_TO_CP863_def
    UNI_00000393_000003C6_TO_CP863_def
    UNI_00002017_0000207F_TO_CP863_def
    UNI_00002219_00002265_TO_CP863_def
    UNI_00002310_00002321_TO_CP863_def
    UNI_00002500_000025A0_TO_CP863_def)

section \<open>cp864\<close>

definition CP864_00000000_000000FE_TO_UNI :: "nat list" where
  "CP864_00000000_000000FE_TO_UNI =
    table [[0x0000, 0x0001, 0x0002, 0x0003, 0x0004, 0x0005, 0x0006, 0x0007, 0x0008, 0x0009, 0x000a, 0x000b, 0x000c, 0x000d, 0x000e, 0x000f],
     [0x0010, 0x0011, 0x0012, 0x0013, 0x0014, 0x0015, 0x0016, 0x0017, 0x0018, 0x0019, 0x001a, 0x001b, 0x001c, 0x001d, 0x001e, 0x001f],
     [0x0020, 0x0021, 0x0022, 0x0023, 0x0024, 0x066a, 0x0026, 0x0027, 0x0028, 0x0029, 0x002a, 0x002b, 0x002c, 0x002d, 0x002e, 0x002f],
     [0x0030, 0x0031, 0x0032, 0x0033, 0x0034, 0x0035, 0x0036, 0x0037, 0x0038, 0x0039, 0x003a, 0x003b, 0x003c, 0x003d, 0x003e, 0x003f],
     [0x0040, 0x0041, 0x0042, 0x0043, 0x0044, 0x0045, 0x0046, 0x0047, 0x0048, 0x0049, 0x004a, 0x004b, 0x004c, 0x004d, 0x004e, 0x004f],
     [0x0050, 0x0051, 0x0052, 0x0053, 0x0054, 0x0055, 0x0056, 0x0057, 0x0058, 0x0059, 0x005a, 0x005b, 0x005c, 0x005d, 0x005e, 0x005f],
     [0x0060, 0x0061, 0x0062, 0x0063, 0x0064, 0x0065, 0x0066, 0x0067, 0x0068, 0x0069, 0x006a, 0x006b, 0x006c, 0x006d, 0x006e, 0x006f],
     [0x0070, 0x0071, 0x0072, 0x0073, 0x0074, 0x0075, 0x0076, 0x0077, 0x0078, 0x0079, 0x007a, 0x007b, 0x007c, 0x007d, 0x007e, 0x007f],
     [0x00b0, 0x00b7, 0x2219, 0x221a, 0x2592, 0x2500, 0x2502, 0x253c, 0x2524, 0x252c, 0x251c, 0x2534, 0x2510, 0x250c, 0x2514, 0x2518],
     [0x03b2, 0x221e, 0x03c6, 0x00b1, 0x00bd, 0x00bc, 0x2248, 0x00ab, 0x00bb, 0xfef7, 0xfef8, 0xd800, 0xd800, 0xfefb, 0xfefc, 0xd800],
     [0x00a0, 0x00ad, 0xfe82, 0x00a3, 0x00a4, 0xfe84, 0xd800, 0xd800, 0xfe8e, 0xfe8f, 0xfe95, 0xfe99, 0x060c, 0xfe9d, 0xfea1, 0xfea5],
     [0x0660, 0x0661, 0x0662, 0x0663, 0x0664, 0x0665, 0x0666, 0x0667, 0x0668, 0x0669, 0xfed1, 0x061b, 0xfeb1, 0xfeb5, 0xfeb9, 0x061f],
     [0x00a2, 0xfe80, 0xfe81, 0xfe83, 0xfe85, 0xfeca, 0xfe8b, 0xfe8d, 0xfe91, 0xfe93, 0xfe97, 0xfe9b, 0xfe9f, 0xfea3, 0xfea7, 0xfea9],
     [0xfeab, 0xfead, 0xfeaf, 0xfeb3, 0xfeb7, 0xfebb, 0xfebf, 0xfec1, 0xfec5, 0xfecb, 0xfecf, 0x00a6, 0x00ac, 0x00f7, 0x00d7, 0xfec9],
     [0x0640, 0xfed3, 0xfed7, 0xfedb, 0xfedf, 0xfee3, 0xfee7, 0xfeeb, 0xfeed, 0xfeef, 0xfef3, 0xfebd, 0xfecc, 0xfece, 0xfecd, 0xfee1],
     [0xfe7d, 0x0651, 0xfee5, 0xfee9, 0xfeec, 0xfef0, 0xfef2, 0xfed0, 0xfed5, 0xfef5, 0xfef6, 0xfedd, 0xfed9, 0xfef1, 0x25a0]]"

definition UNI_00000000_000000F7_TO_CP864 :: "nat list" where
  "UNI_00000000_000000F7_TO_CP864 =
    table [[0x00, 0x01, 0x02, 0x03, 0x04, 0x05, 0x06, 0x07, 0x08, 0x09, 0x0a, 0x0b, 0x0c, 0x0d, 0x0e, 0x0f],
     [0x10, 0x11, 0x12, 0x13, 0x14, 0x15, 0x16, 0x17, 0x18, 0x19, 0x1a, 0x1b, 0x1c, 0x1d, 0x1e, 0x1f],
     [0x20, 0x21, 0x22, 0x23, 0x24, 0x25, 0x26, 0x27, 0x28, 0x29, 0x2a, 0x2b, 0x2c, 0x2d, 0x2e, 0x2f],
     [0x30, 0x31, 0x32, 0x33, 0x34, 0x35, 0x36, 0x37, 0x38, 0x39, 0x3a, 0x3b, 0x3c, 0x3d, 0x3e, 0x3f],
     [0x40, 0x41, 0x42, 0x43, 0x44, 0x45, 0x46, 0x47, 0x48, 0x49, 0x4a, 0x4b, 0x4c, 0x4d, 0x4e, 0x4f],
     [0x50, 0x51, 0x52, 0x53, 0x54, 0x55, 0x56, 0x57, 0x58, 0x59, 0x5a, 0x5b, 0x5c, 0x5d, 0x5e, 0x5f],
     [0x60, 0x61, 0x62, 0x63, 0x64, 0x65, 0x66, 0x67, 0x68, 0x69, 0x6a, 0x6b, 0x6c, 0x6d, 0x6e, 0x6f],
     [0x70, 0x71, 0x72, 0x73, 0x74, 0x75, 0x76, 0x77, 0x78, 0x79, 0x7a, 0x7b, 0x7c, 0x7d, 0x7e, 0x7f],
     [0x25, 0x25, 0x25, 0x25, 0x25, 0x25, 0x25, 0x25, 0x25, 0x25, 0x25, 0x25, 0x25, 0x25, 0x25, 0x25],
     [0x25, 0x25, 0x25, 0x25, 0x25, 0x25, 0x25, 0x25, 0x25, 0x25, 0x25, 0x25, 0x25, 0x25, 0x25, 0x25],
     [0xa0, 0x25, 0xc0, 0xa3, 0xa4, 0x25, 0xdb, 0x25, 0x25, 0x25, 0x25, 0x97, 0xdc, 0xa1, 0x25, 0x25],
     [0x80, 0x93, 0x25, 0x25, 0x25, 0x25, 0x25, 0x81, 0x25, 0x25, 0x25, 0x98, 0x95, 0x94, 0x25, 0x25],
     [0x25, 0x25, 0x25, 0x25, 0x25, 0x25, 0x25, 0x25, 0x25, 0x25, 0x25, 0x25, 0x25, 0x25, 0x25, 0x25],
     [0x25, 0x25, 0x25, 0x25, 0x25, 0x25, 0x25, 0xde, 0x25, 0x25, 0x25, 0x25, 0x25, 0x25, 0x25, 0x25],
     [0x25, 0x25, 0x25, 0x25, 0x25, 0x25, 0x25, 0x25, 0x25, 0x25, 0x25, 0x25, 0x25, 0x25, 0x25, 0x25],
     [0x25, 0x25, 0x25, 0x25, 0x25, 0x25, 0x25, 0xdd]]"

definition UNI_000003B2_000003C6_TO_CP864 :: "nat list" where
  "UNI_000003B2_000003C6_TO_CP864 =
    table [[0x90, 0x00, 0x00, 0x00, 0x00, 0x00, 0x00, 0x00, 0x00, 0x00, 0x00, 0x00, 0x00, 0x00, 0x00, 0x00],
     [0x00, 0x00, 0x00, 0x00, 0x92]]"

definition UNI_0000060C_0000066A_TO_CP864 :: "nat list" where
  "UNI_0000060C_0000066A_TO_CP864 =
    table [[0xac, 0x00, 0x00, 0x00, 0x00, 0x00, 0x00, 0x00, 0x00, 0x00, 0x00, 0x00, 0x00, 0x00, 0x00, 0xbb],
     [0x00, 0x00, 0x00, 0xbf, 0x00, 0x00, 0x00, 0x00, 0x00, 0x00, 0x00, 0x00, 0x00, 0x00, 0x00, 0x00],
     [0x00, 0x00, 0x00, 0x00, 0x00, 0x00, 0x00, 0x00, 0x00, 0x00, 0x00, 0x00, 0x00, 0x00, 0x00, 0x00],
     [0x00, 0x00, 0x00, 0x00, 0xe0, 0x00, 0x00, 0x00, 0x00, 0x00, 0x00, 0x00, 0x00, 0x00, 0x00, 0x00],
     [0x00, 0x00, 0x00, 0x00, 0x00, 0xf1, 0x00, 0x00, 0x00, 0x00, 0x00, 0x00, 0x00, 0x00, 0x00, 0x00],
     [0x00, 0x00, 0x00, 0x00, 0xb0, 0xb1, 0xb2, 0xb3, 0xb4, 0xb5, 0xb6, 0xb7, 0xb8, 0xb9, 0x25]]"

definition UNI_00002219_00002248_TO_CP864 :: "nat list" where
  "UNI_00002219_00002248_TO_CP864 =
    table [[0x82, 0x83, 0x00, 0x00, 0x00, 0x91, 0x00, 0x00, 0x00, 0x00, 0x00, 0x00, 0x00, 0x00, 0x00, 0x00],
     [0x00, 0x00, 0x00, 0x00, 0x00, 0x00, 0x00, 0x00, 0x00, 0x00, 0x00, 0x00, 0x00, 0x00, 0x00, 0x00],
     [0x00, 0x00, 0x00, 0x00, 0x00, 0x00, 0x00, 0x00, 0x00, 0x00, 0x00, 0x00, 0x00, 0x00, 0x00, 0x96]]"

definition UNI_00002500_000025A0_TO_CP864 :: "nat list" where
  "UNI_00002500_000025A0_TO_CP864 =
    table [[0x85, 0x00, 0x86, 0x00, 0x00, 0x00, 0x00, 0x00, 0x00, 0x00, 0x00, 0x00, 0x8d, 0x00, 0x00, 0x00],
     [0x8c, 0x00, 0x00, 0x00, 0x8e, 0x00, 0x00, 0x00, 0x8f, 0x00, 0x00, 0x00, 0x8a, 0x00, 0x00, 0x00],
     [0x00, 0x00, 0x00, 0x00, 0x88, 0x00, 0x00, 0x00, 0x00, 0x00, 0x00, 0x00, 0x89, 0x00, 0x00, 0x00],
     [0x00, 0x00, 0x00, 0x00, 0x8b, 0x00, 0x00, 0x00, 0x00, 0x00, 0x00, 0x00, 0x87, 0x00, 0x00, 0x00],
     [0x00, 0x00, 0x00, 0x00, 0x00, 0x00, 0x00, 0x00, 0x00, 0x00, 0x00, 0x00, 0x00, 0x00, 0x00, 0x00],
     [0x00, 0x00, 0x00, 0x00, 0x00, 0x00, 0x00, 0x00, 0x00, 0x00, 0x00, 0x00, 0x00, 0x00, 0x00, 0x00],
     [0x00, 0x00, 0x00, 0x00, 0x00, 0x00, 0x00, 0x00, 0x00, 0x00, 0x00, 0x00, 0x00, 0x00, 0x00, 0x00],
     [0x00, 0x00, 0x00, 0x00, 0x00, 0x00, 0x00, 0x00, 0x00, 0x00, 0x00, 0x00, 0x00, 0x00, 0x00, 0x00],
     [0x00, 0x00, 0x00, 0x00, 0x00, 0x00, 0x00, 0x00, 0x00, 0x00, 0x00, 0x00, 0x00, 0x00, 0x00, 0x00],
     [0x00, 0x00, 0x84, 0x00, 0x00, 0x00, 0x00, 0x00, 0x00, 0x00, 0x00, 0x00, 0x00, 0x00, 0x00, 0x00],
     [0xfe]]"

definition UNI_0000FE7D_0000FEFC_TO_CP864 :: "nat list" where
  "UNI_0000FE7D_0000FEFC_TO_CP864 =
    table [[0xf0, 0x00, 0x00, 0xc1, 0xc2, 0xa2, 0xc3, 0xa5, 0xc4, 0x00, 0x00, 0x00, 0x00, 0x00, 0xc6, 0x00],
     [0xc7, 0xa8, 0xa9, 0x00, 0xc8, 0x00, 0xc9, 0x00, 0xaa, 0x00, 0xca, 0x00, 0xab, 0x00, 0xcb, 0x00],
     [0xad, 0x00, 0xcc, 0x00, 0xae, 0x00, 0xcd, 0x00, 0xaf, 0x00, 0xce, 0x00, 0xcf, 0x00, 0xd0, 0x00],
     [0xd1, 0x00, 0xd2, 0x00, 0xbc, 0x00, 0xd3, 0x00, 0xbd, 0x00, 0xd4, 0x00, 0xbe, 0x00, 0xd5, 0x00],
     [0xeb, 0x00, 0xd6, 0x00, 0xd7, 0x00, 0x00, 0x00, 0xd8, 0x00, 0x00, 0x00, 0xdf, 0xc5, 0xd9, 0xec],
     [0xee, 0xed, 0xda, 0xf7, 0xba, 0x00, 0xe1, 0x00, 0xf8, 0x00, 0xe2, 0x00, 0xfc, 0x00, 0xe3, 0x00],
     [0xfb, 0x00, 0xe4, 0x00, 0xef, 0x00, 0xe5, 0x00, 0xf2, 0x00, 0xe6, 0x00, 0xf3, 0x00, 0xe7, 0xf4],
     [0xe8, 0x00, 0xe9, 0xf5, 0xfd, 0xf6, 0xea, 0x00, 0xf9, 0xfa, 0x99, 0x9a, 0x00, 0x00, 0x9d, 0x9e]]"

definition conv_cp864_to_uni :: to_uni_func where
  "conv_cp864_to_uni = sbcs_to_uni
    [Table 0x00 0xfe CP864_00000000_000000FE_TO_UNI (Some 0xd800)]"

definition conv_uni_to_cp864 :: uni_to_func where
  "conv_uni_to_cp864 = sbcs_uni_to
    [Codes 0x0000 0x00f7 UNI_00000000_000000F7_TO_CP864 (Some 0x25),
     Codes 0x03b2 0x03c6 UNI_000003B2_000003C6_TO_CP864 (Some 0x00),
     Codes 0x060c 0x066a UNI_0000060C_0000066A_TO_CP864 (Some 0x00),
     Codes 0x2219 0x2248 UNI_00002219_00002248_TO_CP864 (Some 0x00),
     Codes 0x2500 0x25a0 UNI_00002500_000025A0_TO_CP864 (Some 0x00),
     Codes 0xfe7d 0xfefc UNI_0000FE7D_0000FEFC_TO_CP864 (Some 0x00)]"

lemmas cp864_entries = table_entries [OF CP864_00000000_000000FE_TO_UNI_def, simplified entries_simps, simplified]

lemma cp864_codec: "is_codec conv_cp864_to_uni conv_uni_to_cp864"
  unfolding conv_cp864_to_uni_def conv_uni_to_cp864_def
  by (rule sbcs_is_codec) (simp add: sbcs_simps cp864_entries
    UNI_00000000_000000F7_TO_CP864_def
    UNI_000003B2_000003C6_TO_CP864_def
    UNI_0000060C_0000066A_TO_CP864_def
    UNI_00002219_00002248_TO_CP864_def
    UNI_00002500_000025A0_TO_CP864_def
    UNI_0000FE7D_0000FEFC_TO_CP864_def)

section \<open>cp865\<close>

definition CP865_00000080_000000FF_TO_UNI :: "nat list" where
  "CP865_00000080_000000FF_TO_UNI =
    table [[0x00c7, 0x00fc, 0x00e9, 0x00e2, 0x00e4, 0x00e0, 0x00e5, 0x00e7, 0x00ea, 0x00eb, 0x00e8, 0x00ef, 0x00ee, 0x00ec, 0x00c4, 0x00c5],
     [0x00c9, 0x00e6, 0x00c6, 0x00f4, 0x00f6, 0x00f2, 0x00fb, 0x00f9, 0x00ff, 0x00d6, 0x00dc, 0x00f8, 0x00a3, 0x00d8, 0x20a7, 0x0192],
     [0x00e1, 0x00ed, 0x00f3, 0x00fa, 0x00f1, 0x00d1, 0x00aa, 0x00ba, 0x00bf, 0x2310, 0x00ac, 0x00bd, 0x00bc, 0x00a1, 0x00ab, 0x00a4],
     [0x2591, 0x2592, 0x2593, 0x2502, 0x2524, 0x2561, 0x2562, 0x2556, 0x2555, 0x2563, 0x2551, 0x2557, 0x255d, 0x255c, 0x255b, 0x2510],
     [0x2514, 0x2534, 0x252c, 0x251c, 0x2500, 0x253c, 0x255e, 0x255f, 0x255a, 0x2554, 0x2569, 0x2566, 0x2560, 0x2550, 0x256c, 0x2567],
     [0x2568, 0x2564, 0x2565, 0x2559, 0x2558, 0x2552, 0x2553, 0x256b, 0x256a, 0x2518, 0x250c, 0x2588, 0x2584, 0x258c, 0x2590, 0x2580],
     [0x03b1, 0x00df, 0x0393, 0x03c0, 0x03a3, 0x03c3, 0x00b5, 0x03c4, 0x03a6, 0x0398, 0x03a9, 0x03b4, 0x221e, 0x03c6, 0x03b5, 0x2229],
     [0x2261, 0x00b1, 0x2265, 0x2264, 0x2320, 0x2321, 0x00f7, 0x2248, 0x00b0, 0x2219, 0x00b7, 0x221a, 0x207f, 0x00b2, 0x25a0, 0x00a0]]"

definition UNI_000000A0_000000FF_TO_CP865 :: "nat list" where
  "UNI_000000A0_000000FF_TO_CP865 =
    table [[0xff, 0xad, 0x00, 0x9c, 0xaf, 0x00, 0x00, 0x00, 0x00, 0x00, 0xa6, 0xae, 0xaa, 0x00, 0x00, 0x00],
     [0xf8, 0xf1, 0xfd, 0x00, 0x00, 0xe6, 0x00, 0xfa, 0x00, 0x00, 0xa7, 0x00, 0xac, 0xab, 0x00, 0xa8],
     [0x00, 0x00, 0x00, 0x00, 0x8e, 0x8f, 0x92, 0x80, 0x00, 0x90, 0x00, 0x00, 0x00, 0x00, 0x00, 0x00],
     [0x00, 0xa5, 0x00, 0x00, 0x00, 0x00, 0x99, 0x00, 0x9d, 0x00, 0x00, 0x00, 0x9a, 0x00, 0x00, 0xe1],
     [0x85, 0xa0, 0x83, 0x00, 0x84, 0x86, 0x91, 0x87, 0x8a, 0x82, 0x88, 0x89, 0x8d, 0xa1, 0x8c, 0x8b],
     [0x00, 0xa4, 0x95, 0xa2, 0x93, 0x00, 0x94, 0xf6, 0x9b, 0x97, 0xa3, 0x96, 0x81, 0x00, 0x00, 0x98]]"

definition UNI_00000393_000003C6_TO_CP865 :: "nat list" where
  "UNI_00000393_000003C6_TO_CP865 =
    table [[0xe2, 0x00, 0x00, 0x00, 0x00, 0xe9, 0x00, 0x00, 0x00, 0x00, 0x00, 0x00, 0x00, 0x00, 0x00, 0x00],
     [0xe4, 0x00, 0x00, 0xe8, 0x00, 0x00, 0xea, 0x00, 0x00, 0x00, 0x00, 0x00, 0x00, 0x00, 0xe0, 0x00],
     [0x00, 0xeb, 0xee, 0x00, 0x00, 0x00, 0x00, 0x00, 0x00, 0x00, 0x00, 0x00, 0x00, 0xe3, 0x00, 0x00],
     [0xe5, 0xe7, 0x00, 0xed]]"

definition UNI_0000207F_000020A7_TO_CP865 :: "nat list" where
  "UNI_0000207F_000020A7_TO_CP865 =
    table [[0xfc, 0x00, 0x00, 0x00, 0x00, 0x00, 0x00, 0x00, 0x00, 0x00, 0x00, 0x00, 0x00, 0x00, 0x00, 0x00],
     [0x00, 0x00, 0x00, 0x00, 0x00, 0x00, 0x00, 0x00, 0x00, 0x00, 0x00, 0x00, 0x00, 0x00, 0x00, 0x00],
     [0x00, 0x00, 0x00, 0x00, 0x00, 0x00, 0x00, 0x00, 0x9e]]"

definition UNI_00002219_00002265_TO_CP865 :: "nat list" where
  "UNI_00002219_00002265_TO_CP865 =
    table [[0xf9, 0xfb, 0x00, 0x00, 0x00, 0xec, 0x00, 0x00, 0x00, 0x00, 0x00, 0x00, 0x00, 0x00, 0x00, 0x00],
     [0xef, 0x00, 0x00, 0x00, 0x00, 0x00, 0x00, 0x00, 0x00, 0x00, 0x00, 0x00, 0x00, 0x00, 0x00, 0x00],
     [0x00, 0x00, 0x00, 0x00, 0x00, 0x00, 0x00, 0x00, 0x00, 0x00, 0x00, 0x00, 0x00, 0x00, 0x00, 0xf7],
     [0x00, 0x00, 0x00, 0x00, 0x00, 0x00, 0x00, 0x00, 0x00, 0x00, 0x00, 0x00, 0x00, 0x00, 0x00, 0x00],
     [0x00, 0x00, 0x00, 0x00, 0x00, 0x00, 0x00, 0x00, 0xf0, 0x00, 0x00, 0xf3, 0xf2]]"

definition UNI_00002310_00002321_TO_CP865 :: "nat list" where
  "UNI_00002310_00002321_TO_CP865 =
    table [[0xa9, 0x00, 0x00, 0x00, 0x00, 0x00, 0x00, 0x00, 0x00, 0x00, 0x00, 0x00, 0x00, 0x00, 0x00, 0x00],
     [0xf4, 0xf5]]"

definition UNI_00002500_000025A0_TO_CP865 :: "nat list" where
  "UNI_00002500_000025A0_TO_CP865 =
    table [[0xc4, 0x00, 0xb3, 0x00, 0x00, 0x00, 0x00, 0x00, 0x00, 0x00, 0x00, 0x00, 0xda, 0x00, 0x00, 0x00],
     [0xbf, 0x00, 0x00, 0x00, 0xc0, 0x00, 0x00, 0x00, 0xd9, 0x00, 0x00, 0x00, 0xc3, 0x00, 0x00, 0x00],
     [0x00, 0x00, 0x00, 0x00, 0xb4, 0x00, 0x00, 0x00, 0x00, 0x00, 0x00, 0x00, 0xc2, 0x00, 0x00, 0x00],
     [0x00, 0x00, 0x00, 0x00, 0xc1, 0x00, 0x00, 0x00, 0x00, 0x00, 0x00, 0x00, 0xc5, 0x00, 0x00, 0x00],
     [0x00, 0x00, 0x00, 0x00, 0x00, 0x00, 0x00, 0x00, 0x00, 0x00, 0x00, 0x00, 0x00, 0x00, 0x00, 0x00],
     [0xcd, 0xba, 0xd5, 0xd6, 0xc9, 0xb8, 0xb7, 0xbb, 0xd4, 0xd3, 0xc8, 0xbe, 0xbd, 0xbc, 0xc6, 0xc7],
     [0xcc, 0xb5, 0xb6, 0xb9, 0xd1, 0xd2, 0xcb, 0xcf, 0xd0, 0xca, 0xd8, 0xd7, 0xce, 0x00, 0x00, 0x00],
     [0x00, 0x00, 0x00, 0x00, 0x00, 0x00, 0x00, 0x00, 0x00, 0x00, 0x00, 0x00, 0x00, 0x00, 0x00, 0x00],
     [0xdf, 0x00, 0x00, 0x00, 0xdc, 0x00, 0x00, 0x00, 0xdb, 0x00, 0x00, 0x00, 0xdd, 0x00, 0x00, 0x00],
     [0xde, 0xb0, 0xb1, 0xb2, 0x00, 0x00, 0x00, 0x00, 0x00, 0x00, 0x00, 0x00, 0x00, 0x00, 0x00, 0x00],
     [0xfe]]"

definition conv_cp865_to_uni :: to_uni_func where
  "conv_cp865_to_uni = sbcs_to_uni
    [Same 0x7f,
     Table 0x80 0xff CP865_00000080_000000FF_TO_UNI None]"

definition conv_uni_to_cp865 :: uni_to_func where
  "conv_uni_to_cp865 = sbcs_uni_to
    [Upto 0x7f,
     Codes 0x00a0 0x00ff UNI_000000A0_000000FF_TO_CP865 (Some 0x00),
     Single 0x0192 0x9f,
     Codes 0x0393 0x03c6 UNI_00000393_000003C6_TO_CP865 (Some 0x00),
     Codes 0x207f 0x20a7 UNI_0000207F_000020A7_TO_CP865 (Some 0x00),
     Codes 0x2219 0x2265 UNI_00002219_00002265_TO_CP865 (Some 0x00),
     Codes 0x2310 0x2321 UNI_00002310_00002321_TO_CP865 (Some 0x00),
     Codes 0x2500 0x25a0 UNI_00002500_000025A0_TO_CP865 (Some 0x00)]"

lemmas cp865_entries = table_entries [OF CP865_00000080_000000FF_TO_UNI_def, simplified entries_simps, simplified]

lemma cp865_codec: "is_codec conv_cp865_to_uni conv_uni_to_cp865"
  unfolding conv_cp865_to_uni_def conv_uni_to_cp865_def
  by (rule sbcs_is_codec) (simp add: sbcs_simps cp865_entries
    UNI_000000A0_000000FF_TO_CP865_def
    UNI_00000393_000003C6_TO_CP865_def
    UNI_0000207F_000020A7_TO_CP865_def
    UNI_00002219_00002265_TO_CP865_def
    UNI_00002310_00002321_TO_CP865_def
    UNI_00002500_000025A0_TO_CP865_def)

section \<open>cp866\<close>

definition CP866_00000080_000000FF_TO_UNI :: "nat list" where
  "CP866_00000080_000000FF_TO_UNI =
    table [[0x0410, 0x0411, 0x0412, 0x0413, 0x0414, 0x0415, 0x0416, 0x0417, 0x0418, 0x0419, 0x041a, 0x041b, 0x041c, 0x041d, 0x041e, 0x041f],
     [0x0420, 0x0421, 0x0422, 0x0423, 0x0424, 0x0425, 0x0426, 0x0427, 0x0428, 0x0429, 0x042a, 0x042b, 0x042c, 0x042d, 0x042e, 0x042f],
     [0x0430, 0x0431, 0x0432, 0x0433, 0x0434, 0x0435, 0x0436, 0x0437, 0x0438, 0x0439, 0x043a, 0x043b, 0x043c, 0x043d, 0x043e, 0x043f],
     [0x2591, 0x2592, 0x2593, 0x2502, 0x2524, 0x2561, 0x2562, 0x2556, 0x2555, 0x2563, 0x2551, 0x2557, 0x255d, 0x255c, 0x255b, 0x2510],
     [0x2514, 0x2534, 0x252c, 0x251c, 0x2500, 0x253c, 0x255e, 0x255f, 0x255a, 0x2554, 0x2569, 0x2566, 0x2560, 0x2550, 0x256c, 0x2567],
     [0x2568, 0x2564, 0x2565, 0x2559, 0x2558, 0x2552, 0x2553, 0x256b, 0x256a, 0x2518, 0x250c, 0x2588, 0x2584, 0x258c, 0x2590, 0x2580],
     [0x0440, 0x0441, 0x0442, 0x0443, 0x0444, 0x0445, 0x0446, 0x0447, 0x0448, 0x0449, 0x044a, 0x044b, 0x044c, 0x044d, 0x044e, 0x044f],
     [0x0401, 0x0451, 0x0404, 0x0454, 0x0407, 0x0457, 0x040e, 0x045e, 0x00b0, 0x2219, 0x00b7, 0x221a, 0x2116, 0x00a4, 0x25a0, 0x00a0]]"

definition UNI_000000A0_000000B7_TO_CP866 :: "nat list" where
  "UNI_000000A0_000000B7_TO_CP866 =
    table [[0xff, 0x00, 0x00, 0x00, 0xfd, 0x00, 0x00, 0x00, 0x00, 0x00, 0x00, 0x00, 0x00, 0x00, 0x00, 0x00],
     [0xf8, 0x00, 0x00, 0x00, 0x00, 0x00, 0x00, 0xfa]]"

definition UNI_00000401_0000045E_TO_CP866 :: "nat list" where
  "UNI_00000401_0000045E_TO_CP866 =
    table [[0xf0, 0x00, 0x00, 0xf2, 0x00, 0x00, 0xf4, 0x00, 0x00, 0x00, 0x00, 0x00, 0x00, 0xf6, 0x00, 0x80],
     [0x81, 0x82, 0x83, 0x84, 0x85, 0x86, 0x87, 0x88, 0x89, 0x8a, 0x8b, 0x8c, 0x8d, 0x8e, 0x8f, 0x90],
     [0x91, 0x92, 0x93, 0x94, 0x95, 0x96, 0x97, 0x98, 0x99, 0x9a, 0x9b, 0x9c, 0x9d, 0x9e, 0x9f, 0xa0],
     [0xa1, 0xa2, 0xa3, 0xa4, 0xa5, 0xa6, 0xa7, 0xa8, 0xa9, 0xaa, 0xab, 0xac, 0xad, 0xae, 0xaf, 0xe0],
     [0xe1, 0xe2, 0xe3, 0xe4, 0xe5, 0xe6, 0xe7, 0xe8, 0xe9, 0xea, 0xeb, 0xec, 0xed, 0xee, 0xef, 0x00],
     [0xf1, 0x00, 0x00, 0xf3, 0x00, 0x00, 0xf5, 0x00, 0x00, 0x00, 0x00, 0x00, 0x00, 0xf7]]"

definition UNI_00002219_0000221A_TO_CP866 :: "nat list" where
  "UNI_00002219_0000221A_TO_CP866 =
    table [[0xf9, 0xfb]]"

definition UNI_00002500_000025A0_TO_CP866 :: "nat list" where
  "UNI_00002500_000025A0_TO_CP866 =
    table [[0xc4, 0x00, 0xb3, 0x00, 0x00, 0x00, 0x00, 0x00, 0x00, 0x00, 0x00, 0x00, 0xda, 0x00, 0x00, 0x00],
     [0xbf, 0x00, 0x00, 0x00, 0xc0, 0x00, 0x00, 0x00, 0xd9, 0x00, 0x00, 0x00, 0xc3, 0x00, 0x00, 0x00],
     [0x00, 0x00, 0x00, 0x00, 0xb4, 0x00, 0x00, 0x00, 0x00, 0x00, 0x00, 0x00, 0xc2, 0x00, 0x00, 0x00],
     [0x00, 0x00, 0x00, 0x00, 0xc1, 0x00, 0x00, 0x00, 0x00, 0x00, 0x00, 0x00, 0xc5, 0x00, 0x00, 0x00],
     [0x00, 0x00, 0x00, 0x00, 0x00, 0x00, 0x00, 0x00, 0x00, 0x00, 0x00, 0x00, 0x00, 0x00, 0x00, 0x00],
     [0xcd, 0xba, 0xd5, 0xd6, 0xc9, 0xb8, 0xb7, 0xbb, 0xd4, 0xd3, 0xc8, 0xbe, 0xbd, 0xbc, 0xc6, 0xc7],
     [0xcc, 0xb5, 0xb6, 0xb9, 0xd1, 0xd2, 0xcb, 0xcf, 0xd0, 0xca, 0xd8, 0xd7, 0xce, 0x00, 0x00, 0x00],
     [0x00, 0x00, 0x00, 0x00, 0x00, 0x00, 0x00, 0x00, 0x00, 0x00, 0x00, 0x00, 0x00, 0x00, 0x00, 0x00],
     [0xdf, 0x00, 0x00, 0x00, 0xdc, 0x00, 0x00, 0x00, 0xdb, 0x00, 0x00, 0x00, 0xdd, 0x00, 0x00, 0x00],
     [0xde, 0xb0, 0xb1, 0xb2, 0x00, 0x00, 0x00, 0x00, 0x00, 0x00, 0x00, 0x00, 0x00, 0x00, 0x00, 0x00],
     [0xfe]]"

definition conv_cp866_to_uni :: to_uni_func where
  "conv_cp866_to_uni = sbcs_to_uni
    [Same 0x7f,
     Table 0x80 0xff CP866_00000080_000000FF_TO_UNI None]"

definition conv_uni_to_cp866 :: uni_to_func where
  "conv_uni_to_cp866 = sbcs_uni_to
    [Upto 0x7f,
     Codes 0x00a0 0x00b7 UNI_000000A0_000000B7_TO_CP866 (Some 0x00),
     Codes 0x0401 0x045e UNI_00000401_0000045E_TO_CP866 (Some 0x00),
     Single 0x2116 0xfc,
     Codes 0x2219 0x221a UNI_00002219_0000221A_TO_CP866 None,
     Codes 0x2500 0x25a0 UNI_00002500_000025A0_TO_CP866 (Some 0x00)]"

lemmas cp866_entries = table_entries [OF CP866_00000080_000000FF_TO_UNI_def, simplified entries_simps, simplified]

lemma cp866_codec: "is_codec conv_cp866_to_uni conv_uni_to_cp866"
  unfolding conv_cp866_to_uni_def conv_uni_to_cp866_def
  by (rule sbcs_is_codec) (simp add: sbcs_simps cp866_entries
    UNI_000000A0_000000B7_TO_CP866_def
    UNI_00000401_0000045E_TO_CP866_def
    UNI_00002219_0000221A_TO_CP866_def
    UNI_00002500_000025A0_TO_CP866_def)

section \<open>cp869\<close>

definition CP869_00000086_000000FF_TO_UNI :: "nat list" where
  "CP869_00000086_000000FF_TO_UNI =
    table [[0x0386, 0xd800, 0x00b7, 0x00ac, 0x00a6, 0x2018, 0x2019, 0x0388, 0x2015, 0x0389, 0x038a, 0x03aa, 0x038c, 0xd800, 0xd800, 0x038e],
     [0x03ab, 0x00a9, 0x038f, 0x00b2, 0x00b3, 0x03ac, 0x00a3, 0x03ad, 0x03ae, 0x03af, 0x03ca, 0x0390, 0x03cc, 0x03cd, 0x0391, 0x0392],
     [0x0393, 0x0394, 0x0395, 0x0396, 0x0397, 0x00bd, 0x0398, 0x0399, 0x00ab, 0x00bb, 0x2591, 0x2592, 0x2593, 0x2502, 0x2524, 0x039a],
     [0x039b, 0x039c, 0x039d, 0x2563, 0x2551, 0x2557, 0x255d, 0x039e, 0x039f, 0x2510, 0x2514, 0x2534, 0x252c, 0x251c, 0x2500, 0x253c],
     [0x03a0, 0x03a1, 0x255a, 0x2554, 0x2569, 0x2566, 0x2560, 0x2550, 0x256c, 0x03a3, 0x03a4, 0x03a5, 0x03a6, 0x03a7, 0x03a8, 0x03a9],
     [0x03b1, 0x03b2, 0x03b3, 0x2518, 0x250c, 0x2588, 0x2584, 0x03b4, 0x03b5, 0x2580, 0x03b6, 0x03b7, 0x03b8, 0x03b9, 0x03ba, 0x03bb],
     [0x03bc, 0x03bd, 0x03be, 0x03bf, 0x03c0, 0x03c1, 0x03c3, 0x03c2, 0x03c4, 0x0384, 0x00ad, 0x00b1, 0x03c5, 0x03c6, 0x03c7, 0x00a7],
     [0x03c8, 0x0385, 0x00b0, 0x00a8, 0x03c9, 0x03cb, 0x03b0, 0x03ce, 0x25a0, 0x00a0]]"

definition UNI_000000A0_000000BD_TO_CP869 :: "nat list" where
  "UNI_000000A0_000000BD_TO_CP869 =
    table [[0xff, 0x00, 0x00, 0x9c, 0x00, 0x00, 0x8a, 0xf5, 0xf9, 0x97, 0x00, 0xae, 0x89, 0xf0, 0x00, 0x00],
     [0xf8, 0xf1, 0x99, 0x9a, 0x00, 0x00, 0x00, 0x88, 0x00, 0x00, 0x00, 0xaf, 0x00, 0xab]]"

definition UNI_00000384_000003CE_TO_CP869 :: "nat list" where
  "UNI_00000384_000003CE_TO_CP869 =
    table [[0xef, 0xf7, 0x86, 0x00, 0x8d, 0x8f, 0x90, 0x00, 0x92, 0x00, 0x95, 0x98, 0xa1, 0xa4, 0xa5, 0xa6],
     [0xa7, 0xa8, 0xa9, 0xaa, 0xac, 0xad, 0xb5, 0xb6, 0xb7, 0xb8, 0xbd, 0xbe, 0xc6, 0xc7, 0x00, 0xcf],
     [0xd0, 0xd1, 0xd2, 0xd3, 0xd4, 0xd5, 0x91, 0x96, 0x9b, 0x9d, 0x9e, 0x9f, 0xfc, 0xd6, 0xd7, 0xd8],
     [0xdd, 0xde, 0xe0, 0xe1, 0xe2, 0xe3, 0xe4, 0xe5, 0xe6, 0xe7, 0xe8, 0xe9, 0xea, 0xeb, 0xed, 0xec],
     [0xee, 0xf2, 0xf3, 0xf4, 0xf6, 0xfa, 0xa0, 0xfb, 0xa2, 0xa3, 0xfd]]"

definition UNI_00002015_00002019_TO_CP869 :: "nat list" where
  "UNI_00002015_00002019_TO_CP869 =
    table [[0x8e, 0x00, 0x00, 0x8b, 0x8c]]"

definition UNI_00002500_000025A0_TO_CP869 :: "nat list" where
  "UNI_00002500_000025A0_TO_CP869 =
    table [[0xc4, 0x00, 0xb3, 0x00, 0x00, 0x00, 0x00, 0x00, 0x00, 0x00, 0x00, 0x00, 0xda, 0x00, 0x00, 0x00],
     [0xbf, 0x00, 0x00, 0x00, 0xc0, 0x00, 0x00, 0x00, 0xd9, 0x00, 0x00, 0x00, 0xc3, 0x00, 0x00, 0x00],
     [0x00, 0x00, 0x00, 0x00, 0xb4, 0x00, 0x00, 0x00, 0x00, 0x00, 0x00, 0x00, 0xc2, 0x00, 0x00, 0x00],
     [0x00, 0x00, 0x00, 0x00, 0xc1, 0x00, 0x00, 0x00, 0x00, 0x00, 0x00, 0x00, 0xc5, 0x00, 0x00, 0x00],
     [0x00, 0x00, 0x00, 0x00, 0x00, 0x00, 0x00, 0x00, 0x00, 0x00, 0x00, 0x00, 0x00, 0x00, 0x00, 0x00],
     [0xcd, 0xba, 0x00, 0x00, 0xc9, 0x00, 0x00, 0xbb, 0x00, 0x00, 0xc8, 0x00, 0x00, 0xbc, 0x00, 0x00],
     [0xcc, 0x00, 0x00, 0xb9, 0x00, 0x00, 0xcb, 0x00, 0x00, 0xca, 0x00, 0x00, 0xce, 0x00, 0x00, 0x00],
     [0x00, 0x00, 0x00, 0x00, 0x00, 0x00, 0x00, 0x00, 0x00, 0x00, 0x00, 0x00, 0x00, 0x00, 0x00, 0x00],
     [0xdf, 0x00, 0x00, 0x00, 0xdc, 0x00, 0x00, 0x00, 0xdb, 0x00, 0x00, 0x00, 0x00, 0x00, 0x00, 0x00],
     [0x00, 0xb0, 0xb1, 0xb2, 0x00, 0x00, 0x00, 0x00, 0x00, 0x00, 0x00, 0x00, 0x00, 0x00, 0x00, 0x00],
     [0xfe]]"

definition conv_cp869_to_uni :: to_uni_func where
  "conv_cp869_to_uni = sbcs_to_uni
    [Same 0x7f,
     Table 0x86 0xff CP869_00000086_000000FF_TO_UNI (Some 0xd800)]"

definition conv_uni_to_cp869 :: uni_to_func where
  "conv_uni_to_cp869 = sbcs_uni_to
    [Upto 0x7f,
     Codes 0x00a0 0x00bd UNI_000000A0_000000BD_TO_CP869 (Some 0x00),
     Codes 0x0384 0x03ce UNI_00000384_000003CE_TO_CP869 (Some 0x00),
     Codes 0x2015 0x2019 UNI_00002015_00002019_TO_CP869 (Some 0x00),
     Codes 0x2500 0x25a0 UNI_00002500_000025A0_TO_CP869 (Some 0x00)]"

lemmas cp869_entries = table_entries [OF CP869_00000086_000000FF_TO_UNI_def, simplified entries_simps, simplified]

lemma cp869_codec: "is_codec conv_cp869_to_uni conv_uni_to_cp869"
  unfolding conv_cp869_to_uni_def conv_uni_to_cp869_def
  by (rule sbcs_is_codec) (simp add: sbcs_simps cp869_entries
    UNI_000000A0_000000BD_TO_CP869_def
    UNI_00000384_000003CE_TO_CP869_def
    UNI_00002015_00002019_TO_CP869_def
    UNI_00002500_000025A0_TO_CP869_def)

section \<open>cp874\<close>

definition CP874_00000080_000000FB_TO_UNI :: "nat list" where
  "CP874_00000080_000000FB_TO_UNI =
    table [[0x20ac, 0xd800, 0xd800, 0xd800, 0xd800, 0x2026, 0xd800, 0xd800, 0xd800, 0xd800, 0xd800, 0xd800, 0xd800, 0xd800, 0xd800, 0xd800],
     [0xd800, 0x2018, 0x2019, 0x201c, 0x201d, 0x2022, 0x2013, 0x2014, 0xd800, 0xd800, 0xd800, 0xd800, 0xd800, 0xd800, 0xd800, 0xd800],
     [0x00a0, 0x0e01, 0x0e02, 0x0e03, 0x0e04, 0x0e05, 0x0e06, 0x0e07, 0x0e08, 0x0e09, 0x0e0a, 0x0e0b, 0x0e0c, 0x0e0d, 0x0e0e, 0x0e0f],
     [0x0e10, 0x0e11, 0x0e12, 0x0e13, 0x0e14, 0x0e15, 0x0e16, 0x0e17, 0x0e18, 0x0e19, 0x0e1a, 0x0e1b, 0x0e1c, 0x0e1d, 0x0e1e, 0x0e1f],
     [0x0e20, 0x0e21, 0x0e22, 0x0e23, 0x0e24, 0x0e25, 0x0e26, 0x0e27, 0x0e28, 0x0e29, 0x0e2a, 0x0e2b, 0x0e2c, 0x0e2d, 0x0e2e, 0x0e2f],
     [0x0e30, 0x0e31, 0x0e32, 0x0e33, 0x0e34, 0x0e35, 0x0e36, 0x0e37, 0x0e38, 0x0e39, 0x0e3a, 0xd800, 0xd800, 0xd800, 0xd800, 0x0e3f],
     [0x0e40, 0x0e41, 0x0e42, 0x0e43, 0x0e44, 0x0e45, 0x0e46, 0x0e47, 0x0e48, 0x0e49, 0x0e4a, 0x0e4b, 0x0e4c, 0x0e4d, 0x0e4e, 0x0e4f],
     [0x0e50, 0x0e51, 0x0e52, 0x0e53, 0x0e54, 0x0e55, 0x0e56, 0x0e57, 0x0e58, 0x0e59, 0x0e5a, 0x0e5b]]"

definition UNI_00000E01_00000E5B_TO_CP874 :: "nat list" where
  "UNI_00000E01_00000E5B_TO_CP874 =
    table [[0xa1, 0xa2, 0xa3, 0xa4, 0xa5, 0xa6, 0xa7, 0xa8, 0xa9, 0xaa, 0xab, 0xac, 0xad, 0xae, 0xaf, 0xb0],
     [0xb1, 0xb2, 0xb3, 0xb4, 0xb5, 0xb6, 0xb7, 0xb8, 0xb9, 0xba, 0xbb, 0xbc, 0xbd, 0xbe, 0xbf, 0xc0],
     [0xc1, 0xc2, 0xc3, 0xc4, 0xc5, 0xc6, 0xc7, 0xc8, 0xc9, 0xca, 0xcb, 0xcc, 0xcd, 0xce, 0xcf, 0xd0],
     [0xd1, 0xd2, 0xd3, 0xd4, 0xd5, 0xd6, 0xd7, 0xd8, 0xd9, 0xda, 0x00, 0x00, 0x00, 0x00, 0xdf, 0xe0],
     [0xe1, 0xe2, 0xe3, 0xe4, 0xe5, 0xe6, 0xe7, 0xe8, 0xe9, 0xea, 0xeb, 0xec, 0xed, 0xee, 0xef, 0xf0],
     [0xf1, 0xf2, 0xf3, 0xf4, 0xf5, 0xf6, 0xf7, 0xf8, 0xf9, 0xfa, 0xfb]]"

definition UNI_00002013_00002026_TO_CP874 :: "nat list" where
  "UNI_00002013_00002026_TO_CP874 =
    table [[0x96, 0x97, 0x00, 0x00, 0x00, 0x91, 0x92, 0x00, 0x00, 0x93, 0x94, 0x00, 0x00, 0x00, 0x00, 0x95],
     [0x00, 0x00, 0x00, 0x85]]"

definition conv_cp874_to_uni :: to_uni_func where
  "conv_cp874_to_uni = sbcs_to_uni
    [Same 0x7f,
     Table 0x80 0xfb CP874_00000080_000000FB_TO_UNI (Some 0xd800)]"

definition conv_uni_to_cp874 :: uni_to_func where
  "conv_uni_to_cp874 = sbcs_uni_to
    [Upto 0x7f,
     Single 0x00a0 0xa0,
     Codes 0x0e01 0x0e5b UNI_00000E01_00000E5B_TO_CP874 (Some 0x00),
     Codes 0x2013 0x2026 UNI_00002013_00002026_TO_CP874 (Some 0x00),
     Single 0x20ac 0x80]"

lemmas cp874_entries = table_entries [OF CP874_00000080_000000FB_TO_UNI_def, simplified entries_simps, simplified]

lemma cp874_codec: "is_codec conv_cp874_to_uni conv_uni_to_cp874"
  unfolding conv_cp874_to_uni_def conv_uni_to_cp874_def
  by (rule sbcs_is_codec) (simp add: sbcs_simps cp874_entries
    UNI_00000E01_00000E5B_TO_CP874_def
    UNI_00002013_00002026_TO_CP874_def)

end
