(* ===== verification/Charset_Misc.thy ===== *)
theory Charset_Misc
  imports Charset
begin

text \<open>
  KOI8, KZ-1048 and NEXTSTEP: the tables and the branches of \<^verbatim>\<open>src/charset/\<close>, one header per set, and for every set
  the proof that its encoder writes only what its decoder reads back.
\<close>

section \<open>koi8-r\<close>

definition KOI8_R_00000080_000000FF_TO_UNI :: "nat list" where
  "KOI8_R_00000080_000000FF_TO_UNI =
    table [[0x2500, 0x2502, 0x250c, 0x2510, 0x2514, 0x2518, 0x251c, 0x2524, 0x252c, 0x2534, 0x253c, 0x2580, 0x2584, 0x2588, 0x258c, 0x2590],
     [0x2591, 0x2592, 0x2593, 0x2320, 0x25a0, 0x2219, 0x221a, 0x2248, 0x2264, 0x2265, 0x00a0, 0x2321, 0x00b0, 0x00b2, 0x00b7, 0x00f7],
     [0x2550, 0x2551, 0x2552, 0x0451, 0x2553, 0x2554, 0x2555, 0x2556, 0x2557, 0x2558, 0x2559, 0x255a, 0x255b, 0x255c, 0x255d, 0x255e],
     [0x255f, 0x2560, 0x2561, 0x0401, 0x2562, 0x2563, 0x2564, 0x2565, 0x2566, 0x2567, 0x2568, 0x2569, 0x256a, 0x256b, 0x256c, 0x00a9],
     [0x044e, 0x0430, 0x0431, 0x0446, 0x0434, 0x0435, 0x0444, 0x0433, 0x0445, 0x0438, 0x0439, 0x043a, 0x043b, 0x043c, 0x043d, 0x043e],
     [0x043f, 0x044f, 0x0440, 0x0441, 0x0442, 0x0443, 0x0436, 0x0432, 0x044c, 0x044b, 0x0437, 0x0448, 0x044d, 0x0449, 0x0447, 0x044a],
     [0x042e, 0x0410, 0x0411, 0x0426, 0x0414, 0x0415, 0x0424, 0x0413, 0x0425, 0x0418, 0x0419, 0x041a, 0x041b, 0x041c, 0x041d, 0x041e],
     [0x041f, 0x042f, 0x0420, 0x0421, 0x0422, 0x0423, 0x0416, 0x0412, 0x042c, 0x042b, 0x0417, 0x0428, 0x042d, 0x0429, 0x0427, 0x042a]]"

definition UNI_000000A0_000000F7_TO_KOI8_R :: "nat list" where
  "UNI_000000A0_000000F7_TO_KOI8_R =
    table [[0x9a, 0x00, 0x00, 0x00, 0x00, 0x00, 0x00, 0x00, 0x00, 0xbf, 0x00, 0x00, 0x00, 0x00, 0x00, 0x00],
     [0x9c, 0x00, 0x9d, 0x00, 0x00, 0x00, 0x00, 0x9e, 0x00, 0x00, 0x00, 0x00, 0x00, 0x00, 0x00, 0x00],
     [0x00, 0x00, 0x00, 0x00, 0x00, 0x00, 0x00, 0x00, 0x00, 0x00, 0x00, 0x00, 0x00, 0x00, 0x00, 0x00],
     [0x00, 0x00, 0x00, 0x00, 0x00, 0x00, 0x00, 0x00, 0x00, 0x00, 0x00, 0x00, 0x00, 0x00, 0x00, 0x00],
     [0x00, 0x00, 0x00, 0x00, 0x00, 0x00, 0x00, 0x00, 0x00, 0x00, 0x00, 0x00, 0x00, 0x00, 0x00, 0x00],
     [0x00, 0x00, 0x00, 0x00, 0x00, 0x00, 0x00, 0x9f]]"

definition UNI_00000401_00000451_TO_KOI8_R :: "nat list" where
  "UNI_00000401_00000451_TO_KOI8_R =
    table [[0xb3, 0x00, 0x00, 0x00, 0x00, 0x00, 0x00, 0x00, 0x00, 0x00, 0x00, 0x00, 0x00, 0x00, 0x00, 0xe1],
     [0xe2, 0xf7, 0xe7, 0xe4, 0xe5, 0xf6, 0xfa, 0xe9, 0xea, 0xeb, 0xec, 0xed, 0xee, 0xef, 0xf0, 0xf2],
     [0xf3, 0xf4, 0xf5, 0xe6, 0xe8, 0xe3, 0xfe, 0xfb, 0xfd, 0xff, 0xf9, 0xf8, 0xfc, 0xe0, 0xf1, 0xc1],
     [0xc2, 0xd7, 0xc7, 0xc4, 0xc5, 0xd6, 0xda, 0xc9, 0xca, 0xcb, 0xcc, 0xcd, 0xce, 0xcf, 0xd0, 0xd2],
     [0xd3, 0xd4, 0xd5, 0xc6, 0xc8, 0xc3, 0xde, 0xdb, 0xdd, 0xdf, 0xd9, 0xd8, 0xdc, 0xc0, 0xd1, 0x00],
     [0xa3]]"

definition UNI_00002219_00002265_TO_KOI8_R :: "nat list" where
  "UNI_00002219_00002265_TO_KOI8_R =
    table [[0x95, 0x96, 0x00, 0x00, 0x00, 0x00, 0x00, 0x00, 0x00, 0x00, 0x00, 0x00, 0x00, 0x00, 0x00, 0x00],
     [0x00, 0x00, 0x00, 0x00, 0x00, 0x00, 0x00, 0x00, 0x00, 0x00, 0x00, 0x00, 0x00, 0x00, 0x00, 0x00],
     [0x00, 0x00, 0x00, 0x00, 0x00, 0x00, 0x00, 0x00, 0x00, 0x00, 0x00, 0x00, 0x00, 0x00, 0x00, 0x97],
     [0x00, 0x00, 0x00, 0x00, 0x00, 0x00, 0x00, 0x00, 0x00, 0x00, 0x00, 0x00, 0x00, 0x00, 0x00, 0x00],
     [0x00, 0x00, 0x00, 0x00, 0x00, 0x00, 0x00, 0x00, 0x00, 0x00, 0x00, 0x98, 0x99]]"

definition UNI_00002320_00002321_TO_KOI8_R :: "nat list" where
  "UNI_00002320_00002321_TO_KOI8_R =
    table [[0x93, 0x9b]]"

definition UNI_00002500_000025A0_TO_KOI8_R :: "nat list" where
  "UNI_00002500_000025A0_TO_KOI8_R =
    table [[0x80, 0x00, 0x81, 0x00, 0x00, 0x00, 0x00, 0x00, 0x00, 0x00, 0x00, 0x00, 0x82, 0x00, 0x00, 0x00],
     [0x83, 0x00, 0x00, 0x00, 0x84, 0x00, 0x00, 0x00, 0x85, 0x00, 0x00, 0x00, 0x86, 0x00, 0x00, 0x00],
     [0x00, 0x00, 0x00, 0x00, 0x87, 0x00, 0x00, 0x00, 0x00, 0x00, 0x00, 0x00, 0x88, 0x00, 0x00, 0x00],
     [0x00, 0x00, 0x00, 0x00, 0x89, 0x00, 0x00, 0x00, 0x00, 0x00, 0x00, 0x00, 0x8a, 0x00, 0x00, 0x00],
     [0x00, 0x00, 0x00, 0x00, 0x00, 0x00, 0x00, 0x00, 0x00, 0x00, 0x00, 0x00, 0x00, 0x00, 0x00, 0x00],
     [0xa0, 0xa1, 0xa2, 0xa4, 0xa5, 0xa6, 0xa7, 0xa8, 0xa9, 0xaa, 0xab, 0xac, 0xad, 0xae, 0xaf, 0xb0],
     [0xb1, 0xb2, 0xb4, 0xb5, 0xb6, 0xb7, 0xb8, 0xb9, 0xba, 0xbb, 0xbc, 0xbd, 0xbe, 0x00, 0x00, 0x00],
     [0x00, 0x00, 0x00, 0x00, 0x00, 0x00, 0x00, 0x00, 0x00, 0x00, 0x00, 0x00, 0x00, 0x00, 0x00, 0x00],
     [0x8b, 0x00, 0x00, 0x00, 0x8c, 0x00, 0x00, 0x00, 0x8d, 0x00, 0x00, 0x00, 0x8e, 0x00, 0x00, 0x00],
     [0x8f, 0x90, 0x91, 0x92, 0x00, 0x00, 0x00, 0x00, 0x00, 0x00, 0x00, 0x00, 0x00, 0x00, 0x00, 0x00],
     [0x94]]"

definition conv_koi8_r_to_uni :: to_uni_func where
  "conv_koi8_r_to_uni = sbcs_to_uni
    [Same 0x7f,
     Table 0x80 0xff KOI8_R_00000080_000000FF_TO_UNI None]"

definition conv_uni_to_koi8_r :: uni_to_func where
  "conv_uni_to_koi8_r = sbcs_uni_to
    [Upto 0x7f,
     Codes 0x00a0 0x00f7 UNI_000000A0_000000F7_TO_KOI8_R (Some 0x00),
     Codes 0x0401 0x0451 UNI_00000401_00000451_TO_KOI8_R (Some 0x00),
     Codes 0x2219 0x2265 UNI_00002219_00002265_TO_KOI8_R (Some 0x00),
     Codes 0x2320 0x2321 UNI_00002320_00002321_TO_KOI8_R None,
     Codes 0x2500 0x25a0 UNI_00002500_000025A0_TO_KOI8_R (Some 0x00)]"

lemmas koi8_r_entries = table_entries [OF KOI8_R_00000080_000000FF_TO_UNI_def, simplified entries_simps, simplified]

lemma koi8_r_codec: "is_codec conv_koi8_r_to_uni conv_uni_to_koi8_r"
  unfolding conv_koi8_r_to_uni_def conv_uni_to_koi8_r_def
  by (rule sbcs_is_codec) (simp add: sbcs_simps koi8_r_entries
    UNI_000000A0_000000F7_TO_KOI8_R_def
    UNI_00000401_00000451_TO_KOI8_R_def
    UNI_00002219_00002265_TO_KOI8_R_def
    UNI_00002320_00002321_TO_KOI8_R_def
    UNI_00002500_000025A0_TO_KOI8_R_def)

section \<open>koi8-u\<close>

definition KOI8_U_00000080_000000FF_TO_UNI :: "nat list" where
  "KOI8_U_00000080_000000FF_TO_UNI =
    table [[0x2500, 0x2502, 0x250c, 0x2510, 0x2514, 0x2518, 0x251c, 0x2524, 0x252c, 0x2534, 0x253c, 0x2580, 0x2584, 0x2588, 0x258c, 0x2590],
     [0x2591, 0x2592, 0x2593, 0x2320, 0x25a0, 0x2219, 0x221a, 0x2248, 0x2264, 0x2265, 0x00a0, 0x2321, 0x00b0, 0x00b2, 0x00b7, 0x00f7],
     [0x2550, 0x2551, 0x2552, 0x0451, 0x0454, 0x2554, 0x0456, 0x0457, 0x2557, 0x2558, 0x2559, 0x255a, 0x255b, 0x0491, 0x255d, 0x255e],
     [0x255f, 0x2560, 0x2561, 0x0401, 0x0404, 0x2563, 0x0406, 0x0407, 0x2566, 0x2567, 0x2568, 0x2569, 0x256a, 0x0490, 0x256c, 0x00a9],
     [0x044e, 0x0430, 0x0431, 0x0446, 0x0434, 0x0435, 0x0444, 0x0433, 0x0445, 0x0438, 0x0439, 0x043a, 0x043b, 0x043c, 0x043d, 0x043e],
     [0x043f, 0x044f, 0x0440, 0x0441, 0x0442, 0x0443, 0x0436, 0x0432, 0x044c, 0x044b, 0x0437, 0x0448, 0x044d, 0x0449, 0x0447, 0x044a],
     [0x042e, 0x0410, 0x0411, 0x0426, 0x0414, 0x0415, 0x0424, 0x0413, 0x0425, 0x0418, 0x0419, 0x041a, 0x041b, 0x041c, 0x041d, 0x041e],
     [0x041f, 0x042f, 0x0420, 0x0421, 0x0422, 0x0423, 0x0416, 0x0412, 0x042c, 0x042b, 0x0417, 0x0428, 0x042d, 0x0429, 0x0427, 0x042a]]"

definition UNI_000000A0_000000F7_TO_KOI8_U :: "nat list" where
  "UNI_000000A0_000000F7_TO_KOI8_U =
    table [[0x9a, 0x00, 0x00, 0x00, 0x00, 0x00, 0x00, 0x00, 0x00, 0xbf, 0x00, 0x00, 0x00, 0x00, 0x00, 0x00],
     [0x9c, 0x00, 0x9d, 0x00, 0x00, 0x00, 0x00, 0x9e, 0x00, 0x00, 0x00, 0x00, 0x00, 0x00, 0x00, 0x00],
     [0x00, 0x00, 0x00, 0x00, 0x00, 0x00, 0x00, 0x00, 0x00, 0x00, 0x00, 0x00, 0x00, 0x00, 0x00, 0x00],
     [0x00, 0x00, 0x00, 0x00, 0x00, 0x00, 0x00, 0x00, 0x00, 0x00, 0x00, 0x00, 0x00, 0x00, 0x00, 0x00],
     [0x00, 0x00, 0x00, 0x00, 0x00, 0x00, 0x00, 0x00, 0x00, 0x00, 0x00, 0x00, 0x00, 0x00, 0x00, 0x00],
     [0x00, 0x00, 0x00, 0x00, 0x00, 0x00, 0x00, 0x9f]]"

definition UNI_00000401_00000491_TO_KOI8_U :: "nat list" where
  "UNI_00000401_00000491_TO_KOI8_U =
    table [[0xb3, 0x00, 0x00, 0xb4, 0x00, 0xb6, 0xb7, 0x00, 0x00, 0x00, 0x00, 0x00, 0x00, 0x00, 0x00, 0xe1],
     [0xe2, 0xf7, 0xe7, 0xe4, 0xe5, 0xf6, 0xfa, 0xe9, 0xea, 0xeb, 0xec, 0xed, 0xee, 0xef, 0xf0, 0xf2],
     [0xf3, 0xf4, 0xf5, 0xe6, 0xe8, 0xe3, 0xfe, 0xfb, 0xfd, 0xff, 0xf9, 0xf8, 0xfc, 0xe0, 0xf1, 0xc1],
     [0xc2, 0xd7, 0xc7, 0xc4, 0xc5, 0xd6, 0xda, 0xc9, 0xca, 0xcb, 0xcc, 0xcd, 0xce, 0xcf, 0xd0, 0xd2],
     [0xd3, 0xd4, 0xd5, 0xc6, 0xc8, 0xc3, 0xde, 0xdb, 0xdd, 0xdf, 0xd9, 0xd8, 0xdc, 0xc0, 0xd1, 0x00],
     [0xa3, 0x00, 0x00, 0xa4, 0x00, 0xa6, 0xa7, 0x00, 0x00, 0x00, 0x00, 0x00, 0x00, 0x00, 0x00, 0x00],
     [0x00, 0x00, 0x00, 0x00, 0x00, 0x00, 0x00, 0x00, 0x00, 0x00, 0x00, 0x00, 0x00, 0x00, 0x00, 0x00],
     [0x00, 0x00, 0x00, 0x00, 0x00, 0x00, 0x00, 0x00, 0x00, 0x00, 0x00, 0x00, 0x00, 0x00, 0x00, 0x00],
     [0x00, 0x00, 0x00, 0x00, 0x00, 0x00, 0x00, 0x00, 0x00, 0x00, 0x00, 0x00, 0x00, 0x00, 0x00, 0xbd],
     [0xad]]"

definition UNI_00002219_00002265_TO_KOI8_U :: "nat list" where
  "UNI_00002219_00002265_TO_KOI8_U =
    table [[0x95, 0x96, 0x00, 0x00, 0x00, 0x00, 0x00, 0x00, 0x00, 0x00, 0x00, 0x00, 0x00, 0x00, 0x00, 0x00],
     [0x00, 0x00, 0x00, 0x00, 0x00, 0x00, 0x00, 0x00, 0x00, 0x00, 0x00, 0x00, 0x00, 0x00, 0x00, 0x00],
     [0x00, 0x00, 0x00, 0x00, 0x00, 0x00, 0x00, 0x00, 0x00, 0x00, 0x00, 0x00, 0x00, 0x00, 0x00, 0x97],
     [0x00, 0x00, 0x00, 0x00, 0x00, 0x00, 0x00, 0x00, 0x00, 0x00, 0x00, 0x00, 0x00, 0x00, 0x00, 0x00],
     [0x00, 0x00, 0x00, 0x00, 0x00, 0x00, 0x00, 0x00, 0x00, 0x00, 0x00, 0x98, 0x99]]"

definition UNI_00002320_00002321_TO_KOI8_U :: "nat list" where
  "UNI_00002320_00002321_TO_KOI8_U =
    table [[0x93, 0x9b]]"

definition UNI_00002500_000025A0_TO_KOI8_U :: "nat list" where
  "UNI_00002500_000025A0_TO_KOI8_U =
    table [[0x80, 0x00, 0x81, 0x00, 0x00, 0x00, 0x00, 0x00, 0x00, 0x00, 0x00, 0x00, 0x82, 0x00, 0x00, 0x00],
     [0x83, 0x00, 0x00, 0x00, 0x84, 0x00, 0x00, 0x00, 0x85, 0x00, 0x00, 0x00, 0x86, 0x00, 0x00, 0x00],
     [0x00, 0x00, 0x00, 0x00, 0x87, 0x00, 0x00, 0x00, 0x00, 0x00, 0x00, 0x00, 0x88, 0x00, 0x00, 0x00],
     [0x00, 0x00, 0x00, 0x00, 0x89, 0x00, 0x00, 0x00, 0x00, 0x00, 0x00, 0x00, 0x8a, 0x00, 0x00, 0x00],
     [0x00, 0x00, 0x00, 0x00, 0x00, 0x00, 0x00, 0x00, 0x00, 0x00, 0x00, 0x00, 0x00, 0x00, 0x00, 0x00],
     [0xa0, 0xa1, 0xa2, 0x00, 0xa5, 0x00, 0x00, 0xa8, 0xa9, 0xaa, 0xab, 0xac, 0x00, 0xae, 0xaf, 0xb0],
     [0xb1, 0xb2, 0x00, 0xb5, 0x00, 0x00, 0xb8, 0xb9, 0xba, 0xbb, 0xbc, 0x00, 0xbe, 0x00, 0x00, 0x00],
     [0x00, 0x00, 0x00, 0x00, 0x00, 0x00, 0x00, 0x00, 0x00, 0x00, 0x00, 0x00, 0x00, 0x00, 0x00, 0x00],
     [0x8b, 0x00, 0x00, 0x00, 0x8c, 0x00, 0x00, 0x00, 0x8d, 0x00, 0x00, 0x00, 0x8e, 0x00, 0x00, 0x00],
     [0x8f, 0x90, 0x91, 0x92, 0x00, 0x00, 0x00, 0x00, 0x00, 0x00, 0x00, 0x00, 0x00, 0x00, 0x00, 0x00],
     [0x94]]"

definition conv_koi8_u_to_uni :: to_uni_func where
  "conv_koi8_u_to_uni = sbcs_to_uni
    [Same 0x7f,
     Table 0x80 0xff KOI8_U_00000080_000000FF_TO_UNI None]"

definition conv_uni_to_koi8_u :: uni_to_func where
  "conv_uni_to_koi8_u = sbcs_uni_to
    [Upto 0x7f,
     Codes 0x00a0 0x00f7 UNI_000000A0_000000F7_TO_KOI8_U (Some 0x00),
     Codes 0x0401 0x0491 UNI_00000401_00000491_TO_KOI8_U (Some 0x00),
     Codes 0x2219 0x2265 UNI_00002219_00002265_TO_KOI8_U (Some 0x00),
     Codes 0x2320 0x2321 UNI_00002320_00002321_TO_KOI8_U None,
     Codes 0x2500 0x25a0 UNI_00002500_000025A0_TO_KOI8_U (Some 0x00)]"

lemmas koi8_u_entries = table_entries [OF KOI8_U_00000080_000000FF_TO_UNI_def, simplified entries_simps, simplified]

lemma koi8_u_codec: "is_codec conv_koi8_u_to_uni conv_uni_to_koi8_u"
  unfolding conv_koi8_u_to_uni_def conv_uni_to_koi8_u_def
  by (rule sbcs_is_codec) (simp add: sbcs_simps koi8_u_entries
    UNI_000000A0_000000F7_TO_KOI8_U_def
    UNI_00000401_00000491_TO_KOI8_U_def
    UNI_00002219_00002265_TO_KOI8_U_def
    UNI_00002320_00002321_TO_KOI8_U_def
    UNI_00002500_000025A0_TO_KOI8_U_def)

section \<open>kz1048\<close>

definition KZ1048_00000080_000000FF_TO_UNI :: "nat list" where
  "KZ1048_00000080_000000FF_TO_UNI =
    table [[0x0402, 0x0403, 0x201a, 0x0453, 0x201e, 0x2026, 0x2020, 0x2021, 0x20ac, 0x2030, 0x0409, 0x2039, 0x040a, 0x049a, 0x04ba, 0x040f],
     [0x0452, 0x2018, 0x2019, 0x201c, 0x201d, 0x2022, 0x2013, 0x2014, 0xd800, 0x2122, 0x0459, 0x203a, 0x045a, 0x049b, 0x04bb, 0x045f],
     [0x00a0, 0x04b0, 0x04b1, 0x04d8, 0x00a4, 0x04e8, 0x00a6, 0x00a7, 0x0401, 0x00a9, 0x0492, 0x00ab, 0x00ac, 0x00ad, 0x00ae, 0x04ae],
     [0x00b0, 0x00b1, 0x0406, 0x0456, 0x04e9, 0x00b5, 0x00b6, 0x00b7, 0x0451, 0x2116, 0x0493, 0x00bb, 0x04d9, 0x04a2, 0x04a3, 0x04af],
     [0x0410, 0x0411, 0x0412, 0x0413, 0x0414, 0x0415, 0x0416, 0x0417, 0x0418, 0x0419, 0x041a, 0x041b, 0x041c, 0x041d, 0x041e, 0x041f],
     [0x0420, 0x0421, 0x0422, 0x0423, 0x0424, 0x0425, 0x0426, 0x0427, 0x0428, 0x0429, 0x042a, 0x042b, 0x042c, 0x042d, 0x042e, 0x042f],
     [0x0430, 0x0431, 0x0432, 0x0433, 0x0434, 0x0435, 0x0436, 0x0437, 0x0438, 0x0439, 0x043a, 0x043b, 0x043c, 0x043d, 0x043e, 0x043f],
     [0x0440, 0x0441, 0x0442, 0x0443, 0x0444, 0x0445, 0x0446, 0x0447, 0x0448, 0x0449, 0x044a, 0x044b, 0x044c, 0x044d, 0x044e, 0x044f]]"

definition UNI_000000A0_000000BB_TO_KZ1048 :: "nat list" where
  "UNI_000000A0_000000BB_TO_KZ1048 =
    table [[0xa0, 0x00, 0x00, 0x00, 0xa4, 0x00, 0xa6, 0xa7, 0x00, 0xa9, 0x00, 0xab, 0xac, 0xad, 0xae, 0x00],
     [0xb0, 0xb1, 0x00, 0x00, 0x00, 0xb5, 0xb6, 0xb7, 0x00, 0x00, 0x00, 0xbb]]"

definition UNI_00000401_000004E9_TO_KZ1048 :: "nat list" where
  "UNI_00000401_000004E9_TO_KZ1048 =
    table [[0xa8, 0x80, 0x81, 0x00, 0x00, 0xb2, 0x00, 0x00, 0x8a, 0x8c, 0x00, 0x00, 0x00, 0x00, 0x8f, 0xc0],
     [0xc1, 0xc2, 0xc3, 0xc4, 0xc5, 0xc6, 0xc7, 0xc8, 0xc9, 0xca, 0xcb, 0xcc, 0xcd, 0xce, 0xcf, 0xd0],
     [0xd1, 0xd2, 0xd3, 0xd4, 0xd5, 0xd6, 0xd7, 0xd8, 0xd9, 0xda, 0xdb, 0xdc, 0xdd, 0xde, 0xdf, 0xe0],
     [0xe1, 0xe2, 0xe3, 0xe4, 0xe5, 0xe6, 0xe7, 0xe8, 0xe9, 0xea, 0xeb, 0xec, 0xed, 0xee, 0xef, 0xf0],
     [0xf1, 0xf2, 0xf3, 0xf4, 0xf5, 0xf6, 0xf7, 0xf8, 0xf9, 0xfa, 0xfb, 0xfc, 0xfd, 0xfe, 0xff, 0x00],
     [0xb8, 0x90, 0x83, 0x00, 0x00, 0xb3, 0x00, 0x00, 0x9a, 0x9c, 0x00, 0x00, 0x00, 0x00, 0x9f, 0x00],
     [0x00, 0x00, 0x00, 0x00, 0x00, 0x00, 0x00, 0x00, 0x00, 0x00, 0x00, 0x00, 0x00, 0x00, 0x00, 0x00],
     [0x00, 0x00, 0x00, 0x00, 0x00, 0x00, 0x00, 0x00, 0x00, 0x00, 0x00, 0x00, 0x00, 0x00, 0x00, 0x00],
     [0x00, 0x00, 0x00, 0x00, 0x00, 0x00, 0x00, 0x00, 0x00, 0x00, 0x00, 0x00, 0x00, 0x00, 0x00, 0x00],
     [0x00, 0xaa, 0xba, 0x00, 0x00, 0x00, 0x00, 0x00, 0x00, 0x8d, 0x9d, 0x00, 0x00, 0x00, 0x00, 0x00],
     [0x00, 0xbd, 0xbe, 0x00, 0x00, 0x00, 0x00, 0x00, 0x00, 0x00, 0x00, 0x00, 0x00, 0xaf, 0xbf, 0xa1],
     [0xa2, 0x00, 0x00, 0x00, 0x00, 0x00, 0x00, 0x00, 0x00, 0x8e, 0x9e, 0x00, 0x00, 0x00, 0x00, 0x00],
     [0x00, 0x00, 0x00, 0x00, 0x00, 0x00, 0x00, 0x00, 0x00, 0x00, 0x00, 0x00, 0x00, 0x00, 0x00, 0x00],
     [0x00, 0x00, 0x00, 0x00, 0x00, 0x00, 0x00, 0xa3, 0xbc, 0x00, 0x00, 0x00, 0x00, 0x00, 0x00, 0x00],
     [0x00, 0x00, 0x00, 0x00, 0x00, 0x00, 0x00, 0xa5, 0xb4]]"

definition UNI_00002013_000020AC_TO_KZ1048 :: "nat list" where
  "UNI_00002013_000020AC_TO_KZ1048 =
    table [[0x96, 0x97, 0x00, 0x00, 0x00, 0x91, 0x92, 0x82, 0x00, 0x93, 0x94, 0x84, 0x00, 0x86, 0x87, 0x95],
     [0x00, 0x00, 0x00, 0x85, 0x00, 0x00, 0x00, 0x00, 0x00, 0x00, 0x00, 0x00, 0x00, 0x89, 0x00, 0x00],
     [0x00, 0x00, 0x00, 0x00, 0x00, 0x00, 0x8b, 0x9b, 0x00, 0x00, 0x00, 0x00, 0x00, 0x00, 0x00, 0x00],
     [0x00, 0x00, 0x00, 0x00, 0x00, 0x00, 0x00, 0x00, 0x00, 0x00, 0x00, 0x00, 0x00, 0x00, 0x00, 0x00],
     [0x00, 0x00, 0x00, 0x00, 0x00, 0x00, 0x00, 0x00, 0x00, 0x00, 0x00, 0x00, 0x00, 0x00, 0x00, 0x00],
     [0x00, 0x00, 0x00, 0x00, 0x00, 0x00, 0x00, 0x00, 0x00, 0x00, 0x00, 0x00, 0x00, 0x00, 0x00, 0x00],
     [0x00, 0x00, 0x00, 0x00, 0x00, 0x00, 0x00, 0x00, 0x00, 0x00, 0x00, 0x00, 0x00, 0x00, 0x00, 0x00],
     [0x00, 0x00, 0x00, 0x00, 0x00, 0x00, 0x00, 0x00, 0x00, 0x00, 0x00, 0x00, 0x00, 0x00, 0x00, 0x00],
     [0x00, 0x00, 0x00, 0x00, 0x00, 0x00, 0x00, 0x00, 0x00, 0x00, 0x00, 0x00, 0x00, 0x00, 0x00, 0x00],
     [0x00, 0x00, 0x00, 0x00, 0x00, 0x00, 0x00, 0x00, 0x00, 0x88]]"

definition UNI_00002116_00002122_TO_KZ1048 :: "nat list" where
  "UNI_00002116_00002122_TO_KZ1048 =
    table [[0xb9, 0x00, 0x00, 0x00, 0x00, 0x00, 0x00, 0x00, 0x00, 0x00, 0x00, 0x00, 0x99]]"

definition conv_kz1048_to_uni :: to_uni_func where
  "conv_kz1048_to_uni = sbcs_to_uni
    [Same 0x7f,
     Table 0x80 0xff KZ1048_00000080_000000FF_TO_UNI (Some 0xd800)]"

definition conv_uni_to_kz1048 :: uni_to_func where
  "conv_uni_to_kz1048 = sbcs_uni_to
    [Upto 0x7f,
     Codes 0x00a0 0x00bb UNI_000000A0_000000BB_TO_KZ1048 (Some 0x00),
     Codes 0x0401 0x04e9 UNI_00000401_000004E9_TO_KZ1048 (Some 0x00),
     Codes 0x2013 0x20ac UNI_00002013_000020AC_TO_KZ1048 (Some 0x00),
     Codes 0x2116 0x2122 UNI_00002116_00002122_TO_KZ1048 (Some 0x00)]"

lemmas kz1048_entries = table_entries [OF KZ1048_00000080_000000FF_TO_UNI_def, simplified entries_simps, simplified]

lemma kz1048_codec: "is_codec conv_kz1048_to_uni conv_uni_to_kz1048"
  unfolding conv_kz1048_to_uni_def conv_uni_to_kz1048_def
  by (rule sbcs_is_codec) (simp add: sbcs_simps kz1048_entries
    UNI_000000A0_000000BB_TO_KZ1048_def
    UNI_00000401_000004E9_TO_KZ1048_def
    UNI_00002013_000020AC_TO_KZ1048_def
    UNI_00002116_00002122_TO_KZ1048_def)

section \<open>nextstep\<close>

definition NEXTSTEP_00000080_000000FD_TO_UNI :: "nat list" where
  "NEXTSTEP_00000080_000000FD_TO_UNI =
    table [[0x00a0, 0x00c0, 0x00c1, 0x00c2, 0x00c3, 0x00c4, 0x00c5, 0x00c7, 0x00c8, 0x00c9, 0x00ca, 0x00cb, 0x00cc, 0x00cd, 0x00ce, 0x00cf],
     [0x00d0, 0x00d1, 0x00d2, 0x00d3, 0x00d4, 0x00d5, 0x00d6, 0x00d9, 0x00da, 0x00db, 0x00dc, 0x00dd, 0x00de, 0x00b5, 0x00d7, 0x00f7],
     [0x00a9, 0x00a1, 0x00a2, 0x00a3, 0x2044, 0x00a5, 0x0192, 0x00a7, 0x00a4, 0x2019, 0x201c, 0x00ab, 0x2039, 0x203a, 0xfb01, 0xfb02],
     [0x00ae, 0x2013, 0x2020, 0x2021, 0x00b7, 0x00a6, 0x00b6, 0x2022, 0x201a, 0x201e, 0x201d, 0x00bb, 0x2026, 0x2030, 0x00ac, 0x00bf],
     [0x00b9, 0x02cb, 0x00b4, 0x02c6, 0x02dc, 0x00af, 0x02d8, 0x02d9, 0x00a8, 0x00b2, 0x02da, 0x00b8, 0x00b3, 0x02dd, 0x02db, 0x02c7],
     [0x2014, 0x00b1, 0x00bc, 0x00bd, 0x00be, 0x00e0, 0x00e1, 0x00e2, 0x00e3, 0x00e4, 0x00e5, 0x00e7, 0x00e8, 0x00e9, 0x00ea, 0x00eb],
     [0x00ec, 0x00c6, 0x00ed, 0x00aa, 0x00ee, 0x00ef, 0x00f0, 0x00f1, 0x0141, 0x00d8, 0x0152, 0x00ba, 0x00f2, 0x00f3, 0x00f4, 0x00f5],
     [0x00f6, 0x00e6, 0x00f9, 0x00fa, 0x00fb, 0x0131, 0x00fc, 0x00fd, 0x0142, 0x00f8, 0x0153, 0x00df, 0x00fe, 0x00ff]]"

definition UNI_000000A0_00000192_TO_NEXTSTEP :: "nat list" where
  "UNI_000000A0_00000192_TO_NEXTSTEP =
    table [[0x80, 0xa1, 0xa2, 0xa3, 0xa8, 0xa5, 0xb5, 0xa7, 0xc8, 0xa0, 0xe3, 0xab, 0xbe, 0x00, 0xb0, 0xc5],
     [0x00, 0xd1, 0xc9, 0xcc, 0xc2, 0x9d, 0xb6, 0xb4, 0xcb, 0xc0, 0xeb, 0xbb, 0xd2, 0xd3, 0xd4, 0xbf],
     [0x81, 0x82, 0x83, 0x84, 0x85, 0x86, 0xe1, 0x87, 0x88, 0x89, 0x8a, 0x8b, 0x8c, 0x8d, 0x8e, 0x8f],
     [0x90, 0x91, 0x92, 0x93, 0x94, 0x95, 0x96, 0x9e, 0xe9, 0x97, 0x98, 0x99, 0x9a, 0x9b, 0x9c, 0xfb],
     [0xd5, 0xd6, 0xd7, 0xd8, 0xd9, 0xda, 0xf1, 0xdb, 0xdc, 0xdd, 0xde, 0xdf, 0xe0, 0xe2, 0xe4, 0xe5],
     [0xe6, 0xe7, 0xec, 0xed, 0xee, 0xef, 0xf0, 0x9f, 0xf9, 0xf2, 0xf3, 0xf4, 0xf6, 0xf7, 0xfc, 0xfd],
     [0x00, 0x00, 0x00, 0x00, 0x00, 0x00, 0x00, 0x00, 0x00, 0x00, 0x00, 0x00, 0x00, 0x00, 0x00, 0x00],
     [0x00, 0x00, 0x00, 0x00, 0x00, 0x00, 0x00, 0x00, 0x00, 0x00, 0x00, 0x00, 0x00, 0x00, 0x00, 0x00],
     [0x00, 0x00, 0x00, 0x00, 0x00, 0x00, 0x00, 0x00, 0x00, 0x00, 0x00, 0x00, 0x00, 0x00, 0x00, 0x00],
     [0x00, 0xf5, 0x00, 0x00, 0x00, 0x00, 0x00, 0x00, 0x00, 0x00, 0x00, 0x00, 0x00, 0x00, 0x00, 0x00],
     [0x00, 0xe8, 0xf8, 0x00, 0x00, 0x00, 0x00, 0x00, 0x00, 0x00, 0x00, 0x00, 0x00, 0x00, 0x00, 0x00],
     [0x00, 0x00, 0xea, 0xfa, 0x00, 0x00, 0x00, 0x00, 0x00, 0x00, 0x00, 0x00, 0x00, 0x00, 0x00, 0x00],
     [0x00, 0x00, 0x00, 0x00, 0x00, 0x00, 0x00, 0x00, 0x00, 0x00, 0x00, 0x00, 0x00, 0x00, 0x00, 0x00],
     [0x00, 0x00, 0x00, 0x00, 0x00, 0x00, 0x00, 0x00, 0x00, 0x00, 0x00, 0x00, 0x00, 0x00, 0x00, 0x00],
     [0x00, 0x00, 0x00, 0x00, 0x00, 0x00, 0x00, 0x00, 0x00, 0x00, 0x00, 0x00, 0x00, 0x00, 0x00, 0x00],
     [0x00, 0x00, 0xa6]]"

definition UNI_000002C6_000002DD_TO_NEXTSTEP :: "nat list" where
  "UNI_000002C6_000002DD_TO_NEXTSTEP =
    table [[0xc3, 0xcf, 0x00, 0x00, 0x00, 0xc1, 0x00, 0x00, 0x00, 0x00, 0x00, 0x00, 0x00, 0x00, 0x00, 0x00],
     [0x00, 0x00, 0xc6, 0xc7, 0xca, 0xce, 0xc4, 0xcd]]"

definition UNI_00002013_00002044_TO_NEXTSTEP :: "nat list" where
  "UNI_00002013_00002044_TO_NEXTSTEP =
    table [[0xb1, 0xd0, 0x00, 0x00, 0x00, 0x00, 0xa9, 0xb8, 0x00, 0xaa, 0xba, 0xb9, 0x00, 0xb2, 0xb3, 0xb7],
     [0x00, 0x00, 0x00, 0xbc, 0x00, 0x00, 0x00, 0x00, 0x00, 0x00, 0x00, 0x00, 0x00, 0xbd, 0x00, 0x00],
     [0x00, 0x00, 0x00, 0x00, 0x00, 0x00, 0xac, 0xad, 0x00, 0x00, 0x00, 0x00, 0x00, 0x00, 0x00, 0x00],
     [0x00, 0xa4]]"

definition UNI_0000FB01_0000FB02_TO_NEXTSTEP :: "nat list" where
  "UNI_0000FB01_0000FB02_TO_NEXTSTEP =
    table [[0xae, 0xaf]]"

definition conv_nextstep_to_uni :: to_uni_func where
  "conv_nextstep_to_uni = sbcs_to_uni
    [Table 0x80 0xfd NEXTSTEP_00000080_000000FD_TO_UNI None]"

definition conv_uni_to_nextstep :: uni_to_func where
  "conv_uni_to_nextstep = sbcs_uni_to
    [Codes 0x00a0 0x0192 UNI_000000A0_00000192_TO_NEXTSTEP (Some 0x00),
     Codes 0x02c6 0x02dd UNI_000002C6_000002DD_TO_NEXTSTEP (Some 0x00),
     Codes 0x2013 0x2044 UNI_00002013_00002044_TO_NEXTSTEP (Some 0x00),
     Codes 0xfb01 0xfb02 UNI_0000FB01_0000FB02_TO_NEXTSTEP None]"

lemmas nextstep_entries = table_entries [OF NEXTSTEP_00000080_000000FD_TO_UNI_def, simplified entries_simps, simplified]

lemma nextstep_codec: "is_codec conv_nextstep_to_uni conv_uni_to_nextstep"
  unfolding conv_nextstep_to_uni_def conv_uni_to_nextstep_def
  by (rule sbcs_is_codec) (simp add: sbcs_simps nextstep_entries
    UNI_000000A0_00000192_TO_NEXTSTEP_def
    UNI_000002C6_000002DD_TO_NEXTSTEP_def
    UNI_00002013_00002044_TO_NEXTSTEP_def
    UNI_0000FB01_0000FB02_TO_NEXTSTEP_def)

end
