(* ===== verification/Conv.thy ===== *)
theory Conv
  imports Charset_Iso Charset_Windows Charset_Ibm Charset_Mac Charset_Misc
begin

text \<open>
  Conversion between character sets (\<^verbatim>\<open>src/conv.c\<close>, built with \<open>LIBNDM_SBCS_SUPPORT\<close>): the table of
  names, the look-up of a name, descriptors, and the conversion loop with its errors.
\<close>

section \<open>The table of names\<close>

record ndm_conv_pair_t =
  pair_name :: string
  pair_to_uni :: to_uni_func
  pair_uni_to :: uni_to_func

abbreviation conv_pair :: "string \<Rightarrow> to_uni_func \<Rightarrow> uni_to_func \<Rightarrow> ndm_conv_pair_t" where
  "conv_pair n f g \<equiv> \<lparr>pair_name = n, pair_to_uni = f, pair_uni_to = g\<rparr>"

definition NDM_CONV_PAIRS_UTF :: "host \<Rightarrow> ndm_conv_pair_t list" where
  "NDM_CONV_PAIRS_UTF h =
    [conv_pair ''utf-8'' conv_utf8_to_uni conv_uni_to_utf8,
     conv_pair ''utf-16'' (conv_utf16_to_uni h) (conv_uni_to_utf16 h),
     conv_pair ''utf-16le'' (conv_utf16_le_to_uni h) (conv_uni_to_utf16_le h),
     conv_pair ''utf-16be'' (conv_utf16_be_to_uni h) (conv_uni_to_utf16_be h),
     conv_pair ''utf-32'' (conv_utf32_to_uni h) (conv_uni_to_utf32 h),
     conv_pair ''utf-32le'' (conv_utf32_le_to_uni h) (conv_uni_to_utf32_le h),
     conv_pair ''utf-32be'' (conv_utf32_be_to_uni h) (conv_uni_to_utf32_be h)]"

definition NDM_CONV_PAIRS_8859 :: "ndm_conv_pair_t list" where
  "NDM_CONV_PAIRS_8859 =
    [conv_pair ''iso-8859-1'' conv_8859_1_to_uni conv_uni_to_8859_1,
     conv_pair ''iso-ir-100'' conv_8859_1_to_uni conv_uni_to_8859_1,
     conv_pair ''latin1'' conv_8859_1_to_uni conv_uni_to_8859_1,
     conv_pair ''l1'' conv_8859_1_to_uni conv_uni_to_8859_1,
     conv_pair ''IBM819'' conv_8859_1_to_uni conv_uni_to_8859_1,
     conv_pair ''CP819'' conv_8859_1_to_uni conv_uni_to_8859_1,
     conv_pair ''csISOLatin1'' conv_8859_1_to_uni conv_uni_to_8859_1,
     conv_pair ''8859-1'' conv_8859_1_to_uni conv_uni_to_8859_1,
     conv_pair ''iso-8859-2'' conv_8859_2_to_uni conv_uni_to_8859_2,
     conv_pair ''iso-ir-101'' conv_8859_2_to_uni conv_uni_to_8859_2,
     conv_pair ''latin2'' conv_8859_2_to_uni conv_uni_to_8859_2,
     conv_pair ''l2'' conv_8859_2_to_uni conv_uni_to_8859_2,
     conv_pair ''csISOLatin2'' conv_8859_2_to_uni conv_uni_to_8859_2,
     conv_pair ''8859-2'' conv_8859_2_to_uni conv_uni_to_8859_2,
     conv_pair ''iso-8859-3'' conv_8859_3_to_uni conv_uni_to_8859_3,
     conv_pair ''iso-ir-109'' conv_8859_3_to_uni conv_uni_to_8859_3,
     conv_pair ''latin3'' conv_8859_3_to_uni conv_uni_to_8859_3,
     conv_pair ''l3'' conv_8859_3_to_uni conv_uni_to_8859_3,
     conv_pair ''csISOLatin3'' conv_8859_3_to_uni conv_uni_to_8859_3,
     conv_pair ''8859-3'' conv_8859_3_to_uni conv_uni_to_8859_3,
     conv_pair ''iso-8859-4'' conv_8859_4_to_uni conv_uni_to_8859_4,
     conv_pair ''iso-ir-110'' conv_8859_4_to_uni conv_uni_to_8859_4,
     conv_pair ''latin4'' conv_8859_4_to_uni conv_uni_to_8859_4,
     conv_pair ''l4'' conv_8859_4_to_uni conv_uni_to_8859_4,
     conv_pair ''csISOLatin4'' conv_8859_4_to_uni conv_uni_to_8859_4,
     conv_pair ''8859-4'' conv_8859_4_to_uni conv_uni_to_8859_4,
     conv_pair ''iso-8859-5'' conv_8859_5_to_uni conv_uni_to_8859_5,
     conv_pair ''iso-ir-144'' conv_8859_5_to_uni conv_uni_to_8859_5,
     conv_pair ''cyrillic'' conv_8859_5_to_uni conv_uni_to_8859_5,
     conv_pair ''csISOLatinCyrillic'' conv_8859_5_to_uni conv_uni_to_8859_5,
     conv_pair ''8859-5'' conv_8859_5_to_uni conv_uni_to_8859_5,
     conv_pair ''iso-8859-6'' conv_8859_6_to_uni conv_uni_to_8859_6,
     conv_pair ''iso-ir-127'' conv_8859_6_to_uni conv_uni_to_8859_6,
     conv_pair ''ECMA-114'' conv_8859_6_to_uni conv_uni_to_8859_6,
     conv_pair ''ASMO-708'' conv_8859_6_to_uni conv_uni_to_8859_6,
     conv_pair ''arabic'' conv_8859_6_to_uni conv_uni_to_8859_6,
     conv_pair ''csISOLatinArabic'' conv_8859_6_to_uni conv_uni_to_8859_6,
     conv_pair ''8859-6'' conv_8859_6_to_uni conv_uni_to_8859_6,
     conv_pair ''iso-8859-7'' conv_8859_7_to_uni conv_uni_to_8859_7,
     conv_pair ''iso-ir-126'' conv_8859_7_to_uni conv_uni_to_8859_7,
     conv_pair ''ELOT_928'' conv_8859_7_to_uni conv_uni_to_8859_7,
     conv_pair ''ECMA-118'' conv_8859_7_to_uni conv_uni_to_8859_7,
     conv_pair ''greek'' conv_8859_7_to_uni conv_uni_to_8859_7,
     conv_pair ''greek8'' conv_8859_7_to_uni conv_uni_to_8859_7,
     conv_pair ''csISOLatinGreek'' conv_8859_7_to_uni conv_uni_to_8859_7,
     conv_pair ''8859-7'' conv_8859_7_to_uni conv_uni_to_8859_7,
     conv_pair ''iso-8859-8'' conv_8859_8_to_uni conv_uni_to_8859_8,
     conv_pair ''iso-ir-138'' conv_8859_8_to_uni conv_uni_to_8859_8,
     conv_pair ''hebrew'' conv_8859_8_to_uni conv_uni_to_8859_8,
     conv_pair ''csISOLatinHebrew'' conv_8859_8_to_uni conv_uni_to_8859_8,
     conv_pair ''8859-8'' conv_8859_8_to_uni conv_uni_to_8859_8,
     conv_pair ''iso-8859-9'' conv_8859_9_to_uni conv_uni_to_8859_9,
     conv_pair ''iso-ir-148'' conv_8859_9_to_uni conv_uni_to_8859_9,
     conv_pair ''latin5'' conv_8859_9_to_uni conv_uni_to_8859_9,
     conv_pair ''l5'' conv_8859_9_to_uni conv_uni_to_8859_9,
     conv_pair ''csISOLatin5'' conv_8859_9_to_uni conv_uni_to_8859_9,
     conv_pair ''8859-9'' conv_8859_9_to_uni conv_uni_to_8859_9,
     conv_pair ''iso-8859-10'' conv_8859_10_to_uni conv_uni_to_8859_10,
     conv_pair ''iso-ir-157'' conv_8859_10_to_uni conv_uni_to_8859_10,
     conv_pair ''l6'' conv_8859_10_to_uni conv_uni_to_8859_10,
     conv_pair ''ISO_8859-10:1992'' conv_8859_10_to_uni conv_uni_to_8859_10,
     conv_pair ''csISOLatin6'' conv_8859_10_to_uni conv_uni_to_8859_10,
     conv_pair ''latin6'' conv_8859_10_to_uni conv_uni_to_8859_10,
     conv_pair ''8859-10'' conv_8859_10_to_uni conv_uni_to_8859_10,
     conv_pair ''iso-8859-11'' conv_8859_11_to_uni conv_uni_to_8859_11,
     conv_pair ''csTIS620'' conv_8859_11_to_uni conv_uni_to_8859_11,
     conv_pair ''TIS-620'' conv_8859_11_to_uni conv_uni_to_8859_11,
     conv_pair ''8859-11'' conv_8859_11_to_uni conv_uni_to_8859_11,
     conv_pair ''iso-8859-13'' conv_8859_13_to_uni conv_uni_to_8859_13,
     conv_pair ''csISO885913'' conv_8859_13_to_uni conv_uni_to_8859_13,
     conv_pair ''8859-13'' conv_8859_13_to_uni conv_uni_to_8859_13,
     conv_pair ''iso-8859-14'' conv_8859_14_to_uni conv_uni_to_8859_14,
     conv_pair ''iso-ir-199'' conv_8859_14_to_uni conv_uni_to_8859_14,
     conv_pair ''latin8'' conv_8859_14_to_uni conv_uni_to_8859_14,
     conv_pair ''iso-celtic'' conv_8859_14_to_uni conv_uni_to_8859_14,
     conv_pair ''l8'' conv_8859_14_to_uni conv_uni_to_8859_14,
     conv_pair ''csISO885914'' conv_8859_14_to_uni conv_uni_to_8859_14,
     conv_pair ''8859-14'' conv_8859_14_to_uni conv_uni_to_8859_14,
     conv_pair ''iso-8859-15'' conv_8859_15_to_uni conv_uni_to_8859_15,
     conv_pair ''Latin-9'' conv_8859_15_to_uni conv_uni_to_8859_15,
     conv_pair ''csISO885915'' conv_8859_15_to_uni conv_uni_to_8859_15,
     conv_pair ''8859-15'' conv_8859_15_to_uni conv_uni_to_8859_15,
     conv_pair ''iso-8859-16'' conv_8859_16_to_uni conv_uni_to_8859_16,
     conv_pair ''iso-ir-226'' conv_8859_16_to_uni conv_uni_to_8859_16,
     conv_pair ''ISO_8859-16:2001'' conv_8859_16_to_uni conv_uni_to_8859_16,
     conv_pair ''latin10'' conv_8859_16_to_uni conv_uni_to_8859_16,
     conv_pair ''l10'' conv_8859_16_to_uni conv_uni_to_8859_16,
     conv_pair ''csISO885916'' conv_8859_16_to_uni conv_uni_to_8859_16,
     conv_pair ''8859-16'' conv_8859_16_to_uni conv_uni_to_8859_16]"

definition NDM_CONV_PAIRS_CP :: "ndm_conv_pair_t list" where
  "NDM_CONV_PAIRS_CP =
    [conv_pair ''cp-037'' conv_cp037_to_uni conv_uni_to_cp037,
     conv_pair ''ebcdic-cp-us'' conv_cp037_to_uni conv_uni_to_cp037,
     conv_pair ''ebcdic-cp-ca'' conv_cp037_to_uni conv_uni_to_cp037,
     conv_pair ''ebcdic-cp-wt'' conv_cp037_to_uni conv_uni_to_cp037,
     conv_pair ''ebcdic-cp-nl'' conv_cp037_to_uni conv_uni_to_cp037,
     conv_pair ''csIBM037'' conv_cp037_to_uni conv_uni_to_cp037,
     conv_pair ''IBM037'' conv_cp037_to_uni conv_uni_to_cp037,
     conv_pair ''cp-424'' conv_cp424_to_uni conv_uni_to_cp424,
     conv_pair ''ebcdic-cp-he'' conv_cp424_to_uni conv_uni_to_cp424,
     conv_pair ''csIBM424'' conv_cp424_to_uni conv_uni_to_cp424,
     conv_pair ''IBM424'' conv_cp424_to_uni conv_uni_to_cp424,
     conv_pair ''cp-437'' conv_cp437_to_uni conv_uni_to_cp437,
     conv_pair ''cp437'' conv_cp437_to_uni conv_uni_to_cp437,
     conv_pair ''437'' conv_cp437_to_uni conv_uni_to_cp437,
     conv_pair ''csPC8CodePage437'' conv_cp437_to_uni conv_uni_to_cp437,
     conv_pair ''IBM437'' conv_cp437_to_uni conv_uni_to_cp437,
     conv_pair ''cp-500'' conv_cp500_to_uni conv_uni_to_cp500,
     conv_pair ''CP500'' conv_cp500_to_uni conv_uni_to_cp500,
     conv_pair ''ebcdic-cp-be'' conv_cp500_to_uni conv_uni_to_cp500,
     conv_pair ''ebcdic-cp-ch'' conv_cp500_to_uni conv_uni_to_cp500,
     conv_pair ''csIBM500'' conv_cp500_to_uni conv_uni_to_cp500,
     conv_pair ''IBM500'' conv_cp500_to_uni conv_uni_to_cp500,
     conv_pair ''cp-737'' conv_cp737_to_uni conv_uni_to_cp737,
     conv_pair ''cp-775'' conv_cp775_to_uni conv_uni_to_cp775,
     conv_pair ''csPC775Baltic'' conv_cp775_to_uni conv_uni_to_cp775,
     conv_pair ''IBM775'' conv_cp775_to_uni conv_uni_to_cp775,
     conv_pair ''cp-850'' conv_cp850_to_uni conv_uni_to_cp850,
     conv_pair ''850'' conv_cp850_to_uni conv_uni_to_cp850,
     conv_pair ''csPC850Multilingual'' conv_cp850_to_uni conv_uni_to_cp850,
     conv_pair ''IBM850'' conv_cp850_to_uni conv_uni_to_cp850,
     conv_pair ''cp-852'' conv_cp852_to_uni conv_uni_to_cp852,
     conv_pair ''852'' conv_cp852_to_uni conv_uni_to_cp852,
     conv_pair ''csPCp852'' conv_cp852_to_uni conv_uni_to_cp852,
     conv_pair ''IBM852'' conv_cp852_to_uni conv_uni_to_cp852,
     conv_pair ''cp-855'' conv_cp855_to_uni conv_uni_to_cp855,
     conv_pair ''855'' conv_cp855_to_uni conv_uni_to_cp855,
     conv_pair ''csIBM855'' conv_cp855_to_uni conv_uni_to_cp855,
     conv_pair ''IBM855'' conv_cp855_to_uni conv_uni_to_cp855,
     conv_pair ''cp-856'' conv_cp856_to_uni conv_uni_to_cp856,
     conv_pair ''cp-857'' conv_cp857_to_uni conv_uni_to_cp857,
     conv_pair ''857'' conv_cp857_to_uni conv_uni_to_cp857,
     conv_pair ''csIBM857'' conv_cp857_to_uni conv_uni_to_cp857,
     conv_pair ''IBM857'' conv_cp857_to_uni conv_uni_to_cp857,
     conv_pair ''cp-860'' conv_cp860_to_uni conv_uni_to_cp860,
     conv_pair ''860'' conv_cp860_to_uni conv_uni_to_cp860,
     conv_pair ''csIBM860'' conv_cp860_to_uni conv_uni_to_cp860,
     conv_pair ''IBM860'' conv_cp860_to_uni conv_uni_to_cp860,
     conv_pair ''cp-861'' conv_cp861_to_uni conv_uni_to_cp861,
     conv_pair ''861'' conv_cp861_to_uni conv_uni_to_cp861,
     conv_pair ''cp-is'' conv_cp861_to_uni conv_uni_to_cp861,
     conv_pair ''csIBM861'' conv_cp861_to_uni conv_uni_to_cp861,
     conv_pair ''IBM861'' conv_cp861_to_uni conv_uni_to_cp861,
     conv_pair ''cp-862'' conv_cp862_to_uni conv_uni_to_cp862,
     conv_pair ''862'' conv_cp862_to_uni conv_uni_to_cp862,
     conv_pair ''csPC862LatinHebrew'' conv_cp862_to_uni conv_uni_to_cp862,
     conv_pair ''IBM862'' conv_cp862_to_uni conv_uni_to_cp862,
     conv_pair ''cp-863'' conv_cp863_to_uni conv_uni_to_cp863,
     conv_pair ''863'' conv_cp863_to_uni conv_uni_to_cp863,
     conv_pair ''csIBM863'' conv_cp863_to_uni conv_uni_to_cp863,
     conv_pair ''IBM863'' conv_cp863_to_uni conv_uni_to_cp863,
     conv_pair ''cp-864'' conv_cp864_to_uni conv_uni_to_cp864,
     conv_pair ''csIBM864'' conv_cp864_to_uni conv_uni_to_cp864,
     conv_pair ''IBM864'' conv_cp864_to_uni conv_uni_to_cp864,
     conv_pair ''cp-865'' conv_cp865_to_uni conv_uni_to_cp865,
     conv_pair ''865'' conv_cp865_to_uni conv_uni_to_cp865,
     conv_pair ''csIBM865'' conv_cp865_to_uni conv_uni_to_cp865,
     conv_pair ''IBM865'' conv_cp865_to_uni conv_uni_to_cp865,
     conv_pair ''cp-866'' conv_cp866_to_uni conv_uni_to_cp866,
     conv_pair ''866'' conv_cp866_to_uni conv_uni_to_cp866,
     conv_pair ''csIBM866'' conv_cp866_to_uni conv_uni_to_cp866,
     conv_pair ''IBM866'' conv_cp866_to_uni conv_uni_to_cp866,
     conv_pair ''cp-869'' conv_cp869_to_uni conv_uni_to_cp869,
     conv_pair ''869'' conv_cp869_to_uni conv_uni_to_cp869,
     conv_pair ''cp-gr'' conv_cp869_to_uni conv_uni_to_cp869,
     conv_pair ''csIBM869'' conv_cp869_to_uni conv_uni_to_cp869,
     conv_pair ''IBM869'' conv_cp869_to_uni conv_uni_to_cp869,
     conv_pair ''cp-874'' conv_cp874_to_uni conv_uni_to_cp874,
     conv_pair ''windows-874'' conv_cp874_to_uni conv_uni_to_cp874,
     conv_pair ''cswindows874'' conv_cp874_to_uni conv_uni_to_cp874,
     conv_pair ''cp-1026'' conv_cp1026_to_uni conv_uni_to_cp1026,
     conv_pair ''csIBM1026'' conv_cp1026_to_uni conv_uni_to_cp1026,
     conv_pair ''IBM1026'' conv_cp1026_to_uni conv_uni_to_cp1026]"

definition NDM_CONV_PAIRS_WINDOWS :: "ndm_conv_pair_t list" where
  "NDM_CONV_PAIRS_WINDOWS =
    [conv_pair ''cp-1250'' conv_cp1250_to_uni conv_uni_to_cp1250,
     conv_pair ''windows-1250'' conv_cp1250_to_uni conv_uni_to_cp1250,
     conv_pair ''cswindows1250'' conv_cp1250_to_uni conv_uni_to_cp1250,
     conv_pair ''cp-1251'' conv_cp1251_to_uni conv_uni_to_cp1251,
     conv_pair ''windows-1251'' conv_cp1251_to_uni conv_uni_to_cp1251,
     conv_pair ''cswindows1251'' conv_cp1251_to_uni conv_uni_to_cp1251,
     conv_pair ''cp-1252'' conv_cp1252_to_uni conv_uni_to_cp1252,
     conv_pair ''windows-1252'' conv_cp1252_to_uni conv_uni_to_cp1252,
     conv_pair ''cswindows1252'' conv_cp1252_to_uni conv_uni_to_cp1252,
     conv_pair ''cp-1253'' conv_cp1253_to_uni conv_uni_to_cp1253,
     conv_pair ''windows-1253'' conv_cp1253_to_uni conv_uni_to_cp1253,
     conv_pair ''cswindows1253'' conv_cp1253_to_uni conv_uni_to_cp1253,
     conv_pair ''cp-1254'' conv_cp1254_to_uni conv_uni_to_cp1254,
     conv_pair ''windows-1254'' conv_cp1254_to_uni conv_uni_to_cp1254,
     conv_pair ''cswindows1254'' conv_cp1254_to_uni conv_uni_to_cp1254,
     conv_pair ''cp-1255'' conv_cp1255_to_uni conv_uni_to_cp1255,
     conv_pair ''windows-1255'' conv_cp1255_to_uni conv_uni_to_cp1255,
     conv_pair ''cswindows1255'' conv_cp1255_to_uni conv_uni_to_cp1255,
     conv_pair ''cp-1256'' conv_cp1256_to_uni conv_uni_to_cp1256,
     conv_pair ''windows-1256'' conv_cp1256_to_uni conv_uni_to_cp1256,
     conv_pair ''cswindows1256'' conv_cp1256_to_uni conv_uni_to_cp1256,
     conv_pair ''cp-1257'' conv_cp1257_to_uni conv_uni_to_cp1257,
     conv_pair ''windows-1257'' conv_cp1257_to_uni conv_uni_to_cp1257,
     conv_pair ''cswindows1257'' conv_cp1257_to_uni conv_uni_to_cp1257,
     conv_pair ''cp-1258'' conv_cp1258_to_uni conv_uni_to_cp1258,
     conv_pair ''windows-1258'' conv_cp1258_to_uni conv_uni_to_cp1258,
     conv_pair ''cswindows1258'' conv_cp1258_to_uni conv_uni_to_cp1258]"

definition NDM_CONV_PAIRS_KOI8 :: "ndm_conv_pair_t list" where
  "NDM_CONV_PAIRS_KOI8 =
    [conv_pair ''koi8-r'' conv_koi8_r_to_uni conv_uni_to_koi8_r,
     conv_pair ''csKOI8R'' conv_koi8_r_to_uni conv_uni_to_koi8_r,
     conv_pair ''koi8-u'' conv_koi8_u_to_uni conv_uni_to_koi8_u,
     conv_pair ''csKOI8U'' conv_koi8_u_to_uni conv_uni_to_koi8_u,
     conv_pair ''kz-1048'' conv_kz1048_to_uni conv_uni_to_kz1048,
     conv_pair ''STRK1048-2002'' conv_kz1048_to_uni conv_uni_to_kz1048,
     conv_pair ''RK1048'' conv_kz1048_to_uni conv_uni_to_kz1048,
     conv_pair ''csKZ1048'' conv_kz1048_to_uni conv_uni_to_kz1048,
     conv_pair ''nextstep'' conv_nextstep_to_uni conv_uni_to_nextstep]"

definition NDM_CONV_PAIRS_MAC :: "ndm_conv_pair_t list" where
  "NDM_CONV_PAIRS_MAC =
    [conv_pair ''mac-celtic'' conv_celtic_to_uni conv_uni_to_celtic,
     conv_pair ''x-mac-celtic'' conv_celtic_to_uni conv_uni_to_celtic,
     conv_pair ''mac-centeuro'' conv_centeuro_to_uni conv_uni_to_centeuro,
     conv_pair ''x-mac-centeuro'' conv_centeuro_to_uni conv_uni_to_centeuro,
     conv_pair ''mac-croatian'' conv_croatian_to_uni conv_uni_to_croatian,
     conv_pair ''x-mac-croatian'' conv_croatian_to_uni conv_uni_to_croatian,
     conv_pair ''mac-cyrillic'' conv_cyrillic_to_uni conv_uni_to_cyrillic,
     conv_pair ''x-mac-cyrillic'' conv_cyrillic_to_uni conv_uni_to_cyrillic,
     conv_pair ''mac-gaelic'' conv_gaelic_to_uni conv_uni_to_gaelic,
     conv_pair ''x-mac-gaelic'' conv_gaelic_to_uni conv_uni_to_gaelic,
     conv_pair ''mac-greek'' conv_greek_to_uni conv_uni_to_greek,
     conv_pair ''x-mac-greek'' conv_greek_to_uni conv_uni_to_greek,
     conv_pair ''mac-icelandic'' conv_iceland_to_uni conv_uni_to_iceland,
     conv_pair ''x-mac-icelandic'' conv_iceland_to_uni conv_uni_to_iceland,
     conv_pair ''mac-iceland'' conv_iceland_to_uni conv_uni_to_iceland,
     conv_pair ''x-mac-iceland'' conv_iceland_to_uni conv_uni_to_iceland,
     conv_pair ''mac-inuit'' conv_inuit_to_uni conv_uni_to_inuit,
     conv_pair ''x-mac-inuit'' conv_inuit_to_uni conv_uni_to_inuit,
     conv_pair ''mac-roman'' conv_roman_to_uni conv_uni_to_roman,
     conv_pair ''x-mac-roman'' conv_roman_to_uni conv_uni_to_roman,
     conv_pair ''mac-romanian'' conv_romanian_to_uni conv_uni_to_romanian,
     conv_pair ''x-mac-romanian'' conv_romanian_to_uni conv_uni_to_romanian,
     conv_pair ''mac-turkish'' conv_turkish_to_uni conv_uni_to_turkish,
     conv_pair ''x-mac-turkish'' conv_turkish_to_uni conv_uni_to_turkish,
     conv_pair ''mac-ukrainian'' conv_cyrillic_to_uni conv_uni_to_cyrillic,
     conv_pair ''x-mac-ukrainian'' conv_cyrillic_to_uni conv_uni_to_cyrillic]"

definition NDM_CONV_PAIRS :: "host \<Rightarrow> ndm_conv_pair_t list" where
  "NDM_CONV_PAIRS h =
     NDM_CONV_PAIRS_UTF h @ NDM_CONV_PAIRS_8859 @ NDM_CONV_PAIRS_CP @ NDM_CONV_PAIRS_WINDOWS @ NDM_CONV_PAIRS_KOI8 @
     NDM_CONV_PAIRS_MAC"

section \<open>Looking up a name\<close>

text \<open>\<open>isalnum\<close> and \<open>tolower\<close> of the C locale.\<close>

definition conv_isalnum :: "u8 \<Rightarrow> bool" where
  "conv_isalnum c \<longleftrightarrow> 48 \<le> c \<and> c \<le> 57 \<or> 65 \<le> c \<and> c \<le> 90 \<or> 97 \<le> c \<and> c \<le> 122"

definition conv_tolower :: "u8 \<Rightarrow> u8" where
  "conv_tolower c = (if 65 \<le> c \<and> c \<le> 90 then c + 32 else c)"

lemma dropWhile_shorter:
  "a # r = dropWhile P p \<Longrightarrow> length r < length p" "dropWhile P p = a # r \<Longrightarrow> length r < length p"
  using length_dropWhile_le [of P p] by (metis Suc_le_lessD length_Cons)+

text \<open>The comparison of two names, without their terminators.\<close>

function conv_name_matches :: "u8 list \<Rightarrow> u8 list \<Rightarrow> bool" where
  "conv_name_matches p q =
     (case (dropWhile (\<lambda>c. \<not> conv_isalnum c) p, dropWhile (\<lambda>c. \<not> conv_isalnum c) q) of
        ([], []) \<Rightarrow> True
      | (a # p, b # q) \<Rightarrow> if conv_tolower a \<noteq> conv_tolower b then False else conv_name_matches p q
      | _ \<Rightarrow> False)"
  by auto
termination
  by (relation "measure (\<lambda>(p, q). length p)") (auto dest: dropWhile_shorter)

declare conv_name_matches.simps [simp del]

text \<open>The index of the first name that matches.\<close>

fun conv_find_from :: "ndm_conv_pair_t list \<Rightarrow> nat \<Rightarrow> u8 list \<Rightarrow> nat option" where
  "conv_find_from [] i name = None"
| "conv_find_from (pair # pairs) i name =
     (if conv_name_matches name (map of_char (pair_name pair)) then Some i else conv_find_from pairs (i + 1) name)"

definition ndm_conv_find :: "host \<Rightarrow> u8 list \<Rightarrow> nat option" where
  "ndm_conv_find h name = conv_find_from (NDM_CONV_PAIRS h) 0 name"

section \<open>Descriptors\<close>

definition NDM_CONV_FROM :: "u32 \<Rightarrow> u32" where "NDM_CONV_FROM c = drop_bit 8 c AND 0xff"
definition NDM_CONV_TO :: "u32 \<Rightarrow> u32" where "NDM_CONV_TO c = drop_bit 16 c AND 0xff"

definition ndm_conv_open :: "host \<Rightarrow> u8 list \<Rightarrow> u8 list \<Rightarrow> u32 result" where
  "ndm_conv_open h to from_name =
     (case (ndm_conv_find h from_name, ndm_conv_find h to) of
        (Some from_index, Some to_index) \<Rightarrow> Ok (push_bit 8 (of_nat from_index) OR push_bit 16 (of_nat to_index))
      | _ \<Rightarrow> Error EINVAL)"

definition ndm_conv_close :: "u32 \<Rightarrow> int" where
  "ndm_conv_close cd = 0"

section \<open>The conversion\<close>

text \<open>
  The count of non-identical conversions, or \<open>-1\<close> with \<open>errno\<close>. Returned with it are the bytes
  that are left of the input, the bytes that were written and the room that is left.
\<close>

datatype conv_return = Converted nat | Stopped errno

definition REPNC :: u8 where "REPNC = 63"

function conv_loop ::
  "to_uni_func \<Rightarrow> uni_to_func \<Rightarrow> u8 list \<Rightarrow> u8 list \<Rightarrow> u8 list \<Rightarrow> nat \<Rightarrow>
   (conv_return \<times> u8 list \<times> u8 list \<times> u8 list) result" where
  "conv_loop to_uni uni_to inp written room nonidentical_count =
     (if inp \<noteq> [] then
        (case to_uni inp of
           Ok (d, cp) \<Rightarrow>
             if d > 0 then
               need cp (\<lambda>cp.
               asserting (cp \<le> UNICODE_MAX \<and> (cp < SUR_HIGH_START \<or> cp > SUR_LOW_END))
                 (case uni_to cp room of (e, room') \<Rightarrow>
                    if e > 0 then
                      conv_loop to_uni uni_to (drop (nat d) inp) (written @ take (nat e) room') (drop (nat e) room') nonidentical_count
                    else if e < 0 then Ok (Stopped E2BIG, inp, written, room')
                    else if length room' < 1 then Ok (Stopped E2BIG, inp, written, room')
                    else
                      conv_loop to_uni uni_to (drop (nat d) inp) (written @ [REPNC]) (drop 1 room') (nonidentical_count + 1)))
             else Ok (Stopped (if d = 0 then EINVAL else EILSEQ), inp, written, room)
         | Error e \<Rightarrow> Error e
         | Undefined \<Rightarrow> Undefined)
      else Ok (Converted nonidentical_count, inp, written, room))"
  by auto
termination
  by (relation "measure (\<lambda>(to_uni, uni_to, inp, written, room, n). length inp)") auto

declare conv_loop.simps [simp del]

text \<open>\<open>None\<close> as the input is the call that resets the shift state.\<close>

definition ndm_conv ::
  "host \<Rightarrow> u32 \<Rightarrow> u8 list option \<Rightarrow> u8 list \<Rightarrow> (conv_return \<times> u8 list \<times> u8 list \<times> u8 list) result" where
  "ndm_conv h cd inp out =
     (case inp of
        None \<Rightarrow> Ok (Converted 0, [], [], out)
      | Some inp \<Rightarrow>
          let from_index = unat (NDM_CONV_FROM cd); to_index = unat (NDM_CONV_TO cd) in
          if from_index \<ge> length (NDM_CONV_PAIRS h) \<or> to_index \<ge> length (NDM_CONV_PAIRS h) then Ok (Stopped EBADF, inp, [], out)
          else
            conv_loop (pair_to_uni (NDM_CONV_PAIRS h ! from_index)) (pair_uni_to (NDM_CONV_PAIRS h ! to_index)) inp [] out 0)"

lemmas codecs = utf_is_codec iso_8859_1_codec iso_8859_2_codec iso_8859_3_codec iso_8859_4_codec iso_8859_5_codec iso_8859_6_codec
  iso_8859_7_codec iso_8859_8_codec iso_8859_9_codec iso_8859_10_codec iso_8859_11_codec iso_8859_13_codec iso_8859_14_codec
  iso_8859_15_codec iso_8859_16_codec cp037_codec cp424_codec cp437_codec cp500_codec cp737_codec cp775_codec cp850_codec cp852_codec
  cp855_codec cp856_codec cp857_codec cp860_codec cp861_codec cp862_codec cp863_codec cp864_codec cp865_codec cp866_codec cp869_codec
  cp874_codec cp1026_codec cp1250_codec cp1251_codec cp1252_codec cp1253_codec cp1254_codec cp1255_codec cp1256_codec cp1257_codec
  cp1258_codec koi8_r_codec koi8_u_codec kz1048_codec nextstep_codec celtic_codec centeuro_codec croatian_codec cyrillic_codec
  gaelic_codec greek_codec iceland_codec inuit_codec roman_codec romanian_codec turkish_codec

lemma pairs_codec: "p \<in> set (NDM_CONV_PAIRS h) \<Longrightarrow> is_codec (pair_to_uni p) (pair_uni_to p)"
proof -
  have "list_all (\<lambda>p. is_codec (pair_to_uni p) (pair_uni_to p)) (NDM_CONV_PAIRS h)"
    by (simp add: NDM_CONV_PAIRS_def NDM_CONV_PAIRS_UTF_def NDM_CONV_PAIRS_8859_def NDM_CONV_PAIRS_CP_def NDM_CONV_PAIRS_WINDOWS_def
        NDM_CONV_PAIRS_KOI8_def NDM_CONV_PAIRS_MAC_def codecs)
  then show "p \<in> set (NDM_CONV_PAIRS h) \<Longrightarrow> is_codec (pair_to_uni p) (pair_uni_to p)" by (simp add: list_all_iff)
qed

lemma pairs_length: "length (NDM_CONV_PAIRS h) = 240"
  by (simp add: NDM_CONV_PAIRS_def NDM_CONV_PAIRS_UTF_def NDM_CONV_PAIRS_8859_def NDM_CONV_PAIRS_CP_def NDM_CONV_PAIRS_WINDOWS_def
      NDM_CONV_PAIRS_KOI8_def NDM_CONV_PAIRS_MAC_def)

section \<open>What a conversion does\<close>

text \<open>The code points an input decodes to, and what is left where decoding stops.\<close>

function decode_all :: "to_uni_func \<Rightarrow> u8 list \<Rightarrow> u32 list \<times> u8 list" where
  "decode_all f inp =
     (if inp = [] then ([], [])
      else case f inp of
          Ok (d, Some cp) \<Rightarrow> if d > 0 then (case decode_all f (drop (nat d) inp) of (cps, rest) \<Rightarrow> (cp # cps, rest)) else ([], inp)
        | _ \<Rightarrow> ([], inp))"
  by auto
termination by (relation "measure (\<lambda>(f, inp). length inp)") auto

declare decode_all.simps [simp del]

text \<open>Whether the target has a code point, and the bytes that stand for it.\<close>

definition conv_room :: "uni_to_func \<Rightarrow> u32 \<Rightarrow> u8 list" where
  "conv_room g cp = replicate (nat (- fst (g cp []))) 0"

definition conv_exact :: "uni_to_func \<Rightarrow> u32 \<Rightarrow> bool" where
  "conv_exact g cp \<longleftrightarrow> fst (g cp (conv_room g cp)) > 0"

definition conv_bytes :: "uni_to_func \<Rightarrow> u32 \<Rightarrow> u8 list" where
  "conv_bytes g cp = (if conv_exact g cp then snd (g cp (conv_room g cp)) else [REPNC])"

definition stop_errno :: "to_uni_func \<Rightarrow> u8 list \<Rightarrow> errno" where
  "stop_errno f rest = (if \<exists>c. f rest = Ok (0, c) then EINVAL else EILSEQ)"

lemma conv_bytes_codec:
  assumes "codec f g bytes" "scalar_cp cp"
  shows "conv_exact g cp \<longleftrightarrow> bytes cp \<noteq> None"
    and "conv_bytes g cp = (case bytes cp of Some bs \<Rightarrow> bs | None \<Rightarrow> [REPNC])"
    and "conv_bytes g cp \<noteq> []"
    and "g cp room = (if length room < length (conv_bytes g cp) then (- int (length (conv_bytes g cp)), room)
      else if bytes cp = None then (0, room) else (int (length (conv_bytes g cp)), conv_bytes g cp @ drop (length (conv_bytes g cp)) room))"
proof -
  have "(conv_exact g cp \<longleftrightarrow> bytes cp \<noteq> None) \<and> conv_bytes g cp = (case bytes cp of Some bs \<Rightarrow> bs | None \<Rightarrow> [REPNC]) \<and> conv_bytes g cp \<noteq> []"
  proof (cases "bytes cp")
    case None
    then show ?thesis using codec.encode_none [OF assms] by (simp add: conv_exact_def conv_bytes_def conv_room_def)
  next
    case (Some bs)
    then show ?thesis using codec.encode_some [OF assms Some] by (simp add: conv_exact_def conv_bytes_def conv_room_def)
  qed
  then show e: "conv_exact g cp \<longleftrightarrow> bytes cp \<noteq> None"
    and b: "conv_bytes g cp = (case bytes cp of Some bs \<Rightarrow> bs | None \<Rightarrow> [REPNC])"
    and "conv_bytes g cp \<noteq> []" by blast+
  show "g cp room = (if length room < length (conv_bytes g cp) then (- int (length (conv_bytes g cp)), room)
      else if bytes cp = None then (0, room) else (int (length (conv_bytes g cp)), conv_bytes g cp @ drop (length (conv_bytes g cp)) room))"
  proof (cases "bytes cp")
    case None
    then show ?thesis using codec.encode_none [OF assms None, of room] b by (cases room) auto
  next
    case (Some bs)
    then show ?thesis using codec.encode_some [OF assms Some, of room] b by auto
  qed
qed

text \<open>The first \<open>k\<close> code points are converted: all, or as many as there is room for.\<close>

definition converted_upto :: "to_uni_func \<Rightarrow> uni_to_func \<Rightarrow> u32 list \<Rightarrow> u8 list \<Rightarrow> u8 list \<Rightarrow> nat \<Rightarrow> nat \<Rightarrow> conv_return \<times> u8 list \<times> u8 list \<times> u8 list \<Rightarrow> bool" where
  "converted_upto f g cps rest room n k r \<longleftrightarrow>
     (case r of (ret, inp, written, room') \<Rightarrow>
        decode_all f inp = (drop k cps, rest) \<and> written = concat (map (conv_bytes g) (take k cps)) \<and> room' = drop (length written) room \<and>
        length written \<le> length room \<and>
        (if k < length cps then ret = Stopped E2BIG \<and> length room' < length (conv_bytes g (cps ! k))
         else ret = (if rest = [] then Converted (n + length (filter (\<lambda>c. \<not> conv_exact g c) cps)) else Stopped (stop_errno f rest))))"

lemma decode_all_Nil: "decode_all f inp = ([], rest) \<Longrightarrow> rest = inp \<and> (inp = [] \<or> (\<forall>d cp. f inp = Ok (d, Some cp) \<longrightarrow> \<not> d > 0))"
  by (subst (asm) decode_all.simps) (auto split: if_splits result.splits option.splits prod.splits)

lemma decode_all_Cons:
  "decode_all f inp = (cp # cps, rest) \<Longrightarrow>
   \<exists>d. inp \<noteq> [] \<and> f inp = Ok (d, Some cp) \<and> d > 0 \<and> decode_all f (drop (nat d) inp) = (cps, rest)"
  by (subst (asm) decode_all.simps) (auto split: if_splits result.splits option.splits prod.splits)

lemma conv_loop_upto:
  assumes f: "codec f f' fb" and g: "codec g' g gb"
  shows "decode_all f inp = (cps, rest) \<Longrightarrow> list_all scalar_cp cps \<Longrightarrow>
    \<exists>k ret inp' w room'. k \<le> length cps \<and> conv_loop f g inp written room n = Ok (ret, inp', written @ w, room') \<and>
      converted_upto f g cps rest room n k (ret, inp', w, room')"
proof (induction cps arbitrary: inp written room n)
  case Nil
  from decode_all_Nil [OF Nil(1)] have r: "rest = inp" and stop: "inp = [] \<or> (\<forall>d cp. f inp = Ok (d, Some cp) \<longrightarrow> \<not> d > 0)" by auto
  show ?case
  proof (cases "inp = []")
    case True
    then show ?thesis using Nil r by (subst conv_loop.simps) (auto simp: converted_upto_def)
  next
    case False
    then obtain d c where d: "f inp = Ok (d, c)" "d \<le> 0" using codec.decode_total [OF f False] stop by auto
    then have "conv_loop f g inp written room n = Ok (Stopped (stop_errno f inp), inp, written, room)"
      using False by (subst conv_loop.simps) (auto simp: stop_errno_def)
    then show ?thesis using Nil r False by (auto simp: converted_upto_def)
  qed
next
  case (Cons cp cps)
  from decode_all_Cons [OF Cons.prems(1)] obtain d where
    d: "inp \<noteq> []" "f inp = Ok (d, Some cp)" "d > 0" "decode_all f (drop (nat d) inp) = (cps, rest)" by blast
  have sc: "scalar_cp cp" "list_all scalar_cp cps" using Cons.prems(2) by auto
  note g_cp = conv_bytes_codec [OF g sc(1)]
  let ?b = "conv_bytes g cp"
  have step: "conv_loop f g inp written room n =
    (if length room < length ?b then Ok (Stopped E2BIG, inp, written, room)
     else conv_loop f g (drop (nat d) inp) (written @ ?b) (drop (length ?b) room) (if conv_exact g cp then n else n + 1))"
  proof -
    have "?b = [REPNC]" if "gb cp = None" using g_cp(2) that by simp
    then show ?thesis
      using d sc(1) g_cp(1,3) by (subst conv_loop.simps) (auto simp: g_cp(4) [of room] scalar_cp_def)
  qed
  show ?case
  proof (cases "length room < length ?b")
    case True
    then show ?thesis using step Cons.prems(1) by (intro exI [of _ 0]) (auto simp: converted_upto_def)
  next
    case False
    let ?n = "if conv_exact g cp then n else n + 1"
    from Cons.IH [OF d(4) sc(2), of "written @ ?b" "drop (length ?b) room" ?n] obtain k ret inp' w room' where
      k: "k \<le> length cps" "conv_loop f g (drop (nat d) inp) (written @ ?b) (drop (length ?b) room) ?n = Ok (ret, inp', (written @ ?b) @ w, room')"
      "converted_upto f g cps rest (drop (length ?b) room) ?n k (ret, inp', w, room')" by blast
    have "converted_upto f g (cp # cps) rest room n (Suc k) (ret, inp', ?b @ w, room')"
      using k(3) False by (auto simp: converted_upto_def add.commute split: if_splits)
    then show ?thesis using k(1,2) step False
      by (intro exI [of _ "Suc k"] exI [of _ ret] exI [of _ inp'] exI [of _ "?b @ w"] exI [of _ room']) simp
  qed
qed

lemma decode_converted:
  assumes g: "codec g' g gb"
  shows "list_all scalar_cp cps \<Longrightarrow> list_all (conv_exact g) cps \<Longrightarrow> decode_all g' (concat (map (conv_bytes g) cps)) = (cps, [])"
proof (induction cps)
  case Nil
  then show ?case by (simp add: decode_all.simps)
next
  case (Cons cp cps)
  then have sc: "scalar_cp cp" and ex: "conv_exact g cp" by auto
  from conv_bytes_codec(1,2) [OF g sc] ex obtain bs where bs: "gb cp = Some bs" "conv_bytes g cp = bs" by auto
  have "bs \<noteq> []" using conv_bytes_codec(3) [OF g sc] bs by simp
  then show ?case using Cons codec.decode_encode [OF g sc bs(1), of "concat (map (conv_bytes g) cps)"] bs(2)
    by (subst decode_all.simps) simp
qed

section \<open>Names\<close>

text \<open>What of a name is compared.\<close>

definition conv_key :: "u8 list \<Rightarrow> u8 list" where
  "conv_key name = map conv_tolower (filter conv_isalnum name)"

lemma filter_dropWhile: "filter P (dropWhile (\<lambda>x. \<not> P x) xs) = filter P xs"
  by (induction xs) auto

lemma conv_name_matches_key: "conv_name_matches p q \<longleftrightarrow> conv_key p = conv_key q"
proof (induction p q rule: conv_name_matches.induct)
  case (1 p q)
  let ?p = "dropWhile (\<lambda>c. \<not> conv_isalnum c) p" and ?q = "dropWhile (\<lambda>c. \<not> conv_isalnum c) q"
  have k: "conv_key ?p = conv_key p" "conv_key ?q = conv_key q" by (simp_all add: conv_key_def filter_dropWhile)
  have hd: "conv_isalnum a" if "dropWhile (\<lambda>c. \<not> conv_isalnum c) x = a # r" for x a r
    using that hd_dropWhile [of "\<lambda>c. \<not> conv_isalnum c" x] by auto
  show ?case
  proof (cases ?p; cases ?q)
    fix a p' b q' assume pq: "?p = a # p'" "?q = b # q'"
    have ab: "conv_isalnum a" "conv_isalnum b" using hd [OF pq(1)] hd [OF pq(2)] by auto
    have "conv_key p = conv_tolower a # conv_key p'" "conv_key q = conv_tolower b # conv_key q'"
      using k ab by (simp_all add: pq conv_key_def)
    moreover have "conv_tolower a = conv_tolower b \<Longrightarrow> conv_name_matches p' q' \<longleftrightarrow> conv_key p' = conv_key q'"
      using 1 pq by simp
    ultimately show ?thesis using pq by (subst conv_name_matches.simps) auto
  next
    fix b q' assume pq: "?p = []" "?q = b # q'"
    have "conv_key p = []" using k pq by (simp add: conv_key_def)
    moreover have "conv_key q = conv_tolower b # conv_key q'" using k hd [OF pq(2)] by (simp add: pq conv_key_def)
    ultimately show ?thesis using pq by (subst conv_name_matches.simps) (simp del: dropWhile_eq_Nil_conv)
  next
    fix a p' assume pq: "?p = a # p'" "?q = []"
    have "conv_key q = []" using k pq by (simp add: conv_key_def)
    moreover have "conv_key p = conv_tolower a # conv_key p'" using k hd [OF pq(1)] by (simp add: pq conv_key_def)
    ultimately show ?thesis using pq by (subst conv_name_matches.simps) (simp del: dropWhile_eq_Nil_conv)
  next
    assume "?p = []" "?q = []"
    then show ?thesis using k by (subst conv_name_matches.simps) (simp add: conv_key_def del: dropWhile_eq_Nil_conv)
  qed
qed

definition named_pair :: "host \<Rightarrow> u8 list \<Rightarrow> ndm_conv_pair_t option" where
  "named_pair h name = List.find (\<lambda>p. conv_key (map of_char (pair_name p)) = conv_key name) (NDM_CONV_PAIRS h)"

lemma conv_find_from_spec:
  "case conv_find_from ps i name of
     None \<Rightarrow> List.find (\<lambda>p. conv_key (map of_char (pair_name p)) = conv_key name) ps = None
   | Some k \<Rightarrow> i \<le> k \<and> k < i + length ps \<and>
       List.find (\<lambda>p. conv_key (map of_char (pair_name p)) = conv_key name) ps = Some (ps ! (k - i))"
proof (induction ps arbitrary: i)
  case (Cons p ps)
  show ?case using Cons.IH [of "i + 1"]
    by (auto simp: conv_name_matches_key nth_Cons' split: option.splits)
qed simp

lemma ndm_conv_find_spec:
  "(ndm_conv_find h name = None \<longleftrightarrow> named_pair h name = None) \<and>
   (\<forall>i. ndm_conv_find h name = Some i \<longrightarrow> i < 240 \<and> named_pair h name = Some (NDM_CONV_PAIRS h ! i))"
  using conv_find_from_spec [where ps = "NDM_CONV_PAIRS h" and i = 0 and name = name]
  by (auto simp: ndm_conv_find_def named_pair_def pairs_length split: option.splits)

lemma descriptor:
  assumes "i < 256" "j < 256"
  shows "unat (NDM_CONV_FROM (push_bit 8 (of_nat i) OR push_bit 16 (of_nat j))) = i"
    and "unat (NDM_CONV_TO (push_bit 8 (of_nat i) OR push_bit 16 (of_nat j))) = j"
proof -
  have m: "w AND 0xff = take_bit 8 w" for w :: u32 by (simp add: take_bit_eq_mask mask_eq_exp_minus_1)
  have small: "n < 8" if "bit k n" "k < 256" for k n :: nat
  proof -
    have "take_bit 8 k = k" using that by (simp add: take_bit_nat_eq_self)
    with that show ?thesis by (metis bit_take_bit_iff)
  qed
  have "NDM_CONV_FROM (push_bit 8 (of_nat i) OR push_bit 16 (of_nat j)) = of_nat i"
    by (rule bit_word_eqI) (use assms in \<open>auto simp: NDM_CONV_FROM_def m bit_simps dest: small\<close>)
  then show "unat (NDM_CONV_FROM (push_bit 8 (of_nat i) OR push_bit 16 (of_nat j))) = i"
    using assms(1) by (simp add: unat_of_nat)
  have "NDM_CONV_TO (push_bit 8 (of_nat i) OR push_bit 16 (of_nat j)) = of_nat j"
    by (rule bit_word_eqI) (use assms in \<open>auto simp: NDM_CONV_TO_def m bit_simps dest: small\<close>)
  then show "unat (NDM_CONV_TO (push_bit 8 (of_nat i) OR push_bit 16 (of_nat j))) = j"
    using assms(2) by (simp add: unat_of_nat)
qed

lemma pairs_nth:
  assumes "i < 240"
  shows "is_codec (pair_to_uni (NDM_CONV_PAIRS h ! i)) (pair_uni_to (NDM_CONV_PAIRS h ! i))"
  using assms pairs_codec [of "NDM_CONV_PAIRS h ! i" h] by (simp add: pairs_length)

lemma open_indices:
  "ndm_conv_open h to from_name = Ok cd \<Longrightarrow> \<exists>i j. i < 240 \<and> j < 240 \<and> unat (NDM_CONV_FROM cd) = i \<and> unat (NDM_CONV_TO cd) = j \<and>
     named_pair h from_name = Some (NDM_CONV_PAIRS h ! i) \<and> named_pair h to = Some (NDM_CONV_PAIRS h ! j)"
  using ndm_conv_find_spec [of h from_name] ndm_conv_find_spec [of h to]
  by (auto simp: ndm_conv_open_def descriptor split: option.splits)

section \<open>Properties\<close>

text \<open>
  C16: a descriptor refers to the first entries of the table whose names are the two
  names given, up to case and to characters that are neither letters nor digits; it is refused
  with \<open>EINVAL\<close> exactly when one of them has no such entry.
\<close>

theorem conv_open_names:
  "case ndm_conv_open h to from_name of
     Ok cd \<Rightarrow> named_pair h from_name = Some (NDM_CONV_PAIRS h ! unat (NDM_CONV_FROM cd)) \<and>
       named_pair h to = Some (NDM_CONV_PAIRS h ! unat (NDM_CONV_TO cd))
   | Error e \<Rightarrow> e = EINVAL \<and> (named_pair h from_name = None \<or> named_pair h to = None)
   | Undefined \<Rightarrow> False"
proof (cases "ndm_conv_open h to from_name")
  case (Ok cd)
  from open_indices [OF this] Ok show ?thesis by auto
qed (use ndm_conv_find_spec [of h from_name] ndm_conv_find_spec [of h to] in
    \<open>auto simp: ndm_conv_open_def split: option.splits\<close>)

text \<open>
  C9: between any two of the 240 names, on hosts of both byte orders, for an input without
  encoded surrogates (one in UTF-8 fails an assertion instead, see below): the input is
  decoded up to its end or to the first sequence that is illegal or cut off, each code point is
  written in the target set, or as a question mark where the set does not have it, as long
  as the output has room; input and output are left at the same character, and the result counts
  the replaced ones or tells why the conversion stopped. If the target set has every code point
  that was converted, what was written decodes in it to those code points.
\<close>

theorem ndm_conv_converts:
  assumes "ndm_conv_open h to from_name = Ok cd" "named_pair h from_name = Some p" "named_pair h to = Some q"
    and "decode_all (pair_to_uni p) inp = (cps, rest)" "list_all scalar_cp cps"
  shows "\<exists>k ret inp' written. k \<le> length cps \<and>
    ndm_conv h cd (Some inp) out = Ok (ret, inp', written, drop (length written) out) \<and>
    decode_all (pair_to_uni p) inp' = (drop k cps, rest) \<and>
    written = concat (map (conv_bytes (pair_uni_to q)) (take k cps)) \<and> length written \<le> length out \<and>
    (list_all (conv_exact (pair_uni_to q)) (take k cps) \<longrightarrow> decode_all (pair_to_uni q) written = (take k cps, [])) \<and>
    (if k < length cps then ret = Stopped E2BIG \<and> length out < length written + length (conv_bytes (pair_uni_to q) (cps ! k))
     else if rest = [] then ret = Converted (length (filter (\<lambda>c. \<not> conv_exact (pair_uni_to q) c) cps))
     else ret = Stopped (stop_errno (pair_to_uni p) rest))"
proof -
  from open_indices [OF assms(1)] assms(2,3) obtain i j where
    ij: "i < 240" "j < 240" "unat (NDM_CONV_FROM cd) = i" "unat (NDM_CONV_TO cd) = j" "p = NDM_CONV_PAIRS h ! i" "q = NDM_CONV_PAIRS h ! j"
    by auto
  obtain f' fb gb where f: "codec (pair_to_uni p) f' fb" and g: "codec (pair_to_uni q) (pair_uni_to q) gb"
    using pairs_nth [OF ij(1), of h] pairs_nth [OF ij(2), of h] ij(5,6) by (auto simp: is_codec_def)
  have call: "ndm_conv h cd (Some inp) out = conv_loop (pair_to_uni p) (pair_uni_to q) inp [] out 0"
    using ij by (simp add: ndm_conv_def pairs_length Let_def)
  from conv_loop_upto [OF f g assms(4,5), of "[]" out 0] obtain k ret inp' w room' where
    k: "k \<le> length cps" "conv_loop (pair_to_uni p) (pair_uni_to q) inp [] out 0 = Ok (ret, inp', w, room')"
      "converted_upto (pair_to_uni p) (pair_uni_to q) cps rest out 0 k (ret, inp', w, room')" by auto
  have "list_all scalar_cp (take k cps)" using assms(5) by (auto simp: list_all_iff dest: in_set_takeD)
  from decode_converted [OF g this] k show ?thesis
    by (intro exI [of _ k] exI [of _ ret] exI [of _ inp'] exI [of _ w]) (auto simp: converted_upto_def call)
qed

text \<open>
  C40: the UTF-8 decoder accepts the three bytes of a surrogate, which the
  assertion behind it forbids: such an input aborts the conversion, whatever its target.
\<close>

theorem conv_surrogates_abort:
  assumes "ndm_conv_open h to from_name = Ok cd" "named_pair h from_name = Some p" "pair_to_uni p = conv_utf8_to_uni"
    and "0xd800 \<le> c" "c \<le> (0xdfff :: u32)"
  shows "ndm_conv h cd (Some (utf8_seq (unat c) @ rest)) out = Undefined"
proof -
  from open_indices [OF assms(1)] assms(2) obtain i j where
    ij: "i < 240" "j < 240" "unat (NDM_CONV_FROM cd) = i" "unat (NDM_CONV_TO cd) = j" "p = NDM_CONV_PAIRS h ! i"
    by auto
  have "c \<le> UNICODE_MAX" using order.trans [OF assms(5), of UNICODE_MAX] by (simp add: UNICODE_MAX_def)
  from utf8_decodes [OF this, of rest] have d: "conv_utf8_to_uni (utf8_seq (unat c) @ rest) = Ok (int (length (utf8_seq (unat c))), Some c)" .
  have "\<not> (c < SUR_HIGH_START \<or> c > SUR_LOW_END)" using assms(4,5) by (auto simp: sur_defs)
  moreover have "ndm_conv h cd (Some (utf8_seq (unat c) @ rest)) out =
      conv_loop conv_utf8_to_uni (pair_uni_to (NDM_CONV_PAIRS h ! j)) (utf8_seq (unat c) @ rest) [] out 0"
    using ij assms(3) by (simp add: ndm_conv_def pairs_length Let_def)
  ultimately show ?thesis by (subst (asm) conv_loop.simps) (simp add: d)
qed

section \<open>Instances\<close>

lemma utf_keys:
  "conv_key [85, 84, 70, 56] = [117, 116, 102, 56]" "conv_key [117, 116, 102, 95, 49, 54, 66, 69] = [117, 116, 102, 49, 54, 98, 101]"
  "conv_key (map of_char ''utf-8'') = [117, 116, 102, 56]" "conv_key (map of_char ''utf-16'') = [117, 116, 102, 49, 54]"
  "conv_key (map of_char ''utf-16le'') = [117, 116, 102, 49, 54, 108, 101]"
  "conv_key (map of_char ''utf-16be'') = [117, 116, 102, 49, 54, 98, 101]"
  by code_simp+

lemma utf_names:
  "ndm_conv_find h [85, 84, 70, 56] = Some 0" "ndm_conv_find h [117, 116, 102, 95, 49, 54, 66, 69] = Some 3"
  "named_pair h [85, 84, 70, 56] = Some (conv_pair ''utf-8'' conv_utf8_to_uni conv_uni_to_utf8)"
  "named_pair h [117, 116, 102, 95, 49, 54, 66, 69] = Some (conv_pair ''utf-16be'' (conv_utf16_be_to_uni h) (conv_uni_to_utf16_be h))"
  by (simp_all add: ndm_conv_find_def named_pair_def NDM_CONV_PAIRS_def NDM_CONV_PAIRS_UTF_def conv_name_matches_key utf_keys
      del: list.map)

lemma utf_open: "ndm_conv_open h [117, 116, 102, 95, 49, 54, 66, 69] [85, 84, 70, 56] = Ok 0x30000"
  by (simp add: ndm_conv_open_def utf_names)

text \<open>One letter, an incomplete sequence behind it, and room for a single character.\<close>

lemma demo_decode: "decode_all conv_utf8_to_uni [0xd0, 0xaf, 0xd0] = ([0x42f], [0xd0])"
  by code_simp

lemma demo_bytes: "conv_bytes (conv_uni_to_utf16_be LittleEndian) 0x42f = [4, 0x2f] \<and> conv_exact (conv_uni_to_utf16_be LittleEndian) 0x42f"
  by code_simp

lemma demo_stop: "stop_errno conv_utf8_to_uni [0xd0] = EINVAL"
  by (simp add: stop_errno_def conv_utf8_to_uni_def)

theorem ndm_conv_converts_witness:
  "\<exists>ret. ndm_conv LittleEndian 0x30000 (Some [0xd0, 0xaf, 0xd0]) [9, 9, 9] = Ok (Stopped EINVAL, ret, [4, 0x2f], [9])"
  using ndm_conv_converts [OF utf_open utf_names(3,4), of "[0xd0, 0xaf, 0xd0]" "[0x42f]" "[0xd0]" LittleEndian "[9, 9, 9]"] demo_decode demo_bytes demo_stop
  by (auto simp: scalar_cp_def sur_defs le_Suc_eq)

theorem conv_surrogates_abort_witness:
  "ndm_conv LittleEndian 0x30000 (Some [0xed, 0xa0, 0x80]) [] = Undefined"
  using conv_surrogates_abort [OF utf_open utf_names(3), of "0xd800" LittleEndian "[]" "[]"] by (simp add: utf8_seq_def)

end
