(* ===== verification/Spec2Isabelle.thy ===== *)
theory Spec2Isabelle
  imports Tlv_Store Json_Safe Json_Roundtrip Strmap Strarg Ndm_Time Dlist_Ring Stracc Ip_Checksum Mac_Addr Xml_Siblings Xml_Safe
    Core_Cache_Spec Core_Event Core_Feedback Md5 Conv
begin

text \<open>
  libndm: a model of the parts of the library that compute, with their correctness.

  \<^bold>\<open>The program.\<close> libndm is a C library of small services for network daemons. The
  sources are one file per service under \<^verbatim>\<open>src/\<close>, with their interfaces under
  \<^verbatim>\<open>include/ndm/\<close>. The largest, \<^verbatim>\<open>src/core.c\<close>, is the client of the management core:
  requests and responses are XML trees, sent over a socket in a binary form, and recent
  responses are cached. It stands on the XML documents of \<^verbatim>\<open>src/xml.c\<close>, these on the
  memory pool of \<^verbatim>\<open>src/pool.c\<close>; so do the JSON values of \<^verbatim>\<open>src/json.c\<close>.

  \<^bold>\<open>Conventions.\<close> (\<open>Ndm_Prelude\<close>) Integers are words of their C width, on a machine
  with 64-bit pointers and \<open>long\<close>. Memory is a list of bytes, an access outside it is
  \<open>None\<close>. A function that fails returns \<open>Error\<close> with the \<open>errno\<close> it sets; one that
  leaves defined C behaviour returns \<open>Undefined\<close>. Every request to \<open>malloc\<close> is answered
  by the oracle of a \<open>heap\<close>, which may say no at any request, and fresh memory holds
  arbitrary bytes. A loop over hostile data that may not end is a partial function,
  \<open>None\<close> meaning that it never returns. Linked structures are maps from numbers of
  nodes to records; a clock is an argument.

  \<^bold>\<open>Integers, checksums, digests.\<close> \<open>Endian\<close> (\<^verbatim>\<open>include/ndm/endian.h\<close>): byte order
  conversions, on hosts of both orders. \<open>Crc32\<close> (\<^verbatim>\<open>src/crc32.c\<close>), \<open>Ip_Checksum\<close>
  (\<^verbatim>\<open>src/ip_checksum.c\<close>) and \<open>Md5\<close> (\<^verbatim>\<open>src/md5.c\<close>) are shown to compute the bit-serial,
  ones complement and 64-round definitions of their standards, in whatever pieces the
  data comes. \<open>Int_Macros\<close>, \<open>Int_Parse\<close> (\<^verbatim>\<open>include/ndm/int.h\<close>, \<^verbatim>\<open>src/int.c\<close>):
  alignment, buffer sizes, and parsers of decimal integers over a model of \<open>strtol\<close>.
  \<open>Mac_Addr\<close> (\<^verbatim>\<open>src/mac_addr.c\<close>) and \<open>Ndm_Time\<close> (\<^verbatim>\<open>src/time.c\<close>): printing and parsing of
  addresses, and the arithmetic of \<open>struct timespec\<close> with its overflows.

  \<^bold>\<open>The TLV table\<close> (\<^verbatim>\<open>src/tlv_table.c\<close>) is one heap block in its wire image.
  \<open>Tlv_Table\<close> has the operations on the bytes. \<open>Tlv_Entries\<close> defines the image of a list of
  entries and what it is for a table to hold entries; \<open>Tlv_Refine\<close> and \<open>Tlv_Set\<close> show that
  finding, setting, deleting and reading on the bytes are the operations on the list;
  \<open>Tlv_Parse\<close> does the same for images that come from outside. \<open>Kv_Store\<close> states the
  contract of a store of values by key with failing writes, and a history of calls;
  \<open>Tlv_Store\<close> proves the table meets it and holds the properties. The walk over the
  entries has no bound in the code; it is shown to end for well-formed images, and not
  to end for a hostile one.

  \<^bold>\<open>The pool\<close> (\<open>Pool\<close>, \<^verbatim>\<open>src/pool.c\<close>) is a bump allocator over a static block and a
  chain of dynamic ones: areas handed out are in bounds and disjoint, a failure is
  remembered (locale \<open>sticky_allocator\<close>), and a copied string can be read back.

  \<^bold>\<open>JSON\<close> (\<^verbatim>\<open>src/json.c\<close>). \<open>Json_Value\<close>: values, arrays and objects, type flags of integers,
  members by name. \<open>Json_Parse\<close>: the in-situ parser; it takes fuel, one unit for each
  nested call or item, and \<open>Json_Safe\<close> shows that twice the length of the text is enough
  and that the parser stays inside the text (\<open>strtod\<close> is a parameter). \<open>Json_Print\<close>: the
  buffered printer, the abstract trees and their text (\<open>render\<close>); \<open>Json_Render\<close> shows
  that the printer produces it through its buffer of 4096 bytes (\<open>%g\<close> is a parameter,
  assumed only to fit its buffer). \<open>Json_Scan\<close> and \<open>Json_Roundtrip\<close> (over the helpers of
  \<open>Text_Scan\<close>) parse every printed tree back to itself.

  \<^bold>\<open>Containers.\<close> \<open>Vector_Spec\<close> states the contract of a vector; \<open>Ptrvec\<close>
  (\<^verbatim>\<open>src/ptrvec.c\<close>) and \<open>Strvec\<close> (\<^verbatim>\<open>src/strvec.c\<close>) meet it on blocks of slots with failing
  allocations, where a refused \<open>realloc\<close> to a smaller block is a case of its own, since the code
  does not check it; \<open>Strmap\<close> (\<^verbatim>\<open>src/strmap.c\<close>) is, over every history of calls of \<open>Kv_Store\<close>, a
  map whose keys are compared as its flags say. \<open>Dlist_Ring\<close> (\<^verbatim>\<open>include/ndm/dlist.h\<close>): rings of
  links. \<open>Stracc\<close> (\<^verbatim>\<open>src/stracc.c\<close>) accumulates texts, \<open>Strarg\<close> (\<^verbatim>\<open>src/strarg.c\<close>) splits a
  command in place into the words of a reference splitter, \<open>Ndm_Stdio\<close>
  (\<^verbatim>\<open>src/stdio.c\<close>, \<^verbatim>\<open>src/string.c\<close>) has the allocating string functions.

  \<^bold>\<open>Character sets\<close> (\<^verbatim>\<open>src/conv.c\<close>, with \<open>LIBNDM_SBCS_SUPPORT\<close>). \<open>Conv_Utf\<close>: the decoders and
  encoders of UTF-8, UTF-16 and UTF-32. \<open>Conv_Codec\<close>: what the conversion relies on in a set
  (locale \<open>codec\<close>: a decoder stays inside its input and reads back what its encoder writes), kept
  by the Unicode encodings. \<open>Charset\<close>: the shapes of the branches of a single-byte set, and a
  test on tables that implies the promise; \<open>Charset_Iso\<close>, \<open>Charset_Windows\<close>, \<open>Charset_Ibm\<close>,
  \<open>Charset_Mac\<close> and \<open>Charset_Misc\<close> hold the 60 sets of \<^verbatim>\<open>src/charset/\<close>, each with its tables and
  branches and the test run on it. \<open>Conv\<close>: the 240 names, descriptors, and the conversion loop,
  with its result for every input without surrogates, and its abort on those of UTF-8.

  \<^bold>\<open>XML\<close> (\<^verbatim>\<open>src/xml.c\<close>). \<open>Xml_Node\<close> and \<open>Xml_Document\<close>: nodes and attributes with their
  pointers in a document, and every operation on them. \<open>Xml_Links\<close> says, for children
  and attributes alike, when the pointers are those of a list, and that every insertion
  and removal keeps this (locale, interpreted twice in \<open>Xml_Siblings\<close>). \<open>Xml_Parse\<close>: the
  in-situ parser with all its flags; \<open>Xml_Scan\<close> and \<open>Xml_Safe\<close> show that on a terminated text
  of length \<open>z\<close> it ends with a fuel of \<open>4 * z + 5\<close> and stays in the text. A failed assertion and
  an overflow are outcomes of their own there, excluded for texts of elements, attributes and data.

  \<^bold>\<open>The core client\<close> (\<^verbatim>\<open>src/core.c\<close>). \<open>Core_Buffer\<close>: the buffered stream over a socket that
  is a script of what its calls answer (progress, timeouts, errors, hang-ups); the
  bytes received are the bytes of the stream, in order. \<open>Core_Read\<close>: the reader of binary
  documents. \<open>Core_Store\<close>: the writer, shown to be the encoding of the tree
  (\<open>tree_at\<close> reads a tree off the pointers of a document; the fuel is the size of the
  tree). \<open>Core_Response\<close>: messages and look-ups by path. \<open>Core_Cache\<close>: the cache of
  responses; \<open>Core_Cache_Spec\<close> has its invariant over every history of calls, with the drift of
  the size that copies of other sizes cause, and the exact effect of clearing and finding. \<open>Core_Request\<close>: requests with their arguments,
  and asking the core through cache and connection. \<open>Core_Event\<close>: events and their
  moments. \<open>Core_Feedback\<close> (also \<^verbatim>\<open>src/feedback.c\<close>): feedbacks and their environment.

  \<^bold>\<open>Not modelled.\<close> The tool that writes the tables of the character sets, socket addresses, and
  the files that only call the operating system (network, processes, logging,
  polling, regular expressions). Of the core client, opening and closing the socket
  and the functions that only release memory. In JSON, parent and pool back pointers
  and handles into nested containers. The text that a \<open>printf\<close> format expands to is an
  argument everywhere. The count of words in \<open>Strarg\<close> is not cut to the \<open>unsigned int\<close> of the
  code, and two vectors or maps given to one call are different ones except where a definition has
  a case for them.
\<close>

end
